(* ===== verification/Prelude.thy ===== *)
theory Prelude
  imports Complex_Main
begin

text \<open>
  The shared ground of the development: what the Go sources use of the language and of its
  standard library, and the generic lemmas the component theories share.

  \<^item> A Go \<open>string\<close> (and a \<open>[]byte\<close>) is a list of bytes, HOL's \<^typ>\<open>string\<close>.
  \<^item> \<open>time.Time\<close> and \<open>time.Duration\<close> are integers (nanoseconds).
  \<^item> An error return is a value of a sum type, \<open>Inl\<close> holding the error.
  \<^item> A JSON text is represented by the tree \<open>encoding/json\<close> decodes it to
    (\<open>raw_message\<close>: empty bytes, bytes the decoder rejects, or a tree); numbers are the
    rational value of the decoded \<open>float64\<close>; an object keeps its members in document order,
    duplicates included.

  \<open>trim_space\<close> strips every code point of Go's \<open>unicode.IsSpace\<close>, as UTF-8 bytes. \<open>to_lower\<close>
  and \<open>fold_key\<close> change the ASCII letters and the non-ASCII code points that Go's tables send
  to an ASCII letter; every other code point stays as it is. The sources compare the results
  with ASCII constants only, for which this is exact.
\<close>

named_theorems go_simps \<open>evaluation of the Go string and JSON helpers\<close>
named_theorems frame \<open>what an operation leaves unchanged\<close>

type_synonym time = int

text \<open>Durations in nanoseconds.\<close>

abbreviation time_Millisecond :: time where "time_Millisecond \<equiv> 1000000"
abbreviation time_Second :: time where "time_Second \<equiv> 1000000000"
abbreviation time_Minute :: time where "time_Minute \<equiv> 60000000000"
abbreviation time_Hour :: time where "time_Hour \<equiv> 3600000000000"

section \<open>Bytes and strings\<close>

fun has_prefix :: "string \<Rightarrow> string \<Rightarrow> bool" where
  "has_prefix s [] = True"
| "has_prefix [] (p # ps) = False"
| "has_prefix (c # cs) (p # ps) = (c = p \<and> has_prefix cs ps)"

definition has_suffix :: "string \<Rightarrow> string \<Rightarrow> bool" where
  "has_suffix s t = has_prefix (rev s) (rev t)"

definition trim_prefix :: "string \<Rightarrow> string \<Rightarrow> string" where
  "trim_prefix s p = (if has_prefix s p then drop (length p) s else s)"

fun contains :: "string \<Rightarrow> string \<Rightarrow> bool" where
  "contains [] t = (t = [])"
| "contains (c # cs) t = (has_prefix (c # cs) t \<or> contains cs t)"

lemma has_prefix_iff: "has_prefix s p \<longleftrightarrow> (\<exists>r. s = p @ r)"
  by (induction s p rule: has_prefix.induct) auto

lemma has_prefix_append [simp]: "has_prefix (p @ r) p"
  by (auto simp: has_prefix_iff)

lemma trim_prefix_append [simp]: "trim_prefix (p @ r) p = r"
  by (simp add: trim_prefix_def)

lemma has_prefix_length: "has_prefix s p \<Longrightarrow> length p \<le> length s"
  by (auto simp: has_prefix_iff)

lemma has_prefix_drop: "has_prefix s p \<Longrightarrow> s = p @ drop (length p) s"
  by (auto simp: has_prefix_iff)

lemma contains_single [simp]: "contains s [c] \<longleftrightarrow> c \<in> set s"
  by (induction s) auto

lemma contains_iff: "contains s t \<longleftrightarrow> (\<exists>a b. s = a @ t @ b)"
proof (induction s)
  case Nil
  show ?case by auto
next
  case (Cons c s)
  have "(\<exists>a b. c # s = a @ t @ b) \<longleftrightarrow> (\<exists>b. c # s = t @ b) \<or> (\<exists>a b. s = a @ t @ b)"
    (is "?l \<longleftrightarrow> ?r")
  proof
    assume ?l
    then obtain a b where ab: "c # s = a @ t @ b" by blast
    show ?r
    proof (cases a)
      case Nil
      with ab show ?thesis by auto
    next
      case (Cons x xs)
      with ab show ?thesis by auto
    qed
  next
    assume ?r
    then show ?l by (metis append_Cons append_Nil)
  qed
  with Cons.IH show ?case by (simp add: has_prefix_iff)
qed

text \<open>The UTF-8 encodings of the code points for which \<open>unicode.IsSpace\<close> holds.\<close>

definition space_runes :: "string list" where
  "space_runes =
     [[CHR 0x09], [CHR 0x0A], [CHR 0x0B], [CHR 0x0C], [CHR 0x0D], [CHR 0x20],
      [CHR 0xC2, CHR 0x85], [CHR 0xC2, CHR 0xA0], [CHR 0xE1, CHR 0x9A, CHR 0x80],
      [CHR 0xE2, CHR 0x80, CHR 0x80], [CHR 0xE2, CHR 0x80, CHR 0x81],
      [CHR 0xE2, CHR 0x80, CHR 0x82], [CHR 0xE2, CHR 0x80, CHR 0x83],
      [CHR 0xE2, CHR 0x80, CHR 0x84], [CHR 0xE2, CHR 0x80, CHR 0x85],
      [CHR 0xE2, CHR 0x80, CHR 0x86], [CHR 0xE2, CHR 0x80, CHR 0x87],
      [CHR 0xE2, CHR 0x80, CHR 0x88], [CHR 0xE2, CHR 0x80, CHR 0x89],
      [CHR 0xE2, CHR 0x80, CHR 0x8A], [CHR 0xE2, CHR 0x80, CHR 0xA8],
      [CHR 0xE2, CHR 0x80, CHR 0xA9], [CHR 0xE2, CHR 0x80, CHR 0xAF],
      [CHR 0xE2, CHR 0x81, CHR 0x9F], [CHR 0xE3, CHR 0x80, CHR 0x80]]"

definition leading_rune :: "string list \<Rightarrow> string \<Rightarrow> string option" where
  "leading_rune rs s = find (\<lambda>r. has_prefix s r) rs"

lemma leading_rune_Some:
  "leading_rune rs s = Some r \<Longrightarrow> r \<in> set rs \<and> has_prefix s r"
  by (auto simp: leading_rune_def find_Some_iff)

lemma drop_prefix_shorter: "has_prefix s r \<Longrightarrow> r \<noteq> [] \<Longrightarrow> length s - length r < length s"
  by (cases s; cases r) auto

function strip_left :: "string list \<Rightarrow> string \<Rightarrow> string" where
  "strip_left rs s =
     (case leading_rune rs s of
        None \<Rightarrow> s
      | Some r \<Rightarrow> if r = [] then s else strip_left rs (drop (length r) s))"
  by pat_completeness auto
termination
  by (relation "measure (\<lambda>(rs, s). length s)")
     (auto dest!: leading_rune_Some simp: drop_prefix_shorter)

declare strip_left.simps [simp del]

definition trim_space :: "string \<Rightarrow> string" where
  "trim_space s = rev (strip_left (map rev space_runes) (rev (strip_left space_runes s)))"

lemma strip_left_Nil [simp]: "strip_left rs [] = []"
proof -
  have "leading_rune rs [] = None \<or> leading_rune rs [] = Some []"
    by (cases "leading_rune rs []") (auto dest!: leading_rune_Some simp: has_prefix_iff)
  then show ?thesis by (auto simp: strip_left.simps)
qed

lemma trim_space_Nil [simp]: "trim_space [] = []"
  by (simp add: trim_space_def)

text \<open>Case mapping; \<open>CHR 0x00\<close> to \<open>CHR 0x7F\<close> are the ASCII bytes.\<close>

definition ascii_lower :: "char \<Rightarrow> char" where
  "ascii_lower c =
     (let n = of_char c :: nat in if 65 \<le> n \<and> n \<le> 90 then char_of (n + 32) else c)"

definition ascii_upper :: "char \<Rightarrow> char" where
  "ascii_upper c =
     (let n = of_char c :: nat in if 97 \<le> n \<and> n \<le> 122 then char_of (n - 32) else c)"

text \<open>U+0130 and U+212A are the code points outside ASCII whose lower case is ASCII.\<close>

fun to_lower :: "string \<Rightarrow> string" where
  "to_lower [] = []"
| "to_lower (c # cs) =
     (if has_prefix (c # cs) [CHR 0xC4, CHR 0xB0] then CHR ''i'' # to_lower (tl cs)
      else if has_prefix (c # cs) [CHR 0xE2, CHR 0x84, CHR 0xAA]
        then CHR ''k'' # to_lower (tl (tl cs))
      else ascii_lower c # to_lower cs)"

text \<open>U+017F and U+0131 are the code points outside ASCII whose upper case is ASCII.\<close>

fun to_upper :: "string \<Rightarrow> string" where
  "to_upper [] = []"
| "to_upper (c # cs) =
     (if has_prefix (c # cs) [CHR 0xC4, CHR 0xB1] then CHR ''I'' # to_upper (tl cs)
      else if has_prefix (c # cs) [CHR 0xC5, CHR 0xBF] then CHR ''S'' # to_upper (tl cs)
      else ascii_upper c # to_upper cs)"

text \<open>
  The representative of a string under Go's simple case folding: U+017F folds with \<open>s\<close> and
  U+212A with \<open>k\<close>. It serves \<open>strings.EqualFold\<close> and the field matching of
  \<open>encoding/json\<close>.
\<close>

fun fold_key :: "string \<Rightarrow> string" where
  "fold_key [] = []"
| "fold_key (c # cs) =
     (if has_prefix (c # cs) [CHR 0xC5, CHR 0xBF] then CHR ''s'' # fold_key (tl cs)
      else if has_prefix (c # cs) [CHR 0xE2, CHR 0x84, CHR 0xAA]
        then CHR ''k'' # fold_key (tl (tl cs))
      else ascii_lower c # fold_key cs)"

definition equal_fold :: "string \<Rightarrow> string \<Rightarrow> bool" where
  "equal_fold s t = (fold_key s = fold_key t)"

lemma equal_fold_refl [simp]: "equal_fold s s"
  by (simp add: equal_fold_def)

fun split_on :: "char \<Rightarrow> string \<Rightarrow> string list" where
  "split_on d [] = [[]]"
| "split_on d (c # cs) =
     (if c = d then [] # split_on d cs
      else (case split_on d cs of [] \<Rightarrow> [[c]] | w # ws \<Rightarrow> (c # w) # ws))"

lemma split_on_not_Nil [simp]: "split_on d s \<noteq> []"
  by (induction s) (auto split: list.splits)

fun join_with :: "string \<Rightarrow> string list \<Rightarrow> string" where
  "join_with d [] = []"
| "join_with d [w] = w"
| "join_with d (w # ws) = w @ d @ join_with d ws"

lemma join_with_Cons: "ws \<noteq> [] \<Longrightarrow> join_with d (w # ws) = w @ d @ join_with d ws"
  by (cases ws) auto

lemma join_split [simp]: "join_with [d] (split_on d s) = s"
proof (induction s)
  case Nil
  show ?case by simp
next
  case (Cons c s)
  obtain w ws where ws: "split_on d s = w # ws" by (cases "split_on d s") auto
  with Cons.IH show ?case
    by (cases ws) (auto simp: join_with_Cons)
qed

lemma split_on_parts: "w \<in> set (split_on d s) \<Longrightarrow> d \<notin> set w"
proof (induction s arbitrary: w)
  case Nil
  then show ?case by simp
next
  case (Cons c s)
  obtain u us where us: "split_on d s = u # us" by (cases "split_on d s") auto
  with Cons show ?case by (auto split: if_splits)
qed

lemma split_on_no_sep: "d \<notin> set w \<Longrightarrow> split_on d w = [w]"
  by (induction w) auto

lemma split_on_sep: "d \<notin> set w \<Longrightarrow> split_on d (w @ d # s) = w # split_on d s"
  by (induction w) auto

lemma split_on_join:
  "ws \<noteq> [] \<Longrightarrow> (\<And>w. w \<in> set ws \<Longrightarrow> d \<notin> set w) \<Longrightarrow> split_on d (join_with [d] ws) = ws"
proof (induction ws)
  case Nil
  then show ?case by simp
next
  case (Cons w ws)
  then show ?case
    by (cases "ws = []") (auto simp: join_with_Cons split_on_no_sep split_on_sep)
qed

fun index_byte :: "string \<Rightarrow> char \<Rightarrow> nat option" where
  "index_byte [] c = None"
| "index_byte (d # ds) c = (if d = c then Some 0 else map_option Suc (index_byte ds c))"

lemma index_byte_Some:
  "index_byte s c = Some n \<Longrightarrow> n < length s \<and> s ! n = c \<and> c \<notin> set (take n s)"
  by (induction s arbitrary: n) (auto split: if_splits)

lemma index_byte_None: "index_byte s c = None \<longleftrightarrow> c \<notin> set s"
  by (induction s) auto

text \<open>Decimal printing (\<open>%d\<close>, \<open>strconv.Itoa\<close>).\<close>

fun digits_of_nat :: "nat \<Rightarrow> string" where
  "digits_of_nat n =
     (if n < 10 then [''0123456789'' ! n]
      else digits_of_nat (n div 10) @ [''0123456789'' ! (n mod 10)])"

declare digits_of_nat.simps [simp del]

definition itoa :: "int \<Rightarrow> string" where
  "itoa i = (if i < 0 then CHR ''-'' # digits_of_nat (nat (- i)) else digits_of_nat (nat i))"

section \<open>Characters of derived strings\<close>

lemma set_strip_left: "set (strip_left rs s) \<subseteq> set s"
proof (induction rs s rule: strip_left.induct)
  case (1 rs s)
  show ?case
  proof (cases "leading_rune rs s")
    case None
    then show ?thesis by (subst strip_left.simps) simp
  next
    case (Some r)
    show ?thesis
      using 1 [OF Some] set_drop_subset [of "length r" s] by (subst strip_left.simps) (auto simp: Some)
  qed
qed

lemma set_trim_space: "set (trim_space s) \<subseteq> set s"
  using set_strip_left [of "map rev space_runes" "rev (strip_left space_runes s)"] set_strip_left [of space_runes s]
  by (auto simp: trim_space_def)

lemma of_char_eq_nat: "(of_char c = (of_char d :: nat)) = (c = d)"
  by simp

lemma of_char_case:
  "of_char (ascii_lower c) = (let n = of_char c :: nat in if 65 \<le> n \<and> n \<le> 90 then n + 32 else n)"
  "of_char (ascii_upper c) = (let n = of_char c :: nat in if 97 \<le> n \<and> n \<le> 122 then n - 32 else n)"
  by (auto simp: ascii_lower_def ascii_upper_def Let_def)

lemma LF_ascii_case:
  "ascii_lower c = CHR 0x0A \<longleftrightarrow> c = CHR 0x0A" "ascii_upper c = CHR 0x0A \<longleftrightarrow> c = CHR 0x0A"
  unfolding of_char_eq_nat [symmetric] of_char_case by (auto simp: Let_def)

lemma LF_ascii_case_sym:
  "CHR 0x0A = ascii_lower c \<longleftrightarrow> c = CHR 0x0A" "CHR 0x0A = ascii_upper c \<longleftrightarrow> c = CHR 0x0A"
  using LF_ascii_case by metis+

lemma in_set_tl: "x \<in> set (tl xs) \<Longrightarrow> x \<in> set xs"
  by (cases xs) auto

lemma LF_to_lower: "CHR 0x0A \<in> set (to_lower s) \<Longrightarrow> CHR 0x0A \<in> set s"
  by (induction s rule: to_lower.induct) (auto simp: LF_ascii_case_sym split: if_splits dest: in_set_tl)

lemma LF_to_upper: "CHR 0x0A \<in> set (to_upper s) \<Longrightarrow> CHR 0x0A \<in> set s"
  by (induction s rule: to_upper.induct) (auto simp: LF_ascii_case_sym split: if_splits dest: in_set_tl)

lemma set_digits: "set (digits_of_nat n) \<subseteq> set ''0123456789''"
proof (induction n rule: digits_of_nat.induct)
  case (1 n)
  have d: "''0123456789'' ! m \<in> set ''0123456789''" if "m < 10" for m
    using that by (intro nth_mem) simp
  show ?case
    using 1 d [of n] d [of "n mod 10"] by (subst digits_of_nat.simps) (simp del: set_simps add: list.set(1) list.set(2) [of "''0123456789'' ! _"])
qed

lemma digits_not_Nil [simp]: "digits_of_nat n \<noteq> []"
  by (subst digits_of_nat.simps) simp

lemma digits_inj: "digits_of_nat m = digits_of_nat n \<Longrightarrow> m = n"
proof (induction m arbitrary: n rule: digits_of_nat.induct)
  case (1 m)
  have d: "''0123456789'' ! a = ''0123456789'' ! b \<longleftrightarrow> a = b" if "a < 10" "b < 10" for a b
    using that by (intro nth_eq_iff_index_eq) simp_all
  have e: "digits_of_nat k = (if k < 10 then [''0123456789'' ! k] else digits_of_nat (k div 10) @ [''0123456789'' ! (k mod 10)])" for k
    by (rule digits_of_nat.simps)
  show ?case
  proof (cases "m < 10"; cases "n < 10")
    assume "m < 10" "n < 10"
    then show ?thesis using 1(2) d [of m n] by (simp add: e [of m] e [of n] del: nth_Cons_numeral)
  next
    assume a: "\<not> m < 10" "\<not> n < 10"
    have "digits_of_nat (m div 10) = digits_of_nat (n div 10)" "''0123456789'' ! (m mod 10) = ''0123456789'' ! (n mod 10)"
      using 1(2) a by (simp_all add: e [of m] e [of n])
    then have "m div 10 = n div 10" "m mod 10 = n mod 10" using 1(1) a d [of "m mod 10" "n mod 10"] by simp_all
    then show ?thesis by (metis div_mult_mod_eq)
  qed (use 1(2) digits_not_Nil [of "m div 10"] digits_not_Nil [of "n div 10"] in \<open>auto simp: e [of m] e [of n] simp del: digits_not_Nil\<close>)
qed

lemma strip_left_id: "(\<And>c r. c \<in> set s \<Longrightarrow> r \<in> set rs \<Longrightarrow> r \<noteq> [] \<and> hd r \<noteq> c) \<Longrightarrow> strip_left rs s = s"
proof -
  assume a: "\<And>c r. c \<in> set s \<Longrightarrow> r \<in> set rs \<Longrightarrow> r \<noteq> [] \<and> hd r \<noteq> c"
  have "\<not> has_prefix s r" if "r \<in> set rs" "s \<noteq> []" for r
    using a [OF _ that(1), of "hd s"] that(2) by (cases r; cases s) auto
  then have "s \<noteq> [] \<Longrightarrow> leading_rune rs s = None"
    unfolding leading_rune_def by (auto simp: find_None_iff)
  then show ?thesis using strip_left.simps [of rs s] by (cases "s = []") simp_all
qed

text \<open>A byte that neither starts nor ends the encoding of a space.\<close>

definition inner_byte :: "char \<Rightarrow> bool" where
  "inner_byte c \<longleftrightarrow> list_all (\<lambda>r. hd r \<noteq> c \<and> last r \<noteq> c) space_runes"

lemma inner_byteD:
  assumes "inner_byte c" "r \<in> set space_runes \<union> set (map rev space_runes)"
  shows "r \<noteq> [] \<and> hd r \<noteq> c"
proof -
  have "list_all (\<lambda>r. r \<noteq> []) space_runes" by (simp add: space_runes_def)
  with assms show ?thesis by (auto simp: inner_byte_def list_all_iff hd_rev)
qed

lemma trim_space_id:
  assumes "\<And>c. c \<in> set s \<Longrightarrow> inner_byte c"
  shows "trim_space s = s"
proof -
  have 1: "strip_left space_runes s = s"
    by (rule strip_left_id, rule inner_byteD, erule assms, blast)
  have 2: "strip_left (map rev space_runes) (rev s) = rev s"
    by (rule strip_left_id, rule inner_byteD, rule assms) auto
  show ?thesis by (simp add: trim_space_def 1 2)
qed

lemma set_join_with: "set (join_with d ws) \<subseteq> set d \<union> (\<Union>w \<in> set ws. set w)"
  by (induction d ws rule: join_with.induct) auto

lemma split_on_sub: "w \<in> set (split_on d s) \<Longrightarrow> set w \<subseteq> set s"
proof (induction s arbitrary: w)
  case Nil
  then show ?case by simp
next
  case (Cons c s)
  obtain u us where "split_on d s = u # us" by (cases "split_on d s") auto
  with Cons show ?case by (auto split: if_splits; fastforce)
qed

lemma split_on_append_sep: "split_on d (m @ d # s) = split_on d m @ split_on d s"
proof (induction m)
  case Nil
  show ?case by simp
next
  case (Cons c m)
  obtain u us where "split_on d m = u # us" by (cases "split_on d m") auto
  with Cons show ?case by simp
qed

lemma split_on_occurs:
  "w \<in> set (split_on d s) \<Longrightarrow> \<exists>a b. s = a @ w @ b \<and> (b = [] \<or> hd b = d)"
proof (induction s arbitrary: w)
  case Nil
  then show ?case by auto
next
  case (Cons c s)
  obtain u us where us: "split_on d s = u # us" by (cases "split_on d s") auto
  obtain a b where u: "s = u @ b" "b = [] \<or> hd b = d"
    using us by (metis join_split join_with.simps(2) join_with_Cons append_Nil2 append_Cons append_Nil list.sel(1))
  show ?case
  proof (cases "c = d")
    case True
    with Cons.prems have "w = [] \<or> w \<in> set (split_on d s)" by auto
    then show ?thesis
    proof
      assume "w = []"
      with True show ?thesis by (intro exI [of _ "[]"] exI [of _ "c # s"]) simp
    next
      assume "w \<in> set (split_on d s)"
      from Cons.IH [OF this] obtain a b where "s = a @ w @ b" "b = [] \<or> hd b = d" by blast
      then show ?thesis by (intro exI [of _ "c # a"] exI [of _ b]) simp
    qed
  next
    case False
    with Cons.prems us have "w = c # u \<or> w \<in> set us" by auto
    then show ?thesis
    proof
      assume "w = c # u"
      with u show ?thesis by (intro exI [of _ "[]"] exI [of _ b]) simp
    next
      assume "w \<in> set us"
      with us have "w \<in> set (split_on d s)" by simp
      from Cons.IH [OF this] obtain a b where "s = a @ w @ b" "b = [] \<or> hd b = d" by blast
      then show ?thesis by (intro exI [of _ "c # a"] exI [of _ b]) simp
    qed
  qed
qed

section \<open>JSON trees\<close>

datatype json =
    JNull
  | JBool bool
  | JNum rat
  | JStr string
  | JArr "json list"
  | JObj "(string \<times> json) list"

datatype raw_message = RawEmpty | RawMalformed string | RawJson json

text \<open>\<open>map[string]any\<close>: a later duplicate of a key replaces an earlier one.\<close>

definition obj_get :: "(string \<times> json) list \<Rightarrow> string \<Rightarrow> json option" where
  "obj_get kvs k = map_of (rev kvs) k"

definition obj_keys :: "(string \<times> json) list \<Rightarrow> string list" where
  "obj_keys kvs = remdups (map fst kvs)"

lemma set_obj_keys [simp]: "set (obj_keys kvs) = fst ` set kvs"
  by (simp add: obj_keys_def)

lemma obj_get_None: "obj_get kvs k = None \<longleftrightarrow> k \<notin> set (obj_keys kvs)"
  by (simp add: obj_get_def map_of_eq_None_iff)

lemma obj_get_Some: "obj_get kvs k = Some v \<Longrightarrow> k \<in> set (obj_keys kvs)"
  using obj_get_None[of kvs k] by auto

text \<open>
  Decoding an object into a struct field of type \<open>string\<close>: members are visited in document
  order, a member matches the field when its name does up to case folding, \<open>null\<close> leaves the
  field as it is, and any other type of value makes \<open>json.Unmarshal\<close> return an error
  (\<open>None\<close>).
\<close>

fun decode_string_field :: "string \<Rightarrow> string \<Rightarrow> (string \<times> json) list \<Rightarrow> string option" where
  "decode_string_field f acc [] = Some acc"
| "decode_string_field f acc ((k, v) # kvs) =
     (if equal_fold k f
      then (case v of
              JStr s \<Rightarrow> decode_string_field f s kvs
            | JNull \<Rightarrow> decode_string_field f acc kvs
            | _ \<Rightarrow> None)
      else decode_string_field f acc kvs)"

lemma decode_string_field_absent:
  "(\<And>k. k \<in> fst ` set kvs \<Longrightarrow> \<not> equal_fold k f) \<Longrightarrow> decode_string_field f acc kvs = Some acc"
  by (induction kvs) auto

definition unmarshal_string_field :: "string \<Rightarrow> raw_message \<Rightarrow> string option" where
  "unmarshal_string_field f raw =
     (case raw of
        RawJson (JObj kvs) \<Rightarrow> decode_string_field f [] kvs
      | RawJson JNull \<Rightarrow> Some []
      | _ \<Rightarrow> None)"

section \<open>Lists as SQL tables\<close>

text \<open>\<open>ORDER BY \<dots> ASC LIMIT 1\<close>: the least element, the first in table order among equals.\<close>

fun first_min :: "('a \<Rightarrow> int) \<Rightarrow> 'a list \<Rightarrow> 'a option" where
  "first_min f [] = None"
| "first_min f (x # xs) =
     (case first_min f xs of None \<Rightarrow> Some x | Some y \<Rightarrow> if f x \<le> f y then Some x else Some y)"

lemma first_min_None [simp]: "first_min f xs = None \<longleftrightarrow> xs = []"
  by (cases xs) (auto split: option.splits)

lemma first_min_Some: "first_min f xs = Some x \<Longrightarrow> x \<in> set xs \<and> (\<forall>y \<in> set xs. f x \<le> f y)"
proof (induction xs arbitrary: x)
  case Nil
  then show ?case by simp
next
  case (Cons a xs)
  then show ?case
    by (cases "first_min f xs") (fastforce split: if_splits)+
qed

text \<open>\<open>UPDATE \<dots> WHERE\<close> and the number of rows it affects.\<close>

definition upd_where :: "('a \<Rightarrow> bool) \<Rightarrow> ('a \<Rightarrow> 'a) \<Rightarrow> 'a list \<Rightarrow> 'a list" where
  "upd_where P f xs = map (\<lambda>x. if P x then f x else x) xs"

definition rows_where :: "('a \<Rightarrow> bool) \<Rightarrow> 'a list \<Rightarrow> nat" where
  "rows_where P xs = length (filter P xs)"

lemma upd_where_Nil [simp]: "upd_where P f [] = []"
  by (simp add: upd_where_def)

lemma upd_where_Cons [simp]:
  "upd_where P f (x # xs) = (if P x then f x else x) # upd_where P f xs"
  by (simp add: upd_where_def)

lemma length_upd_where [simp]: "length (upd_where P f xs) = length xs"
  by (simp add: upd_where_def)

lemma in_upd_where:
  "y \<in> set (upd_where P f xs) \<longleftrightarrow> (\<exists>x \<in> set xs. y = (if P x then f x else x))"
  by (auto simp: upd_where_def)

lemma upd_where_id: "(\<And>x. x \<in> set xs \<Longrightarrow> \<not> P x) \<Longrightarrow> upd_where P f xs = xs"
  by (induction xs) auto

lemma map_upd_where:
  "(\<And>x. g (f x) = g x) \<Longrightarrow> map g (upd_where P f xs) = map g xs"
  by (induction xs) auto

lemma rows_where_0: "rows_where P xs = 0 \<longleftrightarrow> (\<forall>x \<in> set xs. \<not> P x)"
  by (simp add: rows_where_def filter_empty_conv)

lemma rows_where_key_le1:
  assumes "distinct (map g xs)" and "\<And>x. P x \<Longrightarrow> g x = k"
  shows "rows_where P xs \<le> 1"
  using assms(1)
proof (induction xs)
  case Nil
  show ?case by (simp add: rows_where_def)
next
  case (Cons x xs)
  show ?case
  proof (cases "P x")
    case True
    have "\<not> P y" if "y \<in> set xs" for y
    proof
      assume "P y"
      with True have "g x = g y" by (simp add: assms(2))
      with Cons.prems that show False by auto
    qed
    then show ?thesis by (simp add: rows_where_def filter_empty_conv True)
  next
    case False
    with Cons show ?thesis by (simp add: rows_where_def)
  qed
qed

lemma find_key_upd_where:
  assumes "\<And>x. g (f x) = g x"
  shows "find (\<lambda>x. g x = k) (upd_where P f xs) =
     map_option (\<lambda>x. if P x then f x else x) (find (\<lambda>x. g x = k) xs)"
  by (induction xs) (auto simp: assms)

lemma find_key_distinct:
  assumes "distinct (map g xs)" and "x \<in> set xs"
  shows "find (\<lambda>y. g y = g x) xs = Some x"
  using assms by (induction xs) (auto simp: rev_image_eqI)

lemma find_SomeD: "find P xs = Some x \<Longrightarrow> P x \<and> x \<in> set xs"
  by (auto simp: find_Some_iff)

text \<open>Reading a concrete run: a pair whose first component is known to be a success.\<close>

lemma Inr_pairI: "\<not> isl (fst p) \<Longrightarrow> p = (Inr (projr (fst p)), snd p)"
  by (cases p; cases "fst p") auto

lemma Inl_pairI: "isl (fst p) \<Longrightarrow> p = (Inl (projl (fst p)), snd p)"
  by (cases p; cases "fst p") auto

lemma find_app: "find P (xs @ ys) = (case find P xs of Some x \<Rightarrow> Some x | None \<Rightarrow> find P ys)"
  by (induction xs) auto

end
