(* ===== verification/Http.thy ===== *)
theory Http
  imports Prelude
begin

text \<open>
  What the handlers see of \<open>net/http\<close>: a request with its method, path, header and query
  accessors and body, and the response they write. A JSON body is the tree \<open>encoding/json\<close>
  encodes; \<open>http.NotFound\<close> and \<open>http.Error\<close> write text. Headers of the response are kept as an
  association list in the order they are set.
\<close>

record request =
  Method :: string
  URLPath :: string
  Header :: "string \<Rightarrow> string"
  Query :: "string \<Rightarrow> string"
  Body :: raw_message
  RemoteAddr :: string

datatype resp_body = NoBody | TextBody string | JsonBody json

record response =
  RCode :: int
  RHeaders :: "(string \<times> string) list"
  RBody :: resp_body

abbreviation StatusOK :: int where "StatusOK \<equiv> 200"
abbreviation StatusCreated :: int where "StatusCreated \<equiv> 201"
abbreviation StatusAccepted :: int where "StatusAccepted \<equiv> 202"
abbreviation StatusNoContent :: int where "StatusNoContent \<equiv> 204"
abbreviation StatusBadRequest :: int where "StatusBadRequest \<equiv> 400"
abbreviation StatusUnauthorized :: int where "StatusUnauthorized \<equiv> 401"
abbreviation StatusForbidden :: int where "StatusForbidden \<equiv> 403"
abbreviation StatusNotFound :: int where "StatusNotFound \<equiv> 404"
abbreviation StatusMethodNotAllowed :: int where "StatusMethodNotAllowed \<equiv> 405"
abbreviation StatusTooManyRequests :: int where "StatusTooManyRequests \<equiv> 429"
abbreviation StatusInternalServerError :: int where "StatusInternalServerError \<equiv> 500"

definition http_NotFound :: response where
  "http_NotFound = \<lparr>RCode = StatusNotFound, RHeaders = [], RBody = TextBody ''404 page not found''\<rparr>"

definition http_Error :: "string \<Rightarrow> int \<Rightarrow> response" where
  "http_Error msg code = \<lparr>RCode = code, RHeaders = [], RBody = TextBody msg\<rparr>"

definition writeJSON :: "int \<Rightarrow> json \<Rightarrow> response" where
  "writeJSON code v =
     \<lparr>RCode = code, RHeaders = [(''Content-Type'', ''application/json'')], RBody = JsonBody v\<rparr>"

text \<open>The error envelope \<open>{"error": \<dots>, "message": \<dots>}\<close>, \<open>message\<close> with \<open>omitempty\<close>.\<close>

definition jsonError :: "string \<Rightarrow> string \<Rightarrow> json" where
  "jsonError err msg =
     JObj ((''error'', JStr err) # (if msg = '''' then [] else [(''message'', JStr msg)]))"

lemma response_code [simp]:
  "RCode http_NotFound = StatusNotFound" "RCode (writeJSON c v) = c" "RCode (http_Error m c) = c"
  by (simp_all add: http_NotFound_def writeJSON_def http_Error_def)

section \<open>Timestamps in responses\<close>

text \<open>
  \<open>time.Time.MarshalJSON\<close> for a UTC instant (nanoseconds since 1970): RFC 3339 with a fraction
  whose trailing zeros are dropped. The date is the proleptic Gregorian one, counted in eras of
  146097 days from 1 March of year 0.
\<close>

definition civil_md :: "int \<Rightarrow> int \<Rightarrow> int \<Rightarrow> int \<times> int \<times> int" where
  "civil_md y mp doy =
     (if mp < 10 then (y, mp + 3, doy - (153 * mp + 2) div 5 + 1)
      else (y + 1, mp - 9, doy - (153 * mp + 2) div 5 + 1))"

definition civil_doy :: "int \<Rightarrow> int \<Rightarrow> int \<times> int \<times> int" where
  "civil_doy y doy = civil_md y ((5 * doy + 2) div 153) doy"

definition civil_yoe :: "int \<Rightarrow> int \<Rightarrow> int \<Rightarrow> int \<times> int \<times> int" where
  "civil_yoe era doe yoe = civil_doy (yoe + era * 400) (doe - (365 * yoe + yoe div 4 - yoe div 100))"

definition civil_doe :: "int \<Rightarrow> int \<Rightarrow> int \<times> int \<times> int" where
  "civil_doe era doe = civil_yoe era doe ((doe - doe div 1460 + doe div 36524 - doe div 146096) div 365)"

definition civil_from_days :: "int \<Rightarrow> int \<times> int \<times> int" where
  "civil_from_days days = civil_doe ((days + 719468) div 146097) ((days + 719468) mod 146097)"

definition zero_fill :: "nat \<Rightarrow> string \<Rightarrow> string" where
  "zero_fill w s = replicate (w - length s) CHR ''0'' @ s"

definition pad :: "nat \<Rightarrow> int \<Rightarrow> string" where
  "pad w n = zero_fill w (itoa n)"

definition fraction :: "int \<Rightarrow> string" where
  "fraction ns =
     (if ns = 0 then [] else CHR ''.'' # rev (dropWhile (\<lambda>c. c = CHR ''0'') (rev (pad 9 ns))))"

definition clock_text :: "int \<Rightarrow> string" where
  "clock_text sod = pad 2 (sod div 3600) @ '':'' @ pad 2 (sod mod 3600 div 60) @ '':'' @ pad 2 (sod mod 60)"

definition date_text :: "int \<times> int \<times> int \<Rightarrow> string" where
  "date_text = (\<lambda>(y, m, d). pad 4 y @ ''-'' @ pad 2 m @ ''-'' @ pad 2 d)"

definition rfc3339 :: "time \<Rightarrow> string" where
  "rfc3339 t =
     date_text (civil_from_days (t div time_Second div 86400)) @ ''T'' @
     clock_text (t div time_Second mod 86400) @ fraction (t mod time_Second) @ ''Z''"

lemmas rfc3339_eval = rfc3339_def date_text_def clock_text_def fraction_def pad_def zero_fill_def
  civil_from_days_def civil_doe_def civil_yoe_def civil_doy_def civil_md_def itoa_def digits_of_nat.simps

lemma rfc3339_examples:
  "rfc3339 0 = ''1970-01-01T00:00:00Z''"
  "rfc3339 (1700000000 * time_Second + 250 * time_Millisecond) = ''2023-11-14T22:13:20.25Z''"
  "rfc3339 (1709210096 * time_Second) = ''2024-02-29T12:34:56Z''"
  by (simp_all add: rfc3339_eval)

end
