(* ===== verification/GoLib.thy ===== *)
theory GoLib
  imports Http
begin

text \<open>
  The parts of Go's standard library that the access checks, the signed URLs and the Redfish
  client are built on.

  \<^item> \<open>encoding/base64\<close>: a codec is an alphabet of 64 bytes with an optional padding byte. The
    decoder is the lenient one of the package: it skips CR and LF and ignores the unused low
    bits of the last digit. The locale \<open>base64\<close> proves once, for every codec, that decoding
    undoes encoding; it is interpreted on the three codecs the sources use.
  \<^item> \<open>strings.Fields\<close>, \<open>strings.LastIndexByte\<close>, \<open>strconv.ParseInt\<close> (base 10, 64 bits; \<open>Atoi\<close> is the
    same function) and \<open>url.ParseQuery\<close>.
  \<^item> \<open>int64\<close> wrap-around, and \<open>float64\<close> as the rationals it represents: \<open>float64\<close> rounds to 53
    significant bits, ties to even. Underflow, infinities and NaN do not occur in the
    computations modelled.
  \<^item> \<open>http.ResponseWriter\<close>: the headers sent are those set before the first \<open>WriteHeader\<close>.
\<close>

section \<open>Base64\<close>

record codec =
  alphabet :: string
  padChar :: "char option"

definition alnum :: string where
  "alnum = ''ABCDEFGHIJKLMNOPQRSTUVWXYZabcdefghijklmnopqrstuvwxyz0123456789''"

definition StdEncoding :: codec where
  "StdEncoding = \<lparr>alphabet = alnum @ ''+/'', padChar = Some CHR ''=''\<rparr>"

definition URLEncoding :: codec where
  "URLEncoding = \<lparr>alphabet = alnum @ ''-_'', padChar = Some CHR ''=''\<rparr>"

definition RawURLEncoding :: codec where
  "RawURLEncoding = \<lparr>alphabet = alnum @ ''-_'', padChar = None\<rparr>"

definition digit :: "codec \<Rightarrow> int \<Rightarrow> char" where
  "digit k n = alphabet k ! nat (n mod 64)"

definition digit_value :: "codec \<Rightarrow> char \<Rightarrow> int option" where
  "digit_value k c = map_option int (index_byte (alphabet k) c)"

definition padding :: "codec \<Rightarrow> nat \<Rightarrow> string" where
  "padding k n = (case padChar k of None \<Rightarrow> [] | Some p \<Rightarrow> replicate n p)"

fun EncodeToString :: "codec \<Rightarrow> string \<Rightarrow> string" where
  "EncodeToString k [] = []"
| "EncodeToString k [a] =
     (let n = of_char a * 65536 :: int in [digit k (n div 262144), digit k (n div 4096)] @ padding k 2)"
| "EncodeToString k [a, b] =
     (let n = of_char a * 65536 + of_char b * 256 :: int
      in [digit k (n div 262144), digit k (n div 4096), digit k (n div 64)] @ padding k 1)"
| "EncodeToString k (a # b # c # s) =
     (let n = of_char a * 65536 + of_char b * 256 + of_char c :: int
      in [digit k (n div 262144), digit k (n div 4096), digit k (n div 64), digit k n] @ EncodeToString k s)"

definition byte_of :: "int \<Rightarrow> char" where
  "byte_of n = char_of (n mod 256)"

text \<open>A quantum of two, three or four digits gives one, two or three bytes.\<close>

definition quantum :: "int option list \<Rightarrow> string option" where
  "quantum ds =
     (case ds of
        [Some w, Some x] \<Rightarrow> Some [byte_of ((w * 64 + x) div 16)]
      | [Some w, Some x, Some y] \<Rightarrow>
          (let n = (w * 64 + x) * 64 + y in Some [byte_of (n div 1024), byte_of (n div 4)])
      | [Some w, Some x, Some y, Some z] \<Rightarrow>
          (let n = ((w * 64 + x) * 64 + y) * 64 + z
           in Some [byte_of (n div 65536), byte_of (n div 256), byte_of n])
      | _ \<Rightarrow> None)"

fun decode_quanta :: "codec \<Rightarrow> string \<Rightarrow> string option" where
  "decode_quanta k [] = Some []"
| "decode_quanta k (a # b # c # d # s) =
     (if s = [] \<and> padChar k = Some d
      then quantum (map (digit_value k) (if c = d then [a, b] else [a, b, c]))
      else (case quantum (map (digit_value k) [a, b, c, d]) of
              None \<Rightarrow> None
            | Some q \<Rightarrow> map_option (\<lambda>r. q @ r) (decode_quanta k s)))"
| "decode_quanta k s = (if padChar k = None then quantum (map (digit_value k) s) else None)"

definition DecodeString :: "codec \<Rightarrow> string \<Rightarrow> string option" where
  "DecodeString k s = decode_quanta k (filter (\<lambda>c. c \<noteq> CHR 0x0A \<and> c \<noteq> CHR 0x0D) s)"

text \<open>What makes a codec one: 64 distinct digits, none of them a line break or the padding.\<close>

definition codec_ok :: "codec \<Rightarrow> bool" where
  "codec_ok k \<longleftrightarrow>
     length (alphabet k) = 64 \<and> distinct (alphabet k) \<and>
     CHR 0x0A \<notin> set (alphabet k) \<and> CHR 0x0D \<notin> set (alphabet k) \<and>
     (case padChar k of None \<Rightarrow> True
      | Some p \<Rightarrow> p \<notin> set (alphabet k) \<and> p \<noteq> CHR 0x0A \<and> p \<noteq> CHR 0x0D)"

lemma index_byte_nth: "distinct s \<Longrightarrow> n < length s \<Longrightarrow> index_byte s (s ! n) = Some n"
proof (induction s arbitrary: n)
  case Nil
  then show ?case by simp
next
  case (Cons c s)
  then show ?case by (cases n) auto
qed

lemma quanta_induct:
  assumes "P []" "\<And>a. P [a]" "\<And>a b. P [a, b]" "\<And>a b c s. P s \<Longrightarrow> P (a # b # c # s)"
  shows "P (s :: string)"
proof -
  have "P t" if "length t \<le> n" for t n
    using that
  proof (induction n arbitrary: t rule: less_induct)
    case (less n)
    show ?case
    proof (cases t)
      case (Cons a u)
      then show ?thesis
        using assms less by (cases u; cases "tl u") (auto intro!: assms(4) less.IH)
    qed (simp add: assms)
  qed
  then show ?thesis by blast
qed

lemma of_char_less: "of_char c < (256 :: int)" "0 \<le> (of_char c :: int)"
  by (metis of_char_mod_256 pos_mod_bound pos_mod_sign zero_less_numeral)+

lemma byte_of_char: "n mod 256 = of_char c \<Longrightarrow> byte_of n = c"
  by (simp add: byte_of_def)

lemma digits_sum:
  assumes "n < (16777216 :: int)" "0 \<le> n"
  shows "((n div 262144 mod 64 * 64 + n div 4096 mod 64) * 64 + n div 64 mod 64) * 64 + n mod 64 = n"
proof -
  have d: "x div 64 * 64 + x mod 64 = x" for x :: int by simp
  have 1: "n div 262144 = n div 4096 div 64" "n div 4096 = n div 64 div 64" by (simp_all add: zdiv_zmult2_eq [symmetric])
  have 2: "n div 262144 mod 64 = n div 262144" using assms by (simp add: mod_pos_pos_trivial)
  show ?thesis unfolding 2 unfolding 1(1) d unfolding 1(2) d by simp
qed

lemma div_mod_sum: "0 \<le> r \<Longrightarrow> (r :: int) < m \<Longrightarrow> (q * m + r) div m = q \<and> (q * m + r) mod m = r"
  by simp

lemma three_bytes:
  fixes x y z :: int
  assumes "0 \<le> x" "x < 256" "0 \<le> y" "y < 256" "0 \<le> z" "z < 256"
  shows "(x * 65536 + y * 256 + z) div 65536 = x" "(x * 65536 + y * 256 + z) div 256 mod 256 = y"
    "(x * 65536 + y * 256 + z) mod 256 = z"
proof -
  have e: "x * 65536 + y * 256 + z = (x * 256 + y) * 256 + z" by simp
  note d = div_mod_sum [OF assms(5,6), of "x * 256 + y"] div_mod_sum [OF assms(3,4), of x]
  have "(x * 65536 + y * 256 + z) div (256 * 256) = x" unfolding e by (simp only: zdiv_zmult2_eq [OF zero_le_numeral] d)
  then show "(x * 65536 + y * 256 + z) div 65536 = x" by simp
  show "(x * 65536 + y * 256 + z) div 256 mod 256 = y" "(x * 65536 + y * 256 + z) mod 256 = z"
    unfolding e by (simp_all only: d)
qed

lemma byte_of_three:
  fixes a b c
  defines "n \<equiv> of_char a * 65536 + of_char b * 256 + of_char c"
  shows "byte_of (n div 65536) = a" "byte_of (n div 256) = b" "byte_of n = c"
  by (rule byte_of_char, simp only: n_def three_bytes of_char_less of_char_mod_256)+

lemma two_digits: "byte_of ((of_char a * 65536 div 262144 mod 64 * 64 + of_char a * 65536 div 4096 mod 64) div 16) = a"
proof -
  define n where "n = (of_char a * 65536 :: int)"
  have n: "n < 16777216" "0 \<le> n" unfolding n_def using of_char_less [of a] by linarith+
  have 0: "n mod 64 = 0" "n div 64 mod 64 = 0" by (simp_all add: n_def)
  have g: "(v * 64 + 0) * 64 + 0 = v * 4096" for v :: int by simp
  have "(n div 262144 mod 64 * 64 + n div 4096 mod 64) * 4096 = n"
    using digits_sum [OF n] unfolding 0 g .
  moreover have "n div 65536 = of_char a" by (simp add: n_def)
  moreover have "v * 4096 div 65536 = v div 16" for v :: int by simp
  ultimately have "(n div 262144 mod 64 * 64 + n div 4096 mod 64) div 16 = of_char a" by metis
  then show ?thesis unfolding n_def [symmetric] by (intro byte_of_char) (simp only: of_char_mod_256)
qed

lemma three_digits:
  fixes a b defines "n \<equiv> of_char a * 65536 + of_char b * 256"
  defines "v \<equiv> (n div 262144 mod 64 * 64 + n div 4096 mod 64) * 64 + n div 64 mod 64"
  shows "byte_of (v div 1024) = a" "byte_of (v div 4) = b"
proof -
  have n: "n < 16777216" "0 \<le> n" unfolding n_def using of_char_less [of a] of_char_less [of b] by linarith+
  have "n mod 64 = 0" by (simp add: n_def)
  then have v: "v * 64 = n" using digits_sum [OF n] by (simp only: v_def)
  have "v div 1024 = v * 64 div 65536" "v div 4 = v * 64 div 256" by simp_all
  moreover have z: "of_char CHR 0x00 = (0 :: int)" by simp
  ultimately show "byte_of (v div 1024) = a" "byte_of (v div 4) = b"
    unfolding v using byte_of_three [of a b "CHR 0x00", unfolded z add_0_right, folded n_def] by (simp_all only:)
qed

locale base64 =
  fixes k :: codec
  assumes codec: "codec_ok k"
begin

lemma digit_in: "digit k n \<in> set (alphabet k)"
  using codec by (auto simp: digit_def codec_ok_def intro!: nth_mem)

lemma digit_value_digit [simp]: "digit_value k (digit k n) = Some (n mod 64)"
  using codec by (auto simp: digit_def digit_value_def codec_ok_def index_byte_nth)

lemma digit_not_pad [simp]: "padChar k \<noteq> Some (digit k n)"
  using codec digit_in [of n] by (auto simp: codec_ok_def split: option.splits)

lemma digit_not_break [simp]: "digit k n \<noteq> CHR 0x0A" "digit k n \<noteq> CHR 0x0D"
  using codec digit_in [of n] by (auto simp: codec_ok_def)

lemma set_encode: "set (EncodeToString k s) \<subseteq> set (alphabet k) \<union> set_option (padChar k)"
  by (induction s rule: quanta_induct) (auto simp: Let_def padding_def digit_in split: option.splits)

lemma encode_no_break: "filter (\<lambda>c. c \<noteq> CHR 0x0A \<and> c \<noteq> CHR 0x0D) (EncodeToString k s) = EncodeToString k s"
proof -
  have "c \<noteq> CHR 0x0A \<and> c \<noteq> CHR 0x0D" if "c \<in> set (EncodeToString k s)" for c
    using codec set_encode [of s] that by (auto simp: codec_ok_def split: option.splits)
  then show ?thesis by (simp add: filter_id_conv)
qed

lemma decode_full:
  "decode_quanta k ([digit k (n div 262144), digit k (n div 4096), digit k (n div 64), digit k n] @ s) =
     map_option (\<lambda>r. [byte_of (n div 65536), byte_of (n div 256), byte_of n] @ r) (decode_quanta k s)"
  if "n < 16777216" "0 \<le> n"
proof -
  have "quantum (map (digit_value k) [digit k (n div 262144), digit k (n div 4096), digit k (n div 64), digit k n]) =
      Some [byte_of (n div 65536), byte_of (n div 256), byte_of n]"
    by (simp only: list.map digit_value_digit quantum_def list.case option.case Let_def digits_sum [OF that])
  then show ?thesis by (simp del: list.map add: option.map_comp) (cases "decode_quanta k s"; simp)
qed

lemma decode_encode_quanta: "decode_quanta k (EncodeToString k s) = Some s"
proof (induction s rule: quanta_induct)
  case 1
  show ?case by simp
next
  case (2 a)
  have v: "quantum (map (digit_value k) [digit k (of_char a * 65536 div 262144), digit k (of_char a * 65536 div 4096)]) = Some [a]"
    by (simp only: list.map digit_value_digit quantum_def list.case option.case two_digits)
  show ?case
  proof (cases "padChar k")
    case None
    with v show ?thesis by (simp add: Let_def padding_def del: list.map)
  next
    case (Some p)
    with v show ?thesis by (simp add: Let_def padding_def numeral_2_eq_2 del: list.map)
  qed
next
  case (3 a b)
  define n where "n = (of_char a * 65536 + of_char b * 256 :: int)"
  have v: "quantum (map (digit_value k) [digit k (n div 262144), digit k (n div 4096), digit k (n div 64)]) = Some [a, b]"
    by (simp only: list.map digit_value_digit quantum_def list.case option.case Let_def three_digits n_def)
  show ?case
  proof (cases "padChar k")
    case None
    with v show ?thesis by (simp add: Let_def padding_def n_def del: list.map)
  next
    case (Some p)
    with v digit_not_pad [of "n div 64"] show ?thesis by (simp add: Let_def padding_def n_def del: list.map digit_not_pad)
  qed
next
  case (4 a b c s)
  define n where "n = (of_char a * 65536 + of_char b * 256 + of_char c :: int)"
  have l: "n < 16777216" "0 \<le> n" unfolding n_def using of_char_less [of a] of_char_less [of b] of_char_less [of c] by linarith+
  have "byte_of (n div 65536) = a" "byte_of (n div 256) = b" "byte_of n = c"
    unfolding n_def by (rule byte_of_three)+
  with decode_full [OF l, of "EncodeToString k s"] 4 show ?case by (simp add: Let_def n_def)
qed

lemma decode_encode: "DecodeString k (EncodeToString k s) = Some s"
  by (simp add: DecodeString_def encode_no_break decode_encode_quanta)

end

interpretation std: base64 StdEncoding
  by unfold_locales code_simp

interpretation urlsafe: base64 URLEncoding
  by unfold_locales code_simp

interpretation rawurl: base64 RawURLEncoding
  by unfold_locales code_simp

section \<open>Strings and integers\<close>

text \<open>The byte order of Go's \<open><\<close> on strings.\<close>

fun str_less :: "string \<Rightarrow> string \<Rightarrow> bool" where
  "str_less s [] = False"
| "str_less [] (d # ds) = True"
| "str_less (c # cs) (d # ds) = ((of_char c :: nat) < of_char d \<or> c = d \<and> str_less cs ds)"

lemma str_less_irrefl [simp]: "\<not> str_less s s"
  by (induction s) auto

lemma str_less_trans: "str_less a b \<Longrightarrow> str_less b c \<Longrightarrow> str_less a c"
proof (induction a c arbitrary: b rule: str_less.induct)
  case (1 s)
  then show ?case by simp
next
  case (2 d ds)
  then show ?case by simp
next
  case (3 c cs d ds)
  then show ?case by (cases b) auto
qed

lemma str_less_total: "str_less a b \<or> a = b \<or> str_less b a"
proof (induction a b rule: str_less.induct)
  case (3 c cs d ds)
  then show ?case by (metis linorder_neqE_nat of_char_eq_nat str_less.simps(3))
qed (auto; metis neq_Nil_conv str_less.simps(2))+

definition last_index_byte :: "string \<Rightarrow> char \<Rightarrow> nat option" where
  "last_index_byte s c = map_option (\<lambda>i. length s - 1 - i) (index_byte (rev s) c)"

text \<open>\<open>strings.Fields\<close>: \<open>w\<close> is the field being read.\<close>

function fields_from :: "string \<Rightarrow> string \<Rightarrow> string list" where
  "fields_from w s =
     (case s of
        [] \<Rightarrow> (if w = [] then [] else [w])
      | c # cs \<Rightarrow>
          (case leading_rune space_runes s of
             None \<Rightarrow> fields_from (w @ [c]) cs
           | Some r \<Rightarrow> (if w = [] then [] else [w]) @ fields_from [] (drop (max 1 (length r)) s)))"
  by pat_completeness auto
termination
  by (relation "measure (\<lambda>(w, s). length s)") auto

declare fields_from.simps [simp del]

definition Fields :: "string \<Rightarrow> string list" where
  "Fields s = fields_from [] s"

lemma fields_from_inner:
  assumes "\<And>c. c \<in> set s \<Longrightarrow> inner_byte c"
  shows "fields_from w (s @ t) = fields_from (w @ s) t"
  using assms
proof (induction s arbitrary: w)
  case Nil
  show ?case by simp
next
  case (Cons c s)
  have "\<not> has_prefix (c # s @ t) r" if "r \<in> set space_runes" for r
    using inner_byteD [of c r] Cons.prems [of c] that by (cases r) auto
  then have "leading_rune space_runes (c # s @ t) = None"
    by (auto simp: leading_rune_def find_None_iff)
  with Cons show ?case by (subst fields_from.simps) simp
qed

lemma Fields_two:
  assumes "\<And>c. c \<in> set a \<union> set b \<Longrightarrow> inner_byte c" "a \<noteq> []" "b \<noteq> []"
  shows "Fields (a @ '' '' @ b) = [a, b]"
proof -
  have sp: "leading_rune space_runes ('' '' @ b) = Some '' ''"
    by (simp add: leading_rune_def space_runes_def)
  have "Fields (a @ '' '' @ b) = fields_from a ('' '' @ b)"
    using fields_from_inner [of a "[]" "'' '' @ b"] assms(1) by (simp add: Fields_def)
  also have "\<dots> = a # fields_from [] b"
    using sp assms(2) by (subst fields_from.simps) simp
  also have "fields_from [] b = [b]"
    using fields_from_inner [of b "[]" "[]"] assms(1,3) by (simp add: fields_from.simps)
  finally show ?thesis .
qed

definition wrap64 :: "int \<Rightarrow> int" where
  "wrap64 i = (i + 2 ^ 63) mod 2 ^ 64 - 2 ^ 63"

definition in_int64 :: "int \<Rightarrow> bool" where
  "in_int64 i \<longleftrightarrow> - (2 ^ 63) \<le> i \<and> i < 2 ^ 63"

lemma wrap64_id [simp]: "in_int64 i \<Longrightarrow> wrap64 i = i"
  by (simp add: wrap64_def in_int64_def mod_pos_pos_trivial)

lemma wrap64_range: "in_int64 (wrap64 i)"
  using pos_mod_bound [of "2 ^ 64" "i + 2 ^ 63"] pos_mod_sign [of "2 ^ 64" "i + 2 ^ 63"]
  by (simp add: wrap64_def in_int64_def)

text \<open>Integer division truncates towards zero.\<close>

definition go_quot :: "int \<Rightarrow> int \<Rightarrow> int" where
  "go_quot d m = (if d < 0 then - ((- d) div m) else d div m)"

definition go_rem :: "int \<Rightarrow> int \<Rightarrow> int" where
  "go_rem d m = d - m * go_quot d m"

fun digits_value :: "int \<Rightarrow> string \<Rightarrow> int option" where
  "digits_value n [] = Some n"
| "digits_value n (c # cs) =
     (case index_byte ''0123456789'' c of None \<Rightarrow> None | Some d \<Rightarrow> digits_value (n * 10 + int d) cs)"

definition ParseInt :: "string \<Rightarrow> int option" where
  "ParseInt s =
     (let (neg, ds) = (case s of c # cs \<Rightarrow> if c = CHR ''-'' then (True, cs) else if c = CHR ''+'' then (False, cs) else (False, s)
                       | [] \<Rightarrow> (False, s))
      in if ds = [] then None
         else (case digits_value 0 ds of
                 None \<Rightarrow> None
               | Some n \<Rightarrow> let i = (if neg then - n else n) in if in_int64 i then Some i else None))"

lemma digits_value_append:
  "digits_value n (a @ b) = Option.bind (digits_value n a) (\<lambda>m. digits_value m b)"
  by (induction a arbitrary: n) (auto split: option.splits)

lemma digit_index: "d < 10 \<Longrightarrow> index_byte ''0123456789'' (''0123456789'' ! d) = Some d"
  by (rule index_byte_nth) simp_all

lemma digits_value_digits: "digits_value 0 (digits_of_nat n) = Some (int n)"
proof (induction n rule: digits_of_nat.induct)
  case (1 n)
  have d: "digits_value m [''0123456789'' ! e] = Some (m * 10 + int e)" if "e < 10" for m e
    using that by (simp del: index_byte.simps nth_Cons_numeral add: digit_index)
  show ?case
  proof (cases "n < 10")
    case True
    then show ?thesis using d [of n 0] by (subst digits_of_nat.simps) (simp del: digits_value.simps nth_Cons_numeral)
  next
    case False
    have "digits_of_nat n = digits_of_nat (n div 10) @ [''0123456789'' ! (n mod 10)]"
      using False by (subst digits_of_nat.simps) simp
    moreover have "int (n div 10) * 10 + int (n mod 10) = int n"
      by (metis div_mult_mod_eq of_nat_add of_nat_mult of_nat_numeral)
    ultimately show ?thesis
      using 1 [OF False] d [of "n mod 10" "int (n div 10)"]
      by (simp add: digits_value_append del: digits_value.simps nth_Cons_numeral of_nat_add)
  qed
qed

lemma ParseInt_itoa:
  assumes "in_int64 i"
  shows "ParseInt (itoa i) = Some i"
proof (cases "i < 0")
  case True
  then show ?thesis using assms digits_value_digits by (simp add: ParseInt_def itoa_def)
next
  case False
  obtain c cs where c: "digits_of_nat (nat i) = c # cs" using digits_not_Nil by (cases "digits_of_nat (nat i)") auto
  then have "c \<in> set ''0123456789''" using set_digits [of "nat i"] by auto
  then have "c \<noteq> CHR ''-''" "c \<noteq> CHR ''+''" by auto
  then show ?thesis
    using False assms c digits_value_digits [of "nat i"] by (simp add: ParseInt_def itoa_def)
qed

text \<open>Printing by integer arithmetic, for evaluation.\<close>

function digits_of_int :: "int \<Rightarrow> string" where
  "digits_of_int i =
     (if i < 10 then [''0123456789'' ! nat i] else digits_of_int (i div 10) @ [''0123456789'' ! nat (i mod 10)])"
  by pat_completeness auto
termination
  by (relation "measure nat") auto

declare digits_of_int.simps [simp del]

lemma digits_of_int_nat: "0 \<le> i \<Longrightarrow> digits_of_nat (nat i) = digits_of_int i"
proof (induction i rule: digits_of_int.induct)
  case (1 i)
  have "nat i div 10 = nat (i div 10)" "nat i mod 10 = nat (i mod 10)"
    using 1(2) by (simp_all add: nat_div_distrib nat_mod_distrib)
  moreover have "0 \<le> i div 10" using 1(2) by simp
  ultimately show ?case
    using 1 by (subst digits_of_nat.simps, subst digits_of_int.simps) (auto simp del: nth_Cons_numeral)
qed

lemma itoa_code [code]:
  "itoa i = (if i < 0 then CHR ''-'' # digits_of_int (- i) else digits_of_int i)"
  by (simp add: itoa_def digits_of_int_nat)

definition ParseBool :: "string \<Rightarrow> bool option" where
  "ParseBool s =
     (if s \<in> set [''1'', ''t'', ''T'', ''true'', ''TRUE'', ''True''] then Some True
      else if s \<in> set [''0'', ''f'', ''F'', ''false'', ''FALSE'', ''False''] then Some False
      else None)"

text \<open>Environment variables; an unset one is the empty string, as \<open>os.Getenv\<close> has it.\<close>

type_synonym environ = "string \<Rightarrow> string"

section \<open>Query strings\<close>

definition unhex :: "char \<Rightarrow> nat option" where
  "unhex c =
     (case index_byte ''0123456789abcdef'' c of
        Some d \<Rightarrow> Some d
      | None \<Rightarrow> map_option (\<lambda>d. d + 10) (index_byte ''ABCDEF'' c))"

fun QueryUnescape :: "string \<Rightarrow> string option" where
  "QueryUnescape [] = Some []"
| "QueryUnescape (c # s) =
     (if c = CHR ''%''
      then (case s of
              a # b # t \<Rightarrow>
                (case (unhex a, unhex b) of
                   (Some x, Some y) \<Rightarrow> map_option (\<lambda>r. char_of (16 * x + y) # r) (QueryUnescape t)
                 | _ \<Rightarrow> None)
            | _ \<Rightarrow> None)
      else map_option (\<lambda>r. (if c = CHR ''+'' then CHR '' '' else c) # r) (QueryUnescape s))"

definition cut :: "string \<Rightarrow> char \<Rightarrow> string \<times> string" where
  "cut s c = (case index_byte s c of None \<Rightarrow> (s, []) | Some i \<Rightarrow> (take i s, drop (Suc i) s))"

definition query_pair :: "string \<Rightarrow> (string \<times> string) option" where
  "query_pair p =
     (if p = [] \<or> CHR '';'' \<in> set p then None
      else (case (QueryUnescape (fst (cut p CHR ''='')), QueryUnescape (snd (cut p CHR ''=''))) of
              (Some k, Some v) \<Rightarrow> Some (k, v)
            | _ \<Rightarrow> None))"

definition ParseQuery :: "string \<Rightarrow> (string \<times> string) list" where
  "ParseQuery q = List.map_filter query_pair (split_on CHR ''&'' q)"

definition query_Get :: "string \<Rightarrow> string \<Rightarrow> string" where
  "query_Get q k = (case map_of (ParseQuery q) k of None \<Rightarrow> [] | Some v \<Rightarrow> v)"

text \<open>Bytes that mean themselves in a query value.\<close>

definition query_plain :: "char \<Rightarrow> bool" where
  "query_plain c \<longleftrightarrow> c \<notin> set ''%+&;''"

lemma unescape_plain: "(\<And>c. c \<in> set s \<Longrightarrow> query_plain c) \<Longrightarrow> QueryUnescape s = Some s"
  by (induction s) (auto simp: query_plain_def)

lemma cut_first: "c \<notin> set k \<Longrightarrow> cut (k @ c # v) c = (k, v)"
proof -
  assume "c \<notin> set k"
  then have "index_byte (k @ c # v) c = Some (length k)" by (induction k) auto
  then show ?thesis by (simp add: cut_def)
qed

lemma query_pair_plain:
  assumes "\<And>c. c \<in> set k \<union> set v \<Longrightarrow> query_plain c" "CHR ''='' \<notin> set k"
  shows "query_pair (k @ ''='' @ v) = Some (k, v)"
proof -
  have "CHR '';'' \<notin> set (k @ ''='' @ v)" using assms(1) by (auto simp: query_plain_def)
  then show ?thesis
    using assms cut_first [of "CHR ''=''" k v] by (simp add: query_pair_def unescape_plain)
qed

section \<open>Floating point\<close>

function bit_len :: "int \<Rightarrow> int" where
  "bit_len n = (if n \<le> 0 then 0 else 1 + bit_len (n div 2))"
  by pat_completeness auto
termination
  by (relation "measure nat") auto

declare bit_len.simps [simp del]

text \<open>The exponent of a positive rational: \<open>2 powi e \<le> x < 2 powi (e + 1)\<close>.\<close>

definition float_exp :: "rat \<Rightarrow> int" where
  "float_exp x =
     (let (p, q) = quotient_of x; e = bit_len p - bit_len q
      in if 2 powi e \<le> x then e else e - 1)"

lemma bit_len_bounds:
  "0 < n \<Longrightarrow> (2 :: rat) powi (bit_len n - 1) \<le> of_int n \<and> of_int n + 1 \<le> (2 :: rat) powi (bit_len n)"
proof (induction n rule: bit_len.induct)
  case (1 n)
  have e: "bit_len n = 1 + bit_len (n div 2)" using 1(2) by (subst bit_len.simps) simp
  show ?case
  proof (cases "n = 1")
    case True
    with e bit_len.simps [of 0] show ?thesis by simp
  next
    case False
    with 1(2) have m: "0 < n div 2" by simp
    define b where "b = bit_len (n div 2)"
    have h: "2 powi (b - 1) \<le> (of_int (n div 2) :: rat)" "of_int (n div 2) + 1 \<le> (2 :: rat) powi b"
      using 1(1) [OF _ m] 1(2) by (auto simp: b_def)
    have "2 * (n div 2) \<le> n" "n + 1 \<le> 2 * (n div 2 + 1)" by presburger+
    then have "(of_int (2 * (n div 2)) :: rat) \<le> of_int n" "(of_int (n + 1) :: rat) \<le> of_int (2 * (n div 2 + 1))"
      by (simp_all only: of_int_le_iff)
    then have n: "2 * of_int (n div 2) \<le> (of_int n :: rat)" "of_int n + 1 \<le> 2 * (of_int (n div 2) + 1 :: rat)"
      by (simp_all only: of_int_mult of_int_numeral of_int_add of_int_1)
    have "(2 :: rat) powi b = 2 * 2 powi (b - 1)" "(2 :: rat) powi (1 + b) = 2 * 2 powi b"
      using power_int_add_1' [of "2 :: rat" "b - 1"] power_int_add_1' [of "2 :: rat" b] by (simp_all add: add.commute)
    with h n show ?thesis unfolding e b_def [symmetric] by (auto intro: order_trans)
  qed
qed

definition round_even :: "rat \<Rightarrow> int" where
  "round_even x =
     (let f = \<lfloor>x\<rfloor>; r = x - of_int f
      in if r < 1 / 2 \<or> r = 1 / 2 \<and> even f then f else f + 1)"

definition float64 :: "rat \<Rightarrow> rat" where
  "float64 x =
     (if x = 0 then 0
      else let u = 2 powi (float_exp \<bar>x\<bar> - 52) in of_int (round_even (x / u)) * u)"

definition go_trunc :: "rat \<Rightarrow> int" where
  "go_trunc x = (if x < 0 then \<lceil>x\<rceil> else \<lfloor>x\<rfloor>)"

text \<open>
  Conversion of a \<open>float64\<close> to \<open>int64\<close>: truncation; for a value out of range the language
  leaves the result to the implementation, the argument \<open>ovf\<close>.
\<close>

definition int64_of_float :: "(rat \<Rightarrow> int) \<Rightarrow> rat \<Rightarrow> int" where
  "int64_of_float ovf x = (if in_int64 (go_trunc x) then go_trunc x else ovf x)"

lemma round_even_err: "\<bar>of_int (round_even x) - x\<bar> \<le> 1 / 2"
  using floor_correct [of x] by (auto simp: round_even_def Let_def)

lemma float_exp_lower:
  assumes "0 < x"
  shows "2 powi (float_exp x) \<le> x"
proof -
  obtain p q where pq: "quotient_of x = (p, q)" by (cases "quotient_of x")
  then have q: "0 < q" using quotient_of_denom_pos by blast
  have x: "x = of_int p / of_int q" using quotient_of_div [OF pq] .
  then have p: "0 < p" using assms q by (simp add: zero_less_divide_iff)
  define a b where "a = bit_len p" and "b = bit_len q"
  have l: "2 powi (a - 1) \<le> (of_int p :: rat)" "(of_int q :: rat) \<le> 2 powi b"
    using bit_len_bounds [OF p] bit_len_bounds [OF q] by (auto simp: a_def b_def)
  have "2 powi (a - b - 1) = (2 :: rat) powi (a - 1) / 2 powi b"
    using power_int_diff [of "2 :: rat" "a - 1" b] by (simp add: algebra_simps)
  also have "\<dots> \<le> x" unfolding x using l q by (intro frac_le) (auto simp: p less_imp_le)
  finally show ?thesis by (auto simp: float_exp_def pq a_def b_def Let_def algebra_simps)
qed

text \<open>The relative error of one rounding is at most one in \<open>2 ^ 53\<close>.\<close>

lemma float64_err:
  assumes "0 \<le> x"
  shows "\<bar>float64 x - x\<bar> \<le> x / 2 ^ 53"
proof (cases "x = 0")
  case True
  then show ?thesis by (simp add: float64_def)
next
  case False
  with assms have x: "0 < x" by simp
  define u :: rat where "u = 2 powi (float_exp x - 52)"
  have u: "0 < u" by (simp add: u_def)
  have "u = 2 powi (float_exp x) / 2 ^ 52" by (simp add: u_def power_int_diff)
  then have "u / 2 \<le> x / 2 ^ 53" using float_exp_lower [OF x] by (simp add: divide_right_mono)
  moreover have "\<bar>float64 x - x\<bar> \<le> u / 2"
  proof -
    have "float64 x - x = (of_int (round_even (x / u)) - x / u) * u"
      using x u by (simp add: float64_def u_def Let_def left_diff_distrib)
    then have "\<bar>float64 x - x\<bar> = \<bar>of_int (round_even (x / u)) - x / u\<bar> * u" using u by (simp add: abs_mult)
    also have "\<dots> \<le> 1 / 2 * u" using round_even_err [of "x / u"] u by (intro mult_right_mono) auto
    finally show ?thesis by simp
  qed
  ultimately show ?thesis by linarith
qed

section \<open>Response writers\<close>

record writer =
  w_pending :: "(string \<times> string) list"
  w_sent :: "(int \<times> (string \<times> string) list) option"
  w_body :: resp_body

definition new_writer :: writer where
  "new_writer = \<lparr>w_pending = [], w_sent = None, w_body = NoBody\<rparr>"

definition header_put :: "string \<Rightarrow> string \<Rightarrow> (string \<times> string) list \<Rightarrow> (string \<times> string) list" where
  "header_put k v hs = filter (\<lambda>h. fst h \<noteq> k) hs @ [(k, v)]"

definition header_Set :: "string \<Rightarrow> string \<Rightarrow> writer \<Rightarrow> writer" where
  "header_Set k v w = w\<lparr>w_pending := header_put k v (w_pending w)\<rparr>"

definition WriteHeader :: "int \<Rightarrow> writer \<Rightarrow> writer" where
  "WriteHeader c w = (case w_sent w of None \<Rightarrow> w\<lparr>w_sent := Some (c, w_pending w)\<rparr> | Some s \<Rightarrow> w)"

text \<open>Writing a body sends the header with status 200 if it is not sent yet.\<close>

definition write_body :: "resp_body \<Rightarrow> writer \<Rightarrow> writer" where
  "write_body b w = (WriteHeader StatusOK w)\<lparr>w_body := b\<rparr>"

definition writer_response :: "writer \<Rightarrow> response" where
  "writer_response w =
     (case w_sent w of
        None \<Rightarrow> \<lparr>RCode = StatusOK, RHeaders = w_pending w, RBody = w_body w\<rparr>
      | Some (c, hs) \<Rightarrow> \<lparr>RCode = c, RHeaders = hs, RBody = w_body w\<rparr>)"

lemmas writer_simps = new_writer_def header_put_def header_Set_def WriteHeader_def write_body_def writer_response_def

text \<open>A handler that runs behind a middleware which has set headers on the same writer.\<close>

definition with_headers :: "(string \<times> string) list \<Rightarrow> response \<Rightarrow> response" where
  "with_headers hs r = r\<lparr>RHeaders := fold (\<lambda>(k, v). header_put k v) (RHeaders r) hs\<rparr>"

definition header_of :: "response \<Rightarrow> string \<Rightarrow> string option" where
  "header_of r k = map_of (RHeaders r) k"

lemma map_of_header_put: "map_of (header_put k v hs) = (map_of hs)(k \<mapsto> v)"
proof
  fix x
  have "map_of (filter (\<lambda>h. fst h \<noteq> k) hs) x = (if x = k then None else map_of hs x)"
    by (induction hs) auto
  then show "map_of (header_put k v hs) x = ((map_of hs)(k \<mapsto> v)) x"
    by (cases "map_of hs x") (auto simp: header_put_def map_add_def)
qed

lemma with_headers_code [simp]: "RCode (with_headers hs r) = RCode r" "RBody (with_headers hs r) = RBody r"
  by (simp_all add: with_headers_def)

lemma with_headers_keep:
  "k \<notin> fst ` set (RHeaders r) \<Longrightarrow> header_of (with_headers hs r) k = map_of hs k"
proof -
  have "k \<notin> fst ` set xs \<Longrightarrow> map_of (fold (\<lambda>(k, v). header_put k v) xs hs) k = map_of hs k" for xs
    by (induction xs arbitrary: hs) (auto simp: map_of_header_put)
  then show "k \<notin> fst ` set (RHeaders r) \<Longrightarrow> ?thesis" by (simp add: header_of_def with_headers_def)
qed

section \<open>Decoding JSON into structs\<close>

text \<open>
  Decoding into structs: members in document order, names matched up to case folding, \<open>null\<close>
  leaving a field as it is, an array element decoded over the element a repeated member left
  there; a value of the wrong type makes \<open>json.Unmarshal\<close> fail.
\<close>

fun decode_members :: "(string \<Rightarrow> json \<Rightarrow> 'a \<Rightarrow> 'a option) \<Rightarrow> (string \<times> json) list \<Rightarrow> 'a \<Rightarrow> 'a option" where
  "decode_members h [] x = Some x"
| "decode_members h ((k, v) # kvs) x = (case h k v x of None \<Rightarrow> None | Some y \<Rightarrow> decode_members h kvs y)"

definition decode_object :: "(string \<Rightarrow> json \<Rightarrow> 'a \<Rightarrow> 'a option) \<Rightarrow> json \<Rightarrow> 'a \<Rightarrow> 'a option" where
  "decode_object h v x = (case v of JObj kvs \<Rightarrow> decode_members h kvs x | JNull \<Rightarrow> Some x | _ \<Rightarrow> None)"

definition decode_str :: "json \<Rightarrow> string \<Rightarrow> string option" where
  "decode_str v x = (case v of JStr s \<Rightarrow> Some s | JNull \<Rightarrow> Some x | _ \<Rightarrow> None)"

definition decode_flag :: "json \<Rightarrow> bool \<Rightarrow> bool option" where
  "decode_flag v x = (case v of JBool b \<Rightarrow> Some b | JNull \<Rightarrow> Some x | _ \<Rightarrow> None)"

fun decode_elems :: "(json \<Rightarrow> 'a \<Rightarrow> 'a option) \<Rightarrow> 'a \<Rightarrow> json list \<Rightarrow> 'a list \<Rightarrow> 'a list option" where
  "decode_elems f z [] old = Some []"
| "decode_elems f z (v # vs) old =
     (case f v (case old of [] \<Rightarrow> z | x # xs \<Rightarrow> x) of
        None \<Rightarrow> None
      | Some y \<Rightarrow> map_option (Cons y) (decode_elems f z vs (tl old)))"

definition decode_slice :: "(json \<Rightarrow> 'a \<Rightarrow> 'a option) \<Rightarrow> 'a \<Rightarrow> json \<Rightarrow> 'a list \<Rightarrow> 'a list option" where
  "decode_slice f z v old = (case v of JArr vs \<Rightarrow> decode_elems f z vs old | JNull \<Rightarrow> Some [] | _ \<Rightarrow> None)"

end
