(* ===== verification/Secrets.thy ===== *)
theory Secrets
  imports GoLib
begin

text \<open>
  Secrets at rest: the encryptor (\<open>pkg/crypto/crypto.go\<close>) and the two functions through which the
  aggregator's database stores and reads BMC passwords (\<open>encryptIfConfigured\<close> and \<open>decryptIfNeeded\<close>
  of \<open>internal/database/database.go\<close>).

  SHA-256, PBKDF2 and AES-GCM are the fields of \<open>crypt_env\<close>; \<open>gcm_ok\<close> states what AES-GCM promises to
  a caller: what was sealed opens to the plaintext and is 16 bytes longer. A read of \<open>crypto/rand\<close>
  is an argument, the bytes or the error.
\<close>

section \<open>The encryptor\<close>

abbreviation NonceSize :: nat where "NonceSize \<equiv> 12"
abbreviation KeySize :: int where "KeySize \<equiv> 32"
abbreviation Iterations :: int where "Iterations \<equiv> 100000"

record crypt_env =
  sha256_Sum :: "string \<Rightarrow> string"
  pbkdf2_Key :: "string \<Rightarrow> string \<Rightarrow> int \<Rightarrow> int \<Rightarrow> string"
  gcm_Seal :: "string \<Rightarrow> string \<Rightarrow> string \<Rightarrow> string"
  gcm_Open :: "string \<Rightarrow> string \<Rightarrow> string \<Rightarrow> string option"

record Encryptor =
  key :: string

definition NewEncryptor :: "crypt_env \<Rightarrow> string \<Rightarrow> string + Encryptor" where
  "NewEncryptor E passphrase =
     (if passphrase = '''' then Inl ''passphrase cannot be empty''
      else let salt = sha256_Sum E (''shoal-salt-'' @ passphrase)
           in Inr \<lparr>key = pbkdf2_Key E passphrase salt Iterations KeySize\<rparr>)"

text \<open>\<open>aes.NewCipher\<close> rejects keys that are not 16, 24 or 32 bytes long.\<close>

definition cipher_error :: "string \<Rightarrow> string option" where
  "cipher_error k =
     (if length k \<in> {16, 24, 32} then None
      else Some (''failed to create cipher: crypto/aes: invalid key size '' @ itoa (int (length k))))"

definition Encrypt :: "crypt_env \<Rightarrow> Encryptor \<Rightarrow> string + string \<Rightarrow> string \<Rightarrow> string + string" where
  "Encrypt E e rand plaintext =
     (if plaintext = '''' then Inl ''plaintext cannot be empty''
      else (case cipher_error (key e) of
              Some err \<Rightarrow> Inl err
            | None \<Rightarrow>
                (case rand of
                   Inl err \<Rightarrow> Inl (''failed to generate nonce: '' @ err)
                 | Inr nonce \<Rightarrow> Inr (EncodeToString StdEncoding (nonce @ gcm_Seal E (key e) nonce plaintext)))))"

definition Decrypt :: "crypt_env \<Rightarrow> Encryptor \<Rightarrow> string \<Rightarrow> string + string" where
  "Decrypt E e encrypted =
     (if encrypted = '''' then Inl ''encrypted text cannot be empty''
      else (case DecodeString StdEncoding encrypted of
              None \<Rightarrow> Inl ''failed to decode base64''
            | Some combined \<Rightarrow>
                (case cipher_error (key e) of
                   Some err \<Rightarrow> Inl err
                 | None \<Rightarrow>
                     if length combined < NonceSize then Inl ''encrypted text too short''
                     else (case gcm_Open E (key e) (take NonceSize combined) (drop NonceSize combined) of
                             None \<Rightarrow> Inl ''failed to decrypt: cipher: message authentication failed''
                           | Some plaintext \<Rightarrow> Inr plaintext))))"

definition IsEncrypted :: "string \<Rightarrow> bool" where
  "IsEncrypted s \<longleftrightarrow>
     s \<noteq> '''' \<and> (case DecodeString StdEncoding s of None \<Rightarrow> False | Some decoded \<Rightarrow> length decoded \<ge> NonceSize + 16)"

section \<open>Columns of the database\<close>

definition encryptIfConfigured ::
  "crypt_env \<Rightarrow> Encryptor option \<Rightarrow> string + string \<Rightarrow> string \<Rightarrow> string + string" where
  "encryptIfConfigured E enc rand plaintext =
     (case enc of
        None \<Rightarrow> Inr plaintext
      | Some e \<Rightarrow>
          if plaintext = '''' then Inr plaintext
          else if IsEncrypted plaintext then Inr plaintext
          else Encrypt E e rand plaintext)"

definition decryptIfNeeded :: "crypt_env \<Rightarrow> Encryptor option \<Rightarrow> string \<Rightarrow> string" where
  "decryptIfNeeded E enc s =
     (case enc of
        None \<Rightarrow> s
      | Some e \<Rightarrow>
          if s = '''' \<or> \<not> IsEncrypted s then s
          else (case Decrypt E e s of Inl err \<Rightarrow> s | Inr decrypted \<Rightarrow> decrypted))"

section \<open>Properties\<close>

definition gcm_ok :: "crypt_env \<Rightarrow> bool" where
  "gcm_ok E \<longleftrightarrow> (\<forall>k n p. gcm_Open E k n (gcm_Seal E k n p) = Some p \<and> length (gcm_Seal E k n p) = length p + 16)"

lemma encode_Nil_iff [simp]: "EncodeToString StdEncoding s = '''' \<longleftrightarrow> s = ''''"
proof
  assume "EncodeToString StdEncoding s = ''''"
  then have "Some s = DecodeString StdEncoding ''''" using std.decode_encode [of s] by simp
  then show "s = ''''" by (simp add: DecodeString_def)
qed simp

lemma sealed:
  assumes "gcm_ok E" "length (key e) = 32" "length nonce = NonceSize" "Encrypt E e (Inr nonce) p = Inr s"
  shows "IsEncrypted s" "Decrypt E e s = Inr p"
proof -
  from assms(4) have s: "s = EncodeToString StdEncoding (nonce @ gcm_Seal E (key e) nonce p)" and "p \<noteq> ''''"
    using assms(2) by (auto simp: Encrypt_def cipher_error_def split: if_splits)
  have "length (gcm_Seal E (key e) nonce p) = length p + 16" using assms(1) by (simp add: gcm_ok_def)
  then show "IsEncrypted s" "Decrypt E e s = Inr p"
    using assms(1,2,3) by (auto simp: s IsEncrypted_def Decrypt_def cipher_error_def std.decode_encode gcm_ok_def)
qed

text \<open>
  C29. A password is stored and read back: with encryption configured, storing a password always
  succeeds, and reading the stored column gives it back unless the password is itself an envelope
  sealed under the service's key (then its content comes back). The column differs from the
  password exactly when the password is not empty and does not look encrypted: any password that
  is the base64 form of 28 bytes or more is stored in clear.
\<close>

theorem secret_at_rest:
  assumes "gcm_ok E" and "length (key e) = 32" and "length nonce = NonceSize"
  shows "\<exists>s. encryptIfConfigured E (Some e) (Inr nonce) p = Inr s \<and>
     decryptIfNeeded E (Some e) s = (if IsEncrypted p then (case Decrypt E e p of Inl err \<Rightarrow> p | Inr q \<Rightarrow> q) else p) \<and>
     (s = p \<longleftrightarrow> p = '''' \<or> IsEncrypted p)"
proof (cases "p = '''' \<or> IsEncrypted p")
  case True
  then show ?thesis by (auto simp: encryptIfConfigured_def decryptIfNeeded_def IsEncrypted_def)
next
  case False
  then obtain s where s: "Encrypt E e (Inr nonce) p = Inr s"
    using assms(2) by (auto simp: Encrypt_def cipher_error_def)
  from sealed [OF assms s] False have "IsEncrypted s" "Decrypt E e s = Inr p" "s \<noteq> p" "s \<noteq> ''''"
    by (auto simp: IsEncrypted_def)
  with False s show ?thesis by (auto simp: encryptIfConfigured_def decryptIfNeeded_def)
qed

text \<open>A cipher for evaluation: sealing appends sixteen bytes, opening checks and removes them.\<close>

definition demo_crypt :: crypt_env where
  "demo_crypt = \<lparr>sha256_Sum = id, pbkdf2_Key = (\<lambda>p s i n. replicate (nat n) CHR ''k''),
     gcm_Seal = (\<lambda>k n p. rev p @ replicate 16 CHR ''t''),
     gcm_Open = (\<lambda>k n c. if 16 \<le> length c \<and> drop (length c - 16) c = replicate 16 CHR ''t''
                 then Some (rev (take (length c - 16) c)) else None)\<rparr>"

lemma demo_crypt_ok: "gcm_ok demo_crypt"
  by (simp add: gcm_ok_def demo_crypt_def)

theorem secret_at_rest_witness:
  "\<exists>s. encryptIfConfigured demo_crypt (Some \<lparr>key = replicate 32 CHR ''k''\<rparr>) (Inr (replicate 12 CHR ''n'')) ''calvin'' = Inr s \<and>
     decryptIfNeeded demo_crypt (Some \<lparr>key = replicate 32 CHR ''k''\<rparr>) s = ''calvin'' \<and> s \<noteq> ''calvin''"
proof -
  have "\<not> IsEncrypted ''calvin''" by code_simp
  then show ?thesis
    using secret_at_rest [OF demo_crypt_ok, of "\<lparr>key = replicate 32 CHR ''k''\<rparr>" "replicate 12 CHR ''n''" "''calvin''"] by auto
qed

text \<open>Forty letters are a password that stays in clear.\<close>

lemma long_password_in_clear:
  "encryptIfConfigured demo_crypt (Some \<lparr>key = replicate 32 CHR ''k''\<rparr>) (Inr (replicate 12 CHR ''n'')) (replicate 40 CHR ''p'') =
     Inr (replicate 40 CHR ''p'')"
  by code_simp

end
