(* ===== verification/AggDb.thy ===== *)
theory AggDb
  imports Secrets "HOL-Library.State_Monad" "HOL-Library.AList"
begin

text \<open>
  The aggregator's database (\<open>internal/database/database.go\<close>, \<open>pkg/models/models.go\<close>): settings, users,
  sessions, BMCs and connection methods, with the constraints of the schema that \<open>Migrate\<close> creates.

  A statement meets the driver error \<open>stmt_fault\<close> of its tick, reads the clock \<open>now_at\<close> of its tick, or
  violates a constraint; on an error it changes nothing. \<open>CURRENT_TIMESTAMP\<close> has a resolution of one
  second. How SQLite compares two stored times is the field \<open>sql_after\<close>: the column holds the text
  the driver makes of a \<open>time.Time\<close>. Texts of driver errors are abbreviated. The statements on setting
  descriptors and their values are in the theory \<open>Settings\<close>.
\<close>

section \<open>Data\<close>

record User =
  UID :: string
  Username :: string
  PasswordHash :: string
  Role :: string
  UEnabled :: bool
  UCreatedAt :: time
  UUpdatedAt :: time

abbreviation RoleAdmin :: string where "RoleAdmin \<equiv> ''admin''"
abbreviation RoleOperator :: string where "RoleOperator \<equiv> ''operator''"
abbreviation RoleViewer :: string where "RoleViewer \<equiv> ''viewer''"

record Session =
  SID :: string
  SUserID :: string
  Token :: string
  ExpiresAt :: time
  SCreatedAt :: time

record BMC =
  BID :: int
  BName :: string
  BAddress :: string
  BUsername :: string
  BPassword :: string
  Description :: string
  BEnabled :: bool
  BCreatedAt :: time
  BUpdatedAt :: time
  BLastSeen :: "time option"

record ConnectionMethod =
  MID :: string
  MName :: string
  ConnectionMethodType :: string
  MAddress :: string
  MUsername :: string
  MPassword :: string
  MEnabled :: bool
  MCreatedAt :: time
  MUpdatedAt :: time
  MLastSeen :: "time option"
  AggregatedManagers :: string
  AggregatedSystems :: string

text \<open>Rows of \<open>settings_descriptors\<close> and \<open>settings_values\<close>; lists and values are stored as JSON text.\<close>

record desc_row =
  r_id :: string
  r_bmc_id :: int
  r_resource_path :: string
  r_attribute :: string
  r_display_name :: string
  r_description :: string
  r_type :: string
  r_enum_values :: string
  r_min :: "rat option"
  r_max :: "rat option"
  r_pattern :: string
  r_units :: string
  r_read_only :: bool
  r_oem :: bool
  r_oem_vendor :: string
  r_apply_times :: string
  r_action_target :: string
  r_updated_at :: time

record value_row =
  v_descriptor_id :: string
  v_current_value :: string
  v_source_timestamp :: string
  v_updated_at :: time

record agg_db =
  settings :: "(string \<times> string) list"
  users :: "User list"
  sessions :: "Session list"
  bmcs :: "BMC list"
  last_bmc :: int
  connection_methods :: "ConnectionMethod list"
  settings_descriptors :: "desc_row list"
  settings_values :: "value_row list"

record db_env =
  crypt :: crypt_env
  encryptor :: "Encryptor option"
  stmt_fault :: "nat \<Rightarrow> string option"
  now_at :: "nat \<Rightarrow> time"
  rand_Read :: "nat \<Rightarrow> nat \<Rightarrow> string + string"
  sql_after :: "time \<Rightarrow> time \<Rightarrow> bool"

record db_state =
  adb :: agg_db
  ticks :: nat

section \<open>Statements\<close>

definition tick :: "('s db_state_scheme, nat) state" where
  "tick = State (\<lambda>s. (ticks s, s\<lparr>ticks := Suc (ticks s)\<rparr>))"

definition time_Now :: "'e db_env_scheme \<Rightarrow> ('s db_state_scheme, time) state" where
  "time_Now E = do { n \<leftarrow> tick; State_Monad.return (now_at E n) }"

definition rand_bytes :: "'e db_env_scheme \<Rightarrow> nat \<Rightarrow> ('s db_state_scheme, string + string) state" where
  "rand_bytes E k = do { n \<leftarrow> tick; State_Monad.return (rand_Read E n k) }"

definition run_stmt ::
  "'e db_env_scheme \<Rightarrow> string \<Rightarrow> (time \<Rightarrow> agg_db \<Rightarrow> (string + 'a) \<times> agg_db) \<Rightarrow> nat \<Rightarrow> 's db_state_scheme \<Rightarrow>
   (string + 'a) \<times> 's db_state_scheme" where
  "run_stmt E pre f n s =
     (case stmt_fault E n of
        Some e \<Rightarrow> (Inl (pre @ e), s)
      | None \<Rightarrow>
          (case f (now_at E n) (adb s) of
             (Inl e, d) \<Rightarrow> (Inl (pre @ e), s)
           | (Inr x, d) \<Rightarrow> (Inr x, s\<lparr>adb := d\<rparr>)))"

definition exec ::
  "'e db_env_scheme \<Rightarrow> string \<Rightarrow> (time \<Rightarrow> agg_db \<Rightarrow> (string + 'a) \<times> agg_db) \<Rightarrow> ('s db_state_scheme, string + 'a) state" where
  "exec E pre f = do { n \<leftarrow> tick; State (run_stmt E pre f n) }"

definition query ::
  "'e db_env_scheme \<Rightarrow> string \<Rightarrow> (time \<Rightarrow> agg_db \<Rightarrow> 'a) \<Rightarrow> ('s db_state_scheme, string + 'a) state" where
  "query E pre g = exec E pre (\<lambda>now d. (Inr (g now d), d))"

definition current_timestamp :: "time \<Rightarrow> time" where
  "current_timestamp now = now div time_Second * time_Second"

lemma run_query:
  "run_state (query E pre g) s =
     (case stmt_fault E (ticks s) of
        Some e \<Rightarrow> (Inl (pre @ e), s\<lparr>ticks := Suc (ticks s)\<rparr>)
      | None \<Rightarrow> (Inr (g (now_at E (ticks s)) (adb s)), s\<lparr>ticks := Suc (ticks s)\<rparr>))"
  by (auto simp: query_def exec_def tick_def run_stmt_def run_state_bind split: option.splits)

lemma run_exec:
  "run_state (exec E pre f) s =
     (case stmt_fault E (ticks s) of
        Some e \<Rightarrow> (Inl (pre @ e), s\<lparr>ticks := Suc (ticks s)\<rparr>)
      | None \<Rightarrow> (case f (now_at E (ticks s)) (adb s) of
           (Inl e, d) \<Rightarrow> (Inl (pre @ e), s\<lparr>ticks := Suc (ticks s)\<rparr>)
         | (Inr x, d) \<Rightarrow> (Inr x, s\<lparr>ticks := Suc (ticks s), adb := d\<rparr>)))"
  by (auto simp: exec_def tick_def run_stmt_def run_state_bind split: option.splits prod.splits sum.splits)

lemma run_return [simp]: "run_state (State_Monad.return x) s = (x, s)"
  by (simp add: State_Monad.return_def)

lemma find_unique: "distinct (map k xs) \<Longrightarrow> x \<in> set xs \<Longrightarrow> List.find (\<lambda>y. k y = k x) xs = Some x"
  by (induction xs) (auto simp: image_iff)

text \<open>\<open>ORDER BY\<close> a text column, in the order of its bytes.\<close>

fun insert_by :: "('a \<Rightarrow> string) \<Rightarrow> 'a \<Rightarrow> 'a list \<Rightarrow> 'a list" where
  "insert_by k x [] = [x]"
| "insert_by k x (y # ys) = (if str_less (k y) (k x) then y # insert_by k x ys else x # y # ys)"

definition order_by :: "('a \<Rightarrow> string) \<Rightarrow> 'a list \<Rightarrow> 'a list" where
  "order_by k xs = foldr (insert_by k) xs []"

definition has_row :: "('a \<Rightarrow> bool) \<Rightarrow> 'a list \<Rightarrow> bool" where
  "has_row P xs \<longleftrightarrow> list_ex P xs"

section \<open>Settings\<close>

definition GetSetting :: "'e db_env_scheme \<Rightarrow> string \<Rightarrow> ('s db_state_scheme, string + string) state" where
  "GetSetting E k = query E (''failed to get setting '' @ k @ '': '')
     (\<lambda>_ d. case map_of (settings d) k of None \<Rightarrow> '''' | Some v \<Rightarrow> v)"

definition SetSetting :: "'e db_env_scheme \<Rightarrow> string \<Rightarrow> string \<Rightarrow> ('s db_state_scheme, string + unit) state" where
  "SetSetting E k v = exec E (''failed to set setting '' @ k @ '': '')
     (\<lambda>_ d. (Inr (), d\<lparr>settings := AList.update k v (settings d)\<rparr>))"

definition hex_digit :: "nat \<Rightarrow> char" where
  "hex_digit n = ''0123456789abcdef'' ! (n mod 16)"

definition hex_byte :: "char \<Rightarrow> string" where
  "hex_byte c = [hex_digit (of_char c div 16), hex_digit (of_char c)]"

definition hex_encode :: "string \<Rightarrow> string" where
  "hex_encode s = concat (map hex_byte s)"

definition uuid_format :: "string \<Rightarrow> string" where
  "uuid_format b =
     hex_encode (take 4 b) @ ''-'' @ hex_encode (take 2 (drop 4 b)) @ ''-'' @ hex_encode (take 2 (drop 6 b)) @ ''-'' @
     hex_encode (take 2 (drop 8 b)) @ ''-'' @ hex_encode (take 6 (drop 10 b))"

definition EnsureServiceUUID :: "'e db_env_scheme \<Rightarrow> ('s db_state_scheme, string + string) state" where
  "EnsureServiceUUID E = do {
     val \<leftarrow> GetSetting E ''service_uuid'';
     case val of
       Inl e \<Rightarrow> State_Monad.return (Inl e)
     | Inr v \<Rightarrow>
         if v \<noteq> '''' then State_Monad.return (Inr v)
         else do {
           b \<leftarrow> rand_bytes E 16;
           case b of
             Inl e \<Rightarrow> State_Monad.return (Inl (''failed to generate service uuid: '' @ e))
           | Inr bytes \<Rightarrow> do {
               r \<leftarrow> SetSetting E ''service_uuid'' (uuid_format bytes);
               State_Monad.return (case r of Inl e \<Rightarrow> Inl e | Inr _ \<Rightarrow> Inr (uuid_format bytes)) } } }"

section \<open>Users\<close>

definition GetUsers :: "'e db_env_scheme \<Rightarrow> ('s db_state_scheme, string + User list) state" where
  "GetUsers E = query E ''failed to query users: '' (\<lambda>_ d. order_by Username (users d))"

definition GetUser :: "'e db_env_scheme \<Rightarrow> string \<Rightarrow> ('s db_state_scheme, string + User option) state" where
  "GetUser E i = query E ''failed to get user: '' (\<lambda>_ d. List.find (\<lambda>u. UID u = i) (users d))"

definition GetUserByUsername :: "'e db_env_scheme \<Rightarrow> string \<Rightarrow> ('s db_state_scheme, string + User option) state" where
  "GetUserByUsername E name =
     query E ''failed to get user by username: '' (\<lambda>_ d. List.find (\<lambda>u. Username u = name) (users d))"

text \<open>\<open>CreateUser\<close>: the row gets its times from the database, the structure of the caller from the clock.\<close>

definition insert_user :: "User \<Rightarrow> time \<Rightarrow> agg_db \<Rightarrow> (string + unit) \<times> agg_db" where
  "insert_user u now d =
     (if has_row (\<lambda>v. UID v = UID u) (users d) then (Inl ''UNIQUE constraint failed: users.id'', d)
      else if has_row (\<lambda>v. Username v = Username u) (users d) then (Inl ''UNIQUE constraint failed: users.username'', d)
      else (Inr (), d\<lparr>users := users d @ [u\<lparr>UCreatedAt := current_timestamp now, UUpdatedAt := current_timestamp now\<rparr>]\<rparr>))"

definition CreateUser :: "'e db_env_scheme \<Rightarrow> User \<Rightarrow> ('s db_state_scheme, string + User) state" where
  "CreateUser E u = do {
     r \<leftarrow> exec E ''failed to create user: '' (insert_user u);
     case r of
       Inl e \<Rightarrow> State_Monad.return (Inl e)
     | Inr _ \<Rightarrow> do {
         t1 \<leftarrow> time_Now E;
         t2 \<leftarrow> time_Now E;
         State_Monad.return (Inr (u\<lparr>UCreatedAt := t1, UUpdatedAt := t2\<rparr>)) } }"

definition update_user :: "User \<Rightarrow> time \<Rightarrow> agg_db \<Rightarrow> (string + unit) \<times> agg_db" where
  "update_user u now d =
     (if has_row (\<lambda>v. UID v = UID u) (users d) \<and> has_row (\<lambda>v. UID v \<noteq> UID u \<and> Username v = Username u) (users d)
      then (Inl ''UNIQUE constraint failed: users.username'', d)
      else (Inr (), d\<lparr>users := upd_where (\<lambda>v. UID v = UID u)
              (\<lambda>v. v\<lparr>Username := Username u, PasswordHash := PasswordHash u, Role := Role u, UEnabled := UEnabled u,
                    UUpdatedAt := current_timestamp now\<rparr>) (users d)\<rparr>))"

definition UpdateUser :: "'e db_env_scheme \<Rightarrow> User \<Rightarrow> ('s db_state_scheme, string + unit) state" where
  "UpdateUser E u = exec E ''failed to update user: '' (update_user u)"

text \<open>Deleting a user deletes its sessions (\<open>ON DELETE CASCADE\<close>).\<close>

definition delete_user :: "string \<Rightarrow> agg_db \<Rightarrow> agg_db" where
  "delete_user i d = d\<lparr>users := filter (\<lambda>u. UID u \<noteq> i) (users d), sessions := filter (\<lambda>s. SUserID s \<noteq> i) (sessions d)\<rparr>"

definition DeleteUser :: "'e db_env_scheme \<Rightarrow> string \<Rightarrow> ('s db_state_scheme, string + unit) state" where
  "DeleteUser E i = exec E ''failed to delete user: '' (\<lambda>_ d. (Inr (), delete_user i d))"

definition CountUsers :: "'e db_env_scheme \<Rightarrow> ('s db_state_scheme, string + int) state" where
  "CountUsers E = query E ''failed to count users: '' (\<lambda>_ d. int (length (users d)))"

section \<open>Sessions\<close>

definition insert_session :: "Session \<Rightarrow> time \<Rightarrow> agg_db \<Rightarrow> (string + unit) \<times> agg_db" where
  "insert_session x now d =
     (if has_row (\<lambda>y. SID y = SID x) (sessions d) then (Inl ''UNIQUE constraint failed: sessions.id'', d)
      else if has_row (\<lambda>y. Token y = Token x) (sessions d) then (Inl ''UNIQUE constraint failed: sessions.token'', d)
      else if \<not> has_row (\<lambda>u. UID u = SUserID x) (users d) then (Inl ''FOREIGN KEY constraint failed'', d)
      else (Inr (), d\<lparr>sessions := sessions d @ [x\<lparr>SCreatedAt := current_timestamp now\<rparr>]\<rparr>))"

definition db_CreateSession :: "'e db_env_scheme \<Rightarrow> Session \<Rightarrow> ('s db_state_scheme, string + unit) state" where
  "db_CreateSession E x = exec E ''failed to create session: '' (insert_session x)"

definition GetSessionByToken :: "'e db_env_scheme \<Rightarrow> string \<Rightarrow> ('s db_state_scheme, string + Session option) state" where
  "GetSessionByToken E tok = query E ''failed to get session: ''
     (\<lambda>now d. List.find (\<lambda>x. Token x = tok \<and> sql_after E (ExpiresAt x) now) (sessions d))"

definition db_DeleteSession :: "'e db_env_scheme \<Rightarrow> string \<Rightarrow> ('s db_state_scheme, string + unit) state" where
  "db_DeleteSession E tok = exec E ''failed to delete session: ''
     (\<lambda>_ d. (Inr (), d\<lparr>sessions := filter (\<lambda>x. Token x \<noteq> tok) (sessions d)\<rparr>))"

definition CleanupExpiredSessions :: "'e db_env_scheme \<Rightarrow> ('s db_state_scheme, string + unit) state" where
  "CleanupExpiredSessions E = exec E ''failed to cleanup expired sessions: ''
     (\<lambda>now d. (Inr (), d\<lparr>sessions := filter (\<lambda>x. sql_after E (ExpiresAt x) now) (sessions d)\<rparr>))"

definition GetSession :: "'e db_env_scheme \<Rightarrow> string \<Rightarrow> ('s db_state_scheme, string + Session option) state" where
  "GetSession E i = query E ''failed to get session by id: ''
     (\<lambda>now d. List.find (\<lambda>x. SID x = i \<and> sql_after E (ExpiresAt x) now) (sessions d))"

text \<open>Newest first; sessions created in the same second come in the order of their rows.\<close>

definition GetSessions :: "'e db_env_scheme \<Rightarrow> ('s db_state_scheme, string + Session list) state" where
  "GetSessions E = query E ''failed to query sessions: ''
     (\<lambda>now d. sort_key (\<lambda>x. - SCreatedAt x) (filter (\<lambda>x. sql_after E (ExpiresAt x) now) (sessions d)))"

definition DeleteSessionByID :: "'e db_env_scheme \<Rightarrow> string \<Rightarrow> ('s db_state_scheme, string + unit) state" where
  "DeleteSessionByID E i = exec E ''failed to delete session by id: ''
     (\<lambda>_ d. (Inr (), d\<lparr>sessions := filter (\<lambda>x. SID x \<noteq> i) (sessions d)\<rparr>))"

section \<open>BMCs\<close>

definition read_bmc :: "'e db_env_scheme \<Rightarrow> BMC \<Rightarrow> BMC" where
  "read_bmc E b = b\<lparr>BPassword := decryptIfNeeded (crypt E) (encryptor E) (BPassword b)\<rparr>"

definition GetBMCs :: "'e db_env_scheme \<Rightarrow> ('s db_state_scheme, string + BMC list) state" where
  "GetBMCs E = query E ''failed to query BMCs: '' (\<lambda>_ d. map (read_bmc E) (order_by BName (bmcs d)))"

definition GetBMC :: "'e db_env_scheme \<Rightarrow> int \<Rightarrow> ('s db_state_scheme, string + BMC option) state" where
  "GetBMC E i = query E ''failed to get BMC: '' (\<lambda>_ d. map_option (read_bmc E) (List.find (\<lambda>b. BID b = i) (bmcs d)))"

definition GetBMCByName :: "'e db_env_scheme \<Rightarrow> string \<Rightarrow> ('s db_state_scheme, string + BMC option) state" where
  "GetBMCByName E name =
     query E ''failed to get BMC by name: '' (\<lambda>_ d. map_option (read_bmc E) (List.find (\<lambda>b. BName b = name) (bmcs d)))"

definition insert_bmc :: "BMC \<Rightarrow> string \<Rightarrow> time \<Rightarrow> agg_db \<Rightarrow> (string + int) \<times> agg_db" where
  "insert_bmc b password now d =
     (if has_row (\<lambda>c. BName c = BName b) (bmcs d) then (Inl ''UNIQUE constraint failed: bmcs.name'', d)
      else let i = last_bmc d + 1 in
           (Inr i, d\<lparr>last_bmc := i, bmcs := bmcs d @ [b\<lparr>BID := i, BPassword := password,
              BCreatedAt := current_timestamp now, BUpdatedAt := current_timestamp now, BLastSeen := None\<rparr>]\<rparr>))"

definition CreateBMC :: "'e db_env_scheme \<Rightarrow> BMC \<Rightarrow> ('s db_state_scheme, string + BMC) state" where
  "CreateBMC E b = do {
     nonce \<leftarrow> rand_bytes E NonceSize;
     case encryptIfConfigured (crypt E) (encryptor E) nonce (BPassword b) of
       Inl e \<Rightarrow> State_Monad.return (Inl (''failed to encrypt password: '' @ e))
     | Inr password \<Rightarrow> do {
         r \<leftarrow> exec E ''failed to create BMC: '' (insert_bmc b password);
         case r of
           Inl e \<Rightarrow> State_Monad.return (Inl e)
         | Inr i \<Rightarrow> do {
             t1 \<leftarrow> time_Now E;
             t2 \<leftarrow> time_Now E;
             State_Monad.return (Inr (b\<lparr>BID := i, BCreatedAt := t1, BUpdatedAt := t2\<rparr>)) } } }"

definition update_bmc :: "BMC \<Rightarrow> string \<Rightarrow> time \<Rightarrow> agg_db \<Rightarrow> (string + unit) \<times> agg_db" where
  "update_bmc b password now d =
     (if has_row (\<lambda>c. BID c = BID b) (bmcs d) \<and> has_row (\<lambda>c. BID c \<noteq> BID b \<and> BName c = BName b) (bmcs d)
      then (Inl ''UNIQUE constraint failed: bmcs.name'', d)
      else (Inr (), d\<lparr>bmcs := upd_where (\<lambda>c. BID c = BID b)
              (\<lambda>c. c\<lparr>BName := BName b, BAddress := BAddress b, BUsername := BUsername b, BPassword := password,
                    Description := Description b, BEnabled := BEnabled b, BUpdatedAt := current_timestamp now\<rparr>) (bmcs d)\<rparr>))"

definition UpdateBMC :: "'e db_env_scheme \<Rightarrow> BMC \<Rightarrow> ('s db_state_scheme, string + unit) state" where
  "UpdateBMC E b = do {
     nonce \<leftarrow> rand_bytes E NonceSize;
     case encryptIfConfigured (crypt E) (encryptor E) nonce (BPassword b) of
       Inl e \<Rightarrow> State_Monad.return (Inl (''failed to encrypt password: '' @ e))
     | Inr password \<Rightarrow> exec E ''failed to update BMC: '' (update_bmc b password) }"

text \<open>Deleting a BMC deletes its setting descriptors, and these their values (\<open>ON DELETE CASCADE\<close>).\<close>

definition delete_bmc :: "int \<Rightarrow> agg_db \<Rightarrow> agg_db" where
  "delete_bmc i d =
     (let rest = filter (\<lambda>r. r_bmc_id r \<noteq> i) (settings_descriptors d);
          gone = map r_id (filter (\<lambda>r. r_bmc_id r = i) (settings_descriptors d)) in
      d\<lparr>bmcs := filter (\<lambda>b. BID b \<noteq> i) (bmcs d), settings_descriptors := rest,
        settings_values := filter (\<lambda>v. v_descriptor_id v \<notin> set gone) (settings_values d)\<rparr>)"

definition DeleteBMC :: "'e db_env_scheme \<Rightarrow> int \<Rightarrow> ('s db_state_scheme, string + unit) state" where
  "DeleteBMC E i = exec E ''failed to delete BMC: '' (\<lambda>_ d. (Inr (), delete_bmc i d))"

definition UpdateBMCLastSeen :: "'e db_env_scheme \<Rightarrow> int \<Rightarrow> ('s db_state_scheme, string + unit) state" where
  "UpdateBMCLastSeen E i = exec E ''failed to update BMC last seen: ''
     (\<lambda>now d. (Inr (), d\<lparr>bmcs := upd_where (\<lambda>b. BID b = i) (\<lambda>b. b\<lparr>BLastSeen := Some (current_timestamp now)\<rparr>) (bmcs d)\<rparr>))"

section \<open>Connection methods\<close>

definition read_method :: "'e db_env_scheme \<Rightarrow> ConnectionMethod \<Rightarrow> ConnectionMethod" where
  "read_method E m = m\<lparr>MPassword := decryptIfNeeded (crypt E) (encryptor E) (MPassword m)\<rparr>"

definition GetConnectionMethods :: "'e db_env_scheme \<Rightarrow> ('s db_state_scheme, string + ConnectionMethod list) state" where
  "GetConnectionMethods E =
     query E ''failed to query connection methods: '' (\<lambda>_ d. map (read_method E) (order_by MName (connection_methods d)))"

definition GetConnectionMethod ::
  "'e db_env_scheme \<Rightarrow> string \<Rightarrow> ('s db_state_scheme, string + ConnectionMethod option) state" where
  "GetConnectionMethod E i = query E ''failed to get connection method: ''
     (\<lambda>_ d. map_option (read_method E) (List.find (\<lambda>m. MID m = i) (connection_methods d)))"

definition insert_method :: "ConnectionMethod \<Rightarrow> string \<Rightarrow> time \<Rightarrow> agg_db \<Rightarrow> (string + unit) \<times> agg_db" where
  "insert_method m password now d =
     (if has_row (\<lambda>x. MID x = MID m) (connection_methods d) then (Inl ''UNIQUE constraint failed: connection_methods.id'', d)
      else if has_row (\<lambda>x. MName x = MName m) (connection_methods d)
      then (Inl ''UNIQUE constraint failed: connection_methods.name'', d)
      else (Inr (), d\<lparr>connection_methods := connection_methods d @ [m\<lparr>MPassword := password,
              MCreatedAt := current_timestamp now, MUpdatedAt := current_timestamp now, MLastSeen := None\<rparr>]\<rparr>))"

definition CreateConnectionMethod ::
  "'e db_env_scheme \<Rightarrow> ConnectionMethod \<Rightarrow> ('s db_state_scheme, string + ConnectionMethod) state" where
  "CreateConnectionMethod E m = do {
     nonce \<leftarrow> rand_bytes E NonceSize;
     case encryptIfConfigured (crypt E) (encryptor E) nonce (MPassword m) of
       Inl e \<Rightarrow> State_Monad.return (Inl (''failed to encrypt connection method password: '' @ e))
     | Inr password \<Rightarrow> do {
         r \<leftarrow> exec E ''failed to create connection method: '' (insert_method m password);
         case r of
           Inl e \<Rightarrow> State_Monad.return (Inl e)
         | Inr _ \<Rightarrow> do {
             t1 \<leftarrow> time_Now E;
             t2 \<leftarrow> time_Now E;
             State_Monad.return (Inr (m\<lparr>MCreatedAt := t1, MUpdatedAt := t2\<rparr>)) } } }"

definition UpdateConnectionMethodAggregatedData ::
  "'e db_env_scheme \<Rightarrow> string \<Rightarrow> string \<Rightarrow> string \<Rightarrow> ('s db_state_scheme, string + unit) state" where
  "UpdateConnectionMethodAggregatedData E i managers systems =
     exec E ''failed to update connection method aggregated data: ''
       (\<lambda>now d. (Inr (), d\<lparr>connection_methods := upd_where (\<lambda>m. MID m = i)
          (\<lambda>m. m\<lparr>AggregatedManagers := managers, AggregatedSystems := systems, MUpdatedAt := current_timestamp now\<rparr>)
          (connection_methods d)\<rparr>))"

definition DeleteConnectionMethod :: "'e db_env_scheme \<Rightarrow> string \<Rightarrow> ('s db_state_scheme, string + unit) state" where
  "DeleteConnectionMethod E i = exec E ''failed to delete connection method: ''
     (\<lambda>_ d. (Inr (), d\<lparr>connection_methods := filter (\<lambda>m. MID m \<noteq> i) (connection_methods d)\<rparr>))"

definition UpdateConnectionMethodLastSeen :: "'e db_env_scheme \<Rightarrow> string \<Rightarrow> ('s db_state_scheme, string + unit) state" where
  "UpdateConnectionMethodLastSeen E i = exec E ''failed to update connection method last seen: ''
     (\<lambda>now d. (Inr (), d\<lparr>connection_methods := upd_where (\<lambda>m. MID m = i)
        (\<lambda>m. m\<lparr>MLastSeen := Some (current_timestamp now)\<rparr>) (connection_methods d)\<rparr>))"

end
