(* ===== verification/AggAuth.thy ===== *)
theory AggAuth
  imports AggDb
begin

text \<open>
  Users of the aggregator: passwords and roles (\<open>pkg/auth/password.go\<close>, \<open>pkg/auth/rbac.go\<close>) and the
  authenticator (\<open>internal/auth/auth.go\<close>). \<open>bcrypt\<close> is a parameter: the comparison of a hash with a
  password, and the hash generated at a tick.
\<close>

datatype bcrypt_verdict = Matches | Mismatched | BcryptFailed string

record auth_env = db_env +
  bcrypt_Compare :: "string \<Rightarrow> string \<Rightarrow> bcrypt_verdict"
  bcrypt_Generate :: "nat \<Rightarrow> string \<Rightarrow> int \<Rightarrow> string + string"

section \<open>Passwords\<close>

abbreviation DefaultCost :: int where "DefaultCost \<equiv> 12"

definition HashPassword :: "'e auth_env_scheme \<Rightarrow> string \<Rightarrow> ('s db_state_scheme, string + string) state" where
  "HashPassword E password =
     (if password = '''' then State_Monad.return (Inl ''password cannot be empty'')
      else do {
        n \<leftarrow> tick;
        State_Monad.return (case bcrypt_Generate E n password DefaultCost of
            Inl e \<Rightarrow> Inl (''failed to hash password: '' @ e)
          | Inr h \<Rightarrow> Inr h) })"

definition VerifyPassword :: "'e auth_env_scheme \<Rightarrow> string \<Rightarrow> string \<Rightarrow> string option" where
  "VerifyPassword E password hash =
     (if password = '''' \<or> hash = '''' then Some ''password and hash cannot be empty''
      else (case bcrypt_Compare E hash password of
              Matches \<Rightarrow> None
            | Mismatched \<Rightarrow> Some ''invalid password''
            | BcryptFailed e \<Rightarrow> Some (''failed to verify password: '' @ e)))"

definition isHashed :: "string \<Rightarrow> bool" where
  "isHashed s \<longleftrightarrow> length s \<ge> 60 \<and> s ! 0 = CHR ''$'' \<and> s ! 1 = CHR ''2'' \<and> s ! 2 \<in> {CHR ''a'', CHR ''b'', CHR ''y''} \<and> s ! 3 = CHR ''$''"

section \<open>Roles\<close>

definition IsAdmin :: "User \<Rightarrow> bool" where
  "IsAdmin u \<longleftrightarrow> Role u = RoleAdmin \<and> UEnabled u"

definition IsOperator :: "User \<Rightarrow> bool" where
  "IsOperator u \<longleftrightarrow> (Role u = RoleAdmin \<or> Role u = RoleOperator) \<and> UEnabled u"

definition GetRoleDisplayName :: "string \<Rightarrow> string" where
  "GetRoleDisplayName role =
     (if role = RoleAdmin then ''Administrator''
      else if role = RoleOperator then ''Operator''
      else if role = RoleViewer then ''Viewer''
      else ''Unknown'')"

section \<open>Authenticating a request\<close>

text \<open>\<open>http.Request.BasicAuth\<close>.\<close>

definition BasicAuth :: "request \<Rightarrow> (string \<times> string) option" where
  "BasicAuth r =
     (let a = Header r ''Authorization'' in
      if a = '''' \<or> length a < 6 \<or> map ascii_lower (take 6 a) \<noteq> ''basic '' then None
      else (case DecodeString StdEncoding (drop 6 a) of
              None \<Rightarrow> None
            | Some c \<Rightarrow> (case index_byte c CHR '':'' of None \<Rightarrow> None | Some i \<Rightarrow> Some (take i c, drop (Suc i) c))))"

definition AuthenticateToken :: "'e auth_env_scheme \<Rightarrow> string \<Rightarrow> ('s db_state_scheme, string + User) state" where
  "AuthenticateToken E tok = do {
     rs \<leftarrow> GetSessionByToken E tok;
     case rs of
       Inl e \<Rightarrow> State_Monad.return (Inl (''failed to get session: '' @ e))
     | Inr None \<Rightarrow> State_Monad.return (Inl ''invalid session token'')
     | Inr (Some x) \<Rightarrow> do {
         ru \<leftarrow> GetUser E (SUserID x);
         State_Monad.return (case ru of
             Inl e \<Rightarrow> Inl (''failed to get user: '' @ e)
           | Inr None \<Rightarrow> Inl ''user not found''
           | Inr (Some u) \<Rightarrow> if \<not> UEnabled u then Inl ''user is disabled'' else Inr u) } }"

definition authenticateBasic ::
  "'e auth_env_scheme \<Rightarrow> string \<Rightarrow> string \<Rightarrow> ('s db_state_scheme, string + User) state" where
  "authenticateBasic E username password = do {
     ru \<leftarrow> GetUserByUsername E username;
     State_Monad.return (case ru of
         Inl e \<Rightarrow> Inl (''failed to get user: '' @ e)
       | Inr None \<Rightarrow> Inl ''invalid credentials''
       | Inr (Some u) \<Rightarrow>
           if \<not> UEnabled u then Inl ''user is disabled''
           else (case VerifyPassword E password (PasswordHash u) of
                   Some e \<Rightarrow> Inl ''invalid credentials''
                 | None \<Rightarrow> Inr u)) }"

definition AuthenticateRequest :: "'e auth_env_scheme \<Rightarrow> request \<Rightarrow> ('s db_state_scheme, string + User) state" where
  "AuthenticateRequest E r =
     (if Header r ''X-Auth-Token'' \<noteq> '''' then AuthenticateToken E (Header r ''X-Auth-Token'')
      else (case BasicAuth r of
              Some (username, password) \<Rightarrow> authenticateBasic E username password
            | None \<Rightarrow> State_Monad.return (Inl ''no authentication provided'')))"

section \<open>Sessions\<close>

definition generateID :: "'e db_env_scheme \<Rightarrow> ('s db_state_scheme, string + string) state" where
  "generateID E = do { b \<leftarrow> rand_bytes E 16; State_Monad.return (case b of Inl e \<Rightarrow> Inl e | Inr bs \<Rightarrow> Inr (hex_encode bs)) }"

definition generateToken :: "'e db_env_scheme \<Rightarrow> ('s db_state_scheme, string + string) state" where
  "generateToken E = do {
     b \<leftarrow> rand_bytes E 32;
     State_Monad.return (case b of Inl e \<Rightarrow> Inl e | Inr bs \<Rightarrow> Inr (EncodeToString URLEncoding bs)) }"

definition CreateSession :: "'e auth_env_scheme \<Rightarrow> string \<Rightarrow> ('s db_state_scheme, string + Session) state" where
  "CreateSession E userID = do {
     ri \<leftarrow> generateID E;
     case ri of
       Inl e \<Rightarrow> State_Monad.return (Inl (''failed to generate session ID: '' @ e))
     | Inr sessionID \<Rightarrow> do {
         rt \<leftarrow> generateToken E;
         case rt of
           Inl e \<Rightarrow> State_Monad.return (Inl (''failed to generate token: '' @ e))
         | Inr tok \<Rightarrow> do {
             t1 \<leftarrow> time_Now E;
             t2 \<leftarrow> time_Now E;
             let x = \<lparr>SID = sessionID, SUserID = userID, Token = tok, ExpiresAt = t1 + 24 * time_Hour, SCreatedAt = t2\<rparr>;
             rc \<leftarrow> db_CreateSession E x;
             State_Monad.return (case rc of Inl e \<Rightarrow> Inl (''failed to create session: '' @ e) | Inr _ \<Rightarrow> Inr x) } } }"

definition DeleteSession :: "'e auth_env_scheme \<Rightarrow> string \<Rightarrow> ('s db_state_scheme, string + unit) state" where
  "DeleteSession E tok = db_DeleteSession E tok"

text \<open>\<open>RequireAuth\<close>; the handler gets the user.\<close>

definition auth_required :: response where
  "auth_required =
     \<lparr>RCode = StatusUnauthorized,
      RHeaders = [(''Content-Type'', ''application/json''), (''OData-Version'', ''4.0''),
        (''WWW-Authenticate'', ''Basic realm='' @ [CHR 0x22] @ ''Redfish'' @ [CHR 0x22])],
      RBody = JsonBody (JObj [(''error'', JObj [(''code'', JStr ''Base.1.0.Unauthorized''), (''message'', JStr ''Authentication required''),
        (''@Message.ExtendedInfo'', JArr [JObj [(''@odata.type'', JStr ''#Message.v1_1_0.Message''),
          (''MessageId'', JStr ''Base.1.0.Unauthorized''), (''Message'', JStr ''Authentication required''),
          (''Severity'', JStr ''Critical''), (''Resolution'', JStr ''Provide valid credentials and resubmit the request.'')]])])])\<rparr>"

definition RequireAuth ::
  "'e auth_env_scheme \<Rightarrow> (User \<Rightarrow> request \<Rightarrow> ('s db_state_scheme, response) state) \<Rightarrow> request \<Rightarrow> ('s db_state_scheme, response) state" where
  "RequireAuth E next r = do {
     u \<leftarrow> AuthenticateRequest E r;
     case u of Inl e \<Rightarrow> State_Monad.return auth_required | Inr user \<Rightarrow> next user r }"

end
