(* ===== verification/BmcService.thy ===== *)
theory BmcService
  imports AggAuth
begin

text \<open>
  The part of the BMC service (\<open>internal/bmc/service.go\<close>) the Redfish API of the aggregator uses:
  requests to BMCs, proxying, the cache of discovered ids, and connection methods.

  The BMCs and the network are a state \<open>'w\<close> that \<open>client_Do\<close> transforms; the requests sent are kept in
  \<open>outbound\<close>. A header is an association list from canonical names to values, as \<open>http.Header\<close> is a
  map. The full header of an incoming request is an argument (\<open>hdrs\<close>), since \<open>request\<close> only has the
  first value of each name. \<open>json.Marshal\<close> to text and back, and errors of \<open>http.NewRequest\<close> and of
  reading a body, are parameters. Printed values in error texts are abbreviated.
\<close>

type_synonym http_header = "(string \<times> string list) list"

record bmc_req =
  q_method :: string
  q_url :: string
  q_header :: http_header
  q_body :: raw_message

record bmc_resp =
  p_status :: int
  p_header :: http_header
  p_body :: string
  p_tree :: raw_message

record 'w svc_env = auth_env +
  client_Do :: "bmc_req \<Rightarrow> 'w \<Rightarrow> (string + bmc_resp) \<times> 'w"
  request_error :: "string \<Rightarrow> string \<Rightarrow> string option"
  read_error :: "request \<Rightarrow> string option"
  json_Marshal :: "json \<Rightarrow> string"
  json_Unmarshal :: "string \<Rightarrow> raw_message"

record bmcIDCache =
  managerID :: string
  systemID :: string
  vendor :: string
  cachedAt :: time

record 'w svc_state = db_state +
  idCache :: "string \<rightharpoonup> bmcIDCache"
  net :: 'w
  outbound :: "bmc_req list"

section \<open>Requests\<close>

definition header_add :: "string \<Rightarrow> string \<Rightarrow> http_header \<Rightarrow> http_header" where
  "header_add k v h = AList.update k (case map_of h k of None \<Rightarrow> [v] | Some vs \<Rightarrow> vs @ [v]) h"

definition header_set :: "string \<Rightarrow> string \<Rightarrow> http_header \<Rightarrow> http_header" where
  "header_set k v h = AList.update k [v] h"

definition SetBasicAuth :: "string \<Rightarrow> string \<Rightarrow> http_header \<Rightarrow> http_header" where
  "SetBasicAuth user pass = header_set ''Authorization'' (''Basic '' @ EncodeToString StdEncoding (user @ '':'' @ pass))"

definition buildBMCURL :: "BMC \<Rightarrow> string \<Rightarrow> string" where
  "buildBMCURL b path =
     (let a = BAddress b;
          a1 = (if \<not> has_prefix a ''http://'' \<and> \<not> has_prefix a ''https://'' then ''https://'' @ a else a);
          a2 = rev (dropWhile (\<lambda>c. c = CHR ''/'') (rev a1))
      in a2 @ (if has_prefix path ''/'' then path else ''/'' @ path))"

definition http_Do :: "('w, 'e) svc_env_scheme \<Rightarrow> bmc_req \<Rightarrow> (('w, 's) svc_state_scheme, string + bmc_resp) state" where
  "http_Do E q = State (\<lambda>s. case client_Do E q (net s) of (x, w) \<Rightarrow> (x, s\<lparr>net := w, outbound := outbound s @ [q]\<rparr>))"

definition copy_headers :: "http_header \<Rightarrow> http_header" where
  "copy_headers hdrs =
     fold (\<lambda>(k, vs) h. if to_lower k = ''authorization'' then h else fold (header_add k) vs h) hdrs []"

definition createProxyRequest ::
  "('w, 'e) svc_env_scheme \<Rightarrow> request \<Rightarrow> http_header \<Rightarrow> string \<Rightarrow> BMC \<Rightarrow> string + bmc_req" where
  "createProxyRequest E r hdrs targetURL b =
     (case read_error E r of
        Some e \<Rightarrow> Inl (''failed to read request body: '' @ e)
      | None \<Rightarrow>
          (case request_error E (Method r) targetURL of
             Some e \<Rightarrow> Inl (''failed to create proxy request: '' @ e)
           | None \<Rightarrow> Inr \<lparr>q_method = Method r, q_url = targetURL,
                          q_header = SetBasicAuth (BUsername b) (BPassword b) (copy_headers hdrs), q_body = Body r\<rparr>))"

definition newAuthedGET :: "('w, 'e) svc_env_scheme \<Rightarrow> BMC \<Rightarrow> string \<Rightarrow> string + bmc_req" where
  "newAuthedGET E b path =
     (let u = buildBMCURL b path in
      case request_error E ''GET'' u of
        Some e \<Rightarrow> Inl (''failed to create request: '' @ e)
      | None \<Rightarrow> Inr \<lparr>q_method = ''GET'', q_url = u,
          q_header = header_set ''Accept'' ''application/json'' (SetBasicAuth (BUsername b) (BPassword b) []), q_body = RawEmpty\<rparr>)"

text \<open>A decoded \<open>map[string]interface{}\<close>; \<open>None\<close> is the nil map that \<open>null\<close> decodes to.\<close>

type_synonym resource = "(string \<times> json) list option"

definition decode_resource :: "raw_message \<Rightarrow> resource option" where
  "decode_resource raw =
     (case raw of RawJson (JObj kvs) \<Rightarrow> Some (Some kvs) | RawJson JNull \<Rightarrow> Some None | _ \<Rightarrow> None)"

definition field :: "resource \<Rightarrow> string \<Rightarrow> json option" where
  "field m k = (case m of None \<Rightarrow> None | Some kvs \<Rightarrow> obj_get kvs k)"

definition fetchRedfishResource ::
  "('w, 'e) svc_env_scheme \<Rightarrow> BMC \<Rightarrow> string \<Rightarrow> (('w, 's) svc_state_scheme, string + resource) state" where
  "fetchRedfishResource E b path =
     (case newAuthedGET E b path of
        Inl e \<Rightarrow> State_Monad.return (Inl (''failed to create resource request: '' @ e))
      | Inr q \<Rightarrow> do {
          x \<leftarrow> http_Do E q;
          State_Monad.return (case x of
              Inl e \<Rightarrow> Inl (''failed to fetch resource: '' @ e)
            | Inr p \<Rightarrow>
                if p_status p \<noteq> StatusOK then Inl (''failed to fetch resource: status '' @ itoa (p_status p))
                else (case decode_resource (p_tree p) of None \<Rightarrow> Inl ''failed to decode resource'' | Some m \<Rightarrow> Inr m)) })"

section \<open>Proxying\<close>

definition ProxyRequest ::
  "('w, 'e) svc_env_scheme \<Rightarrow> string \<Rightarrow> string \<Rightarrow> request \<Rightarrow> http_header \<Rightarrow> (('w, 's) svc_state_scheme, string + bmc_resp) state" where
  "ProxyRequest E bmcName path r hdrs = do {
     rb \<leftarrow> GetBMCByName E bmcName;
     case rb of
       Inl e \<Rightarrow> State_Monad.return (Inl (''failed to get BMC: '' @ e))
     | Inr None \<Rightarrow> State_Monad.return (Inl (''BMC not found: '' @ bmcName))
     | Inr (Some b) \<Rightarrow>
         if \<not> BEnabled b then State_Monad.return (Inl (''BMC is disabled: '' @ bmcName))
         else (case createProxyRequest E r hdrs (buildBMCURL b path) b of
                 Inl e \<Rightarrow> State_Monad.return (Inl (''failed to create proxy request: '' @ e))
               | Inr q \<Rightarrow> do {
                   x \<leftarrow> http_Do E q;
                   case x of
                     Inl e \<Rightarrow> State_Monad.return (Inl (''failed to execute BMC request: '' @ e))
                   | Inr p \<Rightarrow> do { u \<leftarrow> UpdateBMCLastSeen E (BID b); State_Monad.return (Inr p) } }) }"

section \<open>Discovered ids\<close>

text \<open>The id in the first member of a collection, the fifth part of its path.\<close>

definition first_member_id :: "string \<Rightarrow> resource \<Rightarrow> string + string" where
  "first_member_id what m =
     (case field m ''Members'' of
        Some (JArr (first # rest)) \<Rightarrow>
          (case first of
             JObj kvs \<Rightarrow>
               (case obj_get kvs ''@odata.id'' of
                  None \<Rightarrow> Inl (''missing @odata.id field in '' @ what @ '' member'')
                | Some (JStr oid) \<Rightarrow>
                    if oid = '''' then Inl (''missing or invalid @odata.id in '' @ what @ '' member'')
                    else let parts = split_on CHR ''/'' oid in
                         if length parts \<ge> 5 then Inr (parts ! 4)
                         else Inl (''unable to parse '' @ what @ '' ID from @odata.id'')
                | Some _ \<Rightarrow> Inl (''missing or invalid @odata.id in '' @ what @ '' member''))
           | _ \<Rightarrow> Inl (''invalid '' @ what @ ''s payload''))
      | _ \<Rightarrow> Inl (''no '' @ what @ ''s found on BMC''))"

definition cached_entry :: "string \<Rightarrow> ('w, 's) svc_state_scheme \<Rightarrow> bmcIDCache" where
  "cached_entry name s = (case idCache s name of Some c \<Rightarrow> c | None \<Rightarrow> \<lparr>managerID = '''', systemID = '''', vendor = '''', cachedAt = 0\<rparr>)"

definition put_cache :: "string \<Rightarrow> (bmcIDCache \<Rightarrow> bmcIDCache) \<Rightarrow> (('w, 's) svc_state_scheme, unit) state" where
  "put_cache name f = State (\<lambda>s. ((), s\<lparr>idCache := (idCache s)(name \<mapsto> f (cached_entry name s))\<rparr>))"

text \<open>
  \<open>GetFirstManagerID\<close> and \<open>GetFirstSystemID\<close> differ in the collection, the word in the error texts and
  the field of the cache entry they use.
\<close>

definition get_first_id ::
  "('w, 'e) svc_env_scheme \<Rightarrow> (bmcIDCache \<Rightarrow> string) \<Rightarrow> (string \<Rightarrow> bmcIDCache \<Rightarrow> bmcIDCache) \<Rightarrow> string \<Rightarrow> string \<Rightarrow> string \<Rightarrow>
   (('w, 's) svc_state_scheme, string + string) state" where
  "get_first_id E sel upd what coll bmcName = do {
     now \<leftarrow> time_Now E;
     s \<leftarrow> State_Monad.get;
     let c = cached_entry bmcName s;
     if sel c \<noteq> '''' \<and> now - cachedAt c < 5 * time_Minute then State_Monad.return (Inr (sel c))
     else do {
       rb \<leftarrow> GetBMCByName E bmcName;
       case rb of
         Inl e \<Rightarrow> State_Monad.return (Inl (''failed to get BMC: '' @ e))
       | Inr None \<Rightarrow> State_Monad.return (Inl (''BMC not found: '' @ bmcName))
       | Inr (Some b) \<Rightarrow> do {
           rd \<leftarrow> fetchRedfishResource E b coll;
           case rd of
             Inl e \<Rightarrow> State_Monad.return (Inl (''failed to get '' @ what @ ''s: '' @ e))
           | Inr m \<Rightarrow>
               (case first_member_id what m of
                  Inl e \<Rightarrow> State_Monad.return (Inl e)
                | Inr i \<Rightarrow> do {
                    t \<leftarrow> time_Now E;
                    u \<leftarrow> put_cache bmcName (\<lambda>c. (upd i c)\<lparr>cachedAt := t\<rparr>);
                    State_Monad.return (Inr i) }) } } }"

definition GetFirstManagerID ::
  "('w, 'e) svc_env_scheme \<Rightarrow> string \<Rightarrow> (('w, 's) svc_state_scheme, string + string) state" where
  "GetFirstManagerID E = get_first_id E managerID (\<lambda>i c. c\<lparr>managerID := i\<rparr>) ''manager'' ''/redfish/v1/Managers''"

definition GetFirstSystemID ::
  "('w, 'e) svc_env_scheme \<Rightarrow> string \<Rightarrow> (('w, 's) svc_state_scheme, string + string) state" where
  "GetFirstSystemID E = get_first_id E systemID (\<lambda>i c. c\<lparr>systemID := i\<rparr>) ''system'' ''/redfish/v1/Systems''"

section \<open>Connection methods\<close>

definition TestConnection :: "('w, 'e) svc_env_scheme \<Rightarrow> BMC \<Rightarrow> (('w, 's) svc_state_scheme, string option) state" where
  "TestConnection E b =
     (let u = buildBMCURL b ''/redfish/v1/'' in
      case request_error E ''GET'' u of
        Some e \<Rightarrow> State_Monad.return (Some (''failed to create test request: '' @ e))
      | None \<Rightarrow> do {
          x \<leftarrow> http_Do E \<lparr>q_method = ''GET'', q_url = u, q_header = SetBasicAuth (BUsername b) (BPassword b) [], q_body = RawEmpty\<rparr>;
          State_Monad.return (case x of
              Inl e \<Rightarrow> Some (''failed to connect to BMC: '' @ e)
            | Inr p \<Rightarrow>
                if p_status p = StatusUnauthorized then Some ''authentication failed''
                else if p_status p \<ge> 400 then Some (''BMC returned error status: '' @ itoa (p_status p))
                else None) })"

text \<open>The resources behind the members of a collection; those that cannot be fetched are skipped.\<close>

fun fetch_members ::
  "('w, 'e) svc_env_scheme \<Rightarrow> BMC \<Rightarrow> json list \<Rightarrow> (('w, 's) svc_state_scheme, json list) state" where
  "fetch_members E b [] = State_Monad.return []"
| "fetch_members E b (m # ms) =
     (case m of
        JObj kvs \<Rightarrow>
          (case obj_get kvs ''@odata.id'' of
             Some (JStr oid) \<Rightarrow> do {
               x \<leftarrow> fetchRedfishResource E b oid;
               rest \<leftarrow> fetch_members E b ms;
               State_Monad.return ((case x of Inr (Some d) \<Rightarrow> [JObj d] | _ \<Rightarrow> []) @ rest) }
           | _ \<Rightarrow> fetch_members E b ms)
      | _ \<Rightarrow> fetch_members E b ms)"

definition fetch_collection ::
  "('w, 'e) svc_env_scheme \<Rightarrow> BMC \<Rightarrow> string \<Rightarrow> (('w, 's) svc_state_scheme, json list option) state" where
  "fetch_collection E b coll =
     (let u = buildBMCURL b coll in
      case request_error E ''GET'' u of
        Some e \<Rightarrow> State_Monad.return None
      | None \<Rightarrow> do {
          x \<leftarrow> http_Do E \<lparr>q_method = ''GET'', q_url = u,
            q_header = header_set ''Accept'' ''application/json'' (SetBasicAuth (BUsername b) (BPassword b) []), q_body = RawEmpty\<rparr>;
          case x of
            Inl e \<Rightarrow> State_Monad.return None
          | Inr p \<Rightarrow>
              (case (if p_status p = StatusOK then decode_resource (p_tree p) else None) of
                 None \<Rightarrow> State_Monad.return (Some [])
               | Some m \<Rightarrow>
                   (case field m ''Members'' of
                      Some (JArr ms) \<Rightarrow> do { rs \<leftarrow> fetch_members E b ms; State_Monad.return (Some rs) }
                    | _ \<Rightarrow> State_Monad.return (Some []))) })"

text \<open>\<open>FetchAggregatedData\<close>: managers and systems; when a collection cannot be requested, what was found before.\<close>

definition FetchAggregatedData ::
  "('w, 'e) svc_env_scheme \<Rightarrow> BMC \<Rightarrow> (('w, 's) svc_state_scheme, json list \<times> json list) state" where
  "FetchAggregatedData E b = do {
     ms \<leftarrow> fetch_collection E b ''/redfish/v1/Managers'';
     case ms of
       None \<Rightarrow> State_Monad.return ([], [])
     | Some managers \<Rightarrow> do {
         ss \<leftarrow> fetch_collection E b ''/redfish/v1/Systems'';
         State_Monad.return (managers, (case ss of None \<Rightarrow> [] | Some systems \<Rightarrow> systems)) } }"

definition marshal_list :: "('w, 'e) svc_env_scheme \<Rightarrow> json list \<Rightarrow> string" where
  "marshal_list E xs = (if xs = [] then '''' else json_Marshal E (JArr xs))"

definition AddConnectionMethod ::
  "('w, 'e) svc_env_scheme \<Rightarrow> string \<Rightarrow> string \<Rightarrow> string \<Rightarrow> string \<Rightarrow> (('w, 's) svc_state_scheme, string + ConnectionMethod) state" where
  "AddConnectionMethod E name address username password = do {
     now \<leftarrow> time_Now E;
     let testBMC = \<lparr>BID = 0, BName = '''', BAddress = address, BUsername = username, BPassword = password, Description = '''',
                    BEnabled = False, BCreatedAt = 0, BUpdatedAt = 0, BLastSeen = None\<rparr>;
     err \<leftarrow> TestConnection E testBMC;
     case err of
       Some e \<Rightarrow> State_Monad.return (Inl (''failed to connect to BMC: '' @ e))
     | None \<Rightarrow> do {
         ag \<leftarrow> FetchAggregatedData E testBMC;
         r \<leftarrow> CreateConnectionMethod E
           \<lparr>MID = ''cm-'' @ itoa now, MName = name, ConnectionMethodType = ''Redfish'', MAddress = address, MUsername = username,
            MPassword = password, MEnabled = True, MCreatedAt = 0, MUpdatedAt = 0, MLastSeen = None,
            AggregatedManagers = marshal_list E (fst ag), AggregatedSystems = marshal_list E (snd ag)\<rparr>;
         State_Monad.return (case r of Inl e \<Rightarrow> Inl (''failed to create connection method: '' @ e) | Inr m \<Rightarrow> Inr m) } }"

definition RemoveConnectionMethod :: "('w, 'e) svc_env_scheme \<Rightarrow> string \<Rightarrow> (('w, 's) svc_state_scheme, string + unit) state" where
  "RemoveConnectionMethod E i = DeleteConnectionMethod E i"

end
