(* ===== verification/Paths.thy ===== *)
theory Paths
  imports Prelude
begin

text \<open>
  \<open>path.Clean\<close> and \<open>path.Join\<close> (\<open>filepath\<close>'s on Unix are the same functions), by elements: empty
  elements and \<open>.\<close> are dropped, \<open>..\<close> removes the element before it, and at the root it is dropped.
\<close>

fun clean_elems :: "bool \<Rightarrow> string list \<Rightarrow> string list \<Rightarrow> string list" where
  "clean_elems rooted st [] = rev st"
| "clean_elems rooted st (e # es) =
     (if e = [] \<or> e = ''.'' then clean_elems rooted st es
      else if e = ''..'' then
        (case st of
           [] \<Rightarrow> clean_elems rooted (if rooted then [] else [''..'']) es
         | t # ts \<Rightarrow> clean_elems rooted (if t = ''..'' then ''..'' # st else ts) es)
      else clean_elems rooted (e # st) es)"

definition path_clean :: "string \<Rightarrow> string" where
  "path_clean p =
     (if has_prefix p ''/'' then CHR ''/'' # join_with ''/'' (clean_elems True [] (split_on CHR ''/'' p))
      else if clean_elems False [] (split_on CHR ''/'' p) = [] then ''.''
      else join_with ''/'' (clean_elems False [] (split_on CHR ''/'' p)))"

definition path_join :: "string list \<Rightarrow> string" where
  "path_join es =
     (if filter (\<lambda>e. e \<noteq> []) es = [] then []
      else path_clean (join_with ''/'' (filter (\<lambda>e. e \<noteq> []) es)))"

text \<open>An element that \<open>Clean\<close> leaves alone.\<close>

definition plain_elem :: "string \<Rightarrow> bool" where
  "plain_elem e \<longleftrightarrow> e \<noteq> [] \<and> e \<noteq> ''.'' \<and> e \<noteq> ''..'' \<and> CHR ''/'' \<notin> set e"

lemma plain_elemD:
  "plain_elem e \<Longrightarrow> e \<noteq> [] \<and> e \<noteq> ''.'' \<and> e \<noteq> ''..'' \<and> CHR ''/'' \<notin> set e"
  by (simp add: plain_elem_def)

lemma clean_elems_plain:
  "(\<And>e. e \<in> set es \<Longrightarrow> plain_elem e) \<Longrightarrow> clean_elems r st es = rev st @ es"
  by (induction es arbitrary: st) (auto dest: plain_elemD)

lemma clean_elems_empty: "clean_elems r st ([] # es) = clean_elems r st es"
  by simp

lemma split_rooted:
  assumes "es \<noteq> []" "\<And>e. e \<in> set es \<Longrightarrow> plain_elem e"
  shows "split_on CHR ''/'' (CHR ''/'' # join_with ''/'' es) = [] # es"
  using split_on_join [of es "CHR ''/''"] assms by (auto dest: plain_elemD)

lemma path_clean_rooted:
  assumes "\<And>e. e \<in> set es \<Longrightarrow> plain_elem e"
  shows "path_clean (CHR ''/'' # join_with ''/'' es) = CHR ''/'' # join_with ''/'' es"
proof (cases "es = []")
  case True
  show ?thesis by (simp add: True path_clean_def)
next
  case False
  show ?thesis
    using split_rooted [OF False assms] clean_elems_plain [OF assms, where r = True and st = "[]"]
    by (simp add: path_clean_def del: split_on.simps)
qed

lemma join_with_append:
  "xs \<noteq> [] \<Longrightarrow> ys \<noteq> [] \<Longrightarrow> join_with d (xs @ ys) = join_with d xs @ d @ join_with d ys"
proof (induction xs)
  case Nil
  then show ?case by simp
next
  case (Cons a xs)
  then show ?case by (cases "xs = []") (auto simp: join_with_Cons)
qed

text \<open>Joining plain elements to a clean rooted directory only appends them.\<close>

lemma path_join_rooted:
  assumes "\<And>e. e \<in> set ds \<Longrightarrow> plain_elem e" and "\<And>e. e \<in> set es \<Longrightarrow> plain_elem e"
    and "ds \<noteq> []" and "es \<noteq> []"
  shows "path_join ((CHR ''/'' # join_with ''/'' ds) # es) = CHR ''/'' # join_with ''/'' (ds @ es)"
proof -
  have f: "filter (\<lambda>e. e \<noteq> []) es = es"
    using assms(2) by (auto simp: filter_id_conv dest: plain_elemD)
  have j: "join_with ''/'' ((CHR ''/'' # join_with ''/'' ds) # es) = CHR ''/'' # join_with ''/'' (ds @ es)"
    using assms(3,4) by (simp add: join_with_Cons join_with_append)
  have "path_join ((CHR ''/'' # join_with ''/'' ds) # es) = path_clean (CHR ''/'' # join_with ''/'' (ds @ es))"
    unfolding path_join_def using f j by simp
  also have "\<dots> = CHR ''/'' # join_with ''/'' (ds @ es)"
    by (rule path_clean_rooted) (use assms in auto)
  finally show ?thesis .
qed

section \<open>Cleaning twice\<close>

lemma clean_elems_append: "clean_elems r st (a @ b) = clean_elems r (rev (clean_elems r st a)) b"
  by (induction a arbitrary: st) (auto split: list.split)

lemma clean_push_pop: "x \<noteq> [] \<Longrightarrow> x \<noteq> ''.'' \<Longrightarrow> x \<noteq> ''..'' \<Longrightarrow> clean_elems r st (x # ''..'' # es) = clean_elems r st es"
  by simp

text \<open>What \<open>Clean\<close> leaves of a relative path resolves to the same elements as the path itself.\<close>

lemma clean_relative_again:
  "(\<And>x. x \<in> set t \<Longrightarrow> x \<noteq> [] \<and> x \<noteq> ''.'') \<Longrightarrow> clean_elems True st (clean_elems False t es) = clean_elems True st (rev t @ es)"
proof (induction es arbitrary: t)
  case Nil
  show ?case by simp
next
  case (Cons e es)
  consider "e = [] \<or> e = ''.''" | "e = ''..''" "t = []" | xs where "e = ''..''" "t = ''..'' # xs"
    | x xs where "e = ''..''" "t = x # xs" "x \<noteq> ''..''" | "e \<noteq> []" "e \<noteq> ''.''" "e \<noteq> ''..''"
    by (cases t) auto
  then show ?case
  proof cases
    case 1
    with Cons show ?thesis by (auto simp: clean_elems_append)
  next
    case 4
    with Cons.prems have "x \<noteq> []" "x \<noteq> ''.''" by auto
    with 4 Cons.IH [of xs] Cons.prems show ?thesis by (simp add: clean_elems_append [of True st "rev xs"])
  next
    case 5
    then have "clean_elems False t (e # es) = clean_elems False (e # t) es" by simp
    with 5 Cons.IH [of "e # t"] Cons.prems show ?thesis by auto
  qed (use Cons.IH [of "''..'' # t"] Cons.prems in auto)
qed

lemma clean_rooted_again:
  "(\<And>x. x \<in> set t \<Longrightarrow> x \<noteq> [] \<and> x \<noteq> ''.'' \<and> x \<noteq> ''..'') \<Longrightarrow> clean_elems True [] (clean_elems True t es) = clean_elems True [] (rev t @ es)"
proof (induction es arbitrary: t)
  case Nil
  show ?case by simp
next
  case (Cons e es)
  consider "e = [] \<or> e = ''.''" | "e = ''..''" "t = []" | x xs where "e = ''..''" "t = x # xs" | "e \<noteq> []" "e \<noteq> ''.''" "e \<noteq> ''..''"
    by (cases t) auto
  then show ?case
  proof cases
    case 1
    with Cons show ?thesis by (auto simp: clean_elems_append)
  next
    case 3
    with Cons.prems have "x \<noteq> []" "x \<noteq> ''.''" "x \<noteq> ''..''" by auto
    with 3 Cons.IH [of xs] Cons.prems show ?thesis by (simp add: clean_elems_append [of True "[]" "rev xs"])
  next
    case 4
    then have "clean_elems True t (e # es) = clean_elems True (e # t) es" by simp
    with 4 Cons.IH [of "e # t"] Cons.prems show ?thesis by auto
  qed (use Cons.IH [of "[]"] in simp)
qed

lemma clean_elems_set:
  "x \<in> set (clean_elems r st es) \<Longrightarrow> x \<in> set st \<or> x = ''..'' \<or> x \<in> set es \<and> x \<noteq> []"
proof (induction es arbitrary: st)
  case (Cons e es)
  then show ?case
    using Cons.IH [of st] Cons.IH [of "e # st"] Cons.IH [of "[''..'']"] Cons.IH [of "[]"] Cons.IH [of "''..'' # st"] Cons.IH [of "tl st"]
    by (cases st) (auto split: if_splits)
qed simp

lemma split_join_plain:
  assumes "es \<noteq> []" "\<And>e. e \<in> set es \<Longrightarrow> plain_elem e"
  shows "split_on CHR ''/'' (join_with ''/'' (p # es)) = split_on CHR ''/'' p @ es"
  using assms split_on_append_sep [of "CHR ''/''" p "join_with ''/'' es"] split_on_join [of es "CHR ''/''"]
  by (auto simp: join_with_Cons dest: plain_elemD)

end
