(* ===== verification/Mux.thy ===== *)
theory Mux
  imports Http Paths
begin

text \<open>
  \<open>http.ServeMux\<close> for the patterns the programs register (no methods, hosts or wildcards): the longest
  matching pattern wins, a path that is not clean is redirected, and so is a path for which only
  the pattern with a slash appended is registered. Paths are the decoded ones and need no escaping.
\<close>

definition cleanPath :: "string \<Rightarrow> string" where
  "cleanPath p =
     (if p = '''' then ''/''
      else let q = (if has_prefix p ''/'' then p else ''/'' @ p); np = path_clean q
           in if has_suffix q ''/'' \<and> np \<noteq> ''/'' then np @ ''/'' else np)"

definition pattern_matches :: "string \<Rightarrow> string \<Rightarrow> bool" where
  "pattern_matches pat p \<longleftrightarrow> (if has_suffix pat ''/'' then has_prefix p pat else p = pat)"

fun longest :: "string list \<Rightarrow> string option" where
  "longest [] = None"
| "longest (p # ps) = (case longest ps of None \<Rightarrow> Some p | Some q \<Rightarrow> Some (if length q < length p then p else q))"

definition mux_match :: "string list \<Rightarrow> string \<Rightarrow> string option" where
  "mux_match pats p = longest (filter (\<lambda>pat. pattern_matches pat p) pats)"

datatype routed = Redirect string | Routed string | Unrouted

definition mux_route :: "string list \<Rightarrow> request \<Rightarrow> routed" where
  "mux_route pats r =
     (let p = (if Method r = ''CONNECT'' then URLPath r else cleanPath (URLPath r)) in
      if mux_match pats p \<noteq> Some p \<and> \<not> has_suffix p ''/'' \<and> mux_match pats (p @ ''/'') = Some (p @ ''/'')
      then Redirect (cleanPath (URLPath r) @ ''/'')
      else if p \<noteq> URLPath r then Redirect p
      else (case mux_match pats p of None \<Rightarrow> Unrouted | Some pat \<Rightarrow> Routed pat))"

definition redirect_response :: "string \<Rightarrow> response" where
  "redirect_response u = \<lparr>RCode = 301, RHeaders = [(''Location'', u)], RBody = NoBody\<rparr>"

lemma longest_mem: "longest ps = Some p \<Longrightarrow> p \<in> set ps"
  by (induction ps arbitrary: p) (auto split: option.splits if_splits)

lemma mux_match_Some: "mux_match pats p = Some pat \<Longrightarrow> pat \<in> set pats \<and> pattern_matches pat p"
  by (auto simp: mux_match_def dest: longest_mem)

lemma mux_route_Routed:
  "mux_route pats r = Routed pat \<Longrightarrow> pat \<in> set pats \<and> pattern_matches pat (URLPath r)"
  by (auto simp: mux_route_def Let_def dest: mux_match_Some split: if_splits option.splits)

end
