(* ===== verification/AggApi.thy ===== *)
theory AggApi
  imports BmcService Mux
begin

text \<open>
  The Redfish API of the aggregator (\<open>internal/api\<close>): routing, sessions, accounts, connection methods,
  collections, the proxy to managed BMCs, and the metadata files.

  A handler runs in the state of the BMC service. The header of a request in full is the argument
  \<open>hdrs\<close>. Embedded files are the functions \<open>static_file\<close> and \<open>static_files\<close> (in the order of
  \<open>fs.WalkDir\<close>). Bodies of responses are JSON trees: members of Go maps in the order of their keys,
  members of structs in the order of their fields. The correlation id, which only reaches log
  lines, is left out.
\<close>

record 'w api_env = "'w svc_env" +
  static_file :: "string \<Rightarrow> string option"
  static_files :: "string list"

type_synonym 'w api = "('w svc_state, response) state"

section \<open>ETags\<close>

abbreviation dquote :: char where "dquote \<equiv> CHR 0x22"

definition rfSHA256Sum :: "'e db_env_scheme \<Rightarrow> string \<Rightarrow> string" where
  "rfSHA256Sum E b = hex_encode (sha256_Sum (crypt E) b)"

definition rfComputeETag :: "'e db_env_scheme \<Rightarrow> string \<Rightarrow> string" where
  "rfComputeETag E b = [dquote] @ ''sha256-'' @ rfSHA256Sum E b @ [dquote]"

definition rfWeakETag :: "'e db_env_scheme \<Rightarrow> string list \<Rightarrow> string" where
  "rfWeakETag E parts =
     ''W/'' @ [dquote] @ ''sha256-'' @ rfSHA256Sum E (if parts = [] then [] else join_with [CHR 0x1F] parts) @ [dquote]"

text \<open>The zero \<open>time.Time\<close> is the first instant of the year 1.\<close>

definition IsZero :: "time \<Rightarrow> bool" where
  "IsZero t \<longleftrightarrow> t = - 62135596800000000000"

definition rfFormatTimeForETag :: "time \<Rightarrow> string" where
  "rfFormatTimeForETag t = (if IsZero t then ''0'' else rfc3339 t)"

definition rfIfNoneMatchMatches :: "string \<Rightarrow> string \<Rightarrow> bool" where
  "rfIfNoneMatchMatches ifNoneMatch etag =
     (let s = trim_space ifNoneMatch in
      if s = '''' then False
      else if s = ''*'' then True
      else list_ex (\<lambda>p. let v = trim_space p in
             v = etag \<or> has_prefix v ''W/'' \<and> trim_space (trim_prefix v ''W/'') = etag) (split_on CHR '','' s))"

definition stamp :: "time \<Rightarrow> time \<Rightarrow> time" where
  "stamp updated created = (if IsZero updated then created else updated)"

definition FormatBool :: "bool \<Rightarrow> string" where
  "FormatBool b = (if b then ''true'' else ''false'')"

definition accountETag :: "'e db_env_scheme \<Rightarrow> User \<Rightarrow> string" where
  "accountETag E u = rfWeakETag E
     [''account'', UID u, rfFormatTimeForETag (stamp (UUpdatedAt u) (UCreatedAt u)), Username u, Role u, FormatBool (UEnabled u)]"

definition accountsCollectionETag :: "'e db_env_scheme \<Rightarrow> User list \<Rightarrow> string" where
  "accountsCollectionETag E us = rfWeakETag E (''accounts'' # concat (map (\<lambda>u.
     [UID u, rfFormatTimeForETag (stamp (UUpdatedAt u) (UCreatedAt u)), Username u, Role u, FormatBool (UEnabled u)]) us))"

definition connectionMethodETag :: "'e db_env_scheme \<Rightarrow> ConnectionMethod \<Rightarrow> string" where
  "connectionMethodETag E m = rfWeakETag E
     [''connection-method'', MID m, rfFormatTimeForETag (stamp (MUpdatedAt m) (MCreatedAt m)), FormatBool (MEnabled m), MName m]"

definition connectionMethodsCollectionETag :: "'e db_env_scheme \<Rightarrow> ConnectionMethod list \<Rightarrow> string" where
  "connectionMethodsCollectionETag E ms = rfWeakETag E (''connection-methods'' # concat (map (\<lambda>m.
     [MID m, rfFormatTimeForETag (stamp (MUpdatedAt m) (MCreatedAt m))]) ms))"

section \<open>Responses\<close>

text \<open>\<open>rfWriteJSONResponseWithETag\<close> without a request, on a writer that has the headers \<open>pre\<close> set.\<close>

definition json_response :: "(string \<times> string) list \<Rightarrow> int \<Rightarrow> json \<Rightarrow> string \<Rightarrow> response" where
  "json_response pre status v etag =
     \<lparr>RCode = status,
      RHeaders = pre @ (if etag \<noteq> '''' then [(''ETag'', etag)] else []) @
        [(''Content-Type'', ''application/json''), (''OData-Version'', ''4.0'')],
      RBody = JsonBody v\<rparr>"

definition not_modified :: "string \<Rightarrow> response" where
  "not_modified etag = \<lparr>RCode = 304, RHeaders = [(''ETag'', etag)], RBody = NoBody\<rparr>"

text \<open>The pattern of the handlers that send an ETag: 304 when the client has it.\<close>

definition conditional :: "request \<Rightarrow> json \<Rightarrow> string \<Rightarrow> response" where
  "conditional r v etag =
     (if Header r ''If-None-Match'' \<noteq> '''' \<and> rfIfNoneMatchMatches (Header r ''If-None-Match'') etag
      then not_modified etag else json_response [] StatusOK v etag)"

definition rfWriteAllow :: "string list \<Rightarrow> response" where
  "rfWriteAllow methods =
     \<lparr>RCode = StatusNoContent,
      RHeaders = [(''Allow'', join_with '', '' (rev (remdups (rev methods)))), (''OData-Version'', ''4.0'')], RBody = NoBody\<rparr>"

definition no_content :: response where
  "no_content = \<lparr>RCode = StatusNoContent, RHeaders = [], RBody = NoBody\<rparr>"

definition rfValidMessageIDs :: "string list" where
  "rfValidMessageIDs = map (\<lambda>m. ''Base.1.0.'' @ m)
     [''GeneralError'', ''ResourceNotFound'', ''MethodNotAllowed'', ''Unauthorized'', ''InternalError'', ''InsufficientPrivilege'',
      ''MalformedJSON'', ''PropertyMissing'', ''PropertyValueNotInList'', ''ResourceCannotBeCreated'', ''NotImplemented'']"

definition rfSeverityForStatus :: "int \<Rightarrow> string" where
  "rfSeverityForStatus status =
     (if status \<ge> 500 then ''Critical''
      else if status = StatusUnauthorized \<or> status = StatusForbidden then ''Critical''
      else if status = StatusNotFound \<or> status = StatusMethodNotAllowed \<or> status = StatusBadRequest \<or> status = 409 then ''Warning''
      else ''OK'')"

definition rfResolutionForMessageID :: "string \<Rightarrow> string" where
  "rfResolutionForMessageID msgID =
     (if msgID = ''Base.1.0.ResourceNotFound'' then ''Provide a valid resource identifier and resubmit the request.''
      else if msgID = ''Base.1.0.MethodNotAllowed'' then ''Use an allowed HTTP method for the target resource and resubmit the request.''
      else if msgID = ''Base.1.0.Unauthorized'' then ''Provide valid credentials and resubmit the request.''
      else if msgID = ''Base.1.0.InsufficientPrivilege'' then ''Resubmit the request using an account with the required privileges.''
      else if msgID = ''Base.1.0.MalformedJSON'' then ''Correct the JSON payload formatting and resubmit the request.''
      else if msgID = ''Base.1.0.PropertyMissing'' then ''Include all required properties in the request and resubmit.''
      else if msgID = ''Base.1.0.PropertyValueNotInList'' then ''Use a supported value for the property and resubmit the request.''
      else if msgID = ''Base.1.0.ResourceCannotBeCreated'' then ''Verify the request data and permissions, correct any issues, and resubmit.''
      else if msgID = ''Base.1.0.NotImplemented'' then ''Remove the unsupported operation from the request or await a future implementation.''
      else ''Retry the operation; if the problem persists, contact the service provider.'')"

definition rfWriteErrorResponse :: "int \<Rightarrow> string \<Rightarrow> string \<Rightarrow> response" where
  "rfWriteErrorResponse status code message =
     (let messageID = (if code \<in> set rfValidMessageIDs then code else ''Base.1.0.GeneralError'') in
      json_response
        (if status = StatusUnauthorized then [(''WWW-Authenticate'', ''Basic realm='' @ [dquote] @ ''Redfish'' @ [dquote])] else [])
        status
        (JObj [(''error'', JObj [
           (''@Message.ExtendedInfo'', JArr [JObj [(''@odata.type'', JStr ''#Message.v1_1_0.Message''), (''Message'', JStr message),
              (''MessageId'', JStr messageID), (''Resolution'', JStr (rfResolutionForMessageID messageID)),
              (''Severity'', JStr (rfSeverityForStatus status))]]),
           (''code'', JStr code), (''message'', JStr message)])])
        '''')"

abbreviation not_allowed :: response where
  "not_allowed \<equiv> rfWriteErrorResponse StatusMethodNotAllowed ''Base.1.0.MethodNotAllowed'' ''Method not allowed''"
abbreviation not_found :: "string \<Rightarrow> response" where
  "not_found msg \<equiv> rfWriteErrorResponse StatusNotFound ''Base.1.0.ResourceNotFound'' msg"
abbreviation internal_error :: "string \<Rightarrow> response" where
  "internal_error msg \<equiv> rfWriteErrorResponse StatusInternalServerError ''Base.1.0.InternalError'' msg"
abbreviation unauthorized :: "string \<Rightarrow> response" where
  "unauthorized msg \<equiv> rfWriteErrorResponse StatusUnauthorized ''Base.1.0.Unauthorized'' msg"
abbreviation malformed :: response where
  "malformed \<equiv> rfWriteErrorResponse StatusBadRequest ''Base.1.0.MalformedJSON'' ''Invalid JSON in request body''"
abbreviation forbidden :: response where
  "forbidden \<equiv> rfWriteErrorResponse StatusForbidden ''Base.1.0.InsufficientPrivilege'' ''Administrator privilege required''"

definition odata_ref :: "string \<Rightarrow> json" where
  "odata_ref i = JObj [(''@odata.id'', JStr i)]"

text \<open>A nil slice of members is encoded as \<open>null\<close>.\<close>

definition collection_json :: "string \<Rightarrow> string \<Rightarrow> string \<Rightarrow> string \<Rightarrow> string list \<Rightarrow> json" where
  "collection_json context i kind name members =
     JObj [(''@odata.context'', JStr context), (''@odata.id'', JStr i), (''@odata.type'', JStr kind), (''Name'', JStr name),
       (''Members'', if members = [] then JNull else JArr (map odata_ref members)),
       (''Members@odata.count'', JNum (of_nat (length members)))]"

definition resource_head :: "string \<Rightarrow> string \<Rightarrow> string \<Rightarrow> string \<Rightarrow> string \<Rightarrow> (string \<times> json) list" where
  "resource_head context i kind ident name =
     [(''@odata.context'', JStr context), (''@odata.id'', JStr i), (''@odata.type'', JStr kind), (''Id'', JStr ident), (''Name'', JStr name)]"

text \<open>A resource that can only be read.\<close>

definition get_only :: "request \<Rightarrow> 'w api \<Rightarrow> 'w api" where
  "get_only r m =
     (if Method r = ''OPTIONS'' then State_Monad.return (rfWriteAllow [''GET''])
      else if Method r \<noteq> ''GET'' then State_Monad.return not_allowed
      else m)"


definition trim_slashes :: "string \<Rightarrow> string" where
  "trim_slashes s = rev (dropWhile (\<lambda>c. c = CHR ''/'') (rev (dropWhile (\<lambda>c. c = CHR ''/'') s)))"

section \<open>Service root and stubs\<close>

definition service_root_json :: "string \<Rightarrow> json" where
  "service_root_json uuid =
     JObj (resource_head ''/redfish/v1/$metadata#ServiceRoot.ServiceRoot'' ''/redfish/v1/'' ''#ServiceRoot.v1_5_0.ServiceRoot''
         ''RootService'' ''Shoal Redfish Aggregator'' @
       [(''RedfishVersion'', JStr ''1.6.0''), (''UUID'', JStr uuid),
        (''Systems'', odata_ref ''/redfish/v1/Systems''), (''Managers'', odata_ref ''/redfish/v1/Managers''),
        (''SessionService'', odata_ref ''/redfish/v1/SessionService''),
        (''AggregationService'', odata_ref ''/redfish/v1/AggregationService''),
        (''Registries'', odata_ref ''/redfish/v1/Registries''), (''JsonSchemas'', odata_ref ''/redfish/v1/SchemaStore''),
        (''AccountService'', odata_ref ''/redfish/v1/AccountService''), (''EventService'', odata_ref ''/redfish/v1/EventService''),
        (''TaskService'', odata_ref ''/redfish/v1/TaskService''),
        (''Links'', JObj [(''Sessions'', odata_ref ''/redfish/v1/SessionService/Sessions'')])])"

definition handleServiceRoot :: "('w, 'e) svc_env_scheme \<Rightarrow> request \<Rightarrow> 'w api" where
  "handleServiceRoot E r = get_only r (do {
     uuid \<leftarrow> EnsureServiceUUID E;
     State_Monad.return (json_response [] StatusOK (service_root_json (case uuid of Inl e \<Rightarrow> '''' | Inr u \<Rightarrow> u)) '''') })"

definition event_service_json :: json where
  "event_service_json =
     JObj (resource_head ''/redfish/v1/$metadata#EventService.EventService'' ''/redfish/v1/EventService''
         ''#EventService.v1_0_0.EventService'' ''EventService'' ''Event Service'' @ [(''ServiceEnabled'', JBool False)])"

definition handleEventService :: "request \<Rightarrow> string \<Rightarrow> 'w api" where
  "handleEventService r path =
     (let subPath = trim_prefix path ''/v1/EventService'' in
      if subPath = '''' \<or> subPath = ''/'' then get_only r (State_Monad.return (json_response [] StatusOK event_service_json ''''))
      else State_Monad.return (not_found ''Resource not found''))"

definition task_service_json :: json where
  "task_service_json =
     JObj (resource_head ''/redfish/v1/$metadata#TaskService.TaskService'' ''/redfish/v1/TaskService''
         ''#TaskService.v1_0_0.TaskService'' ''TaskService'' ''Task Service'' @ [(''Tasks'', odata_ref ''/redfish/v1/TaskService/Tasks'')])"

text \<open>The empty, but not nil, slice of tasks is encoded as \<open>[]\<close>.\<close>

definition tasks_json :: json where
  "tasks_json =
     JObj [(''@odata.context'', JStr ''/redfish/v1/$metadata#TaskCollection.TaskCollection''),
       (''@odata.id'', JStr ''/redfish/v1/TaskService/Tasks''), (''@odata.type'', JStr ''#TaskCollection.TaskCollection''),
       (''Name'', JStr ''Task Collection''), (''Members'', JArr []), (''Members@odata.count'', JNum 0)]"

definition handleTaskService :: "request \<Rightarrow> string \<Rightarrow> 'w api" where
  "handleTaskService r path =
     (let subPath = trim_prefix path ''/v1/TaskService'' in
      if subPath = '''' \<or> subPath = ''/'' then get_only r (State_Monad.return (json_response [] StatusOK task_service_json ''''))
      else if subPath = ''/Tasks'' \<or> subPath = ''/Tasks/'' then get_only r (State_Monad.return (json_response [] StatusOK tasks_json ''''))
      else State_Monad.return (not_found ''Resource not found''))"

section \<open>Sessions\<close>

record login_req =
  lr_Username :: string
  lr_Password :: string

text \<open>\<open>json.NewDecoder(r.Body).Decode\<close> into a struct.\<close>

definition decode_body :: "(string \<Rightarrow> json \<Rightarrow> 'a \<Rightarrow> 'a option) \<Rightarrow> 'a \<Rightarrow> raw_message \<Rightarrow> 'a option" where
  "decode_body h x raw = (case raw of RawJson v \<Rightarrow> decode_object h v x | _ \<Rightarrow> None)"

definition decode_login :: "raw_message \<Rightarrow> login_req option" where
  "decode_login = decode_body (\<lambda>k v x.
     if equal_fold k ''UserName'' then map_option (\<lambda>y. x\<lparr>lr_Username := y\<rparr>) (decode_str v (lr_Username x))
     else if equal_fold k ''Password'' then map_option (\<lambda>y. x\<lparr>lr_Password := y\<rparr>) (decode_str v (lr_Password x))
     else Some x) \<lparr>lr_Username = '''', lr_Password = ''''\<rparr>"

definition session_path :: "string \<Rightarrow> string" where
  "session_path i = ''/redfish/v1/SessionService/Sessions/'' @ i"

definition session_json :: "string \<Rightarrow> string \<Rightarrow> json" where
  "session_json i username =
     JObj (resource_head ''/redfish/v1/$metadata#Session.Session'' (session_path i) ''#Session.v1_0_0.Session'' i ''User Session'' @
       [(''UserName'', JStr username)])"

definition handleLogin :: "('w, 'e) svc_env_scheme \<Rightarrow> request \<Rightarrow> 'w api" where
  "handleLogin E r =
     (if Method r \<noteq> ''POST'' then State_Monad.return not_allowed
      else (case decode_login (Body r) of
              None \<Rightarrow> State_Monad.return malformed
            | Some req \<Rightarrow> do {
                u \<leftarrow> authenticateBasic E (lr_Username req) (lr_Password req);
                case u of
                  Inl e \<Rightarrow> State_Monad.return (unauthorized ''Invalid credentials'')
                | Inr user \<Rightarrow> do {
                    x \<leftarrow> CreateSession E (UID user);
                    State_Monad.return (case x of
                        Inl e \<Rightarrow> internal_error ''Failed to create session''
                      | Inr s \<Rightarrow>
                          json_response [(''X-Auth-Token'', Token s), (''Location'', session_path (SID s))]
                            StatusCreated (session_json (SID s) (Username user)) '''') } }))"

definition session_service_json :: json where
  "session_service_json =
     JObj (resource_head ''/redfish/v1/$metadata#SessionService.SessionService'' ''/redfish/v1/SessionService''
         ''#SessionService.v1_0_0.SessionService'' ''SessionService'' ''Session Service'' @
       [(''Description'', JStr ''User Session Service''), (''ServiceEnabled'', JBool True), (''SessionTimeout'', JNum 1800),
        (''Sessions'', odata_ref ''/redfish/v1/SessionService/Sessions'')])"

definition handleGetSessionServiceRoot :: "'w api" where
  "handleGetSessionServiceRoot = State_Monad.return (json_response [] StatusOK session_service_json '''')"

definition handleGetSessionsCollection :: "('w, 'e) svc_env_scheme \<Rightarrow> 'w api" where
  "handleGetSessionsCollection E = do {
     xs \<leftarrow> GetSessions E;
     State_Monad.return (case xs of
         Inl e \<Rightarrow> internal_error ''Failed to retrieve sessions''
       | Inr ss \<Rightarrow> json_response [] StatusOK
           (collection_json ''/redfish/v1/$metadata#SessionCollection.SessionCollection'' ''/redfish/v1/SessionService/Sessions''
              ''#SessionCollection.SessionCollection'' ''Session Collection'' (map (\<lambda>s. session_path (SID s)) ss)) '''') }"

definition handleGetSession :: "('w, 'e) svc_env_scheme \<Rightarrow> string \<Rightarrow> 'w api" where
  "handleGetSession E i = do {
     x \<leftarrow> GetSession E i;
     case x of
       Inl e \<Rightarrow> State_Monad.return (internal_error ''Failed to retrieve session'')
     | Inr None \<Rightarrow> State_Monad.return (not_found ''Session not found'')
     | Inr (Some s) \<Rightarrow> do {
         u \<leftarrow> GetUser E (SUserID s);
         State_Monad.return (case u of
             Inr (Some user) \<Rightarrow> json_response [] StatusOK (session_json (SID s) (Username user)) ''''
           | _ \<Rightarrow> internal_error ''Failed to retrieve session user'') } }"

definition handleDeleteSession :: "('w, 'e) svc_env_scheme \<Rightarrow> string \<Rightarrow> 'w api" where
  "handleDeleteSession E i = do {
     x \<leftarrow> DeleteSessionByID E i;
     State_Monad.return (case x of Inl e \<Rightarrow> internal_error ''Failed to delete session'' | Inr _ \<Rightarrow> no_content) }"

text \<open>What an authenticated request to the session service does.\<close>

definition session_resource :: "('w, 'e) svc_env_scheme \<Rightarrow> request \<Rightarrow> string \<Rightarrow> 'w api" where
  "session_resource E r subPath =
     (if subPath = '''' \<or> subPath = ''/'' then
        (if Method r \<noteq> ''GET'' then State_Monad.return not_allowed else handleGetSessionServiceRoot)
      else if subPath = ''/Sessions'' \<or> subPath = ''/Sessions/'' then
        (if Method r = ''GET'' then handleGetSessionsCollection E else State_Monad.return not_allowed)
      else if has_prefix subPath ''/Sessions/'' then
        (let i = trim_slashes (trim_prefix subPath ''/Sessions/'') in
         if i = '''' then State_Monad.return (not_found ''Session not found'')
         else if Method r = ''GET'' then handleGetSession E i
         else if Method r = ''DELETE'' then handleDeleteSession E i
         else State_Monad.return not_allowed)
      else State_Monad.return (not_found ''Resource not found''))"

definition session_options :: "string \<Rightarrow> string list option" where
  "session_options subPath =
     (if subPath = '''' \<or> subPath = ''/'' then Some [''GET'']
      else if subPath = ''/Sessions'' \<or> subPath = ''/Sessions/'' then Some [''GET'', ''POST'']
      else if has_prefix subPath ''/Sessions/'' then Some [''GET'', ''DELETE'']
      else None)"

definition handleSessionService :: "('w, 'e) svc_env_scheme \<Rightarrow> request \<Rightarrow> string \<Rightarrow> 'w api" where
  "handleSessionService E r path =
     (let subPath = trim_prefix path ''/v1/SessionService'' in
      if Method r = ''OPTIONS'' \<and> session_options subPath \<noteq> None
      then State_Monad.return (rfWriteAllow (the (session_options subPath)))
      else if (subPath = ''/Sessions'' \<or> subPath = ''/Sessions/'') \<and> Method r = ''POST'' then handleLogin E r
      else do {
        u \<leftarrow> AuthenticateRequest E r;
        case u of
          Inl e \<Rightarrow> State_Monad.return (unauthorized ''Authentication required'')
        | Inr user \<Rightarrow> session_resource E r subPath })"


section \<open>Accounts\<close>

definition redfishRoleFromModels :: "string \<Rightarrow> string" where
  "redfishRoleFromModels role =
     (if role = RoleAdmin then ''Administrator'' else if role = RoleOperator then ''Operator'' else ''ReadOnly'')"

definition modelsRoleFromRedfish :: "string \<Rightarrow> string option" where
  "modelsRoleFromRedfish roleID =
     (let l = to_lower roleID in
      if l = ''administrator'' then Some RoleAdmin
      else if l = ''operator'' then Some RoleOperator
      else if l \<in> {''readonly'', ''read-only'', ''read_only'', ''viewer''} then Some RoleViewer
      else None)"

definition account_path :: "string \<Rightarrow> string" where
  "account_path i = ''/redfish/v1/AccountService/Accounts/'' @ i"

definition toRedfishAccount :: "User \<Rightarrow> json" where
  "toRedfishAccount u =
     JObj (resource_head ''/redfish/v1/$metadata#ManagerAccount.ManagerAccount'' (account_path (UID u))
         ''#ManagerAccount.v1_0_0.ManagerAccount'' (UID u) ''User Account'' @
       [(''UserName'', JStr (Username u)), (''RoleId'', JStr (redfishRoleFromModels (Role u))), (''Enabled'', JBool (UEnabled u))])"

definition handleGetAccountsCollection :: "('w, 'e) svc_env_scheme \<Rightarrow> request \<Rightarrow> 'w api" where
  "handleGetAccountsCollection E r = do {
     us \<leftarrow> GetUsers E;
     State_Monad.return (case us of
         Inl e \<Rightarrow> internal_error ''Failed to retrieve users''
       | Inr us \<Rightarrow> conditional r
           (collection_json ''/redfish/v1/$metadata#ManagerAccountCollection.ManagerAccountCollection'' ''/redfish/v1/AccountService/Accounts''
              ''#ManagerAccountCollection.ManagerAccountCollection'' ''Manager Account Collection'' (map (\<lambda>u. account_path (UID u)) us))
           (accountsCollectionETag E us)) }"

record account_req =
  ar_UserName :: string
  ar_RoleID :: string
  ar_Password :: string
  ar_Enabled :: "bool option"

text \<open>A field of pointer type is set to nil by \<open>null\<close>.\<close>

definition decode_flag_ptr :: "json \<Rightarrow> bool option option" where
  "decode_flag_ptr v = (case v of JBool b \<Rightarrow> Some (Some b) | JNull \<Rightarrow> Some None | _ \<Rightarrow> None)"

definition decode_account :: "raw_message \<Rightarrow> account_req option" where
  "decode_account = decode_body (\<lambda>k v x.
     if equal_fold k ''UserName'' then map_option (\<lambda>y. x\<lparr>ar_UserName := y\<rparr>) (decode_str v (ar_UserName x))
     else if equal_fold k ''RoleId'' then map_option (\<lambda>y. x\<lparr>ar_RoleID := y\<rparr>) (decode_str v (ar_RoleID x))
     else if equal_fold k ''Password'' then map_option (\<lambda>y. x\<lparr>ar_Password := y\<rparr>) (decode_str v (ar_Password x))
     else if equal_fold k ''Enabled'' then map_option (\<lambda>y. x\<lparr>ar_Enabled := y\<rparr>) (decode_flag_ptr v)
     else Some x) \<lparr>ar_UserName = '''', ar_RoleID = '''', ar_Password = '''', ar_Enabled = None\<rparr>"

text \<open>The last part of \<open>handleCreateAccount\<close>: hash, id, insertion and answer.\<close>

definition create_account :: "('w, 'e) svc_env_scheme \<Rightarrow> account_req \<Rightarrow> string \<Rightarrow> 'w api" where
  "create_account E req role = do {
     h \<leftarrow> HashPassword E (ar_Password req);
     case h of
       Inl e \<Rightarrow> State_Monad.return (internal_error ''Failed to create account'')
     | Inr pwHash \<Rightarrow> do {
         b \<leftarrow> rand_bytes E 16;
         case b of
           Inl e \<Rightarrow> State_Monad.return (internal_error ''Failed to create account'')
         | Inr idBytes \<Rightarrow> do {
             c \<leftarrow> CreateUser E \<lparr>UID = hex_encode idBytes, Username = ar_UserName req, PasswordHash = pwHash, Role = role,
               UEnabled = (case ar_Enabled req of None \<Rightarrow> True | Some e \<Rightarrow> e), UCreatedAt = 0, UUpdatedAt = 0\<rparr>;
             State_Monad.return (case c of
                 Inl e \<Rightarrow> internal_error ''Failed to create account''
               | Inr u \<Rightarrow> json_response [(''Location'', account_path (UID u))] StatusCreated (toRedfishAccount u) (accountETag E u)) } } }"

definition handleCreateAccount :: "('w, 'e) svc_env_scheme \<Rightarrow> request \<Rightarrow> 'w api" where
  "handleCreateAccount E r =
     (case decode_account (Body r) of
        None \<Rightarrow> State_Monad.return malformed
      | Some req \<Rightarrow>
          if trim_space (ar_UserName req) = '''' \<or> ar_Password req = '''' \<or> trim_space (ar_RoleID req) = ''''
          then State_Monad.return (rfWriteErrorResponse StatusBadRequest ''Base.1.0.PropertyMissing'' ''UserName, Password and RoleId are required'')
          else do {
            ex \<leftarrow> GetUserByUsername E (ar_UserName req);
            case ex of
              Inr (Some u) \<Rightarrow> State_Monad.return (rfWriteErrorResponse 409 ''Base.1.0.ResourceCannotBeCreated'' ''Username already exists'')
            | _ \<Rightarrow>
                (case modelsRoleFromRedfish (ar_RoleID req) of
                   None \<Rightarrow> State_Monad.return (rfWriteErrorResponse StatusBadRequest ''Base.1.0.PropertyValueNotInList'' ''Unsupported RoleId'')
                 | Some role \<Rightarrow> create_account E req role) })"

definition handleGetAccount :: "('w, 'e) svc_env_scheme \<Rightarrow> request \<Rightarrow> string \<Rightarrow> 'w api" where
  "handleGetAccount E r i = do {
     u \<leftarrow> GetUser E i;
     State_Monad.return (case u of
         Inl e \<Rightarrow> internal_error ''Failed to retrieve account''
       | Inr None \<Rightarrow> not_found ''Account not found''
       | Inr (Some u) \<Rightarrow> conditional r (toRedfishAccount u) (accountETag E u)) }"

text \<open>The body of a patch as \<open>map[string]any\<close>.\<close>

definition decode_patch :: "raw_message \<Rightarrow> (string \<times> json) list option" where
  "decode_patch raw = (case raw of RawJson (JObj kvs) \<Rightarrow> Some kvs | RawJson JNull \<Rightarrow> Some [] | _ \<Rightarrow> None)"

text \<open>\<open>handlePatchAccount\<close> in its order: user name, enabled, role, password, the guard for \<open>admin\<close>, update, reload.\<close>

definition save_account :: "('w, 'e) svc_env_scheme \<Rightarrow> string \<Rightarrow> User \<Rightarrow> 'w api" where
  "save_account E i u =
     (if Username u = ''admin'' \<and> \<not> UEnabled u
      then State_Monad.return (rfWriteErrorResponse StatusBadRequest ''Base.1.0.GeneralError'' ''Cannot disable admin user'')
      else do {
        x \<leftarrow> UpdateUser E u;
        case x of
          Inl e \<Rightarrow> State_Monad.return (internal_error ''Failed to update account'')
        | Inr _ \<Rightarrow> do {
            y \<leftarrow> GetUser E i;
            State_Monad.return (case y of
                Inr (Some updated) \<Rightarrow> json_response [] StatusOK (toRedfishAccount updated) (accountETag E updated)
              | _ \<Rightarrow> internal_error ''Failed to reload account'') } })"

definition patch_password :: "('w, 'e) svc_env_scheme \<Rightarrow> string \<Rightarrow> (string \<times> json) list \<Rightarrow> User \<Rightarrow> 'w api" where
  "patch_password E i patch u =
     (case obj_get patch ''Password'' of
        Some (JStr v) \<Rightarrow>
          if v = '''' then save_account E i u
          else do {
            h \<leftarrow> HashPassword E v;
            case h of
              Inl e \<Rightarrow> State_Monad.return (internal_error ''Failed to update account'')
            | Inr pwHash \<Rightarrow> save_account E i (u\<lparr>PasswordHash := pwHash\<rparr>) }
      | _ \<Rightarrow> save_account E i u)"

definition patch_role :: "('w, 'e) svc_env_scheme \<Rightarrow> string \<Rightarrow> (string \<times> json) list \<Rightarrow> User \<Rightarrow> 'w api" where
  "patch_role E i patch u =
     (case obj_get patch ''RoleId'' of
        Some (JStr v) \<Rightarrow>
          (case modelsRoleFromRedfish v of
             None \<Rightarrow> State_Monad.return (rfWriteErrorResponse StatusBadRequest ''Base.1.0.PropertyValueNotInList'' ''Unsupported RoleId'')
           | Some role \<Rightarrow> patch_password E i patch (u\<lparr>Role := role\<rparr>))
      | _ \<Rightarrow> patch_password E i patch u)"

definition patch_enabled :: "(string \<times> json) list \<Rightarrow> User \<Rightarrow> User" where
  "patch_enabled patch u = (case obj_get patch ''Enabled'' of Some (JBool v) \<Rightarrow> u\<lparr>UEnabled := v\<rparr> | _ \<Rightarrow> u)"

definition patch_account :: "('w, 'e) svc_env_scheme \<Rightarrow> string \<Rightarrow> (string \<times> json) list \<Rightarrow> User \<Rightarrow> 'w api" where
  "patch_account E i patch u =
     (case obj_get patch ''UserName'' of
        Some (JStr v) \<Rightarrow>
          if trim_space v = '''' then patch_role E i patch (patch_enabled patch u)
          else do {
            ex \<leftarrow> GetUserByUsername E v;
            if (case ex of Inr (Some x) \<Rightarrow> UID x \<noteq> UID u | _ \<Rightarrow> False)
            then State_Monad.return (rfWriteErrorResponse 409 ''Base.1.0.ResourceCannotBeCreated'' ''Username already exists'')
            else patch_role E i patch (patch_enabled patch (u\<lparr>Username := v\<rparr>)) }
      | _ \<Rightarrow> patch_role E i patch (patch_enabled patch u))"

definition handlePatchAccount :: "('w, 'e) svc_env_scheme \<Rightarrow> request \<Rightarrow> string \<Rightarrow> 'w api" where
  "handlePatchAccount E r i = do {
     x \<leftarrow> GetUser E i;
     case x of
       Inr (Some u) \<Rightarrow>
         (case decode_patch (Body r) of
            None \<Rightarrow> State_Monad.return malformed
          | Some patch \<Rightarrow> patch_account E i patch u)
     | _ \<Rightarrow> State_Monad.return (not_found ''Account not found'') }"

definition handleDeleteAccount :: "('w, 'e) svc_env_scheme \<Rightarrow> string \<Rightarrow> 'w api" where
  "handleDeleteAccount E i = do {
     x \<leftarrow> GetUser E i;
     case x of
       Inr (Some u) \<Rightarrow>
         if Username u = ''admin''
         then State_Monad.return (rfWriteErrorResponse StatusBadRequest ''Base.1.0.GeneralError'' ''Cannot delete admin user'')
         else do {
           y \<leftarrow> DeleteUser E i;
           State_Monad.return (case y of Inl e \<Rightarrow> internal_error ''Failed to delete account'' | Inr _ \<Rightarrow> no_content) }
     | _ \<Rightarrow> State_Monad.return (not_found ''Account not found'') }"

definition roles_json :: json where
  "roles_json = collection_json ''/redfish/v1/$metadata#RoleCollection.RoleCollection'' ''/redfish/v1/AccountService/Roles''
     ''#RoleCollection.RoleCollection'' ''Role Collection''
     (map (\<lambda>i. ''/redfish/v1/AccountService/Roles/'' @ i) [''Administrator'', ''Operator'', ''ReadOnly''])"

definition role_json :: "string \<Rightarrow> string list \<Rightarrow> json" where
  "role_json i privileges =
     JObj (resource_head ''/redfish/v1/$metadata#Role.Role'' (''/redfish/v1/AccountService/Roles/'' @ i) ''#Role.v1_0_0.Role'' i i @
       [(''IsPredefined'', JBool True), (''AssignedPrivileges'', JArr (map JStr privileges))])"

definition handleGetRole :: "string \<Rightarrow> response" where
  "handleGetRole roleID =
     (let norm = to_lower roleID in
      if norm = ''administrator'' then json_response [] StatusOK
        (role_json ''Administrator'' [''Login'', ''ConfigureManager'', ''ConfigureUsers'', ''ConfigureComponents'', ''ConfigureSelf'']) ''''
      else if norm = ''operator'' then json_response [] StatusOK
        (role_json ''Operator'' [''Login'', ''ConfigureComponents'', ''ConfigureSelf'']) ''''
      else if norm \<in> {''readonly'', ''read-only'', ''read_only'', ''viewer''} then json_response [] StatusOK
        (role_json ''ReadOnly'' [''Login'', ''ConfigureSelf'']) ''''
      else not_found ''Role not found'')"

definition account_service_json :: json where
  "account_service_json =
     JObj (resource_head ''/redfish/v1/$metadata#AccountService.AccountService'' ''/redfish/v1/AccountService''
         ''#AccountService.v1_0_0.AccountService'' ''AccountService'' ''Account Service'' @
       [(''ServiceEnabled'', JBool True), (''Accounts'', odata_ref ''/redfish/v1/AccountService/Accounts''),
        (''Roles'', odata_ref ''/redfish/v1/AccountService/Roles'')])"

definition accounts_collection :: "('w, 'e) svc_env_scheme \<Rightarrow> request \<Rightarrow> User \<Rightarrow> 'w api" where
  "accounts_collection E r user =
     (if Method r = ''OPTIONS'' then State_Monad.return (rfWriteAllow [''GET'', ''POST''])
      else if Method r = ''GET'' then (if \<not> IsAdmin user then State_Monad.return forbidden else handleGetAccountsCollection E r)
      else if Method r = ''POST'' then (if \<not> IsAdmin user then State_Monad.return forbidden else handleCreateAccount E r)
      else State_Monad.return not_allowed)"

definition account_resource :: "('w, 'e) svc_env_scheme \<Rightarrow> request \<Rightarrow> User \<Rightarrow> string \<Rightarrow> 'w api" where
  "account_resource E r user i =
     (if Method r = ''OPTIONS'' then State_Monad.return (rfWriteAllow [''GET'', ''PATCH'', ''DELETE''])
      else if \<not> IsAdmin user then State_Monad.return forbidden
      else if i = '''' then State_Monad.return (not_found ''Account not found'')
      else if Method r = ''GET'' then handleGetAccount E r i
      else if Method r = ''PATCH'' then handlePatchAccount E r i
      else if Method r = ''DELETE'' then handleDeleteAccount E i
      else State_Monad.return not_allowed)"

definition handleAccountService :: "('w, 'e) svc_env_scheme \<Rightarrow> request \<Rightarrow> string \<Rightarrow> User \<Rightarrow> 'w api" where
  "handleAccountService E r path user =
     (let subPath = trim_prefix path ''/v1/AccountService'' in
      if subPath = '''' \<or> subPath = ''/'' then get_only r (State_Monad.return (json_response [] StatusOK account_service_json ''''))
      else if subPath = ''/Accounts'' \<or> subPath = ''/Accounts/'' then accounts_collection E r user
      else if has_prefix subPath ''/Accounts/'' then
        account_resource E r user (trim_slashes (trim_prefix subPath ''/Accounts/''))
      else if subPath = ''/Roles'' \<or> subPath = ''/Roles/'' then
        get_only r (State_Monad.return (json_response [] StatusOK roles_json ''''))
      else if has_prefix subPath ''/Roles/'' then
        get_only r (State_Monad.return (handleGetRole (trim_slashes (trim_prefix subPath ''/Roles/''))))
      else State_Monad.return (not_found ''Resource not found''))"


section \<open>Connection methods\<close>

definition method_path :: "string \<Rightarrow> string" where
  "method_path i = ''/redfish/v1/AggregationService/ConnectionMethods/'' @ i"

definition method_json :: "ConnectionMethod \<Rightarrow> json" where
  "method_json m =
     JObj (resource_head ''/redfish/v1/$metadata#ConnectionMethod.ConnectionMethod'' (method_path (MID m))
         ''#ConnectionMethod.v1_0_0.ConnectionMethod'' (MID m) (MName m) @
       [(''ConnectionMethodType'', JStr (ConnectionMethodType m)),
        (''ConnectionMethodVariant'', JObj [(''@odata.type'', JStr ''#ConnectionMethod.v1_0_0.ConnectionMethodVariant''),
           (''Address'', JStr (MAddress m))])])"

record method_req =
  mr_Name :: string
  mr_Type :: string
  mr_Address :: string
  mr_Auth :: login_req

definition decode_method_auth :: "json \<Rightarrow> login_req \<Rightarrow> login_req option" where
  "decode_method_auth = decode_object (\<lambda>k v x.
     if equal_fold k ''Username'' then map_option (\<lambda>y. x\<lparr>lr_Username := y\<rparr>) (decode_str v (lr_Username x))
     else if equal_fold k ''Password'' then map_option (\<lambda>y. x\<lparr>lr_Password := y\<rparr>) (decode_str v (lr_Password x))
     else Some x)"

definition decode_method :: "raw_message \<Rightarrow> method_req option" where
  "decode_method = decode_body (\<lambda>k v x.
     if equal_fold k ''Name'' then map_option (\<lambda>y. x\<lparr>mr_Name := y\<rparr>) (decode_str v (mr_Name x))
     else if equal_fold k ''ConnectionMethodType'' then map_option (\<lambda>y. x\<lparr>mr_Type := y\<rparr>) (decode_str v (mr_Type x))
     else if equal_fold k ''ConnectionMethodVariant.Address'' then map_option (\<lambda>y. x\<lparr>mr_Address := y\<rparr>) (decode_str v (mr_Address x))
     else if equal_fold k ''ConnectionMethodVariant.Authentication'' then map_option (\<lambda>y. x\<lparr>mr_Auth := y\<rparr>) (decode_method_auth v (mr_Auth x))
     else Some x)
     \<lparr>mr_Name = '''', mr_Type = '''', mr_Address = '''', mr_Auth = \<lparr>lr_Username = '''', lr_Password = ''''\<rparr>\<rparr>"

text \<open>The requested type is read, defaulted and then not used.\<close>

definition create_method :: "('w, 'e) svc_env_scheme \<Rightarrow> request \<Rightarrow> 'w api" where
  "create_method E r =
     (case decode_method (Body r) of
        None \<Rightarrow> State_Monad.return malformed
      | Some req \<Rightarrow>
          if mr_Name req = '''' \<or> mr_Address req = '''' \<or> lr_Username (mr_Auth req) = '''' \<or> lr_Password (mr_Auth req) = ''''
          then State_Monad.return (rfWriteErrorResponse StatusBadRequest ''Base.1.0.PropertyMissing'' ''Required properties missing'')
          else do {
            x \<leftarrow> AddConnectionMethod E (mr_Name req) (mr_Address req) (lr_Username (mr_Auth req)) (lr_Password (mr_Auth req));
            State_Monad.return (case x of
                Inl e \<Rightarrow>
                  if contains e ''failed to connect''
                  then rfWriteErrorResponse StatusBadRequest ''Base.1.0.ResourceCannotBeCreated'' ''Unable to connect to BMC''
                  else internal_error ''Failed to create connection method''
              | Inr m \<Rightarrow> json_response [(''Location'', method_path (MID m))] StatusCreated (method_json m) (connectionMethodETag E m)) })"

definition list_methods :: "('w, 'e) svc_env_scheme \<Rightarrow> request \<Rightarrow> 'w api" where
  "list_methods E r = do {
     x \<leftarrow> GetConnectionMethods E;
     State_Monad.return (case x of
         Inl e \<Rightarrow> internal_error ''Failed to retrieve connection methods''
       | Inr ms \<Rightarrow> conditional r
           (collection_json ''/redfish/v1/$metadata#ConnectionMethodCollection.ConnectionMethodCollection''
              ''/redfish/v1/AggregationService/ConnectionMethods'' ''#ConnectionMethodCollection.ConnectionMethodCollection''
              ''Connection Method Collection'' (map (\<lambda>m. method_path (MID m)) ms))
           (connectionMethodsCollectionETag E ms)) }"

definition handleConnectionMethodsCollection :: "('w, 'e) svc_env_scheme \<Rightarrow> request \<Rightarrow> 'w api" where
  "handleConnectionMethodsCollection E r =
     (if Method r = ''OPTIONS'' then State_Monad.return (rfWriteAllow [''GET'', ''POST''])
      else if Method r = ''GET'' then list_methods E r
      else if Method r = ''POST'' then create_method E r
      else State_Monad.return not_allowed)"

definition get_method :: "('w, 'e) svc_env_scheme \<Rightarrow> request \<Rightarrow> string \<Rightarrow> 'w api" where
  "get_method E r i = do {
     x \<leftarrow> GetConnectionMethod E i;
     State_Monad.return (case x of
         Inl e \<Rightarrow> internal_error ''Failed to retrieve connection method''
       | Inr None \<Rightarrow> not_found ''Connection method not found''
       | Inr (Some m) \<Rightarrow> conditional r (method_json m) (connectionMethodETag E m)) }"

definition delete_method :: "('w, 'e) svc_env_scheme \<Rightarrow> string \<Rightarrow> 'w api" where
  "delete_method E i = do {
     x \<leftarrow> RemoveConnectionMethod E i;
     State_Monad.return (case x of Inl e \<Rightarrow> internal_error ''Failed to delete connection method'' | Inr _ \<Rightarrow> no_content) }"

definition handleConnectionMethod :: "('w, 'e) svc_env_scheme \<Rightarrow> request \<Rightarrow> string \<Rightarrow> 'w api" where
  "handleConnectionMethod E r i =
     (if Method r = ''OPTIONS'' then State_Monad.return (rfWriteAllow [''GET'', ''DELETE''])
      else if Method r = ''GET'' then get_method E r i
      else if Method r = ''DELETE'' then delete_method E i
      else State_Monad.return not_allowed)"

definition aggregation_service_json :: json where
  "aggregation_service_json =
     JObj (resource_head ''/redfish/v1/$metadata#AggregationService.AggregationService'' ''/redfish/v1/AggregationService''
         ''#AggregationService.v1_0_0.AggregationService'' ''AggregationService'' ''Aggregation Service'' @
       [(''Description'', JStr ''BMC Aggregation Service''),
        (''ConnectionMethods'', odata_ref ''/redfish/v1/AggregationService/ConnectionMethods'')])"

definition handleAggregationService :: "('w, 'e) svc_env_scheme \<Rightarrow> request \<Rightarrow> string \<Rightarrow> 'w api" where
  "handleAggregationService E r path =
     (let subPath = trim_prefix path ''/v1/AggregationService'' in
      if subPath = '''' \<or> subPath = ''/'' then get_only r (State_Monad.return (json_response [] StatusOK aggregation_service_json ''''))
      else if subPath = ''/ConnectionMethods'' \<or> subPath = ''/ConnectionMethods/'' then handleConnectionMethodsCollection E r
      else (case (if has_prefix subPath ''/ConnectionMethods/''
                  then split_on CHR ''/'' (trim_prefix subPath ''/ConnectionMethods/'') else []) of
              [i] \<Rightarrow> if i \<noteq> '''' then handleConnectionMethod E r i else State_Monad.return (not_found ''Resource not found'')
            | _ \<Rightarrow> State_Monad.return (not_found ''Resource not found'')))"

section \<open>Managers and systems\<close>

text \<open>The ids in a column of aggregated resources: a JSON array of objects, or nothing if it is not one.\<close>

definition aggregated_ids :: "('w, 'e) svc_env_scheme \<Rightarrow> string \<Rightarrow> string list" where
  "aggregated_ids E column =
     (case json_Unmarshal E column of
        RawJson (JArr vs) \<Rightarrow>
          if list_all (\<lambda>v. case v of JObj _ \<Rightarrow> True | JNull \<Rightarrow> True | _ \<Rightarrow> False) vs
          then concat (map (\<lambda>v. case v of
                 JObj kvs \<Rightarrow> (case obj_get kvs ''@odata.id'' of Some (JStr i) \<Rightarrow> [i] | _ \<Rightarrow> [])
               | _ \<Rightarrow> []) vs)
          else []
      | _ \<Rightarrow> [])"

definition members_of ::
  "('w, 'e) svc_env_scheme \<Rightarrow> string \<Rightarrow> (ConnectionMethod \<Rightarrow> string) \<Rightarrow> BMC list \<Rightarrow> ConnectionMethod list \<Rightarrow> string list" where
  "members_of E prefix column bs ms =
     map (\<lambda>b. prefix @ BName b) (filter BEnabled bs) @
     concat (map (\<lambda>m. if MEnabled m \<and> column m \<noteq> '''' then map (\<lambda>i. prefix @ MID m @ i) (aggregated_ids E (column m)) else []) ms)"

definition bmc_collection ::
  "('w, 'e) svc_env_scheme \<Rightarrow> request \<Rightarrow> string \<Rightarrow> (ConnectionMethod \<Rightarrow> string) \<Rightarrow> string \<Rightarrow> string \<Rightarrow> 'w api" where
  "bmc_collection E r noun column kind name = get_only r (do {
     rb \<leftarrow> GetBMCs E;
     case rb of
       Inl e \<Rightarrow> State_Monad.return (internal_error ''Failed to retrieve BMCs'')
     | Inr bs \<Rightarrow> do {
         rm \<leftarrow> GetConnectionMethods E;
         State_Monad.return (json_response [] StatusOK
           (collection_json (''/redfish/v1/$metadata#'' @ kind @ ''.'' @ kind) (''/redfish/v1/'' @ noun) (''#'' @ kind @ ''.'' @ kind) name
              (members_of E (''/redfish/v1/'' @ noun @ ''/'') column bs (case rm of Inl e \<Rightarrow> [] | Inr ms \<Rightarrow> ms))) '''') } })"

definition handleManagersCollection :: "('w, 'e) svc_env_scheme \<Rightarrow> request \<Rightarrow> 'w api" where
  "handleManagersCollection E r = bmc_collection E r ''Managers'' AggregatedManagers ''ManagerCollection'' ''Manager Collection''"

definition handleSystemsCollection :: "('w, 'e) svc_env_scheme \<Rightarrow> request \<Rightarrow> 'w api" where
  "handleSystemsCollection E r =
     bmc_collection E r ''Systems'' AggregatedSystems ''ComputerSystemCollection'' ''Computer System Collection''"

definition handleAggregatorEndpoints :: "('w, 'e) svc_env_scheme \<Rightarrow> request \<Rightarrow> string \<Rightarrow> 'w api" where
  "handleAggregatorEndpoints E r path =
     (if path = ''/v1/Managers'' \<or> path = ''/v1/Managers/'' then handleManagersCollection E r
      else if path = ''/v1/Systems'' \<or> path = ''/v1/Systems/'' then handleSystemsCollection E r
      else State_Monad.return (not_found ''Resource not found''))"

section \<open>Proxy\<close>

text \<open>\<open>^/v1/<noun>/[^/]+(/.*)?$\<close>; the dot does not match a line break.\<close>

definition proxy_pattern :: "string \<Rightarrow> string \<Rightarrow> bool" where
  "proxy_pattern noun path \<longleftrightarrow>
     has_prefix path (''/v1/'' @ noun @ ''/'') \<and>
     (let rest = trim_prefix path (''/v1/'' @ noun @ ''/'') in
      takeWhile (\<lambda>c. c \<noteq> CHR ''/'') rest \<noteq> [] \<and> CHR 0x0A \<notin> set (dropWhile (\<lambda>c. c \<noteq> CHR ''/'') rest))"

definition isBMCProxyRequest :: "string \<Rightarrow> bool" where
  "isBMCProxyRequest path \<longleftrightarrow> proxy_pattern ''Managers'' path \<or> proxy_pattern ''Systems'' path"

definition proxy_response :: "bmc_resp \<Rightarrow> response" where
  "proxy_response p =
     \<lparr>RCode = p_status p, RHeaders = concat (map (\<lambda>(k, vs). map (Pair k) vs) (p_header p)), RBody = TextBody (p_body p)\<rparr>"

definition bmc_path :: "string \<Rightarrow> string + string \<Rightarrow> string list \<Rightarrow> string" where
  "bmc_path noun rid rest =
     ''/redfish/v1/'' @ noun @ ''/'' @ (case rid of Inl e \<Rightarrow> ''1'' | Inr i \<Rightarrow> i) @
     (if rest = [] then '''' else ''/'' @ join_with ''/'' rest)"

definition proxy_to ::
  "('w, 'e) svc_env_scheme \<Rightarrow> request \<Rightarrow> http_header \<Rightarrow> string \<Rightarrow> string \<Rightarrow> string + string \<Rightarrow> string list \<Rightarrow> 'w api" where
  "proxy_to E r hdrs noun bmcName rid rest = do {
     u \<leftarrow> AuthenticateRequest E r;
     x \<leftarrow> ProxyRequest E bmcName (bmc_path noun rid rest) r hdrs;
     State_Monad.return (case x of
         Inl e \<Rightarrow> rfWriteErrorResponse 502 ''Base.1.0.InternalError'' (''Failed to communicate with BMC: '' @ e)
       | Inr p \<Rightarrow> proxy_response p) }"

definition handleBMCProxy :: "('w, 'e) svc_env_scheme \<Rightarrow> request \<Rightarrow> http_header \<Rightarrow> string \<Rightarrow> 'w api" where
  "handleBMCProxy E r hdrs path =
     (case split_on CHR ''/'' (trim_slashes path) of
        _ # noun # bmcName # rest \<Rightarrow>
          if noun = ''Managers'' then do { rid \<leftarrow> GetFirstManagerID E bmcName; proxy_to E r hdrs noun bmcName rid rest }
          else if noun = ''Systems'' then do { rid \<leftarrow> GetFirstSystemID E bmcName; proxy_to E r hdrs noun bmcName rid rest }
          else State_Monad.return (not_found ''Resource not found'')
      | _ \<Rightarrow> State_Monad.return (not_found ''Resource not found''))"

section \<open>Metadata\<close>

text \<open>
  The fallback document, with a bar for the double quote.
\<close>

definition csdl :: string where
  "csdl = map (\<lambda>c. if c = CHR ''|'' then dquote else c) (join_with [CHR 0x0A]
     [''<?xml version=|1.0| encoding=|UTF-8|?>'',
      ''<edmx:Edmx Version=|4.0| xmlns:edmx=|http://docs.oasis-open.org/odata/ns/edmx|>'',
      [CHR 0x09] @ ''<edmx:DataServices>'',
      [CHR 0x09, CHR 0x09] @ ''<Schema Namespace=|ServiceRoot| xmlns=|http://docs.oasis-open.org/odata/ns/edm|>'',
      replicate 3 CHR 0x09 @ ''@EntityType Name=|ServiceRoot|>'',
      replicate 4 CHR 0x09 @ ''<Key><PropertyRef Name=|Id|/></Key>'',
      replicate 4 CHR 0x09 @ ''<Property Name=|Id| Type=|Edm.String| Nullable=|false|/>'',
      replicate 3 CHR 0x09 @ ''</EntityType>'',
      replicate 3 CHR 0x09 @ ''<EntityContainer Name=|ServiceContainer|>'',
      replicate 4 CHR 0x09 @ ''<EntitySet Name=|ServiceRoot| EntityType=|ServiceRoot.ServiceRoot|/>'',
      replicate 3 CHR 0x09 @ ''</EntityContainer>'',
      [CHR 0x09, CHR 0x09] @ ''</Schema>'',
      [CHR 0x09] @ ''</edmx:DataServices>'',
      ''</edmx:Edmx>''])"

definition handleMetadata :: "'w api_env \<Rightarrow> request \<Rightarrow> 'w api" where
  "handleMetadata E r = get_only r (
     let text = (case static_file E ''metadata.xml'' of Some d \<Rightarrow> d | None \<Rightarrow> csdl);
         etag = rfComputeETag E text;
         hs = [(''Content-Type'', ''application/xml''), (''OData-Version'', ''4.0''), (''ETag'', etag)]
     in State_Monad.return
          (if Header r ''If-None-Match'' \<noteq> '''' \<and> rfIfNoneMatchMatches (Header r ''If-None-Match'') etag
           then \<lparr>RCode = 304, RHeaders = hs, RBody = NoBody\<rparr>
           else \<lparr>RCode = StatusOK, RHeaders = hs, RBody = TextBody text\<rparr>))"

text \<open>\<open>rfWriteJSONResponseWithETag\<close> with a request, for the bytes of an embedded file.\<close>

definition serve_json_file :: "'w api_env \<Rightarrow> request \<Rightarrow> string \<Rightarrow> response" where
  "serve_json_file E r text =
     (let etag = rfComputeETag E text in
      if trim_space (Header r ''If-None-Match'') \<noteq> '''' \<and> rfIfNoneMatchMatches (Header r ''If-None-Match'') etag
      then \<lparr>RCode = 304, RHeaders = [(''ETag'', etag), (''OData-Version'', ''4.0'')], RBody = NoBody\<rparr>
      else (case json_Unmarshal E text of
              RawJson v \<Rightarrow> json_response [] StatusOK v etag
            | _ \<Rightarrow> http_Error ''Internal Server Error'' StatusInternalServerError))"

definition trim_json_suffix :: "string \<Rightarrow> string" where
  "trim_json_suffix s = (if has_suffix s ''.json'' then take (length s - 5) s else s)"

definition handleRegistriesCollection :: "'w api_env \<Rightarrow> request \<Rightarrow> 'w api" where
  "handleRegistriesCollection E r = get_only r (
     let names = map (\<lambda>p. trim_json_suffix (trim_prefix p ''redfish/''))
           (filter (\<lambda>p. has_prefix p ''redfish/'' \<and> has_suffix (to_lower p) ''.json'') (static_files E))
     in State_Monad.return (json_response [] StatusOK
          (collection_json ''/redfish/v1/$metadata#MessageRegistryFileCollection.MessageRegistryFileCollection'' ''/redfish/v1/Registries''
             ''#MessageRegistryFileCollection.MessageRegistryFileCollection'' ''Message Registry File Collection''
             (map (\<lambda>n. ''/redfish/v1/Registries/'' @ n) (filter (\<lambda>n. CHR ''/'' \<notin> set n) names))) ''''))"

definition handleRegistryFile :: "'w api_env \<Rightarrow> request \<Rightarrow> 'w api" where
  "handleRegistryFile E r = get_only r (
     let name = trim_slashes (trim_prefix (URLPath r) ''/redfish/v1/Registries/'') in
     State_Monad.return
       (if name = '''' then not_found ''Registry not found''
        else (case static_file E (''redfish/'' @ name @ ''.json'') of
                Some d \<Rightarrow> serve_json_file E r d
              | None \<Rightarrow>
                  (case (if CHR ''/'' \<in> set name then static_file E (''redfish/'' @ name) else None) of
                     Some d \<Rightarrow> serve_json_file E r d
                   | None \<Rightarrow> not_found ''Registry not found''))))"

definition handleSchemaStoreRoot :: "'w api_env \<Rightarrow> request \<Rightarrow> 'w api" where
  "handleSchemaStoreRoot E r = get_only r (State_Monad.return (json_response [] StatusOK
     (collection_json ''/redfish/v1/$metadata#JsonSchemaFileCollection.JsonSchemaFileCollection'' ''/redfish/v1/SchemaStore''
        ''#JsonSchemaFileCollection.JsonSchemaFileCollection'' ''JSON Schema File Collection''
        (map (\<lambda>p. ''/redfish/v1/SchemaStore/'' @ trim_prefix p ''schemas/'')
          (filter (\<lambda>p. has_prefix p ''schemas/'' \<and> has_suffix (to_lower p) ''.json'') (static_files E)))) ''''))"

definition handleSchemaFile :: "'w api_env \<Rightarrow> request \<Rightarrow> 'w api" where
  "handleSchemaFile E r = get_only r (
     let name = trim_slashes (trim_prefix (URLPath r) ''/redfish/v1/SchemaStore/'') in
     State_Monad.return
       (if name = '''' then not_found ''Schema not found''
        else (case static_file E (''schemas/'' @ name) of
                Some d \<Rightarrow> serve_json_file E r d
              | None \<Rightarrow> not_found ''Schema not found'')))"

section \<open>Routing\<close>

text \<open>What an authenticated request does, by its path below \<open>/redfish\<close>.\<close>

definition authenticated :: "('w, 'e) svc_env_scheme \<Rightarrow> request \<Rightarrow> http_header \<Rightarrow> string \<Rightarrow> User \<Rightarrow> 'w api" where
  "authenticated E r hdrs path user =
     (if isBMCProxyRequest path then handleBMCProxy E r hdrs path
      else if has_prefix path ''/v1/AggregationService'' then handleAggregationService E r path
      else if has_prefix path ''/v1/AccountService'' then handleAccountService E r path user
      else if has_prefix path ''/v1/EventService'' then handleEventService r path
      else if has_prefix path ''/v1/TaskService'' then handleTaskService r path
      else handleAggregatorEndpoints E r path)"

definition handleRedfish :: "('w, 'e) svc_env_scheme \<Rightarrow> request \<Rightarrow> http_header \<Rightarrow> 'w api" where
  "handleRedfish E r hdrs =
     (let path = trim_prefix (URLPath r) ''/redfish'' in
      if path = ''/'' \<or> path = '''' then handleServiceRoot E r
      else if path = ''/v1/'' \<or> path = ''/v1'' then handleServiceRoot E r
      else if has_prefix path ''/v1/SessionService'' then handleSessionService E r path
      else do {
        u \<leftarrow> AuthenticateRequest E r;
        case u of
          Inl e \<Rightarrow> State_Monad.return (unauthorized ''Authentication required'')
        | Inr user \<Rightarrow> authenticated E r hdrs path user })"

definition handleManagedNodes :: "'w api" where
  "handleManagedNodes =
     State_Monad.return (rfWriteErrorResponse 501 ''Base.1.0.NotImplemented'' ''Managed nodes endpoint not yet implemented'')"

definition api_routes :: "string list" where
  "api_routes = [''/redfish/'', ''/redfish/v1/$metadata'', ''/redfish/v1/Registries'', ''/redfish/v1/Registries/'',
     ''/redfish/v1/SchemaStore'', ''/redfish/v1/SchemaStore/'', ''/redfish/v1/AggregationService/ManagedNodes/'']"

definition api_route :: "'w api_env \<Rightarrow> string \<Rightarrow> request \<Rightarrow> http_header \<Rightarrow> 'w api" where
  "api_route E pat r hdrs =
     (if pat = ''/redfish/v1/$metadata'' then handleMetadata E r
      else if pat = ''/redfish/v1/Registries'' then RequireAuth E (\<lambda>_. handleRegistriesCollection E) r
      else if pat = ''/redfish/v1/Registries/'' then RequireAuth E (\<lambda>_. handleRegistryFile E) r
      else if pat = ''/redfish/v1/SchemaStore'' then RequireAuth E (\<lambda>_. handleSchemaStoreRoot E) r
      else if pat = ''/redfish/v1/SchemaStore/'' then RequireAuth E (\<lambda>_. handleSchemaFile E) r
      else if pat = ''/redfish/v1/AggregationService/ManagedNodes/'' then RequireAuth E (\<lambda>_ _. handleManagedNodes) r
      else handleRedfish E r hdrs)"

definition api_mux :: "'w api_env \<Rightarrow> request \<Rightarrow> http_header \<Rightarrow> 'w api" where
  "api_mux E r hdrs =
     (case mux_route api_routes r of
        Redirect u \<Rightarrow> State_Monad.return (redirect_response u)
      | Unrouted \<Rightarrow> State_Monad.return http_NotFound
      | Routed pat \<Rightarrow> api_route E pat r hdrs)"

section \<open>First start\<close>

text \<open>\<open>createDefaultAdminUser\<close> of \<open>cmd/shoal/main.go\<close>; \<open>envPassword\<close> is \<open>SHOAL_ADMIN_PASSWORD\<close>.\<close>

definition createDefaultAdminUser :: "'e auth_env_scheme \<Rightarrow> string \<Rightarrow> ('s db_state_scheme, string option) state" where
  "createDefaultAdminUser E envPassword = do {
     c \<leftarrow> CountUsers E;
     case c of
       Inl e \<Rightarrow> State_Monad.return (Some (''failed to count users: '' @ e))
     | Inr n \<Rightarrow>
         if n > 0 then State_Monad.return None
         else do {
           h \<leftarrow> HashPassword E (if envPassword \<noteq> '''' then envPassword else ''admin'');
           case h of
             Inl e \<Rightarrow> State_Monad.return (Some (''failed to hash password: '' @ e))
           | Inr passwordHash \<Rightarrow> do {
               b \<leftarrow> rand_bytes E 16;
               case b of
                 Inl e \<Rightarrow> State_Monad.return (Some (''failed to generate user ID: '' @ e))
               | Inr bytes \<Rightarrow> do {
                   r \<leftarrow> CreateUser E \<lparr>UID = hex_encode bytes, Username = ''admin'', PasswordHash = passwordHash, Role = RoleAdmin,
                     UEnabled = True, UCreatedAt = 0, UUpdatedAt = 0\<rparr>;
                   State_Monad.return (case r of Inl e \<Rightarrow> Some (''failed to create admin user: '' @ e) | Inr _ \<Rightarrow> None) } } } }"

end
