(* ===== verification/AggFrame.thy ===== *)
theory AggFrame
  imports AggApi
begin

text \<open>
  What the requests of the aggregator leave of the database. A relation between the database before
  and after is preserved by a program when it holds of every run. The locale \<open>db_frame\<close> collects
  what a relation must satisfy so that every handler that does not touch accounts preserves it, and
  proves that once; \<open>account_frame\<close> adds the statements of the account service. They are interpreted
  for the equality of the table of users and for the invariant \<open>db_ok\<close> of the schema.
\<close>

section \<open>Preserved relations\<close>

definition preserves :: "(agg_db \<Rightarrow> agg_db \<Rightarrow> bool) \<Rightarrow> ('s db_state_scheme, 'a) state \<Rightarrow> bool" where
  "preserves R m \<longleftrightarrow> (\<forall>s. R (adb s) (adb (snd (run_state m s))))"

lemma preservesD: "preserves R m \<Longrightarrow> run_state m s = (x, s') \<Longrightarrow> R (adb s) (adb s')"
  by (metis preserves_def snd_conv)

named_theorems frame

lemmas frame_splits = if_splits option.splits sum.splits prod.splits list.splits json.splits routed.splits

locale db_frame =
  fixes R :: "agg_db \<Rightarrow> agg_db \<Rightarrow> bool"
  assumes R_refl: "R d d"
    and R_trans: "R d d' \<Longrightarrow> R d' d'' \<Longrightarrow> R d d''"
    and R_settings: "R d (d\<lparr>settings := AList.update k v (settings d)\<rparr>)"
    and R_session: "insert_session x now d = (Inr u, d') \<Longrightarrow> R d d'"
    and R_logout: "R d (d\<lparr>sessions := filter P (sessions d)\<rparr>)"
    and R_method: "insert_method m pw now d = (Inr u, d') \<Longrightarrow> R d d'"
    and R_drop_method: "R d (d\<lparr>connection_methods := filter Q (connection_methods d)\<rparr>)"
    and R_seen: "R d (d\<lparr>bmcs := upd_where C (\<lambda>b. b\<lparr>BLastSeen := t\<rparr>) (bmcs d)\<rparr>)"
begin

lemma return [frame]: "preserves R (State_Monad.return x)"
  by (simp add: preserves_def State_Monad.return_def R_refl)

lemma bind [frame]:
  assumes "preserves R m" "\<And>x. preserves R (k x)"
  shows "preserves R (m \<bind> k)"
  unfolding preserves_def
proof
  fix s
  obtain x s1 where "run_state m s = (x, s1)" by fastforce
  with assms show "R (adb s) (adb (snd (run_state (m \<bind> k) s)))"
    by (auto simp: run_state_bind intro: R_trans dest: preservesD simp: preserves_def)
qed

lemma tick [frame]: "preserves R tick"
  by (simp add: preserves_def tick_def R_refl)

lemma get [frame]: "preserves R State_Monad.get"
  by (simp add: preserves_def State_Monad.get_def R_refl)

lemma exec:
  assumes "\<And>now d x d'. f now d = (Inr x, d') \<Longrightarrow> R d d'"
  shows "preserves R (exec E pre f)"
proof -
  have "preserves R (State (run_stmt E pre f n))" for n
    using assms by (auto simp: preserves_def run_stmt_def R_refl split: option.splits prod.splits sum.splits)
  then show ?thesis unfolding exec_def by (intro frame)
qed

lemma query [frame]: "preserves R (query E pre g)"
  unfolding query_def by (rule exec) (auto intro: R_refl)

lemma time_Now [frame]: "preserves R (time_Now E)"
  unfolding time_Now_def by (intro frame)

lemma rand_bytes [frame]: "preserves R (rand_bytes E n)"
  unfolding rand_bytes_def by (intro frame)

lemma http_Do [frame]: "preserves R (http_Do E q)"
  by (auto simp: preserves_def http_Do_def R_refl split: prod.splits)

lemma put_cache [frame]: "preserves R (put_cache n f)"
  by (simp add: preserves_def put_cache_def R_refl)

lemma cases [frame]:
  "(b \<Longrightarrow> preserves R m) \<Longrightarrow> (\<not> b \<Longrightarrow> preserves R m') \<Longrightarrow> preserves R (if b then m else m')"
  "(\<And>a. x = Inl a \<Longrightarrow> preserves R (f1 a)) \<Longrightarrow> (\<And>c. x = Inr c \<Longrightarrow> preserves R (f2 c)) \<Longrightarrow> preserves R (case x of Inl a \<Rightarrow> f1 a | Inr c \<Rightarrow> f2 c)"
  "preserves R m \<Longrightarrow> (\<And>a. preserves R (g a)) \<Longrightarrow> preserves R (case y of None \<Rightarrow> m | Some a \<Rightarrow> g a)"
  "(\<And>a c. preserves R (h a c)) \<Longrightarrow> preserves R (case z of (a, c) \<Rightarrow> h a c)"
  "preserves R m \<Longrightarrow> (\<And>a as. preserves R (l a as)) \<Longrightarrow> preserves R (case w of [] \<Rightarrow> m | a # as \<Rightarrow> l a as)"
  "preserves R n0 \<Longrightarrow> (\<And>b. preserves R (n1 b)) \<Longrightarrow> (\<And>q. preserves R (n2 q)) \<Longrightarrow> (\<And>t. preserves R (n3 t)) \<Longrightarrow>
     (\<And>vs. preserves R (n4 vs)) \<Longrightarrow> (\<And>kvs. preserves R (n5 kvs)) \<Longrightarrow>
     preserves R (case v of JNull \<Rightarrow> n0 | JBool b \<Rightarrow> n1 b | JNum q \<Rightarrow> n2 q | JStr t \<Rightarrow> n3 t | JArr vs \<Rightarrow> n4 vs | JObj kvs \<Rightarrow> n5 kvs)"
  "preserves R (k e) \<Longrightarrow> preserves R (let a = e in k a)"
  by (simp_all split: sum.split option.split prod.split list.split json.split)

subsection \<open>Reading\<close>

lemma reads [frame]:
  "preserves R (GetSetting E k)" "preserves R (GetUsers E)" "preserves R (GetUser E i)" "preserves R (GetUserByUsername E i)"
  "preserves R (CountUsers E)" "preserves R (GetSessionByToken E i)" "preserves R (GetSession E i)" "preserves R (GetSessions E)"
  "preserves R (GetBMCs E)" "preserves R (GetBMCByName E i)" "preserves R (GetConnectionMethods E)" "preserves R (GetConnectionMethod E i)"
  unfolding GetSetting_def GetUsers_def GetUser_def GetUserByUsername_def CountUsers_def GetSessionByToken_def GetSession_def
    GetSessions_def GetBMCs_def GetBMCByName_def GetConnectionMethods_def GetConnectionMethod_def
  by (rule query)+

lemma authenticate [frame]:
  "preserves R (AuthenticateToken E tok)" "preserves R (authenticateBasic E u p)" "preserves R (AuthenticateRequest E r)"
  unfolding AuthenticateRequest_def AuthenticateToken_def authenticateBasic_def by (intro frame)+

lemma hash [frame]: "preserves R (HashPassword E p)"
  unfolding HashPassword_def by (intro frame)

subsection \<open>Writing\<close>

lemma writes [frame]:
  "preserves R (SetSetting E k v)" "preserves R (db_CreateSession E x)" "preserves R (DeleteSessionByID E i)"
  "preserves R (DeleteConnectionMethod E i)" "preserves R (UpdateBMCLastSeen E b)"
  unfolding SetSetting_def db_CreateSession_def DeleteSessionByID_def DeleteConnectionMethod_def UpdateBMCLastSeen_def
  by (rule exec, auto intro: R_settings R_session R_logout R_drop_method R_seen)+

lemma create_method [frame]: "preserves R (CreateConnectionMethod E m)"
proof -
  have "preserves R (exec E pre (insert_method m pw))" for pre pw by (rule exec) (rule R_method)
  then show ?thesis unfolding CreateConnectionMethod_def by (intro frame)
qed

lemma uuid [frame]: "preserves R (EnsureServiceUUID E)"
  unfolding EnsureServiceUUID_def by (intro frame)

lemma create_session [frame]: "preserves R (CreateSession E u)"
  unfolding CreateSession_def generateID_def generateToken_def by (intro frame)

lemma fetch [frame]: "preserves R (fetchRedfishResource E b p)"
  unfolding fetchRedfishResource_def by (intro frame)

lemma fetch_members [frame]: "preserves R (fetch_members E b ms)"
  by (induction ms) (auto intro!: frame split: json.splits option.splits)

lemma service [frame]:
  "preserves R (TestConnection E b)" "preserves R (fetch_collection E b c)" "preserves R (FetchAggregatedData E b)"
  "preserves R (AddConnectionMethod E n a u p)" "preserves R (RemoveConnectionMethod E i)"
  "preserves R (get_first_id E sel upd w c n)" "preserves R (ProxyRequest E n p r h)"
  unfolding TestConnection_def fetch_collection_def FetchAggregatedData_def AddConnectionMethod_def RemoveConnectionMethod_def
    get_first_id_def ProxyRequest_def
  by (intro frame)+

lemma first_ids [frame]: "preserves R (GetFirstManagerID E n)" "preserves R (GetFirstSystemID E n)"
  unfolding GetFirstManagerID_def GetFirstSystemID_def by (intro frame)+

subsection \<open>Handlers\<close>

lemma get_only [frame]: "preserves R m \<Longrightarrow> preserves R (get_only r m)"
  unfolding get_only_def by (intro frame)

lemma session_handlers [frame]:
  "preserves R (handleLogin E r)" "preserves R (handleSessionService E r p)"
  unfolding handleLogin_def handleSessionService_def session_resource_def handleGetSessionServiceRoot_def
    handleGetSessionsCollection_def handleGetSession_def handleDeleteSession_def
  by (intro frame)+

lemma method_handlers [frame]: "preserves R (handleAggregationService E r p)"
  unfolding handleAggregationService_def handleConnectionMethodsCollection_def handleConnectionMethod_def list_methods_def
    AggApi.create_method_def get_method_def delete_method_def
  by (intro frame)

lemma proxy_handlers [frame]: "preserves R (handleBMCProxy E r h p)"
  unfolding handleBMCProxy_def proxy_to_def by (intro frame)

lemma other_handlers [frame]:
  "preserves R (handleServiceRoot E r)" "preserves R (handleEventService r p)" "preserves R (handleTaskService r p)"
  "preserves R (handleAggregatorEndpoints E r p)"
  unfolding handleServiceRoot_def handleEventService_def handleTaskService_def handleAggregatorEndpoints_def
    handleManagersCollection_def handleSystemsCollection_def bmc_collection_def
  by (intro frame)+

lemma static_handlers [frame]:
  "preserves R (handleMetadata E r)" "preserves R (handleRegistriesCollection E r)" "preserves R (handleRegistryFile E r)"
  "preserves R (handleSchemaStoreRoot E r)" "preserves R (handleSchemaFile E r)" "preserves R handleManagedNodes"
  unfolding handleMetadata_def handleRegistriesCollection_def handleRegistryFile_def handleSchemaStoreRoot_def handleSchemaFile_def
    handleManagedNodes_def
  by (intro frame)+

lemma require [frame]: "(\<And>u. preserves R (k u r)) \<Longrightarrow> preserves R (RequireAuth E k r)"
  unfolding RequireAuth_def by (intro frame)

lemma account_reads [frame]:
  "preserves R (handleGetAccountsCollection E r)" "preserves R (handleGetAccount E r i)"
  unfolding handleGetAccountsCollection_def handleGetAccount_def by (intro frame)+

text \<open>The account service, for users who are not administrators and for methods that only read.\<close>

lemma authenticated_harmless:
  assumes "\<not> IsAdmin u \<or> Method r \<notin> {''POST'', ''PATCH'', ''DELETE''} \<or> \<not> has_prefix p ''/v1/AccountService/Accounts''"
  shows "preserves R (authenticated E r h p u)"
proof -
  have a: "preserves R (accounts_collection E r u)" "preserves R (account_resource E r u i)"
    if "\<not> IsAdmin u \<or> Method r \<notin> {''POST'', ''PATCH'', ''DELETE''}" for i
    using that by (auto simp: accounts_collection_def account_resource_def intro: return account_reads)
  have "has_prefix q ''/Accounts'' \<Longrightarrow> has_prefix p ''/v1/AccountService'' \<Longrightarrow> q = trim_prefix p ''/v1/AccountService'' \<Longrightarrow>
      has_prefix p ''/v1/AccountService/Accounts''" for q
    by (auto simp: has_prefix_iff trim_prefix_def)
  with a assms have "preserves R (handleAccountService E r p u)" if "has_prefix p ''/v1/AccountService''"
    unfolding handleAccountService_def Let_def using that
    by (intro cases return get_only) (auto simp: has_prefix_iff)
  then show ?thesis unfolding authenticated_def by (intro frame)
qed

end

locale account_frame = db_frame +
  assumes R_insert_user: "insert_user u now d = (Inr x, d') \<Longrightarrow> R d d'"
    and R_update_user: "update_user u now d = (Inr x, d') \<Longrightarrow> R d d'"
    and R_delete_user: "R d (delete_user i d)"
begin

lemma user_writes [frame]:
  "preserves R (CreateUser E u)" "preserves R (UpdateUser E u)" "preserves R (DeleteUser E i)"
proof -
  have "preserves R (exec E pre (insert_user u))" for pre by (rule exec) (rule R_insert_user)
  then show "preserves R (CreateUser E u)" unfolding CreateUser_def by (intro frame)
  show "preserves R (UpdateUser E u)" unfolding UpdateUser_def by (rule exec) (rule R_update_user)
  show "preserves R (DeleteUser E i)" unfolding DeleteUser_def by (rule exec) (auto intro: R_delete_user)
qed

lemma account_writes [frame]:
  "preserves R (handleCreateAccount E r)" "preserves R (handlePatchAccount E r i)" "preserves R (handleDeleteAccount E i)"
  unfolding handleCreateAccount_def create_account_def handlePatchAccount_def patch_account_def patch_role_def patch_password_def
    save_account_def handleDeleteAccount_def
  by (intro frame)+

lemma account_service [frame]: "preserves R (handleAccountService E r p u)"
  unfolding handleAccountService_def accounts_collection_def account_resource_def by (intro frame)

lemma redfish [frame]: "preserves R (handleRedfish E r h)"
  unfolding handleRedfish_def authenticated_def by (intro frame)

lemma api [frame]: "preserves R (api_mux E r h)"
proof -
  have "preserves R (api_route E p r h)" for p unfolding api_route_def by (intro frame)
  then show ?thesis unfolding api_mux_def by (auto intro: frame split: routed.split)
qed

lemma first_start [frame]: "preserves R (createDefaultAdminUser E p)"
  unfolding createDefaultAdminUser_def by (intro frame)

end

end
