(* ===== verification/BmcOps.thy ===== *)
theory BmcOps
  imports BmcService
begin

text \<open>
  The operations of the BMC service that change a server (\<open>internal/bmc/service.go\<close>, \<open>retry.go\<close>,
  \<open>quirks.go\<close>, \<open>reconcile.go\<close>): power control, virtual media and the one-time boot override, with
  retries and vendor quirks, and the repair after a restart.

  The context of a call is the function \<open>ctx_err\<close>: whether it ends before the wait that starts at a
  tick, and with which error. Waits are recorded in \<open>sleeps\<close>. The random numbers of the jitter are
  \<open>rand_Float64\<close>, what an out-of-range conversion to \<open>int64\<close> gives is \<open>float_ovf\<close>, and \<open>resolve_root\<close> is
  \<open>net/url\<close>'s resolution of \<open>/redfish/v1/\<close> against an address. Bodies are JSON trees with the members of
  Go maps in the order of their keys. Metrics are left out.
\<close>

record 'w ops_env = "'w svc_env" +
  ctx_err :: "nat \<Rightarrow> string option"
  rand_Float64 :: "nat \<Rightarrow> rat"
  float_ovf :: "rat \<Rightarrow> int"
  resolve_root :: "string \<Rightarrow> string + string"

record 'w ops_state = "'w svc_state" +
  sleeps :: "time list"

section \<open>Quirks\<close>

record Quirks =
  BootTargetMap :: "(string \<times> string) list"
  VirtualMediaPreference :: "string list"
  InsertAction :: string
  EjectAction :: string
  RequiresWriteProtected :: bool
  DelayAfterInsert :: time

text \<open>The keys of the map differ in more than case, so the order of its iteration does not matter.\<close>

definition mapBootTarget :: "Quirks \<Rightarrow> string \<Rightarrow> string" where
  "mapBootTarget q target =
     (let folded = (case List.find (\<lambda>(k, v). equal_fold k target \<and> v \<noteq> '''') (BootTargetMap q) of
                      Some (k, v) \<Rightarrow> v | None \<Rightarrow> target) in
      if BootTargetMap q = [] then target
      else (case map_of (BootTargetMap q) target of
              Some m \<Rightarrow> if m \<noteq> '''' then m else folded
            | None \<Rightarrow> folded))"

definition default_quirks :: Quirks where
  "default_quirks = \<lparr>BootTargetMap = [(''Cd'', ''Cd''), (''Pxe'', ''Pxe''), (''Hdd'', ''Hdd''), (''Usb'', ''Usb'')],
     VirtualMediaPreference = [''cd'', ''dvd''], InsertAction = ''VirtualMedia.InsertMedia'', EjectAction = ''VirtualMedia.EjectMedia'',
     RequiresWriteProtected = False, DelayAfterInsert = 0\<rparr>"

definition getQuirks :: "string \<Rightarrow> Quirks" where
  "getQuirks manu =
     (let v = to_lower (trim_space manu); q = default_quirks in
      if contains v ''dell'' \<or> contains v ''idrac'' then q\<lparr>DelayAfterInsert := 500 * time_Millisecond\<rparr>
      else if contains v ''hewlett'' \<or> contains v ''hpe'' \<or> contains v ''ilo'' then q\<lparr>VirtualMediaPreference := [''cd'', ''dvd'']\<rparr>
      else if contains v ''supermicro'' then
        q\<lparr>BootTargetMap := AList.update ''Cd'' ''Cd'' (BootTargetMap q), VirtualMediaPreference := [''cd'', ''usb'', ''dvd'']\<rparr>
      else if contains v ''lenovo'' then q
      else if contains v ''acme'' then
        q\<lparr>BootTargetMap := AList.update ''Cd'' ''UsbCd'' (BootTargetMap q), VirtualMediaPreference := [''usb'', ''cd'']\<rparr>
      else q)"

section \<open>Retries\<close>

record retryConfig =
  maxAttempts :: int
  baseDelay :: time
  maxDelay :: time
  jitterFrac :: rat

definition newDefaultRetryConfig :: retryConfig where
  "newDefaultRetryConfig = \<lparr>maxAttempts = 4, baseDelay = 500 * time_Millisecond, maxDelay = 3 * time_Second, jitterFrac = float64 (3 / 10)\<rparr>"

definition retry_defaults :: "retryConfig \<Rightarrow> retryConfig" where
  "retry_defaults c =
     \<lparr>maxAttempts = (if maxAttempts c \<le> 0 then 3 else maxAttempts c),
      baseDelay = (if baseDelay c \<le> 0 then 300 * time_Millisecond else baseDelay c),
      maxDelay = (if maxDelay c \<le> 0 then 5 * time_Second else maxDelay c),
      jitterFrac = (if jitterFrac c \<le> 0 then 1 / 4 else jitterFrac c)\<rparr>"

definition isRetryable :: "string + bmc_resp \<Rightarrow> bool" where
  "isRetryable x \<longleftrightarrow>
     (case x of Inl e \<Rightarrow> True | Inr p \<Rightarrow> p_status p = StatusTooManyRequests \<or> 500 \<le> p_status p \<and> p_status p \<le> 599)"

definition is_2xx :: "bmc_resp \<Rightarrow> bool" where
  "is_2xx p \<longleftrightarrow> 200 \<le> p_status p \<and> p_status p < 300"

definition retry_backoff :: "retryConfig \<Rightarrow> nat \<Rightarrow> time" where
  "retry_backoff c attempt = min (wrap64 (baseDelay c * 2 ^ min (attempt - 1) 10)) (maxDelay c)"

definition jittered :: "(rat \<Rightarrow> int) \<Rightarrow> retryConfig \<Rightarrow> time \<Rightarrow> rat \<Rightarrow> time" where
  "jittered ovf c b f =
     wrap64 (wrap64 (b - int64_of_float ovf (float64 (jitterFrac c * float64 (of_int b)))) +
       int64_of_float ovf (float64 (float64 (float64 (f * jitterFrac c) * float64 (of_int b)) * 2)))"

text \<open>A wait on a timer or the end of the context; \<open>Some\<close> is the error of the context.\<close>

definition wait_or_done :: "('w, 'e) ops_env_scheme \<Rightarrow> time \<Rightarrow> (('w, 's) ops_state_scheme, string option) state" where
  "wait_or_done E d = State (\<lambda>s. (ctx_err E (ticks s), s\<lparr>ticks := Suc (ticks s), sleeps := sleeps s @ [d]\<rparr>))"

text \<open>The loop of \<open>doWithRetry\<close>; \<open>n\<close> attempts are left. An answer that is not retryable ends it.\<close>

fun retry_loop ::
  "('w, 'e) ops_env_scheme \<Rightarrow> retryConfig \<Rightarrow> (('w, 's) ops_state_scheme, string + bmc_resp) state \<Rightarrow> nat \<Rightarrow> nat \<Rightarrow> string option \<Rightarrow>
   (('w, 's) ops_state_scheme, string + bmc_resp) state" where
  "retry_loop E c fn 0 attempt lastErr =
     State_Monad.return (Inl (case lastErr of Some e \<Rightarrow> e | None \<Rightarrow> ''redfish request failed after retries''))"
| "retry_loop E c fn (Suc n) attempt lastErr = do {
     x \<leftarrow> fn;
     if \<not> isRetryable x then State_Monad.return x
     else do {
       let err = (case x of Inl e \<Rightarrow> Some e | Inr p \<Rightarrow> None);
       if n = 0 then retry_loop E c fn n (Suc attempt) err
       else do {
         t \<leftarrow> tick;
         d \<leftarrow> wait_or_done E (jittered (float_ovf E) c (retry_backoff c attempt) (rand_Float64 E t));
         case d of
           Some e \<Rightarrow> State_Monad.return (Inl e)
         | None \<Rightarrow> retry_loop E c fn n (Suc attempt) err } } }"

definition doWithRetry ::
  "('w, 'e) ops_env_scheme \<Rightarrow> retryConfig \<Rightarrow> (('w, 's) ops_state_scheme, string + bmc_resp) state \<Rightarrow>
   (('w, 's) ops_state_scheme, string + bmc_resp) state" where
  "doWithRetry E c fn = retry_loop E (retry_defaults c) fn (nat (maxAttempts (retry_defaults c))) 1 None"

text \<open>One attempt: a request that cannot be created is an error of the attempt.\<close>

definition bmc_request :: "BMC \<Rightarrow> string \<Rightarrow> string \<Rightarrow> raw_message \<Rightarrow> bmc_req" where
  "bmc_request b m u body =
     \<lparr>q_method = m, q_url = u,
      q_header = SetBasicAuth (BUsername b) (BPassword b) (if body = RawEmpty then [] else header_set ''Content-Type'' ''application/json'' []),
      q_body = body\<rparr>"

definition attempt_request ::
  "('w, 'e) svc_env_scheme \<Rightarrow> string \<Rightarrow> bmc_req \<Rightarrow> (('w, 's) svc_state_scheme, string + bmc_resp) state" where
  "attempt_request E pre q =
     (case request_error E (q_method q) (q_url q) of
        Some e \<Rightarrow> State_Monad.return (Inl (pre @ e))
      | None \<Rightarrow> http_Do E q)"

section \<open>Reading resources\<close>

definition str_field :: "resource \<Rightarrow> string \<Rightarrow> string" where
  "str_field m k = (case field m k of Some (JStr v) \<Rightarrow> v | _ \<Rightarrow> '''')"

definition bool_field :: "resource \<Rightarrow> string \<Rightarrow> bool" where
  "bool_field m k = (case field m k of Some (JBool v) \<Rightarrow> v | _ \<Rightarrow> False)"

definition members_field :: "resource \<Rightarrow> json list" where
  "members_field m = (case field m ''Members'' of Some (JArr ms) \<Rightarrow> ms | _ \<Rightarrow> [])"

definition member_oid :: "json \<Rightarrow> string" where
  "member_oid m = (case m of JObj kvs \<Rightarrow> str_field (Some kvs) ''@odata.id'' | _ \<Rightarrow> '''')"

text \<open>\<open>getVendor\<close>; what it learns replaces the whole cache entry.\<close>

definition getVendor :: "('w, 'e) svc_env_scheme \<Rightarrow> BMC \<Rightarrow> (('w, 's) svc_state_scheme, string) state" where
  "getVendor E b = do {
     now \<leftarrow> time_Now E;
     s \<leftarrow> State_Monad.get;
     let c = cached_entry (BName b) s;
     if vendor c \<noteq> '''' \<and> now - cachedAt c < 5 * time_Minute then State_Monad.return (vendor c)
     else do {
       rd \<leftarrow> fetchRedfishResource E b ''/redfish/v1/Systems'';
       case (case rd of Inl e \<Rightarrow> [] | Inr m \<Rightarrow> members_field m) of
         [] \<Rightarrow> State_Monad.return ''''
       | m # ms \<Rightarrow>
           if member_oid m = '''' then State_Monad.return ''''
           else do {
             rs \<leftarrow> fetchRedfishResource E b (member_oid m);
             let manu = (case rs of Inl e \<Rightarrow> '''' | Inr sys \<Rightarrow> str_field sys ''Manufacturer'');
             if manu = '''' then State_Monad.return ''''
             else do {
               t \<leftarrow> time_Now E;
               u \<leftarrow> put_cache (BName b) (\<lambda>_. \<lparr>managerID = '''', systemID = '''', vendor = manu, cachedAt = t\<rparr>);
               State_Monad.return manu } } } }"

section \<open>Virtual media\<close>

definition slot_matches :: "string list \<Rightarrow> (string \<times> json) list \<Rightarrow> bool" where
  "slot_matches prefs vm \<longleftrightarrow>
     (case obj_get vm ''MediaTypes'' of
        Some (JArr ts) \<Rightarrow> list_ex (\<lambda>t. case t of JStr x \<Rightarrow> to_lower x \<in> set (map to_lower prefs) | _ \<Rightarrow> False) ts
      | _ \<Rightarrow> False) \<or>
     str_field (Some vm) ''Id'' \<noteq> '''' \<and> list_ex (\<lambda>p. contains (to_lower (str_field (Some vm) ''Id'')) (to_lower p)) prefs"

fun scan_slots ::
  "('w, 'e) svc_env_scheme \<Rightarrow> BMC \<Rightarrow> string list \<Rightarrow> json list \<Rightarrow> (('w, 's) svc_state_scheme, string option) state" where
  "scan_slots E b prefs [] = State_Monad.return None"
| "scan_slots E b prefs (m # ms) =
     (if member_oid m = '''' then scan_slots E b prefs ms
      else do {
        vm \<leftarrow> fetchRedfishResource E b (member_oid m);
        case vm of
          Inr (Some kvs) \<Rightarrow> if slot_matches prefs kvs then State_Monad.return (Some (member_oid m)) else scan_slots E b prefs ms
        | _ \<Rightarrow> scan_slots E b prefs ms })"

definition findVirtualMediaSlot ::
  "('w, 'e) svc_env_scheme \<Rightarrow> BMC \<Rightarrow> string \<Rightarrow> Quirks \<Rightarrow> (('w, 's) svc_state_scheme, string + string) state" where
  "findVirtualMediaSlot E b manager quirks = do {
     rc \<leftarrow> fetchRedfishResource E b (''/redfish/v1/Managers/'' @ manager @ ''/VirtualMedia'');
     case rc of
       Inl e \<Rightarrow> State_Monad.return (Inl (''failed to fetch VirtualMedia collection: '' @ e))
     | Inr coll \<Rightarrow> do {
         let members = members_field coll;
         x \<leftarrow> scan_slots E b (if VirtualMediaPreference quirks = [] then [''cd'', ''dvd''] else VirtualMediaPreference quirks) members;
         State_Monad.return (case x of
             Some oid \<Rightarrow> Inr oid
           | None \<Rightarrow>
               (case members of
                  m # ms \<Rightarrow> if member_oid m \<noteq> '''' then Inr (member_oid m) else Inl ''no VirtualMedia member found''
                | [] \<Rightarrow> Inl ''no VirtualMedia member found'')) } }"

text \<open>The enabled BMC of a name, as the operations on media and boot look it up.\<close>

definition enabled_bmc :: "'e db_env_scheme \<Rightarrow> string \<Rightarrow> ('s db_state_scheme, string + BMC) state" where
  "enabled_bmc E name = do {
     rb \<leftarrow> GetBMCByName E name;
     State_Monad.return (case rb of
         Inl e \<Rightarrow> Inl (''failed to get BMC: '' @ e)
       | Inr None \<Rightarrow> Inl (''BMC not found or disabled: '' @ name)
       | Inr (Some b) \<Rightarrow> if BEnabled b then Inr b else Inl (''BMC not found or disabled: '' @ name)) }"

definition reply_error :: "string \<Rightarrow> bmc_resp \<Rightarrow> string option" where
  "reply_error what p = (if is_2xx p then None else Some (what @ '' status '' @ itoa (p_status p) @ '': '' @ p_body p))"

definition override_set :: "resource \<Rightarrow> string \<Rightarrow> bool" where
  "override_set cur target \<longleftrightarrow>
     (case field cur ''Boot'' of
        Some (JObj boot) \<Rightarrow>
          equal_fold (str_field (Some boot) ''BootSourceOverrideEnabled'') ''Once'' \<and>
          equal_fold (str_field (Some boot) ''BootSourceOverrideTarget'') target
      | _ \<Rightarrow> False)"

definition override_payload :: "string \<Rightarrow> json" where
  "override_payload target =
     JObj [(''Boot'', JObj [(''BootSourceOverrideEnabled'', JStr ''Once''), (''BootSourceOverrideTarget'', JStr target)])]"

definition SetOneTimeBoot ::
  "('w, 'e) ops_env_scheme \<Rightarrow> string \<Rightarrow> string \<Rightarrow> (('w, 's) ops_state_scheme, string option) state" where
  "SetOneTimeBoot E bmcName target = do {
     rb \<leftarrow> enabled_bmc E bmcName;
     case rb of
       Inl e \<Rightarrow> State_Monad.return (Some e)
     | Inr b \<Rightarrow> do {
         v \<leftarrow> getVendor E b;
         ri \<leftarrow> GetFirstSystemID E bmcName;
         case ri of
           Inl e \<Rightarrow> State_Monad.return (Some (''failed to get system ID: '' @ e))
         | Inr i \<Rightarrow> do {
             let sysPath = ''/redfish/v1/Systems/'' @ i;
             cur \<leftarrow> fetchRedfishResource E b sysPath;
             if (case cur of Inl e \<Rightarrow> False | Inr m \<Rightarrow> override_set m target) then State_Monad.return None
             else do {
               x \<leftarrow> doWithRetry E newDefaultRetryConfig (attempt_request E ''''
                  (bmc_request b ''PATCH'' (buildBMCURL b sysPath) (RawJson (override_payload (mapBootTarget (getQuirks v) target)))));
               State_Monad.return (case x of
                   Inl e \<Rightarrow> Some (''set one-time boot failed: '' @ e)
                 | Inr p \<Rightarrow> reply_error ''set one-time boot'' p) } } } }"

definition holds_image :: "resource \<Rightarrow> string \<Rightarrow> bool" where
  "holds_image vm imageURL \<longleftrightarrow> bool_field vm ''Inserted'' \<and> str_field vm ''Image'' = imageURL"

definition insert_body :: "string \<Rightarrow> bool \<Rightarrow> json" where
  "insert_body imageURL wp = JObj [(''Image'', JStr imageURL), (''Inserted'', JBool True), (''WriteProtected'', JBool wp)]"

definition patch_body :: "string \<Rightarrow> json" where
  "patch_body imageURL = JObj [(''Image'', JStr imageURL), (''Inserted'', JBool True)]"

definition action_path :: "string \<Rightarrow> string \<Rightarrow> string \<Rightarrow> string" where
  "action_path slotOID given std = slotOID @ ''/Actions/'' @ (if given = '''' then std else given)"

text \<open>The insertion itself: the action, and where the BMC does not offer it a PATCH on the slot.\<close>

definition insert_slot ::
  "('w, 'e) ops_env_scheme \<Rightarrow> BMC \<Rightarrow> Quirks \<Rightarrow> string \<Rightarrow> string \<Rightarrow> bool \<Rightarrow> (('w, 's) ops_state_scheme, string option) state" where
  "insert_slot E b quirks slotOID imageURL writeProtected = do {
     x \<leftarrow> doWithRetry E newDefaultRetryConfig (attempt_request E '''' (bmc_request b ''POST''
        (buildBMCURL b (action_path slotOID (InsertAction quirks) ''VirtualMedia.InsertMedia''))
        (RawJson (insert_body imageURL (writeProtected \<or> RequiresWriteProtected quirks)))));
     case x of
       Inl e \<Rightarrow> State_Monad.return (Some (''insert media failed: '' @ e))
     | Inr p \<Rightarrow>
         if p_status p = StatusNotFound \<or> p_status p = StatusMethodNotAllowed \<or> p_status p = StatusBadRequest then do {
           y \<leftarrow> doWithRetry E newDefaultRetryConfig (attempt_request E ''''
              (bmc_request b ''PATCH'' (buildBMCURL b slotOID) (RawJson (patch_body imageURL))));
           State_Monad.return (case y of
               Inl e \<Rightarrow> Some (''insert media fallback failed: '' @ e)
             | Inr pp \<Rightarrow> reply_error ''insert media fallback'' pp) }
         else State_Monad.return (reply_error ''insert media'' p) }"

definition boot_once :: "('w, 'e) ops_env_scheme \<Rightarrow> string \<Rightarrow> bool \<Rightarrow> (('w, 's) ops_state_scheme, string option) state" where
  "boot_once E bmcName bootOnce =
     (if bootOnce then do { e \<leftarrow> SetOneTimeBoot E bmcName ''Cd''; State_Monad.return None } else State_Monad.return None)"

definition InsertVirtualMedia ::
  "('w, 'e) ops_env_scheme \<Rightarrow> string \<Rightarrow> string \<Rightarrow> bool \<Rightarrow> bool \<Rightarrow> (('w, 's) ops_state_scheme, string option) state" where
  "InsertVirtualMedia E bmcName imageURL writeProtected bootOnce = do {
     rb \<leftarrow> enabled_bmc E bmcName;
     case rb of
       Inl e \<Rightarrow> State_Monad.return (Some e)
     | Inr b \<Rightarrow> do {
         v \<leftarrow> getVendor E b;
         ri \<leftarrow> GetFirstManagerID E bmcName;
         case ri of
           Inl e \<Rightarrow> State_Monad.return (Some (''failed to get manager ID: '' @ e))
         | Inr i \<Rightarrow> do {
             rs \<leftarrow> findVirtualMediaSlot E b i (getQuirks v);
             case rs of
               Inl e \<Rightarrow> State_Monad.return (Some e)
             | Inr slotOID \<Rightarrow> do {
                 vm \<leftarrow> fetchRedfishResource E b slotOID;
                 if (case vm of Inl e \<Rightarrow> False | Inr m \<Rightarrow> holds_image m imageURL) then boot_once E bmcName bootOnce
                 else do {
                   err \<leftarrow> insert_slot E b (getQuirks v) slotOID imageURL writeProtected;
                   case err of
                     Some e \<Rightarrow> State_Monad.return (Some e)
                   | None \<Rightarrow> do {
                       d \<leftarrow> (if DelayAfterInsert (getQuirks v) > 0 then wait_or_done E (DelayAfterInsert (getQuirks v))
                            else State_Monad.return None);
                       case d of
                         Some e \<Rightarrow> State_Monad.return (Some e)
                       | None \<Rightarrow> boot_once E bmcName bootOnce } } } } } }"

definition eject_slot :: "('w, 'e) ops_env_scheme \<Rightarrow> BMC \<Rightarrow> Quirks \<Rightarrow> string \<Rightarrow> (('w, 's) ops_state_scheme, string option) state" where
  "eject_slot E b quirks slotOID = do {
     x \<leftarrow> doWithRetry E newDefaultRetryConfig (attempt_request E '''' (bmc_request b ''POST''
        (buildBMCURL b (action_path slotOID (EjectAction quirks) ''VirtualMedia.EjectMedia'')) RawEmpty));
     case x of
       Inl e \<Rightarrow> State_Monad.return (Some (''eject media failed: '' @ e))
     | Inr p \<Rightarrow>
         if p_status p = StatusNotFound \<or> p_status p = StatusMethodNotAllowed then do {
           y \<leftarrow> doWithRetry E newDefaultRetryConfig (attempt_request E ''''
              (bmc_request b ''PATCH'' (buildBMCURL b slotOID) (RawJson (JObj [(''Inserted'', JBool False)]))));
           State_Monad.return (case y of
               Inl e \<Rightarrow> Some e
             | Inr pp \<Rightarrow> reply_error ''eject media fallback'' pp) }
         else State_Monad.return (reply_error ''eject media'' p) }"

definition EjectVirtualMedia :: "('w, 'e) ops_env_scheme \<Rightarrow> string \<Rightarrow> (('w, 's) ops_state_scheme, string option) state" where
  "EjectVirtualMedia E bmcName = do {
     rb \<leftarrow> enabled_bmc E bmcName;
     case rb of
       Inl e \<Rightarrow> State_Monad.return (Some e)
     | Inr b \<Rightarrow> do {
         v \<leftarrow> getVendor E b;
         ri \<leftarrow> GetFirstManagerID E bmcName;
         case ri of
           Inl e \<Rightarrow> State_Monad.return (Some (''failed to get manager ID: '' @ e))
         | Inr i \<Rightarrow> do {
             rs \<leftarrow> findVirtualMediaSlot E b i (getQuirks v);
             case rs of
               Inl e \<Rightarrow> State_Monad.return (Some e)
             | Inr slotOID \<Rightarrow> do {
                 vm \<leftarrow> fetchRedfishResource E b slotOID;
                 if (case vm of Inr (Some m) \<Rightarrow> \<not> bool_field (Some m) ''Inserted'' | _ \<Rightarrow> False) then State_Monad.return None
                 else eject_slot E b (getQuirks v) slotOID } } } }"

section \<open>Power\<close>

definition decode_systems :: "raw_message \<Rightarrow> string list option" where
  "decode_systems raw =
     (case raw of
        RawJson v \<Rightarrow> decode_object (\<lambda>k v ms.
          if equal_fold k ''Members'' then
            decode_slice (decode_object (\<lambda>k v oid. if equal_fold k ''@odata.id'' then decode_str v oid else Some oid)) '''' v ms
          else Some ms) v []
      | _ \<Rightarrow> None)"

text \<open>The first part of \<open>PowerControl\<close>: the path of the first system.\<close>

definition first_system_path :: "('w, 'e) svc_env_scheme \<Rightarrow> BMC \<Rightarrow> (('w, 's) svc_state_scheme, string + string) state" where
  "first_system_path E b =
     (case request_error E ''GET'' (buildBMCURL b ''/redfish/v1/Systems'') of
        Some e \<Rightarrow> State_Monad.return (Inl (''failed to create systems request: '' @ e))
      | None \<Rightarrow> do {
          x \<leftarrow> http_Do E \<lparr>q_method = ''GET'', q_url = buildBMCURL b ''/redfish/v1/Systems'',
            q_header = header_set ''Accept'' ''application/json'' (SetBasicAuth (BUsername b) (BPassword b) []), q_body = RawEmpty\<rparr>;
          State_Monad.return (case x of
              Inl e \<Rightarrow> Inl (''failed to get systems: '' @ e)
            | Inr p \<Rightarrow>
                if p_status p \<noteq> StatusOK
                then Inl (''failed to get systems collection: status '' @ itoa (p_status p) @ '': '' @ p_body p)
                else (case decode_systems (p_tree p) of
                        None \<Rightarrow> Inl ''failed to parse systems collection''
                      | Some [] \<Rightarrow> Inl ''no systems found on BMC''
                      | Some (systemPath # _) \<Rightarrow> Inr systemPath)) })"

definition reset_request :: "BMC \<Rightarrow> string \<Rightarrow> string \<Rightarrow> bmc_req" where
  "reset_request b systemPath action =
     bmc_request b ''POST'' (buildBMCURL b (systemPath @ ''/Actions/ComputerSystem.Reset'')) (RawJson (JObj [(''ResetType'', JStr action)]))"

definition PowerControl ::
  "('w, 'e) ops_env_scheme \<Rightarrow> string \<Rightarrow> string \<Rightarrow> (('w, 's) ops_state_scheme, string option) state" where
  "PowerControl E bmcName action = do {
     rb \<leftarrow> GetBMCByName E bmcName;
     case rb of
       Inl e \<Rightarrow> State_Monad.return (Some (''failed to get BMC: '' @ e))
     | Inr None \<Rightarrow> State_Monad.return (Some (''BMC not found: '' @ bmcName))
     | Inr (Some b) \<Rightarrow>
         if \<not> BEnabled b then State_Monad.return (Some (''BMC is disabled: '' @ bmcName))
         else do {
           rp \<leftarrow> first_system_path E b;
           case rp of
             Inl e \<Rightarrow> State_Monad.return (Some e)
           | Inr systemPath \<Rightarrow> do {
               v \<leftarrow> getVendor E b;
               x \<leftarrow> doWithRetry E newDefaultRetryConfig
                  (attempt_request E ''failed to create power control request: '' (reset_request b systemPath action));
               case x of
                 Inl e \<Rightarrow> State_Monad.return (Some (''failed to execute power control request: '' @ e))
               | Inr p \<Rightarrow>
                   if \<not> is_2xx p
                   then State_Monad.return (Some (''power control failed with status '' @ itoa (p_status p) @ '': '' @ p_body p))
                   else do { u \<leftarrow> UpdateBMCLastSeen E (BID b); State_Monad.return None } } } }"

definition TestUnauthenticatedConnection ::
  "('w, 'e) ops_env_scheme \<Rightarrow> string \<Rightarrow> (('w, 's) svc_state_scheme, string option) state" where
  "TestUnauthenticatedConnection E address =
     (case resolve_root E (if \<not> has_prefix address ''http://'' \<and> \<not> has_prefix address ''https://'' then ''https://'' @ address else address) of
        Inl e \<Rightarrow> State_Monad.return (Some (''invalid BMC address: '' @ e))
      | Inr u \<Rightarrow>
          (case request_error E ''GET'' u of
             Some e \<Rightarrow> State_Monad.return (Some (''failed to create test request: '' @ e))
           | None \<Rightarrow> do {
               x \<leftarrow> http_Do E \<lparr>q_method = ''GET'', q_url = u, q_header = [], q_body = RawEmpty\<rparr>;
               State_Monad.return (case x of
                   Inl e \<Rightarrow> Some (''failed to connect to BMC: '' @ e)
                 | Inr p \<Rightarrow>
                     let contentType = (case map_of (p_header p) ''Content-Type'' of Some (c # _) \<Rightarrow> c | _ \<Rightarrow> '''') in
                     if p_status p = StatusOK \<or> p_status p = StatusUnauthorized then None
                     else if contains (to_lower contentType) ''application/json'' \<and> p_status p < 500 then None
                     else Some (''BMC returned unexpected status: '' @ itoa (p_status p))) }))"

section \<open>Repair after a restart\<close>

text \<open>The part of \<open>ReconcileState\<close> on virtual media; \<open>Some\<close> is the error of the context.\<close>

definition reconcile_media ::
  "('w, 'e) ops_env_scheme \<Rightarrow> BMC \<Rightarrow> string \<Rightarrow> string \<Rightarrow> (('w, 's) ops_state_scheme, string option) state" where
  "reconcile_media E b bmcName expectedImage = do {
     ri \<leftarrow> GetFirstManagerID E bmcName;
     case ri of
       Inl e \<Rightarrow> State_Monad.return None
     | Inr i \<Rightarrow>
         if i = '''' then State_Monad.return None
         else do {
           v \<leftarrow> getVendor E b;
           rs \<leftarrow> findVirtualMediaSlot E b i (getQuirks v);
           case rs of
             Inl e \<Rightarrow> State_Monad.return None
           | Inr slotOID \<Rightarrow> do {
               vm \<leftarrow> fetchRedfishResource E b slotOID;
               if (case vm of Inr (Some m) \<Rightarrow> \<not> holds_image (Some m) expectedImage | _ \<Rightarrow> False) then do {
                 e \<leftarrow> InsertVirtualMedia E bmcName expectedImage False False;
                 wait_or_done E (300 * time_Millisecond) }
               else State_Monad.return None } } }"

definition reconcile_boot ::
  "('w, 'e) ops_env_scheme \<Rightarrow> BMC \<Rightarrow> string \<Rightarrow> (('w, 's) ops_state_scheme, unit) state" where
  "reconcile_boot E b bmcName = do {
     ri \<leftarrow> GetFirstSystemID E bmcName;
     case ri of
       Inl e \<Rightarrow> State_Monad.return ()
     | Inr i \<Rightarrow>
         if i = '''' then State_Monad.return ()
         else do {
           cur \<leftarrow> fetchRedfishResource E b (''/redfish/v1/Systems/'' @ i);
           case cur of
             Inl e \<Rightarrow> State_Monad.return ()
           | Inr m \<Rightarrow>
               if (case field m ''Boot'' of Some (JObj _) \<Rightarrow> True | _ \<Rightarrow> False) \<and> \<not> override_set m ''Cd''
               then do { e \<leftarrow> SetOneTimeBoot E bmcName ''Cd''; State_Monad.return () }
               else State_Monad.return () } }"

definition ReconcileState ::
  "('w, 'e) ops_env_scheme \<Rightarrow> string \<Rightarrow> string \<Rightarrow> bool \<Rightarrow> (('w, 's) ops_state_scheme, string option) state" where
  "ReconcileState E bmcName expectedImage ensureBootOnce = do {
     rb \<leftarrow> GetBMCByName E bmcName;
     case rb of
       Inl e \<Rightarrow> State_Monad.return (Some e)
     | Inr None \<Rightarrow> State_Monad.return None
     | Inr (Some b) \<Rightarrow>
         if \<not> BEnabled b then State_Monad.return None
         else do {
           d \<leftarrow> (if expectedImage \<noteq> '''' then reconcile_media E b bmcName expectedImage else State_Monad.return None);
           case d of
             Some e \<Rightarrow> State_Monad.return (Some e)
           | None \<Rightarrow>
               if ensureBootOnce then do { u \<leftarrow> reconcile_boot E b bmcName; State_Monad.return None }
               else State_Monad.return None } }"

end
