(* ===== verification/Settings.thy ===== *)
theory Settings
  imports BmcOps "HOL-Library.Word"
begin

text \<open>
  Settings of servers: their descriptors in the database (\<open>internal/database/database.go\<close>), and their
  discovery, enrichment and update by the BMC service (\<open>internal/bmc/service.go\<close>).

  A value of Go type \<open>interface{}\<close> is a JSON tree, nil is \<open>JNull\<close>. The order in which Go iterates over a
  map is \<open>range_order\<close>, one choice per tick; how a \<open>float64\<close> is printed is \<open>fmt_float\<close>. The two
  caches are maps from the name of the BMC and the reference to the resource.
\<close>

unbundle bit_operations_syntax

record SettingDescriptor =
  DID :: string
  DBMCName :: string
  ResourcePath :: string
  Attribute :: string
  DisplayName :: string
  DescriptionText :: string
  DType :: string
  EnumValues :: "string list"
  DMin :: "rat option"
  DMax :: "rat option"
  Pattern :: string
  Units :: string
  ReadOnly :: bool
  OEM :: bool
  OEMVendor :: string
  ApplyTimes :: "string list"
  ActionTarget :: string
  CurrentValue :: json
  SourceTimeISO :: string

record 'w set_env = "'w ops_env" +
  range_order :: "nat \<Rightarrow> (string \<times> json) list \<Rightarrow> (string \<times> json) list"
  fmt_float :: "rat \<Rightarrow> string"

record cache_entry =
  payload :: "(string \<times> json) list"
  fetchedAt :: time

record 'w set_state = "'w ops_state" +
  regCache :: "string \<times> string \<rightharpoonup> cache_entry"
  aiCache :: "string \<times> string \<rightharpoonup> cache_entry"

section \<open>Descriptors in the database\<close>

definition marshal_strings :: "('w, 'e) svc_env_scheme \<Rightarrow> string list \<Rightarrow> string" where
  "marshal_strings E xs = (if xs = [] then '''' else json_Marshal E (JArr (map JStr xs)))"

text \<open>Elements of a wrong type leave the zero value; a text that is no array leaves the slice nil.\<close>

definition unmarshal_list :: "('w, 'e) svc_env_scheme \<Rightarrow> string \<Rightarrow> string list" where
  "unmarshal_list E t =
     (if t = '''' then []
      else (case json_Unmarshal E t of
              RawJson (JArr vs) \<Rightarrow> map (\<lambda>v. case v of JStr x \<Rightarrow> x | _ \<Rightarrow> '''') vs
            | _ \<Rightarrow> []))"

definition marshal_value :: "('w, 'e) svc_env_scheme \<Rightarrow> json \<Rightarrow> string" where
  "marshal_value E v = (if v = JNull then '''' else json_Marshal E v)"

definition unmarshal_value :: "('w, 'e) svc_env_scheme \<Rightarrow> string \<Rightarrow> json" where
  "unmarshal_value E t = (if t = '''' then JNull else (case json_Unmarshal E t of RawJson v \<Rightarrow> v | _ \<Rightarrow> JNull))"

definition desc_row_of :: "('w, 'e) svc_env_scheme \<Rightarrow> int \<Rightarrow> SettingDescriptor \<Rightarrow> time \<Rightarrow> desc_row" where
  "desc_row_of E i d now =
     \<lparr>r_id = DID d, r_bmc_id = i, r_resource_path = ResourcePath d, r_attribute = Attribute d, r_display_name = DisplayName d,
      r_description = DescriptionText d, r_type = DType d, r_enum_values = marshal_strings E (EnumValues d), r_min = DMin d, r_max = DMax d,
      r_pattern = Pattern d, r_units = Units d, r_read_only = ReadOnly d, r_oem = OEM d, r_oem_vendor = OEMVendor d,
      r_apply_times = marshal_strings E (ApplyTimes d), r_action_target = ActionTarget d, r_updated_at = current_timestamp now\<rparr>"

definition value_row_of :: "('w, 'e) svc_env_scheme \<Rightarrow> SettingDescriptor \<Rightarrow> time \<Rightarrow> value_row" where
  "value_row_of E d now =
     \<lparr>v_descriptor_id = DID d, v_current_value = marshal_value E (CurrentValue d), v_source_timestamp = SourceTimeISO d,
      v_updated_at = current_timestamp now\<rparr>"

text \<open>\<open>INSERT ... ON CONFLICT DO UPDATE\<close>: all columns of a row with the same key are replaced.\<close>

definition upsert_row :: "('a \<Rightarrow> string) \<Rightarrow> 'a \<Rightarrow> 'a list \<Rightarrow> 'a list" where
  "upsert_row k x rows =
     (if has_row (\<lambda>r. k r = k x) rows then upd_where (\<lambda>r. k r = k x) (\<lambda>_. x) rows else rows @ [x])"

definition upsert_descriptor :: "desc_row \<Rightarrow> agg_db \<Rightarrow> string + agg_db" where
  "upsert_descriptor r d =
     (if \<not> has_row (\<lambda>b. BID b = r_bmc_id r) (bmcs d) then Inl ''FOREIGN KEY constraint failed''
      else Inr (d\<lparr>settings_descriptors := upsert_row r_id r (settings_descriptors d)\<rparr>))"

definition upsert_value :: "value_row \<Rightarrow> agg_db \<Rightarrow> string + agg_db" where
  "upsert_value v d =
     (if \<not> has_row (\<lambda>r. r_id r = v_descriptor_id v) (settings_descriptors d) then Inl ''FOREIGN KEY constraint failed''
      else Inr (d\<lparr>settings_values := upsert_row v_descriptor_id v (settings_values d)\<rparr>))"

text \<open>The statements of a transaction, one after the other; an error rolls all of them back.\<close>

type_synonym tx_stmt = "string \<times> (time \<Rightarrow> agg_db \<Rightarrow> string + agg_db)"

fun run_tx :: "'e db_env_scheme \<Rightarrow> tx_stmt list \<Rightarrow> nat \<Rightarrow> agg_db \<Rightarrow> (string + agg_db) \<times> nat" where
  "run_tx E [] n d = (Inr d, n)"
| "run_tx E ((pre, f) # rest) n d =
     (case stmt_fault E n of
        Some e \<Rightarrow> (Inl (pre @ e), Suc n)
      | None \<Rightarrow>
          (case f (now_at E n) d of
             Inl e \<Rightarrow> (Inl (pre @ e), Suc n)
           | Inr d' \<Rightarrow> run_tx E rest (Suc n) d'))"

definition upsert_stmts :: "('w, 'e) svc_env_scheme \<Rightarrow> int \<Rightarrow> SettingDescriptor \<Rightarrow> tx_stmt list" where
  "upsert_stmts E i d =
     [(''upsert descriptor failed: '', \<lambda>now. upsert_descriptor (desc_row_of E i d now)),
      (''upsert value failed: '', \<lambda>now. upsert_value (value_row_of E d now))]"

definition upsert_tx :: "('w, 'e) svc_env_scheme \<Rightarrow> int \<Rightarrow> SettingDescriptor list \<Rightarrow> tx_stmt list" where
  "upsert_tx E i descs =
     [(''failed to begin tx: '', \<lambda>_. Inr), (''prepare descriptor stmt failed: '', \<lambda>_. Inr), (''prepare values stmt failed: '', \<lambda>_. Inr)] @
     concat (map (upsert_stmts E i) descs) @ [(''commit failed: '', \<lambda>_. Inr)]"

definition UpsertSettingDescriptors ::
  "('w, 'e) svc_env_scheme \<Rightarrow> string \<Rightarrow> SettingDescriptor list \<Rightarrow> ('s db_state_scheme, string + unit) state" where
  "UpsertSettingDescriptors E bmcName descs =
     (if descs = [] then State_Monad.return (Inr ())
      else do {
        rb \<leftarrow> GetBMCByName E bmcName;
        case rb of
          Inl e \<Rightarrow> State_Monad.return (Inl (''failed to get BMC by name: '' @ e))
        | Inr None \<Rightarrow> State_Monad.return (Inl (''BMC not found: '' @ bmcName))
        | Inr (Some b) \<Rightarrow> State (\<lambda>s.
            case run_tx E (upsert_tx E (BID b) descs) (ticks s) (adb s) of
              (Inl e, n) \<Rightarrow> (Inl e, s\<lparr>ticks := n\<rparr>)
            | (Inr d, n) \<Rightarrow> (Inr (), s\<lparr>ticks := n, adb := d\<rparr>)) })"

text \<open>A row of the join, read back; a descriptor without a value row has neither value nor time.\<close>

definition read_descriptor :: "('w, 'e) svc_env_scheme \<Rightarrow> string \<Rightarrow> value_row list \<Rightarrow> desc_row \<Rightarrow> SettingDescriptor" where
  "read_descriptor E bmcName vals r =
     (let v = List.find (\<lambda>v. v_descriptor_id v = r_id r) vals in
      \<lparr>DID = r_id r, DBMCName = bmcName, ResourcePath = r_resource_path r, Attribute = r_attribute r, DisplayName = r_display_name r,
       DescriptionText = r_description r, DType = r_type r, EnumValues = unmarshal_list E (r_enum_values r), DMin = r_min r, DMax = r_max r,
       Pattern = r_pattern r, Units = r_units r, ReadOnly = r_read_only r, OEM = r_oem r, OEMVendor = r_oem_vendor r,
       ApplyTimes = unmarshal_list E (r_apply_times r), ActionTarget = r_action_target r,
       CurrentValue = (case v of None \<Rightarrow> JNull | Some w \<Rightarrow> unmarshal_value E (v_current_value w)),
       SourceTimeISO = (case v of None \<Rightarrow> '''' | Some w \<Rightarrow> v_source_timestamp w)\<rparr>)"

definition GetSettingDescriptor ::
  "('w, 'e) svc_env_scheme \<Rightarrow> string \<Rightarrow> string \<Rightarrow> ('s db_state_scheme, string + SettingDescriptor option) state" where
  "GetSettingDescriptor E bmcName descriptorID = do {
     rb \<leftarrow> GetBMCByName E bmcName;
     case rb of
       Inl e \<Rightarrow> State_Monad.return (Inl (''failed to get BMC by name: '' @ e))
     | Inr None \<Rightarrow> State_Monad.return (Inr None)
     | Inr (Some b) \<Rightarrow> query E ''failed to get settings descriptor: '' (\<lambda>_ d.
         map_option (read_descriptor E bmcName (settings_values d))
           (List.find (\<lambda>r. r_bmc_id r = BID b \<and> r_id r = descriptorID) (settings_descriptors d))) }"

text \<open>\<open>LIKE\<close>: case-insensitive for ASCII letters, \<open>%\<close> any text, \<open>_\<close> any character (a byte here, so for ASCII text).\<close>

fun sql_like :: "string \<Rightarrow> string \<Rightarrow> bool" where
  "sql_like [] s \<longleftrightarrow> s = []"
| "sql_like (p # ps) [] \<longleftrightarrow> p = CHR ''%'' \<and> sql_like ps []"
| "sql_like (p # ps) (c # s) \<longleftrightarrow>
     (if p = CHR ''%'' then sql_like ps (c # s) \<or> sql_like (p # ps) s
      else (p = CHR ''_'' \<or> ascii_lower p = ascii_lower c) \<and> sql_like ps s)"

definition GetSettingsDescriptors ::
  "('w, 'e) svc_env_scheme \<Rightarrow> string \<Rightarrow> string \<Rightarrow> ('s db_state_scheme, string + SettingDescriptor list) state" where
  "GetSettingsDescriptors E bmcName resourceFilter = do {
     rb \<leftarrow> GetBMCByName E bmcName;
     case rb of
       Inl e \<Rightarrow> State_Monad.return (Inl (''failed to get BMC by name: '' @ e))
     | Inr None \<Rightarrow> State_Monad.return (Inr [])
     | Inr (Some b) \<Rightarrow> query E ''failed to query settings descriptors: '' (\<lambda>_ d.
         map (read_descriptor E bmcName (settings_values d))
           (order_by r_resource_path (order_by r_attribute (filter (\<lambda>r. r_bmc_id r = BID b \<and>
              (resourceFilter = '''' \<or> sql_like (''%'' @ resourceFilter @ ''%'') (r_resource_path r))) (settings_descriptors d))))) }"


section \<open>Values\<close>

text \<open>\<open>fmt.Sprint\<close> and the verb \<open>%v\<close> on decoded JSON; maps are printed in the order of their keys.\<close>

fun fmt_v :: "(rat \<Rightarrow> string) \<Rightarrow> json \<Rightarrow> string" where
  "fmt_v ff JNull = ''<nil>''"
| "fmt_v ff (JBool b) = (if b then ''true'' else ''false'')"
| "fmt_v ff (JNum x) = ff x"
| "fmt_v ff (JStr t) = t"
| "fmt_v ff (JArr vs) = ''['' @ join_with '' '' (map (fmt_v ff) vs) @ '']''"
| "fmt_v ff (JObj kvs) =
     (let ps = map (\<lambda>(k, v). (k, fmt_v ff v)) kvs in
      ''map['' @ join_with '' '' (map (\<lambda>k. k @ '':'' @ (case map_of (rev ps) k of Some t \<Rightarrow> t | None \<Rightarrow> ''''))
        (order_by (\<lambda>k. k) (remdups (map fst ps)))) @ '']'')"

text \<open>The verb \<open>%T\<close>.\<close>

fun go_type :: "json \<Rightarrow> string" where
  "go_type JNull = ''<nil>''"
| "go_type (JBool b) = ''bool''"
| "go_type (JNum x) = ''float64''"
| "go_type (JStr t) = ''string''"
| "go_type (JArr vs) = ''[]interface {}''"
| "go_type (JObj kvs) = ''map[string]interface {}''"

definition string_list :: "('w, 'e) set_env_scheme \<Rightarrow> json list \<Rightarrow> string list" where
  "string_list E = map (fmt_v (fmt_float E))"

fun inferType :: "json \<Rightarrow> string" where
  "inferType (JStr t) = ''string''"
| "inferType (JBool b) = ''boolean''"
| "inferType (JNum x) = ''number''"
| "inferType (JArr vs) = ''array''"
| "inferType (JObj kvs) = ''object''"
| "inferType JNull = ''unknown''"

definition fnv_step :: "char \<Rightarrow> 64 word \<Rightarrow> 64 word" where
  "fnv_step c h = (h XOR of_char c) * 1099511628211"

text \<open>The verb \<open>%x\<close> on an unsigned number.\<close>

function hex_text :: "int \<Rightarrow> string" where
  "hex_text n = (if n < 16 then [hex_digit (nat n)] else hex_text (n div 16) @ [hex_digit (nat (n mod 16))])"
  by auto
termination by (relation "measure nat") auto

declare hex_text.simps [simp del]

definition hashID :: "string list \<Rightarrow> string" where
  "hashID parts = hex_text (uint (fold fnv_step (join_with ''|'' parts) 1469598103934665603))"

section \<open>Reading a resource\<close>

definition entries :: "(string \<times> json) list \<Rightarrow> (string \<times> json) list" where
  "entries kvs = map (\<lambda>k. (k, case obj_get kvs k of Some v \<Rightarrow> v | None \<Rightarrow> JNull)) (obj_keys kvs)"

definition pickWritableLookingFields :: "(string \<times> json) list \<Rightarrow> (string \<times> json) list" where
  "pickWritableLookingFields kvs =
     filter (\<lambda>(k, v). \<not> has_prefix k ''@'' \<and>
       k \<notin> {''Id'', ''Name'', ''Description'', ''Links'', ''Oem'', ''Actions'', ''Status'', ''Members'', ''Drives''}) (entries kvs)"

definition network_fields :: "(string \<times> json) list \<Rightarrow> (string \<times> json) list" where
  "network_fields kvs =
     filter (\<lambda>(k, v). \<not> has_prefix k ''@'' \<and> k \<notin> {''Id'', ''Name'', ''Description'', ''Links'', ''Oem'', ''Actions''}) (entries kvs)"

definition bios_attributes :: "(string \<times> json) list \<Rightarrow> (string \<times> json) list" where
  "bios_attributes kvs = (case obj_get kvs ''Attributes'' of Some (JObj attrs) \<Rightarrow> entries attrs | _ \<Rightarrow> [])"

definition extractApplyTimesAndSettingsObject :: "(string \<times> json) list \<Rightarrow> string list \<times> string" where
  "extractApplyTimesAndSettingsObject kvs =
     (case obj_get kvs ''@Redfish.Settings'' of
        Some (JObj st) \<Rightarrow>
          (case obj_get st ''SettingsObject'' of
             Some (JObj so) \<Rightarrow>
               (case obj_get so ''@odata.id'' of
                  Some (JStr oid) \<Rightarrow>
                    ((case obj_get st ''SupportedApplyTimes'' of
                        Some (JArr ats) \<Rightarrow> List.map_filter (\<lambda>v. case v of JStr t \<Rightarrow> if t \<noteq> '''' then Some t else None | _ \<Rightarrow> None) ats
                      | _ \<Rightarrow> []), oid)
                | _ \<Rightarrow> ([], ''''))
           | _ \<Rightarrow> ([], ''''))
      | _ \<Rightarrow> ([], ''''))"

definition new_descriptor :: "string \<Rightarrow> string \<Rightarrow> string \<Rightarrow> string list \<Rightarrow> string \<Rightarrow> string \<times> json \<Rightarrow> SettingDescriptor" where
  "new_descriptor bmcName path ts ats target = (\<lambda>(attr, v).
     \<lparr>DID = hashID [bmcName, path, attr], DBMCName = bmcName, ResourcePath = path, Attribute = attr, DisplayName = '''', DescriptionText = '''',
      DType = inferType v, EnumValues = [], DMin = None, DMax = None, Pattern = '''', Units = '''', ReadOnly = False, OEM = False,
      OEMVendor = '''', ApplyTimes = ats, ActionTarget = target, CurrentValue = v, SourceTimeISO = ts\<rparr>)"

definition timestamp :: "time \<Rightarrow> string" where
  "timestamp t = rfc3339 (current_timestamp t)"

definition buildDescriptorsFromMap ::
  "('w, 'e) set_env_scheme \<Rightarrow> string \<Rightarrow> string \<Rightarrow> (string \<times> json) list \<Rightarrow> string list \<Rightarrow> string \<Rightarrow>
   ('s db_state_scheme, SettingDescriptor list) state" where
  "buildDescriptorsFromMap E bmcName path vals ats target = do {
     t \<leftarrow> time_Now E;
     n \<leftarrow> tick;
     State_Monad.return (map (new_descriptor bmcName path (timestamp t) ats target) (range_order E n vals)) }"


section \<open>Registries and action parameters\<close>

definition fetched :: "string + resource \<Rightarrow> (string \<times> json) list option" where
  "fetched r = (case r of Inr (Some kvs) \<Rightarrow> Some kvs | _ \<Rightarrow> None)"

text \<open>What is cached and not older than \<open>registryCacheTTL\<close>, unless the context asks to bypass the caches.\<close>

definition cache_lookup ::
  "('w, 'e) set_env_scheme \<Rightarrow> bool \<Rightarrow> (('w, 's) set_state_scheme \<Rightarrow> string \<times> string \<rightharpoonup> cache_entry) \<Rightarrow> string \<times> string \<Rightarrow>
   (('w, 's) set_state_scheme, (string \<times> json) list option) state" where
  "cache_lookup E refresh cache k =
     (if refresh then State_Monad.return None
      else do {
        now \<leftarrow> time_Now E;
        s \<leftarrow> State_Monad.get;
        State_Monad.return (case cache s k of
            Some c \<Rightarrow> if now - fetchedAt c < 15 * time_Minute then Some (payload c) else None
          | None \<Rightarrow> None) })"

fun find_registry ::
  "('w, 'e) svc_env_scheme \<Rightarrow> BMC \<Rightarrow> string \<Rightarrow> json list \<Rightarrow> (('w, 's) svc_state_scheme, (string \<times> json) list option) state" where
  "find_registry E b regID [] = State_Monad.return None"
| "find_registry E b regID (m # ms) =
     (case m of
        JObj mm \<Rightarrow>
          (case obj_get mm ''@odata.id'' of
             Some (JStr oid) \<Rightarrow>
               if contains (to_lower oid) (to_lower regID) then do {
                 r \<leftarrow> fetchRedfishResource E b oid;
                 case fetched r of Some kvs \<Rightarrow> State_Monad.return (Some kvs) | None \<Rightarrow> find_registry E b regID ms }
               else find_registry E b regID ms
           | _ \<Rightarrow> find_registry E b regID ms)
      | _ \<Rightarrow> find_registry E b regID ms)"

fun follow_location ::
  "('w, 'e) svc_env_scheme \<Rightarrow> BMC \<Rightarrow> (string \<times> json) list \<Rightarrow> json list \<Rightarrow> (('w, 's) svc_state_scheme, (string \<times> json) list) state" where
  "follow_location E b found [] = State_Monad.return found"
| "follow_location E b found (l # ls) =
     (case l of
        JObj lm \<Rightarrow>
          (if str_field (Some lm) ''Uri'' \<noteq> '''' then do {
             r \<leftarrow> fetchRedfishResource E b (str_field (Some lm) ''Uri'');
             case fetched r of Some kvs \<Rightarrow> State_Monad.return kvs | None \<Rightarrow> follow_location E b found ls }
           else follow_location E b found ls)
      | _ \<Rightarrow> follow_location E b found ls)"

definition fetch_registry ::
  "('w, 'e) svc_env_scheme \<Rightarrow> BMC \<Rightarrow> string \<Rightarrow> (('w, 's) svc_state_scheme, (string \<times> json) list option) state" where
  "fetch_registry E b regID = do {
     r \<leftarrow> fetchRedfishResource E b (if has_prefix regID ''/'' then regID else ''/redfish/v1/Registries/'' @ regID);
     case fetched r of
       Some kvs \<Rightarrow> State_Monad.return (Some kvs)
     | None \<Rightarrow> do {
         rc \<leftarrow> fetchRedfishResource E b ''/redfish/v1/Registries'';
         case rc of
           Inl e \<Rightarrow> State_Monad.return None
         | Inr coll \<Rightarrow> find_registry E b regID (members_field coll) } }"

definition resolveAttributeRegistry ::
  "('w, 'e) set_env_scheme \<Rightarrow> bool \<Rightarrow> BMC \<Rightarrow> (string \<times> json) list \<Rightarrow>
   (('w, 's) set_state_scheme, (string \<times> json) list option) state" where
  "resolveAttributeRegistry E refresh b kvs =
     (let regID = str_field (Some kvs) ''AttributeRegistry'' in
      if regID = '''' then State_Monad.return None
      else do {
        c \<leftarrow> cache_lookup E refresh regCache (BName b, regID);
        case c of
          Some p \<Rightarrow> State_Monad.return (Some p)
        | None \<Rightarrow> do {
            f \<leftarrow> fetch_registry E b regID;
            case f of
              None \<Rightarrow> State_Monad.return None
            | Some found \<Rightarrow> do {
                p \<leftarrow> follow_location E b found (case obj_get found ''Location'' of Some (JArr ls) \<Rightarrow> ls | _ \<Rightarrow> []);
                t \<leftarrow> time_Now E;
                u \<leftarrow> State (\<lambda>s. ((), s\<lparr>regCache := (regCache s)((BName b, regID) \<mapsto> \<lparr>payload = p, fetchedAt = t\<rparr>)\<rparr>));
                State_Monad.return (Some p) } } })"

definition registry_attributes :: "(string \<times> json) list \<Rightarrow> json list" where
  "registry_attributes reg =
     (case (case obj_get reg ''RegistryEntries'' of Some (JObj re) \<Rightarrow> obj_get re ''Attributes'' | _ \<Rightarrow> None) of
        Some (JArr aa) \<Rightarrow> aa
      | _ \<Rightarrow> (case obj_get reg ''Attributes'' of Some (JArr aa) \<Rightarrow> aa | _ \<Rightarrow> []))"

text \<open>The index by attribute name; a later entry of the same name wins.\<close>

definition parseRegistryAttributes :: "(string \<times> json) list \<Rightarrow> (string \<times> (string \<times> json) list) list" where
  "parseRegistryAttributes reg =
     rev (List.map_filter (\<lambda>v. case v of
         JObj m \<Rightarrow> if str_field (Some m) ''AttributeName'' \<noteq> '''' then Some (str_field (Some m) ''AttributeName'', m) else None
       | _ \<Rightarrow> None) (registry_attributes reg))"

fun try_actions ::
  "('w, 'e) set_env_scheme \<Rightarrow> bool \<Rightarrow> BMC \<Rightarrow> (string \<times> json) list \<Rightarrow> (('w, 's) set_state_scheme, (string \<times> json) list option) state" where
  "try_actions E refresh b [] = State_Monad.return None"
| "try_actions E refresh b ((name, v) # rest) =
     (let ai = (case v of JObj am \<Rightarrow> str_field (Some am) ''@Redfish.ActionInfo'' | _ \<Rightarrow> '''') in
      if ai = '''' then try_actions E refresh b rest
      else do {
        c \<leftarrow> cache_lookup E refresh aiCache (BName b, ai);
        case c of
          Some p \<Rightarrow> State_Monad.return (Some p)
        | None \<Rightarrow> do {
            r \<leftarrow> fetchRedfishResource E b ai;
            case fetched r of
              None \<Rightarrow> try_actions E refresh b rest
            | Some p \<Rightarrow> do {
                t \<leftarrow> time_Now E;
                u \<leftarrow> State (\<lambda>s. ((), s\<lparr>aiCache := (aiCache s)((BName b, ai) \<mapsto> \<lparr>payload = p, fetchedAt = t\<rparr>)\<rparr>));
                State_Monad.return (Some p) } } })"

definition resolveActionInfo ::
  "('w, 'e) set_env_scheme \<Rightarrow> bool \<Rightarrow> BMC \<Rightarrow> (string \<times> json) list \<Rightarrow>
   (('w, 's) set_state_scheme, (string \<times> json) list option) state" where
  "resolveActionInfo E refresh b kvs =
     (case obj_get kvs ''Actions'' of
        Some (JObj actions) \<Rightarrow> do { n \<leftarrow> tick; try_actions E refresh b (range_order E n (entries actions)) }
      | _ \<Rightarrow> State_Monad.return None)"

section \<open>Enrichment\<close>

definition opt_str :: "(string \<times> json) list \<Rightarrow> string \<Rightarrow> string option" where
  "opt_str m k = (case obj_get m k of Some (JStr t) \<Rightarrow> Some t | _ \<Rightarrow> None)"

definition opt_num :: "(string \<times> json) list \<Rightarrow> string \<Rightarrow> rat option" where
  "opt_num m k = (case obj_get m k of Some (JNum x) \<Rightarrow> Some x | _ \<Rightarrow> None)"

definition opt_list :: "('w, 'e) set_env_scheme \<Rightarrow> (string \<times> json) list \<Rightarrow> string \<Rightarrow> string list" where
  "opt_list E m k = (case obj_get m k of Some (JArr vs) \<Rightarrow> string_list E vs | _ \<Rightarrow> [])"

definition or_else :: "'a option \<Rightarrow> 'a \<Rightarrow> 'a" where
  "or_else x y = (case x of Some a \<Rightarrow> a | None \<Rightarrow> y)"

definition enrich_registry :: "('w, 'e) set_env_scheme \<Rightarrow> (string \<times> json) list \<Rightarrow> SettingDescriptor \<Rightarrow> SettingDescriptor" where
  "enrich_registry E ra d =
     (let enums = opt_list E ra ''Value'' in
      d\<lparr>DisplayName := or_else (opt_str ra ''DisplayName'') (DisplayName d),
        DescriptionText := or_else (opt_str ra ''HelpText'') (or_else (opt_str ra ''LongDescription'') (DescriptionText d)),
        DType := (case opt_str ra ''Type'' of Some tp \<Rightarrow> if tp \<noteq> '''' then to_lower tp else DType d | None \<Rightarrow> DType d),
        ReadOnly := (case obj_get ra ''ReadOnly'' of Some (JBool ro) \<Rightarrow> ro | _ \<Rightarrow> ReadOnly d),
        DMin := (case opt_num ra ''Minimum'' of Some x \<Rightarrow> Some x | None \<Rightarrow> DMin d),
        DMax := (case opt_num ra ''Maximum'' of Some x \<Rightarrow> Some x | None \<Rightarrow> DMax d),
        Pattern := or_else (opt_str ra ''Pattern'') (Pattern d),
        Units := or_else (opt_str ra ''Units'') (Units d),
        EnumValues := (if enums \<noteq> [] then enums else EnumValues d)\<rparr>)"

definition enrich_action :: "('w, 'e) set_env_scheme \<Rightarrow> (string \<times> json) list list \<Rightarrow> SettingDescriptor \<Rightarrow> SettingDescriptor" where
  "enrich_action E params d =
     (case List.find (\<lambda>p. str_field (Some p) ''Name'' = '''' \<or> str_field (Some p) ''Name'' = Attribute d) params of
        None \<Rightarrow> d
      | Some p \<Rightarrow>
          let enums = opt_list E p ''AllowableValues'' in
          if enums \<noteq> [] then d\<lparr>EnumValues := enums\<rparr> else d)"

definition enrich_one ::
  "('w, 'e) set_env_scheme \<Rightarrow> (string \<times> (string \<times> json) list) list \<Rightarrow> (string \<times> json) list list \<Rightarrow> string \<Rightarrow>
   SettingDescriptor \<Rightarrow> SettingDescriptor" where
  "enrich_one E regIndex params owner d =
     (let d1 = (case map_of regIndex (Attribute d) of Some ra \<Rightarrow> enrich_registry E ra d | None \<Rightarrow> d);
          d2 = enrich_action E params d1 in
      if owner \<noteq> '''' \<and> \<not> equal_fold owner ''DMTF'' then d2\<lparr>OEM := True, OEMVendor := owner\<rparr> else d2)"

definition enrichDescriptors ::
  "('w, 'e) set_env_scheme \<Rightarrow> bool \<Rightarrow> BMC \<Rightarrow> (string \<times> json) list \<Rightarrow> SettingDescriptor list \<Rightarrow>
   (('w, 's) set_state_scheme, SettingDescriptor list) state" where
  "enrichDescriptors E refresh b kvs descs =
     (if descs = [] then State_Monad.return descs
      else do {
        reg \<leftarrow> resolveAttributeRegistry E refresh b kvs;
        ai \<leftarrow> resolveActionInfo E refresh b kvs;
        let regIndex = (case reg of Some p \<Rightarrow> parseRegistryAttributes p | None \<Rightarrow> []);
        let params = (case ai of
             Some p \<Rightarrow> (case obj_get p ''Parameters'' of
                Some (JArr ps) \<Rightarrow> List.map_filter (\<lambda>v. case v of JObj pm \<Rightarrow> Some pm | _ \<Rightarrow> None) ps
              | _ \<Rightarrow> [])
           | None \<Rightarrow> []);
        let owner = (case reg of
             Some p \<Rightarrow> or_else (opt_str p ''OwningEntity'') (or_else (opt_str p ''RegistryPrefix'') '''')
           | None \<Rightarrow> '''');
        State_Monad.return (map (enrich_one E regIndex params owner) descs) })"


section \<open>Discovery\<close>

fun collect :: "('a \<Rightarrow> ('s, 'b list) state) \<Rightarrow> 'a list \<Rightarrow> ('s, 'b list) state" where
  "collect f [] = State_Monad.return []"
| "collect f (x # xs) = do { a \<leftarrow> f x; b \<leftarrow> collect f xs; State_Monad.return (a @ b) }"

text \<open>The descriptors of a resource that names its settings object.\<close>

definition probe_resource ::
  "('w, 'e) set_env_scheme \<Rightarrow> bool \<Rightarrow> BMC \<Rightarrow> string \<Rightarrow> string \<Rightarrow> (string \<times> json) list \<Rightarrow> (string \<times> json) list \<Rightarrow>
   (('w, 's) set_state_scheme, SettingDescriptor list) state" where
  "probe_resource E refresh b bmcName path vals kvs =
     (case extractApplyTimesAndSettingsObject kvs of (ats, target) \<Rightarrow>
        if target = '''' then State_Monad.return []
        else do {
          descs \<leftarrow> buildDescriptorsFromMap E bmcName path vals ats target;
          enrichDescriptors E refresh b kvs descs })"

definition probe_path ::
  "('w, 'e) set_env_scheme \<Rightarrow> bool \<Rightarrow> BMC \<Rightarrow> string \<Rightarrow> ((string \<times> json) list \<Rightarrow> (string \<times> json) list) \<Rightarrow> string \<Rightarrow>
   (('w, 's) set_state_scheme, SettingDescriptor list) state" where
  "probe_path E refresh b bmcName pick path = do {
     r \<leftarrow> fetchRedfishResource E b path;
     case fetched r of
       None \<Rightarrow> State_Monad.return []
     | Some kvs \<Rightarrow> probe_resource E refresh b bmcName path (pick kvs) kvs }"

definition probe_member ::
  "('w, 'e) set_env_scheme \<Rightarrow> bool \<Rightarrow> BMC \<Rightarrow> string \<Rightarrow> json \<Rightarrow> (('w, 's) set_state_scheme, SettingDescriptor list) state" where
  "probe_member E refresh b bmcName m =
     (if member_oid m = '''' then State_Monad.return []
      else probe_path E refresh b bmcName pickWritableLookingFields (member_oid m))"

definition probe_collection ::
  "('w, 'e) set_env_scheme \<Rightarrow> BMC \<Rightarrow> string \<Rightarrow> (json \<Rightarrow> (('w, 's) set_state_scheme, SettingDescriptor list) state) \<Rightarrow>
   (('w, 's) set_state_scheme, SettingDescriptor list) state" where
  "probe_collection E b path f = do {
     r \<leftarrow> fetchRedfishResource E b path;
     case r of Inl e \<Rightarrow> State_Monad.return [] | Inr coll \<Rightarrow> collect f (members_field coll) }"

definition boot_enums :: "('w, 'e) set_env_scheme \<Rightarrow> (string \<times> json) list \<Rightarrow> string list" where
  "boot_enums E kvs = opt_list E kvs ''BootOrder@Redfish.AllowableValues''"

definition boot_current :: "(string \<times> json) list \<Rightarrow> json" where
  "boot_current kvs =
     (case obj_get kvs ''Boot'' of
        Some (JObj boot) \<Rightarrow> (case obj_get boot ''BootOrder'' of Some (JArr bo) \<Rightarrow> JArr bo | _ \<Rightarrow> JNull)
      | _ \<Rightarrow> JNull)"

definition boot_order_descriptor :: "('w, 'e) set_env_scheme \<Rightarrow> string \<Rightarrow> string \<Rightarrow> string \<Rightarrow> (string \<times> json) list \<Rightarrow> SettingDescriptor" where
  "boot_order_descriptor E bmcName sysPath ts kvs =
     \<lparr>DID = hashID [bmcName, sysPath, ''Boot.BootOrder''], DBMCName = bmcName, ResourcePath = sysPath, Attribute = ''Boot.BootOrder'',
      DisplayName = ''Boot Order'', DescriptionText = ''Sets the persistent boot device order'', DType = ''array'', EnumValues = boot_enums E kvs,
      DMin = None, DMax = None, Pattern = '''', Units = '''', ReadOnly = False, OEM = False, OEMVendor = '''', ApplyTimes = [''OnReset''],
      ActionTarget = sysPath, CurrentValue = boot_current kvs, SourceTimeISO = ts\<rparr>"

definition probe_boot_order ::
  "('w, 'e) set_env_scheme \<Rightarrow> BMC \<Rightarrow> string \<Rightarrow> string \<Rightarrow> (('w, 's) set_state_scheme, SettingDescriptor list) state" where
  "probe_boot_order E b bmcName sysPath = do {
     r \<leftarrow> fetchRedfishResource E b sysPath;
     case fetched r of
       None \<Rightarrow> State_Monad.return []
     | Some kvs \<Rightarrow>
         if boot_current kvs \<noteq> JNull \<or> boot_enums E kvs \<noteq> [] then do {
           t \<leftarrow> time_Now E;
           State_Monad.return [boot_order_descriptor E bmcName sysPath (timestamp t) kvs] }
         else State_Monad.return [] }"

text \<open>A storage subsystem, its volumes and its drives.\<close>

definition probe_storage ::
  "('w, 'e) set_env_scheme \<Rightarrow> bool \<Rightarrow> BMC \<Rightarrow> string \<Rightarrow> json \<Rightarrow> (('w, 's) set_state_scheme, SettingDescriptor list) state" where
  "probe_storage E refresh b bmcName m =
     (if member_oid m = '''' then State_Monad.return []
      else do {
        r \<leftarrow> fetchRedfishResource E b (member_oid m);
        case fetched r of
          None \<Rightarrow> State_Monad.return []
        | Some kvs \<Rightarrow> do {
            own \<leftarrow> probe_resource E refresh b bmcName (member_oid m) (pickWritableLookingFields kvs) kvs;
            vols \<leftarrow> probe_collection E b (member_oid m @ ''/Volumes'') (probe_member E refresh b bmcName);
            drives \<leftarrow> collect (probe_member E refresh b bmcName) (case obj_get kvs ''Drives'' of Some (JArr ds) \<Rightarrow> ds | _ \<Rightarrow> []);
            State_Monad.return (own @ vols @ drives) } })"

definition probe_if :: "bool \<Rightarrow> ('s, 'a list) state \<Rightarrow> ('s, 'a list) state" where
  "probe_if c m = (if c then m else State_Monad.return [])"

definition discover_systems ::
  "('w, 'e) set_env_scheme \<Rightarrow> bool \<Rightarrow> BMC \<Rightarrow> string \<Rightarrow> string \<Rightarrow> string \<Rightarrow>
   (('w, 's) set_state_scheme, SettingDescriptor list) state" where
  "discover_systems E refresh b bmcName resourceFilter sysPath = do {
     nics \<leftarrow> probe_if (resourceFilter = '''' \<or> contains (sysPath @ ''/EthernetInterfaces'') resourceFilter \<or> contains ''EthernetInterfaces'' resourceFilter)
       (probe_collection E b (sysPath @ ''/EthernetInterfaces'') (probe_member E refresh b bmcName));
     storage \<leftarrow> probe_if (resourceFilter = '''' \<or> contains (sysPath @ ''/Storage'') resourceFilter \<or> contains ''/Storage'' resourceFilter)
       (probe_collection E b (sysPath @ ''/Storage'') (probe_storage E refresh b bmcName));
     State_Monad.return (nics @ storage) }"

definition probe_all ::
  "('w, 'e) set_env_scheme \<Rightarrow> bool \<Rightarrow> BMC \<Rightarrow> string \<Rightarrow> string \<Rightarrow> (('w, 's) set_state_scheme, SettingDescriptor list) state" where
  "probe_all E refresh b bmcName resourceFilter = do {
     ri \<leftarrow> GetFirstSystemID E bmcName;
     let system = (case ri of Inl e \<Rightarrow> '''' | Inr i \<Rightarrow> i);
     let sysPath = ''/redfish/v1/Systems/'' @ system;
     bios \<leftarrow> probe_if (system \<noteq> '''' \<and> (resourceFilter = '''' \<or> contains (sysPath @ ''/Bios'') resourceFilter))
       (probe_path E refresh b bmcName bios_attributes (sysPath @ ''/Bios''));
     boot \<leftarrow> probe_if (system \<noteq> '''' \<and> (resourceFilter = '''' \<or> contains sysPath resourceFilter \<or> contains (to_lower resourceFilter) ''boot''))
       (probe_boot_order E b bmcName sysPath);
     rm \<leftarrow> GetFirstManagerID E bmcName;
     let manager = (case rm of Inl e \<Rightarrow> '''' | Inr i \<Rightarrow> i);
     let mnpPath = ''/redfish/v1/Managers/'' @ manager @ ''/NetworkProtocol'';
     mnp \<leftarrow> probe_if (manager \<noteq> '''' \<and> (resourceFilter = '''' \<or> contains mnpPath resourceFilter))
       (probe_path E refresh b bmcName network_fields mnpPath);
     rest \<leftarrow> probe_if (system \<noteq> '''') (discover_systems E refresh b bmcName resourceFilter sysPath);
     State_Monad.return (bios @ boot @ mnp @ rest) }"

definition DiscoverSettings ::
  "('w, 'e) set_env_scheme \<Rightarrow> bool \<Rightarrow> string \<Rightarrow> string \<Rightarrow> (('w, 's) set_state_scheme, string + SettingDescriptor list) state" where
  "DiscoverSettings E refresh bmcName resourceFilter = do {
     rb \<leftarrow> GetBMCByName E bmcName;
     case rb of
       Inl e \<Rightarrow> State_Monad.return (Inl (''failed to get BMC: '' @ e))
     | Inr None \<Rightarrow> State_Monad.return (Inl (''BMC not found: '' @ bmcName))
     | Inr (Some b) \<Rightarrow>
         if \<not> BEnabled b then State_Monad.return (Inl (''BMC is disabled: '' @ bmcName))
         else do {
           descs \<leftarrow> probe_all E refresh b bmcName resourceFilter;
           u \<leftarrow> UpsertSettingDescriptors E bmcName descs;
           State_Monad.return (Inr descs) } }"

section \<open>Updates\<close>

definition check_number :: "('w, 'e) set_env_scheme \<Rightarrow> SettingDescriptor \<Rightarrow> json \<Rightarrow> string option" where
  "check_number E d v =
     (case v of
        JNum x \<Rightarrow>
          (case (DMin d, DMax d) of
             (Some lo, hi) \<Rightarrow>
               if x < lo then Some (''value '' @ fmt_float E x @ '' is below minimum '' @ fmt_float E lo)
               else (case hi of Some h \<Rightarrow> if x > h then Some (''value '' @ fmt_float E x @ '' is above maximum '' @ fmt_float E h) else None | None \<Rightarrow> None)
           | (None, Some h) \<Rightarrow> if x > h then Some (''value '' @ fmt_float E x @ '' is above maximum '' @ fmt_float E h) else None
           | (None, None) \<Rightarrow> None)
      | _ \<Rightarrow> Some (''invalid numeric value: '' @ fmt_v (fmt_float E) v))"

definition validateSettingValue :: "('w, 'e) set_env_scheme \<Rightarrow> SettingDescriptor \<Rightarrow> json \<Rightarrow> string option" where
  "validateSettingValue E d v =
     (if v = JNull then Some ''value cannot be null''
      else if EnumValues d \<noteq> [] then
        (if fmt_v (fmt_float E) v \<in> set (EnumValues d) then None
         else Some (''value must be one of: ['' @ join_with '' '' (EnumValues d) @ '']''))
      else if DType d = ''number'' \<or> DType d = ''integer'' then check_number E d v
      else if DType d = ''boolean'' then (case v of JBool b \<Rightarrow> None | _ \<Rightarrow> Some (''value must be boolean, got '' @ go_type v))
      else if DType d = ''string'' then (case v of JStr t \<Rightarrow> None | _ \<Rightarrow> Some (''value must be string, got '' @ go_type v))
      else None)"

definition update_payload :: "SettingDescriptor \<Rightarrow> json \<Rightarrow> json" where
  "update_payload d v =
     (if Attribute d = ''Boot.BootOrder'' then JObj [(''Boot'', JObj [(''BootOrder'', v)])] else JObj [(Attribute d, v)])"

text \<open>Sending the update; \<open>UpdateSetting\<close> reads the state of the BMC without looking whether there is one (\<open>None\<close> is the panic).\<close>

definition send_update ::
  "('w, 'e) svc_env_scheme \<Rightarrow> BMC \<Rightarrow> SettingDescriptor \<Rightarrow> json \<Rightarrow> (('w, 's) svc_state_scheme, string option) state" where
  "send_update E b d v = do {
     x \<leftarrow> (case request_error E ''PATCH'' (buildBMCURL b (if ActionTarget d \<noteq> '''' then ActionTarget d else ResourcePath d)) of
            Some e \<Rightarrow> State_Monad.return (Inl (''failed to create request: '' @ e))
          | None \<Rightarrow> do {
              y \<leftarrow> http_Do E (bmc_request b ''PATCH'' (buildBMCURL b (if ActionTarget d \<noteq> '''' then ActionTarget d else ResourcePath d))
                (RawJson (update_payload d v)));
              State_Monad.return (case y of Inl e \<Rightarrow> Inl (''failed to send request to BMC: '' @ e) | Inr p \<Rightarrow> Inr p) });
     State_Monad.return (case x of
         Inl e \<Rightarrow> Some e
       | Inr p \<Rightarrow> if is_2xx p then None else Some (''BMC returned error '' @ itoa (p_status p) @ '': '' @ p_body p)) }"

definition UpdateSetting ::
  "('w, 'e) set_env_scheme \<Rightarrow> string \<Rightarrow> string \<Rightarrow> json \<Rightarrow> (('w, 's) set_state_scheme, string option option) state" where
  "UpdateSetting E bmcName descriptorID newValue = do {
     rb \<leftarrow> GetBMCByName E bmcName;
     case rb of
       Inl e \<Rightarrow> State_Monad.return (Some (Some (''failed to get BMC: '' @ e)))
     | Inr None \<Rightarrow> State_Monad.return None
     | Inr (Some b) \<Rightarrow>
         if \<not> BEnabled b then State_Monad.return (Some (Some (''BMC '' @ bmcName @ '' is disabled'')))
         else do {
           rd \<leftarrow> GetSettingDescriptor E bmcName descriptorID;
           case rd of
             Inl e \<Rightarrow> State_Monad.return (Some (Some (''failed to get setting descriptor: '' @ e)))
           | Inr None \<Rightarrow> State_Monad.return (Some (Some (''setting descriptor '' @ descriptorID @ '' not found for BMC '' @ bmcName)))
           | Inr (Some d) \<Rightarrow>
               if ReadOnly d then State_Monad.return (Some (Some (''setting '' @ Attribute d @ '' is read-only'')))
               else (case validateSettingValue E d newValue of
                       Some e \<Rightarrow> State_Monad.return (Some (Some (''invalid value: '' @ e)))
                     | None \<Rightarrow> do { x \<leftarrow> send_update E b d newValue; State_Monad.return (Some x) }) } }"

end
