(* ===== verification/BmcStatus.thy ===== *)
theory BmcStatus
  imports BmcOps
begin

text \<open>
  The status of a server (\<open>GetDetailedBMCStatus\<close> and what it calls in \<open>internal/bmc/service.go\<close>): system,
  network interfaces, drives and the event log, each left out when it cannot be read, and the JSON
  the details API makes of it (\<open>pkg/models/models.go\<close>).
\<close>

record SystemInfo =
  si_SerialNumber :: string
  si_SKU :: string
  si_PowerState :: string
  si_Model :: string
  si_Manufacturer :: string

record NetworkInterface =
  ni_Name :: string
  ni_Description :: string
  ni_MACAddress :: string
  ni_IPAddresses :: "string list"

record StorageDevice =
  sd_Name :: string
  sd_Model :: string
  sd_SerialNumber :: string
  sd_CapacityBytes :: int
  sd_Status :: string
  sd_MediaType :: string

record SELEntry =
  sel_ID :: string
  sel_Message :: string
  sel_Severity :: string
  sel_Created :: string
  sel_EntryType :: string

record DetailedBMCStatus =
  st_BMC :: BMC
  st_SystemInfo :: "SystemInfo option"
  st_NetworkInterfaces :: "NetworkInterface list"
  st_StorageDevices :: "StorageDevice list"
  st_SELEntries :: "SELEntry list"

section \<open>Reading\<close>

text \<open>A member with a string \<open>@odata.id\<close>, the empty one included.\<close>

definition member_ref :: "json \<Rightarrow> string option" where
  "member_ref m =
     (case m of
        JObj kvs \<Rightarrow> (case obj_get kvs ''@odata.id'' of Some (JStr oid) \<Rightarrow> Some oid | _ \<Rightarrow> None)
      | _ \<Rightarrow> None)"

definition array_field :: "resource \<Rightarrow> string \<Rightarrow> json list" where
  "array_field m k = (case field m k of Some (JArr vs) \<Rightarrow> vs | _ \<Rightarrow> [])"

text \<open>Each referenced member is fetched; one that cannot be read is skipped.\<close>

fun fetch_each ::
  "('w, 'e) svc_env_scheme \<Rightarrow> BMC \<Rightarrow> (resource \<Rightarrow> 'a list) \<Rightarrow> json list \<Rightarrow> (('w, 's) svc_state_scheme, 'a list) state" where
  "fetch_each E b f [] = State_Monad.return []"
| "fetch_each E b f (m # ms) =
     (case member_ref m of
        None \<Rightarrow> fetch_each E b f ms
      | Some oid \<Rightarrow> do {
          r \<leftarrow> fetchRedfishResource E b oid;
          rest \<leftarrow> fetch_each E b f ms;
          State_Monad.return ((case r of Inl e \<Rightarrow> [] | Inr m \<Rightarrow> f m) @ rest) })"

definition system_info :: "resource \<Rightarrow> SystemInfo" where
  "system_info m = \<lparr>si_SerialNumber = str_field m ''SerialNumber'', si_SKU = str_field m ''SKU'', si_PowerState = str_field m ''PowerState'',
     si_Model = str_field m ''Model'', si_Manufacturer = str_field m ''Manufacturer''\<rparr>"

definition getSystemInfo :: "('w, 'e) svc_env_scheme \<Rightarrow> BMC \<Rightarrow> (('w, 's) svc_state_scheme, string + SystemInfo) state" where
  "getSystemInfo E b = do {
     ri \<leftarrow> GetFirstSystemID E (BName b);
     case ri of
       Inl e \<Rightarrow> State_Monad.return (Inl (''failed to get system ID: '' @ e))
     | Inr i \<Rightarrow> do {
         r \<leftarrow> fetchRedfishResource E b (''/redfish/v1/Systems/'' @ i);
         State_Monad.return (case r of Inl e \<Rightarrow> Inl (''failed to fetch system data: '' @ e) | Inr m \<Rightarrow> Inr (system_info m)) } }"

definition network_interface :: "resource \<Rightarrow> NetworkInterface" where
  "network_interface m = \<lparr>ni_Name = str_field m ''Name'', ni_Description = str_field m ''Description'', ni_MACAddress = str_field m ''MACAddress'',
     ni_IPAddresses = List.map_filter (\<lambda>a. case a of
         JObj kvs \<Rightarrow> if str_field (Some kvs) ''Address'' \<noteq> '''' then Some (str_field (Some kvs) ''Address'') else None
       | _ \<Rightarrow> None) (array_field m ''IPv4Addresses'')\<rparr>"

definition nic_collection :: "('w, 'e) svc_env_scheme \<Rightarrow> BMC \<Rightarrow> string \<Rightarrow> (('w, 's) svc_state_scheme, string + resource) state" where
  "nic_collection E b system = do {
     r \<leftarrow> fetchRedfishResource E b (''/redfish/v1/Systems/'' @ system @ ''/EthernetInterfaces'');
     case r of
       Inr m \<Rightarrow> State_Monad.return (Inr m)
     | Inl e \<Rightarrow> do {
         rm \<leftarrow> GetFirstManagerID E (BName b);
         case rm of
           Inl e \<Rightarrow> State_Monad.return (Inl (''failed to get manager ID: '' @ e))
         | Inr i \<Rightarrow> do {
             r \<leftarrow> fetchRedfishResource E b (''/redfish/v1/Managers/'' @ i @ ''/EthernetInterfaces'');
             State_Monad.return (case r of Inl e \<Rightarrow> Inl (''failed to fetch network interfaces: '' @ e) | Inr m \<Rightarrow> Inr m) } } }"

definition getNetworkInterfaces ::
  "('w, 'e) svc_env_scheme \<Rightarrow> BMC \<Rightarrow> (('w, 's) svc_state_scheme, string + NetworkInterface list) state" where
  "getNetworkInterfaces E b = do {
     ri \<leftarrow> GetFirstSystemID E (BName b);
     case ri of
       Inl e \<Rightarrow> State_Monad.return (Inl (''failed to get system ID: '' @ e))
     | Inr i \<Rightarrow> do {
         rc \<leftarrow> nic_collection E b i;
         case rc of
           Inl e \<Rightarrow> State_Monad.return (Inl e)
         | Inr coll \<Rightarrow> do {
             nics \<leftarrow> fetch_each E b (\<lambda>m. [network_interface m]) (members_field coll);
             State_Monad.return (Inr nics) } } }"

definition device_status :: "resource \<Rightarrow> string" where
  "device_status m =
     (case field m ''Status'' of
        Some (JObj st) \<Rightarrow> str_field (Some st) ''Health''
      | Some (JStr t) \<Rightarrow> t
      | _ \<Rightarrow> '''')"

definition parseStorageDevice :: "('w, 'e) ops_env_scheme \<Rightarrow> resource \<Rightarrow> StorageDevice" where
  "parseStorageDevice E m =
     \<lparr>sd_Name = str_field m ''Name'',
      sd_Model = (case field m ''Manufacturer'' of
          Some (JStr manu) \<Rightarrow> if str_field m ''Model'' \<noteq> '''' then manu @ '' '' @ str_field m ''Model'' else manu
        | _ \<Rightarrow> str_field m ''Model''),
      sd_SerialNumber = str_field m ''SerialNumber'',
      sd_CapacityBytes = (case field m ''CapacityBytes'' of Some (JNum x) \<Rightarrow> int64_of_float (float_ovf E) x | _ \<Rightarrow> 0),
      sd_Status = device_status m, sd_MediaType = str_field m ''MediaType''\<rparr>"

fun drives_of ::
  "('w, 'e) ops_env_scheme \<Rightarrow> BMC \<Rightarrow> json list \<Rightarrow> (('w, 's) svc_state_scheme, StorageDevice list) state" where
  "drives_of E b [] = State_Monad.return []"
| "drives_of E b (m # ms) =
     (case member_ref m of
        None \<Rightarrow> drives_of E b ms
      | Some oid \<Rightarrow> do {
          r \<leftarrow> fetchRedfishResource E b oid;
          own \<leftarrow> (case r of Inl e \<Rightarrow> State_Monad.return [] | Inr st \<Rightarrow> fetch_each E b (\<lambda>d. [parseStorageDevice E d]) (array_field st ''Drives''));
          rest \<leftarrow> drives_of E b ms;
          State_Monad.return (own @ rest) })"

definition getStorageDevicesFromStorage ::
  "('w, 'e) ops_env_scheme \<Rightarrow> BMC \<Rightarrow> string \<Rightarrow> (('w, 's) svc_state_scheme, StorageDevice list) state" where
  "getStorageDevicesFromStorage E b system = do {
     r \<leftarrow> fetchRedfishResource E b (''/redfish/v1/Systems/'' @ system @ ''/Storage'');
     case r of Inl e \<Rightarrow> State_Monad.return [] | Inr coll \<Rightarrow> drives_of E b (members_field coll) }"

definition absent :: "(string \<times> json) list \<Rightarrow> bool" where
  "absent kvs \<longleftrightarrow> (case obj_get kvs ''Status'' of Some (JObj st) \<Rightarrow> obj_get st ''State'' = Some (JStr ''Absent'') | _ \<Rightarrow> False)"

definition simple_devices :: "('w, 'e) ops_env_scheme \<Rightarrow> resource \<Rightarrow> StorageDevice list" where
  "simple_devices E m =
     List.map_filter (\<lambda>d. case d of JObj kvs \<Rightarrow> if absent kvs then None else Some (parseStorageDevice E (Some kvs)) | _ \<Rightarrow> None) (array_field m ''Devices'')"

definition getStorageDevicesFromSimpleStorage ::
  "('w, 'e) ops_env_scheme \<Rightarrow> BMC \<Rightarrow> string \<Rightarrow> (('w, 's) svc_state_scheme, StorageDevice list) state" where
  "getStorageDevicesFromSimpleStorage E b system = do {
     r \<leftarrow> fetchRedfishResource E b (''/redfish/v1/Systems/'' @ system @ ''/SimpleStorage'');
     case r of Inl e \<Rightarrow> State_Monad.return [] | Inr coll \<Rightarrow> fetch_each E b (simple_devices E) (members_field coll) }"

definition getStorageDevices ::
  "('w, 'e) ops_env_scheme \<Rightarrow> BMC \<Rightarrow> (('w, 's) svc_state_scheme, string + StorageDevice list) state" where
  "getStorageDevices E b = do {
     ri \<leftarrow> GetFirstSystemID E (BName b);
     case ri of
       Inl e \<Rightarrow> State_Monad.return (Inl (''failed to get system ID: '' @ e))
     | Inr i \<Rightarrow> do {
         a \<leftarrow> getStorageDevicesFromStorage E b i;
         c \<leftarrow> getStorageDevicesFromSimpleStorage E b i;
         State_Monad.return (Inr (a @ c)) } }"

definition sel_entry :: "resource \<Rightarrow> SELEntry" where
  "sel_entry m = \<lparr>sel_ID = str_field m ''Id'', sel_Message = str_field m ''Message'', sel_Severity = str_field m ''Severity'',
     sel_Created = str_field m ''Created'', sel_EntryType = str_field m ''EntryType''\<rparr>"

text \<open>The first log of a known name whose entries can be read ends the search.\<close>

fun search_logs :: "('w, 'e) svc_env_scheme \<Rightarrow> BMC \<Rightarrow> json list \<Rightarrow> (('w, 's) svc_state_scheme, SELEntry list) state" where
  "search_logs E b [] = State_Monad.return []"
| "search_logs E b (m # ms) =
     (case member_ref m of
        None \<Rightarrow> search_logs E b ms
      | Some oid \<Rightarrow> do {
          r \<leftarrow> fetchRedfishResource E b oid;
          case r of
            Inl e \<Rightarrow> search_logs E b ms
          | Inr logData \<Rightarrow>
              if str_field logData ''Name'' \<in> {''Event Log'', ''SEL Log'', ''System Event Log''} then do {
                re \<leftarrow> fetchRedfishResource E b (oid @ ''/Entries'');
                case re of
                  Inl e \<Rightarrow> search_logs E b ms
                | Inr entries \<Rightarrow> fetch_each E b (\<lambda>m. [sel_entry m]) (members_field entries) }
              else search_logs E b ms })"

definition getSELEntries :: "('w, 'e) svc_env_scheme \<Rightarrow> BMC \<Rightarrow> (('w, 's) svc_state_scheme, string + SELEntry list) state" where
  "getSELEntries E b = do {
     rm \<leftarrow> GetFirstManagerID E (BName b);
     case rm of
       Inl e \<Rightarrow> State_Monad.return (Inl (''failed to get manager ID: '' @ e))
     | Inr i \<Rightarrow> do {
         r \<leftarrow> fetchRedfishResource E b (''/redfish/v1/Managers/'' @ i @ ''/LogServices'');
         case r of
           Inl e \<Rightarrow> State_Monad.return (Inl (''failed to fetch log services: '' @ e))
         | Inr coll \<Rightarrow> do { es \<leftarrow> search_logs E b (members_field coll); State_Monad.return (Inr es) } } }"

definition part :: "string + 'a \<Rightarrow> 'a \<Rightarrow> 'a" where
  "part r none = (case r of Inl e \<Rightarrow> none | Inr x \<Rightarrow> x)"

definition GetDetailedBMCStatus ::
  "('w, 'e) ops_env_scheme \<Rightarrow> string \<Rightarrow> (('w, 's) svc_state_scheme, string + DetailedBMCStatus) state" where
  "GetDetailedBMCStatus E bmcName = do {
     rb \<leftarrow> GetBMCByName E bmcName;
     case rb of
       Inl e \<Rightarrow> State_Monad.return (Inl (''failed to get BMC: '' @ e))
     | Inr None \<Rightarrow> State_Monad.return (Inl (''BMC not found: '' @ bmcName))
     | Inr (Some b) \<Rightarrow>
         if \<not> BEnabled b then State_Monad.return (Inl (''BMC is disabled: '' @ bmcName))
         else do {
           si \<leftarrow> getSystemInfo E b;
           ni \<leftarrow> getNetworkInterfaces E b;
           sd \<leftarrow> getStorageDevices E b;
           sel \<leftarrow> getSELEntries E b;
           u \<leftarrow> UpdateBMCLastSeen E (BID b);
           State_Monad.return (Inr \<lparr>st_BMC = b, st_SystemInfo = (case si of Inl e \<Rightarrow> None | Inr x \<Rightarrow> Some x),
             st_NetworkInterfaces = part ni [], st_StorageDevices = part sd [], st_SELEntries = part sel []\<rparr>) } }"

section \<open>JSON\<close>

definition omit_str :: "string \<Rightarrow> string \<Rightarrow> (string \<times> json) list" where
  "omit_str k v = (if v = '''' then [] else [(k, JStr v)])"

definition omit_list :: "string \<Rightarrow> json list \<Rightarrow> (string \<times> json) list" where
  "omit_list k vs = (if vs = [] then [] else [(k, JArr vs)])"

definition bmc_json :: "BMC \<Rightarrow> json" where
  "bmc_json b = JObj ([(''id'', JNum (of_int (BID b))), (''name'', JStr (BName b)), (''address'', JStr (BAddress b)),
     (''username'', JStr (BUsername b)), (''description'', JStr (Description b)), (''enabled'', JBool (BEnabled b)),
     (''created_at'', JStr (rfc3339 (BCreatedAt b))), (''updated_at'', JStr (rfc3339 (BUpdatedAt b)))] @
     (case BLastSeen b of None \<Rightarrow> [] | Some t \<Rightarrow> [(''last_seen'', JStr (rfc3339 t))]))"

definition system_json :: "SystemInfo \<Rightarrow> json" where
  "system_json x = JObj (omit_str ''serial_number'' (si_SerialNumber x) @ omit_str ''sku'' (si_SKU x) @ omit_str ''power_state'' (si_PowerState x) @
     omit_str ''model'' (si_Model x) @ omit_str ''manufacturer'' (si_Manufacturer x))"

definition nic_json :: "NetworkInterface \<Rightarrow> json" where
  "nic_json x = JObj (omit_str ''name'' (ni_Name x) @ omit_str ''description'' (ni_Description x) @ omit_str ''mac_address'' (ni_MACAddress x) @
     omit_list ''ip_addresses'' (map JStr (ni_IPAddresses x)))"

definition device_json :: "StorageDevice \<Rightarrow> json" where
  "device_json x = JObj (omit_str ''name'' (sd_Name x) @ omit_str ''model'' (sd_Model x) @ omit_str ''serial_number'' (sd_SerialNumber x) @
     (if sd_CapacityBytes x = 0 then [] else [(''capacity_bytes'', JNum (of_int (sd_CapacityBytes x)))]) @
     omit_str ''status'' (sd_Status x) @ omit_str ''media_type'' (sd_MediaType x))"

definition sel_json :: "SELEntry \<Rightarrow> json" where
  "sel_json x = JObj (omit_str ''id'' (sel_ID x) @ omit_str ''message'' (sel_Message x) @ omit_str ''severity'' (sel_Severity x) @
     omit_str ''created'' (sel_Created x) @ omit_str ''entry_type'' (sel_EntryType x))"

definition status_json :: "DetailedBMCStatus \<Rightarrow> json" where
  "status_json x = JObj ([(''bmc'', bmc_json (st_BMC x))] @
     (case st_SystemInfo x of None \<Rightarrow> [] | Some y \<Rightarrow> [(''system_info'', system_json y)]) @
     omit_list ''network_interfaces'' (map nic_json (st_NetworkInterfaces x)) @
     omit_list ''storage_devices'' (map device_json (st_StorageDevices x)) @
     omit_list ''sel_entries'' (map sel_json (st_SELEntries x)))"

end
