(* ===== verification/Web.thy ===== *)
theory Web
  imports AggApi Settings BmcStatus
begin

text \<open>
  The web interface of the aggregator (\<open>internal/web/web.go\<close>, \<open>auth.go\<close>, \<open>users.go\<close>).

  A request has besides what an API request has its cookies, its form (\<open>FormValue\<close>, and whether
  \<open>ParseForm\<close> fails) and its URL as text. A page is the name of its template with the data it is executed
  on; of the HTML only the values of the form of a BMC are written out. A redirect carries the URL
  given to \<open>http.Redirect\<close>. \<open>Aborted\<close> is a panic of the handler, which ends the connection. What the file
  server answers below \<open>/static/\<close> is the argument \<open>static\<close>. Log lines, and the deadlines the handlers
  put on their contexts, are left out.
\<close>

record web_request =
  Req :: request
  Cookie :: "string \<Rightarrow> string option"
  FormError :: bool
  FormValue :: "string \<Rightarrow> string"
  URLString :: string

record PageData =
  Title :: string
  Message :: string
  PError :: string
  PUser :: "User option"
  UserRole :: string
  PBMCs :: "BMC list"
  PBMC :: "BMC option"
  PUsers :: "User list"
  EditUser :: "User option"

record http_cookie =
  CookieName :: string
  CookieValue :: string
  Expires :: time

datatype web_body =
    Page string PageData
  | LoginPage string string
  | SeeOther string
  | Reply response
  | Aborted

record web_response =
  body_of :: web_body
  SetCookie :: "http_cookie option"

abbreviation bootOrderAttr :: string where "bootOrderAttr \<equiv> ''Boot.BootOrder''"

definition answer :: "web_body \<Rightarrow> web_response" where
  "answer b = \<lparr>body_of = b, SetCookie = None\<rparr>"

abbreviation see_other :: "string \<Rightarrow> ('s, web_response) state" where
  "see_other u \<equiv> State_Monad.return (answer (SeeOther u))"

abbreviation respond :: "response \<Rightarrow> ('s, web_response) state" where
  "respond x \<equiv> State_Monad.return (answer (Reply x))"

definition json_error :: "int \<Rightarrow> string \<Rightarrow> response" where
  "json_error code msg = writeJSON code (JObj [(''error'', JStr msg)])"

text \<open>The data every page starts from: the title, and the user of the context with the role.\<close>

definition page_data :: "string \<Rightarrow> User option \<Rightarrow> PageData" where
  "page_data title user =
     \<lparr>Title = title, Message = '''', PError = '''', PUser = user,
      UserRole = (case user of None \<Rightarrow> '''' | Some u \<Rightarrow> GetRoleDisplayName (Role u)), PBMCs = [], PBMC = None, PUsers = [], EditUser = None\<rparr>"

definition with_error :: "web_request \<Rightarrow> PageData \<Rightarrow> PageData" where
  "with_error r d = d\<lparr>PError := Query (Req r) ''error''\<rparr>"

definition with_messages :: "web_request \<Rightarrow> PageData \<Rightarrow> PageData" where
  "with_messages r d = (with_error r d)\<lparr>Message := Query (Req r) ''message''\<rparr>"

abbreviation render :: "string \<Rightarrow> PageData \<Rightarrow> ('s, web_response) state" where
  "render t d \<equiv> State_Monad.return (answer (Page t d))"

section \<open>Authentication\<close>

definition upper_hex :: "nat \<Rightarrow> char" where
  "upper_hex n = ''0123456789ABCDEF'' ! n"

text \<open>\<open>url.QueryEscape\<close>.\<close>

definition escape_char :: "char \<Rightarrow> string" where
  "escape_char c =
     (if c \<in> set alnum \<or> c \<in> set ''-_.~'' then [c]
      else if c = CHR '' '' then ''+''
      else [CHR ''%'', upper_hex (of_char c div 16), upper_hex (of_char c mod 16)])"

definition QueryEscape :: "string \<Rightarrow> string" where
  "QueryEscape s = concat (map escape_char s)"

definition login_redirect :: "web_request \<Rightarrow> string" where
  "login_redirect r =
     (if Method (Req r) = ''GET'' \<and> URLPath (Req r) \<noteq> ''/'' then ''/login?redirect='' @ QueryEscape (URLString r) else ''/login'')"

definition cookie_user :: "'e auth_env_scheme \<Rightarrow> web_request \<Rightarrow> ('s db_state_scheme, User option) state" where
  "cookie_user E r =
     (case Cookie r ''session_token'' of
        None \<Rightarrow> State_Monad.return None
      | Some tok \<Rightarrow> do {
          x \<leftarrow> AuthenticateToken E tok;
          State_Monad.return (case x of Inl e \<Rightarrow> None | Inr u \<Rightarrow> Some u) })"

definition requireAuth ::
  "'e auth_env_scheme \<Rightarrow> (User option \<Rightarrow> web_request \<Rightarrow> ('s db_state_scheme, web_response) state) \<Rightarrow> web_request \<Rightarrow>
   ('s db_state_scheme, web_response) state" where
  "requireAuth E next r = do {
     c \<leftarrow> cookie_user E r;
     case c of
       Some u \<Rightarrow> next (Some u) r
     | None \<Rightarrow> do {
         x \<leftarrow> AuthenticateRequest E (Req r);
         case x of
           Inl e \<Rightarrow> see_other (login_redirect r)
         | Inr u \<Rightarrow> next (Some u) r } }"

definition is_admin :: "User option \<Rightarrow> bool" where
  "is_admin user \<longleftrightarrow> (case user of None \<Rightarrow> False | Some u \<Rightarrow> IsAdmin u)"

definition is_operator :: "User option \<Rightarrow> bool" where
  "is_operator user \<longleftrightarrow> (case user of None \<Rightarrow> False | Some u \<Rightarrow> IsOperator u)"

definition requireAdmin ::
  "'e auth_env_scheme \<Rightarrow> (User option \<Rightarrow> web_request \<Rightarrow> ('s db_state_scheme, web_response) state) \<Rightarrow> web_request \<Rightarrow>
   ('s db_state_scheme, web_response) state" where
  "requireAdmin E next = requireAuth E (\<lambda>user r.
     if \<not> is_admin user then respond (http_Error ''Access denied. Admin privileges required.'' StatusForbidden)
     else next user r)"

definition showLoginPage :: "web_request \<Rightarrow> string \<Rightarrow> ('s, web_response) state" where
  "showLoginPage r msg = State_Monad.return (answer (LoginPage msg (Query (Req r) ''redirect'')))"

definition handleLogin :: "'e auth_env_scheme \<Rightarrow> web_request \<Rightarrow> ('s db_state_scheme, web_response) state" where
  "handleLogin E r =
     (if Method (Req r) \<noteq> ''POST'' then showLoginPage r ''''
      else if FormError r then showLoginPage r ''Invalid form data''
      else do {
        x \<leftarrow> authenticateBasic E (trim_space (FormValue r ''username'')) (FormValue r ''password'');
        case x of
          Inl e \<Rightarrow> showLoginPage r ''Invalid username or password''
        | Inr u \<Rightarrow> do {
            y \<leftarrow> CreateSession E (UID u);
            case y of
              Inl e \<Rightarrow> showLoginPage r ''Failed to create session''
            | Inr session \<Rightarrow> State_Monad.return
                \<lparr>body_of = SeeOther (if FormValue r ''redirect'' = '''' then ''/'' else FormValue r ''redirect''),
                 SetCookie = Some \<lparr>CookieName = ''session_token'', CookieValue = Token session, Expires = ExpiresAt session\<rparr>\<rparr> } })"

definition handleLogout :: "'e auth_env_scheme \<Rightarrow> web_request \<Rightarrow> ('s db_state_scheme, web_response) state" where
  "handleLogout E r = do {
     u \<leftarrow> (case Cookie r ''session_token'' of
            Some tok \<Rightarrow> if tok \<noteq> '''' then DeleteSession E tok else State_Monad.return (Inr ())
          | None \<Rightarrow> State_Monad.return (Inr ()));
     t \<leftarrow> time_Now E;
     State_Monad.return \<lparr>body_of = SeeOther ''/login'',
       SetCookie = Some \<lparr>CookieName = ''session_token'', CookieValue = '''', Expires = t - time_Hour\<rparr>\<rparr> }"

section \<open>Profile\<close>

definition handleProfile :: "User option \<Rightarrow> web_request \<Rightarrow> ('s, web_response) state" where
  "handleProfile user r =
     (case user of
        None \<Rightarrow> see_other ''/login''
      | Some u \<Rightarrow> render ''profile'' (with_messages r (page_data ''User Profile'' user)))"

definition change_password ::
  "'e auth_env_scheme \<Rightarrow> User \<Rightarrow> web_request \<Rightarrow> ('s db_state_scheme, web_response) state" where
  "change_password E u r =
     (let current = FormValue r ''current_password''; new = FormValue r ''new_password''; confirm = FormValue r ''confirm_password'' in
      if current = '''' \<or> new = '''' \<or> confirm = '''' then see_other ''/profile/password?error=All+fields+are+required''
      else if new \<noteq> confirm then see_other ''/profile/password?error=New+passwords+do+not+match''
      else (case VerifyPassword E current (PasswordHash u) of
              Some e \<Rightarrow> see_other ''/profile/password?error=Current+password+is+incorrect''
            | None \<Rightarrow> do {
                h \<leftarrow> HashPassword E new;
                case h of
                  Inl e \<Rightarrow> see_other ''/profile/password?error=Failed+to+process+password''
                | Inr hash \<Rightarrow> do {
                    x \<leftarrow> UpdateUser E (u\<lparr>PasswordHash := hash\<rparr>);
                    case x of
                      Inl e \<Rightarrow> see_other ''/profile/password?error=Failed+to+update+password''
                    | Inr _ \<Rightarrow> see_other ''/profile?message=Password+changed+successfully'' } }))"

definition handleChangePassword ::
  "'e auth_env_scheme \<Rightarrow> User option \<Rightarrow> web_request \<Rightarrow> ('s db_state_scheme, web_response) state" where
  "handleChangePassword E user r =
     (case user of
        None \<Rightarrow> see_other ''/login''
      | Some u \<Rightarrow>
          if Method (Req r) = ''POST'' then
            (if FormError r then see_other ''/profile/password?error=Invalid+form+data'' else change_password E u r)
          else render ''change password'' (with_error r (page_data ''Change Password'' user)))"

section \<open>Users\<close>

definition handleUsers :: "'e auth_env_scheme \<Rightarrow> User option \<Rightarrow> web_request \<Rightarrow> ('s db_state_scheme, web_response) state" where
  "handleUsers E user r = do {
     x \<leftarrow> GetUsers E;
     case x of
       Inl e \<Rightarrow> respond (http_Error ''Internal Server Error'' StatusInternalServerError)
     | Inr us \<Rightarrow> render ''users'' ((with_messages r (page_data ''Manage Users'' user))\<lparr>PUsers := us\<rparr>) }"

definition add_user :: "'e auth_env_scheme \<Rightarrow> web_request \<Rightarrow> ('s db_state_scheme, web_response) state" where
  "add_user E r =
     (let name = trim_space (FormValue r ''username''); password = FormValue r ''password''; role = FormValue r ''role'' in
      if name = '''' \<or> password = '''' \<or> role = '''' then see_other ''/users/add?error=All+fields+are+required''
      else do {
        x \<leftarrow> GetUserByUsername E name;
        case x of
          Inr (Some _) \<Rightarrow> see_other ''/users/add?error=Username+already+exists''
        | _ \<Rightarrow> do {
            h \<leftarrow> HashPassword E password;
            case h of
              Inl e \<Rightarrow> see_other ''/users/add?error=Failed+to+process+password''
            | Inr hash \<Rightarrow> do {
                b \<leftarrow> rand_bytes E 16;
                case b of
                  Inl e \<Rightarrow> see_other ''/users/add?error=Failed+to+create+user''
                | Inr bs \<Rightarrow> do {
                    y \<leftarrow> CreateUser E \<lparr>UID = hex_encode bs, Username = name, PasswordHash = hash, Role = role,
                      UEnabled = (FormValue r ''enabled'' = ''on''), UCreatedAt = 0, UUpdatedAt = 0\<rparr>;
                    case y of
                      Inl e \<Rightarrow> see_other ''/users/add?error=Failed+to+create+user''
                    | Inr _ \<Rightarrow> see_other ''/users?message=User+created+successfully'' } } } })"

definition handleAddUser :: "'e auth_env_scheme \<Rightarrow> User option \<Rightarrow> web_request \<Rightarrow> ('s db_state_scheme, web_response) state" where
  "handleAddUser E user r =
     (if Method (Req r) = ''POST'' then
        (if FormError r then see_other ''/users/add?error=Invalid+form+data'' else add_user E r)
      else render ''add user'' (with_error r (page_data ''Add User'' user)))"

definition edit_user :: "'e auth_env_scheme \<Rightarrow> web_request \<Rightarrow> string \<Rightarrow> ('s db_state_scheme, web_response) state" where
  "edit_user E r userID =
     (let back = ''/users/edit?id='' @ userID @ ''&error='' in
      if FormError r then see_other (back @ ''Invalid+form+data'')
      else do {
        x \<leftarrow> GetUser E userID;
        case x of
          Inr (Some u) \<Rightarrow> do {
            let u' = u\<lparr>Username := trim_space (FormValue r ''username''), Role := FormValue r ''role'', UEnabled := (FormValue r ''enabled'' = ''on'')\<rparr>;
            h \<leftarrow> (if FormValue r ''password'' = '''' then State_Monad.return (Inr (PasswordHash u)) else HashPassword E (FormValue r ''password''));
            case h of
              Inl e \<Rightarrow> see_other (back @ ''Failed+to+process+password'')
            | Inr hash \<Rightarrow> do {
                y \<leftarrow> UpdateUser E (u'\<lparr>PasswordHash := hash\<rparr>);
                case y of
                  Inl e \<Rightarrow> see_other (back @ ''Failed+to+update+user'')
                | Inr _ \<Rightarrow> see_other ''/users?message=User+updated+successfully'' } }
        | _ \<Rightarrow> see_other ''/users?error=User+not+found'' })"

definition handleEditUser :: "'e auth_env_scheme \<Rightarrow> User option \<Rightarrow> web_request \<Rightarrow> ('s db_state_scheme, web_response) state" where
  "handleEditUser E user r =
     (let userID = Query (Req r) ''id'' in
      if userID = '''' then see_other ''/users?error=Missing+user+ID''
      else if Method (Req r) = ''POST'' then edit_user E r userID
      else do {
        x \<leftarrow> GetUser E userID;
        case x of
          Inr (Some u) \<Rightarrow> render ''edit user'' ((with_error r (page_data ''Edit User'' user))\<lparr>EditUser := Some u\<rparr>)
        | _ \<Rightarrow> see_other ''/users?error=User+not+found'' })"

definition handleDeleteUser :: "'e auth_env_scheme \<Rightarrow> User option \<Rightarrow> web_request \<Rightarrow> ('s db_state_scheme, web_response) state" where
  "handleDeleteUser E user r =
     (let userID = Query (Req r) ''id'' in
      if userID = '''' then see_other ''/users?error=Missing+user+ID''
      else do {
        x \<leftarrow> GetUser E userID;
        case x of
          Inr (Some u) \<Rightarrow>
            if Username u = ''admin'' then see_other ''/users?error=Cannot+delete+admin+user''
            else do {
              y \<leftarrow> DeleteUser E userID;
              case y of
                Inl e \<Rightarrow> see_other ''/users?error=Failed+to+delete+user''
              | Inr _ \<Rightarrow> see_other ''/users?message=User+deleted+successfully'' }
        | _ \<Rightarrow> see_other ''/users?error=User+not+found'' })"


section \<open>BMCs\<close>

definition handleHome :: "'e auth_env_scheme \<Rightarrow> User option \<Rightarrow> web_request \<Rightarrow> ('s db_state_scheme, web_response) state" where
  "handleHome E user r =
     (if URLPath (Req r) \<noteq> ''/'' then respond http_NotFound
      else do {
        x \<leftarrow> GetBMCs E;
        case x of
          Inl e \<Rightarrow> respond (http_Error ''Internal Server Error'' StatusInternalServerError)
        | Inr bs \<Rightarrow> render ''home'' ((page_data ''Dashboard'' user)\<lparr>PBMCs := bs\<rparr>) })"

definition handleBMCs :: "'e auth_env_scheme \<Rightarrow> User option \<Rightarrow> web_request \<Rightarrow> ('s db_state_scheme, web_response) state" where
  "handleBMCs E user r = do {
     x \<leftarrow> GetBMCs E;
     case x of
       Inl e \<Rightarrow> respond (http_Error ''Internal Server Error'' StatusInternalServerError)
     | Inr bs \<Rightarrow> render ''bmcs'' ((with_messages r (page_data ''Manage BMCs'' user))\<lparr>PBMCs := bs\<rparr>) }"

definition form_bmc :: "int \<Rightarrow> web_request \<Rightarrow> BMC" where
  "form_bmc i r =
     \<lparr>BID = i, BName = trim_space (FormValue r ''name''), BAddress = trim_space (FormValue r ''address''),
      BUsername = trim_space (FormValue r ''username''), BPassword = FormValue r ''password'', Description = trim_space (FormValue r ''description''),
      BEnabled = (FormValue r ''enabled'' = ''on''), BCreatedAt = 0, BUpdatedAt = 0, BLastSeen = None\<rparr>"

definition incomplete :: "BMC \<Rightarrow> bool" where
  "incomplete b \<longleftrightarrow> BName b = '''' \<or> BAddress b = '''' \<or> BUsername b = '''' \<or> BPassword b = ''''"

text \<open>The connection test after a BMC was stored.\<close>

definition test_stored :: "('w, 'e) svc_env_scheme \<Rightarrow> BMC \<Rightarrow> string \<Rightarrow> (('w, 's) svc_state_scheme, web_response) state" where
  "test_stored E b what =
     (if BEnabled b then do {
        e \<leftarrow> TestConnection E b;
        case e of
          Some e \<Rightarrow> see_other (''/bmcs?message=BMC+'' @ what @ ''+but+connection+test+failed:+'' @ e)
        | None \<Rightarrow> see_other (''/bmcs?message=BMC+'' @ what @ ''+successfully'') }
      else see_other (''/bmcs?message=BMC+'' @ what @ ''+successfully''))"

definition add_bmc :: "('w, 'e) svc_env_scheme \<Rightarrow> web_request \<Rightarrow> (('w, 's) svc_state_scheme, web_response) state" where
  "add_bmc E r =
     (if FormError r then see_other ''/bmcs?error=Invalid+form+data''
      else if incomplete (form_bmc 0 r) then see_other ''/bmcs/add?error=All+fields+are+required''
      else do {
        x \<leftarrow> CreateBMC E (form_bmc 0 r);
        case x of
          Inl e \<Rightarrow> see_other ''/bmcs/add?error=Failed+to+create+BMC''
        | Inr b \<Rightarrow> test_stored E b ''added'' })"

definition handleAddBMC :: "('w, 'e) svc_env_scheme \<Rightarrow> User option \<Rightarrow> web_request \<Rightarrow> (('w, 's) svc_state_scheme, web_response) state" where
  "handleAddBMC E user r =
     (if Method (Req r) = ''POST'' then add_bmc E r else render ''add bmc'' (with_error r (page_data ''Add BMC'' user)))"

definition edit_bmc :: "('w, 'e) svc_env_scheme \<Rightarrow> web_request \<Rightarrow> int \<Rightarrow> (('w, 's) svc_state_scheme, web_response) state" where
  "edit_bmc E r i =
     (let back = ''/bmcs/edit?id='' @ itoa i @ ''&error='' in
      if FormError r then see_other (back @ ''Invalid+form+data'')
      else if incomplete (form_bmc i r) then see_other (back @ ''All+fields+are+required'')
      else do {
        x \<leftarrow> UpdateBMC E (form_bmc i r);
        case x of
          Inl e \<Rightarrow> see_other (back @ ''Failed+to+update+BMC'')
        | Inr _ \<Rightarrow> test_stored E (form_bmc i r) ''updated'' })"

definition with_id :: "web_request \<Rightarrow> (int \<Rightarrow> ('s, web_response) state) \<Rightarrow> ('s, web_response) state" where
  "with_id r k =
     (if Query (Req r) ''id'' = '''' then see_other ''/bmcs?error=Missing+BMC+ID''
      else (case ParseInt (Query (Req r) ''id'') of None \<Rightarrow> see_other ''/bmcs?error=Invalid+BMC+ID'' | Some i \<Rightarrow> k i))"

definition handleEditBMC :: "('w, 'e) svc_env_scheme \<Rightarrow> User option \<Rightarrow> web_request \<Rightarrow> (('w, 's) svc_state_scheme, web_response) state" where
  "handleEditBMC E user r = with_id r (\<lambda>i.
     if Method (Req r) = ''POST'' then edit_bmc E r i
     else do {
       x \<leftarrow> GetBMC E i;
       case x of
         Inl e \<Rightarrow> see_other ''/bmcs?error=Failed+to+get+BMC''
       | Inr None \<Rightarrow> see_other ''/bmcs?error=BMC+not+found''
       | Inr (Some b) \<Rightarrow> render ''edit bmc'' ((with_error r (page_data ''Edit BMC'' user))\<lparr>PBMC := Some b\<rparr>) })"

text \<open>The values the template of that page puts into the inputs of its form.\<close>

definition bmc_form :: "PageData \<Rightarrow> (string \<times> string) list" where
  "bmc_form d =
     (case PBMC d of
        None \<Rightarrow> []
      | Some b \<Rightarrow> [(''name'', BName b), (''address'', BAddress b), (''username'', BUsername b), (''password'', BPassword b), (''description'', Description b)])"

definition handleDeleteBMC :: "('w, 'e) svc_env_scheme \<Rightarrow> User option \<Rightarrow> web_request \<Rightarrow> (('w, 's) svc_state_scheme, web_response) state" where
  "handleDeleteBMC E user r = with_id r (\<lambda>i. do {
     x \<leftarrow> DeleteBMC E i;
     case x of
       Inl e \<Rightarrow> see_other ''/bmcs?error=Failed+to+delete+BMC''
     | Inr _ \<Rightarrow> see_other ''/bmcs?message=BMC+deleted+successfully'' })"

definition handlePowerControl :: "('w, 'e) ops_env_scheme \<Rightarrow> User option \<Rightarrow> web_request \<Rightarrow> (('w, 's) ops_state_scheme, web_response) state" where
  "handlePowerControl E user r =
     (let action = Query (Req r) ''action'' in
      if Query (Req r) ''id'' = '''' \<or> action = '''' then see_other ''/bmcs?error=Missing+parameters''
      else (case ParseInt (Query (Req r) ''id'') of
              None \<Rightarrow> see_other ''/bmcs?error=Invalid+BMC+ID''
            | Some i \<Rightarrow> do {
                x \<leftarrow> GetBMC E i;
                case x of
                  Inr (Some b) \<Rightarrow> do {
                    e \<leftarrow> PowerControl E (BName b) action;
                    case e of
                      Some e \<Rightarrow> see_other (''/bmcs?error=Power+control+failed:+'' @ e)
                    | None \<Rightarrow> see_other (''/bmcs?message=Power+action+'' @ action @ ''+executed+successfully+on+'' @ BName b) }
                | _ \<Rightarrow> see_other ''/bmcs?error=BMC+not+found'' }))"

definition decode_address :: "raw_message \<Rightarrow> string option" where
  "decode_address = decode_body (\<lambda>k v x. if equal_fold k ''address'' then decode_str v x else Some x) ''''"

definition test_response :: "bool \<Rightarrow> string \<Rightarrow> response" where
  "test_response ok msg = writeJSON StatusOK (JObj [(''success'', JBool ok), (''message'', JStr msg)])"

definition handleTestConnection :: "('w, 'e) ops_env_scheme \<Rightarrow> User option \<Rightarrow> web_request \<Rightarrow> (('w, 's) ops_state_scheme, web_response) state" where
  "handleTestConnection E user r =
     (if Method (Req r) \<noteq> ''POST'' then respond (http_Error ''Method not allowed'' StatusMethodNotAllowed)
      else (case decode_address (Body (Req r)) of
              None \<Rightarrow> respond (test_response False ''Invalid request format'')
            | Some a \<Rightarrow>
                if trim_space a = '''' then respond (test_response False ''BMC address is required'')
                else do {
                  e \<leftarrow> TestUnauthenticatedConnection E (trim_space a);
                  respond (case e of
                      Some e \<Rightarrow> test_response False (''Connection failed: '' @ e)
                    | None \<Rightarrow> test_response True ''Connection successful! BMC is reachable and responding with Redfish API'') }))"

definition handleBMCDetails :: "User option \<Rightarrow> web_request \<Rightarrow> ('s, web_response) state" where
  "handleBMCDetails user r =
     (let name = Query (Req r) ''name'' in
      if name = '''' then see_other ''/bmcs?error=Missing+BMC+name''
      else render ''details'' (with_error r (page_data name user)))"

definition handleBMCDetailsAPI :: "('w, 'e) ops_env_scheme \<Rightarrow> User option \<Rightarrow> web_request \<Rightarrow> (('w, 's) ops_state_scheme, web_response) state" where
  "handleBMCDetailsAPI E user r =
     (let name = Query (Req r) ''name'' in
      if Method (Req r) \<noteq> ''GET'' then respond (http_Error ''Method not allowed'' StatusMethodNotAllowed)
      else if name = '''' then respond (json_error StatusBadRequest ''BMC name is required'')
      else do {
        x \<leftarrow> GetDetailedBMCStatus E name;
        respond (case x of
            Inl e \<Rightarrow> json_error StatusInternalServerError (''Failed to get BMC details: '' @ e)
          | Inr st \<Rightarrow> writeJSON StatusOK (status_json st)) })"

section \<open>Settings\<close>

definition descriptor_json :: "SettingDescriptor \<Rightarrow> json" where
  "descriptor_json d = JObj ([(''id'', JStr (DID d)), (''bmc_name'', JStr (DBMCName d)), (''resource_path'', JStr (ResourcePath d)),
     (''attribute'', JStr (Attribute d))] @ omit_str ''display_name'' (DisplayName d) @ omit_str ''description'' (DescriptionText d) @
     [(''type'', JStr (DType d))] @ omit_list ''enum_values'' (map JStr (EnumValues d)) @
     (case DMin d of None \<Rightarrow> [] | Some x \<Rightarrow> [(''min'', JNum x)]) @ (case DMax d of None \<Rightarrow> [] | Some x \<Rightarrow> [(''max'', JNum x)]) @
     omit_str ''pattern'' (Pattern d) @ omit_str ''units'' (Units d) @ [(''read_only'', JBool (ReadOnly d)), (''oem'', JBool (OEM d))] @
     omit_str ''oem_vendor'' (OEMVendor d) @ omit_list ''apply_times'' (map JStr (ApplyTimes d)) @ omit_str ''action_target'' (ActionTarget d) @
     (if CurrentValue d = JNull then [] else [(''current_value'', CurrentValue d)]) @ omit_str ''source_timestamp'' (SourceTimeISO d))"

definition omit_int :: "string \<Rightarrow> int \<Rightarrow> (string \<times> json) list" where
  "omit_int k n = (if n = 0 then [] else [(k, JNum (of_int n))])"

definition settings_response :: "string \<Rightarrow> string \<Rightarrow> SettingDescriptor list \<Rightarrow> int \<Rightarrow> int \<Rightarrow> int \<Rightarrow> json" where
  "settings_response name resource ds page pageSize count =
     JObj ([(''bmc_name'', JStr name)] @ omit_str ''resource'' resource @ [(''descriptors'', JArr (map descriptor_json ds))] @
       omit_int ''page'' page @ omit_int ''page_size'' pageSize @ omit_int ''total'' count)"

definition positive_param :: "web_request \<Rightarrow> string \<Rightarrow> int \<Rightarrow> int" where
  "positive_param r k dflt =
     (case ParseInt (trim_space (Query (Req r) k)) of Some n \<Rightarrow> if n > 0 then n else dflt | None \<Rightarrow> dflt)"

definition want_oem :: "string \<Rightarrow> bool option" where
  "want_oem p =
     (let l = to_lower p in
      if l \<in> {''1'', ''true'', ''yes''} then Some True else if l \<in> {''0'', ''false'', ''no''} then Some False else None)"

definition matches_filter :: "bool option \<Rightarrow> string \<Rightarrow> SettingDescriptor \<Rightarrow> bool" where
  "matches_filter oem s d \<longleftrightarrow>
     (case oem of None \<Rightarrow> True | Some b \<Rightarrow> OEM d = b) \<and>
     (s = '''' \<or> contains (to_lower (Attribute d @ '' '' @ DisplayName d @ '' '' @ DescriptionText d @ '' '' @ ResourcePath d @ '' '' @ OEMVendor d)) s)"

text \<open>The requested page, in machine integers; \<open>None\<close> is a slice expression out of bounds.\<close>

definition paginate :: "int \<Rightarrow> int \<Rightarrow> 'a list \<Rightarrow> 'a list option" where
  "paginate page pageSize xs =
     (if pageSize \<le> 0 then Some xs
      else let n = int (length xs);
               start = max 0 (wrap64 (wrap64 (page - 1) * pageSize));
               bound = wrap64 (start + pageSize) in
           if start \<ge> n then Some []
           else let stop = min bound n in
                if stop < start then None else Some (take (nat (stop - start)) (drop (nat start) xs)))"

definition list_settings ::
  "('w, 'e) set_env_scheme \<Rightarrow> bool \<Rightarrow> User option \<Rightarrow> web_request \<Rightarrow> string \<Rightarrow> (('w, 's) set_state_scheme, web_response) state" where
  "list_settings E passRefresh user r name =
     (let resource = Query (Req r) ''resource'';
          refresh = equal_fold (trim_space (Query (Req r) ''refresh'')) ''true'';
          page = positive_param r ''page'' 1; pageSize = positive_param r ''page_size'' 0 in
      if name = '''' then respond (json_error StatusBadRequest ''BMC name is required'')
      else if refresh \<and> \<not> is_operator user then respond (json_error StatusForbidden ''refresh requires operator privileges'')
      else do {
        x \<leftarrow> DiscoverSettings E (passRefresh \<and> refresh) name resource;
        case x of
          Inl e \<Rightarrow> respond (json_error StatusInternalServerError (''Failed to discover settings: '' @ e))
        | Inr ds \<Rightarrow> do {
            let found = filter (matches_filter (want_oem (trim_space (Query (Req r) ''oem''))) (to_lower (trim_space (Query (Req r) ''search'')))) ds;
            State_Monad.return (answer (case paginate page pageSize found of
                None \<Rightarrow> Aborted
              | Some shown \<Rightarrow> Reply (writeJSON StatusOK (settings_response name resource shown page pageSize (int (length found)))))) } })"

definition handleBMCSettingsAPI :: "('w, 'e) set_env_scheme \<Rightarrow> User option \<Rightarrow> web_request \<Rightarrow> (('w, 's) set_state_scheme, web_response) state" where
  "handleBMCSettingsAPI E user r =
     (if Method (Req r) \<noteq> ''GET'' then respond (http_Error ''Method not allowed'' StatusMethodNotAllowed)
      else list_settings E True user r (Query (Req r) ''name''))"

definition decode_value :: "raw_message \<Rightarrow> json option" where
  "decode_value = decode_body (\<lambda>k v x. Some (if equal_fold k ''value'' then v else x)) JNull"

definition handleUpdateSetting ::
  "('w, 'e) set_env_scheme \<Rightarrow> User option \<Rightarrow> web_request \<Rightarrow> string \<Rightarrow> string \<Rightarrow> (('w, 's) set_state_scheme, web_response) state" where
  "handleUpdateSetting E user r bmcName descriptorID =
     (if \<not> is_operator user then respond (json_error StatusForbidden ''operator privileges required to update BMC settings'')
      else (case decode_value (Body (Req r)) of
              None \<Rightarrow> respond (json_error StatusBadRequest ''invalid request body'')
            | Some v \<Rightarrow> do {
                x \<leftarrow> GetSettingDescriptor E bmcName descriptorID;
                case x of
                  Inr (Some d) \<Rightarrow>
                    if \<not> equal_fold (Attribute d) bootOrderAttr then
                      respond (json_error StatusForbidden ''Only Boot.BootOrder settings can be updated; all other settings are read-only'')
                    else do {
                      y \<leftarrow> UpdateSetting E bmcName descriptorID v;
                      State_Monad.return (answer (case y of
                          None \<Rightarrow> Aborted
                        | Some (Some e) \<Rightarrow> Reply (json_error StatusInternalServerError (''Failed to update setting: '' @ e))
                        | Some None \<Rightarrow> Reply (writeJSON StatusOK
                            (JObj [(''bmc'', JStr bmcName), (''message'', JStr ''Setting updated successfully''), (''setting'', JStr descriptorID)])))) }
                | _ \<Rightarrow> respond (json_error StatusNotFound ''setting descriptor not found'') }))"

definition setting_detail ::
  "('w, 'e) set_env_scheme \<Rightarrow> web_request \<Rightarrow> string \<Rightarrow> string \<Rightarrow> (('w, 's) set_state_scheme, web_response) state" where
  "setting_detail E r bmcName i = do {
     x \<leftarrow> GetSettingDescriptor E bmcName i;
     case x of
       Inl e \<Rightarrow> respond (json_error StatusInternalServerError (''Failed to fetch descriptor: '' @ e))
     | Inr (Some d) \<Rightarrow> respond (writeJSON StatusOK (descriptor_json d))
     | Inr None \<Rightarrow> do {
         u \<leftarrow> DiscoverSettings E False bmcName '''';
         y \<leftarrow> GetSettingDescriptor E bmcName i;
         respond (case y of Inr (Some d) \<Rightarrow> writeJSON StatusOK (descriptor_json d) | _ \<Rightarrow> http_NotFound) } }"

definition handleBMCSettingsAPIRestful ::
  "('w, 'e) set_env_scheme \<Rightarrow> User option \<Rightarrow> web_request \<Rightarrow> (('w, 's) set_state_scheme, web_response) state" where
  "handleBMCSettingsAPIRestful E user r =
     (let parts = split_on CHR ''/'' (trim_slashes (URLPath (Req r))) in
      if Method (Req r) \<noteq> ''GET'' \<and> Method (Req r) \<noteq> ''PATCH'' then respond (http_Error ''Method not allowed'' StatusMethodNotAllowed)
      else if \<not> has_prefix (URLPath (Req r)) ''/api/bmcs/'' then respond http_NotFound
      else (case parts of
              a # b # bmcName # st # rest \<Rightarrow>
                if a \<noteq> ''api'' \<or> b \<noteq> ''bmcs'' \<or> st \<noteq> ''settings'' then respond http_NotFound
                else (case rest of
                        [i] \<Rightarrow>
                          if bmcName = '''' \<or> i = '''' then respond (json_error StatusBadRequest ''BMC name and id are required'')
                          else if Method (Req r) = ''PATCH'' then handleUpdateSetting E user r bmcName i
                          else setting_detail E r bmcName i
                      | _ \<Rightarrow> list_settings E False user r bmcName)
            | _ \<Rightarrow> respond http_NotFound))"

section \<open>Routes\<close>

definition web_routes :: "string list" where
  "web_routes = [''/static/'', ''/login'', ''/logout'', ''/'', ''/bmcs'', ''/bmcs/add'', ''/bmcs/edit'', ''/bmcs/delete'', ''/bmcs/power'',
     ''/bmcs/details'', ''/api/bmcs/test-connection'', ''/api/bmcs/details'', ''/api/bmcs/settings'', ''/api/bmcs/'',
     ''/users'', ''/users/add'', ''/users/edit'', ''/users/delete'', ''/profile'', ''/profile/password'']"

definition web_route ::
  "('w, 'e) set_env_scheme \<Rightarrow> (request \<Rightarrow> response) \<Rightarrow> string \<Rightarrow> web_request \<Rightarrow> (('w, 's) set_state_scheme, web_response) state" where
  "web_route E static pat r =
     (if pat = ''/static/'' then respond (static (Req r))
      else if pat = ''/login'' then handleLogin E r
      else if pat = ''/logout'' then handleLogout E r
      else if pat = ''/'' then requireAuth E (handleHome E) r
      else if pat = ''/bmcs'' then requireAuth E (handleBMCs E) r
      else if pat = ''/bmcs/add'' then requireAuth E (handleAddBMC E) r
      else if pat = ''/bmcs/edit'' then requireAuth E (handleEditBMC E) r
      else if pat = ''/bmcs/delete'' then requireAuth E (handleDeleteBMC E) r
      else if pat = ''/bmcs/power'' then requireAuth E (handlePowerControl E) r
      else if pat = ''/bmcs/details'' then requireAuth E handleBMCDetails r
      else if pat = ''/api/bmcs/test-connection'' then requireAuth E (handleTestConnection E) r
      else if pat = ''/api/bmcs/details'' then requireAuth E (handleBMCDetailsAPI E) r
      else if pat = ''/api/bmcs/settings'' then requireAuth E (handleBMCSettingsAPI E) r
      else if pat = ''/api/bmcs/'' then requireAuth E (handleBMCSettingsAPIRestful E) r
      else if pat = ''/users'' then requireAdmin E (handleUsers E) r
      else if pat = ''/users/add'' then requireAdmin E (handleAddUser E) r
      else if pat = ''/users/edit'' then requireAdmin E (handleEditUser E) r
      else if pat = ''/users/delete'' then requireAdmin E (handleDeleteUser E) r
      else if pat = ''/profile'' then requireAuth E handleProfile r
      else requireAuth E (handleChangePassword E) r)"

definition web_mux ::
  "('w, 'e) set_env_scheme \<Rightarrow> (request \<Rightarrow> response) \<Rightarrow> web_request \<Rightarrow> (('w, 's) set_state_scheme, web_response) state" where
  "web_mux E static r =
     (case mux_route web_routes (Req r) of
        Redirect u \<Rightarrow> respond (redirect_response u)
      | Routed pat \<Rightarrow> web_route E static pat r
      | Unrouted \<Rightarrow> respond http_NotFound)"

end
