(* ===== verification/WebFrame.thy ===== *)
theory WebFrame
  imports AggFrame Web
begin

text \<open>
  What the web interface leaves of the database, in the way of \<open>AggFrame\<close>: the locale \<open>web_frame\<close> adds the
  statements on BMCs and setting descriptors to what a preserved relation must satisfy, and proves
  once that every page and API of the web interface outside the management of users preserves it;
  \<open>web_account_frame\<close> adds the pages on users.
\<close>

locale web_frame = db_frame +
  assumes R_insert_bmc: "insert_bmc b pw now d = (Inr i, d') \<Longrightarrow> R d d'"
    and R_update_bmc: "update_bmc b pw now d = (Inr u, d') \<Longrightarrow> R d d'"
    and R_delete_bmc: "R d (delete_bmc i d)"
    and R_upsert_descriptor: "upsert_descriptor r d = Inr d' \<Longrightarrow> R d d'"
    and R_upsert_value: "upsert_value v d = Inr d' \<Longrightarrow> R d d'"
begin

lemma bmc_reads [frame]: "preserves R (GetBMC E j)" "preserves R (GetSettingDescriptor E n i)"
  unfolding GetBMC_def GetSettingDescriptor_def by (intro frame)+

lemma bmc_writes [frame]: "preserves R (CreateBMC E b)" "preserves R (UpdateBMC E b)" "preserves R (DeleteBMC E i)"
proof -
  have "preserves R (exec E pre (insert_bmc b pw))" for pre pw by (rule exec) (rule R_insert_bmc)
  then show "preserves R (CreateBMC E b)" unfolding CreateBMC_def by (intro frame)
  have "preserves R (exec E pre (update_bmc b pw))" for pre pw by (rule exec) (rule R_update_bmc)
  then show "preserves R (UpdateBMC E b)" unfolding UpdateBMC_def by (intro frame)
  show "preserves R (DeleteBMC E i)" unfolding DeleteBMC_def by (rule exec) (auto intro: R_delete_bmc)
qed

lemma upserts: "run_tx E (upsert_tx E' i ds) n d = (Inr d', n') \<Longrightarrow> R d d'"
proof -
  define keeps where "keeps = (\<lambda>st :: tx_stmt. \<forall>now d d'. snd st now d = Inr d' \<longrightarrow> R d d')"
  have *: "list_all keeps sts \<Longrightarrow> run_tx E sts n d = (Inr d', n') \<Longrightarrow> R d d'" for sts n d
    by (induction E sts n d rule: run_tx.induct)
      (auto simp: keeps_def R_refl split: option.splits sum.splits intro: R_trans)
  have "list_all keeps (upsert_tx E' i ds)"
    by (auto simp: list_all_iff keeps_def upsert_tx_def upsert_stmts_def R_refl intro: R_upsert_descriptor R_upsert_value)
  with * show "run_tx E (upsert_tx E' i ds) n d = (Inr d', n') \<Longrightarrow> R d d'" by blast
qed

lemma upsert [frame]: "preserves R (UpsertSettingDescriptors E n ds)"
proof -
  have "preserves R (State (\<lambda>s. case run_tx E (upsert_tx E i ds) (ticks s) (adb s) of
     (Inl e, n) \<Rightarrow> (Inl e, s\<lparr>ticks := n\<rparr>) | (Inr d, n) \<Rightarrow> (Inr (), s\<lparr>ticks := n, adb := d\<rparr>)))" for i
    by (auto simp: preserves_def R_refl split: prod.splits sum.splits intro: upserts)
  then show ?thesis unfolding UpsertSettingDescriptors_def by (intro frame)
qed

subsection \<open>The service\<close>

lemma waits [frame]: "preserves R (wait_or_done E t)"
  by (simp add: preserves_def wait_or_done_def R_refl)

lemma attempts [frame]: "preserves R (attempt_request E pre q)"
  unfolding attempt_request_def by (intro frame)

lemma retries: "preserves R fn \<Longrightarrow> preserves R (retry_loop E c fn n a l)"
  by (induction E c fn n a l rule: retry_loop.induct) (auto intro!: frame split: option.split sum.split)

lemma power [frame]:
  "preserves R (getVendor E b)" "preserves R (first_system_path E b)" "preserves R (PowerControl E name a)"
  "preserves R (TestUnauthenticatedConnection E address)"
  unfolding PowerControl_def first_system_path_def getVendor_def doWithRetry_def TestUnauthenticatedConnection_def
  by (intro frame retries)+

lemma registries [frame]: "preserves R (find_registry E b i ms)" "preserves R (follow_location E b p ls)"
proof -
  show "preserves R (find_registry E b i ms)" by (induction ms) (auto intro!: frame split: json.split option.split)
  show "preserves R (follow_location E b p ls)" by (induction ls) (auto intro!: frame split: json.split option.split)
qed

lemma caches [frame]:
  "preserves R (State (\<lambda>s. ((), s\<lparr>regCache := f s\<rparr>)))" "preserves R (State (\<lambda>s. ((), s\<lparr>aiCache := f s\<rparr>)))"
  by (simp_all add: preserves_def R_refl)

lemma cache_lookup [frame]: "preserves R (cache_lookup E rf c k)"
  unfolding cache_lookup_def by (intro frame)

lemma actions: "preserves R (try_actions E rf b as)"
  by (induction as) (auto intro!: frame simp: Let_def split: option.split)

lemma enrich [frame]: "preserves R (enrichDescriptors E rf b kvs ds)"
  unfolding enrichDescriptors_def resolveAttributeRegistry_def resolveActionInfo_def fetch_registry_def
  by (intro frame actions)

lemma collect: "(\<And>x. preserves R (f x)) \<Longrightarrow> preserves R (collect f xs)"
  by (induction xs) (auto intro!: frame)

lemma probes [frame]:
  "preserves R (probe_path E rf b n pick p)" "preserves R (probe_member E rf b n m)" "preserves R (probe_boot_order E b n p)"
  "preserves R (probe_storage E rf b n m)"
  unfolding probe_storage_def probe_collection_def probe_member_def probe_path_def probe_resource_def buildDescriptorsFromMap_def
    probe_boot_order_def
  by (intro frame collect)+

lemma discover [frame]: "preserves R (DiscoverSettings E rf n flt)"
  unfolding DiscoverSettings_def probe_all_def discover_systems_def probe_if_def probe_collection_def
  by (intro frame collect)

lemma update_setting [frame]: "preserves R (UpdateSetting E n i v)"
  unfolding UpdateSetting_def send_update_def by (intro frame)

lemma fetch_each [frame]: "preserves R (fetch_each E b f ms)"
  by (induction ms) (auto intro!: frame split: option.split)

lemma drives [frame]: "preserves R (drives_of E b ms)"
  by (induction ms) (auto intro!: frame split: option.split)

lemma logs [frame]: "preserves R (search_logs E b ms)"
  by (induction ms) (auto intro!: frame split: option.split)

lemma status [frame]: "preserves R (GetDetailedBMCStatus E n)"
  unfolding GetDetailedBMCStatus_def getSystemInfo_def getNetworkInterfaces_def nic_collection_def getStorageDevices_def
    getStorageDevicesFromStorage_def getStorageDevicesFromSimpleStorage_def getSELEntries_def
  by (intro frame)

subsection \<open>Pages\<close>

lemma cookie [frame]: "preserves R (cookie_user E r)"
  unfolding cookie_user_def by (intro frame)

lemma requireAuth: "(\<And>u. preserves R (k u r)) \<Longrightarrow> preserves R (requireAuth E k r)"
  unfolding requireAuth_def by (intro frame)

lemma login_pages [frame]: "preserves R (Web.handleLogin E r)" "preserves R (handleLogout E r)"
proof -
  show "preserves R (Web.handleLogin E r)" unfolding Web.handleLogin_def showLoginPage_def by (intro frame)
  have "preserves R (AggAuth.DeleteSession E tok)" for tok
    unfolding AggAuth.DeleteSession_def db_DeleteSession_def by (rule exec) (auto intro: R_logout)
  then show "preserves R (handleLogout E r)" unfolding handleLogout_def by (intro frame)
qed

lemma bmc_pages [frame]:
  "preserves R (handleHome E u r)" "preserves R (handleBMCs E u r)" "preserves R (handleAddBMC E u r)" "preserves R (handleEditBMC E u r)"
  "preserves R (handleDeleteBMC E u r)" "preserves R (handlePowerControl E u r)" "preserves R (handleBMCDetails u r)"
  "preserves R (handleTestConnection E u r)" "preserves R (handleBMCDetailsAPI E u r)" "preserves R (handleProfile u r)"
  unfolding handleHome_def handleBMCs_def handleAddBMC_def add_bmc_def handleEditBMC_def edit_bmc_def test_stored_def with_id_def
    handleDeleteBMC_def handlePowerControl_def handleBMCDetails_def handleTestConnection_def handleBMCDetailsAPI_def handleProfile_def
  by (intro frame)+

lemma setting_pages [frame]:
  "preserves R (list_settings E p u r n)" "preserves R (handleUpdateSetting E u r n i)" "preserves R (setting_detail E r n i)"
  unfolding list_settings_def handleUpdateSetting_def setting_detail_def by (intro frame)+

lemma setting_apis [frame]: "preserves R (handleBMCSettingsAPI E u r)" "preserves R (handleBMCSettingsAPIRestful E u r)"
  unfolding handleBMCSettingsAPI_def handleBMCSettingsAPIRestful_def by (intro frame)+

text \<open>Every route but those on users and passwords.\<close>

lemma route:
  "pat \<in> set web_routes \<Longrightarrow> pat \<notin> {''/users'', ''/users/add'', ''/users/edit'', ''/users/delete'', ''/profile/password''} \<Longrightarrow>
   preserves R (web_route E static pat r)"
  unfolding web_route_def by (intro cases(1) return login_pages requireAuth bmc_pages setting_apis) (simp_all add: web_routes_def)

end

locale web_account_frame = web_frame + account_frame
begin

lemma user_pages [frame]:
  "preserves R (handleUsers E u r)" "preserves R (handleAddUser E u r)" "preserves R (handleEditUser E u r)"
  "preserves R (handleDeleteUser E u r)" "preserves R (handleChangePassword E u r)"
  unfolding handleUsers_def handleAddUser_def add_user_def handleEditUser_def edit_user_def handleDeleteUser_def
    handleChangePassword_def change_password_def
  by (intro frame)+

lemma requireAdmin: "(\<And>u. preserves R (k u r)) \<Longrightarrow> preserves R (requireAdmin E k r)"
  unfolding requireAdmin_def by (intro requireAuth frame)

lemma web [frame]: "preserves R (web_mux E static r)"
proof -
  have "preserves R (web_route E static pat r)" for pat
    unfolding web_route_def
    by (intro cases(1) return login_pages requireAuth bmc_pages setting_apis requireAdmin user_pages)
  then show ?thesis
    unfolding web_mux_def by (auto intro: frame dest: mux_route_Routed split: routed.split)
qed

end

end
