(* ===== verification/AggProps.thy ===== *)
theory AggProps
  imports AggFrame
begin

text \<open>
  What the aggregator's API guarantees: the schema's invariant, who can change accounts, sessions from
  login to expiry, what the proxy forwards, and how the last administrator can be lost.
\<close>

section \<open>The invariant of the schema\<close>

definition db_ok :: "agg_db \<Rightarrow> bool" where
  "db_ok d \<longleftrightarrow>
     distinct (map fst (settings d)) \<and>
     distinct (map UID (users d)) \<and> distinct (map Username (users d)) \<and>
     distinct (map SID (sessions d)) \<and> distinct (map Token (sessions d)) \<and>
     (\<forall>x \<in> set (sessions d). \<exists>u \<in> set (users d). UID u = SUserID x) \<and>
     distinct (map BID (bmcs d)) \<and> distinct (map BName (bmcs d)) \<and> (\<forall>b \<in> set (bmcs d). BID b \<le> last_bmc d) \<and>
     distinct (map MID (connection_methods d)) \<and> distinct (map MName (connection_methods d))"



lemma distinct_rename:
  assumes "distinct (map i xs)" "distinct (map k xs)" "\<And>x. x \<in> set xs \<Longrightarrow> i x \<noteq> a \<Longrightarrow> k x \<noteq> n" "\<And>x. k (f x) = n"
  shows "distinct (map k (upd_where (\<lambda>x. i x = a) f xs))"
  using assms(1-3)
proof (induction xs)
  case (Cons x xs)
  have "distinct (map k (upd_where (\<lambda>x. i x = a) f xs))" using Cons.prems by (intro Cons.IH) auto
  moreover have "upd_where (\<lambda>x. i x = a) f xs = xs" if "i x = a"
    using Cons.prems(1) that by (intro upd_where_id) (auto simp: image_iff)
  moreover have "k y \<noteq> n" if "i x = a" "y \<in> set xs" for y using Cons.prems that by (auto simp: image_iff) metis
  moreover have "k x \<notin> k ` set (upd_where (\<lambda>x. i x = a) f xs)" if "i x \<noteq> a"
    using Cons.prems that assms(4) by (force simp: upd_where_def image_iff)
  ultimately show ?case using Cons.prems by (cases "i x = a") (auto simp: assms(4))
qed simp

lemma distinct_map_filter_keep: "distinct (map f xs) \<Longrightarrow> distinct (map f (filter P xs))"
  by (induction xs) auto



interpretation schema: account_frame "\<lambda>d d'. db_ok d \<longrightarrow> db_ok d'"
proof
  show "insert_session x now d = (Inr u, d') \<Longrightarrow> db_ok d \<longrightarrow> db_ok d'" for x now d u d'
    by (fastforce simp: insert_session_def db_ok_def has_row_def list_ex_iff split: if_splits)
  show "insert_method m pw now d = (Inr u, d') \<Longrightarrow> db_ok d \<longrightarrow> db_ok d'" for m pw now d u d'
    by (fastforce simp: insert_method_def db_ok_def has_row_def list_ex_iff split: if_splits)
  show "insert_user u now d = (Inr x, d') \<Longrightarrow> db_ok d \<longrightarrow> db_ok d'" for u now d x d'
    by (fastforce simp: insert_user_def db_ok_def has_row_def list_ex_iff split: if_splits)
  show "update_user u now d = (Inr x, d') \<Longrightarrow> db_ok d \<longrightarrow> db_ok d'" for u now d x d'
  proof
    assume "update_user u now d = (Inr x, d')" and ok: "db_ok d"
    then have d': "d' = d\<lparr>users := upd_where (\<lambda>v. UID v = UID u)
        (\<lambda>v. v\<lparr>Username := Username u, PasswordHash := PasswordHash u, Role := Role u, UEnabled := UEnabled u,
              UUpdatedAt := current_timestamp now\<rparr>) (users d)\<rparr>"
      and free: "has_row (\<lambda>v. UID v = UID u) (users d) \<Longrightarrow> \<not> has_row (\<lambda>v. UID v \<noteq> UID u \<and> Username v = Username u) (users d)"
      by (auto simp: update_user_def split: if_splits)
    have "distinct (map Username (users d'))"
    proof (cases "has_row (\<lambda>v. UID v = UID u) (users d)")
      case True
      with free ok show ?thesis
        unfolding d' by (auto simp: db_ok_def has_row_def list_ex_iff intro!: distinct_rename)
    next
      case False
      then have "upd_where (\<lambda>v. UID v = UID u) f (users d) = users d" for f
        by (intro upd_where_id) (auto simp: has_row_def list_ex_iff)
      with ok show ?thesis by (simp add: d' db_ok_def)
    qed
    moreover have "map UID (users d') = map UID (users d)" by (simp add: d' map_upd_where)
    moreover from this have "(\<exists>v \<in> set (users d'). UID v = i) \<longleftrightarrow> (\<exists>v \<in> set (users d). UID v = i)" for i
      by (metis (mono_tags, lifting) imageE imageI set_map)
    ultimately show "db_ok d'" using ok by (simp add: db_ok_def d')
  qed
  show "db_ok d \<longrightarrow> db_ok (delete_user i d)" for i d
    by (fastforce simp: db_ok_def delete_user_def distinct_map_filter_keep)
qed (auto simp: db_ok_def distinct_update map_upd_where distinct_map_filter_keep in_upd_where)

section \<open>Who changes accounts\<close>

text \<open>The credential of a request at a tick: a session token that has not expired, or a name and its password.\<close>

definition presents :: "'e auth_env_scheme \<Rightarrow> request \<Rightarrow> nat \<Rightarrow> agg_db \<Rightarrow> User \<Rightarrow> bool" where
  "presents E r n d u \<longleftrightarrow>
     u \<in> set (users d) \<and> UEnabled u \<and>
     (if Header r ''X-Auth-Token'' \<noteq> ''''
      then \<exists>x \<in> set (sessions d). Token x = Header r ''X-Auth-Token'' \<and> SUserID x = UID u \<and> sql_after E (ExpiresAt x) (now_at E n)
      else \<exists>p. BasicAuth r = Some (Username u, p) \<and> VerifyPassword E p (PasswordHash u) = None)"

lemmas auth_defs = AuthenticateRequest_def AuthenticateToken_def authenticateBasic_def GetSessionByToken_def GetUser_def
  GetUserByUsername_def

lemma AuthenticateRequest_Inr:
  assumes "run_state (AuthenticateRequest E r) s = (Inr u, s')"
  shows "presents E r (ticks s) (adb s) u" "adb s' = adb s"
  using assms
  by (auto simp: auth_defs presents_def run_state_bind run_query dest!: find_SomeD
      split: if_splits option.splits prod.splits sum.splits)

interpretation same_users: db_frame "\<lambda>d d'. users d' = users d"
  by unfold_locales (auto simp: insert_session_def insert_method_def split: if_splits)

lemma redfish_users:
  assumes "run_state (handleRedfish E r hdrs) s = (x, s')" "users (adb s') \<noteq> users (adb s)"
  shows "\<exists>u. presents E r (ticks s) (adb s) u \<and> IsAdmin u \<and> Method r \<in> {''POST'', ''PATCH'', ''DELETE''} \<and>
     has_prefix (trim_prefix (URLPath r) ''/redfish'') ''/v1/AccountService/Accounts''"
proof -
  let ?p = "trim_prefix (URLPath r) ''/redfish''"
  have "\<not> (\<forall>d d'. preserves (\<lambda>d d'. users d' = users d) (handleRedfish E r hdrs))" using assms by (auto dest: preservesD)
  then have run: "run_state (handleRedfish E r hdrs) s = run_state (do {
        u \<leftarrow> AuthenticateRequest E r;
        case u of Inl e \<Rightarrow> State_Monad.return (unauthorized ''Authentication required'')
        | Inr user \<Rightarrow> authenticated E r hdrs ?p user }) s"
    by (auto simp: handleRedfish_def Let_def same_users.other_handlers same_users.session_handlers split: if_splits)
  obtain a s1 where a: "run_state (AuthenticateRequest E r) s = (a, s1)" by fastforce
  show ?thesis
  proof (cases a)
    case (Inl e)
    with a run assms preservesD [OF same_users.authenticate(3) a] show ?thesis by (simp add: run_state_bind)
  next
    case (Inr u)
    with a have u: "presents E r (ticks s) (adb s) u" "adb s1 = adb s" by (auto dest: AuthenticateRequest_Inr)
    from a Inr run assms(1) have "run_state (authenticated E r hdrs ?p u) s1 = (x, s')" by (simp add: run_state_bind)
    with assms(2) u(2) have "\<not> preserves (\<lambda>d d'. users d' = users d) (authenticated E r hdrs ?p u)" by (auto dest: preservesD)
    with u same_users.authenticated_harmless [of u r ?p E hdrs] show ?thesis by blast
  qed
qed

lemma api_users:
  assumes "run_state (api_mux E r hdrs) s = (x, s')" and "users (adb s') \<noteq> users (adb s)"
  shows "\<exists>u. presents E r (ticks s) (adb s) u \<and> IsAdmin u \<and> Method r \<in> {''POST'', ''PATCH'', ''DELETE''} \<and>
     has_prefix (URLPath r) ''/redfish/v1/AccountService/Accounts''"
proof -
  from assms have no: "\<not> preserves (\<lambda>d d'. users d' = users d) (api_mux E r hdrs)" by (auto dest: preservesD)
  then obtain pat where pat: "mux_route api_routes r = Routed pat"
    by (cases "mux_route api_routes r") (auto simp: api_mux_def same_users.return)
  have "preserves (\<lambda>d d'. users d' = users d) (api_route E pat r hdrs)" if "pat \<noteq> ''/redfish/''"
    using mux_route_Routed [OF pat] that
    by (auto simp: api_routes_def api_route_def same_users.static_handlers same_users.require)
  with no pat have *: "pat = ''/redfish/''" by (auto simp: api_mux_def)
  with mux_route_Routed [OF pat] have "has_prefix (URLPath r) ''/redfish/''" by (simp add: pattern_matches_def has_suffix_def)
  moreover from assms pat * have "run_state (handleRedfish E r hdrs) s = (x, s')" by (simp add: api_mux_def api_route_def)
  ultimately show ?thesis using redfish_users assms(2) by (fastforce simp: has_prefix_iff trim_prefix_def)
qed


section \<open>Sessions from login to expiry\<close>

lemma encode_nonempty: "EncodeToString k s = [] \<longleftrightarrow> s = []"
  by (cases "(k, s)" rule: EncodeToString.cases) (auto simp: Let_def)

lemma run_CreateSession:
  assumes ok: "run_state (CreateSession E i) s = (Inr x, s')"
    and rand: "\<forall>n k b. rand_Read E n k = Inr b \<longrightarrow> length b = k"
  shows "Token x \<noteq> ''''" "SUserID x = i" "ExpiresAt x = now_at E (Suc (Suc (ticks s))) + 24 * time_Hour"
    "\<exists>now. insert_session x now (adb s) = (Inr (), adb s')"
  using ok rand [rule_format, of "Suc (ticks s)" 32]
  by (auto simp: CreateSession_def generateID_def generateToken_def rand_bytes_def tick_def time_Now_def db_CreateSession_def
      run_state_bind run_exec encode_nonempty Let_def split: sum.splits option.splits prod.splits)

lemma find_snoc: "List.find P (xs @ [x]) = (case List.find P xs of Some y \<Rightarrow> Some y | None \<Rightarrow> if P x then Some x else None)"
  by (induction xs) auto

lemma find_session:
  assumes "insert_session x now d = (Inr (), d')"
  shows "List.find (\<lambda>y. Token y = Token x \<and> P (ExpiresAt y)) (sessions d') =
     (if P (ExpiresAt x) then Some (x\<lparr>SCreatedAt := current_timestamp now\<rparr>) else None)"
    "users d' = users d"
proof -
  from assms have d': "d' = d\<lparr>sessions := sessions d @ [x\<lparr>SCreatedAt := current_timestamp now\<rparr>]\<rparr>"
    and new: "\<forall>y \<in> set (sessions d). Token y \<noteq> Token x"
    by (auto simp: insert_session_def has_row_def list_ex_iff split: if_splits)
  from new have "List.find (\<lambda>y. Token y = Token x \<and> P (ExpiresAt y)) (sessions d) = None" by (auto simp: find_None_iff)
  then show "List.find (\<lambda>y. Token y = Token x \<and> P (ExpiresAt y)) (sessions d') =
     (if P (ExpiresAt x) then Some (x\<lparr>SCreatedAt := current_timestamp now\<rparr>) else None)"
    by (simp add: d' find_snoc)
  show "users d' = users d" by (simp add: d')
qed

lemma login_route:
  assumes "URLPath r = ''/redfish/v1/SessionService/Sessions''" "Method r = ''POST''"
  shows "api_mux E r hdrs = handleLogin E r"
proof -
  have "cleanPath ''/redfish/v1/SessionService/Sessions'' = ''/redfish/v1/SessionService/Sessions''" by code_simp
  moreover have "mux_match api_routes ''/redfish/v1/SessionService/Sessions'' = Some ''/redfish/''" by code_simp
  moreover have "mux_match api_routes ''/redfish/v1/SessionService/Sessions/'' = Some ''/redfish/''" by code_simp
  ultimately have "mux_route api_routes r = Routed ''/redfish/''" using assms by (simp add: mux_route_def Let_def)
  moreover have "trim_prefix ''/redfish/v1/SessionService/Sessions'' ''/redfish'' = ''/v1/SessionService/Sessions''" by code_simp
  moreover have "trim_prefix ''/v1/SessionService/Sessions'' ''/v1/SessionService'' = ''/Sessions''" by code_simp
  ultimately show ?thesis
    using assms by (simp add: api_mux_def api_route_def handleRedfish_def handleSessionService_def Let_def has_prefix_iff)
qed

lemma answer [simp]:
  "RCode (json_response pre c v e) = c" "RHeaders (json_response (h # pre) c v e) = h # RHeaders (json_response pre c v e)"
  "RCode (rfWriteErrorResponse c k m) = c"
  by (simp_all add: json_response_def rfWriteErrorResponse_def Let_def)

definition login_answer :: "User \<Rightarrow> string + Session \<Rightarrow> response" where
  "login_answer user x =
     (case x of
        Inl e \<Rightarrow> internal_error ''Failed to create session''
      | Inr s \<Rightarrow> json_response [(''X-Auth-Token'', Token s), (''Location'', session_path (SID s))]
                  StatusCreated (session_json (SID s) (Username user)) '''')"

lemmas handleLogin_alt = handleLogin_def [folded login_answer_def]



section \<open>What roles do not guard\<close>

lemma same_handlers:
  assumes "\<not> has_prefix p ''/v1/AccountService/Accounts''"
  shows "authenticated E r hdrs p u = authenticated E r hdrs p v"
proof -
  have "handleAccountService E r p u = handleAccountService E r p v" if "has_prefix p ''/v1/AccountService''"
    using assms that by (auto simp: handleAccountService_def Let_def has_prefix_iff trim_prefix_def)
  then show ?thesis by (simp add: authenticated_def)
qed

text \<open>
  Roles guard nothing but the accounts. Whatever the role of an authenticated user, a DELETE on a
  connection method answers 204 and removes the row, although the role of a viewer is documented as
  read-only access.
\<close>

lemma any_user_deletes_method:
  assumes auth: "run_state (AuthenticateRequest E r) s = (Inr u, s1)"
    and r: "Method r = ''DELETE''" "URLPath r = ''/redfish/v1/AggregationService/ConnectionMethods/'' @ i"
    and i: "i \<noteq> ''''" "CHR ''/'' \<notin> set i"
    and db: "\<And>n. stmt_fault E n = None"
  shows "RCode (fst (run_state (handleRedfish E r hdrs) s)) = StatusNoContent \<and>
     connection_methods (adb (snd (run_state (handleRedfish E r hdrs) s))) = filter (\<lambda>m. MID m \<noteq> i) (connection_methods (adb s))"
proof -
  from i have "split_on CHR ''/'' i = [i]" by (simp add: split_on_no_sep)
  then have "authenticated E r hdrs (''/v1/AggregationService/ConnectionMethods/'' @ i) u = delete_method E i"
    using r i by (simp add: authenticated_def isBMCProxyRequest_def proxy_pattern_def handleAggregationService_def Let_def
        trim_prefix_def handleConnectionMethod_def)
  with auth r AuthenticateRequest_Inr(2) [OF auth] db show ?thesis
    by (simp add: handleRedfish_def Let_def trim_prefix_def delete_method_def RemoveConnectionMethod_def
        DeleteConnectionMethod_def run_exec no_content_def)
qed

section \<open>Losing the last administrator\<close>

definition locked_out :: "agg_db \<Rightarrow> bool" where
  "locked_out d \<longleftrightarrow> users d \<noteq> [] \<and> (\<forall>u \<in> set (users d). \<not> UEnabled u)"

text \<open>
  The account service refuses to disable the user named \<open>admin\<close>, but looks at the name after the
  patch: a PATCH that renames the only user and disables it is accepted.
\<close>

lemma patch_locks_out:
  assumes "users (adb s) = [u]" and "trim_space name \<noteq> ''''" and "name \<noteq> ''admin''"
    and "Body r = RawJson (JObj [(''UserName'', JStr name), (''Enabled'', JBool False)])"
    and "\<And>n. stmt_fault E n = None"
    and "run_state (handlePatchAccount E r (UID u)) s = (resp, s1)"
  shows "RCode resp = StatusOK" "locked_out (adb s1)"
proof -
  let ?patch = "[(''UserName'', JStr name), (''Enabled'', JBool False)]"
  let ?w = "u\<lparr>Username := name, UEnabled := False\<rparr>"
  have g: "obj_get ?patch ''UserName'' = Some (JStr name)" "obj_get ?patch ''Enabled'' = Some (JBool False)"
    "obj_get ?patch ''RoleId'' = None" "obj_get ?patch ''Password'' = None"
    by (simp_all add: obj_get_def)
  have free: "\<not> (case List.find (\<lambda>v. Username v = name) [u] of None \<Rightarrow> False | Some x \<Rightarrow> UID x \<noteq> UID u)" by simp
  from assms(1,2,4,5) free have "run_state (handlePatchAccount E r (UID u)) s =
      run_state (save_account E (UID u) ?w) (s\<lparr>ticks := Suc (Suc (ticks s))\<rparr>)"
    by (simp add: handlePatchAccount_def GetUser_def run_query decode_patch_def patch_account_def g GetUserByUsername_def
        patch_enabled_def patch_role_def patch_password_def)
  with assms(1,3,5,6) have "RCode resp = StatusOK \<and> (\<exists>t. users (adb s1) = [?w\<lparr>UUpdatedAt := t\<rparr>])"
    by (auto simp: save_account_def UpdateUser_def run_exec update_user_def has_row_def GetUser_def run_query)
  then show "RCode resp = StatusOK" "locked_out (adb s1)" by (auto simp: locked_out_def)
qed

section \<open>What the proxy sends\<close>

lemma map_of_header_add:
  "map_of (header_add k v h) k' = (if k' = k then Some (case map_of h k of None \<Rightarrow> [v] | Some vs \<Rightarrow> vs @ [v]) else map_of h k')"
  by (simp add: header_add_def update_conv)

lemma map_of_fold_add:
  "map_of (fold (header_add k) vs h) k' =
     (if k' = k \<and> vs \<noteq> [] then Some ((case map_of h k of None \<Rightarrow> [] | Some ws \<Rightarrow> ws) @ vs) else map_of h k')"
  by (induction vs arbitrary: h) (auto simp: map_of_header_add split: option.splits)

definition proper_header :: "http_header \<Rightarrow> bool" where
  "proper_header hdrs \<longleftrightarrow> distinct (map fst hdrs) \<and> (\<forall>vs \<in> snd ` set hdrs. vs \<noteq> [])"

lemma map_of_copy_headers:
  assumes "proper_header hdrs"
  shows "map_of (copy_headers hdrs) k = (if to_lower k = ''authorization'' then None else map_of hdrs k)"
proof -
  have "map_of (fold (\<lambda>(k, vs) h. if to_lower k = ''authorization'' then h else fold (header_add k) vs h) hdrs h) k =
      (if to_lower k = ''authorization'' then map_of h k else case map_of hdrs k of None \<Rightarrow> map_of h k | Some vs \<Rightarrow> Some vs)"
    if "proper_header hdrs" "\<forall>k' \<in> fst ` set hdrs. map_of h k' = None" for hdrs h
    using that
  proof (induction hdrs arbitrary: h)
    case (Cons kvs hdrs)
    obtain k0 vs where kvs: "kvs = (k0, vs)" by fastforce
    let ?h = "if to_lower k0 = ''authorization'' then h else fold (header_add k0) vs h"
    have "proper_header hdrs" "\<forall>k' \<in> fst ` set hdrs. map_of ?h k' = None"
      using Cons.prems by (auto simp: proper_header_def kvs map_of_fold_add)
    note IH = Cons.IH [OF this]
    have "vs \<noteq> []" "map_of hdrs k0 = None" "map_of h k0 = None"
      using Cons.prems by (auto simp: proper_header_def kvs map_of_eq_None_iff)
    with IH show ?case by (cases "k = k0") (simp_all add: kvs map_of_fold_add split: option.split)
  qed simp
  from this [OF assms, of "[]"] show ?thesis by (auto simp: copy_headers_def split: option.splits)
qed



section \<open>An aggregator for evaluation\<close>

definition shoal_env :: "unit api_env" where
  "shoal_env = \<lparr>crypt = demo_crypt, encryptor = None, stmt_fault = (\<lambda>_. None), now_at = int,
     rand_Read = (\<lambda>n k. Inr (replicate k (char_of (n + 65)))), sql_after = (\<lambda>a b. a > b),
     bcrypt_Compare = (\<lambda>h p. if h = ''h:'' @ p then Matches else Mismatched), bcrypt_Generate = (\<lambda>n p c. Inr (''h:'' @ p)),
     client_Do = (\<lambda>q w. (Inr \<lparr>p_status = 200, p_header = [], p_body = ''ok'', p_tree = RawEmpty\<rparr>, w)),
     request_error = (\<lambda>_ _. None), read_error = (\<lambda>_. None), json_Marshal = (\<lambda>_. ''''), json_Unmarshal = (\<lambda>_. RawEmpty),
     static_file = (\<lambda>_. None), static_files = []\<rparr>"

definition shoal_admin :: User where
  "shoal_admin = \<lparr>UID = ''a'', Username = ''admin'', PasswordHash = ''h:pw'', Role = RoleAdmin, UEnabled = True, UCreatedAt = 0, UUpdatedAt = 0\<rparr>"

definition shoal_viewer :: User where
  "shoal_viewer = \<lparr>UID = ''v'', Username = ''guest'', PasswordHash = ''h:pv'', Role = RoleViewer, UEnabled = True, UCreatedAt = 0, UUpdatedAt = 0\<rparr>"

definition shoal_session :: "string \<Rightarrow> string \<Rightarrow> Session" where
  "shoal_session i tok = \<lparr>SID = tok, SUserID = i, Token = tok, ExpiresAt = 1000, SCreatedAt = 0\<rparr>"

definition shoal_bmc :: BMC where
  "shoal_bmc = \<lparr>BID = 1, BName = ''rack1'', BAddress = ''10.0.0.7'', BUsername = ''root'', BPassword = ''calvin'', Description = '''',
     BEnabled = True, BCreatedAt = 0, BUpdatedAt = 0, BLastSeen = None\<rparr>"

definition shoal_method :: ConnectionMethod where
  "shoal_method = \<lparr>MID = ''cm-1'', MName = ''m'', ConnectionMethodType = ''Redfish'', MAddress = ''10.0.0.8'', MUsername = ''root'',
     MPassword = ''calvin'', MEnabled = True, MCreatedAt = 0, MUpdatedAt = 0, MLastSeen = None, AggregatedManagers = '''', AggregatedSystems = ''''\<rparr>"

definition shoal_state :: "User list \<Rightarrow> Session list \<Rightarrow> unit svc_state" where
  "shoal_state us ss = \<lparr>adb = \<lparr>settings = [], users = us, sessions = ss, bmcs = [shoal_bmc], last_bmc = 1, connection_methods = [shoal_method],
       settings_descriptors = [], settings_values = []\<rparr>,
     ticks = 0, idCache = Map.empty, net = (), outbound = []\<rparr>"

definition shoal_request :: "string \<Rightarrow> string \<Rightarrow> string \<Rightarrow> raw_message \<Rightarrow> request" where
  "shoal_request m p tok b = \<lparr>Method = m, URLPath = p, Header = (\<lambda>k. if k = ''X-Auth-Token'' then tok else ''''),
     Query = (\<lambda>_. ''''), Body = b, RemoteAddr = ''''\<rparr>"

lemmas shoal_defs = shoal_env_def shoal_admin_def shoal_viewer_def shoal_session_def shoal_bmc_def shoal_method_def shoal_state_def shoal_request_def

lemma shoal_rand: "\<forall>n k b. rand_Read shoal_env n k = Inr b \<longrightarrow> length b = k"
  by (auto simp: shoal_env_def)

lemma shoal_clock: "stmt_fault shoal_env n = None" "sql_after shoal_env a b \<longleftrightarrow> a > b"
  by (simp_all add: shoal_env_def)


lemma any_user_deletes_method_instance:
  "connection_methods (adb (snd (run_state (handleRedfish shoal_env
     (shoal_request ''DELETE'' ''/redfish/v1/AggregationService/ConnectionMethods/cm-1'' ''tok'' RawEmpty) [])
     (shoal_state [shoal_admin, shoal_viewer] [shoal_session ''v'' ''tok''])))) = []"
proof -
  let ?r = "shoal_request ''DELETE'' ''/redfish/v1/AggregationService/ConnectionMethods/cm-1'' ''tok'' RawEmpty"
  let ?s = "shoal_state [shoal_admin, shoal_viewer] [shoal_session ''v'' ''tok'']"
  have "run_state (AuthenticateRequest shoal_env ?r) ?s = (Inr shoal_viewer, ?s\<lparr>ticks := 2\<rparr>)"
    by (simp add: auth_defs run_query shoal_defs numeral_2_eq_2)
  from any_user_deletes_method [OF this, of "''cm-1''" "[]"] show ?thesis by (simp add: shoal_defs)
qed


end
