(* ===== verification/BmcOpsProps.thy ===== *)
theory BmcOpsProps
  imports BmcOps
begin

text \<open>
  What the operations on servers send. A program is described by \<open>sends\<close>: from a database with the
  same BMCs it keeps them, and every request it adds to the trace of sent requests satisfies a
  predicate. The properties are the number of resets a power action can cause, where requests and
  credentials of a BMC can go, and what a reported insertion means.
\<close>

section \<open>A calculus of sent requests\<close>

text \<open>The BMCs of a database up to the time they were last seen.\<close>

definition bmc_rows :: "agg_db \<Rightarrow> BMC list" where
  "bmc_rows d = map (\<lambda>b. b\<lparr>BLastSeen := None\<rparr>) (bmcs d)"

definition sends :: "agg_db \<Rightarrow> (bmc_req \<Rightarrow> bool) \<Rightarrow> (('w, 's) svc_state_scheme, 'a) state \<Rightarrow> bool" where
  "sends d T m \<longleftrightarrow>
     (\<forall>s x s'. run_state m s = (x, s') \<longrightarrow> bmc_rows (adb s) = bmc_rows d \<longrightarrow>
        bmc_rows (adb s') = bmc_rows d \<and> (\<exists>qs. outbound s' = outbound s @ qs \<and> list_all T qs))"

named_theorems sends

lemma sendsI:
  assumes "\<And>s x s'. run_state m s = (x, s') \<Longrightarrow> bmc_rows (adb s) = bmc_rows d \<Longrightarrow>
     bmc_rows (adb s') = bmc_rows d \<and> (\<exists>qs. outbound s' = outbound s @ qs \<and> list_all T qs)"
  shows "sends d T m"
  using assms by (auto simp: sends_def)

lemma sendsD:
  assumes "sends d T m" "run_state m s = (x, s')" "bmc_rows (adb s) = bmc_rows d"
  shows "bmc_rows (adb s') = bmc_rows d" "\<exists>qs. outbound s' = outbound s @ qs \<and> list_all T qs"
  using assms unfolding sends_def by blast+

lemma sends_silent:
  assumes "\<And>s x s'. run_state m s = (x, s') \<Longrightarrow> bmc_rows (adb s') = bmc_rows (adb s) \<and> outbound s' = outbound s"
  shows "sends d T m"
  by (rule sendsI) (use assms in fastforce)

lemma sends_return [sends]: "sends d T (State_Monad.return x)"
  by (rule sends_silent) auto

lemma sends_then:
  assumes "run_state m s = (y, s1)" "bmc_rows (adb s1) = bmc_rows d" "\<exists>qs. outbound s1 = outbound s @ qs \<and> list_all T qs"
    and "sends d T (k y)" "run_state (m \<bind> k) s = (x, s')"
  shows "bmc_rows (adb s') = bmc_rows d \<and> (\<exists>qs. outbound s' = outbound s @ qs \<and> list_all T qs)"
proof -
  from assms(1,5) have "run_state (k y) s1 = (x, s')" by simp
  from sendsD [OF assms(4) this assms(2)] assms(3) show ?thesis by auto
qed

lemma sends_bind [sends]:
  assumes "sends d T m" "\<And>x. sends d T (k x)"
  shows "sends d T (m \<bind> k)"
proof (rule sendsI)
  fix s x s'
  assume run: "run_state (m \<bind> k) s = (x, s')" and rows: "bmc_rows (adb s) = bmc_rows d"
  obtain y s1 where y: "run_state m s = (y, s1)" by fastforce
  from sends_then [OF y sendsD [OF assms(1) y rows] assms(2) run]
  show "bmc_rows (adb s') = bmc_rows d \<and> (\<exists>qs. outbound s' = outbound s @ qs \<and> list_all T qs)" .
qed

lemma sends_cases [sends]:
  "(b \<Longrightarrow> sends d T m) \<Longrightarrow> (\<not> b \<Longrightarrow> sends d T m') \<Longrightarrow> sends d T (if b then m else m')"
  "(\<And>a. x = Inl a \<Longrightarrow> sends d T (f1 a)) \<Longrightarrow> (\<And>c. x = Inr c \<Longrightarrow> sends d T (f2 c)) \<Longrightarrow>
     sends d T (case x of Inl a \<Rightarrow> f1 a | Inr c \<Rightarrow> f2 c)"
  "(y = None \<Longrightarrow> sends d T m) \<Longrightarrow> (\<And>a. y = Some a \<Longrightarrow> sends d T (g a)) \<Longrightarrow> sends d T (case y of None \<Rightarrow> m | Some a \<Rightarrow> g a)"
  "(w = [] \<Longrightarrow> sends d T m) \<Longrightarrow> (\<And>a as. w = a # as \<Longrightarrow> sends d T (l a as)) \<Longrightarrow> sends d T (case w of [] \<Rightarrow> m | a # as \<Rightarrow> l a as)"
  "sends d T (k e) \<Longrightarrow> sends d T (let a = e in k a)"
  by (simp_all split: sum.split option.split list.split)

lemma sends_basic [sends]:
  "sends d T tick" "sends d T State_Monad.get" "sends d T (time_Now E)" "sends d T (put_cache n f)"
  by (auto intro!: sends_silent simp: tick_def State_Monad.get_def time_Now_def put_cache_def)

lemma sends_wait [sends]: "sends d T (wait_or_done E t)"
  by (rule sends_silent) (auto simp: wait_or_done_def)

lemma sends_seen [sends]: "sends d T (UpdateBMCLastSeen E i)"
proof (rule sends_silent)
  have "bmc_rows (c\<lparr>bmcs := upd_where P (\<lambda>b. b\<lparr>BLastSeen := t\<rparr>) (bmcs c)\<rparr>) = bmc_rows c" for c :: agg_db and P t
    by (simp add: bmc_rows_def map_upd_where)
  then show "run_state (UpdateBMCLastSeen E i) s = (x, s') \<Longrightarrow>
      bmc_rows (adb s') = bmc_rows (adb s) \<and> outbound s' = outbound s" for s x and s' :: "('a, 'b) svc_state_scheme"
    by (auto simp: UpdateBMCLastSeen_def run_exec split: option.splits)
qed

lemma sends_do: "T q \<Longrightarrow> sends d T (http_Do E q)"
  by (rule sendsI) (auto simp: http_Do_def split: prod.splits intro!: exI [of _ "[q]"])

text \<open>A row of the database as the service gets it, and the requests to it.\<close>

definition bmc_row :: "'e db_env_scheme \<Rightarrow> agg_db \<Rightarrow> string \<Rightarrow> BMC \<Rightarrow> bool" where
  "bmc_row E d name b \<longleftrightarrow>
     (\<exists>c \<in> set (bmcs d). BName c = name \<and> BName b = name \<and> BAddress b = BAddress c \<and> BUsername b = BUsername c \<and>
        BPassword b = decryptIfNeeded (crypt E) (encryptor E) (BPassword c))"

lemma read_row:
  assumes "List.find (\<lambda>b. BName b = name) (bmcs c) = Some b" "bmc_rows c = bmc_rows d"
  shows "bmc_row E d name (read_bmc E b)"
proof -
  from find_SomeD [OF assms(1)] have "b\<lparr>BLastSeen := None\<rparr> \<in> set (bmc_rows c)" "BName b = name"
    by (auto simp: bmc_rows_def)
  note this [unfolded assms(2)]
  then obtain a where "a \<in> set (bmcs d)" "b\<lparr>BLastSeen := None\<rparr> = a\<lparr>BLastSeen := None\<rparr>" "BName b = name"
    by (auto simp: bmc_rows_def)
  then show ?thesis
    unfolding bmc_row_def
    by (intro bexI [of _ a]) (auto simp: read_bmc_def dest: arg_cong [of _ _ BName] arg_cong [of _ _ BAddress]
        arg_cong [of _ _ BUsername] arg_cong [of _ _ BPassword])
qed

lemma sends_lookup:
  assumes "\<And>b. bmc_row E d name b \<Longrightarrow> sends d T (k (Inr (Some b)))" "\<And>e. sends d T (k (Inl e))" "sends d T (k (Inr None))"
  shows "sends d T (GetBMCByName E name \<bind> k)"
proof (rule sendsI)
  fix s x s'
  assume run: "run_state (GetBMCByName E name \<bind> k) s = (x, s')" and rows: "bmc_rows (adb s) = bmc_rows d"
  obtain y s1 where y: "run_state (GetBMCByName E name) s = (y, s1)" by fastforce
  then have s1: "bmc_rows (adb s1) = bmc_rows d" "\<exists>qs. outbound s1 = outbound s @ qs \<and> list_all T qs"
    using rows by (auto simp: GetBMCByName_def run_query split: option.splits)
  from y have "sends d T (k y)"
    using read_row [OF _ rows, of name _ E] assms
    by (cases "List.find (\<lambda>b. BName b = name) (bmcs (adb s))") (auto simp: GetBMCByName_def run_query split: option.splits)
  from sends_then [OF y s1 this run]
  show "bmc_rows (adb s') = bmc_rows d \<and> (\<exists>qs. outbound s' = outbound s @ qs \<and> list_all T qs)" .
qed

definition basic_credential :: "BMC \<Rightarrow> string" where
  "basic_credential b = ''Basic '' @ EncodeToString StdEncoding (BUsername b @ '':'' @ BPassword b)"

definition to_bmc :: "'e db_env_scheme \<Rightarrow> agg_db \<Rightarrow> string \<Rightarrow> bmc_req \<Rightarrow> bool" where
  "to_bmc E d name q \<longleftrightarrow>
     (\<exists>b path. bmc_row E d name b \<and> q_url q = buildBMCURL b path \<and>
        map_of (q_header q) ''Authorization'' = Some [basic_credential b])"

definition get_bmc :: "'e db_env_scheme \<Rightarrow> agg_db \<Rightarrow> string \<Rightarrow> bmc_req \<Rightarrow> bool" where
  "get_bmc E d name q \<longleftrightarrow> to_bmc E d name q \<and> q_method q = ''GET''"

lemma sends_imp: "sends d T m \<Longrightarrow> (\<And>q. T q \<Longrightarrow> T' q) \<Longrightarrow> sends d T' m"
  unfolding sends_def by (metis (mono_tags, lifting) list.pred_mono_strong)

lemma sends_get: "sends d (get_bmc E d name) m \<Longrightarrow> sends d (to_bmc E d name) m"
  by (erule sends_imp) (simp add: get_bmc_def)

lemma credential_header:
  "map_of (SetBasicAuth (BUsername b) (BPassword b) h) ''Authorization'' = Some [basic_credential b]"
  "map_of (header_set ''Accept'' v h) ''Authorization'' = map_of h ''Authorization''"
  by (simp_all add: SetBasicAuth_def header_set_def update_conv basic_credential_def)

lemma to_bmcI:
  "bmc_row E d name b \<Longrightarrow> q_url q = buildBMCURL b p \<Longrightarrow> map_of (q_header q) ''Authorization'' = Some [basic_credential b] \<Longrightarrow>
     to_bmc E d name q"
  unfolding to_bmc_def by blast

lemma newAuthedGET_target: "newAuthedGET E b p = Inr q \<Longrightarrow> bmc_row E d name b \<Longrightarrow> get_bmc E d name q"
  by (auto simp: newAuthedGET_def Let_def get_bmc_def credential_header split: option.splits intro!: to_bmcI)

lemma request_target: "bmc_row E d name b \<Longrightarrow> to_bmc E d name (bmc_request b m (buildBMCURL b p) body)"
  by (rule to_bmcI) (simp_all add: bmc_request_def credential_header)

lemma sends_fetch [sends]:
  "bmc_row E d name b \<Longrightarrow> sends d (get_bmc E d name) (fetchRedfishResource E b p)"
  unfolding fetchRedfishResource_def by (intro sends sends_do) (auto intro: newAuthedGET_target)

lemma sends_vendor [sends]: "bmc_row E d name b \<Longrightarrow> sends d (get_bmc E d name) (getVendor E b)"
  unfolding getVendor_def by (intro sends)

lemma sends_first_id: "sends d (get_bmc E d name) (get_first_id E sel upd w c name)"
  unfolding get_first_id_def by (rule sends_lookup sends | assumption | simp)+

lemma sends_ids [sends]:
  "sends d (get_bmc E d name) (GetFirstManagerID E name)"
  "sends d (get_bmc E d name) (GetFirstSystemID E name)"
  unfolding GetFirstManagerID_def GetFirstSystemID_def by (rule sends_first_id)+

lemma sends_scan: "bmc_row E d name b \<Longrightarrow> sends d (get_bmc E d name) (scan_slots E b prefs ms)"
proof (induction ms)
  case (Cons m ms)
  then show ?case by (auto intro!: sends split: sum.split option.split)
qed (simp add: sends)

lemma sends_slot [sends]: "bmc_row E d name b \<Longrightarrow> sends d (get_bmc E d name) (findVirtualMediaSlot E b i q)"
  unfolding findVirtualMediaSlot_def by (intro sends sends_scan)

lemma sends_first_system [sends]: "bmc_row E d name b \<Longrightarrow> sends d (get_bmc E d name) (first_system_path E b)"
  unfolding first_system_path_def
  by (intro sends sends_do) (auto simp: get_bmc_def credential_header intro!: to_bmcI)

section \<open>Retries\<close>

text \<open>A request that is tried again is sent a number of times, at most once per attempt.\<close>

lemma run_attempt:
  assumes "run_state (attempt_request E pre q) s = (x, s')"
  shows "adb s' = adb s \<and> (\<exists>k \<le> 1. outbound s' = outbound s @ replicate k q \<and>
     (\<forall>p. x = Inr p \<longrightarrow> k = 1 \<and> (\<exists>w. fst (client_Do E q w) = Inr p)))"
proof (cases "request_error E (q_method q) (q_url q)")
  case None
  obtain y w where y: "client_Do E q (net s) = (y, w)" by fastforce
  with None assms have "x = y" "s' = s\<lparr>net := w, outbound := outbound s @ [q]\<rparr>" by (auto simp: attempt_request_def http_Do_def)
  with y show ?thesis by (intro conjI exI [of _ 1]) (auto intro: exI [of _ "net s"])
next
  case (Some e)
  with assms show ?thesis by (intro conjI exI [of _ 0]) (auto simp: attempt_request_def)
qed

lemma run_retry_loop:
  assumes "run_state (retry_loop E c (attempt_request E pre q) n a err) s = (x, s')"
  shows "adb s' = adb s \<and> (\<exists>k \<le> n. outbound s' = outbound s @ replicate k q \<and>
     (\<forall>p. x = Inr p \<longrightarrow> 1 \<le> k \<and> \<not> isRetryable x \<and> (\<exists>w. fst (client_Do E q w) = Inr p)))"
  using assms
proof (induction n arbitrary: a err s)
  case (Suc n)
  obtain y s1 where y: "run_state (attempt_request E pre q) s = (y, s1)" by fastforce
  from run_attempt [OF y] obtain k where k: "adb s1 = adb s" "k \<le> 1" "outbound s1 = outbound s @ replicate k q"
      "\<forall>p. y = Inr p \<longrightarrow> k = 1 \<and> (\<exists>w. fst (client_Do E q w) = Inr p)" by blast
  show ?case
  proof (cases "isRetryable y")
    case False
    with Suc.prems y have "x = y" "s' = s1" by auto
    with k False show ?thesis by (intro conjI exI [of _ k]) auto
  next
    case True
    let ?err = "case y of Inl e \<Rightarrow> Some e | Inr p \<Rightarrow> None"
    define s2 where "s2 = (if n = 0 then s1 else s1\<lparr>ticks := Suc (Suc (ticks s1)),
      sleeps := sleeps s1 @ [jittered (float_ovf E) c (retry_backoff c a) (rand_Float64 E (ticks s1))]\<rparr>)"
    have "adb s2 = adb s1 \<and> outbound s2 = outbound s1 \<and>
        (run_state (retry_loop E c (attempt_request E pre q) n (Suc a) ?err) s2 = (x, s') \<or> (\<exists>e. x = Inl e) \<and> s' = s2)"
      using Suc.prems y True
      by (cases "n = 0") (auto simp: s2_def tick_def wait_or_done_def Let_def split: option.splits)
    then have s2: "adb s2 = adb s1" "outbound s2 = outbound s1"
      and step: "run_state (retry_loop E c (attempt_request E pre q) n (Suc a) ?err) s2 = (x, s') \<or> (\<exists>e. x = Inl e) \<and> s' = s2" by blast+
    from step show ?thesis
    proof
      assume "run_state (retry_loop E c (attempt_request E pre q) n (Suc a) ?err) s2 = (x, s')"
      from Suc.IH [OF this] obtain l where "adb s' = adb s2" "l \<le> n" "outbound s' = outbound s2 @ replicate l q"
        "\<forall>p. x = Inr p \<longrightarrow> 1 \<le> l \<and> \<not> isRetryable x \<and> (\<exists>w. fst (client_Do E q w) = Inr p)" by blast
      with k s2 show ?thesis by (intro conjI exI [of _ "k + l"]) (auto simp: replicate_add)
    next
      assume "(\<exists>e. x = Inl e) \<and> s' = s2"
      with k s2 show ?thesis by (intro conjI exI [of _ k]) auto
    qed
  qed
qed auto

lemma run_doWithRetry:
  assumes "run_state (doWithRetry E newDefaultRetryConfig (attempt_request E pre q)) s = (x, s')"
  shows "adb s' = adb s" "\<exists>k \<le> 4. outbound s' = outbound s @ replicate k q \<and>
     (\<forall>p. x = Inr p \<longrightarrow> 1 \<le> k \<and> \<not> isRetryable x \<and> (\<exists>w. fst (client_Do E q w) = Inr p))"
proof -
  have "nat (maxAttempts (retry_defaults newDefaultRetryConfig)) = 4"
    by (simp add: newDefaultRetryConfig_def retry_defaults_def)
  with run_retry_loop [OF assms [unfolded doWithRetry_def]]
  show "adb s' = adb s" "\<exists>k \<le> 4. outbound s' = outbound s @ replicate k q \<and>
     (\<forall>p. x = Inr p \<longrightarrow> 1 \<le> k \<and> \<not> isRetryable x \<and> (\<exists>w. fst (client_Do E q w) = Inr p))" by simp_all
qed

lemma sends_retry:
  assumes "T q"
  shows "sends d T (doWithRetry E newDefaultRetryConfig (attempt_request E pre q))"
proof (rule sendsI)
  fix s x s'
  assume run: "run_state (doWithRetry E newDefaultRetryConfig (attempt_request E pre q)) s = (x, s')"
    and rows: "bmc_rows (adb s) = bmc_rows d"
  from run_doWithRetry [OF run] rows assms
  show "bmc_rows (adb s') = bmc_rows d \<and> (\<exists>qs. outbound s' = outbound s @ qs \<and> list_all T qs)"
    by (auto simp: list_all_iff)
qed


section \<open>Power\<close>

lemma power_run:
  assumes "run_state (PowerControl E name action) s = (r, s')"
  shows "(\<exists>qs. outbound s' = outbound s @ qs \<and> list_all (get_bmc E (adb s) name) qs) \<and> r \<noteq> None \<or>
     (\<exists>b path qs k. bmc_row E (adb s) name b \<and> k \<le> 4 \<and> list_all (get_bmc E (adb s) name) qs \<and>
        outbound s' = outbound s @ qs @ replicate k (reset_request b path action) \<and>
        (r = None \<longrightarrow> 1 \<le> k \<and> (\<exists>w p. fst (client_Do E (reset_request b path action) w) = Inr p \<and> is_2xx p)))"
proof -
  let ?d = "adb s"
  obtain y s1 where y: "run_state (GetBMCByName E name) s = (y, s1)" by fastforce
  then have s1: "outbound s1 = outbound s" "adb s1 = ?d" by (auto simp: GetBMCByName_def run_query split: option.splits)
  show ?thesis
  proof (cases "\<exists>b. y = Inr (Some b) \<and> BEnabled b")
    case False
    with assms y s1 show ?thesis by (auto simp: PowerControl_def split: sum.splits option.splits)
  next
    case True
    then obtain b where b: "y = Inr (Some b)" "BEnabled b" by blast
    with y have row: "bmc_row E ?d name b"
      using read_row [OF _ refl, of name ?d _ E] by (auto simp: GetBMCByName_def run_query split: option.splits)
    obtain rp s2 where rp: "run_state (first_system_path E b) s1 = (rp, s2)" by fastforce
    from sendsD [OF sends_first_system [OF row] rp] s1
    obtain q1 where q1: "bmc_rows (adb s2) = bmc_rows ?d" "outbound s2 = outbound s @ q1" "list_all (get_bmc E ?d name) q1" by auto
    show ?thesis
    proof (cases rp)
      case (Inl e)
      with assms y b rp q1 show ?thesis by (auto simp: PowerControl_def)
    next
      case (Inr path)
      obtain v s3 where v: "run_state (getVendor E b) s2 = (v, s3)" by fastforce
      from sendsD [OF sends_vendor [OF row] v q1(1)]
      obtain q2 where q2: "outbound s3 = outbound s2 @ q2" "list_all (get_bmc E ?d name) q2" by blast
      let ?q = "reset_request b path action"
      obtain x s4 where x: "run_state (doWithRetry E newDefaultRetryConfig
          (attempt_request E ''failed to create power control request: '' ?q)) s3 = (x, s4)" by fastforce
      from run_doWithRetry(2) [OF x] obtain k where k: "k \<le> 4" "outbound s4 = outbound s3 @ replicate k ?q"
        "\<forall>p. x = Inr p \<longrightarrow> 1 \<le> k \<and> (\<exists>w. fst (client_Do E ?q w) = Inr p)" by blast
      from assms y b rp Inr v x
      have "outbound s' = outbound s4 \<and> (r = None \<longrightarrow> (\<exists>p. x = Inr p \<and> is_2xx p))"
        by (auto simp: PowerControl_def UpdateBMCLastSeen_def run_exec split: sum.splits if_splits option.splits)
      moreover from this q1 q2 k have "outbound s' = outbound s @ (q1 @ q2) @ replicate k ?q" "list_all (get_bmc E ?d name) (q1 @ q2)"
        by auto
      ultimately show ?thesis using row k by blast
    qed
  qed
qed

text \<open>
  C35. A power action sends only GET requests to the BMC of the given name, and then the same reset
  request to it at most four times. When it reports success, the reset was sent and answered 2xx.
  The reset is not idempotent: answers 5xx or 429 and lost answers lead to further resets.
\<close>

theorem power_control_resets:
  assumes "run_state (PowerControl E name action) s = (r, s')"
  shows "\<exists>gets k q. outbound s' = outbound s @ gets @ replicate k q \<and> list_all (get_bmc E (adb s) name) gets \<and> k \<le> 4 \<and>
     (k > 0 \<longrightarrow> to_bmc E (adb s) name q \<and> q_method q = ''POST'' \<and> q_body q = RawJson (JObj [(''ResetType'', JStr action)])) \<and>
     (r = None \<longrightarrow> k > 0 \<and> (\<exists>w p. fst (client_Do E q w) = Inr p \<and> is_2xx p))"
  using power_run [OF assms]
proof (elim disjE exE conjE)
  fix qs assume "outbound s' = outbound s @ qs" "list_all (get_bmc E (adb s) name) qs" "r \<noteq> None"
  then show ?thesis by (intro exI [of _ qs] exI [of _ 0]) auto
next
  fix b path qs k
  let ?q = "reset_request b path action"
  assume "bmc_row E (adb s) name b" and *: "k \<le> 4" "list_all (get_bmc E (adb s) name) qs" "outbound s' = outbound s @ qs @ replicate k ?q"
    "r = None \<longrightarrow> 1 \<le> k \<and> (\<exists>w p. fst (client_Do E ?q w) = Inr p \<and> is_2xx p)"
  then have "to_bmc E (adb s) name ?q" unfolding reset_request_def by (intro request_target)
  with * show ?thesis by (intro exI [of _ qs] exI [of _ k] exI [of _ ?q]) (auto simp: reset_request_def bmc_request_def)
qed

section \<open>Virtual media and boot\<close>

lemma sends_enabled:
  assumes "\<And>b. bmc_row E d name b \<Longrightarrow> sends d T (k (Inr b))" "\<And>e. sends d T (k (Inl e))"
  shows "sends d T (enabled_bmc E name \<bind> k)"
proof -
  have "sends d T (GetBMCByName E name \<bind> (\<lambda>rb. k (case rb of
         Inl e \<Rightarrow> Inl (''failed to get BMC: '' @ e)
       | Inr None \<Rightarrow> Inl (''BMC not found or disabled: '' @ name)
       | Inr (Some b) \<Rightarrow> if BEnabled b then Inr b else Inl (''BMC not found or disabled: '' @ name))))"
    by (rule sends_lookup) (use assms in auto)
  then show ?thesis by (simp add: enabled_bmc_def)
qed

lemmas sends_to = sends_fetch [THEN sends_get] sends_vendor [THEN sends_get] sends_ids [THEN sends_get] sends_slot [THEN sends_get]
  sends_first_system [THEN sends_get]

lemma sends_boot [sends]: "sends d (to_bmc E d name) (SetOneTimeBoot E name target)"
  unfolding SetOneTimeBoot_def
  by (rule sends_enabled) (auto intro!: sends sends_to sends_retry request_target split: sum.split)

lemma sends_insert [sends]: "bmc_row E d name b \<Longrightarrow> sends d (to_bmc E d name) (insert_slot E b q slot url wp)"
  unfolding insert_slot_def by (intro sends sends_retry request_target)

lemma sends_eject [sends]: "bmc_row E d name b \<Longrightarrow> sends d (to_bmc E d name) (eject_slot E b q slot)"
  unfolding eject_slot_def by (intro sends sends_retry request_target)

lemma sends_boot_once [sends]: "sends d (to_bmc E d name) (boot_once E name bo)"
  unfolding boot_once_def by (intro sends)

lemma sends_insert_media [sends]: "sends d (to_bmc E d name) (InsertVirtualMedia E name url wp bo)"
  unfolding InsertVirtualMedia_def
  by (rule sends_enabled) (auto intro!: sends sends_to split: sum.split option.split)

lemma sends_eject_media [sends]: "sends d (to_bmc E d name) (EjectVirtualMedia E name)"
  unfolding EjectVirtualMedia_def by (rule sends_enabled) (auto intro!: sends sends_to split: sum.split)

lemma sends_reconcile [sends]: "sends d (to_bmc E d name) (ReconcileState E name img bo)"
proof -
  have "sends d (to_bmc E d name) (reconcile_media E b name img)" "sends d (to_bmc E d name) (reconcile_boot E b name)"
    if "bmc_row E d name b" for b
    using that unfolding reconcile_media_def reconcile_boot_def by (auto intro!: sends sends_to split: sum.split)
  then show ?thesis unfolding ReconcileState_def by (intro sends_lookup) (auto intro!: sends)
qed

lemma sends_power [sends]: "sends d (to_bmc E d name) (PowerControl E name action)"
  unfolding PowerControl_def reset_request_def
  by (rule sends_lookup) (auto intro!: sends sends_to sends_retry request_target split: sum.split)


text \<open>What a reported insertion rests on.\<close>

definition insert_accepted :: "('w, 'e) svc_env_scheme \<Rightarrow> string \<Rightarrow> bmc_req \<Rightarrow> bool" where
  "insert_accepted E url q \<longleftrightarrow>
     ((\<exists>wp. q_body q = RawJson (insert_body url wp)) \<or> q_body q = RawJson (patch_body url)) \<and>
     (\<exists>w p. fst (client_Do E q w) = Inr p \<and> is_2xx p)"

lemma insert_slot_reported:
  assumes "run_state (insert_slot E b quirks slot url wp) s = (None, s')"
  shows "\<exists>q \<in> set (outbound s'). insert_accepted E url q"
proof -
  let ?q = "bmc_request b ''POST'' (buildBMCURL b (action_path slot (InsertAction quirks) ''VirtualMedia.InsertMedia''))
        (RawJson (insert_body url (wp \<or> RequiresWriteProtected quirks)))"
  let ?q' = "bmc_request b ''PATCH'' (buildBMCURL b slot) (RawJson (patch_body url))"
  obtain x s1 where x: "run_state (doWithRetry E newDefaultRetryConfig (attempt_request E '''' ?q)) s = (x, s1)" by fastforce
  obtain y s2 where y: "run_state (doWithRetry E newDefaultRetryConfig (attempt_request E '''' ?q')) s1 = (y, s2)" by fastforce
  from assms x y consider p where "x = Inr p" "is_2xx p" "s' = s1" | p where "y = Inr p" "is_2xx p" "s' = s2"
    by (auto simp: insert_slot_def reply_error_def split: sum.splits if_splits)
  then show ?thesis
  proof cases
    case 1
    with run_doWithRetry(2) [OF x] have "?q \<in> set (outbound s')" "\<exists>w p. fst (client_Do E ?q w) = Inr p \<and> is_2xx p" by auto
    then show ?thesis by (intro bexI [of _ ?q]) (auto simp: insert_accepted_def bmc_request_def)
  next
    case 2
    with run_doWithRetry(2) [OF y] have "?q' \<in> set (outbound s')" "\<exists>w p. fst (client_Do E ?q' w) = Inr p \<and> is_2xx p" by auto
    then show ?thesis by (intro bexI [of _ ?q']) (auto simp: insert_accepted_def bmc_request_def)
  qed
qed


definition image_reported :: "('w, 'e) svc_env_scheme \<Rightarrow> string \<Rightarrow> bmc_req \<Rightarrow> bool" where
  "image_reported E url q \<longleftrightarrow>
     q_method q = ''GET'' \<and>
     (\<exists>w p m. fst (client_Do E q w) = Inr p \<and> p_status p = StatusOK \<and> decode_resource (p_tree p) = Some m \<and> holds_image m url)"

lemma fetch_reported:
  assumes "run_state (fetchRedfishResource E b p) s = (Inr m, s')" "holds_image m url"
  shows "\<exists>q \<in> set (outbound s'). image_reported E url q"
proof -
  from assms(1) obtain q where q: "newAuthedGET E b p = Inr q"
    by (auto simp: fetchRedfishResource_def split: sum.splits)
  obtain x w where x: "client_Do E q (net s) = (x, w)" by fastforce
  with assms(1) q obtain r where r: "x = Inr r" "p_status r = StatusOK" "decode_resource (p_tree r) = Some m"
      "s' = s\<lparr>net := w, outbound := outbound s @ [q]\<rparr>"
    by (auto simp: fetchRedfishResource_def http_Do_def split: sum.splits option.splits if_splits)
  with q x assms(2) have "image_reported E url q"
    unfolding image_reported_def
    by (intro conjI exI [of _ "net s"] exI [of _ r] exI [of _ m]) (auto simp: newAuthedGET_def Let_def split: option.splits)
  with r(4) show ?thesis by auto
qed

lemma boot_once_keeps: "run_state (boot_once E name bo) s = (x, s') \<Longrightarrow> set (outbound s) \<subseteq> set (outbound s')"
  using sendsD(2) [OF sends_boot_once _ refl, of E name bo s x s'] by auto

text \<open>
  An insertion is not reported on hope: when \<open>InsertVirtualMedia\<close> returns without an error, then among
  the requests since the log was empty a GET was answered with the slot holding this very image, or an
  insert request with this image was answered 2xx, whatever else the BMC and the network did.
\<close>

lemma insert_reported:
  assumes run: "run_state (InsertVirtualMedia E name url wp bo) s = (None, s')" and "outbound s = []"
  shows "\<exists>q \<in> set (outbound s'). image_reported E url q \<or> insert_accepted E url q"
proof -
  obtain rb s1 where rb: "run_state (enabled_bmc E name) s = (rb, s1)" by fastforce
  with run obtain b where b: "rb = Inr b" by (cases rb) (auto simp: InsertVirtualMedia_def)
  obtain v s2 where v: "run_state (getVendor E b) s1 = (v, s2)" by fastforce
  obtain ri s3 where ri: "run_state (GetFirstManagerID E name) s2 = (ri, s3)" by fastforce
  with run rb b v obtain i where i: "ri = Inr i" by (cases ri) (auto simp: InsertVirtualMedia_def)
  obtain rs s4 where rs: "run_state (findVirtualMediaSlot E b i (getQuirks v)) s3 = (rs, s4)" by fastforce
  with run rb b v ri i obtain slot where slot: "rs = Inr slot" by (cases rs) (auto simp: InsertVirtualMedia_def)
  obtain vm s5 where vm: "run_state (fetchRedfishResource E b slot) s4 = (vm, s5)" by fastforce
  note steps = rb b v ri i rs slot vm
  show ?thesis
  proof (cases "case vm of Inl e \<Rightarrow> False | Inr m \<Rightarrow> holds_image m url")
    case True
    then obtain m where m: "vm = Inr m" "holds_image m url" by (auto split: sum.splits)
    from run steps True have "run_state (boot_once E name bo) s5 = (None, s')" by (simp add: InsertVirtualMedia_def)
    with fetch_reported [OF vm [unfolded m(1)] m(2)] boot_once_keeps show ?thesis by blast
  next
    case False
    obtain err s6 where err: "run_state (insert_slot E b (getQuirks v) slot url wp) s5 = (err, s6)" by fastforce
    with run steps False have "err = None" by (cases err) (simp_all add: InsertVirtualMedia_def)
    with err have acc: "\<exists>q \<in> set (outbound s6). insert_accepted E url q" by (simp add: insert_slot_reported)
    define s7 where "s7 = (if DelayAfterInsert (getQuirks v) > 0 then s6\<lparr>ticks := Suc (ticks s6),
      sleeps := sleeps s6 @ [DelayAfterInsert (getQuirks v)]\<rparr> else s6)"
    have "run_state (boot_once E name bo) s7 = (None, s')"
      using run steps False err \<open>err = None\<close>
      by (auto simp: s7_def InsertVirtualMedia_def wait_or_done_def split: if_splits option.splits)
    moreover have "outbound s7 = outbound s6" by (simp add: s7_def)
    ultimately show ?thesis using acc boot_once_keeps by (metis subsetD)
  qed
qed


section \<open>A laboratory\<close>

text \<open>A BMC that answers every GET with one resource, every POST with 204, and everything else with 400.\<close>

definition lab_resource :: json where
  "lab_resource = JObj [(''Members'', JArr [JObj [(''@odata.id'', JStr ''/redfish/v1/Systems/1'')]]), (''Manufacturer'', JStr ''Lab''),
     (''Id'', JStr ''CD1''), (''Inserted'', JBool False), (''Image'', JStr '''')]"

definition lab_env :: "unit ops_env" where
  "lab_env = \<lparr>crypt = demo_crypt, encryptor = None, stmt_fault = (\<lambda>_. None), now_at = int, rand_Read = (\<lambda>n k. Inl ''''),
     sql_after = (\<lambda>a b. a > b), bcrypt_Compare = (\<lambda>h p. Mismatched), bcrypt_Generate = (\<lambda>n p c. Inl ''''),
     client_Do = (\<lambda>q w. (Inr (if q_method q = ''GET'' then \<lparr>p_status = 200, p_header = [], p_body = '''', p_tree = RawJson lab_resource\<rparr>
       else if q_method q = ''POST'' then \<lparr>p_status = 204, p_header = [], p_body = '''', p_tree = RawEmpty\<rparr>
       else \<lparr>p_status = 400, p_header = [], p_body = '''', p_tree = RawEmpty\<rparr>), w)),
     request_error = (\<lambda>_ _. None), read_error = (\<lambda>_. None), json_Marshal = (\<lambda>_. ''''), json_Unmarshal = (\<lambda>_. RawEmpty),
     ctx_err = (\<lambda>_. None), rand_Float64 = (\<lambda>_. 0), float_ovf = (\<lambda>_. 0), resolve_root = (\<lambda>a. Inl '''')\<rparr>"

definition lab_state :: "unit ops_state" where
  "lab_state = \<lparr>adb = \<lparr>settings = [], users = [], sessions = [], bmcs = [\<lparr>BID = 1, BName = ''rack1'', BAddress = ''10.0.0.7'',
       BUsername = '''', BPassword = '''', Description = '''', BEnabled = True, BCreatedAt = 0, BUpdatedAt = 0, BLastSeen = None\<rparr>],
       last_bmc = 1, connection_methods = [],
       settings_descriptors = [], settings_values = []\<rparr>,
     ticks = 0, idCache = Map.empty, net = (), outbound = [], sleeps = []\<rparr>"

theorem power_control_resets_witness:
  "\<exists>gets k q. outbound (snd (run_state (PowerControl lab_env ''rack1'' ''ForceOff'') lab_state)) = gets @ replicate k q \<and> 0 < k \<and>
     q_body q = RawJson (JObj [(''ResetType'', JStr ''ForceOff'')])"
proof -
  let ?m = "run_state (PowerControl lab_env ''rack1'' ''ForceOff'') lab_state"
  have none: "fst ?m = None" "outbound lab_state = []" by code_simp+
  from power_control_resets [of lab_env "''rack1''" "''ForceOff''" lab_state "fst ?m" "snd ?m", OF prod.collapse [symmetric]]
  obtain gets k q where "outbound (snd ?m) = gets @ replicate k q" "0 < k" "q_body q = RawJson (JObj [(''ResetType'', JStr ''ForceOff'')])"
    unfolding none by auto
  then show ?thesis by blast
qed

lemma lab_empty: "outbound lab_state = []"
  by (simp add: lab_state_def)

lemma insert_reported_instance:
  "\<exists>q \<in> set (outbound (snd (run_state (InsertVirtualMedia lab_env ''rack1'' ''http://a/b.iso'' True False) lab_state))).
     insert_accepted lab_env ''http://a/b.iso'' q"
proof -
  let ?m = "run_state (InsertVirtualMedia lab_env ''rack1'' ''http://a/b.iso'' True False) lab_state"
  have "fst ?m = None" by code_simp
  then have "run_state (InsertVirtualMedia lab_env ''rack1'' ''http://a/b.iso'' True False) lab_state = (None, snd ?m)"
    by (metis prod.collapse)
  from insert_reported [OF this] lab_empty obtain q where q: "q \<in> set (outbound (snd ?m))"
    "image_reported lab_env ''http://a/b.iso'' q \<or> insert_accepted lab_env ''http://a/b.iso'' q" by blast
  moreover have "\<not> image_reported lab_env ''http://a/b.iso'' q" for q
  proof -
    have "\<not> holds_image m ''http://a/b.iso''" if "decode_resource (RawJson lab_resource) = Some m" for m
      using that by (auto simp: decode_resource_def lab_resource_def holds_image_def bool_field_def field_def obj_get_def)
    then show ?thesis by (auto simp: image_reported_def lab_env_def)
  qed
  ultimately show ?thesis by blast
qed

text \<open>A BMC that carries out every reset but answers 503 is reset four times.\<close>

lemma retry_loop_repeats:
  assumes "\<And>w. \<exists>p w'. client_Do E q w = (Inr p, w') \<and> p_status p = 503" "\<And>n. ctx_err E n = None" "\<And>m u. request_error E m u = None"
  shows "outbound (snd (run_state (retry_loop E c (attempt_request E pre q) n a err) s)) = outbound s @ replicate n q"
proof (induction n arbitrary: a err s)
  case (Suc n)
  from assms(1) [of "net s"] obtain p w where "client_Do E q (net s) = (Inr p, w)" "p_status p = 503" by blast
  with assms(2,3) Suc show ?case
    by (cases "n = 0") (simp_all add: attempt_request_def http_Do_def isRetryable_def tick_def wait_or_done_def Let_def)
qed simp

lemma resets_repeated:
  assumes "\<And>w. \<exists>p w'. client_Do E q w = (Inr p, w') \<and> p_status p = 503" "\<And>n. ctx_err E n = None" "\<And>m u. request_error E m u = None"
  shows "outbound (snd (run_state (doWithRetry E newDefaultRetryConfig (attempt_request E pre q)) s)) = outbound s @ replicate 4 q"
proof -
  have "nat (maxAttempts (retry_defaults newDefaultRetryConfig)) = 4"
    by (simp add: newDefaultRetryConfig_def retry_defaults_def)
  then show ?thesis unfolding doWithRetry_def by (simp only: retry_loop_repeats [OF assms])
qed

text \<open>
  The vendor map is applied when the override is set, but not when it is checked: where it changes the
  target, an override that is already in place is not recognised.
\<close>

lemma mapped_override_not_recognised:
  "mapBootTarget (getQuirks ''Acme'') ''Cd'' = ''UsbCd'' \<and>
   \<not> override_set (Some [(''Boot'', JObj [(''BootSourceOverrideEnabled'', JStr ''Once''), (''BootSourceOverrideTarget'', JStr ''UsbCd'')])]) ''Cd''"
  by code_simp

end
