(* ===== verification/SettingsProps.thy ===== *)
theory SettingsProps
  imports BmcOpsProps Settings
begin

text \<open>
  Properties of settings: what discovery and updates send, what the database keeps of a discovery, and
  which updates a descriptor admits.
\<close>

section \<open>What is sent\<close>

lemma run_tx_bmcs:
  assumes "run_tx E (upsert_tx E' i descs) n d = (Inr d', n')"
  shows "bmcs d' = bmcs d"
proof -
  define keeps where "keeps = (\<lambda>st :: tx_stmt. \<forall>now d d'. snd st now d = Inr d' \<longrightarrow> bmcs d' = bmcs d)"
  have *: "list_all keeps sts \<Longrightarrow> run_tx E sts n d = (Inr d', n') \<Longrightarrow> bmcs d' = bmcs d" for sts n d
    by (induction E sts n d rule: run_tx.induct) (auto simp: keeps_def split: option.splits sum.splits)
  have "list_all keeps (upsert_tx E' i descs)"
    by (auto simp: list_all_iff keeps_def upsert_tx_def upsert_stmts_def upsert_descriptor_def upsert_value_def split: if_splits)
  with * assms show ?thesis by blast
qed

lemma sends_query [sends]: "sends d T (query E pre g)"
  by (rule sends_silent) (auto simp: run_query split: option.splits)

lemma sends_descriptor [sends]: "sends d T (GetSettingDescriptor E name i)"
  unfolding GetSettingDescriptor_def GetBMCByName_def by (intro sends)

lemma sends_upsert [sends]: "sends d T (UpsertSettingDescriptors E name descs)"
proof -
  have "sends d T (State (\<lambda>s. case run_tx E (upsert_tx E i descs) (ticks s) (adb s) of
     (Inl e, n) \<Rightarrow> (Inl e, s\<lparr>ticks := n\<rparr>) | (Inr d, n) \<Rightarrow> (Inr (), s\<lparr>ticks := n, adb := d\<rparr>)))" for i
    by (rule sends_silent) (auto simp: bmc_rows_def split: prod.splits sum.splits dest!: run_tx_bmcs)
  then show ?thesis unfolding UpsertSettingDescriptors_def GetBMCByName_def by (intro sends)
qed

lemma sends_cache [sends]: "sends d T (cache_lookup E rf c k)"
  unfolding cache_lookup_def by (intro sends)

lemma sends_caches [sends]:
  "sends d T (State (\<lambda>s. ((), s\<lparr>regCache := f s\<rparr>)))" "sends d T (State (\<lambda>s. ((), s\<lparr>aiCache := f s\<rparr>)))"
  by (rule sends_silent, auto)+

lemma sends_collect: "(\<And>x. sends d T (f x)) \<Longrightarrow> sends d T (collect f xs)"
  by (induction xs) (auto intro!: sends)

lemma sends_registry:
  "bmc_row E d name b \<Longrightarrow> sends d (get_bmc E d name) (find_registry E b i ms)"
  "bmc_row E d name b \<Longrightarrow> sends d (get_bmc E d name) (follow_location E b p ms)"
proof -
  show "bmc_row E d name b \<Longrightarrow> sends d (get_bmc E d name) (find_registry E b i ms)"
    by (induction ms) (auto intro!: sends split: json.split option.split)
  show "bmc_row E d name b \<Longrightarrow> sends d (get_bmc E d name) (follow_location E b p ms)"
    by (induction ms) (auto intro!: sends split: json.split option.split)
qed

lemma sends_actions: "bmc_row E d name b \<Longrightarrow> sends d (get_bmc E d name) (try_actions E rf b as)"
  by (induction as) (auto intro!: sends simp: Let_def split: option.split)

lemma sends_enrich [sends]: "bmc_row E d name b \<Longrightarrow> sends d (get_bmc E d name) (enrichDescriptors E rf b kvs descs)"
  unfolding enrichDescriptors_def resolveAttributeRegistry_def resolveActionInfo_def fetch_registry_def
  by (auto intro!: sends sends_registry sends_actions simp: Let_def split: option.split sum.split json.split)

lemma sends_probe [sends]:
  assumes "bmc_row E d name b"
  shows "sends d (get_bmc E d name) (probe_resource E rf b n path vals kvs)"
    "sends d (get_bmc E d name) (probe_path E rf b n pick path)"
    "sends d (get_bmc E d name) (probe_member E rf b n m)"
    "sends d (get_bmc E d name) (probe_boot_order E b n path)"
  using assms unfolding probe_member_def probe_path_def probe_resource_def buildDescriptorsFromMap_def probe_boot_order_def
  by (auto intro!: sends split: option.split prod.split)

lemma sends_collection:
  "bmc_row E d name b \<Longrightarrow> (\<And>m. sends d (get_bmc E d name) (f m)) \<Longrightarrow> sends d (get_bmc E d name) (probe_collection E b path f)"
  unfolding probe_collection_def by (intro sends sends_collect)

lemma sends_storage [sends]: "bmc_row E d name b \<Longrightarrow> sends d (get_bmc E d name) (probe_storage E rf b n m)"
  unfolding probe_storage_def by (auto intro!: sends sends_collection sends_collect split: option.split)

lemma sends_if [sends]: "sends d T m \<Longrightarrow> sends d T (probe_if c m)"
  unfolding probe_if_def by (intro sends)

lemma sends_probe_all: "bmc_row E d name b \<Longrightarrow> sends d (get_bmc E d name) (probe_all E rf b name flt)"
  unfolding probe_all_def discover_systems_def Let_def by (intro sends sends_collection)

lemma sends_discover: "sends d (get_bmc E d name) (DiscoverSettings E rf name flt)"
  unfolding DiscoverSettings_def by (rule sends_lookup) (auto intro!: sends sends_probe_all)

lemma sends_update [sends]: "sends d (to_bmc E d name) (UpdateSetting E name i v)"
proof -
  have "sends d (to_bmc E d name) (send_update E b x v)" if "bmc_row E d name b" for b x
    using that unfolding send_update_def by (auto intro!: sends sends_do request_target split: option.split)
  then show ?thesis
    unfolding UpdateSetting_def by (intro sends_lookup) (auto intro!: sends split: sum.split option.split)
qed


text \<open>The operations on a server.\<close>

datatype bmc_op = Power string | Insert string bool bool | Eject | Boot string | Repair string bool | Discover bool string | Update string json

definition void :: "('s, 'a) state \<Rightarrow> ('s, unit) state" where
  "void m = do { x \<leftarrow> m; State_Monad.return () }"

fun run_op :: "('w, 'e) set_env_scheme \<Rightarrow> string \<Rightarrow> bmc_op \<Rightarrow> (('w, 's) set_state_scheme, unit) state" where
  "run_op E name (Power a) = void (PowerControl E name a)"
| "run_op E name (Insert u wp bo) = void (InsertVirtualMedia E name u wp bo)"
| "run_op E name Eject = void (EjectVirtualMedia E name)"
| "run_op E name (Boot t) = void (SetOneTimeBoot E name t)"
| "run_op E name (Repair i bo) = void (ReconcileState E name i bo)"
| "run_op E name (Discover refresh flt) = void (DiscoverSettings E refresh name flt)"
| "run_op E name (Update i v) = void (UpdateSetting E name i v)"

lemma sends_void [sends]: "sends d T m \<Longrightarrow> sends d T (void m)"
  unfolding void_def by (intro sends)


section \<open>What the database keeps of a discovery\<close>

text \<open>Every result of a probe satisfies a predicate.\<close>

definition yields :: "('a \<Rightarrow> bool) \<Rightarrow> ('s, 'a list) state \<Rightarrow> bool" where
  "yields P m \<longleftrightarrow> (\<forall>s. list_all P (fst (run_state m s)))"

named_theorems yields

lemma yields_return: "list_all P xs \<Longrightarrow> yields P (State_Monad.return xs)"
  by (simp add: yields_def)

lemma yields_bind: "(\<And>x. yields P (k x)) \<Longrightarrow> yields P (m \<bind> k)"
  by (auto simp: yields_def run_state_bind split: prod.split)

lemma yields_append:
  assumes "yields P m" "\<And>xs. list_all P xs \<Longrightarrow> yields P (k xs)"
  shows "yields P (m \<bind> k)"
  using assms by (auto simp: yields_def run_state_bind split: prod.split) (metis fst_conv)

lemma yields_collect: "(\<And>x. yields P (f x)) \<Longrightarrow> yields P (collect f xs)"
  by (induction xs) (auto intro!: yields_append yields_return)

lemma yields_if: "yields P m \<Longrightarrow> yields P (probe_if c m)"
  by (simp add: probe_if_def yields_return)

text \<open>A descriptor names its BMC, and its id is the hash of the name, the resource and the attribute.\<close>

definition well_named :: "string \<Rightarrow> SettingDescriptor \<Rightarrow> bool" where
  "well_named name d \<longleftrightarrow> DBMCName d = name \<and> DID d = hashID [name, ResourcePath d, Attribute d]"

lemma enrich_well_named [simp]: "well_named name (enrich_one E i ps ow d) = well_named name d"
  by (auto simp: well_named_def enrich_one_def enrich_registry_def enrich_action_def Let_def split: option.splits)

lemma build_well_named: "yields (well_named n) (buildDescriptorsFromMap E n path vals ats target)"
  unfolding buildDescriptorsFromMap_def
  by (intro yields_bind yields_return) (auto simp: list_all_iff new_descriptor_def well_named_def)

lemma enrich_all_well_named: "list_all (well_named n) descs \<Longrightarrow> yields (well_named n) (enrichDescriptors E rf b kvs descs)"
  unfolding enrichDescriptors_def Let_def by (auto intro!: yields_bind yields_return simp: list_all_iff)

lemma probes_well_named:
  "yields (well_named n) (probe_resource E rf b n path vals kvs)"
  "yields (well_named n) (probe_path E rf b n pick path)"
  "yields (well_named n) (probe_member E rf b n m)"
  "yields (well_named n) (probe_boot_order E b n path)"
proof -
  show *: "yields (well_named n) (probe_resource E rf b n path vals kvs)" for path vals kvs
    unfolding probe_resource_def
    by (auto intro!: yields_append [OF build_well_named enrich_all_well_named] yields_return split: prod.split)
  show **: "yields (well_named n) (probe_path E rf b n pick path)" for pick path
    unfolding probe_path_def by (auto intro!: yields_bind yields_return * split: option.split)
  then show "yields (well_named n) (probe_member E rf b n m)"
    unfolding probe_member_def by (auto intro!: yields_return)
  show "yields (well_named n) (probe_boot_order E b n path)"
    unfolding probe_boot_order_def
    by (auto intro!: yields_bind yields_return simp: boot_order_descriptor_def well_named_def split: option.split)
qed


lemma probe_all_well_named: "yields (well_named n) (probe_all E rf b n flt)"
proof -
  have c: "yields (well_named n) (probe_collection E b path f)" if "\<And>m. yields (well_named n) (f m)" for path f
    unfolding probe_collection_def using that by (auto intro!: yields_bind yields_return yields_collect split: sum.split)
  have st: "yields (well_named n) (probe_storage E rf b n m)" for m
    unfolding probe_storage_def
    by (auto intro!: yields_bind [where m = "fetchRedfishResource E b p" for p] yields_append yields_return
        c yields_collect probes_well_named split: option.split)
  have "yields (well_named n) (discover_systems E rf b n flt sp)" for sp
    unfolding discover_systems_def by (auto intro!: yields_append yields_if yields_return c st probes_well_named)
  note all = this c st probes_well_named
  have "yields (well_named n) (do {
       bios \<leftarrow> probe_if p1 (probe_path E rf b n bios_attributes bp);
       boot \<leftarrow> probe_if p2 (probe_boot_order E b n sp);
       rm \<leftarrow> GetFirstManagerID E n;
       mnp \<leftarrow> probe_if (p3 rm) (probe_path E rf b n network_fields (mp rm));
       rest \<leftarrow> probe_if p4 (discover_systems E rf b n flt sp);
       State_Monad.return (bios @ boot @ mnp @ rest) })" for p1 p2 p3 p4 bp sp mp
    by (rule yields_append [OF yields_if [OF all(5)]], rule yields_append [OF yields_if [OF all(7)]], rule yields_bind,
        rule yields_append [OF yields_if [OF all(5)]], rule yields_append [OF yields_if [OF all(1)]])
      (simp add: yields_return)
  then show ?thesis unfolding probe_all_def Let_def by - (rule yields_bind, assumption)
qed

subsection \<open>Transactions\<close>

lemma find_upsert_same: "Q x \<Longrightarrow> List.find (\<lambda>r. Q r \<and> k r = k x) (upsert_row k x rows) = Some x"
proof -
  assume "Q x"
  then have "has_row (\<lambda>r. k r = k x) ys \<Longrightarrow> List.find (\<lambda>r. Q r \<and> k r = k x) (upd_where (\<lambda>r. k r = k x) (\<lambda>_. x) ys) = Some x"
    and "\<not> has_row (\<lambda>r. k r = k x) ys \<Longrightarrow> List.find (\<lambda>r. Q r \<and> k r = k x) (ys @ [x]) = Some x" for ys
    by (induction ys) (auto simp: has_row_def upd_where_def)
  then show ?thesis by (simp add: upsert_row_def)
qed

lemma find_upsert_other: "k x \<noteq> i \<Longrightarrow> List.find (\<lambda>r. Q r \<and> k r = i) (upsert_row k x rows) = List.find (\<lambda>r. Q r \<and> k r = i) rows"
proof -
  assume *: "k x \<noteq> i"
  have "List.find (\<lambda>r. Q r \<and> k r = i) (upd_where (\<lambda>r. k r = k x) (\<lambda>_. x) ys) = List.find (\<lambda>r. Q r \<and> k r = i) ys"
    and "List.find (\<lambda>r. Q r \<and> k r = i) (ys @ [x]) = List.find (\<lambda>r. Q r \<and> k r = i) ys" for ys
    using * by (induction ys) (auto simp: upd_where_def)
  then show ?thesis by (simp add: upsert_row_def)
qed

text \<open>The rows of a descriptor are in the database, under the id of the BMC.\<close>

definition stored :: "('w, 'e) svc_env_scheme \<Rightarrow> int \<Rightarrow> SettingDescriptor \<Rightarrow> agg_db \<Rightarrow> bool" where
  "stored E i x d \<longleftrightarrow>
     (\<exists>t. List.find (\<lambda>r. r_bmc_id r = i \<and> r_id r = DID x) (settings_descriptors d) = Some (desc_row_of E i x t)) \<and>
     (\<exists>t. List.find (\<lambda>v. True \<and> v_descriptor_id v = DID x) (settings_values d) = Some (value_row_of E x t))"

lemma row_keys [simp]: "r_id (desc_row_of E i x t) = DID x" "r_bmc_id (desc_row_of E i x t) = i" "v_descriptor_id (value_row_of E x t) = DID x"
  by (simp_all add: desc_row_of_def value_row_of_def)

definition upsert_both :: "('w, 'e) svc_env_scheme \<Rightarrow> int \<Rightarrow> SettingDescriptor \<Rightarrow> time \<Rightarrow> time \<Rightarrow> agg_db \<Rightarrow> agg_db" where
  "upsert_both E i x t t' d =
     d\<lparr>settings_descriptors := upsert_row r_id (desc_row_of E i x t) (settings_descriptors d),
       settings_values := upsert_row v_descriptor_id (value_row_of E x t') (settings_values d)\<rparr>"

lemma stored_upsert: "stored E i x (upsert_both E i x t t' d)"
  using find_upsert_same [of "\<lambda>r. r_bmc_id r = i" "desc_row_of E i x t" r_id "settings_descriptors d"]
    find_upsert_same [of "\<lambda>_. True" "value_row_of E x t'" v_descriptor_id "settings_values d"]
  unfolding stored_def upsert_both_def by auto

lemma stored_kept: "stored E i x d \<Longrightarrow> DID y \<noteq> DID x \<Longrightarrow> stored E i x (upsert_both E j y t t' d)"
  using find_upsert_other [of r_id "desc_row_of E j y t" "DID x" "\<lambda>r. r_bmc_id r = i" "settings_descriptors d"]
    find_upsert_other [of v_descriptor_id "value_row_of E y t'" "DID x" "\<lambda>_. True" "settings_values d"]
  unfolding stored_def upsert_both_def by auto

lemma run_upsert_stmts:
  assumes "\<forall>n. stmt_fault E n = None" "has_row (\<lambda>b. BID b = i) (bmcs d)"
  shows "run_tx E (upsert_stmts E i x @ rest) n d = run_tx E rest (Suc (Suc n)) (upsert_both E i x (now_at E n) (now_at E (Suc n)) d)"
proof -
  have "has_row (\<lambda>r. r_id r = DID x) (upsert_row r_id (desc_row_of E i x t) rows)" for t rows
    using find_upsert_same [of "\<lambda>_. True" "desc_row_of E i x t" r_id rows]
    by (auto simp: has_row_def list_ex_iff dest!: find_SomeD)
  with assms show ?thesis
    by (simp add: upsert_stmts_def upsert_descriptor_def upsert_value_def upsert_both_def)
qed

lemma run_upserts:
  assumes "\<forall>n. stmt_fault E n = None" "has_row (\<lambda>b. BID b = i) (bmcs d)"
  shows "\<exists>d' n'. run_tx E (concat (map (upsert_stmts E i) xs) @ rest) n d = run_tx E rest n' d' \<and> bmcs d' = bmcs d \<and>
     (\<forall>x. stored E i x d \<and> DID x \<notin> DID ` set xs \<longrightarrow> stored E i x d') \<and>
     (\<forall>ys x zs. xs = ys @ x # zs \<and> DID x \<notin> DID ` set zs \<longrightarrow> stored E i x d')"
  using assms(2)
proof (induction xs arbitrary: n d)
  case (Cons y xs)
  let ?d = "upsert_both E i y (now_at E n) (now_at E (Suc n)) d"
  have "has_row (\<lambda>b. BID b = i) (bmcs ?d)" using Cons.prems by (simp add: upsert_both_def)
  from Cons.IH [OF this, of "Suc (Suc n)"] obtain d' n' where
    d': "run_tx E (concat (map (upsert_stmts E i) xs) @ rest) (Suc (Suc n)) ?d = run_tx E rest n' d'" "bmcs d' = bmcs d"
      "\<forall>x. stored E i x ?d \<and> DID x \<notin> DID ` set xs \<longrightarrow> stored E i x d'"
      "\<forall>ys x zs. xs = ys @ x # zs \<and> DID x \<notin> DID ` set zs \<longrightarrow> stored E i x d'"
    by (auto simp: upsert_both_def)
  have "stored E i x d'" if "y # xs = ys @ x # zs" "DID x \<notin> DID ` set zs" for ys x zs
  proof (cases ys)
    case Nil
    with that d'(3) stored_upsert [of E i y] show ?thesis by auto
  next
    case (Cons a as)
    with that d'(4) show ?thesis by auto
  qed
  moreover have "stored E i x d'" if "stored E i x d" "DID x \<notin> DID ` set (y # xs)" for x
    using that d'(3) stored_kept [of E i x d y] by auto
  ultimately show ?case
    using run_upsert_stmts [OF assms(1) Cons.prems, of y "concat (map (upsert_stmts E i) xs) @ rest" n] d'(1,2) by auto
qed auto


text \<open>The JSON text of a value reads back as the value.\<close>

definition json_kept :: "('w, 'e) svc_env_scheme \<Rightarrow> json \<Rightarrow> bool" where
  "json_kept E v \<longleftrightarrow> json_Marshal E v \<noteq> '''' \<and> json_Unmarshal E (json_Marshal E v) = RawJson v"

lemma list_kept: "json_kept E (JArr (map JStr xs)) \<Longrightarrow> unmarshal_list E (marshal_strings E xs) = xs"
  by (auto simp: json_kept_def unmarshal_list_def marshal_strings_def comp_def)

lemma read_stored:
  assumes "stored E i x d" "DBMCName x = name"
    and "json_kept E (JArr (map JStr (EnumValues x)))" "json_kept E (JArr (map JStr (ApplyTimes x)))" "json_kept E (CurrentValue x)"
  shows "\<exists>r. List.find (\<lambda>r. r_bmc_id r = i \<and> r_id r = DID x) (settings_descriptors d) = Some r \<and>
     read_descriptor E name (settings_values d) r = x"
proof -
  from assms(1) obtain t t' where
    r: "List.find (\<lambda>r. r_bmc_id r = i \<and> r_id r = DID x) (settings_descriptors d) = Some (desc_row_of E i x t)"
      "List.find (\<lambda>v. v_descriptor_id v = DID x) (settings_values d) = Some (value_row_of E x t')"
    unfolding stored_def by auto
  have "unmarshal_value E (marshal_value E (CurrentValue x)) = CurrentValue x"
    using assms(5) by (auto simp: json_kept_def unmarshal_value_def marshal_value_def)
  with r assms(2-4) show ?thesis
    by (simp add: read_descriptor_def desc_row_of_def value_row_of_def list_kept)
qed

lemma found_row:
  assumes "run_state (GetBMCByName E name) s = (Inr (Some b), s')" "bmc_rows d = bmc_rows (adb s)"
  shows "has_row (\<lambda>c. BID c = BID b) (bmcs d)" "\<exists>c. List.find (\<lambda>c. BName c = name) (bmcs d) = Some c \<and> BID c = BID b"
proof -
  from assms(1) obtain a where a: "List.find (\<lambda>c. BName c = name) (bmcs (adb s)) = Some a" "BID a = BID b"
    by (auto simp: GetBMCByName_def run_query read_bmc_def split: option.splits)
  have norm: "List.find (\<lambda>c. BName c = name) (map (\<lambda>b. b\<lparr>BLastSeen := None\<rparr>) bs) =
      map_option (\<lambda>c. c\<lparr>BLastSeen := None\<rparr>) (List.find (\<lambda>c. BName c = name) bs)" for bs :: "BMC list"
    by (induction bs) auto
  from a norm [of "bmcs d"] norm [of "bmcs (adb s)"] assms(2) obtain c where c: "List.find (\<lambda>c. BName c = name) (bmcs d) = Some c"
    "c\<lparr>BLastSeen := None\<rparr> = a\<lparr>BLastSeen := None\<rparr>"
    by (cases "List.find (\<lambda>c. BName c = name) (bmcs d)") (auto simp: bmc_rows_def)
  from arg_cong [OF c(2), of BID] a(2) have "BID c = BID b" by simp
  with c show "\<exists>c. List.find (\<lambda>c. BName c = name) (bmcs d) = Some c \<and> BID c = BID b" by blast
  from c(1) \<open>BID c = BID b\<close> show "has_row (\<lambda>c. BID c = BID b) (bmcs d)"
    by (auto simp: has_row_def list_ex_iff dest!: find_SomeD)
qed


text \<open>
  C37. What a discovery reports can be looked up: when the database works and the JSON text of its lists
  and its value reads back, a descriptor of the result is afterwards found under its id, unless a
  later one of the result has the same id. The descriptor is the one reported, member by member.
\<close>

theorem discovered_setting_kept:
  assumes run: "run_state (DiscoverSettings E refresh name flt) s = (Inr (xs @ x # ys), s')"
    and last: "DID x \<notin> DID ` set ys"
    and db: "\<forall>n. stmt_fault E n = None"
    and json: "json_kept E (JArr (map JStr (EnumValues x)))" "json_kept E (JArr (map JStr (ApplyTimes x)))" "json_kept E (CurrentValue x)"
  shows "fst (run_state (GetSettingDescriptor E name (DID x)) s') = Inr (Some x)"
proof -
  obtain rb s1 where rb: "run_state (GetBMCByName E name) s = (rb, s1)" by fastforce
  with run obtain b where b: "rb = Inr (Some b)" "BEnabled b"
    by (auto simp: DiscoverSettings_def split: sum.splits option.splits if_splits)
  obtain descs s2 where p: "run_state (probe_all E refresh b name flt) s1 = (descs, s2)" by fastforce
  obtain u s3 where u: "run_state (UpsertSettingDescriptors E name descs) s2 = (u, s3)" by fastforce
  from run rb b p u have s3: "descs = xs @ x # ys" "s3 = s'" by (auto simp: DiscoverSettings_def)
  have "list_all (well_named name) (fst (run_state (probe_all E refresh b name flt) s1))"
    using probe_all_well_named [of name E refresh b flt] unfolding yields_def by blast
  with p s3 have named: "DBMCName x = name" by (simp add: well_named_def)
  have s1: "bmc_rows (adb s1) = bmc_rows (adb s)" "bmc_row E (adb s) name b"
    using rb b read_row [OF _ refl] by (auto simp: GetBMCByName_def run_query split: option.splits)
  from sendsD(1) [OF sends_probe_all [OF s1(2)] p s1(1)] have s2: "bmc_rows (adb s2) = bmc_rows (adb s)" .
  obtain b' s2' where b': "run_state (GetBMCByName E name) s2 = (Inr (Some b'), s2')" "adb s2' = adb s2" "BID b' = BID b"
    using found_row(2) [OF rb [unfolded b(1)] s2] db by (auto simp: GetBMCByName_def run_query read_bmc_def)
  note row = found_row [OF b'(1)]
  obtain d n where tx: "run_tx E (upsert_tx E (BID b') descs) (ticks s2') (adb s2') = (Inr d, n)" "bmcs d = bmcs (adb s2)" "stored E (BID b') x d"
    using run_upserts [OF db row(1) [OF refl], of descs "[(''commit failed: '', \<lambda>_. Inr)]" "ticks s2' + 3"] db s3(1) last b'(2)
    by (auto simp: upsert_tx_def numeral_eq_Suc) blast
  with u b' s3 have s': "s' = s2'\<lparr>ticks := n, adb := d\<rparr>" by (auto simp: UpsertSettingDescriptors_def)
  from row(2) [of d] tx(2) obtain c where "List.find (\<lambda>c. BName c = name) (bmcs d) = Some c" "BID c = BID b'"
    by (auto simp: bmc_rows_def)
  then show ?thesis
    using read_stored [OF tx(3) named json] db
    by (auto simp: GetSettingDescriptor_def GetBMCByName_def run_query run_state_bind read_bmc_def s')
qed


section \<open>Which updates a descriptor admits\<close>

definition in_range :: "rat option \<Rightarrow> rat option \<Rightarrow> rat \<Rightarrow> bool" where
  "in_range lo hi x \<longleftrightarrow> (\<forall>l. lo = Some l \<longrightarrow> l \<le> x) \<and> (\<forall>h. hi = Some h \<longrightarrow> x \<le> h)"

lemma validate_spec:
  "validateSettingValue E d v = None \<longleftrightarrow>
     v \<noteq> JNull \<and>
     (if EnumValues d \<noteq> [] then fmt_v (fmt_float E) v \<in> set (EnumValues d)
      else (DType d \<in> {''number'', ''integer''} \<longrightarrow> (\<exists>x. v = JNum x \<and> in_range (DMin d) (DMax d) x)) \<and>
           (DType d = ''boolean'' \<longrightarrow> (\<exists>b. v = JBool b)) \<and>
           (DType d = ''string'' \<longrightarrow> (\<exists>t. v = JStr t)))"
  by (cases v; cases "DMin d"; cases "DMax d") (auto simp: validateSettingValue_def check_number_def in_range_def)

text \<open>A list is printed in brackets, so it never is one of a list of plain values.\<close>

lemma list_never_admitted:
  assumes "EnumValues d \<noteq> []" "\<forall>e \<in> set (EnumValues d). \<not> has_prefix e ''[''"
  shows "validateSettingValue E d (JArr vs) \<noteq> None"
  using assms by (auto simp: validate_spec has_prefix_iff)

text \<open>An update sends nothing, or one PATCH of an admitted value to the target of a stored, writable descriptor.\<close>

lemma run_send_update:
  assumes "run_state (send_update E b d v) s = (r, s')"
  shows "adb s' = adb s" "outbound s' = outbound s \<and> r \<noteq> None \<or>
     outbound s' = outbound s @ [bmc_request b ''PATCH'' (buildBMCURL b (if ActionTarget d \<noteq> '''' then ActionTarget d else ResourcePath d)) (RawJson (update_payload d v))]"
  using assms by (auto simp: send_update_def http_Do_def split: option.splits sum.splits prod.splits)

text \<open>The row of a descriptor id for the BMC of a name.\<close>

definition find_descriptor :: "agg_db \<Rightarrow> string \<Rightarrow> string \<Rightarrow> desc_row option" where
  "find_descriptor d name i =
     (case List.find (\<lambda>b. BName b = name) (bmcs d) of
        None \<Rightarrow> None
      | Some b \<Rightarrow> List.find (\<lambda>r. r_bmc_id r = BID b \<and> r_id r = i) (settings_descriptors d))"

lemma run_lookup:
  assumes "run_state (GetSettingDescriptor E name i) s = (x, s')"
  shows "adb s' = adb s" "outbound s' = outbound s"
    "\<And>d. x = Inr (Some d) \<Longrightarrow> \<exists>r. find_descriptor (adb s) name i = Some r \<and> d = read_descriptor E name (settings_values (adb s)) r"
  using assms by (auto simp: GetSettingDescriptor_def GetBMCByName_def run_query find_descriptor_def read_bmc_def split: option.splits)

lemma update_sends:
  assumes "run_state (UpdateSetting E name i v) s = (r, s')"
  shows "adb s' = adb s" "outbound s' = outbound s \<and> r \<noteq> Some None \<or>
     (\<exists>c row. let d = read_descriptor E name (settings_values (adb s)) row; b = read_bmc E c in
        List.find (\<lambda>c. BName c = name) (bmcs (adb s)) = Some c \<and> BEnabled c \<and>
        find_descriptor (adb s) name i = Some row \<and> \<not> r_read_only row \<and> validateSettingValue E d v = None \<and>
        outbound s' = outbound s @ [bmc_request b ''PATCH''
          (buildBMCURL b (if ActionTarget d \<noteq> '''' then ActionTarget d else ResourcePath d)) (RawJson (update_payload d v))])"
proof -
  obtain rb s1 where rb: "run_state (GetBMCByName E name) s = (rb, s1)" by fastforce
  then have s1: "adb s1 = adb s" "outbound s1 = outbound s" by (auto simp: GetBMCByName_def run_query split: option.splits)
  have stored: "\<exists>c. List.find (\<lambda>c. BName c = name) (bmcs (adb s)) = Some c \<and> b = read_bmc E c" if "rb = Inr (Some b)" for b
    using rb that by (auto simp: GetBMCByName_def run_query split: option.splits)
  obtain x s2 where x: "run_state (GetSettingDescriptor E name i) s1 = (x, s2)" by fastforce
  note s2 = run_lookup [OF x]
  show "adb s' = adb s"
    using assms rb x s1 s2 by (auto simp: UpdateSetting_def split: sum.splits option.splits if_splits prod.splits dest: run_send_update)
  consider "outbound s' = outbound s" "r \<noteq> Some None" | b d e where "rb = Inr (Some b)" "BEnabled b" "x = Inr (Some d)" "\<not> ReadOnly d" "validateSettingValue E d v = None"
    "run_state (send_update E b d v) s2 = (e, s')" "r = Some e"
    using assms rb x s1 s2 by (auto simp: UpdateSetting_def run_state_bind split: sum.splits option.splits if_splits prod.splits)
  then show "outbound s' = outbound s \<and> r \<noteq> Some None \<or>
     (\<exists>c row. let d = read_descriptor E name (settings_values (adb s)) row; b = read_bmc E c in
        List.find (\<lambda>c. BName c = name) (bmcs (adb s)) = Some c \<and> BEnabled c \<and>
        find_descriptor (adb s) name i = Some row \<and> \<not> r_read_only row \<and> validateSettingValue E d v = None \<and>
        outbound s' = outbound s @ [bmc_request b ''PATCH''
          (buildBMCURL b (if ActionTarget d \<noteq> '''' then ActionTarget d else ResourcePath d)) (RawJson (update_payload d v))])"
  proof cases
    case 2
    from stored [OF 2(1)] obtain c where c: "List.find (\<lambda>c. BName c = name) (bmcs (adb s)) = Some c" "b = read_bmc E c" by blast
    then have en: "BEnabled c = BEnabled b" by (simp add: read_bmc_def)
    from s2(3) [OF 2(3)] obtain row where row: "find_descriptor (adb s) name i = Some row"
      "d = read_descriptor E name (settings_values (adb s)) row" unfolding s1 by blast
    then have ro: "ReadOnly d = r_read_only row" by (simp add: read_descriptor_def Let_def)
    from run_send_update(2) [OF 2(6)] show ?thesis
      unfolding s2(2) s1(2)
    proof
      assume "outbound s' = outbound s \<and> e \<noteq> None"
      with 2(7) show ?thesis by simp
    next
      assume "outbound s' = outbound s @ [bmc_request b ''PATCH''
          (buildBMCURL b (if ActionTarget d \<noteq> '''' then ActionTarget d else ResourcePath d)) (RawJson (update_payload d v))]"
      with 2(2,4,5) row ro c(1) en show ?thesis
        unfolding Let_def row(2) c(2) by (intro disjI2 exI [of _ c] exI [of _ row]) simp
    qed
  qed simp
qed


section \<open>A laboratory\<close>

text \<open>One system with a boot order and its allowable values; the values that occur have JSON texts of one letter.\<close>

definition boot_lab_resource :: json where
  "boot_lab_resource =
     JObj [(''Members'', JArr [JObj [(''@odata.id'', JStr ''/redfish/v1/Systems/1'')]]), (''Boot'', JObj [(''BootOrder'', JArr [JStr ''Hdd''])]),
       (''BootOrder@Redfish.AllowableValues'', JArr [JStr ''Hdd'', JStr ''Pxe''])]"

definition set_lab_env :: "unit set_env" where
  "set_lab_env = ops_env.extend (lab_env\<lparr>
       client_Do := (\<lambda>q w. (Inr \<lparr>p_status = 200, p_header = [], p_body = '''', p_tree = RawJson boot_lab_resource\<rparr>, w)),
       json_Marshal := (\<lambda>v. if v = JArr [JStr ''OnReset''] then ''o'' else if v = JArr [JStr ''Hdd''] then ''h'' else ''p''),
       json_Unmarshal := (\<lambda>t. RawJson (if t = ''o'' then JArr [JStr ''OnReset''] else if t = ''h'' then JArr [JStr ''Hdd''] else JArr [JStr ''Hdd'', JStr ''Pxe'']))\<rparr>)
     (set_env.fields (\<lambda>n xs. xs) (\<lambda>x. ''0''))"

definition set_lab_state :: "unit set_state" where
  "set_lab_state = ops_state.extend lab_state (set_state.fields Map.empty Map.empty)"


theorem discovered_setting_kept_witness:
  "\<exists>x. fst (run_state (DiscoverSettings set_lab_env False ''rack1'' ''boot'') set_lab_state) = Inr [x] \<and>
     fst (run_state (GetSettingDescriptor set_lab_env ''rack1'' (DID x))
       (snd (run_state (DiscoverSettings set_lab_env False ''rack1'' ''boot'') set_lab_state))) = Inr (Some x)"
proof -
  let ?m = "run_state (DiscoverSettings set_lab_env False ''rack1'' ''boot'') set_lab_state"
  let ?x = "boot_order_descriptor set_lab_env ''rack1'' ''/redfish/v1/Systems/1'' ''1970-01-01T00:00:00Z'' 
     [(''Members'', JArr [JObj [(''@odata.id'', JStr ''/redfish/v1/Systems/1'')]]), (''Boot'', JObj [(''BootOrder'', JArr [JStr ''Hdd''])]),
      (''BootOrder@Redfish.AllowableValues'', JArr [JStr ''Hdd'', JStr ''Pxe''])]"
  have run: "fst ?m = Inr ([] @ ?x # [])" by code_simp
  then have "?m = (Inr ([] @ ?x # []), snd ?m)" by (metis prod.collapse)
  moreover have "\<forall>n. stmt_fault set_lab_env n = None" by (simp add: set_lab_env_def lab_env_def ops_env.defs)
  moreover have "json_kept set_lab_env (JArr (map JStr (EnumValues ?x)))" "json_kept set_lab_env (JArr (map JStr (ApplyTimes ?x)))"
    "json_kept set_lab_env (CurrentValue ?x)" by code_simp+
  ultimately have "fst (run_state (GetSettingDescriptor set_lab_env ''rack1'' (DID ?x)) (snd ?m)) = Inr (Some ?x)"
    by (intro discovered_setting_kept [of set_lab_env False "''rack1''" "''boot''" set_lab_state "[]" ?x "[]"]) auto
  with run show ?thesis by (intro exI [of _ ?x]) simp
qed

end
