(* ===== verification/WebProps.thy ===== *)
theory WebProps
  imports WebFrame AggProps SettingsProps
begin

text \<open>
  What the web interface guarantees, and what it does not: who it lets change users, what a request
  without a credential can do, which settings it changes, and what its pages show.
\<close>

section \<open>Credentials\<close>

text \<open>A valid session in the cookie, or the credential of an API request.\<close>

definition web_presents :: "'e auth_env_scheme \<Rightarrow> web_request \<Rightarrow> nat \<Rightarrow> agg_db \<Rightarrow> User \<Rightarrow> bool" where
  "web_presents E r n d u \<longleftrightarrow>
     u \<in> set (users d) \<and> UEnabled u \<and>
     ((\<exists>x \<in> set (sessions d). Cookie r ''session_token'' = Some (Token x) \<and> SUserID x = UID u \<and> sql_after E (ExpiresAt x) (now_at E n)) \<or>
      (\<exists>m \<ge> n. presents E (Req r) m d u))"

lemma run_authenticate:
  assumes "run_state (AuthenticateRequest E r) s = (x, s')"
  shows "\<exists>n. s' = s\<lparr>ticks := n\<rparr>"
  using assms
  by (auto simp: auth_defs run_query split: if_splits option.splits prod.splits intro: exI [of _ "ticks s"])

lemma run_cookie_user:
  assumes "run_state (cookie_user E r) s = (x, s')"
  shows "\<exists>n \<ge> ticks s. s' = s\<lparr>ticks := n\<rparr>" "\<And>u. x = Some u \<Longrightarrow> web_presents E r (ticks s) (adb s) u"
proof -
  show "\<exists>n \<ge> ticks s. s' = s\<lparr>ticks := n\<rparr>"
    using assms by (auto simp: cookie_user_def auth_defs run_query split: option.splits intro: exI [of _ "ticks s"] exI [of _ "Suc (ticks s)"]
        exI [of _ "Suc (Suc (ticks s))"])
  show "web_presents E r (ticks s) (adb s) u" if "x = Some u" for u
    using assms that
    by (auto simp: cookie_user_def auth_defs run_query web_presents_def dest!: find_SomeD split: option.splits sum.splits if_splits)
qed

lemma run_requireAuth:
  assumes "run_state (requireAuth E k r) s = (x, s')"
  obtains n where "x = answer (SeeOther (login_redirect r))" "s' = s\<lparr>ticks := n\<rparr>"
  | u n where "web_presents E r (ticks s) (adb s) u" "run_state (k (Some u) r) (s\<lparr>ticks := n\<rparr>) = (x, s')"
proof -
  obtain c s1 where c: "run_state (cookie_user E r) s = (c, s1)" by fastforce
  from run_cookie_user(1) [OF c] obtain n where n: "n \<ge> ticks s" "s1 = s\<lparr>ticks := n\<rparr>" by blast
  show thesis
  proof (cases c)
    case (Some u)
    with assms c n run_cookie_user(2) [OF c Some] show thesis by (intro that(2) [of u n]) (simp_all add: requireAuth_def)
  next
    case None
    obtain a s2 where a: "run_state (AuthenticateRequest E (Req r)) s1 = (a, s2)" by fastforce
    from run_authenticate [OF a] n obtain m where m: "s2 = s\<lparr>ticks := m\<rparr>" by auto
    show thesis
    proof (cases a)
      case (Inl e)
      with assms c None a m show thesis by (intro that(1) [of m]) (simp_all add: requireAuth_def)
    next
      case (Inr u)
      with AuthenticateRequest_Inr(1) [OF a [unfolded Inr]] n have "presents E (Req r) n (adb s) u" by simp
      with n have "web_presents E r (ticks s) (adb s) u" by (auto simp: web_presents_def presents_def)
      with assms c None a m Inr show thesis by (intro that(2) [of u m]) (simp_all add: requireAuth_def)
    qed
  qed
qed

section \<open>Who changes users\<close>

interpretation web_users: web_frame "\<lambda>d d'. users d' = users d"
  by unfold_locales (auto simp: insert_bmc_def update_bmc_def delete_bmc_def upsert_descriptor_def upsert_value_def Let_def split: if_splits)

text \<open>The pages on users change them only for a form that was sent, or a deletion.\<close>

lemma user_page_reads:
  "preserves (\<lambda>d d'. users d' = users d) (handleUsers E u r)"
  "Method (Req r) \<noteq> ''POST'' \<Longrightarrow> preserves (\<lambda>d d'. users d' = users d) (handleAddUser E u r)"
  "Method (Req r) \<noteq> ''POST'' \<Longrightarrow> preserves (\<lambda>d d'. users d' = users d) (handleEditUser E u r)"
  "Method (Req r) \<noteq> ''POST'' \<Longrightarrow> preserves (\<lambda>d d'. users d' = users d) (handleChangePassword E u r)"
  unfolding handleUsers_def handleAddUser_def handleEditUser_def handleChangePassword_def
  by (auto intro!: same_users.bind same_users.reads same_users.return simp: Let_def split: sum.split option.split)

lemma password_page:
  assumes run: "run_state (handleChangePassword E (Some u) r) s = (x, s')" and ch: "users (adb s') \<noteq> users (adb s)"
    and u: "u \<in> set (users (adb s))" and ok: "db_ok (adb s)"
  shows "VerifyPassword E (FormValue r ''current_password'') (PasswordHash u) = None"
    "\<exists>h t. users (adb s') = upd_where (\<lambda>v. UID v = UID u) (\<lambda>v. v\<lparr>PasswordHash := h, UUpdatedAt := t\<rparr>) (users (adb s))"
proof -
  have post: "Method (Req r) = ''POST''" using preservesD [OF user_page_reads(4) run] ch by blast
  with run ch show v: "VerifyPassword E (FormValue r ''current_password'') (PasswordHash u) = None"
    by (auto simp: handleChangePassword_def change_password_def Let_def split: if_splits option.splits)
  obtain h s1 where h: "run_state (HashPassword E (FormValue r ''new_password'')) s = (h, s1)" by fastforce
  with preservesD [OF same_users.hash h] have s1: "adb s1 = adb s" by (auto simp: HashPassword_def tick_def split: if_splits)
  from run ch post v h s1 obtain hash where hash: "h = Inr hash"
    by (cases h) (auto simp: handleChangePassword_def change_password_def Let_def split: if_splits)
  obtain y s2 where y: "run_state (UpdateUser E (u\<lparr>PasswordHash := hash\<rparr>)) s1 = (y, s2)" by fastforce
  have "s' = s2"
    using run ch post v h hash y s1 by (auto simp: handleChangePassword_def change_password_def Let_def split: if_splits sum.splits)
  with y ch s1 obtain t where up: "users (adb s') = upd_where (\<lambda>v. UID v = UID u)
      (\<lambda>v. v\<lparr>Username := Username u, PasswordHash := hash, Role := Role u, UEnabled := UEnabled u, UUpdatedAt := t\<rparr>) (users (adb s))"
    by (auto simp: UpdateUser_def run_exec update_user_def split: option.splits if_splits)
  have same: "v = u" if "v \<in> set (users (adb s))" "UID v = UID u" for v
    using that u ok by (auto simp: db_ok_def distinct_map inj_on_def)
  have "users (adb s') = upd_where (\<lambda>v. UID v = UID u) (\<lambda>v. v\<lparr>PasswordHash := hash, UUpdatedAt := t\<rparr>) (users (adb s))"
    unfolding up upd_where_def
  proof (intro map_cong refl)
    fix v assume v: "v \<in> set (users (adb s))"
    have "v\<lparr>Username := Username v, PasswordHash := hash, Role := Role v, UEnabled := UEnabled v, UUpdatedAt := t\<rparr> = v\<lparr>PasswordHash := hash, UUpdatedAt := t\<rparr>"
      by (cases v) simp
    with same [OF v] show "(if UID v = UID u then v\<lparr>Username := Username u, PasswordHash := hash, Role := Role u, UEnabled := UEnabled u, UUpdatedAt := t\<rparr> else v) =
        (if UID v = UID u then v\<lparr>PasswordHash := hash, UUpdatedAt := t\<rparr> else v)" by auto
  qed
  then show "\<exists>h t. users (adb s') = upd_where (\<lambda>v. UID v = UID u) (\<lambda>v. v\<lparr>PasswordHash := h, UUpdatedAt := t\<rparr>) (users (adb s))" by blast
qed

definition manages_users :: "web_request \<Rightarrow> bool" where
  "manages_users r \<longleftrightarrow>
     URLPath (Req r) = ''/users/delete'' \<or> URLPath (Req r) \<in> {''/users/add'', ''/users/edit''} \<and> Method (Req r) = ''POST''"

definition own_password :: "'e auth_env_scheme \<Rightarrow> web_request \<Rightarrow> User \<Rightarrow> agg_db \<Rightarrow> agg_db \<Rightarrow> bool" where
  "own_password E r u d d' \<longleftrightarrow>
     URLPath (Req r) = ''/profile/password'' \<and> Method (Req r) = ''POST'' \<and>
     VerifyPassword E (FormValue r ''current_password'') (PasswordHash u) = None \<and>
     (\<exists>h t. users d' = upd_where (\<lambda>v. UID v = UID u) (\<lambda>v. v\<lparr>PasswordHash := h, UUpdatedAt := t\<rparr>) (users d))"

lemma user_routes:
  "web_route E static ''/users'' r = requireAdmin E (handleUsers E) r"
  "web_route E static ''/users/add'' r = requireAdmin E (handleAddUser E) r"
  "web_route E static ''/users/edit'' r = requireAdmin E (handleEditUser E) r"
  "web_route E static ''/users/delete'' r = requireAdmin E (handleDeleteUser E) r"
  "web_route E static ''/profile/password'' r = requireAuth E (handleChangePassword E) r"
  by (simp_all add: web_route_def)

lemma web_user_changes:
  fixes s :: "('w, 's) set_state_scheme"
  assumes run: "run_state (web_mux E static r) s = (x, s')" and ch: "users (adb s') \<noteq> users (adb s)" and ok: "db_ok (adb s)"
  shows "\<exists>u. web_presents E r (ticks s) (adb s) u \<and> (IsAdmin u \<and> manages_users r \<or> own_password E r u (adb s) (adb s'))"
proof -
  from run ch obtain pat where pat: "mux_route web_routes (Req r) = Routed pat" "run_state (web_route E static pat r) s = (x, s')"
    by (cases "mux_route web_routes (Req r)") (auto simp: web_mux_def)
  from mux_route_Routed [OF pat(1)] have p: "pat \<in> set web_routes" "pattern_matches pat (URLPath (Req r))" by auto
  from ch pat(2) web_users.route [OF p(1), of E static r]
  have five: "pat \<in> {''/users'', ''/users/add'', ''/users/edit'', ''/users/delete'', ''/profile/password''}" by (auto dest: preservesD)
  then have path: "URLPath (Req r) = pat" using p(2) by (auto simp: pattern_matches_def has_suffix_def)
  define k :: "User option \<Rightarrow> web_request \<Rightarrow> (('w, 's) set_state_scheme, web_response) state" where "k = (if pat = ''/users'' then handleUsers E else if pat = ''/users/add'' then handleAddUser E
    else if pat = ''/users/edit'' then handleEditUser E else if pat = ''/users/delete'' then handleDeleteUser E else handleChangePassword E)"
  let ?a = "\<lambda>user r. if \<not> is_admin user then respond (http_Error ''Access denied. Admin privileges required.'' StatusForbidden) else k user r"
  have rt: "web_route E static pat r = requireAuth E (if pat = ''/profile/password'' then k else ?a) r"
    using five by (elim insertE) (simp_all add: user_routes requireAdmin_def k_def cong: if_cong)
  from pat(2) [unfolded rt] show ?thesis
  proof (cases rule: run_requireAuth)
    case (1 n)
    with ch show ?thesis by simp
  next
    case (2 u n)
    show ?thesis
    proof (cases "pat = ''/profile/password''")
      case True
      with 2 have r2: "run_state (handleChangePassword E (Some u) r) (s\<lparr>ticks := n\<rparr>) = (x, s')" by (simp add: k_def)
      from 2(1) have "u \<in> set (users (adb s))" by (simp add: web_presents_def)
      moreover have "Method (Req r) = ''POST''" using preservesD [OF user_page_reads(4) r2] ch by fastforce
      ultimately have "own_password E r u (adb s) (adb s')"
        using password_page [OF r2] ch ok True path by (auto simp: own_password_def)
      with 2(1) show ?thesis by blast
    next
      case False
      with 2(2) ch have adm: "IsAdmin u" "run_state (k (Some u) r) (s\<lparr>ticks := n\<rparr>) = (x, s')"
        by (auto simp: is_admin_def split: if_splits)
      have kept: "\<not> preserves (\<lambda>d d'. users d' = users d) (k (Some u) r)" using preservesD [OF _ adm(2)] ch by fastforce
      have "manages_users r"
        using five False path kept user_page_reads(1) [of E "Some u" r] user_page_reads(2,3) [of r E "Some u"]
        by (elim insertE) (auto simp: k_def manages_users_def)
      with adm 2(1) show ?thesis by blast
    qed
  qed
qed

section \<open>Requests without a credential\<close>

definition guarded :: "('w, 'e) set_env_scheme \<Rightarrow> web_request \<Rightarrow> (('w, 's) set_state_scheme, web_response) state \<Rightarrow> bool" where
  "guarded E r m \<longleftrightarrow> (\<exists>k. m = requireAuth E k r)"

lemma guardedI:
  "guarded E r (requireAuth E k r)" "guarded E r (requireAdmin E k r)"
  "(b \<Longrightarrow> guarded E r m) \<Longrightarrow> (\<not> b \<Longrightarrow> guarded E r m') \<Longrightarrow> guarded E r (if b then m else m')"
  by (auto simp: guarded_def requireAdmin_def)

lemma guarded_routes:
  "pat \<notin> {''/static/'', ''/login'', ''/logout''} \<Longrightarrow> guarded E r (web_route E static pat r)"
  unfolding web_route_def by (intro guardedI) simp_all

lemma guarded_run:
  fixes s :: "('w, 's) set_state_scheme"
  assumes "pat \<notin> {''/static/'', ''/login'', ''/logout''}" "run_state (web_route E static pat r) s = (x, s')"
  shows "\<exists>k. run_state (requireAuth E k r) s = (x, s')"
proof -
  from guarded_routes [OF assms(1)] obtain k :: "User option \<Rightarrow> web_request \<Rightarrow> (('w, 's) set_state_scheme, web_response) state"
    where "web_route E static pat r = requireAuth E k r"
    unfolding guarded_def by blast
  with assms(2) show ?thesis by auto
qed

definition quiet :: "('w, 's) svc_state_scheme \<Rightarrow> ('w, 's) svc_state_scheme \<Rightarrow> bool" where
  "quiet s s' \<longleftrightarrow> outbound s' = outbound s \<and> net s' = net s \<and> adb s' = (adb s)\<lparr>sessions := sessions (adb s')\<rparr>"

lemma quiet_login:
  assumes "run_state (Web.handleLogin E r) s = (x, s')"
  shows "quiet s s'" "(\<exists>m u. body_of x = LoginPage m u) \<or> (\<exists>u. body_of x = SeeOther u)"
  using assms
  by (auto simp: Web.handleLogin_def showLoginPage_def auth_defs run_query CreateSession_def generateID_def generateToken_def
      rand_bytes_def tick_def time_Now_def db_CreateSession_def run_exec insert_session_def Let_def quiet_def answer_def
      split: if_splits option.splits sum.splits)

lemma quiet_logout:
  assumes "run_state (handleLogout E r) s = (x, s')"
  shows "quiet s s'" "body_of x = SeeOther ''/login''"
  using assms
  by (auto simp: handleLogout_def AggAuth.DeleteSession_def db_DeleteSession_def run_exec time_Now_def tick_def quiet_def
      split: if_splits option.splits)

lemma web_quiet:
  assumes run: "run_state (web_mux E static r) s = (x, s')" and anon: "\<forall>u. \<not> web_presents E r (ticks s) (adb s) u"
  shows "quiet s s' \<and> ((\<exists>m u. body_of x = LoginPage m u) \<or> (\<exists>u. body_of x = SeeOther u) \<or>
     (\<exists>u. body_of x = Reply (redirect_response u)) \<or> body_of x \<in> {Reply http_NotFound, Reply (static (Req r))})"
proof (cases "mux_route web_routes (Req r)")
  case (Redirect u)
  with run show ?thesis by (auto simp: web_mux_def answer_def quiet_def)
next
  case Unrouted
  with run show ?thesis by (auto simp: web_mux_def answer_def quiet_def)
next
  case (Routed pat)
  with run have pat: "run_state (web_route E static pat r) s = (x, s')" by (simp add: web_mux_def)
  consider "pat = ''/static/''" | "pat = ''/login''" | "pat = ''/logout''" | k where "run_state (requireAuth E k r) s = (x, s')"
    using guarded_run [OF _ pat] by blast
  then show ?thesis
  proof cases
    case 1
    with pat show ?thesis by (auto simp: web_route_def answer_def quiet_def)
  next
    case 2
    with pat have "run_state (Web.handleLogin E r) s = (x, s')" by (simp add: web_route_def)
    from quiet_login [OF this] show ?thesis by auto
  next
    case 3
    with pat have "run_state (handleLogout E r) s = (x, s')" by (simp add: web_route_def)
    from quiet_logout [OF this] show ?thesis by auto
  next
    case 4
    from 4 anon show ?thesis by (cases rule: run_requireAuth) (auto simp: answer_def quiet_def)
  qed
qed

text \<open>
  C38. Without a credential the web interface is closed. A request that presents no valid session and no
  name and password of an enabled user changes nothing in the database but sessions, sends nothing
  to a BMC, and gets no page: it is answered with the login page, a redirect, a static file or
  404.
\<close>

theorem web_anonymous:
  assumes run: "run_state (web_mux E static r) s = (x, s')" and anon: "\<forall>u. \<not> web_presents E r (ticks s) (adb s) u"
  shows "quiet s s' \<and> ((\<exists>m u. body_of x = LoginPage m u) \<or> (\<exists>u. body_of x = SeeOther u) \<or>
     (\<exists>u. body_of x = Reply (redirect_response u)) \<or> body_of x \<in> {Reply http_NotFound, Reply (static (Req r))})"
  using web_quiet [OF assms] .

section \<open>Settings\<close>

lemma lookup_again:
  assumes "run_state (GetSettingDescriptor E name i) s = (Inr (Some d), s')" "bmcs (adb t) = bmcs (adb s)"
  shows "run_state (GetBMCByName E name) t \<noteq> (Inr None, t')"
  using assms by (auto simp: GetSettingDescriptor_def GetBMCByName_def run_query split: option.splits)

lemma settings_gate:
  assumes run: "run_state (handleUpdateSetting E user r name i) s = (x, s')" and sent: "outbound s' \<noteq> outbound s"
  shows "is_operator user \<and> (\<exists>c v row. let d = read_descriptor E name (settings_values (adb s)) row; b = read_bmc E c in
     List.find (\<lambda>c. BName c = name) (bmcs (adb s)) = Some c \<and> BEnabled c \<and> decode_value (Body (Req r)) = Some v \<and> find_descriptor (adb s) name i = Some row \<and>
     equal_fold (r_attribute row) bootOrderAttr \<and> \<not> r_read_only row \<and> validateSettingValue E d v = None \<and>
     outbound s' = outbound s @ [bmc_request b ''PATCH''
       (buildBMCURL b (if ActionTarget d \<noteq> '''' then ActionTarget d else ResourcePath d)) (RawJson (update_payload d v))])"
proof -
  from run sent have op: "is_operator user" by (auto simp: handleUpdateSetting_def split: if_splits)
  with run sent obtain v where v: "decode_value (Body (Req r)) = Some v"
    by (cases "decode_value (Body (Req r))") (auto simp: handleUpdateSetting_def)
  obtain l s1 where l: "run_state (GetSettingDescriptor E name i) s = (l, s1)" by fastforce
  note s1 = run_lookup [OF l]
  from run sent op v l s1 obtain d where d: "l = Inr (Some d)" "equal_fold (Attribute d) bootOrderAttr"
    by (auto simp: handleUpdateSetting_def split: sum.splits option.splits if_splits)
  obtain y s2 where y: "run_state (UpdateSetting E name i v) s1 = (y, s2)" by fastforce
  with run op v l d have s2: "s' = s2" by (auto simp: handleUpdateSetting_def)
  from update_sends(2) [OF y] sent s1(1,2) s2 obtain c row where row: "find_descriptor (adb s) name i = Some row"
    "let d = read_descriptor E name (settings_values (adb s)) row; b = read_bmc E c in
     List.find (\<lambda>c. BName c = name) (bmcs (adb s)) = Some c \<and> BEnabled c \<and> \<not> r_read_only row \<and> validateSettingValue E d v = None \<and>
     outbound s' = outbound s @ [bmc_request b ''PATCH''
       (buildBMCURL b (if ActionTarget d \<noteq> '''' then ActionTarget d else ResourcePath d)) (RawJson (update_payload d v))]"
    by (auto simp: Let_def)
  with s1(3) [OF d(1)] d(2) have "equal_fold (r_attribute row) bootOrderAttr" by (auto simp: read_descriptor_def Let_def)
  with op v row show ?thesis unfolding Let_def by blast
qed

text \<open>
  C39. Settings change only through the boot order. If an update through the web API sends anything to a
  BMC, the user is an operator or administrator, and what is sent is one PATCH of the value in the
  request, with the stored credential, to the enabled BMC of that name, at the target of a stored
  descriptor of that id whose attribute is \<open>Boot.BootOrder\<close>, is not read-only, and admits the value.
\<close>

theorem settings_update_gate:
  assumes "run_state (handleUpdateSetting E user r name i) s = (x, s')" "outbound s' \<noteq> outbound s"
  shows "is_operator user \<and> (\<exists>c v row. let d = read_descriptor E name (settings_values (adb s)) row; b = read_bmc E c in
     List.find (\<lambda>c. BName c = name) (bmcs (adb s)) = Some c \<and> BEnabled c \<and> decode_value (Body (Req r)) = Some v \<and> find_descriptor (adb s) name i = Some row \<and>
     equal_fold (r_attribute row) bootOrderAttr \<and> \<not> r_read_only row \<and> validateSettingValue E d v = None \<and>
     outbound s' = outbound s @ [bmc_request b ''PATCH''
       (buildBMCURL b (if ActionTarget d \<noteq> '''' then ActionTarget d else ResourcePath d)) (RawJson (update_payload d v))])"
  using assms by (rule settings_gate)

text \<open>
  The boot order cannot be set where it should be. For a descriptor with allowable values, none of
  which begins with a bracket, a list is never admitted: the request is refused and nothing is sent,
  whoever asks and whatever the list contains, the allowable values in their present order included.
\<close>

lemma boot_order_list_rejected:
  assumes run: "run_state (handleUpdateSetting E user r name i) s = (x, s')"
    and body: "decode_value (Body (Req r)) = Some (JArr vs)"
    and enums: "\<And>row. find_descriptor (adb s) name i = Some row \<Longrightarrow>
       unmarshal_list E (r_enum_values row) \<noteq> [] \<and> (\<forall>e \<in> set (unmarshal_list E (r_enum_values row)). \<not> has_prefix e ''['')"
  shows "outbound s' = outbound s \<and> (\<exists>y. body_of x = Reply y \<and> RCode y \<ge> 400)"
proof
  have never: "validateSettingValue E (read_descriptor E name vals row) (JArr vs) \<noteq> None" if "find_descriptor (adb s) name i = Some row" for vals row
    using enums [OF that] by (intro list_never_admitted) (simp_all add: read_descriptor_def Let_def)
  show "outbound s' = outbound s"
  proof (rule ccontr)
    assume "outbound s' \<noteq> outbound s"
    from settings_gate [OF run this] body obtain row where "find_descriptor (adb s) name i = Some row"
      "validateSettingValue E (read_descriptor E name (settings_values (adb s)) row) (JArr vs) = None"
      unfolding Let_def by auto
    with never show False by blast
  qed
  obtain l s1 where l: "run_state (GetSettingDescriptor E name i) s = (l, s1)" by fastforce
  obtain y s2 where y: "run_state (UpdateSetting E name i (JArr vs)) s1 = (y, s2)" by fastforce
  have "y \<noteq> Some None"
    using update_sends(2) [OF y] run_lookup(1) [OF l] never unfolding Let_def by metis
  moreover have "y \<noteq> None" if "l = Inr (Some d)" for d
    using y lookup_again [OF l [unfolded that], of s1] run_lookup(1) [OF l]
    by (auto simp: UpdateSetting_def split: sum.splits option.splits if_splits prod.splits)
  ultimately show "\<exists>y. body_of x = Reply y \<and> RCode y \<ge> 400"
    using run body l y
    by (cases y) (auto simp: handleUpdateSetting_def answer_def json_error_def split: if_splits sum.splits option.splits)
qed


text \<open>In machine integers that do not overflow a page is a segment of the list, and the pages together are the list.\<close>

lemma paginate_plain:
  assumes "0 < page" "0 < ps" "page * ps < 2 ^ 63"
  shows "paginate page ps xs = Some (take (nat ps) (drop (nat ((page - 1) * ps)) xs))"
proof -
  have le: "page \<le> page * ps" using assms by simp
  have sum: "(page - 1) * ps + ps = page * ps" by (simp add: algebra_simps)
  have start: "0 \<le> (page - 1) * ps" using assms by simp
  have "in_int64 (page - 1)" "in_int64 ((page - 1) * ps)" "in_int64 ((page - 1) * ps + ps)"
    using le sum start assms unfolding in_int64_def by linarith+
  then have w: "wrap64 (page - 1) = page - 1" "wrap64 ((page - 1) * ps) = (page - 1) * ps" "wrap64 ((page - 1) * ps + ps) = (page - 1) * ps + ps"
    by simp_all
  show ?thesis
    using assms start by (auto simp: paginate_def w Let_def min_def nat_diff_distrib' nat_add_distrib)
qed

lemma pages_prefix:
  assumes "0 < ps" "int n * ps < 2 ^ 63"
  shows "concat (map (\<lambda>p. the (paginate (int p) ps xs)) [1..<Suc n]) = take (n * nat ps) xs"
  using assms(2)
proof (induction n)
  case (Suc n)
  have "int n * ps \<le> int (Suc n) * ps" using assms(1) by (simp add: algebra_simps)
  with Suc.prems have le: "int n * ps < 2 ^ 63" by linarith
  have "paginate (int (Suc n)) ps xs = Some (take (nat ps) (drop (nat ((int (Suc n) - 1) * ps)) xs))"
    using assms(1) Suc.prems by (intro paginate_plain) auto
  moreover have "nat ((int (Suc n) - 1) * ps) = n * nat ps" using assms(1) by (simp add: nat_mult_distrib)
  moreover have "take (Suc n * nat ps) xs = take (n * nat ps) xs @ take (nat ps) (drop (n * nat ps) xs)"
    by (simp add: take_add [symmetric] add.commute)
  ultimately show ?case using Suc.IH [OF le] by simp
qed simp

text \<open>
  Paging through the settings shows every setting once and in order: as long as the number of
  pages times their size is a machine integer, the pages from the first on, put together, are the list.
\<close>

lemma settings_pages_cover:
  assumes "0 < ps" "int n * ps < 2 ^ 63" "length xs \<le> n * nat ps"
  shows "concat (map (\<lambda>p. the (paginate (int p) ps xs)) [1..<Suc n]) = xs"
  using pages_prefix [OF assms(1,2), of xs] assms(3) by simp

lemma settings_pages_cover_instance:
  "concat (map (\<lambda>p. the (paginate (int p) 2 ''abc'')) [1..<Suc 2]) = ''abc''"
  by (rule settings_pages_cover) simp_all

text \<open>Beyond that, a request can ask for a slice whose end lies before its start, and the handler panics.\<close>

lemma page_overflow: "length xs = 5 \<Longrightarrow> paginate (4 * (2 ^ 62 - 1) div 3 + 1) (2 ^ 63 - 3) xs = None"
  by (simp add: paginate_def wrap64_def Let_def min_def max_def)

section \<open>The form of a BMC\<close>

text \<open>
  The page on which a BMC is edited shows its password. Every authenticated user, whatever the role,
  who opens it gets a form in which the password of the BMC stands in clear, decrypted.
\<close>

lemma edit_page_shows_password:
  assumes user: "run_state (cookie_user E r) s = (Some u, s1)"
    and req: "URLPath (Req r) = ''/bmcs/edit''" "Method (Req r) = ''GET''" "Query (Req r) ''id'' \<noteq> ''''" "ParseInt (Query (Req r) ''id'') = Some (BID b)"
    and row: "b \<in> set (bmcs (adb s))" "distinct (map BID (bmcs (adb s)))"
    and db: "\<forall>n. stmt_fault E n = None"
  shows "\<exists>d. body_of (fst (run_state (web_mux E static r) s)) = Page ''edit bmc'' d \<and>
     map_of (bmc_form d) ''password'' = Some (decryptIfNeeded (crypt E) (encryptor E) (BPassword b))"
proof -
  have m: "cleanPath ''/bmcs/edit'' = ''/bmcs/edit''" "mux_match web_routes ''/bmcs/edit'' = Some ''/bmcs/edit''" by code_simp+
  have "mux_route web_routes (Req r) = Routed ''/bmcs/edit''" by (simp add: mux_route_def req m)
  then have rt: "web_mux E static r = requireAuth E (handleEditBMC E) r" by (simp add: web_mux_def web_route_def)
  from run_cookie_user(1) [OF user] obtain n where s1: "s1 = s\<lparr>ticks := n\<rparr>" by blast
  have "List.find (\<lambda>c. BID c = BID b) (bmcs (adb s)) = Some b"
    by (rule find_unique [OF row(2,1)])
  then show ?thesis
    using user db req
    by (simp add: rt requireAuth_def handleEditBMC_def with_id_def GetBMC_def run_query s1 answer_def bmc_form_def with_error_def page_data_def read_bmc_def)
qed


section \<open>Evaluation\<close>

definition web_lab_request :: "string \<Rightarrow> string \<Rightarrow> (string \<Rightarrow> string) \<Rightarrow> string option \<Rightarrow> raw_message \<Rightarrow> web_request" where
  "web_lab_request m p q tok b =
     \<lparr>Req = \<lparr>Method = m, URLPath = p, Header = (\<lambda>_. ''''), Query = q, Body = b, RemoteAddr = ''''\<rparr>,
      Cookie = (\<lambda>k. if k = ''session_token'' then tok else None), FormError = False, FormValue = q, URLString = p\<rparr>"

definition web_lab_env :: "unit set_env" where
  "web_lab_env = set_lab_env\<lparr>sql_after := (\<lambda>a b. a > b), now_at := int\<rparr>"

definition web_lab_state :: "unit set_state" where
  "web_lab_state = set_lab_state\<lparr>adb := (adb set_lab_state)\<lparr>users := [shoal_viewer, shoal_admin],
     sessions := [shoal_session ''v'' ''tok'', shoal_session ''a'' ''adm''], bmcs := [shoal_bmc]\<rparr>\<rparr>"

theorem web_anonymous_witness:
  "bmcs (adb (snd (run_state (web_mux web_lab_env (\<lambda>_. http_NotFound) (web_lab_request ''GET'' ''/bmcs/delete'' (\<lambda>_. ''1'') None RawEmpty)) set_lab_state))) =
   bmcs (adb set_lab_state)"
proof -
  let ?r = "web_lab_request ''GET'' ''/bmcs/delete'' (\<lambda>_. ''1'') None RawEmpty"
  let ?m = "run_state (web_mux web_lab_env (\<lambda>_. http_NotFound) ?r) set_lab_state"
  have "\<forall>u. \<not> web_presents web_lab_env ?r (ticks set_lab_state) (adb set_lab_state) u"
    by (simp add: web_presents_def set_lab_state_def lab_state_def ops_state.defs)
  from web_anonymous [OF prod.collapse [symmetric] this] have "quiet set_lab_state (snd ?m)" by blast
  then have "adb (snd ?m) = (adb set_lab_state)\<lparr>sessions := sessions (adb (snd ?m))\<rparr>" by (simp add: quiet_def)
  from arg_cong [OF this, of bmcs] show ?thesis by simp
qed

text \<open>The boot order of the laboratory, discovered, and an update with one plain value.\<close>

definition lab_setting :: string where
  "lab_setting = hashID [''rack1'', ''/redfish/v1/Systems/1'', ''Boot.BootOrder'']"

definition discovered_state :: "unit set_state" where
  "discovered_state = snd (run_state (DiscoverSettings set_lab_env False ''rack1'' ''boot'') set_lab_state)"

definition patch_request :: "json \<Rightarrow> web_request" where
  "patch_request v = web_lab_request ''PATCH'' ''/api/bmcs/rack1/settings/x'' (\<lambda>_. '''') None (RawJson (JObj [(''value'', v)]))"

theorem settings_update_gate_witness:
  "\<exists>row. find_descriptor (adb discovered_state) ''rack1'' lab_setting = Some row \<and> \<not> r_read_only row"
proof -
  let ?m = "run_state (handleUpdateSetting set_lab_env (Some shoal_admin) (patch_request (JStr ''Hdd'')) ''rack1'' lab_setting) discovered_state"
  have "length (outbound (snd ?m)) \<noteq> length (outbound discovered_state)" by code_simp
  then have "outbound (snd ?m) \<noteq> outbound discovered_state" by metis
  from settings_update_gate [OF prod.collapse [symmetric] this] show ?thesis unfolding Let_def by blast
qed

lemma boot_order_list_rejected_instance:
  "outbound (snd (run_state (handleUpdateSetting set_lab_env (Some shoal_admin) (patch_request (JArr [JStr ''Hdd'', JStr ''Pxe''])) ''rack1'' lab_setting)
     discovered_state)) = outbound discovered_state"
proof -
  let ?r = "patch_request (JArr [JStr ''Hdd'', JStr ''Pxe''])"
  have "map_option r_enum_values (find_descriptor (adb discovered_state) ''rack1'' lab_setting) = Some ''p''" by code_simp
  then have "r_enum_values row = ''p''" if "find_descriptor (adb discovered_state) ''rack1'' lab_setting = Some row" for row
    using that by simp
  moreover have "unmarshal_list set_lab_env ''p'' = [''Hdd'', ''Pxe'']" by code_simp
  moreover have "decode_value (Body (Req ?r)) = Some (JArr [JStr ''Hdd'', JStr ''Pxe''])" by code_simp
  ultimately show ?thesis
    using boot_order_list_rejected [of set_lab_env "Some shoal_admin" ?r "''rack1''" lab_setting discovered_state, OF prod.collapse [symmetric]] by simp
qed

lemma edit_page_shows_password_instance:
  "\<exists>d. body_of (fst (run_state (web_mux web_lab_env (\<lambda>_. http_NotFound)
        (web_lab_request ''GET'' ''/bmcs/edit'' (\<lambda>k. if k = ''id'' then ''1'' else '''') (Some ''tok'') RawEmpty)) web_lab_state)) = Page ''edit bmc'' d \<and>
     map_of (bmc_form d) ''password'' = Some ''calvin''"
proof -
  let ?r = "web_lab_request ''GET'' ''/bmcs/edit'' (\<lambda>k. if k = ''id'' then ''1'' else '''') (Some ''tok'') RawEmpty"
  have u: "fst (run_state (cookie_user web_lab_env ?r) web_lab_state) = Some shoal_viewer" by code_simp
  then have c: "run_state (cookie_user web_lab_env ?r) web_lab_state = (Some shoal_viewer, snd (run_state (cookie_user web_lab_env ?r) web_lab_state))"
    by (metis prod.collapse)
  have "\<forall>n. stmt_fault web_lab_env n = None" by (simp add: web_lab_env_def set_lab_env_def lab_env_def ops_env.defs)
  moreover have "ParseInt ''1'' = Some (BID shoal_bmc)" by code_simp
  moreover have "decryptIfNeeded (crypt web_lab_env) (encryptor web_lab_env) (BPassword shoal_bmc) = ''calvin''" by code_simp
  ultimately show ?thesis
    using edit_page_shows_password [OF c, of shoal_bmc "\<lambda>_. http_NotFound"]
    by (simp add: web_lab_request_def web_lab_state_def)
qed

end
