(* ===== verification/Shoal.thy ===== *)
theory Shoal
  imports WebProps
begin

text \<open>
  The aggregator program (\<open>cmd/shoal/main.go\<close>): the API below \<open>/redfish/\<close> and the web interface everywhere
  else, each with its own BMC service and its own caches, on one database. A start creates the first
  administrator; requests are served one after the other. The properties are about the database the
  two share.
\<close>

record 'w shoal =
  shared :: agg_db
  api_side :: "'w svc_state"
  web_side :: "'w set_state"

datatype shoal_event = Start string | Request web_request http_header

definition shoal_routes :: "string list" where
  "shoal_routes = [''/redfish/'', ''/'']"

definition serve_api :: "'w api_env \<Rightarrow> web_request \<Rightarrow> http_header \<Rightarrow> 'w shoal \<Rightarrow> 'w shoal" where
  "serve_api A r hdrs y =
     (let s = snd (run_state (api_mux A (Req r) hdrs) ((api_side y)\<lparr>adb := shared y\<rparr>)) in y\<lparr>shared := adb s, api_side := s\<rparr>)"

definition serve_web :: "'w set_env \<Rightarrow> (request \<Rightarrow> response) \<Rightarrow> web_request \<Rightarrow> 'w shoal \<Rightarrow> 'w shoal" where
  "serve_web W static r y =
     (let s = snd (run_state (web_mux W static r) ((web_side y)\<lparr>adb := shared y\<rparr>)) in y\<lparr>shared := adb s, web_side := s\<rparr>)"

definition start_shoal :: "'w api_env \<Rightarrow> string \<Rightarrow> 'w shoal \<Rightarrow> 'w shoal" where
  "start_shoal A pw y =
     (let s = snd (run_state (createDefaultAdminUser A pw) ((api_side y)\<lparr>adb := shared y\<rparr>)) in y\<lparr>shared := adb s, api_side := s\<rparr>)"

fun shoal_step :: "'w api_env \<Rightarrow> 'w set_env \<Rightarrow> (request \<Rightarrow> response) \<Rightarrow> shoal_event \<Rightarrow> 'w shoal \<Rightarrow> 'w shoal" where
  "shoal_step A W static (Start pw) y = start_shoal A pw y"
| "shoal_step A W static (Request r hdrs) y =
     (case mux_route shoal_routes (Req r) of
        Routed pat \<Rightarrow> if pat = ''/redfish/'' then serve_api A r hdrs y else serve_web W static r y
      | _ \<Rightarrow> y)"

section \<open>The invariant of the schema\<close>

definition settings_ok :: "agg_db \<Rightarrow> bool" where
  "settings_ok d \<longleftrightarrow>
     distinct (map r_id (settings_descriptors d)) \<and> distinct (map v_descriptor_id (settings_values d)) \<and>
     (\<forall>r \<in> set (settings_descriptors d). \<exists>b \<in> set (bmcs d). BID b = r_bmc_id r) \<and>
     (\<forall>v \<in> set (settings_values d). \<exists>r \<in> set (settings_descriptors d). r_id r = v_descriptor_id v)"

text \<open>Rows with the keys of rows that refer to each other keep referring to each other.\<close>

lemma settings_ok_cong:
  assumes "settings_ok d" "settings_descriptors d' = settings_descriptors d" "settings_values d' = settings_values d"
    and "BID ` set (bmcs d) \<subseteq> BID ` set (bmcs d')"
  shows "settings_ok d'"
  using assms unfolding settings_ok_def by (auto simp: image_iff subset_iff) metis

lemma map_upsert_keys: "map k (upd_where (\<lambda>r. k r = k x) (\<lambda>_. x) rows) = map k rows"
  by (auto simp: upd_where_def)

lemma keys_upsert: "set (map k (upsert_row k x rows)) = insert (k x) (set (map k rows))"
proof (cases "has_row (\<lambda>r. k r = k x) rows")
  case True
  then have "k x \<in> set (map k rows)" by (auto simp: has_row_def list_ex_iff) (metis imageI)
  with True show ?thesis unfolding upsert_row_def by (simp only: if_True map_upsert_keys) auto
qed (auto simp: upsert_row_def)

lemma distinct_upsert: "distinct (map k rows) \<Longrightarrow> distinct (map k (upsert_row k x rows))"
  unfolding upsert_row_def by (cases "has_row (\<lambda>r. k r = k x) rows") (simp_all only: if_True if_False map_upsert_keys, auto simp: has_row_def list_ex_iff)

lemma in_upsert: "y \<in> set (upsert_row k x rows) \<Longrightarrow> y = x \<or> y \<in> set rows"
  by (auto simp: upsert_row_def upd_where_def split: if_splits)

lemma settings_ok_upserts:
  "settings_ok d \<Longrightarrow> upsert_descriptor r d = Inr d' \<Longrightarrow> settings_ok d'"
  "settings_ok d \<Longrightarrow> upsert_value v d = Inr d' \<Longrightarrow> settings_ok d'"
proof -
  assume ok: "settings_ok d"
  show "settings_ok d'" if "upsert_descriptor r d = Inr d'"
  proof -
    from that have d': "d' = d\<lparr>settings_descriptors := upsert_row r_id r (settings_descriptors d)\<rparr>" "\<exists>b \<in> set (bmcs d). BID b = r_bmc_id r"
      by (auto simp: upsert_descriptor_def has_row_def list_ex_iff split: if_splits)
    have "\<exists>x \<in> set (upsert_row r_id r (settings_descriptors d)). r_id x = v_descriptor_id v" if "v \<in> set (settings_values d)" for v
      using ok that keys_upsert [of r_id r "settings_descriptors d"] unfolding settings_ok_def by (metis imageE imageI insertI2 set_map)
    then show ?thesis
      using ok d'(2) in_upsert [of _ r_id r "settings_descriptors d"] by (auto simp: d'(1) settings_ok_def distinct_upsert)
  qed
  show "settings_ok d'" if "upsert_value v d = Inr d'"
  proof -
    from that have "d' = d\<lparr>settings_values := upsert_row v_descriptor_id v (settings_values d)\<rparr>" "\<exists>r \<in> set (settings_descriptors d). r_id r = v_descriptor_id v"
      by (auto simp: upsert_value_def has_row_def list_ex_iff split: if_splits)
    with ok show ?thesis by (auto simp: settings_ok_def distinct_upsert dest!: in_upsert)
  qed
qed

lemma settings_ok_delete:
  assumes "settings_ok d"
  shows "settings_ok (delete_bmc i d)"
proof -
  have "\<exists>r \<in> set (settings_descriptors d). r_bmc_id r \<noteq> i \<and> r_id r = v_descriptor_id v"
    if "v \<in> set (settings_values d)" "v_descriptor_id v \<notin> r_id ` {r \<in> set (settings_descriptors d). r_bmc_id r = i}" for v
    using assms that unfolding settings_ok_def by (metis (mono_tags, lifting) imageI mem_Collect_eq)
  moreover have "\<exists>b \<in> set (bmcs d). BID b \<noteq> i \<and> BID b = r_bmc_id r" if "r \<in> set (settings_descriptors d)" "r_bmc_id r \<noteq> i" for r
    using assms that unfolding settings_ok_def by metis
  ultimately show ?thesis
    using assms by (simp add: settings_ok_def delete_bmc_def Let_def distinct_map_filter_keep Bex_def)
qed

lemma bmc_statements_ok:
  "insert_bmc b pw now d = (Inr j, d') \<Longrightarrow> db_ok d \<Longrightarrow> db_ok d'"
  "update_bmc b pw now d = (Inr u, d') \<Longrightarrow> db_ok d \<Longrightarrow> db_ok d'"
  "db_ok d \<Longrightarrow> db_ok (delete_bmc i d)"
proof -
  show "insert_bmc b pw now d = (Inr j, d') \<Longrightarrow> db_ok d \<Longrightarrow> db_ok d'"
    by (fastforce simp: insert_bmc_def db_ok_def has_row_def list_ex_iff Let_def split: if_splits)
  assume up: "update_bmc b pw now d = (Inr u, d')" and ok: "db_ok d"
  then have free: "has_row (\<lambda>c. BID c = BID b) (bmcs d) \<Longrightarrow> \<not> has_row (\<lambda>c. BID c \<noteq> BID b \<and> BName c = BName b) (bmcs d)"
    by (auto simp: update_bmc_def split: if_splits)
  have "distinct (map BName (bmcs d'))"
  proof (cases "has_row (\<lambda>c. BID c = BID b) (bmcs d)")
    case True
    with free ok up show ?thesis
      by (auto simp: update_bmc_def db_ok_def has_row_def list_ex_iff split: if_splits intro!: distinct_rename)
  next
    case False
    then have "upd_where (\<lambda>c. BID c = BID b) f (bmcs d) = bmcs d" for f
      by (intro upd_where_id) (auto simp: has_row_def list_ex_iff)
    with ok up show ?thesis by (auto simp: update_bmc_def db_ok_def split: if_splits)
  qed
  with ok up show "db_ok d'"
    by (auto simp: update_bmc_def db_ok_def map_upd_where in_upd_where split: if_splits) metis+
next
  show "db_ok d \<Longrightarrow> db_ok (delete_bmc i d)" by (auto simp: db_ok_def delete_bmc_def Let_def distinct_map_filter_keep)
qed

definition full_ok :: "agg_db \<Rightarrow> bool" where
  "full_ok d \<longleftrightarrow> db_ok d \<and> settings_ok d"

interpretation full: web_account_frame "\<lambda>d d'. full_ok d \<longrightarrow> full_ok d'"
proof
  have keep: "full_ok d \<longrightarrow> full_ok d'"
    if "db_ok d \<longrightarrow> db_ok d'" "settings_descriptors d' = settings_descriptors d" "settings_values d' = settings_values d"
      "BID ` set (bmcs d) \<subseteq> BID ` set (bmcs d')" for d d'
    using that settings_ok_cong unfolding full_ok_def by blast
  show "full_ok d \<longrightarrow> full_ok (d\<lparr>settings := AList.update k v (settings d)\<rparr>)" for d k v by (rule keep) (simp_all add: schema.R_settings)
  show "insert_session x now d = (Inr u, d') \<Longrightarrow> full_ok d \<longrightarrow> full_ok d'" for x now d u d'
    by (rule keep) (auto simp: insert_session_def intro: schema.R_session [rule_format] split: if_splits)
  show "full_ok d \<longrightarrow> full_ok (d\<lparr>sessions := filter P (sessions d)\<rparr>)" for d P by (rule keep) (simp_all add: schema.R_logout)
  show "insert_method m pw now d = (Inr u, d') \<Longrightarrow> full_ok d \<longrightarrow> full_ok d'" for m pw now d u d'
    by (rule keep) (auto simp: insert_method_def intro: schema.R_method [rule_format] split: if_splits)
  show "full_ok d \<longrightarrow> full_ok (d\<lparr>connection_methods := filter Q (connection_methods d)\<rparr>)" for d Q by (rule keep) (simp_all add: schema.R_drop_method)
  have bids: "BID ` set (upd_where C f bs) = BID ` set bs" if "\<And>b. BID (f b) = BID b" for C f and bs :: "BMC list"
    by (metis map_upd_where set_map that)
  show "full_ok d \<longrightarrow> full_ok (d\<lparr>bmcs := upd_where C (\<lambda>b. b\<lparr>BLastSeen := t\<rparr>) (bmcs d)\<rparr>)" for d C t
    by (rule keep) (simp_all add: schema.R_seen bids)
  show "insert_bmc b pw now d = (Inr i, d') \<Longrightarrow> full_ok d \<longrightarrow> full_ok d'" for b pw now d i d'
    by (rule keep) (use bmc_statements_ok(1) in blast, auto simp: insert_bmc_def Let_def split: if_splits)
  show "update_bmc b pw now d = (Inr u, d') \<Longrightarrow> full_ok d \<longrightarrow> full_ok d'" for b pw now d u d'
    by (rule keep) (use bmc_statements_ok(2) in blast, auto simp: update_bmc_def bids split: if_splits)
  show "full_ok d \<longrightarrow> full_ok (delete_bmc i d)" for d i by (simp add: full_ok_def bmc_statements_ok(3) settings_ok_delete)
  show "upsert_descriptor r d = Inr d' \<Longrightarrow> full_ok d \<longrightarrow> full_ok d'" for r d d'
    using settings_ok_upserts(1) [of d r d'] by (auto simp: full_ok_def) (auto simp: upsert_descriptor_def db_ok_def split: if_splits)
  show "upsert_value v d = Inr d' \<Longrightarrow> full_ok d \<longrightarrow> full_ok d'" for v d d'
    using settings_ok_upserts(2) [of d v d'] by (auto simp: full_ok_def) (auto simp: upsert_value_def db_ok_def split: if_splits)
  show "insert_user u now d = (Inr x, d') \<Longrightarrow> full_ok d \<longrightarrow> full_ok d'" for u now d x d'
    by (rule keep) (auto simp: insert_user_def intro: schema.R_insert_user [rule_format] split: if_splits)
  show "update_user u now d = (Inr x, d') \<Longrightarrow> full_ok d \<longrightarrow> full_ok d'" for u now d x d'
    by (rule keep) (auto simp: update_user_def intro: schema.R_update_user [rule_format] split: if_splits)
  show "full_ok d \<longrightarrow> full_ok (delete_user i d)" for d i by (rule keep) (simp_all add: schema.R_delete_user, simp_all add: delete_user_def)
qed auto

lemma run_full_ok:
  "preserves (\<lambda>d d'. full_ok d \<longrightarrow> full_ok d') m \<Longrightarrow> full_ok (adb s) \<Longrightarrow> full_ok (adb (snd (run_state m s)))"
  by (auto simp: preserves_def)

lemma shoal_step_ok: "full_ok (shared y) \<Longrightarrow> full_ok (shared (shoal_step A W static e y))"
proof -
  assume ok: "full_ok (shared y)"
  show ?thesis
    using ok run_full_ok [OF full.api, of "(api_side y)\<lparr>adb := shared y\<rparr>"] run_full_ok [OF full.first_start, of "(api_side y)\<lparr>adb := shared y\<rparr>"]
      run_full_ok [OF full.web, of "(web_side y)\<lparr>adb := shared y\<rparr>"]
    by (cases e) (auto simp: serve_api_def serve_web_def start_shoal_def Let_def split: routed.split)
qed

definition empty_db :: agg_db where
  "empty_db = \<lparr>settings = [], users = [], sessions = [], bmcs = [], last_bmc = 0, connection_methods = [],
     settings_descriptors = [], settings_values = []\<rparr>"

text \<open>
  C30. From an empty database, whatever starts, API requests and web requests follow, with whatever faults
  of statements, answers of BMCs, caches and random bytes, the tables keep the invariant of the
  schema: ids, user names, session tokens, BMC names and connection method names are unique, and
  every session belongs to a user, every setting descriptor to a BMC and every value to a descriptor
  that exists, so deleting a user or a BMC never leaves rows behind.
\<close>

theorem schema_invariant:
  assumes "shared y = empty_db"
  shows "full_ok (shared (fold (shoal_step A W static) es y))"
proof -
  have "full_ok (shared (fold (shoal_step A W static) es y))" if "full_ok (shared y)" for y
    using that by (induction es arbitrary: y) (simp_all add: shoal_step_ok)
  with assms show ?thesis by (simp add: empty_db_def full_ok_def db_ok_def settings_ok_def)
qed

section \<open>Who changes users\<close>

text \<open>
  C31. Users change only for administrators, or their own password for themselves. If a request to the
  program changed the table of users, then it was a write to the accounts of the API with the
  credential of an enabled administrator, or a form of the user management of the web interface (for
  a deletion any request) with such a credential, or a user who gave the current password changed
  it, and nothing but this password was changed.
\<close>

theorem users_guard:
  assumes "users (shared (shoal_step A W static (Request r hdrs) y)) \<noteq> users (shared y)" and "full_ok (shared y)"
  shows "(\<exists>u. presents A (Req r) (ticks (api_side y)) (shared y) u \<and> IsAdmin u \<and> Method (Req r) \<in> {''POST'', ''PATCH'', ''DELETE''} \<and>
       has_prefix (URLPath (Req r)) ''/redfish/v1/AccountService/Accounts'') \<or>
     (\<exists>u. web_presents W r (ticks (web_side y)) (shared y) u \<and>
       (IsAdmin u \<and> manages_users r \<or> own_password W r u (shared y) (shared (shoal_step A W static (Request r hdrs) y))))"
proof -
  from assms(1) obtain pat where pat: "mux_route shoal_routes (Req r) = Routed pat" by (auto split: routed.splits)
  show ?thesis
  proof (cases "pat = ''/redfish/''")
    case True
    let ?s = "(api_side y)\<lparr>adb := shared y\<rparr>"
    from assms(1) pat True have "users (adb (snd (run_state (api_mux A (Req r) hdrs) ?s))) \<noteq> users (adb ?s)"
      by (simp add: serve_api_def Let_def)
    from api_users [OF prod.collapse [symmetric] this] show ?thesis by simp
  next
    case False
    let ?s = "(web_side y)\<lparr>adb := shared y\<rparr>"
    from assms(1) pat False have "users (adb (snd (run_state (web_mux W static r) ?s))) \<noteq> users (adb ?s)"
      by (simp add: serve_web_def Let_def)
    from web_user_changes [OF prod.collapse [symmetric] this] assms(2) pat False show ?thesis
      by (auto simp: full_ok_def serve_web_def Let_def)
  qed
qed


section \<open>Losing the last administrator\<close>

lemma locked_out_step:
  assumes "locked_out (shared y)"
  shows "users (shared (shoal_step A W static e y)) = users (shared y)"
proof (cases e)
  case (Start pw)
  with assms show ?thesis
    by (auto simp: start_shoal_def Let_def createDefaultAdminUser_def CountUsers_def run_query locked_out_def split: option.splits)
next
  case (Request r hdrs)
  let ?a = "(api_side y)\<lparr>adb := shared y\<rparr>" and ?w = "(web_side y)\<lparr>adb := shared y\<rparr>"
  have "users (adb (snd (run_state (api_mux A (Req r) hdrs) ?a))) = users (shared y)"
    using assms api_users [of A "Req r" hdrs ?a, OF prod.collapse [symmetric]] by (auto simp: presents_def locked_out_def)
  moreover have "\<forall>u. \<not> web_presents W r (ticks ?w) (adb ?w) u" using assms by (auto simp: web_presents_def locked_out_def)
  from web_quiet [OF prod.collapse [symmetric] this] have "quiet ?w (snd (run_state (web_mux W static r) ?w))" by blast
  then have "users (adb (snd (run_state (web_mux W static r) ?w))) = users (shared y)" by (auto simp: quiet_def dest: arg_cong [of _ _ users])
  ultimately show ?thesis using Request by (simp add: serve_api_def serve_web_def Let_def split: routed.split)
qed

lemma locked_out_forever:
  "locked_out (shared y) \<Longrightarrow> users (shared (fold (shoal_step A W static) es y)) = users (shared y)"
proof (induction es arbitrary: y)
  case (Cons e es)
  then have "users (shared (shoal_step A W static e y)) = users (shared y)" by (rule_tac locked_out_step)
  with Cons show ?case by (simp add: locked_out_def)
qed simp


section \<open>Evaluation\<close>

definition lab_shoal :: "agg_db \<Rightarrow> unit shoal" where
  "lab_shoal d = \<lparr>shared = d, api_side = shoal_state [] [], web_side = set_lab_state\<rparr>"

text \<open>The first start, and a request to delete a BMC without a session.\<close>

definition first_start :: "unit shoal" where
  "first_start = fold (shoal_step (shoal_env\<lparr>rand_Read := (\<lambda>n k. Inr [CHR ''A''])\<rparr>) web_lab_env (\<lambda>_. http_NotFound)) 
     [Start ''pw'', Request (web_lab_request ''GET'' ''/bmcs/delete'' (\<lambda>_. ''1'') None RawEmpty) []]
     (lab_shoal empty_db)"

theorem schema_invariant_witness:
  "map Username (users (shared first_start)) = [''admin''] \<and> full_ok (shared first_start)"
proof
  show "map Username (users (shared first_start)) = [''admin'']" by code_simp
  show "full_ok (shared first_start)" unfolding first_start_def by (rule schema_invariant) (simp add: lab_shoal_def)
qed

text \<open>An administrator deletes a viewer on the web page.\<close>

theorem users_guard_witness:
  "\<exists>u. web_presents web_lab_env (web_lab_request ''GET'' ''/users/delete'' (\<lambda>_. ''v'') (Some ''adm'') RawEmpty) 0 (adb web_lab_state) u \<and> IsAdmin u"
proof -
  let ?r = "web_lab_request ''GET'' ''/users/delete'' (\<lambda>_. ''v'') (Some ''adm'') RawEmpty"
  let ?y = "lab_shoal (adb web_lab_state)"
  have "length (users (shared (shoal_step shoal_env web_lab_env (\<lambda>_. http_NotFound) (Request ?r []) ?y))) = 1" by code_simp
  moreover have "length (users (shared ?y)) = 2" "ticks (web_side ?y) = 0" "shared ?y = adb web_lab_state"
    by (simp_all add: lab_shoal_def web_lab_state_def set_lab_state_def lab_state_def ops_state.defs)
  moreover have "full_ok (shared ?y)"
    by (simp add: lab_shoal_def web_lab_state_def set_lab_state_def lab_state_def ops_state.defs full_ok_def db_ok_def settings_ok_def
        shoal_admin_def shoal_viewer_def shoal_session_def shoal_bmc_def)
  moreover from calculation have "users (shared (shoal_step shoal_env web_lab_env (\<lambda>_. http_NotFound) (Request ?r []) ?y)) \<noteq> users (shared ?y)"
    by (metis numeral_eq_one_iff semiring_norm(85))
  moreover note users_guard [OF this(1) calculation(5)]
  ultimately show ?thesis by (auto simp: web_lab_request_def own_password_def)
qed


end
