(* ===== verification/Store.thy ===== *)
theory Store
  imports Prelude
begin

text \<open>
  The provisioner's data model (\<open>pkg/provisioner/models.go\<close>) and its SQLite store
  (\<open>internal/provisioner/store/store.go\<close>). The database is the record \<open>store\<close>; the \<open>jobs\<close>
  and \<open>job_events\<close> tables are lists in row order, \<open>servers\<close> and \<open>settings\<close> maps by primary key.
  Every operation takes the driver's behaviour as an argument of type \<open>faults\<close>: the error text
  of its \<open>i\<close>-th statement, or \<open>None\<close> where the statement succeeds. The value of
  \<open>time.Now().UTC()\<close> is the argument \<open>now\<close>. Timestamps compare as instants.
\<close>

section \<open>The data model\<close>

type_synonym JobStatus = string

abbreviation JobStatusQueued :: JobStatus where "JobStatusQueued \<equiv> ''queued''"
abbreviation JobStatusProvisioning :: JobStatus where "JobStatusProvisioning \<equiv> ''provisioning''"
abbreviation JobStatusSucceeded :: JobStatus where "JobStatusSucceeded \<equiv> ''succeeded''"
abbreviation JobStatusFailed :: JobStatus where "JobStatusFailed \<equiv> ''failed''"
abbreviation JobStatusComplete :: JobStatus where "JobStatusComplete \<equiv> ''complete''"

definition Valid :: "JobStatus \<Rightarrow> bool" where
  "Valid s \<longleftrightarrow> s = JobStatusQueued \<or> s = JobStatusProvisioning \<or> s = JobStatusSucceeded \<or>
     s = JobStatusFailed \<or> s = JobStatusComplete"

definition IsTerminal :: "JobStatus \<Rightarrow> bool" where
  "IsTerminal s \<longleftrightarrow> s = JobStatusSucceeded \<or> s = JobStatusFailed \<or> s = JobStatusComplete"

type_synonym EventLevel = string

abbreviation EventLevelInfo :: EventLevel where "EventLevelInfo \<equiv> ''info''"
abbreviation EventLevelWarn :: EventLevel where "EventLevelWarn \<equiv> ''warn''"
abbreviation EventLevelError :: EventLevel where "EventLevelError \<equiv> ''error''"

record server =
  Serial :: string
  BMCAddress :: string
  BMCUser :: string
  BMCPass :: string
  Vendor :: string
  LastSeen :: "time option"

record job =
  ID :: string
  ServerSerial :: string
  Status :: JobStatus
  FailedStep :: "string option"
  Recipe :: raw_message
  CreatedAt :: time
  UpdatedAt :: time
  PickedAt :: "time option"
  WorkerID :: "string option"
  LeaseExpiresAt :: "time option"
  TaskISOPath :: "string option"
  MaintenanceISOURL :: string

record job_event =
  EventID :: int
  JobID :: string
  Time :: time
  Level :: EventLevel
  Message :: string
  Step :: "string option"

definition NewJob :: "time \<Rightarrow> string \<Rightarrow> raw_message \<Rightarrow> string \<Rightarrow> job" where
  "NewJob now serverSerial recipe maintenanceISOURL =
     \<lparr>ID = '''', ServerSerial = serverSerial, Status = JobStatusQueued, FailedStep = None,
      Recipe = recipe, CreatedAt = now, UpdatedAt = now, PickedAt = None, WorkerID = None,
      LeaseExpiresAt = None, TaskISOPath = None, MaintenanceISOURL = maintenanceISOURL\<rparr>"

section \<open>The database\<close>

text \<open>A row of \<open>servers\<close>: \<open>vendor\<close> and \<open>last_seen\<close> are nullable columns.\<close>

record server_row =
  row_addr :: string
  row_user :: string
  row_pass :: string
  row_vendor :: "string option"
  row_lastSeen :: "time option"

record store =
  settings :: "string \<rightharpoonup> string"
  servers :: "string \<rightharpoonup> server_row"
  jobs :: "job list"
  job_events :: "job_event list"
  next_event_id :: int

definition empty_store :: store where
  "empty_store = \<lparr>settings = Map.empty, servers = Map.empty, jobs = [], job_events = [],
     next_event_id = 1\<rparr>"

datatype store_err = ErrNotFound | InvalidStatus string | DbError string

definition store_err_text :: "store_err \<Rightarrow> string" where
  "store_err_text e =
     (case e of
        ErrNotFound \<Rightarrow> ''not found''
      | InvalidStatus s \<Rightarrow> ''invalid status: '' @ s
      | DbError m \<Rightarrow> m)"

type_synonym faults = "nat \<Rightarrow> string option"
type_synonym 'a result = "store_err + 'a"

abbreviation no_faults :: faults where "no_faults \<equiv> (\<lambda>_. None)"

text \<open>A statement with its error prefix: the driver's error, or the effect.\<close>

definition exec_stmt :: "string option \<Rightarrow> string \<Rightarrow> 'a result \<times> store \<Rightarrow> store \<Rightarrow> 'a result \<times> store" where
  "exec_stmt f pre ok s = (case f of Some m \<Rightarrow> (Inl (DbError (pre @ m)), s) | None \<Rightarrow> ok)"

lemma exec_stmt_None [simp]: "exec_stmt None pre ok s = ok"
  by (simp add: exec_stmt_def)

lemma exec_stmt_Some [simp]: "exec_stmt (Some m) pre ok s = (Inl (DbError (pre @ m)), s)"
  by (simp add: exec_stmt_def)

subsection \<open>Settings\<close>

definition SetSetting :: "faults \<Rightarrow> string \<Rightarrow> string \<Rightarrow> store \<Rightarrow> unit result \<times> store" where
  "SetSetting f key v s =
     exec_stmt (f 0) '''' (Inr (), s\<lparr>settings := (settings s)(key \<mapsto> v)\<rparr>) s"

definition GetSetting :: "faults \<Rightarrow> string \<Rightarrow> store \<Rightarrow> string result" where
  "GetSetting f key s =
     (case f 0 of
        Some m \<Rightarrow> Inl (DbError m)
      | None \<Rightarrow> (case settings s key of None \<Rightarrow> Inl ErrNotFound | Some v \<Rightarrow> Inr v))"

subsection \<open>Servers\<close>

definition nullIfEmpty :: "string \<Rightarrow> string option" where
  "nullIfEmpty v = (if v = '''' then None else Some v)"

definition fromNullString :: "string option \<Rightarrow> string" where
  "fromNullString ns = (case ns of Some v \<Rightarrow> v | None \<Rightarrow> '''')"

definition UpsertServer :: "faults \<Rightarrow> server \<Rightarrow> store \<Rightarrow> unit result \<times> store" where
  "UpsertServer f sv s =
     exec_stmt (f 0) ''upsert server: ''
       (Inr (), s\<lparr>servers := (servers s)(Serial sv \<mapsto>
          \<lparr>row_addr = BMCAddress sv, row_user = BMCUser sv, row_pass = BMCPass sv,
           row_vendor = nullIfEmpty (Vendor sv), row_lastSeen = LastSeen sv\<rparr>)\<rparr>) s"

definition GetServerBySerial :: "faults \<Rightarrow> string \<Rightarrow> store \<Rightarrow> server result" where
  "GetServerBySerial f serial s =
     (case f 0 of
        Some m \<Rightarrow> Inl (DbError (''get server: '' @ m))
      | None \<Rightarrow>
          (case servers s serial of
             None \<Rightarrow> Inl ErrNotFound
           | Some row \<Rightarrow> Inr
               \<lparr>Serial = serial, BMCAddress = row_addr row, BMCUser = row_user row,
                BMCPass = row_pass row, Vendor = fromNullString (row_vendor row),
                LastSeen = row_lastSeen row\<rparr>))"

subsection \<open>Jobs\<close>

text \<open>
  The constraints of the \<open>jobs\<close> table: \<open>PRIMARY KEY\<close>, the foreign key to \<open>servers\<close> and the
  \<open>CHECK\<close> on \<open>status\<close>.
\<close>

definition job_constraints :: "job \<Rightarrow> store \<Rightarrow> bool" where
  "job_constraints j s \<longleftrightarrow>
     ID j \<notin> ID ` set (jobs s) \<and> servers s (ServerSerial j) \<noteq> None \<and> Valid (Status j)"

definition InsertJob :: "faults \<Rightarrow> job \<Rightarrow> store \<Rightarrow> unit result \<times> store" where
  "InsertJob f j s =
     exec_stmt (f 0) ''insert job: ''
       (if job_constraints j s then (Inr (), s\<lparr>jobs := jobs s @ [j]\<rparr>)
        else (Inl (DbError ''insert job: constraint failed''), s)) s"

definition job_by_id :: "store \<Rightarrow> string \<Rightarrow> job option" where
  "job_by_id s i = find (\<lambda>j. ID j = i) (jobs s)"

definition GetJobByID :: "faults \<Rightarrow> string \<Rightarrow> store \<Rightarrow> job result" where
  "GetJobByID f i s =
     (case f 0 of
        Some m \<Rightarrow> Inl (DbError (''get job: '' @ m))
      | None \<Rightarrow> (case job_by_id s i of None \<Rightarrow> Inl ErrNotFound | Some j \<Rightarrow> Inr j))"

definition active_job :: "store \<Rightarrow> string \<Rightarrow> job option" where
  "active_job s serial =
     first_min (\<lambda>j. - CreatedAt j)
       (filter (\<lambda>j. ServerSerial j = serial \<and> Status j = JobStatusProvisioning) (jobs s))"

definition GetActiveProvisioningJobBySerial :: "faults \<Rightarrow> string \<Rightarrow> store \<Rightarrow> job result" where
  "GetActiveProvisioningJobBySerial f serial s =
     (case f 0 of
        Some m \<Rightarrow> Inl (DbError (''get active job by serial: '' @ m))
      | None \<Rightarrow> (case active_job s serial of None \<Rightarrow> Inl ErrNotFound | Some j \<Rightarrow> Inr j))"

definition UpdateJobTaskISOPath ::
  "faults \<Rightarrow> time \<Rightarrow> string \<Rightarrow> string \<Rightarrow> store \<Rightarrow> unit result \<times> store" where
  "UpdateJobTaskISOPath f now i path s =
     exec_stmt (f 0) ''update task iso path: ''
       (Inr (), s\<lparr>jobs := upd_where (\<lambda>j. ID j = i)
          (\<lambda>j. j\<lparr>TaskISOPath := Some path, UpdatedAt := now\<rparr>) (jobs s)\<rparr>) s"

definition MarkJobStatus ::
  "faults \<Rightarrow> time \<Rightarrow> string \<Rightarrow> JobStatus \<Rightarrow> string option \<Rightarrow> store \<Rightarrow> unit result \<times> store" where
  "MarkJobStatus f now i status failedStep s =
     (if \<not> Valid status then (Inl (InvalidStatus status), s)
      else exec_stmt (f 0) ''''
        (Inr (), s\<lparr>jobs := upd_where (\<lambda>j. ID j = i)
           (\<lambda>j. j\<lparr>Status := status, FailedStep := failedStep, UpdatedAt := now\<rparr>) (jobs s)\<rparr>) s)"

definition ListJobsByStatus :: "faults \<Rightarrow> JobStatus \<Rightarrow> store \<Rightarrow> (job list) result" where
  "ListJobsByStatus f status s =
     (if \<not> Valid status then Inl (InvalidStatus status)
      else (case f 0 of
              Some m \<Rightarrow> Inl (DbError (''list jobs by status: '' @ m))
            | None \<Rightarrow> Inr (sort_key CreatedAt (filter (\<lambda>j. Status j = status) (jobs s)))))"

definition RequeueProvisioningJob :: "faults \<Rightarrow> time \<Rightarrow> string \<Rightarrow> store \<Rightarrow> unit result \<times> store" where
  "RequeueProvisioningJob f now i s =
     (let P = (\<lambda>j. ID j = i \<and> Status j = JobStatusProvisioning)
      in exec_stmt (f 0) ''requeue provisioning job: ''
        (if rows_where P (jobs s) = 0 then (Inl ErrNotFound, s)
         else (Inr (), s\<lparr>jobs := upd_where P
           (\<lambda>j. j\<lparr>Status := JobStatusQueued, FailedStep := None, WorkerID := None, PickedAt := None,
                  LeaseExpiresAt := None, TaskISOPath := None, UpdatedAt := now\<rparr>) (jobs s)\<rparr>)) s)"

subsection \<open>Leasing\<close>

text \<open>
  \<open>AcquireQueuedJob\<close> runs in one transaction: statements 0 to 4 are \<open>BEGIN\<close>, the candidate
  \<open>SELECT\<close>, the guarded \<open>UPDATE\<close>, the re-read of the row and \<open>COMMIT\<close>. Any error rolls back.
\<close>

definition next_queued :: "store \<Rightarrow> job option" where
  "next_queued s = first_min CreatedAt (filter (\<lambda>j. Status j = JobStatusQueued) (jobs s))"

definition lease_job :: "time \<Rightarrow> time \<Rightarrow> string \<Rightarrow> job \<Rightarrow> job" where
  "lease_job now leaseUntil workerID j =
     j\<lparr>Status := JobStatusProvisioning, WorkerID := Some workerID, PickedAt := Some now,
       LeaseExpiresAt := Some leaseUntil, UpdatedAt := now\<rparr>"

definition WithTx :: "string option \<Rightarrow> string option \<Rightarrow> (store \<Rightarrow> 'a result \<times> store) \<Rightarrow> store \<Rightarrow> 'a result \<times> store" where
  "WithTx begin_fault commit_fault fn s =
     (case begin_fault of
        Some m \<Rightarrow> (Inl (DbError (''begin tx: '' @ m)), s)
      | None \<Rightarrow>
          (case fn s of
             (Inl e, _) \<Rightarrow> (Inl e, s)
           | (Inr a, s') \<Rightarrow>
               (case commit_fault of
                  Some m \<Rightarrow> (Inl (DbError (''commit tx: '' @ m)), s)
                | None \<Rightarrow> (Inr a, s'))))"

definition getJobByIDTx :: "string option \<Rightarrow> string \<Rightarrow> store \<Rightarrow> job result" where
  "getJobByIDTx f i s =
     (case f of
        Some m \<Rightarrow> Inl (DbError (''get job tx: '' @ m))
      | None \<Rightarrow> (case job_by_id s i of None \<Rightarrow> Inl ErrNotFound | Some j \<Rightarrow> Inr j))"

definition AcquireQueuedJob :: "faults \<Rightarrow> time \<Rightarrow> string \<Rightarrow> time \<Rightarrow> store \<Rightarrow> job result \<times> store" where
  "AcquireQueuedJob f now workerID leaseTTL s =
     WithTx (f 0) (f 4) (\<lambda>s.
       case f 1 of
         Some m \<Rightarrow> (Inl (DbError (''select queued job: '' @ m)), s)
       | None \<Rightarrow>
           (case next_queued s of
              None \<Rightarrow> (Inl ErrNotFound, s)
            | Some cand \<Rightarrow>
                (case f 2 of
                   Some m \<Rightarrow> (Inl (DbError (''acquire queued job: '' @ m)), s)
                 | None \<Rightarrow>
                     (let P = (\<lambda>j. ID j = ID cand \<and> Status j = JobStatusQueued);
                          s' = s\<lparr>jobs := upd_where P (lease_job now (now + leaseTTL) workerID) (jobs s)\<rparr>
                      in if rows_where P (jobs s) \<noteq> 1 then (Inl ErrNotFound, s)
                         else (getJobByIDTx (f 3) (ID cand) s', s'))))) s"

definition ExtendLease ::
  "faults \<Rightarrow> time \<Rightarrow> string \<Rightarrow> string \<Rightarrow> time \<Rightarrow> store \<Rightarrow> bool result \<times> store" where
  "ExtendLease f now jobID workerID leaseTTL s =
     (let P = (\<lambda>j. ID j = jobID \<and> Status j = JobStatusProvisioning \<and> WorkerID j = Some workerID)
      in exec_stmt (f 0) ''extend lease: ''
        (Inr (rows_where P (jobs s) = 1),
         s\<lparr>jobs := upd_where P
           (\<lambda>j. j\<lparr>LeaseExpiresAt := Some (now + leaseTTL), UpdatedAt := now\<rparr>) (jobs s)\<rparr>) s)"

definition lease_expired :: "time \<Rightarrow> job \<Rightarrow> bool" where
  "lease_expired now j = (case LeaseExpiresAt j of None \<Rightarrow> False | Some t \<Rightarrow> t < now)"

definition StealExpiredLease ::
  "faults \<Rightarrow> time \<Rightarrow> string \<Rightarrow> string \<Rightarrow> time \<Rightarrow> store \<Rightarrow> bool result \<times> store" where
  "StealExpiredLease f now jobID newWorkerID leaseTTL s =
     (let P = (\<lambda>j. ID j = jobID \<and> Status j = JobStatusProvisioning \<and> lease_expired now j)
      in exec_stmt (f 0) ''steal lease: ''
        (Inr (rows_where P (jobs s) = 1),
         s\<lparr>jobs := upd_where P
           (\<lambda>j. j\<lparr>WorkerID := Some newWorkerID, PickedAt := Some now,
                  LeaseExpiresAt := Some (now + leaseTTL), UpdatedAt := now\<rparr>) (jobs s)\<rparr>) s)"

subsection \<open>Job events\<close>

definition event_constraints :: "job_event \<Rightarrow> store \<Rightarrow> bool" where
  "event_constraints ev s \<longleftrightarrow>
     JobID ev \<in> ID ` set (jobs s) \<and>
     (Level ev = EventLevelInfo \<or> Level ev = EventLevelWarn \<or> Level ev = EventLevelError)"

definition AppendJobEvent :: "faults \<Rightarrow> job_event \<Rightarrow> store \<Rightarrow> unit result \<times> store" where
  "AppendJobEvent f ev s =
     exec_stmt (f 0) ''insert job event: ''
       (if event_constraints ev s
        then (Inr (), s\<lparr>job_events := job_events s @ [ev\<lparr>EventID := next_event_id s\<rparr>],
                        next_event_id := next_event_id s + 1\<rparr>)
        else (Inl (DbError ''insert job event: constraint failed''), s)) s"

definition ListJobEvents :: "faults \<Rightarrow> string \<Rightarrow> int \<Rightarrow> store \<Rightarrow> (job_event list) result" where
  "ListJobEvents f jobID limit s =
     (case f 0 of
        Some m \<Rightarrow> Inl (DbError (''query job events: '' @ m))
      | None \<Rightarrow>
          (let rows = sort_key Time (filter (\<lambda>e. JobID e = jobID) (job_events s))
           in Inr (if limit > 0 then take (nat limit) rows else rows)))"

section \<open>The table invariant\<close>

definition store_ok :: "store \<Rightarrow> bool" where
  "store_ok s \<longleftrightarrow>
     distinct (map ID (jobs s)) \<and>
     (\<forall>j \<in> set (jobs s). servers s (ServerSerial j) \<noteq> None \<and> Valid (Status j)) \<and>
     (\<forall>e \<in> set (job_events s). event_constraints e s \<and> EventID e < next_event_id s) \<and>
     sorted_wrt (<) (map EventID (job_events s))"

lemma Valid_simps [simp]:
  "Valid JobStatusQueued" "Valid JobStatusProvisioning" "Valid JobStatusSucceeded"
  "Valid JobStatusFailed" "Valid JobStatusComplete"
  by (simp_all add: Valid_def)

lemma IsTerminal_Valid: "IsTerminal s \<Longrightarrow> Valid s"
  by (auto simp: IsTerminal_def)

lemma store_ok_empty [simp]: "store_ok empty_store"
  by (simp add: store_ok_def empty_store_def)

lemma store_ok_distinct [simp]: "store_ok s \<Longrightarrow> distinct (map ID (jobs s))"
  by (simp add: store_ok_def)

lemma ids_upd_where [simp]:
  "(\<And>j. ID (f j) = ID j) \<Longrightarrow> ID ` set (upd_where P f js) = ID ` set js"
  by (metis list.set_map map_upd_where)

text \<open>Every \<open>UPDATE\<close> of the store keeps the keys and writes valid statuses only.\<close>

lemma store_ok_upd:
  assumes ok: "store_ok s"
    and id: "\<And>j. ID (f j) = ID j" and serial: "\<And>j. ServerSerial (f j) = ServerSerial j"
    and valid: "\<And>j. Valid (Status j) \<Longrightarrow> Valid (Status (f j))"
  shows "store_ok (s\<lparr>jobs := upd_where P f (jobs s)\<rparr>)"
proof -
  have "distinct (map ID (upd_where P f (jobs s)))"
    using ok by (simp add: store_ok_def map_upd_where id)
  moreover have "ID ` set (upd_where P f (jobs s)) = ID ` set (jobs s)"
    by (simp add: id)
  ultimately show ?thesis
    using ok by (auto simp: store_ok_def in_upd_where serial event_constraints_def valid)
qed

lemma lease_job_simps [simp]:
  "ID (lease_job n u w j) = ID j" "ServerSerial (lease_job n u w j) = ServerSerial j"
  "Status (lease_job n u w j) = JobStatusProvisioning"
  "WorkerID (lease_job n u w j) = Some w" "LeaseExpiresAt (lease_job n u w j) = Some u"
  "PickedAt (lease_job n u w j) = Some n" "CreatedAt (lease_job n u w j) = CreatedAt j"
  "Recipe (lease_job n u w j) = Recipe j"
  by (simp_all add: lease_job_def)

subsection \<open>Lookups\<close>

lemma job_by_id_Some: "job_by_id s i = Some j \<Longrightarrow> j \<in> set (jobs s) \<and> ID j = i"
  by (auto simp: job_by_id_def dest: find_SomeD)

lemma job_by_id_member: "store_ok s \<Longrightarrow> j \<in> set (jobs s) \<Longrightarrow> job_by_id s (ID j) = Some j"
  by (simp add: job_by_id_def find_key_distinct)

lemma job_by_id_upd:
  "(\<And>j. ID (f j) = ID j) \<Longrightarrow>
   job_by_id (s\<lparr>jobs := upd_where P f (jobs s)\<rparr>) i =
     map_option (\<lambda>j. if P j then f j else j) (job_by_id s i)"
  by (simp add: job_by_id_def find_key_upd_where)

lemma job_by_id_upd_id:
  assumes "\<And>j. ID (f j) = ID j"
  shows "job_by_id (s\<lparr>jobs := upd_where (\<lambda>j. ID j = i) f (jobs s)\<rparr>) k =
     (if k = i then map_option f (job_by_id s k) else job_by_id s k)"
proof (cases "job_by_id s k")
  case None
  then show ?thesis by (auto simp: job_by_id_upd assms)
next
  case (Some j)
  then have "ID j = k" by (auto dest: job_by_id_Some)
  with Some show ?thesis by (auto simp: job_by_id_upd assms)
qed

lemma next_queued_Some:
  "next_queued s = Some c \<Longrightarrow>
     c \<in> set (jobs s) \<and> Status c = JobStatusQueued \<and>
     (\<forall>j \<in> set (jobs s). Status j = JobStatusQueued \<longrightarrow> CreatedAt c \<le> CreatedAt j)"
  unfolding next_queued_def by (drule first_min_Some) auto

lemma next_queued_None:
  "next_queued s = None \<longleftrightarrow> (\<forall>j \<in> set (jobs s). Status j \<noteq> JobStatusQueued)"
  by (auto simp: next_queued_def filter_empty_conv)

lemma active_job_Some:
  "active_job s serial = Some j \<Longrightarrow>
     j \<in> set (jobs s) \<and> ServerSerial j = serial \<and> Status j = JobStatusProvisioning \<and>
     (\<forall>k \<in> set (jobs s). ServerSerial k = serial \<and> Status k = JobStatusProvisioning \<longrightarrow>
        CreatedAt k \<le> CreatedAt j)"
  unfolding active_job_def by (drule first_min_Some) auto

lemma active_job_None:
  "active_job s serial = None \<longleftrightarrow>
     (\<forall>j \<in> set (jobs s). \<not> (ServerSerial j = serial \<and> Status j = JobStatusProvisioning))"
  by (auto simp: active_job_def filter_empty_conv)

lemma rows_where_none:
  "store_ok s \<Longrightarrow>
   rows_where (\<lambda>j. ID j = i \<and> Q j) (jobs s) = 0 \<longleftrightarrow> \<not> (\<exists>j. job_by_id s i = Some j \<and> Q j)"
  using job_by_id_member by (auto simp: rows_where_0 dest: job_by_id_Some)

lemma rows_where_one:
  assumes "store_ok s"
  shows "rows_where (\<lambda>j. ID j = i \<and> Q j) (jobs s) = 1 \<longleftrightarrow> (\<exists>j. job_by_id s i = Some j \<and> Q j)"
proof -
  have "rows_where (\<lambda>j. ID j = i \<and> Q j) (jobs s) \<le> 1"
    by (rule rows_where_key_le1 [where g = ID and k = i]) (use assms in auto)
  then have "rows_where (\<lambda>j. ID j = i \<and> Q j) (jobs s) = 1 \<longleftrightarrow>
      rows_where (\<lambda>j. ID j = i \<and> Q j) (jobs s) \<noteq> 0" by linarith
  with rows_where_none [OF assms, of i Q] show ?thesis by blast
qed

section \<open>Acquiring a job\<close>

lemma acquire_rows:
  assumes "store_ok s" and "next_queued s = Some c"
  shows "rows_where (\<lambda>j. ID j = ID c \<and> Status j = JobStatusQueued) (jobs s) = 1"
proof -
  have "rows_where (\<lambda>j. ID j = ID c \<and> Status j = JobStatusQueued) (jobs s) \<le> 1"
    by (rule rows_where_key_le1 [where g = ID and k = "ID c"]) (use assms in auto)
  moreover have "rows_where (\<lambda>j. ID j = ID c \<and> Status j = JobStatusQueued) (jobs s) \<noteq> 0"
    using assms(2) by (auto simp: rows_where_0 dest: next_queued_Some)
  ultimately show ?thesis by simp
qed

definition acquired :: "time \<Rightarrow> time \<Rightarrow> string \<Rightarrow> job \<Rightarrow> store \<Rightarrow> store" where
  "acquired now ttl w c s =
     s\<lparr>jobs := upd_where (\<lambda>j. ID j = ID c \<and> Status j = JobStatusQueued)
                (lease_job now (now + ttl) w) (jobs s)\<rparr>"

lemma acquired_lookup:
  assumes "store_ok s" and "next_queued s = Some c"
  shows "job_by_id (acquired now ttl w c s) (ID c) = Some (lease_job now (now + ttl) w c)"
proof -
  have "job_by_id s (ID c) = Some c" "Status c = JobStatusQueued"
    using assms next_queued_Some job_by_id_member by blast+
  then show ?thesis by (simp add: acquired_def job_by_id_upd)
qed

lemma AcquireQueuedJob_Inr:
  assumes ok: "store_ok s" and run: "AcquireQueuedJob f now w ttl s = (Inr j, s')"
  obtains c where "next_queued s = Some c" "j = lease_job now (now + ttl) w c"
    "s' = acquired now ttl w c s"
proof -
  from run obtain c where c: "next_queued s = Some c"
    by (auto simp: AcquireQueuedJob_def WithTx_def split: option.splits prod.splits sum.splits)
  with run acquire_rows [OF ok c] acquired_lookup [OF ok c, of now ttl w]
  have "j = lease_job now (now + ttl) w c \<and> s' = acquired now ttl w c s"
    by (auto simp: AcquireQueuedJob_def WithTx_def getJobByIDTx_def Let_def acquired_def
             split: option.splits prod.splits sum.splits)
  with c show ?thesis using that by blast
qed

lemma AcquireQueuedJob_Inl: "AcquireQueuedJob f now w ttl s = (Inl e, s') \<Longrightarrow> s' = s"
  by (auto simp: AcquireQueuedJob_def WithTx_def split: option.splits prod.splits sum.splits)

lemma AcquireQueuedJob_no_faults:
  assumes "store_ok s" and "next_queued s = Some c"
  shows "AcquireQueuedJob no_faults now w ttl s =
     (Inr (lease_job now (now + ttl) w c), acquired now ttl w c s)"
  using assms acquire_rows [OF assms] acquired_lookup [OF assms, of now ttl w]
  by (simp add: AcquireQueuedJob_def WithTx_def getJobByIDTx_def acquired_def)

section \<open>Every operation keeps the table invariant\<close>

lemma store_ok_acquired: "store_ok s \<Longrightarrow> store_ok (acquired now ttl w c s)"
  unfolding acquired_def by (rule store_ok_upd) simp_all

lemma AcquireQueuedJob_ok:
  assumes ok: "store_ok s" and run: "AcquireQueuedJob f now w ttl s = (r, s')"
  shows "store_ok s'"
proof (cases r)
  case (Inl e)
  with run have "s' = s" by (auto dest: AcquireQueuedJob_Inl)
  with ok show ?thesis by simp
next
  case (Inr j)
  with ok run obtain c where "s' = acquired now ttl w c s"
    by (auto elim: AcquireQueuedJob_Inr)
  with ok show ?thesis by (simp add: store_ok_acquired)
qed

lemma exec_stmt_ok:
  "exec_stmt f pre ok s = (r, s') \<Longrightarrow> store_ok s \<Longrightarrow> store_ok (snd ok) \<Longrightarrow> store_ok s'"
  by (cases f) auto

lemma MarkJobStatus_ok:
  "store_ok s \<Longrightarrow> MarkJobStatus f now i st fs s = (r, s') \<Longrightarrow> store_ok s'"
  unfolding MarkJobStatus_def
  by (auto split: if_splits elim!: exec_stmt_ok intro!: store_ok_upd)

lemma UpdateJobTaskISOPath_ok:
  "store_ok s \<Longrightarrow> UpdateJobTaskISOPath f now i p s = (r, s') \<Longrightarrow> store_ok s'"
  unfolding UpdateJobTaskISOPath_def by (auto elim!: exec_stmt_ok intro!: store_ok_upd)

lemma RequeueProvisioningJob_ok:
  "store_ok s \<Longrightarrow> RequeueProvisioningJob f now i s = (r, s') \<Longrightarrow> store_ok s'"
  unfolding RequeueProvisioningJob_def Let_def
  by (erule exec_stmt_ok) (auto intro!: store_ok_upd)

lemma ExtendLease_ok:
  "store_ok s \<Longrightarrow> ExtendLease f now i w ttl s = (r, s') \<Longrightarrow> store_ok s'"
  unfolding ExtendLease_def Let_def by (auto elim!: exec_stmt_ok intro!: store_ok_upd)

lemma StealExpiredLease_ok:
  "store_ok s \<Longrightarrow> StealExpiredLease f now i w ttl s = (r, s') \<Longrightarrow> store_ok s'"
  unfolding StealExpiredLease_def Let_def by (auto elim!: exec_stmt_ok intro!: store_ok_upd)

lemma InsertJob_ok:
  "store_ok s \<Longrightarrow> InsertJob f j s = (r, s') \<Longrightarrow> store_ok s'"
  unfolding InsertJob_def
  by (erule exec_stmt_ok)
     (auto simp: store_ok_def job_constraints_def event_constraints_def)

lemma AppendJobEvent_ok:
  "store_ok s \<Longrightarrow> AppendJobEvent f ev s = (r, s') \<Longrightarrow> store_ok s'"
  unfolding AppendJobEvent_def
  by (erule exec_stmt_ok)
     (auto simp: store_ok_def event_constraints_def sorted_wrt_append)

lemma UpsertServer_ok:
  "store_ok s \<Longrightarrow> UpsertServer f sv s = (r, s') \<Longrightarrow> store_ok s'"
  unfolding UpsertServer_def
  by (erule exec_stmt_ok) (auto simp: store_ok_def event_constraints_def)

lemma SetSetting_ok:
  "store_ok s \<Longrightarrow> SetSetting f k v s = (r, s') \<Longrightarrow> store_ok s'"
  unfolding SetSetting_def
  by (erule exec_stmt_ok) (auto simp: store_ok_def event_constraints_def)

lemmas store_ops_ok =
  AcquireQueuedJob_ok MarkJobStatus_ok UpdateJobTaskISOPath_ok RequeueProvisioningJob_ok
  ExtendLease_ok StealExpiredLease_ok InsertJob_ok AppendJobEvent_ok UpsertServer_ok SetSetting_ok

section \<open>The controller's database steps\<close>

text \<open>
  Everything the controller does to the tables at time \<open>now\<close>, with any driver behaviour: the
  API inserts jobs built by \<open>NewJob\<close>, workers acquire, extend, steal and annotate jobs, the
  webhook and the workers write terminal statuses, a restart re-queues.
\<close>

inductive store_step :: "time \<Rightarrow> store \<Rightarrow> store \<Rightarrow> bool" where
  step_insert: "InsertJob f ((NewJob now sn rec url)\<lparr>ID := i\<rparr>) s = (r, s') \<Longrightarrow> store_step now s s'"
| step_acquire: "AcquireQueuedJob f now w ttl s = (ra, s') \<Longrightarrow> store_step now s s'"
| step_extend: "ExtendLease f now i w ttl s = (rb, s') \<Longrightarrow> store_step now s s'"
| step_steal: "StealExpiredLease f now i w ttl s = (rb, s') \<Longrightarrow> store_step now s s'"
| step_mark: "IsTerminal st \<Longrightarrow> MarkJobStatus f now i st fs s = (r, s') \<Longrightarrow> store_step now s s'"
| step_requeue: "RequeueProvisioningJob f now i s = (r, s') \<Longrightarrow> store_step now s s'"
| step_iso: "UpdateJobTaskISOPath f now i p s = (r, s') \<Longrightarrow> store_step now s s'"
| step_event: "AppendJobEvent f ev s = (r, s') \<Longrightarrow> store_step now s s'"
| step_server: "UpsertServer f sv s = (r, s') \<Longrightarrow> store_step now s s'"
| step_setting: "SetSetting f k v s = (r, s') \<Longrightarrow> store_step now s s'"

inductive reachable :: "store \<Rightarrow> bool" where
  reach_init: "reachable empty_store"
| reach_step: "reachable s \<Longrightarrow> store_step now s s' \<Longrightarrow> reachable s'"

lemma store_step_ok: "store_step now s s' \<Longrightarrow> store_ok s \<Longrightarrow> store_ok s'"
  by (induction rule: store_step.induct) (auto dest: store_ops_ok)

text \<open>A leased job has an owner and a lease; a queued job has neither.\<close>

definition lease_ok :: "job \<Rightarrow> bool" where
  "lease_ok j \<longleftrightarrow>
     (Status j = JobStatusProvisioning \<longrightarrow>
        WorkerID j \<noteq> None \<and> PickedAt j \<noteq> None \<and> LeaseExpiresAt j \<noteq> None) \<and>
     (Status j = JobStatusQueued \<longrightarrow>
        WorkerID j = None \<and> PickedAt j = None \<and> LeaseExpiresAt j = None \<and> FailedStep j = None)"

definition leases_ok :: "store \<Rightarrow> bool" where
  "leases_ok s \<longleftrightarrow> (\<forall>j \<in> set (jobs s). lease_ok j)"

lemma leases_ok_upd:
  "leases_ok s \<Longrightarrow> (\<And>j. P j \<Longrightarrow> lease_ok j \<Longrightarrow> lease_ok (f j)) \<Longrightarrow>
   leases_ok (s\<lparr>jobs := upd_where P f (jobs s)\<rparr>)"
  by (auto simp: leases_ok_def in_upd_where)

lemma exec_stmt_leases:
  "exec_stmt f pre ok s = (r, s') \<Longrightarrow> leases_ok s \<Longrightarrow> leases_ok (snd ok) \<Longrightarrow> leases_ok s'"
  by (cases f) auto

lemma AcquireQueuedJob_leases:
  assumes "store_ok s" "leases_ok s" "AcquireQueuedJob f now w ttl s = (r, s')"
  shows "leases_ok s'"
proof (cases r)
  case (Inl e)
  with assms show ?thesis by (auto dest: AcquireQueuedJob_Inl)
next
  case (Inr j)
  with assms obtain c where "s' = acquired now ttl w c s"
    by (auto elim: AcquireQueuedJob_Inr)
  with assms(2) show ?thesis
    unfolding acquired_def by (auto intro!: leases_ok_upd simp: lease_ok_def)
qed

lemma store_step_leases: "store_step now s s' \<Longrightarrow> store_ok s \<Longrightarrow> leases_ok s \<Longrightarrow> leases_ok s'"
proof (induction rule: store_step.induct)
  case (step_insert f now sn rec url i s r s')
  then show ?case
    unfolding InsertJob_def
    by (elim exec_stmt_leases) (auto simp: leases_ok_def lease_ok_def NewJob_def)
next
  case (step_acquire f now w ttl s ra s')
  then show ?case by (blast intro: AcquireQueuedJob_leases)
next
  case (step_extend f now i w ttl s rb s')
  then show ?case
    unfolding ExtendLease_def Let_def
    by (elim exec_stmt_leases) (auto intro!: leases_ok_upd simp: lease_ok_def)
next
  case (step_steal f now i w ttl s rb s')
  then show ?case
    unfolding StealExpiredLease_def Let_def
    by (elim exec_stmt_leases) (auto intro!: leases_ok_upd simp: lease_ok_def)
next
  case (step_mark st f now i fs s r s')
  then show ?case
    unfolding MarkJobStatus_def
    by (auto split: if_splits elim!: exec_stmt_leases intro!: leases_ok_upd
             simp: lease_ok_def IsTerminal_def)
next
  case (step_requeue f now i s r s')
  then show ?case
    unfolding RequeueProvisioningJob_def Let_def
    by (elim exec_stmt_leases) (auto intro!: leases_ok_upd simp: lease_ok_def)
next
  case (step_iso f now i p s r s')
  then show ?case
    unfolding UpdateJobTaskISOPath_def
    by (elim exec_stmt_leases) (auto intro!: leases_ok_upd simp: lease_ok_def)
next
  case (step_event f ev s r s' now)
  then show ?case
    unfolding AppendJobEvent_def by (elim exec_stmt_leases) (auto simp: leases_ok_def)
next
  case (step_server f sv s r s' now)
  then show ?case
    unfolding UpsertServer_def by (elim exec_stmt_leases) (auto simp: leases_ok_def)
next
  case (step_setting f k v s r s' now)
  then show ?case
    unfolding SetSetting_def by (elim exec_stmt_leases) (auto simp: leases_ok_def)
qed

lemma reachable_inv: "reachable s \<Longrightarrow> store_ok s \<and> leases_ok s"
proof (induction rule: reachable.induct)
  case reach_init
  show ?case by (simp add: leases_ok_def empty_store_def store_ok_empty[unfolded empty_store_def])
next
  case (reach_step s now s')
  then show ?case by (blast intro: store_step_ok store_step_leases)
qed

section \<open>One row across a database step\<close>

text \<open>
  What one step of the controller can do to one row of \<open>jobs\<close>: nothing, or one of the guarded
  rewrites the statements make.
\<close>

inductive job_step :: "time \<Rightarrow> job \<Rightarrow> job \<Rightarrow> bool" for now :: time where
  js_stay: "job_step now j j"
| js_lease: "Status j = JobStatusQueued \<Longrightarrow> job_step now j (lease_job now t w j)"
| js_extend: "Status j = JobStatusProvisioning \<Longrightarrow>
    job_step now j (j\<lparr>LeaseExpiresAt := Some t, UpdatedAt := now\<rparr>)"
| js_steal: "Status j = JobStatusProvisioning \<Longrightarrow> lease_expired now j \<Longrightarrow>
    job_step now j (j\<lparr>WorkerID := Some w, PickedAt := Some now, LeaseExpiresAt := Some t,
                      UpdatedAt := now\<rparr>)"
| js_mark: "IsTerminal st \<Longrightarrow>
    job_step now j (j\<lparr>Status := st, FailedStep := fs, UpdatedAt := now\<rparr>)"
| js_requeue: "Status j = JobStatusProvisioning \<Longrightarrow>
    job_step now j (j\<lparr>Status := JobStatusQueued, FailedStep := None, WorkerID := None,
                      PickedAt := None, LeaseExpiresAt := None, TaskISOPath := None,
                      UpdatedAt := now\<rparr>)"
| js_iso: "job_step now j (j\<lparr>TaskISOPath := Some p, UpdatedAt := now\<rparr>)"

inductive_simps job_step_iff: "job_step now j j'"

definition row_step :: "time \<Rightarrow> store \<Rightarrow> store \<Rightarrow> bool" where
  "row_step now s s' \<longleftrightarrow>
     (\<forall>i j. job_by_id s i = Some j \<longrightarrow> (\<exists>j'. job_by_id s' i = Some j' \<and> job_step now j j'))"

lemma row_step_refl [simp]: "row_step now s s"
  by (auto simp: row_step_def intro: js_stay)

lemma row_step_upd:
  assumes "\<And>j. ID (f j) = ID j" and "\<And>j. P j \<Longrightarrow> job_step now j (f j)"
  shows "row_step now s (s\<lparr>jobs := upd_where P f (jobs s)\<rparr>)"
  unfolding row_step_def using assms by (auto simp: job_by_id_upd intro: js_stay)

lemma row_step_frame: "jobs s' = jobs s @ js \<Longrightarrow> row_step now s s'"
  by (auto simp: row_step_def job_by_id_def find_app intro: js_stay)

lemma exec_stmt_row:
  "exec_stmt f pre ok s = (r, s') \<Longrightarrow> row_step now s (snd ok) \<Longrightarrow> row_step now s s'"
  by (cases f) auto

text \<open>Every database step is a row step: rows never disappear and change by \<open>job_step\<close> only.\<close>

lemma store_step_row: "store_step now s s' \<Longrightarrow> store_ok s \<Longrightarrow> row_step now s s'"
proof (induction rule: store_step.induct)
  case (step_insert f now sn rec url i s r s')
  then show ?case
    unfolding InsertJob_def by (elim exec_stmt_row) (auto intro: row_step_frame)
next
  case (step_acquire f now w ttl s ra s')
  show ?case
  proof (cases ra)
    case (Inl e)
    with step_acquire show ?thesis by (auto dest: AcquireQueuedJob_Inl)
  next
    case (Inr j)
    with step_acquire obtain c where "s' = acquired now ttl w c s"
      by (auto elim: AcquireQueuedJob_Inr)
    then show ?thesis
      unfolding acquired_def by (auto intro!: row_step_upd intro: js_lease)
  qed
next
  case (step_extend f now i w ttl s rb s')
  then show ?case
    unfolding ExtendLease_def Let_def
    by (elim exec_stmt_row) (auto intro!: row_step_upd intro: js_extend)
next
  case (step_steal f now i w ttl s rb s')
  then show ?case
    unfolding StealExpiredLease_def Let_def
    by (elim exec_stmt_row) (auto intro!: row_step_upd intro: js_steal)
next
  case (step_mark st f now i fs s r s')
  then show ?case
    unfolding MarkJobStatus_def
    by (auto split: if_splits elim!: exec_stmt_row intro!: row_step_upd intro: js_mark)
next
  case (step_requeue f now i s r s')
  then show ?case
    unfolding RequeueProvisioningJob_def Let_def
    by (elim exec_stmt_row) (auto intro!: row_step_upd intro: js_requeue)
next
  case (step_iso f now i p s r s')
  then show ?case
    unfolding UpdateJobTaskISOPath_def
    by (elim exec_stmt_row) (auto intro!: row_step_upd intro: js_iso)
next
  case (step_event f ev s r s' now)
  then show ?case
    unfolding AppendJobEvent_def by (elim exec_stmt_row) (auto intro: row_step_frame[where js = "[]"])
next
  case (step_server f sv s r s' now)
  then show ?case
    unfolding UpsertServer_def by (elim exec_stmt_row) (auto intro: row_step_frame[where js = "[]"])
next
  case (step_setting f k v s r s' now)
  then show ?case
    unfolding SetSetting_def by (elim exec_stmt_row) (auto intro: row_step_frame[where js = "[]"])
qed

lemma job_step_terminal: "job_step now j j' \<Longrightarrow> IsTerminal (Status j) \<Longrightarrow> IsTerminal (Status j')"
  by (induction rule: job_step.induct) (auto simp: IsTerminal_def lease_job_def)

lemma job_step_owner:
  "job_step now j j' \<Longrightarrow> Status j = JobStatusProvisioning \<Longrightarrow> \<not> lease_expired now j \<Longrightarrow>
   Status j' = JobStatusProvisioning \<Longrightarrow> WorkerID j' = WorkerID j"
  by (induction rule: job_step.induct) (auto simp: IsTerminal_def lease_job_def)

lemma job_step_identity:
  "job_step now j j' \<Longrightarrow>
   ID j' = ID j \<and> ServerSerial j' = ServerSerial j \<and> Recipe j' = Recipe j \<and> CreatedAt j' = CreatedAt j"
  by (induction rule: job_step.induct) auto

inductive store_run :: "store \<Rightarrow> store \<Rightarrow> bool" where
  run_refl: "store_run s s"
| run_step: "store_run s s' \<Longrightarrow> store_step now s' s'' \<Longrightarrow> store_run s s''"

lemma store_run_ok: "store_run s s' \<Longrightarrow> store_ok s \<Longrightarrow> store_ok s'"
  by (induction rule: store_run.induct) (auto intro: store_step_ok)

lemma store_run_job:
  assumes "store_run s s'" and "store_ok s" and "job_by_id s i = Some j"
  shows "\<exists>j'. job_by_id s' i = Some j' \<and> (IsTerminal (Status j) \<longrightarrow> IsTerminal (Status j')) \<and>
     ServerSerial j' = ServerSerial j \<and> Recipe j' = Recipe j \<and> CreatedAt j' = CreatedAt j"
  using assms
proof (induction rule: store_run.induct)
  case (run_refl s)
  then show ?case by auto
next
  case (run_step s s' now s'')
  then obtain j' where j': "job_by_id s' i = Some j'"
    "IsTerminal (Status j) \<longrightarrow> IsTerminal (Status j')" "ServerSerial j' = ServerSerial j"
    "Recipe j' = Recipe j" "CreatedAt j' = CreatedAt j" by auto
  have "row_step now s' s''"
    using run_step store_run_ok store_step_row by blast
  with j'(1) obtain j'' where "job_by_id s'' i = Some j''" "job_step now j' j''"
    by (auto simp: row_step_def)
  moreover from this(2) have "IsTerminal (Status j') \<longrightarrow> IsTerminal (Status j'')"
    "ServerSerial j'' = ServerSerial j' \<and> Recipe j'' = Recipe j' \<and> CreatedAt j'' = CreatedAt j'"
    by (auto dest: job_step_terminal job_step_identity)
  ultimately show ?case using j' by auto
qed

section \<open>A small database for concrete runs\<close>

definition demo_server :: server where
  "demo_server = \<lparr>Serial = ''S1'', BMCAddress = ''https://bmc1'', BMCUser = ''u'', BMCPass = ''p'',
     Vendor = '''', LastSeen = None\<rparr>"

definition demo_job :: "string \<Rightarrow> JobStatus \<Rightarrow> time \<Rightarrow> job" where
  "demo_job i st t =
     (let j = (NewJob t ''S1'' (RawJson (JObj [(''task_target'', JStr ''install-linux.target'')]))
                ''http://m/iso'')\<lparr>ID := i, Status := st\<rparr>
      in if st = JobStatusProvisioning then lease_job t (t + 100) ''w1'' j else j)"

definition demo_store :: "job list \<Rightarrow> store" where
  "demo_store js =
     (snd (UpsertServer no_faults demo_server empty_store))\<lparr>jobs := js\<rparr>"

section \<open>Properties\<close>



text \<open>
  C3. In every state the controller can reach, whatever the driver does: the table constraints
  hold, every job in \<open>provisioning\<close> has an owner, a pick time and a lease, and no queued job
  carries any of them.
\<close>

theorem reachable_leases:
  assumes "reachable s"
  shows "store_ok s \<and>
    (\<forall>j \<in> set (jobs s).
      (Status j = JobStatusProvisioning \<longrightarrow>
         WorkerID j \<noteq> None \<and> PickedAt j \<noteq> None \<and> LeaseExpiresAt j \<noteq> None) \<and>
      (Status j = JobStatusQueued \<longrightarrow> WorkerID j = None \<and> LeaseExpiresAt j = None))"
  using reachable_inv [OF assms] by (auto simp: leases_ok_def lease_ok_def)

theorem reachable_leases_witness:
  "\<exists>s. reachable s \<and> (\<exists>j \<in> set (jobs s). Status j = JobStatusProvisioning \<and> WorkerID j \<noteq> None)"
proof -
  let ?s0 = "snd (UpsertServer no_faults demo_server empty_store)"
  let ?j = "(NewJob 5 ''S1'' RawEmpty ''u'')\<lparr>ID := ''a''\<rparr>"
  let ?s1 = "snd (InsertJob no_faults ?j ?s0)"
  let ?s2 = "snd (AcquireQueuedJob no_faults 9 ''w1'' 60 ?s1)"
  have "reachable ?s0" by (rule reach_step [OF reach_init]) (rule step_server, rule prod.collapse[symmetric])
  then have "reachable ?s1" by (rule reach_step) (rule step_insert, rule prod.collapse[symmetric])
  then have r: "reachable ?s2" by (rule reach_step) (rule step_acquire, rule prod.collapse[symmetric])
  have p: "list_ex (\<lambda>j. Status j = JobStatusProvisioning) (jobs ?s2)" by code_simp
  from p obtain j where "j \<in> set (jobs ?s2)" "Status j = JobStatusProvisioning"
    by (auto simp: list_ex_iff)
  with reachable_leases [OF r] r show ?thesis by blast
qed



text \<open>
  The ownership guards are exact when the driver succeeds: \<open>ExtendLease\<close> reports success
  just when the job is in \<open>provisioning\<close> and owned by the caller, \<open>StealExpiredLease\<close> just when
  it is in \<open>provisioning\<close> with a lease before \<open>now\<close>; \<open>RequeueProvisioningJob\<close> answers
  \<open>ErrNotFound\<close> just when the job is not in \<open>provisioning\<close>, and otherwise leaves it queued
  with owner, lease, failed step and ISO path cleared.
\<close>

lemma lease_guards_exact:
  assumes "store_ok s"
  shows "fst (ExtendLease no_faults now i w ttl s) =
      Inr (\<exists>j. job_by_id s i = Some j \<and> Status j = JobStatusProvisioning \<and> WorkerID j = Some w) \<and>
    fst (StealExpiredLease no_faults now i w ttl s) =
      Inr (\<exists>j. job_by_id s i = Some j \<and> Status j = JobStatusProvisioning \<and> lease_expired now j) \<and>
    fst (RequeueProvisioningJob no_faults now i s) =
      (if \<exists>j. job_by_id s i = Some j \<and> Status j = JobStatusProvisioning
       then Inr () else Inl ErrNotFound) \<and>
    (\<forall>j. job_by_id s i = Some j \<and> Status j = JobStatusProvisioning \<longrightarrow>
      job_by_id (snd (RequeueProvisioningJob no_faults now i s)) i =
        Some (j\<lparr>Status := JobStatusQueued, FailedStep := None, WorkerID := None, PickedAt := None,
                LeaseExpiresAt := None, TaskISOPath := None, UpdatedAt := now\<rparr>))"
proof (intro conjI allI impI)
  show "fst (ExtendLease no_faults now i w ttl s) =
      Inr (\<exists>j. job_by_id s i = Some j \<and> Status j = JobStatusProvisioning \<and> WorkerID j = Some w)"
    by (simp add: ExtendLease_def Let_def rows_where_one [OF assms] del: One_nat_def)
  show "fst (StealExpiredLease no_faults now i w ttl s) =
      Inr (\<exists>j. job_by_id s i = Some j \<and> Status j = JobStatusProvisioning \<and> lease_expired now j)"
    by (simp add: StealExpiredLease_def Let_def rows_where_one [OF assms] del: One_nat_def)
  show "fst (RequeueProvisioningJob no_faults now i s) =
      (if \<exists>j. job_by_id s i = Some j \<and> Status j = JobStatusProvisioning
       then Inr () else Inl ErrNotFound)"
    by (simp add: RequeueProvisioningJob_def Let_def rows_where_none [OF assms])
next
  fix j
  assume j: "job_by_id s i = Some j \<and> Status j = JobStatusProvisioning"
  then have "ID j = i" by (auto dest: job_by_id_Some)
  with j show "job_by_id (snd (RequeueProvisioningJob no_faults now i s)) i =
        Some (j\<lparr>Status := JobStatusQueued, FailedStep := None, WorkerID := None, PickedAt := None,
                LeaseExpiresAt := None, TaskISOPath := None, UpdatedAt := now\<rparr>)"
    by (auto simp: RequeueProvisioningJob_def Let_def rows_where_none [OF assms] job_by_id_upd)
qed

lemma lease_guards_exact_instance:
  "let s = demo_store [demo_job ''a'' JobStatusProvisioning 5]
   in store_ok s \<and> fst (ExtendLease no_faults 9 ''a'' ''w1'' 60 s) = Inr True \<and>
      fst (ExtendLease no_faults 9 ''a'' ''w2'' 60 s) = Inr False"
proof -
  let ?s = "demo_store [demo_job ''a'' JobStatusProvisioning 5]"
  have ok: "store_ok ?s"
    by (simp add: store_ok_def demo_store_def demo_job_def demo_server_def empty_store_def NewJob_def
        UpsertServer_def lease_job_def)
  have l: "job_by_id ?s ''a'' = Some (demo_job ''a'' JobStatusProvisioning 5)"
    by (simp add: job_by_id_def demo_store_def demo_job_def NewJob_def)
  have j: "Status (demo_job ''a'' JobStatusProvisioning 5) = JobStatusProvisioning"
    "WorkerID (demo_job ''a'' JobStatusProvisioning 5) = Some ''w1''"
    by (simp_all add: demo_job_def)
  show ?thesis
    using lease_guards_exact [OF ok, of 9 "''a''" "''w1''" 60]
      lease_guards_exact [OF ok, of 9 "''a''" "''w2''" 60] ok l j
    by (simp add: Let_def)
qed

end
