(* ===== verification/StoreIface.thy ===== *)
theory StoreIface
  imports Store
begin

text \<open>
  The store as its clients see it. Each client package of the sources declares the slice of the
  store it needs as a Go interface; here a client's operations take such an interface as a
  record of functions over an abstract store state. This theory states the laws the interfaces
  promise, as locales over an abstraction \<open>status_of\<close> (the status and failed step of every
  job), and interprets them on the SQLite store driven by an arbitrary schedule of driver
  errors and clock readings (\<open>sqldb\<close>).
\<close>

section \<open>Interface laws\<close>

type_synonym job_view = "string \<Rightarrow> (JobStatus \<times> string option) option"

locale job_table =
  fixes inv :: "'s \<Rightarrow> bool"
    and status_of :: "'s \<Rightarrow> job_view"
    and mark :: "string \<Rightarrow> JobStatus \<Rightarrow> string option \<Rightarrow> 's \<Rightarrow> unit result \<times> 's"
    and append :: "job_event \<Rightarrow> 's \<Rightarrow> unit result \<times> 's"
  assumes mark_inv: "inv s \<Longrightarrow> mark i st fs s = (r, s') \<Longrightarrow> inv s'"
    and mark_Inr: "inv s \<Longrightarrow> mark i st fs s = (Inr u, s') \<Longrightarrow>
          status_of s' = (status_of s)(i := map_option (\<lambda>_. (st, fs)) (status_of s i))"
    and mark_Inl: "inv s \<Longrightarrow> mark i st fs s = (Inl e, s') \<Longrightarrow> status_of s' = status_of s"
    and append_inv: "inv s \<Longrightarrow> append ev s = (r, s') \<Longrightarrow> inv s'"
    and append_frame: "inv s \<Longrightarrow> append ev s = (r, s') \<Longrightarrow> status_of s' = status_of s"
begin

lemma mark_other:
  "inv s \<Longrightarrow> mark i st fs s = (r, s') \<Longrightarrow> k \<noteq> i \<Longrightarrow> status_of s' k = status_of s k"
  by (cases r) (auto dest: mark_Inr mark_Inl)

lemma mark_self:
  "inv s \<Longrightarrow> mark i st fs s = (r, s') \<Longrightarrow> status_of s i = Some x \<Longrightarrow>
     status_of s' i = (case r of Inl e \<Rightarrow> Some x | Inr u \<Rightarrow> Some (st, fs))"
  by (cases r) (auto dest: mark_Inr mark_Inl)

end

locale webhook_store = job_table inv status_of mark append
  for inv :: "'s \<Rightarrow> bool" and status_of mark append +
  fixes get_active :: "string \<Rightarrow> 's \<Rightarrow> job result \<times> 's"
  assumes active_inv: "inv s \<Longrightarrow> get_active sn s = (r, s') \<Longrightarrow> inv s'"
    and active_frame: "inv s \<Longrightarrow> get_active sn s = (r, s') \<Longrightarrow> status_of s' = status_of s"
    and active_Inr: "inv s \<Longrightarrow> get_active sn s = (Inr j, s') \<Longrightarrow>
          ServerSerial j = sn \<and> status_of s (ID j) = Some (JobStatusProvisioning, FailedStep j)"

locale worker_store = job_table inv status_of mark append
  for inv :: "'s \<Rightarrow> bool" and status_of mark append +
  fixes get_server :: "string \<Rightarrow> 's \<Rightarrow> server result \<times> 's"
    and get_job :: "string \<Rightarrow> 's \<Rightarrow> job result \<times> 's"
    and extend :: "string \<Rightarrow> string \<Rightarrow> time \<Rightarrow> 's \<Rightarrow> bool result \<times> 's"
    and set_iso :: "string \<Rightarrow> string \<Rightarrow> 's \<Rightarrow> unit result \<times> 's"
    and acquire :: "string \<Rightarrow> time \<Rightarrow> 's \<Rightarrow> job result \<times> 's"
  assumes server_inv: "inv s \<Longrightarrow> get_server sn s = (rs, s') \<Longrightarrow> inv s'"
    and server_frame: "inv s \<Longrightarrow> get_server sn s = (rs, s') \<Longrightarrow> status_of s' = status_of s"
    and job_inv: "inv s \<Longrightarrow> get_job i s = (rj, s') \<Longrightarrow> inv s'"
    and job_frame: "inv s \<Longrightarrow> get_job i s = (rj, s') \<Longrightarrow> status_of s' = status_of s"
    and job_Inr: "inv s \<Longrightarrow> get_job i s = (Inr j, s') \<Longrightarrow>
          status_of s i = Some (Status j, FailedStep j)"
    and extend_inv: "inv s \<Longrightarrow> extend i w ttl s = (rb, s') \<Longrightarrow> inv s'"
    and extend_frame: "inv s \<Longrightarrow> extend i w ttl s = (rb, s') \<Longrightarrow> status_of s' = status_of s"
    and iso_inv: "inv s \<Longrightarrow> set_iso i p s = (ru, s') \<Longrightarrow> inv s'"
    and iso_frame: "inv s \<Longrightarrow> set_iso i p s = (ru, s') \<Longrightarrow> status_of s' = status_of s"
    and acquire_inv: "inv s \<Longrightarrow> acquire w ttl s = (rj, s') \<Longrightarrow> inv s'"
    and acquire_Inr: "inv s \<Longrightarrow> acquire w ttl s = (Inr j, s') \<Longrightarrow>
          status_of s (ID j) = Some (JobStatusQueued, FailedStep j) \<and>
          status_of s' = (status_of s)(ID j \<mapsto> (JobStatusProvisioning, FailedStep j))"
    and acquire_Inl: "inv s \<Longrightarrow> acquire w ttl s = (Inl e, s') \<Longrightarrow> status_of s' = status_of s"

section \<open>The SQLite store behind the interfaces\<close>

text \<open>The \<open>n\<close>-th call meets the driver errors \<open>fault_at n\<close> at the time \<open>clock_at n\<close>.\<close>

record sqldb =
  db :: store
  calls :: nat
  fault_at :: "nat \<Rightarrow> faults"
  clock_at :: "nat \<Rightarrow> time"

definition sql_exec :: "(faults \<Rightarrow> time \<Rightarrow> store \<Rightarrow> 'a result \<times> store) \<Rightarrow> sqldb \<Rightarrow> 'a result \<times> sqldb" where
  "sql_exec m d =
     (case m (fault_at d (calls d)) (clock_at d (calls d)) (db d) of
        (r, s') \<Rightarrow> (r, d\<lparr>db := s', calls := Suc (calls d)\<rparr>))"

definition sql_query :: "(faults \<Rightarrow> store \<Rightarrow> 'a result) \<Rightarrow> sqldb \<Rightarrow> 'a result \<times> sqldb" where
  "sql_query q d = (q (fault_at d (calls d)) (db d), d\<lparr>calls := Suc (calls d)\<rparr>)"

definition sql_MarkJobStatus where
  "sql_MarkJobStatus i st fs = sql_exec (\<lambda>f now. MarkJobStatus f now i st fs)"

definition sql_AppendJobEvent where
  "sql_AppendJobEvent ev = sql_exec (\<lambda>f now. AppendJobEvent f ev)"

definition sql_GetActiveProvisioningJobBySerial where
  "sql_GetActiveProvisioningJobBySerial sn = sql_query (\<lambda>f. GetActiveProvisioningJobBySerial f sn)"

definition sql_GetServerBySerial where
  "sql_GetServerBySerial sn = sql_query (\<lambda>f. GetServerBySerial f sn)"

definition sql_GetJobByID where
  "sql_GetJobByID i = sql_query (\<lambda>f. GetJobByID f i)"

definition sql_ExtendLease where
  "sql_ExtendLease i w ttl = sql_exec (\<lambda>f now. ExtendLease f now i w ttl)"

definition sql_UpdateJobTaskISOPath where
  "sql_UpdateJobTaskISOPath i p = sql_exec (\<lambda>f now. UpdateJobTaskISOPath f now i p)"

definition sql_AcquireQueuedJob where
  "sql_AcquireQueuedJob w ttl = sql_exec (\<lambda>f now. AcquireQueuedJob f now w ttl)"

definition sql_InsertJob where
  "sql_InsertJob j = sql_exec (\<lambda>f now. InsertJob f j)"

definition sql_ListJobEvents where
  "sql_ListJobEvents i n = sql_query (\<lambda>f. ListJobEvents f i n)"

definition sql_inv :: "sqldb \<Rightarrow> bool" where
  "sql_inv d = store_ok (db d)"

definition sql_status :: "sqldb \<Rightarrow> job_view" where
  "sql_status d i = map_option (\<lambda>j. (Status j, FailedStep j)) (job_by_id (db d) i)"

subsection \<open>Discharging the laws\<close>

lemma sql_exec_eq:
  "sql_exec m d = (r, d') \<longleftrightarrow>
     (\<exists>s'. m (fault_at d (calls d)) (clock_at d (calls d)) (db d) = (r, s') \<and>
           d' = d\<lparr>db := s', calls := Suc (calls d)\<rparr>)"
  by (auto simp: sql_exec_def split: prod.splits)

lemma sql_query_eq:
  "sql_query q d = (r, d') \<longleftrightarrow>
     q (fault_at d (calls d)) (db d) = r \<and> d' = d\<lparr>calls := Suc (calls d)\<rparr>"
  by (auto simp: sql_query_def)

lemma sql_inv_simps [simp]:
  "sql_inv (d\<lparr>calls := n\<rparr>) = sql_inv d" "sql_inv (d\<lparr>db := s, calls := n\<rparr>) = store_ok s"
  "sql_status (d\<lparr>calls := n\<rparr>) = sql_status d"
  by (simp_all add: sql_inv_def sql_status_def fun_eq_iff)

lemma sql_status_db:
  "sql_status (d\<lparr>db := s, calls := n\<rparr>) = (\<lambda>i. map_option (\<lambda>j. (Status j, FailedStep j)) (job_by_id s i))"
  by (simp add: sql_status_def fun_eq_iff)

lemma sql_status_upd:
  assumes "\<And>j. ID (f j) = ID j" "\<And>j. Status (f j) = Status j" "\<And>j. FailedStep (f j) = FailedStep j"
  shows "map_option (\<lambda>j. (Status j, FailedStep j)) (job_by_id (s\<lparr>jobs := upd_where P f (jobs s)\<rparr>) i) =
     map_option (\<lambda>j. (Status j, FailedStep j)) (job_by_id s i)"
  by (cases "job_by_id s i") (auto simp: job_by_id_upd assms)

lemma exec_stmt_eq:
  "exec_stmt f pre ok s = (r, s') \<longleftrightarrow>
     (case f of Some m \<Rightarrow> r = Inl (DbError (pre @ m)) \<and> s' = s | None \<Rightarrow> ok = (r, s'))"
  by (auto split: option.splits)

lemma sql_mark_Inr:
  assumes "sql_MarkJobStatus i st fs d = (Inr u, d')"
  shows "sql_status d' = (sql_status d)(i := map_option (\<lambda>_. (st, fs)) (sql_status d i))"
proof -
  from assms have "d' = d\<lparr>db := (db d)\<lparr>jobs := upd_where (\<lambda>j. ID j = i)
      (\<lambda>j. j\<lparr>Status := st, FailedStep := fs, UpdatedAt := clock_at d (calls d)\<rparr>) (jobs (db d))\<rparr>,
      calls := Suc (calls d)\<rparr>"
    by (auto simp: sql_MarkJobStatus_def sql_exec_eq MarkJobStatus_def exec_stmt_eq
             split: if_splits option.splits)
  then show ?thesis
    by (auto simp: sql_status_db sql_status_def fun_eq_iff job_by_id_upd_id option.map_comp o_def)
qed

lemma sql_mark_Inl: "sql_MarkJobStatus i st fs d = (Inl e, d') \<Longrightarrow> sql_status d' = sql_status d"
  by (auto simp: sql_MarkJobStatus_def sql_exec_eq MarkJobStatus_def exec_stmt_eq sql_status_db
                 sql_status_def fun_eq_iff split: if_splits option.splits)

lemma sql_append_frame: "sql_AppendJobEvent ev d = (r, d') \<Longrightarrow> sql_status d' = sql_status d"
  by (auto simp: sql_AppendJobEvent_def sql_exec_eq AppendJobEvent_def exec_stmt_eq sql_status_db
                 sql_status_def job_by_id_def fun_eq_iff split: if_splits option.splits)

interpretation sql_table: job_table sql_inv sql_status sql_MarkJobStatus sql_AppendJobEvent
proof
  fix d i st fs r d'
  assume "sql_inv d" "sql_MarkJobStatus i st fs d = (r, d')"
  then show "sql_inv d'"
    by (auto simp: sql_inv_def sql_MarkJobStatus_def sql_exec_eq intro: MarkJobStatus_ok)
next
  fix d ev r d'
  assume "sql_inv d" "sql_AppendJobEvent ev d = (r, d')"
  then show "sql_inv d'"
    by (auto simp: sql_inv_def sql_AppendJobEvent_def sql_exec_eq intro: AppendJobEvent_ok)
qed (auto dest: sql_mark_Inr sql_mark_Inl sql_append_frame)

lemma sql_active_Inr:
  assumes "sql_inv d" "sql_GetActiveProvisioningJobBySerial sn d = (Inr j, d')"
  shows "ServerSerial j = sn \<and> sql_status d (ID j) = Some (JobStatusProvisioning, FailedStep j)"
proof -
  from assms(2) have "active_job (db d) sn = Some j"
    by (auto simp: sql_GetActiveProvisioningJobBySerial_def sql_query_eq
                   GetActiveProvisioningJobBySerial_def split: option.splits)
  then have "j \<in> set (jobs (db d))" "ServerSerial j = sn" "Status j = JobStatusProvisioning"
    using active_job_Some by blast+
  with assms(1) show ?thesis
    by (simp add: sql_inv_def sql_status_def job_by_id_member)
qed

interpretation sql_webhook: webhook_store sql_inv sql_status sql_MarkJobStatus sql_AppendJobEvent
  sql_GetActiveProvisioningJobBySerial
  by unfold_locales
     (auto simp: sql_GetActiveProvisioningJobBySerial_def sql_query_eq
           dest: sql_active_Inr[unfolded sql_GetActiveProvisioningJobBySerial_def sql_query_eq])

lemma sql_acquire_Inr:
  assumes "sql_inv d" "sql_AcquireQueuedJob w ttl d = (Inr j, d')"
  shows "sql_status d (ID j) = Some (JobStatusQueued, FailedStep j) \<and>
     sql_status d' = (sql_status d)(ID j \<mapsto> (JobStatusProvisioning, FailedStep j))"
proof -
  let ?now = "clock_at d (calls d)"
  from assms obtain c where c: "next_queued (db d) = Some c" "j = lease_job ?now (?now + ttl) w c"
    and d': "d' = d\<lparr>db := acquired ?now ttl w c (db d), calls := Suc (calls d)\<rparr>"
    by (auto simp: sql_inv_def sql_AcquireQueuedJob_def sql_exec_eq elim: AcquireQueuedJob_Inr)
  have look: "job_by_id (db d) (ID c) = Some c" "Status c = JobStatusQueued"
    using assms(1) c next_queued_Some job_by_id_member by (auto simp: sql_inv_def)
  have other: "k \<noteq> ID c \<Longrightarrow> job_by_id (acquired ?now ttl w c (db d)) k = job_by_id (db d) k" for k
    by (cases "job_by_id (db d) k") (auto simp: acquired_def job_by_id_upd dest: job_by_id_Some)
  have "FailedStep j = FailedStep c" "ID j = ID c" using c by (simp_all add: lease_job_def)
  with look d' other c assms(1) show ?thesis
    by (auto simp: sql_status_db sql_status_def fun_eq_iff acquired_lookup sql_inv_def)
qed

lemma sql_acquire_Inl:
  "sql_AcquireQueuedJob w ttl d = (Inl e, d') \<Longrightarrow> sql_status d' = sql_status d"
  by (auto simp: sql_AcquireQueuedJob_def sql_exec_eq sql_status_db sql_status_def fun_eq_iff
           dest: AcquireQueuedJob_Inl)

lemma sql_extend_frame: "sql_ExtendLease i w ttl d = (r, d') \<Longrightarrow> sql_status d' = sql_status d"
  by (auto simp: sql_ExtendLease_def sql_exec_eq ExtendLease_def Let_def exec_stmt_eq sql_status_db
                 sql_status_def fun_eq_iff sql_status_upd split: option.splits)

lemma sql_iso_frame: "sql_UpdateJobTaskISOPath i p d = (r, d') \<Longrightarrow> sql_status d' = sql_status d"
  by (auto simp: sql_UpdateJobTaskISOPath_def sql_exec_eq UpdateJobTaskISOPath_def exec_stmt_eq
                 sql_status_db sql_status_def fun_eq_iff sql_status_upd split: option.splits)

interpretation sql_worker: worker_store sql_inv sql_status sql_MarkJobStatus sql_AppendJobEvent
  sql_GetServerBySerial sql_GetJobByID sql_ExtendLease sql_UpdateJobTaskISOPath sql_AcquireQueuedJob
proof
  fix d i j d'
  assume "sql_inv d" "sql_GetJobByID i d = (Inr j, d')"
  then show "sql_status d i = Some (Status j, FailedStep j)"
    by (auto simp: sql_GetJobByID_def sql_query_eq GetJobByID_def sql_status_def
             split: option.splits)
next
  fix d i w ttl r d'
  assume "sql_inv d" "sql_ExtendLease i w ttl d = (r, d')"
  then show "sql_inv d'"
    by (auto simp: sql_inv_def sql_ExtendLease_def sql_exec_eq intro: ExtendLease_ok)
next
  fix d i p r d'
  assume "sql_inv d" "sql_UpdateJobTaskISOPath i p d = (r, d')"
  then show "sql_inv d'"
    by (auto simp: sql_inv_def sql_UpdateJobTaskISOPath_def sql_exec_eq intro: UpdateJobTaskISOPath_ok)
next
  fix d w ttl r d'
  assume "sql_inv d" "sql_AcquireQueuedJob w ttl d = (r, d')"
  then show "sql_inv d'"
    by (auto simp: sql_inv_def sql_AcquireQueuedJob_def sql_exec_eq intro: AcquireQueuedJob_ok)
qed (auto simp: sql_GetServerBySerial_def sql_GetJobByID_def sql_query_eq
          dest: sql_acquire_Inr sql_acquire_Inl sql_extend_frame sql_iso_frame)

end
