(* ===== verification/Webhook.thy ===== *)
theory Webhook
  imports Http StoreIface
begin

text \<open>
  The status webhook (\<open>internal/provisioner/api/webhook.go\<close>): the per-job cache of delivery ids
  and the handler of \<open>POST /api/v1/status-webhook/{serial}\<close>, over the \<open>WebhookStore\<close> interface.
  One call of \<open>webhook_handler\<close> is one request, with the clock reading \<open>now\<close>; logging and
  metrics have no effect on the result and are left out.
\<close>

record 's WebhookStore =
  ws_GetActiveProvisioningJobBySerial :: "string \<Rightarrow> 's \<Rightarrow> job result \<times> 's"
  ws_MarkJobStatus :: "string \<Rightarrow> JobStatus \<Rightarrow> string option \<Rightarrow> 's \<Rightarrow> unit result \<times> 's"
  ws_AppendJobEvent :: "job_event \<Rightarrow> 's \<Rightarrow> unit result \<times> 's"

record WebhookRequest =
  wr_Status :: string
  wr_FailedStep :: "string option"
  wr_DeliveryID :: string
  wr_TaskTarget :: string
  wr_Started :: string
  wr_Finished :: string
  wr_DispatcherV :: string
  wr_SchemaID :: string

text \<open>A \<open>*string\<close> field: \<open>null\<close> resets it to \<open>nil\<close>; \<open>None\<close> overall is a decoding error.\<close>

fun decode_string_ptr :: "string \<Rightarrow> string option \<Rightarrow> (string \<times> json) list \<Rightarrow> string option option" where
  "decode_string_ptr f acc [] = Some acc"
| "decode_string_ptr f acc ((k, v) # kvs) =
     (if equal_fold k f
      then (case v of
              JStr s \<Rightarrow> decode_string_ptr f (Some s) kvs
            | JNull \<Rightarrow> decode_string_ptr f None kvs
            | _ \<Rightarrow> None)
      else decode_string_ptr f acc kvs)"

definition decode_webhook_obj :: "(string \<times> json) list \<Rightarrow> WebhookRequest option" where
  "decode_webhook_obj kvs =
     (case (decode_string_field ''status'' [] kvs, decode_string_ptr ''failed_step'' None kvs,
            decode_string_field ''delivery_id'' [] kvs, decode_string_field ''task_target'' [] kvs,
            decode_string_field ''started_at'' [] kvs, decode_string_field ''finished_at'' [] kvs,
            decode_string_field ''dispatcher_version'' [] kvs,
            decode_string_field ''schema_id'' [] kvs) of
        (Some st, Some fs, Some did, Some tt, Some sa, Some fa, Some dv, Some sid) \<Rightarrow>
          Some \<lparr>wr_Status = st, wr_FailedStep = fs, wr_DeliveryID = did, wr_TaskTarget = tt,
                wr_Started = sa, wr_Finished = fa, wr_DispatcherV = dv, wr_SchemaID = sid\<rparr>
      | _ \<Rightarrow> None)"

definition decode_webhook :: "raw_message \<Rightarrow> WebhookRequest option" where
  "decode_webhook raw =
     (case raw of
        RawJson (JObj kvs) \<Rightarrow> decode_webhook_obj kvs
      | RawJson JNull \<Rightarrow> decode_webhook_obj []
      | _ \<Rightarrow> None)"

section \<open>The delivery cache\<close>

record deliveryCache =
  cache :: "string \<Rightarrow> string list"
  max_ids :: int

definition newDeliveryCache :: "int \<Rightarrow> deliveryCache" where
  "newDeliveryCache maxPerJob =
     \<lparr>cache = (\<lambda>_. []), max_ids = (if maxPerJob \<le> 0 then 32 else maxPerJob)\<rparr>"

definition cache_record :: "string \<Rightarrow> string \<Rightarrow> deliveryCache \<Rightarrow> bool \<times> deliveryCache" where
  "cache_record jobID deliveryID dc =
     (if deliveryID = '''' then (False, dc)
      else let ids = cache dc jobID
           in if deliveryID \<in> set ids then (False, dc)
              else let ids' = deliveryID # ids;
                       ids'' = (if int (length ids') > max_ids dc
                                then take (nat (max_ids dc)) ids' else ids')
                   in (True, dc\<lparr>cache := (cache dc)(jobID := ids'')\<rparr>))"

definition cache_remove :: "string \<Rightarrow> deliveryCache \<Rightarrow> deliveryCache" where
  "cache_remove jobID dc = dc\<lparr>cache := (cache dc)(jobID := [])\<rparr>"

section \<open>The handler\<close>

definition webhook_prefix :: string where
  "webhook_prefix = ''/api/v1/status-webhook/''"

text \<open>The shared-secret check: true when the request may proceed.\<close>

definition webhook_authorized :: "string \<Rightarrow> string \<Rightarrow> string \<Rightarrow> bool" where
  "webhook_authorized secret secretOld got =
     (if secret \<noteq> '''' \<or> secretOld \<noteq> ''''
      then (if got = '''' then False
            else (let validSecret = (secret \<noteq> '''' \<and> got = secret)
                  in if \<not> validSecret \<and> secretOld \<noteq> '''' \<and> got = secretOld then True
                     else validSecret))
      else True)"

definition webhook_event :: "job \<Rightarrow> time \<Rightarrow> EventLevel \<Rightarrow> string \<Rightarrow> string option \<Rightarrow> job_event" where
  "webhook_event j now lvl msg stp =
     \<lparr>EventID = 0, JobID = ID j, Time = now, Level = lvl, Message = msg, Step = stp\<rparr>"

definition with_delivery :: "string \<Rightarrow> string \<Rightarrow> string" where
  "with_delivery msg did =
     (if did \<noteq> '''' then msg @ '' (delivery_id='' @ did @ '')'' else msg)"

definition webhook_failed_step :: "WebhookRequest \<Rightarrow> string" where
  "webhook_failed_step req =
     (case wr_FailedStep req of
        None \<Rightarrow> ''unknown''
      | Some fs \<Rightarrow> if trim_space fs = '''' then ''unknown'' else fs)"

text \<open>The transition of the selected job, after deduplication.\<close>

definition webhook_transition ::
  "'s WebhookStore \<Rightarrow> time \<Rightarrow> string \<Rightarrow> WebhookRequest \<Rightarrow> job \<Rightarrow> 's \<Rightarrow> response \<times> 's" where
  "webhook_transition st now status req j s =
     (if status = ''success''
      then (case ws_MarkJobStatus st (ID j) JobStatusSucceeded None s of
              (Inl e, s1) \<Rightarrow>
                (writeJSON StatusInternalServerError (jsonError ''server_error'' ''failed to update job''), s1)
            | (Inr _, s1) \<Rightarrow>
                (let msg = with_delivery ''Webhook reported success'' (wr_DeliveryID req);
                     s2 = snd (ws_AppendJobEvent st
                            (webhook_event j now EventLevelInfo msg (Some ''webhook-success'')) s1)
                 in (writeJSON StatusOK (JObj [(''ok'', JBool True)]), s2)))
      else (let fs = webhook_failed_step req
            in case ws_MarkJobStatus st (ID j) JobStatusFailed (Some fs) s of
                 (Inl e, s1) \<Rightarrow>
                   (writeJSON StatusInternalServerError (jsonError ''server_error'' ''failed to update job''), s1)
               | (Inr _, s1) \<Rightarrow>
                   (let msg = with_delivery (''Webhook reported failure at step '' @ fs) (wr_DeliveryID req);
                        s2 = snd (ws_AppendJobEvent st
                               (webhook_event j now EventLevelError msg (Some fs)) s1)
                    in (writeJSON StatusOK (JObj [(''ok'', JBool True)]), s2))))"

definition webhook_deliver ::
  "'s WebhookStore \<Rightarrow> time \<Rightarrow> string \<Rightarrow> WebhookRequest \<Rightarrow> job \<Rightarrow> deliveryCache \<times> 's \<Rightarrow>
   response \<times> deliveryCache \<times> 's" where
  "webhook_deliver st now status req j = (\<lambda>(dc, s).
     (if wr_DeliveryID req \<noteq> ''''
      then (case cache_record (ID j) (wr_DeliveryID req) dc of
              (False, dc') \<Rightarrow>
                (let s' = snd (ws_AppendJobEvent st
                       (webhook_event j now EventLevelInfo
                          (''Idempotent webhook delivery (delivery_id='' @ wr_DeliveryID req @ '')'')
                          (Some ''webhook-duplicate'')) s)
                 in (writeJSON StatusOK (JObj [(''idempotent'', JBool True), (''ok'', JBool True)]), dc', s'))
            | (True, dc') \<Rightarrow>
                (case webhook_transition st now status req j s of (resp, s') \<Rightarrow> (resp, dc', s')))
      else (case webhook_transition st now status req j s of (resp, s') \<Rightarrow> (resp, dc, s'))))"

definition webhook_handler ::
  "'s WebhookStore \<Rightarrow> string \<Rightarrow> string \<Rightarrow> time \<Rightarrow> request \<Rightarrow> deliveryCache \<times> 's \<Rightarrow>
   response \<times> deliveryCache \<times> 's" where
  "webhook_handler st secret secretOld now r = (\<lambda>(dc, s).
     (if Method r \<noteq> ''POST'' then (http_NotFound, dc, s)
      else let serial = trim_prefix (URLPath r) webhook_prefix
      in if serial = '''' \<or> contains serial ''/'' then (http_NotFound, dc, s)
      else if \<not> webhook_authorized secret secretOld (Header r ''X-Webhook-Secret'')
        then (writeJSON StatusUnauthorized
                (jsonError ''unauthorized'' ''invalid or missing webhook secret''), dc, s)
      else case decode_webhook (Body r) of
        None \<Rightarrow> (writeJSON StatusBadRequest
                (jsonError ''invalid_json'' ''request body must be valid JSON''), dc, s)
      | Some req \<Rightarrow>
          (let status = to_lower (trim_space (wr_Status req))
           in if status \<noteq> ''success'' \<and> status \<noteq> ''failed''
              then (writeJSON StatusBadRequest
                     (jsonError ''invalid_request''
                        (''status must be '' @ [CHR 0x22] @ ''success'' @ [CHR 0x22] @
                         '' or '' @ [CHR 0x22] @ ''failed'' @ [CHR 0x22])), dc, s)
              else case ws_GetActiveProvisioningJobBySerial st serial s of
                (Inl e, s1) \<Rightarrow> (writeJSON StatusNotFound
                     (jsonError ''not_found'' ''no active job for this server''), dc, s1)
              | (Inr j, s1) \<Rightarrow> webhook_deliver st now status req j (dc, s1))))"

section \<open>The cache stays bounded and free of duplicates\<close>

definition cache_ok :: "deliveryCache \<Rightarrow> bool" where
  "cache_ok dc \<longleftrightarrow>
     0 < max_ids dc \<and> (\<forall>i. int (length (cache dc i)) \<le> max_ids dc \<and> distinct (cache dc i))"

lemma cache_ok_new [simp]: "cache_ok (newDeliveryCache n)"
  by (simp add: cache_ok_def newDeliveryCache_def)

lemma cache_record_ok:
  assumes "cache_ok dc" and "cache_record i d dc = (b, dc')"
  shows "cache_ok dc'"
  using assms
  by (auto simp: cache_record_def cache_ok_def Let_def distinct_take split: if_splits)

lemma cache_record_max: "cache_record i d dc = (b, dc') \<Longrightarrow> max_ids dc' = max_ids dc"
  by (auto simp: cache_record_def Let_def split: if_splits)

lemma cache_remove_ok: "cache_ok dc \<Longrightarrow> cache_ok (cache_remove i dc)"
  by (auto simp: cache_ok_def cache_remove_def)

text \<open>A recorded id is remembered: recording it again at once reports a duplicate.\<close>

lemma cache_record_twice:
  assumes "cache_ok dc" and "d \<noteq> ''''" and "cache_record i d dc = (b, dc')"
  shows "cache_record i d dc' = (False, dc')"
proof -
  have "0 < nat (max_ids dc)" using assms(1) by (simp add: cache_ok_def)
  then have "d \<in> set (take (nat (max_ids dc)) (d # cache dc i))"
    by (cases "nat (max_ids dc)") auto
  with assms have "d \<in> set (cache dc' i)"
    by (auto simp: cache_record_def Let_def split: if_splits)
  with assms(2) show ?thesis by (simp add: cache_record_def Let_def)
qed

section \<open>The handler over any store that keeps the interface laws\<close>

definition mk_WebhookStore ::
  "(string \<Rightarrow> 's \<Rightarrow> job result \<times> 's) \<Rightarrow>
   (string \<Rightarrow> JobStatus \<Rightarrow> string option \<Rightarrow> 's \<Rightarrow> unit result \<times> 's) \<Rightarrow>
   (job_event \<Rightarrow> 's \<Rightarrow> unit result \<times> 's) \<Rightarrow> 's WebhookStore" where
  "mk_WebhookStore g m a =
     \<lparr>ws_GetActiveProvisioningJobBySerial = g, ws_MarkJobStatus = m, ws_AppendJobEvent = a\<rparr>"

lemma mk_WebhookStore_sel [simp]:
  "ws_GetActiveProvisioningJobBySerial (mk_WebhookStore g m a) = g"
  "ws_MarkJobStatus (mk_WebhookStore g m a) = m"
  "ws_AppendJobEvent (mk_WebhookStore g m a) = a"
  by (simp_all add: mk_WebhookStore_def)

text \<open>What a delivery with the normalised status makes of the job.\<close>

definition webhook_outcome :: "string \<Rightarrow> WebhookRequest \<Rightarrow> JobStatus \<times> string option" where
  "webhook_outcome status req =
     (if status = ''success'' then (JobStatusSucceeded, None)
      else (JobStatusFailed, Some (webhook_failed_step req)))"

definition is_duplicate :: "WebhookRequest \<Rightarrow> job \<Rightarrow> deliveryCache \<Rightarrow> bool" where
  "is_duplicate req j dc \<longleftrightarrow> wr_DeliveryID req \<noteq> '''' \<and> wr_DeliveryID req \<in> set (cache dc (ID j))"

context webhook_store
begin

lemma snd_append_frame: "inv s \<Longrightarrow> status_of (snd (append ev s)) = status_of s \<and> inv (snd (append ev s))"
  by (cases "append ev s") (auto dest: append_frame append_inv)

lemma transition_spec:
  assumes "inv s" and "status_of s (ID j) = Some x"
    and "webhook_transition (mk_WebhookStore get_active mark append) now status req j s = (resp, s')"
  shows "inv s' \<and>
     (RCode resp = StatusOK \<and> status_of s' = (status_of s)(ID j \<mapsto> webhook_outcome status req) \<or>
      RCode resp = StatusInternalServerError \<and> status_of s' = status_of s)"
proof (cases "mark (ID j) (fst (webhook_outcome status req)) (snd (webhook_outcome status req)) s")
  case (Pair r s1)
  have s1: "inv s1" using mark_inv [OF assms(1) Pair] .
  show ?thesis
  proof (cases r)
    case (Inl e)
    with Pair have "status_of s1 = status_of s" using mark_Inl [OF assms(1)] by blast
    with Pair Inl s1 assms(3) show ?thesis
      by (auto simp: webhook_transition_def webhook_outcome_def Let_def split: if_splits)
  next
    case (Inr u)
    with Pair have "status_of s1 = (status_of s)(ID j \<mapsto> webhook_outcome status req)"
      using mark_Inr [OF assms(1)] assms(2) by auto
    with Pair Inr snd_append_frame [OF s1] assms(3) show ?thesis
      by (auto simp: webhook_transition_def webhook_outcome_def Let_def split: if_splits)
  qed
qed

lemma deliver_duplicate:
  assumes "inv s" and "is_duplicate req j dc"
    and "webhook_deliver (mk_WebhookStore get_active mark append) now status req j (dc, s) =
           (resp, dc', s')"
  shows "inv s' \<and> RCode resp = StatusOK \<and> dc' = dc \<and> status_of s' = status_of s"
  using assms
  by (auto simp: webhook_deliver_def cache_record_def snd_append_frame Let_def is_duplicate_def)

lemma deliver_first:
  assumes "inv s" and "status_of s (ID j) = Some x" and "\<not> is_duplicate req j dc"
    and "webhook_deliver (mk_WebhookStore get_active mark append) now status req j (dc, s) =
           (resp, dc', s')"
  shows "inv s' \<and>
     (RCode resp = StatusOK \<and> status_of s' = (status_of s)(ID j \<mapsto> webhook_outcome status req) \<or>
      RCode resp = StatusInternalServerError \<and> status_of s' = status_of s)"
proof -
  from assms(3,4) have "webhook_transition (mk_WebhookStore get_active mark append) now status req j s
      = (resp, s')"
    by (auto simp: webhook_deliver_def cache_record_def Let_def is_duplicate_def
             split: if_splits prod.splits)
  then show ?thesis by (rule transition_spec [OF assms(1,2)])
qed

text \<open>
  The whole request: a change of any job's status needs a \<open>POST\<close>, a valid secret and a
  well-formed body; it moves one provisioning job of the named server to the reported outcome
  and answers 200.
\<close>

lemma handler_changes_only_active:
  assumes "inv s"
    and run: "webhook_handler (mk_WebhookStore get_active mark append) secret secretOld now r (dc, s) =
           (resp, dc', s')"
    and changed: "status_of s' \<noteq> status_of s"
  shows "Method r = ''POST'' \<and> webhook_authorized secret secretOld (Header r ''X-Webhook-Secret'') \<and>
    RCode resp = StatusOK \<and>
    (\<exists>(j::job) req. decode_webhook (Body r) = Some req \<and>
       ServerSerial j = trim_prefix (URLPath r) webhook_prefix \<and>
       status_of s (ID j) = Some (JobStatusProvisioning, FailedStep j) \<and>
       status_of s' =
         (status_of s)(ID j \<mapsto> webhook_outcome (to_lower (trim_space (wr_Status req))) req))"
proof -
  let ?serial = "trim_prefix (URLPath r) webhook_prefix"
  from run changed active_frame [OF \<open>inv s\<close>] obtain req j s1 where
    post: "Method r = ''POST''" "webhook_authorized secret secretOld (Header r ''X-Webhook-Secret'')"
      "decode_webhook (Body r) = Some req"
    and act: "get_active ?serial s = (Inr j, s1)"
    and del: "webhook_deliver (mk_WebhookStore get_active mark append) now
        (to_lower (trim_space (wr_Status req))) req j (dc, s1) = (resp, dc', s')"
    by (auto simp: webhook_handler_def Let_def split: if_splits option.splits prod.splits sum.splits)
  have s1: "inv s1" "status_of s1 = status_of s"
    using active_inv active_frame \<open>inv s\<close> act by blast+
  have j: "ServerSerial j = ?serial" "status_of s (ID j) = Some (JobStatusProvisioning, FailedStep j)"
    using active_Inr [OF \<open>inv s\<close> act] by auto
  have "\<not> is_duplicate req j dc"
    using deliver_duplicate [OF s1(1) _ del] s1(2) changed by auto
  from deliver_first [OF s1(1) _ this del] s1(2) j changed
  have "RCode resp = StatusOK \<and>
      status_of s' = (status_of s)(ID j \<mapsto> webhook_outcome (to_lower (trim_space (wr_Status req))) req)"
    by auto
  with post j show ?thesis by blast
qed

end

section \<open>The handler on the SQLite store\<close>

definition sql_WebhookStore :: "sqldb WebhookStore" where
  "sql_WebhookStore =
     mk_WebhookStore sql_GetActiveProvisioningJobBySerial sql_MarkJobStatus sql_AppendJobEvent"

lemma webhook_rejects:
  assumes "Method r \<noteq> ''POST'' \<or> \<not> webhook_authorized secret secretOld (Header r ''X-Webhook-Secret'')"
  shows "\<exists>resp. webhook_handler st secret secretOld now r (dc, s) = (resp, dc, s) \<and>
     (RCode resp = StatusNotFound \<or> RCode resp = StatusUnauthorized)"
  using assms by (auto simp: webhook_handler_def Let_def)

lemma handler_cache_ok:
  assumes "webhook_handler st secret secretOld now r (dc, s) = (resp, dc', s')" and "cache_ok dc"
  shows "cache_ok dc' \<and> max_ids dc' = max_ids dc"
  using assms cache_record_ok [OF assms(2)] cache_record_max
  by (auto simp: webhook_handler_def webhook_deliver_def Let_def
           split: if_splits option.splits prod.splits sum.splits bool.splits)

text \<open>The states of one handler's cache and store over any sequence of requests.\<close>

fun webhook_serve ::
  "'s WebhookStore \<Rightarrow> string \<Rightarrow> string \<Rightarrow> (time \<times> request) list \<Rightarrow> deliveryCache \<times> 's \<Rightarrow>
   deliveryCache \<times> 's" where
  "webhook_serve st secret secretOld [] ds = ds"
| "webhook_serve st secret secretOld ((now, r) # rs) ds =
     webhook_serve st secret secretOld rs (snd (webhook_handler st secret secretOld now r ds))"

lemma serve_cache_ok:
  "cache_ok dc \<Longrightarrow> webhook_serve st secret secretOld rs (dc, s) = (dc', s') \<Longrightarrow>
   cache_ok dc' \<and> max_ids dc' = max_ids dc"
proof (induction rs arbitrary: dc s)
  case Nil
  then show ?case by simp
next
  case (Cons q rs)
  obtain now r where q: "q = (now, r)" by (cases q)
  obtain resp dc1 s1 where h: "webhook_handler st secret secretOld now r (dc, s) = (resp, dc1, s1)"
    by (cases "webhook_handler st secret secretOld now r (dc, s)")
  from handler_cache_ok [OF h Cons.prems(1)] Cons.IH [of dc1 s1] Cons.prems(2) h q
  show ?case by simp
qed

text \<open>A transition that answers 500 has recorded its delivery id and left the job in place.\<close>

lemma handler_500:
  assumes "webhook_handler st secret secretOld now r (dc, s) = (resp, dc', s')"
    and "RCode resp = StatusInternalServerError"
  obtains req j s1 e where "decode_webhook (Body r) = Some req"
    "ws_GetActiveProvisioningJobBySerial st (trim_prefix (URLPath r) webhook_prefix) s = (Inr j, s1)"
    "ws_MarkJobStatus st (ID j) (fst (webhook_outcome (to_lower (trim_space (wr_Status req))) req))
       (snd (webhook_outcome (to_lower (trim_space (wr_Status req))) req)) s1 = (Inl e, s')"
    "wr_DeliveryID req \<noteq> '''' \<longrightarrow> cache_record (ID j) (wr_DeliveryID req) dc = (True, dc')"
  using assms
  by (auto simp: webhook_handler_def webhook_deliver_def webhook_transition_def webhook_outcome_def Let_def
           split: if_splits option.splits prod.splits sum.splits bool.splits)

lemma handler_redelivery:
  assumes "webhook_handler st secret secretOld now r (dc, s) = (resp, dc', s')"
    and "Method r = ''POST''" "webhook_authorized secret secretOld (Header r ''X-Webhook-Secret'')"
    and "decode_webhook (Body r) = Some req"
    and "to_lower (trim_space (wr_Status req)) = ''success'' \<or> to_lower (trim_space (wr_Status req)) = ''failed''"
    and "trim_prefix (URLPath r) webhook_prefix \<noteq> ''''" "\<not> contains (trim_prefix (URLPath r) webhook_prefix) ''/''"
    and "ws_GetActiveProvisioningJobBySerial st (trim_prefix (URLPath r) webhook_prefix) s = (Inr j, s1)"
    and "wr_DeliveryID req \<noteq> ''''" "cache_record (ID j) (wr_DeliveryID req) dc = (False, dc)"
  shows "RCode resp = StatusOK \<and> dc' = dc \<and> (\<exists>ev. s' = snd (ws_AppendJobEvent st ev s1))"
  using assms
  by (auto simp: webhook_handler_def webhook_deliver_def Let_def split: if_splits)

section \<open>Properties\<close>

definition demo_db :: "(nat \<Rightarrow> faults) \<Rightarrow> job list \<Rightarrow> sqldb" where
  "demo_db fl js = \<lparr>db = demo_store js, calls = 0, fault_at = fl, clock_at = (\<lambda>_. 50)\<rparr>"

definition demo_post :: "string \<Rightarrow> json \<Rightarrow> request" where
  "demo_post path body =
     \<lparr>Method = ''POST'', URLPath = path,
      Header = (\<lambda>h. if h = ''X-Webhook-Secret'' then ''new'' else ''''), Query = (\<lambda>_. ''''),
      Body = RawJson body, RemoteAddr = ''10.0.0.9:1''\<rparr>"

definition demo_delivery :: request where
  "demo_delivery = demo_post ''/api/v1/status-webhook/S1''
     (JObj [(''status'', JStr '' Failed ''), (''failed_step'', JStr ''partition.service''),
            (''delivery_id'', JStr ''d1'')])"

lemma demo_store_ok: "distinct (map ID js) \<Longrightarrow> (\<And>j. j \<in> set js \<Longrightarrow> Valid (Status j) \<and> ServerSerial j = ''S1'') \<Longrightarrow>
  store_ok (demo_store js)"
  by (auto simp: store_ok_def demo_store_def demo_server_def empty_store_def UpsertServer_def)



text \<open>
  Secret rotation: with a secret configured, a \<open>POST\<close> for a well-formed path is answered 401
  exactly when its header is empty or equals neither the current nor the previous secret, and
  then neither the cache nor the store is touched; an empty configured secret is never accepted
  as a match.
\<close>

lemma webhook_auth_exact:
  assumes "Method r = ''POST''" and "secret \<noteq> '''' \<or> secretOld \<noteq> ''''"
    and "trim_prefix (URLPath r) webhook_prefix \<noteq> ''''"
    and "CHR ''/'' \<notin> set (trim_prefix (URLPath r) webhook_prefix)"
    and "webhook_handler st secret secretOld now r (dc, s) = (resp, dc', s')"
  shows "(RCode resp = StatusUnauthorized \<longleftrightarrow>
           Header r ''X-Webhook-Secret'' = '''' \<or> Header r ''X-Webhook-Secret'' \<notin> {secret, secretOld}) \<and>
     (RCode resp = StatusUnauthorized \<longrightarrow> dc' = dc \<and> s' = s)"
proof -
  have a: "webhook_authorized secret secretOld (Header r ''X-Webhook-Secret'') \<longleftrightarrow>
      Header r ''X-Webhook-Secret'' \<noteq> '''' \<and> Header r ''X-Webhook-Secret'' \<in> {secret, secretOld}"
    using assms(2) by (auto simp: webhook_authorized_def Let_def)
  have ne: "RCode resp \<noteq> StatusUnauthorized" if "webhook_authorized secret secretOld (Header r ''X-Webhook-Secret'')"
    using that assms
    by (auto simp: webhook_handler_def webhook_deliver_def webhook_transition_def Let_def
             split: if_splits option.splits prod.splits sum.splits bool.splits)
  show ?thesis
  proof (cases "webhook_authorized secret secretOld (Header r ''X-Webhook-Secret'')")
    case True
    with ne a show ?thesis by blast
  next
    case False
    with assms have "RCode resp = StatusUnauthorized \<and> dc' = dc \<and> s' = s"
      by (auto simp: webhook_handler_def Let_def)
    with False a show ?thesis by blast
  qed
qed

lemma webhook_auth_exact_instance:
  "let d = demo_db (\<lambda>_. no_faults) [demo_job ''a'' JobStatusProvisioning 5];
       h = webhook_handler sql_WebhookStore ''s3cret'' '''' 50 demo_delivery (newDeliveryCache 32, d)
   in RCode (fst h) = StatusUnauthorized \<and> snd h = (newDeliveryCache 32, d)"
proof -
  let ?d = "demo_db (\<lambda>_. no_faults) [demo_job ''a'' JobStatusProvisioning 5]"
  let ?h = "webhook_handler sql_WebhookStore ''s3cret'' '''' 50 demo_delivery (newDeliveryCache 32, ?d)"
  have "Method demo_delivery = ''POST''" "trim_prefix (URLPath demo_delivery) webhook_prefix = ''S1''"
    "Header demo_delivery ''X-Webhook-Secret'' = ''new''" by code_simp+
  with webhook_auth_exact [of demo_delivery "''s3cret''" "''''" sql_WebhookStore 50
      "newDeliveryCache 32" ?d "fst ?h" "fst (snd ?h)" "snd (snd ?h)"]
  show ?thesis by (simp add: Let_def prod_eq_iff)
qed

text \<open>
  C5. A delivery whose status update fails is lost: when the handler answers 500 to a request
  that carries a delivery id, a retry of the same request against the same rows, however the
  driver behaves then, is answered 404 (no active job could be read) or 200, and in neither case
  does it change the status of any job, because the id was recorded before the update.
\<close>

theorem webhook_lost_delivery:
  assumes inv: "sql_inv d" and ok: "cache_ok dc"
    and first: "webhook_handler sql_WebhookStore secret secretOld now r (dc, d) = (resp, dc1, d1)"
    and c500: "RCode resp = StatusInternalServerError"
    and body: "decode_webhook (Body r) = Some req" and did: "wr_DeliveryID req \<noteq> ''''"
    and same: "db d2 = db d1"
    and retry: "webhook_handler sql_WebhookStore secret secretOld now2 r (dc1, d2) = (resp2, dc3, d3)"
  shows "(RCode resp2 = StatusNotFound \<or> RCode resp2 = StatusOK) \<and> sql_status d3 = sql_status d \<and>
     (\<exists>j. active_job (db d) (trim_prefix (URLPath r) webhook_prefix) = Some j \<and>
          sql_status d3 (ID j) = Some (JobStatusProvisioning, FailedStep j))"
proof -
  let ?sn = "trim_prefix (URLPath r) webhook_prefix"
  let ?st = "to_lower (trim_space (wr_Status req))"
  obtain req' j s1 e where "decode_webhook (Body r) = Some req'" and
    act: "sql_GetActiveProvisioningJobBySerial ?sn d = (Inr j, s1)" and
    mark: "sql_MarkJobStatus (ID j) (fst (webhook_outcome (to_lower (trim_space (wr_Status req'))) req'))
      (snd (webhook_outcome (to_lower (trim_space (wr_Status req'))) req')) s1 = (Inl e, d1)" and
    "wr_DeliveryID req' \<noteq> '''' \<longrightarrow> cache_record (ID j) (wr_DeliveryID req') dc = (True, dc1)"
    by (rule handler_500 [OF first c500]) (simp add: sql_WebhookStore_def)
  with body did have rec: "cache_record (ID j) (wr_DeliveryID req) dc = (True, dc1)" by simp
  have rec2: "cache_record (ID j) (wr_DeliveryID req) dc1 = (False, dc1)"
    by (rule cache_record_twice [OF ok did rec])
  have db1: "db d1 = db d" using act mark
    by (auto simp: sql_GetActiveProvisioningJobBySerial_def sql_query_eq sql_MarkJobStatus_def sql_exec_eq
                   MarkJobStatus_def exec_stmt_eq split: if_splits option.splits)
  then have st2: "sql_status d2 = sql_status d" "sql_inv d2"
    using same inv by (auto simp: sql_status_def sql_inv_def fun_eq_iff)
  have aj: "active_job (db d) ?sn = Some j" using act
    by (auto simp: sql_GetActiveProvisioningJobBySerial_def sql_query_eq
                   GetActiveProvisioningJobBySerial_def split: option.splits)
  have jst: "sql_status d (ID j) = Some (JobStatusProvisioning, FailedStep j)"
    using sql_active_Inr [OF inv act] by simp
  obtain q s2 where act2: "sql_GetActiveProvisioningJobBySerial ?sn d2 = (q, s2)" by fastforce
  have s2: "sql_status s2 = sql_status d" "sql_inv s2"
    using sql_webhook.active_frame [OF st2(2) act2] sql_webhook.active_inv [OF st2(2) act2] st2 by auto
  have qj: "k = j" if "q = Inr k" for k using act2 that same db1 aj
    by (auto simp: sql_GetActiveProvisioningJobBySerial_def sql_query_eq
                   GetActiveProvisioningJobBySerial_def split: option.splits)
  from first c500 have "?st = ''success'' \<or> ?st = ''failed''" "Method r = ''POST''" "?sn \<noteq> ''''"
    "\<not> contains ?sn ''/''" "webhook_authorized secret secretOld (Header r ''X-Webhook-Secret'')"
    using body by (auto simp: webhook_handler_def Let_def split: if_splits)
  note g = this
  have "(RCode resp2 = StatusNotFound \<or> RCode resp2 = StatusOK) \<and> sql_status d3 = sql_status d"
  proof (cases q)
    case (Inl er)
    with retry act2 g body s2 show ?thesis
      by (auto simp: webhook_handler_def Let_def sql_WebhookStore_def split: if_splits)
  next
    case (Inr k)
    with qj act2 have a2: "ws_GetActiveProvisioningJobBySerial sql_WebhookStore ?sn d2 = (Inr j, s2)"
      by (simp add: sql_WebhookStore_def)
    from handler_redelivery [OF retry g(2) g(5) body g(1) g(3) g(4) a2 did rec2] obtain ev where
      "RCode resp2 = StatusOK" "d3 = snd (sql_AppendJobEvent ev s2)"
      by (auto simp: sql_WebhookStore_def)
    with sql_webhook.snd_append_frame [OF s2(2)] s2 show ?thesis by simp
  qed
  with aj jst show ?thesis by auto
qed

theorem webhook_lost_delivery_witness:
  "let d = demo_db (\<lambda>n. if n = 1 then (\<lambda>_. Some ''database is locked'') else no_faults)
             [demo_job ''a'' JobStatusProvisioning 5];
       (resp, dc1, d1) = webhook_handler sql_WebhookStore ''new'' '''' 50 demo_delivery (newDeliveryCache 32, d);
       (resp2, dc2, d2) = webhook_handler sql_WebhookStore ''new'' '''' 60 demo_delivery (dc1, d1)
   in RCode resp = StatusInternalServerError \<and> RCode resp2 = StatusOK \<and> sql_status d2 = sql_status d"
proof -
  let ?d = "demo_db (\<lambda>n. if n = 1 then (\<lambda>_. Some ''database is locked'') else no_faults)
             [demo_job ''a'' JobStatusProvisioning 5]"
  let ?h = "webhook_handler sql_WebhookStore ''new'' '''' 50 demo_delivery (newDeliveryCache 32, ?d)"
  let ?k = "webhook_handler sql_WebhookStore ''new'' '''' 60 demo_delivery (snd ?h)"
  have inv: "sql_inv ?d"
    unfolding sql_inv_def demo_db_def sqldb.simps
    by (rule demo_store_ok) (auto simp: demo_job_def NewJob_def lease_job_def Valid_def)
  have h: "?h = (fst ?h, fst (snd ?h), snd (snd ?h))" by simp
  have k: "webhook_handler sql_WebhookStore ''new'' '''' 60 demo_delivery (fst (snd ?h), snd (snd ?h)) =
     (fst ?k, fst (snd ?k), snd (snd ?k))" by simp
  have c: "RCode (fst ?h) = StatusInternalServerError" "RCode (fst ?k) = StatusOK" by code_simp+
  have b: "decode_webhook (Body demo_delivery) \<noteq> None"
    "wr_DeliveryID (the (decode_webhook (Body demo_delivery))) \<noteq> ''''" by code_simp+
  from b(1) have "decode_webhook (Body demo_delivery) = Some (the (decode_webhook (Body demo_delivery)))"
    by simp
  from webhook_lost_delivery [OF inv cache_ok_new h c(1) this b(2) refl k] c show ?thesis
    unfolding Let_def case_prod_unfold prod.collapse by blast
qed

text \<open>
  Over any sequence of requests a handler's cache keeps at most \<open>maxPerJob\<close> ids per job (32
  for a bound that is not positive), never the same id twice; and an id that has just been
  recorded for a job is recognised as a duplicate.
\<close>

lemma webhook_cache_bounded:
  assumes "webhook_serve st secret secretOld rs (newDeliveryCache n, s) = (dc', s')"
  shows "(\<forall>i. int (length (cache dc' i)) \<le> (if n \<le> 0 then 32 else n) \<and> distinct (cache dc' i)) \<and>
     (\<forall>i did. did \<noteq> '''' \<longrightarrow>
        (let dc'' = snd (cache_record i did dc') in cache_record i did dc'' = (False, dc'')))"
proof -
  have ok: "cache_ok dc'" "max_ids dc' = (if n \<le> 0 then 32 else n)"
    using serve_cache_ok [OF cache_ok_new assms] by (auto simp: newDeliveryCache_def)
  moreover have "cache_record i did (snd (cache_record i did dc')) = (False, snd (cache_record i did dc'))"
    if "did \<noteq> ''''" for i did
    by (rule cache_record_twice [OF ok(1) that]) (rule prod.collapse [symmetric])
  ultimately show ?thesis by (auto simp: cache_ok_def Let_def)
qed

lemma webhook_cache_bounded_instance:
  "let d = demo_db (\<lambda>_. no_faults) [demo_job ''a'' JobStatusProvisioning 5];
       dc' = fst (webhook_serve sql_WebhookStore ''new'' '''' [(50, demo_delivery), (51, demo_delivery)]
              (newDeliveryCache 0, d))
   in cache dc' ''a'' = [''d1''] \<and> int (length (cache dc' ''a'')) \<le> 32"
proof -
  let ?d = "demo_db (\<lambda>_. no_faults) [demo_job ''a'' JobStatusProvisioning 5]"
  let ?w = "webhook_serve sql_WebhookStore ''new'' '''' [(50, demo_delivery), (51, demo_delivery)]
              (newDeliveryCache 0, ?d)"
  have "cache (fst ?w) ''a'' = [''d1'']" by code_simp
  moreover have "?w = (fst ?w, snd ?w)" by simp
  from webhook_cache_bounded [OF this] have "int (length (cache (fst ?w) ''a'')) \<le> 32" by auto
  ultimately show ?thesis by (simp add: Let_def)
qed

end
