(* ===== verification/Redfish.thy ===== *)
theory Redfish
  imports Prelude
begin

text \<open>
  The Redfish client interface (\<open>internal/provisioner/redfish/client.go\<close>): its vocabulary and
  the no-op client. \<open>url.Parse\<close> is the argument \<open>parse\<close>, of which only the scheme and the path
  are used. A context is represented by the value of its \<open>Err()\<close> at the time of the call
  (\<open>ctx\<close>) and by whether it ends before a given delay does (\<open>ends\<close>).
\<close>

type_synonym BootDevice = string
type_synonym PowerState = string
type_synonym RebootMode = string

abbreviation BootDeviceCD :: BootDevice where "BootDeviceCD \<equiv> ''cd''"
abbreviation BootDevicePXE :: BootDevice where "BootDevicePXE \<equiv> ''pxe''"
abbreviation BootDeviceHDD :: BootDevice where "BootDeviceHDD \<equiv> ''hdd''"

abbreviation PowerStateOn :: PowerState where "PowerStateOn \<equiv> ''On''"
abbreviation PowerStateOff :: PowerState where "PowerStateOff \<equiv> ''Off''"
abbreviation PowerStatePoweringOn :: PowerState where "PowerStatePoweringOn \<equiv> ''PoweringOn''"
abbreviation PowerStatePoweringOff :: PowerState where "PowerStatePoweringOff \<equiv> ''PoweringOff''"
abbreviation PowerStateResetting :: PowerState where "PowerStateResetting \<equiv> ''Resetting''"
abbreviation PowerStateStandby :: PowerState where "PowerStateStandby \<equiv> ''Standby''"
abbreviation PowerStateUnknown :: PowerState where "PowerStateUnknown \<equiv> ''Unknown''"

abbreviation RebootGracefulWithFallback :: RebootMode where
  "RebootGracefulWithFallback \<equiv> ''graceful_with_fallback''"

text \<open>What a client is asked to do; the worker's view of the \<open>Client\<close> interface.\<close>

datatype rf_op =
    Ping
  | SystemPowerState
  | MountVirtualMedia int string
  | SetOneTimeBoot BootDevice
  | Reboot RebootMode
  | UnmountVirtualMedia int
  | CloseClient

record url =
  Scheme :: string
  Path :: string
  rest :: string

record noop_config =
  Endpoint :: string
  noop_delay :: time

record call_ctx =
  ctx_err :: "string option"
  ctx_ends_within :: "time \<Rightarrow> string option"

definition sleepOrContext :: "noop_config \<Rightarrow> call_ctx \<Rightarrow> string option" where
  "sleepOrContext c ctx =
     (if noop_delay c \<le> 0 then ctx_err ctx else ctx_ends_within ctx (noop_delay c))"

definition validateEndpoint :: "(string \<Rightarrow> string + url) \<Rightarrow> noop_config \<Rightarrow> string option" where
  "validateEndpoint parse c =
     (if Endpoint c = '''' then Some ''redfish: endpoint is empty''
      else (case parse (Endpoint c) of
              Inl e \<Rightarrow> Some (''redfish: invalid endpoint: '' @ e)
            | Inr u \<Rightarrow> None))"

definition validateISO :: "(string \<Rightarrow> string + url) \<Rightarrow> string \<Rightarrow> string option" where
  "validateISO parse i =
     (if i = '''' then Some ''redfish: isoURL is empty''
      else (case parse i of
              Inl e \<Rightarrow> Some (''redfish: invalid isoURL: '' @ e)
            | Inr u \<Rightarrow>
                if Scheme u \<noteq> ''http'' \<and> Scheme u \<noteq> ''https''
                then Some (''redfish: unsupported isoURL scheme '' @ [CHR 0x22] @ Scheme u @ [CHR 0x22])
                else None))"

definition bad_slot :: "int \<Rightarrow> string option" where
  "bad_slot cd =
     (if cd < 1 \<or> cd > 2 then Some (''redfish: cd index must be 1 or 2 (got '' @ itoa cd @ '')'') else None)"

definition bad_device :: "BootDevice \<Rightarrow> string option" where
  "bad_device d =
     (if d = BootDeviceCD \<or> d = BootDevicePXE \<or> d = BootDeviceHDD then None
      else Some (''redfish: unsupported boot device '' @ [CHR 0x22] @ d @ [CHR 0x22]))"

definition bad_mode :: "RebootMode \<Rightarrow> string option" where
  "bad_mode m =
     (if m \<noteq> RebootGracefulWithFallback
      then Some (''redfish: unsupported reboot mode '' @ [CHR 0x22] @ m @ [CHR 0x22]) else None)"

text \<open>The first error of a sequence of checks.\<close>

definition first_err :: "string option \<Rightarrow> string option \<Rightarrow> string option" where
  "first_err a b = (case a of Some e \<Rightarrow> Some e | None \<Rightarrow> b)"

definition noop_op :: "(string \<Rightarrow> string + url) \<Rightarrow> noop_config \<Rightarrow> call_ctx \<Rightarrow> rf_op \<Rightarrow> string option" where
  "noop_op parse c ctx op =
     (case op of
        Ping \<Rightarrow> first_err (validateEndpoint parse c) (sleepOrContext c ctx)
      | SystemPowerState \<Rightarrow> first_err (validateEndpoint parse c) (sleepOrContext c ctx)
      | MountVirtualMedia cd isoURL \<Rightarrow>
          first_err (validateEndpoint parse c)
            (first_err (bad_slot cd) (first_err (validateISO parse isoURL) (sleepOrContext c ctx)))
      | SetOneTimeBoot d \<Rightarrow>
          first_err (validateEndpoint parse c) (first_err (bad_device d) (sleepOrContext c ctx))
      | Reboot m \<Rightarrow> first_err (validateEndpoint parse c) (first_err (bad_mode m) (sleepOrContext c ctx))
      | UnmountVirtualMedia cd \<Rightarrow>
          first_err (validateEndpoint parse c) (first_err (bad_slot cd) (sleepOrContext c ctx))
      | CloseClient \<Rightarrow> None)"

definition noop_power :: "(string \<Rightarrow> string + url) \<Rightarrow> noop_config \<Rightarrow> call_ctx \<Rightarrow> string + PowerState" where
  "noop_power parse c ctx =
     (case noop_op parse c ctx SystemPowerState of Some e \<Rightarrow> Inl e | None \<Rightarrow> Inr PowerStateOn)"

definition RedactPassword :: "string \<Rightarrow> string" where
  "RedactPassword s =
     (if s = '''' then ''''
      else if length s \<le> 4 then ''****''
      else take 2 s @ ''****'' @ drop (length s - 2) s)"

end
