(* ===== verification/Worker.thy ===== *)
theory Worker
  imports Webhook Redfish Paths "HOL-Library.State_Monad"
begin

text \<open>
  The controller worker (\<open>internal/provisioner/jobs/worker.go\<close>): acquiring a job, orchestrating
  the BMC, waiting for completion and cleaning up.

  The worker's surroundings are the record \<open>env\<close>: the \<open>Store\<close> interface it calls, the ISO
  builder and the Redfish client, the clock, the context, and what other processes do to the
  store. Every call the worker makes advances a tick; at tick \<open>n\<close> the clock moves on by \<open>lag n\<close>
  nanoseconds and \<open>other n\<close> (the webhook, another controller) acts on the store before the
  worker's own call does. All of these are arbitrary. The state threaded through the code is
  \<open>world\<close>; its trace records the Redfish calls and the status changes the worker asked for, with
  their results. Waiting loops take fuel and return \<open>None\<close> when it runs out.
\<close>

section \<open>Durations in event texts\<close>

definition dur_round :: "time \<Rightarrow> time \<Rightarrow> time" where
  "dur_round d m =
     (if m \<le> 0 then d
      else if d < 0
        then (if (- d) mod m + (- d) mod m < m then d + (- d) mod m else d - m + (- d) mod m)
        else (if d mod m + d mod m < m then d - d mod m else d + m - d mod m))"

definition frac_part :: "nat \<Rightarrow> int \<Rightarrow> string" where
  "frac_part prec v =
     (if v = 0 then [] else CHR ''.'' # rev (dropWhile (\<lambda>c. c = CHR ''0'') (rev (pad prec v))))"

definition hms :: "int \<Rightarrow> int \<Rightarrow> string" where
  "hms secs ns =
     (if secs div 3600 > 0 then itoa (secs div 3600) @ ''h'' else '''') @
     (if secs div 60 > 0 then itoa (secs div 60 mod 60) @ ''m'' else '''') @
     itoa (secs mod 60) @ frac_part 9 ns @ ''s''"

definition dur_text :: "int \<Rightarrow> string" where
  "dur_text u =
     (if u = 0 then ''0s''
      else if u < 1000 then itoa u @ ''ns''
      else if u < 1000000 then itoa (u div 1000) @ frac_part 3 (u mod 1000) @ [CHR 0xC2, CHR 0xB5, CHR ''s'']
      else if u < 1000000000 then itoa (u div 1000000) @ frac_part 6 (u mod 1000000) @ ''ms''
      else hms (u div 1000000000) (u mod 1000000000))"

definition dur_string :: "time \<Rightarrow> string" where
  "dur_string d = (if d < 0 then CHR ''-'' # dur_text (- d) else dur_text d)"

definition displayDuration :: "time \<Rightarrow> time" where
  "displayDuration d =
     (if d \<le> 0 then 0 else if d < time_Millisecond then d else dur_round d time_Millisecond)"

definition truncate_msg :: "string \<Rightarrow> int \<Rightarrow> string" where
  "truncate_msg s mx = (if mx \<le> 0 \<or> int (length s) \<le> mx then s else take (nat mx) s)"

definition minDur :: "time \<Rightarrow> time \<Rightarrow> time" where
  "minDur a b = (if a < b then a else b)"

section \<open>Configuration\<close>

record WorkerConfig =
  cfg_WorkerID :: string
  PollInterval :: time
  LeaseTTL :: time
  ExtendLeaseEvery :: time
  JobStuckTimeout :: time
  RedfishTimeout :: time
  TaskISOMediaBase :: string
  ESXIInstallTimeout :: time
  ESXIStableWindow :: time
  ESXIPollIntervalStart :: time
  ESXIPollIntervalMax :: time
  ESXIInstallerURL :: string

text \<open>\<open>quot\<close> is Go's integer division, which truncates towards zero.\<close>

definition quot :: "int \<Rightarrow> int \<Rightarrow> int" where
  "quot a b = (if a < 0 then - ((- a) div b) else a div b)"

definition default_dur :: "time \<Rightarrow> time \<Rightarrow> time" where
  "default_dur d dflt = (if d \<le> 0 then dflt else d)"

definition NewWorker :: "WorkerConfig \<Rightarrow> WorkerConfig" where
  "NewWorker cfg =
     (let ttl = default_dur (LeaseTTL cfg) (10 * time_Minute);
          st = default_dur (ESXIPollIntervalStart cfg) time_Second
      in cfg\<lparr>PollInterval := default_dur (PollInterval cfg) (2 * time_Second),
             LeaseTTL := ttl,
             ExtendLeaseEvery :=
               (if ExtendLeaseEvery cfg \<le> 0 \<or> ttl \<le> ExtendLeaseEvery cfg then quot ttl 2
                else ExtendLeaseEvery cfg),
             JobStuckTimeout := default_dur (JobStuckTimeout cfg) (4 * time_Hour),
             RedfishTimeout := default_dur (RedfishTimeout cfg) (30 * time_Second),
             ESXIInstallTimeout := default_dur (ESXIInstallTimeout cfg) (90 * time_Minute),
             ESXIStableWindow := default_dur (ESXIStableWindow cfg) (90 * time_Second),
             ESXIPollIntervalStart := st,
             ESXIPollIntervalMax :=
               (if ESXIPollIntervalMax cfg \<le> 0 \<or> ESXIPollIntervalMax cfg < st then 15 * time_Second
                else ESXIPollIntervalMax cfg)\<rparr>)"

section \<open>The surroundings\<close>

record Assets =
  RecipeSchema :: string
  Kickstart :: string

record Result =
  ResPath :: string
  ResSize :: int
  ResSHA256 :: string

record 's WorkerStore =
  wk_GetServerBySerial :: "string \<Rightarrow> 's \<Rightarrow> server result \<times> 's"
  wk_AcquireQueuedJob :: "string \<Rightarrow> time \<Rightarrow> 's \<Rightarrow> job result \<times> 's"
  wk_ExtendLease :: "string \<Rightarrow> string \<Rightarrow> time \<Rightarrow> 's \<Rightarrow> bool result \<times> 's"
  wk_GetJobByID :: "string \<Rightarrow> 's \<Rightarrow> job result \<times> 's"
  wk_MarkJobStatus :: "string \<Rightarrow> JobStatus \<Rightarrow> string option \<Rightarrow> 's \<Rightarrow> unit result \<times> 's"
  wk_UpdateJobTaskISOPath :: "string \<Rightarrow> string \<Rightarrow> 's \<Rightarrow> unit result \<times> 's"
  wk_AppendJobEvent :: "job_event \<Rightarrow> 's \<Rightarrow> unit result \<times> 's"

record 's env =
  wstore :: "'s WorkerStore"
  other :: "nat \<Rightarrow> 's \<Rightarrow> 's"
  lag :: "nat \<Rightarrow> nat"
  ctx_at :: "nat \<Rightarrow> string option"
  rf_at :: "nat \<Rightarrow> rf_op \<Rightarrow> string option"
  power_at :: "nat \<Rightarrow> string + PowerState"
  client_at :: "nat \<Rightarrow> server \<Rightarrow> string option"
  build_at :: "nat \<Rightarrow> string \<Rightarrow> raw_message \<Rightarrow> Assets \<Rightarrow> string + Result"
  url_parse :: "string \<Rightarrow> string + url"
  url_string :: "url \<Rightarrow> string"
  assetsSchema :: string

datatype action =
    RF rf_op "string option"
  | Power time "string + PowerState"
  | Mark string JobStatus "string option" "unit result"

record 's world =
  w_store :: 's
  w_clock :: time
  w_tick :: nat
  w_trace :: "action list"

type_synonym ('s, 'a) proc = "('s world, 'a) state"

definition tick :: "'s env \<Rightarrow> 's world \<Rightarrow> 's world" where
  "tick E w = w\<lparr>w_store := other E (w_tick w) (w_store w),
     w_clock := w_clock w + int (lag E (w_tick w)), w_tick := Suc (w_tick w)\<rparr>"

definition put_store :: "'s world \<Rightarrow> 'a \<times> 's \<Rightarrow> 'a \<times> 's world" where
  "put_store w p = (fst p, w\<lparr>w_store := snd p\<rparr>)"

definition store_step_of :: "('s \<Rightarrow> 'a \<times> 's) \<Rightarrow> 's world \<Rightarrow> 'a \<times> 's world" where
  "store_step_of f w = put_store w (f (w_store w))"

definition call_store :: "'s env \<Rightarrow> ('s WorkerStore \<Rightarrow> 's \<Rightarrow> 'a \<times> 's) \<Rightarrow> ('s, 'a) proc" where
  "call_store E f = State (\<lambda>w. store_step_of (f (wstore E)) (tick E w))"

definition emit :: "('a \<Rightarrow> action list) \<Rightarrow> 'a \<times> 's world \<Rightarrow> 'a \<times> 's world" where
  "emit a p = (fst p, (snd p)\<lparr>w_trace := w_trace (snd p) @ a (fst p)\<rparr>)"

definition read_clock :: "'s world \<Rightarrow> time \<times> 's world" where
  "read_clock w = (w_clock w, w)"

definition now :: "'s env \<Rightarrow> ('s, time) proc" where
  "now E = State (\<lambda>w. read_clock (tick E w))"

text \<open>An answer of the surroundings that depends on the tick only.\<close>

definition ask :: "'s env \<Rightarrow> (nat \<Rightarrow> 'a) \<Rightarrow> ('s, 'a) proc" where
  "ask E f = State (\<lambda>w. (f (w_tick w), tick E w))"

definition ctx_Err :: "'s env \<Rightarrow> ('s, string option) proc" where
  "ctx_Err E = ask E (ctx_at E)"

text \<open>
  \<open>select\<close> on \<open>ctx.Done()\<close> and \<open>time.After(d)\<close>: the context's error, or nothing after at least
  \<open>d\<close> has passed.
\<close>

definition advance :: "time \<Rightarrow> string option \<Rightarrow> 's world \<Rightarrow> 's world" where
  "advance d c w = (case c of Some e \<Rightarrow> w | None \<Rightarrow> w\<lparr>w_clock := w_clock w + max 0 d\<rparr>)"

definition sleep :: "'s env \<Rightarrow> time \<Rightarrow> ('s, string option) proc" where
  "sleep E d = State (\<lambda>w. (ctx_at E (w_tick w), advance d (ctx_at E (w_tick w)) (tick E w)))"

definition rf_call :: "'s env \<Rightarrow> rf_op \<Rightarrow> ('s, string option) proc" where
  "rf_call E op = State (\<lambda>w. emit (\<lambda>r. [RF op r]) (rf_at E (w_tick w) op, tick E w))"

definition rf_power :: "'s env \<Rightarrow> time \<Rightarrow> ('s, string + PowerState) proc" where
  "rf_power E t = State (\<lambda>w. emit (\<lambda>r. [Power t r]) (power_at E (w_tick w), tick E w))"

definition mark :: "'s env \<Rightarrow> string \<Rightarrow> JobStatus \<Rightarrow> string option \<Rightarrow> ('s, unit result) proc" where
  "mark E i st fs =
     State (\<lambda>w. emit (\<lambda>r. [Mark i st fs r]) (store_step_of (wk_MarkJobStatus (wstore E) i st fs) (tick E w)))"

text \<open>
  A Go \<open>for\<close> loop: \<open>body\<close> is one iteration from the loop variables \<open>v\<close>; it returns \<open>Inl a\<close> to leave
  the loop with \<open>a\<close>, or \<open>Inr v'\<close> to go round again.
\<close>

primrec for_loop :: "nat \<Rightarrow> ('v \<Rightarrow> ('s, 'a + 'v) proc) \<Rightarrow> 'v \<Rightarrow> ('s, 'a option) proc" where
  "for_loop 0 body v = State_Monad.return None"
| "for_loop (Suc n) body v = do {
     r \<leftarrow> body v;
     case r of Inl a \<Rightarrow> State_Monad.return (Some a) | Inr v' \<Rightarrow> for_loop n body v' }"

section \<open>Events\<close>

definition appendEvent ::
  "'s env \<Rightarrow> string \<Rightarrow> EventLevel \<Rightarrow> string \<Rightarrow> string option \<Rightarrow> ('s, unit result) proc" where
  "appendEvent E i lvl msg stp = do {
     t \<leftarrow> now E;
     call_store E (\<lambda>st. wk_AppendJobEvent st
       \<lparr>EventID = 0, JobID = i, Time = t, Level = lvl, Message = truncate_msg msg 2000, Step = stp\<rparr>)
   }"

definition op_message :: "string \<Rightarrow> int \<Rightarrow> time \<Rightarrow> string option \<Rightarrow> string" where
  "op_message op attempts elapsed err =
     ''op='' @ op @ '' status='' @ (if err = None then ''success'' else ''error'') @
     '' attempts='' @ itoa attempts @ '' duration='' @ dur_string (displayDuration elapsed) @
     (case err of None \<Rightarrow> '''' | Some e \<Rightarrow> '' error='' @ truncate_msg e 256)"

definition recordOpEvent ::
  "'s env \<Rightarrow> string \<Rightarrow> string \<Rightarrow> string \<Rightarrow> int \<Rightarrow> time \<Rightarrow> string option \<Rightarrow> ('s, unit) proc" where
  "recordOpEvent E i stp op attempts start err = do {
     t \<leftarrow> now E;
     _ \<leftarrow> appendEvent E i (if err = None then EventLevelInfo else EventLevelError)
            (op_message op attempts (t - start) err) (Some stp);
     State_Monad.return ()
   }"

definition runRedfishOp ::
  "'s env \<Rightarrow> string \<Rightarrow> string \<Rightarrow> string \<Rightarrow> rf_op \<Rightarrow> ('s, string option) proc" where
  "runRedfishOp E i stp op call = do {
     start \<leftarrow> now E;
     err \<leftarrow> rf_call E call;
     _ \<leftarrow> now E;
     _ \<leftarrow> recordOpEvent E i stp op 1 start err;
     State_Monad.return err
   }"

section \<open>Reading the recipe\<close>

abbreviation esxiInstallTarget :: string where "esxiInstallTarget \<equiv> ''install-esxi.target''"
abbreviation esxiMaxKickstartSize :: int where "esxiMaxKickstartSize \<equiv> 65536"

definition taskTargetFromRecipe :: "raw_message \<Rightarrow> string" where
  "taskTargetFromRecipe recipe =
     (if recipe = RawEmpty then ''''
      else (case unmarshal_string_field ''task_target'' recipe of None \<Rightarrow> '''' | Some t \<Rightarrow> trim_space t))"

definition kickstartFromRecipe :: "raw_message \<Rightarrow> string" where
  "kickstartFromRecipe recipe =
     (if recipe = RawEmpty then []
      else (case unmarshal_string_field ''ks_cfg'' recipe of None \<Rightarrow> [] | Some s \<Rightarrow> trim_space s))"

definition composeTaskMediaURL :: "'s env \<Rightarrow> WorkerConfig \<Rightarrow> string \<Rightarrow> string + string" where
  "composeTaskMediaURL E cfg jobID =
     (if trim_space (TaskISOMediaBase cfg) = '''' then Inl ''TaskISOMediaBase is not set''
      else (case url_parse E (trim_space (TaskISOMediaBase cfg)) of
              Inl e \<Rightarrow> Inl (''invalid TaskISOMediaBase: '' @ e)
            | Inr u \<Rightarrow>
                if Scheme u \<noteq> ''http'' \<and> Scheme u \<noteq> ''https''
                then Inl (''TaskISOMediaBase must be http(s), got '' @ [CHR 0x22] @ Scheme u @ [CHR 0x22])
                else Inr (url_string E (u\<lparr>Path := path_join [Path u, jobID, ''task.iso'']\<rparr>))))"

section \<open>Waiting for the webhook\<close>

text \<open>One round: the lease is extended when due, the job is read, and a final status ends the wait.\<close>

definition renew_lease :: "'s env \<Rightarrow> WorkerConfig \<Rightarrow> string \<Rightarrow> time \<Rightarrow> ('s, time) proc" where
  "renew_lease E cfg i nextLease = do {
     t \<leftarrow> now E;
     if nextLease < t
     then do {
       _ \<leftarrow> call_store E (\<lambda>st. wk_ExtendLease st i (cfg_WorkerID cfg) (LeaseTTL cfg));
       t2 \<leftarrow> now E;
       State_Monad.return (t2 + ExtendLeaseEvery cfg)
     }
     else State_Monad.return nextLease
   }"

definition reported :: "'s env \<Rightarrow> string \<Rightarrow> job result \<Rightarrow> ('s, JobStatus option) proc" where
  "reported E i rj =
     (case rj of
        Inl e \<Rightarrow> State_Monad.return None
      | Inr j \<Rightarrow>
          if Status j = JobStatusSucceeded
          then do {
            _ \<leftarrow> appendEvent E i EventLevelInfo ''Webhook reported success'' (Some ''webhook-success'');
            State_Monad.return (Some JobStatusSucceeded) }
          else if Status j = JobStatusFailed
          then do {
            _ \<leftarrow> appendEvent E i EventLevelWarn ''Webhook reported failure'' (Some ''webhook-failure'');
            State_Monad.return (Some JobStatusFailed) }
          else State_Monad.return None)"

definition await_body ::
  "'s env \<Rightarrow> WorkerConfig \<Rightarrow> string \<Rightarrow> time \<Rightarrow> time \<Rightarrow> time \<Rightarrow> ('s, (string + JobStatus) + time) proc" where
  "await_body E cfg i deadline pollEvery nextLease = do {
     c \<leftarrow> ctx_Err E;
     case c of
       Some e \<Rightarrow> State_Monad.return (Inl (Inl e))
     | None \<Rightarrow> do {
         t \<leftarrow> now E;
         if deadline < t then State_Monad.return (Inl (Inl ''webhook wait timeout''))
         else do {
           nl \<leftarrow> renew_lease E cfg i nextLease;
           rj \<leftarrow> call_store E (\<lambda>st. wk_GetJobByID st i);
           r \<leftarrow> reported E i rj;
           case r of
             Some st \<Rightarrow> State_Monad.return (Inl (Inr st))
           | None \<Rightarrow> do {
               z \<leftarrow> sleep E pollEvery;
               State_Monad.return (case z of Some e \<Rightarrow> Inl (Inl e) | None \<Rightarrow> Inr nl) } } } }"

definition awaitWebhook :: "nat \<Rightarrow> 's env \<Rightarrow> WorkerConfig \<Rightarrow> string \<Rightarrow> ('s, (string + JobStatus) option) proc" where
  "awaitWebhook fuel E cfg i = do {
     t \<leftarrow> now E;
     t2 \<leftarrow> now E;
     for_loop fuel
       (await_body E cfg i (t + JobStuckTimeout cfg) (minDur (PollInterval cfg) (5 * time_Second)))
       (t2 + ExtendLeaseEvery cfg)
   }"

section \<open>Waiting for an ESXi installation\<close>

abbreviation opESXIAwaitBMC :: string where "opESXIAwaitBMC \<equiv> ''esxi.await_bmc''"
abbreviation opESXIPollPower :: string where "opESXIPollPower \<equiv> ''esxi.poll_power''"

text \<open>
  A loop's result is the error the function returns, if any; both functions record an event and
  read the clock for the metrics before they return.
\<close>

definition leave :: "'s env \<Rightarrow> string \<Rightarrow> string \<Rightarrow> int \<Rightarrow> time \<Rightarrow> string option \<Rightarrow> ('s, string option + 'v) proc" where
  "leave E i op attempts start err = do {
     _ \<leftarrow> recordOpEvent E i op op (if attempts = 0 then 1 else attempts) start err;
     _ \<leftarrow> now E;
     State_Monad.return (Inl err)
   }"

definition next_backoff :: "time \<Rightarrow> time" where
  "next_backoff b = (if b < 5 * time_Second then minDur (b * 2) (5 * time_Second) else b)"

definition bmc_body ::
  "'s env \<Rightarrow> string \<Rightarrow> time \<Rightarrow> time \<Rightarrow> time \<times> int \<Rightarrow> ('s, string option + time \<times> int) proc" where
  "bmc_body E i deadline start v = do {
     t \<leftarrow> now E;
     if deadline < t
     then leave E i opESXIAwaitBMC (snd v) start (Some ''esxi: bmc not ready before deadline'')
     else do {
       p \<leftarrow> rf_call E Ping;
       case p of
         None \<Rightarrow> leave E i opESXIAwaitBMC (snd v + 1) start None
       | Some pe \<Rightarrow> do {
           z \<leftarrow> sleep E (fst v);
           case z of
             Some e \<Rightarrow> leave E i opESXIAwaitBMC (snd v + 1) start (Some e)
           | None \<Rightarrow> State_Monad.return (Inr (next_backoff (fst v), snd v + 1)) } } }"

definition awaitBMCReady :: "nat \<Rightarrow> 's env \<Rightarrow> string \<Rightarrow> time \<Rightarrow> ('s, string option option) proc" where
  "awaitBMCReady fuel E i deadline = do {
     start \<leftarrow> now E;
     for_loop fuel (bmc_body E i deadline start) (200 * time_Millisecond, 0)
   }"

record poll_state =
  ps_interval :: time
  stableSince :: "time option"
  lastState :: PowerState
  ps_attempts :: int

text \<open>What a sample makes of the loop's variables; the flag is \<open>resetInterval\<close>.\<close>

definition poll_sample :: "time \<Rightarrow> string + PowerState \<Rightarrow> poll_state \<Rightarrow> poll_state \<times> bool" where
  "poll_sample t r p =
     (case r of
        Inl e \<Rightarrow> (p\<lparr>stableSince := None, lastState := PowerStateUnknown\<rparr>, True)
      | Inr st \<Rightarrow>
          if st = PowerStateOn
          then (p\<lparr>stableSince := Some (case stableSince p of None \<Rightarrow> t | Some s \<Rightarrow> s), lastState := st\<rparr>, True)
          else (p\<lparr>stableSince := None, lastState := st\<rparr>, True))"

definition poll_done :: "time \<Rightarrow> time \<Rightarrow> poll_state \<Rightarrow> bool" where
  "poll_done window t p = (case stableSince p of None \<Rightarrow> False | Some s \<Rightarrow> window \<le> t - s)"

definition next_interval :: "time \<Rightarrow> time \<Rightarrow> bool \<Rightarrow> time \<Rightarrow> time" where
  "next_interval mn mx reset iv =
     (if reset then mn else if iv < mx then (if mx < iv * 2 then mx else iv * 2) else iv)"

definition poll_body ::
  "'s env \<Rightarrow> string \<Rightarrow> time \<Rightarrow> time \<Rightarrow> time \<Rightarrow> time \<Rightarrow> time \<Rightarrow> poll_state \<Rightarrow>
   ('s, string option + poll_state) proc" where
  "poll_body E i deadline mn mx window start p = do {
     c \<leftarrow> ctx_Err E;
     case c of
       Some e \<Rightarrow> leave E i opESXIPollPower (ps_attempts p) start (Some e)
     | None \<Rightarrow> do {
         t \<leftarrow> now E;
         if deadline < t
         then leave E i opESXIPollPower (ps_attempts p) start
                (Some (''install deadline exceeded waiting for stable power state (last='' @ lastState p @ '')''))
         else do {
           r \<leftarrow> rf_power E t;
           case poll_sample t r (p\<lparr>ps_attempts := ps_attempts p + 1\<rparr>) of
             (p1, reset) \<Rightarrow>
               if poll_done window t p1 then leave E i opESXIPollPower (ps_attempts p1) start None
               else do {
                 z \<leftarrow> sleep E (minDur mx (ps_interval p1));
                 case z of
                   Some e \<Rightarrow> leave E i opESXIPollPower (ps_attempts p1) start (Some e)
                 | None \<Rightarrow> State_Monad.return
                     (Inr (p1\<lparr>ps_interval := next_interval mn mx reset (ps_interval p1)\<rparr>)) } } } }"

definition pollESXiPowerState ::
  "nat \<Rightarrow> 's env \<Rightarrow> WorkerConfig \<Rightarrow> string \<Rightarrow> time \<Rightarrow> ('s, string option option) proc" where
  "pollESXiPowerState fuel E cfg i deadline =
     (let mn = default_dur (ESXIPollIntervalStart cfg) time_Second;
          mx = (if ESXIPollIntervalMax cfg \<le> 0 \<or> ESXIPollIntervalMax cfg < mn then mn else ESXIPollIntervalMax cfg);
          window = default_dur (ESXIStableWindow cfg) (90 * time_Second)
      in do {
        start \<leftarrow> now E;
        for_loop fuel (poll_body E i deadline mn mx window start)
          \<lparr>ps_interval = mn, stableSince = None, lastState = PowerStateUnknown, ps_attempts = 0\<rparr>
      })"

definition timeout_display :: "time \<Rightarrow> time" where
  "timeout_display d = (if d < time_Minute then dur_round d time_Second else dur_round d time_Minute)"

definition stable_display :: "time \<Rightarrow> time" where
  "stable_display d =
     (let d1 = default_dur d (90 * time_Second);
          d2 = (if d1 < time_Millisecond then time_Millisecond else d1)
      in if d2 < time_Second then dur_round d2 time_Millisecond else dur_round d2 time_Second)"

definition esxi_fail :: "'s env \<Rightarrow> string \<Rightarrow> string \<Rightarrow> ('s, JobStatus option) proc" where
  "esxi_fail E i msg = do {
     _ \<leftarrow> appendEvent E i EventLevelError msg (Some ''redfish.poll'');
     _ \<leftarrow> mark E i JobStatusFailed (Some ''redfish.poll'');
     State_Monad.return (Some JobStatusFailed)
   }"

definition esxi_success :: "'s env \<Rightarrow> WorkerConfig \<Rightarrow> string \<Rightarrow> ('s, JobStatus option) proc" where
  "esxi_success E cfg i = do {
     _ \<leftarrow> appendEvent E i EventLevelInfo
       (''ESXi workflow: power state '' @ [CHR 0x27] @ ''On'' @ [CHR 0x27] @ '' stable for '' @
        dur_string (stable_display (ESXIStableWindow cfg)) @ ''; assuming install complete'')
       (Some ''redfish.poll'');
     _ \<leftarrow> mark E i JobStatusSucceeded None;
     State_Monad.return (Some JobStatusSucceeded)
   }"

definition esxi_observe :: "nat \<Rightarrow> 's env \<Rightarrow> WorkerConfig \<Rightarrow> string \<Rightarrow> time \<Rightarrow> ('s, JobStatus option) proc" where
  "esxi_observe fuel E cfg i deadline = do {
     _ \<leftarrow> appendEvent E i EventLevelInfo
       ''ESXi workflow: BMC reachable; observing power state transitions'' (Some ''redfish.poll'');
     q \<leftarrow> pollESXiPowerState fuel E cfg i deadline;
     case q of
       None \<Rightarrow> State_Monad.return None
     | Some (Some e) \<Rightarrow> esxi_fail E i (''esxi: power state monitoring failed: '' @ e)
     | Some None \<Rightarrow> esxi_success E cfg i
   }"

definition runESXiCompletion ::
  "nat \<Rightarrow> 's env \<Rightarrow> WorkerConfig \<Rightarrow> string \<Rightarrow> ('s, JobStatus option) proc" where
  "runESXiCompletion fuel E cfg i = do {
     t \<leftarrow> now E;
     _ \<leftarrow> appendEvent E i EventLevelInfo
       (''ESXi workflow: monitoring BMC for installer completion (timeout '' @
        dur_string (timeout_display (ESXIInstallTimeout cfg)) @ '')'') (Some ''redfish.poll'');
     b \<leftarrow> awaitBMCReady fuel E i (t + ESXIInstallTimeout cfg);
     case b of
       None \<Rightarrow> State_Monad.return None
     | Some (Some e) \<Rightarrow> esxi_fail E i (''esxi: bmc not reachable after reset: '' @ e)
     | Some None \<Rightarrow> esxi_observe fuel E cfg i (t + ESXIInstallTimeout cfg)
   }"

section \<open>Processing a job\<close>

text \<open>
  A failing stage: an event at its step, the job marked failed at that step, and the error
  returned. The Redfish stages record their event in \<open>runRedfishOp\<close> and only mark.
\<close>

definition fail_at :: "'s env \<Rightarrow> string \<Rightarrow> string \<Rightarrow> string \<Rightarrow> string \<Rightarrow> ('s, (string + unit) option) proc" where
  "fail_at E i stp msg err = do {
     _ \<leftarrow> appendEvent E i EventLevelError msg (Some stp);
     _ \<leftarrow> mark E i JobStatusFailed (Some stp);
     State_Monad.return (Some (Inl err))
   }"

definition rf_stage ::
  "'s env \<Rightarrow> string \<Rightarrow> string \<Rightarrow> string \<Rightarrow> string \<Rightarrow> rf_op \<Rightarrow> ('s, (string + unit) option) proc \<Rightarrow>
   ('s, (string + unit) option) proc" where
  "rf_stage E i stp op prefix call k = do {
     e \<leftarrow> runRedfishOp E i stp op call;
     case e of
       Some m \<Rightarrow> do {
         _ \<leftarrow> mark E i JobStatusFailed (Some stp);
         State_Monad.return (Some (Inl (prefix @ m))) }
     | None \<Rightarrow> k
   }"

definition cleanup :: "'s env \<Rightarrow> string \<Rightarrow> time \<Rightarrow> ('s, (string + unit) option) proc" where
  "cleanup E i start = do {
     _ \<leftarrow> appendEvent E i EventLevelInfo ''Cleanup: unmounting virtual media'' (Some ''cleanup'');
     _ \<leftarrow> runRedfishOp E i ''cleanup.unmount-task'' ''cleanup.unmount-task'' (UnmountVirtualMedia 2);
     _ \<leftarrow> runRedfishOp E i ''cleanup.unmount-maintenance'' ''cleanup.unmount-maintenance'' (UnmountVirtualMedia 1);
     _ \<leftarrow> runRedfishOp E i ''cleanup.reset'' ''cleanup.reset'' (Reboot RebootGracefulWithFallback);
     _ \<leftarrow> appendEvent E i EventLevelInfo ''Cleanup complete'' (Some ''cleanup'');
     _ \<leftarrow> mark E i JobStatusComplete None;
     t \<leftarrow> now E;
     _ \<leftarrow> appendEvent E i EventLevelInfo
       (''Job finished in '' @ dur_string (dur_round (t - start) time_Second)) (Some ''done'');
     State_Monad.return (Some (Inr ()))
   }"

definition complete_job :: "nat \<Rightarrow> 's env \<Rightarrow> WorkerConfig \<Rightarrow> job \<Rightarrow> bool \<Rightarrow> time \<Rightarrow> ('s, (string + unit) option) proc" where
  "complete_job fuel E cfg j isESXi start =
     (if isESXi
      then do {
        s \<leftarrow> runESXiCompletion fuel E cfg (ID j);
        case s of None \<Rightarrow> State_Monad.return None | Some st \<Rightarrow> cleanup E (ID j) start }
      else do {
        _ \<leftarrow> appendEvent E (ID j) EventLevelInfo
          ''Awaiting webhook status update from maintenance OS'' (Some ''await-webhook'');
        r \<leftarrow> awaitWebhook fuel E cfg (ID j);
        case r of
          None \<Rightarrow> State_Monad.return None
        | Some (Inr st) \<Rightarrow> cleanup E (ID j) start
        | Some (Inl e) \<Rightarrow> do {
            _ \<leftarrow> appendEvent E (ID j) EventLevelError (''Await webhook error: '' @ e) (Some ''webhook-timeout'');
            _ \<leftarrow> mark E (ID j) JobStatusFailed (Some ''webhook-timeout'');
            cleanup E (ID j) start } })"

text \<open>
  The Redfish stages, once the client exists; \<open>defer rf.Close()\<close> runs when they return. The task
  URL is composed between the two mounts.
\<close>

definition mount_url :: "WorkerConfig \<Rightarrow> job \<Rightarrow> bool \<Rightarrow> string" where
  "mount_url cfg j isESXi = (if isESXi then ESXIInstallerURL cfg else MaintenanceISOURL j)"

definition rf_stages ::
  "nat \<Rightarrow> 's env \<Rightarrow> WorkerConfig \<Rightarrow> job \<Rightarrow> bool \<Rightarrow> time \<Rightarrow> ('s, (string + unit) option) proc" where
  "rf_stages fuel E cfg j isESXi start =
     rf_stage E (ID j) ''mount-maintenance'' ''mount.maintenance'' ''mount maintenance/vendor: ''
        (MountVirtualMedia 1 (mount_url cfg j isESXi))
        (case composeTaskMediaURL E cfg (ID j) of
           Inl e \<Rightarrow> fail_at E (ID j) ''compose-task-url'' (''Compose task ISO URL failed: '' @ e)
                      (''compose task url: '' @ e)
         | Inr taskURL \<Rightarrow>
             rf_stage E (ID j) ''mount-task'' ''mount.task'' ''mount task: '' (MountVirtualMedia 2 taskURL)
             (rf_stage E (ID j) ''boot-override'' ''boot.override'' ''set boot: '' (SetOneTimeBoot BootDeviceCD)
             (rf_stage E (ID j) ''reset'' ''reset.graceful_fallback'' ''reboot: '' (Reboot RebootGracefulWithFallback)
             (complete_job fuel E cfg j isESXi start))))"

definition orchestrate ::
  "nat \<Rightarrow> 's env \<Rightarrow> WorkerConfig \<Rightarrow> job \<Rightarrow> bool \<Rightarrow> time \<Rightarrow> ('s, (string + unit) option) proc" where
  "orchestrate fuel E cfg j isESXi start =
     (if isESXi \<and> trim_space (ESXIInstallerURL cfg) = ''''
      then fail_at E (ID j) ''mount-maintenance'' ''ESXi workflow: ESXI_INSTALLER_URL not configured''
             ''esxi: ESXIInstallerURL is empty''
      else rf_stages fuel E cfg j isESXi start)"

definition with_client ::
  "nat \<Rightarrow> 's env \<Rightarrow> WorkerConfig \<Rightarrow> job \<Rightarrow> bool \<Rightarrow> time \<Rightarrow> server \<Rightarrow> ('s, (string + unit) option) proc" where
  "with_client fuel E cfg j isESXi start srv = do {
     c \<leftarrow> ask E (\<lambda>n. client_at E n srv);
     case c of
       Some e \<Rightarrow> fail_at E (ID j) ''redfish-client'' (''Redfish client init failed: '' @ e) (''redfish client: '' @ e)
     | None \<Rightarrow> do {
         r \<leftarrow> orchestrate fuel E cfg j isESXi start;
         _ \<leftarrow> rf_call E CloseClient;
         State_Monad.return r } }"

definition build_and_run ::
  "nat \<Rightarrow> 's env \<Rightarrow> WorkerConfig \<Rightarrow> job \<Rightarrow> bool \<Rightarrow> string \<Rightarrow> time \<Rightarrow> ('s, (string + unit) option) proc" where
  "build_and_run fuel E cfg j isESXi ksCfg start = do {
     rs \<leftarrow> call_store E (\<lambda>st. wk_GetServerBySerial st (ServerSerial j));
     case rs of
       Inl e \<Rightarrow> fail_at E (ID j) ''resolve-server'' (''Failed to resolve server: '' @ store_err_text e)
                  (''resolve server: '' @ store_err_text e)
     | Inr srv \<Rightarrow> do {
         b \<leftarrow> ask E (\<lambda>n. build_at E n (ID j) (Recipe j) \<lparr>RecipeSchema = assetsSchema E, Kickstart = ksCfg\<rparr>);
         case b of
           Inl e \<Rightarrow> fail_at E (ID j) ''build-task-iso'' (''Task ISO build failed: '' @ e) (''build iso: '' @ e)
         | Inr res \<Rightarrow> do {
             _ \<leftarrow> call_store E (\<lambda>st. wk_UpdateJobTaskISOPath st (ID j) (ResPath res));
             _ \<leftarrow> appendEvent E (ID j) EventLevelInfo
               (''Task ISO ready size='' @ itoa (ResSize res) @ '' sha256='' @ ResSHA256 res) (Some ''build-task-iso'');
             with_client fuel E cfg j isESXi start srv } } }"

definition processJob :: "nat \<Rightarrow> 's env \<Rightarrow> WorkerConfig \<Rightarrow> job \<Rightarrow> ('s, (string + unit) option) proc" where
  "processJob fuel E cfg j = do {
     start \<leftarrow> now E;
     _ \<leftarrow> appendEvent E (ID j) EventLevelInfo ''Starting provisioning orchestration'' (Some ''start'');
     if equal_fold (taskTargetFromRecipe (Recipe j)) esxiInstallTarget
     then (if kickstartFromRecipe (Recipe j) = []
       then fail_at E (ID j) ''validate-recipe'' ''ESXi workflow: ks_cfg missing in recipe''
              ''validate recipe: ks_cfg missing for esxi job''
       else if esxiMaxKickstartSize < int (length (kickstartFromRecipe (Recipe j)))
       then fail_at E (ID j) ''validate-recipe''
              (''ESXi workflow: ks_cfg exceeds max size ('' @ itoa (int (length (kickstartFromRecipe (Recipe j)))) @
               '' > '' @ itoa esxiMaxKickstartSize @ '' bytes)'')
              (''validate recipe: ks_cfg too large ('' @ itoa (int (length (kickstartFromRecipe (Recipe j)))) @ '' bytes)'')
       else do {
         _ \<leftarrow> appendEvent E (ID j) EventLevelInfo
           (''ESXi workflow: ks_cfg accepted size='' @ itoa (int (length (kickstartFromRecipe (Recipe j)))) @ '' bytes'')
           (Some ''validate-recipe'');
         build_and_run fuel E cfg j True (kickstartFromRecipe (Recipe j)) start })
     else build_and_run fuel E cfg j False [] start
   }"

text \<open>
  \<open>Run\<close>: a round acquires a job and processes it, or polls. The result is \<open>True\<close> when the context
  ended the loop and \<open>False\<close> when the rounds or the fuel did. A tick of the poll ticker may be due
  already, so any time may pass.
\<close>

primrec Run :: "nat \<Rightarrow> nat \<Rightarrow> 's env \<Rightarrow> WorkerConfig \<Rightarrow> ('s, bool) proc" where
  "Run 0 fuel E cfg = State_Monad.return False"
| "Run (Suc rounds) fuel E cfg = do {
     rj \<leftarrow> call_store E (\<lambda>st. wk_AcquireQueuedJob st (cfg_WorkerID cfg) (LeaseTTL cfg));
     case rj of
       Inr j \<Rightarrow> do {
         r \<leftarrow> processJob fuel E cfg j;
         case r of None \<Rightarrow> State_Monad.return False | Some _ \<Rightarrow> Run rounds fuel E cfg }
     | Inl e \<Rightarrow> do {
         c \<leftarrow> ctx_Err E;
         if c \<noteq> None then State_Monad.return True
         else do {
           z \<leftarrow> sleep E 0;
           if z \<noteq> None then State_Monad.return True else Run rounds fuel E cfg } } }"


section \<open>Reasoning about runs\<close>

text \<open>\<open>emits m L\<close>: every run of \<open>m\<close> with result \<open>r\<close> adds to the trace a list \<open>t\<close> with \<open>L r t\<close>.\<close>

definition emits :: "('s, 'a) proc \<Rightarrow> ('a \<Rightarrow> action list \<Rightarrow> bool) \<Rightarrow> bool" where
  "emits m L \<longleftrightarrow>
     (\<forall>w. \<exists>t. w_trace (snd (run_state m w)) = w_trace w @ t \<and> L (fst (run_state m w)) t)"

abbreviation quiet :: "('s, 'a) proc \<Rightarrow> bool" where
  "quiet m \<equiv> emits m (\<lambda>_ t. t = [])"

lemma emits_mono: "emits m L \<Longrightarrow> (\<And>r t. L r t \<Longrightarrow> L' r t) \<Longrightarrow> emits m L'"
  unfolding emits_def by blast

lemma emits_return: "L x [] \<Longrightarrow> emits (State_Monad.return x) L"
  by (simp add: emits_def)

lemma emits_bind:
  assumes "emits m L1" and "\<And>x t. L1 x t \<Longrightarrow> emits (k x) (\<lambda>r u. L r (t @ u))"
  shows "emits (State_Monad.bind m k) L"
  unfolding emits_def
proof
  fix w
  obtain x w1 where m: "run_state m w = (x, w1)" by fastforce
  with assms(1) obtain t where t: "w_trace w1 = w_trace w @ t" "L1 x t"
    unfolding emits_def by (metis fst_conv snd_conv)
  from assms(2) [OF t(2)] obtain u where
    "w_trace (snd (run_state (k x) w1)) = w_trace w1 @ u" "L (fst (run_state (k x) w1)) (t @ u)"
    unfolding emits_def by blast
  with m t show "\<exists>t. w_trace (snd (run_state (State_Monad.bind m k) w)) = w_trace w @ t \<and>
      L (fst (run_state (State_Monad.bind m k) w)) t"
    by (auto simp: run_state_bind)
qed

lemma emits_quiet_bind:
  assumes "quiet m" and "\<And>x. emits (k x) L"
  shows "emits (State_Monad.bind m k) L"
  by (rule emits_bind [OF assms(1)]) (simp add: assms(2))

lemma tick_simps [simp]:
  "w_trace (tick E w) = w_trace w" "w_clock (tick E w) = w_clock w + int (lag E (w_tick w))"
  "w_tick (tick E w) = Suc (w_tick w)" "w_store (tick E w) = other E (w_tick w) (w_store w)"
  by (simp_all add: tick_def)

lemma quiet_now: "quiet (now E)"
  by (simp add: emits_def now_def read_clock_def)

lemma quiet_ask: "quiet (ask E f)"
  by (simp add: emits_def ask_def)

lemma quiet_call: "quiet (call_store E f)"
  by (simp add: emits_def call_store_def store_step_of_def put_store_def)

lemma quiet_sleep: "quiet (sleep E d)"
  by (simp add: emits_def sleep_def advance_def split: option.splits)

lemma emits_rf: "emits (rf_call E op) (\<lambda>r t. t = [RF op r])"
  by (simp add: emits_def rf_call_def emit_def)

lemma emits_power: "emits (rf_power E s) (\<lambda>r t. t = [Power s r])"
  by (simp add: emits_def rf_power_def emit_def)

lemma emits_mark: "emits (mark E i st fs) (\<lambda>r t. t = [Mark i st fs r])"
  by (simp add: emits_def mark_def emit_def store_step_of_def put_store_def)

lemma quiet_return: "quiet (State_Monad.return x)"
  by (rule emits_return) simp

lemma quiet_bind: "quiet m \<Longrightarrow> (\<And>x. quiet (k x)) \<Longrightarrow> quiet (State_Monad.bind m k)"
  by (rule emits_quiet_bind)

lemma quiet_ctx: "quiet (ctx_Err E)"
  unfolding ctx_Err_def by (rule quiet_ask)

lemma quiet_event: "quiet (appendEvent E i lvl msg stp)"
  unfolding appendEvent_def by (intro quiet_bind quiet_now quiet_call)

lemma quiet_record: "quiet (recordOpEvent E i stp op n start err)"
  unfolding recordOpEvent_def by (intro quiet_bind quiet_now quiet_event quiet_return)

lemmas quiet_intros = quiet_bind quiet_now quiet_ask quiet_call quiet_sleep quiet_return quiet_ctx
  quiet_event quiet_record

lemma quiet_renew: "quiet (renew_lease E cfg i nl)"
  unfolding renew_lease_def by (intro quiet_intros | simp add: quiet_intros)+

lemma quiet_reported: "quiet (reported E i rj)"
  unfolding reported_def by (auto intro!: quiet_intros split: sum.splits)

lemma quiet_await_body: "quiet (await_body E cfg i dl pe nl)"
  unfolding await_body_def
  by (auto intro!: quiet_intros quiet_renew quiet_reported split: option.splits)

lemma quiet_for: "(\<And>v. quiet (body v)) \<Longrightarrow> quiet (for_loop n body v)"
  by (induction n arbitrary: v) (auto intro!: quiet_bind quiet_return split: sum.splits)

lemma quiet_await: "quiet (awaitWebhook fuel E cfg i)"
  unfolding awaitWebhook_def by (intro quiet_intros quiet_for quiet_await_body)

text \<open>The waiting loops of the ESXi flow only ping and read the power state.\<close>

definition is_poll :: "action \<Rightarrow> bool" where
  "is_poll a = (case a of RF op r \<Rightarrow> op = Ping | Power t r \<Rightarrow> True | Mark i st fs r \<Rightarrow> False)"

definition polls :: "'a \<Rightarrow> action list \<Rightarrow> bool" where
  "polls r t \<longleftrightarrow> list_all is_poll t"

lemma polls_simps [simp]:
  "polls r []" "polls r (t @ u) \<longleftrightarrow> list_all is_poll t \<and> polls r u" "polls r [RF Ping e]" "polls r [Power s q]"
  by (simp_all add: polls_def is_poll_def)

lemma emits_quietD: "quiet m \<Longrightarrow> emits m polls"
  by (erule emits_mono) simp

lemma polls_bind:
  assumes "emits m polls" and "\<And>x. emits (k x) polls"
  shows "emits (State_Monad.bind m k) polls"
  by (rule emits_bind [OF assms(1)], rule emits_mono [OF assms(2)]) (simp add: polls_def)

lemma polls_ping: "emits (rf_call E Ping) polls"
  by (rule emits_mono [OF emits_rf]) simp

lemma polls_power: "emits (rf_power E s) polls"
  by (rule emits_mono [OF emits_power]) simp

lemmas polls_intros = polls_bind polls_ping polls_power emits_quietD [OF quiet_now]
  emits_quietD [OF quiet_sleep] emits_quietD [OF quiet_return] emits_quietD [OF quiet_ctx]
  emits_quietD [OF quiet_event] emits_quietD [OF quiet_record]

lemma polls_for: "(\<And>v. emits (body v) polls) \<Longrightarrow> emits (for_loop n body v) polls"
  by (induction n arbitrary: v) (auto intro!: polls_intros split: sum.splits)

lemma polls_leave: "emits (leave E i op n st e) polls"
  unfolding leave_def by (intro polls_intros)

lemma polls_bmc_body: "emits (bmc_body E i dl st v) polls"
  unfolding bmc_body_def by (auto intro!: polls_intros polls_leave split: option.splits)

lemma polls_poll_body: "emits (poll_body E i dl mn mx win st p) polls"
  unfolding poll_body_def by (auto intro!: polls_intros polls_leave split: option.splits prod.splits)

section \<open>The order of BMC operations\<close>

text \<open>The BMC operations of a trace other than polls and \<open>Close\<close>, and its status changes.\<close>

fun bmc_calls :: "action list \<Rightarrow> (rf_op \<times> string option) list" where
  "bmc_calls [] = []"
| "bmc_calls (RF op r # t) =
     (if op = Ping \<or> op = SystemPowerState \<or> op = CloseClient then bmc_calls t else (op, r) # bmc_calls t)"
| "bmc_calls (Power s q # t) = bmc_calls t"
| "bmc_calls (Mark i st fs r # t) = bmc_calls t"

fun marks :: "action list \<Rightarrow> (string \<times> JobStatus \<times> string option) list" where
  "marks [] = []"
| "marks (RF op r # t) = marks t"
| "marks (Power s q # t) = marks t"
| "marks (Mark i st fs r # t) = (i, st, fs) # marks t"

lemma bmc_calls_append [simp]: "bmc_calls (t @ u) = bmc_calls t @ bmc_calls u"
  by (induction t rule: bmc_calls.induct) auto

lemma marks_append [simp]: "marks (t @ u) = marks t @ marks u"
  by (induction t rule: marks.induct) auto

lemma polls_no_calls: "polls r t \<Longrightarrow> bmc_calls t = [] \<and> marks t = []"
  unfolding polls_def by (induction t rule: marks.induct) (auto simp: is_poll_def)

definition setup_ops :: "string \<Rightarrow> string \<Rightarrow> rf_op list" where
  "setup_ops m u = [MountVirtualMedia 1 m, MountVirtualMedia 2 u, SetOneTimeBoot BootDeviceCD,
     Reboot RebootGracefulWithFallback]"

definition teardown_ops :: "rf_op list" where
  "teardown_ops = [UnmountVirtualMedia 2, UnmountVirtualMedia 1, Reboot RebootGracefulWithFallback]"

text \<open>
  What a stage does from a point of the setup on, where \<open>todo\<close> are the setup operations left:
  it fails, having marked the job failed once, after some of them of which all but the last
  succeeded; or all of them succeeded, the teardown was attempted in full and the job marked
  complete last, after at most one other mark.
\<close>

definition failed_run :: "string \<Rightarrow> rf_op list \<Rightarrow> action list \<Rightarrow> bool" where
  "failed_run i todo t \<longleftrightarrow>
     todo \<noteq> [] \<and>
     (\<exists>stp n. marks t = [(i, JobStatusFailed, Some stp)] \<and> map fst (bmc_calls t) = take n todo \<and>
        (\<forall>c \<in> set (butlast (bmc_calls t)). snd c = None) \<and>
        (bmc_calls t \<noteq> [] \<and> length todo \<le> n \<longrightarrow> snd (last (bmc_calls t)) \<noteq> None))"

definition finished_run :: "string \<Rightarrow> rf_op list \<Rightarrow> action list \<Rightarrow> bool" where
  "finished_run i todo t \<longleftrightarrow>
     (\<exists>ms rs. marks t = ms @ [(i, JobStatusComplete, None)] \<and> length ms \<le> 1 \<and>
        (\<forall>m \<in> set ms. fst m = i \<and> IsTerminal (fst (snd m))) \<and>
        bmc_calls t = map (\<lambda>op. (op, None)) todo @ zip teardown_ops rs \<and> length rs = 3)"

definition stage_result :: "string \<Rightarrow> rf_op list \<Rightarrow> (string + unit) option \<Rightarrow> action list \<Rightarrow> bool" where
  "stage_result i todo r t \<longleftrightarrow>
     (case r of None \<Rightarrow> True | Some (Inl e) \<Rightarrow> failed_run i todo t | Some (Inr u) \<Rightarrow> finished_run i todo t)"

lemma stage_result_None [simp]: "stage_result i todo None t"
  by (simp add: stage_result_def)

lemma failed_run_empty: "marks t = [(i, JobStatusFailed, Some stp)] \<Longrightarrow> bmc_calls t = [] \<Longrightarrow> todo \<noteq> [] \<Longrightarrow>
   failed_run i todo t"
  unfolding failed_run_def by (intro conjI exI [of _ stp] exI [of _ 0]) simp_all

lemma failed_run_Cons:
  assumes "failed_run i todo t"
  shows "failed_run i (op # todo) (RF op None # t) \<or> op \<in> {Ping, SystemPowerState, CloseClient}"
proof (cases "op \<in> {Ping, SystemPowerState, CloseClient}")
  case False
  from assms obtain stp n where f: "todo \<noteq> []" "marks t = [(i, JobStatusFailed, Some stp)]"
    "map fst (bmc_calls t) = take n todo" "\<forall>c \<in> set (butlast (bmc_calls t)). snd c = None"
    "bmc_calls t \<noteq> [] \<and> length todo \<le> n \<longrightarrow> snd (last (bmc_calls t)) \<noteq> None"
    unfolding failed_run_def by blast
  have "failed_run i (op # todo) (RF op None # t)"
  proof (cases "bmc_calls t = []")
    case True
    then show ?thesis
      unfolding failed_run_def using False f
      by (intro conjI exI [of _ stp] exI [of _ "Suc 0"]) (cases todo, auto)+
  next
    case ne: False
    then show ?thesis
      unfolding failed_run_def using False f by (intro conjI exI [of _ stp] exI [of _ "Suc n"]) auto
  qed
  then show ?thesis ..
qed simp


lemma finished_run_Cons:
  "finished_run i todo t \<Longrightarrow> op \<notin> {Ping, SystemPowerState, CloseClient} \<Longrightarrow>
   finished_run i (op # todo) (RF op None # t)"
  unfolding finished_run_def by auto

lemma stage_result_Cons:
  "stage_result i todo r t \<Longrightarrow> op \<notin> {Ping, SystemPowerState, CloseClient} \<Longrightarrow>
   stage_result i (op # todo) r (RF op None # t)"
  using failed_run_Cons [of i todo t op] finished_run_Cons [of i todo t op]
  by (auto simp: stage_result_def split: option.splits sum.splits)

lemma emits_fail_at:
  "emits (fail_at E i stp msg err) (\<lambda>r t. r = Some (Inl err) \<and> (\<exists>q. t = [Mark i JobStatusFailed (Some stp) q]))"
  unfolding fail_at_def
  by (rule emits_quiet_bind [OF quiet_event], rule emits_bind [OF emits_mark], rule emits_return) simp

lemma fail_at_stage: "todo \<noteq> [] \<Longrightarrow> emits (fail_at E i stp msg err) (stage_result i todo)"
  by (rule emits_mono [OF emits_fail_at]) (auto simp: stage_result_def intro!: failed_run_empty)

lemma emits_redfish: "emits (runRedfishOp E i stp op call) (\<lambda>r t. t = [RF call r])"
  unfolding runRedfishOp_def
  by (rule emits_quiet_bind [OF quiet_now], rule emits_bind [OF emits_rf],
      rule emits_quiet_bind [OF quiet_now], rule emits_quiet_bind [OF quiet_record], rule emits_return) simp

lemma rf_stage_stage:
  assumes k: "emits k (stage_result i todo)" and op: "call \<notin> {Ping, SystemPowerState, CloseClient}"
  shows "emits (rf_stage E i stp op prefix call k) (stage_result i (call # todo))"
  unfolding rf_stage_def
proof (rule emits_bind [OF emits_redfish])
  fix e t
  assume t: "t = [RF call e]"
  show "emits (case e of
       Some m \<Rightarrow> do {
         _ \<leftarrow> mark E i JobStatusFailed (Some stp);
         State_Monad.return (Some (Inl (prefix @ m))) }
     | None \<Rightarrow> k) (\<lambda>r u. stage_result i (call # todo) r (t @ u))"
  proof (cases e)
    case None
    with t op show ?thesis by (auto intro: emits_mono [OF k] stage_result_Cons)
  next
    case (Some m)
    have "failed_run i (call # todo) [RF call (Some m), Mark i JobStatusFailed (Some stp) q]" for q
      unfolding failed_run_def using op by (intro conjI exI [of _ stp] exI [of _ 1]) auto
    with t Some show ?thesis
      by (auto intro!: emits_bind [OF emits_mark] emits_return simp: stage_result_def)
  qed
qed

lemma cleanup_emits:
  "emits (cleanup E i start) (\<lambda>r t. \<exists>a b c q. r = Some (Inr ()) \<and>
     t = [RF (UnmountVirtualMedia 2) a, RF (UnmountVirtualMedia 1) b,
          RF (Reboot RebootGracefulWithFallback) c, Mark i JobStatusComplete None q])"
  unfolding cleanup_def
  by (rule emits_quiet_bind [OF quiet_event], rule emits_bind [OF emits_redfish],
      rule emits_bind [OF emits_redfish], rule emits_bind [OF emits_redfish],
      rule emits_quiet_bind [OF quiet_event], rule emits_bind [OF emits_mark],
      rule emits_quiet_bind [OF quiet_now], rule emits_quiet_bind [OF quiet_event], rule emits_return) simp

text \<open>Cleanup after a wait that asked for at most one status change.\<close>

lemma cleanup_stage:
  assumes "bmc_calls t = []" "length (marks t) \<le> 1" "\<forall>m \<in> set (marks t). fst m = i \<and> IsTerminal (fst (snd m))"
  shows "emits (cleanup E i start) (\<lambda>r u. stage_result i [] r (t @ u))"
proof (rule emits_mono [OF cleanup_emits])
  fix r :: "(string + unit) option" and u
  assume "\<exists>a b c q. r = Some (Inr ()) \<and>
     u = [RF (UnmountVirtualMedia 2) a, RF (UnmountVirtualMedia 1) b,
          RF (Reboot RebootGracefulWithFallback) c, Mark i JobStatusComplete None q]"
  then obtain a b c q where r: "r = Some (Inr ())" and
    u: "u = [RF (UnmountVirtualMedia 2) a, RF (UnmountVirtualMedia 1) b,
          RF (Reboot RebootGracefulWithFallback) c, Mark i JobStatusComplete None q]" by blast
  have "finished_run i [] (t @ u)"
    unfolding finished_run_def using assms u
    by (intro exI [of _ "marks t"] exI [of _ "[a, b, c]"]) (simp add: teardown_ops_def)
  with r show "stage_result i [] r (t @ u)" by (simp add: stage_result_def)
qed

lemma esxi_fail_emits:
  "emits (esxi_fail E i msg) (\<lambda>r t. r = Some JobStatusFailed \<and> (\<exists>q. t = [Mark i JobStatusFailed (Some ''redfish.poll'') q]))"
  unfolding esxi_fail_def
  by (rule emits_quiet_bind [OF quiet_event], rule emits_bind [OF emits_mark], rule emits_return) simp


text \<open>An ESXi wait that ends has asked for exactly one status change, to a terminal status.\<close>

definition one_mark :: "string \<Rightarrow> 'a option \<Rightarrow> action list \<Rightarrow> bool" where
  "one_mark i r t \<longleftrightarrow>
     (r \<noteq> None \<longrightarrow> bmc_calls t = [] \<and> (\<exists>st fs. marks t = [(i, st, fs)] \<and> IsTerminal st))"

lemma one_mark_pre: "polls x t \<Longrightarrow> one_mark i r u \<Longrightarrow> one_mark i r (t @ u)"
  unfolding one_mark_def by (auto dest: polls_no_calls)

lemma polls_then:
  assumes "emits m polls" and "\<And>x. emits (k x) (one_mark i)"
  shows "emits (State_Monad.bind m k) (one_mark i)"
  by (rule emits_bind [OF assms(1)], rule emits_mono [OF assms(2)]) (rule one_mark_pre)

lemma one_mark_None: "emits (State_Monad.return None) (one_mark i)"
  by (rule emits_return) (simp add: one_mark_def)

lemma one_mark_fail: "emits (esxi_fail E i msg) (one_mark i)"
  by (rule emits_mono [OF esxi_fail_emits]) (auto simp: one_mark_def IsTerminal_def)

lemma esxi_emits: "emits (runESXiCompletion fuel E cfg i) (one_mark i)"
proof -
  have q: "emits (pollESXiPowerState fuel E cfg i dl) polls" for dl
    unfolding pollESXiPowerState_def Let_def by (intro polls_intros polls_for polls_poll_body)
  have b: "emits (awaitBMCReady fuel E i dl) polls" for dl
    unfolding awaitBMCReady_def by (intro polls_intros polls_for polls_bmc_body)
  have "emits (do { _ \<leftarrow> mark E i JobStatusSucceeded None; State_Monad.return (Some JobStatusSucceeded) })
      (one_mark i)"
    by (rule emits_bind [OF emits_mark], rule emits_return) (simp add: one_mark_def IsTerminal_def)
  then have ok: "emits (esxi_success E cfg i) (one_mark i)"
    unfolding esxi_success_def by (rule polls_then [OF emits_quietD [OF quiet_event]])
  show ?thesis
    unfolding runESXiCompletion_def esxi_observe_def
    by (auto intro!: polls_then [OF emits_quietD [OF quiet_now]] polls_then [OF emits_quietD [OF quiet_event]]
             polls_then [OF q] polls_then [OF b] one_mark_None one_mark_fail ok split: option.splits)
qed

lemma complete_job_stage: "emits (complete_job fuel E cfg j isESXi start) (stage_result (ID j) [])"
proof (cases isESXi)
  case True
  show ?thesis
    unfolding complete_job_def using True
    by (auto intro!: emits_bind [OF esxi_emits] emits_return cleanup_stage
             simp: one_mark_def split: option.splits)
next
  case False
  let ?m = "\<lambda>e. do {
            _ \<leftarrow> appendEvent E (ID j) EventLevelError (''Await webhook error: '' @ e) (Some ''webhook-timeout'');
            _ \<leftarrow> mark E (ID j) JobStatusFailed (Some ''webhook-timeout'');
            cleanup E (ID j) start }"
  have f: "emits (?m e) (stage_result (ID j) [])" for e
    by (rule emits_quiet_bind [OF quiet_event], rule emits_bind [OF emits_mark], rule cleanup_stage)
       (auto simp: IsTerminal_def)
  have c: "emits (cleanup E (ID j) start) (stage_result (ID j) [])"
    using cleanup_stage [of "[]" "ID j"] by simp
  show ?thesis
    unfolding complete_job_def using False f c
    by (auto intro!: emits_quiet_bind [OF quiet_event] emits_quiet_bind [OF quiet_await] emits_return
             split: option.splits sum.splits)
qed

lemma stage_result_close: "stage_result i todo r t \<Longrightarrow> stage_result i todo r (t @ [RF CloseClient c])"
  by (auto simp: stage_result_def failed_run_def finished_run_def split: option.splits sum.splits)


definition job_result :: "string \<Rightarrow> string \<Rightarrow> (string + unit) option \<Rightarrow> action list \<Rightarrow> bool" where
  "job_result i m r t \<longleftrightarrow> (\<exists>u. stage_result i (setup_ops m u) r t)"

lemma job_result_fail: "emits (fail_at E i stp msg err) (job_result i m)"
  by (rule emits_mono [OF fail_at_stage [of "setup_ops m []"]]) (auto simp: setup_ops_def job_result_def)

lemma rf_stages_emits: "emits (rf_stages fuel E cfg j isESXi start) (job_result (ID j) (mount_url cfg j isESXi))"
proof -
  have "\<exists>u. emits (rf_stages fuel E cfg j isESXi start)
     (stage_result (ID j) (setup_ops (mount_url cfg j isESXi) u))"
  proof (cases "composeTaskMediaURL E cfg (ID j)")
    case (Inl e)
    then show ?thesis
      unfolding rf_stages_def setup_ops_def by (auto intro!: rf_stage_stage fail_at_stage)
  next
    case (Inr u)
    then show ?thesis
      unfolding rf_stages_def setup_ops_def
      by (auto intro!: exI [of _ u] rf_stage_stage complete_job_stage)
  qed
  then obtain u where "emits (rf_stages fuel E cfg j isESXi start)
     (stage_result (ID j) (setup_ops (mount_url cfg j isESXi) u))" by blast
  then show ?thesis by (rule emits_mono) (auto simp: job_result_def)
qed

lemma orchestrate_emits:
  "emits (orchestrate fuel E cfg j isESXi start) (job_result (ID j) (mount_url cfg j isESXi))"
  unfolding orchestrate_def by (simp add: job_result_fail rf_stages_emits)

lemma job_result_close: "job_result i m r t \<Longrightarrow> job_result i m r (t @ [RF CloseClient c])"
  unfolding job_result_def by (blast intro: stage_result_close)

lemma with_client_emits:
  "emits (with_client fuel E cfg j isESXi start srv)
     (job_result (ID j) (mount_url cfg j isESXi))"
proof -
  let ?m = "mount_url cfg j isESXi"
  have "emits (do { r \<leftarrow> orchestrate fuel E cfg j isESXi start; _ \<leftarrow> rf_call E CloseClient;
      State_Monad.return r }) (job_result (ID j) ?m)"
    by (rule emits_bind [OF orchestrate_emits], rule emits_bind [OF emits_rf], rule emits_return)
       (simp add: job_result_close)
  then show ?thesis
    unfolding with_client_def
    by (auto intro!: emits_quiet_bind [OF quiet_ask] job_result_fail split: option.splits)
qed

lemma build_and_run_emits:
  "emits (build_and_run fuel E cfg j isESXi ks start)
     (job_result (ID j) (mount_url cfg j isESXi))"
  unfolding build_and_run_def
  by (auto intro!: emits_quiet_bind [OF quiet_call] emits_quiet_bind [OF quiet_ask]
           emits_quiet_bind [OF quiet_event] job_result_fail with_client_emits split: sum.splits)

definition is_esxi :: "job \<Rightarrow> bool" where
  "is_esxi j = equal_fold (taskTargetFromRecipe (Recipe j)) esxiInstallTarget"

lemma processJob_emits: "emits (processJob fuel E cfg j) (job_result (ID j) (mount_url cfg j (is_esxi j)))"
proof -
  have "emits (build_and_run fuel E cfg j True ks start) (job_result (ID j) (mount_url cfg j True))"
    "emits (build_and_run fuel E cfg j False ks start) (job_result (ID j) (mount_url cfg j False))" for ks start
    by (rule build_and_run_emits)+
  then show ?thesis
    unfolding processJob_def
    by (auto simp: is_esxi_def intro!: emits_quiet_bind [OF quiet_now] emits_quiet_bind [OF quiet_event]
             job_result_fail)
qed


section \<open>Every wait ends\<close>

text \<open>\<open>hoare P m Q\<close>: from a world with \<open>P\<close> every run of \<open>m\<close> ends with \<open>Q\<close>.\<close>

definition hoare :: "('s world \<Rightarrow> bool) \<Rightarrow> ('s, 'a) proc \<Rightarrow> ('a \<Rightarrow> 's world \<Rightarrow> bool) \<Rightarrow> bool" where
  "hoare P m Q \<longleftrightarrow> (\<forall>w. P w \<longrightarrow> Q (fst (run_state m w)) (snd (run_state m w)))"

lemma hoare_return: "(\<And>w. P w \<Longrightarrow> Q x w) \<Longrightarrow> hoare P (State_Monad.return x) Q"
  by (simp add: hoare_def)

lemma hoare_bind:
  assumes "hoare P m Q" and "\<And>x. hoare (Q x) (k x) R"
  shows "hoare P (State_Monad.bind m k) R"
  using assms unfolding hoare_def by (auto simp: run_state_bind split: prod.splits)

lemma hoare_conseq: "hoare P m Q \<Longrightarrow> (\<And>w. P' w \<Longrightarrow> P w) \<Longrightarrow> (\<And>r w. Q r w \<Longrightarrow> Q' r w) \<Longrightarrow> hoare P' m Q'"
  unfolding hoare_def by blast

lemma hoare_pre: "(\<And>w. P w \<Longrightarrow> b) \<Longrightarrow> (b \<Longrightarrow> hoare P m Q) \<Longrightarrow> hoare P m Q"
  unfolding hoare_def by blast

abbreviation after :: "time \<Rightarrow> 's world \<Rightarrow> bool" where
  "after c w \<equiv> c \<le> w_clock w"

abbreviation advances :: "time \<Rightarrow> ('s, 'a) proc \<Rightarrow> bool" where
  "advances c m \<equiv> hoare (after c) m (\<lambda>_. after c)"

lemma now_clock: "hoare (after c) (now E) (\<lambda>t w. c \<le> t \<and> t \<le> w_clock w)"
  by (simp add: hoare_def now_def read_clock_def)

lemma sleep_clock: "hoare (after c) (sleep E d) (\<lambda>z w. after c w \<and> (z = None \<longrightarrow> after (c + d) w))"
  by (auto simp: hoare_def sleep_def advance_def split: option.splits)

lemma advances_now: "advances c (now E)"
  by (rule hoare_conseq [OF now_clock]) auto

lemma advances_ask: "advances c (ask E f)"
  by (simp add: hoare_def ask_def)

lemma advances_ctx: "advances c (ctx_Err E)"
  unfolding ctx_Err_def by (rule advances_ask)

lemma advances_call: "advances c (call_store E f)"
  by (simp add: hoare_def call_store_def store_step_of_def put_store_def)

lemma advances_rf: "advances c (rf_call E op)"
  by (simp add: hoare_def rf_call_def emit_def)

lemma advances_power: "advances c (rf_power E t)"
  by (simp add: hoare_def rf_power_def emit_def)

lemma advances_mark: "advances c (mark E i st fs)"
  by (simp add: hoare_def mark_def emit_def store_step_of_def put_store_def)

lemma advances_return: "advances c (State_Monad.return x)"
  by (rule hoare_return)

lemma advances_event: "advances c (appendEvent E i lvl msg stp)"
  unfolding appendEvent_def by (intro hoare_bind [OF advances_now] advances_call)

lemma advances_record: "advances c (recordOpEvent E i stp op n start err)"
  unfolding recordOpEvent_def
  by (intro hoare_bind [OF advances_now] hoare_bind [OF advances_event] advances_return)

lemma advances_renew: "advances c (renew_lease E cfg i nl)"
  unfolding renew_lease_def
  by (rule hoare_bind [OF advances_now])
     (auto intro!: hoare_bind [OF advances_call] hoare_bind [OF advances_now] advances_return)

lemma advances_reported: "advances c (reported E i rj)"
  unfolding reported_def
  by (auto intro!: hoare_bind [OF advances_event] advances_return split: sum.splits)

definition is_done :: "'a option \<Rightarrow> bool" where
  "is_done r \<longleftrightarrow> r \<noteq> None"

lemma is_done_simps [simp]: "is_done (Some x)" "\<not> is_done None"
  by (simp_all add: is_done_def)

abbreviation ends :: "time \<Rightarrow> ('s, 'a option) proc \<Rightarrow> bool" where
  "ends c m \<equiv> hoare (after c) m (\<lambda>r _. is_done r)"

lemma ends_return: "hoare P (State_Monad.return (Some x)) (\<lambda>r _. is_done r)"
  by (rule hoare_return) simp

text \<open>
  A loop whose every further round started before the deadline and took at least \<open>d\<close> ends within
  the rounds that fit before the deadline, and one more.
\<close>

definition rounds_ok :: "time \<Rightarrow> time \<Rightarrow> ('v \<Rightarrow> bool) \<Rightarrow> ('v \<Rightarrow> ('s, 'a + 'v) proc) \<Rightarrow> bool" where
  "rounds_ok dl d I body \<longleftrightarrow>
     (\<forall>v c. I v \<longrightarrow> hoare (after c) (body v)
        (\<lambda>r w. \<forall>v'. r = Inr v' \<longrightarrow> I v' \<and> c \<le> dl \<and> after (c + d) w))"

lemma for_loop_ends:
  assumes "rounds_ok dl d I body" and "I v" and "dl - c < int n * d" and "0 < d"
  shows "ends c (for_loop (Suc n) body v)"
  using assms(2,3)
proof (induction n arbitrary: c v)
  case 0
  have "hoare (after c) (body v) (\<lambda>r w. \<forall>v'. r = Inr v' \<longrightarrow> I v' \<and> c \<le> dl \<and> after (c + d) w)"
    using assms(1) 0(1) unfolding rounds_ok_def by blast
  then have "hoare (after c) (body v) (\<lambda>r w. \<exists>a. r = Inl a)"
    by (rule hoare_conseq) (use 0(2) in \<open>auto, metis not_less sum.exhaust\<close>)
  then show ?case unfolding for_loop.simps
    by (rule hoare_bind) (auto simp: hoare_def split: sum.splits)
next
  case (Suc n)
  have b: "hoare (after c) (body v) (\<lambda>r w. \<forall>v'. r = Inr v' \<longrightarrow> I v' \<and> c \<le> dl \<and> after (c + d) w)"
    using assms(1) Suc.prems(1) unfolding rounds_ok_def by blast
  have "hoare (\<lambda>w. \<forall>v'. r = Inr v' \<longrightarrow> I v' \<and> c \<le> dl \<and> after (c + d) w)
      (case r of Inl a \<Rightarrow> State_Monad.return (Some a) | Inr v' \<Rightarrow> for_loop (Suc n) body v') (\<lambda>r _. is_done r)" for r
  proof (cases r)
    case (Inl a)
    then show ?thesis by (simp add: ends_return)
  next
    case (Inr v')
    have "ends (c + d) (for_loop (Suc n) body v')" if "I v'"
      by (rule Suc.IH [OF that]) (use Suc.prems(2) in \<open>simp add: algebra_simps\<close>)
    then show ?thesis unfolding Inr sum.case hoare_def by blast
  qed
  then show ?case unfolding for_loop.simps(2)[of "Suc n"] by (rule hoare_bind [OF b])
qed


text \<open>The postcondition of a round, and how the rounds establish it.\<close>

definition round_post :: "time \<Rightarrow> time \<Rightarrow> time \<Rightarrow> ('v \<Rightarrow> bool) \<Rightarrow> 'a + 'v \<Rightarrow> 's world \<Rightarrow> bool" where
  "round_post dl d c I r w \<longleftrightarrow> (\<forall>v'. r = Inr v' \<longrightarrow> I v' \<and> c \<le> dl \<and> after (c + d) w)"

lemma round_Inl: "hoare P (State_Monad.return (Inl a)) (round_post dl d c I)"
  by (rule hoare_return) (simp add: round_post_def)

lemma round_now:
  assumes "\<And>t. dl < t \<Longrightarrow> hoare (after t) (k t) (round_post dl d c I)"
    and "\<And>t. c \<le> dl \<Longrightarrow> hoare (after c) (k t) (round_post dl d c I)"
  shows "hoare (after c) (State_Monad.bind (now E) k) (round_post dl d c I)"
proof (rule hoare_bind [OF now_clock])
  fix t
  show "hoare (\<lambda>w. c \<le> t \<and> t \<le> w_clock w) (k t) (round_post dl d c I)"
  proof (cases "dl < t")
    case True
    then show ?thesis by (rule hoare_conseq [OF assms(1)]) auto
  next
    case False
    show ?thesis
    proof (cases "c \<le> t")
      case True
      with False have "c \<le> dl" by simp
      then show ?thesis by (rule hoare_conseq [OF assms(2)]) auto
    next
      case c: False
      then show ?thesis by (simp add: hoare_def)
    qed
  qed
qed

lemma round_sleep:
  assumes "c \<le> dl" "d \<le> s" "\<And>e. hoare (after c) (k (Some e)) (round_post dl d c I)"
    and "k None = State_Monad.return (Inr v)" "I v"
  shows "hoare (after c) (State_Monad.bind (sleep E s) k) (round_post dl d c I)"
proof (rule hoare_bind [OF sleep_clock])
  fix z
  show "hoare (\<lambda>w. after c w \<and> (z = None \<longrightarrow> after (c + s) w)) (k z) (round_post dl d c I)"
  proof (cases z)
    case None
    show ?thesis unfolding None assms(4)
      by (rule hoare_return) (use assms(1,2,5) in \<open>simp add: round_post_def\<close>)
  next
    case (Some e)
    show ?thesis unfolding Some by (rule hoare_conseq [OF assms(3)]) auto
  qed
qed

lemma round_sleep_return:
  assumes "c \<le> dl"
  shows "hoare (after c) (do { z \<leftarrow> sleep E d;
      State_Monad.return (case z of Some e \<Rightarrow> Inl (f e) | None \<Rightarrow> Inr v) }) (round_post dl d c (\<lambda>_. True))"
  by (rule round_sleep [OF assms order_refl]) (simp_all add: round_Inl)

lemma round_leave: "hoare P (leave E i op n st e) (round_post dl d c I)"
  unfolding leave_def
  by (intro hoare_bind [of _ _ "\<lambda>_ _. True"] round_Inl) (simp_all add: hoare_def)

lemma await_rounds: "rounds_ok dl pe (\<lambda>_. True) (await_body E cfg i dl pe)"
  unfolding rounds_ok_def
proof (intro allI impI)
  fix nl c
  have "hoare (after c) (await_body E cfg i dl pe nl) (round_post dl pe c (\<lambda>_. True))"
    unfolding await_body_def
    by (auto intro!: hoare_bind [OF advances_ctx] round_now round_Inl hoare_bind [OF advances_renew]
             hoare_bind [OF advances_call] hoare_bind [OF advances_reported] round_sleep_return
             split: option.splits)
  then show "hoare (after c) (await_body E cfg i dl pe nl)
      (\<lambda>r w. \<forall>v'. r = Inr v' \<longrightarrow> True \<and> c \<le> dl \<and> after (c + pe) w)"
    unfolding round_post_def .
qed


lemma bmc_rounds:
  assumes "b \<le> 5 * time_Second" "0 < b"
  shows "rounds_ok dl b (\<lambda>v. b \<le> fst v) (bmc_body E i dl start)"
  unfolding rounds_ok_def
proof (intro allI impI)
  fix v :: "time \<times> int" and c
  assume v: "b \<le> fst v"
  have n: "b \<le> next_backoff (fst v)" using v assms by (auto simp: next_backoff_def minDur_def)
  have s: "hoare (after c) (do { z \<leftarrow> sleep E (fst v);
           case z of
             Some e \<Rightarrow> leave E i opESXIAwaitBMC (snd v + 1) start (Some e)
           | None \<Rightarrow> State_Monad.return (Inr (next_backoff (fst v), snd v + 1)) })
      (round_post dl b c (\<lambda>v. b \<le> fst v))" if "c \<le> dl"
    by (rule round_sleep [OF that v, where v = "(next_backoff (fst v), snd v + 1)"]) (simp_all add: round_leave n)
  have "hoare (after c) (bmc_body E i dl start v) (round_post dl b c (\<lambda>v. b \<le> fst v))"
    unfolding bmc_body_def
    by (auto intro!: round_now round_leave hoare_bind [OF advances_rf] s split: option.splits)
  then show "hoare (after c) (bmc_body E i dl start v)
      (\<lambda>r w. \<forall>v'. r = Inr v' \<longrightarrow> b \<le> fst v' \<and> c \<le> dl \<and> after (c + b) w)"
    unfolding round_post_def .
qed

text \<open>Every sample resets the interval: the loop polls at its minimal interval for ever.\<close>

lemma poll_sample_resets: "snd (poll_sample t r p)"
  by (simp add: poll_sample_def split: sum.splits)

lemma poll_sample_interval: "poll_sample t r p = (p1, reset) \<Longrightarrow> ps_interval p1 = ps_interval p \<and> reset"
  by (auto simp: poll_sample_def split: sum.splits if_splits)

lemma poll_rounds:
  assumes "mn \<le> mx"
  shows "rounds_ok dl mn (\<lambda>p. ps_interval p = mn) (poll_body E i dl mn mx window start)"
  unfolding rounds_ok_def
proof (intro allI impI)
  fix p :: poll_state and c
  assume p: "ps_interval p = mn"
  have s: "hoare (after c) (do { z \<leftarrow> sleep E (minDur mx (ps_interval p1));
                 case z of
                   Some e \<Rightarrow> leave E i opESXIPollPower (ps_attempts p1) start (Some e)
                 | None \<Rightarrow> State_Monad.return
                     (Inr (p1\<lparr>ps_interval := next_interval mn mx reset (ps_interval p1)\<rparr>)) })
      (round_post dl mn c (\<lambda>p. ps_interval p = mn))"
    if "c \<le> dl" "poll_sample t r (p\<lparr>ps_attempts := ps_attempts p + 1\<rparr>) = (p1, reset)" for t r p1 and reset :: bool
    using poll_sample_interval [OF that(2)] p assms
    by (intro round_sleep [OF that(1), where v = "p1\<lparr>ps_interval := mn\<rparr>"])
       (auto simp: round_leave minDur_def next_interval_def)
  have "hoare (after c) (poll_body E i dl mn mx window start p) (round_post dl mn c (\<lambda>p. ps_interval p = mn))"
    unfolding poll_body_def
    by (auto intro!: hoare_bind [OF advances_ctx] round_now round_leave hoare_bind [OF advances_power]
             simp: s split: option.splits prod.splits)
  then show "hoare (after c) (poll_body E i dl mn mx window start p)
      (\<lambda>r w. \<forall>v'. r = Inr v' \<longrightarrow> ps_interval v' = mn \<and> c \<le> dl \<and> after (c + mn) w)"
    unfolding round_post_def .
qed


abbreviation finishes :: "('s, 'a option) proc \<Rightarrow> bool" where
  "finishes m \<equiv> hoare (\<lambda>_. True) m (\<lambda>r _. is_done r)"

lemma finishes_ends: "(\<And>c. ends c m) \<Longrightarrow> finishes m"
  unfolding hoare_def by blast

lemma finishes_any: "(\<And>x. finishes (k x)) \<Longrightarrow> finishes (State_Monad.bind m k)"
  by (rule hoare_bind [of _ _ "\<lambda>_ _. True"]) (simp_all add: hoare_def)

lemma finishes_option:
  assumes m: "finishes m" and k: "\<And>a. finishes (k (Some a))"
  shows "finishes (State_Monad.bind m k)"
proof -
  have "hoare (\<lambda>_. is_done x) (k x) (\<lambda>r _. is_done r)" for x
    using k by (cases x) (auto simp: hoare_def)
  then show ?thesis by (rule hoare_bind [OF m])
qed

lemma finishes_return: "finishes (State_Monad.return (Some x))"
  by (rule ends_return)

text \<open>
  The rounds a wait may take: the deadline is \<open>d\<close> away and a round takes at least \<open>s\<close>, so
  \<open>d div s + 1\<close> rounds start before it, and one more notices that it has passed.
\<close>

definition rounds_for :: "time \<Rightarrow> time \<Rightarrow> nat" where
  "rounds_for d s = Suc (Suc (nat (d div s)))"

lemma rounds_for_enough:
  assumes "rounds_for d s \<le> fuel" "0 < s"
  obtains n where "fuel = Suc n" "d < int n * s"
proof -
  obtain n where n: "fuel = Suc n" "Suc (nat (d div s)) \<le> n"
    using assms(1) by (cases fuel) (auto simp: rounds_for_def)
  have "d < (d div s + 1) * s"
    using assms(2) by (metis add.commute distrib_right mult.commute mult_1 add_less_cancel_left
        div_mult_mod_eq pos_mod_bound)
  also have "\<dots> \<le> int n * s"
    using n(2) assms(2) by (intro mult_right_mono) auto
  finally show thesis using n that by blast
qed

definition enough_fuel :: "WorkerConfig \<Rightarrow> nat" where
  "enough_fuel cfg =
     rounds_for (JobStuckTimeout cfg) (minDur (PollInterval cfg) (5 * time_Second)) +
     rounds_for (ESXIInstallTimeout cfg) (200 * time_Millisecond) +
     rounds_for (ESXIInstallTimeout cfg) (default_dur (ESXIPollIntervalStart cfg) time_Second)"

lemma awaitWebhook_finishes:
  assumes "0 < PollInterval cfg"
    "rounds_for (JobStuckTimeout cfg) (minDur (PollInterval cfg) (5 * time_Second)) \<le> fuel"
  shows "finishes (awaitWebhook fuel E cfg i)"
proof (rule finishes_ends)
  fix c
  let ?pe = "minDur (PollInterval cfg) (5 * time_Second)"
  have pe: "0 < ?pe" using assms(1) by (simp add: minDur_def)
  obtain n where n: "fuel = Suc n" "JobStuckTimeout cfg < int n * ?pe"
    using rounds_for_enough [OF assms(2) pe] by blast
  have l: "ends t (for_loop fuel (await_body E cfg i (t + JobStuckTimeout cfg) ?pe) nl)" for t nl
    unfolding n(1) by (rule for_loop_ends [OF await_rounds]) (use n pe in simp_all)
  show "ends c (awaitWebhook fuel E cfg i)"
    unfolding awaitWebhook_def
  proof (rule hoare_bind [OF now_clock])
    fix t
    show "hoare (\<lambda>w. c \<le> t \<and> t \<le> w_clock w) (do { t2 \<leftarrow> now E; for_loop fuel
        (await_body E cfg i (t + JobStuckTimeout cfg) ?pe) (t2 + ExtendLeaseEvery cfg) }) (\<lambda>r _. is_done r)"
      by (rule hoare_conseq [OF hoare_bind [OF advances_now l]]) auto
  qed
qed

lemma awaitBMC_ends:
  assumes "rounds_for T (200 * time_Millisecond) \<le> fuel" "dl - c \<le> T"
  shows "ends c (awaitBMCReady fuel E i dl)"
proof -
  obtain n where n: "fuel = Suc n" "T < int n * (200 * time_Millisecond)"
    using rounds_for_enough [OF assms(1)] by auto
  have "ends c (for_loop fuel (bmc_body E i dl start) (200 * time_Millisecond, 0))" for start
    unfolding n(1)
    by (rule for_loop_ends [OF bmc_rounds, where d = "200 * time_Millisecond"]) (use n assms(2) in simp_all)
  then show ?thesis unfolding awaitBMCReady_def by (rule hoare_bind [OF advances_now])
qed

lemma pollESXi_ends:
  assumes "rounds_for T (default_dur (ESXIPollIntervalStart cfg) time_Second) \<le> fuel" "dl - c \<le> T"
  shows "ends c (pollESXiPowerState fuel E cfg i dl)"
proof -
  let ?mn = "default_dur (ESXIPollIntervalStart cfg) time_Second"
  let ?mx = "if ESXIPollIntervalMax cfg \<le> 0 \<or> ESXIPollIntervalMax cfg < ?mn then ?mn else ESXIPollIntervalMax cfg"
  have mn: "0 < ?mn" by (simp add: default_dur_def)
  obtain n where n: "fuel = Suc n" "T < int n * ?mn" using rounds_for_enough [OF assms(1) mn] by blast
  have "ends c (for_loop fuel (poll_body E i dl ?mn ?mx win start)
      \<lparr>ps_interval = ?mn, stableSince = None, lastState = PowerStateUnknown, ps_attempts = 0\<rparr>)" for win start
    unfolding n(1) by (rule for_loop_ends [OF poll_rounds]) (use n assms(2) mn in auto)
  then show ?thesis unfolding pollESXiPowerState_def Let_def by (rule hoare_bind [OF advances_now])
qed


lemma advances_sleep: "0 \<le> d \<Longrightarrow> advances c (sleep E d)"
  by (rule hoare_conseq [OF sleep_clock]) auto

lemma advances_bind: "advances c m \<Longrightarrow> (\<And>x. advances c (k x)) \<Longrightarrow> advances c (State_Monad.bind m k)"
  by (rule hoare_bind)

lemma advances_for: "(\<And>v. advances c (body v)) \<Longrightarrow> advances c (for_loop n body v)"
  by (induction n arbitrary: v) (auto intro!: advances_bind advances_return split: sum.splits)

lemma advances_any_sleep: "advances c (sleep E d)"
  by (auto simp: hoare_def sleep_def advance_def split: option.splits)

lemma advances_leave: "advances c (leave E i op n st e)"
  unfolding leave_def by (intro advances_bind advances_record advances_now advances_return)

lemma advances_bmc: "advances c (awaitBMCReady fuel E i dl)"
  unfolding awaitBMCReady_def bmc_body_def
  by (auto intro!: advances_bind advances_now advances_for advances_rf advances_leave advances_any_sleep
           advances_return split: option.splits)

lemma finishes_fail: "finishes (esxi_fail E i msg)"
  unfolding esxi_fail_def by (intro finishes_any finishes_return)

lemma finishes_success: "finishes (esxi_success E cfg i)"
  unfolding esxi_success_def by (intro finishes_any finishes_return)

lemma ends_option:
  assumes "hoare P m (\<lambda>r w. is_done r \<and> Q w)" and "\<And>a. hoare Q (k (Some a)) (\<lambda>r _. is_done r)"
  shows "hoare P (State_Monad.bind m k) (\<lambda>r _. is_done r)"
proof (rule hoare_bind [OF assms(1)])
  fix x
  show "hoare (\<lambda>w. is_done x \<and> Q w) (k x) (\<lambda>r _. is_done r)"
    using assms(2) by (cases x) (auto simp: hoare_def)
qed

lemma finishes_pre: "finishes m \<Longrightarrow> hoare P m (\<lambda>r _. is_done r)"
  unfolding hoare_def by blast

lemma esxi_finishes:
  assumes "enough_fuel cfg \<le> fuel"
  shows "finishes (runESXiCompletion fuel E cfg i)"
proof (rule finishes_ends)
  fix c
  let ?T = "ESXIInstallTimeout cfg"
  have f: "rounds_for ?T (200 * time_Millisecond) \<le> fuel"
    "rounds_for ?T (default_dur (ESXIPollIntervalStart cfg) time_Second) \<le> fuel"
    using assms by (auto simp: enough_fuel_def)
  have bmc: "hoare (after t) (awaitBMCReady fuel E i (t + ?T)) (\<lambda>r w. is_done r \<and> after t w)" for t
    using awaitBMC_ends [OF f(1), of "t + ?T" t] advances_bmc unfolding hoare_def by fastforce
  have poll: "hoare (after t) (pollESXiPowerState fuel E cfg i (t + ?T)) (\<lambda>r w. is_done r \<and> True)" for t
    using pollESXi_ends [OF f(2), of "t + ?T" t] by simp
  have obs: "ends t (esxi_observe fuel E cfg i (t + ?T))" for t
    unfolding esxi_observe_def
    by (rule hoare_bind [OF advances_event], rule ends_option [OF poll])
       (auto simp: finishes_fail finishes_success split: option.splits)
  have "ends t (do { _ \<leftarrow> appendEvent E i EventLevelInfo msg (Some ''redfish.poll'');
      b \<leftarrow> awaitBMCReady fuel E i (t + ?T);
      case b of
        None \<Rightarrow> State_Monad.return None
      | Some (Some e) \<Rightarrow> esxi_fail E i (m e)
      | Some None \<Rightarrow> esxi_observe fuel E cfg i (t + ?T) })" for t msg m
    by (rule hoare_bind [OF advances_event], rule ends_option [OF bmc])
       (auto simp: finishes_pre [OF finishes_fail] obs split: option.splits)
  then have "hoare (\<lambda>w. c \<le> t \<and> t \<le> w_clock w) (do { _ \<leftarrow> appendEvent E i EventLevelInfo msg (Some ''redfish.poll'');
      b \<leftarrow> awaitBMCReady fuel E i (t + ?T);
      case b of
        None \<Rightarrow> State_Monad.return None
      | Some (Some e) \<Rightarrow> esxi_fail E i (m e)
      | Some None \<Rightarrow> esxi_observe fuel E cfg i (t + ?T) }) (\<lambda>r _. is_done r)" for t msg m
    by (rule hoare_conseq) auto
  then show "ends c (runESXiCompletion fuel E cfg i)"
    unfolding runESXiCompletion_def by (intro hoare_bind [OF now_clock])
qed

lemma finishes_fail_at: "finishes (fail_at E i stp msg err)"
  unfolding fail_at_def by (intro finishes_any finishes_return)

lemma finishes_stage: "finishes k \<Longrightarrow> finishes (rf_stage E i stp op prefix call k)"
  unfolding rf_stage_def by (auto intro!: finishes_any finishes_return split: option.splits)

lemma finishes_cleanup: "finishes (cleanup E i start)"
  unfolding cleanup_def by (intro finishes_any finishes_return)

lemma complete_job_finishes:
  assumes "enough_fuel cfg \<le> fuel" "0 < PollInterval cfg"
  shows "finishes (complete_job fuel E cfg j isESXi start)"
proof -
  have "finishes (awaitWebhook fuel E cfg (ID j))"
    by (rule awaitWebhook_finishes) (use assms in \<open>auto simp: enough_fuel_def\<close>)
  then show ?thesis
    unfolding complete_job_def
    by (auto intro!: finishes_option esxi_finishes assms finishes_cleanup
             finishes_any [where m = "appendEvent E' i' l' m' s'" for E' i' l' m' s']
             finishes_any [where m = "mark E' i' t' f'" for E' i' t' f'] split: sum.splits)
qed

lemma processJob_finishes:
  assumes "enough_fuel cfg \<le> fuel" "0 < PollInterval cfg"
  shows "finishes (processJob fuel E cfg j)"
proof -
  have "finishes (orchestrate fuel E cfg j b start)" for b start
    unfolding orchestrate_def rf_stages_def
    by (auto intro!: finishes_fail_at finishes_stage complete_job_finishes assms split: sum.splits)
  then have "finishes (do { r \<leftarrow> orchestrate fuel E cfg j b start; _ \<leftarrow> rf_call E CloseClient; State_Monad.return r })"
    for b start
    by (rule finishes_option) (intro finishes_any finishes_return)
  then have "finishes (with_client fuel E cfg j b start srv)" for b start srv
    unfolding with_client_def
    by (intro finishes_any) (auto intro!: finishes_fail_at split: option.splits)
  then have "finishes (build_and_run fuel E cfg j b ks start)" for b ks start
    unfolding build_and_run_def by (auto intro!: finishes_any finishes_fail_at split: sum.splits)
  then show ?thesis
    unfolding processJob_def by (auto intro!: finishes_any finishes_fail_at)
qed


section \<open>A stable power state\<close>

lemma emits_for:
  assumes body: "\<And>v t. J v t \<Longrightarrow> emits (body v) (\<lambda>r u. case r of Inl a \<Rightarrow> Q a (t @ u) | Inr v' \<Rightarrow> J v' (t @ u))"
    and "J v t"
  shows "emits (for_loop n body v) (\<lambda>r u. case r of None \<Rightarrow> True | Some a \<Rightarrow> Q a (t @ u))"
  using assms(2)
proof (induction n arbitrary: v t)
  case 0
  show ?case by (auto intro: emits_return)
next
  case (Suc n)
  show ?case
    unfolding for_loop.simps
  proof (rule emits_bind [OF body [OF Suc.prems]])
    fix r u
    assume "case r of Inl a \<Rightarrow> Q a (t @ u) | Inr v' \<Rightarrow> J v' (t @ u)"
    then show "emits (case r of Inl a \<Rightarrow> State_Monad.return (Some a) | Inr v' \<Rightarrow> for_loop n body v')
        (\<lambda>r ua. case r of None \<Rightarrow> True | Some a \<Rightarrow> Q a (t @ u @ ua))"
      using Suc.IH [of _ "t @ u", unfolded append_assoc] by (cases r) (auto intro!: emits_return)
  qed
qed

text \<open>The trace ends in samples \<open>On\<close>, the first of them at \<open>s\<close>, the last at \<open>e\<close>.\<close>

definition on_run :: "time \<Rightarrow> time \<Rightarrow> action list \<Rightarrow> bool" where
  "on_run s e t \<longleftrightarrow>
     (\<exists>pre ts. t = pre @ map (\<lambda>x. Power x (Inr PowerStateOn)) ts \<and> ts \<noteq> [] \<and> hd ts = s \<and> last ts = e)"

lemma on_run_start: "on_run s s (t @ [Power s (Inr PowerStateOn)])"
  unfolding on_run_def by (intro exI [of _ t] exI [of _ "[s]"]) simp

lemma on_run_extend: "on_run s e t \<Longrightarrow> on_run s e' (t @ [Power e' (Inr PowerStateOn)])"
  unfolding on_run_def
proof (elim exE conjE)
  fix pre ts
  assume "t = pre @ map (\<lambda>x. Power x (Inr PowerStateOn)) ts" "ts \<noteq> []" "hd ts = s"
  then show "\<exists>pre ts. t @ [Power e' (Inr PowerStateOn)] = pre @ map (\<lambda>x. Power x (Inr PowerStateOn)) ts \<and>
      ts \<noteq> [] \<and> hd ts = s \<and> last ts = e'"
    by (intro exI [of _ pre] exI [of _ "ts @ [e']"]) auto
qed

definition poll_inv :: "poll_state \<Rightarrow> action list \<Rightarrow> bool" where
  "poll_inv p t = (case stableSince p of None \<Rightarrow> True | Some s \<Rightarrow> \<exists>e. on_run s e t)"

definition poll_post :: "time \<Rightarrow> time \<Rightarrow> string option \<Rightarrow> action list \<Rightarrow> bool" where
  "poll_post window dl err t \<longleftrightarrow> (err = None \<longrightarrow> (\<exists>s e. on_run s e t \<and> window \<le> e - s \<and> e \<le> dl))"

lemma poll_sample_run:
  assumes "poll_inv p t" and "poll_sample s r p = (p1, reset)"
  shows "case stableSince p1 of None \<Rightarrow> True | Some s0 \<Rightarrow> on_run s0 s (t @ [Power s r])"
  using assms
  by (auto simp: poll_inv_def poll_sample_def intro: on_run_start on_run_extend
           split: sum.splits if_splits option.splits)

lemma leave_emits: "emits (leave E i op n st e) (\<lambda>r t. r = Inl e \<and> t = [])"
  unfolding leave_def
  by (rule emits_quiet_bind [OF quiet_record], rule emits_quiet_bind [OF quiet_now], rule emits_return) simp

lemma poll_body_run:
  assumes inv: "poll_inv p t"
  shows "emits (poll_body E i dl mn mx window st p)
     (\<lambda>r u. case r of Inl a \<Rightarrow> poll_post window dl a (t @ u) | Inr v \<Rightarrow> poll_inv v (t @ u))"
proof -
  let ?L = "\<lambda>r u. case r of Inl a \<Rightarrow> poll_post window dl a (t @ u) | Inr v \<Rightarrow> poll_inv v (t @ u)"
  have err: "emits (leave E i opESXIPollPower n st (Some e)) ?L" for n e
    by (rule emits_mono [OF leave_emits]) (simp add: poll_post_def)
  have errP: "emits (leave E i opESXIPollPower n st (Some e))
      (\<lambda>q u. case q of Inl a \<Rightarrow> poll_post window dl a (t @ [Power s r] @ u) | Inr v \<Rightarrow> poll_inv v (t @ [Power s r] @ u))"
    for n e s r
    by (rule emits_mono [OF leave_emits]) (simp add: poll_post_def)
  have sample: "emits (case poll_sample s r (p\<lparr>ps_attempts := ps_attempts p + 1\<rparr>) of
             (p1, reset) \<Rightarrow>
               if poll_done window s p1 then leave E i opESXIPollPower (ps_attempts p1) st None
               else do {
                 z \<leftarrow> sleep E (minDur mx (ps_interval p1));
                 case z of
                   Some e \<Rightarrow> leave E i opESXIPollPower (ps_attempts p1) st (Some e)
                 | None \<Rightarrow> State_Monad.return
                     (Inr (p1\<lparr>ps_interval := next_interval mn mx reset (ps_interval p1)\<rparr>)) })
      (\<lambda>q u. ?L q ([Power s r] @ u))" if s: "s \<le> dl" for s r
  proof (cases "poll_sample s r (p\<lparr>ps_attempts := ps_attempts p + 1\<rparr>)")
    case (Pair p1 reset)
    have run: "case stableSince p1 of None \<Rightarrow> True | Some s0 \<Rightarrow> on_run s0 s (t @ [Power s r])"
      by (rule poll_sample_run [OF _ Pair]) (use inv in \<open>simp add: poll_inv_def\<close>)
    have "emits (leave E i opESXIPollPower (ps_attempts p1) st None) (\<lambda>q u. ?L q ([Power s r] @ u))"
      if "poll_done window s p1"
      by (rule emits_mono [OF leave_emits])
         (use that run s in \<open>auto simp: poll_post_def poll_done_def split: option.splits\<close>)
    moreover have "poll_inv (p1\<lparr>ps_interval := iv\<rparr>) (t @ [Power s r])" for iv
      using run by (auto simp: poll_inv_def split: option.splits)
    ultimately show ?thesis
      unfolding Pair prod.case
      by (auto intro!: emits_quiet_bind [OF quiet_sleep] errP emits_return
               split: option.splits)
  qed
  show ?thesis
    unfolding poll_body_def
    by (auto intro!: emits_quiet_bind [OF quiet_ctx] emits_quiet_bind [OF quiet_now] emits_bind [OF emits_power]
             err sample split: option.splits simp del: append_Cons)
qed


section \<open>What a run does to the store\<close>

text \<open>The effect of the recorded status changes on the jobs' statuses.\<close>

definition set_status :: "string \<times> JobStatus \<times> string option \<Rightarrow> job_view \<Rightarrow> job_view" where
  "set_status m v = v(fst m := map_option (\<lambda>_. snd m) (v (fst m)))"

fun apply_mark :: "action \<Rightarrow> job_view \<Rightarrow> job_view" where
  "apply_mark (Mark i st fs (Inr u)) v = set_status (i, st, fs) v"
| "apply_mark a v = v"

definition update_failed :: "action \<Rightarrow> bool" where
  "update_failed a = (case a of Mark i st fs (Inl e) \<Rightarrow> True | _ \<Rightarrow> False)"

text \<open>
  \<open>tracks ok st healthy m\<close>: the runs of \<open>m\<close> keep \<open>ok\<close>, change the statuses \<open>st\<close> as their trace says,
  and on a healthy store no status update fails.
\<close>

definition tracks :: "('s \<Rightarrow> bool) \<Rightarrow> ('s \<Rightarrow> job_view) \<Rightarrow> bool \<Rightarrow> ('s, 'a) proc \<Rightarrow> bool" where
  "tracks ok st healthy m \<longleftrightarrow>
     (\<forall>w. ok (w_store w) \<longrightarrow> ok (w_store (snd (run_state m w))) \<and>
        (\<exists>t. w_trace (snd (run_state m w)) = w_trace w @ t \<and>
             st (w_store (snd (run_state m w))) = fold apply_mark t (st (w_store w)) \<and>
             (healthy \<longrightarrow> list_all (\<lambda>a. \<not> update_failed a) t)))"

lemma tracks_return: "tracks ok st h (State_Monad.return x)"
  by (simp add: tracks_def)

lemma tracks_bind:
  fixes m :: "('s, 'a) proc"
  assumes "tracks ok st h m" and "\<And>x. tracks ok st h (k x)"
  shows "tracks ok st h (State_Monad.bind m k)"
  unfolding tracks_def
proof (intro allI impI)
  fix w :: "'s world"
  assume i: "ok (w_store w)"
  obtain x w1 where m: "run_state m w = (x, w1)" by fastforce
  obtain t where t: "ok (w_store w1)" "w_trace w1 = w_trace w @ t"
    "st (w_store w1) = fold apply_mark t (st (w_store w))" "h \<longrightarrow> list_all (\<lambda>a. \<not> update_failed a) t"
    using assms(1) i m unfolding tracks_def by (metis snd_conv)
  obtain u where u: "ok (w_store (snd (run_state (k x) w1)))"
    "w_trace (snd (run_state (k x) w1)) = w_trace w1 @ u"
    "st (w_store (snd (run_state (k x) w1))) = fold apply_mark u (st (w_store w1))"
    "h \<longrightarrow> list_all (\<lambda>a. \<not> update_failed a) u"
    using assms(2) t(1) unfolding tracks_def by blast
  show "ok (w_store (snd (run_state (State_Monad.bind m k) w))) \<and>
      (\<exists>t. w_trace (snd (run_state (State_Monad.bind m k) w)) = w_trace w @ t \<and>
        st (w_store (snd (run_state (State_Monad.bind m k) w))) = fold apply_mark t (st (w_store w)) \<and>
        (h \<longrightarrow> list_all (\<lambda>a. \<not> update_failed a) t))"
    using m t u by (auto simp: run_state_bind intro!: exI [of _ "t @ u"])
qed

lemma tracks_for: "(\<And>v. tracks ok st h (body v)) \<Longrightarrow> tracks ok st h (for_loop n body v)"
  by (induction n arbitrary: v) (auto intro!: tracks_bind tracks_return split: sum.splits)

definition mk_WorkerStore where
  "mk_WorkerStore gs aq ex gj mk si ap =
     \<lparr>wk_GetServerBySerial = gs, wk_AcquireQueuedJob = aq, wk_ExtendLease = ex,
      wk_GetJobByID = gj, wk_MarkJobStatus = mk, wk_UpdateJobTaskISOPath = si,
      wk_AppendJobEvent = ap\<rparr>"

text \<open>Nobody else writes to the store while the worker runs.\<close>

definition undisturbed :: "'s env \<Rightarrow> bool" where
  "undisturbed E \<longleftrightarrow> (\<forall>n s. other E n s = s)"

lemma undisturbed_other [simp]: "undisturbed E \<Longrightarrow> other E n s = s"
  by (simp add: undisturbed_def)

lemma tracks_prims:
  assumes "undisturbed E"
  shows "tracks ok st h (now E)" "tracks ok st h (ask E f)" "tracks ok st h (ctx_Err E)"
    "tracks ok st h (sleep E d)" "tracks ok st h (rf_call E op)" "tracks ok st h (rf_power E t)"
  using assms
  by (auto simp: tracks_def now_def read_clock_def ask_def ctx_Err_def sleep_def advance_def rf_call_def
                 rf_power_def emit_def update_failed_def split: option.splits)

context worker_store
begin

lemma tracks_store:
  assumes u: "undisturbed E" and s: "wstore E = mk_WorkerStore get_server acquire extend get_job mark set_iso append"
    and hl: "\<And>x i st fs. h \<Longrightarrow> inv x \<Longrightarrow> Valid st \<Longrightarrow> \<not> isl (fst (mark i st fs x))"
  shows "tracks inv status_of h (call_store E (\<lambda>st. wk_GetServerBySerial st sn))"
    "tracks inv status_of h (call_store E (\<lambda>st. wk_ExtendLease st i w ttl))"
    "tracks inv status_of h (call_store E (\<lambda>st. wk_GetJobByID st i))"
    "tracks inv status_of h (call_store E (\<lambda>st. wk_UpdateJobTaskISOPath st i p))"
    "tracks inv status_of h (call_store E (\<lambda>st. wk_AppendJobEvent st ev))"
    "Valid s' \<Longrightarrow> tracks inv status_of h (Worker.mark E i s' fs)"
proof -
  show "tracks inv status_of h (call_store E (\<lambda>st. wk_GetServerBySerial st sn))"
    using u by (auto simp: tracks_def call_store_def store_step_of_def put_store_def s mk_WorkerStore_def
        dest: server_inv [OF _ surjective_pairing] server_frame [OF _ surjective_pairing])
  show "tracks inv status_of h (call_store E (\<lambda>st. wk_ExtendLease st i w ttl))"
    using u by (auto simp: tracks_def call_store_def store_step_of_def put_store_def s mk_WorkerStore_def
        dest: extend_inv [OF _ surjective_pairing] extend_frame [OF _ surjective_pairing])
  show "tracks inv status_of h (call_store E (\<lambda>st. wk_GetJobByID st i))"
    using u by (auto simp: tracks_def call_store_def store_step_of_def put_store_def s mk_WorkerStore_def
        dest: job_inv [OF _ surjective_pairing] job_frame [OF _ surjective_pairing])
  show "tracks inv status_of h (call_store E (\<lambda>st. wk_UpdateJobTaskISOPath st i p))"
    using u by (auto simp: tracks_def call_store_def store_step_of_def put_store_def s mk_WorkerStore_def
        dest: iso_inv [OF _ surjective_pairing] iso_frame [OF _ surjective_pairing])
  show "tracks inv status_of h (call_store E (\<lambda>st. wk_AppendJobEvent st ev))"
    using u by (auto simp: tracks_def call_store_def store_step_of_def put_store_def s mk_WorkerStore_def
        dest: append_inv [OF _ surjective_pairing] append_frame [OF _ surjective_pairing])
  have m: "inv (snd (mark i s' fs x)) \<and>
      status_of (snd (mark i s' fs x)) = apply_mark (Mark i s' fs (fst (mark i s' fs x))) (status_of x)" if "inv x" for x
  proof (cases "mark i s' fs x")
    case (Pair r y)
    show ?thesis
      using mark_inv [OF that Pair] mark_Inr [OF that, of i s' fs _ y] mark_Inl [OF that, of i s' fs _ y] Pair
      by (cases r) (auto simp: set_status_def)
  qed
  show "tracks inv status_of h (Worker.mark E i s' fs)" if "Valid s'"
    using u m hl [of _ s' i fs] that by (auto simp: update_failed_def isl_def split: sum.splits simp: tracks_def Worker.mark_def store_step_of_def put_store_def emit_def s mk_WorkerStore_def)
qed

end


context worker_store
begin

lemma processJob_tracks:
  assumes u: "undisturbed E" and s: "wstore E = mk_WorkerStore get_server acquire extend get_job mark set_iso append"
    and hl: "\<And>x i st fs. h \<Longrightarrow> inv x \<Longrightarrow> Valid st \<Longrightarrow> \<not> isl (fst (mark i st fs x))"
  shows "tracks inv status_of h (processJob fuel E cfg j)"
proof -
  note p = tracks_prims [OF u] tracks_store [OF u s hl] tracks_bind tracks_return tracks_for
  have ev: "tracks inv status_of h (appendEvent E i l m st)" for i l m st
    unfolding appendEvent_def by (intro p)
  have re: "tracks inv status_of h (recordOpEvent E i st op n t e)" for i st op n t e
    unfolding recordOpEvent_def by (intro p ev)
  have rf: "tracks inv status_of h (runRedfishOp E i st op c)" for i st op c
    unfolding runRedfishOp_def by (intro p re)
  have aw: "tracks inv status_of h (awaitWebhook fuel E cfg i)" for i
    unfolding awaitWebhook_def await_body_def renew_lease_def reported_def
    by (auto intro!: p ev split: option.splits sum.splits)
  have lv: "tracks inv status_of h (leave E i op n t e)" for i op n t e
    unfolding leave_def by (intro p re)
  have bm: "tracks inv status_of h (awaitBMCReady fuel E i dl)" for i dl
    unfolding awaitBMCReady_def bmc_body_def by (auto intro!: p lv split: option.splits)
  have po: "tracks inv status_of h (pollESXiPowerState fuel E cfg i dl)" for i dl
    unfolding pollESXiPowerState_def poll_body_def Let_def by (auto intro!: p lv split: option.splits prod.splits)
  have ex: "tracks inv status_of h (runESXiCompletion fuel E cfg i)" for i
    unfolding runESXiCompletion_def esxi_observe_def esxi_success_def esxi_fail_def
    by (auto intro!: p ev bm po simp: Valid_def split: option.splits)
  have fa: "tracks inv status_of h (fail_at E i st m e)" for i st m e
    unfolding fail_at_def by (auto intro!: p ev simp: Valid_def)
  have cl: "tracks inv status_of h (cleanup E i t)" for i t
    unfolding cleanup_def by (auto intro!: p ev rf simp: Valid_def)
  have cj: "tracks inv status_of h (complete_job fuel E cfg j b t)" for b t
    unfolding complete_job_def by (auto intro!: p ev aw ex cl simp: Valid_def split: option.splits sum.splits)
  have st: "tracks inv status_of h (rf_stage E i st op pre c k)" if "tracks inv status_of h k" for i st op pre c k
    unfolding rf_stage_def using that by (auto intro!: p rf simp: Valid_def split: option.splits)
  have orc: "tracks inv status_of h (orchestrate fuel E cfg j b t)" for b t
    unfolding orchestrate_def rf_stages_def by (auto intro!: fa st cj split: sum.splits)
  have br: "tracks inv status_of h (build_and_run fuel E cfg j b ks t)" for b ks t
    unfolding build_and_run_def with_client_def by (auto intro!: p ev fa orc split: option.splits sum.splits)
  show ?thesis unfolding processJob_def by (auto intro!: p ev fa br)
qed

end

definition sql_WorkerStore :: "sqldb WorkerStore" where
  "sql_WorkerStore = mk_WorkerStore sql_GetServerBySerial sql_AcquireQueuedJob sql_ExtendLease
     sql_GetJobByID sql_MarkJobStatus sql_UpdateJobTaskISOPath sql_AppendJobEvent"

text \<open>The SQLite store with a driver that works.\<close>

definition healthy_inv :: "sqldb \<Rightarrow> bool" where
  "healthy_inv d \<longleftrightarrow> sql_inv d \<and> fault_at d = (\<lambda>_. no_faults)"

lemma sql_keeps_faults:
  "sql_MarkJobStatus i st fs d = (ru, d') \<Longrightarrow> fault_at d' = fault_at d"
  "sql_AppendJobEvent ev d = (ru, d') \<Longrightarrow> fault_at d' = fault_at d"
  "sql_GetServerBySerial sn d = (rs, d') \<Longrightarrow> fault_at d' = fault_at d"
  "sql_GetJobByID i d = (rj, d') \<Longrightarrow> fault_at d' = fault_at d"
  "sql_ExtendLease i w ttl d = (rb, d') \<Longrightarrow> fault_at d' = fault_at d"
  "sql_UpdateJobTaskISOPath i p d = (ru, d') \<Longrightarrow> fault_at d' = fault_at d"
  "sql_AcquireQueuedJob w ttl d = (rj, d') \<Longrightarrow> fault_at d' = fault_at d"
  by (auto simp: sql_MarkJobStatus_def sql_AppendJobEvent_def sql_GetServerBySerial_def sql_GetJobByID_def
      sql_ExtendLease_def sql_UpdateJobTaskISOPath_def sql_AcquireQueuedJob_def sql_exec_eq sql_query_eq)

interpretation sql_healthy: worker_store healthy_inv sql_status sql_MarkJobStatus sql_AppendJobEvent
  sql_GetServerBySerial sql_GetJobByID sql_ExtendLease sql_UpdateJobTaskISOPath sql_AcquireQueuedJob
proof
  fix d d' i st fs r ev sn rs rj w ttl rb p ru
  note [simp] = healthy_inv_def
  show "healthy_inv d \<Longrightarrow> sql_MarkJobStatus i st fs d = (r, d') \<Longrightarrow> healthy_inv d'"
    using sql_table.mark_inv [of d i st fs r d'] sql_keeps_faults(1) [of i st fs d r d'] by simp
  show "healthy_inv d \<Longrightarrow> sql_AppendJobEvent ev d = (r, d') \<Longrightarrow> healthy_inv d'"
    using sql_table.append_inv [of d ev r d'] sql_keeps_faults(2) [of ev d r d'] by simp
  show "healthy_inv d \<Longrightarrow> sql_GetServerBySerial sn d = (rs, d') \<Longrightarrow> healthy_inv d'"
    using sql_worker.server_inv [of d sn rs d'] sql_keeps_faults(3) [of sn d rs d'] by simp
  show "healthy_inv d \<Longrightarrow> sql_GetJobByID i d = (rj, d') \<Longrightarrow> healthy_inv d'"
    using sql_worker.job_inv [of d i rj d'] sql_keeps_faults(4) [of i d rj d'] by simp
  show "healthy_inv d \<Longrightarrow> sql_ExtendLease i w ttl d = (rb, d') \<Longrightarrow> healthy_inv d'"
    using sql_worker.extend_inv [of d i w ttl rb d'] sql_keeps_faults(5) [of i w ttl d rb d'] by simp
  show "healthy_inv d \<Longrightarrow> sql_UpdateJobTaskISOPath i p d = (ru, d') \<Longrightarrow> healthy_inv d'"
    using sql_worker.iso_inv [of d i p ru d'] sql_keeps_faults(6) [of i p d ru d'] by simp
  show "healthy_inv d \<Longrightarrow> sql_AcquireQueuedJob w ttl d = (rj, d') \<Longrightarrow> healthy_inv d'"
    using sql_worker.acquire_inv [of d w ttl rj d'] sql_keeps_faults(7) [of w ttl d rj d'] by simp
qed (auto simp: healthy_inv_def dest: sql_mark_Inr sql_mark_Inl sql_append_frame sql_worker.server_frame
       sql_worker.job_frame sql_worker.job_Inr sql_extend_frame sql_iso_frame sql_acquire_Inr sql_acquire_Inl)

lemma healthy_mark: "healthy_inv d \<Longrightarrow> Valid st \<Longrightarrow> \<not> isl (fst (sql_MarkJobStatus i st fs d))"
  by (auto simp: healthy_inv_def sql_MarkJobStatus_def sql_exec_def MarkJobStatus_def)

lemma run_trace:
  assumes "emits m L" and "run_state m w = (r, w')"
  obtains t where "w_trace w' = w_trace w @ t" "L r t"
  using assms unfolding emits_def by (metis fst_conv snd_conv)


lemma fold_marks:
  "list_all (\<lambda>a. \<not> update_failed a) t \<Longrightarrow> fold apply_mark t v = fold set_status (marks t) v"
proof (induction t arbitrary: v rule: marks.induct)
  case (4 i st fs r t)
  then show ?case by (cases r) (auto simp: update_failed_def)
qed auto

lemma fold_marks_other:
  "(\<And>m. m \<in> set ms \<Longrightarrow> fst m = i) \<Longrightarrow> k \<noteq> i \<Longrightarrow> fold set_status ms v k = v k"
  by (induction ms arbitrary: v) (auto simp: set_status_def)

lemma fold_marks_present: "v i \<noteq> None \<Longrightarrow> fold set_status ms v i \<noteq> None"
proof (induction ms arbitrary: v)
  case (Cons m ms)
  have "set_status m v i \<noteq> None" using Cons.prems by (auto simp: set_status_def)
  then show ?case using Cons.IH by simp
qed simp

section \<open>Properties\<close>

text \<open>
  C8. The order of BMC operations, whatever the BMC, the database, the clock and other processes
  do: a run of \<open>processJob\<close> that returns an error has asked for exactly one status change, to
  \<open>failed\<close> with the step's name, and its BMC operations are an initial part of mounting CD1 (the
  ESXi installer or the maintenance ISO), mounting CD2, the one-time boot override and the
  reboot, all of which succeeded except perhaps the last, so it never goes on after a failure;
  a run that returns normally has done all four successfully, has then attempted to unmount
  CD2, to unmount CD1 and to reboot, in that order, and its last status change is to \<open>complete\<close>.
\<close>

theorem processJob_protocol:
  "\<exists>t u. w_trace (snd (run_state (processJob fuel E cfg j) w)) = w_trace w @ t \<and>
     (case fst (run_state (processJob fuel E cfg j) w) of
        None \<Rightarrow> True
      | Some (Inl e) \<Rightarrow> failed_run (ID j) (setup_ops (mount_url cfg j (is_esxi j)) u) t
      | Some (Inr _) \<Rightarrow> finished_run (ID j) (setup_ops (mount_url cfg j (is_esxi j)) u) t)"
proof -
  obtain t where "w_trace (snd (run_state (processJob fuel E cfg j) w)) = w_trace w @ t"
    "job_result (ID j) (mount_url cfg j (is_esxi j)) (fst (run_state (processJob fuel E cfg j) w)) t"
    using processJob_emits [of fuel E cfg j] unfolding emits_def by blast
  then show ?thesis unfolding job_result_def stage_result_def by blast
qed


definition demo_cfg :: WorkerConfig where
  "demo_cfg = NewWorker \<lparr>cfg_WorkerID = ''w1'', PollInterval = 0, LeaseTTL = 0, ExtendLeaseEvery = 0,
     JobStuckTimeout = 0, RedfishTimeout = 0, TaskISOMediaBase = ''http://c/media/tasks'',
     ESXIInstallTimeout = 0, ESXIStableWindow = 0, ESXIPollIntervalStart = 0, ESXIPollIntervalMax = 0,
     ESXIInstallerURL = ''''\<rparr>"

definition demo_env :: "sqldb env" where
  "demo_env = \<lparr>wstore = sql_WorkerStore, other = (\<lambda>_ s. s), lag = (\<lambda>_. 1), ctx_at = (\<lambda>_. None),
     rf_at = (\<lambda>_ op. case op of SetOneTimeBoot d \<Rightarrow> Some ''bmc busy'' | _ \<Rightarrow> None),
     power_at = (\<lambda>_. Inr PowerStateOn), client_at = (\<lambda>_ _. None),
     build_at = (\<lambda>_ i _ _. Inr \<lparr>ResPath = ''/t/'' @ i, ResSize = 9, ResSHA256 = ''ab''\<rparr>),
     url_parse = (\<lambda>s. Inr \<lparr>Scheme = ''http'', Path = ''/media/tasks'', rest = ''c''\<rparr>),
     url_string = (\<lambda>u. Scheme u @ ''://'' @ rest u @ Path u), assetsSchema = ''''\<rparr>"

definition demo_world :: "sqldb world" where
  "demo_world = \<lparr>w_store = demo_db (\<lambda>_. no_faults) [demo_job ''a'' JobStatusProvisioning 5, demo_job ''b'' JobStatusQueued 6],
     w_clock = 100, w_tick = 0, w_trace = []\<rparr>"


text \<open>
  C10. The outcome in the database, when its driver works and nobody else writes to it: a run of
  \<open>processJob\<close> that returns an error leaves its job \<open>failed\<close> with a step, one that returns normally
  leaves it \<open>complete\<close> without a failed step (also after a wait that timed out and had set one),
  and the status of every other job is unchanged.
\<close>

theorem processJob_final_status:
  assumes "undisturbed E" "wstore E = sql_WorkerStore"
    and "sql_inv (w_store w)" "fault_at (w_store w) = (\<lambda>_. no_faults)"
    and "sql_status (w_store w) (ID j) \<noteq> None"
    and "run_state (processJob fuel E cfg j) w = (Some r, w')"
  shows "(case r of
        Inl e \<Rightarrow> \<exists>stp. sql_status (w_store w') (ID j) = Some (JobStatusFailed, Some stp)
      | Inr _ \<Rightarrow> sql_status (w_store w') (ID j) = Some (JobStatusComplete, None)) \<and>
     (\<forall>k. k \<noteq> ID j \<longrightarrow> sql_status (w_store w') k = sql_status (w_store w) k)"
proof -
  have "tracks healthy_inv sql_status True (processJob fuel E cfg j)"
    by (rule sql_healthy.processJob_tracks [OF assms(1)])
       (simp_all add: assms(2) sql_WorkerStore_def healthy_mark)
  then obtain t where t: "w_trace w' = w_trace w @ t" "list_all (\<lambda>a. \<not> update_failed a) t"
    "sql_status (w_store w') = fold apply_mark t (sql_status (w_store w))"
    using assms(3,4,6) unfolding tracks_def healthy_inv_def by (metis snd_conv)
  then have st: "sql_status (w_store w') = fold set_status (marks t) (sql_status (w_store w))"
    using fold_marks [OF t(2)] by simp
  from processJob_emits [of fuel E cfg j] assms(6) obtain t'
    where "w_trace w' = w_trace w @ t'" "job_result (ID j) (mount_url cfg j (is_esxi j)) (Some r) t'"
    by (rule run_trace)
  with t(1) have res: "job_result (ID j) (mount_url cfg j (is_esxi j)) (Some r) t" by simp
  then have own: "fst m = ID j" if "m \<in> set (marks t)" for m
    using that by (cases r) (auto simp: job_result_def stage_result_def failed_run_def finished_run_def)
  have pres: "fold set_status ms (sql_status (w_store w)) (ID j) \<noteq> None" for ms
    using assms(5) by (rule fold_marks_present)
  have "case r of
        Inl e \<Rightarrow> \<exists>stp. sql_status (w_store w') (ID j) = Some (JobStatusFailed, Some stp)
      | Inr _ \<Rightarrow> sql_status (w_store w') (ID j) = Some (JobStatusComplete, None)"
  proof (cases r)
    case (Inl e)
    with res obtain stp where "marks t = [(ID j, JobStatusFailed, Some stp)]"
      by (auto simp: job_result_def stage_result_def failed_run_def)
    with Inl st assms(5) show ?thesis by (auto simp: set_status_def)
  next
    case (Inr q)
    with res obtain ms where "marks t = ms @ [(ID j, JobStatusComplete, None)]"
      by (auto simp: job_result_def stage_result_def finished_run_def)
    with Inr st pres [of ms] show ?thesis by (auto simp: set_status_def)
  qed
  then show ?thesis using fold_marks_other [OF own] st by simp
qed

theorem processJob_final_status_witness:
  "\<exists>r w'. run_state (processJob (enough_fuel demo_cfg) demo_env demo_cfg (demo_job ''a'' JobStatusProvisioning 5))
      demo_world = (Some r, w') \<and>
    sql_status (w_store w') ''b'' = Some (JobStatusQueued, None) \<and>
    sql_status (w_store w') ''a'' \<noteq> Some (JobStatusProvisioning, None)"
proof -
  let ?j = "demo_job ''a'' JobStatusProvisioning 5"
  let ?m = "processJob (enough_fuel demo_cfg) demo_env demo_cfg ?j"
  have "finishes ?m"
    by (rule processJob_finishes) (simp_all add: demo_cfg_def NewWorker_def default_dur_def Let_def)
  then obtain r w' where r: "run_state ?m demo_world = (Some r, w')"
    unfolding hoare_def is_done_def by (metis option.exhaust prod.collapse)
  have b: "sql_status (w_store demo_world) ''b'' = Some (JobStatusQueued, None)" by code_simp
  have a: "sql_status (w_store demo_world) (ID ?j) \<noteq> None" "ID ?j = ''a''" by code_simp+
  have inv: "sql_inv (w_store demo_world)"
    unfolding sql_inv_def demo_world_def world.simps demo_db_def sqldb.simps
    by (rule demo_store_ok) (auto simp: demo_job_def NewJob_def lease_job_def Valid_def)
  have u: "undisturbed demo_env" "wstore demo_env = sql_WorkerStore"
    "fault_at (w_store demo_world) = (\<lambda>_. no_faults)"
    by (simp_all add: undisturbed_def demo_env_def demo_world_def demo_db_def)
  from processJob_final_status [OF u(1,2) inv u(3) a(1) r] r b a(2) show ?thesis
    by (cases r) auto
qed

text \<open>
  An ESXi installation is taken to be complete only on evidence: when \<open>pollESXiPowerState\<close>
  returns without an error, the trace ends in consecutive power readings that all said \<open>On\<close>, of
  which the first and the last are at least the stable window apart and the last is not after
  the deadline; a reading of any other state or an error in between would have restarted the
  window.
\<close>

lemma esxi_stable_window:
  assumes "run_state (pollESXiPowerState fuel E cfg i deadline) w = (Some None, w')"
  shows "\<exists>pre ts. w_trace w' = w_trace w @ pre @ map (\<lambda>t. Power t (Inr PowerStateOn)) ts \<and> ts \<noteq> [] \<and>
     default_dur (ESXIStableWindow cfg) (90 * time_Second) \<le> last ts - hd ts \<and> last ts \<le> deadline"
proof -
  let ?win = "default_dur (ESXIStableWindow cfg) (90 * time_Second)"
  have l: "emits (for_loop fuel (poll_body E i deadline mn mx ?win st) p)
      (\<lambda>r u. case r of None \<Rightarrow> True | Some a \<Rightarrow> poll_post ?win deadline a u)"
    if "stableSince p = None" for mn mx st p
    by (rule emits_mono [OF emits_for [where J = poll_inv and Q = "poll_post ?win deadline" and t = "[]",
          OF poll_body_run]]) (use that in \<open>auto simp: poll_inv_def split: option.splits\<close>)
  have "emits (pollESXiPowerState fuel E cfg i deadline)
      (\<lambda>r u. case r of None \<Rightarrow> True | Some a \<Rightarrow> poll_post ?win deadline a u)"
    unfolding pollESXiPowerState_def Let_def by (rule emits_quiet_bind [OF quiet_now], rule l) simp
  then obtain t where "w_trace w' = w_trace w @ t" "poll_post ?win deadline None t"
    using assms by (rule run_trace) auto
  then show ?thesis unfolding poll_post_def on_run_def by auto
qed

definition calm_env :: "unit env" where
  "calm_env =
     \<lparr>wstore = mk_WorkerStore (\<lambda>_ s. (Inl ErrNotFound, s)) (\<lambda>_ _ s. (Inl ErrNotFound, s))
        (\<lambda>_ _ _ s. (Inr True, s)) (\<lambda>_ s. (Inl ErrNotFound, s)) (\<lambda>_ _ _ s. (Inr (), s))
        (\<lambda>_ _ s. (Inr (), s)) (\<lambda>_ s. (Inr (), s)),
      other = (\<lambda>_ s. s), lag = (\<lambda>_. 1), ctx_at = (\<lambda>_. None),
      rf_at = (\<lambda>_ _. None), power_at = (\<lambda>n. if n < 4 then Inr PowerStateOff else Inr PowerStateOn),
      client_at = (\<lambda>_ _. None), build_at = (\<lambda>_ _ _ _. Inl ''x''), url_parse = (\<lambda>_. Inl ''x''),
      url_string = (\<lambda>_. ''x''), assetsSchema = ''x''\<rparr>"

lemma esxi_stable_window_instance:
  "let cfg = demo_cfg\<lparr>ESXIStableWindow := 3, ESXIPollIntervalStart := 1\<rparr>;
       w' = snd (run_state (pollESXiPowerState 5 calm_env cfg ''a'' 100)
              \<lparr>w_store = (), w_clock = 0, w_tick = 0, w_trace = []\<rparr>)
   in \<exists>pre ts. w_trace w' = pre @ map (\<lambda>t. Power t (Inr PowerStateOn)) ts \<and> ts \<noteq> [] \<and> 3 \<le> last ts - hd ts"
proof -
  let ?cfg = "demo_cfg\<lparr>ESXIStableWindow := 3, ESXIPollIntervalStart := 1\<rparr>"
  let ?w = "\<lparr>w_store = (), w_clock = 0, w_tick = 0, w_trace = []\<rparr>"
  let ?r = "run_state (pollESXiPowerState 5 calm_env ?cfg ''a'' 100) ?w"
  have f: "fst ?r = Some None" by code_simp
  have r: "?r = (Some None, snd ?r)" using f by (metis prod.collapse)
  have e: "default_dur (ESXIStableWindow ?cfg) (90 * time_Second) = 3" by (simp add: default_dur_def)
  show ?thesis
    using esxi_stable_window [OF r] e by (simp add: Let_def) blast
qed


text \<open>
  \<open>NewWorker\<close> repairs every configuration: all intervals and timeouts of the result are
  positive, the lease is renewed strictly before it expires (for a lease of at least two
  nanoseconds; a lease of one is renewed at once), and the maximal ESXi poll interval is either as configured, not below the
  minimal one, or the default of 15 seconds; a valid setting is kept.
\<close>

lemma NewWorker_sane:
  "let c = NewWorker cfg
   in 0 < PollInterval c \<and> 0 < LeaseTTL c \<and> 0 \<le> ExtendLeaseEvery c \<and> ExtendLeaseEvery c < LeaseTTL c \<and>
      0 < JobStuckTimeout c \<and> 0 < RedfishTimeout c \<and> 0 < ESXIInstallTimeout c \<and> 0 < ESXIStableWindow c \<and>
      0 < ESXIPollIntervalStart c \<and> 0 < ESXIPollIntervalMax c \<and>
      (if LeaseTTL c = 1 then ExtendLeaseEvery c = 0 else 0 < ExtendLeaseEvery c) \<and>
      (if 0 < ExtendLeaseEvery cfg \<and> ExtendLeaseEvery cfg < LeaseTTL c
       then ExtendLeaseEvery c = ExtendLeaseEvery cfg else ExtendLeaseEvery c = LeaseTTL c div 2) \<and>
      (ESXIPollIntervalStart c \<le> ESXIPollIntervalMax c \<or> ESXIPollIntervalMax c = 15 * time_Second)"
  unfolding Let_def
  by (intro conjI) (simp_all add: NewWorker_def default_dur_def quot_def Let_def, linarith+)

end
