(* ===== verification/Reconcile.thy ===== *)
theory Reconcile
  imports Worker
begin

text \<open>
  Recovery after a controller restart (\<open>reconcileProvisioningJobs\<close> of
  \<open>cmd/provisioner-controller/main.go\<close>): every job found in \<open>provisioning\<close> is queued again, with an
  event. It stops at the first requeue that fails; a failure to append the event is ignored.
\<close>

definition sql_ListJobsByStatus where
  "sql_ListJobsByStatus st = sql_query (\<lambda>f. ListJobsByStatus f st)"

definition sql_RequeueProvisioningJob where
  "sql_RequeueProvisioningJob i = sql_exec (\<lambda>f t. RequeueProvisioningJob f t i)"

definition reconcile_event :: "time \<Rightarrow> job \<Rightarrow> job_event" where
  "reconcile_event at_time j =
     \<lparr>EventID = 0, JobID = ID j, Time = at_time, Level = EventLevelInfo,
      Message = ''Controller restart detected active provisioning job; re-queued for reconciliation'',
      Step = Some ''reconcile''\<rparr>"

fun requeue_all :: "time \<Rightarrow> job list \<Rightarrow> sqldb \<Rightarrow> (string + unit) \<times> sqldb" where
  "requeue_all at_time [] d = (Inr (), d)"
| "requeue_all at_time (j # js) d =
     (case sql_RequeueProvisioningJob (ID j) d of
        (Inl e, d1) \<Rightarrow> (Inl (''requeue job '' @ ID j @ '': '' @ store_err_text e), d1)
      | (Inr _, d1) \<Rightarrow> requeue_all at_time js (snd (sql_AppendJobEvent (reconcile_event at_time j) d1)))"

definition reconcileProvisioningJobs :: "time \<Rightarrow> sqldb \<Rightarrow> (string + unit) \<times> sqldb" where
  "reconcileProvisioningJobs at_time d =
     (case sql_ListJobsByStatus JobStatusProvisioning d of
        (Inl e, d1) \<Rightarrow> (Inl (''list provisioning jobs: '' @ store_err_text e), d1)
      | (Inr js, d1) \<Rightarrow> requeue_all at_time js d1)"

lemma sql_requeue_Inr:
  assumes "sql_RequeueProvisioningJob i d = (Inr u, d')"
  shows "sql_status d' = (\<lambda>k. if k = i \<and> (\<exists>fs. sql_status d i = Some (JobStatusProvisioning, fs))
           then Some (JobStatusQueued, None) else sql_status d k)"
proof -
  from assms have "d' = d\<lparr>db := (db d)\<lparr>jobs := upd_where (\<lambda>j. ID j = i \<and> Status j = JobStatusProvisioning)
      (\<lambda>j. j\<lparr>Status := JobStatusQueued, FailedStep := None, WorkerID := None, PickedAt := None,
             LeaseExpiresAt := None, TaskISOPath := None, UpdatedAt := clock_at d (calls d)\<rparr>) (jobs (db d))\<rparr>,
      calls := Suc (calls d)\<rparr>"
    by (auto simp: sql_RequeueProvisioningJob_def sql_exec_eq RequeueProvisioningJob_def Let_def exec_stmt_eq
             split: if_splits option.splits)
  then show ?thesis
  proof (intro ext)
    fix k
    assume d': "d' = d\<lparr>db := (db d)\<lparr>jobs := upd_where (\<lambda>j. ID j = i \<and> Status j = JobStatusProvisioning)
      (\<lambda>j. j\<lparr>Status := JobStatusQueued, FailedStep := None, WorkerID := None, PickedAt := None,
             LeaseExpiresAt := None, TaskISOPath := None, UpdatedAt := clock_at d (calls d)\<rparr>) (jobs (db d))\<rparr>,
      calls := Suc (calls d)\<rparr>"
    show "sql_status d' k = (if k = i \<and> (\<exists>fs. sql_status d i = Some (JobStatusProvisioning, fs))
           then Some (JobStatusQueued, None) else sql_status d k)"
      by (cases "job_by_id (db d) k")
         (auto simp: d' sql_status_db sql_status_def job_by_id_upd dest: job_by_id_Some)
  qed
qed

lemma sql_requeue_healthy:
  assumes "healthy_inv d" "sql_status d i = Some (JobStatusProvisioning, fs)"
  shows "\<exists>d'. sql_RequeueProvisioningJob i d = (Inr (), d') \<and> healthy_inv d'"
proof -
  have ok: "store_ok (db d)" and f: "fault_at d = (\<lambda>_. no_faults)"
    using assms(1) by (auto simp: healthy_inv_def sql_inv_def)
  have e: "\<exists>j. job_by_id (db d) i = Some j \<and> Status j = JobStatusProvisioning"
    using assms(2) by (auto simp: sql_status_def)
  obtain s' where s': "RequeueProvisioningJob no_faults (clock_at d (calls d)) i (db d) = (Inr (), s')"
    using e by (auto simp: RequeueProvisioningJob_def Let_def rows_where_none [OF ok])
  then have "store_ok s'" by (rule RequeueProvisioningJob_ok [OF ok])
  with s' f show ?thesis
    by (auto simp: sql_RequeueProvisioningJob_def sql_exec_def healthy_inv_def sql_inv_def)
qed

lemma requeue_all_healthy:
  assumes "healthy_inv d" and "distinct (map ID js)"
    and "\<And>j. j \<in> set js \<Longrightarrow> \<exists>fs. sql_status d (ID j) = Some (JobStatusProvisioning, fs)"
  shows "\<exists>d'. requeue_all at_time js d = (Inr (), d') \<and> healthy_inv d' \<and>
     sql_status d' = (\<lambda>k. if k \<in> ID ` set js then Some (JobStatusQueued, None) else sql_status d k)"
  using assms
proof (induction js arbitrary: d)
  case Nil
  then show ?case by simp
next
  case (Cons j js)
  obtain fs where p: "sql_status d (ID j) = Some (JobStatusProvisioning, fs)" using Cons.prems(3) by auto
  obtain d1 where d1: "sql_RequeueProvisioningJob (ID j) d = (Inr (), d1)" "healthy_inv d1"
    using sql_requeue_healthy [OF Cons.prems(1) p] by blast
  obtain r d2 where d2: "sql_AppendJobEvent (reconcile_event at_time j) d1 = (r, d2)" by fastforce
  have h2: "healthy_inv d2" by (rule sql_healthy.append_inv [OF d1(2) d2])
  have "sql_status d2 = sql_status d1" by (rule sql_append_frame [OF d2])
  then have st: "sql_status d2 = (\<lambda>k. if k = ID j then Some (JobStatusQueued, None) else sql_status d k)"
    using sql_requeue_Inr [OF d1(1)] p by auto
  have "\<exists>fs. sql_status d2 (ID x) = Some (JobStatusProvisioning, fs)" if "x \<in> set js" for x
    using Cons.prems(2,3) that by (auto simp: st image_iff)
  then obtain d' where "requeue_all at_time js d2 = (Inr (), d')" "healthy_inv d'"
    "sql_status d' = (\<lambda>k. if k \<in> ID ` set js then Some (JobStatusQueued, None) else sql_status d2 k)"
    using Cons.IH [OF h2] Cons.prems(2) by auto
  with d1(1) d2 st show ?case by (auto simp: fun_eq_iff)
qed

section \<open>Properties\<close>

text \<open>
  Recovery is complete and touches nothing else: with a working driver
  \<open>reconcileProvisioningJobs\<close> succeeds, afterwards every job that was in \<open>provisioning\<close> is queued
  without a failed step, every other job keeps its status and failed step, and so no job is
  left in \<open>provisioning\<close>.
\<close>

lemma reconcile_requeues_all:
  assumes "sql_inv d" and "fault_at d = (\<lambda>_. no_faults)"
  shows "\<exists>d'. reconcileProvisioningJobs at_time d = (Inr (), d') \<and>
     (\<forall>k. sql_status d' k =
        (case sql_status d k of
           Some (st, fs) \<Rightarrow> if st = JobStatusProvisioning then Some (JobStatusQueued, None) else Some (st, fs)
         | None \<Rightarrow> None)) \<and>
     (\<forall>k fs. sql_status d' k \<noteq> Some (JobStatusProvisioning, fs))"
proof -
  let ?js = "sort_key CreatedAt (filter (\<lambda>j. Status j = JobStatusProvisioning) (jobs (db d)))"
  let ?d1 = "d\<lparr>calls := Suc (calls d)\<rparr>"
  have ok: "store_ok (db d)" and h: "healthy_inv ?d1" using assms by (auto simp: sql_inv_def healthy_inv_def)
  have l: "sql_ListJobsByStatus JobStatusProvisioning d = (Inr ?js, ?d1)"
    by (simp add: sql_ListJobsByStatus_def sql_query_def ListJobsByStatus_def assms(2) Valid_def)
  have "distinct (map ID (jobs (db d)))" using ok by (simp add: store_ok_def)
  then have "inj_on ID (set (jobs (db d)))" "distinct (jobs (db d))" by (auto simp: distinct_map)
  then have dist: "distinct (map ID ?js)" by (auto simp: distinct_map inj_on_def)
  have mem: "k \<in> ID ` set ?js \<longleftrightarrow> (\<exists>fs. sql_status d k = Some (JobStatusProvisioning, fs))" for k
    using job_by_id_member [OF ok] by (force simp: sql_status_def dest: job_by_id_Some)
  obtain d' where d': "requeue_all at_time ?js ?d1 = (Inr (), d')"
    "sql_status d' = (\<lambda>k. if k \<in> ID ` set ?js then Some (JobStatusQueued, None) else sql_status ?d1 k)"
    using requeue_all_healthy [OF h dist, of at_time] mem by auto
  have "sql_status d' k = (case sql_status d k of
           Some (st, fs) \<Rightarrow> if st = JobStatusProvisioning then Some (JobStatusQueued, None) else Some (st, fs)
         | None \<Rightarrow> None)" for k
    unfolding d'(2) mem by (auto split: option.splits)
  moreover have "reconcileProvisioningJobs at_time d = (Inr (), d')"
    by (simp add: reconcileProvisioningJobs_def l d'(1))
  ultimately show ?thesis by (auto split: option.splits)
qed

lemma reconcile_requeues_all_instance:
  "let d = demo_db (\<lambda>_. no_faults) [demo_job ''a'' JobStatusProvisioning 5, demo_job ''b'' JobStatusFailed 6]
   in \<exists>d'. reconcileProvisioningJobs 9 d = (Inr (), d') \<and>
        sql_status d' ''a'' = Some (JobStatusQueued, None) \<and> sql_status d' ''b'' = Some (JobStatusFailed, None)"
proof -
  let ?d = "demo_db (\<lambda>_. no_faults) [demo_job ''a'' JobStatusProvisioning 5, demo_job ''b'' JobStatusFailed 6]"
  have inv: "sql_inv ?d"
    unfolding sql_inv_def demo_db_def sqldb.simps
    by (rule demo_store_ok) (auto simp: demo_job_def NewJob_def lease_job_def Valid_def)
  have f: "fault_at ?d = (\<lambda>_. no_faults)" by (simp add: demo_db_def)
  have "sql_status ?d ''a'' = Some (JobStatusProvisioning, None)"
    "sql_status ?d ''b'' = Some (JobStatusFailed, None)" by code_simp+
  with reconcile_requeues_all [OF inv f, of 9] show ?thesis by (auto simp: Let_def)
qed

end
