(* ===== verification/Regex.thy ===== *)
theory Regex
  imports Prelude
begin

text \<open>
  The fragment of Go's \<open>regexp\<close> the sources use, for patterns anchored with \<open>^\<close> and \<open>$\<close>: byte
  classes, concatenation, alternation, repetition. \<open>matches\<close> decides by derivatives and is
  proved equal to membership in the language of the expression, from which the closed forms
  used by the client proofs follow.
\<close>

datatype re = Zero | Eps | Cls "char \<Rightarrow> bool" | Seq re re | Alt re re | Star re

definition lit :: "string \<Rightarrow> re" where
  "lit s = foldr (\<lambda>c r. Seq (Cls (\<lambda>d. d = c)) r) s Eps"

definition Plus :: "re \<Rightarrow> re" where
  "Plus r = Seq r (Star r)"

definition Opt :: "re \<Rightarrow> re" where
  "Opt r = Alt r Eps"

fun Rep :: "nat \<Rightarrow> re \<Rightarrow> re" where
  "Rep 0 r = Eps"
| "Rep (Suc n) r = Seq r (Rep n r)"

definition in_range :: "char \<Rightarrow> char \<Rightarrow> char \<Rightarrow> bool" where
  "in_range a b c \<longleftrightarrow> (of_char a :: nat) \<le> of_char c \<and> (of_char c :: nat) \<le> of_char b"

definition is_upper :: "char \<Rightarrow> bool" where "is_upper c = in_range CHR ''A'' CHR ''Z'' c"
definition is_lower :: "char \<Rightarrow> bool" where "is_lower c = in_range CHR ''a'' CHR ''z'' c"
definition is_digit :: "char \<Rightarrow> bool" where "is_digit c = in_range CHR ''0'' CHR ''9'' c"
definition is_alnum :: "char \<Rightarrow> bool" where "is_alnum c \<longleftrightarrow> is_upper c \<or> is_lower c \<or> is_digit c"

definition is_hex :: "char \<Rightarrow> bool" where
  "is_hex c \<longleftrightarrow> is_digit c \<or> in_range CHR ''A'' CHR ''F'' c \<or> in_range CHR ''a'' CHR ''f'' c"

section \<open>Matching by derivatives\<close>

fun nullable :: "re \<Rightarrow> bool" where
  "nullable Zero = False"
| "nullable Eps = True"
| "nullable (Cls P) = False"
| "nullable (Seq a b) = (nullable a \<and> nullable b)"
| "nullable (Alt a b) = (nullable a \<or> nullable b)"
| "nullable (Star a) = True"

fun mk_seq :: "re \<Rightarrow> re \<Rightarrow> re" where
  "mk_seq Zero b = Zero"
| "mk_seq Eps b = b"
| "mk_seq a b = Seq a b"

fun mk_alt :: "re \<Rightarrow> re \<Rightarrow> re" where
  "mk_alt Zero b = b"
| "mk_alt a Zero = a"
| "mk_alt a b = Alt a b"

fun deriv :: "char \<Rightarrow> re \<Rightarrow> re" where
  "deriv c Zero = Zero"
| "deriv c Eps = Zero"
| "deriv c (Cls P) = (if P c then Eps else Zero)"
| "deriv c (Seq a b) =
     (if nullable a then mk_alt (mk_seq (deriv c a) b) (deriv c b) else mk_seq (deriv c a) b)"
| "deriv c (Alt a b) = mk_alt (deriv c a) (deriv c b)"
| "deriv c (Star a) = mk_seq (deriv c a) (Star a)"

fun matches :: "re \<Rightarrow> string \<Rightarrow> bool" where
  "matches r [] = nullable r"
| "matches r (c # cs) = matches (deriv c r) cs"

section \<open>The language of an expression\<close>

inductive_set star_lang :: "string set \<Rightarrow> string set" for A :: "string set" where
  star_nil: "[] \<in> star_lang A"
| star_app: "u \<in> A \<Longrightarrow> v \<in> star_lang A \<Longrightarrow> u @ v \<in> star_lang A"

fun lang :: "re \<Rightarrow> string set" where
  "lang Zero = {}"
| "lang Eps = {[]}"
| "lang (Cls P) = {[c] | c. P c}"
| "lang (Seq a b) = {u @ v | u v. u \<in> lang a \<and> v \<in> lang b}"
| "lang (Alt a b) = lang a \<union> lang b"
| "lang (Star a) = star_lang (lang a)"

lemma nullable_lang: "nullable r \<longleftrightarrow> [] \<in> lang r"
  by (induction r) (auto intro: star_nil)

lemma lang_mk_seq [simp]: "lang (mk_seq a b) = lang (Seq a b)"
  by (cases a) auto

lemma lang_mk_alt [simp]: "lang (mk_alt a b) = lang (Alt a b)"
  by (cases a; cases b) auto

lemma star_Cons:
  assumes "c # w \<in> star_lang A"
  shows "\<exists>u v. w = u @ v \<and> c # u \<in> A \<and> v \<in> star_lang A"
proof -
  have "\<exists>u v. w = u @ v \<and> c # u \<in> A \<and> v \<in> star_lang A" if "x \<in> star_lang A" "x = c # w" for x
    using that
  proof (induction rule: star_lang.induct)
    case star_nil
    then show ?case by simp
  next
    case (star_app u v)
    then show ?case by (cases u) auto
  qed
  with assms show ?thesis by blast
qed

lemma lang_deriv: "w \<in> lang (deriv c r) \<longleftrightarrow> c # w \<in> lang r"
proof (induction r arbitrary: w)
  case (Seq a b)
  have "c # w \<in> lang (Seq a b) \<longleftrightarrow>
      (\<exists>u v. w = u @ v \<and> c # u \<in> lang a \<and> v \<in> lang b) \<or> ([] \<in> lang a \<and> c # w \<in> lang b)"
    by (auto simp: Cons_eq_append_conv)
  with Seq show ?case by (auto simp: nullable_lang)
next
  case (Star a)
  have "c # w \<in> lang (Star a) \<longleftrightarrow> (\<exists>u v. w = u @ v \<and> c # u \<in> lang a \<and> v \<in> star_lang (lang a))"
    by (auto dest: star_Cons) (metis append_Cons star_app)
  with Star show ?case by auto
qed auto

lemma matches_lang: "matches r s \<longleftrightarrow> s \<in> lang r"
  by (induction s arbitrary: r) (auto simp: nullable_lang lang_deriv)

section \<open>Closed forms\<close>

lemma matches_Eps [simp]: "matches Eps s \<longleftrightarrow> s = []"
  by (auto simp: matches_lang)

lemma matches_Cls [simp]: "matches (Cls P) s \<longleftrightarrow> (\<exists>c. s = [c] \<and> P c)"
  by (auto simp: matches_lang)

lemma matches_Alt [simp]: "matches (Alt a b) s \<longleftrightarrow> matches a s \<or> matches b s"
  by (auto simp: matches_lang)

lemma matches_Seq: "matches (Seq a b) s \<longleftrightarrow> (\<exists>u v. s = u @ v \<and> matches a u \<and> matches b v)"
  by (auto simp: matches_lang)

lemma matches_Opt [simp]: "matches (Opt a) s \<longleftrightarrow> s = [] \<or> matches a s"
  by (auto simp: Opt_def)

lemma star_Cls: "s \<in> star_lang {[c] | c. P c} \<longleftrightarrow> (\<forall>c \<in> set s. P c)"
proof
  show "s \<in> star_lang {[c] | c. P c} \<Longrightarrow> \<forall>c \<in> set s. P c"
    by (induction rule: star_lang.induct) auto
  show "\<forall>c \<in> set s. P c \<Longrightarrow> s \<in> star_lang {[c] | c. P c}"
  proof (induction s)
    case Nil
    show ?case by (rule star_nil)
  next
    case (Cons a s)
    then have "[a] @ s \<in> star_lang {[c] | c. P c}" by (intro star_app) auto
    then show ?case by simp
  qed
qed

lemma matches_Star_Cls [simp]: "matches (Star (Cls P)) s \<longleftrightarrow> (\<forall>c \<in> set s. P c)"
  by (simp add: matches_lang star_Cls)

lemma matches_Cls_Seq: "matches (Seq (Cls P) r) s \<longleftrightarrow> (\<exists>c v. s = c # v \<and> P c \<and> matches r v)"
proof
  assume "matches (Seq (Cls P) r) s"
  then show "\<exists>c v. s = c # v \<and> P c \<and> matches r v" by (auto simp: matches_Seq)
next
  assume "\<exists>c v. s = c # v \<and> P c \<and> matches r v"
  then obtain c v where "s = [c] @ v" "P c" "matches r v" by auto
  then show "matches (Seq (Cls P) r) s" unfolding matches_Seq by (metis matches_Cls)
qed

lemma matches_Plus_Cls [simp]: "matches (Plus (Cls P)) s \<longleftrightarrow> s \<noteq> [] \<and> (\<forall>c \<in> set s. P c)"
  unfolding Plus_def matches_Cls_Seq by (cases s) auto

lemma matches_lit [simp]: "matches (lit w) s \<longleftrightarrow> s = w"
  by (induction w arbitrary: s) (auto simp: lit_def matches_Seq)

lemma star_mono: "s \<in> star_lang A \<Longrightarrow> A \<subseteq> B \<Longrightarrow> s \<in> star_lang B"
  by (induction rule: star_lang.induct) (auto intro: star_lang.intros)

lemma star_chars: "s \<in> star_lang A \<Longrightarrow> (\<And>u. u \<in> A \<Longrightarrow> \<forall>c \<in> set u. P c) \<Longrightarrow> \<forall>c \<in> set s. P c"
  by (induction rule: star_lang.induct) auto

lemma matches_Rep_length:
  "matches (Rep n (Cls P)) s \<longleftrightarrow> length s = n \<and> (\<forall>c \<in> set s. P c)"
proof (induction n arbitrary: s)
  case 0
  show ?case by auto
next
  case (Suc n)
  show ?case by (cases s) (auto simp: matches_Cls_Seq Suc simp del: matches.simps)
qed

section \<open>Languages up to associativity\<close>

definition conc :: "string set \<Rightarrow> string set \<Rightarrow> string set" where
  "conc A B = {u @ v | u v. u \<in> A \<and> v \<in> B}"

lemma lang_Seq_conc: "lang (Seq a b) = conc (lang a) (lang b)"
  by (simp add: conc_def)

lemma conc_assoc: "conc (conc A B) C = conc A (conc B C)"
  by (auto simp: conc_def) (metis append.assoc)+

lemma conc_unit [simp]: "conc {[]} A = A" "conc A {[]} = A"
  by (auto simp: conc_def)

lemma conc_union: "conc A (B \<union> C) = conc A B \<union> conc A C"
  by (auto simp: conc_def)

lemma conc_mono: "A \<subseteq> A' \<Longrightarrow> B \<subseteq> B' \<Longrightarrow> conc A B \<subseteq> conc A' B'"
  by (auto simp: conc_def)

end
