(* ===== verification/Validation.thy ===== *)
theory Validation
  imports Http Regex
begin

text \<open>
  Recipe validation (\<open>internal/provisioner/api/validation.go\<close>) and the JSON Schema it stands for
  (\<open>internal/provisioner/schema/recipe.schema.json\<close>).

  Go leaves the iteration order of a map unspecified: \<open>rng\<close> is that order, a function from the
  keys of a map to the sequence \<open>range\<close> visits; \<open>ranges_all\<close> says that it visits exactly the keys. A number is the rational value of the decoded \<open>float64\<close>; \<open>int(num)\<close> of a value
  outside the 64-bit range is the smallest integer, as on amd64.
\<close>

record ValidationError =
  Field :: string
  VMessage :: string

abbreviation verr :: "string \<Rightarrow> string \<Rightarrow> ValidationError list" where
  "verr f m \<equiv> [\<lparr>Field = f, VMessage = m\<rparr>]"

section \<open>Patterns and constants\<close>

definition cls :: "string \<Rightarrow> re" where
  "cls extra = Cls (\<lambda>c. is_alnum c \<or> c \<in> set extra)"

definition reTargetSuffix :: re where
  "reTargetSuffix = Seq (Plus (cls ''_.-'')) (lit ''.target'')"

definition reSchemaVersion :: re where
  "reSchemaVersion = Seq (lit ''1'') (Opt (Seq (lit ''.'') (Plus (Cls is_digit))))"

definition reOCIRef :: re where
  "reOCIRef =
     Seq (Plus (cls ''._:-''))
       (Seq (Star (Seq (lit ''/'') (Plus (cls ''._-''))))
         (Opt (Alt (Seq (lit ''@'') (Plus (cls '':+-=._/'')))
                   (Seq (lit '':'') (Plus (cls ''._-''))))))"

definition size_unit :: re where
  "size_unit = Cls (\<lambda>c. c \<in> set ''KMGTP'')"

definition rePartSize :: re where
  "rePartSize =
     Seq (Cls (in_range CHR ''1'' CHR ''9''))
       (Seq (Star (Cls is_digit))
         (Alt (Seq size_unit (Seq (Opt (lit ''i'')) (Opt (lit ''B''))))
           (Alt size_unit (Alt (lit ''M'') (lit ''G'')))))"

definition reTypeGUID :: re where
  "reTypeGUID =
     Alt (Rep 4 (Cls is_hex))
       (Seq (Rep 8 (Cls is_hex))
         (Seq (Rep 3 (Seq (lit ''-'') (Rep 4 (Cls is_hex)))) (Seq (lit ''-'') (Rep 12 (Cls is_hex)))))"

definition known_keys :: "string list" where
  "known_keys = [''schema_version'', ''task_target'', ''target_disk'', ''oci_url'', ''firmware_url'',
     ''partition_layout'', ''user_data'', ''unattend_xml'', ''wim_index'', ''ks.cfg'', ''env'', ''notes'']"

definition allowedFSFormat :: "string list" where
  "allowedFSFormat = [''vfat'', ''ext4'', ''xfs'', ''ntfs'', ''swap'', ''raw'', ''none'']"

definition knownPartProps :: "string list" where
  "knownPartProps = [''size'', ''type_guid'', ''format'', ''label'', ''mountpoint'', ''bootable'']"

section \<open>The validator\<close>

type_synonym map_order = "string list \<Rightarrow> string list"

definition ranges_all :: "map_order \<Rightarrow> bool" where
  "ranges_all rng \<longleftrightarrow> (\<forall>ks. set (rng ks) = set ks)"

text \<open>\<open>v.(string)\<close> that is not blank.\<close>

definition nonblank :: "json \<Rightarrow> bool" where
  "nonblank v = (case v of JStr s \<Rightarrow> trim_space s \<noteq> '''' | _ \<Rightarrow> False)"

definition go_int :: "rat \<Rightarrow> int" where
  "go_int q = (let n = (if q < 0 then - \<lfloor>- q\<rfloor> else \<lfloor>q\<rfloor>)
               in if - (2 ^ 63) \<le> n \<and> n < 2 ^ 63 then n else - (2 ^ 63))"

definition validatePayload :: "string \<Rightarrow> json \<Rightarrow> ValidationError list" where
  "validatePayload field v =
     (case v of
        JStr s \<Rightarrow> []
      | JObj t \<Rightarrow>
          (if \<not> list_all (\<lambda>k. k \<in> {''content'', ''url'', ''path''}) (obj_keys t)
           then verr field ''unknown key; allowed keys are content, url, path''
           else (case obj_get t ''content'' of
                   Some c \<Rightarrow> if nonblank c then [] else verr (field @ ''.content'') ''must be a non-empty string''
                 | None \<Rightarrow>
                    (case obj_get t ''url'' of
                       Some c \<Rightarrow> if nonblank c then [] else verr (field @ ''.url'') ''must be a non-empty string URL''
                     | None \<Rightarrow>
                        (case obj_get t ''path'' of
                           Some c \<Rightarrow> if nonblank c then [] else verr (field @ ''.path'') ''must be a non-empty string path''
                         | None \<Rightarrow> verr field ''must provide one of content, url, or path''))))
      | _ \<Rightarrow> verr field ''must be a string or object'')"

definition check_task_target :: "(string \<times> json) list \<Rightarrow> ValidationError list" where
  "check_task_target obj =
     (case obj_get obj ''task_target'' of
        None \<Rightarrow> verr ''task_target'' ''is required''
      | Some v \<Rightarrow>
          if \<not> nonblank v then verr ''task_target'' ''must be a non-empty string''
          else (case v of
                  JStr s \<Rightarrow> if matches reTargetSuffix s then []
                     else verr ''task_target''
                       (''must match pattern .*'' @ [CHR 0x5C] @ ''.target (e.g., install-linux.target)'')
                | _ \<Rightarrow> []))"

definition check_target_disk :: "(string \<times> json) list \<Rightarrow> ValidationError list" where
  "check_target_disk obj =
     (case obj_get obj ''target_disk'' of
        None \<Rightarrow> verr ''target_disk'' ''is required''
      | Some v \<Rightarrow> if nonblank v then [] else verr ''target_disk'' ''must be a non-empty string'')"

definition check_schema_version :: "(string \<times> json) list \<Rightarrow> ValidationError list" where
  "check_schema_version obj =
     (case obj_get obj ''schema_version'' of
        None \<Rightarrow> []
      | Some (JStr s) \<Rightarrow> if matches reSchemaVersion s then []
          else verr ''schema_version'' (''must match ^1('' @ [CHR 0x5C] @ ''.[0-9]+)?$'')
      | Some _ \<Rightarrow> verr ''schema_version'' ''must be a string'')"

definition check_oci_url :: "(string \<times> json) list \<Rightarrow> ValidationError list" where
  "check_oci_url obj =
     (case obj_get obj ''oci_url'' of
        None \<Rightarrow> []
      | Some v \<Rightarrow>
          if \<not> nonblank v then verr ''oci_url'' ''must be a non-empty string''
          else (case v of
                  JStr s \<Rightarrow> if matches reOCIRef s then []
                     else verr ''oci_url''
                       ''does not look like a valid OCI reference (controller:port/repo[:tag|@digest])''
                | _ \<Rightarrow> []))"

definition check_wim_index :: "(string \<times> json) list \<Rightarrow> ValidationError list" where
  "check_wim_index obj =
     (case obj_get obj ''wim_index'' of
        None \<Rightarrow> []
      | Some (JNum q) \<Rightarrow>
          if q < 1 then verr ''wim_index'' ''must be >= 1 (minimum: 1)''
          else if q \<noteq> of_int (go_int q) then verr ''wim_index'' ''must be an integer (no fractional part)''
          else []
      | Some _ \<Rightarrow> verr ''wim_index'' ''must be an integer'')"

definition check_firmware_url :: "(string \<times> json) list \<Rightarrow> ValidationError list" where
  "check_firmware_url obj =
     (case obj_get obj ''firmware_url'' of
        None \<Rightarrow> []
      | Some v \<Rightarrow> if nonblank v then [] else verr ''firmware_url'' ''must be a non-empty string URL'')"

definition part_field :: "nat \<Rightarrow> string \<Rightarrow> string" where
  "part_field i sub = ''partition_layout['' @ itoa (int i) @ '']'' @ sub"

definition check_part_size :: "nat \<Rightarrow> (string \<times> json) list \<Rightarrow> ValidationError list" where
  "check_part_size i mp =
     (case obj_get mp ''size'' of
        None \<Rightarrow> verr (part_field i ''.size'') ''is required''
      | Some v \<Rightarrow>
          if \<not> nonblank v then verr (part_field i ''.size'') ''must be a non-empty string''
          else (case v of
                  JStr s \<Rightarrow> if \<not> matches rePartSize s \<and> s \<noteq> ''100%''
                     then verr (part_field i ''.size'') ''invalid size format (examples: 512M, 1G, 100%)''
                     else []
                | _ \<Rightarrow> []))"

text \<open>An optional string member with a further condition.\<close>

definition check_opt_string ::
  "(string \<times> json) list \<Rightarrow> string \<Rightarrow> string \<Rightarrow> (string \<Rightarrow> bool) \<Rightarrow> string \<Rightarrow> ValidationError list" where
  "check_opt_string mp k field ok msg =
     (case obj_get mp k of
        None \<Rightarrow> []
      | Some (JStr s) \<Rightarrow> if ok s then [] else verr field msg
      | Some _ \<Rightarrow> verr field ''must be a string'')"

definition check_partition :: "map_order \<Rightarrow> nat \<Rightarrow> json \<Rightarrow> ValidationError list" where
  "check_partition rng i it =
     (case it of
        JObj mp \<Rightarrow>
          check_part_size i mp @
          check_opt_string mp ''type_guid'' (part_field i ''.type_guid'') (matches reTypeGUID)
            ''must be a hex code (e.g., ef00) or GUID'' @
          check_opt_string mp ''format'' (part_field i ''.format'') (\<lambda>s. s \<in> set allowedFSFormat)
            ''must be one of vfat, ext4, xfs, ntfs, swap, raw, none'' @
          check_opt_string mp ''label'' (part_field i ''.label'') (\<lambda>s. length s \<le> 32)
            ''length must be <= 32'' @
          (case obj_get mp ''mountpoint'' of
             None \<Rightarrow> []
           | Some v \<Rightarrow> if nonblank v then [] else verr (part_field i ''.mountpoint'') ''must be a non-empty string'') @
          (case obj_get mp ''bootable'' of
             None \<Rightarrow> []
           | Some (JBool b) \<Rightarrow> []
           | Some _ \<Rightarrow> verr (part_field i ''.bootable'') ''must be a boolean'') @
          concat (map (\<lambda>k. if k \<in> set knownPartProps then []
                           else verr (part_field i (CHR ''.'' # k)) ''unknown field'') (rng (obj_keys mp)))
      | _ \<Rightarrow> verr (part_field i '''') ''must be an object'')"

definition check_partition_layout :: "map_order \<Rightarrow> (string \<times> json) list \<Rightarrow> ValidationError list" where
  "check_partition_layout rng obj =
     (case obj_get obj ''partition_layout'' of
        None \<Rightarrow> []
      | Some (JArr arr) \<Rightarrow>
          if arr = [] then verr ''partition_layout'' ''must have at least one item''
          else concat (map (\<lambda>(i, it). check_partition rng i it) (enumerate 0 arr))
      | Some _ \<Rightarrow> verr ''partition_layout'' ''must be an array'')"

definition check_payloads :: "map_order \<Rightarrow> (string \<times> json) list \<Rightarrow> ValidationError list" where
  "check_payloads rng obj =
     concat (map (\<lambda>field. case obj_get obj field of None \<Rightarrow> [] | Some v \<Rightarrow> validatePayload field v)
       (rng [''user_data'', ''unattend_xml'', ''ks.cfg'']))"

definition check_env :: "map_order \<Rightarrow> (string \<times> json) list \<Rightarrow> ValidationError list" where
  "check_env rng obj =
     (case obj_get obj ''env'' of
        None \<Rightarrow> []
      | Some (JObj mp) \<Rightarrow>
          concat (map (\<lambda>k. case obj_get mp k of
                             Some (JStr s) \<Rightarrow> []
                           | _ \<Rightarrow> verr (''env.'' @ k) ''must be a string'') (rng (obj_keys mp)))
      | Some _ \<Rightarrow> verr ''env'' ''must be an object of string values'')"

definition check_unknown :: "map_order \<Rightarrow> (string \<times> json) list \<Rightarrow> ValidationError list" where
  "check_unknown rng obj =
     concat (map (\<lambda>k. if k \<in> set known_keys then []
                      else verr k ''unknown field (additionalProperties is not allowed)'') (rng (obj_keys obj)))"

definition ValidateRecipe :: "map_order \<Rightarrow> raw_message \<Rightarrow> string + ValidationError list" where
  "ValidateRecipe rng raw =
     (case raw of
        RawEmpty \<Rightarrow> Inr (verr ''(root)'' ''recipe must be a non-empty JSON object'')
      | RawJson JNull \<Rightarrow> Inr (verr ''(root)'' ''recipe must be a non-empty JSON object'')
      | RawJson (JObj obj) \<Rightarrow>
          Inr (check_unknown rng obj @ check_task_target obj @ check_target_disk obj @
               check_schema_version obj @ check_oci_url obj @ check_wim_index obj @
               check_firmware_url obj @ check_partition_layout rng obj @ check_payloads rng obj @
               check_env rng obj @
               check_opt_string obj ''notes'' ''notes'' (\<lambda>s. length s \<le> 2000) ''length must be <= 2000'')
      | RawJson _ \<Rightarrow> Inl ''parse recipe: json: cannot unmarshal into map''
      | RawMalformed m \<Rightarrow> Inl (''parse recipe: '' @ m))"

section \<open>The JSON Schema\<close>

text \<open>
  The keywords of draft-07 that \<open>recipe.schema.json\<close> uses. \<open>SObject\<close> holds the properties, the
  required names and the schema of additional properties (\<open>None\<close> for \<open>false\<close>). \<open>format\<close> is an
  annotation and has no effect; \<open>minLength\<close> and \<open>maxLength\<close> count code points, each a byte with the
  continuation bytes after it.
\<close>

datatype schema =
    SString nat "nat option" "re option"
  | SEnum "string list"
  | SInteger rat
  | SBoolean
  | SArray nat schema
  | SObject "(string \<times> schema) list" "string list" "schema option"
  | SOneOf "schema list"

definition continuation :: "char \<Rightarrow> bool" where
  "continuation c = in_range (CHR 0x80) (CHR 0xBF) c"

function code_points :: "string \<Rightarrow> nat" where
  "code_points [] = 0"
| "code_points (c # cs) = Suc (code_points (dropWhile continuation cs))"
  by pat_completeness auto
termination
  by (relation "measure length") (auto simp: le_imp_less_Suc length_dropWhile_le)

fun conforms :: "schema \<Rightarrow> json \<Rightarrow> bool" where
  "conforms (SString mn mx p) v =
     (case v of
        JStr s \<Rightarrow> mn \<le> code_points s \<and> (case mx of None \<Rightarrow> True | Some m \<Rightarrow> code_points s \<le> m) \<and>
          (case p of None \<Rightarrow> True | Some r \<Rightarrow> matches r s)
      | _ \<Rightarrow> False)"
| "conforms (SEnum es) v = (case v of JStr s \<Rightarrow> s \<in> set es | _ \<Rightarrow> False)"
| "conforms (SInteger mn) v = (case v of JNum q \<Rightarrow> q = of_int \<lfloor>q\<rfloor> \<and> mn \<le> q | _ \<Rightarrow> False)"
| "conforms SBoolean v = (case v of JBool b \<Rightarrow> True | _ \<Rightarrow> False)"
| "conforms (SArray mn sc) v =
     (case v of JArr vs \<Rightarrow> mn \<le> length vs \<and> list_all (conforms sc) vs | _ \<Rightarrow> False)"
| "conforms (SObject ps req addl) v =
     (case v of
        JObj kvs \<Rightarrow>
          list_all (\<lambda>k. obj_get kvs k \<noteq> None) req \<and>
          list_all (\<lambda>(k, sc). case obj_get kvs k of None \<Rightarrow> True | Some w \<Rightarrow> conforms sc w) ps \<and>
          (case addl of
             None \<Rightarrow> list_all (\<lambda>k. k \<in> set (map fst ps)) (obj_keys kvs)
           | Some sc \<Rightarrow> list_all (\<lambda>k. k \<in> set (map fst ps) \<or> conforms sc (the (obj_get kvs k))) (obj_keys kvs))
      | _ \<Rightarrow> False)"
| "conforms (SOneOf scs) v = (length (filter (\<lambda>sc. conforms sc v) scs) = 1)"

definition payload_schema :: schema where
  "payload_schema = SOneOf
     [SString 0 None None,
      SObject [(''content'', SString 0 None None)] [''content''] None,
      SObject [(''url'', SString 0 None None)] [''url''] None,
      SObject [(''path'', SString 0 None None)] [''path''] None]"

definition schema_size_pattern :: re where
  "schema_size_pattern =
     (let num = (\<lambda>r. Seq (Cls (in_range CHR ''1'' CHR ''9'')) (Seq (Star (Cls is_digit)) r))
      in Alt (lit ''100%'')
          (Alt (num (Seq size_unit (Seq (Opt (lit ''i'')) (Opt (lit ''B'')))))
            (Alt (num size_unit) (Alt (num (lit ''M'')) (num (lit ''G''))))))"

definition schema_guid_pattern :: re where
  "schema_guid_pattern =
     Alt (Rep 4 (Cls is_hex))
       (Seq (Rep 8 (Cls is_hex))
         (Seq (lit ''-'') (Seq (Rep 3 (Seq (Rep 4 (Cls is_hex)) (lit ''-''))) (Rep 12 (Cls is_hex)))))"

text \<open>In the schema's pattern for \<open>oci_url\<close> the class of the digest holds the range \<open>+-=\<close>.\<close>

definition schema_oci_pattern :: re where
  "schema_oci_pattern =
     Seq (Plus (cls ''._:-''))
       (Seq (Star (Seq (lit ''/'') (Plus (cls ''._-''))))
         (Opt (Alt (Seq (lit ''@'')
                     (Plus (Cls (\<lambda>c. is_alnum c \<or> c \<in> set '':._/'' \<or> in_range CHR ''+'' CHR ''='' c))))
                   (Seq (lit '':'') (Plus (cls ''._-''))))))"

definition partition_schema :: schema where
  "partition_schema = SObject
     [(''size'', SString 0 None (Some schema_size_pattern)),
      (''type_guid'', SString 0 None (Some schema_guid_pattern)),
      (''format'', SEnum allowedFSFormat),
      (''label'', SString 0 (Some 32) None),
      (''mountpoint'', SString 1 None None),
      (''bootable'', SBoolean)] [''size''] None"

definition recipe_schema :: schema where
  "recipe_schema = SObject
     [(''schema_version'', SString 0 None (Some reSchemaVersion)),
      (''task_target'', SString 1 None (Some reTargetSuffix)),
      (''target_disk'', SString 1 None None),
      (''oci_url'', SString 1 None (Some schema_oci_pattern)),
      (''firmware_url'', SString 0 None None),
      (''partition_layout'', SArray 1 partition_schema),
      (''user_data'', payload_schema),
      (''unattend_xml'', payload_schema),
      (''wim_index'', SInteger 1),
      (''ks.cfg'', payload_schema),
      (''env'', SObject [] [] (Some (SString 0 None None))),
      (''notes'', SString 0 (Some 2000) None)] [''task_target'', ''target_disk''] None"


section \<open>The validator against the schema\<close>

lemma code_points_le: "code_points s \<le> length s"
  by (induction s rule: code_points.induct) (use length_dropWhile_le order_trans in fastforce)+

lemma code_points_pos: "s \<noteq> [] \<Longrightarrow> 1 \<le> code_points s"
  by (cases s) auto

lemma nonblank_iff: "nonblank v \<longleftrightarrow> (\<exists>s. v = JStr s \<and> trim_space s \<noteq> [])"
  by (cases v) (auto simp: nonblank_def)

lemma nonblank_length: "nonblank (JStr s) \<Longrightarrow> 1 \<le> code_points s"
  by (rule code_points_pos) (auto simp: nonblank_iff)

lemma lang_lit [simp]: "lang (lit w) = {w}"
  by (auto simp flip: matches_lang)

lemma size_pattern: "matches schema_size_pattern s \<longleftrightarrow> matches rePartSize s \<or> s = ''100%''"
  unfolding matches_lang schema_size_pattern_def rePartSize_def Let_def lang_Seq_conc conc_union
    lang.simps(5) lang_lit
  by blast

lemma guid_pattern: "matches schema_guid_pattern s \<longleftrightarrow> matches reTypeGUID s"
  by (simp add: matches_lang schema_guid_pattern_def reTypeGUID_def lang_Seq_conc conc_assoc
           eval_nat_numeral del: lang.simps(4))

lemma digest_class: "c \<in> set '':+-=._/'' \<Longrightarrow> c \<in> set '':._/'' \<or> in_range CHR ''+'' CHR ''='' c"
  by (auto simp: in_range_def)

lemma oci_pattern:
  assumes "matches reOCIRef s" shows "matches schema_oci_pattern s"
proof -
  have "lang (Plus (cls '':+-=._/'')) \<subseteq>
     lang (Plus (Cls (\<lambda>c. is_alnum c \<or> c \<in> set '':._/'' \<or> in_range CHR ''+'' CHR ''='' c)))"
    using digest_class unfolding subset_iff cls_def matches_lang[symmetric] matches_Plus_Cls by blast
  then have "lang reOCIRef \<subseteq> lang schema_oci_pattern"
    unfolding reOCIRef_def schema_oci_pattern_def Opt_def lang_Seq_conc lang.simps(5)
    by (intro conc_mono Un_mono subset_refl)
  with assms show ?thesis by (auto simp: matches_lang)
qed

text \<open>When each check accepts.\<close>

lemma concat_map_Nil: "concat (map f xs) = [] \<longleftrightarrow> (\<forall>x \<in> set xs. f x = [])"
  by auto

lemma check_unknown_Nil:
  "ranges_all rng \<Longrightarrow> check_unknown rng obj = [] \<longleftrightarrow> set (obj_keys obj) \<subseteq> set known_keys"
  unfolding check_unknown_def concat_map_Nil by (auto simp: ranges_all_def split: if_splits)

lemma check_opt_string_Nil:
  "check_opt_string mp k f ok m = [] \<longleftrightarrow>
     (obj_get mp k = None \<or> (\<exists>s. obj_get mp k = Some (JStr s) \<and> ok s))"
  by (auto simp: check_opt_string_def split: option.splits json.splits)

lemma check_task_target_Nil:
  "check_task_target obj = [] \<longleftrightarrow>
     (\<exists>s. obj_get obj ''task_target'' = Some (JStr s) \<and> trim_space s \<noteq> [] \<and> matches reTargetSuffix s)"
  by (auto simp: check_task_target_def nonblank_iff split: option.splits json.splits)

lemma check_target_disk_Nil:
  "check_target_disk obj = [] \<longleftrightarrow> (\<exists>s. obj_get obj ''target_disk'' = Some (JStr s) \<and> trim_space s \<noteq> [])"
  by (auto simp: check_target_disk_def nonblank_iff split: option.splits)

lemma check_schema_version_Nil:
  "check_schema_version obj = [] \<longleftrightarrow>
     (obj_get obj ''schema_version'' = None \<or>
      (\<exists>s. obj_get obj ''schema_version'' = Some (JStr s) \<and> matches reSchemaVersion s))"
  by (auto simp: check_schema_version_def split: option.splits json.splits)

lemma check_oci_url_Nil:
  "check_oci_url obj = [] \<longleftrightarrow>
     (obj_get obj ''oci_url'' = None \<or>
      (\<exists>s. obj_get obj ''oci_url'' = Some (JStr s) \<and> trim_space s \<noteq> [] \<and> matches reOCIRef s))"
  by (auto simp: check_oci_url_def nonblank_iff split: option.splits json.splits)

lemma check_firmware_url_Nil:
  "check_firmware_url obj = [] \<longleftrightarrow>
     (obj_get obj ''firmware_url'' = None \<or>
      (\<exists>s. obj_get obj ''firmware_url'' = Some (JStr s) \<and> trim_space s \<noteq> []))"
  by (auto simp: check_firmware_url_def nonblank_iff split: option.splits)

lemma go_int_exact: "1 \<le> q \<Longrightarrow> q = of_int (go_int q) \<Longrightarrow> q = of_int \<lfloor>q\<rfloor>"
  by (auto simp: go_int_def Let_def split: if_splits)

lemma check_wim_index_Nil:
  "check_wim_index obj = [] \<longleftrightarrow>
     (obj_get obj ''wim_index'' = None \<or>
      (\<exists>q. obj_get obj ''wim_index'' = Some (JNum q) \<and> 1 \<le> q \<and> q = of_int (go_int q)))"
  by (auto simp: check_wim_index_def split: option.splits json.splits if_splits)

lemma check_env_Nil:
  assumes "ranges_all rng"
  shows "check_env rng obj = [] \<longleftrightarrow>
     (obj_get obj ''env'' = None \<or>
      (\<exists>mp. obj_get obj ''env'' = Some (JObj mp) \<and> (\<forall>k \<in> set (obj_keys mp). \<exists>s. obj_get mp k = Some (JStr s))))"
proof -
  have r: "set (rng ks) = set ks" for ks using assms unfolding ranges_all_def by simp
  have e: "(case w of Some (JStr s) \<Rightarrow> [] | _ \<Rightarrow> verr f m) = [] \<longleftrightarrow> (\<exists>s. w = Some (JStr s))" for w f m
    by (auto split: option.splits json.splits)
  show ?thesis
    by (cases "obj_get obj ''env''"; cases "the (obj_get obj ''env'')")
       (simp_all add: check_env_def concat_map_Nil r e del: concat_eq_Nil_conv set_obj_keys)
qed

lemma check_payloads_Nil:
  assumes "ranges_all rng"
  shows "check_payloads rng obj = [] \<longleftrightarrow>
     (\<forall>f \<in> {''user_data'', ''unattend_xml'', ''ks.cfg''}. \<forall>v. obj_get obj f = Some v \<longrightarrow> validatePayload f v = [])"
proof -
  have r: "set (rng [''user_data'', ''unattend_xml'', ''ks.cfg'']) = {''user_data'', ''unattend_xml'', ''ks.cfg''}"
    using assms unfolding ranges_all_def by simp
  show ?thesis
    unfolding check_payloads_def concat_map_Nil r by (intro ball_cong refl) (simp split: option.splits)
qed

lemma concat_enumerate_Nil:
  "concat (map (\<lambda>(i, it). f i it) (enumerate 0 xs)) = [] \<longleftrightarrow> (\<forall>i < length xs. f i (xs ! i) = [])"
  unfolding concat_map_Nil Ball_def split_paired_All in_set_enumerate_eq by auto

lemma check_partition_layout_Nil:
  "check_partition_layout rng obj = [] \<longleftrightarrow>
     (obj_get obj ''partition_layout'' = None \<or>
      (\<exists>arr. obj_get obj ''partition_layout'' = Some (JArr arr) \<and> arr \<noteq> [] \<and>
         (\<forall>i < length arr. check_partition rng i (arr ! i) = [])))"
  unfolding check_partition_layout_def
  by (auto simp: concat_enumerate_Nil simp del: concat_eq_Nil_conv split: option.splits json.splits)


lemma check_partition_Nil:
  assumes "ranges_all rng"
  shows "check_partition rng i it = [] \<longleftrightarrow>
     (\<exists>mp. it = JObj mp \<and> check_part_size i mp = [] \<and>
       (obj_get mp ''type_guid'' = None \<or> (\<exists>s. obj_get mp ''type_guid'' = Some (JStr s) \<and> matches reTypeGUID s)) \<and>
       (obj_get mp ''format'' = None \<or> (\<exists>s. obj_get mp ''format'' = Some (JStr s) \<and> s \<in> set allowedFSFormat)) \<and>
       (obj_get mp ''label'' = None \<or> (\<exists>s. obj_get mp ''label'' = Some (JStr s) \<and> length s \<le> 32)) \<and>
       (obj_get mp ''mountpoint'' = None \<or> (\<exists>s. obj_get mp ''mountpoint'' = Some (JStr s) \<and> trim_space s \<noteq> [])) \<and>
       (obj_get mp ''bootable'' = None \<or> (\<exists>b. obj_get mp ''bootable'' = Some (JBool b))) \<and>
       set (obj_keys mp) \<subseteq> set knownPartProps)"
proof (cases it)
  case (JObj mp)
  have r: "set (rng ks) = set ks" for ks using assms unfolding ranges_all_def by simp
  have m: "(case w of None \<Rightarrow> [] | Some v \<Rightarrow> if nonblank v then [] else verr f m) = [] \<longleftrightarrow>
     w = None \<or> (\<exists>s. w = Some (JStr s) \<and> trim_space s \<noteq> [])" for w f m
    by (auto simp: nonblank_iff split: option.splits)
  have b: "(case w of None \<Rightarrow> [] | Some (JBool b) \<Rightarrow> [] | Some _ \<Rightarrow> verr f m) = [] \<longleftrightarrow>
     w = None \<or> (\<exists>b. w = Some (JBool b))" for w f m
    by (auto split: option.splits json.splits)
  have k: "(\<forall>k \<in> A. (if k \<in> B then [] else verr (f k) m) = []) \<longleftrightarrow> A \<subseteq> B" for A B :: "string set" and f m
    by auto
  show ?thesis
    unfolding JObj check_partition_def json.case append_is_Nil_conv concat_map_Nil check_opt_string_Nil m b k r
    by blast
qed (simp_all add: check_partition_def)

lemma check_part_size_Nil:
  "check_part_size i mp = [] \<longleftrightarrow>
     (\<exists>s. obj_get mp ''size'' = Some (JStr s) \<and> trim_space s \<noteq> [] \<and> (matches rePartSize s \<or> s = ''100%''))"
  by (auto simp: check_part_size_def nonblank_iff split: option.splits json.splits if_splits)

definition field_ok :: "(string \<times> json) list \<Rightarrow> string \<Rightarrow> schema \<Rightarrow> bool" where
  "field_ok kvs k sc = (case obj_get kvs k of None \<Rightarrow> True | Some w \<Rightarrow> conforms sc w)"

lemma conforms_object:
  "conforms (SObject ps req None) (JObj kvs) \<longleftrightarrow>
     list_all (\<lambda>k. obj_get kvs k \<noteq> None) req \<and> list_all (\<lambda>(k, sc). field_ok kvs k sc) ps \<and>
     set (obj_keys kvs) \<subseteq> set (map fst ps)"
  by (auto simp: field_ok_def list_all_iff simp del: set_obj_keys)

lemma field_ok_string:
  assumes "obj_get kvs k = None \<or> (\<exists>s. obj_get kvs k = Some (JStr s) \<and> Q s)"
    and "\<And>s. Q s \<Longrightarrow> conforms sc (JStr s)"
  shows "field_ok kvs k sc"
  using assms by (auto simp: field_ok_def)

lemma conforms_string:
  "conforms (SString 0 None None) (JStr s)"
  "matches r s \<Longrightarrow> conforms (SString 0 None (Some r)) (JStr s)"
  "length s \<le> n \<Longrightarrow> conforms (SString 0 (Some n) None) (JStr s)"
  "trim_space s \<noteq> [] \<Longrightarrow> conforms (SString 1 None None) (JStr s)"
  "trim_space s \<noteq> [] \<and> matches r s \<Longrightarrow> conforms (SString 1 None (Some r)) (JStr s)"
  using code_points_le [of s] code_points_pos [of s] by (cases s; auto)+

lemma partition_conforms:
  assumes "ranges_all rng" and "check_partition rng i it = []"
  shows "conforms partition_schema it"
proof -
  from assms obtain mp where it: "it = JObj mp" and k: "set (obj_keys mp) \<subseteq> set knownPartProps"
    and p: "\<exists>s. obj_get mp ''size'' = Some (JStr s) \<and> (matches rePartSize s \<or> s = ''100%'')"
    "obj_get mp ''type_guid'' = None \<or> (\<exists>s. obj_get mp ''type_guid'' = Some (JStr s) \<and> matches reTypeGUID s)"
    "obj_get mp ''format'' = None \<or> (\<exists>s. obj_get mp ''format'' = Some (JStr s) \<and> s \<in> set allowedFSFormat)"
    "obj_get mp ''label'' = None \<or> (\<exists>s. obj_get mp ''label'' = Some (JStr s) \<and> length s \<le> 32)"
    "obj_get mp ''mountpoint'' = None \<or> (\<exists>s. obj_get mp ''mountpoint'' = Some (JStr s) \<and> trim_space s \<noteq> [])"
    "obj_get mp ''bootable'' = None \<or> (\<exists>b. obj_get mp ''bootable'' = Some (JBool b))"
    unfolding check_partition_Nil [OF assms(1)] check_part_size_Nil by blast
  have "field_ok mp ''size'' (SString 0 None (Some schema_size_pattern))"
    by (rule field_ok_string [OF disjI2 [OF p(1)]]) (rule conforms_string, simp add: size_pattern)
  moreover have "field_ok mp ''type_guid'' (SString 0 None (Some schema_guid_pattern))"
    by (rule field_ok_string [OF p(2)]) (rule conforms_string, simp add: guid_pattern)
  moreover have "field_ok mp ''format'' (SEnum allowedFSFormat)"
    by (rule field_ok_string [OF p(3)]) simp
  moreover have "field_ok mp ''label'' (SString 0 (Some 32) None)"
    by (rule field_ok_string [OF p(4)]) (rule conforms_string)
  moreover have "field_ok mp ''mountpoint'' (SString 1 None None)"
    by (rule field_ok_string [OF p(5)]) (rule conforms_string)
  moreover have "field_ok mp ''bootable'' SBoolean"
    using p(6) by (auto simp: field_ok_def)
  moreover have "obj_get mp ''size'' \<noteq> None" using p(1) by auto
  ultimately show ?thesis
    using k unfolding it partition_schema_def conforms_object knownPartProps_def by simp
qed

text \<open>A payload accepted by the validator conforms exactly when it is a string or has one member.\<close>

definition single_member :: "json \<Rightarrow> bool" where
  "single_member v = (case v of JObj t \<Rightarrow> length (obj_keys t) = 1 | _ \<Rightarrow> True)"

lemma single_key: "obj_keys t = [k] \<Longrightarrow> obj_get t k' \<noteq> None \<longleftrightarrow> k' = k"
  by (simp add: obj_get_None del: set_obj_keys)

lemma obj_keys_single: "obj_keys t \<noteq> [] \<Longrightarrow> set (obj_keys t) \<subseteq> {k} \<Longrightarrow> obj_keys t = [k]"
proof -
  assume a: "obj_keys t \<noteq> []" "set (obj_keys t) \<subseteq> {k}"
  have d: "distinct (obj_keys t)" by (simp add: obj_keys_def)
  obtain x xs where x: "obj_keys t = x # xs" using a(1) by (cases "obj_keys t") auto
  have "xs = []" using a(2) d unfolding x by (cases xs) auto
  with x a(2) show ?thesis by auto
qed

lemma one_member_schema:
  "conforms (SObject [(k, SString 0 None None)] [k] None) (JObj t) \<longleftrightarrow>
     obj_keys t = [k] \<and> (\<exists>s. obj_get t k = Some (JStr s))"
proof
  assume c: "conforms (SObject [(k, SString 0 None None)] [k] None) (JObj t)"
  then obtain w where w: "obj_get t k = Some w" "conforms (SString 0 None None) w"
    and "set (obj_keys t) \<subseteq> {k}" unfolding conforms_object by (auto simp: field_ok_def)
  then have "obj_keys t = [k]" using obj_get_Some [OF w(1)] by (intro obj_keys_single) (auto simp del: set_obj_keys)
  with w show "obj_keys t = [k] \<and> (\<exists>s. obj_get t k = Some (JStr s))" by (cases w) auto
next
  assume "obj_keys t = [k] \<and> (\<exists>s. obj_get t k = Some (JStr s))"
  then show "conforms (SObject [(k, SString 0 None None)] [k] None) (JObj t)"
    unfolding conforms_object by (auto simp: field_ok_def simp del: set_obj_keys)
qed

lemma payload_conforms_obj:
  "conforms payload_schema (JObj t) \<longleftrightarrow>
     (\<exists>k s. k \<in> {''content'', ''url'', ''path''} \<and> obj_keys t = [k] \<and> obj_get t k = Some (JStr s))"
proof -
  let ?c = "\<lambda>k. obj_keys t = [k] \<and> (\<exists>s. obj_get t k = Some (JStr s))"
  have "conforms payload_schema (JObj t) \<longleftrightarrow> length (filter ?c [''content'', ''url'', ''path'']) = 1"
    unfolding payload_schema_def conforms.simps(7) filter.simps one_member_schema by simp
  also have "\<dots> \<longleftrightarrow> ?c ''content'' \<or> ?c ''url'' \<or> ?c ''path''" by auto
  also have "\<dots> \<longleftrightarrow> (\<exists>k s. k \<in> {''content'', ''url'', ''path''} \<and> obj_keys t = [k] \<and> obj_get t k = Some (JStr s))"
    by blast
  finally show ?thesis .
qed

lemma validatePayload_obj:
  assumes "validatePayload f (JObj t) = []"
  shows "set (obj_keys t) \<subseteq> {''content'', ''url'', ''path''} \<and>
     (\<forall>k. obj_keys t = [k] \<longrightarrow> (\<exists>s. obj_get t k = Some (JStr s)))"
proof (intro conjI allI impI)
  show k: "set (obj_keys t) \<subseteq> {''content'', ''url'', ''path''}"
    using assms by (auto simp: validatePayload_def list_all_iff split: if_splits)
  fix k assume e: "obj_keys t = [k]"
  then have "k \<in> {''content'', ''url'', ''path''}" using k by simp
  moreover have "obj_get t k' = None" if "k' \<noteq> k" for k' using single_key [OF e, of k'] that by blast
  moreover have "obj_get t k \<noteq> None" using single_key [OF e, of k] by blast
  ultimately show "\<exists>s. obj_get t k = Some (JStr s)"
    using assms by (auto simp: validatePayload_def nonblank_iff split: if_splits option.splits)
qed

lemma payload_conforms:
  assumes "validatePayload f v = []"
  shows "conforms payload_schema v \<longleftrightarrow> single_member v"
proof (cases v)
  case (JObj t)
  have "conforms payload_schema v \<longleftrightarrow> (\<exists>k. obj_keys t = [k])"
    unfolding JObj payload_conforms_obj
    using validatePayload_obj [OF assms[unfolded JObj]] by (auto simp del: set_obj_keys)
  then show ?thesis
    unfolding JObj single_member_def by (simp add: length_Suc_conv)
qed (use assms in \<open>simp_all add: validatePayload_def payload_schema_def single_member_def\<close>)

text \<open>What every accepted recipe satisfies, field by field.\<close>

lemma accepted_object:
  assumes "ValidateRecipe rng raw = Inr []"
  obtains obj where "raw = RawJson (JObj obj)"
    "check_unknown rng obj = []" "check_task_target obj = []" "check_target_disk obj = []"
    "check_schema_version obj = []" "check_oci_url obj = []" "check_wim_index obj = []"
    "check_firmware_url obj = []" "check_partition_layout rng obj = []" "check_payloads rng obj = []"
    "check_env rng obj = []"
    "check_opt_string obj ''notes'' ''notes'' (\<lambda>s. length s \<le> 2000) ''length must be <= 2000'' = []"
proof -
  obtain obj where raw: "raw = RawJson (JObj obj)"
    using assms by (auto simp: ValidateRecipe_def split: raw_message.splits json.splits)
  show thesis
    by (rule that [OF raw])
       (use assms in \<open>simp_all add: raw ValidateRecipe_def del: concat_eq_Nil_conv\<close>)
qed

lemma accepted_fields:
  assumes r: "ranges_all rng" and "ValidateRecipe rng (RawJson (JObj obj)) = Inr []"
  shows "field_ok obj ''schema_version'' (SString 0 None (Some reSchemaVersion))"
    "field_ok obj ''task_target'' (SString 1 None (Some reTargetSuffix))"
    "field_ok obj ''target_disk'' (SString 1 None None)"
    "field_ok obj ''oci_url'' (SString 1 None (Some schema_oci_pattern))"
    "field_ok obj ''firmware_url'' (SString 0 None None)"
    "field_ok obj ''partition_layout'' (SArray 1 partition_schema)"
    "field_ok obj ''wim_index'' (SInteger 1)"
    "field_ok obj ''env'' (SObject [] [] (Some (SString 0 None None)))"
    "field_ok obj ''notes'' (SString 0 (Some 2000) None)"
proof -
  note e = assms(2)[unfolded ValidateRecipe_def raw_message.case json.case sum.inject append_is_Nil_conv
      check_task_target_Nil check_target_disk_Nil check_schema_version_Nil check_oci_url_Nil
      check_wim_index_Nil check_firmware_url_Nil check_partition_layout_Nil check_env_Nil [OF r]
      check_opt_string_Nil]
  have e1: "obj_get obj ''schema_version'' = None \<or>
      (\<exists>s. obj_get obj ''schema_version'' = Some (JStr s) \<and> matches reSchemaVersion s)" using e by blast
  have e2: "\<exists>s. obj_get obj ''task_target'' = Some (JStr s) \<and> trim_space s \<noteq> [] \<and> matches reTargetSuffix s"
    using e by blast
  have e3: "\<exists>s. obj_get obj ''target_disk'' = Some (JStr s) \<and> trim_space s \<noteq> []" using e by blast
  have e4: "obj_get obj ''oci_url'' = None \<or>
      (\<exists>s. obj_get obj ''oci_url'' = Some (JStr s) \<and> trim_space s \<noteq> [] \<and> matches reOCIRef s)"
    using e by blast
  have e5: "obj_get obj ''firmware_url'' = None \<or>
      (\<exists>s. obj_get obj ''firmware_url'' = Some (JStr s) \<and> trim_space s \<noteq> [])" using e by blast
  have e9: "obj_get obj ''notes'' = None \<or> (\<exists>s. obj_get obj ''notes'' = Some (JStr s) \<and> length s \<le> 2000)"
    using e by blast
  have e7: "obj_get obj ''wim_index'' = None \<or>
      (\<exists>q. obj_get obj ''wim_index'' = Some (JNum q) \<and> 1 \<le> q \<and> q = of_int (go_int q))" using e by blast
  have e8: "obj_get obj ''env'' = None \<or> (\<exists>mp. obj_get obj ''env'' = Some (JObj mp) \<and>
      (\<forall>k \<in> set (obj_keys mp). \<exists>s. obj_get mp k = Some (JStr s)))" using e by blast
  show "field_ok obj ''schema_version'' (SString 0 None (Some reSchemaVersion))"
    by (rule field_ok_string [OF e1]) (rule conforms_string)
  show "field_ok obj ''task_target'' (SString 1 None (Some reTargetSuffix))"
    by (rule field_ok_string [OF disjI2 [OF e2]]) (rule conforms_string)
  show "field_ok obj ''target_disk'' (SString 1 None None)"
    by (rule field_ok_string [OF disjI2 [OF e3]]) (rule conforms_string)
  show "field_ok obj ''oci_url'' (SString 1 None (Some schema_oci_pattern))"
    by (rule field_ok_string [OF e4]) (rule conforms_string, simp add: oci_pattern)
  show "field_ok obj ''firmware_url'' (SString 0 None None)"
    by (rule field_ok_string [OF e5]) (rule conforms_string)
  show "field_ok obj ''notes'' (SString 0 (Some 2000) None)"
    by (rule field_ok_string [OF e9]) (rule conforms_string)
  show "field_ok obj ''wim_index'' (SInteger 1)"
    using e7 go_int_exact unfolding field_ok_def by auto
  show "field_ok obj ''env'' (SObject [] [] (Some (SString 0 None None)))"
    using e8 unfolding field_ok_def by (fastforce simp: list_all_iff simp del: set_obj_keys)
  have "obj_get obj ''partition_layout'' = None \<or>
      (\<exists>arr. obj_get obj ''partition_layout'' = Some (JArr arr) \<and> arr \<noteq> [] \<and>
         (\<forall>i < length arr. conforms partition_schema (arr ! i)))"
    using e partition_conforms [OF r] by meson
  then show "field_ok obj ''partition_layout'' (SArray 1 partition_schema)"
    unfolding field_ok_def by (auto simp: Suc_le_eq list_all_length)
qed

section \<open>Properties\<close>

text \<open>
  C6. The validator against its schema: a recipe it accepts is a JSON object, and it conforms to
  \<open>recipe.schema.json\<close> if and only if every payload given as an object has a single member. In
  particular every accepted recipe whose payloads are strings or have one member conforms, for
  every order in which Go may visit the maps.
\<close>

theorem validator_against_schema:
  assumes r: "ranges_all rng" and ok: "ValidateRecipe rng raw = Inr []"
  shows "\<exists>obj. raw = RawJson (JObj obj) \<and>
    (conforms recipe_schema (JObj obj) \<longleftrightarrow>
      (\<forall>f \<in> {''user_data'', ''unattend_xml'', ''ks.cfg''}. \<forall>v. obj_get obj f = Some v \<longrightarrow> single_member v))"
proof (rule accepted_object [OF ok])
  fix obj
  assume raw: "raw = RawJson (JObj obj)" and u: "check_unknown rng obj = []"
    and tt: "check_task_target obj = []" and td: "check_target_disk obj = []"
    and pl: "check_payloads rng obj = []"
  have p: "field_ok obj f payload_schema \<longleftrightarrow> (\<forall>v. obj_get obj f = Some v \<longrightarrow> single_member v)"
    if "f \<in> {''user_data'', ''unattend_xml'', ''ks.cfg''}" for f
    using pl[unfolded check_payloads_Nil [OF r]] that payload_conforms [of f]
    by (auto simp: field_ok_def split: option.splits)
  have req: "obj_get obj ''task_target'' \<noteq> None" "obj_get obj ''target_disk'' \<noteq> None"
    using tt td unfolding check_task_target_Nil check_target_disk_Nil by auto
  have keys: "set (obj_keys obj) \<subseteq> set known_keys" using u unfolding check_unknown_Nil [OF r] .
  have "conforms recipe_schema (JObj obj) \<longleftrightarrow>
      field_ok obj ''user_data'' payload_schema \<and> field_ok obj ''unattend_xml'' payload_schema \<and>
      field_ok obj ''ks.cfg'' payload_schema"
    unfolding recipe_schema_def conforms_object list.pred_inject prod.case
    using accepted_fields [OF r ok[unfolded raw]] req keys[unfolded known_keys_def] by auto
  with p raw show ?thesis by blast
qed

definition demo_recipe :: "json \<Rightarrow> json" where
  "demo_recipe payload = JObj
     [(''task_target'', JStr ''install-linux.target''), (''target_disk'', JStr ''/dev/sda''),
      (''oci_url'', JStr ''controller.internal:8080/os-images/ubuntu-rootfs:22.04''),
      (''partition_layout'', JArr
         [JObj [(''size'', JStr ''512M''), (''type_guid'', JStr ''ef00''), (''format'', JStr ''vfat''),
                (''label'', JStr ''EFI''), (''mountpoint'', JStr ''/boot/efi''), (''bootable'', JBool True)],
          JObj [(''size'', JStr ''100%''), (''type_guid'', JStr ''0FC63DAF-8483-4772-8E79-3D69D8477DE4''),
                (''format'', JStr ''ext4'')]]),
      (''user_data'', payload), (''wim_index'', JNum 2),
      (''env'', JObj [(''HTTP_PROXY'', JStr ''http://proxy.local:3128'')])]"

lemma ranges_all_id: "ranges_all id"
  by (simp add: ranges_all_def)

theorem validator_against_schema_witness:
  "ValidateRecipe id (RawJson (demo_recipe (JStr ''#cloud-config''))) = Inr [] \<and>
   conforms recipe_schema (demo_recipe (JStr ''#cloud-config'')) \<and>
   (let two = demo_recipe (JObj [(''content'', JStr ''a''), (''url'', JStr ''b'')])
    in ValidateRecipe id (RawJson two) = Inr [] \<and> \<not> conforms recipe_schema two)"
proof -
  let ?one = "demo_recipe (JStr ''#cloud-config'')"
  let ?two = "demo_recipe (JObj [(''content'', JStr ''a''), (''url'', JStr ''b'')])"
  have a: "ValidateRecipe id (RawJson ?one) = Inr []" by code_simp
  have b: "ValidateRecipe id (RawJson ?two) = Inr []" by code_simp
  have "conforms recipe_schema ?one"
    using validator_against_schema [OF ranges_all_id a]
    by (auto simp: demo_recipe_def obj_get_def single_member_def split: if_splits)
  moreover have "\<not> conforms recipe_schema ?two"
    using validator_against_schema [OF ranges_all_id b]
    by (simp add: demo_recipe_def obj_get_def single_member_def obj_keys_def)
  ultimately show ?thesis using a b by simp
qed

text \<open>
  What later stages may rely on: an accepted recipe names a unit made of letters, digits and
  \<open>_.-\<close> that ends in \<open>.target\<close> (so it contains no slash, blank or control character), gives a
  disk that is not blank, and has no top-level key outside the known ones.
\<close>

lemma accepted_recipe_safe:
  assumes "ranges_all rng" and "ValidateRecipe rng raw = Inr []"
  shows "\<exists>obj t d. raw = RawJson (JObj obj) \<and> set (obj_keys obj) \<subseteq> set known_keys \<and>
     obj_get obj ''task_target'' = Some (JStr t) \<and> has_suffix t ''.target'' \<and>
     (\<forall>c \<in> set t. is_alnum c \<or> c \<in> set ''_.-'') \<and>
     obj_get obj ''target_disk'' = Some (JStr d) \<and> trim_space d \<noteq> []"
proof (rule accepted_object [OF assms(2)])
  fix obj
  assume raw: "raw = RawJson (JObj obj)" and u: "check_unknown rng obj = []"
    and tt: "check_task_target obj = []" and td: "check_target_disk obj = []"
  from tt obtain t where t: "obj_get obj ''task_target'' = Some (JStr t)" "matches reTargetSuffix t"
    unfolding check_task_target_Nil by blast
  then obtain w where w: "t = w @ ''.target''" "\<forall>c \<in> set w. is_alnum c \<or> c \<in> set ''_.-''"
    unfolding reTargetSuffix_def matches_Seq matches_lit cls_def matches_Plus_Cls by blast
  have "\<forall>c \<in> set ''.target''. is_alnum c \<or> c \<in> set ''_.-''"
    by (simp add: is_alnum_def is_lower_def in_range_def)
  with w have "\<forall>c \<in> set t. is_alnum c \<or> c \<in> set ''_.-''" by auto
  moreover have "has_suffix t ''.target''" unfolding w(1) has_suffix_def rev_append by (rule has_prefix_append)
  ultimately show ?thesis
    using raw t(1) u[unfolded check_unknown_Nil [OF assms(1)]] td[unfolded check_target_disk_Nil] by blast
qed

lemma accepted_recipe_safe_instance:
  "\<exists>obj t. demo_recipe (JStr ''x'') = JObj obj \<and> obj_get obj ''task_target'' = Some (JStr t) \<and>
     has_suffix t ''.target'' \<and> set (obj_keys obj) \<subseteq> set known_keys"
proof -
  have a: "ValidateRecipe id (RawJson (demo_recipe (JStr ''x''))) = Inr []" by code_simp
  from accepted_recipe_safe [OF ranges_all_id a] show ?thesis
    unfolding raw_message.inject by blast
qed

end
