(* ===== verification/JobsApi.thy ===== *)
theory JobsApi
  imports Webhook Validation
begin

text \<open>
  The job endpoints (\<open>internal/provisioner/api/http.go\<close>): \<open>POST /api/v1/jobs\<close> and
  \<open>GET /api/v1/jobs/{id}\<close>, over the \<open>JobStore\<close> interface. \<open>uid\<close> is the value of
  \<open>uuid.NewString()\<close>, \<open>now\<close> the clock \<open>NewJob\<close> reads.
\<close>

record 's JobStore =
  js_GetServerBySerial :: "string \<Rightarrow> 's \<Rightarrow> server result \<times> 's"
  js_InsertJob :: "job \<Rightarrow> 's \<Rightarrow> unit result \<times> 's"
  js_GetJobByID :: "string \<Rightarrow> 's \<Rightarrow> job result \<times> 's"
  js_MarkJobStatus :: "string \<Rightarrow> JobStatus \<Rightarrow> string option \<Rightarrow> 's \<Rightarrow> unit result \<times> 's"
  js_ListJobEvents :: "string \<Rightarrow> int \<Rightarrow> 's \<Rightarrow> (job_event list) result \<times> 's"
  js_AppendJobEvent :: "job_event \<Rightarrow> 's \<Rightarrow> unit result \<times> 's"

record 's API =
  api_Store :: "'s JobStore"
  api_MaintenanceISOURL :: string

record CreateJobRequest =
  cr_ServerSerial :: string
  cr_Recipe :: raw_message

text \<open>A \<open>json.RawMessage\<close> field keeps the member's value as it is, \<open>null\<close> included.\<close>

fun decode_raw_field :: "string \<Rightarrow> raw_message \<Rightarrow> (string \<times> json) list \<Rightarrow> raw_message" where
  "decode_raw_field f acc [] = acc"
| "decode_raw_field f acc ((k, v) # kvs) =
     decode_raw_field f (if equal_fold k f then RawJson v else acc) kvs"

definition decode_create :: "raw_message \<Rightarrow> CreateJobRequest option" where
  "decode_create raw =
     (case raw of
        RawJson (JObj kvs) \<Rightarrow>
          (case decode_string_field ''server_serial'' [] kvs of
             None \<Rightarrow> None
           | Some sn \<Rightarrow> Some \<lparr>cr_ServerSerial = sn, cr_Recipe = decode_raw_field ''recipe'' RawEmpty kvs\<rparr>)
      | RawJson JNull \<Rightarrow> Some \<lparr>cr_ServerSerial = '''', cr_Recipe = RawEmpty\<rparr>
      | _ \<Rightarrow> None)"

definition jsonErrorDetails :: "string \<Rightarrow> string \<Rightarrow> ValidationError list \<Rightarrow> json" where
  "jsonErrorDetails err msg ds =
     JObj ([(''error'', JStr err)] @ (if msg = '''' then [] else [(''message'', JStr msg)]) @
       (if ds = [] then []
        else [(''details'', JArr (map (\<lambda>d. JObj [(''field'', JStr (Field d)), (''message'', JStr (VMessage d))]) ds))]))"

definition isNotFound :: "store_err \<Rightarrow> bool" where
  "isNotFound e \<longleftrightarrow> e = ErrNotFound \<or> contains (to_lower (store_err_text e)) ''not found''"

definition writeError :: "store_err \<Rightarrow> string \<Rightarrow> response" where
  "writeError e notFoundMsg =
     (if isNotFound e then writeJSON StatusNotFound (jsonError ''not_found'' notFoundMsg)
      else writeJSON StatusInternalServerError (jsonError ''server_error'' ''internal error''))"

definition new_job :: "string \<Rightarrow> string \<Rightarrow> time \<Rightarrow> CreateJobRequest \<Rightarrow> job" where
  "new_job isoURL uid now req = (NewJob now (cr_ServerSerial req) (cr_Recipe req) isoURL)\<lparr>ID := uid\<rparr>"

definition create_response :: "job \<Rightarrow> json" where
  "create_response j = JObj [(''job_id'', JStr (ID j)), (''status'', JStr (Status j)),
     (''server_serial'', JStr (ServerSerial j)), (''created_at'', JStr (rfc3339 (CreatedAt j)))]"

definition handleCreateJob ::
  "'s API \<Rightarrow> map_order \<Rightarrow> string \<Rightarrow> time \<Rightarrow> request \<Rightarrow> 's \<Rightarrow> response \<times> 's" where
  "handleCreateJob a rng uid now r s =
     (case decode_create (Body r) of
        None \<Rightarrow> (writeJSON StatusBadRequest
                  (jsonError ''invalid_json'' ''Request body could not be parsed as JSON''), s)
      | Some req \<Rightarrow>
          if trim_space (cr_ServerSerial req) = ''''
          then (writeJSON StatusBadRequest (jsonError ''invalid_request'' ''server_serial is required''), s)
          else if cr_Recipe req = RawEmpty \<or> cr_Recipe req = RawJson JNull
          then (writeJSON StatusBadRequest (jsonError ''invalid_request'' ''recipe is required''), s)
          else (case ValidateRecipe rng (cr_Recipe req) of
             Inl e \<Rightarrow> (writeJSON StatusBadRequest (jsonError ''invalid_recipe'' ''failed to validate recipe''), s)
           | Inr verrs \<Rightarrow>
               if verrs \<noteq> []
               then (writeJSON StatusBadRequest
                       (jsonErrorDetails ''invalid_recipe'' ''recipe does not conform to schema'' verrs), s)
               else (case js_GetServerBySerial (api_Store a) (cr_ServerSerial req) s of
                  (Inl e, s1) \<Rightarrow> (writeError e (''unknown server_serial: '' @ cr_ServerSerial req), s1)
                | (Inr sv, s1) \<Rightarrow>
                    (let j = new_job (api_MaintenanceISOURL a) uid now req
                     in case js_InsertJob (api_Store a) j s1 of
                          (Inl e, s2) \<Rightarrow> (writeJSON StatusInternalServerError
                             (jsonError ''server_error'' ''failed to create job''), s2)
                        | (Inr _, s2) \<Rightarrow> (writeJSON StatusAccepted (create_response j), s2)))))"

definition opt_member :: "string \<Rightarrow> string option \<Rightarrow> (string \<times> json) list" where
  "opt_member k v = (case v of None \<Rightarrow> [] | Some x \<Rightarrow> [(k, JStr x)])"

definition toEventDTOs :: "job_event list \<Rightarrow> json list" where
  "toEventDTOs evts = map (\<lambda>e. JObj ([(''time'', JStr (rfc3339 (Time e))), (''level'', JStr (Level e)),
     (''message'', JStr (Message e))] @ opt_member ''step'' (Step e))) evts"

definition get_response :: "job \<Rightarrow> job_event list \<Rightarrow> json" where
  "get_response j evts =
     JObj ([(''job_id'', JStr (ID j)), (''server_serial'', JStr (ServerSerial j)), (''status'', JStr (Status j))] @
       opt_member ''failed_step'' (FailedStep j) @
       [(''created_at'', JStr (rfc3339 (CreatedAt j))), (''last_update'', JStr (rfc3339 (UpdatedAt j))),
        (''events'', JArr (toEventDTOs evts))])"

definition handleGetJob :: "'s API \<Rightarrow> string \<Rightarrow> 's \<Rightarrow> response \<times> 's" where
  "handleGetJob a i s =
     (case js_GetJobByID (api_Store a) i s of
        (Inl e, s1) \<Rightarrow> (writeError e (''job not found: '' @ i), s1)
      | (Inr j, s1) \<Rightarrow>
          (case js_ListJobEvents (api_Store a) i 0 s1 of
             (Inl e, s2) \<Rightarrow> (writeJSON StatusInternalServerError
                (jsonError ''server_error'' ''failed to load job events''), s2)
           | (Inr evts, s2) \<Rightarrow> (writeJSON StatusOK (get_response j evts), s2)))"

definition jobsHandler ::
  "'s API \<Rightarrow> map_order \<Rightarrow> string \<Rightarrow> time \<Rightarrow> request \<Rightarrow> 's \<Rightarrow> response \<times> 's" where
  "jobsHandler a rng uid now r s =
     (if Method r = ''POST'' then handleCreateJob a rng uid now r s else (http_NotFound, s))"

definition jobs_prefix :: string where
  "jobs_prefix = ''/api/v1/jobs/''"

definition jobByIDHandler :: "'s API \<Rightarrow> request \<Rightarrow> 's \<Rightarrow> response \<times> 's" where
  "jobByIDHandler a r s =
     (if Method r \<noteq> ''GET'' then (http_NotFound, s)
      else let i = trim_prefix (URLPath r) jobs_prefix
           in if i = '''' \<or> contains i ''/'' then (http_NotFound, s) else handleGetJob a i s)"

section \<open>The handlers on the SQLite store\<close>

definition sql_API :: "string \<Rightarrow> sqldb API" where
  "sql_API isoURL =
     \<lparr>api_Store = \<lparr>js_GetServerBySerial = sql_GetServerBySerial, js_InsertJob = sql_InsertJob,
        js_GetJobByID = sql_GetJobByID, js_MarkJobStatus = sql_MarkJobStatus,
        js_ListJobEvents = sql_ListJobEvents, js_AppendJobEvent = sql_AppendJobEvent\<rparr>,
      api_MaintenanceISOURL = isoURL\<rparr>"

lemma sql_API_sel [simp]:
  "js_GetServerBySerial (api_Store (sql_API isoURL)) = sql_GetServerBySerial"
  "js_InsertJob (api_Store (sql_API isoURL)) = sql_InsertJob"
  "js_GetJobByID (api_Store (sql_API isoURL)) = sql_GetJobByID"
  "js_ListJobEvents (api_Store (sql_API isoURL)) = sql_ListJobEvents"
  "api_MaintenanceISOURL (sql_API isoURL) = isoURL"
  by (simp_all add: sql_API_def)

lemma sql_get_server:
  "sql_GetServerBySerial sn d = (r, d') \<Longrightarrow>
     db d' = db d \<and> (case r of Inr sv \<Rightarrow> servers (db d) sn \<noteq> None | Inl e \<Rightarrow> True)"
  by (auto simp: sql_GetServerBySerial_def sql_query_eq GetServerBySerial_def split: option.splits sum.splits)

lemma sql_insert:
  "sql_InsertJob j d = (r, d') \<Longrightarrow>
     (case r of
        Inl e \<Rightarrow> db d' = db d
      | Inr u \<Rightarrow> db d' = (db d)\<lparr>jobs := jobs (db d) @ [j]\<rparr> \<and> job_constraints j (db d))"
  by (auto simp: sql_InsertJob_def sql_exec_eq InsertJob_def exec_stmt_eq split: option.splits sum.splits if_splits)

lemma create_job_cases:
  assumes "handleCreateJob (sql_API isoURL) rng uid now r d = (resp, d')"
  shows "(RCode resp = StatusAccepted \<and>
      (\<exists>req. decode_create (Body r) = Some req \<and> ValidateRecipe rng (cr_Recipe req) = Inr [] \<and>
         trim_space (cr_ServerSerial req) \<noteq> '''' \<and> servers (db d) (cr_ServerSerial req) \<noteq> None \<and>
         uid \<notin> ID ` set (jobs (db d)) \<and>
         db d' = (db d)\<lparr>jobs := jobs (db d) @ [new_job isoURL uid now req]\<rparr>)) \<or>
    (RCode resp \<in> {StatusBadRequest, StatusNotFound, StatusInternalServerError} \<and> db d' = db d)"
  using assms
  by (auto simp: handleCreateJob_def Let_def writeError_def job_constraints_def new_job_def
           dest!: sql_get_server sql_insert
           split: option.splits if_splits sum.splits prod.splits)

section \<open>Properties\<close>

text \<open>
  C7. Creating a job: \<open>POST /api/v1/jobs\<close> answers 202 only for a body with a known server and a
  recipe the validator accepts without an error, and then the one change of the database is a
  new last row in status \<open>queued\<close>, with the fresh id, the requested serial and recipe and no
  owner; every other answer is 400, 404 or 500 and leaves the database as it was. The
  table constraints hold afterwards.
\<close>

theorem create_job_effect:
  assumes "sql_inv d" and "jobsHandler (sql_API isoURL) rng uid now r d = (resp, d')"
  shows "sql_inv d' \<and>
    (if RCode resp = StatusAccepted
     then \<exists>req j. decode_create (Body r) = Some req \<and> ValidateRecipe rng (cr_Recipe req) = Inr [] \<and>
        servers (db d) (cr_ServerSerial req) \<noteq> None \<and>
        db d' = (db d)\<lparr>jobs := jobs (db d) @ [j]\<rparr> \<and>
        ID j = uid \<and> uid \<notin> ID ` set (jobs (db d)) \<and> Status j = JobStatusQueued \<and>
        ServerSerial j = cr_ServerSerial req \<and> Recipe j = cr_Recipe req \<and> CreatedAt j = now \<and>
        WorkerID j = None \<and> LeaseExpiresAt j = None \<and> MaintenanceISOURL j = isoURL
     else RCode resp \<in> {StatusBadRequest, StatusNotFound, StatusInternalServerError} \<and> db d' = db d)"
proof (cases "Method r = ''POST''")
  case False
  with assms show ?thesis by (auto simp: jobsHandler_def)
next
  case True
  with assms(2) have "handleCreateJob (sql_API isoURL) rng uid now r d = (resp, d')"
    by (simp add: jobsHandler_def)
  from create_job_cases [OF this] show ?thesis
  proof
    assume a: "RCode resp = StatusAccepted \<and>
      (\<exists>req. decode_create (Body r) = Some req \<and> ValidateRecipe rng (cr_Recipe req) = Inr [] \<and>
         trim_space (cr_ServerSerial req) \<noteq> '''' \<and> servers (db d) (cr_ServerSerial req) \<noteq> None \<and>
         uid \<notin> ID ` set (jobs (db d)) \<and>
         db d' = (db d)\<lparr>jobs := jobs (db d) @ [new_job isoURL uid now req]\<rparr>)"
    then obtain req where q: "decode_create (Body r) = Some req" "ValidateRecipe rng (cr_Recipe req) = Inr []"
      "servers (db d) (cr_ServerSerial req) \<noteq> None" "uid \<notin> ID ` set (jobs (db d))"
      "db d' = (db d)\<lparr>jobs := jobs (db d) @ [new_job isoURL uid now req]\<rparr>" by blast
    have "InsertJob no_faults (new_job isoURL uid now req) (db d) = (Inr (), db d')"
      using q(3-5) by (simp add: InsertJob_def job_constraints_def new_job_def NewJob_def Valid_def)
    then have "store_ok (db d')" by (rule InsertJob_ok [OF assms(1)[unfolded sql_inv_def]])
    with a q show ?thesis by (auto simp: sql_inv_def new_job_def NewJob_def)
  next
    assume "RCode resp \<in> {StatusBadRequest, StatusNotFound, StatusInternalServerError} \<and> db d' = db d"
    with assms(1) show ?thesis by (auto simp: sql_inv_def)
  qed
qed

definition demo_create :: request where
  "demo_create = demo_post ''/api/v1/jobs''
     (JObj [(''server_serial'', JStr ''S1''),
            (''recipe'', JObj [(''task_target'', JStr ''install-linux.target''), (''target_disk'', JStr ''/dev/sda'')])])"

theorem create_job_effect_witness:
  "let d = demo_db (\<lambda>_. no_faults) [];
       h = jobsHandler (sql_API ''http://m/iso'') id ''u-1'' 7 demo_create d
   in RCode (fst h) = StatusAccepted \<and> sql_inv (snd h) \<and>
      (\<exists>j::job. jobs (db (snd h)) = [j] \<and> ID j = ''u-1'' \<and> Status j = JobStatusQueued)"
proof -
  let ?d = "demo_db (\<lambda>_. no_faults) []"
  let ?h = "jobsHandler (sql_API ''http://m/iso'') id ''u-1'' 7 demo_create ?d"
  have inv: "sql_inv ?d" unfolding sql_inv_def demo_db_def sqldb.simps by (rule demo_store_ok) auto
  have c: "RCode (fst ?h) = StatusAccepted" by code_simp
  have j: "jobs (db ?d) = []" by (simp add: demo_db_def demo_store_def)
  have "?h = (fst ?h, snd ?h)" by simp
  from create_job_effect [OF inv this] c j show ?thesis by (auto simp: Let_def)
qed

text \<open>
  What was created can be read back: after a \<open>POST\<close> answered 202 for an id without a slash,
  \<open>GET /api/v1/jobs/{id}\<close> against the same rows with a working driver answers 200 with the job's
  id, serial, status \<open>queued\<close>, creation time and no failed step.
\<close>

lemma create_then_get:
  assumes "sql_inv d" and "jobsHandler (sql_API isoURL) rng uid now r d = (resp, d1)"
    and "RCode resp = StatusAccepted" and "uid \<noteq> ''''" and "CHR ''/'' \<notin> set uid"
    and "db d2 = db d1" and "fault_at d2 = (\<lambda>_. no_faults)"
    and "Method g = ''GET''" and "URLPath g = ''/api/v1/jobs/'' @ uid"
  shows "\<exists>req evts. decode_create (Body r) = Some req \<and>
     fst (jobByIDHandler (sql_API isoURL) g d2) =
       writeJSON StatusOK (JObj
         [(''job_id'', JStr uid), (''server_serial'', JStr (cr_ServerSerial req)),
          (''status'', JStr JobStatusQueued), (''created_at'', JStr (rfc3339 now)),
          (''last_update'', JStr (rfc3339 now)), (''events'', JArr evts)])"
proof -
  have "handleCreateJob (sql_API isoURL) rng uid now r d = (resp, d1)"
    using assms(2,3) by (cases "Method r = ''POST''") (auto simp: jobsHandler_def)
  from create_job_cases [OF this] assms(3) obtain req where
    q: "decode_create (Body r) = Some req" "uid \<notin> ID ` set (jobs (db d))"
      "db d1 = (db d)\<lparr>jobs := jobs (db d) @ [new_job isoURL uid now req]\<rparr>"
    by auto
  have l: "job_by_id (db d2) uid = Some (new_job isoURL uid now req)"
  proof -
    have "find (\<lambda>j. ID j = uid) (jobs (db d)) = None" using q(2) by (auto simp: find_None_iff)
    then show ?thesis by (simp add: assms(6) q(3) job_by_id_def find_app new_job_def)
  qed
  have p: "trim_prefix (URLPath g) jobs_prefix = uid"
    unfolding assms(9) jobs_prefix_def by (rule trim_prefix_append)
  obtain evts where e: "ListJobEvents no_faults uid 0 (db d2) = Inr evts"
    by (auto simp: ListJobEvents_def)
  have "fst (jobByIDHandler (sql_API isoURL) g d2) =
      writeJSON StatusOK (get_response (new_job isoURL uid now req) evts)"
    using assms(4,5,7,8) l e p
    by (simp add: jobByIDHandler_def handleGetJob_def sql_GetJobByID_def sql_ListJobEvents_def sql_query_def
        GetJobByID_def)
  then show ?thesis
    using q(1) by (auto simp: get_response_def new_job_def NewJob_def opt_member_def)
qed

lemma create_then_get_instance:
  "let d = demo_db (\<lambda>_. no_faults) [];
       h = jobsHandler (sql_API ''http://m/iso'') id ''u-1'' 7 demo_create d;
       g = (demo_post ''/api/v1/jobs/u-1'' JNull)\<lparr>Method := ''GET''\<rparr>
   in RCode (fst h) = StatusAccepted \<and> RCode (fst (jobByIDHandler (sql_API ''http://m/iso'') g (snd h))) = StatusOK"
proof -
  let ?d = "demo_db (\<lambda>_. no_faults) []"
  let ?h = "jobsHandler (sql_API ''http://m/iso'') id ''u-1'' 7 demo_create ?d"
  let ?g = "(demo_post ''/api/v1/jobs/u-1'' JNull)\<lparr>Method := ''GET''\<rparr>"
  have inv: "sql_inv ?d" unfolding sql_inv_def demo_db_def sqldb.simps by (rule demo_store_ok) auto
  have c: "RCode (fst ?h) = StatusAccepted" by code_simp
  have f: "fault_at (snd ?h) = (\<lambda>_. no_faults)"
    by (rule ext)+ code_simp
  have h: "?h = (fst ?h, snd ?h)" by simp
  have "RCode (fst (jobByIDHandler (sql_API ''http://m/iso'') ?g (snd ?h))) = StatusOK"
    using create_then_get [OF inv h c _ _ refl f, of ?g] by (auto simp: demo_post_def)
  with c show ?thesis by (simp add: Let_def)
qed

end
