(* ===== verification/Disk.thy ===== *)
theory Disk
  imports Paths "HOL-Library.State_Monad" "HOL-Library.List_Lexorder" "HOL-Library.Char_ord"
begin

text \<open>
  The part of \<open>os\<close> and \<open>path/filepath\<close> the registry uses, on Unix. A path is the list of its
  elements from the file system root; \<open>join_path\<close> is \<open>filepath.Join\<close> for a clean rooted directory.
  The disk maps paths to files and directories. Every operation may also fail as the
  environment decides (\<open>io_fault\<close>, by operation number); then it has no effect. A file handle is
  represented by its path.
\<close>

type_synonym path = "string list"

datatype node = FileN string | DirN

datatype io_err = NotExist string | IoError string

definition io_text :: "io_err \<Rightarrow> string" where
  "io_text e = (case e of NotExist m \<Rightarrow> m | IoError m \<Rightarrow> m)"

record disk =
  nodes :: "(path \<times> node) list"
  io_ops :: nat
  io_fault :: "nat \<Rightarrow> string option"

type_synonym 'a io = "(disk, io_err + 'a) state"

definition join_path :: "path \<Rightarrow> string \<Rightarrow> path" where
  "join_path dir name = clean_elems True (rev dir) (split_on CHR ''/'' name)"

lemma join_path_plain [simp]: "plain_elem name \<Longrightarrow> join_path dir name = dir @ [name]"
  using clean_elems_plain [of "[name]" True "rev dir"] split_on_no_sep [of "CHR ''/''" name]
  by (auto simp: join_path_def dest: plain_elemD)

definition path_text :: "path \<Rightarrow> string" where
  "path_text p = CHR ''/'' # join_with ''/'' p"

fun look :: "(path \<times> node) list \<Rightarrow> path \<Rightarrow> node option" where
  "look ns p = (if p = [] then Some DirN else map_of ns p)"

definition is_file :: "node option \<Rightarrow> bool" where
  "is_file n = (case n of Some (FileN c) \<Rightarrow> True | _ \<Rightarrow> False)"

definition put :: "path \<Rightarrow> node \<Rightarrow> (path \<times> node) list \<Rightarrow> (path \<times> node) list" where
  "put p n ns = (p, n) # filter (\<lambda>e. fst e \<noteq> p) ns"

definition del :: "path \<Rightarrow> (path \<times> node) list \<Rightarrow> (path \<times> node) list" where
  "del p ns = filter (\<lambda>e. fst e \<noteq> p) ns"

lemma map_of_del [simp]: "map_of (del p ns) q = (if q = p then None else map_of ns q)"
  by (induction ns) (auto simp: del_def)

lemma map_of_put [simp]: "map_of (put p n ns) q = (if q = p then Some n else map_of ns q)"
  using map_of_del [of p ns q] by (auto simp: put_def del_def)

text \<open>Resolving a path for the system call \<open>verb\<close>.\<close>

definition resolve :: "string \<Rightarrow> (path \<times> node) list \<Rightarrow> path \<Rightarrow> io_err + node" where
  "resolve verb ns p =
     (if list_ex (\<lambda>k. is_file (look ns (take k p))) [0..<length p]
      then Inl (IoError (verb @ '' '' @ path_text p @ '': not a directory''))
      else (case look ns p of
              None \<Rightarrow> Inl (NotExist (verb @ '' '' @ path_text p @ '': no such file or directory''))
            | Some n \<Rightarrow> Inr n))"

lemma resolve_Inr: "resolve verb ns p = Inr n \<Longrightarrow> look ns p = Some n"
  by (auto simp: resolve_def split: if_splits option.splits)

text \<open>
  A system call: the environment's error, or the call's own answer and new contents. \<open>finish\<close>
  takes the pair of answer and contents to the answer and the disk.
\<close>

definition finish :: "disk \<Rightarrow> (io_err + 'a) \<times> (path \<times> node) list \<Rightarrow> (io_err + 'a) \<times> disk" where
  "finish d q = (fst q, d\<lparr>nodes := snd q, io_ops := Suc (io_ops d)\<rparr>)"

definition syscall :: "((path \<times> node) list \<Rightarrow> (io_err + 'a) \<times> (path \<times> node) list) \<Rightarrow> 'a io" where
  "syscall f = State (\<lambda>d. finish d
     (case io_fault d (io_ops d) of
        Some m \<Rightarrow> (Inl (IoError m), nodes d)
      | None \<Rightarrow> f (nodes d)))"

definition os_Stat :: "path \<Rightarrow> node io" where
  "os_Stat p = syscall (\<lambda>ns. (resolve ''stat'' ns p, ns))"

definition os_ReadFile :: "path \<Rightarrow> string io" where
  "os_ReadFile p = syscall (\<lambda>ns.
     (case resolve ''open'' ns p of
        Inl e \<Rightarrow> Inl e
      | Inr DirN \<Rightarrow> Inl (IoError (''read '' @ path_text p @ '': is a directory''))
      | Inr (FileN c) \<Rightarrow> Inr c, ns))"

definition dirs_to_make :: "(path \<times> node) list \<Rightarrow> path \<Rightarrow> (path \<times> node) list" where
  "dirs_to_make ns p =
     map (\<lambda>k. (take k p, DirN)) (filter (\<lambda>k. look ns (take k p) = None) [1..<Suc (length p)])"

definition os_MkdirAll :: "path \<Rightarrow> unit io" where
  "os_MkdirAll p = syscall (\<lambda>ns.
     if list_ex (\<lambda>k. is_file (look ns (take k p))) [0..<Suc (length p)]
     then (Inl (IoError (''mkdir '' @ path_text p @ '': not a directory'')), ns)
     else (Inr (), dirs_to_make ns p @ ns))"

definition os_WriteFile :: "path \<Rightarrow> string \<Rightarrow> unit io" where
  "os_WriteFile p c = syscall (\<lambda>ns.
     case resolve ''open'' ns (butlast p) of
       Inl e \<Rightarrow> (Inl e, ns)
     | Inr (FileN _) \<Rightarrow> (Inl (IoError (''open '' @ path_text p @ '': not a directory'')), ns)
     | Inr DirN \<Rightarrow>
         if look ns p = Some DirN then (Inl (IoError (''open '' @ path_text p @ '': is a directory'')), ns)
         else (Inr (), put p (FileN c) ns))"

text \<open>\<open>os.CreateTemp\<close> with the name it picked; the file is created empty and exclusively.\<close>

definition os_CreateTemp :: "path \<Rightarrow> string \<Rightarrow> path io" where
  "os_CreateTemp dir name = syscall (\<lambda>ns.
     case resolve ''open'' ns dir of
       Inl e \<Rightarrow> (Inl e, ns)
     | Inr (FileN _) \<Rightarrow> (Inl (IoError (''open '' @ path_text (dir @ [name]) @ '': not a directory'')), ns)
     | Inr DirN \<Rightarrow>
         if look ns (dir @ [name]) \<noteq> None
         then (Inl (IoError (''createtemp '' @ path_text (dir @ [name]) @ '': file exists'')), ns)
         else (Inr (dir @ [name]), put (dir @ [name]) (FileN []) ns))"

definition has_children :: "(path \<times> node) list \<Rightarrow> path \<Rightarrow> bool" where
  "has_children ns p = list_ex (\<lambda>e. fst e \<noteq> [] \<and> butlast (fst e) = p) ns"

definition os_Remove :: "path \<Rightarrow> unit io" where
  "os_Remove p = syscall (\<lambda>ns.
     case resolve ''remove'' ns p of
       Inl e \<Rightarrow> (Inl e, ns)
     | Inr (FileN c) \<Rightarrow> (Inr (), del p ns)
     | Inr DirN \<Rightarrow>
         if p = [] \<or> has_children ns p
         then (Inl (IoError (''remove '' @ path_text p @ '': directory not empty'')), ns)
         else (Inr (), del p ns))"

text \<open>\<open>os.Rename\<close> of a file, replacing a file at the destination.\<close>

definition os_Rename :: "path \<Rightarrow> path \<Rightarrow> unit io" where
  "os_Rename p q = syscall (\<lambda>ns.
     case (resolve ''rename'' ns p, resolve ''rename'' ns (butlast q)) of
       (Inr (FileN c), Inr DirN) \<Rightarrow>
         if look ns q = Some DirN then (Inl (IoError (''rename '' @ path_text p @ '': file exists'')), ns)
         else (Inr (), put q (FileN c) (del p ns))
     | (Inl e, _) \<Rightarrow> (Inl e, ns)
     | (_, Inl e) \<Rightarrow> (Inl e, ns)
     | _ \<Rightarrow> (Inl (IoError (''rename '' @ path_text p @ '': invalid argument'')), ns))"

text \<open>\<open>os.ReadDir\<close>: the entries by name, each with whether it is a directory.\<close>

definition children :: "(path \<times> node) list \<Rightarrow> path \<Rightarrow> string list" where
  "children ns p = sort (remdups (map (\<lambda>e. last (fst e)) (filter (\<lambda>e. fst e \<noteq> [] \<and> butlast (fst e) = p) ns)))"

definition os_ReadDir :: "path \<Rightarrow> ((string \<times> bool) list) io" where
  "os_ReadDir p = syscall (\<lambda>ns.
     (case resolve ''open'' ns p of
        Inl e \<Rightarrow> Inl e
      | Inr (FileN c) \<Rightarrow> Inl (IoError (''readdirent '' @ path_text p @ '': not a directory''))
      | Inr DirN \<Rightarrow> Inr (map (\<lambda>n. (n, look ns (p @ [n]) = Some DirN)) (children ns p)), ns))"

section \<open>Sequencing with errors\<close>

text \<open>\<open>if err != nil { return fmt.Errorf("\<dots>: %w", err) }\<close> after a system call, and after an operation.\<close>

definition try_io :: "string \<Rightarrow> 'a io \<Rightarrow> ('a \<Rightarrow> (disk, string + 'b) state) \<Rightarrow> (disk, string + 'b) state" where
  "try_io pre m k = do {
     r \<leftarrow> m;
     case r of Inl e \<Rightarrow> State_Monad.return (Inl (pre @ io_text e)) | Inr x \<Rightarrow> k x }"

definition try_op :: "string \<Rightarrow> (disk, string + 'a) state \<Rightarrow> ('a \<Rightarrow> (disk, string + 'b) state) \<Rightarrow> (disk, string + 'b) state" where
  "try_op pre m k = do {
     r \<leftarrow> m;
     case r of Inl e \<Rightarrow> State_Monad.return (Inl (pre @ e)) | Inr x \<Rightarrow> k x }"

text \<open>A call of the operating system that has no effect on the contents but may fail.\<close>

definition os_touch :: "unit io" where
  "os_touch = syscall (\<lambda>ns. (Inr (), ns))"

definition op_number :: "(disk, nat) state" where
  "op_number = State (\<lambda>d. (io_ops d, d))"

section \<open>Reasoning about disk operations\<close>

text \<open>
  \<open>triple P m Q\<close>: from contents with \<open>P\<close> a run of \<open>m\<close> ends in an answer and contents with \<open>Q\<close>,
  whatever fails on the way.
\<close>

definition triple :: "((path \<times> node) list \<Rightarrow> bool) \<Rightarrow> (disk, 'a) state \<Rightarrow> ('a \<Rightarrow> (path \<times> node) list \<Rightarrow> bool) \<Rightarrow> bool" where
  "triple P m Q \<longleftrightarrow> (\<forall>d. P (nodes d) \<longrightarrow> Q (fst (run_state m d)) (nodes (snd (run_state m d))))"

lemma tripleD: "triple P m Q \<Longrightarrow> P (nodes d) \<Longrightarrow> Q (fst (run_state m d)) (nodes (snd (run_state m d)))"
  by (simp add: triple_def)

lemma triple_return: "(\<And>ns. P ns \<Longrightarrow> Q x ns) \<Longrightarrow> triple P (State_Monad.return x) Q"
  by (simp add: triple_def)

lemma triple_bind: "triple P m R \<Longrightarrow> (\<And>x. triple (R x) (k x) Q) \<Longrightarrow> triple P (State_Monad.bind m k) Q"
  by (auto simp: triple_def run_state_bind split: prod.splits)

lemma triple_weaken:
  "triple P m Q \<Longrightarrow> (\<And>ns. P' ns \<Longrightarrow> P ns) \<Longrightarrow> (\<And>x ns. Q x ns \<Longrightarrow> Q' x ns) \<Longrightarrow> triple P' m Q'"
  by (simp add: triple_def)

lemma triple_conj: "triple P m Q \<Longrightarrow> triple P m Q' \<Longrightarrow> triple P m (\<lambda>x ns. Q x ns \<and> Q' x ns)"
  by (simp add: triple_def)

lemma triple_pure: "triple P m Q \<Longrightarrow> (\<And>ns. P ns \<Longrightarrow> A) \<Longrightarrow> triple P m (\<lambda>x ns. Q x ns \<and> A)"
  by (auto simp: triple_def)

lemma triple_when: "(A \<Longrightarrow> triple P m Q) \<Longrightarrow> triple (\<lambda>ns. P ns \<and> A) m Q"
  by (auto simp: triple_def)

lemma triple_pre: "triple P m Q \<Longrightarrow> (\<And>ns. P' ns \<Longrightarrow> P ns) \<Longrightarrow> triple P' m Q"
  by (auto simp: triple_def)

lemma triple_if: "(b \<Longrightarrow> triple P m Q) \<Longrightarrow> (\<not> b \<Longrightarrow> triple P m' Q) \<Longrightarrow> triple P (if b then m else m') Q"
  by simp

lemma triple_sum:
  "(\<And>e. r = Inl e \<Longrightarrow> triple P (f e) Q) \<Longrightarrow> (\<And>x. r = Inr x \<Longrightarrow> triple P (g x) Q) \<Longrightarrow>
   triple P (case r of Inl e \<Rightarrow> f e | Inr x \<Rightarrow> g x) Q"
  by (cases r) auto

lemma triple_syscall:
  assumes "\<And>ns m. P ns \<Longrightarrow> Q (Inl (IoError m)) ns" and "\<And>ns. P ns \<Longrightarrow> Q (fst (f ns)) (snd (f ns))"
  shows "triple P (syscall f) Q"
  using assms by (auto simp: triple_def syscall_def finish_def split: option.splits)

text \<open>The state after a system call that met no fault.\<close>

lemma run_syscall:
  "io_fault d (io_ops d) = None \<Longrightarrow> run_state (syscall f) d = finish d (f (nodes d))"
  by (simp add: syscall_def)

lemma run_syscall_cases:
  obtains (fault) m where "run_state (syscall f) d = (Inl (IoError m), d\<lparr>io_ops := Suc (io_ops d)\<rparr>)"
  | (ok) "run_state (syscall f) d = finish d (f (nodes d))"
  by (cases "io_fault d (io_ops d)") (auto simp: syscall_def finish_def)

lemma finish_simps [simp]:
  "nodes (snd (finish d q)) = snd q" "io_fault (snd (finish d q)) = io_fault d" "fst (finish d q) = fst q"
  by (simp_all add: finish_def)

lemma syscall_fault [simp]: "io_fault (snd (run_state (syscall f) d)) = io_fault d"
  by (cases rule: run_syscall_cases [of f d]) auto


subsection \<open>What an operation leaves alone\<close>

text \<open>
  \<open>kept S V T\<close>: on the paths of \<open>S\<close> the contents are those of \<open>V\<close>, and no path of \<open>T\<close> is a file.
\<close>

definition kept :: "path set \<Rightarrow> (path \<Rightarrow> node option) \<Rightarrow> path set \<Rightarrow> (path \<times> node) list \<Rightarrow> bool" where
  "kept S V T ns \<longleftrightarrow> (\<forall>p \<in> S. map_of ns p = V p) \<and> (\<forall>p \<in> T. \<not> is_file (look ns p))"

text \<open>No proper prefix of the path is a file.\<close>

definition open_to :: "(path \<times> node) list \<Rightarrow> path \<Rightarrow> bool" where
  "open_to ns p \<longleftrightarrow> (\<forall>k < length p. \<not> is_file (look ns (take k p)))"

lemma resolve_simp:
  "open_to ns p \<Longrightarrow> resolve verb ns p = (case look ns p of
     None \<Rightarrow> Inl (NotExist (verb @ '' '' @ path_text p @ '': no such file or directory''))
   | Some n \<Rightarrow> Inr n)"
  by (auto simp: resolve_def open_to_def list_ex_iff)

lemma resolve_InrD: "resolve verb ns p = Inr n \<Longrightarrow> look ns p = Some n \<and> open_to ns p"
  by (auto simp: resolve_def open_to_def list_ex_iff split: if_splits option.splits)

lemma map_of_dirs_to_make:
  "map_of (dirs_to_make ns p @ ns) q = (if q \<in> fst ` set (dirs_to_make ns p) then Some DirN else map_of ns q)"
proof (cases "q \<in> fst ` set (dirs_to_make ns p)")
  case True
  have "\<And>ks. q \<in> (\<lambda>k. take k p) ` set ks \<Longrightarrow> map_of (map (\<lambda>k. (take k p, DirN)) ks @ ns) q = Some DirN"
    subgoal for ks by (induction ks) auto
    done
  then show ?thesis using True unfolding dirs_to_make_def by (simp add: image_image)
next
  case False
  then show ?thesis by (simp add: map_add_def dom_map_of_conv_image_fst [symmetric] domIff)
qed

lemma dirs_to_make_keys:
  "q \<in> fst ` set (dirs_to_make ns p) \<longleftrightarrow> q \<noteq> [] \<and> (\<exists>k. q = take k p) \<and> map_of ns q = None"
proof
  assume "q \<in> fst ` set (dirs_to_make ns p)"
  then show "q \<noteq> [] \<and> (\<exists>k. q = take k p) \<and> map_of ns q = None"
    by (fastforce simp: dirs_to_make_def split: if_splits)
next
  assume a: "q \<noteq> [] \<and> (\<exists>k. q = take k p) \<and> map_of ns q = None"
  then have "q = take (length q) p" "0 < length q" "length q \<le> length p"
    by (auto simp: min_def)
  then show "q \<in> fst ` set (dirs_to_make ns p)"
    using a by (auto simp: dirs_to_make_def image_iff Suc_le_eq intro!: bexI [of _ "length q"])
qed

definition above :: "path \<Rightarrow> path set" where
  "above p = {q. \<exists>s. s \<noteq> [] \<and> p = q @ s}"

lemma above_take: "q \<in> above p \<longleftrightarrow> (\<exists>k < length p. q = take k p)"
  unfolding above_def by (auto intro: exI [of _ "length q"]) (metis append_take_drop_id drop_eq_Nil not_le)

lemma take_above: "take k p \<in> above p \<or> take k p = p"
  by (cases "k < length p") (auto simp: above_take)

lemma open_to_above: "open_to ns p \<longleftrightarrow> (\<forall>q \<in> above p. \<not> is_file (look ns q))"
  unfolding open_to_def Ball_def above_take by blast

lemma kept_Un: "kept S V (T \<union> T') ns \<longleftrightarrow> kept S V T ns \<and> (\<forall>p \<in> T'. \<not> is_file (look ns p))"
  by (auto simp: kept_def)

lemma above_snoc [simp]: "above (p @ [x]) = insert p (above p)"
proof -
  have "(\<exists>s. s \<noteq> [] \<and> p @ [x] = q @ s) \<longleftrightarrow> q = p \<or> (\<exists>s. s \<noteq> [] \<and> p = q @ s)" for q
    by (auto simp: append_eq_append_conv2 append_eq_Cons_conv Cons_eq_append_conv)
  then show ?thesis by (auto simp: above_def)
qed

lemma above_snocs [simp]:
  "above (p @ [x, y]) = {p, p @ [x]} \<union> above p"
  "above (p @ [x, y, z]) = {p, p @ [x], p @ [x, y]} \<union> above p"
  "above (p @ [x, y, z, w]) = {p, p @ [x], p @ [x, y], p @ [x, y, z]} \<union> above p"
  using above_snoc [of "p @ [x]" y] above_snoc [of "p @ [x, y]" z] above_snoc [of "p @ [x, y, z]" w] by auto

lemma above_appendD: "q \<in> above (p @ s) \<Longrightarrow> q \<in> above p \<or> (\<exists>u. q = p @ u)"
  unfolding above_def by (fastforce simp: append_eq_append_conv2)

lemma above_irrefl [simp]: "p \<notin> above p" "p @ s \<notin> above p"
  by (simp_all add: above_def)

declare look.simps [simp del]

lemma look_simps [simp]: "look ns [] = Some DirN" "look ns (p @ x # q) = map_of ns (p @ x # q)"
  "look ns (x # q) = map_of ns (x # q)"
  by (simp_all add: look.simps)

lemma look_put [simp]: "look (put p n ns) q = (if q = p \<and> p \<noteq> [] then Some n else look ns q)"
  by (simp add: look.simps)

lemma look_del [simp]: "look (del p ns) q = (if q = p \<and> p \<noteq> [] then None else look ns q)"
  by (simp add: look.simps)

lemma is_file_simps [simp]: "is_file (Some (FileN c))" "\<not> is_file (Some DirN)" "\<not> is_file None"
  by (simp_all add: is_file_def)

lemma mkdir_frame:
  "\<not> is_file (look ns q) \<Longrightarrow> \<not> is_file (look (dirs_to_make ns p @ ns) q)"
  "q \<notin> above p \<Longrightarrow> q \<noteq> p \<Longrightarrow> map_of (dirs_to_make ns p @ ns) q = map_of ns q"
proof -
  show "\<not> is_file (look ns q) \<Longrightarrow> \<not> is_file (look (dirs_to_make ns p @ ns) q)"
    using map_of_dirs_to_make [of ns p q] by (auto simp: look.simps split: if_splits)
  show "q \<notin> above p \<Longrightarrow> q \<noteq> p \<Longrightarrow> map_of (dirs_to_make ns p @ ns) q = map_of ns q"
    using map_of_dirs_to_make [of ns p q] dirs_to_make_keys [of q ns p] take_above [of _ p]
    by (metis (no_types))
qed

lemma mkdir_triple:
  assumes "\<And>q. q \<in> S \<Longrightarrow> q \<notin> above p \<and> q \<noteq> p"
  shows "triple (kept S V T) (os_MkdirAll p)
           (\<lambda>r ns. kept S V T ns \<and> (r = Inr () \<longrightarrow> open_to ns p \<and> \<not> is_file (look ns p)))"
  unfolding os_MkdirAll_def
proof (rule triple_syscall, goal_cases)
  case (1 ns m)
  then show ?case by simp
next
  case (2 ns)
  have free: "\<not> is_file (look ns q)" if "\<not> list_ex (\<lambda>k. is_file (look ns (take k p))) [0..<Suc (length p)]"
    "q \<in> above p \<or> q = p" for q
  proof -
    obtain k where "k < Suc (length p)" "q = take k p"
      using \<open>q \<in> above p \<or> q = p\<close> unfolding above_take by (metis less_Suc_eq take_all_iff order_refl)
    then show ?thesis using that(1) by (auto simp: list_ex_iff)
  qed
  have "map_of (dirs_to_make ns p @ ns) q = map_of ns q" if "q \<in> S" for q
    using assms [OF that] mkdir_frame(2) by blast
  then show ?case
    using 2 mkdir_frame(1) free by (simp add: kept_def open_to_above del: upt_Suc)
qed

text \<open>A writing operation on a path that is neither protected nor kept free.\<close>

lemma kept_put: "kept S V T ns \<Longrightarrow> p \<notin> S \<Longrightarrow> p \<notin> T \<Longrightarrow> kept S V T (put p n ns)"
  by (auto simp: kept_def)

lemma kept_put_in:
  "kept S V T ns \<Longrightarrow> p \<notin> T \<Longrightarrow> kept S (V(p \<mapsto> n)) T (put p n ns)"
  by (auto simp: kept_def)

lemma kept_del: "kept S V T ns \<Longrightarrow> p \<notin> S \<Longrightarrow> kept S V T (del p ns)"
  by (auto simp: kept_def)

lemma write_step:
  assumes "kept S V T ns" "q \<notin> S" "q \<notin> T" "q = p @ [x]" "open_to ns p" "\<not> is_file (look ns p)"
  shows "kept S V T (put q (FileN c) ns) \<and> map_of (put q (FileN c) ns) q = Some (FileN c) \<and>
    open_to (put q (FileN c) ns) q"
proof -
  have "q' \<in> above q \<Longrightarrow> q' \<noteq> q" for q' by (auto simp: above_def)
  then show ?thesis
    using assms kept_put [of S V T ns q "FileN c"] by (auto simp: open_to_above)
qed

lemma write_triple:
  assumes "p @ [x] \<notin> S" "p @ [x] \<notin> T"
  shows "triple (kept S V T) (os_WriteFile (p @ [x]) c)
     (\<lambda>r ns. kept S V T ns \<and> (r = Inr () \<longrightarrow> map_of ns (p @ [x]) = Some (FileN c) \<and> open_to ns (p @ [x])))"
  unfolding os_WriteFile_def
proof (rule triple_syscall, goal_cases)
  case (1 ns m)
  then show ?case by simp
next
  case (2 ns)
  then show ?case
    using write_step [OF 2 assms refl, of c] resolve_InrD [of "''open''" ns p]
    by (auto split: sum.split node.split)
qed

lemma create_triple:
  assumes "p @ [x] \<notin> S" "p @ [x] \<notin> T"
  shows "triple (kept S V T) (os_CreateTemp p x) (\<lambda>r ns. kept S V T ns \<and> r \<in> insert (Inr (p @ [x])) (range Inl))"
  unfolding os_CreateTemp_def
proof (rule triple_syscall, goal_cases)
  case (1 ns m)
  then show ?case by simp
next
  case (2 ns)
  then show ?case
    using kept_put [OF 2 assms, of "FileN []"] by (auto split: sum.split node.split)
qed

lemma remove_triple:
  assumes "p \<notin> S"
  shows "triple (kept S V T) (os_Remove p) (\<lambda>r. kept S V T)"
  unfolding os_Remove_def
  by (rule triple_syscall)
    (use assms in \<open>auto simp: kept_del split: sum.split node.split\<close>)

lemma reader_triples:
  "triple P (os_Stat p) (\<lambda>r ns. P ns \<and> (\<forall>n. r = Inr n \<longrightarrow> look ns p = Some n \<and> open_to ns p))"
  "triple P (os_ReadFile p) (\<lambda>r ns. P ns \<and> (\<forall>c. r = Inr c \<longrightarrow> look ns p = Some (FileN c) \<and> open_to ns p))"
  "triple P (os_ReadDir p) (\<lambda>r ns. P ns \<and> (\<forall>es. r = Inr es \<longrightarrow>
     es = map (\<lambda>n. (n, look ns (p @ [n]) = Some DirN)) (children ns p)))"
  unfolding os_Stat_def os_ReadFile_def os_ReadDir_def
  by (rule triple_syscall; auto split: sum.split node.split dest: resolve_InrD)+

lemma rename_triple:
  assumes "p \<notin> S" "q @ [x] \<notin> T" "p \<noteq> []" "p \<noteq> q @ [x]"
  shows "triple (\<lambda>ns. kept S V T ns \<and> map_of ns p = Some (FileN c)) (os_Rename p (q @ [x]))
     (\<lambda>r ns. case r of Inl e \<Rightarrow> kept S V T ns
        | Inr u \<Rightarrow> kept S (V(q @ [x] \<mapsto> FileN c)) T ns \<and> map_of ns (q @ [x]) = Some (FileN c))"
  unfolding os_Rename_def
proof (rule triple_syscall, goal_cases)
  case (1 ns m)
  then show ?case by simp
next
  case (2 ns)
  have "kept S (V(q @ [x] \<mapsto> FileN c)) T (put (q @ [x]) (FileN c) (del p ns))"
    using 2 assms by (intro kept_put_in kept_del) auto
  moreover have "resolve ''rename'' ns p = Inr n \<Longrightarrow> n = FileN c" for n
    using 2 assms resolve_InrD [of "''rename''" ns p n] by (simp add: look.simps)
  ultimately show ?case
    using 2 by (auto split: sum.split node.split)
qed

lemma try_io_triple:
  assumes "triple P m R" "\<And>e ns. R (Inl e) ns \<Longrightarrow> Q (Inl (pre @ io_text e)) ns" "\<And>x. triple (R (Inr x)) (k x) Q"
  shows "triple P (try_io pre m k) Q"
  unfolding try_io_def
  by (rule triple_bind [OF assms(1)]) (auto intro: triple_return assms split: sum.split)

lemma try_op_triple:
  assumes "triple P m R" "\<And>e ns. R (Inl e) ns \<Longrightarrow> Q (Inl (pre @ e)) ns" "\<And>x. triple (R (Inr x)) (k x) Q"
  shows "triple P (try_op pre m k) Q"
  unfolding try_op_def
  by (rule triple_bind [OF assms(1)]) (auto intro: triple_return assms split: sum.split)

lemma op_number_triple: "triple P op_number (\<lambda>_. P)"
  by (simp add: triple_def op_number_def)

lemma touch_triple: "triple P os_touch (\<lambda>_. P)"
  unfolding os_touch_def by (rule triple_syscall) auto

subsection \<open>Replacing a file as a whole\<close>

text \<open>
  A file is replaced through a temporary file of its directory: write, three calls without effect on
  the contents, rename. On the files of a set \<open>S\<close> an error leaves all as they were, success replaces
  the one file by its complete new content.
\<close>

definition replaced :: "path set \<Rightarrow> (path \<Rightarrow> node option) \<Rightarrow> path \<Rightarrow> string \<Rightarrow> string + unit \<Rightarrow> (path \<times> node) list \<Rightarrow> bool" where
  "replaced S V p c r ns \<longleftrightarrow> kept S (if r = Inr () then V(p \<mapsto> FileN c) else V) {} ns"

lemma fill_triple:
  assumes "dir @ [t] \<notin> S" "dir @ [t] \<noteq> dir @ [x]"
  shows "triple (kept S V {}) (try_io e1 (os_WriteFile (dir @ [t]) c) (\<lambda>_. try_io e2 os_touch (\<lambda>_. try_io e3 os_touch (\<lambda>_.
     try_io e4 os_touch (\<lambda>_. try_io e5 (os_Rename (dir @ [t]) (dir @ [x])) (\<lambda>_. State_Monad.return (Inr ()))))))) (replaced S V (dir @ [x]) c)"
proof -
  let ?W = "\<lambda>ns. kept S V {} ns \<and> map_of ns (dir @ [t]) = Some (FileN c)"
  have w: "triple (kept S V {}) (os_WriteFile (dir @ [t]) c)
      (\<lambda>r ns. kept S V {} ns \<and> (r = Inr () \<longrightarrow> map_of ns (dir @ [t]) = Some (FileN c)))"
    by (rule triple_weaken [OF write_triple [OF assms(1)]]) auto
  have r: "triple ?W (os_Rename (dir @ [t]) (dir @ [x]))
      (\<lambda>r ns. case r of Inl e \<Rightarrow> kept S V {} ns | Inr u \<Rightarrow> kept S (V(dir @ [x] \<mapsto> FileN c)) {} ns)"
    by (rule triple_weaken [OF rename_triple]) (use assms in \<open>auto split: sum.splits\<close>)
  show ?thesis
  proof (rule try_io_triple [OF w])
    fix u :: unit
    have tr: "triple ?W os_touch (\<lambda>_. ?W)" by (rule touch_triple)
    have rest: "triple ?W (try_io e2 os_touch (\<lambda>_. try_io e3 os_touch (\<lambda>_. try_io e4 os_touch (\<lambda>_.
        try_io e5 (os_Rename (dir @ [t]) (dir @ [x])) (\<lambda>_. State_Monad.return (Inr ())))))) (replaced S V (dir @ [x]) c)"
      by (rule try_io_triple [OF tr], simp add: replaced_def)+
        (rule try_io_triple [OF r], simp add: replaced_def, rule triple_return, simp add: replaced_def)
    show "triple (\<lambda>ns. kept S V {} ns \<and> (Inr u = Inr () \<longrightarrow> map_of ns (dir @ [t]) = Some (FileN c)))
       (try_io e2 os_touch (\<lambda>_. try_io e3 os_touch (\<lambda>_. try_io e4 os_touch (\<lambda>_.
          try_io e5 (os_Rename (dir @ [t]) (dir @ [x])) (\<lambda>_. State_Monad.return (Inr ())))))) (replaced S V (dir @ [x]) c)"
      by (rule triple_pre [OF rest]) simp
  qed (simp add: replaced_def)
qed

text \<open>The temporary file is created before and removed, if it is still there, after \<open>body\<close> has run.\<close>

lemma through_temp_triple:
  assumes body: "\<And>n. triple (kept S V {}) (body (dir @ [tmp_name n])) (replaced S V p c)" and S: "\<And>n. dir @ [tmp_name n] \<notin> S"
  shows "triple (kept S V {}) (do { n \<leftarrow> op_number;
       try_io pre (os_CreateTemp dir (tmp_name n)) (\<lambda>tmp. do { r \<leftarrow> body tmp; _ \<leftarrow> os_Remove tmp; State_Monad.return r }) })
     (replaced S V p c)"
proof (rule triple_bind [OF op_number_triple])
  fix n
  have c: "triple (kept S V {}) (os_CreateTemp dir (tmp_name n))
      (\<lambda>r ns. kept S V {} ns \<and> (\<forall>t. r = Inr t \<longrightarrow> t = dir @ [tmp_name n]))"
    by (rule triple_weaken [OF create_triple [OF S]]) auto
  have "triple (replaced S V p c r) (do { _ \<leftarrow> os_Remove (dir @ [tmp_name n]); State_Monad.return r }) (replaced S V p c)" for r
    unfolding replaced_def by (rule triple_bind [OF remove_triple]) (use S in \<open>auto intro: triple_return\<close>)
  from triple_bind [OF body this]
  have b: "triple (\<lambda>ns. kept S V {} ns \<and> tmp = dir @ [tmp_name n]) (do { r \<leftarrow> body tmp; _ \<leftarrow> os_Remove tmp; State_Monad.return r }) (replaced S V p c)" for tmp
    by (intro triple_when) simp
  show "triple (kept S V {}) (try_io pre (os_CreateTemp dir (tmp_name n))
      (\<lambda>tmp. do { r \<leftarrow> body tmp; _ \<leftarrow> os_Remove tmp; State_Monad.return r })) (replaced S V p c)"
    by (rule try_io_triple [OF c]) (simp add: replaced_def, rule triple_pre [OF b], simp)
qed

lemma kept_single: "kept {p} V {} ns \<longleftrightarrow> map_of ns p = V p"
  by (simp add: kept_def)

subsection \<open>Runs without faults\<close>

definition faultless :: "disk \<Rightarrow> bool" where
  "faultless d \<longleftrightarrow> (\<forall>k. io_fault d k = None)"

text \<open>
  \<open>works P m Q\<close>: a run of \<open>m\<close> without faults from a state with \<open>P\<close> ends in one with \<open>Q\<close>; \<open>P\<close> and \<open>Q\<close>
  may speak of the number of operations done so far.
\<close>

definition works :: "(nat \<Rightarrow> (path \<times> node) list \<Rightarrow> bool) \<Rightarrow> (disk, 'a) state \<Rightarrow>
    ('a \<Rightarrow> nat \<Rightarrow> (path \<times> node) list \<Rightarrow> bool) \<Rightarrow> bool" where
  "works P m Q \<longleftrightarrow> (\<forall>d. faultless d \<and> P (io_ops d) (nodes d) \<longrightarrow>
     faultless (snd (run_state m d)) \<and>
     Q (fst (run_state m d)) (io_ops (snd (run_state m d))) (nodes (snd (run_state m d))))"

lemma worksD:
  "works P m Q \<Longrightarrow> faultless d \<Longrightarrow> P (io_ops d) (nodes d) \<Longrightarrow> run_state m d = (r, d') \<Longrightarrow>
   faultless d' \<and> Q r (io_ops d') (nodes d')"
  by (metis works_def fst_conv snd_conv)

lemma works_return: "(\<And>i ns. P i ns \<Longrightarrow> Q x i ns) \<Longrightarrow> works P (State_Monad.return x) Q"
  by (simp add: works_def)

lemma works_bind: "works P m R \<Longrightarrow> (\<And>x. works (R x) (k x) Q) \<Longrightarrow> works P (State_Monad.bind m k) Q"
  by (auto simp: works_def run_state_bind split: prod.splits)

lemma works_weaken:
  "works P m Q \<Longrightarrow> (\<And>i ns. P' i ns \<Longrightarrow> P i ns) \<Longrightarrow> (\<And>x i ns. Q x i ns \<Longrightarrow> Q' x i ns) \<Longrightarrow> works P' m Q'"
  by (simp add: works_def)

lemma works_pre: "works P m Q \<Longrightarrow> (\<And>i ns. P' i ns \<Longrightarrow> P i ns) \<Longrightarrow> works P' m Q"
  by (simp add: works_def)

lemma works_when: "(A \<Longrightarrow> works P m Q) \<Longrightarrow> works (\<lambda>i ns. A \<and> P i ns) m Q"
  by (auto simp: works_def)

lemma works_if: "(b \<Longrightarrow> works P m Q) \<Longrightarrow> (\<not> b \<Longrightarrow> works P m' Q) \<Longrightarrow> works P (if b then m else m') Q"
  by simp

lemma works_ex: "(\<And>y. works (P y) m Q) \<Longrightarrow> works (\<lambda>i ns. \<exists>y. P y i ns) m Q"
  by (auto simp: works_def)

lemma works_syscall:
  "(\<And>i ns. P i ns \<Longrightarrow> Q (fst (f ns)) (Suc i) (snd (f ns))) \<Longrightarrow> works P (syscall f) Q"
  by (auto simp: works_def syscall_def finish_def faultless_def)

lemma works_triple: "triple P m Q \<Longrightarrow> works (\<lambda>i ns. R i ns \<and> P ns) m Q' \<Longrightarrow> works (\<lambda>i ns. R i ns \<and> P ns) m (\<lambda>x i ns. Q' x i ns \<and> Q x ns)"
  by (auto simp: works_def triple_def)

lemma try_io_works:
  assumes "works P m (\<lambda>r i ns. \<exists>x. r = Inr x \<and> R x i ns)" "\<And>x. works (R x) (k x) Q"
  shows "works P (try_io pre m k) Q"
  unfolding try_io_def
proof (rule works_bind [OF assms(1)])
  show "works (\<lambda>i ns. \<exists>x. r = Inr x \<and> R x i ns) (case r of Inl e \<Rightarrow> State_Monad.return (Inl (pre @ io_text e)) | Inr x \<Rightarrow> k x) Q" for r
    using assms(2) by (cases r) (auto simp: works_def)
qed

lemma try_op_works:
  assumes "works P m (\<lambda>r i ns. \<exists>x. r = Inr x \<and> R x i ns)" "\<And>x. works (R x) (k x) Q"
  shows "works P (try_op pre m k) Q"
  unfolding try_op_def
proof (rule works_bind [OF assms(1)])
  show "works (\<lambda>i ns. \<exists>x. r = Inr x \<and> R x i ns) (case r of Inl e \<Rightarrow> State_Monad.return (Inl (pre @ e)) | Inr x \<Rightarrow> k x) Q" for r
    using assms(2) by (cases r) (auto simp: works_def)
qed

lemma op_number_works: "works P op_number (\<lambda>n i ns. n = i \<and> P i ns)"
  by (simp add: works_def op_number_def)

lemma touch_works: "(\<And>i ns. P i ns \<Longrightarrow> R (Suc i) ns) \<Longrightarrow> works P os_touch (\<lambda>r i ns. \<exists>x. r = Inr x \<and> R i ns)"
  unfolding os_touch_def by (rule works_syscall) auto

text \<open>A path that names a directory.\<close>

definition dir_at :: "(path \<times> node) list \<Rightarrow> path \<Rightarrow> bool" where
  "dir_at ns p \<longleftrightarrow> open_to ns p \<and> look ns p = Some DirN"

lemma resolve_dir: "dir_at ns p \<Longrightarrow> resolve verb ns p = Inr DirN"
  by (simp add: dir_at_def resolve_simp)

lemma dir_at_put: "dir_at ns p \<Longrightarrow> q \<noteq> p \<Longrightarrow> q \<notin> above p \<Longrightarrow> dir_at (put q n ns) p"
  by (auto simp: dir_at_def open_to_above)

lemma dir_at_put_file: "dir_at ns p \<Longrightarrow> look ns q \<noteq> Some DirN \<Longrightarrow> q \<notin> above p \<Longrightarrow> dir_at (put q n ns) p"
  by (rule dir_at_put) (auto simp: dir_at_def)

lemma dir_at_del: "dir_at ns p \<Longrightarrow> q \<noteq> p \<Longrightarrow> dir_at (del q ns) p"
  by (auto simp: dir_at_def open_to_above)

lemma mkdir_ok:
  assumes "open_to ns p" "\<not> is_file (look ns p)"
  shows "\<not> list_ex (\<lambda>k. is_file (look ns (take k p))) [0..<Suc (length p)]"
    and "dir_at (dirs_to_make ns p @ ns) p"
    and "dir_at ns q \<Longrightarrow> dir_at (dirs_to_make ns p @ ns) q"
    and "map_of ns q = Some n \<Longrightarrow> map_of (dirs_to_make ns p @ ns) q = Some n"
proof -
  show nf: "\<not> list_ex (\<lambda>k. is_file (look ns (take k p))) [0..<Suc (length p)]"
    using assms take_above [of _ p] by (auto simp: list_ex_iff open_to_def less_Suc_eq)
  have look_eq: "look (dirs_to_make ns p @ ns) q = (if q \<in> fst ` set (dirs_to_make ns p) then Some DirN else look ns q)" for q
    using map_of_dirs_to_make [of ns p q] dirs_to_make_keys [of q ns p] by (auto simp: look.simps)
  have "look (dirs_to_make ns p @ ns) p = Some DirN"
  proof (cases "look ns p")
    case None
    then have "p \<in> fst ` set (dirs_to_make ns p)"
      unfolding dirs_to_make_keys by (auto simp: look.simps split: if_splits intro: exI [of _ "length p"])
    then show ?thesis using look_eq by simp
  next
    case (Some n)
    then show ?thesis using assms look_eq by (cases n) auto
  qed
  then show "dir_at (dirs_to_make ns p @ ns) p"
    using assms look_eq by (auto simp: dir_at_def open_to_above)
  show "dir_at ns q \<Longrightarrow> dir_at (dirs_to_make ns p @ ns) q"
    using look_eq by (auto simp: dir_at_def open_to_above)
  show "map_of ns q = Some n \<Longrightarrow> map_of (dirs_to_make ns p @ ns) q = Some n"
    using map_of_dirs_to_make [of ns p q] dirs_to_make_keys [of q ns p] by auto
qed

subsection \<open>Path texts\<close>

text \<open>A path text as the operating system resolves it in a working directory.\<close>

definition text_path :: "path \<Rightarrow> string \<Rightarrow> path" where
  "text_path cwd t = (if has_prefix t ''/'' then join_path [] t else join_path cwd t)"

lemma text_path_join:
  assumes es: "es \<noteq> []" "\<And>e. e \<in> set es \<Longrightarrow> plain_elem e" and p: "p \<noteq> []"
  shows "text_path cwd (path_join (p # es)) = text_path cwd p @ es"
proof -
  let ?t = "join_with ''/'' (p # es)"
  have split: "split_on CHR ''/'' ?t = split_on CHR ''/'' p @ es" using split_join_plain es by blast
  have f: "filter (\<lambda>e. e \<noteq> []) (p # es) = p # es" using es(2) p by (auto simp: filter_id_conv dest: plain_elemD)
  have pj: "path_join (p # es) = path_clean ?t" unfolding path_join_def f by simp
  have pre: "has_prefix ?t ''/'' \<longleftrightarrow> has_prefix p ''/''" using p es(1) by (cases p) (auto simp: join_with_Cons has_prefix_iff)
  have tail: "clean_elems r st (split_on CHR ''/'' ?t) = clean_elems r st (split_on CHR ''/'' p) @ es" for r st
    unfolding split clean_elems_append using clean_elems_plain [of es] es(2) by simp
  have sl: "CHR ''/'' \<notin> set x" "x \<noteq> []" if "x \<in> set (clean_elems r [] (split_on CHR ''/'' ?t))" for x r
    using clean_elems_set [OF that] split_on_parts by auto
  have rejoin: "split_on CHR ''/'' (join_with ''/'' (clean_elems r [] (split_on CHR ''/'' ?t))) = clean_elems r [] (split_on CHR ''/'' ?t)" for r
    using split_on_join [of "clean_elems r [] (split_on CHR ''/'' ?t)" "CHR ''/''"] sl(1) es(1) by (auto simp: tail)
  show ?thesis
  proof (cases "has_prefix p ''/''")
    case True
    have "path_join (p # es) = CHR ''/'' # join_with ''/'' (clean_elems True [] (split_on CHR ''/'' ?t))"
      using True by (simp add: pj path_clean_def pre del: join_with.simps split_on.simps)
    then have "text_path cwd (path_join (p # es)) = clean_elems True [] (clean_elems True [] (split_on CHR ''/'' ?t))"
      by (simp add: text_path_def join_path_def has_prefix_iff rejoin)
    also have "\<dots> = clean_elems True [] (split_on CHR ''/'' ?t)" using clean_rooted_again [of "[]" "split_on CHR ''/'' ?t"] by simp
    finally show ?thesis using True by (simp add: tail text_path_def join_path_def)
  next
    case False
    let ?o = "clean_elems False [] (split_on CHR ''/'' ?t)"
    have o: "?o \<noteq> []" using es(1) by (simp add: tail)
    then have "path_join (p # es) = join_with ''/'' ?o"
      using False by (simp add: pj path_clean_def pre del: join_with.simps split_on.simps)
    moreover have "\<not> has_prefix (join_with ''/'' ?o) ''/''"
    proof -
      obtain x xs where x: "?o = x # xs" using o by (cases ?o) auto
      with sl [of x False] obtain c y where "x = c # y" "c \<noteq> CHR ''/''" by (cases x) auto
      then show ?thesis by (cases xs) (auto simp: x has_prefix_iff)
    qed
    ultimately have "text_path cwd (path_join (p # es)) = clean_elems True (rev cwd) ?o"
      by (simp add: text_path_def join_path_def rejoin)
    also have "\<dots> = clean_elems True (rev cwd) (split_on CHR ''/'' ?t)" using clean_relative_again [of "[]" "rev cwd" "split_on CHR ''/'' ?t"] by simp
    finally show ?thesis using False by (simp add: tail text_path_def join_path_def)
  qed
qed

end
