(* ===== verification/OciStorage.thy ===== *)
theory OciStorage
  imports Disk "HOL-Library.AList"
begin

text \<open>
  The registry's storage (\<open>internal/provisioner/oci/storage.go\<close>, \<open>manifest.go\<close>, \<open>upload.go\<close>):
  content-addressed blobs, tags and upload sessions on the disk of theory Disk.

  The record \<open>oci_env\<close> holds what the code takes from elsewhere: the storage root, the hex digits
  of SHA-256 (\<open>sha\<close>), \<open>json.Unmarshal\<close> into \<open>Manifest\<close> (\<open>unmarshal\<close>), and, by the
  number of the disk operation that follows, the names \<open>os.CreateTemp\<close> picks (\<open>tmp_name\<close>), the
  session ids of \<open>uuid.New\<close> (\<open>new_uuid\<close>) and the time (\<open>clock\<close>). The facts relied on are \<open>env_ok\<close>: a
  digest has 64 lower-case hex digits, and the root and the temporary names
  are plain path elements. A reader is its content with the error it ends in, if any. Locks only
  order the operations and are left out.
\<close>

record Descriptor =
  DMediaType :: string
  Digest :: string
  DSize :: int

record Manifest =
  SchemaVersion :: int
  MMediaType :: string
  Config :: "Descriptor option"
  Layers :: "Descriptor list"
  Subject :: "Descriptor option"
  Blobs :: "Descriptor list"

record oci_env =
  root :: path
  sha :: "string \<Rightarrow> string"
  unmarshal :: "string \<Rightarrow> string + Manifest"
  tmp_name :: "nat \<Rightarrow> string"
  new_uuid :: "nat \<Rightarrow> string"
  clock :: "nat \<Rightarrow> time"

type_synonym reader = "string \<times> string option"
type_synonym 'a oci = "(disk, string + 'a) state"

definition hexlike :: "string \<Rightarrow> bool" where
  "hexlike h \<longleftrightarrow> length h = 64 \<and> list_all (\<lambda>c. c \<in> set ''0123456789abcdef'') h"

definition env_ok :: "oci_env \<Rightarrow> bool" where
  "env_ok env \<longleftrightarrow> (\<forall>c. hexlike (sha env c)) \<and> (\<forall>n. plain_elem (tmp_name env n)) \<and>
     (\<forall>e \<in> set (root env). plain_elem e)"

section \<open>Storage\<close>

abbreviation tmp_dir :: "oci_env \<Rightarrow> path" where "tmp_dir env \<equiv> root env @ [''tmp'']"
abbreviation blob_dir :: "oci_env \<Rightarrow> path" where "blob_dir env \<equiv> root env @ [''blobs'', ''sha256'']"
abbreviation repo_dir :: "oci_env \<Rightarrow> path" where "repo_dir env \<equiv> root env @ [''repositories'']"

definition storage_init :: "oci_env \<Rightarrow> unit oci" where
  "storage_init env =
     try_io ''failed to create root directory: '' (os_MkdirAll (root env)) (\<lambda>_.
     try_io ''failed to create blob directory: '' (os_MkdirAll (blob_dir env)) (\<lambda>_.
     try_io ''failed to create repositories directory: '' (os_MkdirAll (repo_dir env)) (\<lambda>_. do {
       r \<leftarrow> os_Stat (root env @ [''oci-layout'']);
       case r of
         Inl (NotExist m) \<Rightarrow>
           try_io ''failed to create oci-layout: ''
             (os_WriteFile (root env @ [''oci-layout''])
               (''{'' @ [CHR 0x22] @ ''imageLayoutVersion'' @ [CHR 0x22] @ '':'' @ [CHR 0x22] @ ''1.0.0'' @ [CHR 0x22] @ ''}''))
             (\<lambda>_. State_Monad.return (Inr ()))
       | _ \<Rightarrow> State_Monad.return (Inr ()) })))"

text \<open>The directory a root argument names for a process that runs in \<open>cwd\<close>.\<close>

definition abs_path :: "path \<Rightarrow> string \<Rightarrow> path" where
  "abs_path cwd p = join_path (if has_prefix p ''/'' then [] else cwd) p"

definition NewStorage :: "oci_env \<Rightarrow> path \<Rightarrow> string \<Rightarrow> oci_env oci" where
  "NewStorage env cwd rootArg =
     (if rootArg = '''' then State_Monad.return (Inl ''storage root cannot be empty'')
      else try_op ''failed to initialize storage: '' (storage_init (env\<lparr>root := abs_path cwd rootArg\<rparr>))
        (\<lambda>_. State_Monad.return (Inr (env\<lparr>root := abs_path cwd rootArg\<rparr>))))"

definition BlobPath :: "oci_env \<Rightarrow> string \<Rightarrow> string + path" where
  "BlobPath env digest =
     (if length digest < 8 \<or> take 7 digest \<noteq> ''sha256:'' then Inl (''invalid digest format: '' @ digest)
      else if length (drop 7 digest) \<noteq> 64 then Inl (''invalid sha256 digest length: '' @ digest)
      else Inr (join_path (blob_dir env) (drop 7 digest)))"

definition BlobExists :: "oci_env \<Rightarrow> string \<Rightarrow> bool oci" where
  "BlobExists env digest =
     (case BlobPath env digest of
        Inl e \<Rightarrow> State_Monad.return (Inl e)
      | Inr p \<Rightarrow> do {
          r \<leftarrow> os_Stat p;
          State_Monad.return (case r of
            Inr n \<Rightarrow> Inr True
          | Inl (NotExist m) \<Rightarrow> Inr False
          | Inl (IoError m) \<Rightarrow> Inl (''failed to check blob existence: '' @ m)) })"

definition node_size :: "node \<Rightarrow> int" where
  "node_size n = (case n of FileN c \<Rightarrow> int (length c) | DirN \<Rightarrow> 4096)"

definition BlobSize :: "oci_env \<Rightarrow> string \<Rightarrow> int oci" where
  "BlobSize env digest =
     (case BlobPath env digest of
        Inl e \<Rightarrow> State_Monad.return (Inl e)
      | Inr p \<Rightarrow> do {
          r \<leftarrow> os_Stat p;
          State_Monad.return (case r of
            Inr n \<Rightarrow> Inr (node_size n)
          | Inl (NotExist m) \<Rightarrow> Inl (''blob not found: '' @ digest)
          | Inl (IoError m) \<Rightarrow> Inl (''failed to stat blob: '' @ m)) })"

text \<open>\<open>ReadBlob\<close> together with reading the returned reader to its end.\<close>

definition ReadBlob :: "oci_env \<Rightarrow> string \<Rightarrow> string oci" where
  "ReadBlob env digest =
     (case BlobPath env digest of
        Inl e \<Rightarrow> State_Monad.return (Inl e)
      | Inr p \<Rightarrow> do {
          r \<leftarrow> os_ReadFile p;
          State_Monad.return (case r of
            Inr c \<Rightarrow> Inr c
          | Inl (NotExist m) \<Rightarrow> Inl (''blob not found: '' @ digest)
          | Inl (IoError m) \<Rightarrow> Inl (''failed to open blob: '' @ m)) })"

text \<open>\<open>WriteBlob\<close> after the temporary file exists, up to the point where it is committed.\<close>

definition commit_blob :: "oci_env \<Rightarrow> path \<Rightarrow> string \<Rightarrow> string oci" where
  "commit_blob env tmpPath actual =
     (case BlobPath env actual of
        Inl e \<Rightarrow> State_Monad.return (Inl e)
      | Inr finalPath \<Rightarrow>
          try_io ''failed to create blob directory: '' (os_MkdirAll (butlast finalPath)) (\<lambda>_. do {
            st \<leftarrow> os_Stat finalPath;
            case st of
              Inr n \<Rightarrow> do { _ \<leftarrow> os_Remove tmpPath; State_Monad.return (Inr actual) }
            | Inl e \<Rightarrow> try_io ''failed to rename temp file: '' (os_Rename tmpPath finalPath)
                (\<lambda>_. State_Monad.return (Inr actual)) }))"

definition fill_blob :: "oci_env \<Rightarrow> reader \<Rightarrow> string \<Rightarrow> path \<Rightarrow> string oci" where
  "fill_blob env rd expectedDigest tmpPath =
     try_io ''failed to write blob data: '' (os_WriteFile tmpPath (fst rd)) (\<lambda>_.
     case snd rd of
       Some e \<Rightarrow> State_Monad.return (Inl (''failed to write blob data: '' @ e))
     | None \<Rightarrow>
         try_io ''failed to sync blob data: '' os_touch (\<lambda>_.
         try_io ''failed to close temp file: '' os_touch (\<lambda>_.
           if expectedDigest \<noteq> '''' \<and> ''sha256:'' @ sha env (fst rd) \<noteq> expectedDigest
           then State_Monad.return (Inl (''digest mismatch: expected '' @ expectedDigest @ '', got sha256:'' @ sha env (fst rd)))
           else commit_blob env tmpPath (''sha256:'' @ sha env (fst rd)))))"

definition WriteBlob :: "oci_env \<Rightarrow> reader \<Rightarrow> string \<Rightarrow> string oci" where
  "WriteBlob env rd expectedDigest =
     try_io ''failed to create tmp directory: '' (os_MkdirAll (tmp_dir env)) (\<lambda>_. do {
       n \<leftarrow> op_number;
       try_io ''failed to create temp file: '' (os_CreateTemp (tmp_dir env) (tmp_name env n)) (\<lambda>tmpPath. do {
         r \<leftarrow> fill_blob env rd expectedDigest tmpPath;
         case r of
           Inr dg \<Rightarrow> State_Monad.return (Inr dg)
         | Inl e \<Rightarrow> do { _ \<leftarrow> os_Remove tmpPath; State_Monad.return (Inl e) } }) })"

definition DeleteBlob :: "oci_env \<Rightarrow> string \<Rightarrow> unit oci" where
  "DeleteBlob env digest =
     (case BlobPath env digest of
        Inl e \<Rightarrow> State_Monad.return (Inl e)
      | Inr p \<Rightarrow> do {
          r \<leftarrow> os_Remove p;
          State_Monad.return (case r of
            Inl (IoError m) \<Rightarrow> Inl (''failed to delete blob: '' @ m)
          | _ \<Rightarrow> Inr ()) })"

definition RepositoryPath :: "oci_env \<Rightarrow> string \<Rightarrow> path" where
  "RepositoryPath env name = join_path (repo_dir env) name"

definition HealthCheck :: "oci_env \<Rightarrow> unit oci" where
  "HealthCheck env =
     try_io ''storage root not accessible: '' (os_Stat (root env)) (\<lambda>_.
     try_io ''oci-layout marker not found: '' (os_Stat (root env @ [''oci-layout''])) (\<lambda>_.
     try_io ''tmp directory not writable: '' (os_MkdirAll (tmp_dir env)) (\<lambda>_. do {
       n \<leftarrow> op_number;
       try_io ''storage not writable: '' (os_CreateTemp (tmp_dir env) (tmp_name env n)) (\<lambda>p. do {
         _ \<leftarrow> os_touch;
         _ \<leftarrow> os_Remove p;
         State_Monad.return (Inr ()) }) })))"
section \<open>Manifests and tags\<close>

abbreviation refs_dir :: "oci_env \<Rightarrow> string \<Rightarrow> path" where
  "refs_dir env repo \<equiv> RepositoryPath env repo @ [''refs'']"

definition PutTag :: "oci_env \<Rightarrow> string \<Rightarrow> string \<Rightarrow> string \<Rightarrow> unit oci" where
  "PutTag env repo tag digest =
     (if \<not> has_prefix digest ''sha256:'' \<or> length digest \<noteq> 71
      then State_Monad.return (Inl (''invalid digest format: '' @ digest))
      else if tag = '''' \<or> contains tag ''/'' \<or> contains tag ''..''
      then State_Monad.return (Inl (''invalid tag name: '' @ tag))
      else
        try_io ''failed to create refs directory: '' (os_MkdirAll (refs_dir env repo)) (\<lambda>_.
        try_io ''failed to write tag file: '' (os_WriteFile (join_path (refs_dir env repo) tag) digest)
          (\<lambda>_. State_Monad.return (Inr ()))))"

definition GetTag :: "oci_env \<Rightarrow> string \<Rightarrow> string \<Rightarrow> string oci" where
  "GetTag env repo tag = do {
     r \<leftarrow> os_ReadFile (join_path (refs_dir env repo) tag);
     State_Monad.return (case r of
       Inr data \<Rightarrow> Inr (trim_space data)
     | Inl (NotExist m) \<Rightarrow> Inl (''tag not found: '' @ tag)
     | Inl (IoError m) \<Rightarrow> Inl (''failed to read tag: '' @ m)) }"

definition DeleteTag :: "oci_env \<Rightarrow> string \<Rightarrow> string \<Rightarrow> unit oci" where
  "DeleteTag env repo tag = do {
     r \<leftarrow> os_Remove (join_path (refs_dir env repo) tag);
     State_Monad.return (case r of
       Inr u \<Rightarrow> Inr ()
     | Inl (NotExist m) \<Rightarrow> Inl (''tag not found: '' @ tag)
     | Inl (IoError m) \<Rightarrow> Inl (''failed to delete tag: '' @ m)) }"

definition ListTags :: "oci_env \<Rightarrow> string \<Rightarrow> (string list) oci" where
  "ListTags env repo = do {
     r \<leftarrow> os_ReadDir (refs_dir env repo);
     State_Monad.return (case r of
       Inr entries \<Rightarrow> Inr (map fst (filter (\<lambda>e. \<not> snd e) entries))
     | Inl (NotExist m) \<Rightarrow> Inr []
     | Inl (IoError m) \<Rightarrow> Inl (''failed to read refs directory: '' @ m)) }"

definition PutManifest :: "oci_env \<Rightarrow> string \<Rightarrow> string \<Rightarrow> string \<Rightarrow> string oci" where
  "PutManifest env repo reference manifestData =
     (case unmarshal env manifestData of
        Inl e \<Rightarrow> State_Monad.return (Inl (''invalid manifest JSON: '' @ e))
      | Inr manifest \<Rightarrow>
          if SchemaVersion manifest = 0 then State_Monad.return (Inl ''manifest missing schemaVersion'')
          else
            try_op ''failed to write manifest blob: ''
              (WriteBlob env (manifestData, None) (''sha256:'' @ sha env manifestData)) (\<lambda>_.
            if has_prefix reference ''sha256:'' then State_Monad.return (Inr (''sha256:'' @ sha env manifestData))
            else try_op ''failed to update tag: ''
                   (PutTag env repo reference (''sha256:'' @ sha env manifestData))
                   (\<lambda>_. State_Monad.return (Inr (''sha256:'' @ sha env manifestData)))))"

definition GetManifest :: "oci_env \<Rightarrow> string \<Rightarrow> string \<Rightarrow> (string \<times> string) oci" where
  "GetManifest env repo reference =
     try_op ''failed to resolve tag: ''
       (if has_prefix reference ''sha256:'' then State_Monad.return (Inr reference)
        else GetTag env repo reference) (\<lambda>digest.
     try_op ''manifest not found: '' (ReadBlob env digest) (\<lambda>data.
     State_Monad.return (Inr (data, digest))))"

definition ManifestExists :: "oci_env \<Rightarrow> string \<Rightarrow> string \<Rightarrow> bool oci" where
  "ManifestExists env repo reference =
     (if has_prefix reference ''sha256:'' then BlobExists env reference
      else do {
        r \<leftarrow> GetTag env repo reference;
        case r of
          Inl e \<Rightarrow> State_Monad.return (if contains e ''not found'' then Inr False else Inl e)
        | Inr digest \<Rightarrow> BlobExists env digest })"

definition DeleteManifest :: "oci_env \<Rightarrow> string \<Rightarrow> string \<Rightarrow> unit oci" where
  "DeleteManifest env repo reference =
     (if has_prefix reference ''sha256:''
      then State_Monad.return (Inl ''cannot delete manifest by digest, only tags can be deleted'')
      else DeleteTag env repo reference)"

section \<open>Upload sessions\<close>

text \<open>
  The manager's map of sessions beside the disk. A session's open handle is its path with whether
  it is still open; appending through it writes at the end of the file, which only this session
  writes. An empty chunk makes no write, so it succeeds even on a closed handle.
\<close>

record UploadSession =
  UUID :: string
  FilePath :: path
  FileOpen :: bool
  Offset :: int
  CreatedAt :: time

record registry =
  rdisk :: disk
  sessions :: "(string \<times> UploadSession) list"

type_synonym 'a upl = "(registry, string + 'a) state"

definition on_disk :: "(disk, 'a) state \<Rightarrow> (registry, 'a) state" where
  "on_disk m = State (\<lambda>g. case run_state m (rdisk g) of (x, d) \<Rightarrow> (x, g\<lparr>rdisk := d\<rparr>))"

definition get_sessions :: "(registry, (string \<times> UploadSession) list) state" where
  "get_sessions = State (\<lambda>g. (sessions g, g))"

definition put_session :: "string \<Rightarrow> UploadSession \<Rightarrow> (registry, unit) state" where
  "put_session k s = State (\<lambda>g. ((), g\<lparr>sessions := AList.update k s (sessions g)\<rparr>))"

definition drop_session :: "string \<Rightarrow> (registry, unit) state" where
  "drop_session k = State (\<lambda>g. ((), g\<lparr>sessions := AList.delete k (sessions g)\<rparr>))"

definition os_Append :: "path \<Rightarrow> string \<Rightarrow> unit io" where
  "os_Append p c = syscall (\<lambda>ns.
     case look ns p of
       Some (FileN old) \<Rightarrow> (Inr (), put p (FileN (old @ c)) ns)
     | _ \<Rightarrow> (Inr (), ns))"

definition CreateSession :: "oci_env \<Rightarrow> string upl" where
  "CreateSession env = do {
     n \<leftarrow> on_disk op_number;
     r \<leftarrow> on_disk (
       try_io ''failed to create tmp directory: '' (os_MkdirAll (tmp_dir env)) (\<lambda>_. do {
         k \<leftarrow> op_number;
         try_io ''failed to create temp file: '' (os_CreateTemp (tmp_dir env) (tmp_name env k))
           (\<lambda>p. State_Monad.return (Inr p)) }));
     case r of
       Inl e \<Rightarrow> State_Monad.return (Inl e)
     | Inr p \<Rightarrow> do {
         t \<leftarrow> on_disk op_number;
         put_session (new_uuid env n)
           \<lparr>UUID = new_uuid env n, FilePath = p, FileOpen = True, Offset = 0, CreatedAt = clock env t\<rparr>;
         State_Monad.return (Inr (new_uuid env n)) } }"

definition GetSession :: "string \<Rightarrow> UploadSession upl" where
  "GetSession sessionID = do {
     ss \<leftarrow> get_sessions;
     State_Monad.return (case map_of ss sessionID of
       None \<Rightarrow> Inl (''upload session not found: '' @ sessionID)
     | Some s \<Rightarrow> Inr s) }"

text \<open>\<open>io.Copy\<close> of a reader into the session's file.\<close>

definition copy_to_session :: "UploadSession \<Rightarrow> reader \<Rightarrow> int upl" where
  "copy_to_session s rd = do {
     r \<leftarrow> (if fst rd = '''' then State_Monad.return (Inr ())
          else if \<not> FileOpen s
          then State_Monad.return (Inl (''write '' @ path_text (FilePath s) @ '': file already closed''))
          else on_disk (try_io '''' (os_Append (FilePath s) (fst rd)) (\<lambda>_. State_Monad.return (Inr ()))));
     State_Monad.return (case r of
       Inl e \<Rightarrow> Inl e
     | Inr u \<Rightarrow> (case snd rd of Some e \<Rightarrow> Inl e | None \<Rightarrow> Inr (int (length (fst rd))))) }"

definition AppendData :: "string \<Rightarrow> reader \<Rightarrow> int upl" where
  "AppendData sessionID rd = do {
     ss \<leftarrow> get_sessions;
     case map_of ss sessionID of
       None \<Rightarrow> State_Monad.return (Inl (''upload session not found: '' @ sessionID))
     | Some s \<Rightarrow> do {
         r \<leftarrow> copy_to_session s rd;
         case r of
           Inl e \<Rightarrow> State_Monad.return (Inl (''failed to write upload data: '' @ e))
         | Inr written \<Rightarrow> do {
             put_session sessionID (s\<lparr>Offset := Offset s + written\<rparr>);
             State_Monad.return (Inr (Offset s + written)) } } }"

text \<open>\<open>File.Close\<close>: a second close fails; the handle is closed even when the first one reports an error.\<close>

definition close_session :: "string \<Rightarrow> UploadSession \<Rightarrow> unit upl" where
  "close_session sessionID s =
     (if \<not> FileOpen s
      then State_Monad.return (Inl (''close '' @ path_text (FilePath s) @ '': file already closed''))
      else do {
        put_session sessionID (s\<lparr>FileOpen := False\<rparr>);
        on_disk (try_io '''' os_touch (\<lambda>_. State_Monad.return (Inr ()))) })"

definition CompleteSession :: "oci_env \<Rightarrow> string \<Rightarrow> string \<Rightarrow> string upl" where
  "CompleteSession env sessionID expectedDigest = do {
     ss \<leftarrow> get_sessions;
     case map_of ss sessionID of
       None \<Rightarrow> State_Monad.return (Inl (''upload session not found: '' @ sessionID))
     | Some s \<Rightarrow> do {
         c \<leftarrow> close_session sessionID s;
         case c of
           Inl e \<Rightarrow> State_Monad.return (Inl (''failed to close upload file: '' @ e))
         | Inr u \<Rightarrow> do {
             r \<leftarrow> on_disk (
               try_io ''failed to open upload file: '' (os_ReadFile (FilePath s)) (\<lambda>data.
               try_op ''failed to write blob: '' (WriteBlob env (data, None) expectedDigest)
                 (\<lambda>dg. State_Monad.return (Inr dg))));
             case r of
               Inl e \<Rightarrow> State_Monad.return (Inl e)
             | Inr dg \<Rightarrow> do {
                 drop_session sessionID;
                 _ \<leftarrow> on_disk (os_Remove (FilePath s));
                 State_Monad.return (Inr dg) } } } }"

definition discard_session :: "string \<times> UploadSession \<Rightarrow> (registry, unit) state" where
  "discard_session ks = do {
     _ \<leftarrow> close_session (fst ks) (snd ks);
     _ \<leftarrow> on_disk (os_Remove (FilePath (snd ks)));
     drop_session (fst ks) }"

definition CancelSession :: "string \<Rightarrow> unit upl" where
  "CancelSession sessionID = do {
     ss \<leftarrow> get_sessions;
     case map_of ss sessionID of
       None \<Rightarrow> State_Monad.return (Inl (''upload session not found: '' @ sessionID))
     | Some s \<Rightarrow> do {
         discard_session (sessionID, s);
         State_Monad.return (Inr ()) } }"

fun discard_all :: "(string \<times> UploadSession) list \<Rightarrow> (registry, nat) state" where
  "discard_all [] = State_Monad.return 0"
| "discard_all (ks # kss) = do {
     discard_session ks;
     n \<leftarrow> discard_all kss;
     State_Monad.return (Suc n) }"

definition CleanupExpiredSessions :: "oci_env \<Rightarrow> time \<Rightarrow> (registry, nat) state" where
  "CleanupExpiredSessions env maxAge = do {
     t \<leftarrow> on_disk op_number;
     ss \<leftarrow> get_sessions;
     discard_all (filter (\<lambda>ks. clock env t - CreatedAt (snd ks) > maxAge) ss) }"

section \<open>What the operations do to the disk\<close>

abbreviation slot :: "oci_env \<Rightarrow> string \<Rightarrow> path" where "slot env h \<equiv> blob_dir env @ [h]"

lemma hexlike_plain:
  assumes "hexlike h"
  shows "plain_elem h"
proof -
  have "CHR ''/'' \<notin> set h" using assms by (auto simp: hexlike_def list_all_iff)
  moreover have "length h = 64" using assms by (simp add: hexlike_def)
  ultimately show ?thesis unfolding plain_elem_def by (intro conjI notI) simp_all
qed

lemma BlobPath_digest [simp]: "hexlike h \<Longrightarrow> BlobPath env (''sha256:'' @ h) = Inr (slot env h)"
  using hexlike_plain [of h] by (simp add: BlobPath_def hexlike_def)

text \<open>The paths a blob write may touch besides the slot: the way to the blobs and everything in \<open>tmp\<close>.\<close>

definition footprint :: "oci_env \<Rightarrow> path set" where
  "footprint env = above (root env) \<union> {root env, root env @ [''blobs''], root env @ [''blobs'', ''sha256'']} \<union>
     {p. \<exists>s. p = tmp_dir env @ s}"

text \<open>The answer of a write and what it leaves: the blob at its digest and everything else as it was.\<close>

definition stored :: "oci_env \<Rightarrow> path set \<Rightarrow> (path \<Rightarrow> node option) \<Rightarrow> path set \<Rightarrow> string \<Rightarrow> (path \<times> node) list \<Rightarrow> bool" where
  "stored env S V T c ns \<longleftrightarrow>
     (\<exists>n. kept S (V(slot env (sha env c) \<mapsto> n)) T ns \<and> map_of ns (slot env (sha env c)) = Some n \<and>
        (n = FileN c \<or> slot env (sha env c) \<notin> S \<or> V (slot env (sha env c)) = Some n) \<and>
        open_to ns (slot env (sha env c)))"

definition writable :: "oci_env \<Rightarrow> path set \<Rightarrow> path set \<Rightarrow> bool" where
  "writable env S T \<longleftrightarrow> S \<inter> footprint env = {} \<and> (\<forall>x. tmp_dir env @ [x] \<notin> T) \<and> (\<forall>h. slot env h \<notin> T)"

lemma writable_notin:
  "writable env S T \<Longrightarrow> q \<in> S \<Longrightarrow> q \<notin> above (tmp_dir env) \<and> q \<noteq> tmp_dir env"
  "writable env S T \<Longrightarrow> q \<in> S \<Longrightarrow> q \<notin> above (blob_dir env) \<and> q \<noteq> blob_dir env"
  "writable env S T \<Longrightarrow> root env @ [''tmp'', x] \<notin> S" "writable env S T \<Longrightarrow> root env @ [''tmp'', x] \<notin> T"
  "writable env S T \<Longrightarrow> root env @ [''blobs'', ''sha256'', h] \<notin> T"
  by (auto simp: writable_def footprint_def)

lemma commit_blob_triple:
  assumes w: "writable env S T" and h: "hexlike (sha env c)" and p: "p = tmp_dir env @ [x]"
  shows "triple (kept (insert p S) (V(p \<mapsto> FileN c)) T) (commit_blob env p (''sha256:'' @ sha env c))
    (\<lambda>r ns. case r of Inl e \<Rightarrow> kept S V T ns
       | Inr a \<Rightarrow> a = ''sha256:'' @ sha env c \<and> stored env S V T c ns)"
proof -
  let ?f = "slot env (sha env c)"
  have pS: "p \<notin> S" "p \<notin> T" "?f \<notin> T" using writable_notin [OF w] p by auto
  have drop: "kept (insert p S) (V(p \<mapsto> FileN c)) T ns \<Longrightarrow> kept S V T ns" for ns
    using pS by (auto simp: kept_def)
  have mk: "triple (kept (insert p S) (V(p \<mapsto> FileN c)) T) (os_MkdirAll (butlast ?f))
     (\<lambda>r ns. kept (insert p S) (V(p \<mapsto> FileN c)) T ns \<and> (r = Inr () \<longrightarrow> open_to ns ?f))"
    by (rule triple_weaken [OF mkdir_triple]) (use writable_notin(2) [OF w] p in \<open>auto simp: open_to_above butlast_append simp del: look.simps\<close>)
  let ?Q = "\<lambda>r ns. case r of Inl e \<Rightarrow> kept S V T ns
       | Inr a \<Rightarrow> a = ''sha256:'' @ sha env c \<and> stored env S V T c ns"
  have dedup: "triple (\<lambda>ns. (kept (insert p S) (V(p \<mapsto> FileN c)) T ns \<and> open_to ns ?f) \<and> look ns ?f = Some n)
      (do { _ \<leftarrow> os_Remove p; State_Monad.return (Inr (''sha256:'' @ sha env c)) }) ?Q" for n
  proof (rule triple_bind)
    show "triple (\<lambda>ns. (kept (insert p S) (V(p \<mapsto> FileN c)) T ns \<and> open_to ns ?f) \<and> look ns ?f = Some n)
      (os_Remove p) (\<lambda>_ ns. kept (insert ?f S) (V(?f \<mapsto> n)) (T \<union> above ?f) ns \<and> (?f \<in> S \<longrightarrow> V ?f = Some n))"
      by (rule triple_pure, rule triple_weaken [OF remove_triple [of p "insert ?f S" "V(?f \<mapsto> n)" "T \<union> above ?f"]])
        (use pS p in \<open>auto simp: kept_def open_to_above\<close>)
  qed (rule triple_return, auto simp: stored_def kept_def open_to_above)
  have fresh: "triple (\<lambda>ns. (kept (insert p S) (V(p \<mapsto> FileN c)) T ns \<and> open_to ns ?f))
      (try_io pre (os_Rename p ?f) (\<lambda>_. State_Monad.return (Inr (''sha256:'' @ sha env c)))) ?Q" for pre
  proof (rule try_io_triple)
    show "triple (\<lambda>ns. (kept (insert p S) (V(p \<mapsto> FileN c)) T ns \<and> open_to ns ?f)) (os_Rename p ?f)
      (\<lambda>r ns. case r of Inl e \<Rightarrow> kept S V (T \<union> above ?f) ns
        | Inr u \<Rightarrow> kept S (V(?f \<mapsto> FileN c)) (T \<union> above ?f) ns \<and> map_of ns ?f = Some (FileN c))"
      by (rule triple_weaken [OF rename_triple [of p S "blob_dir env" "sha env c" "T \<union> above ?f" V c]])
        (use pS p in \<open>auto simp: kept_def open_to_above\<close>)
  qed (auto intro!: triple_return simp: stored_def kept_def open_to_above)
  show ?thesis
    unfolding commit_blob_def BlobPath_digest [OF h] sum.case
  proof (rule try_io_triple [OF mk])
    fix u
    show "triple (\<lambda>ns. kept (insert p S) (V(p \<mapsto> FileN c)) T ns \<and> (Inr u = Inr () \<longrightarrow> open_to ns ?f))
      (do { st \<leftarrow> os_Stat ?f;
            case st of Inr n \<Rightarrow> do { _ \<leftarrow> os_Remove p; State_Monad.return (Inr (''sha256:'' @ sha env c)) }
            | Inl e \<Rightarrow> try_io ''failed to rename temp file: '' (os_Rename p ?f)
                (\<lambda>_. State_Monad.return (Inr (''sha256:'' @ sha env c))) }) ?Q"
      by (rule triple_bind [OF reader_triples(1)], rule triple_sum;
          rule triple_weaken [OF fresh] triple_weaken [OF dedup]; auto)
  qed (use drop in auto)
qed

text \<open>The contract of a blob write, whatever fails on the way.\<close>

definition write_post :: "oci_env \<Rightarrow> reader \<Rightarrow> string \<Rightarrow> path set \<Rightarrow> (path \<Rightarrow> node option) \<Rightarrow> path set \<Rightarrow>
    string + string \<Rightarrow> (path \<times> node) list \<Rightarrow> bool" where
  "write_post env rd expected S V T r ns =
     (case r of
        Inl e \<Rightarrow> kept S V T ns
      | Inr a \<Rightarrow> a = ''sha256:'' @ sha env (fst rd) \<and> snd rd = None \<and> (expected = '''' \<or> expected = a) \<and>
                stored env S V T (fst rd) ns)"

lemma fill_blob_triple:
  assumes w: "writable env S T" and h: "\<And>c. hexlike (sha env c)" and p: "p = tmp_dir env @ [x]"
  shows "triple (kept S V T) (fill_blob env rd expected p) (write_post env rd expected S V T)"
proof -
  let ?S = "insert p S" and ?V = "V(p \<mapsto> FileN (fst rd))"
  have pS: "p \<notin> S" "p \<notin> T" using writable_notin [OF w] p by auto
  have drop: "kept ?S ?V T ns \<Longrightarrow> kept S V T ns" for ns using pS by (auto simp: kept_def)
  have wr: "triple (kept S V T) (os_WriteFile p (fst rd))
      (\<lambda>r ns. kept S V T ns \<and> (r = Inr () \<longrightarrow> kept ?S ?V T ns))"
    unfolding p by (rule triple_weaken [OF write_triple]) (use pS p in \<open>auto simp: kept_def\<close>)
  have end_: "triple (kept ?S ?V T)
     (if expected \<noteq> '''' \<and> ''sha256:'' @ sha env (fst rd) \<noteq> expected then State_Monad.return (Inl m)
      else commit_blob env p (''sha256:'' @ sha env (fst rd))) (write_post env rd expected S V T)"
    if "snd rd = None" for m
  proof (rule triple_if)
    assume "\<not> (expected \<noteq> '''' \<and> ''sha256:'' @ sha env (fst rd) \<noteq> expected)"
    then show "triple (kept ?S ?V T) (commit_blob env p (''sha256:'' @ sha env (fst rd))) (write_post env rd expected S V T)"
      by (intro triple_weaken [OF commit_blob_triple [OF w h p]]) (use that in \<open>auto simp: write_post_def split: sum.splits\<close>)
  qed (rule triple_return, use drop in \<open>simp add: write_post_def\<close>)
  have mid: "triple (kept ?S ?V T) (case snd rd of
       Some e \<Rightarrow> State_Monad.return (Inl (''failed to write blob data: '' @ e))
     | None \<Rightarrow>
         try_io ''failed to sync blob data: '' os_touch (\<lambda>_.
         try_io ''failed to close temp file: '' os_touch (\<lambda>_.
           if expected \<noteq> '''' \<and> ''sha256:'' @ sha env (fst rd) \<noteq> expected
           then State_Monad.return (Inl (''digest mismatch: expected '' @ expected @ '', got sha256:'' @ sha env (fst rd)))
           else commit_blob env p (''sha256:'' @ sha env (fst rd))))) (write_post env rd expected S V T)"
  proof (cases "snd rd")
    case None
    show ?thesis
      unfolding None option.case
      by (intro try_io_triple [OF touch_triple] end_ [OF None]) (use drop in \<open>simp_all add: write_post_def\<close>)
  qed (use drop in \<open>auto simp: write_post_def intro!: triple_return\<close>)
  show ?thesis
    unfolding fill_blob_def
    by (rule try_io_triple [OF wr], simp add: write_post_def, rule triple_pre [OF mid]) simp
qed

lemma WriteBlob_triple:
  assumes w: "writable env S T" and h: "\<And>c. hexlike (sha env c)"
  shows "triple (kept S V T) (WriteBlob env rd expected) (write_post env rd expected S V T)"
proof -
  have cleanup: "triple (kept S V T)
      (do { r \<leftarrow> fill_blob env rd expected p;
            case r of Inr dg \<Rightarrow> State_Monad.return (Inr dg)
            | Inl e \<Rightarrow> do { _ \<leftarrow> os_Remove p; State_Monad.return (Inl e) } })
      (write_post env rd expected S V T)" if p: "p = tmp_dir env @ [x]" for p x
  proof (rule triple_bind [OF fill_blob_triple [OF w h p]], rule triple_sum)
    fix e :: string and r :: "string + string"
    have "p \<notin> S" using writable_notin(3) [OF w] p by simp
    assume "r = Inl e"
    then show "triple (write_post env rd expected S V T r) (do { _ \<leftarrow> os_Remove p; State_Monad.return (Inl e) })
        (write_post env rd expected S V T)"
      by (intro triple_bind [OF triple_pre [OF remove_triple [OF \<open>p \<notin> S\<close>]]] triple_return) (auto simp: write_post_def)
  qed (auto intro!: triple_return)
  have create: "triple (kept S V T) (os_CreateTemp (tmp_dir env) x)
      (\<lambda>r ns. kept S V T ns \<and> r \<in> insert (Inr (tmp_dir env @ [x])) (range Inl))" for x
    by (rule create_triple) (use writable_notin [OF w] in auto)
  show ?thesis
    unfolding WriteBlob_def
    by (intro try_io_triple [OF mkdir_triple] triple_bind [OF op_number_triple] triple_pre [OF try_io_triple [OF create]]
        triple_when cleanup) (use writable_notin(1) [OF w] in \<open>auto simp: write_post_def\<close>)
qed

section \<open>The blobs stay content-addressed\<close>

definition blobs :: "oci_env \<Rightarrow> (path \<times> node) list \<Rightarrow> string \<Rightarrow> node option" where
  "blobs env ns h = map_of ns (slot env h)"

definition slots :: "oci_env \<Rightarrow> path set" where
  "slots env = range (slot env)"

definition blobs_ok :: "oci_env \<Rightarrow> (path \<times> node) list \<Rightarrow> bool" where
  "blobs_ok env ns \<longleftrightarrow> (\<forall>h n. blobs env ns h = Some n \<longrightarrow> (\<exists>c. n = FileN c \<and> sha env c = h))"

definition safe :: "oci_env \<Rightarrow> (disk, 'a) state \<Rightarrow> bool" where
  "safe env m \<longleftrightarrow> triple (blobs_ok env) m (\<lambda>_. blobs_ok env)"

lemma kept_self: "kept S (map_of ns) {} ns"
  by (simp add: kept_def)

lemma kept_blobs: "kept (slots env) V T ns \<Longrightarrow> blobs env ns h = V (slot env h)"
  by (simp add: kept_def blobs_def slots_def)

lemma kept_blobs_ok: "kept (slots env) (map_of ns0) T ns \<Longrightarrow> blobs_ok env ns0 \<Longrightarrow> blobs_ok env ns"
  using kept_blobs [of env "map_of ns0" T ns] by (simp add: blobs_ok_def blobs_def)

lemma writable_slots [simp]: "writable env (slots env) {}"
  by (auto simp: writable_def footprint_def slots_def above_def)

text \<open>A triple about the slots, for all their contents, gives the invariant.\<close>

lemma safeI:
  assumes "\<And>V. triple (kept (slots env) V {}) m (\<lambda>_. kept (slots env) V {})"
  shows "safe env m"
  unfolding safe_def triple_def
  using assms kept_self kept_blobs_ok unfolding triple_def by blast

lemma safe_intros:
  "safe env (State_Monad.return x)"
  "safe env m \<Longrightarrow> (\<And>x. safe env (k x)) \<Longrightarrow> safe env (State_Monad.bind m k)"
  "safe env m' \<Longrightarrow> (\<And>x. safe env (k' x)) \<Longrightarrow> safe env (try_io pre m' k')"
  "safe env m'' \<Longrightarrow> (\<And>x. safe env (k'' x)) \<Longrightarrow> safe env (try_op pre m'' k'')"
  "safe env op_number" "safe env os_touch" "safe env (os_Stat p)" "safe env (os_ReadFile p)" "safe env (os_ReadDir p)"
  unfolding safe_def
  by (blast intro: triple_return triple_bind try_io_triple try_op_triple op_number_triple touch_triple
      triple_weaken [OF reader_triples(1)] triple_weaken [OF reader_triples(2)] triple_weaken [OF reader_triples(3)])+

lemma safe_sum: "(\<And>e. safe env (f e)) \<Longrightarrow> (\<And>x. safe env (g x)) \<Longrightarrow> safe env (case r of Inl e \<Rightarrow> f e | Inr x \<Rightarrow> g x)"
  by (cases r) auto

lemma safe_if: "safe env m \<Longrightarrow> safe env m' \<Longrightarrow> safe env (if b then m else m')"
  by simp

text \<open>Removing a file never breaks the invariant; a directory or a file may be made anywhere else.\<close>

lemma safe_Remove: "safe env (os_Remove p)"
proof -
  have "blobs_ok env ns \<Longrightarrow> blobs_ok env (del p ns)" for ns
    by (auto simp: blobs_ok_def blobs_def split: if_splits)
  then show ?thesis
    unfolding safe_def os_Remove_def by (intro triple_syscall) (auto split: sum.split node.split)
qed

lemma safe_MkdirAll: "(\<And>h. slot env h \<notin> above p \<and> slot env h \<noteq> p) \<Longrightarrow> safe env (os_MkdirAll p)"
  by (rule safeI, rule triple_weaken [OF mkdir_triple]) (auto simp: slots_def)

lemma safe_WriteFile: "p @ [x] \<notin> slots env \<Longrightarrow> safe env (os_WriteFile (p @ [x]) c)"
  by (rule safeI, rule triple_weaken [OF write_triple]) auto

lemma safe_CreateTemp: "p @ [x] \<notin> slots env \<Longrightarrow> safe env (os_CreateTemp p x)"
  by (rule safeI, rule triple_weaken [OF create_triple]) auto

lemma safe_tmp:
  "safe env (os_MkdirAll (tmp_dir env))" "safe env (os_CreateTemp (tmp_dir env) x)"
  by (rule safe_MkdirAll safe_CreateTemp, force simp: slots_def above_def)+

lemma env_okD: "env_ok env \<Longrightarrow> hexlike (sha env c)"
  by (simp add: env_ok_def)

lemma write_post_ok:
  assumes "write_post env rd expected (slots env) (map_of ns0) {} r ns" "blobs_ok env ns0"
  shows "blobs_ok env ns"
proof (cases r)
  case (Inl e)
  then show ?thesis using assms kept_blobs_ok by (simp add: write_post_def)
next
  case (Inr a)
  let ?h = "sha env (fst rd)"
  obtain n where k: "kept (slots env) ((map_of ns0)(slot env ?h \<mapsto> n)) {} ns"
    and n: "n = FileN (fst rd) \<or> blobs env ns0 ?h = Some n"
    using assms(1) Inr by (auto simp: write_post_def stored_def slots_def blobs_def)
  have "blobs env ns h = (if h = ?h then Some n else blobs env ns0 h)" for h
    using kept_blobs [OF k, of h] by (simp add: blobs_def)
  then show ?thesis using n assms(2) by (auto simp: blobs_ok_def split: if_splits)
qed

lemma safe_WriteBlob: "env_ok env \<Longrightarrow> safe env (WriteBlob env rd expected)"
  unfolding safe_def triple_def
  using tripleD [OF WriteBlob_triple [OF writable_slots]] kept_self env_okD write_post_ok by blast

lemma safe_readers:
  "safe env (BlobExists env dg)" "safe env (BlobSize env dg)" "safe env (ReadBlob env dg)" "safe env (GetTag env repo tag)"
  "safe env (ListTags env repo)" "safe env (GetManifest env repo reference)" "safe env (ManifestExists env repo reference)"
proof -
  show b: "safe env (BlobExists env dg)" for dg
    unfolding BlobExists_def by (intro safe_sum safe_intros)
  show "safe env (BlobSize env dg)"
    unfolding BlobSize_def by (intro safe_sum safe_intros)
  show r: "safe env (ReadBlob env dg)" for dg
    unfolding ReadBlob_def by (intro safe_sum safe_intros)
  show t: "safe env (GetTag env repo tag)" for tag
    unfolding GetTag_def by (intro safe_intros)
  show "safe env (ListTags env repo)"
    unfolding ListTags_def by (intro safe_intros)
  show "safe env (GetManifest env repo reference)"
    unfolding GetManifest_def by (intro safe_if safe_intros r t)
  show "safe env (ManifestExists env repo reference)"
    unfolding ManifestExists_def by (intro safe_if safe_sum safe_intros b t)
qed

lemma safe_deletes: "safe env (DeleteBlob env dg)" "safe env (DeleteTag env repo tag)" "safe env (DeleteManifest env repo tag)"
proof -
  show "safe env (DeleteBlob env dg)"
    unfolding DeleteBlob_def by (intro safe_sum safe_intros safe_Remove)
  show t: "safe env (DeleteTag env repo tag)"
    unfolding DeleteTag_def by (intro safe_intros safe_Remove)
  show "safe env (DeleteManifest env repo tag)"
    unfolding DeleteManifest_def by (intro safe_if safe_intros t)
qed

lemma safe_HealthCheck: "safe env (HealthCheck env)"
  unfolding HealthCheck_def by (intro safe_intros safe_tmp safe_Remove)

lemma safe_storage_init: "safe env (storage_init env)"
proof -
  have mk: "safe env (os_MkdirAll (root env @ s))" if "length s < 3" for s
    by (rule safe_MkdirAll) (use that in \<open>auto simp: above_def append_eq_append_conv2 dest: arg_cong [where f = length]\<close>)
  have w: "safe env (os_WriteFile (root env @ [''oci-layout'']) c)" for c
    by (rule safe_WriteFile) (auto simp: slots_def)
  have c: "safe env (case r of Inl (NotExist m) \<Rightarrow> a | _ \<Rightarrow> b)" if "safe env a" "safe env b"
    for r :: "io_err + node" and a b :: "unit oci"
    using that by (auto split: sum.split io_err.split)
  show ?thesis
    unfolding storage_init_def
    by (intro safe_intros w c mk [of "[]", simplified] mk [of "[''blobs'', ''sha256'']", simplified]
        mk [of "[''repositories'']", simplified])
qed

text \<open>Repository names whose elements do not climb: \<open>net/http\<close>'s multiplexer only passes such paths.\<close>

definition repo_ok :: "string \<Rightarrow> bool" where
  "repo_ok repo \<longleftrightarrow> ''..'' \<notin> set (split_on CHR ''/'' repo)"

lemma clean_elems_stays: "''..'' \<notin> set es \<Longrightarrow> \<exists>s. clean_elems r st es = rev st @ s"
proof (induction es arbitrary: st)
  case (Cons e es)
  then obtain u v where "clean_elems r st es = rev st @ u" "clean_elems r (e # st) es = rev (e # st) @ v"
    by (meson list.set_intros(2))
  then show ?case using Cons.prems by auto
qed simp

lemma RepositoryPath_below: "repo_ok repo \<Longrightarrow> \<exists>s. RepositoryPath env repo = repo_dir env @ s"
  using clean_elems_stays [of "split_on CHR ''/'' repo" True "rev (repo_dir env)"]
  by (simp add: RepositoryPath_def join_path_def repo_ok_def)

lemma contains_mid [simp]: "contains (u @ t @ v) t"
  by (auto simp: contains_iff)

lemma tag_path: "\<not> contains tag ''/'' \<Longrightarrow> \<not> contains tag ''..'' \<Longrightarrow> tag \<noteq> '''' \<Longrightarrow>
    join_path d tag = (if tag = ''.'' then d else d @ [tag])"
  using contains_single [of tag "CHR ''/''"] split_on_no_sep [of "CHR ''/''" tag] contains_mid [of "[]" "''..''" "[]"]
  by (auto simp: join_path_def)

lemma PutTag_triple:
  assumes r: "repo_ok repo"
    and S: "\<And>q. q \<in> S \<Longrightarrow> q \<notin> above (repo_dir env) \<and> (\<forall>s. q \<noteq> repo_dir env @ s)"
    and T: "\<And>q s. q \<in> T \<Longrightarrow> q \<noteq> repo_dir env @ s"
  shows "triple (kept S V T) (PutTag env repo tag dg)
    (\<lambda>r ns. kept S V T ns \<and> (r = Inr () \<longrightarrow>
       look ns (join_path (refs_dir env repo) tag) = Some (FileN dg) \<and> open_to ns (join_path (refs_dir env repo) tag)))"
proof -
  obtain s where s: "refs_dir env repo = repo_dir env @ s @ [''refs'']"
    using RepositoryPath_below [OF r, of env] by auto
  have mk: "triple (kept S V T) (os_MkdirAll (refs_dir env repo)) (\<lambda>_. kept S V T)"
  proof (rule triple_weaken [OF mkdir_triple])
    show "q \<notin> above (refs_dir env repo) \<and> q \<noteq> refs_dir env repo" if "q \<in> S" for q
      using S [OF that] above_appendD [of q "repo_dir env" "s @ [''refs'']"] s by auto
  qed auto
  have w: "triple (kept S V T) (os_WriteFile (join_path (refs_dir env repo) tag) dg)
     (\<lambda>r ns. kept S V T ns \<and> (r = Inr () \<longrightarrow>
       look ns (join_path (refs_dir env repo) tag) = Some (FileN dg) \<and> open_to ns (join_path (refs_dir env repo) tag)))"
    if t: "\<not> contains tag ''/''" "\<not> contains tag ''..''" "tag \<noteq> ''''"
  proof -
    obtain p x where px: "join_path (refs_dir env repo) tag = p @ [x]" "\<exists>u. p @ [x] = repo_dir env @ u"
    proof (cases "tag = ''.''")
      case True
      show thesis
        by (rule that [of "RepositoryPath env repo" "''refs''"]) (use True s tag_path [OF t, of "refs_dir env repo"] in auto)
    next
      case False
      show thesis
        by (rule that [of "refs_dir env repo" tag]) (use False s tag_path [OF t, of "refs_dir env repo"] in auto)
    qed
    show ?thesis unfolding px(1) look_simps by (rule write_triple) (use S T px(2) in blast)+
  qed
  show ?thesis
    unfolding PutTag_def
    by (intro triple_if triple_return try_io_triple [OF mk] try_io_triple [OF w]) auto
qed


lemma slot_not_repo: "slot env h \<notin> above (repo_dir env) \<and> (\<forall>s. slot env h \<noteq> repo_dir env @ s)"
  by (auto simp: above_def append_eq_append_conv2 append_eq_Cons_conv)

lemma safe_PutTag: "repo_ok repo \<Longrightarrow> safe env (PutTag env repo tag dg)"
  by (rule safeI, rule triple_weaken [OF PutTag_triple]) (use slot_not_repo in \<open>auto simp: slots_def\<close>)

lemma safe_PutManifest: "env_ok env \<Longrightarrow> repo_ok repo \<Longrightarrow> safe env (PutManifest env repo reference data)"
  unfolding PutManifest_def by (intro safe_sum safe_if safe_intros safe_WriteBlob safe_PutTag)

section \<open>The contract of a blob write\<close>

text \<open>
  The specification: a write that fails leaves the blobs alone; one that succeeds answers the
  digest of the content and adds the content under it, keeping a blob that is there already.
\<close>

definition write_spec :: "oci_env \<Rightarrow> reader \<Rightarrow> string \<Rightarrow> (string \<Rightarrow> node option) \<Rightarrow> string + string \<Rightarrow> (string \<Rightarrow> node option) \<Rightarrow> bool" where
  "write_spec env rd expected B r B' \<longleftrightarrow>
     (case r of
        Inl e \<Rightarrow> B' = B
      | Inr a \<Rightarrow> snd rd = None \<and> a = ''sha256:'' @ sha env (fst rd) \<and> expected \<in> {'''', a} \<and>
          (\<exists>n. B' = B(sha env (fst rd) \<mapsto> n) \<and> (n = FileN (fst rd) \<or> B (sha env (fst rd)) = Some n)))"

lemma write_post_spec:
  assumes "write_post env rd expected (slots env) (map_of ns0) {} r ns"
  shows "write_spec env rd expected (blobs env ns0) r (blobs env ns)"
proof (cases r)
  case (Inl e)
  then show ?thesis
    using assms kept_blobs [of env "map_of ns0" "{}" ns] by (auto simp: write_post_def write_spec_def blobs_def)
next
  case (Inr a)
  let ?h = "sha env (fst rd)"
  obtain n where k: "kept (slots env) ((map_of ns0)(slot env ?h \<mapsto> n)) {} ns"
    and n: "n = FileN (fst rd) \<or> blobs env ns0 ?h = Some n"
    using assms Inr by (auto simp: write_post_def stored_def slots_def blobs_def)
  have "blobs env ns = (blobs env ns0)(?h \<mapsto> n)"
    using kept_blobs [OF k] by (auto simp: blobs_def)
  then show ?thesis using n assms Inr by (auto simp: write_post_def write_spec_def)
qed


lemma WriteBlob_spec:
  assumes "env_ok env" "run_state (WriteBlob env rd expected) d = (r, d')"
  shows "write_spec env rd expected (blobs env (nodes d)) r (blobs env (nodes d'))"
  using tripleD [OF WriteBlob_triple [OF writable_slots env_okD [OF assms(1)]] kept_self, of rd expected d] assms(2)
  by (intro write_post_spec) simp

lemma repo_not_footprint: "repo_dir env @ s \<notin> footprint env"
  by (auto simp: footprint_def above_def append_eq_append_conv2 append_eq_Cons_conv Cons_eq_append_conv)

lemma write_frame:
  assumes "env_ok env" "run_state (WriteBlob env rd expected) d = (r, d')"
  shows "map_of (nodes d') (repo_dir env @ s) = map_of (nodes d) (repo_dir env @ s)"
proof -
  let ?S = "{repo_dir env @ s}"
  have w: "writable env ?S {}" using repo_not_footprint by (simp add: writable_def)
  have "write_post env rd expected ?S (map_of (nodes d)) {} r (nodes d')"
    using tripleD [OF WriteBlob_triple [OF w env_okD [OF assms(1)]] kept_self, of rd expected d] assms(2) by simp
  then show ?thesis
    by (auto simp: write_post_def kept_def stored_def split: sum.splits)
qed

section \<open>Writes without faults succeed\<close>

text \<open>No file stands where a directory of the layout has to be.\<close>

definition clear :: "oci_env \<Rightarrow> (path \<times> node) list \<Rightarrow> bool" where
  "clear env ns \<longleftrightarrow> open_to ns (tmp_dir env) \<and> \<not> is_file (look ns (tmp_dir env)) \<and>
     open_to ns (blob_dir env) \<and> \<not> is_file (look ns (blob_dir env))"

definition clear_set :: "oci_env \<Rightarrow> path set" where
  "clear_set env = above (root env) \<union> {root env, tmp_dir env, root env @ [''blobs''], blob_dir env}"

lemma clear_kept: "clear env ns \<longleftrightarrow> kept {} V (clear_set env) ns"
  by (auto simp: clear_def kept_def open_to_above clear_set_def)

lemma clear_put: "clear env ns \<Longrightarrow> p \<notin> clear_set env \<Longrightarrow> clear env (put p n ns)"
  unfolding clear_kept [where V = "\<lambda>_. None"] by (rule kept_put) auto

lemma clear_simps [simp]: "root env @ [''tmp'', x] \<notin> clear_set env" "root env @ [''blobs'', ''sha256'', h] \<notin> clear_set env"
  by (auto simp: clear_set_def above_def)

lemma clear_mkdir: "clear env ns \<Longrightarrow> clear env (dirs_to_make ns p @ ns)"
  unfolding clear_kept [where V = "\<lambda>_. None"] kept_def using mkdir_frame(1) by blast

lemma tmp_mkdir_works:
  "works (\<lambda>i ns. clear env ns \<and> map_of ns (tmp_dir env @ [tmp_name env (Suc i)]) = None) (os_MkdirAll (tmp_dir env))
     (\<lambda>r i ns. \<exists>x. r = Inr x \<and> clear env ns \<and> dir_at ns (tmp_dir env) \<and> map_of ns (tmp_dir env @ [tmp_name env i]) = None)"
  unfolding os_MkdirAll_def
proof (rule works_syscall, goal_cases)
  case (1 i ns)
  then have c: "open_to ns (tmp_dir env)" "\<not> is_file (look ns (tmp_dir env))" by (auto simp: clear_def)
  show ?case
    using mkdir_ok(1,2) [OF c] clear_mkdir [of env ns "tmp_dir env"] 1
      mkdir_frame(2) [of "tmp_dir env @ [tmp_name env (Suc i)]" "tmp_dir env" ns]
    by (simp del: upt_Suc)
qed

lemma tmp_create_works:
  "works (\<lambda>i ns. clear env ns \<and> dir_at ns (tmp_dir env) \<and> map_of ns (tmp_dir env @ [x]) = None)
     (os_CreateTemp (tmp_dir env) x)
     (\<lambda>r i ns. \<exists>p. r = Inr p \<and> p = tmp_dir env @ [x] \<and> clear env ns \<and> dir_at ns (tmp_dir env) \<and>
        map_of ns p = Some (FileN []))"
  unfolding os_CreateTemp_def
  by (rule works_syscall) (simp add: resolve_dir clear_put dir_at_put)

lemma tmp_write_works:
  "works (\<lambda>i ns. clear env ns \<and> dir_at ns (tmp_dir env) \<and> is_file (map_of ns (tmp_dir env @ [x])))
     (os_WriteFile (tmp_dir env @ [x]) c)
     (\<lambda>r i ns. \<exists>u. r = Inr u \<and> clear env ns \<and> dir_at ns (tmp_dir env) \<and> map_of ns (tmp_dir env @ [x]) = Some (FileN c))"
  unfolding os_WriteFile_def
  by (rule works_syscall) (auto simp: resolve_dir clear_put dir_at_put butlast_append)

lemma commit_works:
  assumes h: "hexlike h"
  shows "works (\<lambda>i ns. clear env ns \<and> dir_at ns (tmp_dir env) \<and> map_of ns (tmp_dir env @ [x]) = Some (FileN c))
     (commit_blob env (tmp_dir env @ [x]) (''sha256:'' @ h)) (\<lambda>r i ns. r = Inr (''sha256:'' @ h))"
proof -
  have mk: "works (\<lambda>i ns. clear env ns \<and> dir_at ns (tmp_dir env) \<and> map_of ns (tmp_dir env @ [x]) = Some (FileN c))
      (os_MkdirAll (blob_dir env))
      (\<lambda>r i ns. \<exists>u. r = Inr u \<and> dir_at ns (blob_dir env) \<and> dir_at ns (tmp_dir env) \<and> map_of ns (tmp_dir env @ [x]) = Some (FileN c))"
    unfolding os_MkdirAll_def
  proof (rule works_syscall, goal_cases)
    case (1 i ns)
    then have c: "open_to ns (blob_dir env)" "\<not> is_file (look ns (blob_dir env))" by (auto simp: clear_def)
    show ?case using mkdir_ok [OF c] 1 by (simp del: upt_Suc map_of_append)
  qed
  have bl: "butlast (slot env h) = blob_dir env" by (simp add: butlast_append)
  have st: "works (\<lambda>i ns. dir_at ns (blob_dir env) \<and> dir_at ns (tmp_dir env) \<and> map_of ns (tmp_dir env @ [x]) = Some (FileN c))
      (os_Stat (slot env h))
      (\<lambda>r i ns. dir_at ns (blob_dir env) \<and> dir_at ns (tmp_dir env) \<and> map_of ns (tmp_dir env @ [x]) = Some (FileN c) \<and>
         ((\<exists>e. r = Inl e) \<longrightarrow> map_of ns (slot env h) = None))"
    unfolding os_Stat_def
    by (rule works_syscall) (auto simp: resolve_simp open_to_above dir_at_def split: option.splits)
  have rn: "works (\<lambda>i ns. dir_at ns (blob_dir env) \<and> dir_at ns (tmp_dir env) \<and> map_of ns (tmp_dir env @ [x]) = Some (FileN c) \<and>
         map_of ns (slot env h) = None) (os_Rename (tmp_dir env @ [x]) (slot env h)) (\<lambda>r i ns. \<exists>u. r = Inr u \<and> True)"
    unfolding os_Rename_def
    by (rule works_syscall) (auto simp: resolve_simp resolve_dir open_to_above dir_at_def butlast_append)
  have dd: "works P (do { _ \<leftarrow> os_Remove q; State_Monad.return (Inr a) }) (\<lambda>r i ns. r = Inr a)" for P q and a :: string
    by (rule works_bind [where R = "\<lambda>_ _ _. True"]) (auto simp: works_def os_Remove_def syscall_def finish_def faultless_def)
  have tail: "works (\<lambda>i ns. dir_at ns (blob_dir env) \<and> dir_at ns (tmp_dir env) \<and> map_of ns (tmp_dir env @ [x]) = Some (FileN c))
     (do { st \<leftarrow> os_Stat (slot env h);
            case st of Inr n \<Rightarrow> do { _ \<leftarrow> os_Remove (tmp_dir env @ [x]); State_Monad.return (Inr (''sha256:'' @ h)) }
            | Inl e \<Rightarrow> try_io ''failed to rename temp file: '' (os_Rename (tmp_dir env @ [x]) (slot env h))
                (\<lambda>_. State_Monad.return (Inr (''sha256:'' @ h))) }) (\<lambda>r i ns. r = Inr (''sha256:'' @ h))"
  proof (rule works_bind [OF st])
    fix r :: "io_err + node"
    let ?P = "\<lambda>(i::nat) ns. dir_at ns (blob_dir env) \<and> dir_at ns (tmp_dir env) \<and> map_of ns (tmp_dir env @ [x]) = Some (FileN c) \<and>
         ((\<exists>e. r = Inl e) \<longrightarrow> map_of ns (slot env h) = None)"
    show "works ?P (case r of Inr n \<Rightarrow> do { _ \<leftarrow> os_Remove (tmp_dir env @ [x]); State_Monad.return (Inr (''sha256:'' @ h)) }
            | Inl e \<Rightarrow> try_io ''failed to rename temp file: '' (os_Rename (tmp_dir env @ [x]) (slot env h))
                (\<lambda>_. State_Monad.return (Inr (''sha256:'' @ h)))) (\<lambda>r i ns. r = Inr (''sha256:'' @ h))"
    proof (cases r)
      case (Inl e)
      show ?thesis unfolding Inl sum.case
        by (rule works_pre [OF try_io_works [OF rn]]) (auto intro: works_return)
    next
      case (Inr n)
      show ?thesis unfolding Inr sum.case by (rule dd)
    qed
  qed
  show ?thesis
    unfolding commit_blob_def BlobPath_digest [OF h] sum.case bl
    by (rule try_io_works [OF mk], rule tail)
qed

lemma WriteBlob_works:
  assumes h: "\<And>c. hexlike (sha env c)" and e: "expected \<in> {'''', ''sha256:'' @ sha env c}"
  shows "works (\<lambda>i ns. clear env ns \<and> map_of ns (tmp_dir env @ [tmp_name env (Suc i)]) = None)
     (WriteBlob env (c, None) expected) (\<lambda>r i ns. r = Inr (''sha256:'' @ sha env c))"
proof -
  let ?P = "\<lambda>x (i::nat) ns. clear env ns \<and> dir_at ns (tmp_dir env) \<and> map_of ns (tmp_dir env @ [x]) = Some (FileN c)"
  have t: "works (?P x) os_touch (\<lambda>r i ns. \<exists>u::unit. r = Inr u \<and> ?P x i ns)" for x
    by (rule touch_works)
  have f: "works (\<lambda>i ns. clear env ns \<and> dir_at ns (tmp_dir env) \<and> is_file (map_of ns (tmp_dir env @ [x])))
      (fill_blob env (c, None) expected (tmp_dir env @ [x])) (\<lambda>r i ns. r = Inr (''sha256:'' @ sha env c))" for x
    unfolding fill_blob_def fst_conv snd_conv option.case
    by (rule try_io_works [OF tmp_write_works], rule try_io_works [OF t], rule try_io_works [OF t])
      (use e commit_works [OF h, of env x c c] in auto)
  have fin: "works (\<lambda>i ns. clear env ns \<and> dir_at ns (tmp_dir env) \<and> is_file (map_of ns (tmp_dir env @ [x])))
      (do { r \<leftarrow> fill_blob env (c, None) expected (tmp_dir env @ [x]);
            case r of Inr dg \<Rightarrow> State_Monad.return (Inr dg)
            | Inl e \<Rightarrow> do { _ \<leftarrow> os_Remove (tmp_dir env @ [x]); State_Monad.return (Inl e) } })
      (\<lambda>r i ns. r = Inr (''sha256:'' @ sha env c))" for x
  proof (rule works_bind [OF f])
    show "works (\<lambda>i ns. r = Inr (''sha256:'' @ sha env c))
       (case r of Inr dg \<Rightarrow> State_Monad.return (Inr dg)
            | Inl e \<Rightarrow> do { _ \<leftarrow> os_Remove (tmp_dir env @ [x]); State_Monad.return (Inl e) })
       (\<lambda>r i ns. r = Inr (''sha256:'' @ sha env c))" for r
      by (cases r) (auto simp: works_def)
  qed
  show ?thesis
    unfolding WriteBlob_def
  proof (rule try_io_works [OF tmp_mkdir_works], rule works_bind [OF op_number_works], rule works_pre, rule try_io_works [OF tmp_create_works])
    fix p x
    show "works (\<lambda>i ns. p = tmp_dir env @ [x] \<and> clear env ns \<and> dir_at ns (tmp_dir env) \<and> map_of ns p = Some (FileN []))
       (do { r \<leftarrow> fill_blob env (c, None) expected p;
            case r of Inr dg \<Rightarrow> State_Monad.return (Inr dg)
            | Inl e \<Rightarrow> do { _ \<leftarrow> os_Remove p; State_Monad.return (Inl e) } })
       (\<lambda>r i ns. r = Inr (''sha256:'' @ sha env c))"
      by (rule works_when, hypsubst, rule works_pre [OF fin]) simp
  qed simp
qed

section \<open>Manifests are read back\<close>

lemma trim_digest: "hexlike h \<Longrightarrow> trim_space (''sha256:'' @ h) = ''sha256:'' @ h"
proof (rule trim_space_id)
  fix c
  assume "hexlike h" "c \<in> set (''sha256:'' @ h)"
  then have "c \<in> set ''sha256:'' \<or> c \<in> set ''0123456789abcdef''" unfolding hexlike_def list_all_iff set_append by blast
  moreover have "list_all inner_byte ''sha256:''" "list_all inner_byte ''0123456789abcdef''" by code_simp+
  ultimately show "inner_byte c" unfolding list_all_iff by blast
qed

definition put_post :: "oci_env \<Rightarrow> string \<Rightarrow> string \<Rightarrow> string \<Rightarrow> (path \<Rightarrow> node option) \<Rightarrow> string + string \<Rightarrow> (path \<times> node) list \<Rightarrow> bool" where
  "put_post env repo reference data V r ns \<longleftrightarrow> (\<forall>a. r = Inr a \<longrightarrow>
     a = ''sha256:'' @ sha env data \<and> open_to ns (slot env (sha env data)) \<and>
     (\<exists>n. map_of ns (slot env (sha env data)) = Some n \<and> (n = FileN data \<or> V (slot env (sha env data)) = Some n)) \<and>
     (\<not> has_prefix reference ''sha256:'' \<longrightarrow>
        look ns (join_path (refs_dir env repo) reference) = Some (FileN a) \<and>
        open_to ns (join_path (refs_dir env repo) reference)))"

lemma PutManifest_triple:
  assumes e: "env_ok env" and r: "repo_ok repo"
  shows "triple (kept {slot env (sha env data)} V {}) (PutManifest env repo reference data) (put_post env repo reference data V)"
proof -
  let ?f = "slot env (sha env data)"
  have wr: "writable env {?f} {}" by (auto simp: writable_def footprint_def above_def)
  have w: "triple (kept {?f} V {}) (WriteBlob env (data, None) (''sha256:'' @ sha env data))
      (\<lambda>r ns. \<forall>a. r = Inr a \<longrightarrow> (\<exists>n. kept {?f} (V(?f \<mapsto> n)) (above ?f) ns \<and> (n = FileN data \<or> V ?f = Some n)))"
  proof (rule triple_weaken [OF WriteBlob_triple [OF wr env_okD [OF e]]], assumption)
    show "\<forall>a. r = Inr a \<longrightarrow> (\<exists>n. kept {?f} (V(?f \<mapsto> n)) (above ?f) ns \<and> (n = FileN data \<or> V ?f = Some n))"
      if wp: "write_post env (data, None) (''sha256:'' @ sha env data) {?f} V {} r ns" for r ns
    proof (intro allI impI)
      fix a assume "r = Inr a"
      then obtain n where n: "kept {?f} (V(?f \<mapsto> n)) {} ns" "open_to ns ?f" "n = FileN data \<or> V ?f = Some n"
        using wp unfolding write_post_def stored_def by (simp only: sum.case fst_conv) blast
      then have "kept {?f} (V(?f \<mapsto> n)) (above ?f) ns" unfolding kept_def open_to_above by blast
      with n show "\<exists>n. kept {?f} (V(?f \<mapsto> n)) (above ?f) ns \<and> (n = FileN data \<or> V ?f = Some n)" by blast
    qed
  qed
  have t: "triple (\<lambda>ns. \<exists>n. kept {?f} (V(?f \<mapsto> n)) (above ?f) ns \<and> (n = FileN data \<or> V ?f = Some n))
      (PutTag env repo reference dg)
      (\<lambda>r ns. (\<exists>n. kept {?f} (V(?f \<mapsto> n)) (above ?f) ns \<and> (n = FileN data \<or> V ?f = Some n)) \<and> (r = Inr () \<longrightarrow>
       look ns (join_path (refs_dir env repo) reference) = Some (FileN dg) \<and> open_to ns (join_path (refs_dir env repo) reference)))" for dg
  proof -
    have "triple (kept {?f} (V(?f \<mapsto> n)) (above ?f)) (PutTag env repo reference dg)
      (\<lambda>r ns. kept {?f} (V(?f \<mapsto> n)) (above ?f) ns \<and> (r = Inr () \<longrightarrow>
       look ns (join_path (refs_dir env repo) reference) = Some (FileN dg) \<and> open_to ns (join_path (refs_dir env repo) reference)))" for n
      by (rule PutTag_triple [OF r]) (use slot_not_repo in \<open>auto simp: above_def append_eq_append_conv2 append_eq_Cons_conv\<close>)
    then show ?thesis unfolding triple_def by blast
  qed
  have fin: "\<exists>n. kept {?f} (V(?f \<mapsto> n)) (above ?f) ns \<and> (n = FileN data \<or> V ?f = Some n) \<Longrightarrow>
     open_to ns ?f \<and> (\<exists>n. map_of ns ?f = Some n \<and> (n = FileN data \<or> V ?f = Some n))" for ns
    by (auto simp: kept_def open_to_above)
  show ?thesis
    unfolding PutManifest_def
    apply (intro triple_sum triple_if triple_return)
    subgoal by (simp add: put_post_def)
    subgoal by (simp add: put_post_def)
    subgoal
      apply (rule try_op_triple [OF w])
      subgoal by (simp add: put_post_def)
      apply (intro triple_if triple_return)
      subgoal using fin by (auto simp: put_post_def)
      apply (rule triple_pre [OF try_op_triple [OF t]])
      subgoal by (simp add: put_post_def)
      subgoal by (rule triple_return) (use fin in \<open>auto simp: put_post_def\<close>)
      subgoal by blast
      done
    done
qed


text \<open>Reading a manifest by tag when its tag file and its blob are there.\<close>

lemma run_ReadFile:
  assumes "faultless d" "open_to (nodes d) p" "look (nodes d) p = Some (FileN c)"
  shows "run_state (os_ReadFile p) d = (Inr c, d\<lparr>io_ops := Suc (io_ops d)\<rparr>)"
  using assms by (simp add: os_ReadFile_def syscall_def finish_def faultless_def resolve_simp)

lemma GetManifest_reads:
  assumes d: "faultless d" and h: "hexlike h"
    and t: "\<not> has_prefix tag ''sha256:''" "open_to (nodes d) (join_path (refs_dir env repo) tag)"
      "look (nodes d) (join_path (refs_dir env repo) tag) = Some (FileN (''sha256:'' @ h))"
    and b: "open_to (nodes d) (slot env h)" "map_of (nodes d) (slot env h) = Some (FileN c)"
  shows "fst (run_state (GetManifest env repo tag) d) = Inr (c, ''sha256:'' @ h)"
proof -
  have tag: "run_state (GetTag env repo tag) d = (Inr (''sha256:'' @ h), d\<lparr>io_ops := Suc (io_ops d)\<rparr>)"
    unfolding GetTag_def run_state_bind run_ReadFile [OF d t(2,3)] using trim_digest [OF h] by simp
  let ?d = "d\<lparr>io_ops := Suc (io_ops d)\<rparr>"
  have "run_state (os_ReadFile (slot env h)) ?d = (Inr c, ?d\<lparr>io_ops := Suc (io_ops ?d)\<rparr>)"
    by (rule run_ReadFile) (use b d in \<open>auto simp: faultless_def\<close>)
  then have "fst (run_state (ReadBlob env (''sha256:'' @ h)) ?d) = Inr c"
    unfolding ReadBlob_def BlobPath_digest [OF h] sum.case run_state_bind by simp
  then show ?thesis
    using t(1) tag unfolding GetManifest_def try_op_def run_state_bind
    by (auto split: prod.splits)
qed

section \<open>Properties\<close>

text \<open>
  C11. A blob write refines its specification whatever system call fails: an error leaves every
  blob as it was, and success means that the content was read to its end, that the answer is its
  digest and the expected one if one was given, and that the blobs are those before with the
  content added under its digest; tags and repositories are untouched. Without faults and with
  room in the layout a write whose digest matches does succeed.
\<close>

theorem WriteBlob_contract:
  assumes "env_ok env" and "run_state (WriteBlob env rd expected) d = (r, d')"
  shows "write_spec env rd expected (blobs env (nodes d)) r (blobs env (nodes d')) \<and>
    (\<forall>s. map_of (nodes d') (repo_dir env @ s) = map_of (nodes d) (repo_dir env @ s)) \<and>
    (faultless d \<and> clear env (nodes d) \<and> map_of (nodes d) (tmp_dir env @ [tmp_name env (Suc (io_ops d))]) = None \<and>
       snd rd = None \<and> expected \<in> {'''', ''sha256:'' @ sha env (fst rd)} \<longrightarrow>
     r = Inr (''sha256:'' @ sha env (fst rd)))"
proof (intro conjI allI impI)
  show "write_spec env rd expected (blobs env (nodes d)) r (blobs env (nodes d'))"
    by (rule WriteBlob_spec [OF assms])
  show "map_of (nodes d') (repo_dir env @ s) = map_of (nodes d) (repo_dir env @ s)" for s
    by (rule write_frame [OF assms])
  assume "faultless d \<and> clear env (nodes d) \<and> map_of (nodes d) (tmp_dir env @ [tmp_name env (Suc (io_ops d))]) = None \<and>
       snd rd = None \<and> expected \<in> {'''', ''sha256:'' @ sha env (fst rd)}"
  then show "r = Inr (''sha256:'' @ sha env (fst rd))"
    using worksD [OF WriteBlob_works [OF env_okD [OF assms(1)], of expected "fst rd"], of d r d'] assms(2)
    by (cases rd) auto
qed

definition oci_demo :: oci_env where
  "oci_demo = \<lparr>root = [''srv''], sha = (\<lambda>c. replicate 63 CHR ''0'' @ [if c = ''config'' then CHR ''1'' else CHR ''2'']),
     unmarshal = (\<lambda>c. Inr \<lparr>SchemaVersion = 2, MMediaType = '''', Config = None, Layers = [], Subject = None, Blobs = []\<rparr>),
     tmp_name = (\<lambda>n. CHR ''t'' # replicate n CHR ''x''), new_uuid = (\<lambda>n. CHR ''u'' # replicate n CHR ''x''),
     clock = (\<lambda>n. int n)\<rparr>"

definition demo_disk :: disk where
  "demo_disk = \<lparr>nodes = [], io_ops = 0, io_fault = (\<lambda>_. None)\<rparr>"

lemma oci_demo_ok: "env_ok oci_demo"
proof -
  have "hexlike (replicate 63 CHR ''0'' @ [x])" if "x = CHR ''1'' \<or> x = CHR ''2''" for x
    using that by (auto simp: hexlike_def list_all_iff)
  moreover have "plain_elem (CHR ''t'' # replicate n CHR ''x'')" for n
    by (auto simp: plain_elem_def)
  ultimately show ?thesis by (auto simp: env_ok_def oci_demo_def plain_elem_def)
qed

lemma demo_disk_ok: "faultless demo_disk" "clear env (nodes demo_disk)" "blobs_ok env (nodes demo_disk)"
  by (auto simp: faultless_def demo_disk_def clear_def blobs_ok_def blobs_def open_to_above look.simps split: if_splits)

theorem WriteBlob_contract_witness:
  "fst (run_state (WriteBlob oci_demo (''config'', None) '''') demo_disk) = Inr (''sha256:'' @ sha oci_demo ''config'') \<and>
   write_spec oci_demo (''config'', None) '''' (blobs oci_demo (nodes demo_disk)) (Inr (''sha256:'' @ sha oci_demo ''config''))
     (blobs oci_demo (nodes (snd (run_state (WriteBlob oci_demo (''config'', None) '''') demo_disk))))"
  using WriteBlob_contract [OF oci_demo_ok, of "(''config'', None)" "''''" demo_disk] demo_disk_ok
  by (cases "run_state (WriteBlob oci_demo (''config'', None) '''') demo_disk") (auto simp: demo_disk_def)

text \<open>
  A manifest stored under a tag is read back through that tag: after a successful put, reading
  the tag on a working disk returns the digest the put answered and a content with that digest,
  which is the content put unless a blob with the same digest was there before.
\<close>

lemma manifest_roundtrip:
  assumes "env_ok env" "repo_ok repo" "blobs_ok env (nodes d)" "\<not> has_prefix tag ''sha256:''"
    and "run_state (PutManifest env repo tag data) d = (Inr a, d')"
  shows "\<exists>c. fst (run_state (GetManifest env repo tag) (d'\<lparr>io_fault := (\<lambda>_. None)\<rparr>)) = Inr (c, a) \<and>
    sha env c = sha env data \<and> (blobs env (nodes d) (sha env data) = None \<longrightarrow> c = data)"
proof -
  let ?h = "sha env data"
  have p: "put_post env repo tag data (map_of (nodes d)) (Inr a) (nodes d')"
    using tripleD [OF PutManifest_triple [OF assms(1,2), of data "map_of (nodes d)" tag], of d] assms(5) kept_self by simp
  obtain n where n: "map_of (nodes d') (slot env ?h) = Some n" "n = FileN data \<or> blobs env (nodes d) ?h = Some n"
    using p by (auto simp: put_post_def blobs_def)
  then obtain c where c: "n = FileN c" "sha env c = ?h" "blobs env (nodes d) ?h = None \<longrightarrow> c = data"
    using assms(3) unfolding blobs_ok_def by (metis option.distinct(1))
  have "fst (run_state (GetManifest env repo tag) (d'\<lparr>io_fault := (\<lambda>_. None)\<rparr>)) = Inr (c, ''sha256:'' @ ?h)"
    by (rule GetManifest_reads) (use p n c assms env_okD in \<open>auto simp: put_post_def faultless_def\<close>)
  then show ?thesis using c p by (auto simp: put_post_def)
qed

lemma demo_put: "fst (run_state (PutManifest oci_demo ''app'' ''v1'' ''{}'') demo_disk) = Inr (''sha256:'' @ sha oci_demo ''{}'')"
  by code_simp

lemma manifest_roundtrip_instance:
  "\<exists>a d'. run_state (PutManifest oci_demo ''app'' ''v1'' ''{}'') demo_disk = (Inr a, d') \<and>
     fst (run_state (GetManifest oci_demo ''app'' ''v1'') (d'\<lparr>io_fault := (\<lambda>_. None)\<rparr>)) = Inr (''{}'', a)"
proof -
  obtain d' where r: "run_state (PutManifest oci_demo ''app'' ''v1'' ''{}'') demo_disk = (Inr (''sha256:'' @ sha oci_demo ''{}''), d')"
    using demo_put by (metis prod.collapse)
  have "repo_ok ''app''" by code_simp
  from manifest_roundtrip [OF oci_demo_ok this demo_disk_ok(3) _ r] r show ?thesis
    by (auto simp: demo_disk_def blobs_def)
qed

end
