(* ===== verification/OciUpload.thy ===== *)
theory OciUpload
  imports OciStorage
begin

text \<open>
  Properties of the upload sessions (\<open>internal/provisioner/oci/upload.go\<close>) over the definitions of
  theory OciStorage: the invariant every session operation keeps, a chunked upload from its first
  request to its blob, and what a failed completion leaves behind.
\<close>

lemma run_on_disk [simp]:
  "run_state (on_disk m) g = (fst (run_state m (rdisk g)), g\<lparr>rdisk := snd (run_state m (rdisk g))\<rparr>)"
  by (simp add: on_disk_def split: prod.splits)

lemma run_sessions [simp]:
  "run_state get_sessions g = (sessions g, g)"
  "run_state (put_session k s) g = ((), g\<lparr>sessions := AList.update k s (sessions g)\<rparr>)"
  "run_state (drop_session k) g = ((), g\<lparr>sessions := AList.delete k (sessions g)\<rparr>)"
  by (simp_all add: get_sessions_def put_session_def drop_session_def)

section \<open>Invariant\<close>

definition reg_ok :: "oci_env \<Rightarrow> registry \<Rightarrow> bool" where
  "reg_ok env g \<longleftrightarrow> blobs_ok env (nodes (rdisk g)) \<and>
     (\<forall>k s. (k, s) \<in> set (sessions g) \<longrightarrow> FilePath s \<in> range (\<lambda>x. tmp_dir env @ [x]))"

definition rsafe :: "oci_env \<Rightarrow> (registry, 'a) state \<Rightarrow> bool" where
  "rsafe env m \<longleftrightarrow> (\<forall>g. reg_ok env g \<longrightarrow> reg_ok env (snd (run_state m g)))"

lemma rsafe_intros:
  "rsafe env (State_Monad.return x)"
  "rsafe env m \<Longrightarrow> (\<And>x. rsafe env (k x)) \<Longrightarrow> rsafe env (State_Monad.bind m k)"
  "rsafe env get_sessions"
  by (auto simp: rsafe_def run_state_bind split: prod.splits)

lemma rsafe_disk: "safe env m \<Longrightarrow> rsafe env (on_disk m)"
  by (auto simp: rsafe_def reg_ok_def safe_def dest: tripleD)

lemma in_update: "(k, s) \<in> set (AList.update k' s' ss) \<Longrightarrow> (k = k' \<and> s = s') \<or> (k, s) \<in> set ss"
  by (induction ss) (auto split: if_splits)

lemma in_delete: "(k, s) \<in> set (AList.delete k' ss) \<Longrightarrow> (k, s) \<in> set ss"
  by (induction ss) (auto split: if_splits)

lemma rsafe_put: "FilePath s \<in> range (\<lambda>x. tmp_dir env @ [x]) \<Longrightarrow> rsafe env (put_session k s)"
  by (auto simp: rsafe_def reg_ok_def dest!: in_update)

lemma rsafe_drop: "rsafe env (drop_session k)"
  by (auto simp: rsafe_def reg_ok_def dest!: in_delete)

text \<open>A session's operations may rely on where its file is.\<close>

lemma rsafe_lookup:
  assumes "rsafe env m" "\<And>s. FilePath s \<in> range (\<lambda>x. tmp_dir env @ [x]) \<Longrightarrow> rsafe env (k s)"
  shows "rsafe env (do { ss \<leftarrow> get_sessions; case map_of ss sid of None \<Rightarrow> m | Some s \<Rightarrow> k s })"
  unfolding rsafe_def run_state_bind
proof (intro allI impI)
  fix g assume g: "reg_ok env g"
  show "reg_ok env (snd (case run_state get_sessions g of (ss, g') \<Rightarrow>
      run_state (case map_of ss sid of None \<Rightarrow> m | Some s \<Rightarrow> k s) g'))"
  proof (cases "map_of (sessions g) sid")
    case None
    then show ?thesis using assms(1) g by (simp add: rsafe_def)
  next
    case (Some s)
    then have "FilePath s \<in> range (\<lambda>x. tmp_dir env @ [x])"
      using g map_of_SomeD by (fastforce simp: reg_ok_def)
    then show ?thesis using assms(2) g Some by (simp add: rsafe_def)
  qed
qed

lemma safe_Append: "safe env (os_Append (tmp_dir env @ [x]) c)"
proof -
  have "blobs_ok env ns \<Longrightarrow> blobs_ok env (put (tmp_dir env @ [x]) n ns)" for ns n
    by (auto simp: blobs_ok_def blobs_def)
  then show ?thesis
    unfolding safe_def os_Append_def by (intro triple_syscall) (auto split: option.split node.split)
qed

lemma rsafe_sum: "(\<And>e. rsafe env (f e)) \<Longrightarrow> (\<And>x. rsafe env (g x)) \<Longrightarrow> rsafe env (case r of Inl e \<Rightarrow> f e | Inr x \<Rightarrow> g x)"
  by (cases r) auto

lemma rsafe_if: "rsafe env m \<Longrightarrow> rsafe env m' \<Longrightarrow> rsafe env (if b then m else m')"
  by simp

lemma rsafe_AppendData: "rsafe env (AppendData sid rd)"
  unfolding AppendData_def copy_to_session_def
  by (intro rsafe_lookup rsafe_intros rsafe_sum rsafe_if rsafe_disk safe_intros rsafe_put)
    (auto intro: safe_Append [simplified])

lemma rsafe_close: "FilePath s \<in> range (\<lambda>x. tmp_dir env @ [x]) \<Longrightarrow> rsafe env (close_session sid s)"
  unfolding close_session_def by (intro rsafe_intros rsafe_if rsafe_disk safe_intros rsafe_put) auto

lemma rsafe_bind_disk:
  assumes "triple (blobs_ok env) m (\<lambda>r ns. blobs_ok env ns \<and> A r)" "\<And>r. A r \<Longrightarrow> rsafe env (k r)"
  shows "rsafe env (do { r \<leftarrow> on_disk m; k r })"
  unfolding rsafe_def
proof (intro allI impI)
  fix g assume "reg_ok env g"
  then have "reg_ok env (g\<lparr>rdisk := snd (run_state m (rdisk g))\<rparr>)" "A (fst (run_state m (rdisk g)))"
    using tripleD [OF assms(1), of "rdisk g"] by (simp_all add: reg_ok_def)
  then show "reg_ok env (snd (run_state (do { r \<leftarrow> on_disk m; k r }) g))"
    using assms(2) by (simp add: run_state_bind rsafe_def)
qed

lemma new_tmp_triple:
  "triple (blobs_ok env)
     (try_io pre (os_MkdirAll (tmp_dir env)) (\<lambda>_. do {
         k \<leftarrow> op_number;
         try_io pre' (os_CreateTemp (tmp_dir env) (tmp_name env k)) (\<lambda>p. State_Monad.return (Inr p)) }))
     (\<lambda>r ns. blobs_ok env ns \<and> r \<in> range Inl \<union> range (\<lambda>x. Inr (tmp_dir env @ [x])))"
proof (rule triple_conj)
  have c: "triple (\<lambda>_. True) (os_CreateTemp (tmp_dir env) x)
      (\<lambda>r ns. r \<in> range Inl \<union> range (\<lambda>x. Inr (tmp_dir env @ [x])))" for x
    by (rule triple_weaken [OF create_triple [of _ _ "{}" "{}" "\<lambda>_. None"]]) (auto simp: kept_def)
  have m: "triple (blobs_ok env) (os_MkdirAll (tmp_dir env)) (\<lambda>_ _. True)" by (simp add: triple_def)
  show "triple (blobs_ok env)
     (try_io pre (os_MkdirAll (tmp_dir env)) (\<lambda>_. do {
         k \<leftarrow> op_number;
         try_io pre' (os_CreateTemp (tmp_dir env) (tmp_name env k)) (\<lambda>p. State_Monad.return (Inr p)) }))
     (\<lambda>r ns. r \<in> range Inl \<union> range (\<lambda>x. Inr (tmp_dir env @ [x])))"
    by (rule try_io_triple [OF m], simp, rule triple_bind [OF op_number_triple], rule try_io_triple [OF c])
      (auto intro!: triple_return)
qed (fold safe_def, intro safe_intros safe_tmp)

lemma rsafe_CreateSession: "rsafe env (CreateSession env)"
  unfolding CreateSession_def
  by (intro rsafe_intros rsafe_disk safe_intros rsafe_bind_disk [OF new_tmp_triple])
    (auto intro!: rsafe_intros rsafe_disk safe_intros rsafe_put)

lemma rsafe_CompleteSession: "env_ok env \<Longrightarrow> rsafe env (CompleteSession env sid expected)"
  unfolding CompleteSession_def
  by (intro rsafe_lookup rsafe_intros rsafe_sum rsafe_close rsafe_disk safe_intros safe_WriteBlob rsafe_drop safe_Remove)

lemma rsafe_discard: "FilePath (snd ks) \<in> range (\<lambda>x. tmp_dir env @ [x]) \<Longrightarrow> rsafe env (discard_session ks)"
  unfolding discard_session_def by (intro rsafe_intros rsafe_close rsafe_disk safe_Remove rsafe_drop)

lemma rsafe_CancelSession: "rsafe env (CancelSession sid)"
  unfolding CancelSession_def by (intro rsafe_lookup rsafe_intros rsafe_discard) simp_all

lemma rsafe_discard_all:
  "(\<And>ks. ks \<in> set kss \<Longrightarrow> FilePath (snd ks) \<in> range (\<lambda>x. tmp_dir env @ [x])) \<Longrightarrow> rsafe env (discard_all kss)"
proof (induction kss)
  case (Cons ks kss)
  then have "rsafe env (discard_all kss)" "rsafe env (discard_session ks)" by (simp_all add: rsafe_discard)
  then show ?case by (auto intro!: rsafe_intros)
qed (auto intro: rsafe_intros)


lemma rsafe_Cleanup: "rsafe env (CleanupExpiredSessions env maxAge)"
  unfolding rsafe_def CleanupExpiredSessions_def
proof (intro allI impI)
  fix g assume g: "reg_ok env g"
  let ?f = "\<lambda>ks. clock env (io_ops (rdisk g)) - CreatedAt (snd ks) > maxAge"
  have "rsafe env (discard_all (filter ?f (sessions g)))"
    by (rule rsafe_discard_all) (use g in \<open>auto simp: reg_ok_def\<close>)
  then show "reg_ok env (snd (run_state (do { t \<leftarrow> on_disk op_number; ss \<leftarrow> get_sessions;
      discard_all (filter (\<lambda>ks. clock env t - CreatedAt (snd ks) > maxAge) ss) }) g))"
    using g by (simp add: rsafe_def run_state_bind op_number_def)
qed


section \<open>A chunked upload\<close>

text \<open>What a client does: open a session, send the chunks, complete it.\<close>

fun append_chunks :: "string \<Rightarrow> string list \<Rightarrow> (registry, (string + int) list) state" where
  "append_chunks sid [] = State_Monad.return []"
| "append_chunks sid (c # cs) = do {
     r \<leftarrow> AppendData sid (c, None);
     rs \<leftarrow> append_chunks sid cs;
     State_Monad.return (r # rs) }"

definition upload_chunks :: "oci_env \<Rightarrow> string list \<Rightarrow> string \<Rightarrow> string upl" where
  "upload_chunks env cs expected = do {
     r \<leftarrow> CreateSession env;
     case r of
       Inl e \<Rightarrow> State_Monad.return (Inl e)
     | Inr sid \<Rightarrow> do { _ \<leftarrow> append_chunks sid cs; CompleteSession env sid expected } }"

definition fresh_names :: "oci_env \<Rightarrow> disk \<Rightarrow> bool" where
  "fresh_names env d \<longleftrightarrow> inj (tmp_name env) \<and> (\<forall>n \<ge> io_ops d. map_of (nodes d) (tmp_dir env @ [tmp_name env n]) = None)"

text \<open>The state in the middle of an upload of which \<open>c\<close> has arrived.\<close>

definition uploading :: "oci_env \<Rightarrow> string \<Rightarrow> string \<Rightarrow> (string \<Rightarrow> node option) \<Rightarrow> registry \<Rightarrow> bool" where
  "uploading env sid c B g \<longleftrightarrow>
     faultless (rdisk g) \<and> clear env (nodes (rdisk g)) \<and> fresh_names env (rdisk g) \<and> blobs env (nodes (rdisk g)) = B \<and>
     (\<exists>s x. map_of (sessions g) sid = Some s \<and> FileOpen s \<and> FilePath s = tmp_dir env @ [x] \<and>
        Offset s = int (length c) \<and> map_of (nodes (rdisk g)) (tmp_dir env @ [x]) = Some (FileN c))"

lemma CreateSession_uploading:
  assumes "faultless (rdisk g)" "clear env (nodes (rdisk g))" "fresh_names env (rdisk g)" "run_state (CreateSession env) g = (r, g')"
  shows "r = Inr (new_uuid env (io_ops (rdisk g))) \<and> uploading env (new_uuid env (io_ops (rdisk g))) '''' (blobs env (nodes (rdisk g))) g'"
proof -
  let ?d = "rdisk g"
  let ?x = "tmp_name env (Suc (io_ops ?d))"
  let ?ns = "dirs_to_make (nodes ?d) (tmp_dir env) @ nodes ?d"
  let ?d1 = "?d\<lparr>nodes := ?ns, io_ops := Suc (io_ops ?d)\<rparr>"
  let ?d2 = "?d\<lparr>nodes := put (tmp_dir env @ [?x]) (FileN []) ?ns, io_ops := Suc (Suc (io_ops ?d))\<rparr>"
  have c: "open_to (nodes ?d) (tmp_dir env)" "\<not> is_file (look (nodes ?d) (tmp_dir env))"
    using assms(2) by (auto simp: clear_def)
  have tmp: "map_of ?ns (tmp_dir env @ [y]) = map_of (nodes ?d) (tmp_dir env @ [y])" for y
    using mkdir_frame(2) [of "tmp_dir env @ [y]" "tmp_dir env" "nodes ?d"] by simp
  have mk: "run_state (os_MkdirAll (tmp_dir env)) ?d = (Inr (), ?d1)"
    using assms(1) mkdir_ok(1) [OF c] by (simp add: os_MkdirAll_def syscall_def finish_def faultless_def del: upt_Suc)
  have cr: "run_state (os_CreateTemp (tmp_dir env) ?x) ?d1 = (Inr (tmp_dir env @ [?x]), ?d2)"
    using assms(1,3) resolve_dir [OF mkdir_ok(2) [OF c]] tmp [of ?x]
    by (simp add: os_CreateTemp_def syscall_def finish_def faultless_def fresh_names_def del: map_of_append)
  let ?s = "\<lparr>UUID = new_uuid env (io_ops ?d), FilePath = tmp_dir env @ [?x], FileOpen = True, Offset = 0,
      CreatedAt = clock env (io_ops ?d2)\<rparr>"
  have run: "r = Inr (new_uuid env (io_ops ?d))"
    "g' = g\<lparr>rdisk := ?d2, sessions := AList.update (new_uuid env (io_ops ?d)) ?s (sessions g)\<rparr>"
    using assms(4) mk cr by (auto simp: CreateSession_def run_state_bind try_io_def op_number_def)
  have "blobs env (nodes ?d2) h = blobs env (nodes ?d) h" for h
    using mkdir_frame(2) [of "slot env h" "tmp_dir env" "nodes ?d"] by (auto simp: blobs_def above_def)
  moreover have "clear env (nodes ?d2)"
    using clear_put [OF clear_mkdir [OF assms(2)]] by simp
  moreover have "fresh_names env ?d2"
    using assms(3) tmp by (auto simp: fresh_names_def simp del: map_of_append dest!: injD)
  ultimately show ?thesis
    using assms(1) by (auto simp: uploading_def run faultless_def update_conv' fun_eq_iff)
qed

lemma AppendData_uploading:
  assumes u: "uploading env sid c B g" and r: "run_state (AppendData sid (b, None)) g = (r, g')"
  shows "r = Inr (int (length (c @ b))) \<and> uploading env sid (c @ b) B g'"
proof -
  obtain s x where s: "map_of (sessions g) sid = Some s" "FileOpen s" "FilePath s = tmp_dir env @ [x]"
      "Offset s = int (length c)" "map_of (nodes (rdisk g)) (tmp_dir env @ [x]) = Some (FileN c)"
    using u by (auto simp: uploading_def)
  let ?d = "rdisk g"
  let ?d' = "if b = '''' then ?d else ?d\<lparr>nodes := put (tmp_dir env @ [x]) (FileN (c @ b)) (nodes ?d), io_ops := Suc (io_ops ?d)\<rparr>"
  have ap: "b \<noteq> '''' \<Longrightarrow> run_state (os_Append (tmp_dir env @ [x]) b) ?d = (Inr (), ?d')"
    using u s by (simp add: os_Append_def syscall_def finish_def uploading_def faultless_def)
  have run: "r = Inr (int (length (c @ b)))"
    "g' = g\<lparr>rdisk := ?d', sessions := AList.update sid (s\<lparr>Offset := int (length (c @ b))\<rparr>) (sessions g)\<rparr>"
    using r s ap by (auto simp: AppendData_def copy_to_session_def run_state_bind try_io_def split: if_splits)
  have "blobs env (nodes ?d') = B" using u by (auto simp: uploading_def blobs_def fun_eq_iff)
  moreover have "clear env (nodes ?d')" using u clear_put by (auto simp: uploading_def)
  moreover have "fresh_names env ?d'" using u s by (auto simp: uploading_def fresh_names_def)
  moreover have "map_of (nodes ?d') (tmp_dir env @ [x]) = Some (FileN (c @ b))" using s by auto
  ultimately show ?thesis
    using u s by (auto simp: uploading_def run faultless_def update_conv')
qed

lemma append_chunks_uploading:
  "uploading env sid c B g \<Longrightarrow> run_state (append_chunks sid cs) g = (rs, g') \<Longrightarrow> uploading env sid (c @ concat cs) B g'"
proof (induction cs arbitrary: c g rs)
  case (Cons b cs)
  obtain r g1 where 1: "run_state (AppendData sid (b, None)) g = (r, g1)" by (metis prod.exhaust)
  obtain rs' g2 where 2: "run_state (append_chunks sid cs) g1 = (rs', g2)" by (metis prod.exhaust)
  have "g' = g2" using Cons.prems(2) 1 2 by (simp add: run_state_bind)
  then show ?case
    using Cons.IH [of "c @ b" g1 rs'] AppendData_uploading [OF Cons.prems(1) 1] 2 by simp
qed simp

lemma CompleteSession_uploading:
  assumes e: "env_ok env" and u: "uploading env sid c B g" and x: "expected \<in> {'''', ''sha256:'' @ sha env c}"
    and r: "run_state (CompleteSession env sid expected) g = (r, g')"
  shows "r = Inr (''sha256:'' @ sha env c) \<and> map_of (sessions g') sid = None \<and>
    write_spec env (c, None) expected B (Inr (''sha256:'' @ sha env c)) (blobs env (nodes (rdisk g')))"
proof -
  obtain s y where s: "map_of (sessions g) sid = Some s" "FileOpen s" "FilePath s = tmp_dir env @ [y]"
      "map_of (nodes (rdisk g)) (tmp_dir env @ [y]) = Some (FileN c)"
    and q: "faultless (rdisk g)" "clear env (nodes (rdisk g))" "fresh_names env (rdisk g)" "blobs env (nodes (rdisk g)) = B"
    using u by (auto simp: uploading_def)
  let ?d = "rdisk g"
  let ?d2 = "?d\<lparr>io_ops := Suc (Suc (io_ops ?d))\<rparr>"
  have tch: "run_state os_touch ?d = (Inr (), ?d\<lparr>io_ops := Suc (io_ops ?d)\<rparr>)"
    using q by (simp add: os_touch_def syscall_def finish_def faultless_def)
  have "open_to (nodes ?d) (tmp_dir env @ [y])" using q(2) by (auto simp: clear_def open_to_above)
  then have rd: "run_state (os_ReadFile (tmp_dir env @ [y])) (?d\<lparr>io_ops := Suc (io_ops ?d)\<rparr>) = (Inr c, ?d2)"
    using run_ReadFile [of "?d\<lparr>io_ops := Suc (io_ops ?d)\<rparr>" "tmp_dir env @ [y]" c] q s by (simp add: faultless_def)
  obtain w d3 where w: "run_state (WriteBlob env (c, None) expected) ?d2 = (w, d3)" by (metis prod.exhaust)
  have "w = Inr (''sha256:'' @ sha env c)"
    using worksD [OF WriteBlob_works [OF env_okD [OF e] x] _ _ w] q by (simp add: faultless_def fresh_names_def)
  moreover have "write_spec env (c, None) expected B w (blobs env (nodes d3))"
    using WriteBlob_spec [OF e w] q(4) by simp
  ultimately have ok: "w = Inr (''sha256:'' @ sha env c)"
     "write_spec env (c, None) expected B (Inr (''sha256:'' @ sha env c)) (blobs env (nodes d3))" by auto
  let ?d4 = "snd (run_state (os_Remove (tmp_dir env @ [y])) d3)"
  have "blobs env (nodes ?d4) h = blobs env (nodes d3) h" for h
    using tripleD [OF remove_triple [of "tmp_dir env @ [y]" "{slot env h}"] kept_self, of d3] by (simp add: kept_def blobs_def)
  then have b: "blobs env (nodes ?d4) = blobs env (nodes d3)" by auto
  have run: "r = w" "rdisk g' = ?d4" "sessions g' = AList.delete sid (AList.update sid (s\<lparr>FileOpen := False\<rparr>) (sessions g))"
    using r s tch rd w ok
    by (auto simp: CompleteSession_def close_session_def run_state_bind try_io_def try_op_def split: prod.splits)
  show ?thesis using ok b run by (simp add: delete_conv')
qed

section \<open>Properties\<close>

text \<open>
  A chunked upload on a working disk stores exactly what was sent: opening a session, sending
  any chunks and completing with the digest of their concatenation (or without one) answers that
  digest, adds the concatenation to the blobs under it, changes no other blob, and closes the
  session.
\<close>

lemma upload_roundtrip:
  assumes "env_ok env" "faultless (rdisk g)" "clear env (nodes (rdisk g))" "fresh_names env (rdisk g)"
    and "expected \<in> {'''', ''sha256:'' @ sha env (concat cs)}"
    and "run_state (upload_chunks env cs expected) g = (r, g')"
  shows "r = Inr (''sha256:'' @ sha env (concat cs)) \<and>
    write_spec env (concat cs, None) expected (blobs env (nodes (rdisk g))) r (blobs env (nodes (rdisk g'))) \<and>
    map_of (sessions g') (new_uuid env (io_ops (rdisk g))) = None"
proof -
  obtain r1 g1 where 1: "run_state (CreateSession env) g = (r1, g1)" by (metis prod.exhaust)
  have sid: "r1 = Inr (new_uuid env (io_ops (rdisk g)))" and u: "uploading env (new_uuid env (io_ops (rdisk g))) '''' (blobs env (nodes (rdisk g))) g1"
    using CreateSession_uploading [OF assms(2-4) 1] by auto
  obtain r2 g2 where 2: "run_state (append_chunks (new_uuid env (io_ops (rdisk g))) cs) g1 = (r2, g2)" by (metis prod.exhaust)
  have 3: "run_state (CompleteSession env (new_uuid env (io_ops (rdisk g))) expected) g2 = (r, g')"
    using assms(6) 1 2 sid by (simp add: upload_chunks_def run_state_bind)
  show ?thesis
    using CompleteSession_uploading [OF assms(1) append_chunks_uploading [OF u 2] _ 3] assms(5) by simp
qed

definition demo_registry :: registry where
  "demo_registry = \<lparr>rdisk = demo_disk, sessions = []\<rparr>"

lemma demo_fresh: "fresh_names oci_demo demo_disk"
  by (auto simp: fresh_names_def demo_disk_def oci_demo_def inj_def replicate_eq_replicate)

lemma upload_roundtrip_instance:
  "fst (run_state (upload_chunks oci_demo [''con'', '''', ''fig''] '''') demo_registry) = Inr (''sha256:'' @ sha oci_demo ''config'')"
  using upload_roundtrip [OF oci_demo_ok, of demo_registry "''''" "[''con'', '''', ''fig'']"] demo_disk_ok demo_fresh
  by (cases "run_state (upload_chunks oci_demo [''con'', '''', ''fig''] '''') demo_registry") (auto simp: demo_registry_def)

lemma closed_session_stuck:
  assumes "map_of (sessions g) sid = Some s" "\<not> FileOpen s"
  shows "run_state (CompleteSession env sid dg) g =
      (Inl (''failed to close upload file: close '' @ path_text (FilePath s) @ '': file already closed''), g)"
    and "b \<noteq> '''' \<Longrightarrow> run_state (AppendData sid (b, err)) g =
      (Inl (''failed to write upload data: write '' @ path_text (FilePath s) @ '': file already closed''), g)"
  using assms by (simp_all add: CompleteSession_def close_session_def AppendData_def copy_to_session_def run_state_bind)

lemma failed_completion_closes:
  assumes "map_of (sessions g) sid = Some s" "run_state (CompleteSession env sid dg) g = (Inl e, g')"
  shows "map_of (sessions g') sid = Some (s\<lparr>FileOpen := False\<rparr>)"
  using assms
  by (cases "FileOpen s")
    (auto simp: CompleteSession_def close_session_def run_state_bind update_conv' split: prod.splits sum.splits)

text \<open>
  A completion that fails, for instance because of a wrong digest, spends its session: the
  session stays listed with its file closed, and from then on every completion, the right digest
  included, and every non-empty chunk is refused without changing anything.
\<close>

lemma failed_completion_final:
  assumes "map_of (sessions g) sid = Some s" and "run_state (CompleteSession env sid dg) g = (Inl e, g')"
  shows "map_of (sessions g') sid = Some (s\<lparr>FileOpen := False\<rparr>) \<and>
    (\<forall>dg'. run_state (CompleteSession env sid dg') g' =
       (Inl (''failed to close upload file: close '' @ path_text (FilePath s) @ '': file already closed''), g')) \<and>
    (\<forall>b err. b \<noteq> '''' \<longrightarrow> run_state (AppendData sid (b, err)) g' =
       (Inl (''failed to write upload data: write '' @ path_text (FilePath s) @ '': file already closed''), g'))"
  using failed_completion_closes [OF assms] closed_session_stuck [of g' sid "s\<lparr>FileOpen := False\<rparr>"] by simp

definition demo_opened :: registry where
  "demo_opened = snd (run_state (CreateSession oci_demo) demo_registry)"

lemma failed_completion_final_instance:
  "\<exists>e g' m. run_state (CompleteSession oci_demo ''u'' ''sha256:0'') demo_opened = (Inl e, g') \<and>
     run_state (CompleteSession oci_demo ''u'' '''') g' = (Inl m, g')"
proof -
  have "map_option FileOpen (map_of (sessions demo_opened) ''u'') = Some True" by code_simp
  then obtain s where s: "map_of (sessions demo_opened) ''u'' = Some s" by auto
  have "\<not> isl (fst (run_state (CompleteSession oci_demo ''u'' ''sha256:0'') demo_opened)) \<Longrightarrow> False" by code_simp
  then obtain e g' where r: "run_state (CompleteSession oci_demo ''u'' ''sha256:0'') demo_opened = (Inl e, g')"
    by (metis isl_def prod.collapse)
  from failed_completion_final [OF s r] r show ?thesis by blast
qed

end
