(* ===== verification/OciGC.thy ===== *)
theory OciGC
  imports OciStorage
begin

text \<open>
  Garbage collection of the registry (\<open>internal/provisioner/oci/gc.go\<close>): the marking over tags and
  manifests, the quarantine and its expiry, as computations on the disk.

  \<open>gc_env\<close> adds to the storage's surroundings \<open>json.Marshal\<close> and \<open>json.Unmarshal\<close> of quarantine
  entries and the order in which Go iterates over the map of unreferenced digests, an arbitrary
  arrangement of its keys. \<open>time.Now\<close> is the clock at the next disk operation. Sets of digests are
  lists. \<open>Start\<close>, \<open>Stop\<close> and the ticker only decide when \<open>RunGC\<close> is called.
\<close>

record GCConfig =
  Enabled :: bool
  Interval :: time
  GracePeriod :: time

record quarantineEntry =
  QuarantinedAt :: time
  BlobDigest :: string
  QSize :: int

record GCStats =
  StartTime :: time
  Duration :: time
  BlobsScanned :: nat
  BlobsDeleted :: nat
  BlobsQuarantined :: nat
  BytesFreed :: int
  GCErrors :: "string list"

record gc_env =
  genv :: oci_env
  marshalQ :: "quarantineEntry \<Rightarrow> string + string"
  unmarshalQ :: "string \<Rightarrow> string + quarantineEntry"
  map_order :: "string list \<Rightarrow> string list"

abbreviation quarantine_dir :: "oci_env \<Rightarrow> path" where
  "quarantine_dir env \<equiv> root env @ [''quarantine'']"

section \<open>Marking\<close>

definition listRepositories :: "oci_env \<Rightarrow> (string list) oci" where
  "listRepositories env = do {
     r \<leftarrow> os_ReadDir (repo_dir env);
     State_Monad.return (case r of
       Inr entries \<Rightarrow> Inr (map fst (filter snd entries))
     | Inl (NotExist m) \<Rightarrow> Inr []
     | Inl (IoError m) \<Rightarrow> Inl (''failed to read repositories directory: '' @ m)) }"

definition listAllBlobs :: "oci_env \<Rightarrow> (string list) oci" where
  "listAllBlobs env = do {
     r \<leftarrow> os_ReadDir (blob_dir env);
     State_Monad.return (case r of
       Inr entries \<Rightarrow> Inr (map (\<lambda>e. ''sha256:'' @ fst e) (filter (\<lambda>e. \<not> snd e) entries))
     | Inl (NotExist m) \<Rightarrow> Inr []
     | Inl (IoError m) \<Rightarrow> Inl (''failed to read blob directory: '' @ m)) }"

definition manifest_refs :: "Manifest \<Rightarrow> string list" where
  "manifest_refs m = filter (\<lambda>dg. dg \<noteq> '''')
     ((case Config m of Some c \<Rightarrow> [Digest c] | None \<Rightarrow> []) @ map Digest (Layers m) @ map Digest (Blobs m) @
      (case Subject m of Some s \<Rightarrow> [Digest s] | None \<Rightarrow> []))"

text \<open>One round of the inner loop: the digests a tag keeps alive; broken tags and manifests are skipped.\<close>

definition tag_refs :: "oci_env \<Rightarrow> string \<Rightarrow> string \<Rightarrow> (disk, string list) state" where
  "tag_refs env repo tag = do {
     t \<leftarrow> GetTag env repo tag;
     case t of
       Inl e \<Rightarrow> State_Monad.return []
     | Inr manifestDigest \<Rightarrow> do {
         m \<leftarrow> GetManifest env repo manifestDigest;
         State_Monad.return (manifestDigest # (case m of
           Inl e \<Rightarrow> []
         | Inr dd \<Rightarrow> (case unmarshal env (fst dd) of Inl e \<Rightarrow> [] | Inr man \<Rightarrow> manifest_refs man))) } }"

fun tags_refs :: "oci_env \<Rightarrow> string \<Rightarrow> string list \<Rightarrow> (disk, string list) state" where
  "tags_refs env repo [] = State_Monad.return []"
| "tags_refs env repo (tag # tags) = do {
     xs \<leftarrow> tag_refs env repo tag;
     ys \<leftarrow> tags_refs env repo tags;
     State_Monad.return (xs @ ys) }"

fun repos_refs :: "oci_env \<Rightarrow> string list \<Rightarrow> (string list) oci" where
  "repos_refs env [] = State_Monad.return (Inr [])"
| "repos_refs env (repo # repos) =
     try_op (''failed to list tags for '' @ repo @ '': '') (ListTags env repo) (\<lambda>tags. do {
       xs \<leftarrow> tags_refs env repo tags;
       try_op '''' (repos_refs env repos) (\<lambda>ys. State_Monad.return (Inr (xs @ ys))) })"

definition buildReachabilityGraph :: "oci_env \<Rightarrow> (string list) oci" where
  "buildReachabilityGraph env =
     try_op ''failed to list repositories: '' (listRepositories env) (repos_refs env)"

section \<open>Quarantine\<close>

record tally =
  quarantined :: nat
  deleted :: nat
  bytesFreed :: int
  errors :: "string list"

definition note_error :: "string \<Rightarrow> tally \<Rightarrow> tally" where
  "note_error e t = t\<lparr>errors := errors t @ [e]\<rparr>"

text \<open>Step 1 for one directory entry.\<close>

definition expire_entry :: "gc_env \<Rightarrow> GCConfig \<Rightarrow> string \<times> bool \<Rightarrow> tally \<Rightarrow> (disk, tally) state" where
  "expire_entry ge cfg entry t =
     (if snd entry then State_Monad.return t
      else do {
        r \<leftarrow> os_ReadFile (join_path (quarantine_dir (genv ge)) (fst entry));
        case r of
          Inl e \<Rightarrow> State_Monad.return (note_error (''failed to read quarantine entry '' @ fst entry @ '': '' @ io_text e) t)
        | Inr data \<Rightarrow>
            (case unmarshalQ ge data of
               Inl e \<Rightarrow> State_Monad.return (note_error (''failed to parse quarantine entry '' @ fst entry @ '': '' @ e) t)
             | Inr q \<Rightarrow> do {
                 k \<leftarrow> op_number;
                 if clock (genv ge) k - QuarantinedAt q \<ge> GracePeriod cfg then do {
                   x \<leftarrow> DeleteBlob (genv ge) (BlobDigest q);
                   case x of
                     Inl e \<Rightarrow> State_Monad.return (note_error (''failed to delete blob '' @ BlobDigest q @ '': '' @ e) t)
                   | Inr u \<Rightarrow> do {
                       y \<leftarrow> os_Remove (join_path (quarantine_dir (genv ge)) (fst entry));
                       State_Monad.return
                         ((case y of
                             Inl e \<Rightarrow> note_error (''failed to remove quarantine entry '' @ fst entry @ '': '' @ io_text e)
                           | Inr u \<Rightarrow> (\<lambda>t. t))
                          (t\<lparr>deleted := Suc (deleted t), bytesFreed := bytesFreed t + QSize q\<rparr>)) } }
                 else State_Monad.return t }) })"

fun expire_entries :: "gc_env \<Rightarrow> GCConfig \<Rightarrow> (string \<times> bool) list \<Rightarrow> tally \<Rightarrow> (disk, tally) state" where
  "expire_entries ge cfg [] t = State_Monad.return t"
| "expire_entries ge cfg (e # es) t = do { t' \<leftarrow> expire_entry ge cfg e t; expire_entries ge cfg es t' }"

text \<open>Step 2 for one unreferenced digest.\<close>

definition quarantine_blob :: "gc_env \<Rightarrow> string \<Rightarrow> tally \<Rightarrow> (disk, tally) state" where
  "quarantine_blob ge digest t = do {
     st \<leftarrow> os_Stat (join_path (quarantine_dir (genv ge)) (trim_prefix digest ''sha256:''));
     case st of
       Inr n \<Rightarrow> State_Monad.return t
     | Inl e \<Rightarrow> do {
         sz \<leftarrow> BlobSize (genv ge) digest;
         case sz of
           Inl e \<Rightarrow> State_Monad.return (note_error (''failed to get size for '' @ digest @ '': '' @ e) t)
         | Inr bsize \<Rightarrow> do {
             k \<leftarrow> op_number;
             case marshalQ ge \<lparr>QuarantinedAt = clock (genv ge) k, BlobDigest = digest, QSize = bsize\<rparr> of
               Inl e \<Rightarrow> State_Monad.return (note_error (''failed to marshal quarantine entry for '' @ digest @ '': '' @ e) t)
             | Inr data \<Rightarrow> do {
                 w \<leftarrow> os_WriteFile (join_path (quarantine_dir (genv ge)) (trim_prefix digest ''sha256:'')) data;
                 State_Monad.return (case w of
                   Inl e \<Rightarrow> note_error (''failed to write quarantine entry for '' @ digest @ '': '' @ io_text e) t
                 | Inr u \<Rightarrow> t\<lparr>quarantined := Suc (quarantined t)\<rparr>) } } } }"

fun quarantine_blobs :: "gc_env \<Rightarrow> string list \<Rightarrow> tally \<Rightarrow> (disk, tally) state" where
  "quarantine_blobs ge [] t = State_Monad.return t"
| "quarantine_blobs ge (dg # dgs) t = do { t' \<leftarrow> quarantine_blob ge dg t; quarantine_blobs ge dgs t' }"

abbreviation no_tally :: tally where
  "no_tally \<equiv> \<lparr>quarantined = 0, deleted = 0, bytesFreed = 0, errors = []\<rparr>"

definition processQuarantine :: "gc_env \<Rightarrow> GCConfig \<Rightarrow> string list \<Rightarrow> (disk, tally) state" where
  "processQuarantine ge cfg unreferenced = do {
     mk \<leftarrow> os_MkdirAll (quarantine_dir (genv ge));
     case mk of
       Inl e \<Rightarrow> State_Monad.return (note_error (''failed to create quarantine directory: '' @ io_text e) no_tally)
     | Inr u \<Rightarrow> do {
         r \<leftarrow> os_ReadDir (quarantine_dir (genv ge));
         t \<leftarrow> (case r of
                Inl e \<Rightarrow> State_Monad.return no_tally
              | Inr entries \<Rightarrow> expire_entries ge cfg entries no_tally);
         quarantine_blobs ge (map_order ge unreferenced) t } }"

section \<open>A cycle\<close>

definition RunGC :: "gc_env \<Rightarrow> GCConfig \<Rightarrow> GCStats oci" where
  "RunGC ge cfg = do {
     k0 \<leftarrow> op_number;
     try_op ''failed to build reachability graph: '' (buildReachabilityGraph (genv ge)) (\<lambda>referencedBlobs.
     try_op ''failed to list blobs: '' (listAllBlobs (genv ge)) (\<lambda>allBlobs. do {
       t \<leftarrow> processQuarantine ge cfg (remdups (filter (\<lambda>dg. dg \<notin> set referencedBlobs) allBlobs));
       k1 \<leftarrow> op_number;
       State_Monad.return (Inr
         \<lparr>StartTime = clock (genv ge) k0, Duration = clock (genv ge) k1 - clock (genv ge) k0,
          BlobsScanned = length allBlobs, BlobsDeleted = deleted t, BlobsQuarantined = quarantined t,
          BytesFreed = bytesFreed t, GCErrors = errors t\<rparr>) })) }"

text \<open>\<open>ManualGC\<close>: the cycle runs to its end whether or not the caller's context ends first.\<close>

definition ManualGC :: "gc_env \<Rightarrow> GCConfig \<Rightarrow> string option \<Rightarrow> GCStats oci" where
  "ManualGC ge cfg ctxErr = do {
     r \<leftarrow> RunGC ge cfg;
     State_Monad.return (case ctxErr of Some e \<Rightarrow> Inl e | None \<Rightarrow> r) }"

section \<open>What a cycle may change\<close>

text \<open>Triples over the whole disk, for statements that also speak of operation numbers.\<close>

definition dtriple :: "(disk \<Rightarrow> bool) \<Rightarrow> (disk, 'a) state \<Rightarrow> ('a \<Rightarrow> disk \<Rightarrow> bool) \<Rightarrow> bool" where
  "dtriple P m Q \<longleftrightarrow> (\<forall>d. P d \<longrightarrow> Q (fst (run_state m d)) (snd (run_state m d)))"

lemma dtriple_return: "(\<And>d. P d \<Longrightarrow> Q x d) \<Longrightarrow> dtriple P (State_Monad.return x) Q"
  by (simp add: dtriple_def)

lemma dtriple_bind: "dtriple P m R \<Longrightarrow> (\<And>x. dtriple (R x) (k x) Q) \<Longrightarrow> dtriple P (State_Monad.bind m k) Q"
  by (auto simp: dtriple_def run_state_bind split: prod.splits)

lemma dtriple_weaken:
  "dtriple P m Q \<Longrightarrow> (\<And>d. P' d \<Longrightarrow> P d) \<Longrightarrow> (\<And>x d. Q x d \<Longrightarrow> Q' x d) \<Longrightarrow> dtriple P' m Q'"
  by (simp add: dtriple_def)

lemma dtriple_when: "(A \<Longrightarrow> dtriple P m Q) \<Longrightarrow> dtriple (\<lambda>d. P d \<and> A) m Q"
  by (auto simp: dtriple_def)

lemma dtriple_sum:
  "(\<And>e. r = Inl e \<Longrightarrow> dtriple P (f e) Q) \<Longrightarrow> (\<And>x. r = Inr x \<Longrightarrow> dtriple P (g x) Q) \<Longrightarrow>
   dtriple P (case r of Inl e \<Rightarrow> f e | Inr x \<Rightarrow> g x) Q"
  by (cases r) auto

lemma dtriple_if: "(b \<Longrightarrow> dtriple P m Q) \<Longrightarrow> (\<not> b \<Longrightarrow> dtriple P m' Q) \<Longrightarrow> dtriple P (if b then m else m') Q"
  by simp

lemma dtriple_syscall:
  assumes "\<And>d m. P d \<Longrightarrow> Q (Inl (IoError m)) (d\<lparr>io_ops := Suc (io_ops d)\<rparr>)"
    and "\<And>d. P d \<Longrightarrow> Q (fst (f (nodes d))) (d\<lparr>nodes := snd (f (nodes d)), io_ops := Suc (io_ops d)\<rparr>)"
  shows "dtriple P (syscall f) Q"
  unfolding dtriple_def
proof (intro allI impI)
  fix d assume "P d"
  then show "Q (fst (run_state (syscall f) d)) (snd (run_state (syscall f) d))"
    by (cases rule: run_syscall_cases [of f d]) (auto simp: finish_def assms)
qed

lemma op_number_dtriple: "dtriple P op_number (\<lambda>k d. P d \<and> k = io_ops d)"
  by (simp add: dtriple_def op_number_def)

text \<open>A state predicate that more operations on the same contents, or fewer contents, do not break.\<close>

definition stable :: "(disk \<Rightarrow> bool) \<Rightarrow> bool" where
  "stable P \<longleftrightarrow> (\<forall>d k. P d \<longrightarrow> io_ops d \<le> k \<longrightarrow> P (d\<lparr>io_ops := k\<rparr>))"

lemma stableD: "stable P \<Longrightarrow> P d \<Longrightarrow> P (d\<lparr>io_ops := Suc (io_ops d)\<rparr>)"
  by (simp add: stable_def)

lemma reader_dtriples:
  assumes "stable P"
  shows "dtriple P (os_Stat p) (\<lambda>r. P)"
    and "dtriple P (os_ReadFile p) (\<lambda>r d. P d \<and> (\<forall>c. r = Inr c \<longrightarrow> look (nodes d) p = Some (FileN c)))"
    and "dtriple P (os_ReadDir p) (\<lambda>r d. P d \<and> (\<forall>es. r = Inr es \<longrightarrow> es = map (\<lambda>n. (n, look (nodes d) (p @ [n]) = Some DirN)) (children (nodes d) p)))"
  unfolding os_Stat_def os_ReadFile_def os_ReadDir_def
  by (rule dtriple_syscall; use stableD [OF assms] in \<open>auto split: sum.split node.split dest: resolve_InrD\<close>)+

section \<open>Phases\<close>

text \<open>
  What a cycle that began with contents \<open>ns0\<close> at operation \<open>k0\<close> has changed so far. \<open>due\<close>: an entry of the
  quarantine at the start names the blob and its grace period is over; \<open>entered\<close>: the entry is one
  this cycle wrote for an unreferenced blob.
\<close>

definition due :: "gc_env \<Rightarrow> GCConfig \<Rightarrow> (path \<times> node) list \<Rightarrow> nat \<Rightarrow> nat \<Rightarrow> string \<Rightarrow> bool" where
  "due ge cfg ns0 k0 k1 h \<longleftrightarrow>
     (\<exists>name data q k. map_of ns0 (quarantine_dir (genv ge) @ [name]) = Some (FileN data) \<and> unmarshalQ ge data = Inr q \<and>
        BlobPath (genv ge) (BlobDigest q) = Inr (slot (genv ge) h) \<and> k0 \<le> k \<and> k \<le> k1 \<and>
        clock (genv ge) k - QuarantinedAt q \<ge> GracePeriod cfg)"

definition entered :: "gc_env \<Rightarrow> string list \<Rightarrow> nat \<Rightarrow> nat \<Rightarrow> string \<Rightarrow> node \<Rightarrow> bool" where
  "entered ge unref k0 k1 h n \<longleftrightarrow>
     (\<exists>data bsize k. n = FileN data \<and> ''sha256:'' @ h \<in> set unref \<and> k0 \<le> k \<and> k \<le> k1 \<and>
        marshalQ ge \<lparr>QuarantinedAt = clock (genv ge) k, BlobDigest = ''sha256:'' @ h, QSize = bsize\<rparr> = Inr data)"

lemma due_mono: "due ge cfg ns0 k0 k h \<Longrightarrow> k \<le> k' \<Longrightarrow> due ge cfg ns0 k0 k' h"
  unfolding due_def by (meson order_trans)

lemma entered_mono: "entered ge unref k0 k h n \<Longrightarrow> k \<le> k' \<Longrightarrow> entered ge unref k0 k' h n"
  unfolding entered_def by (blast intro: order_trans)

definition cycle :: "gc_env \<Rightarrow> GCConfig \<Rightarrow> string list \<Rightarrow> (path \<times> node) list \<Rightarrow> nat \<Rightarrow> disk \<Rightarrow> bool" where
  "cycle ge cfg unref ns0 k0 d \<longleftrightarrow> k0 \<le> io_ops d \<and>
     (\<forall>h. blobs (genv ge) (nodes d) h = blobs (genv ge) ns0 h \<or>
          blobs (genv ge) (nodes d) h = None \<and> due ge cfg ns0 k0 (io_ops d) h) \<and>
     (\<forall>name n. map_of (nodes d) (quarantine_dir (genv ge) @ [name]) = Some n \<longrightarrow>
        map_of ns0 (quarantine_dir (genv ge) @ [name]) = Some n \<or> entered ge unref k0 (io_ops d) name n)"

lemma stable_cycle: "stable (cycle ge cfg unref ns0 k0)"
  unfolding stable_def cycle_def using due_mono entered_mono by (simp) (meson le_trans)


lemma cycle_del:
  assumes "cycle ge cfg unref ns0 k0 d" "\<And>h. p = slot (genv ge) h \<Longrightarrow> due ge cfg ns0 k0 (io_ops d) h"
  shows "cycle ge cfg unref ns0 k0 (d\<lparr>nodes := del p (nodes d)\<rparr>)"
  using assms by (auto simp: cycle_def blobs_def)

lemma remove_cycle:
  assumes "\<And>d h. P d \<Longrightarrow> p = slot (genv ge) h \<Longrightarrow> due ge cfg ns0 k0 (io_ops d) h"
    and "\<And>d. P d \<Longrightarrow> cycle ge cfg unref ns0 k0 d"
  shows "dtriple P (os_Remove p) (\<lambda>_. cycle ge cfg unref ns0 k0)"
  unfolding os_Remove_def
proof (rule dtriple_syscall, goal_cases)
  case (1 d m)
  then show ?case using stableD [OF stable_cycle assms(2)] by blast
next
  case (2 d)
  have "cycle ge cfg unref ns0 k0 (d\<lparr>nodes := del p (nodes d)\<rparr>)"
    by (rule cycle_del) (use 2 assms in auto)
  from stableD [OF stable_cycle this]
  have "cycle ge cfg unref ns0 k0 (d\<lparr>nodes := del p (nodes d), io_ops := Suc (io_ops d)\<rparr>)" by simp
  moreover have "cycle ge cfg unref ns0 k0 (d\<lparr>io_ops := Suc (io_ops d)\<rparr>)"
    using stableD [OF stable_cycle assms(2)] 2 by blast
  ultimately show ?case by (auto split: sum.split node.split)
qed

lemma expire_entry_cycle:
  assumes plain: "plain_elem (fst entry)"
  shows "dtriple (cycle ge cfg [] ns0 k0) (expire_entry ge cfg entry t) (\<lambda>_. cycle ge cfg [] ns0 k0)"
proof -
  let ?C = "cycle ge cfg [] ns0 k0"
  let ?p = "quarantine_dir (genv ge) @ [fst entry]"
  have rm: "dtriple ?C (os_Remove ?p) (\<lambda>_. ?C)" by (rule remove_cycle) auto
  have dl: "dtriple (\<lambda>d. ?C d \<and> map_of ns0 ?p = Some (FileN data) \<and> k = io_ops d) (DeleteBlob (genv ge) (BlobDigest q)) (\<lambda>_. ?C)"
    if "unmarshalQ ge data = Inr q" "clock (genv ge) k - QuarantinedAt q \<ge> GracePeriod cfg" for data q k
  proof (cases "BlobPath (genv ge) (BlobDigest q)")
    case (Inr p)
    have "dtriple (\<lambda>d. ?C d \<and> map_of ns0 ?p = Some (FileN data) \<and> k = io_ops d) (os_Remove p) (\<lambda>_. ?C)"
      by (rule remove_cycle) (use that Inr in \<open>auto simp: due_def cycle_def\<close>)
    then show ?thesis unfolding DeleteBlob_def Inr sum.case
      by (rule dtriple_bind) (auto intro: dtriple_return)
  qed (auto simp: DeleteBlob_def intro!: dtriple_return)
  have rd: "dtriple ?C (os_ReadFile ?p) (\<lambda>r d. ?C d \<and> (\<forall>data. r = Inr data \<longrightarrow> map_of ns0 ?p = Some (FileN data)))"
    by (rule dtriple_weaken [OF reader_dtriples(2) [OF stable_cycle [of ge cfg "[]" ns0 k0]]]) (auto simp: cycle_def entered_def)
  have act: "dtriple (\<lambda>d. ?C d \<and> map_of ns0 ?p = Some (FileN data)) (do {
         k \<leftarrow> op_number;
         if clock (genv ge) k - QuarantinedAt q \<ge> GracePeriod cfg then do {
           x \<leftarrow> DeleteBlob (genv ge) (BlobDigest q);
           case x of
             Inl e \<Rightarrow> State_Monad.return (f e)
           | Inr u \<Rightarrow> do { y \<leftarrow> os_Remove ?p; State_Monad.return (g y) } }
         else State_Monad.return t }) (\<lambda>_. ?C)" if "unmarshalQ ge data = Inr q" for data q f g
  proof (rule dtriple_bind [OF op_number_dtriple], rule dtriple_if)
    fix k assume "clock (genv ge) k - QuarantinedAt q \<ge> GracePeriod cfg"
    note del = dtriple_weaken [OF dl [OF that this], where Q' = "\<lambda>_. ?C"]
    show "dtriple (\<lambda>d. (?C d \<and> map_of ns0 ?p = Some (FileN data)) \<and> k = io_ops d) (do {
           x \<leftarrow> DeleteBlob (genv ge) (BlobDigest q);
           case x of
             Inl e \<Rightarrow> State_Monad.return (f e)
           | Inr u \<Rightarrow> do { y \<leftarrow> os_Remove ?p; State_Monad.return (g y) } }) (\<lambda>_. ?C)"
      by (rule dtriple_bind [OF del]) (auto intro!: dtriple_sum dtriple_return dtriple_bind [OF rm])
  qed (auto intro: dtriple_return)
  show ?thesis
    unfolding expire_entry_def join_path_plain [OF plain]
    apply (rule dtriple_if)
    subgoal by (rule dtriple_return)
    apply (rule dtriple_bind [OF rd], rule dtriple_sum)
    subgoal by (rule dtriple_return) simp
    apply (rule dtriple_sum)
    subgoal by (rule dtriple_return) simp
    subgoal by (rule dtriple_weaken [OF act]) auto
    done
qed

lemma expire_entries_cycle:
  "(\<And>e. e \<in> set es \<Longrightarrow> plain_elem (fst e)) \<Longrightarrow>
   dtriple (cycle ge cfg [] ns0 k0) (expire_entries ge cfg es t) (\<lambda>_. cycle ge cfg [] ns0 k0)"
  by (induction es arbitrary: t) (auto intro!: dtriple_return dtriple_bind [OF expire_entry_cycle])

lemma cycle_enter:
  assumes "cycle ge cfg unref ns0 k0 d" "entered ge unref k0 (io_ops d) h n"
  shows "cycle ge cfg unref ns0 k0 (d\<lparr>nodes := put (quarantine_dir (genv ge) @ [h]) n (nodes d)\<rparr>)"
  using assms by (auto simp: cycle_def blobs_def)

lemma BlobSize_dtriple: "stable P \<Longrightarrow> dtriple P (BlobSize env dg) (\<lambda>_. P)"
  unfolding BlobSize_def by (intro dtriple_sum dtriple_return dtriple_bind [OF reader_dtriples(1)])

lemma quarantine_blob_cycle:
  assumes plain: "plain_elem h" and u: "''sha256:'' @ h \<in> set unref"
  shows "dtriple (cycle ge cfg unref ns0 k0) (quarantine_blob ge (''sha256:'' @ h) t) (\<lambda>_. cycle ge cfg unref ns0 k0)"
proof -
  let ?C = "cycle ge cfg unref ns0 k0"
  have w: "dtriple (\<lambda>d. ?C d \<and> k = io_ops d) (os_WriteFile (quarantine_dir (genv ge) @ [h]) data) (\<lambda>_. ?C)"
    if "marshalQ ge \<lparr>QuarantinedAt = clock (genv ge) k, BlobDigest = ''sha256:'' @ h, QSize = z\<rparr> = Inr data" for k z data
    unfolding os_WriteFile_def
  proof (rule dtriple_syscall, goal_cases)
    case (1 d m)
    then show ?case using stableD [OF stable_cycle] by blast
  next
    case (2 d)
    then have "k0 \<le> k" by (simp add: cycle_def)
    then have "?C (d\<lparr>nodes := put (quarantine_dir (genv ge) @ [h]) (FileN data) (nodes d)\<rparr>)"
      using 2 that u by (intro cycle_enter) (auto simp: entered_def)
    from stableD [OF stable_cycle this]
    have "?C (d\<lparr>nodes := put (quarantine_dir (genv ge) @ [h]) (FileN data) (nodes d), io_ops := Suc (io_ops d)\<rparr>)" by simp
    then show ?case using 2 stableD [OF stable_cycle] by (auto split: sum.split node.split)
  qed
  show ?thesis
    unfolding quarantine_blob_def trim_prefix_append join_path_plain [OF plain]
    apply (rule dtriple_bind [OF reader_dtriples(1) [OF stable_cycle]], rule dtriple_sum)
    subgoal
      apply (rule dtriple_bind [OF BlobSize_dtriple [OF stable_cycle]], rule dtriple_sum)
      subgoal by (rule dtriple_return)
      apply (rule dtriple_bind [OF op_number_dtriple], rule dtriple_sum)
      subgoal by (rule dtriple_return) simp
      subgoal by (rule dtriple_bind [OF w]) (auto intro: dtriple_return)
      done
    subgoal by (rule dtriple_return)
    done
qed

lemma quarantine_blobs_cycle:
  "(\<And>dg. dg \<in> set dgs \<Longrightarrow> dg \<in> set unref \<and> (\<exists>h. dg = ''sha256:'' @ h \<and> plain_elem h)) \<Longrightarrow>
   dtriple (cycle ge cfg unref ns0 k0) (quarantine_blobs ge dgs t) (\<lambda>_. cycle ge cfg unref ns0 k0)"
proof (induction dgs arbitrary: t)
  case (Cons dg dgs)
  obtain h where h: "dg = ''sha256:'' @ h" "plain_elem h" "dg \<in> set unref" using Cons.prems [of dg] by auto
  have "dtriple (cycle ge cfg unref ns0 k0) (quarantine_blob ge dg t) (\<lambda>_. cycle ge cfg unref ns0 k0)"
    using quarantine_blob_cycle [OF h(2)] h by simp
  then show ?case using Cons by (auto intro: dtriple_bind)
qed (auto intro: dtriple_return)


text \<open>The marking phase only reads.\<close>

definition reads :: "(disk, 'a) state \<Rightarrow> bool" where
  "reads m \<longleftrightarrow> (\<forall>d. \<exists>k \<ge> io_ops d. snd (run_state m d) = d\<lparr>io_ops := k\<rparr>)"

lemma reads_intros:
  "reads (State_Monad.return x)"
  "reads m \<Longrightarrow> (\<And>x. reads (k x)) \<Longrightarrow> reads (State_Monad.bind m k)"
  "reads op_number" "reads (os_Stat p)" "reads (os_ReadFile p)" "reads (os_ReadDir p)"
proof -
  show "reads (State_Monad.return x)" by (auto simp: reads_def intro: exI [of _ "io_ops _"])
  show "reads (State_Monad.bind m k)" if m: "reads m" and k: "\<And>x. reads (k x)"
    unfolding reads_def run_state_bind
  proof
    fix d
    obtain k1 where k1: "io_ops d \<le> k1" "snd (run_state m d) = d\<lparr>io_ops := k1\<rparr>"
      using m unfolding reads_def by blast
    obtain x where x: "run_state m d = (x, d\<lparr>io_ops := k1\<rparr>)" using k1(2) by (cases "run_state m d") auto
    obtain k2 where k2: "io_ops (d\<lparr>io_ops := k1\<rparr>) \<le> k2" "snd (run_state (k x) (d\<lparr>io_ops := k1\<rparr>)) = d\<lparr>io_ops := k1\<rparr>\<lparr>io_ops := k2\<rparr>"
      using k [of x] unfolding reads_def by blast
    show "\<exists>k' \<ge> io_ops d. snd (case run_state m d of (x, s') \<Rightarrow> run_state (k x) s') = d\<lparr>io_ops := k'\<rparr>"
      by (rule exI [of _ k2]) (use x k1 k2 in simp)
  qed
  show "reads op_number" by (auto simp: reads_def op_number_def intro: exI [of _ "io_ops _"])
  show "reads (os_Stat p)" "reads (os_ReadFile p)" "reads (os_ReadDir p)"
    by (auto simp: reads_def os_Stat_def os_ReadFile_def os_ReadDir_def syscall_def finish_def split: option.split
        intro!: exI [of _ "Suc (io_ops _)"])
qed

lemma reads_try: "reads m \<Longrightarrow> (\<And>x. reads (k x)) \<Longrightarrow> reads (try_op pre m k)"
  unfolding try_op_def by (rule reads_intros(2)) (auto split: sum.split intro: reads_intros(1))

lemma reads_if: "reads m \<Longrightarrow> reads m' \<Longrightarrow> reads (if b then m else m')"
  by simp

lemma reads_sum: "(\<And>e. reads (f e)) \<Longrightarrow> (\<And>x. reads (g x)) \<Longrightarrow> reads (case r of Inl e \<Rightarrow> f e | Inr x \<Rightarrow> g x)"
  by (cases r) auto

lemma reads_tags: "reads (GetTag env repo tag)" "reads (ListTags env repo)"
  unfolding GetTag_def ListTags_def by (intro reads_intros)+

lemma reads_GetManifest: "reads (GetManifest env repo reference)"
  unfolding GetManifest_def ReadBlob_def by (intro reads_try reads_sum reads_if reads_intros reads_tags)

lemma reads_tags_refs: "reads (tags_refs env repo tags)"
  by (induction tags) (auto simp: tag_refs_def intro!: reads_intros reads_sum reads_tags reads_GetManifest)

lemma reads_repos_refs: "reads (repos_refs env repos)"
  by (induction repos) (auto intro!: reads_intros reads_try reads_tags reads_tags_refs)

lemma reads_marking: "reads (buildReachabilityGraph env)" "reads (listAllBlobs env)"
  unfolding buildReachabilityGraph_def listRepositories_def listAllBlobs_def
  by (intro reads_try reads_intros reads_repos_refs)+

lemma readsD: "reads m \<Longrightarrow> run_state m d = (r, d') \<Longrightarrow> \<exists>k \<ge> io_ops d. d' = d\<lparr>io_ops := k\<rparr>"
  unfolding reads_def by (metis snd_conv)

lemma children_node: "n \<in> set (children ns p) \<Longrightarrow> map_of ns (p @ [n]) \<noteq> None"
proof -
  assume "n \<in> set (children ns p)"
  then obtain e where "e \<in> set ns" "fst e \<noteq> []" "butlast (fst e) = p" "last (fst e) = n"
    by (auto simp: children_def)
  then have "fst e = p @ [n]" "fst e \<in> fst ` set ns" by (auto simp: append_butlast_last_id [symmetric])
  then show ?thesis by (simp add: map_of_eq_None_iff)
qed

lemma listed_blobs:
  assumes "run_state (listAllBlobs env) d = (Inr bs, d')" "dg \<in> set bs"
  shows "\<exists>h c. dg = ''sha256:'' @ h \<and> blobs env (nodes d) h = Some (FileN c)"
proof -
  have "dtriple (\<lambda>d'. nodes d' = nodes d) (listAllBlobs env)
     (\<lambda>r d'. \<forall>bs. r = Inr bs \<longrightarrow> (\<forall>dg \<in> set bs. \<exists>h c. dg = ''sha256:'' @ h \<and> blobs env (nodes d) h = Some (FileN c)))"
    unfolding listAllBlobs_def
  proof (rule dtriple_bind [OF reader_dtriples(3)], simp add: stable_def, rule dtriple_return, intro allI impI ballI, goal_cases)
    case (1 r d' bs dg)
    then obtain h where h: "h \<in> set (children (nodes d) (blob_dir env))" "look (nodes d) (slot env h) \<noteq> Some DirN" "dg = ''sha256:'' @ h"
      by (cases r) (auto split: io_err.splits)
    then have "\<exists>c. map_of (nodes d) (slot env h) = Some (FileN c)"
      using children_node [OF h(1)] by (cases "map_of (nodes d) (slot env h)"; cases "the (map_of (nodes d) (slot env h))") auto
    then show ?case using h(3) by (auto simp: blobs_def)
  qed
  then show ?thesis using assms unfolding dtriple_def by (metis fst_conv)
qed

text \<open>The names a file system holds are plain.\<close>

definition plain_disk :: "(path \<times> node) list \<Rightarrow> bool" where
  "plain_disk ns \<longleftrightarrow> (\<forall>p \<in> fst ` set ns. \<forall>e \<in> set p. plain_elem e)"

lemma plain_diskD: "plain_disk ns \<Longrightarrow> map_of ns (p @ [n]) \<noteq> None \<Longrightarrow> plain_elem n"
  by (auto simp: plain_disk_def dest!: map_of_SomeD)

lemma processQuarantine_cycle:
  assumes p: "plain_disk ns0" and o: "set (map_order ge unref) \<subseteq> set unref"
    and u: "\<And>dg. dg \<in> set unref \<Longrightarrow> \<exists>h. dg = ''sha256:'' @ h \<and> plain_elem h"
  shows "dtriple (\<lambda>d. nodes d = ns0 \<and> k0 \<le> io_ops d) (processQuarantine ge cfg unref) (\<lambda>_. cycle ge cfg unref ns0 k0)"
proof -
  let ?q = "quarantine_dir (genv ge)"
  let ?R = "\<lambda>d. cycle ge cfg [] ns0 k0 d \<and> (\<forall>n. map_of (nodes d) (?q @ [n]) = map_of ns0 (?q @ [n]))"
  have mk: "dtriple (\<lambda>d. nodes d = ns0 \<and> k0 \<le> io_ops d) (os_MkdirAll ?q) (\<lambda>_. ?R)"
    unfolding os_MkdirAll_def
  proof (rule dtriple_syscall, goal_cases)
    case (2 d)
    have "map_of (dirs_to_make ns0 ?q @ ns0) (?q @ [n]) = map_of ns0 (?q @ [n])" for n
      by (rule mkdir_frame(2)) auto
    moreover have "map_of (dirs_to_make ns0 ?q @ ns0) (slot (genv ge) h) = map_of ns0 (slot (genv ge) h)" for h
      by (rule mkdir_frame(2)) auto
    ultimately show ?case using 2 by (simp add: cycle_def blobs_def del: upt_Suc)
  qed (simp add: cycle_def)
  have st: "stable ?R" using stable_cycle [of ge cfg "[]" ns0 k0] by (auto simp: stable_def)
  have up: "cycle ge cfg [] ns0 k0 d \<Longrightarrow> cycle ge cfg unref ns0 k0 d" for d
    by (auto simp: cycle_def entered_def)
  have qb: "dtriple (cycle ge cfg [] ns0 k0) (quarantine_blobs ge (map_order ge unref) t) (\<lambda>_. cycle ge cfg unref ns0 k0)" for t
    by (rule dtriple_weaken [OF quarantine_blobs_cycle [of _ unref]]) (use o u up in auto)
  have ex: "dtriple (\<lambda>d. ?R d \<and> (\<forall>es. r = Inr es \<longrightarrow> es = map (\<lambda>n. (n, look (nodes d) (?q @ [n]) = Some DirN)) (children (nodes d) ?q)))
      (case r of Inl e \<Rightarrow> State_Monad.return no_tally | Inr entries \<Rightarrow> expire_entries ge cfg entries no_tally)
      (\<lambda>_. cycle ge cfg [] ns0 k0)" for r
  proof (cases r)
    case (Inr es)
    show ?thesis
      unfolding Inr sum.case dtriple_def
    proof (intro allI impI)
      fix d assume d: "?R d \<and> (\<forall>es'. Inr es = Inr es' \<longrightarrow> es' = map (\<lambda>n. (n, look (nodes d) (?q @ [n]) = Some DirN)) (children (nodes d) ?q))"
      have "plain_elem (fst e)" if "e \<in> set es" for e
        using that d children_node [of "fst e" "nodes d" ?q] plain_diskD [OF p, of ?q "fst e"] by auto
      then show "cycle ge cfg [] ns0 k0 (snd (run_state (expire_entries ge cfg es no_tally) d))"
        using expire_entries_cycle [of es ge cfg ns0 k0 no_tally] d by (simp add: dtriple_def)
    qed
  qed (auto intro!: dtriple_return)
  show ?thesis
    unfolding processQuarantine_def
    by (rule dtriple_bind [OF mk], rule dtriple_sum, rule dtriple_return, use up in simp,
        rule dtriple_bind [OF reader_dtriples(3) [OF st]], rule dtriple_bind [OF ex], rule qb)
qed

text \<open>The digests a cycle that starts on a disk finds unreferenced.\<close>

definition unreferenced :: "gc_env \<Rightarrow> disk \<Rightarrow> string set" where
  "unreferenced ge d =
     (case fst (run_state (buildReachabilityGraph (genv ge)) d) of
        Inl e \<Rightarrow> {}
      | Inr refs \<Rightarrow> {''sha256:'' @ h | h. blobs (genv ge) (nodes d) h \<noteq> None \<and> ''sha256:'' @ h \<notin> set refs})"

definition gc_ok :: "gc_env \<Rightarrow> bool" where
  "gc_ok ge \<longleftrightarrow> env_ok (genv ge) \<and> (\<forall>xs. set (map_order ge xs) = set xs)"

lemma RunGC_cycle:
  assumes ok: "gc_ok ge" and b: "blobs_ok (genv ge) (nodes d)" and p: "plain_disk (nodes d)"
    and r: "run_state (RunGC ge cfg) d = (r, d')"
  shows "\<exists>unref. set unref \<subseteq> unreferenced ge d \<and> cycle ge cfg unref (nodes d) (io_ops d) d'"
proof -
  let ?C = "\<lambda>unref. cycle ge cfg unref (nodes d) (io_ops d)"
  obtain g d1 where 1: "run_state (buildReachabilityGraph (genv ge)) d = (g, d1)" by (metis prod.exhaust)
  obtain k1 where k1: "io_ops d \<le> k1" "d1 = d\<lparr>io_ops := k1\<rparr>" using readsD [OF reads_marking(1) 1] by blast
  obtain l d2 where 2: "run_state (listAllBlobs (genv ge)) d1 = (l, d2)" by (metis prod.exhaust)
  obtain k2 where k2: "k1 \<le> k2" "d2 = d\<lparr>io_ops := k2\<rparr>" using readsD [OF reads_marking(2) 2] k1 by auto
  have still: "?C [] (d\<lparr>io_ops := k\<rparr>)" if "io_ops d \<le> k" for k using that by (simp add: cycle_def)
  show ?thesis
  proof (cases g)
    case (Inl e)
    then have "d' = d1" using r 1 by (simp add: RunGC_def run_state_bind op_number_def try_op_def)
    then show ?thesis using still k1 by (intro exI [of _ "[]"]) simp
  next
    case g: (Inr refs)
    show ?thesis
    proof (cases l)
      case (Inl e)
      then have "d' = d2" using r 1 2 g by (simp add: RunGC_def run_state_bind op_number_def try_op_def)
      then show ?thesis using still k1 k2 by (intro exI [of _ "[]"]) simp
    next
      case l: (Inr bs)
      let ?u = "remdups (filter (\<lambda>dg. dg \<notin> set refs) bs)"
      have h: "\<exists>h c. dg = ''sha256:'' @ h \<and> blobs (genv ge) (nodes d) h = Some (FileN c)" if "dg \<in> set ?u" for dg
        using listed_blobs [of "genv ge" d1 bs d2 dg] 2 l k1 that by auto
      have "plain_elem h" if "blobs (genv ge) (nodes d) h = Some (FileN c)" for h c
        using that b ok hexlike_plain env_okD by (fastforce simp: blobs_ok_def gc_ok_def)
      then have pl: "\<exists>h. dg = ''sha256:'' @ h \<and> plain_elem h" if "dg \<in> set ?u" for dg using h [OF that] by blast
      have pq: "dtriple (\<lambda>x. nodes x = nodes d \<and> io_ops d \<le> io_ops x) (processQuarantine ge cfg ?u) (\<lambda>_. ?C ?u)"
        by (rule processQuarantine_cycle [OF p _ pl]) (use ok in \<open>auto simp: gc_ok_def\<close>)
      have "set ?u \<subseteq> unreferenced ge d"
        using h 1 g by (fastforce simp: unreferenced_def)
      moreover have "?C ?u (snd (run_state (processQuarantine ge cfg ?u) d2))"
        using pq k1 k2 by (simp add: dtriple_def)
      moreover have "d' = snd (run_state (processQuarantine ge cfg ?u) d2)"
        using r 1 2 g l by (auto simp: RunGC_def run_state_bind op_number_def try_op_def split: prod.splits)
      ultimately show ?thesis by blast
    qed
  qed
qed

lemma RunGC_blobs_ok:
  assumes "gc_ok ge" "blobs_ok (genv ge) (nodes d)" "plain_disk (nodes d)" "run_state (RunGC ge cfg) d = (r, d')"
  shows "blobs_ok (genv ge) (nodes d')"
  using RunGC_cycle [OF assms] assms(2) unfolding cycle_def blobs_ok_def by (metis option.distinct(1))

section \<open>The history of the quarantine\<close>

text \<open>
  The states a registry passes through from an empty quarantine, with the log of what its cycles
  found unreferenced and when. Everything but the collector leaves the quarantine directory alone.
\<close>

inductive gc_history :: "gc_env \<Rightarrow> GCConfig \<Rightarrow> disk \<Rightarrow> (time \<times> string) set \<Rightarrow> bool" for ge cfg where
  start: "(\<And>name. map_of (nodes d) (quarantine_dir (genv ge) @ [name]) = None) \<Longrightarrow> gc_history ge cfg d {}"
| work: "gc_history ge cfg d L \<Longrightarrow>
    (\<And>name. map_of (nodes d') (quarantine_dir (genv ge) @ [name]) = map_of (nodes d) (quarantine_dir (genv ge) @ [name])) \<Longrightarrow>
    gc_history ge cfg d' L"
| collect: "gc_history ge cfg d L \<Longrightarrow> blobs_ok (genv ge) (nodes d) \<Longrightarrow> plain_disk (nodes d) \<Longrightarrow>
    run_state (RunGC ge cfg) d = (r, d') \<Longrightarrow>
    gc_history ge cfg d' (L \<union> {(clock (genv ge) k, dg) | k dg. io_ops d \<le> k \<and> k \<le> io_ops d' \<and> dg \<in> unreferenced ge d})"

definition json_roundtrip :: "gc_env \<Rightarrow> bool" where
  "json_roundtrip ge \<longleftrightarrow> (\<forall>q data. marshalQ ge q = Inr data \<longrightarrow> unmarshalQ ge data = Inr q)"

definition logged :: "gc_env \<Rightarrow> (time \<times> string) set \<Rightarrow> quarantineEntry \<Rightarrow> bool" where
  "logged ge L q \<longleftrightarrow> (\<exists>h. BlobDigest q = ''sha256:'' @ h \<and> hexlike h \<and> (QuarantinedAt q, BlobDigest q) \<in> L)"

lemma unreferenced_hex: "gc_ok ge \<Longrightarrow> blobs_ok (genv ge) (nodes d) \<Longrightarrow> ''sha256:'' @ h \<in> unreferenced ge d \<Longrightarrow> hexlike h"
  using env_okD [of "genv ge"] by (fastforce simp: unreferenced_def blobs_ok_def gc_ok_def split: sum.splits)

lemma history_logged:
  assumes "gc_history ge cfg d L" "gc_ok ge" "json_roundtrip ge"
  shows "map_of (nodes d) (quarantine_dir (genv ge) @ [name]) = Some (FileN data) \<Longrightarrow> unmarshalQ ge data = Inr q \<Longrightarrow> logged ge L q"
  using assms(1)
proof (induction arbitrary: name data q rule: gc_history.induct)
  case (collect d L r d')
  obtain unref where u: "set unref \<subseteq> unreferenced ge d" "cycle ge cfg unref (nodes d) (io_ops d) d'"
    using RunGC_cycle [OF assms(2) collect.hyps(2,3,4)] by blast
  then consider "map_of (nodes d) (quarantine_dir (genv ge) @ [name]) = Some (FileN data)"
    | "entered ge unref (io_ops d) (io_ops d') name (FileN data)"
    using collect.prems(1) unfolding cycle_def by blast
  then show ?case
  proof cases
    case 1
    then show ?thesis using collect.IH [OF 1 collect.prems(2)] by (auto simp: logged_def)
  next
    case 2
    then obtain k z where k: "''sha256:'' @ name \<in> set unref" "io_ops d \<le> k" "k \<le> io_ops d'"
       "marshalQ ge \<lparr>QuarantinedAt = clock (genv ge) k, BlobDigest = ''sha256:'' @ name, QSize = z\<rparr> = Inr data"
      unfolding entered_def by auto
    then have "q = \<lparr>QuarantinedAt = clock (genv ge) k, BlobDigest = ''sha256:'' @ name, QSize = z\<rparr>"
      using assms(3) collect.prems(2) unfolding json_roundtrip_def by (metis sum.inject(2))
    then show ?thesis
      using k u(1) unreferenced_hex [OF assms(2) collect.hyps(2), of name] by (auto simp: logged_def)
  qed
next
  case (start d)
  then show ?case by simp
next
  case (work d L d')
  then show ?case by simp
qed

section \<open>An instance\<close>

text \<open>A concrete encoding of quarantine entries: numbers in unary, fields separated by commas.\<close>

definition unary :: "int \<Rightarrow> string" where
  "unary t = (if t < 0 then CHR ''-'' # replicate (nat (- t)) CHR ''1'' else replicate (nat t) CHR ''1'')"

definition of_unary :: "string \<Rightarrow> int" where
  "of_unary s = (if has_prefix s ''-'' then - int (length s - 1) else int (length s))"

definition upto_comma :: "string \<Rightarrow> string" where
  "upto_comma s = takeWhile (\<lambda>c. c \<noteq> CHR '','') s"

definition after_comma :: "string \<Rightarrow> string" where
  "after_comma s = drop (Suc (length (upto_comma s))) s"

definition demo_gc :: gc_env where
  "demo_gc = \<lparr>genv = oci_demo,
     marshalQ = (\<lambda>q. Inr (unary (QuarantinedAt q) @ '','' @ unary (QSize q) @ '','' @ BlobDigest q)),
     unmarshalQ = (\<lambda>s. Inr \<lparr>QuarantinedAt = of_unary (upto_comma s), BlobDigest = after_comma (after_comma s),
        QSize = of_unary (upto_comma (after_comma s))\<rparr>),
     map_order = (\<lambda>xs. xs)\<rparr>"

lemma of_unary [simp]: "of_unary (unary t) = t"
  by (cases "nat t") (auto simp: of_unary_def unary_def)

lemma comma_split [simp]: "upto_comma (unary t @ CHR '','' # s) = unary t" "after_comma (unary t @ CHR '','' # s) = s"
proof -
  have "c \<in> set (unary t) \<Longrightarrow> c \<noteq> CHR '',''" for c by (auto simp: unary_def split: if_splits)
  then show 1: "upto_comma (unary t @ CHR '','' # s) = unary t"
    by (simp add: upto_comma_def takeWhile_append2)
  show "after_comma (unary t @ CHR '','' # s) = s" by (simp add: after_comma_def 1)
qed

lemma demo_gc_ok: "gc_ok demo_gc" "json_roundtrip demo_gc"
  using oci_demo_ok by (auto simp: gc_ok_def json_roundtrip_def demo_gc_def)

abbreviation gc_demo_cfg :: GCConfig where
  "gc_demo_cfg \<equiv> \<lparr>Enabled = True, Interval = time_Hour, GracePeriod = 5\<rparr>"

definition untagged :: disk where
  "untagged = snd (run_state (WriteBlob oci_demo (''config'', None) '''') demo_disk)"

definition marked :: disk where
  "marked = snd (run_state (RunGC demo_gc gc_demo_cfg) untagged)"

definition swept :: disk where
  "swept = snd (run_state (RunGC demo_gc gc_demo_cfg) marked)"

lemma demo_sweep:
  "map_of (nodes marked) (slot oci_demo (sha oci_demo ''config'')) = Some (FileN ''config'')"
  "map_of (nodes swept) (slot oci_demo (sha oci_demo ''config'')) = None"
  by code_simp+

lemma demo_untagged: "blobs_ok oci_demo (nodes untagged)"
  using safe_WriteBlob [OF oci_demo_ok, of "(''config'', None)" "''''"] demo_disk_ok(3)
  unfolding safe_def triple_def untagged_def by blast

lemma demo_plain: "plain_disk (nodes untagged)" "plain_disk (nodes marked)"
  by code_simp+

lemma demo_genv: "genv demo_gc = oci_demo"
  by (simp add: demo_gc_def)

lemma demo_history:
  "gc_history demo_gc gc_demo_cfg marked
     ({} \<union> {(clock oci_demo k, dg) | k dg. io_ops untagged \<le> k \<and> k \<le> io_ops marked \<and> dg \<in> unreferenced demo_gc untagged})"
proof -
  have "\<not> list_ex (\<lambda>e. butlast (fst e) = quarantine_dir oci_demo) (nodes untagged)" by code_simp
  then have "map_of (nodes untagged) (quarantine_dir oci_demo @ [name]) = None" for name
    unfolding list_ex_iff by (metis butlast_snoc fst_conv map_of_SomeD not_None_eq)
  then have "gc_history demo_gc gc_demo_cfg untagged {}" by (intro gc_history.start) (simp add: demo_genv)
  moreover obtain r where "run_state (RunGC demo_gc gc_demo_cfg) untagged = (r, marked)"
    unfolding marked_def by (metis prod.collapse)
  ultimately show ?thesis
    using gc_history.collect [of demo_gc gc_demo_cfg untagged "{}" r marked] demo_untagged demo_plain(1) by (simp add: demo_genv)
qed

definition retag_run :: "(disk, (string + string \<times> string) \<times> bool \<times> (string + string \<times> string)) state" where
  "retag_run = do {
     _ \<leftarrow> PutManifest oci_demo ''app'' ''sha256:by-digest'' ''{}'';
     _ \<leftarrow> RunGC demo_gc gc_demo_cfg;
     _ \<leftarrow> PutManifest oci_demo ''app'' ''v1'' ''{}'';
     before \<leftarrow> GetManifest oci_demo ''app'' ''v1'';
     refs \<leftarrow> buildReachabilityGraph oci_demo;
     _ \<leftarrow> RunGC demo_gc gc_demo_cfg;
     later \<leftarrow> GetManifest oci_demo ''app'' ''v1'';
     State_Monad.return (before, refs = Inr [''sha256:'' @ sha oci_demo ''{}''], later) }"

definition nested_run :: "(disk, (string + string \<times> string) \<times> bool \<times> (string + string \<times> string)) state" where
  "nested_run = do {
     _ \<leftarrow> PutManifest oci_demo ''team/app'' ''v1'' ''{}'';
     before \<leftarrow> GetManifest oci_demo ''team/app'' ''v1'';
     refs \<leftarrow> buildReachabilityGraph oci_demo;
     _ \<leftarrow> RunGC demo_gc gc_demo_cfg;
     _ \<leftarrow> RunGC demo_gc gc_demo_cfg;
     later \<leftarrow> GetManifest oci_demo ''team/app'' ''v1'';
     State_Monad.return (before, refs = Inr [], later) }"

section \<open>Properties\<close>

text \<open>
  C12. The collector deletes a blob only after its grace period: whatever system calls fail, when a
  cycle removes a blob, some earlier cycle found that very blob unreferenced, and between that
  finding and the removal at least the grace period has passed. In particular no cycle deletes
  what it is the first to find unreferenced.
\<close>

theorem gc_respects_grace:
  assumes "gc_ok ge" "json_roundtrip ge" "gc_history ge cfg d L"
    and "blobs_ok (genv ge) (nodes d)" "plain_disk (nodes d)" "run_state (RunGC ge cfg) d = (r, d')"
    and "blobs (genv ge) (nodes d) h = Some n" "blobs (genv ge) (nodes d') h \<noteq> Some n"
  shows "\<exists>t k. (t, ''sha256:'' @ h) \<in> L \<and> io_ops d \<le> k \<and> k \<le> io_ops d' \<and> clock (genv ge) k - t \<ge> GracePeriod cfg"
proof -
  obtain unref where "cycle ge cfg unref (nodes d) (io_ops d) d'"
    using RunGC_cycle [OF assms(1,4-6)] by blast
  then have "due ge cfg (nodes d) (io_ops d) (io_ops d') h"
    using assms(7,8) unfolding cycle_def by metis
  then obtain name data q k where q: "map_of (nodes d) (quarantine_dir (genv ge) @ [name]) = Some (FileN data)"
      "unmarshalQ ge data = Inr q" "BlobPath (genv ge) (BlobDigest q) = Inr (slot (genv ge) h)"
    and k: "io_ops d \<le> k" "k \<le> io_ops d'" "clock (genv ge) k - QuarantinedAt q \<ge> GracePeriod cfg"
    unfolding due_def by blast
  have "logged ge L q" by (rule history_logged [OF assms(3,1,2) q(1,2)])
  then obtain h' where h': "BlobDigest q = ''sha256:'' @ h'" "hexlike h'" "(QuarantinedAt q, BlobDigest q) \<in> L"
    unfolding logged_def by blast
  then have "h' = h" using q(3) BlobPath_digest [OF h'(2), of "genv ge"] by simp
  then have "(QuarantinedAt q, ''sha256:'' @ h) \<in> L" using h' by simp
  then show ?thesis using k by blast
qed

theorem gc_respects_grace_witness:
  "\<exists>t k. (t, ''sha256:'' @ sha oci_demo ''config'') \<in>
      {} \<union> {(clock oci_demo k, dg) | k dg. io_ops untagged \<le> k \<and> k \<le> io_ops marked \<and> dg \<in> unreferenced demo_gc untagged} \<and>
     io_ops marked \<le> k \<and> k \<le> io_ops swept \<and> clock oci_demo k - t \<ge> 5"
proof -
  obtain r r' where r: "run_state (RunGC demo_gc gc_demo_cfg) untagged = (r, marked)"
      "run_state (RunGC demo_gc gc_demo_cfg) marked = (r', swept)"
    unfolding marked_def swept_def by (metis prod.collapse)
  have b: "blobs_ok (genv demo_gc) (nodes marked)"
    using RunGC_blobs_ok [OF demo_gc_ok(1) _ demo_plain(1) r(1)] demo_untagged by (simp add: demo_genv)
  show ?thesis
    using gc_respects_grace [OF demo_gc_ok demo_history b demo_plain(2) r(2),
        of "sha oci_demo ''config''" "FileN ''config''"] demo_sweep
    by (simp add: demo_genv blobs_def)
qed

text \<open>
  The collector does not look at references again before it deletes: a manifest that was
  untagged when a cycle quarantined it and has been tagged since is deleted by the first cycle after
  the grace period, and its tag is left dangling.
\<close>

lemma gc_deletes_retagged:
  "fst (run_state retag_run demo_disk) =
     (Inr (''{}'', ''sha256:'' @ sha oci_demo ''{}''), True,
      Inl (''manifest not found: blob not found: sha256:'' @ sha oci_demo ''{}''))"
  by code_simp

text \<open>
  Repositories with a slash in their name are invisible to the marking phase: a manifest tagged
  in \<open>team/app\<close> can be pulled, is not among the referenced digests, and is deleted by the collector.
\<close>

lemma gc_misses_nested_repositories:
  "fst (run_state nested_run demo_disk) =
     (Inr (''{}'', ''sha256:'' @ sha oci_demo ''{}''), True,
      Inl (''manifest not found: blob not found: sha256:'' @ sha oci_demo ''{}''))"
  by code_simp

end
