(* ===== verification/OciHandler.thy ===== *)
theory OciHandler
  imports OciUpload OciGC Http Regex
begin

text \<open>
  The registry's HTTP side (\<open>internal/provisioner/oci/handler.go\<close>, \<open>router.go\<close>, \<open>auth.go\<close>): the
  handlers as computations on the registry of theory OciStorage, the router's patterns over the
  matcher of theory Regex, and the authenticator.

  A request carries the parts the code reads: method, path, the \<open>digest\<close> query parameter, the
  \<open>Range\<close> header, the body as a reader and the result of \<open>r.BasicAuth()\<close>. \<open>bcrypt\<close> is a parameter of
  the authenticator. Without conditional headers \<open>http.ServeContent\<close> first asks for the size by
  seeking to the end, and answers 500 when that fails.
\<close>

record oci_request =
  OMethod :: string
  OPath :: string
  ODigest :: string
  ORange :: string
  OBody :: reader
  OAuth :: "(string \<times> string) option"

type_synonym handler = "(registry, response) state"

section \<open>Handlers\<close>

definition writeOCIError :: "int \<Rightarrow> string \<Rightarrow> string \<Rightarrow> response" where
  "writeOCIError status code message =
     \<lparr>RCode = status, RHeaders = [(''Content-Type'', ''application/json'')],
      RBody = JsonBody (JObj [(''errors'', JArr [JObj [(''code'', JStr code), (''message'', JStr message)]])])\<rparr>"

definition plain_answer :: "int \<Rightarrow> (string \<times> string) list \<Rightarrow> response" where
  "plain_answer code hs = \<lparr>RCode = code, RHeaders = hs, RBody = NoBody\<rparr>"

definition not_allowed :: response where
  "not_allowed = http_Error ''method not allowed'' StatusMethodNotAllowed"

definition PingHandler :: "oci_request \<Rightarrow> handler" where
  "PingHandler req = State_Monad.return
     (if OMethod req \<noteq> ''GET'' then not_allowed
      else \<lparr>RCode = StatusOK, RHeaders = [(''Docker-Distribution-API-Version'', ''registry/2.0'')], RBody = JsonBody (JObj [])\<rparr>)"

text \<open>\<open>readerAtWrapper.Seek\<close>, with \<open>whence\<close> 0, 1, 2 for start, current and end, and what \<open>ServeContent\<close> makes of it.\<close>

definition wrapper_Seek :: "int \<Rightarrow> int \<Rightarrow> int \<Rightarrow> string + int" where
  "wrapper_Seek cur offset whence =
     (if whence = 0 then Inr offset
      else if whence = 1 then Inr (cur + offset)
      else if whence = 2 then Inl ''seek from end not supported''
      else Inr cur)"

definition ServeContent :: "(string \<times> string) list \<Rightarrow> string \<Rightarrow> response" where
  "ServeContent hs content =
     (case wrapper_Seek 0 0 2 of
        Inl e \<Rightarrow> (http_Error ''seeker can't seek'' StatusInternalServerError)
          \<lparr>RHeaders := filter (\<lambda>h. fst h = ''Docker-Content-Digest'') hs\<rparr>
      | Inr sz \<Rightarrow> \<lparr>RCode = StatusOK, RHeaders = hs, RBody = TextBody content\<rparr>)"

definition blob_headers :: "int \<Rightarrow> string \<Rightarrow> (string \<times> string) list" where
  "blob_headers n digest = [(''Content-Length'', itoa n), (''Docker-Content-Digest'', digest)]"

definition get_blob :: "oci_env \<Rightarrow> oci_request \<Rightarrow> string \<Rightarrow> (disk, response) state" where
  "get_blob env req digest = do {
     ex \<leftarrow> BlobExists env digest;
     case ex of
       Inl e \<Rightarrow> State_Monad.return (writeOCIError StatusBadRequest ''DIGEST_INVALID'' e)
     | Inr b \<Rightarrow>
         if \<not> b then State_Monad.return (writeOCIError StatusNotFound ''BLOB_UNKNOWN'' ''blob not found'')
         else do {
           sz \<leftarrow> BlobSize env digest;
           case sz of
             Inl e \<Rightarrow> State_Monad.return (writeOCIError StatusInternalServerError ''BLOB_UNKNOWN'' e)
           | Inr n \<Rightarrow> do {
               rd \<leftarrow> ReadBlob env digest;
               State_Monad.return (case rd of
                 Inl e \<Rightarrow> writeOCIError StatusNotFound ''BLOB_UNKNOWN'' e
               | Inr c \<Rightarrow>
                   if ORange req \<noteq> ''''
                   then ServeContent ((''Content-Type'', ''application/octet-stream'') # blob_headers n digest) c
                   else \<lparr>RCode = StatusOK,
                          RHeaders = (''Content-Type'', ''application/octet-stream'') # blob_headers n digest,
                          RBody = TextBody c\<rparr>) } } }"

definition GetBlobHandler :: "oci_env \<Rightarrow> oci_request \<Rightarrow> string \<Rightarrow> string \<Rightarrow> handler" where
  "GetBlobHandler env req name digest =
     (if OMethod req \<noteq> ''GET'' then State_Monad.return not_allowed
      else on_disk (get_blob env req digest))"

definition HeadBlobHandler :: "oci_env \<Rightarrow> oci_request \<Rightarrow> string \<Rightarrow> string \<Rightarrow> handler" where
  "HeadBlobHandler env req name digest =
     (if OMethod req \<noteq> ''HEAD'' then State_Monad.return not_allowed
      else on_disk (do {
        ex \<leftarrow> BlobExists env digest;
        case ex of
          Inl e \<Rightarrow> State_Monad.return (plain_answer StatusBadRequest [])
        | Inr b \<Rightarrow>
            if \<not> b then State_Monad.return (plain_answer StatusNotFound [])
            else do {
              sz \<leftarrow> BlobSize env digest;
              State_Monad.return (case sz of
                Inl e \<Rightarrow> plain_answer StatusInternalServerError []
              | Inr n \<Rightarrow> plain_answer StatusOK (blob_headers n digest)) } }))"

definition created :: "string \<Rightarrow> string \<Rightarrow> string \<Rightarrow> response" where
  "created kind name digest = plain_answer StatusCreated
     [(''Location'', ''/v2/'' @ name @ kind @ digest), (''Docker-Content-Digest'', digest)]"

definition InitiateBlobUploadHandler :: "oci_env \<Rightarrow> oci_request \<Rightarrow> string \<Rightarrow> handler" where
  "InitiateBlobUploadHandler env req name =
     (if OMethod req \<noteq> ''POST'' then State_Monad.return not_allowed
      else if ODigest req \<noteq> '''' then do {
        r \<leftarrow> on_disk (WriteBlob env (OBody req) (ODigest req));
        State_Monad.return (case r of
          Inl e \<Rightarrow>
            if contains e ''digest mismatch'' then writeOCIError StatusBadRequest ''DIGEST_INVALID'' e
            else writeOCIError StatusInternalServerError ''BLOB_UPLOAD_INVALID'' e
        | Inr dg \<Rightarrow> created ''/blobs/'' name dg) }
      else do {
        r \<leftarrow> CreateSession env;
        State_Monad.return (case r of
          Inl e \<Rightarrow> writeOCIError StatusInternalServerError ''BLOB_UPLOAD_INVALID'' e
        | Inr sid \<Rightarrow> plain_answer StatusAccepted
            [(''Location'', ''/v2/'' @ name @ ''/blobs/uploads/'' @ sid), (''Range'', ''0-0'')]) })"

definition PatchBlobUploadHandler :: "oci_env \<Rightarrow> oci_request \<Rightarrow> string \<Rightarrow> string \<Rightarrow> handler" where
  "PatchBlobUploadHandler env req name sid =
     (if OMethod req \<noteq> ''PATCH'' then State_Monad.return not_allowed
      else do {
        r \<leftarrow> AppendData sid (OBody req);
        State_Monad.return (case r of
          Inl e \<Rightarrow> writeOCIError StatusNotFound ''BLOB_UPLOAD_UNKNOWN'' e
        | Inr offset \<Rightarrow> plain_answer StatusAccepted
            [(''Location'', ''/v2/'' @ name @ ''/blobs/uploads/'' @ sid), (''Range'', ''0-'' @ itoa (offset - 1))]) })"

definition CompleteBlobUploadHandler :: "oci_env \<Rightarrow> oci_request \<Rightarrow> string \<Rightarrow> string \<Rightarrow> handler" where
  "CompleteBlobUploadHandler env req name sid =
     (if OMethod req \<noteq> ''PUT'' then State_Monad.return not_allowed
      else if ODigest req = '''' then
        State_Monad.return (writeOCIError StatusBadRequest ''DIGEST_INVALID'' ''digest parameter required'')
      else do {
        r \<leftarrow> CompleteSession env sid (ODigest req);
        State_Monad.return (case r of
          Inl e \<Rightarrow>
            if contains e ''digest mismatch'' then writeOCIError StatusBadRequest ''DIGEST_INVALID'' e
            else if contains e ''not found'' then writeOCIError StatusNotFound ''BLOB_UPLOAD_UNKNOWN'' e
            else writeOCIError StatusInternalServerError ''BLOB_UPLOAD_INVALID'' e
        | Inr dg \<Rightarrow> created ''/blobs/'' name dg) })"

definition manifest_headers :: "string \<Rightarrow> string \<Rightarrow> (string \<times> string) list" where
  "manifest_headers data digest =
     (''Content-Type'', ''application/vnd.oci.image.manifest.v1+json'') # blob_headers (int (length data)) digest"

definition GetManifestHandler :: "oci_env \<Rightarrow> oci_request \<Rightarrow> string \<Rightarrow> string \<Rightarrow> handler" where
  "GetManifestHandler env req name reference =
     (if OMethod req \<noteq> ''GET'' then State_Monad.return not_allowed
      else do {
        r \<leftarrow> on_disk (GetManifest env name reference);
        State_Monad.return (case r of
          Inl e \<Rightarrow> writeOCIError StatusNotFound ''MANIFEST_UNKNOWN'' e
        | Inr dd \<Rightarrow> \<lparr>RCode = StatusOK, RHeaders = manifest_headers (fst dd) (snd dd), RBody = TextBody (fst dd)\<rparr>) })"

definition HeadManifestHandler :: "oci_env \<Rightarrow> oci_request \<Rightarrow> string \<Rightarrow> string \<Rightarrow> handler" where
  "HeadManifestHandler env req name reference =
     (if OMethod req \<noteq> ''HEAD'' then State_Monad.return not_allowed
      else on_disk (do {
        ex \<leftarrow> ManifestExists env name reference;
        case ex of
          Inl e \<Rightarrow> State_Monad.return (plain_answer StatusInternalServerError [])
        | Inr b \<Rightarrow>
            if \<not> b then State_Monad.return (plain_answer StatusNotFound [])
            else do {
              r \<leftarrow> GetManifest env name reference;
              State_Monad.return (case r of
                Inl e \<Rightarrow> plain_answer StatusNotFound []
              | Inr dd \<Rightarrow> plain_answer StatusOK (manifest_headers (fst dd) (snd dd))) } }))"

definition PutManifestHandler :: "oci_env \<Rightarrow> oci_request \<Rightarrow> string \<Rightarrow> string \<Rightarrow> handler" where
  "PutManifestHandler env req name reference =
     (if OMethod req \<noteq> ''PUT'' then State_Monad.return not_allowed
      else (case snd (OBody req) of
        Some e \<Rightarrow> State_Monad.return (writeOCIError StatusBadRequest ''MANIFEST_INVALID'' e)
      | None \<Rightarrow> do {
          r \<leftarrow> on_disk (PutManifest env name reference (fst (OBody req)));
          State_Monad.return (case r of
            Inl e \<Rightarrow>
              if contains e ''invalid'' \<or> contains e ''missing'' then writeOCIError StatusBadRequest ''MANIFEST_INVALID'' e
              else writeOCIError StatusInternalServerError ''MANIFEST_INVALID'' e
          | Inr dg \<Rightarrow> created ''/manifests/'' name dg) }))"

definition DeleteManifestHandler :: "oci_env \<Rightarrow> oci_request \<Rightarrow> string \<Rightarrow> string \<Rightarrow> handler" where
  "DeleteManifestHandler env req name reference =
     (if OMethod req \<noteq> ''DELETE'' then State_Monad.return not_allowed
      else do {
        r \<leftarrow> on_disk (DeleteManifest env name reference);
        State_Monad.return (case r of
          Inl e \<Rightarrow>
            if contains e ''not found'' then writeOCIError StatusNotFound ''MANIFEST_UNKNOWN'' e
            else if contains e ''cannot delete'' then writeOCIError StatusMethodNotAllowed ''UNSUPPORTED'' e
            else writeOCIError StatusInternalServerError ''MANIFEST_UNKNOWN'' e
        | Inr u \<Rightarrow> plain_answer StatusAccepted []) })"

section \<open>Routing\<close>

definition seg_re :: re where
  "seg_re = Plus (Cls (\<lambda>c. c \<noteq> CHR ''/''))"

definition name_re :: re where
  "name_re = Seq seg_re (Star (Seq (lit ''/'') seg_re))"

definition lower_hex :: "char \<Rightarrow> bool" where
  "lower_hex c \<longleftrightarrow> in_range CHR ''a'' CHR ''f'' c \<or> is_digit c"

definition digest_re :: re where
  "digest_re = Seq (lit ''sha256:'') (Rep 64 (Cls lower_hex))"

definition session_re :: re where
  "session_re = Plus (Cls (\<lambda>c. lower_hex c \<or> c = CHR ''-''))"

text \<open>
  \<open>FindStringSubmatch\<close> for \<open>^/v2/(name)mid(last)$\<close>: the greedy first group makes the leftmost
  match the one with the longest name.
\<close>

definition split_ok :: "string \<Rightarrow> re \<Rightarrow> string \<Rightarrow> nat \<Rightarrow> bool" where
  "split_ok mid last_re rest k \<longleftrightarrow> has_prefix (drop k rest) mid \<and>
     matches last_re (drop (k + length mid) rest) \<and> matches name_re (take k rest)"

definition find_route :: "string \<Rightarrow> re \<Rightarrow> string \<Rightarrow> (string \<times> string) option" where
  "find_route mid last_re path =
     (if has_prefix path ''/v2/''
      then map_option (\<lambda>k. (take k (drop 4 path), drop (k + length mid) (drop 4 path)))
             (find (split_ok mid last_re (drop 4 path)) (rev [0..<Suc (length (drop 4 path))]))
      else None)"

definition blobPattern :: "string \<Rightarrow> (string \<times> string) option" where
  "blobPattern = find_route ''/blobs/'' digest_re"

definition uploadPattern :: "string \<Rightarrow> (string \<times> string) option" where
  "uploadPattern = find_route ''/blobs/uploads/'' Eps"

definition uploadSessionPattern :: "string \<Rightarrow> (string \<times> string) option" where
  "uploadSessionPattern = find_route ''/blobs/uploads/'' session_re"

definition manifestPattern :: "string \<Rightarrow> (string \<times> string) option" where
  "manifestPattern = find_route ''/manifests/'' seg_re"

definition route_blob :: "oci_env \<Rightarrow> oci_request \<Rightarrow> string \<times> string \<Rightarrow> handler" where
  "route_blob env req m =
     (if OMethod req = ''GET'' then GetBlobHandler env req (fst m) (snd m)
      else if OMethod req = ''HEAD'' then HeadBlobHandler env req (fst m) (snd m)
      else State_Monad.return not_allowed)"

definition route_upload :: "oci_env \<Rightarrow> oci_request \<Rightarrow> string \<times> string \<Rightarrow> handler" where
  "route_upload env req m =
     (if OMethod req = ''POST'' then InitiateBlobUploadHandler env req (fst m)
      else State_Monad.return not_allowed)"

definition route_session :: "oci_env \<Rightarrow> oci_request \<Rightarrow> string \<times> string \<Rightarrow> handler" where
  "route_session env req m =
     (if OMethod req = ''PATCH'' then PatchBlobUploadHandler env req (fst m) (snd m)
      else if OMethod req = ''PUT'' then CompleteBlobUploadHandler env req (fst m) (snd m)
      else State_Monad.return not_allowed)"

definition route_manifest :: "oci_env \<Rightarrow> oci_request \<Rightarrow> string \<times> string \<Rightarrow> handler" where
  "route_manifest env req m =
     (if OMethod req = ''GET'' then GetManifestHandler env req (fst m) (snd m)
      else if OMethod req = ''HEAD'' then HeadManifestHandler env req (fst m) (snd m)
      else if OMethod req = ''PUT'' then PutManifestHandler env req (fst m) (snd m)
      else if OMethod req = ''DELETE'' then DeleteManifestHandler env req (fst m) (snd m)
      else State_Monad.return not_allowed)"

definition serveHTTPInternal :: "oci_env \<Rightarrow> oci_request \<Rightarrow> handler" where
  "serveHTTPInternal env req =
     (if OPath req = ''/v2/'' \<or> OPath req = ''/v2'' then PingHandler req
      else (case blobPattern (OPath req) of
        Some m \<Rightarrow> route_blob env req m
      | None \<Rightarrow> (case uploadPattern (OPath req) of
        Some m \<Rightarrow> route_upload env req m
      | None \<Rightarrow> (case uploadSessionPattern (OPath req) of
        Some m \<Rightarrow> route_session env req m
      | None \<Rightarrow> (case manifestPattern (OPath req) of
        Some m \<Rightarrow> route_manifest env req m
      | None \<Rightarrow> State_Monad.return http_NotFound)))))"

section \<open>Authentication\<close>

record AuthConfig =
  AEnabled :: bool
  Realm :: string
  HtpasswdPath :: string
  AllowPingWithoutAuth :: bool

record Authenticator =
  aconfig :: AuthConfig
  credentials :: "(string \<times> string) list"

text \<open>\<open>bufio.Scanner\<close> over lines: a line of 64 KiB or more ends the scan with an error; a last empty line is none.\<close>

fun raw_lines :: "string \<Rightarrow> string list" where
  "raw_lines s = (if s = [] then [] else
     (let ls = split_on (CHR 0x0A) s in if last ls = [] then butlast ls else ls))"

definition drop_cr :: "string \<Rightarrow> string" where
  "drop_cr l = (if l \<noteq> [] \<and> last l = CHR 0x0D then butlast l else l)"

definition scan_lines :: "string \<Rightarrow> string list \<times> string option" where
  "scan_lines s = (if list_ex (\<lambda>l. length l \<ge> 65536) (raw_lines s)
     then (map drop_cr (takeWhile (\<lambda>l. length l < 65536) (raw_lines s)), Some ''bufio.Scanner: token too long'')
     else (map drop_cr (raw_lines s), None))"

definition bcrypt_hash :: "string \<Rightarrow> bool" where
  "bcrypt_hash h \<longleftrightarrow> has_prefix h ''$2a$'' \<or> has_prefix h ''$2b$'' \<or> has_prefix h ''$2y$''"

fun load_lines :: "nat \<Rightarrow> string list \<Rightarrow> (string \<times> string) list \<Rightarrow> string + (string \<times> string) list" where
  "load_lines n [] creds = Inr creds"
| "load_lines n (l # ls) creds =
     (let line = trim_space l in
      if line = '''' \<or> has_prefix line ''#'' then load_lines (Suc n) ls creds
      else (case index_byte line (CHR '':'') of
        None \<Rightarrow> Inl (''invalid htpasswd format at line '' @ itoa (int n))
      | Some i \<Rightarrow>
          if \<not> bcrypt_hash (drop (Suc i) line)
          then Inl (''unsupported password hash format at line '' @ itoa (int n) @ '' (only bcrypt supported)'')
          else load_lines (Suc n) ls (AList.update (take i line) (drop (Suc i) line) creds)))"

definition loadHtpasswd :: "io_err + string \<Rightarrow> (string \<times> string) list \<Rightarrow> string + (string \<times> string) list" where
  "loadHtpasswd file creds =
     (case file of
        Inl e \<Rightarrow> Inl (''failed to open htpasswd file: '' @ io_text e)
      | Inr content \<Rightarrow>
          (case load_lines 1 (fst (scan_lines content)) creds of
             Inl e \<Rightarrow> Inl e
           | Inr creds' \<Rightarrow>
               (case snd (scan_lines content) of
                  Some e \<Rightarrow> Inl (''error reading htpasswd file: '' @ e)
                | None \<Rightarrow> if creds' = [] then Inl ''no valid credentials found in htpasswd file'' else Inr creds')))"

definition NewAuthenticator :: "io_err + string \<Rightarrow> AuthConfig \<Rightarrow> string + Authenticator" where
  "NewAuthenticator file cfg =
     (if HtpasswdPath cfg = '''' then Inr \<lparr>aconfig = cfg, credentials = []\<rparr>
      else (case loadHtpasswd file [] of
        Inl e \<Rightarrow> Inl (''failed to load htpasswd: '' @ e)
      | Inr creds \<Rightarrow> Inr \<lparr>aconfig = cfg, credentials = creds\<rparr>))"

definition validateCredentials :: "(string \<Rightarrow> string \<Rightarrow> bool) \<Rightarrow> Authenticator \<Rightarrow> string \<Rightarrow> string \<Rightarrow> bool" where
  "validateCredentials bcrypt a username password =
     (case map_of (credentials a) username of
        None \<Rightarrow> False
      | Some h \<Rightarrow> bcrypt h password)"

definition AddCredential :: "Authenticator \<Rightarrow> string \<Rightarrow> string \<Rightarrow> Authenticator" where
  "AddCredential a username h = a\<lparr>credentials := AList.update username h (credentials a)\<rparr>"

text \<open>\<open>%q\<close> of a realm of printable ASCII characters.\<close>

definition quote_ascii :: "string \<Rightarrow> string" where
  "quote_ascii s = [CHR 0x22] @ concat (map (\<lambda>c. if c = CHR 0x22 \<or> c = CHR 0x5C then [CHR 0x5C, c] else [c]) s) @ [CHR 0x22]"

definition unauthorized :: "Authenticator \<Rightarrow> string \<Rightarrow> response" where
  "unauthorized a reason =
     \<lparr>RCode = StatusUnauthorized,
      RHeaders = [(''WWW-Authenticate'', ''Basic realm='' @ quote_ascii (if Realm (aconfig a) = '''' then ''Shoal Registry'' else Realm (aconfig a))),
                  (''Content-Type'', ''application/json'')],
      RBody = JsonBody (JObj [(''errors'', JArr [JObj [(''code'', JStr ''UNAUTHORIZED''), (''message'', JStr ''authentication required'')]])])\<rparr>"

definition Middleware :: "(string \<Rightarrow> string \<Rightarrow> bool) \<Rightarrow> Authenticator \<Rightarrow> (oci_request \<Rightarrow> handler) \<Rightarrow> oci_request \<Rightarrow> handler" where
  "Middleware bcrypt a next req =
     (if \<not> AEnabled (aconfig a) then next req
      else if AllowPingWithoutAuth (aconfig a) \<and> (OPath req = ''/v2/'' \<or> OPath req = ''/v2'') then next req
      else (case OAuth req of
        None \<Rightarrow> State_Monad.return (unauthorized a ''missing authorization header'')
      | Some up \<Rightarrow>
          if \<not> validateCredentials bcrypt a (fst up) (snd up)
          then State_Monad.return (unauthorized a ''invalid credentials'')
          else next req))"

definition ServeHTTP :: "(string \<Rightarrow> string \<Rightarrow> bool) \<Rightarrow> oci_env \<Rightarrow> Authenticator option \<Rightarrow> oci_request \<Rightarrow> handler" where
  "ServeHTTP bcrypt env au req =
     (case au of
        Some a \<Rightarrow> Middleware bcrypt a (serveHTTPInternal env) req
      | None \<Rightarrow> serveHTTPInternal env req)"

section \<open>What the patterns match\<close>

lemma split_on_append: "split_on d (u @ d # v) = split_on d u @ split_on d v"
proof (induction u)
  case (Cons c u)
  obtain w ws where "split_on d u = w # ws" by (cases "split_on d u") auto
  then show ?case using Cons.IH by auto
qed simp

lemma last_segment:
  assumes "u @ CHR ''/'' # v = u' @ CHR ''/'' # v'" "CHR ''/'' \<notin> set v" "CHR ''/'' \<notin> set v'"
  shows "u = u'" "v = v'"
proof -
  have "split_on CHR ''/'' u @ [v] = split_on CHR ''/'' u' @ [v']"
    using arg_cong [OF assms(1), of "split_on CHR ''/''"] assms(2,3) by (simp add: split_on_append split_on_no_sep)
  then show "v = v'" by simp
  then show "u = u'" using assms(1) by simp
qed

lemma split_okD:
  assumes "split_ok mid lr rest k"
  shows "\<exists>w. rest = take k rest @ mid @ w \<and> drop (k + length mid) rest = w \<and> matches lr w \<and> matches name_re (take k rest)"
proof -
  obtain w where w: "drop k rest = mid @ w" using assms by (auto simp: split_ok_def has_prefix_iff)
  have "drop (length mid) (drop k rest) = w" using w by simp
  then have "drop (k + length mid) rest = w" by (simp add: add.commute)
  moreover have "rest = take k rest @ mid @ w" using append_take_drop_id [of k rest] w by simp
  ultimately show ?thesis using assms by (auto simp: split_ok_def)
qed

lemma find_route_iff:
  assumes last: "\<And>l. matches lr l \<Longrightarrow> CHR ''/'' \<notin> set l" and mid: "mid = mm @ ''/''"
  shows "find_route mid lr path = Some (n, l) \<longleftrightarrow>
    path = ''/v2/'' @ n @ mid @ l \<and> matches name_re n \<and> matches lr l"
proof
  assume "find_route mid lr path = Some (n, l)"
  then obtain k where p: "has_prefix path ''/v2/''"
    and k: "find (split_ok mid lr (drop 4 path)) (rev [0..<Suc (length (drop 4 path))]) = Some k"
    and nl: "n = take k (drop 4 path)" "l = drop (k + length mid) (drop 4 path)"
    by (auto simp: find_route_def simp del: upt_Suc split: if_splits)
  have ok: "split_ok mid lr (drop 4 path) k" using find_SomeD [OF k] by simp
  have "path = ''/v2/'' @ drop 4 path" using p by (auto simp: has_prefix_iff)
  then show "path = ''/v2/'' @ n @ mid @ l \<and> matches name_re n \<and> matches lr l"
    using split_okD [OF ok] nl by metis
next
  assume a: "path = ''/v2/'' @ n @ mid @ l \<and> matches name_re n \<and> matches lr l"
  let ?rest = "n @ mid @ l"
  let ?ks = "rev [0..<Suc (length ?rest)]"
  have d: "drop 4 path = ?rest" "has_prefix path ''/v2/''" using a by (simp_all add: has_prefix_iff)
  have ok: "split_ok mid lr ?rest (length n)" using a by (simp add: split_ok_def)
  have u: "k = length n" if sk: "split_ok mid lr ?rest k" and le: "k \<le> length ?rest" for k
  proof -
    obtain w where w: "?rest = take k ?rest @ mid @ w" "matches lr w" using split_okD [OF sk] by blast
    define n' where "n' = take k ?rest"
    have "(n @ mm) @ CHR ''/'' # l = (n' @ mm) @ CHR ''/'' # w" using w(1) mid unfolding n'_def [symmetric] by simp
    then have "n @ mm = n' @ mm" using last_segment(1) last w(2) a by blast
    then have "n = take k ?rest" by (simp add: n'_def)
    then show ?thesis using le by (metis length_take min.absorb2)
  qed
  have "find (split_ok mid lr ?rest) ?ks \<noteq> None"
    using ok by (auto simp: find_None_iff simp del: upt_Suc intro!: exI [of _ "length n"])
  then obtain k where k: "find (split_ok mid lr ?rest) ?ks = Some k" by blast
  have "k = length n" using find_SomeD [OF k] u by (auto simp del: upt_Suc)
  then show "find_route mid lr path = Some (n, l)"
    using k d by (simp add: find_route_def del: upt_Suc)
qed

lemma lower_hex_char: "lower_hex c \<Longrightarrow> c \<in> set ''0123456789abcdef''"
proof -
  assume "lower_hex c"
  then have "(of_char c :: nat) \<in> set ([48..<58] @ [97..<103])"
    unfolding set_append set_upt by (auto simp: lower_hex_def is_digit_def in_range_def)
  then have "char_of (of_char c :: nat) \<in> set (map char_of ([48..<58] @ [97..<103] :: nat list))"
    unfolding set_map by (rule imageI)
  moreover have "(map char_of ([48..<58] @ [97..<103] :: nat list) :: string) = ''0123456789abcdef''" by code_simp
  ultimately show ?thesis by (simp only: char_of_char)
qed

lemma digest_re_hex: "matches digest_re dg \<Longrightarrow> \<exists>h. dg = ''sha256:'' @ h \<and> hexlike h"
proof -
  assume "matches digest_re dg"
  then obtain h where "dg = ''sha256:'' @ h" "length h = 64" "\<forall>c \<in> set h. lower_hex c"
    by (auto simp: digest_re_def matches_Seq matches_Rep_length simp del: matches.simps Rep.simps)
  then show ?thesis using lower_hex_char unfolding hexlike_def list_all_iff by blast
qed

lemma hex_digest_re: "hexlike h \<Longrightarrow> matches digest_re (''sha256:'' @ h)"
proof -
  assume h: "hexlike h"
  have "list_all lower_hex ''0123456789abcdef''" by code_simp
  then have "\<forall>c \<in> set h. lower_hex c" using h unfolding hexlike_def list_all_iff by blast
  then show ?thesis using h unfolding digest_re_def matches_Seq matches_Rep_length matches_lit hexlike_def by blast
qed

lemma last_no_slash:
  "matches digest_re l \<Longrightarrow> CHR ''/'' \<notin> set l" "matches Eps l \<Longrightarrow> CHR ''/'' \<notin> set l"
  "matches session_re l \<Longrightarrow> CHR ''/'' \<notin> set l" "matches seg_re l \<Longrightarrow> CHR ''/'' \<notin> set l"
proof -
  show "matches digest_re l \<Longrightarrow> CHR ''/'' \<notin> set l"
    using digest_re_hex [of l] hexlike_plain plain_elemD by fastforce
  show "matches Eps l \<Longrightarrow> CHR ''/'' \<notin> set l" by simp
  show "matches session_re l \<Longrightarrow> CHR ''/'' \<notin> set l"
    using lower_hex_char [of "CHR ''/''"] by (auto simp: session_re_def simp del: matches.simps)
  show "matches seg_re l \<Longrightarrow> CHR ''/'' \<notin> set l"
    by (auto simp: seg_re_def simp del: matches.simps)
qed

lemma pattern_iff:
  "blobPattern path = Some (n, l) \<longleftrightarrow> path = ''/v2/'' @ n @ ''/blobs/'' @ l \<and> matches name_re n \<and> matches digest_re l"
  "uploadPattern path = Some (n, l) \<longleftrightarrow> path = ''/v2/'' @ n @ ''/blobs/uploads/'' @ l \<and> matches name_re n \<and> matches Eps l"
  "uploadSessionPattern path = Some (n, l) \<longleftrightarrow> path = ''/v2/'' @ n @ ''/blobs/uploads/'' @ l \<and> matches name_re n \<and> matches session_re l"
  "manifestPattern path = Some (n, l) \<longleftrightarrow> path = ''/v2/'' @ n @ ''/manifests/'' @ l \<and> matches name_re n \<and> matches seg_re l"
  unfolding blobPattern_def uploadPattern_def uploadSessionPattern_def manifestPattern_def
  by (rule find_route_iff [where mm = "''/blobs''"] find_route_iff [where mm = "''/blobs/uploads''"]
      find_route_iff [where mm = "''/manifests''"]; use last_no_slash in simp)+

section \<open>Requests keep the registry's invariant\<close>

text \<open>Paths as \<open>net/http\<close>'s multiplexer hands them on: without elements that climb.\<close>

definition path_ok :: "string \<Rightarrow> bool" where
  "path_ok p \<longleftrightarrow> ''..'' \<notin> set (split_on CHR ''/'' p)"

lemma manifest_repo_ok:
  assumes "path_ok path" "manifestPattern path = Some (n, l)"
  shows "repo_ok n"
proof -
  have "path = '''' @ CHR ''/'' # ''v2'' @ CHR ''/'' # n @ CHR ''/'' # ''manifests'' @ CHR ''/'' # l"
    using assms(2) by (simp add: pattern_iff)
  then have "set (split_on CHR ''/'' n) \<subseteq> set (split_on CHR ''/'' path)"
    by (simp only: split_on_append set_append) blast
  then show ?thesis using assms(1) by (auto simp: path_ok_def repo_ok_def)
qed

lemma rsafe_option: "(m = None \<Longrightarrow> rsafe env a) \<Longrightarrow> (\<And>x. m = Some x \<Longrightarrow> rsafe env (k x)) \<Longrightarrow> rsafe env (case m of None \<Rightarrow> a | Some x \<Rightarrow> k x)"
  by (cases m) auto

lemma rsafe_blob: "rsafe env (route_blob env req m)"
  unfolding route_blob_def GetBlobHandler_def HeadBlobHandler_def get_blob_def
  by (intro rsafe_if rsafe_intros rsafe_disk safe_intros safe_sum safe_if safe_readers)

lemma rsafe_upload: "env_ok env \<Longrightarrow> rsafe env (route_upload env req m)"
  unfolding route_upload_def InitiateBlobUploadHandler_def
  by (intro rsafe_if rsafe_intros rsafe_disk safe_WriteBlob rsafe_CreateSession)

lemma rsafe_session: "env_ok env \<Longrightarrow> rsafe env (route_session env req m)"
  unfolding route_session_def PatchBlobUploadHandler_def CompleteBlobUploadHandler_def
  by (intro rsafe_if rsafe_intros rsafe_AppendData rsafe_CompleteSession)

lemma rsafe_manifest: "env_ok env \<Longrightarrow> repo_ok (fst m) \<Longrightarrow> rsafe env (route_manifest env req m)"
  unfolding route_manifest_def GetManifestHandler_def HeadManifestHandler_def PutManifestHandler_def DeleteManifestHandler_def
  by (intro rsafe_if rsafe_option rsafe_intros rsafe_disk safe_intros safe_sum safe_if safe_readers safe_PutManifest safe_deletes)

lemma rsafe_internal:
  assumes "env_ok env" "path_ok (OPath req)"
  shows "rsafe env (serveHTTPInternal env req)"
  unfolding serveHTTPInternal_def PingHandler_def
  by (intro rsafe_if rsafe_option rsafe_intros rsafe_blob rsafe_upload [OF assms(1)] rsafe_session [OF assms(1)] rsafe_manifest [OF assms(1)])
    (metis manifest_repo_ok [OF assms(2)] prod.collapse)

lemma rsafe_ServeHTTP:
  assumes "env_ok env" "path_ok (OPath req)"
  shows "rsafe env (ServeHTTP bcrypt env au req)"
  unfolding ServeHTTP_def Middleware_def
  by (intro rsafe_if rsafe_option rsafe_intros rsafe_internal assms)

section \<open>Everything that runs against a registry\<close>

inductive registry_reach :: "oci_env \<Rightarrow> gc_env \<Rightarrow> GCConfig \<Rightarrow> (string \<Rightarrow> string \<Rightarrow> bool) \<Rightarrow> Authenticator option \<Rightarrow> registry \<Rightarrow> bool"
  for env ge cfg bcrypt au where
  fresh: "sessions g = [] \<Longrightarrow> (\<And>h. blobs env (nodes (rdisk g)) h = None) \<Longrightarrow> registry_reach env ge cfg bcrypt au g"
| restart: "registry_reach env ge cfg bcrypt au g \<Longrightarrow>
    registry_reach env ge cfg bcrypt au \<lparr>rdisk = snd (run_state (storage_init env) (rdisk g)), sessions = []\<rparr>"
| serve: "registry_reach env ge cfg bcrypt au g \<Longrightarrow> path_ok (OPath req) \<Longrightarrow>
    registry_reach env ge cfg bcrypt au (snd (run_state (ServeHTTP bcrypt env au req) g))"
| collect: "registry_reach env ge cfg bcrypt au g \<Longrightarrow> plain_disk (nodes (rdisk g)) \<Longrightarrow>
    registry_reach env ge cfg bcrypt au (snd (run_state (on_disk (RunGC ge cfg)) g))"
| expire: "registry_reach env ge cfg bcrypt au g \<Longrightarrow>
    registry_reach env ge cfg bcrypt au (snd (run_state (CleanupExpiredSessions env maxAge) g))"
| health: "registry_reach env ge cfg bcrypt au g \<Longrightarrow>
    registry_reach env ge cfg bcrypt au (snd (run_state (on_disk (HealthCheck env)) g))"

lemma reach_ok:
  assumes "registry_reach env ge cfg bcrypt au g" "gc_ok ge" "genv ge = env"
  shows "reg_ok env g"
  using assms(1)
proof induction
  case (fresh g)
  then show ?case by (simp add: reg_ok_def blobs_ok_def)
next
  case (restart g)
  then show ?case using safe_storage_init [of env] by (auto simp: reg_ok_def safe_def dest: tripleD)
next
  case (serve g req)
  then show ?case using rsafe_ServeHTTP assms(2,3) by (auto simp: rsafe_def gc_ok_def)
next
  case (collect g)
  obtain r d' where r: "run_state (RunGC ge cfg) (rdisk g) = (r, d')" by (metis prod.exhaust)
  have "blobs_ok env (nodes d')"
    using RunGC_blobs_ok [OF assms(2) _ collect.hyps(2) r] collect.IH assms(3) by (simp add: reg_ok_def)
  then show ?case using collect.IH r by (simp add: reg_ok_def)
next
  case (expire g maxAge)
  then show ?case using rsafe_Cleanup by (auto simp: rsafe_def)
next
  case (health g)
  then show ?case using rsafe_disk [OF safe_HealthCheck] by (auto simp: rsafe_def)
qed

lemma blob_reader_triples:
  assumes "hexlike h"
  shows "triple P (BlobExists env (''sha256:'' @ h)) (\<lambda>_. P)" "triple P (BlobSize env (''sha256:'' @ h)) (\<lambda>_. P)"
    and "triple (\<lambda>ns. blobs env ns h = b) (ReadBlob env (''sha256:'' @ h)) (\<lambda>r ns. \<forall>c. r = Inr c \<longrightarrow> b = Some (FileN c))"
proof -
  show "triple P (BlobExists env (''sha256:'' @ h)) (\<lambda>_. P)" "triple P (BlobSize env (''sha256:'' @ h)) (\<lambda>_. P)"
    unfolding BlobExists_def BlobSize_def BlobPath_digest [OF assms] sum.case
    by (rule triple_bind [OF reader_triples(1)], rule triple_return, simp)+
  show "triple (\<lambda>ns. blobs env ns h = b) (ReadBlob env (''sha256:'' @ h)) (\<lambda>r ns. \<forall>c. r = Inr c \<longrightarrow> b = Some (FileN c))"
    unfolding ReadBlob_def BlobPath_digest [OF assms] sum.case
    by (rule triple_bind [OF reader_triples(2)], rule triple_return)
      (auto simp: blobs_def split: sum.splits io_err.splits)
qed

lemma error_codes [simp]:
  "RCode (writeOCIError c k m) = c" "RCode not_allowed = StatusMethodNotAllowed" "RCode (plain_answer c hs) = c"
  "RCode (ServeContent hs c') = StatusInternalServerError" "RCode (created k n dg) = StatusCreated"
  by (simp_all add: writeOCIError_def not_allowed_def plain_answer_def ServeContent_def wrapper_Seek_def http_Error_def created_def)

lemma GetBlob_authentic:
  assumes h: "hexlike h" and r: "run_state (GetBlobHandler env req name (''sha256:'' @ h)) g = (resp, g')" and c: "RCode resp = StatusOK"
  shows "\<exists>c. RBody resp = TextBody c \<and> blobs env (nodes (rdisk g)) h = Some (FileN c)"
proof -
  let ?b = "blobs env (nodes (rdisk g)) h"
  let ?Q = "\<lambda>resp (ns :: (path \<times> node) list). RCode resp = StatusOK \<longrightarrow> (\<exists>c. RBody resp = TextBody c \<and> ?b = Some (FileN c))"
  have m: "OMethod req = ''GET''"
    using r c by (auto simp: GetBlobHandler_def split: if_splits)
  note rt = blob_reader_triples [OF h]
  have "triple (\<lambda>ns. blobs env ns h = ?b) (get_blob env req (''sha256:'' @ h)) ?Q"
    unfolding get_blob_def
    by (rule triple_bind [OF rt(1)], intro triple_sum triple_if triple_return, simp, simp,
        rule triple_bind [OF rt(2)], intro triple_sum triple_return, simp,
        rule triple_bind [OF rt(3)], rule triple_return) (auto split: sum.splits)
  from tripleD [OF this, of "rdisk g"] show ?thesis
    using r c m by (auto simp: GetBlobHandler_def)
qed

section \<open>Properties\<close>


lemma run_Stat:
  "faultless d \<Longrightarrow> open_to (nodes d) p \<Longrightarrow> look (nodes d) p = Some n \<Longrightarrow>
   run_state (os_Stat p) d = (Inr n, d\<lparr>io_ops := Suc (io_ops d)\<rparr>)"
  by (simp add: os_Stat_def syscall_def finish_def faultless_def resolve_simp)

lemma get_blob_present:
  assumes "hexlike h" "faultless d" "open_to (nodes d) (slot env h)" "map_of (nodes d) (slot env h) = Some (FileN c)"
  shows "RCode (fst (run_state (get_blob env req (''sha256:'' @ h)) d)) = (if ORange req = '''' then StatusOK else StatusInternalServerError) \<and>
    (ORange req = '''' \<longrightarrow> RBody (fst (run_state (get_blob env req (''sha256:'' @ h)) d)) = TextBody c)"
proof -
  let ?d = "\<lambda>k. d\<lparr>io_ops := k\<rparr>"
  have q: "faultless (?d k)" for k using assms(2) by (simp add: faultless_def)
  have st: "run_state (os_Stat (slot env h)) (?d k) = (Inr (FileN c), ?d (Suc k))" for k
    using run_Stat [OF q [of k], of "slot env h" "FileN c"] assms(3,4) by simp
  have rd: "run_state (os_ReadFile (slot env h)) (?d k) = (Inr c, ?d (Suc k))" for k
    using run_ReadFile [OF q [of k], of "slot env h" c] assms(3,4) by simp
  have 1: "run_state (BlobExists env (''sha256:'' @ h)) (?d k) = (Inr True, ?d (Suc k))"
    "run_state (BlobSize env (''sha256:'' @ h)) (?d k) = (Inr (int (length c)), ?d (Suc k))"
    "run_state (ReadBlob env (''sha256:'' @ h)) (?d k) = (Inr c, ?d (Suc k))" for k
    unfolding BlobExists_def BlobSize_def ReadBlob_def BlobPath_digest [OF assms(1)] sum.case run_state_bind st rd
    by (simp_all add: node_size_def)
  have "d = ?d (io_ops d)" by simp
  then have "fst (run_state (get_blob env req (''sha256:'' @ h)) d) = fst (run_state (get_blob env req (''sha256:'' @ h)) (?d (io_ops d)))" by simp
  then show ?thesis unfolding get_blob_def run_state_bind 1 by (simp add: 1 [simplified])
qed

lemma upload_route:
  assumes "matches name_re n" "OPath req = ''/v2/'' @ n @ ''/blobs/uploads/''"
  shows "serveHTTPInternal env req = route_upload env req (n, '''')"
proof -
  have u: "uploadPattern (OPath req) = Some (n, '''')" using assms by (simp add: pattern_iff)
  have "blobPattern (OPath req) \<noteq> Some (m, l)" for m l
  proof
    assume "blobPattern (OPath req) = Some (m, l)"
    then have p: "OPath req = ''/v2/'' @ m @ ''/blobs/'' @ l" "matches digest_re l" by (simp_all add: pattern_iff)
    then have "(''/v2/'' @ m @ ''/blobs'') @ CHR ''/'' # l = (''/v2/'' @ n @ ''/blobs/uploads'') @ CHR ''/'' # ''''"
      using assms(2) by simp
    then have "l = ''''" using last_segment(2) last_no_slash(1) [OF p(2)] by (metis empty_iff list.set(1))
    then show False using digest_re_hex [OF p(2)] by auto
  qed
  then have "blobPattern (OPath req) = None" by (cases "blobPattern (OPath req)") auto
  then show ?thesis using u assms(2) by (simp add: serveHTTPInternal_def)
qed

text \<open>What a monolithic upload that answers 201 leaves behind.\<close>

lemma pushed_blob:
  assumes e: "env_ok env" and b: "blobs_ok env (nodes (rdisk g))"
    and r: "run_state (InitiateBlobUploadHandler env req n) g = (resp, g')" and c: "RCode resp = StatusCreated" and d: "ODigest req \<noteq> ''''"
  shows "ODigest req = ''sha256:'' @ sha env (fst (OBody req)) \<and> open_to (nodes (rdisk g')) (slot env (sha env (fst (OBody req)))) \<and>
    (\<exists>c. map_of (nodes (rdisk g')) (slot env (sha env (fst (OBody req)))) = Some (FileN c) \<and> sha env c = sha env (fst (OBody req)) \<and>
       (blobs env (nodes (rdisk g)) (sha env (fst (OBody req))) = None \<longrightarrow> c = fst (OBody req)))"
proof -
  obtain w d' where w: "run_state (WriteBlob env (OBody req) (ODigest req)) (rdisk g) = (w, d')" by (metis prod.exhaust)
  have g': "g' = g\<lparr>rdisk := d'\<rparr>" and "\<exists>a. w = Inr a"
    using r c d w by (auto simp: InitiateBlobUploadHandler_def run_state_bind split: sum.splits if_splits)
  then obtain a where "w = Inr a" by blast
  then have "write_post env (OBody req) (ODigest req) (slots env) (map_of (nodes (rdisk g))) {} (Inr a) (nodes d')"
    using tripleD [OF WriteBlob_triple [OF writable_slots env_okD [OF e]] kept_self, of "OBody req" "ODigest req" "rdisk g"] w by simp
  then obtain m where m: "a = ''sha256:'' @ sha env (fst (OBody req))" "ODigest req = a"
     "map_of (nodes d') (slot env (sha env (fst (OBody req)))) = Some m" "open_to (nodes d') (slot env (sha env (fst (OBody req))))"
     "m = FileN (fst (OBody req)) \<or> blobs env (nodes (rdisk g)) (sha env (fst (OBody req))) = Some m"
    using d unfolding write_post_def stored_def blobs_def slots_def by (simp only: sum.case) blast
  have "\<exists>c. m = FileN c \<and> sha env c = sha env (fst (OBody req)) \<and>
      (blobs env (nodes (rdisk g)) (sha env (fst (OBody req))) = None \<longrightarrow> c = fst (OBody req))"
    using m(5) b unfolding blobs_ok_def by (metis option.distinct(1))
  then show ?thesis using m g' by auto
qed

text \<open>
  C14. A blob pushed in one request is pulled back, also through another repository: after a POST
  with a digest has answered 201, a GET of that digest on a working disk answers 200 with a content
  of that digest, which is the pushed one unless the digest was stored before. With a \<open>Range\<close> header
  the same GET answers 500.
\<close>

theorem push_then_pull:
  assumes "registry_reach env ge cfg bcrypt au g" "gc_ok ge" "genv ge = env"
    and "matches name_re n" "OMethod push = ''POST''" "OPath push = ''/v2/'' @ n @ ''/blobs/uploads/''" "ODigest push \<noteq> ''''"
    and "run_state (serveHTTPInternal env push) g = (r1, g1)" "RCode r1 = StatusCreated"
    and "matches name_re n'" "OMethod pull = ''GET''" "OPath pull = ''/v2/'' @ n' @ ''/blobs/'' @ ODigest push"
    and "run_state (serveHTTPInternal env pull) (g1\<lparr>rdisk := (rdisk g1)\<lparr>io_fault := (\<lambda>_. None)\<rparr>\<rparr>) = (r2, g2)"
  shows "RCode r2 = (if ORange pull = '''' then StatusOK else StatusInternalServerError) \<and>
    (ORange pull = '''' \<longrightarrow> (\<exists>c. RBody r2 = TextBody c \<and> sha env c = sha env (fst (OBody push)) \<and>
       (blobs env (nodes (rdisk g)) (sha env (fst (OBody push))) = None \<longrightarrow> c = fst (OBody push))))"
proof -
  let ?h = "sha env (fst (OBody push))"
  have e: "env_ok env" and b: "blobs_ok env (nodes (rdisk g))"
    using reach_ok [OF assms(1-3)] assms(2,3) by (auto simp: reg_ok_def gc_ok_def)
  have "run_state (InitiateBlobUploadHandler env push n) g = (r1, g1)"
    using assms(8,5) upload_route [OF assms(4,6)] by (simp add: route_upload_def)
  note p = pushed_blob [OF e b this assms(9,7)]
  then obtain c where c: "map_of (nodes (rdisk g1)) (slot env ?h) = Some (FileN c)" "sha env c = ?h"
    "blobs env (nodes (rdisk g)) ?h = None \<longrightarrow> c = fst (OBody push)" by (elim conjE exE)
  let ?d = "(rdisk g1)\<lparr>io_fault := (\<lambda>_. None)\<rparr>"
  have np: "OPath pull \<noteq> ''/v2/''" "OPath pull \<noteq> ''/v2''" by (simp_all add: assms(12))
  have "blobPattern (OPath pull) = Some (n', ''sha256:'' @ ?h)"
    unfolding pattern_iff(1)
  proof (intro conjI)
    show "OPath pull = ''/v2/'' @ n' @ ''/blobs/'' @ ''sha256:'' @ ?h" using assms(12) p by simp
  qed (rule assms(10), rule hex_digest_re [OF env_okD [OF e]])
  then have "serveHTTPInternal env pull = GetBlobHandler env pull n' (''sha256:'' @ ?h)"
    using assms(11) np by (simp add: serveHTTPInternal_def route_blob_def)
  then have "r2 = fst (run_state (get_blob env pull (''sha256:'' @ ?h)) ?d)"
    using assms(11,13) by (simp add: GetBlobHandler_def)
  then show ?thesis
    using get_blob_present [OF env_okD [OF e], of ?d env "fst (OBody push)" c pull] p c by (auto simp: faultless_def)
qed


definition demo_auth :: Authenticator where
  "demo_auth = \<lparr>aconfig = \<lparr>AEnabled = True, Realm = '''', HtpasswdPath = ''/etc/htpasswd'', AllowPingWithoutAuth = True\<rparr>,
     credentials = [(''ann'', ''$2y$05$x'')]\<rparr>"

definition demo_request :: "string \<Rightarrow> string \<Rightarrow> oci_request" where
  "demo_request m p = \<lparr>OMethod = m, OPath = p, ODigest = '''', ORange = '''', OBody = ('''', None), OAuth = None\<rparr>"


section \<open>Password files\<close>

definition entry_line :: "string \<times> string \<Rightarrow> string" where
  "entry_line e = fst e @ '':'' @ snd e"

definition htpasswd_text :: "(string \<times> string) list \<Rightarrow> string" where
  "htpasswd_text es = concat (map (\<lambda>e. entry_line e @ [CHR 0x0A]) es)"

definition entry_ok :: "string \<times> string \<Rightarrow> bool" where
  "entry_ok e \<longleftrightarrow> trim_space (entry_line e) = entry_line e \<and> CHR 0x0A \<notin> set (entry_line e) \<and> drop_cr (entry_line e) = entry_line e \<and>
     length (entry_line e) < 65536 \<and> CHR '':'' \<notin> set (fst e) \<and> \<not> has_prefix (fst e) ''#'' \<and> bcrypt_hash (snd e)"

lemma split_htpasswd:
  "(\<And>e. e \<in> set es \<Longrightarrow> CHR 0x0A \<notin> set (entry_line e)) \<Longrightarrow> split_on (CHR 0x0A) (htpasswd_text es) = map entry_line es @ [[]]"
  by (induction es) (auto simp: htpasswd_text_def split_on_sep)

lemma raw_lines_htpasswd:
  assumes "\<And>e. e \<in> set es \<Longrightarrow> CHR 0x0A \<notin> set (entry_line e)"
  shows "raw_lines (htpasswd_text es) = map entry_line es"
proof (cases es)
  case Nil
  then show ?thesis by (simp add: htpasswd_text_def)
next
  case (Cons e es')
  then have "htpasswd_text es \<noteq> []" by (simp add: htpasswd_text_def)
  then show ?thesis using split_htpasswd [OF assms] by simp
qed

lemma index_entry: "CHR '':'' \<notin> set u \<Longrightarrow> index_byte (u @ CHR '':'' # h) (CHR '':'') = Some (length u)"
  by (induction u) auto

lemma load_entries:
  "(\<And>e. e \<in> set es \<Longrightarrow> entry_ok e) \<Longrightarrow>
   load_lines n (map entry_line es) creds = Inr (fold (\<lambda>e cs. AList.update (fst e) (snd e) cs) es creds)"
proof (induction es arbitrary: n creds)
  case (Cons e es)
  have ok: "entry_ok e" using Cons.prems by simp
  have ne: "entry_line e \<noteq> ''''" "\<not> has_prefix (entry_line e) ''#''"
    using ok by (cases "fst e"; auto simp: entry_ok_def entry_line_def)+
  have "load_lines n (map entry_line (e # es)) creds = load_lines (Suc n) (map entry_line es) (AList.update (fst e) (snd e) creds)"
    using ok ne index_entry [of "fst e" "snd e"]
    by (simp add: entry_ok_def Let_def) (simp add: entry_line_def)
  then show ?case using Cons by simp
qed simp

lemma fold_update: "map_of (fold (\<lambda>e cs. AList.update (fst e) (snd e) cs) es creds) = map_of creds ++ map_of (rev es)"
  by (induction es arbitrary: creds) (auto simp: update_conv' map_add_def fun_eq_iff split: option.splits)

lemma update_not_Nil: "AList.update k v xs \<noteq> []"
  by (cases xs) auto

lemma fold_update_Nil: "fold (\<lambda>e cs. AList.update (fst e) (snd e) cs) es creds = [] \<longleftrightarrow> es = [] \<and> creds = []"
  by (induction es arbitrary: creds) (auto simp: update_not_Nil)

text \<open>
  Password files are read back: a file with one line per user in \<open>user:hash\<close> form is loaded to
  exactly the map of its lines, the last line of a user counting, so that \<open>validateCredentials\<close> asks
  \<open>bcrypt\<close> about the hash on that line; an empty file is refused.
\<close>

lemma htpasswd_roundtrip:
  assumes "\<And>e. e \<in> set es \<Longrightarrow> entry_ok e" "HtpasswdPath cfg \<noteq> ''''"
  shows "(es = [] \<longrightarrow> isl (NewAuthenticator (Inr (htpasswd_text es)) cfg)) \<and>
    (es \<noteq> [] \<longrightarrow> (\<exists>a. NewAuthenticator (Inr (htpasswd_text es)) cfg = Inr a \<and> aconfig a = cfg \<and>
       map_of (credentials a) = map_of (rev es) \<and>
       (\<forall>u p. validateCredentials bcrypt a u p \<longleftrightarrow> (\<exists>h. map_of (rev es) u = Some h \<and> bcrypt h p))))"
proof -
  let ?cs = "fold (\<lambda>e cs. AList.update (fst e) (snd e) cs) es []"
  have raw: "raw_lines (htpasswd_text es) = map entry_line es"
    by (rule raw_lines_htpasswd) (use assms(1) in \<open>auto simp: entry_ok_def\<close>)
  have scan: "scan_lines (htpasswd_text es) = (map entry_line es, None)"
    using assms(1) unfolding scan_lines_def raw by (auto simp: list_ex_iff entry_ok_def not_le)
  have "loadHtpasswd (Inr (htpasswd_text es)) [] = (if es = [] then Inl ''no valid credentials found in htpasswd file'' else Inr ?cs)"
    using load_entries [OF assms(1), of es 1 "[]"] by (simp add: loadHtpasswd_def scan fold_update_Nil)
  moreover have "map_of ?cs = map_of (rev es)" using fold_update [of es "[]"] by simp
  ultimately show ?thesis
    using assms(2) by (auto simp: NewAuthenticator_def validateCredentials_def split: option.splits)
qed

lemma htpasswd_roundtrip_instance:
  "\<exists>a. NewAuthenticator (Inr (htpasswd_text [(''ann'', ''$2y$05$x''), (''ann'', ''$2y$05$y'')])) (aconfig demo_auth) = Inr a \<and>
     map_of (credentials a) ''ann'' = Some ''$2y$05$y''"
proof -
  have t: "trim_space ''ann:$2y$05$x'' = ''ann:$2y$05$x''" "trim_space ''ann:$2y$05$y'' = ''ann:$2y$05$y''" by code_simp+
  have ok: "entry_ok e" if "e \<in> set [(''ann'', ''$2y$05$x''), (''ann'', ''$2y$05$y'')]" for e
    using that t by (auto simp: entry_ok_def entry_line_def drop_cr_def bcrypt_hash_def)
  have "HtpasswdPath (aconfig demo_auth) \<noteq> ''''" by (simp add: demo_auth_def)
  from htpasswd_roundtrip [of "[(''ann'', ''$2y$05$x''), (''ann'', ''$2y$05$y'')]" "aconfig demo_auth" "\<lambda>h p. True", OF ok this]
  show ?thesis by auto
qed

section \<open>A push and a pull\<close>

definition demo_push :: oci_request where
  "demo_push = (demo_request ''POST'' ''/v2/app/blobs/uploads/'')
     \<lparr>ODigest := ''sha256:'' @ sha oci_demo ''config'', OBody := (''config'', None)\<rparr>"

definition demo_pull :: oci_request where
  "demo_pull = demo_request ''GET'' (''/v2/other/blobs/sha256:'' @ sha oci_demo ''config'')"

definition demo_pushed :: registry where
  "demo_pushed = snd (run_state (serveHTTPInternal oci_demo demo_push) demo_registry)"

lemma demo_reach: "registry_reach oci_demo demo_gc gc_demo_cfg bcrypt None demo_registry"
  by (rule registry_reach.fresh) (simp_all add: demo_registry_def demo_disk_def blobs_def)

lemma demo_names: "matches name_re ''app''" "matches name_re ''other''"
  by code_simp+

lemma demo_push_created: "RCode (fst (run_state (serveHTTPInternal oci_demo demo_push) demo_registry)) = StatusCreated"
  by code_simp

theorem push_then_pull_witness:
  "\<exists>r2 g2. run_state (serveHTTPInternal oci_demo demo_pull) (demo_pushed\<lparr>rdisk := (rdisk demo_pushed)\<lparr>io_fault := (\<lambda>_. None)\<rparr>\<rparr>) = (r2, g2) \<and>
     RCode r2 = StatusOK \<and> RBody r2 = TextBody ''config''"
proof -
  obtain r1 where r1: "run_state (serveHTTPInternal oci_demo demo_push) demo_registry = (r1, demo_pushed)" "RCode r1 = StatusCreated"
    using demo_push_created unfolding demo_pushed_def by (metis prod.collapse)
  obtain r2 g2 where r2: "run_state (serveHTTPInternal oci_demo demo_pull) (demo_pushed\<lparr>rdisk := (rdisk demo_pushed)\<lparr>io_fault := (\<lambda>_. None)\<rparr>\<rparr>) = (r2, g2)"
    by (metis prod.exhaust)
  have "blobs oci_demo (nodes (rdisk demo_registry)) h = None" for h
    by (simp add: demo_registry_def demo_disk_def blobs_def)
  then show ?thesis
    using push_then_pull [OF demo_reach demo_gc_ok(1) demo_genv demo_names(1) _ _ _ r1 demo_names(2) _ _ r2] r2
    by (simp add: demo_push_def demo_pull_def demo_request_def)
qed


end
