(* ===== verification/Maintenance.thy ===== *)
theory Maintenance
  imports Paths Validation
begin

text \<open>
  The maintenance planners (\<open>internal/provisioner/maintenance\<close>): commands and their rendering for
  the shell (\<open>plan/command.go\<close>), the partition, image, boot loader and config drive plans, and the
  loop by which the wrapper scripts run a rendered plan line by line (\<open>scripts/*-wrapper.sh\<close>).

  A script that a plan hands to \<open>bash -c\<close> is text; it is given by its lines (\<open>unlines\<close>). How a
  shell reads one line is described by \<open>sh_lex\<close>, for lines that consist of literal words: blanks,
  single quotes and backslashes. Any other use of a metacharacter is reported as \<open>Expands\<close>, an open
  quote as \<open>Unterminated\<close>.
\<close>

section \<open>Commands\<close>

record Command =
  Program :: string
  Args :: "string list"
  Description :: string

definition cmd :: "string \<Rightarrow> string list \<Rightarrow> string \<Rightarrow> Command" where
  "cmd p as d = \<lparr>Program = p, Args = as, Description = d\<rparr>"

definition shell_meta :: "char \<Rightarrow> bool" where
  "shell_meta c \<longleftrightarrow>
     c \<in> set ([CHR 0x20, CHR 0x09, CHR 0x0A, CHR 0x27, CHR 0x22, CHR 0x5C] @ ''$`|&;<>()'')"

definition escape_quote :: "char \<Rightarrow> string" where
  "escape_quote c = (if c = CHR 0x27 then [CHR 0x27, CHR 0x5C, CHR 0x27, CHR 0x27] else [c])"

definition Quote :: "string \<Rightarrow> string" where
  "Quote arg =
     (if arg = [] then [CHR 0x27, CHR 0x27]
      else if \<not> list_ex shell_meta arg then arg
      else CHR 0x27 # concat (map escape_quote arg) @ [CHR 0x27])"

definition Shell :: "Command \<Rightarrow> string" where
  "Shell c = join_with '' '' (Program c # map Quote (Args c))"

definition unlines :: "string list \<Rightarrow> string" where
  "unlines ls = concat (map (\<lambda>l. l @ [CHR 0x0A]) ls)"

text \<open>What a planner program prints with \<open>--output shell\<close>.\<close>

definition shell_output :: "Command list \<Rightarrow> string" where
  "shell_output cs = unlines (map Shell cs)"

text \<open>
  \<open>PLAN_OUTPUT="$(...)"\<close> and \<open>while IFS= read -r line\<close> with its test for empty lines.
\<close>

definition wrapper_lines :: "string \<Rightarrow> string list" where
  "wrapper_lines out = filter (\<lambda>l. l \<noteq> []) (split_on CHR 0x0A out)"

section \<open>How a shell reads a line\<close>

datatype sh_error = Unterminated | Expands

fun single_quoted :: "string \<Rightarrow> (string \<times> string) option" where
  "single_quoted [] = None"
| "single_quoted (c # cs) =
     (if c = CHR 0x27 then Some ([], cs)
      else map_option (\<lambda>(w, r). (c # w, r)) (single_quoted cs))"

lemma single_quoted_shorter: "single_quoted s = Some (w, r) \<Longrightarrow> length r < length s"
  by (induction s arbitrary: w) (auto split: if_splits)

text \<open>
  Characters that keep a special meaning outside quotes: operators and expansions anywhere,
  patterns and braces anywhere, a tilde or a comment sign at the start of a word.
\<close>

definition sh_expands :: "bool \<Rightarrow> char \<Rightarrow> bool" where
  "sh_expands start c \<longleftrightarrow>
     c \<in> set ([CHR 0x0A, CHR 0x22] @ ''$`|&;<>()*?[{'') \<or> start \<and> c \<in> set ''~#''"

definition blank :: "char \<Rightarrow> bool" where
  "blank c \<longleftrightarrow> c = CHR 0x20 \<or> c = CHR 0x09"

definition word_so_far :: "string option \<Rightarrow> string" where
  "word_so_far cur = (case cur of None \<Rightarrow> [] | Some w \<Rightarrow> w)"

definition end_word :: "string option \<Rightarrow> sh_error + string list \<Rightarrow> sh_error + string list" where
  "end_word cur r = (case cur of None \<Rightarrow> r | Some w \<Rightarrow> map_sum id (Cons w) r)"

function sh_lex :: "string option \<Rightarrow> string \<Rightarrow> sh_error + string list" where
  "sh_lex cur [] = end_word cur (Inr [])"
| "sh_lex cur (c # cs) =
     (if blank c then end_word cur (sh_lex None cs)
      else if c = CHR 0x27 then
        (case single_quoted cs of
           None \<Rightarrow> Inl Unterminated
         | Some (w, r) \<Rightarrow> sh_lex (Some (word_so_far cur @ w)) r)
      else if c = CHR 0x5C then
        (case cs of
           [] \<Rightarrow> Inl Unterminated
         | d # ds \<Rightarrow> if d = CHR 0x0A then sh_lex cur ds else sh_lex (Some (word_so_far cur @ [d])) ds)
      else if sh_expands (cur = None) c then Inl Expands
      else sh_lex (Some (word_so_far cur @ [c])) cs)"
  by pat_completeness auto
termination
  by (relation "measure (\<lambda>(cur, s). length s)") (auto dest: single_quoted_shorter)

definition sh_words :: "string \<Rightarrow> sh_error + string list" where
  "sh_words line = sh_lex None line"

section \<open>Partition plan\<close>

datatype plan_error =
    PlanMsg string
  | DecodeLayout
  | AtPartition nat plan_error
  | UnsupportedFormat string
  | UnknownTypeGUID string

record LayoutEntry =
  Size :: string
  TypeGUID :: string
  Format :: string
  Label :: string

text \<open>
  \<open>json.Unmarshal\<close> into \<open>[]LayoutEntry\<close>: \<open>null\<close> is the nil slice, a \<open>null\<close> element an empty entry, any
  other mismatch an error.
\<close>

definition decode_entry :: "json \<Rightarrow> LayoutEntry option" where
  "decode_entry j =
     (case j of
        JNull \<Rightarrow> Some \<lparr>Size = [], TypeGUID = [], Format = [], Label = []\<rparr>
      | JObj kvs \<Rightarrow>
          (case (decode_string_field ''size'' [] kvs, decode_string_field ''type_guid'' [] kvs,
                 decode_string_field ''format'' [] kvs, decode_string_field ''label'' [] kvs) of
             (Some s, Some t, Some f, Some l) \<Rightarrow> Some \<lparr>Size = s, TypeGUID = t, Format = f, Label = l\<rparr>
           | _ \<Rightarrow> None)
      | _ \<Rightarrow> None)"

definition decode_layout :: "raw_message \<Rightarrow> LayoutEntry list option" where
  "decode_layout raw =
     (case raw of
        RawJson JNull \<Rightarrow> Some []
      | RawJson (JArr js) \<Rightarrow> those (map decode_entry js)
      | _ \<Rightarrow> None)"

definition validateEntry :: "LayoutEntry \<Rightarrow> plan_error + unit" where
  "validateEntry e =
     (let sizeTok = trim_space (Size e)
      in if sizeTok = [] then Inl (PlanMsg ''size must be specified'')
         else if trim_prefix sizeTok ''+'' = [] then Inl (PlanMsg ''size token is empty'')
         else if trim_space (TypeGUID e) = [] then Inl (PlanMsg ''type_guid must be specified'')
         else if Label e \<noteq> [] \<and> length (Label e) > 36 then Inl (PlanMsg ''label exceeds 36 characters'')
         else if Label e \<noteq> [] \<and> CHR '':'' \<in> set (Label e) then Inl (PlanMsg ''label may not contain colon characters'')
         else if Format e = [] then Inr ()
         else if to_lower (Format e) \<in> set [''vfat'', ''ext4'', ''xfs'', ''btrfs'', ''swap'', ''ntfs'', ''raw'', ''none'']
         then Inr ()
         else Inl (UnsupportedFormat (Format e)))"

definition typeAlias :: "(string \<times> string) list" where
  "typeAlias =
     [(''ef00'', ''C12A7328-F81F-11D2-BA4B-00A0C93EC93B''),
      (''8300'', ''0FC63DAF-8483-4772-8E79-3D69D8477DE4''),
      (''8200'', ''0657FD6D-A4AB-43C4-84E5-0933C84B4F4F''),
      (''0700'', ''EBD0A0A2-B9E5-4433-87C0-68B6B72699C7''),
      (''0c01'', ''E3C9E316-0B5C-4DB8-817D-F92DF00215AE'')]"

definition normalizeTypeGUID :: "string \<Rightarrow> plan_error + string" where
  "normalizeTypeGUID input =
     (let s = to_lower (trim_space input)
      in if s = [] then Inl (PlanMsg ''type_guid is empty'')
         else (case map_of typeAlias s of
                 Some full \<Rightarrow> Inr (to_upper full)
               | None \<Rightarrow>
                   if length s = 36 \<and> count_list s CHR ''-'' = 4 then Inr (to_upper s)
                   else Inl (UnknownTypeGUID input)))"

definition partitionDeviceName :: "string \<Rightarrow> nat \<Rightarrow> string" where
  "partitionDeviceName disk partNum =
     (if disk \<noteq> [] \<and> last disk \<in> set ''0123456789''
      then disk @ ''p'' @ digits_of_nat partNum
      else disk @ digits_of_nat partNum)"

definition with_label :: "string \<Rightarrow> string \<Rightarrow> string list" where
  "with_label flag label = (if label \<noteq> [] then [flag, label] else [])"

definition formatCommands :: "string \<Rightarrow> string \<Rightarrow> string \<Rightarrow> plan_error + Command list" where
  "formatCommands format label device =
     (if format = [] \<or> equal_fold format ''raw'' \<or> equal_fold format ''none'' then Inr []
      else let f = to_lower format in
        if f = ''vfat'' then
          Inr [cmd ''mkfs.vfat'' ([''-F'', ''32''] @ with_label ''-n'' label @ [device]) (''create FAT filesystem on '' @ device)]
        else if f = ''ext4'' then
          Inr [cmd ''mkfs.ext4'' ([''-F''] @ with_label ''-L'' label @ [device]) (''create ext4 filesystem on '' @ device)]
        else if f = ''xfs'' then
          Inr [cmd ''mkfs.xfs'' ([''-f''] @ with_label ''-L'' label @ [device]) (''create XFS filesystem on '' @ device)]
        else if f = ''btrfs'' then
          Inr [cmd ''mkfs.btrfs'' ([''-f''] @ with_label ''-L'' label @ [device]) (''create Btrfs filesystem on '' @ device)]
        else if f = ''swap'' then
          Inr [cmd ''mkswap'' (with_label ''-L'' label @ [device]) (''create swap area on '' @ device)]
        else if f = ''ntfs'' then
          Inr [cmd ''mkfs.ntfs'' ([''-f'', ''-F''] @ with_label ''-L'' label @ [device]) (''create NTFS filesystem on '' @ device)]
        else Inl (UnsupportedFormat format))"

definition size_end :: "string \<Rightarrow> string" where
  "size_end sizeTok =
     (if equal_fold (trim_space sizeTok) ''100%'' then ''0'' else ''+'' @ trim_prefix (trim_space sizeTok) ''+'')"

text \<open>One round of the loop: the commands for partition \<open>n\<close>.\<close>

definition entry_commands :: "string \<Rightarrow> nat \<Rightarrow> LayoutEntry \<Rightarrow> plan_error + Command list" where
  "entry_commands disk n e =
     (case validateEntry e of
        Inl x \<Rightarrow> Inl (AtPartition n x)
      | Inr _ \<Rightarrow>
     (case normalizeTypeGUID (TypeGUID e) of
        Inl x \<Rightarrow> Inl (AtPartition n x)
      | Inr typeGUID \<Rightarrow>
     (case formatCommands (Format e) (Label e) (partitionDeviceName disk n) of
        Inl x \<Rightarrow> Inl (AtPartition n x)
      | Inr fs \<Rightarrow>
          Inr ([cmd ''sgdisk'' [''-n'', digits_of_nat n @ '':0:'' @ size_end (Size e), disk] (''create partition '' @ digits_of_nat n),
                cmd ''sgdisk'' [''-t'', digits_of_nat n @ '':'' @ typeGUID, disk] (''set partition '' @ digits_of_nat n @ '' type'')] @
               (if Label e \<noteq> []
                then [cmd ''sgdisk'' [''-c'', digits_of_nat n @ '':'' @ Label e, disk] (''label partition '' @ digits_of_nat n)]
                else []) @ fs))))"

fun plan_entries :: "string \<Rightarrow> nat \<Rightarrow> LayoutEntry list \<Rightarrow> plan_error + Command list" where
  "plan_entries disk n [] = Inr []"
| "plan_entries disk n (e # es) =
     (case entry_commands disk n e of
        Inl x \<Rightarrow> Inl x
      | Inr cs \<Rightarrow> map_sum id (append cs) (plan_entries disk (Suc n) es))"

definition partition_Plan :: "string \<Rightarrow> raw_message \<Rightarrow> plan_error + Command list" where
  "partition_Plan disk layoutJSON =
     (if disk = [] then Inl (PlanMsg ''partition: disk required'')
      else case decode_layout layoutJSON of
        None \<Rightarrow> Inl DecodeLayout
      | Some entries \<Rightarrow>
          if entries = [] then Inl (PlanMsg ''partition: layout is empty'')
          else map_sum id
            (\<lambda>cs. [cmd ''sgdisk'' [''--zap-all'', disk] ''wipe existing partition table'',
                   cmd ''sgdisk'' [''-o'', disk] ''initialize new GPT''] @ cs @
                  [cmd ''sgdisk'' [''-p'', disk] ''print resulting partition table''])
            (plan_entries disk 1 entries))"

section \<open>Image plans\<close>

definition or_default :: "string \<Rightarrow> string \<Rightarrow> string" where
  "or_default s d = (if s = [] then d else s)"

record image_Options =
  OCIURL :: string
  RootPath :: string

definition image_Plan :: "image_Options \<Rightarrow> plan_error + Command list" where
  "image_Plan opts =
     (let url = trim_space (OCIURL opts); root = path_clean (or_default (RootPath opts) ''/mnt/new-root'')
      in if url = [] then Inl (PlanMsg ''image: OCI URL is required'')
         else Inr
           [cmd ''mkdir'' [''-p'', root] ''ensure root mount directory exists'',
            cmd ''bash'' [''-c'', ''oras pull '' @ Quote url @ '' --output - | tar -xpf - -C '' @ Quote root]
              ''stream root filesystem tarball''])"

record image_WindowsOptions =
  WinOCIURL :: string
  WindowsPath :: string
  WIMIndex :: int
  PartitionDev :: string

definition wim_script :: "string \<Rightarrow> string \<Rightarrow> int \<Rightarrow> string \<Rightarrow> string" where
  \<open>wim_script winPath url index partDev = unlines
     [''set -euo pipefail'',
      ''WIN_PATH='' @ Quote winPath,
      ''OCI_REF='' @ Quote url,
      ''WIM_INDEX='' @ itoa index,
      ''STAMP_FILE="$WIN_PATH/.provisioner_wim_digest"'',
      ''mkdir -p "$WIN_PATH"'',
      [],
      ''# Mount partition if not already mounted'',
      ''MOUNTED=0'',
      ''if mountpoint -q "$WIN_PATH"; then'',
      ''  echo "image-windows-plan: $WIN_PATH already mounted" >&2'',
      ''else'',
      ''  if ! mount -t ntfs-3g '' @ Quote partDev @ '' "$WIN_PATH"; then'',
      ''    echo "image-windows-plan: failed to mount '' @ Quote partDev @ '' on $WIN_PATH" >&2'',
      ''    exit 1'',
      ''  fi'',
      ''  MOUNTED=1'',
      ''fi'',
      [],
      ''CURRENT_DIGEST=$(oras manifest fetch "$OCI_REF" 2>/dev/null | sha256sum | awk '{print $1}') || {'',
      ''  echo "image-windows-plan: failed to fetch manifest for $OCI_REF" >&2'',
      ''  [ "$MOUNTED" = "1" ] && umount "$WIN_PATH"'',
      ''  exit 1'',
      ''}'',
      [],
      ''if [ -f "$STAMP_FILE" ]; then'',
      ''  PREV_DIGEST=$(cat "$STAMP_FILE")'',
      ''  if [ "$PREV_DIGEST" = "$CURRENT_DIGEST" ]; then'',
      ''    echo "image-windows-plan: WIM digest unchanged ($CURRENT_DIGEST), skipping apply" >&2'',
      ''    [ "$MOUNTED" = "1" ] && umount "$WIN_PATH"'',
      ''    exit 0'',
      ''  fi'',
      ''fi'',
      [],
      ''echo "image-windows-plan: applying WIM (index=$WIM_INDEX, digest=$CURRENT_DIGEST)" >&2'',
      ''if ! oras pull "$OCI_REF" --output - | wimapply - "$WIN_PATH" --index='' @ itoa index @ ''; then'',
      ''  echo "image-windows-plan: wimapply failed" >&2'',
      ''  [ "$MOUNTED" = "1" ] && umount "$WIN_PATH"'',
      ''  exit 1'',
      ''fi'',
      [],
      ''echo "$CURRENT_DIGEST" > "$STAMP_FILE"'',
      ''sync'',
      ''[ "$MOUNTED" = "1" ] && umount "$WIN_PATH"'']\<close>

definition image_PlanWindows :: "image_WindowsOptions \<Rightarrow> plan_error + Command list" where
  "image_PlanWindows opts =
     (let url = trim_space (WinOCIURL opts);
          winPath = path_clean (or_default (WindowsPath opts) ''/mnt/new-windows'');
          partDev = trim_space (PartitionDev opts);
          index = (if WIMIndex opts < 1 then 1 else WIMIndex opts)
      in if url = [] then Inl (PlanMsg ''image: OCI URL is required'')
         else if partDev = [] then Inl (PlanMsg ''image: partition device is required'')
         else Inr [cmd ''bash'' [''-c'', wim_script winPath url index partDev]
                     (''idempotent WIM apply (index '' @ itoa index @ '') with digest stamp'')])"

section \<open>Boot loader plans\<close>

record bootloader_Options =
  BRootPath :: string
  ESPMountPath :: string
  ESPDevice :: string
  RootDevice :: string
  RootFSType :: string
  BootloaderID :: string
  GrubTarget :: string

definition fstab_script :: "string \<Rightarrow> string \<Rightarrow> string \<Rightarrow> string \<Rightarrow> string" where
  \<open>fstab_script rootDevice espDevice fstabPath rootFSType = unlines
     [''set -euo pipefail'',
      ''ROOT_UUID=$(blkid -s PARTUUID -o value '' @ Quote rootDevice @ '')'',
      ''ESP_UUID=$(blkid -s PARTUUID -o value '' @ Quote espDevice @ '')'',
      ''if [[ -z "$ROOT_UUID" ]]; then'',
      ''  echo "bootloader-plan: unable to determine PARTUUID for '' @ Quote rootDevice @ ''" >&2'',
      ''  exit 1'',
      ''fi'',
      ''if [[ -z "$ESP_UUID" ]]; then'',
      ''  echo "bootloader-plan: unable to determine PARTUUID for '' @ Quote espDevice @ ''" >&2'',
      ''  exit 1'',
      ''fi'',
      ''FSTAB='' @ Quote fstabPath,
      ''TMP="${FSTAB}.shoal.$$"'',
      ''mkdir -p "$(dirname "$FSTAB")"'',
      ''cat > "$TMP" <<EOF'',
      ''# Generated by Shoal bootloader step'',
      ''PARTUUID=$ROOT_UUID / '' @ rootFSType @ '' defaults 0 1'',
      ''PARTUUID=$ESP_UUID /boot/efi vfat umask=0077 0 2'',
      ''EOF'',
      ''mv "$TMP" "$FSTAB"'']\<close>

definition bootloader_Plan :: "bootloader_Options \<Rightarrow> plan_error + Command list" where
  "bootloader_Plan opts =
     (let root = path_clean (or_default (BRootPath opts) ''/mnt/new-root'');
          espMount = path_clean (or_default (ESPMountPath opts) ''/mnt/efi'');
          espDevice = ESPDevice opts;
          rootDevice = RootDevice opts;
          rootFSType = or_default (RootFSType opts) ''ext4'';
          bootloaderID = or_default (BootloaderID opts) ''Shoal'';
          grubTarget = or_default (GrubTarget opts) ''x86_64-efi'';
          espBind = path_join [root, ''boot'', ''efi''];
          ensureDirs = [root, espMount, espBind, path_join [root, ''dev''], path_join [root, ''proc''],
                        path_join [root, ''sys''], path_join [root, ''run'']]
      in if espDevice = [] then Inl (PlanMsg ''bootloader: ESP device is required'')
         else if rootDevice = [] then Inl (PlanMsg ''bootloader: root device is required'')
         else Inr
           (map (\<lambda>dir. cmd ''mkdir'' [''-p'', dir] (''ensure directory '' @ dir @ '' exists'')) ensureDirs @
            [cmd ''mount'' [espDevice, espMount] ''mount EFI system partition'',
             cmd ''mount'' [''--bind'', espMount, espBind] ''bind ESP into root filesystem'',
             cmd ''mount'' [''--rbind'', ''/dev'', path_join [root, ''dev'']] ''bind /dev into chroot'',
             cmd ''mount'' [''-t'', ''proc'', ''proc'', path_join [root, ''proc'']] ''mount proc in chroot'',
             cmd ''mount'' [''--rbind'', ''/sys'', path_join [root, ''sys'']] ''bind /sys into chroot'',
             cmd ''mount'' [''--rbind'', ''/run'', path_join [root, ''run'']] ''bind /run into chroot'',
             cmd ''mount'' [''--make-rslave'', path_join [root, ''dev'']] ''set /dev mount propagation to rslave'',
             cmd ''mount'' [''--make-rslave'', path_join [root, ''run'']] ''set /run mount propagation to rslave''] @
            [cmd ''chroot'' [root, ''grub-install'', ''--target='' @ grubTarget, ''--efi-directory=/boot/efi'',
                             ''--bootloader-id='' @ bootloaderID, ''--recheck''] ''install GRUB EFI bootloader'',
             cmd ''chroot'' [root, ''grub-mkconfig'', ''-o'', ''/boot/grub/grub.cfg''] ''generate GRUB configuration''] @
            [cmd ''bash'' [''-c'', fstab_script rootDevice espDevice (path_join [root, ''etc'', ''fstab'']) rootFSType]
               ''write /etc/fstab with root and ESP entries''] @
            [cmd ''umount'' [''-R'', path_join [root, ''run'']] ''unmount /run from chroot'',
             cmd ''umount'' [''-R'', path_join [root, ''sys'']] ''unmount /sys from chroot'',
             cmd ''umount'' [path_join [root, ''proc'']] ''unmount /proc from chroot'',
             cmd ''umount'' [''-R'', path_join [root, ''dev'']] ''unmount /dev from chroot'',
             cmd ''umount'' [espBind] ''unmount ESP from root'',
             cmd ''umount'' [espMount] ''unmount ESP'']))"

record bootloader_WindowsOptions =
  WWindowsPath :: string
  WESPMountPath :: string
  WESPDevice :: string
  WindowsDevice :: string
  UnattendXML :: string
  WBootloaderID :: string
  BootEntryLabel :: string

definition path_dir :: "string \<Rightarrow> string" where
  "path_dir p = path_clean (rev (dropWhile (\<lambda>c. c \<noteq> CHR ''/'') (rev p)))"

definition efibootmgr_script :: "string \<Rightarrow> string \<Rightarrow> string" where
  \<open>efibootmgr_script espDevice bootLabel = unlines
     [''set -euo pipefail'',
      ''ESP_PART_NUM=$(lsblk -no PARTN '' @ Quote espDevice @ '')'',
      ''ESP_DISK=$(lsblk -no PKNAME '' @ Quote espDevice @ '')'',
      ''if [[ -z "$ESP_PART_NUM" ]]; then'',
      [CHR 0x09] @ ''echo "bootloader-windows-plan: unable to determine ESP partition number for '' @ Quote espDevice @ ''" >&2'',
      [CHR 0x09] @ ''exit 1'',
      ''fi'',
      ''if [[ -z "$ESP_DISK" ]]; then'',
      [CHR 0x09] @ ''echo "bootloader-windows-plan: unable to determine ESP disk for '' @ Quote espDevice @ ''" >&2'',
      [CHR 0x09] @ ''exit 1'',
      ''fi'',
      ''if efibootmgr | grep -qF '' @ Quote bootLabel @ ''; then'',
      [CHR 0x09] @ ''echo "bootloader-windows-plan: boot entry '' @ [CHR 0x27] @ Quote bootLabel @ [CHR 0x27] @ '' already exists; skipping creation" >&2'',
      [CHR 0x09] @ ''exit 0'',
      ''fi'',
      ''efibootmgr --create --disk "/dev/${ESP_DISK}" --part "${ESP_PART_NUM}" '' @ [CHR 0x5C],
      [CHR 0x09] @ ''--label '' @ Quote bootLabel @ '' --loader '' @ [CHR 0x27] @ [CHR 0x5C] @ ''EFI'' @ [CHR 0x5C] @ ''Microsoft'' @ [CHR 0x5C] @ ''Boot'' @ [CHR 0x5C] @ ''bootmgfw.efi'' @ [CHR 0x27]]\<close>

definition heredoc_delim :: string where
  "heredoc_delim = ''SHOAL_UNATTEND_EOF''"

text \<open>\<open>strings.ReplaceAll\<close> for a non-empty \<open>old\<close>.\<close>

function replace_all :: "string \<Rightarrow> string \<Rightarrow> string \<Rightarrow> string" where
  "replace_all old new s =
     (case s of
        [] \<Rightarrow> []
      | c # cs \<Rightarrow>
          if old \<noteq> [] \<and> has_prefix s old then new @ replace_all old new (drop (length old) s)
          else c # replace_all old new cs)"
  by pat_completeness auto
termination
  by (relation "measure (\<lambda>(old, new, s). length s)") (auto simp: drop_prefix_shorter neq_Nil_conv)

declare replace_all.simps [simp del]

definition escape_unattend :: "string \<Rightarrow> string" where
  "escape_unattend xml =
     (if contains xml heredoc_delim then replace_all heredoc_delim (heredoc_delim @ ''_1'') xml else xml)"

definition unattend_head :: "string \<Rightarrow> string \<Rightarrow> string \<Rightarrow> string list" where
  \<open>unattend_head unattendDest unattendHash unattendXML =
     [''set -euo pipefail'',
      ''UNATTEND_DIR='' @ Quote (path_dir unattendDest),
      ''UNATTEND_FILE='' @ Quote unattendDest,
      ''NEW_HASH='' @ unattendHash,
      ''mkdir -p "$UNATTEND_DIR"'',
      ''if [[ -f "$UNATTEND_FILE" ]]; then'',
      ''  EXISTING_HASH=$(sha256sum "$UNATTEND_FILE" | awk '{print $1}') || true'',
      ''  if [[ "$EXISTING_HASH" == "$NEW_HASH" ]]; then'',
      [CHR 0x09] @ ''echo "bootloader-windows-plan: unattend.xml unchanged (sha256: '' @ take 16 unattendHash @ ''), skipping write" >&2'',
      [CHR 0x09] @ ''exit 0'',
      ''  fi'',
      ''fi'',
      ''# NOTE: unattend.xml content from recipe (hash: '' @ take 16 unattendHash @ '', size: '' @ itoa (int (length unattendXML)) @ '' bytes)'']\<close>

definition heredoc_line :: string where
  \<open>heredoc_line = ''cat > "$UNATTEND_FILE" <<'SHOAL_UNATTEND_EOF'' @ [CHR 0x27]\<close>

definition unattend_script :: "string \<Rightarrow> string \<Rightarrow> string \<Rightarrow> string" where
  \<open>unattend_script unattendDest unattendHash unattendXML = unlines (unattend_head unattendDest unattendHash unattendXML @
     [heredoc_line,
      escape_unattend unattendXML,
      heredoc_delim,
      ''chmod 0600 "$UNATTEND_FILE"'',
      ''echo "bootloader-windows-plan: unattend.xml written (sha256: '' @ take 16 unattendHash @ '')" >&2''])\<close>

definition bootloader_PlanWindows :: "(string \<Rightarrow> string) \<Rightarrow> bootloader_WindowsOptions \<Rightarrow> plan_error + Command list" where
  "bootloader_PlanWindows sha256 opts =
     (let windowsPath = path_clean (or_default (WWindowsPath opts) ''/mnt/new-windows'');
          espMount = path_clean (or_default (WESPMountPath opts) ''/mnt/efi'');
          espDevice = WESPDevice opts;
          windowsDevice = WindowsDevice opts;
          bootLabel = or_default (BootEntryLabel opts) ''Windows'';
          unattendHash = sha256 (UnattendXML opts);
          windowsBootSrc = path_join [windowsPath, ''Windows'', ''Boot'', ''EFI''];
          espBootDest = path_join [espMount, ''EFI'', ''Microsoft'', ''Boot''];
          espFallbackDir = path_join [espMount, ''EFI'', ''Boot''];
          unattendDest = path_join [windowsPath, ''Windows'', ''Panther'', ''Unattend.xml'']
      in if espDevice = [] then Inl (PlanMsg ''bootloader: ESP device is required'')
         else if windowsDevice = [] then Inl (PlanMsg ''bootloader: Windows device is required'')
         else if UnattendXML opts = [] then Inl (PlanMsg ''bootloader: unattend.xml content is required'')
         else Inr
           ([cmd ''mkdir'' [''-p'', espMount] ''ensure ESP mount point exists'',
             cmd ''mkdir'' [''-p'', windowsPath] ''ensure Windows mount point exists'',
             cmd ''mount'' [espDevice, espMount] ''mount EFI system partition'',
             cmd ''mount'' [''-t'', ''ntfs-3g'', windowsDevice, windowsPath] ''mount Windows partition''] @
            [cmd ''mkdir'' [''-p'', espBootDest] ''create EFI boot directory on ESP'',
             cmd ''cp'' [''-a'', windowsBootSrc @ ''/.'', espBootDest @ ''/''] ''copy Windows boot files to ESP''] @
            [cmd ''mkdir'' [''-p'', espFallbackDir] ''create EFI fallback boot directory'',
             cmd ''cp'' [path_join [espBootDest, ''bootmgfw.efi''], path_join [espFallbackDir, ''bootx64.efi'']]
               ''create fallback bootx64.efi''] @
            [cmd ''bash'' [''-c'', efibootmgr_script espDevice bootLabel] ''ensure UEFI boot entry present''] @
            [cmd ''bash'' [''-c'', unattend_script unattendDest unattendHash (UnattendXML opts)]
               (''ensure unattend.xml present (sha256: '' @ take 16 unattendHash @ '')'')] @
            [cmd ''umount'' [windowsPath] ''unmount Windows partition'',
             cmd ''umount'' [espMount] ''unmount ESP'']))"

section \<open>Config drive plan\<close>

record configdrive_Options =
  MountPath :: string
  Device :: string
  UserDataPath :: string
  MetaDataPath :: string
  InstanceID :: string
  Hostname :: string

definition cidata_script :: "string \<Rightarrow> string \<Rightarrow> string \<Rightarrow> string \<Rightarrow> string \<Rightarrow> string" where
  \<open>cidata_script mountPath userData metaData instanceID hostname = unlines
     [''set -euo pipefail'',
      ''CIDATA='' @ Quote mountPath,
      ''USER_SRC='' @ Quote userData,
      ''META_SRC='' @ Quote metaData,
      ''INSTANCE_ID='' @ Quote instanceID,
      ''HOSTNAME='' @ Quote hostname,
      [],
      ''if [[ ! -d "$CIDATA" ]]; then'',
      ''  echo "config-drive-plan: mount path $CIDATA not accessible" >&2'',
      ''  exit 1'',
      ''fi'',
      [],
      ''tmpdir="$(mktemp -d)"'',
      ''cleanup() {'',
      ''  rm -rf "$tmpdir"'',
      ''}'',
      ''trap cleanup EXIT'',
      [],
      ''if [[ -n "$USER_SRC" && -f "$USER_SRC" ]]; then'',
      ''  install -m 0644 "$USER_SRC" "$tmpdir/user-data"'',
      ''fi'',
      [],
      ''if [[ -n "$META_SRC" && -f "$META_SRC" ]]; then'',
      ''  install -m 0644 "$META_SRC" "$tmpdir/meta-data"'',
      ''else'',
      ''  printf 'instance-id: %s'' @ [CHR 0x5C] @ ''nlocal-hostname: %s'' @ [CHR 0x5C] @ ''n' "$INSTANCE_ID" "$HOSTNAME" > "$tmpdir/meta-data"'',
      ''fi'',
      [],
      ''install -m 0755 -d "$CIDATA"'',
      ''if [[ -f "$tmpdir/user-data" ]]; then'',
      ''  install -m 0644 "$tmpdir/user-data" "$CIDATA/user-data"'',
      ''else'',
      ''  rm -f "$CIDATA/user-data"'',
      ''fi'',
      ''install -m 0644 "$tmpdir/meta-data" "$CIDATA/meta-data"'',
      ''sync'']\<close>

definition configdrive_Plan :: "configdrive_Options \<Rightarrow> plan_error + Command list" where
  "configdrive_Plan opts =
     (let mountPath = path_clean (or_default (MountPath opts) ''/mnt/cidata'');
          device = Device opts;
          instanceID = or_default (trim_space (InstanceID opts)) ''shoal-instance'';
          hostname = or_default (trim_space (Hostname opts)) ''shoal-host''
      in if device = [] then Inl (PlanMsg ''configdrive: device is required'')
         else Inr
           ([cmd ''mkdir'' [''-p'', mountPath] ''ensure CIDATA mount point exists'',
             cmd ''mount'' [device, mountPath] ''mount CIDATA partition''] @
            [cmd ''bash'' [''-c'', cidata_script mountPath (UserDataPath opts) (MetaDataPath opts) instanceID hostname]
               ''populate cloud-init user-data and meta-data''] @
            [cmd ''umount'' [mountPath] ''unmount CIDATA partition'']))"

end
