(* ===== verification/MaintenanceProps.thy ===== *)
theory MaintenanceProps
  imports Maintenance
begin

text \<open>
  Properties of the maintenance planners of theory Maintenance: rendered commands read back by a
  shell, what the wrappers' line loop makes of each plan, the order of partitioning commands and of
  mounts, and which layouts accepted by the recipe validator the partition planner rejects.
\<close>

section \<open>Reading rendered commands back\<close>

lemma sh_lex_blank: "blank c \<Longrightarrow> sh_lex cur (c # cs) = end_word cur (sh_lex None cs)"
  by simp

definition plain_char :: "char \<Rightarrow> bool" where
  "plain_char c \<longleftrightarrow> \<not> blank c \<and> c \<noteq> CHR 0x27 \<and> c \<noteq> CHR 0x5C \<and> \<not> sh_expands False c"

lemma sh_lex_plain_char:
  "plain_char c \<Longrightarrow> sh_lex (Some w) (c # s) = sh_lex (Some (w @ [c])) s"
  by (simp add: plain_char_def word_so_far_def)

lemma sh_lex_first_char:
  "plain_char c \<Longrightarrow> c \<notin> set ''~#'' \<Longrightarrow> sh_lex None (c # s) = sh_lex (Some [c]) s"
  by (auto simp: plain_char_def word_so_far_def sh_expands_def)

lemma sh_lex_plain_run:
  "list_all plain_char v \<Longrightarrow> sh_lex (Some w) (v @ s) = sh_lex (Some (w @ v)) s"
  by (induction v arbitrary: w) (simp_all add: sh_lex_plain_char del: sh_lex.simps)

lemma sh_lex_plain_word:
  assumes "list_all plain_char v" "v \<noteq> []" "hd v \<notin> set ''~#''"
  shows "sh_lex None (v @ s) = sh_lex (Some v) s"
  using assms
  by (cases v) (simp_all add: sh_lex_first_char sh_lex_plain_run del: sh_lex.simps)

text \<open>The rest of a word after an opening quote.\<close>

definition lex_quoted :: "string \<Rightarrow> string \<Rightarrow> sh_error + string list" where
  "lex_quoted w s =
     (case single_quoted s of None \<Rightarrow> Inl Unterminated | Some (v, r) \<Rightarrow> sh_lex (Some (w @ v)) r)"

lemma lex_quoted_open: "sh_lex cur (CHR 0x27 # s) = lex_quoted (word_so_far cur) s"
  by (simp add: lex_quoted_def blank_def)

lemma lex_quoted_char: "c \<noteq> CHR 0x27 \<Longrightarrow> lex_quoted w (c # s) = lex_quoted (w @ [c]) s"
  by (cases "single_quoted s") (auto simp: lex_quoted_def simp del: sh_lex.simps)

lemma lex_quoted_close: "lex_quoted w (CHR 0x27 # s) = sh_lex (Some w) s"
  by (simp add: lex_quoted_def del: sh_lex.simps)

lemma sh_lex_backslash: "d \<noteq> CHR 0x0A \<Longrightarrow> sh_lex (Some w) (CHR 0x5C # d # s) = sh_lex (Some (w @ [d])) s"
  by (simp add: blank_def word_so_far_def)

lemma lex_escaped: "lex_quoted w (concat (map escape_quote a) @ CHR 0x27 # s) = sh_lex (Some (w @ a)) s"
proof (induction a arbitrary: w)
  case Nil
  show ?case by (simp add: lex_quoted_close del: sh_lex.simps)
next
  case (Cons c a)
  show ?case
  proof (cases "c = CHR 0x27")
    case True
    then show ?thesis
      using Cons.IH [of "w @ [CHR 0x27]"]
      by (simp add: escape_quote_def lex_quoted_close sh_lex_backslash lex_quoted_open word_so_far_def del: sh_lex.simps)
  next
    case False
    then show ?thesis
      using Cons.IH [of "w @ [c]"] by (simp add: escape_quote_def lex_quoted_char del: sh_lex.simps)
  qed
qed

text \<open>
  The arguments \<open>Quote\<close> renders so that a shell reads them back: \<open>Quote\<close> does not look for patterns,
  braces, a leading tilde or a leading comment sign.
\<close>

definition literal_arg :: "string \<Rightarrow> bool" where
  "literal_arg a \<longleftrightarrow> a = [] \<or> list_ex shell_meta a \<or>
     list_all (\<lambda>c. c \<notin> set ''*?[{'') a \<and> hd a \<notin> set ''~#''"

lemma plain_char_iff: "plain_char c \<longleftrightarrow> \<not> shell_meta c \<and> c \<notin> set ''*?[{''"
  by (auto simp: plain_char_def shell_meta_def blank_def sh_expands_def)

lemma sh_expands_iff:
  "\<not> shell_meta c \<Longrightarrow> sh_expands start c \<longleftrightarrow> c \<in> set ''*?[{'' \<or> start \<and> c \<in> set ''~#''"
  by (auto simp: shell_meta_def sh_expands_def)

lemma not_meta: "\<not> shell_meta c \<Longrightarrow> \<not> blank c \<and> c \<noteq> CHR 0x27 \<and> c \<noteq> CHR 0x5C"
  by (auto simp: shell_meta_def blank_def)

lemma sh_lex_not_meta:
  assumes "\<not> shell_meta c"
  shows "sh_lex cur (c # s) =
    (if sh_expands (cur = None) c then Inl Expands else sh_lex (Some (word_so_far cur @ [c])) s)"
  using not_meta [OF assms] by simp

lemma sh_lex_run_expands:
  "\<not> list_ex shell_meta v \<Longrightarrow> \<not> list_all plain_char v \<Longrightarrow> sh_lex (Some w) (v @ s) = Inl Expands"
proof (induction v arbitrary: w)
  case Nil
  then show ?case by simp
next
  case (Cons c v)
  then show ?case
    by (cases "plain_char c") (auto simp: sh_lex_not_meta sh_expands_iff plain_char_iff word_so_far_def simp del: sh_lex.simps)
qed

lemma sh_lex_bare:
  assumes "\<not> list_ex shell_meta a" "a \<noteq> []"
  shows "sh_lex None (a @ s) = (if literal_arg a then sh_lex (Some a) s else Inl Expands)"
proof -
  obtain c v where a: "a = c # v" using assms(2) by (cases a) auto
  have nm: "\<not> shell_meta c" "\<not> list_ex shell_meta v" using assms(1) by (auto simp: a)
  have pl: "list_all plain_char u \<longleftrightarrow> list_all (\<lambda>c. c \<notin> set ''*?[{'') u" if "\<not> list_ex shell_meta u" for u
    using that by (induction u) (auto simp: plain_char_iff)
  have lit: "literal_arg a \<longleftrightarrow> c \<notin> set ''*?[{'' \<and> list_all (\<lambda>c. c \<notin> set ''*?[{'') v \<and> c \<notin> set ''~#''"
    using assms by (simp add: literal_arg_def a)
  show ?thesis
  proof (cases "sh_expands True c")
    case True
    then show ?thesis using nm lit by (auto simp: a sh_lex_not_meta sh_expands_iff simp del: sh_lex.simps)
  next
    case False
    then have "literal_arg a \<longleftrightarrow> list_all plain_char v"
      using nm lit pl [OF nm(2)] by (auto simp: sh_expands_iff)
    with False nm show ?thesis
      by (auto simp: a sh_lex_not_meta word_so_far_def sh_lex_plain_run sh_lex_run_expands simp del: sh_lex.simps)
  qed
qed

lemma sh_lex_Quote:
  "sh_lex None (Quote a @ s) = (if literal_arg a then sh_lex (Some a) s else Inl Expands)"
proof -
  consider (empty) "a = []" | (bare) "a \<noteq> []" "\<not> list_ex shell_meta a" | (quoted) "list_ex shell_meta a" by auto
  then show ?thesis
  proof cases
    case empty
    then show ?thesis
      by (simp add: Quote_def literal_arg_def lex_quoted_open lex_quoted_close word_so_far_def del: sh_lex.simps)
  next
    case bare
    then show ?thesis by (simp add: Quote_def sh_lex_bare del: sh_lex.simps)
  next
    case quoted
    then have "a \<noteq> []" by auto
    with quoted show ?thesis
      by (simp add: Quote_def literal_arg_def lex_quoted_open lex_escaped word_so_far_def del: sh_lex.simps)
  qed
qed

lemma sh_lex_args:
  "sh_lex (Some w) (concat (map (\<lambda>a. CHR 0x20 # Quote a) as)) =
     (if list_all literal_arg as then Inr (w # as) else Inl Expands)"
proof (induction as arbitrary: w)
  case Nil
  show ?case by (simp add: end_word_def)
next
  case (Cons a as)
  show ?case
    using Cons.IH [of a] by (simp add: sh_lex_blank blank_def sh_lex_Quote end_word_def del: sh_lex.simps)
qed

lemma join_with_space: "join_with d (w # ws) = w @ concat (map (\<lambda>x. d @ x) ws)"
  by (induction ws arbitrary: w) auto

lemma Shell_conv: "Shell c = Program c @ concat (map (\<lambda>a. CHR 0x20 # Quote a) (Args c))"
  by (simp add: Shell_def join_with_space comp_def)

definition plain_program :: "string \<Rightarrow> bool" where
  "plain_program p \<longleftrightarrow> p \<noteq> [] \<and> list_all plain_char p \<and> hd p \<notin> set ''~#''"

lemma sh_words_Shell:
  assumes "plain_program (Program c)"
  shows "sh_words (Shell c) = (if list_all literal_arg (Args c) then Inr (Program c # Args c) else Inl Expands)"
  using assms sh_lex_plain_word [of "Program c"] unfolding plain_program_def
  by (simp add: sh_words_def Shell_conv sh_lex_args del: sh_lex.simps)

section \<open>The wrappers' loop\<close>

lemma set_Quote: "set (Quote a) \<subseteq> set a \<union> {CHR 0x27, CHR 0x5C}"
  by (auto simp: Quote_def escape_quote_def split: if_splits)

lemma LF_Shell:
  assumes "CHR 0x0A \<notin> set (Program c)" "\<And>a. a \<in> set (Args c) \<Longrightarrow> CHR 0x0A \<notin> set a"
  shows "CHR 0x0A \<notin> set (Shell c)"
proof -
  have "CHR 0x0A \<notin> set (Quote a)" if "a \<in> set (Args c)" for a
    using set_Quote [of a] assms(2) [OF that] by auto
  with assms(1) show ?thesis by (auto simp: Shell_conv)
qed

lemma split_unlines:
  "list_all (\<lambda>l. CHR 0x0A \<notin> set l) ls \<Longrightarrow> split_on CHR 0x0A (unlines ls @ s) = ls @ split_on CHR 0x0A s"
  by (induction ls) (auto simp: unlines_def split_on_sep)

lemma wrapper_lines_unlines:
  assumes "list_all (\<lambda>l. CHR 0x0A \<notin> set l \<and> l \<noteq> []) ls"
  shows "wrapper_lines (unlines ls @ s) = ls @ wrapper_lines s"
proof -
  have "list_all (\<lambda>l. CHR 0x0A \<notin> set l) ls" "filter (\<lambda>l. l \<noteq> []) ls = ls"
    using assms by (induction ls) auto
  then show ?thesis by (simp add: wrapper_lines_def split_unlines)
qed

lemma unlines_append: "unlines (xs @ ys) = unlines xs @ unlines ys"
  by (simp add: unlines_def)

lemma wrapper_lines_Nil [simp]: "wrapper_lines [] = []"
  by (simp add: wrapper_lines_def)

text \<open>A command that is rendered on one line, and one whose words survive the rendering.\<close>

definition one_line :: "Command \<Rightarrow> bool" where
  "one_line c \<longleftrightarrow> plain_program (Program c) \<and> list_all (\<lambda>a. CHR 0x0A \<notin> set a) (Args c)"

definition words_of :: "Command \<Rightarrow> sh_error + string list" where
  "words_of c = (if list_all literal_arg (Args c) then Inr (Program c # Args c) else Inl Expands)"

lemma plain_program_chars: "plain_program p \<Longrightarrow> CHR 0x0A \<notin> set p"
  by (auto simp: plain_program_def list_all_iff plain_char_def sh_expands_def)

lemma one_line_Shell: "one_line c \<Longrightarrow> CHR 0x0A \<notin> set (Shell c) \<and> Shell c \<noteq> []"
  using LF_Shell [of c] plain_program_chars [of "Program c"]
  by (auto simp: one_line_def list_all_iff Shell_conv plain_program_def)

lemma wrapper_lines_one_line:
  assumes "list_all one_line cs"
  shows "wrapper_lines (shell_output cs @ s) = map Shell cs @ wrapper_lines s"
  unfolding shell_output_def
  by (rule wrapper_lines_unlines) (use assms one_line_Shell in \<open>auto simp: list_all_iff\<close>)

lemma wrapper_words:
  assumes "list_all one_line cs"
  shows "map sh_words (wrapper_lines (shell_output cs)) = map words_of cs"
  using wrapper_lines_one_line [OF assms, of "[]"] assms
  by (auto simp: list_all_iff one_line_def words_of_def sh_words_Shell)

text \<open>A script of several lines: the first line the wrapper sees ends inside its quotes.\<close>

definition script_head :: string where
  "script_head = ''bash -c '' @ [CHR 0x27] @ ''set -euo pipefail''"

lemma script_head_unterminated: "sh_words script_head = Inl Unterminated"
  by (simp add: script_head_def sh_words_def blank_def word_so_far_def sh_expands_def end_word_def)

lemma Quote_script:
  "Quote (unlines (''set -euo pipefail'' # ls)) =
     CHR 0x27 # ''set -euo pipefail'' @ CHR 0x0A # concat (map escape_quote (unlines ls)) @ [CHR 0x27]"
proof -
  have "concat (map escape_quote ''set -euo pipefail'') = ''set -euo pipefail''"
    by (simp add: escape_quote_def)
  then show ?thesis by (simp add: Quote_def unlines_def shell_meta_def escape_quote_def)
qed

lemma Shell_script:
  assumes "Program c = ''bash''" "Args c = [''-c'', unlines (''set -euo pipefail'' # ls)]"
  shows "Shell c = script_head @ CHR 0x0A # concat (map escape_quote (unlines ls)) @ [CHR 0x27]"
proof -
  have "Quote ''-c'' = ''-c''" by (simp add: Quote_def shell_meta_def)
  with assms show ?thesis by (simp add: Shell_conv Quote_script script_head_def)
qed

lemma LF_script_head: "CHR 0x0A \<notin> set script_head" "script_head \<noteq> []"
  by (simp_all add: script_head_def)

definition script_command :: "Command \<Rightarrow> bool" where
  "script_command c \<longleftrightarrow> Program c = ''bash'' \<and> (\<exists>ls. Args c = [''-c'', unlines (''set -euo pipefail'' # ls)])"

lemma wrapper_lines_LF: "CHR 0x0A \<notin> set l \<Longrightarrow> l \<noteq> [] \<Longrightarrow> wrapper_lines (l @ CHR 0x0A # s) = l # wrapper_lines s"
  by (simp add: wrapper_lines_def split_on_sep)

lemma wrapper_stops_at_script:
  assumes "list_all one_line pre" "script_command c"
  shows "\<exists>rest. wrapper_lines (shell_output (pre @ c # post)) = map Shell pre @ script_head # rest"
proof -
  obtain ls where c: "Program c = ''bash''" "Args c = [''-c'', unlines (''set -euo pipefail'' # ls)]"
    using assms(2) by (auto simp: script_command_def)
  obtain s where "shell_output (c # post) = script_head @ CHR 0x0A # s"
    using Shell_script [OF c] by (simp add: shell_output_def unlines_def)
  moreover have "shell_output (pre @ c # post) = shell_output pre @ shell_output (c # post)"
    by (simp add: shell_output_def unlines_append)
  ultimately show ?thesis
    using wrapper_lines_one_line [OF assms(1)] by (simp add: wrapper_lines_LF LF_script_head)
qed

lemma set_clean_elems:
  "set (clean_elems r st es) \<subseteq> set st \<union> set es \<union> {''..''}"
  by (induction r st es rule: clean_elems.induct) (auto split: list.splits if_splits)

definition no_LF :: "string \<Rightarrow> bool" where
  "no_LF s \<longleftrightarrow> CHR 0x0A \<notin> set s"

lemma no_LF_simps [simp]: "no_LF []" "no_LF (c # s) \<longleftrightarrow> c \<noteq> CHR 0x0A \<and> no_LF s" "no_LF (s @ t) \<longleftrightarrow> no_LF s \<and> no_LF t"
  by (auto simp: no_LF_def)

lemma no_LF_clean_elems:
  assumes "no_LF p" "e \<in> set (clean_elems r [] (split_on CHR ''/'' p))"
  shows "no_LF e"
proof -
  have "e = ''..'' \<or> e \<in> set (split_on CHR ''/'' p)"
    using set_clean_elems [of r "[]" "split_on CHR ''/'' p"] assms(2) by auto
  then show ?thesis using assms(1) split_on_sub [of e "CHR ''/''" p] by (auto simp: no_LF_def)
qed

lemma no_LF_join: "(\<And>w. w \<in> set ws \<Longrightarrow> no_LF w) \<Longrightarrow> no_LF d \<Longrightarrow> no_LF (join_with d ws)"
  using set_join_with [of d ws] by (auto simp: no_LF_def)

lemma no_LF_path_clean [simp]: "no_LF p \<Longrightarrow> no_LF (path_clean p)"
  by (auto simp: path_clean_def intro!: no_LF_join intro: no_LF_clean_elems)

lemma no_LF_path_join [simp]: "list_all no_LF ps \<Longrightarrow> no_LF (path_join ps)"
  by (auto simp: path_join_def list_all_iff intro!: no_LF_path_clean no_LF_join)

lemma no_LF_or_default [simp]: "no_LF s \<Longrightarrow> no_LF d \<Longrightarrow> no_LF (or_default s d)"
  by (simp add: or_default_def)

lemma no_LF_trim_space [simp]: "no_LF s \<Longrightarrow> no_LF (trim_space s)"
  using set_trim_space [of s] by (auto simp: no_LF_def)

lemma no_LF_Quote [simp]: "no_LF s \<Longrightarrow> no_LF (Quote s)"
  using set_Quote [of s] by (auto simp: no_LF_def)

lemma no_LF_digits [simp]: "no_LF (digits_of_nat n)"
  using set_digits [of n] by (auto simp: no_LF_def)

lemma no_LF_trim_prefix [simp]: "no_LF s \<Longrightarrow> no_LF (trim_prefix s p)"
  using set_drop_subset [of "length p" s] by (auto simp: no_LF_def trim_prefix_def)

lemma no_LF_typeGUID:
  assumes "normalizeTypeGUID s = Inr g" "no_LF s"
  shows "no_LF g"
proof -
  have "no_LF (to_upper (to_lower (trim_space s)))"
    using assms(2) set_trim_space [of s] LF_to_lower [of "trim_space s"] LF_to_upper [of "to_lower (trim_space s)"]
    by (auto simp: no_LF_def)
  moreover have "no_LF (to_upper v)" if "(k, v) \<in> set typeAlias" for k v
  proof -
    have "list_all (\<lambda>(k, v). no_LF v) typeAlias" by (simp add: typeAlias_def)
    with that have "no_LF v" by (auto simp: list_all_iff)
    then show ?thesis using LF_to_upper [of v] by (auto simp: no_LF_def)
  qed
  ultimately show ?thesis
    using assms(1) by (auto simp: normalizeTypeGUID_def Let_def dest: map_of_SomeD split: if_splits option.splits)
qed

section \<open>Plans of one-line commands\<close>

lemma one_line_cmd [simp]: "one_line (cmd p as d) \<longleftrightarrow> plain_program p \<and> list_all no_LF as"
  by (simp add: one_line_def cmd_def no_LF_def [abs_def])

lemma cmd_sel [simp]: "Program (cmd p as d) = p" "Args (cmd p as d) = as"
  by (simp_all add: cmd_def)

lemma plain_programs [simp]:
  "plain_program ''sgdisk''" "plain_program ''mkfs.vfat''" "plain_program ''mkfs.ext4''" "plain_program ''mkfs.xfs''"
  "plain_program ''mkfs.btrfs''" "plain_program ''mkswap''" "plain_program ''mkfs.ntfs''" "plain_program ''mkdir''"
  "plain_program ''bash''" "plain_program ''mount''" "plain_program ''umount''" "plain_program ''chroot''" "plain_program ''cp''"
  by (simp_all add: plain_program_def plain_char_def blank_def sh_expands_def)

lemma no_LF_with_label [simp]: "no_LF l \<Longrightarrow> no_LF f \<Longrightarrow> list_all no_LF (with_label f l)"
  by (simp add: with_label_def)

lemma no_LF_device [simp]: "no_LF d \<Longrightarrow> no_LF (partitionDeviceName d n)"
  by (simp add: partitionDeviceName_def)

definition entry_one_line :: "LayoutEntry \<Rightarrow> bool" where
  "entry_one_line e \<longleftrightarrow> no_LF (Size e) \<and> no_LF (TypeGUID e) \<and> no_LF (Label e)"

lemma formatCommands_one_line:
  "formatCommands f l d = Inr cs \<Longrightarrow> no_LF l \<Longrightarrow> no_LF d \<Longrightarrow> list_all one_line cs"
  by (auto simp: formatCommands_def Let_def split: if_splits)

lemma entry_commands_one_line:
  assumes "entry_commands disk n e = Inr cs" "no_LF disk" "entry_one_line e"
  shows "list_all one_line cs"
  using assms
  by (auto simp: entry_commands_def entry_one_line_def size_end_def intro: no_LF_typeGUID dest!: formatCommands_one_line
      split: sum.splits if_splits)

lemma plan_entries_one_line:
  "plan_entries disk n es = Inr cs \<Longrightarrow> no_LF disk \<Longrightarrow> list_all entry_one_line es \<Longrightarrow> list_all one_line cs"
proof (induction es arbitrary: n cs)
  case Nil
  then show ?case by simp
next
  case (Cons e es)
  then show ?case
    by (cases "plan_entries disk (Suc n) es")
      (auto split: sum.splits dest: entry_commands_one_line)
qed

definition layout_one_line :: "string \<times> raw_message \<Rightarrow> bool" where
  "layout_one_line o' \<longleftrightarrow> no_LF (fst o') \<and> (case decode_layout (snd o') of Some es \<Rightarrow> list_all entry_one_line es | None \<Rightarrow> True)"

lemma partition_Plan_parts:
  assumes "partition_Plan disk raw = Inr cs"
  obtains es ms where "disk \<noteq> []" "decode_layout raw = Some es" "es \<noteq> []" "plan_entries disk 1 es = Inr ms"
    "cs = [cmd ''sgdisk'' [''--zap-all'', disk] ''wipe existing partition table'',
           cmd ''sgdisk'' [''-o'', disk] ''initialize new GPT''] @ ms @
          [cmd ''sgdisk'' [''-p'', disk] ''print resulting partition table'']"
  using assms unfolding partition_Plan_def
  by (cases "decode_layout raw"; cases "plan_entries disk 1 (the (decode_layout raw))") (auto split: if_splits)

lemma partition_Plan_one_line:
  assumes "partition_Plan disk raw = Inr cs" "layout_one_line (disk, raw)"
  shows "list_all one_line cs"
proof -
  obtain es ms where es: "decode_layout raw = Some es" "plan_entries disk 1 es = Inr ms"
    and cs: "cs = [cmd ''sgdisk'' [''--zap-all'', disk] ''wipe existing partition table'',
                   cmd ''sgdisk'' [''-o'', disk] ''initialize new GPT''] @ ms @
                  [cmd ''sgdisk'' [''-p'', disk] ''print resulting partition table'']"
    by (rule partition_Plan_parts [OF assms(1)])
  have "list_all one_line ms"
    using plan_entries_one_line [OF es(2)] assms(2) es(1) by (simp add: layout_one_line_def)
  with assms(2) show ?thesis by (simp add: cs layout_one_line_def)
qed

lemma image_Plan_one_line:
  assumes "image_Plan opts = Inr cs" "no_LF (OCIURL opts)" "no_LF (RootPath opts)"
  shows "list_all one_line cs"
  using assms by (auto simp: image_Plan_def Let_def split: if_splits)

section \<open>What the wrappers make of a plan\<close>

text \<open>
  The contract between a planner and its wrapper. A planner whose commands are rendered on one
  line each, for options without line breaks (\<open>fine\<close>), is read back by the wrapper word by word.
\<close>

locale wrapped_plan =
  fixes plan :: "'o \<Rightarrow> plan_error + Command list"
    and fine :: "'o \<Rightarrow> bool"
  assumes one_line: "plan opts = Inr cs \<Longrightarrow> fine opts \<Longrightarrow> list_all one_line cs"
begin

lemma words: "plan opts = Inr cs \<Longrightarrow> fine opts \<Longrightarrow> map sh_words (wrapper_lines (shell_output cs)) = map words_of cs"
  by (rule wrapper_words) (rule one_line)

end

text \<open>A planner that also emits a script of several lines, after \<open>prefix\<close> one-line commands.\<close>

locale scripted_plan =
  fixes plan :: "'o \<Rightarrow> plan_error + Command list"
    and fine :: "'o \<Rightarrow> bool"
    and pre :: nat
  assumes script: "plan opts = Inr cs \<Longrightarrow> fine opts \<Longrightarrow>
    pre < length cs \<and> list_all one_line (take pre cs) \<and> script_command (cs ! pre)"
begin

lemma cut:
  assumes "plan opts = Inr cs" "fine opts"
  shows "\<exists>rest. wrapper_lines (shell_output cs) = map Shell (take pre cs) @ script_head # rest"
proof -
  note s = script [OF assms]
  then have "cs = take pre cs @ cs ! pre # drop (Suc pre) cs" by (simp add: id_take_nth_drop)
  with s show ?thesis using wrapper_stops_at_script [of "take pre cs" "cs ! pre"] by metis
qed

end

interpretation partition: wrapped_plan "\<lambda>o'. partition_Plan (fst o') (snd o')" layout_one_line
  by unfold_locales (auto intro: partition_Plan_one_line)

definition image_one_line :: "image_Options \<Rightarrow> bool" where
  "image_one_line opts \<longleftrightarrow> no_LF (OCIURL opts) \<and> no_LF (RootPath opts)"

interpretation image: wrapped_plan image_Plan image_one_line
  by unfold_locales (auto simp: image_one_line_def intro: image_Plan_one_line)

lemma script_commands:
  "script_command (cmd ''bash'' [''-c'', fstab_script a b c d] t)"
  "script_command (cmd ''bash'' [''-c'', cidata_script a b c d e] t)"
  "script_command (cmd ''bash'' [''-c'', efibootmgr_script a b] t)"
  "script_command (cmd ''bash'' [''-c'', wim_script a b i d] t)"
  unfolding script_command_def fstab_script_def cidata_script_def efibootmgr_script_def wim_script_def cmd_sel
  by (rule conjI refl exI)+

definition bootloader_one_line :: "bootloader_Options \<Rightarrow> bool" where
  "bootloader_one_line opts \<longleftrightarrow> list_all no_LF
     [BRootPath opts, ESPMountPath opts, ESPDevice opts, BootloaderID opts, GrubTarget opts]"

interpretation bootloader: scripted_plan bootloader_Plan bootloader_one_line 17
proof
  fix opts cs
  assume "bootloader_Plan opts = Inr cs" "bootloader_one_line opts"
  then show "17 < length cs \<and> list_all one_line (take 17 cs) \<and> script_command (cs ! 17)"
    unfolding bootloader_Plan_def bootloader_one_line_def Let_def
    by (auto simp: script_commands split: if_splits)
qed

definition configdrive_one_line :: "configdrive_Options \<Rightarrow> bool" where
  "configdrive_one_line opts \<longleftrightarrow> no_LF (MountPath opts) \<and> no_LF (Device opts)"

interpretation configdrive: scripted_plan configdrive_Plan configdrive_one_line 2
proof
  fix opts cs
  assume "configdrive_Plan opts = Inr cs" "configdrive_one_line opts"
  then show "2 < length cs \<and> list_all one_line (take 2 cs) \<and> script_command (cs ! 2)"
    unfolding configdrive_Plan_def configdrive_one_line_def Let_def
    by (auto simp: script_commands split: if_splits)
qed

interpretation imageWindows: scripted_plan image_PlanWindows "\<lambda>_. True" 0
proof
  fix opts cs
  assume "image_PlanWindows opts = Inr cs"
  then show "0 < length cs \<and> list_all one_line (take 0 cs) \<and> script_command (cs ! 0)"
    unfolding image_PlanWindows_def Let_def by (auto simp: script_commands split: if_splits)
qed

definition windows_one_line :: "bootloader_WindowsOptions \<Rightarrow> bool" where
  "windows_one_line opts \<longleftrightarrow> list_all no_LF
     [WWindowsPath opts, WESPMountPath opts, WESPDevice opts, WindowsDevice opts]"

interpretation bootloaderWindows: scripted_plan "bootloader_PlanWindows sha" windows_one_line 8 for sha
proof
  fix opts cs
  assume "bootloader_PlanWindows sha opts = Inr cs" "windows_one_line opts"
  then show "8 < length cs \<and> list_all one_line (take 8 cs) \<and> script_command (cs ! 8)"
    unfolding bootloader_PlanWindows_def windows_one_line_def Let_def
    by (auto simp: script_commands split: if_splits)
qed

section \<open>Mounts\<close>

text \<open>
  The mount points in use, the latest first. \<open>umount\<close> is only counted as right for the latest one, so
  that nothing is taken away below a mount that is still in use.
\<close>

definition mount_step :: "Command \<Rightarrow> string list \<Rightarrow> string list option" where
  "mount_step c ms =
     (if Program c = ''mount'' then
        (if hd (Args c) = ''--make-rslave'' then (if last (Args c) \<in> set ms then Some ms else None)
         else Some (last (Args c) # ms))
      else if Program c = ''umount'' then
        (case ms of [] \<Rightarrow> None | m # rest \<Rightarrow> if m = last (Args c) then Some rest else None)
      else Some ms)"

fun run_mounts :: "Command list \<Rightarrow> string list \<Rightarrow> string list option" where
  "run_mounts [] ms = Some ms"
| "run_mounts (c # cs) ms = (case mount_step c ms of None \<Rightarrow> None | Some ms' \<Rightarrow> run_mounts cs ms')"

lemma mount_step_cmd:
  "mount_step (cmd ''mount'' [d, m] t) ms = (if d = ''--make-rslave'' then (if m \<in> set ms then Some ms else None) else Some (m # ms))"
  "mount_step (cmd ''mount'' [''--bind'', d, m] t) ms = Some (m # ms)"
  "mount_step (cmd ''mount'' [''--rbind'', d, m] t) ms = Some (m # ms)"
  "mount_step (cmd ''mount'' [''-t'', ty, d, m] t) ms = Some (m # ms)"
  "mount_step (cmd ''umount'' [m] t) (m # ms) = Some ms"
  "mount_step (cmd ''umount'' [''-R'', m] t) (m # ms) = Some ms"
  "p \<noteq> ''mount'' \<Longrightarrow> p \<noteq> ''umount'' \<Longrightarrow> mount_step (cmd p as t) ms = Some ms"
  by (simp_all add: mount_step_def cmd_def)

lemma bootloader_mounts:
  assumes "bootloader_Plan opts = Inr cs" "has_prefix (ESPDevice opts) ''/''"
  shows "run_mounts cs [] = Some [] \<and> (\<exists>ms. run_mounts (take 17 cs) [] = Some ms \<and> length ms = 6)"
proof -
  have "ESPDevice opts \<noteq> ''--make-rslave''" using assms(2) by auto
  with assms(1) show ?thesis
    unfolding bootloader_Plan_def Let_def
    by (auto simp: mount_step_cmd split: if_splits)
qed

lemma windows_mounts:
  assumes "bootloader_PlanWindows sha opts = Inr cs" "has_prefix (WESPDevice opts) ''/''"
  shows "run_mounts cs [] = Some [] \<and> (\<exists>ms. run_mounts (take 8 cs) [] = Some ms \<and> length ms = 2)"
proof -
  have "WESPDevice opts \<noteq> ''--make-rslave''" using assms(2) by auto
  with assms(1) show ?thesis
    unfolding bootloader_PlanWindows_def Let_def
    by (auto simp: mount_step_cmd split: if_splits)
qed

lemma configdrive_mounts:
  assumes "configdrive_Plan opts = Inr cs" "has_prefix (Device opts) ''/''"
  shows "run_mounts cs [] = Some [] \<and> (\<exists>ms. run_mounts (take 2 cs) [] = Some ms \<and> length ms = 1)"
proof -
  have "Device opts \<noteq> ''--make-rslave''" using assms(2) by auto
  with assms(1) show ?thesis
    unfolding configdrive_Plan_def Let_def
    by (auto simp: mount_step_cmd split: if_splits)
qed

section \<open>The here-document of the answer file\<close>

lemma replace_all_Nil [simp]: "replace_all old new [] = []"
  by (subst replace_all.simps) simp

lemma replace_all_match:
  "old \<noteq> [] \<Longrightarrow> has_prefix s old \<Longrightarrow> replace_all old new s = new @ replace_all old new (drop (length old) s)"
  by (subst replace_all.simps) (cases s; auto simp: neq_Nil_conv)

lemma replace_all_other:
  "\<not> has_prefix (c # s) old \<Longrightarrow> replace_all old new (c # s) = c # replace_all old new s"
  by (subst replace_all.simps) simp

lemma delim_not_Nil: "heredoc_delim \<noteq> []"
  by (simp add: heredoc_delim_def)

text \<open>The delimiter has its first letter nowhere else, so its occurrences do not overlap.\<close>

lemma delim_Cons: "heredoc_delim = CHR ''S'' # tl heredoc_delim" "CHR ''S'' \<notin> set (tl heredoc_delim)"
  by (simp_all add: heredoc_delim_def)

lemma replace_all_tail:
  assumes "has_prefix (replace_all heredoc_delim (heredoc_delim @ ''_1'') s) t" "CHR ''S'' \<notin> set t"
  shows "has_prefix s t"
  using assms
proof (induction t arbitrary: s)
  case Nil
  show ?case by simp
next
  case (Cons x t)
  show ?case
  proof (cases s)
    case Nil
    with Cons.prems show ?thesis by simp
  next
    case s: (Cons c cs)
    show ?thesis
    proof (cases "has_prefix s heredoc_delim")
      case True
      have "replace_all heredoc_delim (heredoc_delim @ ''_1'') s = CHR ''S'' # tl (replace_all heredoc_delim (heredoc_delim @ ''_1'') s)"
        unfolding replace_all_match [OF delim_not_Nil True] by (simp add: heredoc_delim_def)
      with Cons.prems show ?thesis by (metis has_prefix.simps(3) list.set_intros(1))
    next
      case False
      with Cons.prems s have "c = x" "has_prefix (replace_all heredoc_delim (heredoc_delim @ ''_1'') cs) t"
        by (simp_all add: replace_all_other)
      with Cons.IH [of cs] Cons.prems s show ?thesis by simp
    qed
  qed
qed

lemma replaced_delim_continues:
  "replace_all heredoc_delim (heredoc_delim @ ''_1'') s = a @ heredoc_delim @ b \<Longrightarrow> has_prefix b ''_''"
proof (induction "length s" arbitrary: s a rule: less_induct)
  case less
  let ?R = "replace_all heredoc_delim (heredoc_delim @ ''_1'')"
  show ?case
  proof (cases "has_prefix s heredoc_delim")
    case True
    let ?r = "drop (length heredoc_delim) s"
    have out: "(heredoc_delim @ ''_1'') @ ?R ?r = a @ heredoc_delim @ b"
      using less.prems replace_all_match [OF delim_not_Nil True, of "heredoc_delim @ ''_1''"] by simp
    have short: "length ?r < length s"
      using drop_prefix_shorter [OF True delim_not_Nil] by simp
    from append_eq_append_conv2 [THEN iffD1, OF out] obtain u where
      "heredoc_delim @ ''_1'' = a @ u \<and> u @ ?R ?r = heredoc_delim @ b \<or>
       (heredoc_delim @ ''_1'') @ u = a \<and> ?R ?r = u @ heredoc_delim @ b" by blast
    then show ?thesis
    proof
      assume "(heredoc_delim @ ''_1'') @ u = a \<and> ?R ?r = u @ heredoc_delim @ b"
      with less.hyps [OF short] show ?thesis by blast
    next
      assume u: "heredoc_delim @ ''_1'' = a @ u \<and> u @ ?R ?r = heredoc_delim @ b"
      show ?thesis
      proof (cases a)
        case Nil
        with u have "b = ''_1'' @ ?R ?r" by auto
        then show ?thesis by simp
      next
        case (Cons x a')
        with u have tl: "tl heredoc_delim @ ''_1'' = a' @ u" by (metis append_Cons delim_Cons(1) list.inject)
        show ?thesis
        proof (cases u)
          case Nil
          with conjunct2 [OF u] have "?R ?r = [] @ heredoc_delim @ b" by (simp only: append_Nil)
          from less.hyps [OF short this] show ?thesis .
        next
          case (Cons y v)
          with u have "y = CHR ''S''" by (metis append_Cons delim_Cons(1) list.inject)
          with Cons tl delim_Cons(2) have "CHR ''S'' \<in> set (tl heredoc_delim @ ''_1'')" by simp
          with delim_Cons(2) show ?thesis by simp
        qed
      qed
    qed
  next
    case False
    show ?thesis
    proof (cases s)
      case Nil
      with less.prems delim_not_Nil show ?thesis by simp
    next
      case (Cons c cs)
      with False less.prems have out: "c # ?R cs = a @ heredoc_delim @ b" by (simp add: replace_all_other)
      show ?thesis
      proof (cases a)
        case Nil
        with out have "c # ?R cs = CHR ''S'' # tl heredoc_delim @ b" by (metis append_Cons append_Nil delim_Cons(1))
        then have "c = CHR ''S''" "has_prefix cs (tl heredoc_delim)"
          using replace_all_tail [of cs "tl heredoc_delim"] delim_Cons(2) by auto
        then have "has_prefix s heredoc_delim" using Cons delim_Cons(1) by (metis has_prefix.simps(3))
        with False show ?thesis ..
      next
        case (Cons x a')
        with out less.hyps [of cs a'] \<open>s = c # cs\<close> show ?thesis by simp
      qed
    qed
  qed
qed

text \<open>Whatever the answer file contains, no line of the embedded text ends the here-document early.\<close>

lemma escape_no_delim: "heredoc_delim \<notin> set (split_on CHR 0x0A (escape_unattend xml))"
proof
  assume "heredoc_delim \<in> set (split_on CHR 0x0A (escape_unattend xml))"
  from split_on_occurs [OF this] obtain a b where
    ab: "escape_unattend xml = a @ heredoc_delim @ b" "b = [] \<or> hd b = CHR 0x0A" by blast
  show False
  proof (cases "contains xml heredoc_delim")
    case True
    with ab(1) have "has_prefix b ''_''" by (intro replaced_delim_continues) (simp add: escape_unattend_def)
    with ab(2) show False by (cases b) auto
  next
    case False
    with ab(1) show False by (auto simp: escape_unattend_def contains_iff)
  qed
qed

lemma escape_longer: "length xml \<le> length (escape_unattend xml)"
proof -
  have "length s \<le> length (replace_all old (old @ t) s)" for old t s
  proof (induction old "old @ t" s rule: replace_all.induct)
    case (1 old s)
    then show ?case by (subst replace_all.simps) (auto split: list.splits)
  qed
  then show ?thesis by (simp add: escape_unattend_def)
qed

lemma split_unlines_mid:
  assumes "list_all no_LF ls"
  shows "\<exists>post. split_on CHR 0x0A (unlines (ls @ m # l # ls')) = ls @ split_on CHR 0x0A m @ split_on CHR 0x0A l @ post"
  using assms split_unlines [of ls "unlines (m # l # ls')"]
  by (simp add: no_LF_def [abs_def] unlines_append) (simp add: unlines_def split_on_append_sep)

lemma no_LF_take [simp]: "no_LF s \<Longrightarrow> no_LF (take n s)"
  using set_take_subset [of n s] by (auto simp: no_LF_def)

lemma no_LF_path_dir [simp]: "no_LF p \<Longrightarrow> no_LF (path_dir p)"
  using set_dropWhileD [of _ "\<lambda>c. c \<noteq> CHR ''/''" "rev p"]
  by (auto simp: path_dir_def no_LF_def intro!: no_LF_path_clean [unfolded no_LF_def])

lemma no_LF_itoa [simp]: "no_LF (itoa i)"
  by (simp add: itoa_def)

lemma no_LF_unattend_head:
  assumes "no_LF dest" "no_LF h"
  shows "list_all no_LF (unattend_head dest h xml) \<and> length (unattend_head dest h xml) = 13"
  using assms by (simp add: unattend_head_def)

lemma unattend_lines:
  assumes "no_LF dest" "no_LF h"
  shows "\<exists>post. split_on CHR 0x0A (unattend_script dest h xml) =
    unattend_head dest h xml @ heredoc_line # split_on CHR 0x0A (escape_unattend xml) @ heredoc_delim # post"
proof -
  have "no_LF heredoc_line" "split_on CHR 0x0A heredoc_delim = [heredoc_delim]"
    by (simp_all add: heredoc_line_def heredoc_delim_def)
  with no_LF_unattend_head [OF assms, of xml] show ?thesis
    using split_unlines_mid [of "unattend_head dest h xml @ [heredoc_line]" "escape_unattend xml" heredoc_delim]
    unfolding unattend_script_def by simp
qed

lemma unlines_split: "unlines (split_on CHR 0x0A s) = s @ [CHR 0x0A]"
proof -
  have "unlines ws = join_with [CHR 0x0A] ws @ [CHR 0x0A]" if "ws \<noteq> []" for ws
    using that by (induction ws rule: induct_list012) (auto simp: unlines_def)
  from this [OF split_on_not_Nil] show ?thesis by simp
qed

section \<open>Order of the partition plan\<close>

definition creates :: "string \<Rightarrow> nat \<Rightarrow> Command \<Rightarrow> bool" where
  "creates disk n c \<longleftrightarrow> Program c = ''sgdisk'' \<and> (\<exists>e. Args c = [''-n'', digits_of_nat n @ '':0:'' @ e, disk])"

definition formats :: "Command \<Rightarrow> bool" where
  "formats c \<longleftrightarrow> Program c \<noteq> ''sgdisk''"

lemma device_inj: "partitionDeviceName disk m = partitionDeviceName disk n \<Longrightarrow> m = n"
  by (auto simp: partitionDeviceName_def dest: digits_inj split: if_splits)

lemma device_not_disk: "partitionDeviceName disk n \<noteq> disk"
  by (simp add: partitionDeviceName_def)

lemma formatCommands_target:
  "formatCommands f l d = Inr cs \<Longrightarrow> cs = [] \<or> (\<exists>c. cs = [c] \<and> formats c \<and> last (Args c) = d)"
  by (auto simp: formatCommands_def formats_def Let_def split: if_splits)

text \<open>The commands of one entry: the partition is created first, at most one command formats it.\<close>

lemma entry_commands_shape:
  assumes "entry_commands disk n e = Inr cs"
  shows "\<exists>c ks fs. cs = c # ks @ fs \<and> creates disk n c \<and> list_all (\<lambda>k. \<not> formats k) (c # ks) \<and>
    (fs = [] \<or> (\<exists>f. fs = [f] \<and> formats f \<and> last (Args f) = partitionDeviceName disk n))"
proof -
  obtain g fs where fs: "formatCommands (Format e) (Label e) (partitionDeviceName disk n) = Inr fs"
    and cs: "cs = cmd ''sgdisk'' [''-n'', digits_of_nat n @ '':0:'' @ size_end (Size e), disk] (''create partition '' @ digits_of_nat n) #
      (cmd ''sgdisk'' [''-t'', digits_of_nat n @ '':'' @ g, disk] (''set partition '' @ digits_of_nat n @ '' type'') #
       (if Label e \<noteq> [] then [cmd ''sgdisk'' [''-c'', digits_of_nat n @ '':'' @ Label e, disk] (''label partition '' @ digits_of_nat n)] else [])) @ fs"
    using assms by (auto simp: entry_commands_def split: sum.splits)
  show ?thesis
    unfolding cs
    by (intro exI conjI) (rule refl, simp_all add: creates_def formats_def formatCommands_target [OF fs, unfolded formats_def])
qed

lemma plan_entries_formats:
  assumes "plan_entries disk n es = Inr cs"
  shows "\<exists>ns. sorted_wrt (<) ns \<and> set ns \<subseteq> {n..<n + length es} \<and>
      map (\<lambda>c. last (Args c)) (filter formats cs) = map (partitionDeviceName disk) ns \<and>
      (\<forall>pre f post. cs = pre @ f # post \<longrightarrow> formats f \<longrightarrow>
         (\<exists>m k. last (Args f) = partitionDeviceName disk m \<and> k \<in> set pre \<and> creates disk m k))"
  using assms
proof (induction es arbitrary: n cs)
  case Nil
  then show ?case by (intro exI [of _ "[]"]) simp
next
  case (Cons e es)
  obtain c1 c2 where c1: "entry_commands disk n e = Inr c1" and c2: "plan_entries disk (Suc n) es = Inr c2"
    and cs: "cs = c1 @ c2"
    using Cons.prems by (cases "plan_entries disk (Suc n) es") (auto split: sum.splits)
  obtain ns where ns: "sorted_wrt (<) ns" "set ns \<subseteq> {Suc n..<Suc n + length es}"
    and map2: "map (\<lambda>c. last (Args c)) (filter formats c2) = map (partitionDeviceName disk) ns"
    and pre2: "\<And>pre f post. c2 = pre @ f # post \<Longrightarrow> formats f \<Longrightarrow>
      \<exists>m k. last (Args f) = partitionDeviceName disk m \<and> k \<in> set pre \<and> creates disk m k"
    using Cons.IH [OF c2] by blast
  obtain c ks fs where sh: "c1 = c # ks @ fs" "creates disk n c" "list_all (\<lambda>k. \<not> formats k) (c # ks)"
    and fs: "fs = [] \<or> (\<exists>f. fs = [f] \<and> formats f \<and> last (Args f) = partitionDeviceName disk n)"
    using entry_commands_shape [OF c1] by blast
  have nf: "\<not> formats c" "filter formats ks = []" using sh(3) by (auto simp: list_all_iff filter_empty_conv)
  have order: "\<exists>m k. last (Args f) = partitionDeviceName disk m \<and> k \<in> set pre \<and> creates disk m k"
    if split: "c1 @ c2 = pre @ f # post" and f: "formats f" for pre f post
  proof (cases "length pre < length c1")
    case True
    have "f = c1 ! length pre" using True split by (metis nth_append nth_append_length)
    moreover have "\<not> length pre < length (c # ks)"
    proof
      assume "length pre < length (c # ks)"
      then have "f \<in> set (c # ks)" using calculation sh(1) by (metis append_Cons nth_append nth_mem)
      then show False using sh(3) f by (auto simp: list_all_iff)
    qed
    ultimately have "f \<in> set fs" "pre \<noteq> []" using True sh(1) by (auto simp: nth_append nth_Cons')
    moreover have "hd pre = c" using \<open>pre \<noteq> []\<close> split sh(1) by (cases pre) auto
    ultimately show ?thesis using fs sh(2) by (metis empty_iff empty_set hd_in_set set_ConsD)
  next
    case False
    then obtain u where "pre = c1 @ u" "c2 = u @ f # post"
      using split by (metis append_eq_append_conv_if append_take_drop_id not_less)
    with pre2 [OF _ f] show ?thesis by fastforce
  qed
  show ?case
  proof (cases "fs = []")
    case True
    with ns map2 nf order show ?thesis
      by (intro exI [of _ ns]) (auto simp: cs sh(1))
  next
    case False
    with fs obtain f where f: "fs = [f]" "formats f" "last (Args f) = partitionDeviceName disk n" by blast
    have "map (\<lambda>c. last (Args c)) (filter formats cs) = map (partitionDeviceName disk) (n # ns)"
      using map2 nf f by (simp add: cs sh(1))
    moreover have "sorted_wrt (<) (n # ns)" "set (n # ns) \<subseteq> {n..<n + length (e # es)}"
      using ns by auto
    ultimately show ?thesis using order by (intro exI [of _ "n # ns"]) (simp add: cs)
  qed
qed

lemma distinct_devices: "sorted_wrt (<) ns \<Longrightarrow> distinct (map (partitionDeviceName disk) ns)"
  by (simp add: distinct_map strict_sorted_iff inj_on_def) (blast dest: device_inj)

section \<open>Layouts the recipe validator accepts\<close>

lemma decode_string_field_distinct:
  assumes "distinct (map fst mp)" "\<And>k. k \<in> fst ` set mp \<Longrightarrow> equal_fold k f \<longleftrightarrow> k = f"
    and "obj_get mp f = None \<or> (\<exists>s. obj_get mp f = Some (JStr s))"
  shows "decode_string_field f acc mp = Some (case obj_get mp f of Some (JStr s) \<Rightarrow> s | _ \<Rightarrow> acc)"
proof -
  have get: "obj_get mp f = map_of mp f"
    unfolding obj_get_def using assms(1) by (intro fun_cong [OF map_of_inject_set [THEN iffD2]]) (simp_all add: rev_map [symmetric])
  show ?thesis
    using assms unfolding get
  proof (induction mp arbitrary: acc)
    case Nil
    show ?case by simp
  next
    case (Cons kv mp)
    obtain k v where kv: "kv = (k, v)" by (cases kv)
    show ?case
    proof (cases "k = f")
      case True
      with Cons.prems(3) kv obtain s where v: "v = JStr s" by auto
      have "\<not> equal_fold k' f" if "k' \<in> fst ` set mp" for k'
        using Cons.prems(1,2) that True kv by auto
      then have "decode_string_field f s mp = Some s" by (rule decode_string_field_absent)
      with True v kv show ?thesis by simp
    next
      case False
      then have "\<not> equal_fold k f" using Cons.prems(2) [of k] kv by auto
      with False kv Cons.IH [of acc] Cons.prems show ?thesis by auto
    qed
  qed
qed

lemma known_props_fold:
  assumes "k \<in> set knownPartProps" "f \<in> set knownPartProps"
  shows "equal_fold k f \<longleftrightarrow> k = f"
proof -
  have "list_all (\<lambda>k. list_all (\<lambda>f. equal_fold k f \<longleftrightarrow> k = f) knownPartProps) knownPartProps" by code_simp
  with assms show ?thesis by (simp add: list_all_iff)
qed

definition str_member :: "(string \<times> json) list \<Rightarrow> string \<Rightarrow> string" where
  "str_member mp k = (case obj_get mp k of Some (JStr s) \<Rightarrow> s | _ \<Rightarrow> [])"

definition entry_of :: "(string \<times> json) list \<Rightarrow> LayoutEntry" where
  "entry_of mp = \<lparr>Size = str_member mp ''size'', TypeGUID = str_member mp ''type_guid'',
     Format = str_member mp ''format'', Label = str_member mp ''label''\<rparr>"

lemma accepted_members:
  assumes "ranges_all rng" "check_partition rng i (JObj mp) = []"
  shows "\<exists>s. obj_get mp ''size'' = Some (JStr s) \<and> trim_space s \<noteq> [] \<and> (matches rePartSize s \<or> s = ''100%'')"
    and "obj_get mp ''type_guid'' = None \<or> (\<exists>s. obj_get mp ''type_guid'' = Some (JStr s) \<and> matches reTypeGUID s)"
    and "obj_get mp ''format'' = None \<or> (\<exists>s. obj_get mp ''format'' = Some (JStr s) \<and> s \<in> set allowedFSFormat)"
    and "obj_get mp ''label'' = None \<or> (\<exists>s. obj_get mp ''label'' = Some (JStr s) \<and> length s \<le> 32)"
    and "fst ` set mp \<subseteq> set knownPartProps"
  using assms(2) unfolding check_partition_Nil [OF assms(1)] check_part_size_Nil json.inject simp_thms set_obj_keys
  by - (elim conjE, assumption)+

lemma accepted_entry_decodes:
  assumes "ranges_all rng" "check_partition rng i it = []" "it = JObj mp" "distinct (map fst mp)"
  shows "decode_entry it = Some (entry_of mp)"
proof -
  note p = accepted_members [OF assms(1) assms(2) [unfolded assms(3)]]
  note keys = p(5)
  have f: "decode_string_field k [] mp = Some (str_member mp k)"
    if "k \<in> set knownPartProps" "obj_get mp k = None \<or> (\<exists>s. obj_get mp k = Some (JStr s))" for k
    unfolding str_member_def
    by (rule decode_string_field_distinct [OF assms(4) _ that(2)]) (use keys known_props_fold that(1) in blast)
  have kp: "''size'' \<in> set knownPartProps" "''type_guid'' \<in> set knownPartProps"
    "''format'' \<in> set knownPartProps" "''label'' \<in> set knownPartProps"
    by (simp_all add: knownPartProps_def)
  have "decode_string_field ''size'' [] mp = Some (str_member mp ''size'')"
    "decode_string_field ''type_guid'' [] mp = Some (str_member mp ''type_guid'')"
    "decode_string_field ''format'' [] mp = Some (str_member mp ''format'')"
    "decode_string_field ''label'' [] mp = Some (str_member mp ''label'')"
    by (rule f, rule kp, use p in metis)+
  then show ?thesis by (simp add: decode_entry_def assms(3) entry_of_def)
qed

definition ascii :: "char \<Rightarrow> bool" where
  "ascii c \<longleftrightarrow> (of_char c :: nat) < 128"

lemma to_lower_ascii: "(\<And>c. c \<in> set s \<Longrightarrow> ascii c) \<Longrightarrow> to_lower s = map ascii_lower s"
proof (induction s)
  case Nil
  show ?case by simp
next
  case (Cons c s)
  then have "ascii c" "to_lower s = map ascii_lower s" by simp_all
  then show ?case by (auto simp: ascii_def)
qed

lemma hex_facts:
  assumes "is_hex c \<or> c = CHR ''-''"
  shows "inner_byte c" "ascii c" "ascii_lower c = CHR ''-'' \<longleftrightarrow> c = CHR ''-''"
proof -
  have n: "48 \<le> (of_char c :: nat) \<and> (of_char c :: nat) \<le> 57 \<or> 65 \<le> (of_char c :: nat) \<and> (of_char c :: nat) \<le> 70 \<or>
      97 \<le> (of_char c :: nat) \<and> (of_char c :: nat) \<le> 102 \<or> of_char c = (45 :: nat)"
    using assms by (auto simp: is_hex_def is_digit_def in_range_def)
  show "inner_byte c"
    unfolding inner_byte_def space_runes_def using n by (auto simp: of_char_eq_nat [symmetric] simp del: of_char_eq_iff)
  show "ascii c" using n by (auto simp: ascii_def)
  show "ascii_lower c = CHR ''-'' \<longleftrightarrow> c = CHR ''-''"
    unfolding of_char_eq_nat [symmetric] of_char_case using n by (auto simp: Let_def)
qed

lemma matches_Rep3: "matches (Rep 3 r) s \<longleftrightarrow> (\<exists>u v w. s = u @ v @ w \<and> matches r u \<and> matches r v \<and> matches r w)"
  by (auto simp: eval_nat_numeral matches_Seq)

lemma guid_forms:
  assumes "matches reTypeGUID g"
  shows "(\<forall>c \<in> set g. is_hex c \<or> c = CHR ''-'') \<and>
    (length g = 4 \<or> length g = 36 \<and> count_list g CHR ''-'' = 4)"
proof -
  have h: "count_list u CHR ''-'' = 0" if "\<forall>c \<in> set u. is_hex c" for u
  proof -
    have "\<not> is_hex CHR ''-''" by (simp add: is_hex_def is_digit_def in_range_def)
    with that show ?thesis by (auto simp: count_list_0_iff)
  qed
  from assms consider (short) "length g = 4" "\<forall>c \<in> set g. is_hex c"
    | (long) a b c d e where "g = a @ ''-'' @ b @ ''-'' @ c @ ''-'' @ d @ ''-'' @ e"
      "length a = 8" "length b = 4" "length c = 4" "length d = 4" "length e = 12"
      "\<forall>x \<in> set a. is_hex x" "\<forall>x \<in> set b. is_hex x" "\<forall>x \<in> set c. is_hex x" "\<forall>x \<in> set d. is_hex x" "\<forall>x \<in> set e. is_hex x"
    unfolding reTypeGUID_def
    by (auto simp: matches_Seq matches_Rep3 matches_Rep_length simp del: matches.simps)
  then show ?thesis
  proof cases
    case short
    then show ?thesis by auto
  next
    case long
    then show ?thesis by (auto simp: count_list_append h)
  qed
qed

lemma normalize_accepted:
  assumes "matches reTypeGUID g"
  shows "(\<exists>n. normalizeTypeGUID g = Inr n) \<longleftrightarrow> (length g = 4 \<longrightarrow> to_lower g \<in> fst ` set typeAlias)"
    and "trim_space g \<noteq> []"
proof -
  note f = guid_forms [OF assms]
  have trim: "trim_space g = g" using f hex_facts(1) by (intro trim_space_id) blast
  have low: "to_lower g = map ascii_lower g" using f hex_facts(2) by (intro to_lower_ascii) blast
  have "count_list (map ascii_lower g) CHR ''-'' = count_list g CHR ''-''"
    using conjunct1 [OF f] by (induction g) (auto simp: hex_facts(3))
  moreover have "g \<noteq> []" using f by auto
  moreover have "length k = 4" if "k \<in> fst ` set typeAlias" for k
    using that by (auto simp: typeAlias_def)
  ultimately show "(\<exists>n. normalizeTypeGUID g = Inr n) \<longleftrightarrow> (length g = 4 \<longrightarrow> to_lower g \<in> fst ` set typeAlias)"
  proof (cases "map_of typeAlias (map ascii_lower g)")
    case None
    then have "map ascii_lower g \<notin> fst ` set typeAlias" by (simp only: map_of_eq_None_iff not_False_eq_True)
    with None \<open>g \<noteq> []\<close> \<open>count_list _ _ = _\<close> conjunct2 [OF f] show ?thesis
      unfolding normalizeTypeGUID_def trim low Let_def by (cases "length g = 4") simp_all
  next
    case (Some full)
    then have "map ascii_lower g \<in> fst ` set typeAlias" by (metis map_of_eq_None_iff option.distinct(1))
    with Some \<open>g \<noteq> []\<close> show ?thesis
      unfolding normalizeTypeGUID_def trim low Let_def by simp
  qed
  show "trim_space g \<noteq> []" using trim \<open>g \<noteq> []\<close> by simp
qed

lemma part_size_chars:
  assumes "matches rePartSize s \<or> s = ''100%''"
  shows "CHR ''+'' \<notin> set s"
proof -
  have "\<not> is_digit CHR ''+''" "\<not> in_range CHR ''1'' CHR ''9'' CHR ''+''" by (simp_all add: is_digit_def in_range_def)
  then show ?thesis
    using assms unfolding rePartSize_def size_unit_def by (auto simp: matches_Seq simp del: matches.simps)
qed

text \<open>An accepted entry passes the planner but for its type and for a colon in its label.\<close>

definition plannable :: "(string \<times> json) list \<Rightarrow> bool" where
  "plannable mp \<longleftrightarrow>
     (\<exists>g. obj_get mp ''type_guid'' = Some (JStr g) \<and> (length g = 4 \<longrightarrow> to_lower g \<in> fst ` set typeAlias)) \<and>
     CHR '':'' \<notin> set (str_member mp ''label'')"

lemma formats_known:
  assumes "f \<in> set allowedFSFormat \<or> f = []"
  shows "\<exists>cs. formatCommands f l d = Inr cs"
    and "f \<noteq> [] \<Longrightarrow> to_lower f \<in> set [''vfat'', ''ext4'', ''xfs'', ''btrfs'', ''swap'', ''ntfs'', ''raw'', ''none'']"
proof -
  have "list_all (\<lambda>f. to_lower f \<in> set [''vfat'', ''ext4'', ''xfs'', ''btrfs'', ''swap'', ''ntfs'', ''raw'', ''none'']) allowedFSFormat"
    by code_simp
  then show "f \<noteq> [] \<Longrightarrow> to_lower f \<in> set [''vfat'', ''ext4'', ''xfs'', ''btrfs'', ''swap'', ''ntfs'', ''raw'', ''none'']"
    using assms unfolding list_all_iff by blast
  have "list_all (\<lambda>f. to_lower f \<in> set [''vfat'', ''ext4'', ''xfs'', ''swap'', ''ntfs''] \<or> equal_fold f ''raw'' \<or> equal_fold f ''none'') allowedFSFormat"
    by code_simp
  then have "f = [] \<or> equal_fold f ''raw'' \<or> equal_fold f ''none'' \<or> to_lower f \<in> set [''vfat'', ''ext4'', ''xfs'', ''swap'', ''ntfs'']"
    using assms unfolding list_all_iff by blast
  then show "\<exists>cs. formatCommands f l d = Inr cs"
    unfolding formatCommands_def Let_def by (elim disjE) (simp_all, elim disjE, simp_all)
qed

lemma accepted_entry_plan:
  assumes "ranges_all rng" "check_partition rng i (JObj mp) = []"
  shows "(\<exists>cs. entry_commands disk n (entry_of mp) = Inr cs) \<longleftrightarrow> plannable mp"
proof -
  note p = accepted_members [OF assms]
  obtain s where s: "obj_get mp ''size'' = Some (JStr s)" "trim_space s \<noteq> []" "matches rePartSize s \<or> s = ''100%''"
    using p(1) by blast
  have plus: "trim_prefix (trim_space s) ''+'' \<noteq> []"
    using s(2) part_size_chars [OF s(3)] set_trim_space [of s] by (cases "trim_space s") (auto simp: trim_prefix_def)
  have lab: "length (str_member mp ''label'') \<le> 32" using p(4) by (auto simp: str_member_def)
  have fmt: "str_member mp ''format'' \<in> set allowedFSFormat \<or> str_member mp ''format'' = []"
    using p(3) by (auto simp: str_member_def)
  obtain fs where fs: "formatCommands (str_member mp ''format'') (str_member mp ''label'') (partitionDeviceName disk n) = Inr fs"
    using formats_known(1) [OF fmt] by blast
  have val: "validateEntry (entry_of mp) = Inr () \<longleftrightarrow>
      trim_space (str_member mp ''type_guid'') \<noteq> [] \<and> CHR '':'' \<notin> set (str_member mp ''label'')"
    using s plus lab formats_known(2) [OF fmt]
    by (auto simp: validateEntry_def entry_of_def Let_def str_member_def [of mp "''size''"])
  show ?thesis
  proof (cases "obj_get mp ''type_guid''")
    case None
    then have "str_member mp ''type_guid'' = []" by (simp add: str_member_def)
    with None val show ?thesis by (cases "validateEntry (entry_of mp)") (auto simp: entry_commands_def plannable_def)
  next
    case (Some v)
    with p(2) obtain g where g: "obj_get mp ''type_guid'' = Some (JStr g)" "matches reTypeGUID g" by auto
    then have m: "str_member mp ''type_guid'' = g" by (simp add: str_member_def)
    show ?thesis
      using val g normalize_accepted [OF g(2)] fs
      by (cases "validateEntry (entry_of mp)"; cases "normalizeTypeGUID g")
        (auto simp: entry_commands_def plannable_def m entry_of_def)
  qed
qed

lemma plan_entries_iff:
  "(\<exists>cs. plan_entries disk n es = Inr cs) \<longleftrightarrow> (\<forall>i < length es. \<exists>cs. entry_commands disk (n + i) (es ! i) = Inr cs)"
proof (induction es arbitrary: n)
  case Nil
  show ?case by simp
next
  case (Cons e es)
  show ?case
    unfolding length_Cons All_less_Suc2
    using Cons.IH [of "Suc n"]
    by (cases "entry_commands disk n e"; cases "plan_entries disk (Suc n) es") auto
qed

lemma decode_accepted_layout:
  assumes "ranges_all rng" "\<And>i. i < length arr \<Longrightarrow> check_partition rng i (arr ! i) = []"
    and "\<And>mp. JObj mp \<in> set arr \<Longrightarrow> distinct (map fst mp)"
  obtains es where "decode_layout (RawJson (JArr arr)) = Some es" "length es = length arr"
    "\<forall>i < length arr. \<exists>mp. arr ! i = JObj mp \<and> es ! i = entry_of mp"
proof -
  have ent: "\<exists>mp. arr ! i = JObj mp \<and> decode_entry (arr ! i) = Some (entry_of mp)" if i: "i < length arr" for i
  proof -
    obtain mp where mp: "arr ! i = JObj mp"
      using assms(2) [OF i] unfolding check_partition_Nil [OF assms(1)] by blast
    then have "distinct (map fst mp)" using assms(3) nth_mem [OF i] by metis
    from accepted_entry_decodes [OF assms(1) assms(2) [OF i] mp this] mp show ?thesis by blast
  qed
  define es where "es = map (the \<circ> decode_entry) arr"
  have "map decode_entry arr = map Some es"
    by (rule nth_equalityI) (use ent in \<open>force simp: es_def\<close>)+
  moreover have "those (map Some xs) = Some xs" for xs :: "LayoutEntry list" by (induction xs) auto
  ultimately have "those (map decode_entry arr) = Some es" by simp
  moreover have "\<exists>mp. arr ! i = JObj mp \<and> es ! i = entry_of mp" if "i < length arr" for i
    using ent [OF that] that by (auto simp: es_def)
  ultimately show thesis by (intro that [of es]) (simp_all add: decode_layout_def es_def)
qed

section \<open>Properties\<close>

definition demo_layout :: json where
  "demo_layout = JArr
     [JObj [(''size'', JStr ''512M''), (''type_guid'', JStr ''ef00''), (''format'', JStr ''vfat''), (''label'', JStr ''EFI'')],
      JObj [(''size'', JStr ''100%''), (''type_guid'', JStr ''8300''), (''format'', JStr ''ext4'')]]"

definition demo_partition_plan :: "Command list" where
  "demo_partition_plan = projr (partition_Plan ''/dev/nvme0n1'' (RawJson demo_layout))"

lemma demo_partition_plan_ok: "partition_Plan ''/dev/nvme0n1'' (RawJson demo_layout) = Inr demo_partition_plan"
proof -
  have "\<not> isl (partition_Plan ''/dev/nvme0n1'' (RawJson demo_layout))" by code_simp
  then show ?thesis unfolding demo_partition_plan_def by (cases "partition_Plan ''/dev/nvme0n1'' (RawJson demo_layout)") simp_all
qed



text \<open>
  The other four planners hand \<open>bash -c\<close> a script of several lines, and the wrappers read the plan
  line by line. So the loop comes to a line that ends inside the script's quotation: not a complete
  command. For the boot loader plans and the config drive plan this happens after everything has been
  mounted and before anything is unmounted, although the plan itself unmounts in the right order.
\<close>

lemma scripts_cut_by_wrapper:
  "sh_words script_head = Inl Unterminated \<and>
   (bootloader_Plan bo = Inr cs \<longrightarrow> bootloader_one_line bo \<longrightarrow> has_prefix (ESPDevice bo) ''/'' \<longrightarrow>
      (\<exists>rest. wrapper_lines (shell_output cs) = map Shell (take 17 cs) @ script_head # rest) \<and>
      run_mounts cs [] = Some [] \<and> (\<exists>ms. run_mounts (take 17 cs) [] = Some ms \<and> length ms = 6)) \<and>
   (bootloader_PlanWindows sha wo = Inr cs \<longrightarrow> windows_one_line wo \<longrightarrow> has_prefix (WESPDevice wo) ''/'' \<longrightarrow>
      (\<exists>rest. wrapper_lines (shell_output cs) = map Shell (take 8 cs) @ script_head # rest) \<and>
      run_mounts cs [] = Some [] \<and> (\<exists>ms. run_mounts (take 8 cs) [] = Some ms \<and> length ms = 2)) \<and>
   (configdrive_Plan co = Inr cs \<longrightarrow> configdrive_one_line co \<longrightarrow> has_prefix (Device co) ''/'' \<longrightarrow>
      (\<exists>rest. wrapper_lines (shell_output cs) = map Shell (take 2 cs) @ script_head # rest) \<and>
      run_mounts cs [] = Some [] \<and> (\<exists>ms. run_mounts (take 2 cs) [] = Some ms \<and> length ms = 1)) \<and>
   (image_PlanWindows io = Inr cs \<longrightarrow> (\<exists>rest. wrapper_lines (shell_output cs) = script_head # rest))"
  using bootloader.cut [of bo cs] bootloader_mounts [of bo cs] script_head_unterminated
    bootloaderWindows.cut [of sha wo cs] windows_mounts [of sha wo cs]
    configdrive.cut [of co cs] configdrive_mounts [of co cs] imageWindows.cut [of io cs]
  by (simp del: take_Suc_Cons)

lemma scripts_cut_by_wrapper_instance:
  "\<exists>cs rest. configdrive_Plan \<lparr>MountPath = [], Device = ''/dev/sda3'', UserDataPath = ''/run/u'', MetaDataPath = [], InstanceID = [], Hostname = ''h''\<rparr> = Inr cs \<and>
     wrapper_lines (shell_output cs) = map Shell (take 2 cs) @ script_head # rest"
proof -
  let ?o = "\<lparr>MountPath = [], Device = ''/dev/sda3'', UserDataPath = ''/run/u'', MetaDataPath = [], InstanceID = [], Hostname = ''h''\<rparr>"
  obtain cs where cs: "configdrive_Plan ?o = Inr cs" by (simp add: configdrive_Plan_def Let_def)
  have "configdrive_one_line ?o" "has_prefix (Device ?o) ''/''" by (simp_all add: configdrive_one_line_def)
  with scripts_cut_by_wrapper [where co = ?o and cs = cs] cs show ?thesis by blast
qed

text \<open>
  C18. The partition plan formats only what it created. Every command other than \<open>sgdisk\<close> is given the
  device of a partition that an earlier command of the plan creates on the chosen disk, never the disk
  itself, and no two of them the same device; the wipe of the disk comes first.
\<close>

theorem partition_plan_formats:
  assumes "partition_Plan disk raw = Inr cs"
  shows "Args (hd cs) = [''--zap-all'', disk] \<and>
    distinct (map (\<lambda>c. last (Args c)) (filter formats cs)) \<and>
    (\<forall>pre f post. cs = pre @ f # post \<longrightarrow> formats f \<longrightarrow> last (Args f) \<noteq> disk \<and>
       (\<exists>m k. last (Args f) = partitionDeviceName disk m \<and> k \<in> set pre \<and> creates disk m k))"
proof -
  let ?z = "[cmd ''sgdisk'' [''--zap-all'', disk] ''wipe existing partition table'', cmd ''sgdisk'' [''-o'', disk] ''initialize new GPT'']"
  let ?p = "cmd ''sgdisk'' [''-p'', disk] ''print resulting partition table''"
  obtain es ms where ms: "plan_entries disk 1 es = Inr ms" and cs: "cs = ?z @ ms @ [?p]"
    by (rule partition_Plan_parts [OF assms])
  obtain ns where ns: "sorted_wrt (<) ns"
    and m: "map (\<lambda>c. last (Args c)) (filter formats ms) = map (partitionDeviceName disk) ns"
    and ord: "\<And>pre f post. ms = pre @ f # post \<Longrightarrow> formats f \<Longrightarrow>
      \<exists>m k. last (Args f) = partitionDeviceName disk m \<and> k \<in> set pre \<and> creates disk m k"
    using plan_entries_formats [OF ms] by blast
  have sg: "\<not> formats (cmd ''sgdisk'' as t)" for as t by (simp add: formats_def)
  have "\<exists>m k. last (Args f) = partitionDeviceName disk m \<and> k \<in> set pre \<and> creates disk m k"
    if eq: "cs = pre @ f # post" and f: "formats f" for pre f post
  proof -
    obtain pre' post' where "ms = pre' @ f # post'" "pre = ?z @ pre'"
      using eq f sg unfolding cs
      by (cases pre; cases "tl pre"; cases post rule: rev_cases) (auto simp: append_eq_append_conv2 append_eq_Cons_conv Cons_eq_append_conv)
    with ord [OF _ f] show ?thesis by fastforce
  qed
  moreover have "distinct (map (\<lambda>c. last (Args c)) (filter formats cs))"
    using m distinct_devices [OF ns] by (simp add: cs sg)
  ultimately show ?thesis using device_not_disk by (simp add: cs) metis
qed

theorem partition_plan_formats_witness:
  "map (\<lambda>c. last (Args c)) (filter formats demo_partition_plan) = [''/dev/nvme0n1p1'', ''/dev/nvme0n1p2''] \<and>
   distinct (map (\<lambda>c. last (Args c)) (filter formats demo_partition_plan))"
proof
  show "map (\<lambda>c. last (Args c)) (filter formats demo_partition_plan) = [''/dev/nvme0n1p1'', ''/dev/nvme0n1p2'']" by code_simp
  show "distinct (map (\<lambda>c. last (Args c)) (filter formats demo_partition_plan))"
    using partition_plan_formats [OF demo_partition_plan_ok] by blast
qed

text \<open>
  C19. The recipe validator and the partition planner do not agree. For a layout the validator accepts
  (members without duplicates), the planner produces a plan exactly when every entry names a type, a
  four-digit type code is one of the five it knows, and no label contains a colon. The validator asks
  for none of the three.
\<close>

theorem accepted_layout_plan:
  assumes "ranges_all rng" "arr \<noteq> []" "\<And>i. i < length arr \<Longrightarrow> check_partition rng i (arr ! i) = []"
    and "\<And>mp. JObj mp \<in> set arr \<Longrightarrow> distinct (map fst mp)" "disk \<noteq> []"
  shows "(\<exists>cs. partition_Plan disk (RawJson (JArr arr)) = Inr cs) \<longleftrightarrow> (\<forall>mp. JObj mp \<in> set arr \<longrightarrow> plannable mp)"
proof -
  obtain es where es: "decode_layout (RawJson (JArr arr)) = Some es" "length es = length arr"
    "\<forall>i < length arr. \<exists>mp. arr ! i = JObj mp \<and> es ! i = entry_of mp"
    by (rule decode_accepted_layout [OF assms(1,3,4)])
  have entry: "(\<exists>cs. entry_commands disk (1 + i) (es ! i) = Inr cs) \<longleftrightarrow> (\<exists>mp. arr ! i = JObj mp \<and> plannable mp)"
    if i: "i < length arr" for i
  proof -
    obtain mp where mp: "arr ! i = JObj mp" "es ! i = entry_of mp" using es(3) i by blast
    with accepted_entry_plan [OF assms(1) assms(3) [OF i, unfolded mp(1)]] show ?thesis by simp
  qed
  have "es \<noteq> []" using es(2) assms(2) by auto
  then have "(\<exists>cs. partition_Plan disk (RawJson (JArr arr)) = Inr cs) \<longleftrightarrow> (\<exists>cs. plan_entries disk 1 es = Inr cs)"
    using assms(5) es(1) unfolding partition_Plan_def by (cases "plan_entries disk 1 es") simp_all
  also have "\<dots> \<longleftrightarrow> (\<forall>i < length arr. \<exists>mp. arr ! i = JObj mp \<and> plannable mp)"
    unfolding plan_entries_iff es(2) using entry by blast
  also have "\<dots> \<longleftrightarrow> (\<forall>mp. JObj mp \<in> set arr \<longrightarrow> plannable mp)"
    unfolding all_set_conv_all_nth [symmetric] using es(3) by (metis in_set_conv_nth json.inject(5))
  finally show ?thesis .
qed

definition lvm_layout :: "json list" where
  "lvm_layout = [JObj [(''size'', JStr ''1G''), (''type_guid'', JStr ''8e00'')]]"

theorem accepted_layout_plan_witness:
  "check_partition id 0 (lvm_layout ! 0) = [] \<and> \<not> (\<exists>cs. partition_Plan ''/dev/sda'' (RawJson (JArr lvm_layout)) = Inr cs)"
proof
  show c: "check_partition id 0 (lvm_layout ! 0) = []" by code_simp
  have "\<not> plannable [(''size'', JStr ''1G''), (''type_guid'', JStr ''8e00'')]"
    by (simp add: plannable_def obj_get_def typeAlias_def ascii_lower_def)
  with accepted_layout_plan [OF ranges_all_id, of lvm_layout "''/dev/sda''"] c
  show "\<not> (\<exists>cs. partition_Plan ''/dev/sda'' (RawJson (JArr lvm_layout)) = Inr cs)"
    by (simp add: lvm_layout_def)
qed

text \<open>
  The Windows answer file. Whatever the recipe's \<open>unattend_xml\<close> contains, the here-document of the
  generated script ends where it should: its body is the escaped text and nothing after it is read as
  part of the file. But the file the script writes is that text and a final line break, never the text
  whose hash the script compares with, so an existing file written by an earlier run is never
  recognised as unchanged (short of a hash collision).
\<close>

lemma unattend_heredoc:
  assumes "no_LF dest" "no_LF h"
  shows "(\<exists>post. split_on CHR 0x0A (unattend_script dest h xml) =
      unattend_head dest h xml @ heredoc_line # split_on CHR 0x0A (escape_unattend xml) @ heredoc_delim # post) \<and>
    heredoc_delim \<notin> set (split_on CHR 0x0A (escape_unattend xml)) \<and>
    unlines (split_on CHR 0x0A (escape_unattend xml)) \<noteq> xml"
proof (intro conjI)
  show "unlines (split_on CHR 0x0A (escape_unattend xml)) \<noteq> xml"
    using escape_longer [of xml] unfolding unlines_split by (metis length_append_singleton not_less_eq_eq le_refl)
qed (rule unattend_lines [OF assms], rule escape_no_delim)

lemma unattend_heredoc_instance:
  "heredoc_delim \<notin> set (split_on CHR 0x0A (escape_unattend (''<a>'' @ [CHR 0x0A] @ heredoc_delim @ [CHR 0x0A])))"
proof -
  have "no_LF ''/mnt/x''" "no_LF ''00''" by simp_all
  from unattend_heredoc [OF this] show ?thesis by blast
qed

end
