(* ===== verification/Dispatcher.thy ===== *)
theory Dispatcher
  imports Disk Validation "HOL-Library.AList"
begin

text \<open>
  The dispatcher of the maintenance OS (\<open>internal/provisioner/dispatcher/dispatcher.go\<close>): it reads the
  recipe from the task medium, validates it, writes the environment file and the payloads, and starts
  the systemd target.

  The record \<open>disp_env\<close> holds its surroundings: the effective user, the working directory, the
  environment variables, the commands it runs with their output and error, the clock, the names
  \<open>os.CreateTemp\<close> picks by operation number, the order of \<open>range\<close> over a map, the JSON decoder
  (\<open>parse\<close>), \<open>json.Indent\<close> of a member (\<open>indent\<close>), and whether a number of the recipe is written as an
  integer literal, which is all Go accepts for an \<open>int\<close> (\<open>int_literal\<close>). Upper-casing of keys is exact
  for ASCII. Log lines are left out; \<open>recover\<close> has nothing to catch.
\<close>

type_synonym exit_code = nat

abbreviation ExitSchemaError :: exit_code where "ExitSchemaError \<equiv> 12"
abbreviation ExitRecipeReadError :: exit_code where "ExitRecipeReadError \<equiv> 13"
abbreviation ExitSchemaInvalid :: exit_code where "ExitSchemaInvalid \<equiv> 14"
abbreviation ExitOutputError :: exit_code where "ExitOutputError \<equiv> 15"
abbreviation ExitSystemdError :: exit_code where "ExitSystemdError \<equiv> 16"
abbreviation ExitPrivilegeError :: exit_code where "ExitPrivilegeError \<equiv> 17"
abbreviation ExitSerialError :: exit_code where "ExitSerialError \<equiv> 18"

record Config =
  TaskMount :: string
  EnvDir :: string
  RecipePath :: string
  SchemaPath :: string
  TargetOverride :: string
  SerialSource :: string
  SerialEnvKey :: string
  SerialOverride :: string
  Version :: string
  NoStart :: bool
  SkipRootCheck :: bool

record disp_env =
  is_root :: bool
  cwd :: path
  getenv :: "string \<Rightarrow> string"
  exec :: "string list \<Rightarrow> string \<times> string option"
  wall_clock :: time
  temp_name :: "nat \<Rightarrow> string"
  key_order :: map_order
  parse :: "string \<Rightarrow> raw_message"
  indent :: "json \<Rightarrow> string"
  int_literal :: "rat \<Rightarrow> bool"

section \<open>The recipe\<close>

record recipe =
  SchemaVersion :: string
  TaskTarget :: string
  TargetDisk :: string
  OCIURL :: string
  FirmwareURL :: string
  WIMIndex :: int
  PartitionLayout :: "json option"
  UserData :: "json option"
  UnattendXML :: "json option"
  Kickstart :: "json option"
  Env :: "(string \<times> string) list"

text \<open>A field of type \<open>json.RawMessage\<close> takes the value of the last member that matches.\<close>

fun decode_raw_field :: "string \<Rightarrow> json option \<Rightarrow> (string \<times> json) list \<Rightarrow> json option" where
  "decode_raw_field f acc [] = acc"
| "decode_raw_field f acc ((k, v) # kvs) = decode_raw_field f (if equal_fold k f then Some v else acc) kvs"

fun decode_int_field :: "(rat \<Rightarrow> bool) \<Rightarrow> string \<Rightarrow> int \<Rightarrow> (string \<times> json) list \<Rightarrow> int option" where
  "decode_int_field intlit f acc [] = Some acc"
| "decode_int_field intlit f acc ((k, v) # kvs) =
     (if equal_fold k f
      then (case v of
              JNum q \<Rightarrow> if intlit q \<and> q = of_int \<lfloor>q\<rfloor> \<and> - (2 ^ 63) \<le> q \<and> q < 2 ^ 63
                        then decode_int_field intlit f \<lfloor>q\<rfloor> kvs else None
            | JNull \<Rightarrow> decode_int_field intlit f acc kvs
            | _ \<Rightarrow> None)
      else decode_int_field intlit f acc kvs)"

text \<open>\<open>map[string]string\<close>: an object adds its members, \<open>null\<close> empties the map.\<close>

fun add_members :: "(string \<times> json) list \<Rightarrow> (string \<times> string) list \<Rightarrow> ((string \<times> string) list) option" where
  "add_members [] acc = Some acc"
| "add_members ((k, v) # kvs) acc =
     (case v of
        JStr s \<Rightarrow> add_members kvs (AList.update k s acc)
      | JNull \<Rightarrow> add_members kvs (AList.update k [] acc)
      | _ \<Rightarrow> None)"

fun decode_map_field :: "string \<Rightarrow> (string \<times> string) list \<Rightarrow> (string \<times> json) list \<Rightarrow> ((string \<times> string) list) option" where
  "decode_map_field f acc [] = Some acc"
| "decode_map_field f acc ((k, v) # kvs) =
     (if equal_fold k f
      then (case v of
              JObj mp \<Rightarrow> Option.bind (add_members mp acc) (\<lambda>acc'. decode_map_field f acc' kvs)
            | JNull \<Rightarrow> decode_map_field f [] kvs
            | _ \<Rightarrow> None)
      else decode_map_field f acc kvs)"

definition unmarshal_recipe :: "(rat \<Rightarrow> bool) \<Rightarrow> (string \<times> json) list \<Rightarrow> recipe option" where
  "unmarshal_recipe intlit kvs =
     (case (decode_string_field ''schema_version'' [] kvs, decode_string_field ''task_target'' [] kvs,
            decode_string_field ''target_disk'' [] kvs, decode_string_field ''oci_url'' [] kvs,
            decode_string_field ''firmware_url'' [] kvs, decode_int_field intlit ''wim_index'' 0 kvs,
            decode_map_field ''env'' [] kvs) of
        (Some sv, Some tt, Some td, Some ou, Some fu, Some wi, Some en) \<Rightarrow>
          Some \<lparr>SchemaVersion = sv, TaskTarget = tt, TargetDisk = td, OCIURL = ou, FirmwareURL = fu, WIMIndex = wi,
                PartitionLayout = decode_raw_field ''partition_layout'' None kvs,
                UserData = decode_raw_field ''user_data'' None kvs,
                UnattendXML = decode_raw_field ''unattend_xml'' None kvs,
                Kickstart = decode_raw_field ''ks.cfg'' None kvs, Env = en\<rparr>
      | _ \<Rightarrow> None)"

definition decodePayload :: "json option \<Rightarrow> string + string" where
  "decodePayload raw =
     (case raw of
        None \<Rightarrow> Inr []
      | Some (JStr s) \<Rightarrow> Inr s
      | Some JNull \<Rightarrow> Inr []
      | Some (JObj obj) \<Rightarrow>
          (case obj_get obj ''content'' of
             Some (JStr c) \<Rightarrow> Inr c
           | _ \<Rightarrow>
          (case obj_get obj ''url'' of
             Some (JStr u) \<Rightarrow> Inl (''payload URL not supported yet ('' @ u @ '')'')
           | _ \<Rightarrow>
          (case obj_get obj ''path'' of
             Some (JStr p) \<Rightarrow> Inl (''payload path not supported yet ('' @ p @ '')'')
           | _ \<Rightarrow> Inl ''payload missing content/url/path'')))
      | Some _ \<Rightarrow> Inl ''unsupported payload shape'')"

definition extractSchemaID :: "raw_message \<Rightarrow> string" where
  "extractSchemaID raw =
     (case raw of
        RawJson (JObj obj) \<Rightarrow> (case obj_get obj ''$id'' of Some (JStr i) \<Rightarrow> trim_space i | _ \<Rightarrow> [])
      | _ \<Rightarrow> [])"

text \<open>The \<open>$id\<close> of the embedded schema.\<close>

definition embedded_schema_id :: string where
  "embedded_schema_id = ''https://shoal.example.com/schemas/recipe.schema.json''"

section \<open>The serial number\<close>

definition isPlaceholderSerial :: "string \<Rightarrow> bool" where
  "isPlaceholderSerial v \<longleftrightarrow>
     to_lower (trim_space v) \<in> set ['''', ''unknown'', ''not specified'', ''to be filled by o.e.m.'']"

definition readSysSerial :: "(disk, string option) state" where
  "readSysSerial = do {
     r \<leftarrow> os_ReadFile [''sys'', ''class'', ''dmi'', ''id'', ''product_serial''];
     State_Monad.return (case r of
       Inl _ \<Rightarrow> None
     | Inr data \<Rightarrow>
         (let serial = trim_space data
          in if serial = [] \<or> isPlaceholderSerial serial then None else Some serial)) }"

definition dmidecode_serial :: "disp_env \<Rightarrow> string" where
  "dmidecode_serial E =
     (case exec E [''dmidecode'', ''-s'', ''system-serial-number''] of
        (out, None) \<Rightarrow>
          (let serial = trim_space out
           in if serial \<noteq> [] \<and> \<not> isPlaceholderSerial serial then serial else ''unknown'')
      | (out, Some _) \<Rightarrow> ''unknown'')"

definition resolveSerial :: "disp_env \<Rightarrow> Config \<Rightarrow> (disk, string + string) state" where
  "resolveSerial E cfg =
     (let envKey = (if trim_space (SerialEnvKey cfg) = [] then ''PROVISIONER_SERIAL'' else SerialEnvKey cfg);
          val = trim_space (getenv E envKey)
      in if trim_space (SerialOverride cfg) \<noteq> [] then State_Monad.return (Inr (trim_space (SerialOverride cfg)))
         else if val \<noteq> [] then State_Monad.return (Inr val)
         else if SerialSource cfg = ''env'' then State_Monad.return (Inl (''serial env key '' @ envKey @ '' not set''))
         else do {
           s \<leftarrow> readSysSerial;
           State_Monad.return (case s of
             Some serial \<Rightarrow> Inr serial
           | None \<Rightarrow>
               if SerialSource cfg = ''dmi'' then Inl ''serial not available via sysfs''
               else Inr (dmidecode_serial E)) })"

section \<open>The files\<close>

definition sanitizeEnvValue :: "string \<Rightarrow> string" where
  "sanitizeEnvValue v = map (\<lambda>c. if c = CHR 0x0D \<or> c = CHR 0x0A then CHR 0x20 else c) (trim_space v)"

definition env_text :: "(string \<times> string) list \<Rightarrow> string" where
  "env_text values = concat (map (\<lambda>k. k @ ''='' @ sanitizeEnvValue (the (map_of values k)) @ [CHR 0x0A]) (sort (map fst values)))"

text \<open>The part of \<open>writeAtomic\<close> before its deferred calls, for a temporary file that exists.\<close>

definition fill_and_rename :: "path \<Rightarrow> path \<Rightarrow> string \<Rightarrow> (disk, string + unit) state" where
  "fill_and_rename tmp path content =
     try_io [] (os_WriteFile tmp content) (\<lambda>_.
     try_io [] os_touch (\<lambda>_.
     try_io [] os_touch (\<lambda>_.
     try_io [] os_touch (\<lambda>_.
     try_io [] (os_Rename tmp path) (\<lambda>_. State_Monad.return (Inr ()))))))"

definition writeAtomic :: "disp_env \<Rightarrow> path \<Rightarrow> string \<Rightarrow> (disk, string + unit) state" where
  "writeAtomic E path content =
     try_io [] (os_MkdirAll (butlast path)) (\<lambda>_. do {
       n \<leftarrow> op_number;
       try_io [] (os_CreateTemp (butlast path) (temp_name E n)) (\<lambda>tmp. do {
         r \<leftarrow> fill_and_rename tmp path content;
         _ \<leftarrow> os_Remove tmp;
         State_Monad.return r }) })"

definition writeEnvFile :: "disp_env \<Rightarrow> path \<Rightarrow> (string \<times> string) list \<Rightarrow> (disk, string + unit) state" where
  "writeEnvFile E path values = writeAtomic E path (env_text values)"

definition formatJSON :: "disp_env \<Rightarrow> json \<Rightarrow> string" where
  "formatJSON E j = (let t = indent E j in if has_suffix t [CHR 0x0A] then t else t @ [CHR 0x0A])"

definition writeJSON :: "disp_env \<Rightarrow> path \<Rightarrow> json \<Rightarrow> (disk, string + unit) state" where
  "writeJSON E path j = writeAtomic E path (formatJSON E j)"

section \<open>The environment of the workflow\<close>

definition fixed_env :: "disp_env \<Rightarrow> Config \<Rightarrow> recipe \<Rightarrow> string \<Rightarrow> string \<Rightarrow> string \<Rightarrow> (string \<times> string) list" where
  "fixed_env E cfg rec taskTarget serial schemaID =
     [(''TASK_TARGET'', taskTarget), (''TARGET_DISK'', trim_space (TargetDisk rec)), (''SERIAL_NUMBER'', serial),
      (''WORKFLOW_STARTED_AT'', rfc3339 (wall_clock E - wall_clock E mod time_Second))] @
     (if Version cfg \<noteq> [] then [(''DISPATCHER_VERSION'', Version cfg)] else []) @
     (if SchemaVersion rec \<noteq> [] then [(''SCHEMA_VERSION'', SchemaVersion rec)] else []) @
     (if schemaID \<noteq> [] then [(''SCHEMA_ID'', schemaID)] else []) @
     (if trim_space (OCIURL rec) \<noteq> [] then [(''OCI_URL'', OCIURL rec)] else []) @
     (if trim_space (FirmwareURL rec) \<noteq> [] then [(''FIRMWARE_URL'', FirmwareURL rec)] else []) @
     (if WIMIndex rec > 0 then [(''WIM_INDEX'', itoa (WIMIndex rec))] else [])"

definition env_key :: "string \<Rightarrow> string" where
  "env_key k = to_upper (trim_space k)"

fun add_env :: "string list \<Rightarrow> (string \<times> string) list \<Rightarrow> (string \<times> string) list \<Rightarrow> (string \<times> string) list" where
  "add_env reserved [] values = values"
| "add_env reserved ((k, v) # kvs) values =
     add_env reserved kvs
       (if env_key k = [] \<or> env_key k \<in> set reserved then values else AList.update (env_key k) v values)"

definition env_values :: "disp_env \<Rightarrow> (string \<times> string) list \<Rightarrow> recipe \<Rightarrow> (string \<times> string) list" where
  "env_values E fixed rec =
     add_env (map fst fixed) (map (\<lambda>k. (k, the (map_of (Env rec) k))) (key_order E (map fst (Env rec)))) fixed"

section \<open>The whole run\<close>

text \<open>The outcome of a run: an exit code with its error, and the target that was started.\<close>

record outcome =
  result :: "(exit_code \<times> string) + unit"
  started :: "string option"

definition fail :: "exit_code \<Rightarrow> string \<Rightarrow> (disk, outcome) state" where
  "fail code msg = State_Monad.return \<lparr>result = Inl (code, msg), started = None\<rparr>"

definition try_run :: "exit_code \<Rightarrow> string \<Rightarrow> (disk, string + 'a) state \<Rightarrow> ('a \<Rightarrow> (disk, outcome) state) \<Rightarrow> (disk, outcome) state" where
  "try_run code pre m k = do {
     r \<leftarrow> m;
     case r of Inl e \<Rightarrow> fail code (pre @ e) | Inr x \<Rightarrow> k x }"

definition read_file :: "path \<Rightarrow> (disk, string + string) state" where
  "read_file p = do { r \<leftarrow> os_ReadFile p; State_Monad.return (map_sum io_text id r) }"

definition make_dir :: "path \<Rightarrow> (disk, string + unit) state" where
  "make_dir p = do { r \<leftarrow> os_MkdirAll p; State_Monad.return (map_sum io_text id r) }"

definition or_default_blank :: "string \<Rightarrow> string \<Rightarrow> string" where
  "or_default_blank s d = (if trim_space s = [] then d else s)"

definition to_path :: "disp_env \<Rightarrow> string \<Rightarrow> path" where
  "to_path E s = (if has_prefix s ''/'' then join_path [] s else join_path (cwd E) s)"

definition write_payload :: "disp_env \<Rightarrow> path \<Rightarrow> string \<Rightarrow> string \<Rightarrow> json option \<Rightarrow> (disk, outcome) state \<Rightarrow> (disk, outcome) state" where
  "write_payload E dir field name raw k =
     (case decodePayload raw of
        Inl e \<Rightarrow> fail ExitSchemaInvalid (field @ '': '' @ e)
      | Inr data \<Rightarrow>
          if data = [] then k
          else try_run ExitOutputError (''write '' @ name @ '': '') (writeAtomic E (join_path dir name) data) (\<lambda>_. k))"

definition start_target :: "disp_env \<Rightarrow> Config \<Rightarrow> string \<Rightarrow> outcome" where
  "start_target E cfg taskTarget =
     (if NoStart cfg then \<lparr>result = Inr (), started = None\<rparr>
      else (case exec E [''systemctl'', ''start'', taskTarget] of
              (out, None) \<Rightarrow> \<lparr>result = Inr (), started = Some taskTarget\<rparr>
            | (out, Some e) \<Rightarrow>
                (let detail = trim_space out; msg = (if detail \<noteq> [] then e @ '': '' @ detail else e)
                 in \<lparr>result = Inl (ExitSystemdError, ''systemctl start '' @ taskTarget @ '': '' @ msg), started = Some taskTarget\<rparr>)))"

text \<open>Everything after validation.\<close>

definition run_recipe :: "disp_env \<Rightarrow> Config \<Rightarrow> raw_message \<Rightarrow> recipe \<Rightarrow> (disk, outcome) state" where
  "run_recipe E cfg schemaRaw rec =
     (let taskTarget = (if trim_space (TargetOverride cfg) \<noteq> [] then TargetOverride cfg else TaskTarget rec);
          envDir = to_path E (or_default_blank (EnvDir cfg) ''/run/provision'');
          schemaID = (if extractSchemaID schemaRaw = [] then embedded_schema_id else extractSchemaID schemaRaw)
      in if trim_space taskTarget = [] then fail ExitSchemaInvalid ''task_target is empty''
         else try_run ExitSerialError [] (resolveSerial E cfg) (\<lambda>serial.
              try_run ExitOutputError ''create env dir: '' (make_dir envDir) (\<lambda>_.
              try_run ExitOutputError ''write recipe.env: ''
                (writeEnvFile E (join_path envDir ''recipe.env'')
                   (env_values E (fixed_env E cfg rec taskTarget serial schemaID) rec)) (\<lambda>_.
              let rest =
                write_payload E envDir ''user_data'' ''user-data'' (UserData rec)
                (write_payload E envDir ''unattend_xml'' ''unattend.xml'' (UnattendXML rec)
                (write_payload E envDir ''ks.cfg'' ''ks.cfg'' (Kickstart rec)
                (State_Monad.return (start_target E cfg taskTarget))))
              in case PartitionLayout rec of
                   None \<Rightarrow> rest
                 | Some j \<Rightarrow> try_run ExitOutputError ''write layout.json: '' (writeJSON E (join_path envDir ''layout.json'') j) (\<lambda>_. rest)))))"

definition Run :: "disp_env \<Rightarrow> Config \<Rightarrow> (disk, outcome) state" where
  "Run E cfg =
     (if \<not> SkipRootCheck cfg \<and> \<not> is_root E then fail ExitPrivilegeError ''dispatcher must run as root''
      else let mnt = to_path E (or_default_blank (TaskMount cfg) ''/mnt/task'') in
        try_run ExitSchemaError ''read schema: '' (read_file (join_path mnt (or_default_blank (SchemaPath cfg) ''recipe.schema.json''))) (\<lambda>schemaBytes.
        if trim_space schemaBytes = [] then fail ExitSchemaError ''schema file is empty''
        else try_run ExitRecipeReadError ''read recipe: '' (read_file (join_path mnt (or_default_blank (RecipePath cfg) ''recipe.json''))) (\<lambda>recipeBytes.
        if trim_space recipeBytes = [] then fail ExitRecipeReadError ''recipe file is empty''
        else (case ValidateRecipe (key_order E) (parse E recipeBytes) of
                Inl e \<Rightarrow> fail ExitRecipeReadError e
              | Inr (err # _) \<Rightarrow> fail ExitSchemaInvalid (''recipe validation failed: '' @ Field err @ '': '' @ VMessage err)
              | Inr [] \<Rightarrow>
                  (case parse E recipeBytes of
                     RawJson (JObj kvs) \<Rightarrow>
                       (case unmarshal_recipe (int_literal E) kvs of
                          None \<Rightarrow> fail ExitRecipeReadError ''parse recipe: json: cannot unmarshal''
                        | Some rec \<Rightarrow> run_recipe E cfg (parse E schemaBytes) rec)
                   | _ \<Rightarrow> fail ExitRecipeReadError ''parse recipe: json: cannot unmarshal'')))))"

end
