(* ===== verification/DispatcherProps.thy ===== *)
theory DispatcherProps
  imports Dispatcher
begin

text \<open>
  Properties of the dispatcher of theory Dispatcher: files are replaced as a whole whatever fails, the
  environment file is complete before a target is started, what a reader of that file finds in it, and
  how a run on a working disk ends.
\<close>

section \<open>Files are replaced as a whole\<close>

definition temp_ok :: "disp_env \<Rightarrow> bool" where
  "temp_ok E \<longleftrightarrow> (\<forall>n. temp_name E n \<notin> {''recipe.env'', ''layout.json'', ''user-data'', ''unattend.xml'', ''ks.cfg''})"

lemma try_run_triple:
  assumes "triple P m R" "\<And>e ns. R (Inl e) ns \<Longrightarrow> Q \<lparr>result = Inl (code, pre @ e), started = None\<rparr> ns"
    and "\<And>x. triple (R (Inr x)) (k x) Q"
  shows "triple P (try_run code pre m k) Q"
  unfolding try_run_def fail_def
  by (rule triple_bind [OF assms(1)]) (auto intro: triple_return assms split: sum.split)

lemma fail_triple: "(\<And>ns. P ns \<Longrightarrow> Q \<lparr>result = Inl (code, msg), started = None\<rparr> ns) \<Longrightarrow> triple P (fail code msg) Q"
  unfolding fail_def by (rule triple_return)

text \<open>\<open>writeAtomic\<close> and the files of a set: an error leaves them as they were, success replaces the one file.\<close>

lemma writeAtomic_triple:
  assumes "\<And>n. dir @ [temp_name E n] \<notin> S" "\<And>n. temp_name E n \<noteq> x" "\<And>q. q \<in> S \<Longrightarrow> q \<notin> above dir \<and> q \<noteq> dir"
  shows "triple (kept S V {}) (writeAtomic E (dir @ [x]) c) (replaced S V (dir @ [x]) c)"
proof -
  have m: "triple (kept S V {}) (os_MkdirAll dir) (\<lambda>r. kept S V {})"
    by (rule triple_weaken [OF mkdir_triple [OF assms(3)]]) auto
  have "triple (kept S V {}) (fill_and_rename (dir @ [temp_name E n]) (dir @ [x]) c) (replaced S V (dir @ [x]) c)" for n
    unfolding fill_and_rename_def by (rule fill_triple) (use assms in auto)
  then show ?thesis
    unfolding writeAtomic_def butlast_snoc
    by (intro try_io_triple [OF m] through_temp_triple assms(1)) (simp add: replaced_def)
qed

lemma read_keeps: "triple P (os_ReadFile p) (\<lambda>r. P)"
  by (rule triple_weaken [OF reader_triples(2) [where P = P]]) auto

lemma read_file_triple: "triple P (read_file p) (\<lambda>r. P)"
  unfolding read_file_def by (rule triple_bind [OF read_keeps]) (rule triple_return)

lemma make_dir_triple:
  assumes "\<And>q. q \<in> S \<Longrightarrow> q \<notin> above p \<and> q \<noteq> p"
  shows "triple (kept S V {}) (make_dir p) (\<lambda>r. kept S V {})"
proof -
  have "triple (kept S V {}) (os_MkdirAll p) (\<lambda>r. kept S V {})"
    by (rule triple_weaken [OF mkdir_triple [OF assms]]) auto
  then show ?thesis unfolding make_dir_def by (rule triple_bind) (rule triple_return)
qed

lemma resolveSerial_triple: "triple P (resolveSerial E cfg) (\<lambda>r. P)"
proof -
  have s: "triple P readSysSerial (\<lambda>r. P)"
    unfolding readSysSerial_def by (rule triple_bind [OF read_keeps]) (rule triple_return)
  show ?thesis
    unfolding resolveSerial_def Let_def
    by (intro triple_if triple_return triple_bind [OF s])
qed

section \<open>The environment file over a whole run\<close>

abbreviation env_dir :: "disp_env \<Rightarrow> Config \<Rightarrow> path" where
  "env_dir E cfg \<equiv> to_path E (or_default_blank (EnvDir cfg) ''/run/provision'')"

definition target_of :: "Config \<Rightarrow> recipe \<Rightarrow> string" where
  "target_of cfg rec = (if trim_space (TargetOverride cfg) \<noteq> [] then TargetOverride cfg else TaskTarget rec)"

text \<open>The content of \<open>recipe.env\<close> for a recipe the validator accepted.\<close>

definition env_file_for :: "disp_env \<Rightarrow> Config \<Rightarrow> recipe \<Rightarrow> string \<Rightarrow> bool" where
  "env_file_for E cfg rec text \<longleftrightarrow>
     (\<exists>kvs serial sid. ValidateRecipe (key_order E) (RawJson (JObj kvs)) = Inr [] \<and>
        unmarshal_recipe (int_literal E) kvs = Some rec \<and>
        text = env_text (env_values E (fixed_env E cfg rec (target_of cfg rec) serial sid) rec))"

definition run_post :: "disp_env \<Rightarrow> Config \<Rightarrow> node option \<Rightarrow> outcome \<Rightarrow> (path \<times> node) list \<Rightarrow> bool" where
  "run_post E cfg old r ns \<longleftrightarrow>
     (map_of ns (env_dir E cfg @ [''recipe.env'']) = old \<and> started r = None \<or>
      (\<exists>rec text. env_file_for E cfg rec text \<and> map_of ns (env_dir E cfg @ [''recipe.env'']) = Some (FileN text) \<and>
         (\<forall>t. started r = Some t \<longrightarrow> t = target_of cfg rec)))"

lemma plain_names [simp]:
  "plain_elem ''recipe.env''" "plain_elem ''layout.json''" "plain_elem ''user-data''" "plain_elem ''unattend.xml''" "plain_elem ''ks.cfg''"
  by (simp_all add: plain_elem_def)

text \<open>Writing another file of the directory leaves the environment file alone.\<close>

lemma writeAtomic_other:
  assumes "temp_ok E" "x \<noteq> ''recipe.env''" "\<And>n. temp_name E n \<noteq> x"
  shows "triple (\<lambda>ns. map_of ns (dir @ [''recipe.env'']) = v) (writeAtomic E (dir @ [x]) c)
     (\<lambda>r ns. map_of ns (dir @ [''recipe.env'']) = v)"
proof -
  let ?f = "dir @ [''recipe.env'']"
  have "triple (kept {?f} (\<lambda>_. v) {}) (writeAtomic E (dir @ [x]) c) (replaced {?f} (\<lambda>_. v) (dir @ [x]) c)"
    by (rule writeAtomic_triple) (use assms in \<open>auto simp: temp_ok_def\<close>)
  then show ?thesis
    by (rule triple_weaken) (use assms(2) in \<open>auto simp: replaced_def kept_single split: if_splits\<close>)
qed

lemma write_payload_triple:
  assumes "temp_ok E" "x \<in> {''user-data'', ''unattend.xml'', ''ks.cfg''}"
    and k: "triple (\<lambda>ns. map_of ns (dir @ [''recipe.env'']) = v) k Q"
    and Q: "\<And>code msg ns. map_of ns (dir @ [''recipe.env'']) = v \<Longrightarrow> Q \<lparr>result = Inl (code, msg), started = None\<rparr> ns"
  shows "triple (\<lambda>ns. map_of ns (dir @ [''recipe.env'']) = v) (write_payload E dir field x raw k) Q"
proof -
  have j: "join_path dir x = dir @ [x]" using assms(2) by auto
  have "x \<noteq> ''recipe.env''" "\<And>n. temp_name E n \<noteq> x" using assms(1,2) by (auto simp: temp_ok_def)
  note w = writeAtomic_other [OF assms(1) this]
  show ?thesis
    unfolding write_payload_def j
    by (intro triple_sum fail_triple triple_if k try_run_triple [OF w] Q)
qed

lemma start_target_started: "started (start_target E cfg t) = None \<or> started (start_target E cfg t) = Some t"
  by (auto simp: start_target_def Let_def split: prod.splits option.splits)

lemma run_recipe_triple:
  assumes "temp_ok E" "ValidateRecipe (key_order E) (RawJson (JObj kvs)) = Inr []" "unmarshal_recipe (int_literal E) kvs = Some rec"
  shows "triple (\<lambda>ns. map_of ns (env_dir E cfg @ [''recipe.env'']) = old) (run_recipe E cfg schemaRaw rec) (run_post E cfg old)"
proof -
  let ?f = "env_dir E cfg @ [''recipe.env'']"
  let ?old = "\<lambda>ns. map_of ns ?f = old"
  define sid where "sid = (if extractSchemaID schemaRaw = [] then embedded_schema_id else extractSchemaID schemaRaw)"
  define body where "body serial = env_text (env_values E (fixed_env E cfg rec (target_of cfg rec) serial sid) rec)" for serial
  have fits: "env_file_for E cfg rec (body serial)" for serial
    using assms(2,3) unfolding env_file_for_def body_def by blast
  have err: "?old ns \<Longrightarrow> run_post E cfg old \<lparr>result = Inl (code, msg), started = None\<rparr> ns" for code msg ns
    by (simp add: run_post_def)
  have new: "run_post E cfg old r ns" if "map_of ns ?f = Some (FileN (body serial))"
    "\<And>t. started r = Some t \<Longrightarrow> t = target_of cfg rec" for r ns serial
    using that fits unfolding run_post_def by blast
  have new_err: "run_post E cfg old \<lparr>result = Inl (code, msg), started = None\<rparr> ns" if "map_of ns ?f = Some (FileN (body serial))" for code msg ns serial
    by (rule new [OF that]) simp
  have new_end: "run_post E cfg old (start_target E cfg (target_of cfg rec)) ns" if "map_of ns ?f = Some (FileN (body serial))" for ns serial
    by (rule new [OF that]) (use start_target_started [of E cfg "target_of cfg rec"] in auto)
  have w: "triple ?old (writeEnvFile E ?f vs)
      (\<lambda>r ns. map_of ns ?f = (if r = Inr () then Some (FileN (env_text vs)) else old))" for vs
  proof -
    have "triple (kept {?f} (\<lambda>_. old) {}) (writeAtomic E ?f (env_text vs)) (replaced {?f} (\<lambda>_. old) ?f (env_text vs))"
      by (rule writeAtomic_triple) (use assms(1) in \<open>auto simp: temp_ok_def\<close>)
    then show ?thesis
      unfolding writeEnvFile_def
      by (rule triple_weaken) (auto simp: replaced_def kept_single split: if_splits)
  qed
  have lay: "triple (\<lambda>ns. map_of ns ?f = v) (writeJSON E (env_dir E cfg @ [''layout.json'']) j) (\<lambda>r ns. map_of ns ?f = v)" for v j
    unfolding writeJSON_def by (rule writeAtomic_other [OF assms(1)]) (use assms(1) in \<open>auto simp: temp_ok_def\<close>)
  have rest: "triple (\<lambda>ns. map_of ns ?f = Some (FileN (body serial)))
      (write_payload E (env_dir E cfg) ''user_data'' ''user-data'' (UserData rec)
        (write_payload E (env_dir E cfg) ''unattend_xml'' ''unattend.xml'' (UnattendXML rec)
        (write_payload E (env_dir E cfg) ''ks.cfg'' ''ks.cfg'' (Kickstart rec)
        (State_Monad.return (start_target E cfg (target_of cfg rec)))))) (run_post E cfg old)" for serial
    by (intro write_payload_triple [OF assms(1)] triple_return new_err new_end; (assumption | simp))
  have m: "triple ?old (make_dir (env_dir E cfg)) (\<lambda>r. ?old)"
    using make_dir_triple [of "{?f}" "env_dir E cfg" "\<lambda>_. old"] by (simp add: kept_single [abs_def])
  have lay_rest: "triple (\<lambda>ns. map_of ns ?f = Some (FileN (body serial)))
      (try_run ExitOutputError ''write layout.json: '' (writeJSON E (env_dir E cfg @ [''layout.json'']) j) (\<lambda>_. k)) (run_post E cfg old)"
    if "triple (\<lambda>ns. map_of ns ?f = Some (FileN (body serial))) k (run_post E cfg old)" for serial j k
    by (rule try_run_triple [OF lay], erule new_err, rule that)
  show ?thesis
    unfolding run_recipe_def Let_def target_of_def [symmetric] sid_def [symmetric] join_path_plain [OF plain_names(1)] join_path_plain [OF plain_names(2)]
    apply (intro triple_if fail_triple err)
     apply assumption
    apply (rule try_run_triple [OF resolveSerial_triple], erule err)
    apply (rule try_run_triple [OF m], erule err)
    apply (rule try_run_triple [OF w])
     apply (rule err, simp)
    subgoal for serial u u'
      apply (cases "PartitionLayout rec")
      using rest [of serial] lay_rest [OF rest, of serial]
      by (simp_all add: body_def)
    done
qed

lemma Run_triple:
  assumes "temp_ok E"
  shows "triple (\<lambda>ns. map_of ns (env_dir E cfg @ [''recipe.env'']) = old) (Run E cfg) (run_post E cfg old)"
proof -
  have err: "map_of ns (env_dir E cfg @ [''recipe.env'']) = old \<Longrightarrow> run_post E cfg old \<lparr>result = Inl (code, msg), started = None\<rparr> ns" for code msg ns
    by (simp add: run_post_def)
  have f: "triple (\<lambda>ns. map_of ns (env_dir E cfg @ [''recipe.env'']) = old) (fail code msg) (run_post E cfg old)" for code msg
    by (rule fail_triple, erule err)
  have inner: "triple (\<lambda>ns. map_of ns (env_dir E cfg @ [''recipe.env'']) = old)
      (case ValidateRecipe (key_order E) raw of
         Inl e \<Rightarrow> fail ExitRecipeReadError e
       | Inr (err # _) \<Rightarrow> fail ExitSchemaInvalid (''recipe validation failed: '' @ Field err @ '': '' @ VMessage err)
       | Inr [] \<Rightarrow>
           (case raw of
              RawJson (JObj kvs) \<Rightarrow>
                (case unmarshal_recipe (int_literal E) kvs of
                   None \<Rightarrow> fail ExitRecipeReadError ''parse recipe: json: cannot unmarshal''
                 | Some rec \<Rightarrow> run_recipe E cfg sraw rec)
            | _ \<Rightarrow> fail ExitRecipeReadError ''parse recipe: json: cannot unmarshal''))
      (run_post E cfg old)" for raw sraw
    by (auto intro: f run_recipe_triple [OF assms] simp del: append_Cons split: sum.split list.split raw_message.split json.split option.split)
  show ?thesis
    unfolding Run_def Let_def
    by (intro triple_if f try_run_triple [OF read_file_triple] inner err)
qed

lemma decode_string_last:
  assumes "decode_string_field f acc kvs = Some s" "obj_get kvs f = Some (JStr v)"
    and "\<And>k. k \<in> fst ` set kvs \<Longrightarrow> equal_fold k f \<longleftrightarrow> k = f"
  shows "s = v"
  using assms
proof (induction kvs arbitrary: acc)
  case Nil
  then show ?case by (simp add: obj_get_def)
next
  case (Cons kv kvs)
  obtain k w where kv: "kv = (k, w)" by (cases kv)
  have get: "obj_get (kv # kvs) f = (case obj_get kvs f of Some x \<Rightarrow> Some x | None \<Rightarrow> if k = f then Some w else None)"
    by (simp add: obj_get_def kv map_add_def split: option.splits)
  have rest: "\<And>k'. k' \<in> fst ` set kvs \<Longrightarrow> equal_fold k' f \<longleftrightarrow> k' = f" using Cons.prems(3) by simp
  show ?case
  proof (cases "obj_get kvs f")
    case None
    with get Cons.prems(2) have "k = f" "w = JStr v" by (auto split: if_splits)
    moreover have "\<not> equal_fold k' f" if "k' \<in> fst ` set kvs" for k'
      using None rest [OF that] that by (auto simp: obj_get_None)
    then have "decode_string_field f v kvs = Some v" by (rule decode_string_field_absent)
    ultimately show ?thesis using Cons.prems(1) by (simp add: kv)
  next
    case (Some x)
    with get Cons.prems(2) have "obj_get kvs f = Some (JStr v)" by simp
    moreover obtain acc' where "decode_string_field f acc' kvs = Some s"
      using Cons.prems(1) by (auto simp: kv split: if_splits json.splits)
    ultimately show ?thesis using Cons.IH rest by blast
  qed
qed

lemma known_keys_fold: "k \<in> set known_keys \<Longrightarrow> equal_fold k ''task_target'' \<longleftrightarrow> k = ''task_target''"
proof -
  have "list_all (\<lambda>k. equal_fold k ''task_target'' \<longleftrightarrow> k = ''task_target'') known_keys" by code_simp
  then show "k \<in> set known_keys \<Longrightarrow> equal_fold k ''task_target'' \<longleftrightarrow> k = ''task_target''" unfolding list_all_iff by blast
qed

text \<open>The target the dispatcher takes from an accepted recipe is the one the validator checked.\<close>

lemma accepted_target:
  assumes "ranges_all rng" "ValidateRecipe rng (RawJson (JObj kvs)) = Inr []" "unmarshal_recipe intlit kvs = Some rec"
  shows "matches reTargetSuffix (TaskTarget rec)"
proof -
  have u: "check_unknown rng kvs = []" and t: "check_task_target kvs = []"
    using assms(2) by (simp_all add: ValidateRecipe_def)
  have keys: "fst ` set kvs \<subseteq> set known_keys"
    using u unfolding check_unknown_Nil [OF assms(1)] by simp
  obtain v where v: "obj_get kvs ''task_target'' = Some (JStr v)" "matches reTargetSuffix v"
    using t by (auto simp: check_task_target_def nonblank_iff split: option.splits if_splits)
  have "decode_string_field ''task_target'' [] kvs = Some (TaskTarget rec)"
    using assms(3) by (auto simp: unmarshal_recipe_def split: option.splits)
  then have "TaskTarget rec = v"
    by (rule decode_string_last [OF _ v(1)]) (use keys known_keys_fold in blast)
  with v(2) show ?thesis by simp
qed

section \<open>Reading the environment file\<close>

text \<open>
  The file as its readers take it: one binding per line, the name before the first \<open>=\<close>, a later line
  overriding an earlier one.
\<close>

definition env_binding :: "string \<Rightarrow> (string \<times> string) option" where
  "env_binding line =
     (case index_byte line CHR ''='' of None \<Rightarrow> None | Some i \<Rightarrow> Some (take i line, drop (Suc i) line))"

definition env_lookup :: "string \<Rightarrow> string \<Rightarrow> string option" where
  "env_lookup file k = map_of (rev (List.map_filter env_binding (split_on CHR 0x0A file))) k"

definition plain_key :: "string \<Rightarrow> bool" where
  "plain_key k \<longleftrightarrow> CHR 0x0A \<notin> set k \<and> CHR ''='' \<notin> set k"

lemma index_byte_append: "c \<notin> set k \<Longrightarrow> index_byte (k @ c # v) c = Some (length k)"
  by (induction k) auto

lemma env_binding_line: "plain_key k \<Longrightarrow> env_binding (k @ CHR ''='' # v) = Some (k, v)"
  by (simp add: env_binding_def plain_key_def index_byte_append)

lemma sanitize_one_line: "CHR 0x0A \<notin> set (sanitizeEnvValue v)"
  by (auto simp: sanitizeEnvValue_def)

lemma split_env_lines:
  assumes "\<And>k. k \<in> set ks \<Longrightarrow> plain_key k"
  shows "List.map_filter env_binding (split_on CHR 0x0A (concat (map (\<lambda>k. k @ ''='' @ sanitizeEnvValue (f k) @ [CHR 0x0A]) ks))) =
    map (\<lambda>k. (k, sanitizeEnvValue (f k))) ks"
  using assms
proof (induction ks)
  case Nil
  show ?case by (simp add: List.map_filter_def env_binding_def)
next
  case (Cons k ks)
  let ?line = "k @ CHR ''='' # sanitizeEnvValue (f k)"
  have "CHR 0x0A \<notin> set ?line" using Cons.prems [of k] sanitize_one_line by (simp add: plain_key_def)
  from split_on_sep [OF this] Cons show ?case
    by (simp add: List.map_filter_simps env_binding_line)
qed

lemma env_lookup_text:
  assumes "\<And>k. k \<in> fst ` set vs \<Longrightarrow> plain_key k"
  shows "env_lookup (env_text vs) k = map_option sanitizeEnvValue (map_of vs k)"
proof -
  have m: "map_of (map (\<lambda>k. (k, g k)) ks) k = (if k \<in> set ks then Some (g k) else None)" for ks and g :: "string \<Rightarrow> string"
    by (induction ks) auto
  have "env_lookup (env_text vs) k = map_of (map (\<lambda>k. (k, sanitizeEnvValue (the (map_of vs k)))) (rev (sort (map fst vs)))) k"
    unfolding env_lookup_def env_text_def by (subst split_env_lines) (use assms in \<open>auto simp: rev_map\<close>)
  also have "\<dots> = map_option sanitizeEnvValue (map_of vs k)"
    unfolding m by (cases "map_of vs k") (auto simp: map_of_eq_None_iff dest: map_of_SomeD intro: rev_image_eqI)
  finally show ?thesis .
qed

lemma add_env_keys: "fst ` set (add_env reserved kvs vs) \<subseteq> fst ` set vs \<union> env_key ` fst ` set kvs"
proof (induction kvs arbitrary: vs)
  case Nil
  show ?case by simp
next
  case (Cons kv kvs)
  have "fst ` set (AList.update k v vs) = insert k (fst ` set vs)" for k v by (simp add: dom_update)
  then show ?case
    using Cons.IH [of vs] Cons.IH [of "AList.update (env_key (fst kv)) (snd kv) vs"]
    by (cases kv) (auto split: if_splits)
qed

lemma add_env_reserved: "k \<in> set reserved \<Longrightarrow> map_of (add_env reserved kvs vs) k = map_of vs k"
  by (induction reserved kvs vs rule: add_env.induct) (auto simp: update_conv')

lemma add_env_other:
  assumes "inj_on env_key (fst ` set kvs)" "distinct (map fst kvs)" "(k, v) \<in> set kvs" "env_key k \<noteq> []" "env_key k \<notin> set reserved"
  shows "map_of (add_env reserved kvs vs) (env_key k) = Some v"
proof -
  have keep: "map_of (add_env reserved kvs vs) x = map_of vs x" if "x \<notin> env_key ` fst ` set kvs" for kvs vs x
    using that by (induction reserved kvs vs rule: add_env.induct) (auto simp: update_conv')
  show ?thesis
    using assms
  proof (induction kvs arbitrary: vs)
    case Nil
    then show ?case by simp
  next
    case (Cons kv kvs)
    obtain k' v' where kv: "kv = (k', v')" by (cases kv)
    show ?case
    proof (cases "k' = k")
      case True
      then have v: "v' = v" "k \<notin> fst ` set kvs" using Cons.prems(2,3) kv by (auto simp: rev_image_eqI)
      then have "env_key k \<notin> env_key ` fst ` set kvs"
        using Cons.prems(1) True kv by (auto simp: inj_on_def)
      then show ?thesis using assms(4,5) True v by (simp add: keep update_conv' kv)
    next
      case False
      then have "(k, v) \<in> set kvs" using Cons.prems(3) kv by auto
      then show ?thesis using Cons.IH Cons.prems(1,2) assms(4,5) kv by (auto simp: inj_on_def)
    qed
  qed
qed

lemma fixed_env_keys: "k \<in> fst ` set (fixed_env E cfg rec t serial sid) \<Longrightarrow> plain_key k"
  unfolding fixed_env_def plain_key_def by (auto split: if_splits)

section \<open>Runs on a working disk\<close>

definition outputs :: "string list" where
  "outputs = [''recipe.env'', ''layout.json'', ''user-data'', ''unattend.xml'', ''ks.cfg'']"

text \<open>The output directory can be used, and the temporary names are free (but for one, \<open>t\<close>).\<close>

definition usable :: "disp_env \<Rightarrow> path \<Rightarrow> string option \<Rightarrow> (path \<times> node) list \<Rightarrow> bool" where
  "usable E dir t ns \<longleftrightarrow> open_to ns dir \<and> \<not> is_file (look ns dir) \<and>
     (\<forall>n. Some (temp_name E n) \<noteq> t \<longrightarrow> map_of ns (dir @ [temp_name E n]) = None) \<and>
     (\<forall>x \<in> set outputs. map_of ns (dir @ [x]) \<noteq> Some DirN)"

lemma temp_ok_iff: "temp_ok E \<longleftrightarrow> (\<forall>n. temp_name E n \<notin> set outputs)"
  by (simp add: temp_ok_def outputs_def)

lemma mkdir_step:
  "works (\<lambda>i ns. usable E dir None ns) (os_MkdirAll dir)
     (\<lambda>r i ns. \<exists>x. r = Inr x \<and> usable E dir None ns \<and> dir_at ns dir)"
  unfolding os_MkdirAll_def
proof (rule works_syscall, goal_cases)
  case (1 i ns)
  then have o: "open_to ns dir" "\<not> is_file (look ns dir)" by (simp_all add: usable_def)
  have "map_of (dirs_to_make ns dir @ ns) (dir @ [y]) = map_of ns (dir @ [y])" for y
    by (rule mkdir_frame(2)) auto
  then show ?case
    using 1 mkdir_ok(1,2) [OF o] by (auto simp: usable_def dir_at_def simp del: upt_Suc)
qed

definition half :: "disp_env \<Rightarrow> path \<Rightarrow> string \<Rightarrow> string \<Rightarrow> (path \<times> node) list \<Rightarrow> bool" where
  "half E dir t c ns \<longleftrightarrow> usable E dir (Some t) ns \<and> dir_at ns dir \<and> map_of ns (dir @ [t]) = Some (FileN c)"

lemma half_put:
  assumes "usable E dir s ns" "dir_at ns dir" "t \<notin> set outputs" "s = None \<or> s = Some t"
  shows "half E dir t c (put (dir @ [t]) (FileN c) ns)"
proof -
  have "dir_at (put (dir @ [t]) (FileN c) ns) dir"
    using dir_at_put [OF assms(2), of "dir @ [t]"] by simp
  then show ?thesis using assms unfolding half_def usable_def by (auto simp: dir_at_def)
qed

lemma create_step:
  assumes "temp_ok E"
  shows "works (\<lambda>i ns. t = temp_name E n \<and> usable E dir None ns \<and> dir_at ns dir) (os_CreateTemp dir t)
     (\<lambda>r i ns. \<exists>x. r = Inr x \<and> x = dir @ [t] \<and> half E dir t [] ns)"
  unfolding os_CreateTemp_def
proof (rule works_syscall, goal_cases)
  case (1 i ns)
  then have "map_of ns (dir @ [t]) = None" by (simp add: usable_def)
  then show ?case
    using 1 half_put [of E dir None ns t "[]"] assms by (simp add: resolve_dir temp_ok_iff)
qed

lemma write_step':
  assumes "t \<notin> set outputs"
  shows "works (\<lambda>i ns. half E dir t c' ns) (os_WriteFile (dir @ [t]) c)
    (\<lambda>r i ns. \<exists>x. r = Inr x \<and> half E dir t c ns)"
  unfolding os_WriteFile_def
proof (rule works_syscall, goal_cases)
  case (1 i ns)
  then show ?case
    using half_put [of E dir "Some t" ns t c] assms by (simp add: half_def resolve_dir)
qed

lemma rename_step:
  assumes "t \<notin> set outputs" "x \<in> set outputs" "temp_ok E"
  shows "works (\<lambda>i ns. half E dir t c ns) (os_Rename (dir @ [t]) (dir @ [x]))
    (\<lambda>r i ns. \<exists>y. r = Inr y \<and> usable E dir None ns \<and> map_of ns (dir @ [x]) = Some (FileN c) \<and> map_of ns (dir @ [t]) = None)"
  unfolding os_Rename_def
proof (rule works_syscall, goal_cases)
  case (1 i ns)
  let ?ns = "put (dir @ [x]) (FileN c) (del (dir @ [t]) ns)"
  have tx: "t \<noteq> x" using assms by auto
  have d: "dir_at ns dir" and u: "usable E dir (Some t) ns" and c: "map_of ns (dir @ [t]) = Some (FileN c)"
    using 1 by (simp_all add: half_def)
  have r: "resolve ''rename'' ns (dir @ [t]) = Inr (FileN c)"
    using d c by (subst resolve_simp) (auto simp: dir_at_def open_to_above)
  have "dir_at ?ns dir" using d by (intro dir_at_put dir_at_del) auto
  then have "usable E dir None ?ns"
    using u assms(3) tx assms(2) unfolding usable_def by (auto simp: dir_at_def temp_ok_iff)
  moreover have "look ns (dir @ [x]) \<noteq> Some DirN" using u assms(2) by (simp add: usable_def)
  ultimately show ?case using r d tx by (simp add: resolve_dir)
qed

lemma remove_step:
  "works (\<lambda>i ns. usable E dir None ns \<and> map_of ns f = v \<and> map_of ns (dir @ [t]) = None) (os_Remove (dir @ [t]))
     (\<lambda>r i ns. usable E dir None ns \<and> map_of ns f = v)"
  unfolding os_Remove_def
proof (rule works_syscall, goal_cases)
  case (1 i ns)
  then have "resolve ''remove'' ns (dir @ [t]) = Inl (NotExist (''remove'' @ '' '' @ path_text (dir @ [t]) @ '': no such file or directory''))"
    by (subst resolve_simp) (auto simp: usable_def open_to_above)
  with 1 show ?case by simp
qed

lemma fill_and_rename_works:
  assumes "t \<notin> set outputs" "x \<in> set outputs" "temp_ok E"
  shows "works (\<lambda>i ns. half E dir t c' ns) (fill_and_rename (dir @ [t]) (dir @ [x]) c)
    (\<lambda>r i ns. r = Inr () \<and> usable E dir None ns \<and> map_of ns (dir @ [x]) = Some (FileN c) \<and> map_of ns (dir @ [t]) = None)"
proof -
  have t: "works (\<lambda>i ns. half E dir t c ns) os_touch (\<lambda>r i ns. \<exists>y. r = Inr y \<and> half E dir t c ns)"
    by (rule touch_works)
  show ?thesis
    unfolding fill_and_rename_def
    by (rule try_io_works [OF write_step' [OF assms(1)]], rule try_io_works [OF t], rule try_io_works [OF t],
        rule try_io_works [OF t], rule try_io_works [OF rename_step [OF assms]], rule works_return) auto
qed

lemma writeAtomic_works:
  assumes "temp_ok E" "x \<in> set outputs"
  shows "works (\<lambda>i ns. usable E dir None ns) (writeAtomic E (dir @ [x]) c)
    (\<lambda>r i ns. r = Inr () \<and> usable E dir None ns \<and> map_of ns (dir @ [x]) = Some (FileN c))"
  unfolding writeAtomic_def butlast_snoc
proof (rule try_io_works [OF mkdir_step], rule works_bind [OF op_number_works])
  fix u n
  have body: "works (\<lambda>i ns. tmp = dir @ [temp_name E n] \<and> half E dir (temp_name E n) [] ns)
      (do { r \<leftarrow> fill_and_rename tmp (dir @ [x]) c; _ \<leftarrow> os_Remove tmp; State_Monad.return r })
      (\<lambda>r i ns. r = Inr () \<and> usable E dir None ns \<and> map_of ns (dir @ [x]) = Some (FileN c))" for tmp
  proof (rule works_when, hypsubst)
    have t: "temp_name E n \<notin> set outputs" using assms(1) by (simp add: temp_ok_iff)
    show "works (\<lambda>i ns. half E dir (temp_name E n) [] ns)
      (do { r \<leftarrow> fill_and_rename (dir @ [temp_name E n]) (dir @ [x]) c; _ \<leftarrow> os_Remove (dir @ [temp_name E n]); State_Monad.return r })
      (\<lambda>r i ns. r = Inr () \<and> usable E dir None ns \<and> map_of ns (dir @ [x]) = Some (FileN c))"
      by (rule works_bind [OF fill_and_rename_works [OF t assms(2,1)]], rule works_when, hypsubst,
          rule works_bind [OF remove_step], rule works_return) simp
  qed
  show "works (\<lambda>i ns. n = i \<and> usable E dir None ns \<and> dir_at ns dir)
     (try_io [] (os_CreateTemp dir (temp_name E n)) (\<lambda>tmp. do { r \<leftarrow> fill_and_rename tmp (dir @ [x]) c; _ \<leftarrow> os_Remove tmp; State_Monad.return r }))
     (\<lambda>r i ns. r = Inr () \<and> usable E dir None ns \<and> map_of ns (dir @ [x]) = Some (FileN c))"
    by (rule works_pre [OF try_io_works [OF create_step [OF assms(1), of "temp_name E n" n] body]]) simp
qed

text \<open>The files written so far.\<close>

definition holds :: "disp_env \<Rightarrow> path \<Rightarrow> (string \<times> string) list \<Rightarrow> (path \<times> node) list \<Rightarrow> bool" where
  "holds E dir fs ns \<longleftrightarrow> usable E dir None ns \<and> (\<forall>x c. map_of fs x = Some c \<longrightarrow> map_of ns (dir @ [x]) = Some (FileN c))"

lemma writeAtomic_adds:
  assumes "temp_ok E" "x \<in> set outputs" "x \<notin> fst ` set fs" "fst ` set fs \<subseteq> set outputs"
  shows "works (\<lambda>i ns. holds E dir fs ns) (writeAtomic E (dir @ [x]) c) (\<lambda>r i ns. r = Inr () \<and> holds E dir ((x, c) # fs) ns)"
proof -
  let ?S = "{dir @ [y] | y. y \<in> fst ` set fs}" and ?V = "\<lambda>q. map_option FileN (map_of fs (last q))"
  have k: "kept ?S ?V {} ns \<longleftrightarrow> (\<forall>y c. map_of fs y = Some c \<longrightarrow> map_of ns (dir @ [y]) = Some (FileN c))" for ns
  proof
    assume a: "kept ?S ?V {} ns"
    show "\<forall>y c. map_of fs y = Some c \<longrightarrow> map_of ns (dir @ [y]) = Some (FileN c)"
    proof (intro allI impI)
      fix y c
      assume y: "map_of fs y = Some c"
      then have "dir @ [y] \<in> ?S" by (auto dest: map_of_SomeD intro: rev_image_eqI)
      with a y show "map_of ns (dir @ [y]) = Some (FileN c)" unfolding kept_def by fastforce
    qed
  next
    assume a: "\<forall>y c. map_of fs y = Some c \<longrightarrow> map_of ns (dir @ [y]) = Some (FileN c)"
    show "kept ?S ?V {} ns"
      unfolding kept_def
    proof (intro conjI ballI)
      fix p
      assume "p \<in> ?S"
      then obtain y where y: "p = dir @ [y]" "y \<in> fst ` set fs" by blast
      then obtain c where "map_of fs y = Some c" by (cases "map_of fs y") (auto simp: map_of_eq_None_iff)
      with a y show "map_of ns p = ?V p" by simp
    qed simp
  qed
  have t: "triple (kept ?S ?V {}) (writeAtomic E (dir @ [x]) c) (replaced ?S ?V (dir @ [x]) c)"
    by (rule writeAtomic_triple) (use assms in \<open>auto simp: temp_ok_iff\<close>)
  have w: "works (\<lambda>i ns. usable E dir None ns \<and> kept ?S ?V {} ns) (writeAtomic E (dir @ [x]) c)
      (\<lambda>r i ns. r = Inr () \<and> usable E dir None ns \<and> map_of ns (dir @ [x]) = Some (FileN c))"
    by (rule works_pre [OF writeAtomic_works [OF assms(1,2)]]) simp
  have upd: "kept ?S (?V(dir @ [x] \<mapsto> FileN c)) {} ns \<longleftrightarrow> kept ?S ?V {} ns" for ns
  proof -
    have "(?V(dir @ [x] \<mapsto> FileN c)) p = ?V p" if "p \<in> ?S" for p using assms(3) that by auto
    then show ?thesis by (simp add: kept_def cong: ball_cong)
  qed
  show ?thesis
    by (rule works_weaken [OF works_triple [OF t w]])
      (auto simp: holds_def k replaced_def upd)
qed

lemma try_run_works:
  assumes "works P m (\<lambda>r i ns. \<exists>x. r = Inr x \<and> R x i ns)" "\<And>x. works (R x) (k x) Q"
  shows "works P (try_run code pre m k) Q"
  unfolding try_run_def
proof (rule works_bind [OF assms(1)])
  show "works (\<lambda>i ns. \<exists>x. r = Inr x \<and> R x i ns) (case r of Inl e \<Rightarrow> fail code (pre @ e) | Inr x \<Rightarrow> k x) Q" for r
    using assms(2) by (cases r) (auto simp: works_def)
qed

lemma fail_works: "(\<And>i ns. P i ns \<Longrightarrow> Q \<lparr>result = Inl (code, msg), started = None\<rparr> i ns) \<Longrightarrow> works P (fail code msg) Q"
  unfolding fail_def by (rule works_return)

text \<open>What a payload comes to: a file, or the end of the run.\<close>

definition payload_file :: "string \<Rightarrow> json option \<Rightarrow> (string \<times> string) list" where
  "payload_file name raw = (case decodePayload raw of Inr data \<Rightarrow> if data = [] then [] else [(name, data)] | Inl _ \<Rightarrow> [])"

definition payload_error :: "string \<Rightarrow> string \<Rightarrow> outcome" where
  "payload_error field e = \<lparr>result = Inl (ExitSchemaInvalid, field @ '': '' @ e), started = None\<rparr>"

lemma write_payload_works:
  assumes "temp_ok E" "x \<in> set outputs" "x \<notin> fst ` set fs" "fst ` set fs \<subseteq> set outputs" "plain_elem x"
    and "\<not> isl (decodePayload raw) \<Longrightarrow> works (\<lambda>i ns. holds E dir (payload_file x raw @ fs) ns) k Q"
    and "\<And>e i ns. decodePayload raw = Inl e \<Longrightarrow> holds E dir fs ns \<Longrightarrow> Q (payload_error field e) i ns"
  shows "works (\<lambda>i ns. holds E dir fs ns) (write_payload E dir field x raw k) Q"
proof (cases "decodePayload raw")
  case (Inl e)
  then show ?thesis
    using assms(7) unfolding write_payload_def payload_error_def by (auto intro: fail_works)
next
  case (Inr data)
  show ?thesis
  proof (cases "data = []")
    case True
    with Inr assms(6) show ?thesis unfolding write_payload_def payload_file_def by auto
  next
    case False
    have w: "works (\<lambda>i ns. holds E dir fs ns) (writeAtomic E (dir @ [x]) data)
        (\<lambda>r i ns. \<exists>u. r = Inr u \<and> holds E dir ((x, data) # fs) ns)"
      by (rule works_weaken [OF writeAtomic_adds [OF assms(1-4)]]) auto
    have "works (\<lambda>i ns. holds E dir ((x, data) # fs) ns) k Q"
      using assms(6) False by (simp add: payload_file_def Inr)
    then show ?thesis
      unfolding write_payload_def join_path_plain [OF assms(5)] Inr sum.case
      using False try_run_works [OF w] by auto
  qed
qed

lemma payload_file_name: "fst ` set (payload_file x raw) \<subseteq> {x}"
  by (auto simp: payload_file_def split: sum.splits)

definition layout_file :: "disp_env \<Rightarrow> json option \<Rightarrow> (string \<times> string) list" where
  "layout_file E raw = (case raw of None \<Rightarrow> [] | Some j \<Rightarrow> [(''layout.json'', formatJSON E j)])"

definition files_of :: "disp_env \<Rightarrow> string \<Rightarrow> recipe \<Rightarrow> (string \<times> string) list" where
  "files_of E text rec =
     payload_file ''ks.cfg'' (Kickstart rec) @ payload_file ''unattend.xml'' (UnattendXML rec) @
     payload_file ''user-data'' (UserData rec) @ layout_file E (PartitionLayout rec) @ [(''recipe.env'', text)]"

text \<open>The end of a run on a working disk: the first payload that cannot be decoded decides.\<close>

definition run_end :: "disp_env \<Rightarrow> Config \<Rightarrow> recipe \<Rightarrow> outcome" where
  "run_end E cfg rec =
     (case decodePayload (UserData rec) of
        Inl e \<Rightarrow> payload_error ''user_data'' e
      | Inr _ \<Rightarrow>
     (case decodePayload (UnattendXML rec) of
        Inl e \<Rightarrow> payload_error ''unattend_xml'' e
      | Inr _ \<Rightarrow>
     (case decodePayload (Kickstart rec) of
        Inl e \<Rightarrow> payload_error ''ks.cfg'' e
      | Inr _ \<Rightarrow> start_target E cfg (target_of cfg rec))))"

definition decodable :: "recipe \<Rightarrow> bool" where
  "decodable rec \<longleftrightarrow> (\<forall>p \<in> {UserData rec, UnattendXML rec, Kickstart rec}. \<not> isl (decodePayload p))"

definition end_post :: "disp_env \<Rightarrow> Config \<Rightarrow> recipe \<Rightarrow> string \<Rightarrow> outcome \<Rightarrow> (path \<times> node) list \<Rightarrow> bool" where
  "end_post E cfg rec text r ns \<longleftrightarrow> r = run_end E cfg rec \<and>
     holds E (env_dir E cfg) [(''recipe.env'', text)] ns \<and>
     (decodable rec \<longrightarrow> holds E (env_dir E cfg) (files_of E text rec) ns)"

lemma holds_mono: "holds E dir fs ns \<Longrightarrow> (\<And>x c. map_of gs x = Some c \<Longrightarrow> map_of fs x = Some c) \<Longrightarrow> holds E dir gs ns"
  unfolding holds_def by blast

lemma payloads_work:
  assumes "temp_ok E" "fs = layout_file E (PartitionLayout rec) @ [(''recipe.env'', text)]"
  shows "works (\<lambda>i ns. holds E (env_dir E cfg) fs ns)
     (write_payload E (env_dir E cfg) ''user_data'' ''user-data'' (UserData rec)
        (write_payload E (env_dir E cfg) ''unattend_xml'' ''unattend.xml'' (UnattendXML rec)
        (write_payload E (env_dir E cfg) ''ks.cfg'' ''ks.cfg'' (Kickstart rec)
        (State_Monad.return (start_target E cfg (target_of cfg rec))))))
     (\<lambda>r i ns. end_post E cfg rec text r ns)"
proof -
  let ?d = "env_dir E cfg"
  let ?u = "payload_file ''user-data'' (UserData rec)" and ?a = "payload_file ''unattend.xml'' (UnattendXML rec)"
    and ?k = "payload_file ''ks.cfg'' (Kickstart rec)"
  have names: "fst ` set fs \<subseteq> {''layout.json'', ''recipe.env''}" "fst ` set ?u \<subseteq> {''user-data''}"
    "fst ` set ?a \<subseteq> {''unattend.xml''}" "fst ` set ?k \<subseteq> {''ks.cfg''}"
    using payload_file_name by (auto simp: assms(2) layout_file_def split: option.splits)
  have env: "holds E ?d [(''recipe.env'', text)] ns" if "holds E ?d (gs @ fs) ns" "''recipe.env'' \<notin> fst ` set gs" for gs ns
    by (rule holds_mono [OF that(1)])
      (use that(2) in \<open>auto simp: assms(2) layout_file_def map_add_def map_of_eq_None_iff [symmetric] split: option.splits if_splits\<close>)
  let ?all = "{''layout.json'', ''recipe.env'', ''user-data'', ''unattend.xml'', ''ks.cfg''}"
  have out: "set outputs = ?all" by (auto simp: outputs_def)
  have sub: "fst ` set (?u @ fs) \<subseteq> {''user-data'', ''layout.json'', ''recipe.env''}"
    "fst ` set (?a @ ?u @ fs) \<subseteq> {''unattend.xml'', ''user-data'', ''layout.json'', ''recipe.env''}"
    using names unfolding set_append image_Un by blast+
  have sub': "fst ` set fs \<subseteq> set outputs" "fst ` set (?u @ fs) \<subseteq> set outputs" "fst ` set (?a @ ?u @ fs) \<subseteq> set outputs"
    using names(1) sub unfolding out by blast+
  have notin: "''user-data'' \<notin> fst ` set fs" "''unattend.xml'' \<notin> fst ` set (?u @ fs)" "''ks.cfg'' \<notin> fst ` set (?a @ ?u @ fs)"
  proof -
    have "''user-data'' \<notin> {''layout.json'', ''recipe.env''}" "''unattend.xml'' \<notin> {''user-data'', ''layout.json'', ''recipe.env''}"
      "''ks.cfg'' \<notin> {''unattend.xml'', ''user-data'', ''layout.json'', ''recipe.env''}" by simp_all
    with names(1) sub show "''user-data'' \<notin> fst ` set fs" "''unattend.xml'' \<notin> fst ` set (?u @ fs)" "''ks.cfg'' \<notin> fst ` set (?a @ ?u @ fs)"
      by (meson subsetD)+
  qed
  have isin: "''user-data'' \<in> set outputs" "''unattend.xml'' \<in> set outputs" "''ks.cfg'' \<in> set outputs" by (simp_all add: outputs_def)
  have ks: "works (\<lambda>i ns. holds E ?d (?a @ ?u @ fs) ns)
      (write_payload E ?d ''ks.cfg'' ''ks.cfg'' (Kickstart rec) (State_Monad.return (start_target E cfg (target_of cfg rec))))
      (\<lambda>r i ns. end_post E cfg rec text r ns)"
    if d: "\<not> isl (decodePayload (UserData rec))" "\<not> isl (decodePayload (UnattendXML rec))"
  proof (rule write_payload_works [OF assms(1)])
    show "works (\<lambda>i ns. holds E ?d (?k @ ?a @ ?u @ fs) ns) (State_Monad.return (start_target E cfg (target_of cfg rec)))
        (\<lambda>r i ns. end_post E cfg rec text r ns)" if "\<not> isl (decodePayload (Kickstart rec))"
    proof (rule works_return)
      fix ns
      assume h: "holds E ?d (?k @ ?a @ ?u @ fs) ns"
      then have "holds E ?d [(''recipe.env'', text)] ns"
        by (intro env [of "?k @ ?a @ ?u"]) (use names in auto)
      with h show "end_post E cfg rec text (start_target E cfg (target_of cfg rec)) ns"
        using d that by (auto simp: end_post_def run_end_def files_of_def assms(2) split: sum.splits)
    qed
  next
    fix e i ns
    assume "decodePayload (Kickstart rec) = Inl e" "holds E ?d (?a @ ?u @ fs) ns"
    moreover from this(2) have "holds E ?d [(''recipe.env'', text)] ns"
      by (intro env [of "?a @ ?u"]) (use names in auto)
    ultimately show "end_post E cfg rec text (payload_error ''ks.cfg'' e) ns"
      using d by (auto simp: end_post_def run_end_def decodable_def split: sum.splits)
  qed (rule isin notin sub' plain_names)+
  have ua: "works (\<lambda>i ns. holds E ?d (?u @ fs) ns)
      (write_payload E ?d ''unattend_xml'' ''unattend.xml'' (UnattendXML rec)
        (write_payload E ?d ''ks.cfg'' ''ks.cfg'' (Kickstart rec) (State_Monad.return (start_target E cfg (target_of cfg rec)))))
      (\<lambda>r i ns. end_post E cfg rec text r ns)"
    if d: "\<not> isl (decodePayload (UserData rec))"
  proof (rule write_payload_works [OF assms(1)])
    fix e i ns
    assume "decodePayload (UnattendXML rec) = Inl e" "holds E ?d (?u @ fs) ns"
    moreover from this(2) have "holds E ?d [(''recipe.env'', text)] ns"
      by (intro env [of ?u]) (use names in auto)
    ultimately show "end_post E cfg rec text (payload_error ''unattend_xml'' e) ns"
      using d by (auto simp: end_post_def run_end_def decodable_def split: sum.splits)
  qed (rule isin notin sub' plain_names ks [OF d], assumption?)+
  show ?thesis
  proof (rule write_payload_works [OF assms(1)])
    fix e i ns
    assume "decodePayload (UserData rec) = Inl e" "holds E ?d fs ns"
    moreover from this(2) have "holds E ?d [(''recipe.env'', text)] ns"
      by (intro env [of "[]"]) auto
    ultimately show "end_post E cfg rec text (payload_error ''user_data'' e) ns"
      by (auto simp: end_post_def run_end_def decodable_def)
  qed (rule isin notin sub' plain_names ua, assumption?)+
qed

definition has_file :: "(path \<times> node) list \<Rightarrow> path \<Rightarrow> string \<Rightarrow> bool" where
  "has_file ns p c \<longleftrightarrow> open_to ns p \<and> look ns p = Some (FileN c)"

lemma ReadFile_works: "works (\<lambda>i ns. P ns) (os_ReadFile p) (\<lambda>r i ns. P ns)"
  unfolding os_ReadFile_def by (rule works_syscall) simp

lemma read_file_works:
  "works (\<lambda>i ns. P ns \<and> has_file ns p c) (read_file p) (\<lambda>r i ns. \<exists>x. r = Inr x \<and> x = c \<and> P ns)"
proof -
  have "works (\<lambda>i ns. P ns \<and> has_file ns p c) (os_ReadFile p) (\<lambda>r i ns. r = Inr c \<and> P ns)"
    unfolding os_ReadFile_def by (rule works_syscall) (auto simp: has_file_def resolve_simp)
  then show ?thesis unfolding read_file_def by (rule works_bind) (rule works_return, simp)
qed

definition serial_found :: "Config \<Rightarrow> bool" where
  "serial_found cfg \<longleftrightarrow> SerialSource cfg \<noteq> ''env'' \<and> SerialSource cfg \<noteq> ''dmi''"

lemma resolveSerial_works:
  assumes "serial_found cfg"
  shows "works (\<lambda>i ns. P ns) (resolveSerial E cfg) (\<lambda>r i ns. \<exists>s. r = Inr s \<and> P ns)"
proof -
  have s: "works (\<lambda>i ns. P ns) readSysSerial (\<lambda>r i ns. P ns)"
    unfolding readSysSerial_def by (rule works_bind [OF ReadFile_works], rule works_return)
  show ?thesis
    using assms unfolding resolveSerial_def Let_def serial_found_def
    by (auto intro!: works_return works_bind [OF s] split: option.split)
qed

lemma make_dir_works: "works (\<lambda>i ns. usable E dir None ns) (make_dir dir) (\<lambda>r i ns. \<exists>x. r = Inr x \<and> holds E dir [] ns)"
  unfolding make_dir_def by (rule works_bind [OF mkdir_step], rule works_return) (auto simp: holds_def)

lemma run_recipe_works:
  assumes "temp_ok E" "serial_found cfg" "trim_space (target_of cfg rec) \<noteq> []"
  shows "works (\<lambda>i ns. usable E (env_dir E cfg) None ns) (run_recipe E cfg sraw rec)
    (\<lambda>r i ns. \<exists>serial sid. end_post E cfg rec (env_text (env_values E (fixed_env E cfg rec (target_of cfg rec) serial sid) rec)) r ns)"
proof -
  let ?d = "env_dir E cfg"
  define sid where "sid = (if extractSchemaID sraw = [] then embedded_schema_id else extractSchemaID sraw)"
  define body where "body serial = env_text (env_values E (fixed_env E cfg rec (target_of cfg rec) serial sid) rec)" for serial
  let ?Q = "\<lambda>r (i :: nat) ns. \<exists>serial. end_post E cfg rec (body serial) r ns"
  have env: "works (\<lambda>i ns. holds E ?d [] ns) (writeEnvFile E (?d @ [''recipe.env'']) vs)
      (\<lambda>r i ns. \<exists>x. r = Inr x \<and> holds E ?d [(''recipe.env'', env_text vs)] ns)" for vs
    unfolding writeEnvFile_def
    by (rule works_weaken [OF writeAtomic_adds [OF assms(1)]]) (auto simp: outputs_def)
  have lay: "works (\<lambda>i ns. holds E ?d [(''recipe.env'', b)] ns) (writeJSON E (?d @ [''layout.json'']) j)
      (\<lambda>r i ns. \<exists>x. r = Inr x \<and> holds E ?d [(''layout.json'', formatJSON E j), (''recipe.env'', b)] ns)" for j b
    unfolding writeJSON_def
    by (rule works_weaken [OF writeAtomic_adds [OF assms(1)]]) (auto simp: outputs_def)
  have pay: "works (\<lambda>i ns. holds E ?d (layout_file E (PartitionLayout rec) @ [(''recipe.env'', body serial)]) ns)
     (write_payload E ?d ''user_data'' ''user-data'' (UserData rec)
        (write_payload E ?d ''unattend_xml'' ''unattend.xml'' (UnattendXML rec)
        (write_payload E ?d ''ks.cfg'' ''ks.cfg'' (Kickstart rec)
        (State_Monad.return (start_target E cfg (target_of cfg rec)))))) ?Q" for serial
    by (rule works_weaken [OF payloads_work [OF assms(1) refl]]) auto
  have "works (\<lambda>i ns. usable E ?d None ns) (run_recipe E cfg sraw rec) ?Q"
    unfolding run_recipe_def Let_def target_of_def [symmetric] sid_def [symmetric] join_path_plain [OF plain_names(1)] join_path_plain [OF plain_names(2)]
    unfolding if_not_P [OF assms(3)]
    apply (rule try_run_works [OF resolveSerial_works [OF assms(2)]])
    apply (rule try_run_works [OF make_dir_works])
    apply (rule try_run_works [OF env])
    subgoal for serial u u'
      using pay [of serial] try_run_works [OF lay [of "body serial"]]
      by (cases "PartitionLayout rec") (simp_all add: layout_file_def body_def)
    done
  then show ?thesis unfolding body_def by (rule works_weaken) blast+
qed

abbreviation mount_file :: "disp_env \<Rightarrow> Config \<Rightarrow> string \<Rightarrow> string \<Rightarrow> path" where
  "mount_file E cfg name dflt \<equiv> join_path (to_path E (or_default_blank (TaskMount cfg) ''/mnt/task'')) (or_default_blank name dflt)"

text \<open>What a run needs: a working disk with the two files of the task medium and a usable output directory.\<close>

definition run_ready :: "disp_env \<Rightarrow> Config \<Rightarrow> string \<Rightarrow> string \<Rightarrow> disk \<Rightarrow> bool" where
  "run_ready E cfg schemaBytes recipeBytes d \<longleftrightarrow> faultless d \<and> temp_ok E \<and> (is_root E \<or> SkipRootCheck cfg) \<and>
     usable E (env_dir E cfg) None (nodes d) \<and>
     has_file (nodes d) (mount_file E cfg (SchemaPath cfg) ''recipe.schema.json'') schemaBytes \<and> trim_space schemaBytes \<noteq> [] \<and>
     has_file (nodes d) (mount_file E cfg (RecipePath cfg) ''recipe.json'') recipeBytes \<and> trim_space recipeBytes \<noteq> []"

lemma Run_works:
  assumes "run_ready E cfg sb rb d" "parse E rb = RawJson (JObj kvs)" "ValidateRecipe (key_order E) (RawJson (JObj kvs)) = Inr []"
    and "unmarshal_recipe (int_literal E) kvs = Some rec" "serial_found cfg" "trim_space (target_of cfg rec) \<noteq> []"
    and "run_state (Run E cfg) d = (r, d')"
  shows "\<exists>serial sid. end_post E cfg rec (env_text (env_values E (fixed_env E cfg rec (target_of cfg rec) serial sid) rec)) r (nodes d')"
proof -
  let ?u = "usable E (env_dir E cfg) None"
  let ?sf = "\<lambda>ns. has_file ns (mount_file E cfg (SchemaPath cfg) ''recipe.schema.json'') sb"
  let ?rf = "\<lambda>ns. has_file ns (mount_file E cfg (RecipePath cfg) ''recipe.json'') rb"
  note a = assms(1) [unfolded run_ready_def]
  have root: "\<not> (\<not> SkipRootCheck cfg \<and> \<not> is_root E)" and sb: "trim_space sb \<noteq> []" and rb: "trim_space rb \<noteq> []" using a by auto
  have "works (\<lambda>i ns. (?u ns \<and> ?rf ns) \<and> ?sf ns) (Run E cfg)
    (\<lambda>r i ns. \<exists>serial sid. end_post E cfg rec (env_text (env_values E (fixed_env E cfg rec (target_of cfg rec) serial sid) rec)) r ns)"
    unfolding Run_def Let_def if_not_P [OF root]
    apply (rule try_run_works [OF read_file_works])
    apply (rule works_when, hypsubst, unfold if_not_P [OF sb])
    apply (rule try_run_works [OF read_file_works])
    apply (rule works_when, hypsubst, unfold if_not_P [OF rb] assms(2) assms(3) sum.case list.case raw_message.case json.case assms(4) option.case)
    by (rule run_recipe_works) (use a assms(5,6) in auto)
  from worksD [OF this _ _ assms(7)] a show ?thesis by blast
qed

section \<open>Properties\<close>

definition disp_demo_recipe :: "(string \<times> json) list" where
  "disp_demo_recipe =
     [(''task_target'', JStr ''install-linux.target''), (''target_disk'', JStr ''/dev/sda''),
      (''user_data'', JStr ''#cloud-config''), (''env'', JObj [(''site'', JStr ''lab'')])]"

definition disp_demo :: disp_env where
  "disp_demo = \<lparr>is_root = True, cwd = [], getenv = (\<lambda>_. []), exec = (\<lambda>_. ([], None)), wall_clock = 0,
     temp_name = (\<lambda>n. ''.tmp-'' @ digits_of_nat n), key_order = id,
     parse = (\<lambda>s. if s = ''R'' then RawJson (JObj disp_demo_recipe) else RawJson (JObj [])),
     indent = (\<lambda>_. ''[]''), int_literal = (\<lambda>_. True)\<rparr>"

definition disp_demo_cfg :: Config where
  "disp_demo_cfg = \<lparr>TaskMount = [], EnvDir = [], RecipePath = [], SchemaPath = [], TargetOverride = [], SerialSource = ''auto'',
     SerialEnvKey = [], SerialOverride = ''S1'', Version = ''1'', NoStart = False, SkipRootCheck = False\<rparr>"

definition disp_demo_disk :: disk where
  "disp_demo_disk = \<lparr>nodes = [([''mnt''], DirN), ([''mnt'', ''task''], DirN), ([''mnt'', ''task'', ''recipe.schema.json''], FileN ''S''),
     ([''mnt'', ''task'', ''recipe.json''], FileN ''R'')], io_ops = 0, io_fault = (\<lambda>_. None)\<rparr>"

lemma disp_demo_temp: "temp_ok disp_demo"
  by (simp add: temp_ok_def disp_demo_def)



definition inject_recipe :: recipe where
  "inject_recipe = \<lparr>SchemaVersion = [], TaskTarget = ''install-linux.target'', TargetDisk = ''/dev/sda'', OCIURL = [], FirmwareURL = [],
     WIMIndex = 0, PartitionLayout = None, UserData = None, UnattendXML = None, Kickstart = None,
     Env = [(''z'' @ [CHR 0x0A] @ ''SERIAL_NUMBER'', ''other'')]\<rparr>"



text \<open>
  C22. On a working disk a run comes to its end. With the schema and an accepted recipe on the task
  medium, a usable output directory and a serial number source other than the strict ones, the
  outcome is the one the payloads decide: if all of them are inline, the target is started and every
  file has its full content; a payload given by URL or path, which the validator accepts, ends the
  run with exit code 14 and no start, after \<open>recipe.env\<close> was written.
\<close>

theorem run_completes:
  assumes "run_ready E cfg sb rb d" "parse E rb = RawJson (JObj kvs)" "ValidateRecipe (key_order E) (RawJson (JObj kvs)) = Inr []"
    and "unmarshal_recipe (int_literal E) kvs = Some rec" "serial_found cfg" "trim_space (target_of cfg rec) \<noteq> []"
    and "run_state (Run E cfg) d = (r, d')"
  shows "\<exists>text. env_file_for E cfg rec text \<and> map_of (nodes d') (env_dir E cfg @ [''recipe.env'']) = Some (FileN text) \<and>
    (decodable rec \<longrightarrow> r = start_target E cfg (target_of cfg rec) \<and>
       (\<forall>x c. map_of (files_of E text rec) x = Some c \<longrightarrow> map_of (nodes d') (env_dir E cfg @ [x]) = Some (FileN c))) \<and>
    (\<not> decodable rec \<longrightarrow> started r = None \<and> (\<exists>m. result r = Inl (ExitSchemaInvalid, m)))"
proof -
  obtain serial sid where post: "end_post E cfg rec (env_text (env_values E (fixed_env E cfg rec (target_of cfg rec) serial sid) rec)) r (nodes d')"
    using Run_works [OF assms] by blast
  have "env_file_for E cfg rec (env_text (env_values E (fixed_env E cfg rec (target_of cfg rec) serial sid) rec))"
    using assms(3,4) unfolding env_file_for_def by blast
  moreover have "decodable rec \<Longrightarrow> run_end E cfg rec = start_target E cfg (target_of cfg rec)"
    by (auto simp: decodable_def run_end_def split: sum.splits)
  moreover have "\<not> decodable rec \<Longrightarrow> started (run_end E cfg rec) = None \<and> (\<exists>m. result (run_end E cfg rec) = Inl (ExitSchemaInvalid, m))"
    by (auto simp: decodable_def run_end_def payload_error_def split: sum.splits)
  ultimately show ?thesis
    using post unfolding end_post_def holds_def by (intro exI conjI) auto
qed

theorem run_completes_witness:
  "map_of (nodes (snd (run_state (Run disp_demo disp_demo_cfg) disp_demo_disk))) [''run'', ''provision'', ''user-data''] = Some (FileN ''#cloud-config'')"
proof -
  define rec where "rec = the (unmarshal_recipe (int_literal disp_demo) disp_demo_recipe)"
  have "unmarshal_recipe (int_literal disp_demo) disp_demo_recipe \<noteq> None" by code_simp
  then have rec: "unmarshal_recipe (int_literal disp_demo) disp_demo_recipe = Some rec" unfolding rec_def by simp
  have flds: "UserData rec = Some (JStr ''#cloud-config'')" "UnattendXML rec = None" "Kickstart rec = None" "PartitionLayout rec = None"
    unfolding rec_def by code_simp+
  have tgt: "trim_space (target_of disp_demo_cfg rec) \<noteq> []" unfolding rec_def by code_simp
  have dir: "env_dir disp_demo disp_demo_cfg = [''run'', ''provision'']" by code_simp
  have med: "mount_file disp_demo disp_demo_cfg (SchemaPath disp_demo_cfg) ''recipe.schema.json'' = [''mnt'', ''task'', ''recipe.schema.json'']"
    "mount_file disp_demo disp_demo_cfg (RecipePath disp_demo_cfg) ''recipe.json'' = [''mnt'', ''task'', ''recipe.json'']" by code_simp+
  have trim: "trim_space ''S'' \<noteq> []" "trim_space ''R'' \<noteq> []" by code_simp+
  have files: "has_file (nodes disp_demo_disk) [''mnt'', ''task'', ''recipe.schema.json''] ''S''"
    "has_file (nodes disp_demo_disk) [''mnt'', ''task'', ''recipe.json''] ''R''"
    unfolding has_file_def open_to_def length_Cons list.size by (simp_all add: disp_demo_disk_def All_less_Suc2 numeral_2_eq_2)
  have "usable disp_demo [''run'', ''provision''] None (nodes disp_demo_disk)"
    by (simp add: usable_def open_to_def disp_demo_disk_def All_less_Suc2)
  then have ready: "run_ready disp_demo disp_demo_cfg ''S'' ''R'' disp_demo_disk"
    unfolding run_ready_def dir med using disp_demo_temp files trim
    by (simp add: faultless_def disp_demo_disk_def disp_demo_def)
  have parse: "parse disp_demo ''R'' = RawJson (JObj disp_demo_recipe)" by (simp add: disp_demo_def)
  have ok: "ValidateRecipe (key_order disp_demo) (RawJson (JObj disp_demo_recipe)) = Inr []" by code_simp
  have "serial_found disp_demo_cfg" by code_simp
  from run_completes [OF ready parse ok rec this tgt surjective_pairing]
  obtain env where post: "decodable rec \<longrightarrow> (\<forall>x c. map_of (files_of disp_demo env rec) x = Some c \<longrightarrow>
      map_of (nodes (snd (run_state (Run disp_demo disp_demo_cfg) disp_demo_disk))) ([''run'', ''provision''] @ [x]) = Some (FileN c))"
    unfolding dir by blast
  have "decodable rec" by (simp add: decodable_def flds decodePayload_def)
  moreover have "map_of (files_of disp_demo env rec) ''user-data'' = Some ''#cloud-config''"
    by (simp add: files_of_def flds payload_file_def decodePayload_def)
  ultimately show ?thesis using post by force
qed

end
