(* ===== verification/Access.thy ===== *)
theory Access
  imports GoLib
begin

text \<open>
  Authentication and rate limiting of the controller's API
  (\<open>internal/provisioner/api/auth.go\<close>, \<open>internal/provisioner/middleware\<close>).

  A handler takes the request, the principal in its context and the state behind it. HMAC-SHA256,
  \<open>encoding/json\<close>'s reading of a byte string, the wall clock and the conversion of an out-of-range
  \<open>float64\<close> are the fields of \<open>auth_env\<close>. \<open>subtle.ConstantTimeCompare\<close> is equality. The logger's
  lines are not represented.
\<close>

section \<open>Configuration and principals\<close>

record AuthConfig =
  Mode :: string
  BasicUsername :: string
  BasicPassword :: string
  JWTSecret :: string
  JWTAudience :: string
  JWTIssuer :: string
  HeaderKey :: string

record Principal =
  Subject :: string
  AuthMethod :: string
  Raw :: string
  Extra :: "(string \<times> string) list"

record auth_env =
  hmac :: "string \<Rightarrow> string \<Rightarrow> string"
  json_of :: "string \<Rightarrow> raw_message"
  unix_now :: int
  float_ovf :: "rat \<Rightarrow> int"

type_synonym 's handler = "request \<Rightarrow> Principal option \<Rightarrow> 's \<Rightarrow> response \<times> 's"

section \<open>Responses\<close>

definition writeJSONAuth :: "int \<Rightarrow> json \<Rightarrow> writer \<Rightarrow> writer" where
  "writeJSONAuth status v w =
     write_body (JsonBody v) (WriteHeader status (header_Set ''Content-Type'' ''application/json'' w))"

definition writeAuthError :: "string \<Rightarrow> string \<Rightarrow> writer \<Rightarrow> writer" where
  "writeAuthError code message =
     writeJSONAuth StatusUnauthorized (JObj [(''error'', JStr code), (''message'', JStr message)])"

definition basic_challenge :: string where
  \<open>basic_challenge = ''Basic realm="shoal-provisioner", charset="UTF-8"''\<close>

definition bearer_challenge :: string where
  \<open>bearer_challenge = ''Bearer realm="shoal-provisioner"''\<close>

definition requireBasicAuth :: "writer \<Rightarrow> writer" where
  "requireBasicAuth w = WriteHeader StatusUnauthorized (header_Set ''WWW-Authenticate'' basic_challenge w)"

definition requireBearerAuth :: "writer \<Rightarrow> writer" where
  "requireBearerAuth w = WriteHeader StatusUnauthorized (header_Set ''WWW-Authenticate'' bearer_challenge w)"

section \<open>Basic authentication\<close>

definition secureEqual :: "string \<Rightarrow> string \<Rightarrow> bool" where
  "secureEqual a b \<longleftrightarrow> a = b"

definition parseBasicAuthHeader :: "string \<Rightarrow> string + string \<times> string" where
  "parseBasicAuthHeader h =
     (if h = '''' then Inl ''missing Authorization header''
      else (case Fields h of
              [scheme, token] \<Rightarrow>
                if \<not> equal_fold scheme ''Basic'' then Inl ''invalid Authorization scheme''
                else (case DecodeString StdEncoding token of
                        None \<Rightarrow> Inl ''invalid base64 in Authorization header''
                      | Some up \<Rightarrow>
                          (case index_byte up CHR '':'' of
                             None \<Rightarrow> Inl ''invalid basic token (no colon)''
                           | Some colon \<Rightarrow> Inr (take colon up, drop (Suc colon) up)))
            | _ \<Rightarrow> Inl ''invalid Authorization scheme''))"

definition authenticateBasic :: "string \<Rightarrow> string \<Rightarrow> string \<Rightarrow> string + Principal" where
  "authenticateBasic authz expectUser expectPass =
     (case parseBasicAuthHeader authz of
        Inl e \<Rightarrow> Inl e
      | Inr (user, pass) \<Rightarrow>
          if \<not> secureEqual user expectUser \<or> \<not> secureEqual pass expectPass
          then Inl ''invalid username or password''
          else Inr \<lparr>Subject = user, AuthMethod = ''basic'', Raw = '''', Extra = []\<rparr>)"

section \<open>JWT bearer tokens\<close>

definition splitJWT :: "string \<Rightarrow> string + string \<times> string \<times> string" where
  "splitJWT raw =
     (case index_byte raw CHR ''.'' of
        None \<Rightarrow> Inl ''invalid jwt format''
      | Some dot1 \<Rightarrow>
          (case index_byte (drop (dot1 + 1) raw) CHR ''.'' of
             None \<Rightarrow> Inl ''invalid jwt format''
           | Some d \<Rightarrow>
               (let dot2 = d + dot1 + 1 in
                case DecodeString RawURLEncoding (take dot1 raw) of
                  None \<Rightarrow> Inl ''invalid jwt header (b64)''
                | Some hdr \<Rightarrow>
                    (case DecodeString RawURLEncoding (take (dot2 - (dot1 + 1)) (drop (dot1 + 1) raw)) of
                       None \<Rightarrow> Inl ''invalid jwt payload (b64)''
                     | Some pld \<Rightarrow>
                         (case DecodeString RawURLEncoding (drop (dot2 + 1) raw) of
                            None \<Rightarrow> Inl ''invalid jwt signature (b64)''
                          | Some s \<Rightarrow> Inr (hdr, pld, s))))))"

definition redactToken :: "string \<Rightarrow> string" where
  "redactToken s =
     (if s = '''' then ''''
      else if length s \<le> 8 then ''********''
      else take 4 s @ [CHR 0xE2, CHR 0x80, CHR 0xA6] @ drop (length s - 4) s)"

text \<open>The header \<open>{alg, typ}\<close>: both fields must decode; \<open>alg\<close> is returned.\<close>

definition jwt_alg :: "raw_message \<Rightarrow> string option" where
  "jwt_alg raw =
     (case unmarshal_string_field ''typ'' raw of
        None \<Rightarrow> None
      | Some typ \<Rightarrow> unmarshal_string_field ''alg'' raw)"

text \<open>The payload as \<open>map[string]any\<close>.\<close>

definition jwt_claims :: "raw_message \<Rightarrow> (string \<times> json) list option" where
  "jwt_claims raw =
     (case raw of RawJson (JObj kvs) \<Rightarrow> Some kvs | RawJson JNull \<Rightarrow> Some [] | _ \<Rightarrow> None)"

definition check_exp :: "auth_env \<Rightarrow> (string \<times> json) list \<Rightarrow> string option" where
  "check_exp E claims =
     (case obj_get claims ''exp'' of
        None \<Rightarrow> None
      | Some (JNum t) \<Rightarrow> if int64_of_float (float_ovf E) t \<le> unix_now E then Some ''jwt expired'' else None
      | Some _ \<Rightarrow> Some ''jwt exp must be numeric'')"

definition check_nbf :: "auth_env \<Rightarrow> (string \<times> json) list \<Rightarrow> string option" where
  "check_nbf E claims =
     (case obj_get claims ''nbf'' of
        None \<Rightarrow> None
      | Some (JNum t) \<Rightarrow> if int64_of_float (float_ovf E) t > unix_now E then Some ''jwt not yet valid'' else None
      | Some _ \<Rightarrow> Some ''jwt nbf must be numeric'')"

definition string_claim :: "(string \<times> json) list \<Rightarrow> string \<Rightarrow> string" where
  "string_claim claims k = (case obj_get claims k of Some (JStr s) \<Rightarrow> s | _ \<Rightarrow> '''')"

definition aud_claim :: "(string \<times> json) list \<Rightarrow> string \<Rightarrow> string + string" where
  "aud_claim claims expectAUD =
     (if expectAUD = '''' then Inr ''''
      else (case obj_get claims ''aud'' of
              None \<Rightarrow> Inl ''jwt aud mismatch''
            | Some (JStr t) \<Rightarrow> if t = expectAUD then Inr t else Inl ''jwt aud mismatch''
            | Some (JArr es) \<Rightarrow> if JStr expectAUD \<in> set es then Inr expectAUD else Inl ''jwt aud mismatch''
            | Some _ \<Rightarrow> Inl ''jwt aud must be string or array''))"

definition check_claims :: "auth_env \<Rightarrow> string \<Rightarrow> string \<Rightarrow> string \<Rightarrow> (string \<times> json) list \<Rightarrow> string + Principal" where
  "check_claims E raw expectISS expectAUD claims =
     (case check_exp E claims of
        Some e \<Rightarrow> Inl e
      | None \<Rightarrow>
     (case check_nbf E claims of
        Some e \<Rightarrow> Inl e
      | None \<Rightarrow>
          if expectISS \<noteq> '''' \<and> string_claim claims ''iss'' \<noteq> expectISS then Inl ''jwt iss mismatch''
          else (case aud_claim claims expectAUD of
                  Inl e \<Rightarrow> Inl e
                | Inr aud \<Rightarrow>
                    if trim_space (string_claim claims ''sub'') = '''' then Inl ''jwt sub missing''
                    else Inr \<lparr>Subject = string_claim claims ''sub'', AuthMethod = ''jwt'', Raw = redactToken raw,
                              Extra = [(''iss'', string_claim claims ''iss''), (''aud'', aud)]\<rparr>)))"

definition signed_part :: "string \<Rightarrow> string" where
  "signed_part raw = (case last_index_byte raw CHR ''.'' of None \<Rightarrow> raw | Some i \<Rightarrow> take i raw)"

definition check_token :: "auth_env \<Rightarrow> string \<Rightarrow> string \<Rightarrow> string \<Rightarrow> string \<Rightarrow> string + Principal" where
  "check_token E raw secret expectISS expectAUD =
     (case splitJWT raw of
        Inl e \<Rightarrow> Inl e
      | Inr (headerJSON, payloadJSON, sig) \<Rightarrow>
          (case jwt_alg (json_of E headerJSON) of
             None \<Rightarrow> Inl ''invalid jwt header json''
           | Some alg \<Rightarrow>
               if \<not> equal_fold alg ''HS256'' then Inl ''unsupported jwt alg (only HS256 allowed)''
               else if sig \<noteq> hmac E secret (signed_part raw) then Inl ''invalid jwt signature''
               else (case jwt_claims (json_of E payloadJSON) of
                       None \<Rightarrow> Inl ''invalid jwt payload json''
                     | Some claims \<Rightarrow> check_claims E raw expectISS expectAUD claims)))"

definition authenticateJWTBearer ::
  "auth_env \<Rightarrow> string \<Rightarrow> string \<Rightarrow> string \<Rightarrow> string \<Rightarrow> string + Principal" where
  "authenticateJWTBearer E authz secret expectISS expectAUD =
     (if secret = '''' then Inl ''jwt secret not configured''
      else if authz = '''' then Inl ''missing Authorization header''
      else (case Fields authz of
              [scheme, raw] \<Rightarrow>
                if \<not> equal_fold scheme ''Bearer'' then Inl ''invalid Authorization scheme (expect Bearer)''
                else check_token E raw secret expectISS expectAUD
            | _ \<Rightarrow> Inl ''invalid Authorization scheme (expect Bearer)''))"

section \<open>The middleware\<close>

definition header_key :: "AuthConfig \<Rightarrow> string" where
  "header_key cfg = (if HeaderKey cfg = '''' then ''Authorization'' else HeaderKey cfg)"

definition auth_mode :: "AuthConfig \<Rightarrow> string" where
  "auth_mode cfg = to_lower (trim_space (Mode cfg))"

definition deny_basic :: response where
  "deny_basic = writer_response (writeAuthError ''unauthorized'' ''basic authentication failed'' (requireBasicAuth new_writer))"

definition deny_bearer :: response where
  "deny_bearer = writer_response (writeAuthError ''unauthorized'' ''bearer token invalid'' (requireBearerAuth new_writer))"

definition deny_misconfigured :: response where
  "deny_misconfigured = writer_response (writeJSONAuth StatusInternalServerError
     (JObj [(''error'', JStr ''server_error''), (''message'', JStr ''authentication misconfigured'')]) new_writer)"

definition AuthMiddleware :: "auth_env \<Rightarrow> AuthConfig \<Rightarrow> 's handler \<Rightarrow> 's handler" where
  "AuthMiddleware E cfg next r p s =
     (if auth_mode cfg = '''' \<or> auth_mode cfg = ''none'' then next r p s
      else if auth_mode cfg = ''basic''
      then (case authenticateBasic (Header r (header_key cfg)) (BasicUsername cfg) (BasicPassword cfg) of
              Inl e \<Rightarrow> (deny_basic, s)
            | Inr q \<Rightarrow> next r (Some q) s)
      else if auth_mode cfg = ''jwt''
      then (case authenticateJWTBearer E (Header r (header_key cfg)) (JWTSecret cfg) (JWTIssuer cfg) (JWTAudience cfg) of
              Inl e \<Rightarrow> (deny_bearer, s)
            | Inr q \<Rightarrow> next r (Some q) s)
      else (deny_misconfigured, s))"

section \<open>Rate limiting\<close>

text \<open>
  The token buckets of \<open>middleware/ratelimit.go\<close>. Times are readings of the monotonic clock in
  nanoseconds; a call of \<open>allow\<close> reads it once when it creates the bucket and once when it refills
  it (\<open>created\<close> and \<open>now\<close>). Each call runs as one step. Token counts are \<open>int\<close> at 64 bits.
\<close>

record RateLimitConfig =
  RequestsPerMinute :: int
  BurstSize :: int
  CleanupInterval :: time

record clientBucket =
  tokens :: int
  lastRefill :: time

record RateLimiter =
  rl_config :: RateLimitConfig
  buckets :: "string \<rightharpoonup> clientBucket"

definition DefaultRateLimitConfig :: RateLimitConfig where
  "DefaultRateLimitConfig = \<lparr>RequestsPerMinute = 10, BurstSize = 5, CleanupInterval = 5 * time_Minute\<rparr>"

definition NewRateLimiter :: "RateLimitConfig \<Rightarrow> RateLimiter" where
  "NewRateLimiter config = \<lparr>rl_config = config, buckets = Map.empty\<rparr>"

text \<open>\<open>Duration.Minutes\<close>: the whole minutes plus the rest, as \<open>float64\<close>.\<close>

definition Minutes :: "time \<Rightarrow> rat" where
  "Minutes d =
     float64 (float64 (of_int (go_quot d time_Minute)) + float64 (float64 (of_int (go_rem d time_Minute)) / 60000000000))"

definition tokens_to_add :: "(rat \<Rightarrow> int) \<Rightarrow> RateLimitConfig \<Rightarrow> time \<Rightarrow> int" where
  "tokens_to_add ovf c elapsed =
     int64_of_float ovf (float64 (Minutes elapsed * float64 (of_int (RequestsPerMinute c))))"

definition refill :: "(rat \<Rightarrow> int) \<Rightarrow> RateLimitConfig \<Rightarrow> time \<Rightarrow> clientBucket \<Rightarrow> clientBucket" where
  "refill ovf c now b =
     (let n = tokens_to_add ovf c (now - lastRefill b) in
      if n > 0
      then (let t = wrap64 (tokens b + n)
            in \<lparr>tokens = (if t > BurstSize c then BurstSize c else t), lastRefill = now\<rparr>)
      else b)"

definition allow :: "(rat \<Rightarrow> int) \<Rightarrow> time \<Rightarrow> time \<Rightarrow> string \<Rightarrow> RateLimiter \<Rightarrow> bool \<times> RateLimiter" where
  "allow ovf created now clientIP rl =
     (let c = rl_config rl;
          b0 = (case buckets rl clientIP of
                  None \<Rightarrow> \<lparr>tokens = BurstSize c, lastRefill = created\<rparr>
                | Some b \<Rightarrow> b);
          b = refill ovf c now b0
      in if tokens b > 0
         then (True, rl\<lparr>buckets := (buckets rl)(clientIP \<mapsto> b\<lparr>tokens := tokens b - 1\<rparr>)\<rparr>)
         else (False, rl\<lparr>buckets := (buckets rl)(clientIP \<mapsto> b)\<rparr>))"

definition cleanup :: "time \<Rightarrow> RateLimiter \<Rightarrow> RateLimiter" where
  "cleanup now rl =
     rl\<lparr>buckets := (\<lambda>ip. case buckets rl ip of
          None \<Rightarrow> None
        | Some b \<Rightarrow> if lastRefill b < now - 2 * CleanupInterval (rl_config rl) then None else Some b)\<rparr>"

definition getClientIP :: "request \<Rightarrow> string" where
  "getClientIP r =
     (if Header r ''X-Forwarded-For'' \<noteq> ''''
      then trim_space (hd (split_on CHR '','' (Header r ''X-Forwarded-For'')))
      else if Header r ''X-Real-IP'' \<noteq> '''' then trim_space (Header r ''X-Real-IP'')
      else (case last_index_byte (RemoteAddr r) CHR '':'' of
              Some idx \<Rightarrow> take idx (RemoteAddr r)
            | None \<Rightarrow> RemoteAddr r))"

definition too_many :: response where
  "too_many = writer_response (write_body
     (JsonBody (JObj [(''error'', JStr ''rate_limit_exceeded''),
        (''message'', JStr ''Too many requests. Please try again later.'')]))
     (WriteHeader StatusTooManyRequests
       (header_Set ''Retry-After'' ''60'' (header_Set ''Content-Type'' ''application/json'' new_writer))))"

definition rate_limit :: "(rat \<Rightarrow> int) \<Rightarrow> time \<Rightarrow> time \<Rightarrow> 's handler \<Rightarrow> (RateLimiter \<times> 's) handler" where
  "rate_limit ovf created now next r p = (\<lambda>(rl, s).
     (let (ok, rl') = allow ovf created now (getClientIP r) rl
      in if ok then (let (resp, s') = next r p s in (resp, (rl', s')))
         else (too_many, (rl', s))))"

section \<open>Security headers\<close>

record SecurityHeadersConfig =
  EnableHSTS :: bool
  HSTSMaxAge :: int
  HSTSIncludeSubdomains :: bool
  EnableCORS :: bool
  CORSAllowedOrigins :: "string list"
  CORSAllowedMethods :: "string list"
  CORSAllowedHeaders :: "string list"
  CORSMaxAge :: int

definition DefaultSecurityHeadersConfig :: SecurityHeadersConfig where
  "DefaultSecurityHeadersConfig =
     \<lparr>EnableHSTS = False, HSTSMaxAge = 31536000, HSTSIncludeSubdomains = False, EnableCORS = False,
      CORSAllowedOrigins = [''*''],
      CORSAllowedMethods = [''GET'', ''POST'', ''PUT'', ''PATCH'', ''DELETE'', ''OPTIONS''],
      CORSAllowedHeaders = [''Content-Type'', ''Authorization''], CORSMaxAge = 3600\<rparr>"

definition base_headers :: "SecurityHeadersConfig \<Rightarrow> (string \<times> string) list" where
  "base_headers cfg =
     [(''X-Content-Type-Options'', ''nosniff''), (''X-Frame-Options'', ''DENY''), (''Referrer-Policy'', ''no-referrer'')] @
     (if EnableHSTS cfg
      then [(''Strict-Transport-Security'',
             ''max-age='' @ itoa (HSTSMaxAge cfg) @ (if HSTSIncludeSubdomains cfg then ''; includeSubDomains'' else ''''))]
      else [])"

definition preflight_headers :: "SecurityHeadersConfig \<Rightarrow> (string \<times> string) list" where
  "preflight_headers cfg =
     [(''Access-Control-Allow-Origin'', join_with '','' (CORSAllowedOrigins cfg)),
      (''Access-Control-Allow-Methods'', join_with '','' (CORSAllowedMethods cfg)),
      (''Access-Control-Allow-Headers'', join_with '','' (CORSAllowedHeaders cfg))] @
     (if CORSMaxAge cfg > 0 then [(''Access-Control-Max-Age'', itoa (CORSMaxAge cfg))] else [])"

definition SecurityHeaders :: "SecurityHeadersConfig \<Rightarrow> 's handler \<Rightarrow> 's handler" where
  "SecurityHeaders cfg next r p s =
     (if EnableCORS cfg \<and> Method r = ''OPTIONS''
      then (\<lparr>RCode = StatusNoContent, RHeaders = base_headers cfg @ preflight_headers cfg, RBody = NoBody\<rparr>, s)
      else let hs = base_headers cfg @
             (if EnableCORS cfg then [(''Access-Control-Allow-Origin'', join_with '','' (CORSAllowedOrigins cfg))] else []);
               (resp, s') = next r p s
           in (with_headers hs resp, s'))"

section \<open>What the authentication promises\<close>

text \<open>The claims of a token that are in force at time \<open>unix_now\<close>.\<close>

definition claims_hold :: "auth_env \<Rightarrow> string \<Rightarrow> string \<Rightarrow> (string \<times> json) list \<Rightarrow> bool" where
  "claims_hold E expectISS expectAUD claims \<longleftrightarrow>
     (\<forall>v. obj_get claims ''exp'' = Some v \<longrightarrow> (\<exists>t. v = JNum t \<and> unix_now E < int64_of_float (float_ovf E) t)) \<and>
     (\<forall>v. obj_get claims ''nbf'' = Some v \<longrightarrow> (\<exists>t. v = JNum t \<and> int64_of_float (float_ovf E) t \<le> unix_now E)) \<and>
     (expectISS = '''' \<or> obj_get claims ''iss'' = Some (JStr expectISS)) \<and>
     (expectAUD = '''' \<or> obj_get claims ''aud'' = Some (JStr expectAUD) \<or>
        (\<exists>es. obj_get claims ''aud'' = Some (JArr es) \<and> JStr expectAUD \<in> set es)) \<and>
     (\<exists>sub. obj_get claims ''sub'' = Some (JStr sub) \<and> trim_space sub \<noteq> '''')"

definition basic_credential :: "AuthConfig \<Rightarrow> string \<Rightarrow> bool" where
  "basic_credential cfg h \<longleftrightarrow>
     (\<exists>scheme token. Fields h = [scheme, token] \<and> equal_fold scheme ''Basic'' \<and>
        CHR '':'' \<notin> set (BasicUsername cfg) \<and>
        DecodeString StdEncoding token = Some (BasicUsername cfg @ '':'' @ BasicPassword cfg))"

definition bearer_credential :: "auth_env \<Rightarrow> AuthConfig \<Rightarrow> string \<Rightarrow> bool" where
  "bearer_credential E cfg h \<longleftrightarrow>
     JWTSecret cfg \<noteq> '''' \<and>
     (\<exists>scheme hd pl sg hj pj alg claims.
        Fields h = [scheme, hd @ ''.'' @ pl @ ''.'' @ sg] \<and> equal_fold scheme ''Bearer'' \<and>
        CHR ''.'' \<notin> set hd \<and> CHR ''.'' \<notin> set pl \<and>
        DecodeString RawURLEncoding hd = Some hj \<and> DecodeString RawURLEncoding pl = Some pj \<and>
        DecodeString RawURLEncoding sg = Some (hmac E (JWTSecret cfg) (hd @ ''.'' @ pl)) \<and>
        jwt_alg (json_of E hj) = Some alg \<and> equal_fold alg ''HS256'' \<and>
        jwt_claims (json_of E pj) = Some claims \<and> claims_hold E (JWTIssuer cfg) (JWTAudience cfg) claims)"

end
