(* ===== verification/AccessProps.thy ===== *)
theory AccessProps
  imports Access
begin

text \<open>
  What \<open>AuthMiddleware\<close> and the rate limiter guarantee, against descriptions of the credentials
  (\<open>basic_credential\<close>, \<open>bearer_credential\<close>) that do not mention how they are parsed.
\<close>

section \<open>Credentials\<close>

lemma index_byte_first: "c \<notin> set a \<Longrightarrow> index_byte (a @ c # b) c = Some (length a)"
  by (induction a) auto

lemma index_byte_split: "index_byte s c = Some n \<longleftrightarrow> (\<exists>a b. s = a @ c # b \<and> c \<notin> set a \<and> n = length a)"
proof
  assume "index_byte s c = Some n"
  from index_byte_Some [OF this] show "\<exists>a b. s = a @ c # b \<and> c \<notin> set a \<and> n = length a"
    by (metis id_take_nth_drop length_take min.absorb2 less_imp_le)
qed (auto simp: index_byte_first)

lemma parse_basic_iff:
  "parseBasicAuthHeader h = Inr (u, p) \<longleftrightarrow>
     (\<exists>scheme token. Fields h = [scheme, token] \<and> equal_fold scheme ''Basic'' \<and> CHR '':'' \<notin> set u \<and>
        DecodeString StdEncoding token = Some (u @ '':'' @ p))"
proof -
  have nil: "Fields '''' = []" by (simp add: Fields_def fields_from.simps)
  have c: "(case index_byte up CHR '':'' of None \<Rightarrow> Inl e | Some n \<Rightarrow> Inr (take n up, drop (Suc n) up)) = Inr (u, p) \<longleftrightarrow>
      CHR '':'' \<notin> set u \<and> up = u @ '':'' @ p" for up and e :: string
  proof (cases "index_byte up CHR '':''")
    case None
    then show ?thesis using index_byte_None [of up "CHR '':''"] by auto
  next
    case (Some n)
    then obtain a b where "up = a @ CHR '':'' # b" "CHR '':'' \<notin> set a" "n = length a"
      unfolding index_byte_split by blast
    with Some show ?thesis by (auto simp: append_eq_append_conv2 append_eq_Cons_conv Cons_eq_append_conv)
  qed
  show ?thesis
    unfolding parseBasicAuthHeader_def
    by (auto simp: nil c split: if_splits list.splits option.splits)
qed

lemma authenticateBasic_iff:
  "authenticateBasic h (BasicUsername cfg) (BasicPassword cfg) = Inr q \<longleftrightarrow>
     basic_credential cfg h \<and> q = \<lparr>Subject = BasicUsername cfg, AuthMethod = ''basic'', Raw = '''', Extra = []\<rparr>"
proof -
  have "authenticateBasic h (BasicUsername cfg) (BasicPassword cfg) = Inr q \<longleftrightarrow>
      parseBasicAuthHeader h = Inr (BasicUsername cfg, BasicPassword cfg) \<and>
      q = \<lparr>Subject = BasicUsername cfg, AuthMethod = ''basic'', Raw = '''', Extra = []\<rparr>"
    by (auto simp: authenticateBasic_def secureEqual_def split: sum.splits prod.splits if_splits)
  then show ?thesis by (auto simp: parse_basic_iff basic_credential_def)
qed

lemma quantum_values: "quantum ds \<noteq> None \<Longrightarrow> \<forall>x \<in> set ds. x \<noteq> None"
  by (auto simp: quantum_def split: list.splits option.splits)

lemma quantum_Some: "quantum ds = Some r \<Longrightarrow> \<forall>x \<in> set ds. \<exists>y. x = Some y"
  using quantum_values [of ds] by auto

lemma decode_quanta_chars:
  "decode_quanta k s = Some r \<Longrightarrow> c \<in> set s \<Longrightarrow> digit_value k c \<noteq> None \<or> padChar k = Some c"
proof (induction k s arbitrary: r rule: decode_quanta.induct)
  case (2 k a b d e s)
  show ?case
  proof (cases "s = [] \<and> padChar k = Some e")
    case True
    with 2(2) have "quantum (map (digit_value k) (if d = e then [a, b] else [a, b, d])) \<noteq> None" by simp
    from quantum_values [OF this] True 2(3) show ?thesis by (auto split: if_splits)
  next
    case False
    with 2(2) obtain q t where q: "quantum (map (digit_value k) [a, b, d, e]) = Some q" "decode_quanta k s = Some t"
      by (auto split: option.splits simp del: list.map)
    have "\<forall>x \<in> set (map (digit_value k) [a, b, d, e]). x \<noteq> None" using q(1) by (intro quantum_values) simp
    with 2(1) [OF False q] 2(3) show ?thesis by auto
  qed
qed (auto split: if_splits dest: quantum_Some)

lemma rawurl_no_dot: "DecodeString RawURLEncoding s = Some r \<Longrightarrow> CHR ''.'' \<notin> set s"
proof
  assume d: "DecodeString RawURLEncoding s = Some r" and i: "CHR ''.'' \<in> set s"
  have "digit_value RawURLEncoding CHR ''.'' = None \<and> padChar RawURLEncoding = None" by code_simp
  with decode_quanta_chars [OF d [unfolded DecodeString_def], of "CHR ''.''"] i show False by auto
qed

lemma signed_part_split: "CHR ''.'' \<notin> set sg \<Longrightarrow> signed_part (m @ ''.'' @ sg) = m"
proof -
  assume a: "CHR ''.'' \<notin> set sg"
  have "index_byte (rev (m @ ''.'' @ sg)) CHR ''.'' = Some (length sg)"
    unfolding index_byte_split using a by (intro exI [of _ "rev sg"] exI [of _ "rev m"]) simp
  then show ?thesis by (simp add: signed_part_def last_index_byte_def)
qed

lemma splitJWT_iff:
  "splitJWT raw = Inr (hj, pj, s) \<longleftrightarrow>
     (\<exists>hd pl sg. raw = hd @ ''.'' @ pl @ ''.'' @ sg \<and> CHR ''.'' \<notin> set hd \<and> CHR ''.'' \<notin> set pl \<and>
        DecodeString RawURLEncoding hd = Some hj \<and> DecodeString RawURLEncoding pl = Some pj \<and>
        DecodeString RawURLEncoding sg = Some s)" (is "?l \<longleftrightarrow> ?r")
proof
  assume l: ?l
  then obtain d1 where d1: "index_byte raw CHR ''.'' = Some d1" by (auto simp: splitJWT_def split: option.splits)
  then obtain hd t where t: "raw = hd @ CHR ''.'' # t" "CHR ''.'' \<notin> set hd" "d1 = length hd"
    unfolding index_byte_split by blast
  with l d1 obtain d2 where d2: "index_byte t CHR ''.'' = Some d2" by (auto simp: splitJWT_def split: option.splits)
  then obtain pl sg where p: "t = pl @ CHR ''.'' # sg" "CHR ''.'' \<notin> set pl" "d2 = length pl"
    unfolding index_byte_split by blast
  from l d1 d2 show ?r
    by (intro exI [of _ hd] exI [of _ pl] exI [of _ sg]) (auto simp: t p splitJWT_def Let_def split: option.splits)
next
  assume ?r
  then obtain hd pl sg where r: "raw = hd @ CHR ''.'' # pl @ CHR ''.'' # sg" "CHR ''.'' \<notin> set hd" "CHR ''.'' \<notin> set pl"
    "DecodeString RawURLEncoding hd = Some hj" "DecodeString RawURLEncoding pl = Some pj"
    "DecodeString RawURLEncoding sg = Some s" by auto
  have "index_byte raw CHR ''.'' = Some (length hd)" "index_byte (drop (length hd + 1) raw) CHR ''.'' = Some (length pl)"
    using r(1-3) by (auto simp: index_byte_split)
  with r show ?l by (simp add: splitJWT_def Let_def)
qed

lemma check_claims_iff:
  "(\<exists>q. check_claims E raw iss aud claims = Inr q) \<longleftrightarrow> claims_hold E iss aud claims"
proof -
  have e: "check_exp E claims = None \<longleftrightarrow>
      (\<forall>v. obj_get claims ''exp'' = Some v \<longrightarrow> (\<exists>t. v = JNum t \<and> unix_now E < int64_of_float (float_ovf E) t))"
    by (auto simp: check_exp_def split: option.splits json.splits)
  have n: "check_nbf E claims = None \<longleftrightarrow>
      (\<forall>v. obj_get claims ''nbf'' = Some v \<longrightarrow> (\<exists>t. v = JNum t \<and> int64_of_float (float_ovf E) t \<le> unix_now E))"
    by (auto simp: check_nbf_def split: option.splits json.splits)
  have i: "iss = '''' \<or> string_claim claims ''iss'' = iss \<longleftrightarrow> iss = '''' \<or> obj_get claims ''iss'' = Some (JStr iss)"
    by (auto simp: string_claim_def split: option.splits json.splits)
  have a: "(\<exists>x. aud_claim claims aud = Inr x) \<longleftrightarrow> aud = '''' \<or> obj_get claims ''aud'' = Some (JStr aud) \<or>
        (\<exists>es. obj_get claims ''aud'' = Some (JArr es) \<and> JStr aud \<in> set es)"
    by (auto simp: aud_claim_def split: option.splits json.splits)
  have s: "trim_space (string_claim claims ''sub'') \<noteq> '''' \<longleftrightarrow>
      (\<exists>sub. obj_get claims ''sub'' = Some (JStr sub) \<and> trim_space sub \<noteq> '''')"
    by (auto simp: string_claim_def split: option.splits json.splits)
  have "(\<exists>q. check_claims E raw iss aud claims = Inr q) \<longleftrightarrow>
      check_exp E claims = None \<and> check_nbf E claims = None \<and>
      (iss = '''' \<or> string_claim claims ''iss'' = iss) \<and> (\<exists>x. aud_claim claims aud = Inr x) \<and>
      trim_space (string_claim claims ''sub'') \<noteq> ''''"
    by (auto simp: check_claims_def split: option.splits sum.splits if_splits)
  then show ?thesis unfolding e n i a s claims_hold_def .
qed

lemma split_signed:
  "splitJWT raw = Inr (hj, pj, mac (signed_part raw)) \<longleftrightarrow>
     (\<exists>hd pl sg. raw = hd @ ''.'' @ pl @ ''.'' @ sg \<and> CHR ''.'' \<notin> set hd \<and> CHR ''.'' \<notin> set pl \<and>
        DecodeString RawURLEncoding hd = Some hj \<and> DecodeString RawURLEncoding pl = Some pj \<and>
        DecodeString RawURLEncoding sg = Some (mac (hd @ ''.'' @ pl)))"
proof -
  have "mac (signed_part (hd @ ''.'' @ pl @ ''.'' @ sg)) = mac (hd @ ''.'' @ pl)"
    if "DecodeString RawURLEncoding sg = Some t" for hd pl sg t
    using signed_part_split [OF rawurl_no_dot [OF that], of "hd @ ''.'' @ pl"] by simp
  then show ?thesis unfolding splitJWT_iff by metis
qed

lemma check_token_iff:
  "(\<exists>q. check_token E raw secret iss aud = Inr q) \<longleftrightarrow>
     (\<exists>hd pl sg hj pj alg claims. raw = hd @ ''.'' @ pl @ ''.'' @ sg \<and> CHR ''.'' \<notin> set hd \<and> CHR ''.'' \<notin> set pl \<and>
        DecodeString RawURLEncoding hd = Some hj \<and> DecodeString RawURLEncoding pl = Some pj \<and>
        DecodeString RawURLEncoding sg = Some (hmac E secret (hd @ ''.'' @ pl)) \<and>
        jwt_alg (json_of E hj) = Some alg \<and> equal_fold alg ''HS256'' \<and>
        jwt_claims (json_of E pj) = Some claims \<and> claims_hold E iss aud claims)" (is "?l \<longleftrightarrow> ?r")
proof -
  have "?l \<longleftrightarrow> (\<exists>hj pj s alg claims. splitJWT raw = Inr (hj, pj, s) \<and> jwt_alg (json_of E hj) = Some alg \<and>
      equal_fold alg ''HS256'' \<and> s = hmac E secret (signed_part raw) \<and>
      jwt_claims (json_of E pj) = Some claims \<and> (\<exists>q. check_claims E raw iss aud claims = Inr q))"
    by (auto simp: check_token_def split: sum.splits prod.splits option.splits if_splits)
  also have "\<dots> \<longleftrightarrow> (\<exists>hj pj. (splitJWT raw = Inr (hj, pj, hmac E secret (signed_part raw))) \<and>
      (\<exists>alg claims. jwt_alg (json_of E hj) = Some alg \<and> equal_fold alg ''HS256'' \<and>
        jwt_claims (json_of E pj) = Some claims \<and> claims_hold E iss aud claims))"
    unfolding check_claims_iff by blast
  also have "\<dots> \<longleftrightarrow> ?r" unfolding split_signed by blast
  finally show ?thesis .
qed

lemma authenticateJWT_iff:
  "(\<exists>q. authenticateJWTBearer E h (JWTSecret cfg) (JWTIssuer cfg) (JWTAudience cfg) = Inr q) \<longleftrightarrow> bearer_credential E cfg h"
proof -
  have nil: "Fields '''' = []" by (simp add: Fields_def fields_from.simps)
  have "(\<exists>q. authenticateJWTBearer E h (JWTSecret cfg) (JWTIssuer cfg) (JWTAudience cfg) = Inr q) \<longleftrightarrow>
      JWTSecret cfg \<noteq> '''' \<and> (\<exists>scheme raw. Fields h = [scheme, raw] \<and> equal_fold scheme ''Bearer'' \<and>
        (\<exists>q. check_token E raw (JWTSecret cfg) (JWTIssuer cfg) (JWTAudience cfg) = Inr q))"
    by (auto simp: authenticateJWTBearer_def nil split: list.splits if_splits)
  then show ?thesis unfolding check_token_iff bearer_credential_def by blast
qed

lemma deny_codes [simp]:
  "RCode deny_basic = StatusUnauthorized" "RCode deny_bearer = StatusUnauthorized"
  "RCode deny_misconfigured = StatusInternalServerError"
  by code_simp+

lemma authenticateJWT_method:
  "authenticateJWTBearer E h secret iss aud = Inr q \<Longrightarrow> AuthMethod q = ''jwt''"
  by (auto simp: authenticateJWTBearer_def check_token_def check_claims_def
        split: if_splits list.splits sum.splits prod.splits option.splits)

lemma AuthMiddleware_basic:
  assumes "auth_mode cfg = ''basic''"
  shows "AuthMiddleware E cfg next r p s =
    (if basic_credential cfg (Header r (header_key cfg))
     then next r (Some \<lparr>Subject = BasicUsername cfg, AuthMethod = ''basic'', Raw = '''', Extra = []\<rparr>) s
     else (deny_basic, s))"
proof (cases "authenticateBasic (Header r (header_key cfg)) (BasicUsername cfg) (BasicPassword cfg)")
  case (Inl e)
  then have "\<not> basic_credential cfg (Header r (header_key cfg))" 
    using authenticateBasic_iff [of "Header r (header_key cfg)" cfg "\<lparr>Subject = BasicUsername cfg, AuthMethod = ''basic'', Raw = '''', Extra = []\<rparr>"]
    by simp
  with Inl assms show ?thesis by (simp add: AuthMiddleware_def)
next
  case (Inr q)
  with assms show ?thesis using authenticateBasic_iff [of "Header r (header_key cfg)" cfg q] by (simp add: AuthMiddleware_def)
qed

lemma AuthMiddleware_jwt:
  assumes "auth_mode cfg = ''jwt''"
  shows "if bearer_credential E cfg (Header r (header_key cfg))
    then \<exists>q. AuthMiddleware E cfg next r p s = next r (Some q) s \<and> AuthMethod q = ''jwt''
    else AuthMiddleware E cfg next r p s = (deny_bearer, s)"
proof (cases "authenticateJWTBearer E (Header r (header_key cfg)) (JWTSecret cfg) (JWTIssuer cfg) (JWTAudience cfg)")
  case (Inl e)
  then have "\<not> bearer_credential E cfg (Header r (header_key cfg))" unfolding authenticateJWT_iff [symmetric] by simp
  with Inl assms show ?thesis by (simp add: AuthMiddleware_def)
next
  case (Inr q)
  then have "bearer_credential E cfg (Header r (header_key cfg))" unfolding authenticateJWT_iff [symmetric] by simp
  with Inr assms authenticateJWT_method [OF Inr] show ?thesis by (auto simp: AuthMiddleware_def)
qed

text \<open>The header a Basic client sends, as \<open>Request.SetBasicAuth\<close> composes it, is a credential.\<close>

lemma basic_header_credential:
  assumes "CHR '':'' \<notin> set (BasicUsername cfg)"
  shows "basic_credential cfg (''Basic '' @ EncodeToString StdEncoding (BasicUsername cfg @ '':'' @ BasicPassword cfg))"
proof -
  define tok where "tok = EncodeToString StdEncoding (BasicUsername cfg @ '':'' @ BasicPassword cfg)"
  have "list_all inner_byte (alphabet StdEncoding @ ''=Basic'')" "set_option (padChar StdEncoding) = {CHR ''=''}" by code_simp+
  then have i: "inner_byte c" if "c \<in> set ''Basic'' \<union> set tok" for c
    using that std.set_encode [of "BasicUsername cfg @ '':'' @ BasicPassword cfg"] by (auto simp: list_all_iff tok_def)
  have "tok \<noteq> []"
    using std.decode_encode [of "BasicUsername cfg @ '':'' @ BasicPassword cfg"] by (auto simp: tok_def DecodeString_def)
  then have "Fields (''Basic'' @ '' '' @ tok) = [''Basic'', tok]" using i by (intro Fields_two) auto
  with assms show ?thesis by (auto simp: basic_credential_def tok_def std.decode_encode)
qed

text \<open>\<open>requireBasicAuth\<close> sends the header before \<open>writeAuthError\<close> sets the content type.\<close>

lemma denial_lacks_content_type:
  "header_of deny_basic ''Content-Type'' = None" "header_of deny_bearer ''Content-Type'' = None"
  "header_of deny_misconfigured ''Content-Type'' = Some ''application/json''"
  by code_simp+

section \<open>Properties\<close>


definition demo_auth_env :: auth_env where
  "demo_auth_env = \<lparr>hmac = (\<lambda>k m. k @ m),
     json_of = (\<lambda>s. RawJson (if s = ''h'' then JObj [(''alg'', JStr ''HS256'')]
        else JObj [(''sub'', JStr ''ci''), (''exp'', JNum 2000), (''aud'', JArr [JStr ''shoal''])])),
     unix_now = 1000, float_ovf = (\<lambda>_. 0)\<rparr>"

definition demo_auth_cfg :: AuthConfig where
  "demo_auth_cfg = \<lparr>Mode = '' JWT'', BasicUsername = '''', BasicPassword = '''', JWTSecret = ''key'',
     JWTAudience = ''shoal'', JWTIssuer = '''', HeaderKey = ''''\<rparr>"

definition demo_token :: string where
  "demo_token = EncodeToString RawURLEncoding ''h'' @ ''.'' @ EncodeToString RawURLEncoding ''p'' @ ''.'' @
     EncodeToString RawURLEncoding (''key'' @ EncodeToString RawURLEncoding ''h'' @ ''.'' @ EncodeToString RawURLEncoding ''p'')"

definition demo_get :: "string \<Rightarrow> request" where
  "demo_get auth = \<lparr>Method = ''GET'', URLPath = ''/api/v1/jobs/x'',
     Header = (\<lambda>k. if k = ''Authorization'' then auth else ''''), Query = (\<lambda>_. ''''),
     Body = RawEmpty, RemoteAddr = ''10.0.0.7:5000''\<rparr>"

definition demo_next :: "nat handler" where
  "demo_next r p n = (writeJSON StatusOK JNull, Suc n)"


section \<open>How many requests a client gets\<close>

text \<open>A history of the limiter: requests of clients and runs of the cleanup loop, in time order.\<close>

datatype rl_event = Request string time time | Sweep time

fun admitted :: "(rat \<Rightarrow> int) \<Rightarrow> string \<Rightarrow> rl_event list \<Rightarrow> RateLimiter \<Rightarrow> nat" where
  "admitted ovf ip [] rl = 0"
| "admitted ovf ip (Request ip' created now # es) rl =
     (if fst (allow ovf created now ip' rl) \<and> ip' = ip then 1 else 0) +
     admitted ovf ip es (snd (allow ovf created now ip' rl))"
| "admitted ovf ip (Sweep now # es) rl = admitted ovf ip es (cleanup now rl)"

fun in_order :: "time \<Rightarrow> time \<Rightarrow> rl_event list \<Rightarrow> bool" where
  "in_order t t1 [] = (t \<le> t1)"
| "in_order t t1 (Request ip created now # es) = (t \<le> created \<and> created \<le> now \<and> in_order now t1 es)"
| "in_order t t1 (Sweep now # es) = (t \<le> now \<and> in_order now t1 es)"

text \<open>
  Configurations within range whose cleanup keeps a bucket at least until it could have been
  refilled completely; the default one is such.
\<close>

definition limits_ok :: "RateLimitConfig \<Rightarrow> bool" where
  "limits_ok c \<longleftrightarrow> 0 \<le> RequestsPerMinute c \<and> RequestsPerMinute c \<le> 2 ^ 31 \<and> 0 \<le> BurstSize c \<and> BurstSize c \<le> 2 ^ 31 \<and>
     BurstSize c * time_Minute \<le> 2 * CleanupInterval c * RequestsPerMinute c"

text \<open>The rate in tokens per nanosecond, with the rounding error of the computation.\<close>

definition token_rate :: "RateLimitConfig \<Rightarrow> rat" where
  "token_rate c = of_int (RequestsPerMinute c) / 60000000000 * (1 + 1 / 2 ^ 50)"

lemma float64_le: "0 \<le> x \<Longrightarrow> x \<le> y \<Longrightarrow> float64 x \<le> y * (1 + 1 / 2 ^ 53)"
proof -
  assume x: "0 \<le> x" "x \<le> y"
  from float64_err [OF x(1)] have "float64 x - x \<le> x / 2 ^ 53" by (rule order_trans [OF abs_ge_self])
  then have "float64 x \<le> x * (1 + 1 / 2 ^ 53)" by (simp add: distrib_left)
  also have "\<dots> \<le> y * (1 + 1 / 2 ^ 53)" using x(2) by (intro mult_right_mono) simp_all
  finally show ?thesis .
qed

lemma float64_nonneg: "0 \<le> x \<Longrightarrow> 0 \<le> float64 x"
proof -
  assume x: "0 \<le> x"
  from float64_err [OF this] have "x - float64 x \<le> x / 2 ^ 53"
    by (rule order_trans [rotated]) (metis abs_ge_self abs_minus_commute)
  moreover have "x / 2 ^ 53 \<le> x" using x by (simp add: divide_le_eq_1_pos field_simps)
  ultimately show ?thesis by linarith
qed

lemma Minutes_le:
  assumes "0 \<le> d"
  shows "0 \<le> Minutes d" "Minutes d \<le> of_int d / 60000000000 * (1 + 1 / 2 ^ 53) ^ 3"
proof -
  define u :: rat where "u = 1 + 1 / 2 ^ 53"
  have u: "1 \<le> u" by (simp add: u_def)
  define q r :: rat where "q = of_int (go_quot d time_Minute)" and "r = of_int (go_rem d time_Minute)"
  have n: "0 \<le> q" "0 \<le> r" using assms by (auto simp: q_def r_def go_quot_def go_rem_def minus_mult_div_eq_mod)
  have "go_quot d time_Minute * 60000000000 + go_rem d time_Minute = d" by (simp add: go_rem_def)
  then have "of_int d = q * 60000000000 + r" unfolding q_def r_def by (metis of_int_add of_int_mult of_int_numeral)
  then have d: "q + r / 60000000000 = of_int d / 60000000000" by (simp add: add_divide_distrib)
  have a: "float64 q \<le> q * u" using float64_le [OF n(1) order_refl] by (simp add: u_def)
  have "float64 r / 60000000000 \<le> r / 60000000000 * u" using float64_le [OF n(2) order_refl] by (simp add: u_def field_simps)
  then have b: "float64 (float64 r / 60000000000) \<le> r / 60000000000 * u * u"
    using float64_le [of "float64 r / 60000000000" "r / 60000000000 * u"] float64_nonneg [OF n(2)] by (simp add: u_def)
  have "q * u * 1 \<le> q * u * u" using n(1) u by (intro mult_left_mono) simp_all
  then have "q * u \<le> q * u * u" by simp
  with a b have s: "float64 q + float64 (float64 r / 60000000000) \<le> of_int d / 60000000000 * u * u"
    unfolding d [symmetric] by (simp add: distrib_right)
  have p: "0 \<le> float64 q + float64 (float64 r / 60000000000)" using n by (simp add: float64_nonneg)
  show "0 \<le> Minutes d" using p by (simp add: Minutes_def q_def r_def float64_nonneg)
  show "Minutes d \<le> of_int d / 60000000000 * (1 + 1 / 2 ^ 53) ^ 3"
    using float64_le [OF p s] by (simp add: Minutes_def q_def r_def u_def power3_eq_cube mult.assoc)
qed

lemma tokens_to_add_le:
  assumes c: "limits_ok c" and e: "0 \<le> e" "e < 2 ^ 62"
  shows "0 \<le> tokens_to_add ovf c e" "of_int (tokens_to_add ovf c e) \<le> of_int e * token_rate c"
    "tokens_to_add ovf c e \<le> 2 ^ 62"
proof -
  define x where "x = float64 (Minutes e * float64 (of_int (RequestsPerMinute c)))"
  have r: "0 \<le> (of_int (RequestsPerMinute c) :: rat)" using c by (simp add: limits_ok_def)
  define u :: rat where "u = 1 + 1 / 2 ^ 53"
  have f: "float64 (of_int (RequestsPerMinute c)) \<le> of_int (RequestsPerMinute c) * u"
    using float64_le [OF r order_refl] by (simp add: u_def)
  have "Minutes e * float64 (of_int (RequestsPerMinute c)) \<le> (of_int e / 60000000000 * u ^ 3) * (of_int (RequestsPerMinute c) * u)"
    using Minutes_le [OF e(1)] f float64_nonneg [OF r] e(1) r by (intro mult_mono) (auto simp: u_def)
  then have x: "x \<le> (of_int e / 60000000000 * u ^ 3) * (of_int (RequestsPerMinute c) * u) * u"
    unfolding x_def u_def using Minutes_le [OF e(1)] float64_nonneg [OF r] by (intro float64_le) auto
  also have "\<dots> = of_int e * (of_int (RequestsPerMinute c) / 60000000000) * u ^ 5"
    by (simp add: power3_eq_cube eval_nat_numeral)
  also have "\<dots> \<le> of_int e * (of_int (RequestsPerMinute c) / 60000000000) * (1 + 1 / 2 ^ 50)"
  proof (rule mult_left_mono)
    show "u ^ 5 \<le> 1 + 1 / 2 ^ 50" unfolding u_def by (simp add: field_simps)
    show "0 \<le> of_int e * (of_int (RequestsPerMinute c) / 60000000000 :: rat)" using e r by simp
  qed
  finally have le: "x \<le> of_int e * token_rate c" by (simp add: token_rate_def mult.assoc)
  have x0: "0 \<le> x" unfolding x_def using Minutes_le [OF e(1)] float64_nonneg [OF r] by (intro float64_nonneg) auto
  have "token_rate c \<le> 1" using c by (simp add: token_rate_def limits_ok_def field_simps)
  then have "of_int e * token_rate c \<le> of_int e * 1" using e(1) by (intro mult_left_mono) auto
  with le have "x \<le> of_int e" by simp
  then have t: "0 \<le> go_trunc x" "go_trunc x \<le> e" using x0 by (auto simp: go_trunc_def floor_le_iff)
  then have v: "tokens_to_add ovf c e = go_trunc x"
    using e(2) by (simp add: tokens_to_add_def int64_of_float_def x_def in_int64_def)
  show "0 \<le> tokens_to_add ovf c e" "tokens_to_add ovf c e \<le> 2 ^ 62" using v t e(2) by simp_all
  have "of_int (go_trunc x) \<le> x" using x0 by (simp add: go_trunc_def)
  with le show "of_int (tokens_to_add ovf c e) \<le> of_int e * token_rate c" unfolding v by linarith
qed

text \<open>
  The account of one client since \<open>t0\<close>: what it got plus what it still has is covered by the
  burst and the refills up to the bucket's last one; without a bucket it is covered by the
  refills alone.
\<close>

definition account :: "RateLimitConfig \<Rightarrow> string \<Rightarrow> time \<Rightarrow> time \<Rightarrow> nat \<Rightarrow> RateLimiter \<Rightarrow> bool" where
  "account c ip t0 t got rl \<longleftrightarrow> rl_config rl = c \<and> t0 \<le> t \<and>
     (case buckets rl ip of
        None \<Rightarrow> of_nat got \<le> of_int (t - t0) * token_rate c
      | Some b \<Rightarrow> 0 \<le> tokens b \<and> tokens b \<le> BurstSize c \<and> t0 \<le> lastRefill b \<and> lastRefill b \<le> t \<and>
          of_nat got + of_int (tokens b) \<le> of_int (BurstSize c) + of_int (lastRefill b - t0) * token_rate c)"

lemma token_rate_nonneg: "limits_ok c \<Longrightarrow> 0 \<le> token_rate c"
  by (simp add: token_rate_def limits_ok_def)

lemma refill_account:
  fixes ovf :: "rat \<Rightarrow> int"
  assumes c: "limits_ok c" and t: "lastRefill b \<le> now" "now - lastRefill b < 2 ^ 62" "t0 \<le> lastRefill b"
    and b: "0 \<le> tokens b" "tokens b \<le> BurstSize c"
    and got: "of_nat got + of_int (tokens b) \<le> of_int (BurstSize c) + of_int (lastRefill b - t0) * token_rate c"
  defines "b' \<equiv> refill ovf c now b"
  shows "0 \<le> tokens b' \<and> tokens b' \<le> BurstSize c \<and> t0 \<le> lastRefill b' \<and> lastRefill b' \<le> now \<and>
    of_nat got + of_int (tokens b') \<le> of_int (BurstSize c) + of_int (lastRefill b' - t0) * token_rate c"
proof (cases "tokens_to_add ovf c (now - lastRefill b) > 0")
  case False
  then show ?thesis using assms by (simp add: refill_def Let_def)
next
  case True
  define n where "n = tokens_to_add ovf c (now - lastRefill b)"
  have n: "0 < n" "of_int n \<le> of_int (now - lastRefill b) * token_rate c" "n \<le> 2 ^ 62"
    using True tokens_to_add_le [OF c _ t(2), of ovf] t(1) by (auto simp: n_def)
  have w: "wrap64 (tokens b + n) = tokens b + n"
    using n b c by (intro wrap64_id) (simp add: in_int64_def limits_ok_def)
  have l: "lastRefill b' = now" and k: "tokens b' \<le> tokens b + n" "tokens b' \<le> BurstSize c" "0 \<le> tokens b'"
    using True n(1) b c w by (auto simp: b'_def refill_def Let_def n_def [symmetric] limits_ok_def)
  have "of_int (now - lastRefill b) * token_rate c + of_int (lastRefill b - t0) * token_rate c = of_int (now - t0) * token_rate c"
    by (simp add: left_diff_distrib)
  moreover have "(of_int (tokens b') :: rat) \<le> of_int (tokens b) + of_int n" using k(1) by (simp flip: of_int_add)
  ultimately have "of_nat got + of_int (tokens b') \<le> of_int (BurstSize c) + of_int (now - t0) * token_rate c"
    using got n(2) by linarith
  with l k t show ?thesis by simp
qed

lemma allow_account:
  assumes c: "limits_ok c" and t: "t \<le> created" "created \<le> now" "now - t0 < 2 ^ 62" and a: "account c ip t0 t got rl"
  shows "account c ip t0 now (got + (if fst (allow ovf created now ip' rl) \<and> ip' = ip then 1 else 0))
    (snd (allow ovf created now ip' rl))"
proof (cases "ip' = ip")
  case False
  have r: "of_int (t - t0) * token_rate c \<le> of_int (now - t0) * token_rate c"
    using t token_rate_nonneg [OF c] by (intro mult_right_mono) simp_all
  have o: "buckets (snd (allow ovf created now ip' rl)) ip = buckets rl ip"
    "rl_config (snd (allow ovf created now ip' rl)) = rl_config rl"
    using False by (auto simp: allow_def Let_def)
  show ?thesis
    using a t r unfolding account_def o by (cases "buckets rl ip") (auto simp: False)
next
  case True
  define b where "b = (case buckets rl ip of None \<Rightarrow> \<lparr>tokens = BurstSize c, lastRefill = created\<rparr> | Some b \<Rightarrow> b)"
  have conf: "rl_config rl = c" and t0: "t0 \<le> t" using a by (simp_all add: account_def)
  have r: "of_int (t - t0) * token_rate c \<le> of_int (created - t0) * token_rate c"
    using t token_rate_nonneg [OF c] by (intro mult_right_mono) simp_all
  have b: "0 \<le> tokens b" "tokens b \<le> BurstSize c" "t0 \<le> lastRefill b" "lastRefill b \<le> created"
    "of_nat got + of_int (tokens b) \<le> of_int (BurstSize c) + of_int (lastRefill b - t0) * token_rate c"
    using a t r c t0 by (auto simp: account_def b_def limits_ok_def split: option.splits)
  have f: "lastRefill b \<le> now" "now - lastRefill b < 2 ^ 62" using b t by linarith+
  from refill_account [OF c f b(3,1,2,5), of ovf] show ?thesis
    using t0 t conf by (auto simp: True account_def allow_def Let_def b_def conf)
qed

lemma cleanup_account:
  assumes c: "limits_ok c" and t: "t \<le> now" and a: "account c ip t0 t got rl"
  shows "account c ip t0 now got (cleanup now rl)"
proof -
  have conf: "rl_config rl = c" and t0: "t0 \<le> t" using a by (simp_all add: account_def)
  have n: "0 \<le> token_rate c" using c by (rule token_rate_nonneg)
  have burst: "of_int (BurstSize c) \<le> of_int (2 * CleanupInterval c) * token_rate c"
  proof -
    have b: "BurstSize c * 60000000000 \<le> 2 * CleanupInterval c * RequestsPerMinute c" and "0 \<le> BurstSize c"
      using c by (simp_all add: limits_ok_def)
    then have p: "0 \<le> (of_int (2 * CleanupInterval c * RequestsPerMinute c) :: rat)" by (simp only: of_int_0_le_iff)
    have "(of_int (BurstSize c * 60000000000) :: rat) \<le> of_int (2 * CleanupInterval c * RequestsPerMinute c)"
      using b by (simp only: of_int_le_iff)
    then have "of_int (BurstSize c) \<le> (of_int (2 * CleanupInterval c * RequestsPerMinute c) :: rat) / 60000000000 * 1"
      by (simp add: field_simps)
    also have "\<dots> \<le> of_int (2 * CleanupInterval c * RequestsPerMinute c) / 60000000000 * (1 + 1 / 2 ^ 50)"
      using p by (intro mult_left_mono) simp_all
    finally show ?thesis by (simp add: token_rate_def)
  qed
  show ?thesis
  proof (cases "buckets rl ip")
    case None
    have "of_int (t - t0) * token_rate c \<le> of_int (now - t0) * token_rate c" using t n by (intro mult_right_mono) simp_all
    with a None t0 t show ?thesis by (auto simp: account_def cleanup_def)
  next
    case (Some b)
    show ?thesis
    proof (cases "lastRefill b < now - 2 * CleanupInterval c")
      case False
      with a Some t t0 show ?thesis by (auto simp: account_def cleanup_def)
    next
      case True
      have "of_int (2 * CleanupInterval c) * token_rate c + of_int (lastRefill b - t0) * token_rate c \<le> of_int (now - t0) * token_rate c"
        using True n by (simp flip: distrib_right of_int_add) (intro mult_right_mono; simp)
      moreover have "of_nat got + of_int (tokens b) \<le> of_int (BurstSize c) + of_int (lastRefill b - t0) * token_rate c" "0 \<le> tokens b"
        using a Some by (auto simp: account_def)
      moreover have "0 \<le> (of_int (tokens b) :: rat)" using calculation(3) by simp
      ultimately have "of_nat got \<le> of_int (now - t0) * token_rate c" using burst by linarith
      with Some True t0 t conf show ?thesis by (simp add: account_def cleanup_def)
    qed
  qed
qed

lemma in_order_le: "in_order t t1 es \<Longrightarrow> t \<le> t1"
  by (induction t t1 es rule: in_order.induct) auto

lemma run_account:
  "limits_ok c \<Longrightarrow> t1 - t0 < 2 ^ 62 \<Longrightarrow> in_order t t1 es \<Longrightarrow> account c ip t0 t got rl \<Longrightarrow>
     of_nat (got + admitted ovf ip es rl) \<le> of_int (BurstSize c) + of_int (t1 - t0) * token_rate c"
proof (induction es arbitrary: t got rl)
  case Nil
  have n: "0 \<le> token_rate c" using Nil(1) by (rule token_rate_nonneg)
  have "of_int (x - t0) * token_rate c \<le> of_int (t1 - t0) * token_rate c" if "x \<le> t" for x
    using that Nil(3) n by (intro mult_right_mono) simp_all
  moreover have "0 \<le> (of_int (BurstSize c) :: rat)" using Nil(1) by (simp add: limits_ok_def)
  ultimately show ?case
    using Nil(4) by (cases "buckets rl ip") (fastforce simp: account_def)+
next
  case (Cons e es)
  show ?case
  proof (cases e)
    case (Request ip' created now)
    have o: "in_order now t1 es" using Cons.prems(3) Request by simp
    have "t \<le> created" "created \<le> now" using Cons.prems(3) Request by auto
    moreover have "now \<le> t1" using o by (rule in_order_le)
    ultimately have "account c ip t0 now (got + (if fst (allow ovf created now ip' rl) \<and> ip' = ip then 1 else 0))
        (snd (allow ovf created now ip' rl))"
      using Cons.prems(2) by (intro allow_account [OF Cons.prems(1) _ _ _ Cons.prems(4)]) simp_all
    from Cons.IH [OF Cons.prems(1,2) o this] Request show ?thesis by (simp add: add.assoc)
  next
    case (Sweep now)
    with Cons.prems have "t \<le> now" "in_order now t1 es" by auto
    from Cons.IH [OF Cons.prems(1,2) this(2) cleanup_account [OF Cons.prems(1) this(1) Cons.prems(4)]] Sweep
    show ?thesis by simp
  qed
qed


definition demo_history :: "rl_event list" where
  "demo_history = replicate 7 (Request ''10.0.0.7'' 0 0) @ [Sweep 0, Request ''10.0.0.7'' 7000000000 7000000000,
     Request ''10.0.0.7'' 8000000000 8000000000]"


end
