(* ===== verification/Media.thy ===== *)
theory Media
  imports GoLib Paths
begin

text \<open>
  Serving task ISOs under signed URLs (\<open>internal/provisioner/api/media.go\<close>).

  HMAC-SHA256, the clock and what \<open>os.Stat\<close> and \<open>os.Open\<close> find under a path are the fields of
  \<open>media_env\<close>; a clock reading is in nanoseconds and \<open>Unix()\<close> rounds it down to seconds.
  \<open>http.ServeFile\<close> is represented by its checks and the whole file as body; range and conditional
  requests are not represented.
\<close>

record MediaConfig =
  TaskISODir :: string
  SigningSecret :: string
  SignedURLExpiry :: time
  EnableIPBinding :: bool

datatype file_state = FileThere string | NotExist | PermissionDenied | OtherFileError

record media_env =
  m_hmac :: "string \<Rightarrow> string \<Rightarrow> string"
  m_now :: time
  m_file :: "string \<Rightarrow> file_state"

definition DefaultMediaConfig :: MediaConfig where
  "DefaultMediaConfig = \<lparr>TaskISODir = ''./var/shoal/task-isos'', SigningSecret = '''',
     SignedURLExpiry = 30 * time_Minute, EnableIPBinding = False\<rparr>"

abbreviation clockSkewTolerance :: int where "clockSkewTolerance \<equiv> 60"

definition clientIP :: "request \<Rightarrow> string" where
  "clientIP r =
     (if Header r ''X-Forwarded-For'' \<noteq> ''''
      then trim_space (hd (split_on CHR '','' (Header r ''X-Forwarded-For'')))
      else (case last_index_byte (RemoteAddr r) CHR '':'' of
              Some idx \<Rightarrow> take idx (RemoteAddr r)
            | None \<Rightarrow> RemoteAddr r))"

definition task_path :: "string \<Rightarrow> string" where
  "task_path jobID = ''/media/tasks/'' @ jobID @ ''/task.iso''"

definition canonical :: "string \<Rightarrow> int \<Rightarrow> string \<Rightarrow> string" where
  "canonical jobID expires ip =
     ''GET'' @ [CHR 0x0A] @ task_path jobID @ [CHR 0x0A] @ itoa expires @ [CHR 0x0A] @ ip"

definition bound_ip :: "MediaConfig \<Rightarrow> request \<Rightarrow> string" where
  "bound_ip cfg r = (if EnableIPBinding cfg \<and> Query r ''ip'' = '''' then clientIP r else Query r ''ip'')"

definition validateSignedURL :: "media_env \<Rightarrow> MediaConfig \<Rightarrow> request \<Rightarrow> string \<Rightarrow> string option" where
  "validateSignedURL E cfg r jobID =
     (if Query r ''expires'' = '''' \<or> Query r ''sig'' = '''' then Some ''missing expires or sig parameter''
      else (case ParseInt (Query r ''expires'') of
              None \<Rightarrow> Some ''invalid expires parameter''
            | Some expires \<Rightarrow>
                if m_now E div time_Second > wrap64 (expires + clockSkewTolerance) then Some ''URL expired''
                else (let expectedSig = EncodeToString URLEncoding
                            (m_hmac E (SigningSecret cfg) (canonical jobID expires (bound_ip cfg r)))
                      in case DecodeString URLEncoding (Query r ''sig'') of
                           None \<Rightarrow> Some ''invalid signature encoding''
                         | Some providedSig \<Rightarrow>
                             if Some providedSig \<noteq> DecodeString URLEncoding expectedSig then Some ''signature mismatch''
                             else if EnableIPBinding cfg \<and> bound_ip cfg r \<noteq> '''' \<and> bound_ip cfg r \<noteq> clientIP r
                             then Some ''client IP mismatch''
                             else None)))"

definition GenerateSignedURL :: "media_env \<Rightarrow> MediaConfig \<Rightarrow> string \<Rightarrow> string \<Rightarrow> string" where
  "GenerateSignedURL E cfg jobID ip =
     (if SigningSecret cfg = '''' then task_path jobID
      else let expires = (m_now E + SignedURLExpiry cfg) div time_Second;
               ipParam = (if EnableIPBinding cfg \<and> ip \<noteq> '''' then ip else '''');
               sig = EncodeToString URLEncoding (m_hmac E (SigningSecret cfg) (canonical jobID expires ipParam))
           in task_path jobID @ ''?expires='' @ itoa expires @ ''&sig='' @ sig @
              (if ipParam \<noteq> '''' then ''&ip='' @ ipParam else ''''))"

definition contains_dotdot :: "string \<Rightarrow> bool" where
  "contains_dotdot p \<longleftrightarrow> ''..'' \<in> set (concat (map (split_on CHR 0x5C) (split_on CHR ''/'' p)))"

definition http_ServeFile :: "media_env \<Rightarrow> request \<Rightarrow> string \<Rightarrow> response" where
  "http_ServeFile E r fpath =
     (if contains_dotdot (URLPath r) then http_Error ''invalid URL path'' StatusBadRequest
      else (case m_file E fpath of
              FileThere content \<Rightarrow>
                \<lparr>RCode = StatusOK, RHeaders = [], RBody = (if Method r = ''HEAD'' then NoBody else TextBody content)\<rparr>
            | NotExist \<Rightarrow> http_NotFound
            | PermissionDenied \<Rightarrow> http_Error ''403 Forbidden'' StatusForbidden
            | OtherFileError \<Rightarrow> http_Error ''500 Internal Server Error'' StatusInternalServerError))"

definition media_job :: "request \<Rightarrow> string option" where
  "media_job r =
     (case split_on CHR ''/'' (trim_prefix (URLPath r) ''/media/tasks/'') of
        [jobID, leaf] \<Rightarrow> if jobID = '''' \<or> leaf \<noteq> ''task.iso'' then None else Some jobID
      | _ \<Rightarrow> None)"

definition media_ServeHTTP :: "media_env \<Rightarrow> MediaConfig \<Rightarrow> request \<Rightarrow> response" where
  "media_ServeHTTP E cfg r =
     (if Method r \<noteq> ''GET'' \<and> Method r \<noteq> ''HEAD'' then http_NotFound
      else (case media_job r of
              None \<Rightarrow> http_NotFound
            | Some jobID \<Rightarrow>
                if SigningSecret cfg \<noteq> '''' \<and> validateSignedURL E cfg r jobID \<noteq> None
                then http_Error ''Access denied'' StatusForbidden
                else let fpath = path_join [TaskISODir cfg, jobID, ''task.iso''] in
                     if m_file E fpath = NotExist then http_NotFound else http_ServeFile E r fpath))"

text \<open>\<open>ComputeFileHash\<close>, with SHA-256 and hexadecimal printing as the argument \<open>sha256hex\<close>.\<close>

definition ComputeFileHash :: "(string \<Rightarrow> string) \<Rightarrow> media_env \<Rightarrow> MediaConfig \<Rightarrow> string \<Rightarrow> file_state + string" where
  "ComputeFileHash sha256hex E cfg jobID =
     (case m_file E (path_join [TaskISODir cfg, jobID, ''task.iso'']) of
        FileThere content \<Rightarrow> Inr (sha256hex content)
      | e \<Rightarrow> Inl e)"

section \<open>The signed text\<close>

lemma media_job_Some:
  "media_job r = Some jobID \<longleftrightarrow>
     trim_prefix (URLPath r) ''/media/tasks/'' = jobID @ ''/task.iso'' \<and> jobID \<noteq> '''' \<and> CHR ''/'' \<notin> set jobID"
proof
  assume "media_job r = Some jobID"
  then have s: "split_on CHR ''/'' (trim_prefix (URLPath r) ''/media/tasks/'') = [jobID, ''task.iso'']" and "jobID \<noteq> ''''"
    by (auto simp: media_job_def split: list.splits if_splits)
  moreover have "trim_prefix (URLPath r) ''/media/tasks/'' = join_with ''/'' [jobID, ''task.iso'']"
    using join_split [of "CHR ''/''" "trim_prefix (URLPath r) ''/media/tasks/''"] s by simp
  moreover have "CHR ''/'' \<notin> set jobID"
    by (rule split_on_parts [of jobID "CHR ''/''" "trim_prefix (URLPath r) ''/media/tasks/''"]) (simp add: s)
  ultimately show "trim_prefix (URLPath r) ''/media/tasks/'' = jobID @ ''/task.iso'' \<and> jobID \<noteq> '''' \<and> CHR ''/'' \<notin> set jobID"
    by simp
next
  assume a: "trim_prefix (URLPath r) ''/media/tasks/'' = jobID @ ''/task.iso'' \<and> jobID \<noteq> '''' \<and> CHR ''/'' \<notin> set jobID"
  then have "split_on CHR ''/'' (trim_prefix (URLPath r) ''/media/tasks/'') = [jobID, ''task.iso'']"
    using split_on_sep [of "CHR ''/''" jobID "''task.iso''"] by simp
  with a show "media_job r = Some jobID" by (simp add: media_job_def)
qed

lemma append_sep_inj:
  "d \<notin> set a \<Longrightarrow> d \<notin> set b \<Longrightarrow> a @ d # s = b @ d # t \<Longrightarrow> a = b \<and> s = t"
  by (induction a arbitrary: b) (auto simp: Cons_eq_append_conv)

lemma itoa_inj: "itoa i = itoa j \<Longrightarrow> i = j"
proof -
  have "CHR ''-'' \<notin> set (digits_of_nat n)" for n using set_digits [of n] by auto
  then have neg: "digits_of_nat n \<noteq> CHR ''-'' # s" for n s by (metis list.set_intros(1))
  show "itoa i = itoa j \<Longrightarrow> i = j"
    using neg neg [symmetric] digits_inj [of "nat (- i)" "nat (- j)"] digits_inj [of "nat i" "nat j"]
    by (auto simp: itoa_def split: if_splits)
qed

lemma set_itoa: "set (itoa i) \<subseteq> set ''-0123456789''"
proof -
  have "set ''0123456789'' \<subseteq> set ''-0123456789''" by code_simp
  then have "set (digits_of_nat n) \<subseteq> set ''-0123456789''" for n using set_digits [of n] by blast
  moreover have "CHR ''-'' \<in> set ''-0123456789''" by code_simp
  ultimately show ?thesis unfolding itoa_def by (cases "i < 0") (simp_all only: list.set(2) if_True if_False insert_subset simp_thms)
qed

text \<open>A canonical text determines the job, the expiry and the address it was made from.\<close>

lemma canonical_inj:
  assumes "CHR ''/'' \<notin> set a" "CHR ''/'' \<notin> set b" and eq: "canonical a e i = canonical b f j"
  shows "a = b \<and> e = f \<and> i = j"
proof -
  have "a @ ''/task.iso'' @ [CHR 0x0A] @ itoa e @ [CHR 0x0A] @ i = b @ ''/task.iso'' @ [CHR 0x0A] @ itoa f @ [CHR 0x0A] @ j"
    using eq by (simp add: canonical_def task_path_def)
  then have 1: "a = b" and "itoa e @ CHR 0x0A # i = itoa f @ CHR 0x0A # j"
    using append_sep_inj [OF assms(1,2), of "''task.iso'' @ [CHR 0x0A] @ itoa e @ [CHR 0x0A] @ i"
      "''task.iso'' @ [CHR 0x0A] @ itoa f @ [CHR 0x0A] @ j"] by simp_all
  moreover have "CHR 0x0A \<notin> set (itoa n)" for n using set_itoa [of n] by auto
  ultimately have "itoa e = itoa f" "i = j" using append_sep_inj [of "CHR 0x0A" "itoa e" "itoa f" i j] by auto
  with 1 itoa_inj show ?thesis by blast
qed

lemma validate_None_iff:
  "validateSignedURL E cfg r jobID = None \<longleftrightarrow>
     (\<exists>expires. Query r ''expires'' \<noteq> '''' \<and> Query r ''sig'' \<noteq> '''' \<and> ParseInt (Query r ''expires'') = Some expires \<and>
        m_now E div time_Second \<le> wrap64 (expires + clockSkewTolerance) \<and>
        DecodeString URLEncoding (Query r ''sig'') =
          Some (m_hmac E (SigningSecret cfg) (canonical jobID expires (bound_ip cfg r))) \<and>
        (EnableIPBinding cfg \<and> bound_ip cfg r \<noteq> '''' \<longrightarrow> bound_ip cfg r = clientIP r))"
  by (auto simp: validateSignedURL_def Let_def urlsafe.decode_encode split: option.splits if_splits)

section \<open>Properties\<close>

lemma task_path_job:
  assumes "jobID \<noteq> ''''" "CHR ''/'' \<notin> set jobID" "URLPath r = task_path jobID"
  shows "media_job r = Some jobID"
proof -
  have "trim_prefix (URLPath r) ''/media/tasks/'' = jobID @ ''/task.iso''"
    unfolding assms(3) task_path_def by (rule trim_prefix_append)
  with assms show ?thesis by (simp add: media_job_Some)
qed

lemma served_valid:
  assumes "SigningSecret cfg \<noteq> ''''" "RCode (media_ServeHTTP E cfg r) = StatusOK"
  shows "\<exists>jobID. media_job r = Some jobID \<and> validateSignedURL E cfg r jobID = None"
  using assms by (auto simp: media_ServeHTTP_def split: if_splits option.splits)


text \<open>The text that becomes the path and the query of the request for a generated URL.\<close>

definition requests_url :: "request \<Rightarrow> string \<Rightarrow> bool" where
  "requests_url r u \<longleftrightarrow> Method r = ''GET'' \<and> URLPath r = fst (cut u CHR ''?'') \<and> Query r = query_Get (snd (cut u CHR ''?''))"

lemma query_three:
  assumes "\<And>c. c \<in> set a \<union> set b \<union> set d \<Longrightarrow> query_plain c"
  defines "q \<equiv> ''expires='' @ a @ ''&sig='' @ b @ (if d \<noteq> '''' then ''&ip='' @ d else '''')"
  shows "query_Get q ''expires'' = a" "query_Get q ''sig'' = b" "query_Get q ''ip'' = d"
proof -
  have amp: "CHR ''&'' \<notin> set a" "CHR ''&'' \<notin> set b" "CHR ''&'' \<notin> set d" using assms(1) by (auto simp: query_plain_def)
  have key: "query_plain c" if "c \<in> set ''expiressigip''" for c
  proof -
    have "list_all query_plain ''expiressigip''" by code_simp
    with that show ?thesis by (simp only: list_all_iff)
  qed
  have p: "query_pair (''expires='' @ a) = Some (''expires'', a)" "query_pair (''sig='' @ b) = Some (''sig'', b)"
    "query_pair (''ip='' @ d) = Some (''ip'', d)"
    using query_pair_plain [of "''expires''" a] query_pair_plain [of "''sig''" b] query_pair_plain [of "''ip''" d] assms(1) key
    by auto
  have s1: "split_on CHR ''&'' ((''expires='' @ a) @ CHR ''&'' # (''sig='' @ b)) = [''expires='' @ a, ''sig='' @ b]"
    using split_on_sep [of "CHR ''&''" "''expires='' @ a" "''sig='' @ b"] split_on_no_sep [of "CHR ''&''" "''sig='' @ b"] amp by simp
  have s2: "split_on CHR ''&'' ((''expires='' @ a) @ CHR ''&'' # (''sig='' @ b) @ CHR ''&'' # (''ip='' @ d)) =
      [''expires='' @ a, ''sig='' @ b, ''ip='' @ d]"
    using split_on_sep [of "CHR ''&''" "''expires='' @ a" "(''sig='' @ b) @ CHR ''&'' # (''ip='' @ d)"]
      split_on_sep [of "CHR ''&''" "''sig='' @ b" "''ip='' @ d"] split_on_no_sep [of "CHR ''&''" "''ip='' @ d"] amp by simp
  have "ParseQuery q = [(''expires'', a), (''sig'', b)] @ (if d \<noteq> '''' then [(''ip'', d)] else [])"
    using s1 s2 p unfolding q_def ParseQuery_def by (simp add: map_filter_simps)
  then show "query_Get q ''expires'' = a" "query_Get q ''sig'' = b" "query_Get q ''ip'' = d"
    by (simp_all add: query_Get_def)
qed

lemma encode_query_plain: "c \<in> set (EncodeToString URLEncoding m) \<Longrightarrow> query_plain c"
proof -
  have "list_all query_plain (alphabet URLEncoding @ ''='')" "set_option (padChar URLEncoding) = {CHR ''=''}" by code_simp+
  then show "c \<in> set (EncodeToString URLEncoding m) \<Longrightarrow> query_plain c"
    using urlsafe.set_encode [of m] by (auto simp: list_all_iff)
qed

lemma itoa_query_plain: "c \<in> set (itoa i) \<Longrightarrow> query_plain c"
proof -
  have "\<forall>c \<in> set ''-0123456789''. query_plain c" unfolding list_all_iff [symmetric] by code_simp
  then show "c \<in> set (itoa i) \<Longrightarrow> query_plain c" by (rule bspec) (rule subsetD [OF set_itoa])
qed

lemma signed_url_cut:
  fixes E :: media_env and ip :: string
  assumes "SigningSecret cfg \<noteq> ''''" "CHR ''?'' \<notin> set jobID"
  defines "expires \<equiv> (m_now E + SignedURLExpiry cfg) div time_Second"
    and "ipParam \<equiv> (if EnableIPBinding cfg \<and> ip \<noteq> '''' then ip else '''')"
  shows "cut (GenerateSignedURL E cfg jobID ip) CHR ''?'' =
    (task_path jobID, ''expires='' @ itoa expires @ ''&sig='' @
      EncodeToString URLEncoding (m_hmac E (SigningSecret cfg) (canonical jobID expires ipParam)) @
      (if ipParam \<noteq> '''' then ''&ip='' @ ipParam else ''''))"
proof -
  have "CHR ''?'' \<notin> set (task_path jobID)" using assms(2) by (simp add: task_path_def)
  from cut_first [OF this] show ?thesis
    using assms(1) unfolding GenerateSignedURL_def expires_def ipParam_def by (simp add: Let_def)
qed

text \<open>
  A URL from \<open>GenerateSignedURL\<close> works: requested with its path and query, from the address
  it is bound to if binding is on, until sixty seconds after its expiry, it is answered with the
  file of that job. HMAC values are assumed non-empty; the job and the address need no escaping
  in a URL.
\<close>

lemma signed_url_roundtrip:
  assumes "SigningSecret cfg \<noteq> ''''" and "requests_url r (GenerateSignedURL E cfg jobID ip)"
    and "jobID \<noteq> ''''" and "CHR ''/'' \<notin> set jobID" and "CHR ''?'' \<notin> set jobID" and "\<not> contains_dotdot (task_path jobID)"
    and "EnableIPBinding cfg \<Longrightarrow> ip \<noteq> '''' \<and> clientIP r = ip" and "\<And>c. c \<in> set ip \<Longrightarrow> query_plain c"
    and "m_hmac E' = m_hmac E" and "\<And>m. m_hmac E (SigningSecret cfg) m \<noteq> ''''"
    and "m_now E' div time_Second \<le> (m_now E + SignedURLExpiry cfg) div time_Second + clockSkewTolerance"
    and "0 \<le> (m_now E + SignedURLExpiry cfg) div time_Second" and "(m_now E + SignedURLExpiry cfg) div time_Second < 2 ^ 62"
    and "m_file E' (path_join [TaskISODir cfg, jobID, ''task.iso'']) = FileThere content"
  shows "media_ServeHTTP E' cfg r = \<lparr>RCode = StatusOK, RHeaders = [], RBody = TextBody content\<rparr>"
proof -
  define expires where "expires = (m_now E + SignedURLExpiry cfg) div time_Second"
  define ipParam where "ipParam = (if EnableIPBinding cfg \<and> ip \<noteq> '''' then ip else '''')"
  define mac where "mac = m_hmac E (SigningSecret cfg) (canonical jobID expires ipParam)"
  note url = signed_url_cut [OF assms(1,5), of E ip, folded expires_def ipParam_def, folded mac_def]
  have r: "Method r = ''GET''" "URLPath r = task_path jobID" using assms(2) by (simp_all add: requests_url_def url)
  have pl: "query_plain c" if "c \<in> set (itoa expires) \<union> set (EncodeToString URLEncoding mac) \<union> set ipParam" for c
    using that assms(8) encode_query_plain itoa_query_plain by (auto simp: ipParam_def split: if_splits)
  have q: "Query r ''expires'' = itoa expires" "Query r ''sig'' = EncodeToString URLEncoding mac" "Query r ''ip'' = ipParam"
    using assms(2) query_three [OF pl] by (simp_all add: requests_url_def url)
  have ip: "bound_ip cfg r = ipParam" "EnableIPBinding cfg \<and> ipParam \<noteq> '''' \<longrightarrow> ipParam = clientIP r"
    using assms(7) by (auto simp: bound_ip_def q ipParam_def)
  have e: "in_int64 expires" "in_int64 (expires + clockSkewTolerance)" using assms(12,13) by (simp_all add: in_int64_def expires_def)
  have "itoa expires \<noteq> ''''" by (simp add: itoa_def)
  moreover have "EncodeToString URLEncoding mac \<noteq> ''''"
    using assms(10) assms(10) [THEN not_sym] urlsafe.decode_encode [of mac] by (auto simp: mac_def DecodeString_def)
  moreover have "DecodeString URLEncoding (Query r ''sig'') =
      Some (m_hmac E' (SigningSecret cfg) (canonical jobID expires (bound_ip cfg r)))"
    unfolding q ip assms(9) mac_def by (rule urlsafe.decode_encode)
  ultimately have "validateSignedURL E' cfg r jobID = None"
    unfolding validate_None_iff using assms(11) ip q ParseInt_itoa [OF e(1)] e(2)
    by (intro exI [of _ expires]) (simp add: expires_def)
  moreover have "media_job r = Some jobID" using assms(3,4) r(2) by (rule task_path_job)
  ultimately show ?thesis
    using r assms(6,14) by (simp add: media_ServeHTTP_def http_ServeFile_def)
qed

definition demo_media :: MediaConfig where
  "demo_media = \<lparr>TaskISODir = ''/isos'', SigningSecret = ''k'', SignedURLExpiry = 100 * time_Second, EnableIPBinding = True\<rparr>"

definition demo_media_env :: "time \<Rightarrow> media_env" where
  "demo_media_env t = \<lparr>m_hmac = (\<lambda>k m. k @ m), m_now = t,
     m_file = (\<lambda>p. if p = ''/isos/j-1/task.iso'' then FileThere ''iso'' else NotExist)\<rparr>"

definition demo_media_get :: "string \<Rightarrow> string \<Rightarrow> request" where
  "demo_media_get u addr = \<lparr>Method = ''GET'', URLPath = fst (cut u CHR ''?''), Header = (\<lambda>_. ''''),
     Query = query_Get (snd (cut u CHR ''?'')), Body = RawEmpty, RemoteAddr = addr\<rparr>"

definition demo_url :: string where
  "demo_url = GenerateSignedURL (demo_media_env 0) demo_media ''j-1'' ''10.0.0.7''"

lemma signed_url_roundtrip_instance:
  "RCode (media_ServeHTTP (demo_media_env (160 * time_Second)) demo_media (demo_media_get demo_url ''10.0.0.7:99'')) = StatusOK \<and>
   RCode (media_ServeHTTP (demo_media_env (161 * time_Second)) demo_media (demo_media_get demo_url ''10.0.0.7:99'')) = StatusForbidden"
proof -
  have u: "requests_url (demo_media_get demo_url ''10.0.0.7:99'') (GenerateSignedURL (demo_media_env 0) demo_media ''j-1'' ''10.0.0.7'')"
    by (simp add: requests_url_def demo_media_get_def demo_url_def)
  have ip: "clientIP (demo_media_get demo_url ''10.0.0.7:99'') = ''10.0.0.7''"
    by (simp add: demo_media_get_def clientIP_def) code_simp
  have d: "\<not> contains_dotdot (task_path ''j-1'')" "list_all query_plain ''10.0.0.7''" by code_simp+
  have f: "m_file (demo_media_env (160 * time_Second)) (path_join [TaskISODir demo_media, ''j-1'', ''task.iso'']) = FileThere ''iso''"
    by code_simp
  have "media_ServeHTTP (demo_media_env (160 * time_Second)) demo_media (demo_media_get demo_url ''10.0.0.7:99'') =
      \<lparr>RCode = StatusOK, RHeaders = [], RBody = TextBody ''iso''\<rparr>"
    by (rule signed_url_roundtrip [OF _ u _ _ _ d(1) _ _ _ _ _ _ _ f])
       (use ip d(2) in \<open>auto simp: demo_media_def demo_media_env_def list_all_iff\<close>)
  moreover have "RCode (media_ServeHTTP (demo_media_env (161 * time_Second)) demo_media (demo_media_get demo_url ''10.0.0.7:99'')) = StatusForbidden"
    by code_simp
  ultimately show ?thesis by simp
qed


end
