(* ===== verification/Controller.thy ===== *)
theory Controller
  imports JobsApi AccessProps Media Worker Mux
begin

text \<open>
  The controller program (\<open>cmd/provisioner-controller/main.go\<close>): its configuration from the
  environment, the routes of \<open>newMux\<close> with the rate limiter, the authentication and the security
  headers around them, and the worker configuration it derives.

  The environment variables are a function from names to values. \<open>time.ParseDuration\<close>, the page of
  the Prometheus handler and what one request reads of the clocks and of the other environments
  are parameters. Command-line flags, which overwrite fields of the configuration after it is
  seeded, are not represented; neither are the logger and the server's socket.
\<close>

section \<open>Configuration\<close>

record Config =
  cf_HTTPAddr :: string
  cf_DBPath :: string
  cf_StorageRoot :: string
  cf_TaskISODir :: string
  cf_MaintenanceISOURL :: string
  cf_ESXiInstallerURL :: string
  cf_EnableRegistry :: bool
  cf_RegistryStorage :: string
  cf_AuthMode :: string
  cf_WebhookSecret :: string
  cf_WebhookSecretOld :: string
  cf_WorkerConcurrency :: int
  cf_RedfishTimeout :: time
  cf_RedfishRetries :: int
  cf_RedfishMode :: string
  cf_RedfishInsecureTLS :: bool
  cf_JobLeaseTTL :: time
  cf_JobStuckTimeout :: time
  cf_LogLevel :: string
  cf_TLSCertFile :: string
  cf_TLSKeyFile :: string
  cf_EnableTLS :: bool
  cf_MediaSigningSecret :: string
  cf_MediaSignedURLTTL :: time
  cf_MediaEnableIPBind :: bool
  cf_RateLimitRPM :: int
  cf_RateLimitBurst :: int
  cf_EnableCORS :: bool
  cf_CORSAllowedOrigins :: string

definition defaultConfig :: Config where
  "defaultConfig =
     \<lparr>cf_HTTPAddr = '':8080'', cf_DBPath = ''./provisioner.db'', cf_StorageRoot = ''./var/shoal'',
      cf_TaskISODir = ''./var/shoal/task-isos'',
      cf_MaintenanceISOURL = ''http://localhost:8080/media/isos/bootc-maintenance.iso'',
      cf_ESXiInstallerURL = '''', cf_EnableRegistry = False, cf_RegistryStorage = ''./var/shoal/oci'',
      cf_AuthMode = ''none'', cf_WebhookSecret = '''', cf_WebhookSecretOld = '''', cf_WorkerConcurrency = 2,
      cf_RedfishTimeout = 30 * time_Second, cf_RedfishRetries = 5, cf_RedfishMode = ''noop'',
      cf_RedfishInsecureTLS = False, cf_JobLeaseTTL = 10 * time_Minute, cf_JobStuckTimeout = 4 * time_Hour,
      cf_LogLevel = ''info'', cf_TLSCertFile = '''', cf_TLSKeyFile = '''', cf_EnableTLS = False,
      cf_MediaSigningSecret = '''', cf_MediaSignedURLTTL = 30 * time_Minute, cf_MediaEnableIPBind = False,
      cf_RateLimitRPM = 10, cf_RateLimitBurst = 5, cf_EnableCORS = False, cf_CORSAllowedOrigins = ''*''\<rparr>"

definition getenv :: "environ \<Rightarrow> string \<Rightarrow> string \<Rightarrow> string" where
  "getenv os key d = (if os key \<noteq> '''' then os key else d)"

definition getenvBool :: "environ \<Rightarrow> string \<Rightarrow> bool \<Rightarrow> bool" where
  "getenvBool os key d =
     (if os key = '''' then d else (case ParseBool (os key) of None \<Rightarrow> d | Some b \<Rightarrow> b))"

definition getenvInt :: "environ \<Rightarrow> string \<Rightarrow> int \<Rightarrow> int" where
  "getenvInt os key d =
     (if os key = '''' then d else (case ParseInt (os key) of None \<Rightarrow> d | Some i \<Rightarrow> i))"

definition getenvDuration :: "(string \<Rightarrow> time option) \<Rightarrow> environ \<Rightarrow> string \<Rightarrow> time \<Rightarrow> time" where
  "getenvDuration ParseDuration os key d =
     (if os key = '''' then d else (case ParseDuration (os key) of None \<Rightarrow> d | Some t \<Rightarrow> t))"

definition parseConfig :: "(string \<Rightarrow> time option) \<Rightarrow> environ \<Rightarrow> Config" where
  "parseConfig ParseDuration os = (let def = defaultConfig in
     \<lparr>cf_HTTPAddr = getenv os ''CONTROLLER_HTTP_ADDR'' (cf_HTTPAddr def),
      cf_DBPath = getenv os ''DB_PATH'' (cf_DBPath def),
      cf_StorageRoot = getenv os ''STORAGE_ROOT'' (cf_StorageRoot def),
      cf_TaskISODir = getenv os ''TASK_ISO_DIR'' (cf_TaskISODir def),
      cf_MaintenanceISOURL = getenv os ''MAINTENANCE_ISO_URL'' (cf_MaintenanceISOURL def),
      cf_ESXiInstallerURL = getenv os ''ESXI_INSTALLER_URL'' (cf_ESXiInstallerURL def),
      cf_EnableRegistry = getenvBool os ''ENABLE_REGISTRY'' (cf_EnableRegistry def),
      cf_RegistryStorage = getenv os ''REGISTRY_STORAGE'' (cf_RegistryStorage def),
      cf_AuthMode = getenv os ''AUTH_MODE'' (cf_AuthMode def),
      cf_WebhookSecret = getenv os ''WEBHOOK_SECRET'' (cf_WebhookSecret def),
      cf_WebhookSecretOld = getenv os ''WEBHOOK_SECRET_OLD'' (cf_WebhookSecretOld def),
      cf_WorkerConcurrency = getenvInt os ''WORKER_CONCURRENCY'' (cf_WorkerConcurrency def),
      cf_RedfishTimeout = getenvDuration ParseDuration os ''REDFISH_TIMEOUT'' (cf_RedfishTimeout def),
      cf_RedfishRetries = getenvInt os ''REDFISH_RETRIES'' (cf_RedfishRetries def),
      cf_RedfishMode = getenv os ''REDFISH_MODE'' (cf_RedfishMode def),
      cf_RedfishInsecureTLS = getenvBool os ''REDFISH_INSECURE_TLS'' (cf_RedfishInsecureTLS def),
      cf_JobLeaseTTL = getenvDuration ParseDuration os ''JOB_LEASE_TTL'' (cf_JobLeaseTTL def),
      cf_JobStuckTimeout = getenvDuration ParseDuration os ''JOB_STUCK_TIMEOUT'' (cf_JobStuckTimeout def),
      cf_LogLevel = getenv os ''LOG_LEVEL'' (cf_LogLevel def),
      cf_TLSCertFile = getenv os ''TLS_CERT_FILE'' (cf_TLSCertFile def),
      cf_TLSKeyFile = getenv os ''TLS_KEY_FILE'' (cf_TLSKeyFile def),
      cf_EnableTLS = getenvBool os ''ENABLE_TLS'' (cf_EnableTLS def),
      cf_MediaSigningSecret = getenv os ''MEDIA_SIGNING_SECRET'' (cf_MediaSigningSecret def),
      cf_MediaSignedURLTTL = getenvDuration ParseDuration os ''MEDIA_SIGNED_URL_TTL'' (cf_MediaSignedURLTTL def),
      cf_MediaEnableIPBind = getenvBool os ''MEDIA_ENABLE_IP_BIND'' (cf_MediaEnableIPBind def),
      cf_RateLimitRPM = getenvInt os ''RATE_LIMIT_RPM'' (cf_RateLimitRPM def),
      cf_RateLimitBurst = getenvInt os ''RATE_LIMIT_BURST'' (cf_RateLimitBurst def),
      cf_EnableCORS = getenvBool os ''ENABLE_CORS'' (cf_EnableCORS def),
      cf_CORSAllowedOrigins = getenv os ''CORS_ALLOWED_ORIGINS'' (cf_CORSAllowedOrigins def)\<rparr>)"

definition redactedSecret :: "string \<Rightarrow> string" where
  "redactedSecret s =
     (if s = '''' then ''''
      else if length s \<le> 4 then ''****''
      else take 2 s @ replicate (length s - 4) CHR ''*'' @ drop (length s - 2) s)"

text \<open>
  \<open>computeTaskMediaBase\<close>; \<open>parse_url\<close> gives the scheme and the host of a URL, or fails.
\<close>

definition computeTaskMediaBase :: "(string \<Rightarrow> (string \<times> string) option) \<Rightarrow> Config \<Rightarrow> string" where
  "computeTaskMediaBase parse_url cfg =
     (case parse_url (cf_MaintenanceISOURL cfg) of
        Some (scheme, host) \<Rightarrow>
          if scheme \<noteq> '''' \<and> host \<noteq> '''' then scheme @ ''://'' @ host @ ''/media/tasks''
          else (if cf_EnableTLS cfg then ''https'' else ''http'') @ ''://'' @
               (if has_prefix (cf_HTTPAddr cfg) '':'' then ''127.0.0.1'' @ cf_HTTPAddr cfg else cf_HTTPAddr cfg) @ ''/media/tasks''
      | None \<Rightarrow>
          (if cf_EnableTLS cfg then ''https'' else ''http'') @ ''://'' @
          (if has_prefix (cf_HTTPAddr cfg) '':'' then ''127.0.0.1'' @ cf_HTTPAddr cfg else cf_HTTPAddr cfg) @ ''/media/tasks'')"

definition worker_config :: "(string \<Rightarrow> (string \<times> string) option) \<Rightarrow> Config \<Rightarrow> int \<Rightarrow> WorkerConfig" where
  "worker_config parse_url cfg i =
     \<lparr>cfg_WorkerID = ''worker-'' @ itoa (i + 1), PollInterval = 2 * time_Second, LeaseTTL = cf_JobLeaseTTL cfg,
      ExtendLeaseEvery = go_quot (cf_JobLeaseTTL cfg) 2, JobStuckTimeout = cf_JobStuckTimeout cfg,
      RedfishTimeout = cf_RedfishTimeout cfg, TaskISOMediaBase = computeTaskMediaBase parse_url cfg,
      ESXIInstallTimeout = 0, ESXIStableWindow = 0, ESXIPollIntervalStart = 0, ESXIPollIntervalMax = 0,
      ESXIInstallerURL = cf_ESXiInstallerURL cfg\<rparr>"

section \<open>Routes\<close>

record ctl_env =
  ce_auth :: auth_env
  ce_media :: media_env
  ce_os :: environ
  ce_rng :: map_order
  ce_uid :: string
  ce_now :: time
  ce_created :: time
  ce_tick :: time
  ce_metrics :: response

record ctl_state =
  limiter :: RateLimiter
  deliveries :: deliveryCache
  st :: sqldb

text \<open>Which optional handlers \<open>newMux\<close> is given.\<close>

record ctl_parts =
  has_api :: bool
  has_media :: bool
  has_limiter :: bool

definition healthHandler :: response where
  "healthHandler = writeJSON StatusOK (JObj [(''ok'', JBool True)])"

definition readyHandler :: response where
  "readyHandler = writeJSON StatusOK (JObj [(''ready'', JBool True)])"

definition notImplementedHandler :: "string \<Rightarrow> response" where
  "notImplementedHandler msg = writeJSON 501 (jsonError ''not_implemented'' msg)"

definition registryHandler :: response where
  "registryHandler = notImplementedHandler ''Embedded registry /v2/ is not implemented yet''"

definition root_banner :: response where
  "root_banner = writeJSON StatusOK (JObj
     [(''description'', JStr ''Provisioner controller scaffold. Endpoints not implemented yet.''),
      (''docs'', JStr ''See design/021_Provisioner_Controller_Service.md''),
      (''name'', JStr ''shoal-provisioner-controller''), (''status'', JStr ''starting'')])"

definition auth_config :: "environ \<Rightarrow> Config \<Rightarrow> AuthConfig" where
  "auth_config os cfg =
     \<lparr>Mode = cf_AuthMode cfg, BasicUsername = getenv os ''BASIC_USER'' '''', BasicPassword = getenv os ''BASIC_PASS'' '''',
      JWTSecret = getenv os ''JWT_SECRET'' '''', JWTAudience = getenv os ''JWT_AUDIENCE'' '''',
      JWTIssuer = getenv os ''JWT_ISSUER'' '''', HeaderKey = ''Authorization''\<rparr>"

definition security_config :: "Config \<Rightarrow> SecurityHeadersConfig" where
  "security_config cfg =
     \<lparr>EnableHSTS = cf_EnableTLS cfg, HSTSMaxAge = 31536000, HSTSIncludeSubdomains = False, EnableCORS = cf_EnableCORS cfg,
      CORSAllowedOrigins = split_on CHR '','' (cf_CORSAllowedOrigins cfg),
      CORSAllowedMethods = [''GET'', ''POST'', ''PUT'', ''PATCH'', ''DELETE'', ''OPTIONS''],
      CORSAllowedHeaders = [''Content-Type'', ''Authorization''], CORSMaxAge = 3600\<rparr>"

definition media_config :: "Config \<Rightarrow> MediaConfig" where
  "media_config cfg =
     \<lparr>TaskISODir = cf_TaskISODir cfg, SigningSecret = cf_MediaSigningSecret cfg,
      SignedURLExpiry = cf_MediaSignedURLTTL cfg, EnableIPBinding = cf_MediaEnableIPBind cfg\<rparr>"

definition limiter_config :: "Config \<Rightarrow> RateLimitConfig" where
  "limiter_config cfg =
     \<lparr>RequestsPerMinute = cf_RateLimitRPM cfg, BurstSize = cf_RateLimitBurst cfg, CleanupInterval = 5 * time_Minute\<rparr>"

text \<open>The multiplexer of \<open>API.Register\<close>.\<close>

definition protected_mux :: "ctl_env \<Rightarrow> Config \<Rightarrow> sqldb handler" where
  "protected_mux E cfg r p d =
     (case mux_route [''/api/v1/jobs'', ''/api/v1/jobs/''] r of
        Redirect u \<Rightarrow> (redirect_response u, d)
      | Unrouted \<Rightarrow> (http_NotFound, d)
      | Routed pat \<Rightarrow>
          if pat = ''/api/v1/jobs'' then jobsHandler (sql_API (cf_MaintenanceISOURL cfg)) (ce_rng E) (ce_uid E) (ce_now E) r d
          else jobByIDHandler (sql_API (cf_MaintenanceISOURL cfg)) r d)"

definition wrapped_api :: "ctl_env \<Rightarrow> Config \<Rightarrow> ctl_parts \<Rightarrow> ctl_state handler" where
  "wrapped_api E cfg parts r p s =
     (let auth = AuthMiddleware (ce_auth E) (auth_config (ce_os E) cfg) (protected_mux E cfg) in
      if has_limiter parts
      then (let (resp, rl, d) = rate_limit (float_ovf (ce_auth E)) (ce_created E) (ce_tick E) auth r p (limiter s, st s)
            in (resp, s\<lparr>limiter := rl, st := d\<rparr>))
      else (let (resp, d) = auth r p (st s) in (resp, s\<lparr>st := d\<rparr>)))"

definition routes :: "Config \<Rightarrow> ctl_parts \<Rightarrow> string list" where
  "routes cfg parts =
     [''/healthz'', ''/readyz'', ''/metrics''] @
     (if has_api parts then [''/api/v1/jobs'', ''/api/v1/jobs/''] else []) @
     [''/api/v1/status-webhook/''] @
     (if has_media parts then [''/media/tasks/''] else []) @
     (if cf_EnableRegistry cfg then [''/v2/''] else []) @
     [''/'']"

definition serve_route :: "ctl_env \<Rightarrow> Config \<Rightarrow> ctl_parts \<Rightarrow> string \<Rightarrow> ctl_state handler" where
  "serve_route E cfg parts pat r p s =
     (if pat = ''/healthz'' then (healthHandler, s)
      else if pat = ''/readyz'' then (readyHandler, s)
      else if pat = ''/metrics'' then (ce_metrics E, s)
      else if pat = ''/api/v1/jobs'' \<or> pat = ''/api/v1/jobs/'' then wrapped_api E cfg parts r p s
      else if pat = ''/api/v1/status-webhook/''
      then (let (resp, dc, d) = webhook_handler sql_WebhookStore (cf_WebhookSecret cfg) (cf_WebhookSecretOld cfg) (ce_now E) r
                                  (deliveries s, st s)
            in (resp, s\<lparr>deliveries := dc, st := d\<rparr>))
      else if pat = ''/media/tasks/'' then (media_ServeHTTP (ce_media E) (media_config cfg) r, s)
      else if pat = ''/v2/'' then (registryHandler, s)
      else (root_banner, s))"

definition newMux :: "ctl_env \<Rightarrow> Config \<Rightarrow> ctl_parts \<Rightarrow> ctl_state handler" where
  "newMux E cfg parts =
     SecurityHeaders (security_config cfg) (\<lambda>r p s.
       case mux_route (routes cfg parts) r of
         Redirect u \<Rightarrow> (redirect_response u, s)
       | Unrouted \<Rightarrow> (http_NotFound, s)
       | Routed pat \<Rightarrow> serve_route E cfg parts pat r p s)"

text \<open>The program serves requests one after the other; each has its own environment.\<close>

fun serve :: "Config \<Rightarrow> ctl_parts \<Rightarrow> (ctl_env \<times> request) list \<Rightarrow> ctl_state \<Rightarrow> ctl_state" where
  "serve cfg parts [] s = s"
| "serve cfg parts ((E, r) # rs) s = serve cfg parts rs (snd (newMux E cfg parts r None s))"

end
