(* ===== verification/ControllerProps.thy ===== *)
theory ControllerProps
  imports Controller
begin

text \<open>
  What the controller's front door guarantees, end to end through \<open>newMux\<close>, and what its parts
  do together.
\<close>

section \<open>Requests without a credential\<close>

definition api_credential :: "ctl_env \<Rightarrow> Config \<Rightarrow> request \<Rightarrow> bool" where
  "api_credential E cfg r \<longleftrightarrow>
     (let c = auth_config (ce_os E) cfg; h = Header r (header_key c) in
      auth_mode c = ''basic'' \<and> basic_credential c h \<or> auth_mode c = ''jwt'' \<and> bearer_credential (ce_auth E) c h)"

definition webhook_credential :: "Config \<Rightarrow> request \<Rightarrow> bool" where
  "webhook_credential cfg r \<longleftrightarrow>
     Method r = ''POST'' \<and> has_prefix (URLPath r) webhook_prefix \<and>
     webhook_authorized (cf_WebhookSecret cfg) (cf_WebhookSecretOld cfg) (Header r ''X-Webhook-Secret'')"

definition api_protected :: "ctl_env \<Rightarrow> Config \<Rightarrow> bool" where
  "api_protected E cfg \<longleftrightarrow> auth_mode (auth_config (ce_os E) cfg) \<notin> {'''', ''none''}"

lemma auth_denied:
  assumes "auth_mode cfg \<notin> {'''', ''none''}"
    and "\<not> (auth_mode cfg = ''basic'' \<and> basic_credential cfg (Header r (header_key cfg)))"
    and "\<not> (auth_mode cfg = ''jwt'' \<and> bearer_credential E cfg (Header r (header_key cfg)))"
  shows "snd (AuthMiddleware E cfg next r p s) = s"
proof -
  consider "auth_mode cfg = ''basic''" | "auth_mode cfg = ''jwt''" | "auth_mode cfg \<notin> {'''', ''none'', ''basic'', ''jwt''}"
    using assms(1) by blast
  then show ?thesis
  proof cases
    case 1
    with assms(2) show ?thesis by (simp add: AuthMiddleware_basic)
  next
    case 2
    with assms(3) AuthMiddleware_jwt [OF 2, of E r "next" p s] show ?thesis by simp
  next
    case 3
    then show ?thesis by (simp add: AuthMiddleware_def)
  qed
qed

lemma get_job_db: "db (snd (jobByIDHandler (sql_API u) r d)) = db d"
  by (auto simp: jobByIDHandler_def handleGetJob_def Let_def sql_GetJobByID_def sql_ListJobEvents_def sql_query_def
        split: prod.splits sum.splits)

text \<open>The jobs API changes rows only for a \<open>POST\<close> to the collection.\<close>

lemma protected_mux_db:
  "db (snd (protected_mux E cfg r p d)) \<noteq> db d \<Longrightarrow> Method r = ''POST'' \<and> URLPath r = ''/api/v1/jobs''"
  by (auto simp: protected_mux_def get_job_db jobsHandler_def pattern_matches_def has_suffix_def
        dest!: mux_route_Routed split: routed.splits if_splits)

lemma wrapped_api_db:
  assumes "db (st (snd (wrapped_api E cfg parts r p s))) \<noteq> db (st s)" "api_protected E cfg"
  shows "api_credential E cfg r \<and> Method r = ''POST'' \<and> URLPath r = ''/api/v1/jobs''"
proof -
  define auth where "auth = AuthMiddleware (ce_auth E) (auth_config (ce_os E) cfg) (protected_mux E cfg)"
  have a: "db (snd (auth r p (st s))) \<noteq> db (st s)"
    using assms(1) by (auto simp: wrapped_api_def auth_def [symmetric] rate_limit_def Let_def split: prod.splits if_splits)
  have c: "api_credential E cfg r"
  proof (rule ccontr)
    assume "\<not> api_credential E cfg r"
    then have "snd (auth r p (st s)) = st s"
      unfolding auth_def using assms(2) by (intro auth_denied) (auto simp: api_protected_def api_credential_def Let_def)
    with a show False by simp
  qed
  have "\<exists>q. auth r p (st s) = protected_mux E cfg r (Some q) (st s) \<or> snd (auth r p (st s)) = st s"
    using assms(2) unfolding auth_def AuthMiddleware_def api_protected_def by (auto split: sum.splits)
  then obtain q where "auth r p (st s) = protected_mux E cfg r (Some q) (st s)" using a by auto
  with a protected_mux_db c show ?thesis by metis
qed

lemma webhook_db:
  assumes "db (snd (snd (webhook_handler sql_WebhookStore secret old t r (dc, d)))) \<noteq> db d"
  shows "Method r = ''POST'' \<and> webhook_authorized secret old (Header r ''X-Webhook-Secret'')"
  using webhook_rejects [of r secret old sql_WebhookStore t dc d] assms by fastforce

lemma newMux_db:
  assumes "db (st (snd (newMux E cfg parts r p s))) \<noteq> db (st s)" "api_protected E cfg"
  shows "api_credential E cfg r \<and> Method r = ''POST'' \<and> URLPath r = ''/api/v1/jobs'' \<or> webhook_credential cfg r"
proof -
  have "\<exists>pat. mux_route (routes cfg parts) r = Routed pat \<and> db (st (snd (serve_route E cfg parts pat r p s))) \<noteq> db (st s)"
    using assms(1) by (auto simp: newMux_def SecurityHeaders_def Let_def split: if_splits prod.splits routed.splits)
  then obtain pat where m: "pattern_matches pat (URLPath r)" and d: "db (st (snd (serve_route E cfg parts pat r p s))) \<noteq> db (st s)"
    using mux_route_Routed by blast
  from d consider "db (st (snd (wrapped_api E cfg parts r p s))) \<noteq> db (st s)"
    | "pat = ''/api/v1/status-webhook/''" "db (snd (snd (webhook_handler sql_WebhookStore (cf_WebhookSecret cfg)
         (cf_WebhookSecretOld cfg) (ce_now E) r (deliveries s, st s)))) \<noteq> db (st s)"
    by (auto simp: serve_route_def Let_def split: if_splits prod.splits)
  then show ?thesis
  proof cases
    case 1
    with wrapped_api_db assms(2) show ?thesis by blast
  next
    case 2
    from webhook_db [OF 2(2)] 2(1) m show ?thesis
      by (auto simp: webhook_credential_def webhook_prefix_def pattern_matches_def has_suffix_def)
  qed
qed

section \<open>Properties\<close>

text \<open>
  C26. Nobody changes a row without a credential: over any sequence of requests to the
  controller's multiplexer, of any method and path, if the jobs API is protected (mode \<open>basic\<close>,
  \<open>jwt\<close> or an unknown one) and no request carries the API's credential or is a webhook \<open>POST\<close>
  with an accepted secret, the database holds the same rows at the end as at the start.
\<close>

theorem unauthenticated_requests_change_nothing:
  assumes "\<forall>(E, r) \<in> set reqs. api_protected E cfg \<and> \<not> api_credential E cfg r \<and> \<not> webhook_credential cfg r"
  shows "db (st (serve cfg parts reqs s)) = db (st s)"
  using assms
proof (induction reqs arbitrary: s)
  case Nil
  show ?case by simp
next
  case (Cons q reqs)
  obtain E r where q: "q = (E, r)" by (cases q)
  have "db (st (snd (newMux E cfg parts r None s))) = db (st s)"
    using newMux_db [of E cfg parts r None s] Cons.prems by (auto simp: q)
  moreover have "db (st (serve cfg parts reqs (snd (newMux E cfg parts r None s)))) = db (st (snd (newMux E cfg parts r None s)))"
    using Cons.prems by (intro Cons.IH) auto
  ultimately show ?case by (simp add: q)
qed

definition demo_ctl_env :: ctl_env where
  "demo_ctl_env = \<lparr>ce_auth = demo_auth_env, ce_media = demo_media_env 0,
     ce_os = (\<lambda>k. if k = ''BASIC_USER'' then ''ops'' else if k = ''BASIC_PASS'' then ''pw'' else ''''),
     ce_rng = id, ce_uid = ''u-1'', ce_now = 7, ce_created = 0, ce_tick = 0, ce_metrics = http_NotFound\<rparr>"

definition demo_ctl_cfg :: Config where
  "demo_ctl_cfg = defaultConfig\<lparr>cf_AuthMode := ''basic'', cf_WebhookSecret := ''s3cret''\<rparr>"

definition demo_ctl :: ctl_state where
  "demo_ctl = \<lparr>limiter = NewRateLimiter (limiter_config demo_ctl_cfg), deliveries = newDeliveryCache 32,
     st = demo_db (\<lambda>_. no_faults) []\<rparr>"

abbreviation all_parts :: ctl_parts where
  "all_parts \<equiv> \<lparr>has_api = True, has_media = True, has_limiter = True\<rparr>"

theorem unauthenticated_requests_change_nothing_witness:
  "db (st (serve demo_ctl_cfg all_parts [(demo_ctl_env, demo_create), (demo_ctl_env, demo_delivery)] demo_ctl)) = db (st demo_ctl)"
proof -
  have p: "api_protected demo_ctl_env demo_ctl_cfg" unfolding api_protected_def by code_simp
  have b: "\<not> api_credential demo_ctl_env demo_ctl_cfg r" if "Header r ''Authorization'' = ''''" for r
  proof -
    have "auth_mode (auth_config (ce_os demo_ctl_env) demo_ctl_cfg) = ''basic''"
      "header_key (auth_config (ce_os demo_ctl_env) demo_ctl_cfg) = ''Authorization''" "Fields '''' = []" by code_simp+
    with that show ?thesis by (simp add: api_credential_def basic_credential_def)
  qed
  have h: "Header demo_create ''Authorization'' = ''''" "Header demo_delivery ''Authorization'' = ''''"
    "Header demo_create ''X-Webhook-Secret'' \<noteq> ''s3cret''" "Header demo_delivery ''X-Webhook-Secret'' \<noteq> ''s3cret''" by code_simp+
  have w: "\<not> webhook_credential demo_ctl_cfg r" if "Header r ''X-Webhook-Secret'' \<noteq> ''s3cret''" for r
    using that by (simp add: webhook_credential_def webhook_authorized_def demo_ctl_cfg_def defaultConfig_def Let_def)
  show ?thesis
    by (rule unauthenticated_requests_change_nothing) (use p b h w in auto)
qed

text \<open>A response of the multiplexer keeps a security header that its handler does not set.\<close>

lemma newMux_security_header:
  assumes "(k, v) \<in> set (base_headers (security_config cfg))"
    and "\<And>pat. mux_route (routes cfg parts) r = Routed pat \<Longrightarrow> k \<notin> fst ` set (RHeaders (fst (serve_route E cfg parts pat r p s)))"
  shows "header_of (fst (newMux E cfg parts r p s)) k = Some v"
proof -
  have d: "distinct (map fst (base_headers c @ preflight_headers c))"
    "distinct (map fst (base_headers c @ [(''Access-Control-Allow-Origin'', x)]))" "distinct (map fst (base_headers c))" for c x
    by (simp_all add: base_headers_def preflight_headers_def)
  have nk: "k \<noteq> ''Location''" using assms(1) by (auto simp: base_headers_def split: if_splits)
  define inner where "inner = (case mux_route (routes cfg parts) r of
         Redirect u \<Rightarrow> (redirect_response u, s) | Unrouted \<Rightarrow> (http_NotFound, s)
       | Routed pat \<Rightarrow> serve_route E cfg parts pat r p s)"
  have i: "k \<notin> fst ` set (RHeaders (fst inner))"
    using assms(2) nk by (auto simp: inner_def redirect_response_def http_NotFound_def split: routed.splits)
  show ?thesis
    using assms(1) d with_headers_keep [OF i]
    by (auto simp: newMux_def SecurityHeaders_def inner_def [symmetric] header_of_def Let_def map_of_eq_Some_iff
        split: prod.splits)
qed

section \<open>The task ISO and its URL\<close>

text \<open>
  What the worker's URL functions are assumed to do with the media base: a scheme, a host and the
  path \<open>/media/tasks\<close>, printed back as they were.
\<close>

definition plain_urls :: "'s env \<Rightarrow> string \<Rightarrow> string \<Rightarrow> string \<Rightarrow> bool" where
  "plain_urls W base scheme host \<longleftrightarrow>
     url_parse W (trim_space base) = Inr \<lparr>Scheme = scheme, Path = ''/media/tasks'', rest = host\<rparr> \<and>
     (\<forall>p. url_string W \<lparr>Scheme = scheme, Path = p, rest = host\<rparr> = scheme @ ''://'' @ host @ p)"

lemma worker_task_url:
  assumes "plain_urls W (TaskISOMediaBase wcfg) scheme host" "composeTaskMediaURL W wcfg jobID = Inr u" "plain_elem jobID"
  shows "u = scheme @ ''://'' @ host @ task_path jobID"
proof -
  have p: "plain_elem ''media''" "plain_elem ''tasks''" "plain_elem ''task.iso''" by code_simp+
  have "path_join [CHR ''/'' # join_with ''/'' [''media'', ''tasks''], jobID, ''task.iso''] =
      CHR ''/'' # join_with ''/'' ([''media'', ''tasks''] @ [jobID, ''task.iso''])"
    by (rule path_join_rooted) (use p assms(3) in auto)
  then have "path_join [''/media/tasks'', jobID, ''task.iso''] = task_path jobID"
    by (simp add: task_path_def join_with_Cons)
  with assms(1,2) show ?thesis
    by (auto simp: composeTaskMediaURL_def plain_urls_def split: if_splits)
qed

lemma media_route:
  assumes "Method r = ''GET''" "plain_elem jobID" "URLPath r = task_path jobID" "has_media parts"
  shows "mux_route (routes cfg parts) r = Routed ''/media/tasks/''"
proof -
  have e: "plain_elem x" if "x \<in> set [''media'', ''tasks'', jobID, ''task.iso'']" for x
  proof -
    have "plain_elem ''media''" "plain_elem ''tasks''" "plain_elem ''task.iso''" by code_simp+
    with that assms(2) show ?thesis by auto
  qed
  have "path_clean (task_path jobID) = task_path jobID"
    using path_clean_rooted [of "[''media'', ''tasks'', jobID, ''task.iso'']"] e by (simp add: task_path_def)
  moreover have "has_prefix (task_path jobID) ''/''" "\<not> has_suffix (task_path jobID) ''/''" "task_path jobID \<noteq> []"
    by (simp_all add: task_path_def has_suffix_def)
  ultimately have c: "cleanPath (URLPath r) = URLPath r" by (simp add: assms(3) cleanPath_def Let_def)
  have m: "mux_match (routes cfg parts) (task_path jobID @ t) = Some ''/media/tasks/''" for t
    using assms(4) by (simp add: mux_match_def routes_def pattern_matches_def has_suffix_def task_path_def)
  have n: "''/media/tasks/'' \<noteq> task_path jobID @ t" for t by (simp add: task_path_def)
  show ?thesis
    using c m [of "''''"] m [of "''/''"] n [of "''''"] n [of "''/''"] assms(1)
    by (simp add: mux_route_def Let_def assms(3))
qed

text \<open>
  Signing locks the workers out: with \<open>MEDIA_SIGNING_SECRET\<close> set, the URL a worker composes
  for the task ISO of a job and mounts on the BMC carries no signature, so the request for
  exactly that URL is answered 403 by the controller's own media handler. (\<open>GenerateSignedURL\<close>
  has no caller.)
\<close>

lemma signed_media_denies_worker_url:
  assumes "cf_MediaSigningSecret cfg \<noteq> ''''" and "has_media parts"
    and "plain_urls W (TaskISOMediaBase wcfg) scheme host" and "composeTaskMediaURL W wcfg jobID = Inr u"
    and "plain_elem jobID" and "CHR ''?'' \<notin> set (scheme @ host @ jobID)"
    and "scheme @ ''://'' @ host @ URLPath r = fst (cut u CHR ''?'')" and "Query r = query_Get (snd (cut u CHR ''?''))"
    and "Method r = ''GET''"
  shows "RCode (fst (newMux E cfg parts r None s)) = StatusForbidden"
proof -
  have u: "u = scheme @ ''://'' @ host @ task_path jobID" by (rule worker_task_url [OF assms(3-5)])
  have nq: "CHR ''?'' \<notin> set u" using assms(6) by (simp add: u task_path_def)
  then have c: "cut u CHR ''?'' = (u, '''')" by (simp add: cut_def index_byte_None [THEN iffD2])
  have p: "URLPath r = task_path jobID" using assms(7) [unfolded c fst_conv] u by simp
  have q: "Query r k = ''''" for k using assms(8) by (simp add: c query_Get_def ParseQuery_def map_filter_simps query_pair_def)
  have "media_job r = Some jobID" using assms(5) p by (intro task_path_job) (auto dest: plain_elemD)
  then have "RCode (media_ServeHTTP (ce_media E) (media_config cfg) r) = StatusForbidden"
    using assms(1,9) q by (simp add: media_ServeHTTP_def media_config_def validateSignedURL_def)
  then show ?thesis
    using assms(9) media_route [OF assms(9,5) p assms(2), of cfg]
    by (simp add: newMux_def SecurityHeaders_def security_config_def serve_route_def Let_def)
qed

definition signing_cfg :: Config where
  "signing_cfg = defaultConfig\<lparr>cf_MediaSigningSecret := ''k''\<rparr>"

lemma signed_media_denies_worker_url_instance:
  "composeTaskMediaURL demo_env demo_cfg ''j-1'' = Inr ''http://c/media/tasks/j-1/task.iso'' \<and>
   RCode (fst (newMux demo_ctl_env signing_cfg all_parts (demo_media_get ''/media/tasks/j-1/task.iso'' ''10.0.0.7:99'') None demo_ctl))
     = StatusForbidden"
proof -
  let ?r = "demo_media_get ''/media/tasks/j-1/task.iso'' ''10.0.0.7:99''"
  let ?u = "''http://c/media/tasks/j-1/task.iso''"
  have t: "trim_space (TaskISOMediaBase demo_cfg) = ''http://c/media/tasks''" by code_simp
  have pl: "plain_urls demo_env (TaskISOMediaBase demo_cfg) ''http'' ''c''"
    unfolding plain_urls_def t by (simp add: demo_env_def)
  have u: "composeTaskMediaURL demo_env demo_cfg ''j-1'' = Inr ?u" by code_simp
  have r: "''http'' @ ''://'' @ ''c'' @ URLPath ?r = fst (cut ?u CHR ''?'')" "plain_elem ''j-1''"
    "CHR ''?'' \<notin> set (''http'' @ ''c'' @ ''j-1'')" by code_simp+
  have q: "Query ?r = query_Get (snd (cut ?u CHR ''?''))"
    by (rule ext) (simp add: demo_media_get_def cut_def)
  show ?thesis
    using signed_media_denies_worker_url [OF _ _ pl u r(2,3) r(1) q, of signing_cfg all_parts demo_ctl_env demo_ctl] u
    by (simp add: signing_cfg_def defaultConfig_def demo_media_get_def)
qed

text \<open>
  The maintenance ISO of the default configuration, \<open>/media/isos/bootc-maintenance.iso\<close> on the
  controller itself, has no route: the request falls to the root pattern and is answered 200
  with the JSON banner.
\<close>

lemma default_maintenance_iso_is_banner:
  "RBody (fst (newMux E defaultConfig all_parts (demo_media_get ''/media/isos/bootc-maintenance.iso'' a) None s)) = RBody root_banner"
proof -
  have "mux_route (routes defaultConfig all_parts) (demo_media_get ''/media/isos/bootc-maintenance.iso'' a) = Routed ''/''"
    by code_simp
  then show ?thesis
    by (simp add: newMux_def SecurityHeaders_def security_config_def defaultConfig_def serve_route_def demo_media_get_def Let_def)
qed

text \<open>With \<open>ENABLE_REGISTRY\<close> the registry's paths are answered 501.\<close>

lemma registry_not_wired:
  assumes "cf_EnableRegistry cfg" "\<not> cf_EnableCORS cfg" "mux_route (routes cfg parts) r = Routed ''/v2/''"
  shows "RCode (fst (newMux E cfg parts r p s)) = 501"
  using assms by (simp add: newMux_def SecurityHeaders_def security_config_def serve_route_def registryHandler_def
      notImplementedHandler_def Let_def)

end
