(* ===== verification/RegistryConfig.thy ===== *)
theory RegistryConfig
  imports GoLib
begin

text \<open>
  The registry's configuration (\<open>internal/provisioner/config/config.go\<close>): loading it from the
  environment and validating it. \<open>time.ParseDuration\<close> is the argument \<open>ParseDuration\<close>; the error of
  \<open>os.Stat\<close> on a path, if any, is the argument \<open>stat\<close>. On an error the loader returns the
  configuration read so far beside it, as the source does.
\<close>

record RegistryConfig =
  rc_Enabled :: bool
  rc_StorageRoot :: string
  rc_AuthMode :: string
  rc_HtpasswdFile :: string
  rc_GCInterval :: time
  rc_GCGracePeriod :: time
  rc_MaxConcurrentUploads :: int
  rc_UploadTimeout :: time
  rc_DownloadTimeout :: time
  rc_EnableAuditLog :: bool
  rc_AuditLogPath :: string

definition DefaultRegistryConfig :: RegistryConfig where
  "DefaultRegistryConfig =
     \<lparr>rc_Enabled = True, rc_StorageRoot = ''/var/lib/shoal/oci'', rc_AuthMode = ''none'', rc_HtpasswdFile = '''',
      rc_GCInterval = 1 * time_Hour, rc_GCGracePeriod = 24 * time_Hour, rc_MaxConcurrentUploads = 8,
      rc_UploadTimeout = 1 * time_Hour, rc_DownloadTimeout = 30 * time_Minute, rc_EnableAuditLog = True,
      rc_AuditLogPath = ''''\<rparr>"

text \<open>One variable: the configuration with it applied, and the error if it is invalid.\<close>

type_synonym load_step = "RegistryConfig \<Rightarrow> RegistryConfig \<times> string option"

definition env_bool :: "environ \<Rightarrow> string \<Rightarrow> (bool \<Rightarrow> RegistryConfig \<Rightarrow> RegistryConfig) \<Rightarrow> load_step" where
  "env_bool os key upd cfg =
     (if os key = '''' then (cfg, None)
      else (case ParseBool (os key) of
              None \<Rightarrow> (cfg, Some (''invalid '' @ key @ '' value''))
            | Some b \<Rightarrow> (upd b cfg, None)))"

definition env_string :: "environ \<Rightarrow> string \<Rightarrow> (string \<Rightarrow> RegistryConfig \<Rightarrow> RegistryConfig) \<Rightarrow> load_step" where
  "env_string os key upd cfg = (if os key = '''' then (cfg, None) else (upd (os key) cfg, None))"

definition env_duration ::
  "(string \<Rightarrow> time option) \<Rightarrow> environ \<Rightarrow> string \<Rightarrow> time \<Rightarrow> string \<Rightarrow> (time \<Rightarrow> RegistryConfig \<Rightarrow> RegistryConfig) \<Rightarrow> load_step" where
  "env_duration ParseDuration os key least least_text upd cfg =
     (if os key = '''' then (cfg, None)
      else (case ParseDuration (os key) of
              None \<Rightarrow> (cfg, Some (''invalid '' @ key))
            | Some d \<Rightarrow> if d < least then (cfg, Some (key @ '' must be at least '' @ least_text)) else (upd d cfg, None)))"

definition env_auth_mode :: "environ \<Rightarrow> load_step" where
  "env_auth_mode os cfg =
     (let v = os ''REGISTRY_AUTH_MODE'' in
      if v = '''' then (cfg, None)
      else if v \<noteq> ''none'' \<and> v \<noteq> ''basic'' \<and> v \<noteq> ''htpasswd'' then (cfg, Some (''invalid REGISTRY_AUTH_MODE: must be '' @ [CHR 0x27] @ ''none'' @ [CHR 0x27] @ '', '' @ [CHR 0x27] @ ''basic'' @ [CHR 0x27] @
          '', or '' @ [CHR 0x27] @ ''htpasswd'' @ [CHR 0x27] @ '', got '' @ [CHR 0x22] @ v @ [CHR 0x22]))
      else (cfg\<lparr>rc_AuthMode := v\<rparr>, None))"

definition env_max_uploads :: "environ \<Rightarrow> load_step" where
  "env_max_uploads os cfg =
     (let v = os ''REGISTRY_MAX_CONCURRENT_UPLOADS'' in
      if v = '''' then (cfg, None)
      else (case ParseInt v of
              None \<Rightarrow> (cfg, Some ''invalid REGISTRY_MAX_CONCURRENT_UPLOADS'')
            | Some n \<Rightarrow>
                if n < 1 \<or> n > 100 then (cfg, Some ''REGISTRY_MAX_CONCURRENT_UPLOADS must be between 1 and 100'')
                else (cfg\<lparr>rc_MaxConcurrentUploads := n\<rparr>, None)))"

definition load_steps :: "(string \<Rightarrow> time option) \<Rightarrow> environ \<Rightarrow> load_step list" where
  "load_steps ParseDuration os =
     [env_bool os ''ENABLE_REGISTRY'' (\<lambda>b c. c\<lparr>rc_Enabled := b\<rparr>),
      env_string os ''REGISTRY_STORAGE'' (\<lambda>v c. c\<lparr>rc_StorageRoot := v\<rparr>),
      env_auth_mode os,
      env_string os ''REGISTRY_HTPASSWD_FILE'' (\<lambda>v c. c\<lparr>rc_HtpasswdFile := v\<rparr>),
      env_duration ParseDuration os ''REGISTRY_GC_INTERVAL'' time_Minute ''1 minute'' (\<lambda>d c. c\<lparr>rc_GCInterval := d\<rparr>),
      env_duration ParseDuration os ''REGISTRY_GC_GRACE_PERIOD'' time_Hour ''1 hour'' (\<lambda>d c. c\<lparr>rc_GCGracePeriod := d\<rparr>),
      env_max_uploads os,
      env_duration ParseDuration os ''REGISTRY_UPLOAD_TIMEOUT'' time_Minute ''1 minute'' (\<lambda>d c. c\<lparr>rc_UploadTimeout := d\<rparr>),
      env_duration ParseDuration os ''REGISTRY_DOWNLOAD_TIMEOUT'' time_Minute ''1 minute'' (\<lambda>d c. c\<lparr>rc_DownloadTimeout := d\<rparr>),
      env_bool os ''REGISTRY_ENABLE_AUDIT_LOG'' (\<lambda>b c. c\<lparr>rc_EnableAuditLog := b\<rparr>),
      env_string os ''REGISTRY_AUDIT_LOG_PATH'' (\<lambda>v c. c\<lparr>rc_AuditLogPath := v\<rparr>)]"

fun run_steps :: "load_step list \<Rightarrow> load_step" where
  "run_steps [] cfg = (cfg, None)"
| "run_steps (f # fs) cfg = (case f cfg of (cfg', None) \<Rightarrow> run_steps fs cfg' | (cfg', Some e) \<Rightarrow> (cfg', Some e))"

definition LoadRegistryConfigFromEnv :: "(string \<Rightarrow> time option) \<Rightarrow> environ \<Rightarrow> RegistryConfig \<times> string option" where
  "LoadRegistryConfigFromEnv ParseDuration os = run_steps (load_steps ParseDuration os) DefaultRegistryConfig"

definition Validate :: "(string \<Rightarrow> string option) \<Rightarrow> RegistryConfig \<Rightarrow> string option" where
  "Validate stat c =
     (if \<not> rc_Enabled c then None
      else if rc_StorageRoot c = '''' then Some ''REGISTRY_STORAGE cannot be empty''
      else if rc_AuthMode c = ''htpasswd'' \<and> rc_HtpasswdFile c = ''''
        then Some (''REGISTRY_HTPASSWD_FILE is required when REGISTRY_AUTH_MODE is '' @ [CHR 0x27] @ ''htpasswd'' @ [CHR 0x27])
      else if rc_AuthMode c = ''htpasswd'' \<and> stat (rc_HtpasswdFile c) \<noteq> None
        then Some (''REGISTRY_HTPASSWD_FILE not accessible: '' @ the (stat (rc_HtpasswdFile c)))
      else if rc_GCInterval c < 1 * time_Minute then Some ''REGISTRY_GC_INTERVAL must be at least 1 minute''
      else if rc_GCGracePeriod c < 1 * time_Hour then Some ''REGISTRY_GC_GRACE_PERIOD must be at least 1 hour''
      else if rc_MaxConcurrentUploads c < 1 \<or> rc_MaxConcurrentUploads c > 100
        then Some ''REGISTRY_MAX_CONCURRENT_UPLOADS must be between 1 and 100''
      else if rc_UploadTimeout c < 1 * time_Minute then Some ''REGISTRY_UPLOAD_TIMEOUT must be at least 1 minute''
      else if rc_DownloadTimeout c < 1 * time_Minute then Some ''REGISTRY_DOWNLOAD_TIMEOUT must be at least 1 minute''
      else None)"

section \<open>Loading gives a valid configuration\<close>

text \<open>The bounds \<open>Validate\<close> checks, which every step keeps, also one that fails.\<close>

definition limits_valid :: "RegistryConfig \<Rightarrow> bool" where
  "limits_valid c \<longleftrightarrow> rc_StorageRoot c \<noteq> '''' \<and> rc_AuthMode c \<in> {''none'', ''basic'', ''htpasswd''} \<and>
     time_Minute \<le> rc_GCInterval c \<and> time_Hour \<le> rc_GCGracePeriod c \<and>
     1 \<le> rc_MaxConcurrentUploads c \<and> rc_MaxConcurrentUploads c \<le> 100 \<and>
     time_Minute \<le> rc_UploadTimeout c \<and> time_Minute \<le> rc_DownloadTimeout c"

definition keeps :: "load_step \<Rightarrow> bool" where
  "keeps f \<longleftrightarrow> (\<forall>c. limits_valid c \<longrightarrow> limits_valid (fst (f c)))"

lemma keeps_bool: "(\<And>b c. limits_valid c \<Longrightarrow> limits_valid (upd b c)) \<Longrightarrow> keeps (env_bool os k upd)"
  by (simp add: keeps_def env_bool_def split: option.splits)

lemma keeps_string:
  "(\<And>v c. v \<noteq> '''' \<Longrightarrow> limits_valid c \<Longrightarrow> limits_valid (upd v c)) \<Longrightarrow> keeps (env_string os k upd)"
  by (simp add: keeps_def env_string_def)

lemma keeps_duration:
  "(\<And>d c. least \<le> d \<Longrightarrow> limits_valid c \<Longrightarrow> limits_valid (upd d c)) \<Longrightarrow> keeps (env_duration P os k least txt upd)"
  by (simp add: keeps_def env_duration_def split: option.splits)

lemma keeps_auth_mode: "keeps (env_auth_mode os)"
  by (simp add: keeps_def env_auth_mode_def limits_valid_def Let_def)

lemma keeps_max_uploads: "keeps (env_max_uploads os)"
  by (simp add: keeps_def env_max_uploads_def limits_valid_def Let_def split: option.splits)

lemma load_steps_keep: "list_all keeps (load_steps P os)"
  unfolding load_steps_def list.pred_inject
  by (intro conjI TrueI keeps_bool keeps_string keeps_duration keeps_auth_mode keeps_max_uploads) (simp_all add: limits_valid_def)

lemma run_steps_valid: "list_all keeps fs \<Longrightarrow> limits_valid c \<Longrightarrow> limits_valid (fst (run_steps fs c))"
proof (induction fs arbitrary: c)
  case Nil
  then show ?case by simp
next
  case (Cons f fs)
  then have "limits_valid (fst (f c))" by (simp add: keeps_def)
  then show ?case using Cons by (cases "f c") (auto split: option.splits)
qed

text \<open>
  Whatever the environment holds, the configuration the loader returns, with or without an
  error, keeps the limits; a loaded configuration fails validation only for its password file.
\<close>

lemma loaded_config_valid:
  assumes "LoadRegistryConfigFromEnv P os = (c, e)"
  shows "limits_valid c \<and>
    (Validate stat c \<noteq> None \<longrightarrow> rc_AuthMode c = ''htpasswd'' \<and> (rc_HtpasswdFile c = '''' \<or> stat (rc_HtpasswdFile c) \<noteq> None))"
proof -
  have "limits_valid DefaultRegistryConfig" by code_simp
  then have "limits_valid c"
    using run_steps_valid [OF load_steps_keep [of P os], of DefaultRegistryConfig] assms
    by (simp add: LoadRegistryConfigFromEnv_def)
  then show ?thesis by (auto simp: limits_valid_def Validate_def split: if_splits)
qed

end
