(* ===== verification/RedfishHttp.thy ===== *)
theory RedfishHttp
  imports Redfish GoLib
begin

text \<open>
  The Redfish client over HTTP (\<open>internal/provisioner/redfish/http_client.go\<close>, with \<open>NewClient\<close>,
  \<open>Ping\<close> and \<open>SystemPowerState\<close> of \<open>client.go\<close>).

  The BMC and the network are a state \<open>'w\<close> that \<open>hc_Do\<close> transforms, one request at a time; the
  clock, \<open>time.Sleep\<close>, \<open>net/url\<close> and \<open>http.ParseTime\<close> are the other fields of \<open>rf_env\<close>. The state of
  a call is the client, that world, and the requests sent so far. A response body is given as
  its bytes and as the tree \<open>encoding/json\<close> makes of them. Metrics and log lines are not
  represented, and the text of a JSON decoding error is not.

  The variables \<open>lastErr\<close>, \<open>lastResp\<close> and \<open>lastBody\<close> of \<open>do\<close> are read only after its loop, which ends
  without a return only in the round that has just set them, so the round returns them itself.
\<close>

section \<open>Requests, responses and state\<close>

record wire_req =
  rq_method :: string
  rq_url :: string
  rq_headers :: "(string \<times> string) list"
  rq_body :: "json option"

record wire_resp =
  StatusCode :: int
  resp_header :: "string \<Rightarrow> string"
  resp_bytes :: string
  resp_tree :: raw_message

record 'w rf_env =
  hc_Do :: "wire_req \<Rightarrow> 'w \<Rightarrow> (string + wire_resp) \<times> 'w"
  rf_now :: "'w \<Rightarrow> time"
  rf_sleep :: "time \<Rightarrow> 'w \<Rightarrow> 'w"
  bad_request :: "string \<Rightarrow> string \<Rightarrow> string option"
  url_JoinPath :: "string \<Rightarrow> string \<Rightarrow> string option"
  parse_URL :: "string \<Rightarrow> string + url"
  http_ParseTime :: "string \<Rightarrow> time option"

record client_config =
  cl_Endpoint :: string
  cl_Username :: string
  cl_Password :: string
  cl_Vendor :: string
  cl_Retries :: int
  cl_Timeout :: time

record httpClient =
  hc_cfg :: client_config
  hc_Timeout :: time
  baseURL :: string
  token :: string
  sessionPath :: string
  retryMax :: int
  retryBase :: time
  retryCap :: time
  systemPath :: string
  managerPath :: string
  vmCDPaths :: "string list"
  discoveredAt :: "time option"

record 'w rf_state =
  rf_client :: httpClient
  rf_world :: 'w
  sent :: "wire_req list"

section \<open>Vendors and construction\<close>

definition isIDRAC :: "string \<Rightarrow> bool" where
  "isIDRAC vendor = (let v = to_lower (trim_space vendor) in v = ''idrac'' \<or> contains v ''dell'')"

definition isILO :: "string \<Rightarrow> bool" where
  "isILO vendor = (let v = to_lower (trim_space vendor) in v = ''ilo'' \<or> contains v ''hpe'' \<or> contains v ''hp'')"

definition isSupermicro :: "string \<Rightarrow> bool" where
  "isSupermicro vendor = (let v = to_lower (trim_space vendor) in contains v ''supermicro'')"

record vendorProfile =
  vp_retryMax :: int
  vp_retryBase :: time
  vp_retryCap :: time

definition profileForVendor :: "string \<Rightarrow> vendorProfile" where
  "profileForVendor vendor =
     (let profile = \<lparr>vp_retryMax = 5, vp_retryBase = 200 * time_Millisecond, vp_retryCap = 8 * time_Second\<rparr> in
      if isIDRAC vendor then profile\<lparr>vp_retryMax := 7, vp_retryCap := 15 * time_Second\<rparr>
      else if isILO vendor then profile\<lparr>vp_retryMax := 6, vp_retryCap := 12 * time_Second\<rparr>
      else if isSupermicro vendor then profile\<lparr>vp_retryCap := 10 * time_Second\<rparr>
      else profile)"

definition maxDur :: "time \<Rightarrow> time \<Rightarrow> time" where
  "maxDur a b = (if a > b then a else b)"

definition NewHTTPClient :: "'w rf_env \<Rightarrow> client_config \<Rightarrow> string + httpClient" where
  "NewHTTPClient E c =
     (if cl_Endpoint c = '''' then Inl ''redfish: endpoint is empty''
      else (case parse_URL E (cl_Endpoint c) of
              Inl e \<Rightarrow> Inl (''redfish: invalid endpoint: '' @ e)
            | Inr u \<Rightarrow>
                if Scheme u \<noteq> ''http'' \<and> Scheme u \<noteq> ''https''
                then Inl (''redfish: unsupported endpoint scheme '' @ [CHR 0x22] @ Scheme u @ [CHR 0x22])
                else let profile = profileForVendor (cl_Vendor c) in
                     Inr \<lparr>hc_cfg = c, hc_Timeout = maxDur (cl_Timeout c) (30 * time_Second), baseURL = cl_Endpoint c,
                          token = '''', sessionPath = '''',
                          retryMax = (if cl_Retries c > 0 then cl_Retries c else vp_retryMax profile),
                          retryBase = vp_retryBase profile, retryCap = vp_retryCap profile,
                          systemPath = '''', managerPath = '''', vmCDPaths = [], discoveredAt = None\<rparr>))"

text \<open>Which client \<open>NewClient\<close> makes for a mode.\<close>

datatype made_client = NoopClient noop_config | HTTPClient httpClient

definition NewClient :: "'w rf_env \<Rightarrow> client_config \<Rightarrow> string \<Rightarrow> time \<Rightarrow> string + made_client" where
  "NewClient E c mode delay =
     (if mode = ''noop'' then Inr (NoopClient \<lparr>Endpoint = cl_Endpoint c, noop_delay = delay\<rparr>)
      else if mode = '''' \<or> mode = ''http''
      then (case NewHTTPClient E c of Inl e \<Rightarrow> Inl e | Inr cl \<Rightarrow> Inr (HTTPClient cl))
      else Inl (''unsupported redfish client mode '' @ [CHR 0x22] @ mode @ [CHR 0x22]))"

section \<open>Helpers\<close>

definition trim_suffix :: "string \<Rightarrow> string \<Rightarrow> string" where
  "trim_suffix s t = (if has_suffix s t then take (length s - length t) s else s)"

definition joinPath :: "string \<Rightarrow> string \<Rightarrow> string" where
  "joinPath base rel = trim_suffix base ''/'' @ ''/'' @ trim_prefix rel ''/''"

definition lastSegment :: "string \<Rightarrow> string" where
  "lastSegment p =
     (let q = trim_suffix p ''/'' in
      case last_index_byte q CHR ''/'' of Some i \<Rightarrow> drop (Suc i) q | None \<Rightarrow> q)"

definition truncate :: "string \<Rightarrow> int \<Rightarrow> string" where
  "truncate s n = (if n \<le> 0 \<or> int (length s) \<le> n then s else take (nat n) s)"

definition toBootTarget :: "BootDevice \<Rightarrow> string + string" where
  "toBootTarget d =
     (if d = BootDeviceCD then Inr ''Cd''
      else if d = BootDevicePXE then Inr ''Pxe''
      else if d = BootDeviceHDD then Inr ''Hdd''
      else Inl (''unsupported BootDevice: '' @ d))"

definition normalizePowerState :: "string \<Rightarrow> PowerState" where
  "normalizePowerState raw =
     (let v = filter (\<lambda>c. c \<noteq> CHR '' '' \<and> c \<noteq> CHR ''-'') (to_lower (trim_space raw)) in
      if v = ''on'' then PowerStateOn
      else if v = ''off'' then PowerStateOff
      else if v = ''poweringon'' then PowerStatePoweringOn
      else if v = ''poweringoff'' then PowerStatePoweringOff
      else if v = ''resetting'' \<or> v = ''reset'' then PowerStateResetting
      else if v = ''standby'' \<or> v = ''standbyoffline'' \<or> v = ''standbyspare'' then PowerStateStandby
      else PowerStateUnknown)"

text \<open>The delay before the next attempt; \<open>nanos\<close> is the clock reading the jitter is taken from.\<close>

definition backoff :: "httpClient \<Rightarrow> int \<Rightarrow> time \<Rightarrow> time" where
  "backoff c attempt nanos =
     (let a = (if attempt < 1 then 1 else attempt);
          base = (if retryBase c \<le> 0 then 200 * time_Millisecond else retryBase c);
          cap = (if retryCap c \<le> 0 then 8 * time_Second else retryCap c);
          d0 = wrap64 (base * 2 ^ nat (a - 1));
          d = (if d0 > cap then cap else d0);
          jitterRange = go_quot d 5
      in if jitterRange > 0 then wrap64 (d + go_rem nanos jitterRange) else d)"

definition parseRetryAfter :: "'w rf_env \<Rightarrow> string \<Rightarrow> time \<Rightarrow> time option" where
  "parseRetryAfter E hdr t =
     (let val = trim_space hdr in
      if val = '''' then None
      else (case ParseInt val of
              Some secs \<Rightarrow> if secs \<le> 0 then Some 0 else Some (wrap64 (secs * time_Second))
            | None \<Rightarrow>
                (case http_ParseTime E val of
                   Some when \<Rightarrow> if when > t then Some (when - t) else Some 0
                 | None \<Rightarrow> None)))"

definition authHeader :: "httpClient \<Rightarrow> string" where
  "authHeader c =
     ''Basic '' @ EncodeToString StdEncoding (trim_space (cl_Username (hc_cfg c)) @ '':'' @ cl_Password (hc_cfg c))"

definition buildURL :: "'w rf_env \<Rightarrow> httpClient \<Rightarrow> string \<Rightarrow> string" where
  "buildURL E c rel =
     (let r = ''/'' @ trim_prefix rel ''/'' in
      case url_JoinPath E (baseURL c) r of
        Some u \<Rightarrow> u
      | None \<Rightarrow> rev (dropWhile (\<lambda>ch. ch = CHR ''/'') (rev (baseURL c))) @ r)"

definition has_credentials :: "httpClient \<Rightarrow> bool" where
  "has_credentials c \<longleftrightarrow> cl_Username (hc_cfg c) \<noteq> '''' \<or> cl_Password (hc_cfg c) \<noteq> ''''"

definition make_request :: "'w rf_env \<Rightarrow> httpClient \<Rightarrow> string \<Rightarrow> string \<Rightarrow> json option \<Rightarrow> bool \<Rightarrow> wire_req" where
  "make_request E c method rel body expectJSON =
     \<lparr>rq_method = method, rq_url = buildURL E c rel,
      rq_headers =
        (if expectJSON then [(''Accept'', ''application/json'')] else []) @
        (if body \<noteq> None then [(''Content-Type'', ''application/json'')] else []) @
        (if token c \<noteq> '''' then [(''X-Auth-Token'', token c)]
         else if has_credentials c then [(''Authorization'', authHeader c)]
         else []),
      rq_body = body\<rparr>"

definition send :: "'w rf_env \<Rightarrow> wire_req \<Rightarrow> 'w rf_state \<Rightarrow> (string + wire_resp) \<times> 'w rf_state" where
  "send E req s =
     (case hc_Do E req (rf_world s) of (r, w) \<Rightarrow> (r, s\<lparr>rf_world := w, sent := sent s @ [req]\<rparr>))"

definition pause :: "'w rf_env \<Rightarrow> time \<Rightarrow> 'w rf_state \<Rightarrow> 'w rf_state" where
  "pause E d s = s\<lparr>rf_world := rf_sleep E d (rf_world s)\<rparr>"

section \<open>Sessions\<close>

abbreviation sessions_path :: string where "sessions_path \<equiv> ''/redfish/v1/SessionService/Sessions''"

definition session_request :: "'w rf_env \<Rightarrow> httpClient \<Rightarrow> wire_req" where
  "session_request E c =
     \<lparr>rq_method = ''POST'', rq_url = buildURL E c sessions_path,
      rq_headers = [(''Content-Type'', ''application/json''), (''Accept'', ''application/json'')] @
        (if has_credentials c then [(''Authorization'', authHeader c)] else []),
      rq_body = Some (JObj [(''UserName'', JStr (cl_Username (hc_cfg c))), (''Password'', JStr (cl_Password (hc_cfg c)))])\<rparr>"

definition location_path :: "'w rf_env \<Rightarrow> string \<Rightarrow> string \<Rightarrow> string" where
  "location_path E loc old =
     (if loc = '''' then old
      else if has_prefix loc ''/'' then loc
      else (case parse_URL E loc of Inr u \<Rightarrow> if Path u \<noteq> '''' then Path u else old | Inl e \<Rightarrow> old))"

text \<open>\<open>startSession\<close>: the error, if any.\<close>

definition startSession :: "'w rf_env \<Rightarrow> 'w rf_state \<Rightarrow> string option \<times> 'w rf_state" where
  "startSession E s =
     (let c = rf_client s in
      if trim_space (cl_Username (hc_cfg c)) = '''' then (Some ''no username for session auth'', s)
      else (case bad_request E ''POST'' (buildURL E c sessions_path) of
              Some e \<Rightarrow> (Some e, s)
            | None \<Rightarrow>
                (case send E (session_request E c) s of
                   (Inl e, s1) \<Rightarrow> (Some e, s1)
                 | (Inr resp, s1) \<Rightarrow>
                     if StatusCode resp < 200 \<or> StatusCode resp \<ge> 300
                     then (Some (''session create failed: status='' @ itoa (StatusCode resp) @ '' body='' @
                                 truncate (resp_bytes resp) 512), s1)
                     else let c1 = c\<lparr>sessionPath := location_path E (resp_header resp ''Location'') (sessionPath c)\<rparr> in
                          if resp_header resp ''X-Auth-Token'' \<noteq> ''''
                          then (None, s1\<lparr>rf_client := c1\<lparr>token := resp_header resp ''X-Auth-Token''\<rparr>\<rparr>)
                          else (Some ''session token not provided'', s1\<lparr>rf_client := c1\<rparr>))))"

section \<open>Requests with retries\<close>

definition status_error :: "string \<Rightarrow> string \<Rightarrow> wire_resp \<Rightarrow> string" where
  "status_error method rel resp =
     ''http '' @ method @ '' '' @ rel @ '': status='' @ itoa (StatusCode resp) @ '' body='' @ truncate (resp_bytes resp) 512"

definition retryable :: "wire_resp \<Rightarrow> bool" where
  "retryable resp \<longleftrightarrow> StatusCode resp \<ge> 500 \<and> StatusCode resp \<le> 599 \<or> StatusCode resp = StatusTooManyRequests"

definition retry_delay :: "'w rf_env \<Rightarrow> int \<Rightarrow> wire_resp \<Rightarrow> 'w rf_state \<Rightarrow> time" where
  "retry_delay E attempt resp s =
     (let sleep = backoff (rf_client s) attempt (rf_now E (rf_world s)) in
      if StatusCode resp = StatusTooManyRequests
      then (case parseRetryAfter E (resp_header resp ''Retry-After'') (rf_now E (rf_world s)) of
              Some ra \<Rightarrow> if ra > sleep then ra else sleep
            | None \<Rightarrow> sleep)
      else sleep)"

text \<open>A round ends the call, or asks for another one after some work on the state.\<close>

datatype 's round = Return "wire_resp option" "string option" 's | Again 's

definition judge ::
  "'w rf_env \<Rightarrow> string \<Rightarrow> string \<Rightarrow> bool \<Rightarrow> int \<Rightarrow> wire_resp \<Rightarrow> 'w rf_state \<Rightarrow> 'w rf_state round" where
  "judge E method rel retry attempt resp s =
     (if StatusCode resp \<ge> 200 \<and> StatusCode resp < 300 then Return (Some resp) None s
      else if retryable resp
      then (if retry then Again (pause E (retry_delay E attempt resp s) s)
            else Return (Some resp) (Some (status_error method rel resp)) s)
      else Return (Some resp) (Some (status_error method rel resp)) s)"

definition forget_session :: "'w rf_state \<Rightarrow> 'w rf_state" where
  "forget_session s = s\<lparr>rf_client := (rf_client s)\<lparr>token := '''', sessionPath := ''''\<rparr>\<rparr>"

definition do_round ::
  "'w rf_env \<Rightarrow> string \<Rightarrow> string \<Rightarrow> json option \<Rightarrow> bool \<Rightarrow> bool \<Rightarrow> int \<Rightarrow> 'w rf_state \<Rightarrow> 'w rf_state round" where
  "do_round E method rel body expectJSON retry attempt s =
     (let req = make_request E (rf_client s) method rel body expectJSON in
      case bad_request E method (rq_url req) of
        Some e \<Rightarrow> Return None (Some e) s
      | None \<Rightarrow>
          (case send E req s of
             (Inl e, s1) \<Rightarrow>
               if retry then Again (pause E (backoff (rf_client s1) attempt (rf_now E (rf_world s1))) s1)
               else Return None (Some e) s1
           | (Inr resp, s1) \<Rightarrow>
               if StatusCode resp = StatusUnauthorized \<and> has_credentials (rf_client s1)
               then (case startSession E (forget_session s1) of
                       (serr, s2) \<Rightarrow> if serr = None \<and> retry then Again s2 else judge E method rel retry attempt resp s2)
               else judge E method rel retry attempt resp s1))"

fun do_loop ::
  "'w rf_env \<Rightarrow> string \<Rightarrow> string \<Rightarrow> json option \<Rightarrow> bool \<Rightarrow> nat \<Rightarrow> int \<Rightarrow> 'w rf_state \<Rightarrow>
   (wire_resp option \<times> string option) \<times> 'w rf_state" where
  "do_loop E method rel body expectJSON 0 attempt s =
     (case do_round E method rel body expectJSON False attempt s of
        Return r e s1 \<Rightarrow> ((r, e), s1)
      | Again s1 \<Rightarrow> ((None, None), s1))"
| "do_loop E method rel body expectJSON (Suc left) attempt s =
     (case do_round E method rel body expectJSON True attempt s of
        Return r e s1 \<Rightarrow> ((r, e), s1)
      | Again s1 \<Rightarrow> do_loop E method rel body expectJSON left (attempt + 1) s1)"

definition attempts :: "httpClient \<Rightarrow> int" where
  "attempts c = (if retryMax c \<le> 0 then 1 else retryMax c)"

definition do_request ::
  "'w rf_env \<Rightarrow> string \<Rightarrow> string \<Rightarrow> json option \<Rightarrow> bool \<Rightarrow> 'w rf_state \<Rightarrow>
   (wire_resp option \<times> string option) \<times> 'w rf_state" where
  "do_request E method rel body expectJSON s =
     do_loop E method rel body expectJSON (nat (attempts (rf_client s)) - 1) 1 s"

definition getJSON ::
  "'w rf_env \<Rightarrow> string \<Rightarrow> (raw_message \<Rightarrow> 'a option) \<Rightarrow> 'w rf_state \<Rightarrow> (string + 'a) \<times> 'w rf_state" where
  "getJSON E rel decode s =
     (case do_request E ''GET'' rel None True s of
        ((r, Some e), s1) \<Rightarrow> (Inl e, s1)
      | ((r, None), s1) \<Rightarrow>
          (case decode (case r of None \<Rightarrow> RawEmpty | Some resp \<Rightarrow> resp_tree resp) of
             None \<Rightarrow> (Inl ''decode json'', s1)
           | Some v \<Rightarrow> (Inr v, s1)))"

definition postJSON :: "'w rf_env \<Rightarrow> string \<Rightarrow> json \<Rightarrow> 'w rf_state \<Rightarrow> string option \<times> 'w rf_state" where
  "postJSON E rel body s = (case do_request E ''POST'' rel (Some body) True s of ((r, e), s1) \<Rightarrow> (e, s1))"

definition patchJSON :: "'w rf_env \<Rightarrow> string \<Rightarrow> json \<Rightarrow> 'w rf_state \<Rightarrow> string option \<times> 'w rf_state" where
  "patchJSON E rel body s = (case do_request E ''PATCH'' rel (Some body) True s of ((r, e), s1) \<Rightarrow> (e, s1))"

section \<open>JSON models\<close>

type_synonym odataID = string

definition decode_odata :: "json \<Rightarrow> odataID \<Rightarrow> odataID option" where
  "decode_odata = decode_object (\<lambda>k v x. if equal_fold k ''@odata.id'' then decode_str v x else Some x)"

type_synonym collection = "odataID list"

definition decode_collection :: "raw_message \<Rightarrow> collection option" where
  "decode_collection raw =
     (case raw of
        RawJson v \<Rightarrow> decode_object (\<lambda>k v x. if equal_fold k ''Members'' then decode_slice decode_odata '''' v x else Some x) v []
      | _ \<Rightarrow> None)"

record serviceRoot =
  Systems :: odataID
  Managers :: odataID

definition decode_root :: "raw_message \<Rightarrow> serviceRoot option" where
  "decode_root raw =
     (case raw of
        RawJson v \<Rightarrow> decode_object (\<lambda>k v x.
            if equal_fold k ''Systems'' then map_option (\<lambda>y. x\<lparr>Systems := y\<rparr>) (decode_odata v (Systems x))
            else if equal_fold k ''Managers'' then map_option (\<lambda>y. x\<lparr>Managers := y\<rparr>) (decode_odata v (Managers x))
            else Some x) v \<lparr>Systems = '''', Managers = ''''\<rparr>
      | _ \<Rightarrow> None)"

record rf_system =
  sys_ID :: string
  sys_Name :: string
  sys_PowerState :: string
  ManagedBy :: "odataID list"
  sys_VirtualMedia :: odataID

definition decode_system :: "raw_message \<Rightarrow> rf_system option" where
  "decode_system raw =
     (case raw of
        RawJson v \<Rightarrow> decode_object (\<lambda>k v x.
            if equal_fold k ''Id'' then map_option (\<lambda>y. x\<lparr>sys_ID := y\<rparr>) (decode_str v (sys_ID x))
            else if equal_fold k ''Name'' then map_option (\<lambda>y. x\<lparr>sys_Name := y\<rparr>) (decode_str v (sys_Name x))
            else if equal_fold k ''PowerState'' then map_option (\<lambda>y. x\<lparr>sys_PowerState := y\<rparr>) (decode_str v (sys_PowerState x))
            else if equal_fold k ''Links'' then
              map_option (\<lambda>y. x\<lparr>ManagedBy := y\<rparr>)
                (decode_object (\<lambda>k v y. if equal_fold k ''ManagedBy'' then decode_slice decode_odata '''' v y else Some y)
                   v (ManagedBy x))
            else if equal_fold k ''VirtualMedia'' then map_option (\<lambda>y. x\<lparr>sys_VirtualMedia := y\<rparr>) (decode_odata v (sys_VirtualMedia x))
            else Some x) v
          \<lparr>sys_ID = '''', sys_Name = '''', sys_PowerState = '''', ManagedBy = [], sys_VirtualMedia = ''''\<rparr>
      | _ \<Rightarrow> None)"

record rf_manager =
  mgr_ID :: string
  mgr_Name :: string
  mgr_VirtualMedia :: odataID

definition decode_manager :: "raw_message \<Rightarrow> rf_manager option" where
  "decode_manager raw =
     (case raw of
        RawJson v \<Rightarrow> decode_object (\<lambda>k v x.
            if equal_fold k ''Id'' then map_option (\<lambda>y. x\<lparr>mgr_ID := y\<rparr>) (decode_str v (mgr_ID x))
            else if equal_fold k ''Name'' then map_option (\<lambda>y. x\<lparr>mgr_Name := y\<rparr>) (decode_str v (mgr_Name x))
            else if equal_fold k ''VirtualMedia'' then map_option (\<lambda>y. x\<lparr>mgr_VirtualMedia := y\<rparr>) (decode_odata v (mgr_VirtualMedia x))
            else Some x) v \<lparr>mgr_ID = '''', mgr_Name = '''', mgr_VirtualMedia = ''''\<rparr>
      | _ \<Rightarrow> None)"

record virtualMedia =
  vm_ID :: string
  vm_Name :: string
  MediaTypes :: "string list"
  Inserted :: bool
  Image :: string

definition decode_media :: "raw_message \<Rightarrow> virtualMedia option" where
  "decode_media raw =
     (case raw of
        RawJson v \<Rightarrow> decode_object (\<lambda>k v x.
            if equal_fold k ''Id'' then map_option (\<lambda>y. x\<lparr>vm_ID := y\<rparr>) (decode_str v (vm_ID x))
            else if equal_fold k ''Name'' then map_option (\<lambda>y. x\<lparr>vm_Name := y\<rparr>) (decode_str v (vm_Name x))
            else if equal_fold k ''MediaTypes'' then map_option (\<lambda>y. x\<lparr>MediaTypes := y\<rparr>) (decode_slice decode_str '''' v (MediaTypes x))
            else if equal_fold k ''Inserted'' then map_option (\<lambda>y. x\<lparr>Inserted := y\<rparr>) (decode_flag v (Inserted x))
            else if equal_fold k ''Image'' then map_option (\<lambda>y. x\<lparr>Image := y\<rparr>) (decode_str v (Image x))
            else Some x) v
          \<lparr>vm_ID = '''', vm_Name = '''', MediaTypes = [], Inserted = False, Image = ''''\<rparr>
      | _ \<Rightarrow> None)"

text \<open>\<open>Ping\<close> decodes into a \<open>map[string]any\<close>.\<close>

definition decode_any_object :: "raw_message \<Rightarrow> unit option" where
  "decode_any_object raw = (case raw of RawJson (JObj kvs) \<Rightarrow> Some () | RawJson JNull \<Rightarrow> Some () | _ \<Rightarrow> None)"

section \<open>Discovery\<close>

record cdEntry =
  ce_Path :: string
  MediaTypeScore :: int
  StableID :: string

definition media_score :: "string list \<Rightarrow> int" where
  "media_score types =
     sum_list (map (\<lambda>mt. let t = to_upper mt in if t = ''CD'' \<or> t = ''DVD'' then 2 else if t = ''USBSTICK'' then 1 else 0) types)"

fun scan_media :: "'w rf_env \<Rightarrow> collection \<Rightarrow> 'w rf_state \<Rightarrow> cdEntry list \<times> 'w rf_state" where
  "scan_media E [] s = ([], s)"
| "scan_media E (m # ms) s =
     (if m = '''' then scan_media E ms s
      else (case getJSON E m decode_media s of
              (Inl e, s1) \<Rightarrow> scan_media E ms s1
            | (Inr vmi, s1) \<Rightarrow>
                if media_score (MediaTypes vmi) = 0 then scan_media E ms s1
                else (case scan_media E ms s1 of
                        (cs, s2) \<Rightarrow>
                          (\<lparr>ce_Path = m, MediaTypeScore = media_score (MediaTypes vmi), StableID = lastSegment m\<rparr> # cs, s2))))"

definition entry_less :: "cdEntry \<Rightarrow> cdEntry \<Rightarrow> bool" where
  "entry_less a b =
     (if MediaTypeScore a \<noteq> MediaTypeScore b then MediaTypeScore a > MediaTypeScore b
      else if StableID a \<noteq> StableID b then str_less (StableID a) (StableID b)
      else str_less (ce_Path a) (ce_Path b))"

text \<open>\<open>sort.Slice\<close>; entries the order does not separate are equal, so any sorting gives this list.\<close>

fun insert_entry :: "cdEntry \<Rightarrow> cdEntry list \<Rightarrow> cdEntry list" where
  "insert_entry x [] = [x]"
| "insert_entry x (y # ys) = (if entry_less y x then y # insert_entry x ys else x # y # ys)"

definition sort_entries :: "cdEntry list \<Rightarrow> cdEntry list" where
  "sort_entries xs = foldr insert_entry xs []"

definition slot_paths :: "cdEntry list \<Rightarrow> string list" where
  "slot_paths xs = map ce_Path (take 2 (sort_entries xs))"

text \<open>A call that must succeed for the next one.\<close>

definition try_rf ::
  "(string + 'a) \<times> 's \<Rightarrow> ('a \<Rightarrow> 's \<Rightarrow> string option \<times> 's) \<Rightarrow> string \<Rightarrow> string option \<times> 's" where
  "try_rf m f pre = (case m of (Inl e, s) \<Rightarrow> (Some (pre @ e), s) | (Inr a, s) \<Rightarrow> f a s)"

definition discover_media ::
  "'w rf_env \<Rightarrow> string \<Rightarrow> string \<Rightarrow> rf_system \<Rightarrow> 'w rf_state \<Rightarrow> string option \<times> 'w rf_state" where
  "discover_media E sysPath mgrPath sys s0 =
     try_rf (getJSON E mgrPath decode_manager s0) (\<lambda>mgr s1.
       let vmCollPath = (if mgr_VirtualMedia mgr = '''' then sys_VirtualMedia sys else mgr_VirtualMedia mgr) in
       if vmCollPath = '''' then (Some ''discover: VirtualMedia collection not found on Manager or System'', s1)
       else try_rf (getJSON E vmCollPath decode_collection s1) (\<lambda>vmColl s2.
         if vmColl = [] then (Some ''discover: VirtualMedia collection is empty'', s2)
         else (case scan_media E vmColl s2 of
                 (cs, s3) \<Rightarrow>
                   if cs = [] then (Some ''discover: no CD/DVD virtual media instances found'', s3)
                   else (None, s3\<lparr>rf_client := (rf_client s3)\<lparr>systemPath := sysPath, managerPath := mgrPath,
                           vmCDPaths := slot_paths cs, discoveredAt := Some (rf_now E (rf_world s3))\<rparr>\<rparr>)))
         ''discover virtual media collection: '')
       ''discover manager resource: ''"

definition find_manager ::
  "'w rf_env \<Rightarrow> serviceRoot \<Rightarrow> rf_system \<Rightarrow> 'w rf_state \<Rightarrow> (string \<Rightarrow> 'w rf_state \<Rightarrow> string option \<times> 'w rf_state) \<Rightarrow>
   string option \<times> 'w rf_state" where
  "find_manager E sroot sys s k =
     (let managed = (case ManagedBy sys of [] \<Rightarrow> '''' | m # ms \<Rightarrow> m) in
      if managed \<noteq> '''' then k managed s
      else if Managers sroot = '''' then (Some ''discover: neither ManagedBy nor ServiceRoot.Managers present'', s)
      else try_rf (getJSON E (Managers sroot) decode_collection s) (\<lambda>mgrColl s1.
             case mgrColl of
               [] \<Rightarrow> (Some ''discover: no Managers members found'', s1)
             | m # ms \<Rightarrow> k m s1)
           ''discover managers: '')"

definition discover :: "'w rf_env \<Rightarrow> 'w rf_state \<Rightarrow> string option \<times> 'w rf_state" where
  "discover E s0 =
     try_rf (getJSON E ''/redfish/v1/'' decode_root s0) (\<lambda>sroot s1.
       if Systems sroot = '''' then (Some ''discover: ServiceRoot.Systems missing'', s1)
       else try_rf (getJSON E (Systems sroot) decode_collection s1) (\<lambda>sysColl s2.
         (case sysColl of
            [] \<Rightarrow> (Some ''discover: no Systems members found'', s2)
          | sysPath # _ \<Rightarrow>
              if sysPath = '''' then (Some ''discover: Systems member has empty @odata.id'', s2)
              else try_rf (getJSON E sysPath decode_system s2) (\<lambda>sys s3.
                     find_manager E sroot sys s3 (\<lambda>mgrPath. discover_media E sysPath mgrPath sys))
                   ''discover system resource: ''))
         ''discover systems: '')
       ''discover service root: ''"

definition ensureDiscovery :: "'w rf_env \<Rightarrow> 'w rf_state \<Rightarrow> string option \<times> 'w rf_state" where
  "ensureDiscovery E s =
     (case discoveredAt (rf_client s) of
        Some t \<Rightarrow> if rf_now E (rf_world s) - t < 2 * time_Minute then (None, s) else discover E s
      | None \<Rightarrow> discover E s)"

text \<open>An operation that needs the discovered paths.\<close>

definition discovered ::
  "'w rf_env \<Rightarrow> 'w rf_state \<Rightarrow> ('w rf_state \<Rightarrow> string option \<times> 'w rf_state) \<Rightarrow> string option \<times> 'w rf_state" where
  "discovered E s k = (case ensureDiscovery E s of (Some e, s1) \<Rightarrow> (Some e, s1) | (None, s1) \<Rightarrow> k s1)"

section \<open>Operations\<close>

definition cd_prefix :: "string \<Rightarrow> int \<Rightarrow> string" where
  "cd_prefix what cd = what @ '' (cd'' @ itoa cd @ ''): ''"

definition slot_missing :: "int \<Rightarrow> string" where
  "slot_missing cd = ''redfish: virtual media CD'' @ itoa cd @ '' slot not discovered''"

definition eject_path :: "string \<Rightarrow> string" where
  "eject_path vmPath = joinPath vmPath ''Actions/VirtualMedia.EjectMedia''"

definition insert_path :: "string \<Rightarrow> string" where
  "insert_path vmPath = joinPath vmPath ''Actions/VirtualMedia.InsertMedia''"

definition insert_payload :: "string \<Rightarrow> json" where
  "insert_payload isoURL =
     JObj [(''Image'', JStr isoURL), (''Inserted'', JBool True), (''TransferProtocolType'', JStr ''URI''), (''WriteProtected'', JBool True)]"

definition insert_media :: "'w rf_env \<Rightarrow> int \<Rightarrow> string \<Rightarrow> string \<Rightarrow> 'w rf_state \<Rightarrow> string option \<times> 'w rf_state" where
  "insert_media E cd vmPath isoURL s =
     (case postJSON E (insert_path vmPath) (insert_payload isoURL) s of
        (Some e, s1) \<Rightarrow> (Some (cd_prefix ''virtualmedia insert'' cd @ e), s1)
      | (None, s1) \<Rightarrow> (None, s1))"

definition mount_slot :: "'w rf_env \<Rightarrow> int \<Rightarrow> string \<Rightarrow> string \<Rightarrow> 'w rf_state \<Rightarrow> string option \<times> 'w rf_state" where
  "mount_slot E cd vmPath isoURL s =
     try_rf (getJSON E vmPath decode_media s) (\<lambda>vm s1.
       if equal_fold (Image vm) isoURL \<and> Inserted vm then (None, s1)
       else if Inserted vm \<and> \<not> equal_fold (Image vm) isoURL
       then (case postJSON E (eject_path vmPath) (JObj []) s1 of
               (Some e, s2) \<Rightarrow> (Some (cd_prefix ''virtualmedia eject'' cd @ e), s2)
             | (None, s2) \<Rightarrow> insert_media E cd vmPath isoURL s2)
       else insert_media E cd vmPath isoURL s1)
     (cd_prefix ''virtualmedia get'' cd)"

definition MountMedia :: "'w rf_env \<Rightarrow> int \<Rightarrow> string \<Rightarrow> 'w rf_state \<Rightarrow> string option \<times> 'w rf_state" where
  "MountMedia E cd isoURL s = discovered E s (\<lambda>s1.
     if cd < 1 \<or> cd > 2 then (Some (''redfish: cd index must be 1 or 2 (got '' @ itoa cd @ '')''), s1)
     else if isoURL = '''' then (Some ''redfish: isoURL is empty'', s1)
     else (case parse_URL E isoURL of
             Inl e \<Rightarrow> (Some (''redfish: invalid isoURL: '' @ e), s1)
           | Inr _ \<Rightarrow>
               if int (length (vmCDPaths (rf_client s1))) < cd then (Some (slot_missing cd), s1)
               else mount_slot E cd (vmCDPaths (rf_client s1) ! nat (cd - 1)) isoURL s1))"

definition UnmountMedia :: "'w rf_env \<Rightarrow> int \<Rightarrow> 'w rf_state \<Rightarrow> string option \<times> 'w rf_state" where
  "UnmountMedia E cd s = discovered E s (\<lambda>s1.
     if cd < 1 \<or> cd > 2 then (Some (''redfish: cd index must be 1 or 2 (got '' @ itoa cd @ '')''), s1)
     else if int (length (vmCDPaths (rf_client s1))) < cd then (Some (slot_missing cd), s1)
     else (case postJSON E (eject_path (vmCDPaths (rf_client s1) ! nat (cd - 1))) (JObj []) s1 of
             (Some e, s2) \<Rightarrow> (Some (cd_prefix ''virtualmedia eject'' cd @ e), s2)
           | (None, s2) \<Rightarrow> (None, s2)))"

definition boot_payload :: "httpClient \<Rightarrow> string \<Rightarrow> json" where
  "boot_payload c target =
     JObj [(''Boot'', JObj ([(''BootSourceOverrideEnabled'', JStr ''Once'')] @
       (if isIDRAC (cl_Vendor (hc_cfg c)) \<or> isILO (cl_Vendor (hc_cfg c)) then [(''BootSourceOverrideMode'', JStr ''UEFI'')] else []) @
       [(''BootSourceOverrideTarget'', JStr target)]))]"

definition SetBoot :: "'w rf_env \<Rightarrow> BootDevice \<Rightarrow> 'w rf_state \<Rightarrow> string option \<times> 'w rf_state" where
  "SetBoot E device s = discovered E s (\<lambda>s1.
     case toBootTarget device of
       Inl e \<Rightarrow> (Some e, s1)
     | Inr target \<Rightarrow>
         (case patchJSON E (systemPath (rf_client s1)) (boot_payload (rf_client s1) target) s1 of
            (Some e, s2) \<Rightarrow> (Some (''set one-time boot: '' @ e), s2)
          | (None, s2) \<Rightarrow> (None, s2)))"

definition reset :: "'w rf_env \<Rightarrow> string \<Rightarrow> string \<Rightarrow> 'w rf_state \<Rightarrow> string option \<times> 'w rf_state" where
  "reset E resetPath kind = postJSON E resetPath (JObj [(''ResetType'', JStr kind)])"

definition RebootSystem :: "'w rf_env \<Rightarrow> RebootMode \<Rightarrow> 'w rf_state \<Rightarrow> string option \<times> 'w rf_state" where
  "RebootSystem E mode s = discovered E s (\<lambda>s1.
     if mode \<noteq> RebootGracefulWithFallback then (Some (''unsupported reboot mode: '' @ mode), s1)
     else let resetPath = joinPath (systemPath (rf_client s1)) ''Actions/ComputerSystem.Reset'' in
       case reset E resetPath ''GracefulRestart'' s1 of
         (None, s2) \<Rightarrow> (None, s2)
       | (Some err, s2) \<Rightarrow>
           (case reset E resetPath ''ForceRestart'' s2 of
              (None, s3) \<Rightarrow> (None, s3)
            | (Some err2, s3) \<Rightarrow>
                (case reset E resetPath ''PowerCycle'' s3 of
                   (None, s4) \<Rightarrow> (None, s4)
                 | (Some err3, s4) \<Rightarrow> (Some (''reboot failed: preferred and fallbacks exhausted: first='' @ err), s4))))"

definition CloseSession :: "'w rf_env \<Rightarrow> 'w rf_state \<Rightarrow> 'w rf_state" where
  "CloseSession E s =
     (if sessionPath (rf_client s) \<noteq> '''' \<and> token (rf_client s) \<noteq> ''''
      then (let s1 = snd (do_request E ''DELETE'' (sessionPath (rf_client s)) None False s) in forget_session s1)
      else s)"

definition PingRoot :: "'w rf_env \<Rightarrow> 'w rf_state \<Rightarrow> string option \<times> 'w rf_state" where
  "PingRoot E s = try_rf (getJSON E ''/redfish/v1/'' decode_any_object s) (\<lambda>_ s1. (None, s1)) ''''"

definition PowerStateOf :: "'w rf_env \<Rightarrow> 'w rf_state \<Rightarrow> (string + PowerState) \<times> 'w rf_state" where
  "PowerStateOf E s =
     (case ensureDiscovery E s of
        (Some e, s1) \<Rightarrow> (Inl e, s1)
      | (None, s1) \<Rightarrow>
          (case getJSON E (systemPath (rf_client s1)) decode_system s1 of
             (Inl e, s2) \<Rightarrow> (Inl e, s2)
           | (Inr sys, s2) \<Rightarrow> (Inr (normalizePowerState (sys_PowerState sys)), s2)))"

end
