(* ===== verification/RedfishHttpProps.thy ===== *)
theory RedfishHttpProps
  imports RedfishHttp "HOL-Library.Multiset"
begin

text \<open>
  What one call of the Redfish client costs and achieves: the number of requests it can send, that
  it survives transient failures, what a successful mount says about the BMC, how slots are
  chosen, and how long it waits.
\<close>

section \<open>Requests sent\<close>

text \<open>A request authenticates at most once.\<close>

definition one_credential :: "wire_req \<Rightarrow> bool" where
  "one_credential q \<longleftrightarrow> length (filter (\<lambda>h. fst h = ''X-Auth-Token'' \<or> fst h = ''Authorization'') (rq_headers q)) \<le> 1"

text \<open>\<open>sends n s s'\<close>: from \<open>s\<close> to \<open>s'\<close> at most \<open>n\<close> requests were sent; the configuration is the same.\<close>

definition sends :: "nat \<Rightarrow> 'w rf_state \<Rightarrow> 'w rf_state \<Rightarrow> bool" where
  "sends n s s' \<longleftrightarrow> (\<exists>new. sent s' = sent s @ new \<and> length new \<le> n \<and> (\<forall>q \<in> set new. one_credential q)) \<and>
     hc_cfg (rf_client s') = hc_cfg (rf_client s) \<and> baseURL (rf_client s') = baseURL (rf_client s) \<and>
     retryMax (rf_client s') = retryMax (rf_client s) \<and> vmCDPaths (rf_client s') = vmCDPaths (rf_client s)"

lemma sends_refl [simp]: "sends n s s"
  by (simp add: sends_def)

lemma sends_trans:
  assumes "sends a s s'" "sends b s' s''"
  shows "sends (a + b) s s''"
proof -
  obtain x where x: "sent s' = sent s @ x" "length x \<le> a" "\<forall>q \<in> set x. one_credential q" using assms(1) by (auto simp: sends_def)
  obtain y where y: "sent s'' = sent s' @ y" "length y \<le> b" "\<forall>q \<in> set y. one_credential q" using assms(2) by (auto simp: sends_def)
  have "sent s'' = sent s @ (x @ y)" "length (x @ y) \<le> a + b" "\<forall>q \<in> set (x @ y). one_credential q" using x y by auto
  with assms show ?thesis unfolding sends_def by metis
qed

lemma sends_mono: "sends a s s' \<Longrightarrow> a \<le> b \<Longrightarrow> sends b s s'"
  by (auto simp: sends_def)

lemma make_request_credential [simp]: "one_credential (make_request E c m rel body j)"
  by (simp add: one_credential_def make_request_def)

lemma session_request_credential [simp]: "one_credential (session_request E c)"
  by (simp add: one_credential_def session_request_def)

lemma send_sends: "send E q s = (r, s') \<Longrightarrow> one_credential q \<Longrightarrow> sends 1 s s' \<and> rf_client s' = rf_client s"
  by (auto simp: send_def sends_def split: prod.splits)

lemma pause_sends [simp]: "sends n s (pause E d s)" "rf_client (pause E d s) = rf_client s"
  by (simp_all add: sends_def pause_def)

lemma forget_sends [simp]: "sends n s (forget_session s)"
  by (simp add: sends_def forget_session_def)

lemma sends_client:
  "sends n s s1 \<Longrightarrow> hc_cfg c = hc_cfg (rf_client s) \<Longrightarrow> baseURL c = baseURL (rf_client s) \<Longrightarrow> retryMax c = retryMax (rf_client s) \<Longrightarrow>
     vmCDPaths c = vmCDPaths (rf_client s) \<Longrightarrow> sends n s (s1\<lparr>rf_client := c\<rparr>)"
  by (simp add: sends_def)

lemma startSession_sends: "startSession E s = (e, s') \<Longrightarrow> sends 1 s s'"
  by (auto simp: startSession_def Let_def sends_client dest!: send_sends split: if_splits option.splits prod.splits sum.splits)

fun round_state :: "'s round \<Rightarrow> 's" where
  "round_state (Return r e s) = s"
| "round_state (Again s) = s"

lemma judge_sends: "sends n s (round_state (judge E m rel again a resp s))"
  by (simp add: judge_def)

lemma do_round_sends: "sends 2 s (round_state (do_round E m rel body j again a s))"
proof -
  obtain r s1 where s1: "send E (make_request E (rf_client s) m rel body j) s = (r, s1)" by (cases "send E (make_request E (rf_client s) m rel body j) s")
  then have a: "sends 1 s s1" by (auto dest: send_sends)
  obtain e s2 where s2: "startSession E (forget_session s1) = (e, s2)" by (cases "startSession E (forget_session s1)")
  have b: "sends 2 s s2"
    using sends_trans [OF a sends_trans [OF forget_sends [of 0] startSession_sends [OF s2]]] by (simp add: numeral_2_eq_2)
  have c: "sends 2 s (pause E d s1)" "sends 2 s s1" for d
    using sends_trans [OF a pause_sends(1) [of 1]] sends_mono [OF a, of 2] by (auto simp: numeral_2_eq_2)
  have d: "sends 2 s (round_state (judge E m rel again a resp s1))" "sends 2 s (round_state (judge E m rel again a resp s2))" for resp
    using sends_trans [OF a judge_sends [of 1]] sends_trans [OF b judge_sends [of 0]] by (auto simp: numeral_2_eq_2)
  show ?thesis
    using s1 s2 b c d by (auto simp: do_round_def Let_def split: option.splits sum.splits)
qed

lemma do_loop_sends: "sends (2 * Suc n) s (snd (do_loop E m rel body j n a s))"
proof (induction n arbitrary: a s)
  case 0
  show ?case using do_round_sends [of s E m rel body j False a] by (auto split: round.splits)
next
  case (Suc n)
  note r = do_round_sends [of s E m rel body j True a]
  show ?case
  proof (cases "do_round E m rel body j True a s")
    case (Return x e s1)
    with r have "sends 2 s s1" by simp
    then show ?thesis using Return by (simp add: sends_mono)
  next
    case (Again s1)
    with r have "sends 2 s s1" by simp
    from sends_trans [OF this Suc.IH [of s1 "a + 1"]] show ?thesis using Again by simp
  qed
qed

lemma do_request_sends: "sends (2 * nat (attempts (rf_client s))) s (snd (do_request E m rel body j s))"
proof -
  have "Suc (nat (attempts (rf_client s)) - 1) = nat (attempts (rf_client s))" by (simp add: attempts_def)
  then show ?thesis using do_loop_sends [of "nat (attempts (rf_client s)) - 1" s E m rel body j 1] by (simp only: do_request_def)
qed

section \<open>The last request of a success\<close>

text \<open>
  A call that returns no error ended with the answer to one of its own requests, of status 2xx.
\<close>

definition ends_with ::
  "'w rf_env \<Rightarrow> string \<Rightarrow> string \<Rightarrow> json option \<Rightarrow> bool \<Rightarrow> wire_resp \<Rightarrow> 'w rf_state \<Rightarrow> bool" where
  "ends_with E m rel body j resp s' \<longleftrightarrow> 200 \<le> StatusCode resp \<and> StatusCode resp < 300 \<and>
     (\<exists>c w. baseURL c = baseURL (rf_client s') \<and> hc_cfg c = hc_cfg (rf_client s') \<and>
        hc_Do E (make_request E c m rel body j) w = (Inr resp, rf_world s'))"

lemma judge_Return_None: "judge E m rel again a resp s = Return r None s' \<Longrightarrow> r = Some resp \<and> s' = s \<and> 200 \<le> StatusCode resp \<and> StatusCode resp < 300"
  by (auto simp: judge_def split: if_splits)

lemma judge_unauthorized: "StatusCode resp = StatusUnauthorized \<Longrightarrow> judge E m rel again a resp s \<noteq> Return r None s'"
  by (auto simp: judge_def)

lemma do_round_success:
  "do_round E m rel body j again a s = Return r None s' \<Longrightarrow> \<exists>resp. r = Some resp \<and> ends_with E m rel body j resp s'"
proof -
  assume a: "do_round E m rel body j again a s = Return r None s'"
  obtain x s1 where s1: "send E (make_request E (rf_client s) m rel body j) s = (x, s1)" by (cases "send E (make_request E (rf_client s) m rel body j) s")
  then have w: "hc_Do E (make_request E (rf_client s) m rel body j) (rf_world s) = (x, rf_world s1)" "rf_client s1 = rf_client s"
    by (auto simp: send_def split: prod.splits)
  from a s1 obtain resp where x: "x = Inr resp"
    by (auto simp: do_round_def Let_def split: option.splits sum.splits if_splits)
  have "judge E m rel again a resp s1 = Return r None s'"
    using a s1 x judge_unauthorized [of resp E m rel again a]
    by (auto simp: do_round_def Let_def split: option.splits if_splits prod.splits)
  from judge_Return_None [OF this] w x show ?thesis by (auto simp: ends_with_def)
qed

lemma do_loop_success:
  "do_loop E m rel body j n a s = ((r, None), s') \<Longrightarrow> \<exists>resp. r = Some resp \<and> ends_with E m rel body j resp s'"
proof (induction n arbitrary: a s)
  case 0
  have "do_round E m rel body j False a s \<noteq> Again s1" for s1
    by (auto simp: do_round_def judge_def Let_def split: option.splits sum.splits prod.splits if_splits)
  with 0 show ?case by (auto split: round.splits dest: do_round_success)
next
  case (Suc n)
  then show ?case by (auto split: round.splits dest: do_round_success)
qed

lemma do_request_success:
  "do_request E m rel body j s = ((r, None), s') \<Longrightarrow> \<exists>resp. r = Some resp \<and> ends_with E m rel body j resp s'"
  by (auto simp: do_request_def dest: do_loop_success)

lemma getJSON_success:
  "getJSON E rel dec s = (Inr v, s') \<Longrightarrow> \<exists>resp. dec (resp_tree resp) = Some v \<and> ends_with E ''GET'' rel None True resp s'"
  by (auto simp: getJSON_def dest!: do_request_success split: prod.splits option.splits)

lemma postJSON_success:
  "postJSON E rel b s = (None, s') \<Longrightarrow> \<exists>resp. ends_with E ''POST'' rel (Some b) True resp s'"
  by (auto simp: postJSON_def dest!: do_request_success split: prod.splits)

section \<open>Transient failures\<close>

definition transient :: "string + wire_resp \<Rightarrow> bool" where
  "transient r \<longleftrightarrow> (case r of Inl e \<Rightarrow> True | Inr resp \<Rightarrow> retryable resp)"

text \<open>A network that answers the \<open>n\<close>-th request with \<open>script n\<close>, whatever it is.\<close>

definition scripted :: "nat rf_env \<Rightarrow> (nat \<Rightarrow> string + wire_resp) \<Rightarrow> bool" where
  "scripted E script \<longleftrightarrow> (\<forall>q w. hc_Do E q w = (script w, Suc w)) \<and> (\<forall>d w. rf_sleep E d w = w) \<and> (\<forall>m u. bad_request E m u = None)"

lemma transient_round:
  assumes "scripted E script" "transient (script (rf_world s))"
  shows "\<exists>s1. do_round E m rel body j True a s = Again s1 \<and> rf_world s1 = Suc (rf_world s) \<and> rf_client s1 = rf_client s"
  using assms
  by (auto simp: do_round_def send_def judge_def scripted_def transient_def retryable_def pause_def Let_def split: sum.splits)

lemma success_round:
  assumes "scripted E script" "script (rf_world s) = Inr resp" "200 \<le> StatusCode resp" "StatusCode resp < 300"
  shows "\<exists>s1. do_round E m rel body j again a s = Return (Some resp) None s1 \<and> rf_world s1 = Suc (rf_world s)"
  using assms by (auto simp: do_round_def send_def judge_def scripted_def Let_def)

lemma do_loop_transient:
  assumes "scripted E script" "\<forall>i < k. transient (script (rf_world s + i))" "script (rf_world s + k) = Inr resp"
    "200 \<le> StatusCode resp" "StatusCode resp < 300" "k \<le> n"
  shows "\<exists>s'. do_loop E m rel body j n a s = ((Some resp, None), s') \<and> rf_world s' = rf_world s + k + 1"
  using assms
proof (induction k arbitrary: n a s)
  case 0
  have "script (rf_world s) = Inr resp" using 0(3) by simp
  note r = success_round [OF 0(1) this 0(4,5), of m rel body j _ a]
  show ?case
  proof (cases n)
    case 0
    then show ?thesis using r [of False] by auto
  next
    case (Suc n')
    then show ?thesis using r [of True] by auto
  qed
next
  case (Suc k)
  then obtain n' where n: "n = Suc n'" by (cases n) auto
  have "transient (script (rf_world s))" using Suc.prems(2) by (metis add.right_neutral zero_less_Suc)
  from transient_round [OF Suc.prems(1) this] obtain s1
    where s1: "do_round E m rel body j True a s = Again s1" "rf_world s1 = Suc (rf_world s)" by blast
  have "\<exists>s'. do_loop E m rel body j n' (a + 1) s1 = ((Some resp, None), s') \<and> rf_world s' = rf_world s1 + k + 1"
    using Suc.prems n by (intro Suc.IH) (auto simp: s1(2))
  with s1 show ?case by (auto simp: n)
qed

section \<open>Properties\<close>

text \<open>
  The cost of one call: whatever the BMC answers, \<open>do\<close> returns after at most two requests per
  attempt (one of them a session login), so at most \<open>2 * retryMax\<close>; the requests are appended to
  what was sent before, and each carries at most one of the session token and the Basic
  credentials.
\<close>

lemma do_request_bounded:
  "\<exists>new. sent (snd (do_request E m rel body j s)) = sent s @ new \<and>
     length new \<le> 2 * nat (attempts (rf_client s)) \<and> list_all one_credential new"
  using do_request_sends [of s E m rel body j] by (auto simp: sends_def list_all_iff)

text \<open>
  C27. Transient failures are survived: if the network fails or answers 5xx or 429 for the first
  \<open>k\<close> requests of a call, with \<open>k\<close> less than the number of attempts, and then answers 2xx, the call
  returns that answer without an error after exactly \<open>k + 1\<close> requests.
\<close>

theorem do_request_survives:
  assumes "scripted E script" and "\<forall>i < k. transient (script (rf_world s + i))"
    and "script (rf_world s + k) = Inr resp" and "200 \<le> StatusCode resp" and "StatusCode resp < 300"
    and "int k < attempts (rf_client s)"
  shows "\<exists>s'. do_request E m rel body j s = ((Some resp, None), s') \<and> rf_world s' = rf_world s + k + 1"
  unfolding do_request_def using assms(6) by (intro do_loop_transient [OF assms(1-5)]) linarith

text \<open>A client and an environment for evaluation: the network answers by the number of the request.\<close>

definition demo_client :: httpClient where
  "demo_client = \<lparr>hc_cfg = \<lparr>cl_Endpoint = ''http://b'', cl_Username = ''u'', cl_Password = ''p'', cl_Vendor = '''', cl_Retries = 0, cl_Timeout = 0\<rparr>,
     hc_Timeout = 30 * time_Second, baseURL = ''http://b'', token = '''', sessionPath = '''', retryMax = 3,
     retryBase = 200 * time_Millisecond, retryCap = 8 * time_Second, systemPath = ''/s'', managerPath = ''/m'',
     vmCDPaths = [''/vm/1'', ''/vm/2''], discoveredAt = Some 0\<rparr>"

definition demo_net :: "(wire_req \<Rightarrow> nat \<Rightarrow> string + wire_resp) \<Rightarrow> nat rf_env" where
  "demo_net answer = \<lparr>hc_Do = (\<lambda>q w. (answer q w, Suc w)), rf_now = (\<lambda>_. 0), rf_sleep = (\<lambda>_ w. w),
     bad_request = (\<lambda>_ _. None), url_JoinPath = (\<lambda>b r. Some (b @ r)),
     parse_URL = (\<lambda>u. Inr \<lparr>Scheme = ''http'', Path = '''', rest = u\<rparr>), http_ParseTime = (\<lambda>_. None)\<rparr>"

definition demo_resp :: "int \<Rightarrow> json \<Rightarrow> wire_resp" where
  "demo_resp code v = \<lparr>StatusCode = code, resp_header = (\<lambda>k. if k = ''X-Auth-Token'' then ''t'' else ''''), resp_bytes = '''', resp_tree = RawJson v\<rparr>"

definition demo_rf :: "nat rf_state" where
  "demo_rf = \<lparr>rf_client = demo_client, rf_world = 0, sent = []\<rparr>"

theorem do_request_survives_witness:
  "\<exists>s'. do_request (demo_net (\<lambda>_ n. if n = 0 then Inl ''refused'' else if n = 1 then Inr (demo_resp 503 JNull) else Inr (demo_resp 200 JNull)))
     ''GET'' ''/x'' None True demo_rf = ((Some (demo_resp 200 JNull), None), s') \<and> rf_world s' = 3"
proof -
  let ?script = "\<lambda>n :: nat. if n = 0 then Inl ''refused'' else if n = 1 then Inr (demo_resp 503 JNull) else Inr (demo_resp 200 JNull)"
  have "scripted (demo_net (\<lambda>_. ?script)) ?script" by (simp add: scripted_def demo_net_def)
  from do_request_survives [OF this, of 2 demo_rf "demo_resp 200 JNull" "''GET''" "''/x''" None True] show ?thesis
    by (simp add: transient_def retryable_def demo_resp_def demo_rf_def demo_client_def attempts_def numeral_2_eq_2 numeral_3_eq_3)
qed

text \<open>
  A BMC that accepts every session login but answers every request 401 is logged into once per
  attempt, not once per call.
\<close>

lemma relogin_each_attempt:
  "map rq_url (sent (snd (do_request
     (demo_net (\<lambda>q _. Inr (demo_resp (if rq_url q = ''http://b'' @ sessions_path then 201 else 401) JNull)))
     ''GET'' ''/x'' None True demo_rf))) =
   concat (replicate 3 [''http://b/x'', ''http://b'' @ sessions_path])"
  by code_simp

section \<open>Mounting\<close>

text \<open>
  What a BMC's media resources promise, \<open>media w p\<close> being whether the resource at path \<open>p\<close> has
  media inserted, and which: a successful \<open>GET\<close> reports it, and after a successful \<open>InsertMedia\<close> it
  is the image asked for.
\<close>

definition reports_media :: "'w rf_env \<Rightarrow> ('w \<Rightarrow> string \<Rightarrow> bool \<times> string) \<Rightarrow> httpClient \<Rightarrow> bool" where
  "reports_media E media c \<longleftrightarrow>
     (\<forall>q w resp w' p vm. hc_Do E q w = (Inr resp, w') \<longrightarrow> 200 \<le> StatusCode resp \<longrightarrow> StatusCode resp < 300 \<longrightarrow>
        rq_method q = ''GET'' \<longrightarrow> rq_url q = buildURL E c p \<longrightarrow> decode_media (resp_tree resp) = Some vm \<longrightarrow>
        media w' p = (Inserted vm, Image vm))"

definition inserts_media :: "'w rf_env \<Rightarrow> ('w \<Rightarrow> string \<Rightarrow> bool \<times> string) \<Rightarrow> httpClient \<Rightarrow> bool" where
  "inserts_media E media c \<longleftrightarrow>
     (\<forall>q w resp w' p u. hc_Do E q w = (Inr resp, w') \<longrightarrow> 200 \<le> StatusCode resp \<longrightarrow> StatusCode resp < 300 \<longrightarrow>
        rq_method q = ''POST'' \<longrightarrow> rq_url q = buildURL E c (insert_path p) \<longrightarrow> rq_body q = Some (insert_payload u) \<longrightarrow>
        media w' p = (True, u))"

lemma buildURL_base: "baseURL c = baseURL d \<Longrightarrow> buildURL E c rel = buildURL E d rel"
  by (simp add: buildURL_def Let_def split: option.splits)

lemma insert_media_effect:
  assumes "insert_media E cd p u s = (None, s')" "inserts_media E media c" "baseURL c = baseURL (rf_client s')"
  shows "media (rf_world s') p = (True, u)"
proof -
  have "postJSON E (insert_path p) (insert_payload u) s = (None, s')"
    using assms(1) by (auto simp: insert_media_def split: prod.splits option.splits)
  from postJSON_success [OF this] obtain resp d w where
    "200 \<le> StatusCode resp" "StatusCode resp < 300" and d: "baseURL d = baseURL (rf_client s')"
    "hc_Do E (make_request E d ''POST'' (insert_path p) (Some (insert_payload u)) True) w = (Inr resp, rf_world s')"
    by (auto simp: ends_with_def)
  moreover have "rq_url (make_request E d ''POST'' (insert_path p) (Some (insert_payload u)) True) = buildURL E c (insert_path p)"
    using d(1) assms(3) by (simp add: make_request_def buildURL_base [of d c])
  ultimately show ?thesis
    using assms(2) unfolding inserts_media_def by (auto simp: make_request_def)
qed

lemma mount_slot_effect:
  assumes "mount_slot E cd p u s = (None, s')" "reports_media E media c" "inserts_media E media c" "baseURL c = baseURL (rf_client s')"
  shows "\<exists>img. media (rf_world s') p = (True, img) \<and> equal_fold img u"
proof -
  from assms(1) obtain vm s1 where g: "getJSON E p decode_media s = (Inr vm, s1)"
    by (auto simp: mount_slot_def try_rf_def split: prod.splits sum.splits)
  show ?thesis
  proof (cases "equal_fold (Image vm) u \<and> Inserted vm")
    case True
    with assms(1) g have s: "s' = s1" by (simp add: mount_slot_def try_rf_def)
    from getJSON_success [OF g] obtain resp d w where r: "decode_media (resp_tree resp) = Some vm"
      "200 \<le> StatusCode resp" "StatusCode resp < 300" and d: "baseURL d = baseURL (rf_client s1)"
      "hc_Do E (make_request E d ''GET'' p None True) w = (Inr resp, rf_world s1)"
      by (auto simp: ends_with_def)
    have "rq_url (make_request E d ''GET'' p None True) = buildURL E c p" "rq_method (make_request E d ''GET'' p None True) = ''GET''"
      using d(1) assms(4) s by (simp_all add: make_request_def buildURL_base [of d c])
    then have "media (rf_world s1) p = (Inserted vm, Image vm)"
      using assms(2) r d(2) unfolding reports_media_def by blast
    with True s show ?thesis by simp
  next
    case False
    with assms(1) g obtain s2 where "insert_media E cd p u s2 = (None, s')"
      by (auto simp: mount_slot_def try_rf_def split: if_splits prod.splits option.splits)
    from insert_media_effect [OF this assms(3,4)] show ?thesis by simp
  qed
qed

text \<open>Requests keep the base URL and the slots; discovery keeps the base URL.\<close>

lemma do_request_client:
  "do_request E m rel body j s = (r, s') \<Longrightarrow>
     baseURL (rf_client s') = baseURL (rf_client s) \<and> vmCDPaths (rf_client s') = vmCDPaths (rf_client s)"
  using do_request_sends [of s E m rel body j] by (simp add: sends_def)

lemma getJSON_client:
  "getJSON E rel dec s = (r, s') \<Longrightarrow>
     baseURL (rf_client s') = baseURL (rf_client s) \<and> vmCDPaths (rf_client s') = vmCDPaths (rf_client s)"
  by (auto simp: getJSON_def dest: do_request_client split: prod.splits option.splits)

lemma postJSON_client:
  "postJSON E rel b s = (r, s') \<Longrightarrow>
     baseURL (rf_client s') = baseURL (rf_client s) \<and> vmCDPaths (rf_client s') = vmCDPaths (rf_client s)"
  by (auto simp: postJSON_def dest: do_request_client split: prod.splits)

lemma mount_slot_client:
  "mount_slot E cd p u s = (r, s') \<Longrightarrow>
     baseURL (rf_client s') = baseURL (rf_client s) \<and> vmCDPaths (rf_client s') = vmCDPaths (rf_client s)"
  by (auto simp: mount_slot_def insert_media_def try_rf_def dest!: getJSON_client postJSON_client
      split: prod.splits sum.splits option.splits if_splits)

definition at_base :: "string \<Rightarrow> 'a \<times> 'w rf_state \<Rightarrow> bool" where
  "at_base b r \<longleftrightarrow> baseURL (rf_client (snd r)) = b"

named_theorems at_base_intros

lemma at_base_pair [at_base_intros]: "baseURL (rf_client s) = b \<Longrightarrow> at_base b (x, s)"
  by (simp add: at_base_def)

lemma at_base_if [at_base_intros]: "at_base b x \<Longrightarrow> at_base b y \<Longrightarrow> at_base b (if P then x else y)"
  by simp

lemma at_base_case [at_base_intros]:
  "at_base b m \<Longrightarrow> (\<And>x s. baseURL (rf_client s) = b \<Longrightarrow> at_base b (f x s)) \<Longrightarrow> at_base b (case m of (x, s) \<Rightarrow> f x s)"
  by (cases m) (simp add: at_base_def)

lemma at_base_list [at_base_intros]:
  "at_base b x \<Longrightarrow> (\<And>y ys. at_base b (f y ys)) \<Longrightarrow> at_base b (case l of [] \<Rightarrow> x | y # ys \<Rightarrow> f y ys)"
  by (cases l) simp_all

lemma at_base_try [at_base_intros]:
  "at_base b m \<Longrightarrow> (\<And>a s. baseURL (rf_client s) = b \<Longrightarrow> at_base b (f a s)) \<Longrightarrow> at_base b (try_rf m f pre)"
  by (cases m) (auto simp: at_base_def try_rf_def split: sum.splits)

lemma at_base_get [at_base_intros]: "baseURL (rf_client s) = b \<Longrightarrow> at_base b (getJSON E rel dec s)"
  by (cases "getJSON E rel dec s") (auto simp: at_base_def dest: getJSON_client)

lemma at_base_scan [at_base_intros]: "baseURL (rf_client s) = b \<Longrightarrow> at_base b (scan_media E ms s)"
proof (induction ms arbitrary: s)
  case Nil
  then show ?case by (simp add: at_base_def)
next
  case (Cons m ms)
  obtain r s1 where g: "getJSON E m decode_media s = (r, s1)" by (cases "getJSON E m decode_media s")
  obtain cs s2 where c: "scan_media E ms s1 = (cs, s2)" by (cases "scan_media E ms s1")
  from Cons.IH [of s1] Cons.IH [of s] Cons.prems getJSON_client [OF g] show ?case
    by (auto simp: g c at_base_def split: sum.splits)
qed

lemma at_base_media [at_base_intros]: "baseURL (rf_client s) = b \<Longrightarrow> at_base b (discover_media E sp mp sys s)"
  unfolding discover_media_def Let_def by (intro at_base_intros) simp_all

lemma at_base_manager [at_base_intros]:
  "baseURL (rf_client s) = b \<Longrightarrow> (\<And>m s. baseURL (rf_client s) = b \<Longrightarrow> at_base b (k m s)) \<Longrightarrow> at_base b (find_manager E sroot sys s k)"
  unfolding find_manager_def Let_def by (intro at_base_intros) simp_all

lemma at_base_discover [at_base_intros]: "baseURL (rf_client s) = b \<Longrightarrow> at_base b (discover E s)"
  unfolding discover_def by (intro at_base_intros) simp_all

lemma ensureDiscovery_base: "ensureDiscovery E s = (r, s') \<Longrightarrow> baseURL (rf_client s') = baseURL (rf_client s)"
  using at_base_discover [of s "baseURL (rf_client s)" E]
  by (auto simp: ensureDiscovery_def at_base_def split: option.splits if_splits)

text \<open>
  C28. A successful mount: when \<open>MountVirtualMedia\<close> returns no error, the slot is 1 or 2 and was
  discovered, and on a BMC whose \<open>GET\<close> and \<open>InsertMedia\<close> do what they report, the virtual media
  resource of that slot has media inserted whose image URL is the requested one up to the case
  of letters. (Equality up to case is what the code settles for when it skips the insertion.)
\<close>

theorem mount_effect:
  assumes "MountMedia E cd u s = (None, s')" and "reports_media E media (rf_client s)" and "inserts_media E media (rf_client s)"
  shows "1 \<le> cd \<and> cd \<le> 2 \<and> cd \<le> int (length (vmCDPaths (rf_client s'))) \<and>
    (\<exists>img. media (rf_world s') (vmCDPaths (rf_client s') ! nat (cd - 1)) = (True, img) \<and> equal_fold img u)"
proof -
  from assms(1) obtain s1 where s1: "ensureDiscovery E s = (None, s1)" and cd: "1 \<le> cd" "cd \<le> 2"
    "cd \<le> int (length (vmCDPaths (rf_client s1)))"
    and m: "mount_slot E cd (vmCDPaths (rf_client s1) ! nat (cd - 1)) u s1 = (None, s')"
    by (auto simp: MountMedia_def discovered_def split: prod.splits option.splits if_splits sum.splits)
  have b: "baseURL (rf_client s) = baseURL (rf_client s')" and v: "vmCDPaths (rf_client s') = vmCDPaths (rf_client s1)"
    using mount_slot_client [OF m] ensureDiscovery_base [OF s1] by auto
  from mount_slot_effect [OF m assms(2,3) b] cd v show ?thesis by simp
qed

text \<open>A BMC with one medium behind every path, which ejects and inserts as asked.\<close>

definition slot_json :: "bool \<times> string \<Rightarrow> json" where
  "slot_json w = JObj [(''Inserted'', JBool (fst w)), (''Image'', JStr (snd w))]"

definition demo_bmc :: "(bool \<times> string) rf_env" where
  "demo_bmc = \<lparr>hc_Do = (\<lambda>q w.
       if rq_method q = ''GET'' then (Inr (demo_resp 200 (slot_json w)), w)
       else (case rq_body q of
               Some (JObj ((k, JStr u) # _)) \<Rightarrow> (Inr (demo_resp 204 JNull), (True, u))
             | _ \<Rightarrow> (Inr (demo_resp 204 JNull), (False, '''')))),
     rf_now = (\<lambda>_. 0), rf_sleep = (\<lambda>_ w. w), bad_request = (\<lambda>_ _. None), url_JoinPath = (\<lambda>b r. Some (b @ r)),
     parse_URL = (\<lambda>u. Inr \<lparr>Scheme = ''http'', Path = '''', rest = u\<rparr>), http_ParseTime = (\<lambda>_. None)\<rparr>"

definition demo_bmc_state :: "bool \<times> string \<Rightarrow> (bool \<times> string) rf_state" where
  "demo_bmc_state w = \<lparr>rf_client = demo_client, rf_world = w, sent = []\<rparr>"

lemma decode_slot: "decode_media (RawJson (slot_json w)) = Some \<lparr>vm_ID = '''', vm_Name = '''', MediaTypes = [], Inserted = fst w, Image = snd w\<rparr>"
proof -
  have "\<not> equal_fold ''Inserted'' ''Id''" "\<not> equal_fold ''Inserted'' ''Name''" "\<not> equal_fold ''Inserted'' ''MediaTypes''"
    "\<not> equal_fold ''Image'' ''Id''" "\<not> equal_fold ''Image'' ''Name''" "\<not> equal_fold ''Image'' ''MediaTypes''" "\<not> equal_fold ''Image'' ''Inserted''"
    by code_simp+
  then show ?thesis by (simp add: decode_media_def slot_json_def decode_object_def decode_flag_def decode_str_def)
qed

theorem mount_effect_witness:
  "\<exists>s'. MountMedia demo_bmc 2 ''http://h/iso'' (demo_bmc_state (True, ''http://h/old'')) = (None, s') \<and>
     (\<exists>img. rf_world s' = (True, img) \<and> equal_fold img ''http://h/iso'')"
proof -
  let ?m = "MountMedia demo_bmc 2 ''http://h/iso'' (demo_bmc_state (True, ''http://h/old''))"
  have "fst ?m = None" by code_simp
  then have m: "?m = (None, snd ?m)" by (metis prod.collapse)
  have r: "reports_media demo_bmc (\<lambda>w p. w) (rf_client (demo_bmc_state (True, ''http://h/old'')))"
    by (auto simp: reports_media_def demo_bmc_def demo_resp_def decode_slot)
  have i: "inserts_media demo_bmc (\<lambda>w p. w) (rf_client (demo_bmc_state (True, ''http://h/old'')))"
    by (auto simp: inserts_media_def demo_bmc_def demo_resp_def insert_payload_def)
  from mount_effect [OF m r i] m show ?thesis by blast
qed

text \<open>
  A slot that holds an image whose URL differs only in the case of its path is taken for mounted:
  one \<open>GET\<close>, no insertion.
\<close>

lemma mount_skips_case_variant:
  "map rq_method (sent (snd (MountMedia demo_bmc 1 ''http://h/iso/a.iso'' (demo_bmc_state (True, ''http://h/ISO/A.iso''))))) = [''GET'']"
  by code_simp

section \<open>Choosing slots\<close>

lemma entry_less_irrefl: "\<not> entry_less a a"
  by (simp add: entry_less_def)

lemma entry_less_trans: "entry_less a b \<Longrightarrow> entry_less b c \<Longrightarrow> entry_less a c"
  by (auto simp: entry_less_def dest: str_less_trans split: if_splits)

lemma entry_less_total: "\<not> entry_less a b \<Longrightarrow> \<not> entry_less b a \<Longrightarrow> a = (b :: cdEntry)"
  using str_less_total [of "StableID a" "StableID b"] str_less_total [of "ce_Path a" "ce_Path b"]
  by (cases a; cases b) (auto simp: entry_less_def split: if_splits)

text \<open>In order: no entry before a smaller one.\<close>

fun in_entry_order :: "cdEntry list \<Rightarrow> bool" where
  "in_entry_order [] = True"
| "in_entry_order (x # xs) = ((\<forall>y \<in> set xs. \<not> entry_less y x) \<and> in_entry_order xs)"

lemma mset_insert_entry [simp]: "mset (insert_entry x xs) = add_mset x (mset xs)"
  by (induction xs) auto

lemma set_insert_entry [simp]: "set (insert_entry x xs) = insert x (set xs)"
  using mset_insert_entry [of x xs] by (metis set_mset_add_mset_insert set_mset_mset)

lemma insert_entry_order: "in_entry_order xs \<Longrightarrow> in_entry_order (insert_entry x xs)"
proof (induction xs)
  case Nil
  show ?case by simp
next
  case (Cons y ys)
  show ?case
  proof (cases "entry_less y x")
    case True
    then show ?thesis using Cons entry_less_trans entry_less_irrefl by auto
  next
    case False
    then have "\<not> entry_less z x" if "z \<in> set (y # ys)" for z
      using Cons.prems that entry_less_trans entry_less_total by (metis in_entry_order.simps(2) set_ConsD)
    with False Cons.prems show ?thesis by simp
  qed
qed

lemma sort_entries_props: "mset (sort_entries xs) = mset xs" "in_entry_order (sort_entries xs)"
  unfolding sort_entries_def by (induction xs) (simp_all add: insert_entry_order)

lemma ordered_unique: "in_entry_order xs \<Longrightarrow> in_entry_order ys \<Longrightarrow> mset xs = mset ys \<Longrightarrow> xs = ys"
proof (induction xs arbitrary: ys)
  case Nil
  then show ?case by simp
next
  case (Cons x xs)
  from Cons.prems(3) obtain y ys' where ys: "ys = y # ys'" by (cases ys) auto
  have "x \<in> set ys" "y \<in> set (x # xs)" using Cons.prems(3) ys by (metis list.set_intros(1) mset_eq_setD)+
  then have "x = y" using Cons.prems(1,2) ys entry_less_total by (metis in_entry_order.simps(2) set_ConsD)
  with Cons ys show ?case by simp
qed

text \<open>
  Slots are chosen deterministically: any list in the order of the comparison function that
  has the same entries is the list the client sorts to, so CD1 and CD2 do not depend on the
  sorting algorithm or on the order in which the BMC lists its virtual media; and no entry left
  out is before one that is chosen.
\<close>

lemma slots_deterministic:
  assumes "mset xs = mset ys"
  shows "slot_paths xs = slot_paths ys \<and>
    (\<forall>zs. in_entry_order zs \<longrightarrow> mset zs = mset xs \<longrightarrow> slot_paths ys = map ce_Path (take 2 zs)) \<and>
    (\<forall>a \<in> set (take 2 (sort_entries xs)). \<forall>b \<in> set (drop 2 (sort_entries xs)). \<not> entry_less b a)"
proof -
  have o: "zs = sort_entries xs" if "in_entry_order zs" "mset zs = mset xs" for zs
    using ordered_unique [OF that(1) sort_entries_props(2) [of xs]] that(2) sort_entries_props(1) [of xs] by simp
  have e: "sort_entries ys = sort_entries xs" using sort_entries_props [of ys] assms by (intro o) simp_all
  have "in_entry_order (xs @ ys) \<Longrightarrow> \<forall>a \<in> set xs. \<forall>b \<in> set ys. \<not> entry_less b a" for xs ys
    by (induction xs) auto
  then have "\<forall>a \<in> set (take 2 (sort_entries xs)). \<forall>b \<in> set (drop 2 (sort_entries xs)). \<not> entry_less b a"
    using sort_entries_props(2) [of xs] by (metis append_take_drop_id)
  with o e show ?thesis by (auto simp: slot_paths_def)
qed

lemma slots_deterministic_instance:
  "let e = \<lambda>p n. \<lparr>ce_Path = p, MediaTypeScore = n, StableID = lastSegment p\<rparr> in
   slot_paths [e ''/vm/USB'' 1, e ''/vm/CD2'' 4, e ''/vm/CD1'' 4] = [''/vm/CD1'', ''/vm/CD2''] \<and>
   slot_paths [e ''/vm/CD2'' 4, e ''/vm/CD1'' 4, e ''/vm/USB'' 1] = [''/vm/CD1'', ''/vm/CD2'']"
proof -
  let ?e = "\<lambda>p n. \<lparr>ce_Path = p, MediaTypeScore = n, StableID = lastSegment p\<rparr>"
  have a: "slot_paths [?e ''/vm/USB'' 1, ?e ''/vm/CD2'' 4, ?e ''/vm/CD1'' 4] = [''/vm/CD1'', ''/vm/CD2'']" by code_simp
  have "mset [?e ''/vm/USB'' 1, ?e ''/vm/CD2'' 4, ?e ''/vm/CD1'' 4] = mset [?e ''/vm/CD2'' 4, ?e ''/vm/CD1'' 4, ?e ''/vm/USB'' 1]"
    by (simp add: add_mset_commute)
  from slots_deterministic [OF this, THEN conjunct1, symmetric] a show ?thesis by (simp only: Let_def simp_thms)
qed

text \<open>A resource that only takes a USB stick counts as a CD slot.\<close>

lemma usb_is_a_slot: "media_score [''USBStick''] \<noteq> 0"
  by code_simp

section \<open>Waiting\<close>

text \<open>
  The delays of a client \<open>NewHTTPClient\<close> made: between the base and six fifths of the cap for the
  first 33 attempts, whatever the clock says. At the 37th the shift overflows \<open>int64\<close> and gives a
  negative delay, which does not wait at all.
\<close>

lemma go_rem_range: "0 \<le> n \<Longrightarrow> 0 < m \<Longrightarrow> 0 \<le> go_rem n m \<and> go_rem n m < m"
  by (simp add: go_rem_def go_quot_def minus_mult_div_eq_mod)

lemma backoff_bounds:
  assumes "200 * time_Millisecond \<le> retryBase c" "retryBase c \<le> 1000 * time_Millisecond" "retryBase c \<le> retryCap c"
    "retryCap c \<le> 60 * time_Second" "1 \<le> attempt" "attempt \<le> 33" "0 \<le> nanos"
  shows "retryBase c \<le> backoff c attempt nanos \<and> backoff c attempt nanos \<le> retryCap c + retryCap c div 5"
proof -
  define k where "k = nat (attempt - 1)"
  have "k \<le> 32" using assms(6) by (simp add: k_def)
  from power_increasing [OF this, of "2 :: int"] have p: "(1 :: int) \<le> 2 ^ k" "(2 :: int) ^ k \<le> 2 ^ 32" by simp_all
  have b: "retryBase c * 1 \<le> retryBase c * 2 ^ k" "retryBase c * 2 ^ k \<le> 1000000000 * 2 ^ 32"
    using assms(1,2) p by (intro mult_left_mono mult_mono; simp)+
  have "0 \<le> retryBase c * 2 ^ k" using assms(1) by simp
  with b(2) have w: "wrap64 (retryBase c * 2 ^ k) = retryBase c * 2 ^ k"
    by (intro wrap64_id) (simp add: in_int64_def)
  define d where "d = min (retryBase c * 2 ^ k) (retryCap c)"
  have d: "retryBase c \<le> d" "d \<le> retryCap c" using b assms(3) by (auto simp: d_def)
  have q: "go_quot d 5 = d div 5" "0 < d div 5" using d assms(1) by (auto simp: go_quot_def)
  have r: "0 \<le> go_rem nanos (d div 5)" "go_rem nanos (d div 5) < d div 5" using go_rem_range [OF assms(7) q(2)] by auto
  have "d div 5 \<le> retryCap c div 5" using d(2) by (rule zdiv_mono1) simp
  with d r assms(4) have s: "d + go_rem nanos (d div 5) \<le> retryCap c + retryCap c div 5" "retryBase c \<le> d + go_rem nanos (d div 5)" by linarith+
  have "retryCap c + retryCap c div 5 < 2 ^ 63" using assms(4) by (simp add: div_less_dividend)
  with s assms(1) have "wrap64 (d + go_rem nanos (d div 5)) = d + go_rem nanos (d div 5)"
    by (intro wrap64_id) (simp add: in_int64_def)
  moreover have "backoff c attempt nanos = wrap64 (d + go_rem nanos (d div 5))"
  proof -
    have e: "(if retryBase c * 2 ^ k > retryCap c then retryCap c else retryBase c * 2 ^ k) = d" by (auto simp: d_def)
    have "\<not> retryBase c \<le> 0" "\<not> retryCap c \<le> 0" "\<not> attempt < 1" using assms(1,3,5) by simp_all
    then show ?thesis unfolding backoff_def Let_def by (simp only: if_False k_def [symmetric] w e q if_True)
  qed
  ultimately show ?thesis using s by simp
qed

lemma backoff_overflow: "backoff demo_client 37 0 < 0"
  by code_simp

end
