(* ===== verification/IsoBuilder.thy ===== *)
theory IsoBuilder
  imports Disk Regex Worker Media
begin

text \<open>
  The builder of task ISOs (\<open>internal/provisioner/iso/builder.go\<close>): for a job it writes the recipe and the
  other inputs and a placeholder \<open>task.iso\<close> that names them with their digests, each file replaced as a
  whole, on a disk whose every system call may fail.

  The record \<open>iso_env\<close> holds the working directory, the names \<open>os.CreateTemp\<close> picks for the temporary
  file of a base name by operation number, SHA-256 in hexadecimal, and the text of \<open>%q\<close>. The assets of the
  worker are extended by the two inputs it leaves empty.
\<close>

record iso_assets = Assets +
  UserData :: string
  UnattendXML :: string

record iso_env =
  iso_cwd :: path
  iso_temp :: "string \<Rightarrow> nat \<Rightarrow> string"
  sha256_hex :: "string \<Rightarrow> string"
  quoted :: "string \<Rightarrow> string"

definition uuidLike :: re where
  "uuidLike = Plus (Cls (\<lambda>c. is_alnum c \<or> c \<in> set ''-_.:''))"

text \<open>\<open>TASK_ISO_DIR\<close> as a path.\<close>

definition iso_root :: "iso_env \<Rightarrow> string \<Rightarrow> path" where
  "iso_root E rootDir = text_path (iso_cwd E) rootDir"

section \<open>The placeholder\<close>

definition optional_part :: "string \<Rightarrow> string \<Rightarrow> (string \<times> string) list" where
  "optional_part name data = (if data = [] then [] else [(name, data)])"

definition iso_parts :: "string \<Rightarrow> iso_assets \<Rightarrow> (string \<times> string) list" where
  "iso_parts recipe a =
     [(''recipe.json'', recipe)] @ optional_part ''recipe.schema.json'' (RecipeSchema a) @ optional_part ''user-data'' (UserData a) @
     optional_part ''unattend.xml'' (UnattendXML a) @ optional_part ''ks.cfg'' (Kickstart a)"

abbreviation NL :: string where "NL \<equiv> [CHR 0x0A]"

definition file_entry :: "iso_env \<Rightarrow> string \<times> string \<Rightarrow> string" where
  "file_entry E p =
     ''  - name: '' @ fst p @ NL @ ''    sha256: '' @ sha256_hex E (snd p) @ NL @ ''    size: '' @ itoa (int (length (snd p))) @ NL"

definition composePlaceholder :: "iso_env \<Rightarrow> string \<Rightarrow> string \<Rightarrow> iso_assets \<Rightarrow> string" where
  "composePlaceholder E jobID recipe a =
     ''shoal-task-iso-placeholder/1'' @ NL @ ''kind: placeholder'' @ NL @ ''job_id: '' @ jobID @ NL @
     ''files:'' @ NL @ concat (map (file_entry E) (sort_key fst (iso_parts recipe a))) @
     ''layout:'' @ NL @ concat (map (\<lambda>p. ''  - /'' @ fst p @ NL) (iso_parts recipe a))"

section \<open>Writing\<close>

definition iso_fill :: "path \<Rightarrow> path \<Rightarrow> string \<Rightarrow> (disk, string + unit) state" where
  "iso_fill tmp path content =
     try_io ''write temp: '' (os_WriteFile tmp content) (\<lambda>_.
     try_io ''sync temp: '' os_touch (\<lambda>_.
     try_io ''close temp: '' os_touch (\<lambda>_.
     try_io ''chmod temp: '' os_touch (\<lambda>_.
     try_io ''rename temp into place: '' (os_Rename tmp path) (\<lambda>_. State_Monad.return (Inr ()))))))"

definition iso_writeAtomic :: "iso_env \<Rightarrow> path \<Rightarrow> string \<Rightarrow> (disk, string + unit) state" where
  "iso_writeAtomic E path content = do {
     n \<leftarrow> op_number;
     try_io ''create temp: '' (os_CreateTemp (butlast path) (iso_temp E (last path) n)) (\<lambda>tmp. do {
       r \<leftarrow> iso_fill tmp path content;
       _ \<leftarrow> os_Remove tmp;
       State_Monad.return r }) }"

definition writeIfNonEmpty :: "iso_env \<Rightarrow> path \<Rightarrow> string \<Rightarrow> (disk, string + unit) state" where
  "writeIfNonEmpty E path data = (if data = [] then State_Monad.return (Inr ()) else iso_writeAtomic E path data)"

fun write_parts :: "iso_env \<Rightarrow> path \<Rightarrow> (string \<times> string) list \<Rightarrow> (disk, string + 'a) state \<Rightarrow> (disk, string + 'a) state" where
  "write_parts E dir [] k = k"
| "write_parts E dir (p # ps) k = try_op [] (writeIfNonEmpty E (join_path dir (fst p)) (snd p)) (\<lambda>_. write_parts E dir ps k)"

text \<open>The size \<open>os.Stat\<close> reports; what was just renamed into place is a file.\<close>

definition stat_size :: "node \<Rightarrow> int" where
  "stat_size n = (case n of FileN c \<Rightarrow> int (length c) | DirN \<Rightarrow> 0)"

definition build_in :: "iso_env \<Rightarrow> string \<Rightarrow> path \<Rightarrow> string \<Rightarrow> string \<Rightarrow> iso_assets \<Rightarrow> (disk, string + Result) state" where
  "build_in E rootDir dir jobID recipe a =
     (let content = composePlaceholder E jobID recipe a in
      try_io ''iso: create job directory: '' (os_MkdirAll dir) (\<lambda>_.
      write_parts E dir (iso_parts recipe a) (
      try_op ''iso: write placeholder: '' (iso_writeAtomic E (join_path dir ''task.iso'') content) (\<lambda>_.
      try_io ''iso: stat output: '' (os_Stat (join_path dir ''task.iso'')) (\<lambda>n.
      State_Monad.return (Inr \<lparr>ResPath = path_join [path_join [rootDir, jobID], ''task.iso''], ResSize = stat_size n,
        ResSHA256 = sha256_hex E content\<rparr>))))))"

definition BuildTaskISO ::
  "iso_env \<Rightarrow> string option \<Rightarrow> string \<Rightarrow> string \<Rightarrow> string \<Rightarrow> iso_assets \<Rightarrow> (disk, string + Result) state" where
  "BuildTaskISO E ctxErr rootDir jobID recipe a =
     (case ctxErr of
        Some e \<Rightarrow> State_Monad.return (Inl e)
      | None \<Rightarrow>
          if rootDir = '''' then State_Monad.return (Inl ''iso: root directory is empty'')
          else if jobID = '''' \<or> \<not> matches uuidLike jobID then State_Monad.return (Inl (''iso: invalid jobID '' @ quoted E jobID))
          else if recipe = [] \<or> recipe = ''null'' then State_Monad.return (Inl ''iso: recipe is required'')
          else build_in E rootDir (join_path (iso_root E rootDir) jobID) jobID recipe a)"

section \<open>The artifact is replaced as a whole\<close>

definition iso_names :: "string list" where
  "iso_names = [''recipe.json'', ''recipe.schema.json'', ''user-data'', ''unattend.xml'', ''ks.cfg'', ''task.iso'']"

text \<open>\<open>os.CreateTemp\<close> replaces the star of the pattern \<open>.BASE.tmp-*\<close>.\<close>

definition iso_temp_ok :: "iso_env \<Rightarrow> bool" where
  "iso_temp_ok E \<longleftrightarrow> (\<forall>b n. has_prefix (iso_temp E b n) (''.'' @ b @ ''.tmp-''))"

lemma temp_not_output: "iso_temp_ok E \<Longrightarrow> x \<in> set iso_names \<Longrightarrow> iso_temp E b n \<noteq> x"
proof -
  assume "iso_temp_ok E" "x \<in> set iso_names"
  moreover from this obtain r where "iso_temp E b n = CHR ''.'' # r" by (auto simp: iso_temp_ok_def has_prefix_iff)
  ultimately show ?thesis by (auto simp: iso_names_def)
qed

text \<open>Everything that is not in the directory of the job, nor on the way to it, and its \<open>task.iso\<close>.\<close>

definition protected_paths :: "path \<Rightarrow> path set" where
  "protected_paths dir = insert (dir @ [''task.iso'']) {q. q \<notin> above dir \<and> (\<forall>s. q \<noteq> dir @ s)}"

lemma iso_writeAtomic_triple:
  assumes "iso_temp_ok E" "x \<in> set iso_names"
  shows "triple (kept (protected_paths dir) V {}) (iso_writeAtomic E (dir @ [x]) c) (replaced (protected_paths dir) V (dir @ [x]) c)"
  unfolding iso_writeAtomic_def butlast_snoc last_snoc
proof (rule through_temp_triple)
  fix n
  have t: "dir @ [iso_temp E x n] \<notin> protected_paths dir"
    using temp_not_output [OF assms(1), of "''task.iso''"] by (auto simp: protected_paths_def iso_names_def)
  then show "dir @ [iso_temp E x n] \<notin> protected_paths dir" .
  show "triple (kept (protected_paths dir) V {}) (iso_fill (dir @ [iso_temp E x n]) (dir @ [x]) c) (replaced (protected_paths dir) V (dir @ [x]) c)"
    unfolding iso_fill_def by (rule fill_triple [OF t]) (use temp_not_output [OF assms] in auto)
qed

lemma plain_iso_names: "x \<in> set iso_names \<Longrightarrow> plain_elem x"
  by (auto simp: iso_names_def plain_elem_def)

lemma write_part_triple:
  assumes "iso_temp_ok E" "x \<in> set iso_names" "x \<noteq> ''task.iso''"
  shows "triple (kept (protected_paths dir) V {}) (writeIfNonEmpty E (join_path dir x) c) (\<lambda>_. kept (protected_paths dir) V {})"
proof -
  have n: "dir @ [x] \<notin> protected_paths dir" using assms(3) by (auto simp: protected_paths_def)
  have "kept (protected_paths dir) (V(dir @ [x] \<mapsto> FileN c)) {} ns \<longleftrightarrow> kept (protected_paths dir) V {} ns" for ns
    using n by (auto simp: kept_def)
  then have "triple (kept (protected_paths dir) V {}) (iso_writeAtomic E (dir @ [x]) c) (\<lambda>_. kept (protected_paths dir) V {})"
    by (intro triple_weaken [OF iso_writeAtomic_triple [OF assms(1,2)]]) (auto simp: replaced_def split: if_splits)
  then show ?thesis by (auto simp: writeIfNonEmpty_def plain_iso_names assms(2) intro: triple_return)
qed

lemma write_parts_triple:
  assumes "iso_temp_ok E" "\<And>p. p \<in> set ps \<Longrightarrow> fst p \<in> set iso_names \<and> fst p \<noteq> ''task.iso''"
    and "triple (kept (protected_paths dir) V {}) k Q" "\<And>e ns. kept (protected_paths dir) V {} ns \<Longrightarrow> Q (Inl e) ns"
  shows "triple (kept (protected_paths dir) V {}) (write_parts E dir ps k) Q"
  using assms(2)
proof (induction ps)
  case (Cons p ps)
  then have p: "fst p \<in> set iso_names" "fst p \<noteq> ''task.iso''" by auto
  show ?case
    unfolding write_parts.simps
    by (rule try_op_triple [OF write_part_triple [OF assms(1) p]]) (use Cons assms(4) in auto)
qed (use assms in simp)

lemma iso_parts_names: "p \<in> set (iso_parts recipe a) \<Longrightarrow> fst p \<in> set iso_names \<and> fst p \<noteq> ''task.iso''"
  by (auto simp: iso_parts_def optional_part_def iso_names_def split: if_splits)

lemma build_in_triple:
  assumes "iso_temp_ok E"
  shows "triple (kept (protected_paths dir) V {}) (build_in E rootDir dir jobID recipe a)
     (\<lambda>r ns. (\<forall>res. r \<noteq> Inr res) \<and> kept (protected_paths dir) V {} ns \<or>
        kept (protected_paths dir) (V(dir @ [''task.iso''] \<mapsto> FileN (composePlaceholder E jobID recipe a))) {} ns \<and>
        (\<forall>res. r = Inr res \<longrightarrow> open_to ns (dir @ [''task.iso'']) \<and> ResPath res = path_join [path_join [rootDir, jobID], ''task.iso''] \<and>
           ResSize res = int (length (composePlaceholder E jobID recipe a)) \<and> ResSHA256 res = sha256_hex E (composePlaceholder E jobID recipe a)))"
    (is "triple _ _ ?Q")
proof -
  let ?c = "composePlaceholder E jobID recipe a" and ?f = "dir @ [''task.iso'']"
  let ?K = "kept (protected_paths dir) V {}" and ?K' = "kept (protected_paths dir) (V(?f \<mapsto> FileN ?c)) {}"
  have m: "triple ?K (os_MkdirAll dir) (\<lambda>r. ?K)"
    by (rule triple_weaken [OF mkdir_triple]) (auto simp: protected_paths_def)
  have w: "triple ?K (iso_writeAtomic E ?f ?c) (replaced (protected_paths dir) V ?f ?c)"
    by (rule iso_writeAtomic_triple [OF assms]) (simp add: iso_names_def)
  have c: "stat_size n = int (length ?c)" if "?K' ns" "map_of ns ?f = Some n" for ns n
    using that by (auto simp: kept_def protected_paths_def stat_size_def)
  have st: "triple ?K' (try_io ''iso: stat output: '' (os_Stat ?f) (\<lambda>n. State_Monad.return (Inr \<lparr>ResPath = path_join [path_join [rootDir, jobID], ''task.iso''],
      ResSize = stat_size n, ResSHA256 = sha256_hex E ?c\<rparr>))) ?Q"
    by (rule try_io_triple [OF reader_triples(1) [where P = ?K']]) (auto intro!: triple_return intro: c)
  have last: "triple ?K (try_op ''iso: write placeholder: '' (iso_writeAtomic E ?f ?c) (\<lambda>_. try_io ''iso: stat output: '' (os_Stat ?f)
      (\<lambda>n. State_Monad.return (Inr \<lparr>ResPath = path_join [path_join [rootDir, jobID], ''task.iso''], ResSize = stat_size n, ResSHA256 = sha256_hex E ?c\<rparr>)))) ?Q"
    by (rule try_op_triple [OF w], simp add: replaced_def, rule triple_pre [OF st], simp add: replaced_def)
  have "plain_elem ''task.iso''" by (simp add: plain_elem_def)
  then show ?thesis
    unfolding build_in_def Let_def
    by (simp del: join_path_def) (intro try_io_triple [OF m] write_parts_triple [OF assms iso_parts_names last]; simp)
qed

lemma uuidLike_plain:
  assumes "matches uuidLike jobID" "jobID \<noteq> ''.''" "jobID \<noteq> ''..''"
  shows "plain_elem jobID"
  using assms by (auto simp: uuidLike_def plain_elem_def is_alnum_def is_upper_def is_lower_def is_digit_def Regex.in_range_def)

text \<open>
  The artifact of a job is never half written. Whatever system calls fail, after a build of a job
  (named neither \<open>.\<close> nor \<open>..\<close>) its \<open>task.iso\<close> is what it was before, or the complete placeholder
  for exactly these inputs, and it is the latter when the build reports success; the reported size
  and digest are then those of this content. Nothing outside the directory of the job is changed.
\<close>

lemma task_iso_atomic:
  assumes "iso_temp_ok E" "jobID \<noteq> ''.''" "jobID \<noteq> ''..''"
    and "run_state (BuildTaskISO E ctxErr rootDir jobID recipe a) d = (r, d')"
  shows "let dir = iso_root E rootDir @ [jobID]; f = dir @ [''task.iso'']; c = composePlaceholder E jobID recipe a in
     (map_of (nodes d') f = map_of (nodes d) f \<and> (\<exists>e. r = Inl e) \<or> map_of (nodes d') f = Some (FileN c)) \<and>
     (\<forall>res. r = Inr res \<longrightarrow> map_of (nodes d') f = Some (FileN c) \<and> ResSize res = int (length c) \<and> ResSHA256 res = sha256_hex E c) \<and>
     (\<forall>q. q \<notin> above dir \<and> (\<forall>s. q \<noteq> dir @ s) \<longrightarrow> map_of (nodes d') q = map_of (nodes d) q)"
proof (cases "ctxErr = None \<and> rootDir \<noteq> '''' \<and> jobID \<noteq> '''' \<and> matches uuidLike jobID \<and> recipe \<noteq> [] \<and> recipe \<noteq> ''null''")
  case False
  with assms(4) have "d' = d" "\<exists>e. r = Inl e" by (auto simp: BuildTaskISO_def split: option.splits if_splits)
  then show ?thesis by (auto simp: Let_def)
next
  case True
  let ?dir = "iso_root E rootDir @ [jobID]"
  from True uuidLike_plain [of jobID] assms(2-4) have run: "run_state (build_in E rootDir ?dir jobID recipe a) d = (r, d')"
    by (simp add: BuildTaskISO_def)
  have "kept (protected_paths ?dir) (map_of (nodes d)) {} (nodes d)" by (simp add: kept_def)
  from tripleD [OF build_in_triple [OF assms(1)] this, of rootDir jobID recipe a] run
  show ?thesis unfolding Let_def kept_def protected_paths_def by (cases r) auto
qed


section \<open>The placeholder binds its inputs\<close>

definition lines_text :: "string list \<Rightarrow> string" where
  "lines_text ls = concat (map (\<lambda>l. l @ NL) ls)"

lemma lines_text_inj:
  "(\<And>l. l \<in> set ls \<union> set ms \<Longrightarrow> CHR 0x0A \<notin> set l) \<Longrightarrow> lines_text ls = lines_text ms \<Longrightarrow> ls = ms"
proof (induction ls arbitrary: ms)
  case (Cons l ls)
  from Cons.prems(2) obtain m ms' where ms: "ms = m # ms'" by (cases ms) (auto simp: lines_text_def)
  let ?t = "takeWhile (\<lambda>c. c \<noteq> CHR 0x0A)"
  have cut: "?t (l @ CHR 0x0A # r) = l" if "CHR 0x0A \<notin> set l" for l r using that by (induction l) auto
  from Cons.prems(2) have eq: "l @ CHR 0x0A # lines_text ls = m @ CHR 0x0A # lines_text ms'" by (simp add: ms lines_text_def)
  then have "?t (l @ CHR 0x0A # lines_text ls) = ?t (m @ CHR 0x0A # lines_text ms')" by simp
  then have "l = m" using Cons.prems(1) by (simp add: cut ms del: takeWhile_append)
  with eq Cons.IH [of ms'] Cons.prems(1) show ?case by (simp add: ms)
qed (simp add: lines_text_def)

definition entry_lines :: "iso_env \<Rightarrow> string \<times> string \<Rightarrow> string list" where
  "entry_lines E p = [''  - name: '' @ fst p, ''    sha256: '' @ sha256_hex E (snd p), ''    size: '' @ itoa (int (length (snd p)))]"

definition placeholder_lines :: "iso_env \<Rightarrow> string \<Rightarrow> string \<Rightarrow> iso_assets \<Rightarrow> string list" where
  "placeholder_lines E jobID recipe a =
     [''shoal-task-iso-placeholder/1'', ''kind: placeholder'', ''job_id: '' @ jobID, ''files:''] @
     concat (map (entry_lines E) (sort_key fst (iso_parts recipe a))) @
     [''layout:''] @ map (\<lambda>p. ''  - /'' @ fst p) (iso_parts recipe a)"

lemma lines_text_append: "lines_text (ls @ ms) = lines_text ls @ lines_text ms"
  by (simp add: lines_text_def)

lemma composePlaceholder_lines: "composePlaceholder E jobID recipe a = lines_text (placeholder_lines E jobID recipe a)"
proof -
  have "concat (map (file_entry E) ps) = lines_text (concat (map (entry_lines E) ps))" for ps
    by (induction ps) (auto simp: lines_text_def file_entry_def entry_lines_def)
  moreover have "concat (map (\<lambda>p. ''  - /'' @ fst p @ NL) ps) = lines_text (map (\<lambda>p. ''  - /'' @ fst p) ps)" for ps :: "(string \<times> string) list"
    by (induction ps) (auto simp: lines_text_def)
  ultimately show ?thesis
    unfolding composePlaceholder_def placeholder_lines_def lines_text_append by (simp add: lines_text_def)
qed

lemma itoa_no_newline: "CHR 0x0A \<notin> set (itoa n)"
  using set_digits by (auto simp: itoa_def)

lemma placeholder_lines_plain:
  assumes "\<And>x. CHR 0x0A \<notin> set (sha256_hex E x)" "CHR 0x0A \<notin> set jobID" "l \<in> set (placeholder_lines E jobID recipe a)"
  shows "CHR 0x0A \<notin> set l"
proof -
  have "CHR 0x0A \<notin> set (fst p)" if "p \<in> set (iso_parts recipe a)" for p
    using iso_parts_names [OF that] by (auto simp: iso_names_def)
  then show ?thesis using assms itoa_no_newline by (auto simp: placeholder_lines_def entry_lines_def)
qed

lemma entries_inj:
  assumes "inj (sha256_hex E)" "length ps = length qs" "concat (map (entry_lines E) ps) = concat (map (entry_lines E) qs)"
  shows "ps = qs"
  using assms(2,3)
proof (induction ps qs rule: list_induct2)
  case (Cons p ps q qs)
  then have "fst p = fst q" "sha256_hex E (snd p) = sha256_hex E (snd q)" by (auto simp: entry_lines_def)
  with Cons assms(1) show ?case by (auto simp: entry_lines_def prod_eq_iff dest: injD)
qed simp

lemma iso_parts_mem:
  "(''recipe.json'', x) \<in> set (iso_parts recipe a) \<longleftrightarrow> x = recipe"
  "(''recipe.schema.json'', x) \<in> set (iso_parts recipe a) \<longleftrightarrow> x = RecipeSchema a \<and> x \<noteq> []"
  "(''user-data'', x) \<in> set (iso_parts recipe a) \<longleftrightarrow> x = UserData a \<and> x \<noteq> []"
  "(''unattend.xml'', x) \<in> set (iso_parts recipe a) \<longleftrightarrow> x = UnattendXML a \<and> x \<noteq> []"
  "(''ks.cfg'', x) \<in> set (iso_parts recipe a) \<longleftrightarrow> x = Kickstart a \<and> x \<noteq> []"
  by (auto simp: iso_parts_def optional_part_def)

lemma iso_parts_inj:
  assumes "set (iso_parts r a) = set (iso_parts r' a')"
  shows "r = r' \<and> a = a'"
proof -
  have "r = r'" using iso_parts_mem(1) [of r r a] iso_parts_mem(1) [of r r' a'] assms by simp
  moreover have "x = y" if "\<And>z :: string. z = x \<and> z \<noteq> [] \<longleftrightarrow> z = y \<and> z \<noteq> []" for x y using that by metis
  then have "RecipeSchema a = RecipeSchema a'" "UserData a = UserData a'" "UnattendXML a = UnattendXML a'" "Kickstart a = Kickstart a'"
    using iso_parts_mem(2-5) [of _ r a] iso_parts_mem(2-5) [of _ r' a'] assms by metis+
  ultimately show ?thesis by (auto intro: iso_assets.equality)
qed

text \<open>
  The placeholder binds what it was built from: if two builds of well-formed job ids produce the
  same bytes, then they were for the same job, the same recipe and the same assets, or SHA-256 has a
  collision. So the digest the worker records stands for the inputs of the job.
\<close>

lemma placeholder_binds:
  assumes "\<And>x. CHR 0x0A \<notin> set (sha256_hex E x)" and "matches uuidLike j" "matches uuidLike j'"
    and "composePlaceholder E j r a = composePlaceholder E j' r' a'"
  shows "j = j' \<and> r = r' \<and> a = a' \<or> (\<exists>x y. x \<noteq> y \<and> sha256_hex E x = sha256_hex E y)"
proof (cases "inj (sha256_hex E)")
  case True
  let ?P = "sort_key fst (iso_parts r a)" and ?P' = "sort_key fst (iso_parts r' a')"
  have id: "CHR 0x0A \<notin> set i" if "matches uuidLike i" for i
    using that by (auto simp: uuidLike_def is_alnum_def is_upper_def is_lower_def is_digit_def Regex.in_range_def)
  have eq: "placeholder_lines E j r a = placeholder_lines E j' r' a'"
    using placeholder_lines_plain [OF assms(1) id [OF assms(2)]] placeholder_lines_plain [OF assms(1) id [OF assms(3)]] assms(4)
    by (intro lines_text_inj) (auto simp only: composePlaceholder_lines Un_iff)
  have len: "length (concat (map (entry_lines E) ps)) = 3 * length ps" for ps by (induction ps) (auto simp: entry_lines_def)
  from arg_cong [OF eq, of length] have n: "length ?P = length ?P'" by (simp add: placeholder_lines_def len)
  with eq have "j = j'" "concat (map (entry_lines E) ?P) = concat (map (entry_lines E) ?P')"
    by (auto simp: placeholder_lines_def len)
  moreover from entries_inj [OF True n this(2)] have "set (iso_parts r a) = set (iso_parts r' a')" by (metis set_sort)
  ultimately show ?thesis using iso_parts_inj by blast
next
  case False
  then show ?thesis by (auto simp: inj_def)
qed

section \<open>The artifact is what the media server delivers\<close>

text \<open>What \<open>os.Stat\<close> and \<open>os.Open\<close> of the media server find on the disk under a path text.\<close>

definition disk_file :: "path \<Rightarrow> (path \<times> node) list \<Rightarrow> string \<Rightarrow> file_state" where
  "disk_file wd ns t =
     (case resolve ''open'' ns (text_path wd t) of
        Inr (FileN c) \<Rightarrow> FileThere c
      | Inr DirN \<Rightarrow> OtherFileError
      | Inl (Disk.NotExist e) \<Rightarrow> Media.NotExist
      | Inl (IoError e) \<Rightarrow> OtherFileError)"

lemma built_iso:
  assumes "iso_temp_ok E" "jobID \<noteq> ''.''" "jobID \<noteq> ''..''"
    and "run_state (BuildTaskISO E ctxErr rootDir jobID recipe a) d = (Inr res, d')"
  shows "disk_file (iso_cwd E) (nodes d') (path_join [rootDir, jobID, ''task.iso'']) = FileThere (composePlaceholder E jobID recipe a)"
    "plain_elem jobID" "matches uuidLike jobID" "ResSHA256 res = sha256_hex E (composePlaceholder E jobID recipe a)"
proof -
  let ?dir = "iso_root E rootDir @ [jobID]"
  from assms(4) show j: "matches uuidLike jobID" by (auto simp: BuildTaskISO_def split: option.splits if_splits)
  with assms(2,3) show p: "plain_elem jobID" by (rule_tac uuidLike_plain)
  from assms(4) have r: "rootDir \<noteq> []" by (auto simp: BuildTaskISO_def split: option.splits if_splits)
  from assms(4) p have run: "run_state (build_in E rootDir ?dir jobID recipe a) d = (Inr res, d')"
    by (auto simp: BuildTaskISO_def split: option.splits if_splits)
  have "kept (protected_paths ?dir) (map_of (nodes d)) {} (nodes d)" by (simp add: kept_def)
  note t = tripleD [OF build_in_triple [OF assms(1)] this, of rootDir jobID recipe a]
  from t run have "map_of (nodes d') (?dir @ [''task.iso'']) = Some (FileN (composePlaceholder E jobID recipe a))" "open_to (nodes d') (?dir @ [''task.iso''])"
    by (auto simp: kept_def protected_paths_def)
  moreover have "text_path (iso_cwd E) (path_join [rootDir, jobID, ''task.iso'']) = ?dir @ [''task.iso'']"
    unfolding iso_root_def append_assoc append_Cons append_Nil by (rule text_path_join) (use p r in \<open>auto simp: plain_elem_def\<close>)
  ultimately show "disk_file (iso_cwd E) (nodes d') (path_join [rootDir, jobID, ''task.iso'']) = FileThere (composePlaceholder E jobID recipe a)"
    by (simp add: disk_file_def resolve_simp)
  from t run show "ResSHA256 res = sha256_hex E (composePlaceholder E jobID recipe a)" by auto
qed



section \<open>Evaluation\<close>

definition iso_demo :: iso_env where
  "iso_demo = \<lparr>iso_cwd = [], iso_temp = (\<lambda>b n. ''.'' @ b @ ''.tmp-1''), sha256_hex = (\<lambda>x. ''sum''), quoted = (\<lambda>x. x)\<rparr>"

definition iso_demo_assets :: iso_assets where
  "iso_demo_assets = \<lparr>RecipeSchema = ''{}'', Kickstart = [], UserData = [], UnattendXML = []\<rparr>"

definition iso_demo_disk :: disk where
  "iso_demo_disk = \<lparr>nodes = [], io_ops = 0, io_fault = (\<lambda>_. None)\<rparr>"

definition iso_demo_media :: media_env where
  "iso_demo_media = \<lparr>m_hmac = (\<lambda>k m. k @ m), m_now = 0,
     m_file = disk_file [] (nodes (snd (run_state (BuildTaskISO iso_demo None ''/isos'' ''job-1'' ''{}'' iso_demo_assets) iso_demo_disk)))\<rparr>"

definition iso_demo_request :: request where
  "iso_demo_request = \<lparr>Method = ''GET'', URLPath = ''/media/tasks/job-1/task.iso'', Header = (\<lambda>_. ''''), Query = (\<lambda>_. ''''), Body = RawEmpty, RemoteAddr = ''''\<rparr>"

lemma iso_demo_ok: "iso_temp_ok iso_demo"
  by (simp add: iso_temp_ok_def iso_demo_def has_prefix_iff)


text \<open>The pattern for job ids admits \<open>..\<close>, and then the files are written next to the directory of the ISOs.\<close>

lemma job_id_escapes:
  "matches uuidLike ''..''"
  "map_of (nodes (snd (run_state (BuildTaskISO iso_demo None ''/srv/isos'' ''..'' ''{}'' iso_demo_assets) iso_demo_disk))) [''srv'', ''task.iso''] =
     Some (FileN (composePlaceholder iso_demo ''..'' ''{}'' iso_demo_assets))"
  by code_simp+

end
