(* ===== verification/OciMetrics.thy ===== *)
theory OciMetrics
  imports GoLib
begin

text \<open>
  The metrics of the registry (\<open>internal/provisioner/oci/metrics.go\<close>): the counters with their
  \<open>int64\<close> wrap-around, the snapshot, and its text in the format of Prometheus with the package's own
  printing of integers and floats. The mutex makes each operation one step. A clock reading is an
  argument of \<open>RecordGCRun\<close>; \<open>ovf\<close> is the conversion of a float that is out of range.
\<close>

record Metrics =
  uploadBytesTotal :: int
  downloadBytesTotal :: int
  uploadCount :: int
  downloadCount :: int
  blobGetCount :: int
  blobHeadCount :: int
  blobPutCount :: int
  manifestGetCount :: int
  manifestPutCount :: int
  manifestDelCount :: int
  uploadDurationTotal :: int
  downloadDurationTotal :: int
  storageBytes :: int
  blobCount :: int
  gcRunsTotal :: int
  gcBlobsDeleted :: int
  gcLastRunTime :: "int option"
  gcLastDuration :: int
  uploadErrorCount :: int
  downloadErrorCount :: int

definition NewMetrics :: Metrics where
  "NewMetrics = \<lparr>uploadBytesTotal = 0, downloadBytesTotal = 0, uploadCount = 0, downloadCount = 0, blobGetCount = 0, blobHeadCount = 0,
     blobPutCount = 0, manifestGetCount = 0, manifestPutCount = 0, manifestDelCount = 0, uploadDurationTotal = 0, downloadDurationTotal = 0,
     storageBytes = 0, blobCount = 0, gcRunsTotal = 0, gcBlobsDeleted = 0, gcLastRunTime = None, gcLastDuration = 0, uploadErrorCount = 0,
     downloadErrorCount = 0\<rparr>"

definition inc64 :: "int \<Rightarrow> int \<Rightarrow> int" where
  "inc64 d n = wrap64 (n + d)"

definition Milliseconds :: "int \<Rightarrow> int" where
  "Milliseconds d = go_quot d 1000000"

definition RecordUpload :: "int \<Rightarrow> int \<Rightarrow> Metrics \<Rightarrow> Metrics" where
  "RecordUpload bytes duration m = m\<lparr>uploadBytesTotal := inc64 bytes (uploadBytesTotal m), uploadCount := inc64 1 (uploadCount m),
     uploadDurationTotal := inc64 (Milliseconds duration) (uploadDurationTotal m)\<rparr>"

definition RecordDownload :: "int \<Rightarrow> int \<Rightarrow> Metrics \<Rightarrow> Metrics" where
  "RecordDownload bytes duration m = m\<lparr>downloadBytesTotal := inc64 bytes (downloadBytesTotal m), downloadCount := inc64 1 (downloadCount m),
     downloadDurationTotal := inc64 (Milliseconds duration) (downloadDurationTotal m)\<rparr>"

definition RecordBlobGet :: "Metrics \<Rightarrow> Metrics" where
  "RecordBlobGet m = m\<lparr>blobGetCount := inc64 1 (blobGetCount m)\<rparr>"

definition RecordBlobHead :: "Metrics \<Rightarrow> Metrics" where
  "RecordBlobHead m = m\<lparr>blobHeadCount := inc64 1 (blobHeadCount m)\<rparr>"

definition RecordBlobPut :: "Metrics \<Rightarrow> Metrics" where
  "RecordBlobPut m = m\<lparr>blobPutCount := inc64 1 (blobPutCount m)\<rparr>"

definition RecordManifestGet :: "Metrics \<Rightarrow> Metrics" where
  "RecordManifestGet m = m\<lparr>manifestGetCount := inc64 1 (manifestGetCount m)\<rparr>"

definition RecordManifestPut :: "Metrics \<Rightarrow> Metrics" where
  "RecordManifestPut m = m\<lparr>manifestPutCount := inc64 1 (manifestPutCount m)\<rparr>"

definition RecordManifestDelete :: "Metrics \<Rightarrow> Metrics" where
  "RecordManifestDelete m = m\<lparr>manifestDelCount := inc64 1 (manifestDelCount m)\<rparr>"

definition RecordUploadError :: "Metrics \<Rightarrow> Metrics" where
  "RecordUploadError m = m\<lparr>uploadErrorCount := inc64 1 (uploadErrorCount m)\<rparr>"

definition RecordDownloadError :: "Metrics \<Rightarrow> Metrics" where
  "RecordDownloadError m = m\<lparr>downloadErrorCount := inc64 1 (downloadErrorCount m)\<rparr>"

definition UpdateStorageMetrics :: "int \<Rightarrow> int \<Rightarrow> Metrics \<Rightarrow> Metrics" where
  "UpdateStorageMetrics bytes count m = m\<lparr>storageBytes := bytes, blobCount := count\<rparr>"

definition RecordGCRun :: "int \<Rightarrow> int \<Rightarrow> int \<Rightarrow> Metrics \<Rightarrow> Metrics" where
  "RecordGCRun now blobsDeleted duration m = m\<lparr>gcRunsTotal := inc64 1 (gcRunsTotal m), gcBlobsDeleted := inc64 blobsDeleted (gcBlobsDeleted m),
     gcLastRunTime := Some now, gcLastDuration := duration\<rparr>"

section \<open>The snapshot and its text\<close>

record MetricsSnapshot =
  UploadBytesTotal :: int
  DownloadBytesTotal :: int
  UploadCount :: int
  DownloadCount :: int
  BlobGetCount :: int
  BlobHeadCount :: int
  BlobPutCount :: int
  ManifestGetCount :: int
  ManifestPutCount :: int
  ManifestDeleteCount :: int
  UploadDurationTotal :: int
  DownloadDurationTotal :: int
  StorageBytes :: int
  BlobCount :: int
  GCRunsTotal :: int
  GCBlobsDeleted :: int
  GCLastRunTime :: "int option"
  GCLastDuration :: int
  UploadErrorCount :: int
  DownloadErrorCount :: int

definition GetMetrics :: "Metrics \<Rightarrow> MetricsSnapshot" where
  "GetMetrics m = \<lparr>UploadBytesTotal = uploadBytesTotal m, DownloadBytesTotal = downloadBytesTotal m, UploadCount = uploadCount m,
     DownloadCount = downloadCount m, BlobGetCount = blobGetCount m, BlobHeadCount = blobHeadCount m, BlobPutCount = blobPutCount m,
     ManifestGetCount = manifestGetCount m, ManifestPutCount = manifestPutCount m, ManifestDeleteCount = manifestDelCount m,
     UploadDurationTotal = uploadDurationTotal m, DownloadDurationTotal = downloadDurationTotal m, StorageBytes = storageBytes m,
     BlobCount = blobCount m, GCRunsTotal = gcRunsTotal m, GCBlobsDeleted = gcBlobsDeleted m, GCLastRunTime = gcLastRunTime m,
     GCLastDuration = gcLastDuration m, UploadErrorCount = uploadErrorCount m, DownloadErrorCount = downloadErrorCount m\<rparr>"

text \<open>The loop over the digits, lowest first.\<close>

function low_digits :: "int \<Rightarrow> string" where
  "low_digits v = (if v > 0 then char_of (48 + v mod 10) # low_digits (v div 10) else [])"
  by pat_completeness auto
termination
  by (relation "measure nat") auto

declare low_digits.simps [simp del]

definition formatInt64 :: "int \<Rightarrow> string" where
  "formatInt64 v =
     (if v = 0 then ''0''
      else let negative = v < 0; w = (if negative then wrap64 (- v) else v); digits = rev (low_digits w)
           in if negative then ''-'' @ digits else digits)"

fun pad_zeros :: "nat \<Rightarrow> string \<Rightarrow> string" where
  "pad_zeros 0 s = s"
| "pad_zeros (Suc n) s = pad_zeros n (''0'' @ s)"

definition formatInt64WithPadding :: "int \<Rightarrow> nat \<Rightarrow> string" where
  "formatInt64WithPadding v minDigits = (let r = formatInt64 v in pad_zeros (minDigits - length r) r)"

definition formatFloat64 :: "(rat \<Rightarrow> int) \<Rightarrow> rat \<Rightarrow> string" where
  "formatFloat64 ovf v =
     (let seconds = int64_of_float ovf v;
          milliseconds = int64_of_float ovf (float64 (float64 (v - float64 (of_int seconds)) * 1000))
      in formatInt64 seconds @ ''.'' @ formatInt64WithPadding milliseconds 3)"

text \<open>\<open>time.Duration.Seconds\<close>.\<close>

definition Seconds :: "int \<Rightarrow> rat" where
  "Seconds d = float64 (float64 (of_int (go_quot d 1000000000)) + float64 (float64 (of_int (go_rem d 1000000000)) / 1000000000))"

definition formatMetric :: "string \<Rightarrow> int \<Rightarrow> string" where
  "formatMetric name v = name @ '' '' @ formatInt64 v @ [CHR 0x0A]"

definition formatMetricFloat :: "(rat \<Rightarrow> int) \<Rightarrow> string \<Rightarrow> rat \<Rightarrow> string" where
  "formatMetricFloat ovf name v = name @ '' '' @ formatFloat64 ovf v @ [CHR 0x0A]"

definition described :: "string \<Rightarrow> string \<Rightarrow> string \<Rightarrow> string \<Rightarrow> string" where
  "described name help kind line = ''# HELP '' @ name @ '' '' @ help @ [CHR 0x0A] @ ''# TYPE '' @ name @ '' '' @ kind @ [CHR 0x0A] @ line"

definition counter :: "string \<Rightarrow> string \<Rightarrow> int \<Rightarrow> string" where
  "counter name help v = described name help ''counter'' (formatMetric name v)"

definition gauge :: "string \<Rightarrow> string \<Rightarrow> int \<Rightarrow> string" where
  "gauge name help v = described name help ''gauge'' (formatMetric name v)"

definition FormatPrometheus :: "(rat \<Rightarrow> int) \<Rightarrow> MetricsSnapshot \<Rightarrow> string" where
  "FormatPrometheus ovf s =
     counter ''registry_upload_bytes_total'' ''Total bytes uploaded to registry'' (UploadBytesTotal s) @
     counter ''registry_download_bytes_total'' ''Total bytes downloaded from registry'' (DownloadBytesTotal s) @
     counter ''registry_upload_count_total'' ''Total number of uploads'' (UploadCount s) @
     counter ''registry_download_count_total'' ''Total number of downloads'' (DownloadCount s) @
     counter ''registry_blob_get_count_total'' ''Total blob GET requests'' (BlobGetCount s) @
     counter ''registry_blob_head_count_total'' ''Total blob HEAD requests'' (BlobHeadCount s) @
     counter ''registry_blob_put_count_total'' ''Total blob PUT requests'' (BlobPutCount s) @
     counter ''registry_manifest_get_count_total'' ''Total manifest GET requests'' (ManifestGetCount s) @
     counter ''registry_manifest_put_count_total'' ''Total manifest PUT requests'' (ManifestPutCount s) @
     counter ''registry_manifest_delete_count_total'' ''Total manifest DELETE requests'' (ManifestDeleteCount s) @
     counter ''registry_upload_duration_ms_total'' ''Total upload duration in milliseconds'' (UploadDurationTotal s) @
     counter ''registry_download_duration_ms_total'' ''Total download duration in milliseconds'' (DownloadDurationTotal s) @
     gauge ''registry_storage_bytes'' ''Current storage usage in bytes'' (StorageBytes s) @
     gauge ''registry_blob_count'' ''Current number of blobs stored'' (BlobCount s) @
     counter ''registry_gc_runs_total'' ''Total garbage collection runs'' (GCRunsTotal s) @
     counter ''registry_gc_blobs_deleted_total'' ''Total blobs deleted by GC'' (GCBlobsDeleted s) @
     described ''registry_gc_last_duration_seconds'' ''Duration of last GC run in seconds'' ''gauge''
       (formatMetricFloat ovf ''registry_gc_last_duration_seconds'' (Seconds (GCLastDuration s))) @
     counter ''registry_upload_error_count_total'' ''Total upload errors'' (UploadErrorCount s) @
     counter ''registry_download_error_count_total'' ''Total download errors'' (DownloadErrorCount s)"

section \<open>Printing of integers\<close>

lemma low_digits_rev:
  "0 < v \<Longrightarrow> rev (low_digits v) = digits_of_int v"
proof (induction v rule: low_digits.induct)
  case (1 v)
  have c: "char_of (48 + d) = ''0123456789'' ! nat d" if "0 \<le> d" "d < 10" for d :: int
  proof -
    from that have "d = 0 \<or> d = 1 \<or> d = 2 \<or> d = 3 \<or> d = 4 \<or> d = 5 \<or> d = 6 \<or> d = 7 \<or> d = 8 \<or> d = 9" by presburger
    then show ?thesis by (elim disjE) (simp_all add: char_of_def)
  qed
  have z: "low_digits 0 = []" by (simp add: low_digits.simps)
  have d: "rev (low_digits v) = rev (low_digits (v div 10)) @ [''0123456789'' ! nat (v mod 10)]"
    using 1(2) c [of "v mod 10"] by (subst low_digits.simps) simp
  show ?case
  proof (cases "v < 10")
    case True
    then show ?thesis using 1(2) d z by (simp add: digits_of_int.simps [of v] div_pos_pos_trivial mod_pos_pos_trivial)
  next
    case False
    then show ?thesis using 1 d by (simp add: digits_of_int.simps [of v])
  qed
qed

text \<open>The printer of the package agrees with \<open>strconv.Itoa\<close> on every \<open>int64\<close> but the least, which it prints as a lone sign.\<close>

lemma formatInt64_itoa:
  assumes "in_int64 v"
  shows "formatInt64 v = (if v = - (2 ^ 63) then ''-'' else itoa v)"
proof (cases "v = - (2 ^ 63)")
  case True
  have "wrap64 (2 ^ 63) = - (2 ^ 63)" by (simp add: wrap64_def)
  then show ?thesis by (simp add: True formatInt64_def Let_def low_digits.simps)
next
  case False
  with assms have "v < 0 \<Longrightarrow> in_int64 (- v)" by (simp add: in_int64_def)
  moreover have "digits_of_int 0 = ''0''" by (simp add: digits_of_int.simps)
  ultimately show ?thesis
    using False low_digits_rev [of v] low_digits_rev [of "- v"] by (auto simp: formatInt64_def Let_def itoa_code)
qed

lemma low_digits_no_newline: "CHR 0x0A \<notin> set (low_digits v)"
proof (induction v rule: low_digits.induct)
  case (1 v)
  have "of_char (char_of (48 + v mod 10)) = 48 + v mod 10"
    using pos_mod_bound [of 10 v] pos_mod_sign [of 10 v] by (simp add: mod_pos_pos_trivial)
  moreover have "of_char CHR 0x0A = (10 :: int)" by simp
  ultimately have "char_of (48 + v mod 10) \<noteq> CHR 0x0A" using pos_mod_sign [of 10 v] by fastforce
  with 1 show ?case by (subst low_digits.simps) auto
qed

lemma formatInt64_no_newline: "CHR 0x0A \<notin> set (formatInt64 v)"
  using low_digits_no_newline by (auto simp: formatInt64_def Let_def)

lemma formatFloat64_no_newline: "CHR 0x0A \<notin> set (formatFloat64 ovf v)"
proof -
  have "CHR 0x0A \<notin> set (pad_zeros n s)" if "CHR 0x0A \<notin> set s" for n s
    using that by (induction n arbitrary: s) auto
  then show ?thesis using formatInt64_no_newline by (auto simp: formatFloat64_def formatInt64WithPadding_def Let_def)
qed

section \<open>Reading a metric back\<close>

text \<open>What a scraper takes as the value of a metric: the first line that starts with its name.\<close>

definition scrape :: "string \<Rightarrow> string \<Rightarrow> string option" where
  "scrape name text = map_option (drop (Suc (length name))) (find (\<lambda>l. has_prefix l (name @ '' '')) (split_on CHR 0x0A text))"

definition metric_name :: "string \<Rightarrow> bool" where
  "metric_name n \<longleftrightarrow> n \<noteq> [] \<and> hd n \<noteq> CHR ''#'' \<and> CHR '' '' \<notin> set n \<and> CHR 0x0A \<notin> set n"

lemma name_line:
  assumes "CHR '' '' \<notin> set m" "CHR '' '' \<notin> set n"
  shows "has_prefix (m @ CHR '' '' # v) (n @ '' '') \<longleftrightarrow> m = n"
proof
  assume "has_prefix (m @ CHR '' '' # v) (n @ '' '')"
  then obtain r where "m @ CHR '' '' # v = n @ CHR '' '' # r" by (auto simp: has_prefix_iff)
  then have "takeWhile (\<lambda>c. c \<noteq> CHR '' '') (m @ CHR '' '' # v) = takeWhile (\<lambda>c. c \<noteq> CHR '' '') (n @ CHR '' '' # r)" by simp
  moreover have "takeWhile (\<lambda>c. c \<noteq> CHR '' '') (w @ CHR '' '' # x) = w" if "CHR '' '' \<notin> set w" for w x
    using that by (induction w) auto
  ultimately show "m = n" using assms by simp
qed (simp add: has_prefix_iff)

lemma scrape_described:
  assumes "metric_name name" "metric_name n" "CHR 0x0A \<notin> set help" "CHR 0x0A \<notin> set kind" "CHR 0x0A \<notin> set v"
  shows "scrape name (described n help kind (n @ '' '' @ v @ [CHR 0x0A]) @ rest) = (if n = name then Some v else scrape name rest)"
proof -
  have comment: "\<not> has_prefix (CHR ''#'' # w) (name @ '' '')" for w
    using assms(1) by (cases name) (auto simp: metric_name_def)
  have "split_on CHR 0x0A (described n help kind (n @ '' '' @ v @ [CHR 0x0A]) @ rest) =
      (''# HELP '' @ n @ '' '' @ help) # (''# TYPE '' @ n @ '' '' @ kind) # (n @ '' '' @ v) # split_on CHR 0x0A rest"
    using assms split_on_sep [of "CHR 0x0A" "''# HELP '' @ n @ '' '' @ help"] split_on_sep [of "CHR 0x0A" "''# TYPE '' @ n @ '' '' @ kind"]
      split_on_sep [of "CHR 0x0A" "n @ '' '' @ v"] by (simp add: described_def metric_name_def)
  then show ?thesis
    using assms(1,2) comment name_line [of n name v] by (auto simp: scrape_def metric_name_def)
qed

type_synonym metric_block = "string \<times> string \<times> string \<times> string"

definition block_text :: "metric_block \<Rightarrow> string" where
  "block_text b = (case b of (n, help, kind, v) \<Rightarrow> described n help kind (n @ '' '' @ v @ [CHR 0x0A]))"

lemma scrape_blocks:
  assumes "distinct (map fst bs)" "(name, help, kind, v) \<in> set bs"
    and "\<And>n h k w. (n, h, k, w) \<in> set bs \<Longrightarrow> metric_name n \<and> CHR 0x0A \<notin> set h \<and> CHR 0x0A \<notin> set k \<and> CHR 0x0A \<notin> set w"
  shows "scrape name (concat (map block_text bs)) = Some v"
  using assms
proof (induction bs)
  case (Cons b bs)
  obtain n h k w where b: "b = (n, h, k, w)" by (cases b)
  then have ok: "metric_name name" "metric_name n" "CHR 0x0A \<notin> set h" "CHR 0x0A \<notin> set k" "CHR 0x0A \<notin> set w"
    using Cons.prems(3) [OF Cons.prems(2)] Cons.prems(3) [of n h k w] by auto
  show ?case
  proof (cases "(name, help, kind, v) = b")
    case True
    then show ?thesis using scrape_described [OF ok] by (simp add: b block_text_def)
  next
    case False
    with Cons.prems have "scrape name (concat (map block_text bs)) = Some v" by (intro Cons.IH) auto
    moreover from False Cons.prems have "n \<noteq> name" by (force simp: b)
    ultimately show ?thesis using scrape_described [OF ok] by (simp add: b block_text_def [of "(n, h, k, w)"])
  qed
qed simp

definition metric_blocks :: "(rat \<Rightarrow> int) \<Rightarrow> MetricsSnapshot \<Rightarrow> metric_block list" where
  "metric_blocks ovf s =
     (let c = (\<lambda>n h v. (n, h, ''counter'', formatInt64 v)) in
     [c ''registry_upload_bytes_total'' ''Total bytes uploaded to registry'' (UploadBytesTotal s),
      c ''registry_download_bytes_total'' ''Total bytes downloaded from registry'' (DownloadBytesTotal s),
      c ''registry_upload_count_total'' ''Total number of uploads'' (UploadCount s),
      c ''registry_download_count_total'' ''Total number of downloads'' (DownloadCount s),
      c ''registry_blob_get_count_total'' ''Total blob GET requests'' (BlobGetCount s),
      c ''registry_blob_head_count_total'' ''Total blob HEAD requests'' (BlobHeadCount s),
      c ''registry_blob_put_count_total'' ''Total blob PUT requests'' (BlobPutCount s),
      c ''registry_manifest_get_count_total'' ''Total manifest GET requests'' (ManifestGetCount s),
      c ''registry_manifest_put_count_total'' ''Total manifest PUT requests'' (ManifestPutCount s),
      c ''registry_manifest_delete_count_total'' ''Total manifest DELETE requests'' (ManifestDeleteCount s),
      c ''registry_upload_duration_ms_total'' ''Total upload duration in milliseconds'' (UploadDurationTotal s),
      c ''registry_download_duration_ms_total'' ''Total download duration in milliseconds'' (DownloadDurationTotal s),
      (''registry_storage_bytes'', ''Current storage usage in bytes'', ''gauge'', formatInt64 (StorageBytes s)),
      (''registry_blob_count'', ''Current number of blobs stored'', ''gauge'', formatInt64 (BlobCount s)),
      c ''registry_gc_runs_total'' ''Total garbage collection runs'' (GCRunsTotal s),
      c ''registry_gc_blobs_deleted_total'' ''Total blobs deleted by GC'' (GCBlobsDeleted s),
      (''registry_gc_last_duration_seconds'', ''Duration of last GC run in seconds'', ''gauge'', formatFloat64 ovf (Seconds (GCLastDuration s))),
      c ''registry_upload_error_count_total'' ''Total upload errors'' (UploadErrorCount s),
      c ''registry_download_error_count_total'' ''Total download errors'' (DownloadErrorCount s)])"

lemma FormatPrometheus_blocks: "FormatPrometheus ovf s = concat (map block_text (metric_blocks ovf s))"
  by (simp only: FormatPrometheus_def metric_blocks_def Let_def list.map concat.simps block_text_def prod.case counter_def gauge_def formatMetric_def
      formatMetricFloat_def append_Nil2)

definition block_ok :: "string \<times> string \<times> string \<Rightarrow> bool" where
  "block_ok b = (case b of (n, h, k) \<Rightarrow> metric_name n \<and> CHR 0x0A \<notin> set h \<and> CHR 0x0A \<notin> set k)"

definition block_heads :: "(string \<times> string \<times> string) list" where
  "block_heads = map (\<lambda>(n, h, k, v). (n, h, k)) (metric_blocks (\<lambda>_. 0) (GetMetrics NewMetrics))"

lemma block_heads_eq: "map (\<lambda>(n, h, k, v). (n, h, k)) (metric_blocks ovf s) = block_heads"
  by (simp only: block_heads_def metric_blocks_def Let_def list.map prod.case)

lemma block_heads_ok: "distinct (map fst block_heads) \<and> list_all block_ok block_heads"
  by code_simp

lemma scrape_metric:
  assumes "(name, help, kind, v) \<in> set (metric_blocks ovf s)"
  shows "scrape name (FormatPrometheus ovf s) = Some v"
  unfolding FormatPrometheus_blocks
proof (rule scrape_blocks [OF _ assms])
  have "map fst (metric_blocks ovf s) = map fst block_heads" unfolding block_heads_eq [of ovf s, symmetric] by (simp add: case_prod_beta comp_def)
  then show "distinct (map fst (metric_blocks ovf s))" using block_heads_ok by simp
next
  fix n h k w
  assume b: "(n, h, k, w) \<in> set (metric_blocks ovf s)"
  then have "(n, h, k) \<in> set block_heads" unfolding block_heads_eq [of ovf s, symmetric] by force
  moreover have "list_all (\<lambda>(n, h, k, v). CHR 0x0A \<notin> set v) (metric_blocks ovf s)"
    by (simp only: metric_blocks_def Let_def list.pred_inject prod.case formatInt64_no_newline formatFloat64_no_newline simp_thms)
  then have "CHR 0x0A \<notin> set w" using b by (auto simp: list_all_iff)
  ultimately show "metric_name n \<and> CHR 0x0A \<notin> set h \<and> CHR 0x0A \<notin> set k \<and> CHR 0x0A \<notin> set w"
    using block_heads_ok by (auto simp: list_all_iff block_ok_def)
qed

section \<open>Sequences of operations\<close>

datatype metric_event =
    Uploaded int int
  | Downloaded int int
  | BlobGot
  | BlobHeaded
  | BlobStored
  | ManifestGot
  | ManifestStored
  | ManifestRemoved
  | UploadFailed
  | DownloadFailed
  | StorageSeen int int
  | Collected int int int

fun record_event :: "metric_event \<Rightarrow> Metrics \<Rightarrow> Metrics" where
  "record_event (Uploaded bytes d) = RecordUpload bytes d"
| "record_event (Downloaded bytes d) = RecordDownload bytes d"
| "record_event BlobGot = RecordBlobGet"
| "record_event BlobHeaded = RecordBlobHead"
| "record_event BlobStored = RecordBlobPut"
| "record_event ManifestGot = RecordManifestGet"
| "record_event ManifestStored = RecordManifestPut"
| "record_event ManifestRemoved = RecordManifestDelete"
| "record_event UploadFailed = RecordUploadError"
| "record_event DownloadFailed = RecordDownloadError"
| "record_event (StorageSeen bytes n) = UpdateStorageMetrics bytes n"
| "record_event (Collected now n d) = RecordGCRun now n d"

definition one_if :: "bool \<Rightarrow> int" where
  "one_if b = (if b then 1 else 0)"

text \<open>For each counter, the field it is kept in and how much an operation adds to it.\<close>

definition tallies :: "(string \<times> (Metrics \<Rightarrow> int) \<times> (metric_event \<Rightarrow> int)) list" where
  "tallies =
     [(''registry_upload_bytes_total'', uploadBytesTotal, \<lambda>e. case e of Uploaded b d \<Rightarrow> b | _ \<Rightarrow> 0),
      (''registry_download_bytes_total'', downloadBytesTotal, \<lambda>e. case e of Downloaded b d \<Rightarrow> b | _ \<Rightarrow> 0),
      (''registry_upload_count_total'', uploadCount, \<lambda>e. case e of Uploaded b d \<Rightarrow> 1 | _ \<Rightarrow> 0),
      (''registry_download_count_total'', downloadCount, \<lambda>e. case e of Downloaded b d \<Rightarrow> 1 | _ \<Rightarrow> 0),
      (''registry_blob_get_count_total'', blobGetCount, \<lambda>e. one_if (e = BlobGot)),
      (''registry_blob_head_count_total'', blobHeadCount, \<lambda>e. one_if (e = BlobHeaded)),
      (''registry_blob_put_count_total'', blobPutCount, \<lambda>e. one_if (e = BlobStored)),
      (''registry_manifest_get_count_total'', manifestGetCount, \<lambda>e. one_if (e = ManifestGot)),
      (''registry_manifest_put_count_total'', manifestPutCount, \<lambda>e. one_if (e = ManifestStored)),
      (''registry_manifest_delete_count_total'', manifestDelCount, \<lambda>e. one_if (e = ManifestRemoved)),
      (''registry_upload_duration_ms_total'', uploadDurationTotal, \<lambda>e. case e of Uploaded b d \<Rightarrow> Milliseconds d | _ \<Rightarrow> 0),
      (''registry_download_duration_ms_total'', downloadDurationTotal, \<lambda>e. case e of Downloaded b d \<Rightarrow> Milliseconds d | _ \<Rightarrow> 0),
      (''registry_gc_runs_total'', gcRunsTotal, \<lambda>e. case e of Collected t n d \<Rightarrow> 1 | _ \<Rightarrow> 0),
      (''registry_gc_blobs_deleted_total'', gcBlobsDeleted, \<lambda>e. case e of Collected t n d \<Rightarrow> n | _ \<Rightarrow> 0),
      (''registry_upload_error_count_total'', uploadErrorCount, \<lambda>e. one_if (e = UploadFailed)),
      (''registry_download_error_count_total'', downloadErrorCount, \<lambda>e. one_if (e = DownloadFailed))]"

lemmas record_defs = RecordUpload_def RecordDownload_def RecordBlobGet_def RecordBlobHead_def RecordBlobPut_def RecordManifestGet_def
  RecordManifestPut_def RecordManifestDelete_def RecordUploadError_def RecordDownloadError_def UpdateStorageMetrics_def RecordGCRun_def

lemma inc64_0 [simp]: "in_int64 n \<Longrightarrow> inc64 0 n = n"
  by (simp add: inc64_def)

lemma tally_step:
  assumes "(name, f, d) \<in> set tallies" "in_int64 (f m)"
  shows "f (record_event e m) = inc64 (d e) (f m)"
proof -
  have "list_all (\<lambda>(name, f, d). in_int64 (f m) \<longrightarrow> f (record_event e m) = inc64 (d e) (f m)) tallies"
    unfolding tallies_def by (cases e) (simp_all add: record_defs one_if_def)
  then show ?thesis using assms by (auto simp: list_all_iff)
qed

lemma wrap64_add: "wrap64 (wrap64 a + b) = wrap64 (a + b)"
proof -
  have "wrap64 a + b + 2 ^ 63 = (a + 2 ^ 63) mod 2 ^ 64 + b" by (simp add: wrap64_def)
  then have "(wrap64 a + b + 2 ^ 63) mod 2 ^ 64 = (a + 2 ^ 63 + b) mod 2 ^ 64" by (simp only: mod_add_left_eq)
  then show ?thesis unfolding wrap64_def [of "wrap64 a + b"] wrap64_def [of "a + b"] by (simp only: add.assoc add.commute [of b])
qed

lemma tally_run:
  assumes "(name, f, d) \<in> set tallies" "in_int64 (f m)"
  shows "f (fold record_event es m) = wrap64 (f m + sum_list (map d es))"
  using assms(2)
proof (induction es arbitrary: m)
  case (Cons e es)
  have "f (record_event e m) = wrap64 (f m + d e)" using tally_step [OF assms(1) Cons.prems] by (simp add: inc64_def)
  then show ?case using Cons.IH [of "record_event e m"] wrap64_range wrap64_add [of "f m + d e"] by (simp add: add.assoc)
qed simp

lemma tally_blocks:
  assumes "(name, f, d) \<in> set tallies"
  shows "f NewMetrics = 0" "\<exists>help. (name, help, ''counter'', formatInt64 (f m)) \<in> set (metric_blocks ovf (GetMetrics m))"
proof -
  have "list_all (\<lambda>(name, f, d). f NewMetrics = 0) tallies" by (simp add: tallies_def NewMetrics_def)
  then show "f NewMetrics = 0" using assms by (auto simp: list_all_iff)
  let ?vals = "map (\<lambda>(n, h, k, v). (n, k, v)) (metric_blocks ovf (GetMetrics m))"
  have "list_all (\<lambda>(name, f, d). (name, ''counter'', formatInt64 (f m)) \<in> set ?vals) tallies"
    unfolding tallies_def metric_blocks_def GetMetrics_def Let_def
    by (simp only: list.pred_inject list.map prod.case list.set insert_iff MetricsSnapshot.select_convs simp_thms refl)
  then show "\<exists>help. (name, help, ''counter'', formatInt64 (f m)) \<in> set (metric_blocks ovf (GetMetrics m))"
    using assms by (force simp: list_all_iff)
qed

text \<open>
  What is scraped is what happened: after any sequence of operations the text shows, for each of the
  sixteen counters, the exact decimal total of what the operations added to it, as long as that
  total fits into an \<open>int64\<close>; beyond it the total wraps around.
\<close>

lemma scraped_totals:
  assumes "(name, f, d) \<in> set tallies"
  shows "scrape name (FormatPrometheus ovf (GetMetrics (fold record_event es NewMetrics))) = Some (formatInt64 (wrap64 (sum_list (map d es))))"
    and "0 \<le> sum_list (map d es) \<Longrightarrow> sum_list (map d es) < 2 ^ 63 \<Longrightarrow>
      scrape name (FormatPrometheus ovf (GetMetrics (fold record_event es NewMetrics))) = Some (itoa (sum_list (map d es)))"
proof -
  let ?m = "fold record_event es NewMetrics"
  have "in_int64 0" by (simp add: in_int64_def)
  then have m: "f ?m = wrap64 (sum_list (map d es))" using tally_run [OF assms, of NewMetrics es] tally_blocks(1) [OF assms] by simp
  obtain h where "(name, h, ''counter'', formatInt64 (f ?m)) \<in> set (metric_blocks ovf (GetMetrics ?m))"
    using tally_blocks(2) [OF assms] by blast
  then show t: "scrape name (FormatPrometheus ovf (GetMetrics ?m)) = Some (formatInt64 (wrap64 (sum_list (map d es))))"
    using scrape_metric by (simp add: m)
  assume "0 \<le> sum_list (map d es)" "sum_list (map d es) < 2 ^ 63"
  then have "in_int64 (sum_list (map d es))" by (simp add: in_int64_def)
  with t \<open>0 \<le> sum_list (map d es)\<close> show "scrape name (FormatPrometheus ovf (GetMetrics ?m)) = Some (itoa (sum_list (map d es)))"
    by (simp add: formatInt64_itoa)
qed

text \<open>A run of 1.001 seconds is shown as one second: the fraction is truncated after the subtraction of floats.\<close>

lemma gc_duration_truncated: "formatFloat64 (\<lambda>_. 0) (Seconds 1001000000) = ''1.000''"
  by code_simp

end
