(* ===== verification/Credentials.thy ===== *)
theory Credentials
  imports GoLib "HOL-Library.Word"
begin

text \<open>
  Password hashes in the PHC format (\<open>pkg/crypto/password.go\<close>): Argon2id with its parameters kept at
  their width, bcrypt as the fallback, the parser of a hash with the scanner of \<open>fmt.Sscanf\<close>, and the
  test for outdated parameters.

  The record \<open>hash_env\<close> holds what is not in the repository: the version and the key derivation of
  \<open>argon2\<close> (\<open>None\<close> is its panic), bcrypt, and the bytes of \<open>crypto/rand\<close>. A function that may panic
  returns an \<open>option\<close>. Errors of the scanner and of base64 are one value each.
\<close>

record Argon2Params =
  Memory :: "32 word"
  Iterations :: "32 word"
  Parallelism :: "8 word"
  SaltLength :: "32 word"
  KeyLength :: "32 word"

definition DefaultArgon2Params :: Argon2Params where
  "DefaultArgon2Params = \<lparr>Memory = 64 * 1024, Iterations = 3, Parallelism = 2, SaltLength = 16, KeyLength = 32\<rparr>"

datatype hash_error = ErrInvalidHash | ErrIncompatibleVersion | ErrScan | ErrBase64 | ErrSalt string | ErrBcrypt string

datatype bcrypt_result = Matches | Mismatched | BcryptFails string

record hash_env =
  argonVersion :: int
  IDKey :: "string \<Rightarrow> string \<Rightarrow> 32 word \<Rightarrow> 32 word \<Rightarrow> 8 word \<Rightarrow> 32 word \<Rightarrow> string option"
  randRead :: "nat \<Rightarrow> string + string"
  bcryptGenerate :: "string \<Rightarrow> string + string"
  bcryptCompare :: "string \<Rightarrow> string \<Rightarrow> bcrypt_result"

definition RawStdEncoding :: codec where
  "RawStdEncoding = \<lparr>alphabet = alnum @ ''+/'', padChar = None\<rparr>"

interpretation rawstd: base64 RawStdEncoding
  by unfold_locales code_simp

section \<open>Hashing\<close>

definition phc_text :: "hash_env \<Rightarrow> Argon2Params \<Rightarrow> string \<Rightarrow> string \<Rightarrow> string" where
  "phc_text E p salt hash =
     ''$argon2id$v='' @ itoa (argonVersion E) @ ''$m='' @ itoa (uint (Memory p)) @ '',t='' @ itoa (uint (Iterations p)) @
     '',p='' @ itoa (uint (Parallelism p)) @ ''$'' @ EncodeToString RawStdEncoding salt @ ''$'' @ EncodeToString RawStdEncoding hash"

definition HashPasswordWithParams :: "hash_env \<Rightarrow> string \<Rightarrow> Argon2Params \<Rightarrow> (hash_error + string) option" where
  "HashPasswordWithParams E password p =
     (case randRead E (unat (SaltLength p)) of
        Inl e \<Rightarrow> Some (Inl (ErrSalt (''failed to generate salt: '' @ e)))
      | Inr salt \<Rightarrow>
          map_option (\<lambda>hash. Inr (phc_text E p salt hash))
            (IDKey E password salt (Iterations p) (Memory p) (Parallelism p) (KeyLength p)))"

definition crypto_HashPassword :: "hash_env \<Rightarrow> string \<Rightarrow> (hash_error + string) option" where
  "crypto_HashPassword E password = HashPasswordWithParams E password DefaultArgon2Params"

definition HashPasswordBcrypt :: "hash_env \<Rightarrow> string \<Rightarrow> hash_error + string" where
  "HashPasswordBcrypt E password =
     (case bcryptGenerate E password of Inl e \<Rightarrow> Inl (ErrBcrypt (''bcrypt hash failed: '' @ e)) | Inr h \<Rightarrow> Inr h)"

section \<open>Scanning\<close>

text \<open>Spaces before a number are skipped, but a newline is an error.\<close>

definition scan_space :: "string \<Rightarrow> string option" where
  "scan_space s =
     (let t = strip_left space_runes s in if CHR 0x0A \<in> set (take (length s - length t) s) then None else Some t)"

definition scan_lit :: "string \<Rightarrow> string \<Rightarrow> string option" where
  "scan_lit l s = (if has_prefix s l then Some (drop (length l) s) else None)"

definition decimal :: "char \<Rightarrow> bool" where
  "decimal c \<longleftrightarrow> c \<in> set ''0123456789''"

definition scan_uint :: "nat \<Rightarrow> string \<Rightarrow> (int \<times> string) option" where
  "scan_uint w s =
     Option.bind (scan_space s) (\<lambda>t.
       let tok = takeWhile decimal t
       in if tok = [] then None
          else Option.bind (digits_value 0 tok) (\<lambda>n. if n < 2 ^ w then Some (n, dropWhile decimal t) else None))"

definition scan_int :: "string \<Rightarrow> (int \<times> string) option" where
  "scan_int s =
     Option.bind (scan_space s) (\<lambda>t.
       let (sign, u) = (case t of c # cs \<Rightarrow> if c = CHR ''-'' \<or> c = CHR ''+'' then ([c], cs) else ([], t) | [] \<Rightarrow> ([], t));
           tok = takeWhile decimal u
       in if tok = [] then None
          else map_option (\<lambda>i. (i, dropWhile decimal u)) (ParseInt (sign @ tok)))"

definition scan_version :: "string \<Rightarrow> int option" where
  "scan_version s = Option.bind (scan_lit ''v='' s) (\<lambda>t. map_option fst (scan_int t))"

definition scan_params :: "string \<Rightarrow> (32 word \<times> 32 word \<times> 8 word) option" where
  "scan_params s =
     Option.bind (scan_lit ''m='' s) (\<lambda>s1. Option.bind (scan_uint 32 s1) (\<lambda>(m, s2).
     Option.bind (scan_lit '',t='' s2) (\<lambda>s3. Option.bind (scan_uint 32 s3) (\<lambda>(t, s4).
     Option.bind (scan_lit '',p='' s4) (\<lambda>s5. map_option (\<lambda>(p, _). (word_of_int m, word_of_int t, word_of_int p)) (scan_uint 8 s5))))))"

definition decodeArgon2Hash :: "hash_env \<Rightarrow> string \<Rightarrow> hash_error + (Argon2Params \<times> string \<times> string)" where
  "decodeArgon2Hash E encoded =
     (case split_on CHR ''$'' encoded of
        [_, name, version, params, salt64, hash64] \<Rightarrow>
          if name \<noteq> ''argon2id'' then Inl ErrInvalidHash
          else (case scan_version version of
              None \<Rightarrow> Inl ErrScan
            | Some v \<Rightarrow>
                if v \<noteq> argonVersion E then Inl ErrIncompatibleVersion
                else (case scan_params params of
                    None \<Rightarrow> Inl ErrScan
                  | Some (m, t, p) \<Rightarrow>
                      (case DecodeString RawStdEncoding salt64 of
                         None \<Rightarrow> Inl ErrBase64
                       | Some salt \<Rightarrow>
                           (case DecodeString RawStdEncoding hash64 of
                              None \<Rightarrow> Inl ErrBase64
                            | Some hash \<Rightarrow>
                                Inr (\<lparr>Memory = m, Iterations = t, Parallelism = p, SaltLength = word_of_nat (length salt),
                                      KeyLength = word_of_nat (length hash)\<rparr>, salt, hash)))))
      | _ \<Rightarrow> Inl ErrInvalidHash)"

section \<open>Verification\<close>

definition verifyArgon2id :: "hash_env \<Rightarrow> string \<Rightarrow> string \<Rightarrow> (hash_error + bool) option" where
  "verifyArgon2id E password encoded =
     (case decodeArgon2Hash E encoded of
        Inl e \<Rightarrow> Some (Inl e)
      | Inr (p, salt, hash) \<Rightarrow>
          map_option (\<lambda>other. Inr (hash = other)) (IDKey E password salt (Iterations p) (Memory p) (Parallelism p) (KeyLength p)))"

definition verifyBcrypt :: "hash_env \<Rightarrow> string \<Rightarrow> string \<Rightarrow> hash_error + bool" where
  "verifyBcrypt E password hash =
     (case bcryptCompare E hash password of Matches \<Rightarrow> Inr True | Mismatched \<Rightarrow> Inr False | BcryptFails e \<Rightarrow> Inl (ErrBcrypt e))"

definition bcrypt_prefix :: "string \<Rightarrow> bool" where
  "bcrypt_prefix hash \<longleftrightarrow> has_prefix hash ''$2a$'' \<or> has_prefix hash ''$2b$'' \<or> has_prefix hash ''$2y$''"

definition crypto_VerifyPassword :: "hash_env \<Rightarrow> string \<Rightarrow> string \<Rightarrow> (hash_error + bool) option" where
  "crypto_VerifyPassword E password hash =
     (if has_prefix hash ''$argon2id$'' then verifyArgon2id E password hash
      else if bcrypt_prefix hash then Some (verifyBcrypt E password hash)
      else Some (Inl ErrInvalidHash))"

definition NeedsRehash :: "hash_env \<Rightarrow> string \<Rightarrow> bool" where
  "NeedsRehash E hash =
     (if bcrypt_prefix hash then True
      else if \<not> has_prefix hash ''$argon2id$'' then False
      else (case decodeArgon2Hash E hash of
              Inl e \<Rightarrow> False
            | Inr (p, salt, h) \<Rightarrow>
                Memory p < Memory DefaultArgon2Params \<or> Iterations p < Iterations DefaultArgon2Params \<or>
                Parallelism p < Parallelism DefaultArgon2Params \<or> KeyLength p < KeyLength DefaultArgon2Params))"

section \<open>The parser undoes the printer\<close>

lemma digits_decimal: "list_all decimal (digits_of_nat n)"
  using set_digits [of n] unfolding list_all_iff decimal_def by blast

lemma scan_space_digit: "decimal (hd s) \<Longrightarrow> s \<noteq> [] \<Longrightarrow> scan_space s = Some s"
proof -
  assume d: "decimal (hd s)" "s \<noteq> []"
  have "\<not> has_prefix s r" if "r \<in> set space_runes" for r
  proof -
    have "list_all (\<lambda>r. r \<noteq> [] \<and> \<not> decimal (hd r)) space_runes" by code_simp
    with that have "r \<noteq> []" "\<not> decimal (hd r)" by (auto simp: list_all_iff)
    then show ?thesis using d by (cases r; cases s) auto
  qed
  then have "leading_rune space_runes s = None" by (auto simp: leading_rune_def find_None_iff)
  then have "strip_left space_runes s = s" by (simp add: strip_left.simps [of space_runes s])
  then show ?thesis by (simp add: scan_space_def)
qed

lemma while_digits:
  assumes "list_all P d" "r = [] \<or> \<not> P (hd r)"
  shows "takeWhile P (d @ r) = d" "dropWhile P (d @ r) = r"
  using assms by (induction d; cases r; auto)+

lemma scan_digits:
  assumes "r = [] \<or> \<not> decimal (hd r)"
  shows "scan_space (digits_of_nat n @ r) = Some (digits_of_nat n @ r)"
    "takeWhile decimal (digits_of_nat n @ r) = digits_of_nat n" "dropWhile decimal (digits_of_nat n @ r) = r"
proof -
  have "decimal (hd (digits_of_nat n))" using set_digits [of n] hd_in_set [OF digits_not_Nil [of n]] unfolding decimal_def by blast
  then show "scan_space (digits_of_nat n @ r) = Some (digits_of_nat n @ r)" by (intro scan_space_digit) (simp_all add: hd_append)
  show "takeWhile decimal (digits_of_nat n @ r) = digits_of_nat n" "dropWhile decimal (digits_of_nat n @ r) = r"
    using while_digits [OF digits_decimal assms] by simp_all
qed

lemma scan_uint_itoa:
  assumes "0 \<le> n" "n < 2 ^ w" "r = [] \<or> \<not> decimal (hd r)"
  shows "scan_uint w (itoa n @ r) = Some (n, r)"
  using assms(1,2) unfolding scan_uint_def itoa_def
  by (simp add: scan_digits [OF assms(3)] digits_value_digits Let_def del: set_simps)

lemma scan_int_itoa:
  assumes "in_int64 i" "r = [] \<or> \<not> decimal (hd r)"
  shows "scan_int (itoa i @ r) = Some (i, r)"
proof (cases "i < 0")
  case True
  have "scan_space (CHR ''-'' # s) = Some (CHR ''-'' # s)" for s
  proof -
    have "list_all (\<lambda>r. r \<noteq> [] \<and> hd r \<noteq> CHR ''-'') space_runes" by code_simp
    then have "leading_rune space_runes (CHR ''-'' # s) = None"
      by (fastforce simp: leading_rune_def find_None_iff list_all_iff has_prefix_iff Cons_eq_append_conv)
    then show ?thesis by (simp add: scan_space_def strip_left.simps [of space_runes "CHR ''-'' # s"])
  qed
  moreover have "itoa i = CHR ''-'' # digits_of_nat (nat (- i))" using True by (simp add: itoa_def)
  ultimately show ?thesis
    using ParseInt_itoa [OF assms(1)] by (simp add: scan_int_def scan_digits [OF assms(2)] Let_def)
next
  case False
  obtain c cs where c: "digits_of_nat (nat i) = c # cs" using digits_not_Nil by (cases "digits_of_nat (nat i)") auto
  then have "decimal c" using digits_decimal [of "nat i"] by simp
  then have "c \<noteq> CHR ''-''" "c \<noteq> CHR ''+''" by (auto simp: decimal_def)
  moreover have "itoa i = digits_of_nat (nat i)" using False by (simp add: itoa_def)
  ultimately show ?thesis
    using ParseInt_itoa [OF assms(1)] scan_digits [OF assms(2), of "nat i"] c by (simp add: scan_int_def Let_def)
qed

lemma scan_lit_append: "scan_lit l (l @ s) = Some s"
  by (simp add: scan_lit_def has_prefix_iff)

lemma scan_params_text:
  "scan_params (''m='' @ itoa (uint m) @ '',t='' @ itoa (uint t) @ '',p='' @ itoa (uint p)) = Some (m, t, p)"
proof -
  have u: "scan_uint 32 (itoa (uint w) @ '','' @ r) = Some (uint w, '','' @ r)" for w :: "32 word" and r
    using uint_bounded [of w] by (intro scan_uint_itoa) (auto simp: decimal_def)
  have p: "scan_uint 8 (itoa (uint p)) = Some (uint p, [])"
    using scan_uint_itoa [of "uint p" 8 "[]"] uint_bounded [of p] by simp
  have l: "scan_lit ''m='' (CHR ''m'' # CHR ''='' # s) = Some s" "scan_lit '',t='' (CHR '','' # CHR ''t'' # CHR ''='' # s) = Some s"
    "scan_lit '',p='' (CHR '','' # CHR ''p'' # CHR ''='' # s) = Some s" for s
    using scan_lit_append [of "''m=''" s] scan_lit_append [of "'',t=''" s] scan_lit_append [of "'',p=''" s] by simp_all
  show ?thesis
    using u [of m "''t='' @ itoa (uint t) @ '',p='' @ itoa (uint p)"] u [of t "''p='' @ itoa (uint p)"] by (simp add: scan_params_def l p)
qed

lemma no_dollar: "CHR ''$'' \<notin> set (itoa i)" "CHR ''$'' \<notin> set (EncodeToString RawStdEncoding s)"
proof -
  show "CHR ''$'' \<notin> set (itoa i)" using set_digits by (auto simp: itoa_def)
  have "CHR ''$'' \<notin> set (alphabet RawStdEncoding)" "padChar RawStdEncoding = None" by code_simp+
  then show "CHR ''$'' \<notin> set (EncodeToString RawStdEncoding s)" using rawstd.set_encode [of s] by auto
qed

lemma phc_fields:
  "split_on CHR ''$'' (phc_text E p salt hash) =
     [[], ''argon2id'', ''v='' @ itoa (argonVersion E),
      ''m='' @ itoa (uint (Memory p)) @ '',t='' @ itoa (uint (Iterations p)) @ '',p='' @ itoa (uint (Parallelism p)),
      EncodeToString RawStdEncoding salt, EncodeToString RawStdEncoding hash]"
proof -
  let ?v = "''v='' @ itoa (argonVersion E)"
  let ?m = "''m='' @ itoa (uint (Memory p)) @ '',t='' @ itoa (uint (Iterations p)) @ '',p='' @ itoa (uint (Parallelism p))"
  have t: "phc_text E p salt hash = [] @ CHR ''$'' # ''argon2id'' @ CHR ''$'' # ?v @ CHR ''$'' # ?m @ CHR ''$'' #
      EncodeToString RawStdEncoding salt @ CHR ''$'' # EncodeToString RawStdEncoding hash"
    by (simp add: phc_text_def)
  have n: "CHR ''$'' \<notin> set ?v" "CHR ''$'' \<notin> set ?m" "CHR ''$'' \<notin> set ''argon2id''" "CHR ''$'' \<notin> set []" using no_dollar(1) by auto
  show ?thesis
    by (simp only: t split_on_sep [OF n(4)] split_on_sep [OF n(3)] split_on_sep [OF n(1)] split_on_sep [OF n(2)]
        split_on_sep [OF no_dollar(2)] split_on_no_sep [OF no_dollar(2)])
qed

text \<open>The parser reads back every parameter, the salt and the hash; the two lengths are those of the bytes.\<close>

lemma decode_phc:
  assumes "in_int64 (argonVersion E)"
  shows "decodeArgon2Hash E (phc_text E p salt hash) =
     Inr (p\<lparr>SaltLength := word_of_nat (length salt), KeyLength := word_of_nat (length hash)\<rparr>, salt, hash)"
proof -
  have "scan_version (''v='' @ itoa (argonVersion E)) = Some (argonVersion E)"
    using scan_int_itoa [OF assms, of "[]"] scan_lit_append [of "''v=''"] by (simp add: scan_version_def)
  then show ?thesis
    by (simp only: decodeArgon2Hash_def phc_fields list.case refl not_True_eq_False if_False option.case scan_params_text
        rawstd.decode_encode prod.case) simp
qed

text \<open>
  What the libraries promise: \<open>crypto/rand\<close> fills the buffer, and the key derivation returns a key of
  the length asked for.
\<close>

definition hash_env_ok :: "hash_env \<Rightarrow> bool" where
  "hash_env_ok E \<longleftrightarrow> in_int64 (argonVersion E) \<and> (\<forall>n salt. randRead E n = Inr salt \<longrightarrow> length salt = n) \<and>
     (\<forall>pw salt t m p l key. IDKey E pw salt t m p l = Some key \<longrightarrow> length key = unat l)"

lemma hashed_password:
  assumes "hash_env_ok E" "HashPasswordWithParams E password p = Some (Inr h)"
  obtains salt key where "IDKey E password salt (Iterations p) (Memory p) (Parallelism p) (KeyLength p) = Some key"
    "h = phc_text E p salt key" "decodeArgon2Hash E h = Inr (p, salt, key)"
proof -
  from assms(2) obtain salt key where s: "randRead E (unat (SaltLength p)) = Inr salt"
    and k: "IDKey E password salt (Iterations p) (Memory p) (Parallelism p) (KeyLength p) = Some key" and h: "h = phc_text E p salt key"
    by (auto simp: HashPasswordWithParams_def split: sum.splits)
  with assms(1) have "length salt = unat (SaltLength p)" "length key = unat (KeyLength p)" unfolding hash_env_ok_def by blast+
  then have "decodeArgon2Hash E h = Inr (p, salt, key)"
    using assms(1) decode_phc [of E p salt key] by (simp add: h hash_env_ok_def)
  with k h that show thesis by blast
qed

text \<open>
  A hash verifies against the password it was made from, and against another password exactly when
  that derives the same key from the recorded salt and parameters; it is due for a rehash exactly
  when one of its parameters is below the default, so never when it was made with the defaults.
\<close>

lemma hash_verify_roundtrip:
  assumes "hash_env_ok E" "HashPasswordWithParams E password p = Some (Inr h)"
  shows "crypto_VerifyPassword E password h = Some (Inr True)"
    and "\<exists>salt. crypto_VerifyPassword E other h =
        map_option (\<lambda>k. Inr (IDKey E password salt (Iterations p) (Memory p) (Parallelism p) (KeyLength p) = Some k))
          (IDKey E other salt (Iterations p) (Memory p) (Parallelism p) (KeyLength p))"
    and "NeedsRehash E h \<longleftrightarrow> Memory p < Memory DefaultArgon2Params \<or> Iterations p < Iterations DefaultArgon2Params \<or>
        Parallelism p < Parallelism DefaultArgon2Params \<or> KeyLength p < KeyLength DefaultArgon2Params"
proof -
  obtain salt key where k: "IDKey E password salt (Iterations p) (Memory p) (Parallelism p) (KeyLength p) = Some key"
    and h: "h = phc_text E p salt key" and d: "decodeArgon2Hash E h = Inr (p, salt, key)"
    by (rule hashed_password [OF assms])
  have pre: "has_prefix h ''$argon2id$''" "\<not> bcrypt_prefix h" by (simp_all add: h phc_text_def bcrypt_prefix_def)
  show "crypto_VerifyPassword E password h = Some (Inr True)" by (simp add: crypto_VerifyPassword_def pre verifyArgon2id_def d k)
  show "\<exists>salt. crypto_VerifyPassword E other h =
        map_option (\<lambda>k. Inr (IDKey E password salt (Iterations p) (Memory p) (Parallelism p) (KeyLength p) = Some k))
          (IDKey E other salt (Iterations p) (Memory p) (Parallelism p) (KeyLength p))"
    by (rule exI [of _ salt]) (simp add: crypto_VerifyPassword_def pre verifyArgon2id_def d k)
  show "NeedsRehash E h \<longleftrightarrow> Memory p < Memory DefaultArgon2Params \<or> Iterations p < Iterations DefaultArgon2Params \<or>
        Parallelism p < Parallelism DefaultArgon2Params \<or> KeyLength p < KeyLength DefaultArgon2Params"
    by (simp add: NeedsRehash_def pre d)
qed

lemma fresh_hash_current:
  assumes "hash_env_ok E" "crypto_HashPassword E password = Some (Inr h)"
  shows "\<not> NeedsRehash E h"
  using hash_verify_roundtrip(3) [OF assms(1) assms(2) [unfolded crypto_HashPassword_def]] by simp

section \<open>Evaluation\<close>

text \<open>An environment whose key derivation refuses zero rounds or threads, as \<open>argon2\<close> does.\<close>

definition hash_demo :: hash_env where
  "hash_demo = \<lparr>argonVersion = 19,
     IDKey = (\<lambda>pw salt t m p l. if t = 0 \<or> p = 0 then None else Some (take (unat l) (pw @ salt @ replicate (unat l) CHR ''x''))),
     randRead = (\<lambda>n. Inr (replicate n CHR ''s'')), bcryptGenerate = (\<lambda>pw. Inr (''$2a$10$'' @ pw)),
     bcryptCompare = (\<lambda>h pw. if h = ''$2a$10$'' @ pw then Matches else Mismatched)\<rparr>"

lemma hash_demo_ok: "hash_env_ok hash_demo"
  by (auto simp: hash_env_ok_def hash_demo_def in_int64_def split: if_splits)

text \<open>
  The parser does not look at the values of the parameters nor at what follows them, so a stored hash
  with zero rounds makes the verification panic, and one with trailing text is accepted.
\<close>

lemma zero_rounds_panic:
  "crypto_VerifyPassword hash_demo ''pw'' ''$argon2id$v=19$m=65536,t=0,p=2$c2FsdA$aGFzaA'' = None"
  "\<not> NeedsRehash hash_demo ''$argon2id$v=19x$m=65536,t=3,p=2,q=1$c2FsdA$aGFzaGhhc2hoYXNoaGFzaGhhc2hoYXNoaGFzaGhhc2g''"
  by code_simp+

end
