(* ===== verification/Spec2Isabelle.thy ===== *)
theory Spec2Isabelle
  imports Shoal Reconcile JobsApi OciHandler MaintenanceProps DispatcherProps ControllerProps RegistryConfig RedfishHttpProps
    IsoBuilder OciMetrics Credentials
begin

text \<open>
  Shoal has two programs. The provisioner turns recipes into installed servers: an HTTP
  controller queues jobs in a SQLite database, workers lease jobs and drive the servers' BMCs over
  Redfish, a dispatcher inside the maintenance OS carries out the recipe and reports back through a
  webhook, and an OCI registry holds the images. The aggregator (\<open>cmd/shoal\<close>) shows many BMCs as one
  Redfish service, with its own users, sessions and database. The two share no state and no code
  beyond the libraries below; the theories of the aggregator are the ones from Secrets to Shoal.

  \<^bold>\<open>Conventions.\<close> The sources are Go. A \<open>string\<close> or \<open>[]byte\<close> is HOL's \<open>string\<close> (a list of bytes), a
  struct is a \<open>record\<close>, an error is the \<open>Inl\<close> side of a sum or an \<open>option\<close>, a value of type \<open>int\<close> or
  \<open>int64\<close> is an \<open>int\<close> with \<open>wrap64\<close> written where it can overflow, a \<open>time.Duration\<close> and a clock
  reading are nanoseconds. State is passed explicitly or through the \<open>State_Monad\<close>. Everything the
  program gets from outside (SQLite's driver, the BMC, the network, the file system, clocks, random
  numbers, cryptographic functions, the order of map iteration) is an argument of the definitions,
  and the theorems hold for every behaviour of it unless a hypothesis says otherwise. Log lines and
  metrics are left out throughout.

  \<^bold>\<open>Libraries.\<close>
  \<^item> Prelude: bytes and strings of Go (\<open>TrimSpace\<close>, \<open>Split\<close>, \<open>EqualFold\<close>, \<open>Itoa\<close> and more), JSON values,
    times, the lemma collections.
  \<^item> GoLib: base64 (locale \<open>base64\<close>, interpreted for the three encodings in use), integer parsing,
    query strings, \<open>float64\<close> rounding, \<open>http.ResponseWriter\<close>.
  \<^item> Http: requests and responses as handlers see them. Paths: \<open>path.Clean\<close> and \<open>path.Join\<close>. Mux:
    \<open>http.ServeMux\<close>, for the routes of both programs.
  \<^item> Regex: a matcher for the regular expressions of the sources, with its correctness.
  \<^item> Disk: a Unix file system whose every system call may fail, with a calculus of safety triples.

  \<^bold>\<open>Job store\<close> (\<open>internal/provisioner/store/store.go\<close>, \<open>pkg/provisioner/models.go\<close>). Store has the tables
  as a record \<open>store\<close> and one definition per exported operation; its lemmas give the FIFO and the
  exclusiveness of \<open>AcquireQueuedJob\<close>, the lease guards, and, over the step relation of all
  operations, the invariant of reachable databases. StoreIface states what its clients rely on as
  locales (\<open>job_table\<close>, \<open>webhook_store\<close>, \<open>worker_store\<close>) and interprets them on the SQL store with
  driver errors.

  \<^bold>\<open>Webhook\<close> (\<open>api/webhook.go\<close>): the delivery cache and the handler, proved over \<open>webhook_store\<close>.

  \<^bold>\<open>Recipes\<close> (\<open>api/validation.go\<close>, \<open>schema/recipe.schema.json\<close>): Validation has every check, the JSON
  Schema as data with its conformance function, and how the two compare.

  \<^bold>\<open>Job API\<close> (\<open>api/http.go\<close>): JobsApi, both endpoints over the store and the validator.

  \<^bold>\<open>Worker\<close> (\<open>jobs/worker.go\<close>): Worker has \<open>processJob\<close>, its waits and \<open>Run\<close> in the state monad over a
  trace of BMC operations and status changes. Loops over waits take fuel;
  \<open>processJob_returns\<close> gives the amount that always suffices. The store is the locale
  \<open>worker_store\<close>. Reconcile has the recovery after a restart (\<open>main.go\<close>). IsoBuilder has the builder of
  task ISOs (\<open>iso/builder.go\<close>) on the failing disk: an artifact is replaced as a whole, binds its inputs,
  and is what the media server of the front door delivers.

  \<^bold>\<open>Redfish\<close> (\<open>redfish/client.go\<close>, \<open>redfish/http_client.go\<close>): Redfish has the vocabulary and the no-op
  client, RedfishHttp the HTTP client over an arbitrary BMC and network (sessions, retries,
  discovery, virtual media), RedfishHttpProps the number of requests, survival of transient
  failures, the effect of a mount and the choice of slots. The retry loop recurses over the number
  of attempts that are left, so it needs no fuel.

  \<^bold>\<open>Registry\<close> (\<open>oci/\<close>): OciStorage (blobs, manifests, tags, upload sessions), OciUpload, OciGC,
  OciHandler (handlers, router, authentication); \<open>WriteBlob\<close> refines put-if-absent on the map of
  blobs, and the step relation of the whole registry has the invariant that every blob has its
  digest. RegistryConfig has \<open>config/config.go\<close>, OciMetrics the counters (\<open>oci/metrics.go\<close>) and that their
  text shows exactly what was recorded.

  \<^bold>\<open>Maintenance OS\<close> (\<open>maintenance/\<close>, \<open>cmd/*-plan\<close>, \<open>dispatcher/\<close>): Maintenance has the planners with the
  text of their scripts and the line loop of the wrapper scripts, MaintenanceProps what a shell
  makes of the plans (locales \<open>wrapped_plan\<close> and \<open>scripted_plan\<close>, interpreted for all six planners).
  Dispatcher has \<open>Run\<close> with its exit codes on a failing disk; DispatcherProps its properties.

  \<^bold>\<open>Front door\<close> (\<open>api/auth.go\<close>, \<open>middleware/\<close>, \<open>api/media.go\<close>, \<open>cmd/provisioner-controller/main.go\<close>): Access
  and AccessProps (authentication, rate limiting, headers), Media (signed URLs), Controller and
  ControllerProps (configuration and routes, end to end).

  \<^bold>\<open>Aggregator: secrets, database, users\<close> (\<open>pkg/crypto/crypto.go\<close>, \<open>internal/database/database.go\<close>,
  \<open>pkg/models/models.go\<close>, \<open>internal/auth/auth.go\<close>, \<open>pkg/auth/\<close>). Secrets has the encryptor and what of a
  password reaches the disk. AggDb has the tables as the record \<open>agg_db\<close> with the constraints of the
  schema, and one definition per exported operation; a statement is a function on the tables run at
  a tick, which decides its driver error, the time and the random bytes. AggAuth has passwords,
  roles, sessions and the authentication of a request. Credentials has the Argon2id hashes of
  \<open>pkg/crypto/password.go\<close>, with the round trip from hashing over printing and parsing to verification.

  \<^bold>\<open>Aggregator: BMC service\<close> (\<open>internal/bmc/\<close>). BmcService has the proxy, the cache of discovered ids and
  connection methods; the network is a state that every sent request transforms, and what was sent
  is recorded. BmcOps has power control, virtual media, the boot override, the retries, the vendor
  quirks and the repair after a restart; Settings the discovery of settings, their enrichment from
  registries, their tables and their update; BmcStatus the status pages. BmcOpsProps and
  SettingsProps prove how often a reset is sent, that every request of every operation goes to the
  stored address with the stored credential (a calculus of the requests a run sends), and that a
  discovered setting is read back. The retry loop recurses over the attempts left; the loops over
  members and slots over the lists the BMC answered, so nothing takes fuel.

  \<^bold>\<open>Aggregator: API\<close> (\<open>internal/api/\<close>). AggApi has every route and handler of the Redfish API, and the
  creation of the first administrator (\<open>cmd/shoal/main.go\<close>). AggFrame proves once, in the locales
  \<open>db_frame\<close> and \<open>account_frame\<close>, that the handlers keep every relation on databases that the single
  statements keep. AggProps interprets them for the invariant of the schema and for the table of
  users, and has the life of a session, what the proxy sends and what roles do not guard.

  \<^bold>\<open>Aggregator: web interface and program\<close> (\<open>internal/web/\<close>, \<open>cmd/shoal/main.go\<close>). Web has every route and
  handler of the web interface; a page is its template name with the data it is rendered from.
  WebFrame extends the locales of AggFrame to it (\<open>web_frame\<close>, \<open>web_account_frame\<close>); WebProps has what a
  request without a credential gets, and the guards of settings updates. Shoal puts API and web
  interface on one database, as the program does, and proves over any sequence of starts and
  requests the invariant of the schema, who can change users, and how the last administrator is lost.

  \<^bold>\<open>Not modelled.\<close> \<open>Open\<close> and the migration driver of the stores, flag parsing and process set-up of the programs, tickers and goroutines that
  only decide when a modelled step happens, logging and metrics, the HTML and JavaScript of the web
  pages, and the build tool. The redaction of \<open>pkg/crypto/redact.go\<close> has no caller.
\<close>

section \<open>Validator and worker\<close>

lemma no_ks_cfg: "k \<in> set known_keys \<Longrightarrow> \<not> equal_fold k ''ks_cfg''"
proof -
  have "list_all (\<lambda>k. \<not> equal_fold k ''ks_cfg'') known_keys" by code_simp
  then show "k \<in> set known_keys \<Longrightarrow> \<not> equal_fold k ''ks_cfg''" by (simp add: list_all_iff)
qed

lemma accepted_no_kickstart:
  assumes "ranges_all rng" "ValidateRecipe rng raw = Inr []"
  shows "kickstartFromRecipe raw = []"
proof (rule accepted_object [OF assms(2)])
  fix obj
  assume raw: "raw = RawJson (JObj obj)" and u: "check_unknown rng obj = []"
  have "set (obj_keys obj) \<subseteq> set known_keys" using u unfolding check_unknown_Nil [OF assms(1)] .
  then have "decode_string_field ''ks_cfg'' [] obj = Some []"
    by (intro decode_string_field_absent no_ks_cfg) (auto simp: set_obj_keys)
  then show ?thesis by (simp add: raw kickstartFromRecipe_def unmarshal_string_field_def)
qed

definition esxi_recipe :: json where
  "esxi_recipe = JObj [(''task_target'', JStr ''install-esxi.target''), (''target_disk'', JStr ''/dev/sda''), (''ks.cfg'', JStr ''vmaccepteula'')]"

lemma esxi_recipe_accepted: "ValidateRecipe id (RawJson esxi_recipe) = Inr []"
  by code_simp

definition esxi_job :: job where
  "esxi_job = (demo_job ''a'' JobStatusProvisioning 5)\<lparr>Recipe := RawJson esxi_recipe\<rparr>"

text \<open>
  C16. The validator and the worker disagree on ESXi recipes: the validator only admits the key
  \<open>ks.cfg\<close>, the worker reads \<open>ks_cfg\<close>. So every job whose recipe was accepted and whose target is
  \<open>install-esxi.target\<close> is failed by the worker at \<open>validate-recipe\<close>, before anything else is tried,
  whatever kickstart the recipe carries and whatever the surroundings do.
\<close>

theorem accepted_esxi_job_fails:
  assumes "ranges_all rng" "ValidateRecipe rng (Recipe j) = Inr []" "is_esxi j"
    and "run_state (processJob fuel E cfg j) w = (r, w')"
  shows "r = Some (Inl ''validate recipe: ks_cfg missing for esxi job'') \<and>
    (\<exists>q. w_trace w' = w_trace w @ [Mark (ID j) JobStatusFailed (Some ''validate-recipe'') q])"
proof -
  have "emits (processJob fuel E cfg j) (\<lambda>r t. r = Some (Inl ''validate recipe: ks_cfg missing for esxi job'') \<and>
      (\<exists>q. t = [Mark (ID j) JobStatusFailed (Some ''validate-recipe'') q]))"
    using assms(3) accepted_no_kickstart [OF assms(1,2)]
    unfolding processJob_def is_esxi_def
    by (simp add: emits_quiet_bind [OF quiet_now] emits_quiet_bind [OF quiet_event] emits_fail_at)
  from run_trace [OF this assms(4)] show ?thesis by metis
qed

theorem accepted_esxi_job_fails_witness:
  "\<exists>w'. run_state (processJob 0 demo_env demo_cfg esxi_job) demo_world =
     (Some (Inl ''validate recipe: ks_cfg missing for esxi job''), w')"
proof -
  have "is_esxi esxi_job" by code_simp
  then show ?thesis
    using accepted_esxi_job_fails [OF ranges_all_id, of esxi_job 0 demo_env demo_cfg demo_world] esxi_recipe_accepted
    by (cases "run_state (processJob 0 demo_env demo_cfg esxi_job) demo_world") (auto simp: esxi_job_def)
qed

end
